(* ===== verification/Prelude.thy ===== *)
theory Prelude
  imports Main "HOL-Library.List_Lexorder" "HOL-Library.Char_ord"
begin

text \<open>
  Shared vocabulary of the development.

  Python exceptions are values: \<open>Exn c m\<close> is an exception of class \<open>c\<close> with message
  \<open>m\<close>, and a computation that may raise returns \<open>exn + 'a\<close> (\<open>Inl\<close> the exception).
  A validator of the source is a list of checks, run in source order by \<open>checks\<close>, which stops
  at the first one that raises.

  A Python \<open>str\<close> is a \<open>string\<close>, one \<open>char\<close> per code point: the model covers text over the
  code points U+0000 to U+00FF. A Python \<open>bytes\<close> object is a \<open>string\<close> too, one \<open>char\<close>
  per byte. Record fields are typed, so the \<open>isinstance\<close> and \<open>type(x) is not T\<close> guards of
  the source, which only reject values of another Python type, have no branch here.
\<close>

named_theorems validate_defs \<open>definitions of the validators and the helpers they call\<close>
named_theorems op_defs \<open>definitions of the operations of a component\<close>

section \<open>Exceptions and results\<close>

datatype exn_class =
    PyValueError | PyKeyError | PyTypeError | PyOverflowError | PyRecursionError | SqliteIntegrityError
  | EnterpriseModelError | AuthorityGrantError | AuthorityVerificationError
  | AuthorityRevocationError | AuthoritySourceError | MergeAdmissionError
  | FleetEffectBudgetContractError | FleetEffectBudgetError
  | FleetCoordinationContractError | FleetCoordinationStateError
  | RepositoryMaintenanceContractError | PersistentAuthorityStateError
  | ProcessIRContractError | ProcessActionContractError | ProcessSemanticError | ProcessOutcomeEvidenceError
  | RuntimeEnforcementContractError | RuntimeCurrentnessContractError | RuntimeExecutionContractError
  | RuntimeReconciliationContractError | ExecutionSandboxContractError | RuntimeExecutionError | RuntimeReconciliationError
  | ActionIRContractError | ActionProposalContextBindingError | ActionProposalProjectionError
  | LiveAuthorityAdmissionError | PolicyGateContractError | PolicyGateError | ExecutorProvisioningContractError
  | ActionRuntimeBindingError | RuntimeEnforcementError | RuntimeCurrentnessError | SandboxEnforcementError | ExecutorProvisioningError
  | OtherException

datatype exn = Exn (exn_class: exn_class) (message: string)

text \<open>
  The class hierarchy of the source, as far as its handlers look at it: the subclasses of
  \<open>ValueError\<close> and those of \<open>AuthorityGrantError\<close>. \<open>OtherException\<close> stands for every class the
  modelled modules neither define nor name, as a backend or a callable may raise.
\<close>

fun is_value_error :: "exn_class \<Rightarrow> bool" where
  "is_value_error PyValueError = True"
| "is_value_error EnterpriseModelError = True"
| "is_value_error AuthorityGrantError = True"
| "is_value_error AuthorityVerificationError = True"
| "is_value_error AuthorityRevocationError = True"
| "is_value_error AuthoritySourceError = True"
| "is_value_error MergeAdmissionError = True"
| "is_value_error FleetEffectBudgetContractError = True"
| "is_value_error FleetCoordinationContractError = True"
| "is_value_error RepositoryMaintenanceContractError = True"
| "is_value_error ProcessIRContractError = True"
| "is_value_error ProcessActionContractError = True"
| "is_value_error ProcessOutcomeEvidenceError = True"
| "is_value_error RuntimeEnforcementContractError = True"
| "is_value_error RuntimeCurrentnessContractError = True"
| "is_value_error RuntimeExecutionContractError = True"
| "is_value_error RuntimeReconciliationContractError = True"
| "is_value_error ExecutionSandboxContractError = True"
| "is_value_error ActionIRContractError = True"
| "is_value_error ActionProposalContextBindingError = True"
| "is_value_error ActionProposalProjectionError = True"
| "is_value_error PolicyGateContractError = True"
| "is_value_error ExecutorProvisioningContractError = True"
| "is_value_error ActionRuntimeBindingError = True"
| "is_value_error SandboxEnforcementError = True"
| "is_value_error ExecutorProvisioningError = True"
| "is_value_error _ = False"

fun is_grant_error :: "exn_class \<Rightarrow> bool" where
  "is_grant_error AuthorityGrantError = True"
| "is_grant_error AuthorityVerificationError = True"
| "is_grant_error AuthorityRevocationError = True"
| "is_grant_error _ = False"

lemma grant_error_is_value_error: "is_grant_error c \<Longrightarrow> is_value_error c"
  by (cases c) auto

type_synonym 'a res = "exn + 'a"

text \<open>
  The SQLite driver refuses to bind a Python integer outside the signed 64-bit range of an \<open>INTEGER\<close> column.
\<close>

definition sqlite_int :: "int \<Rightarrow> bool" where
  "sqlite_int n = (- (2 ^ 63) \<le> n \<and> n < 2 ^ 63)"

abbreviation sqlite_overflow :: exn where
  "sqlite_overflow \<equiv> Exn PyOverflowError ''Python int too large to convert to SQLite INTEGER''"

text \<open>An operation on a store: the result (possibly an exception) and the store afterwards.\<close>

type_synonym ('s, 'a) op = "'s \<Rightarrow> 'a res \<times> 's"

definition raise_when :: "bool \<Rightarrow> exn_class \<Rightarrow> string \<Rightarrow> unit res" where
  "raise_when b c m = (if b then Inl (Exn c m) else Inr ())"

fun checks :: "unit res list \<Rightarrow> unit res" where
  "checks [] = Inr ()"
| "checks (Inl e # cs) = Inl e"
| "checks (Inr _ # cs) = checks cs"

definition and_then :: "'a res \<Rightarrow> ('a \<Rightarrow> 'b res) \<Rightarrow> 'b res" where
  "and_then m f = (case m of Inl e \<Rightarrow> Inl e | Inr x \<Rightarrow> f x)"

fun map_res :: "('a \<Rightarrow> 'b res) \<Rightarrow> 'a list \<Rightarrow> 'b list res" where
  "map_res f [] = Inr []"
| "map_res f (x # xs) = and_then (f x) (\<lambda>y. and_then (map_res f xs) (\<lambda>ys. Inr (y # ys)))"

text \<open>\<open>wrap_errors p e m\<close>: a handler that replaces the exceptions of class \<open>p\<close> by \<open>e\<close>.\<close>

definition wrap_errors :: "(exn_class \<Rightarrow> bool) \<Rightarrow> exn \<Rightarrow> 'a res \<Rightarrow> 'a res" where
  "wrap_errors p e m = (case m of Inl x \<Rightarrow> (if p (exn_class x) then Inl e else Inl x) | Inr y \<Rightarrow> Inr y)"

lemma raise_when_ok [simp]: "raise_when b c m = Inr u \<longleftrightarrow> \<not> b"
  by (simp add: raise_when_def)

lemma raise_when_err [simp]: "raise_when b c m = Inl e \<longleftrightarrow> b \<and> e = Exn c m"
  by (auto simp: raise_when_def)

lemma raise_when_True [simp]: "raise_when True c m = Inl (Exn c m)"
  by (simp add: raise_when_def)

lemma raise_when_False [simp]: "raise_when False c m = Inr ()"
  by (simp add: raise_when_def)

lemma checks_ok: "checks cs = Inr u \<longleftrightarrow> (\<forall>c\<in>set cs. c = Inr ())"
  by (induction cs rule: checks.induct) auto

lemma checks_Cons_ok [simp]: "checks (c # cs) = Inr u \<longleftrightarrow> c = Inr () \<and> checks cs = Inr ()"
  by (cases c) auto

lemma checks_Cons_err [simp]:
  "checks (c # cs) = Inl e \<longleftrightarrow> c = Inl e \<or> (c = Inr () \<and> checks cs = Inl e)"
  by (cases c) auto

lemma checks_append_ok [simp]:
  "checks (cs @ ds) = Inr u \<longleftrightarrow> checks cs = Inr () \<and> checks ds = Inr ()"
  by (simp add: checks_ok ball_Un)

lemma checks_map_ok: "checks (map f xs) = Inr u \<longleftrightarrow> (\<forall>x\<in>set xs. f x = Inr ())"
  by (simp add: checks_ok)

lemma checks_err_mem: "checks cs = Inl e \<Longrightarrow> Inl e \<in> set cs"
  by (induction cs rule: checks.induct) auto

lemma checks_not_ok_iff: "(\<exists>e. checks cs = Inl e) \<longleftrightarrow> (\<exists>c\<in>set cs. c \<noteq> Inr ())"
  by (induction cs rule: checks.induct) auto

lemma and_then_simps [simp]:
  "and_then (Inl e) f = Inl e"
  "and_then (Inr x) f = f x"
  by (simp_all add: and_then_def)

lemma and_then_ok: "and_then m f = Inr y \<longleftrightarrow> (\<exists>x. m = Inr x \<and> f x = Inr y)"
  by (cases m) auto

lemma and_then_err: "and_then m f = Inl e \<longleftrightarrow> m = Inl e \<or> (\<exists>x. m = Inr x \<and> f x = Inl e)"
  by (cases m) auto

lemma and_then_unit_ok [simp]: "and_then (m :: unit res) f = Inr y \<longleftrightarrow> m = Inr () \<and> f () = Inr y"
  by (cases m) auto

lemma map_res_ok_iff: "map_res f xs = Inr ys \<longleftrightarrow> map f xs = map Inr ys"
  by (induction xs arbitrary: ys) (auto simp: and_then_ok map_eq_Cons_conv)

lemma map_res_length: "map_res f xs = Inr ys \<Longrightarrow> length ys = length xs"
  by (auto simp: map_res_ok_iff dest: map_eq_imp_length_eq)

lemma map_res_nth: "map_res f xs = Inr ys \<Longrightarrow> i < length xs \<Longrightarrow> f (xs ! i) = Inr (ys ! i)"
  by (metis map_res_length map_res_ok_iff nth_map)

lemma map_res_total: "(\<And>x. x \<in> set xs \<Longrightarrow> \<exists>y. f x = Inr y) \<Longrightarrow> \<exists>ys. map_res f xs = Inr ys"
proof (induction xs)
  case (Cons x xs)
  then obtain y ys where "f x = Inr y" "map_res f xs = Inr ys" by (meson list.set_intros)
  then show ?case by simp
qed simp

lemma wrap_errors_ok [simp]: "wrap_errors p e m = Inr y \<longleftrightarrow> m = Inr y"
  by (cases m) (auto simp: wrap_errors_def)

lemma wrap_errors_Inr [simp]: "wrap_errors p e (Inr y) = Inr y"
  by (simp add: wrap_errors_def)

lemmas res_simps = and_then_ok and_then_err

section \<open>Text\<close>

text \<open>
  \<open>str.strip()\<close> removes the Unicode white space; below U+0100 that is TAB to CR, FS to US, the
  space, NEL and the no-break space. \<open>not value.strip()\<close> holds of blank text.
\<close>

definition py_space :: "char \<Rightarrow> bool" where
  "py_space c = (let n = (of_char c :: nat) in
     9 \<le> n \<and> n \<le> 13 \<or> 28 \<le> n \<and> n \<le> 32 \<or> n = 133 \<or> n = 160)"

definition blank :: "string \<Rightarrow> bool" where
  "blank s = list_all py_space s"

definition nul :: char where
  "nul = CHR 0x00"

text \<open>The test shared by the \<open>_text\<close> and \<open>_bounded_text\<close> helpers of the source modules.\<close>

definition text_invalid :: "nat \<Rightarrow> string \<Rightarrow> bool" where
  "text_invalid limit s = (blank s \<or> limit < length s \<or> nul \<in> set s)"

definition hex_char :: "char \<Rightarrow> bool" where
  "hex_char c = (c \<in> set ''0123456789abcdef'')"

text \<open>\<open>^[0-9a-f]{n}$\<close> under \<open>fullmatch\<close>.\<close>

definition is_hex :: "nat \<Rightarrow> string \<Rightarrow> bool" where
  "is_hex n s = (length s = n \<and> list_all hex_char s)"

lemma blank_Nil [simp]: "blank []"
  by (simp add: blank_def)

lemma blank_Cons [simp]: "blank (c # s) \<longleftrightarrow> py_space c \<and> blank s"
  by (simp add: blank_def)

lemma blank_append [simp]: "blank (s @ t) \<longleftrightarrow> blank s \<and> blank t"
  by (simp add: blank_def)

lemma hex_char_not_space: "hex_char c \<Longrightarrow> \<not> py_space c"
  by (auto simp: hex_char_def py_space_def)

lemma hex_char_not_nul: "hex_char c \<Longrightarrow> c \<noteq> nul"
  by (auto simp: hex_char_def nul_def)

lemma is_hex_text: "is_hex n s \<Longrightarrow> 0 < n \<Longrightarrow> n \<le> l \<Longrightarrow> \<not> text_invalid l s"
  by (cases s) (auto simp: is_hex_def text_invalid_def list_all_iff hex_char_not_space
      dest: hex_char_not_nul)

fun starts_with :: "string \<Rightarrow> string \<Rightarrow> bool" where
  "starts_with [] s = True"
| "starts_with (p # ps) [] = False"
| "starts_with (p # ps) (c # s) = (p = c \<and> starts_with ps s)"

definition ends_with :: "string \<Rightarrow> string \<Rightarrow> bool" where
  "ends_with p s = starts_with (rev p) (rev s)"

text \<open>\<open>p in s\<close> for strings.\<close>

fun contains :: "string \<Rightarrow> string \<Rightarrow> bool" where
  "contains p [] = (p = [])"
| "contains p (c # s) = (starts_with p (c # s) \<or> contains p s)"

lemma starts_with_iff: "starts_with p s \<longleftrightarrow> (\<exists>t. s = p @ t)"
  by (induction p s rule: starts_with.induct) auto

text \<open>Decimal text of an integer, as \<open>str\<close> and \<open>json.dumps\<close> print it.\<close>

definition digit_char :: "nat \<Rightarrow> char" where
  "digit_char d = char_of (48 + d)"

fun nat_text :: "nat \<Rightarrow> string" where
  "nat_text n = (if n < 10 then [digit_char n] else nat_text (n div 10) @ [digit_char (n mod 10)])"

declare nat_text.simps [simp del]

definition int_text :: "int \<Rightarrow> string" where
  "int_text i = (if i < 0 then ''-'' @ nat_text (nat (- i)) else nat_text (nat i))"

text \<open>\<open>n\<close> in decimal, padded with zeros to width \<open>w\<close> (the last \<open>w\<close> digits).\<close>

fun pad_text :: "nat \<Rightarrow> nat \<Rightarrow> string" where
  "pad_text 0 n = []"
| "pad_text (Suc w) n = pad_text w (n div 10) @ [digit_char (n mod 10)]"

lemma length_pad_text [simp]: "length (pad_text w n) = w"
  by (induction w arbitrary: n) auto

text \<open>\<open>str.join\<close>.\<close>

fun join :: "string \<Rightarrow> string list \<Rightarrow> string" where
  "join sep [] = []"
| "join sep [x] = x"
| "join sep (x # y # zs) = x @ sep @ join sep (y # zs)"

text \<open>UTF-8 encoding of text over U+0000 to U+00FF.\<close>

definition utf8_char :: "char \<Rightarrow> string" where
  "utf8_char c = (let n = (of_char c :: nat) in
     if n < 128 then [c] else [char_of (192 + n div 64), char_of (128 + n mod 64)])"

definition utf8 :: "string \<Rightarrow> string" where
  "utf8 s = concat (map utf8_char s)"

section \<open>Lists\<close>

definition no_dup :: "'a list \<Rightarrow> bool" where
  "no_dup xs = (length (remdups xs) = length xs)"

text \<open>\<open>len(set(xs)) == len(xs)\<close> holds exactly of lists with distinct entries.\<close>

lemma no_dup_iff [simp]: "no_dup xs \<longleftrightarrow> distinct xs"
  by (simp add: no_dup_def length_remdups_card_conv card_distinct distinct_card order_antisym_conv)
     (metis card_distinct distinct_card)

definition count_if :: "('a \<Rightarrow> bool) \<Rightarrow> 'a list \<Rightarrow> nat" where
  "count_if p xs = length (filter p xs)"

lemma count_if_Nil [simp]: "count_if p [] = 0"
  by (simp add: count_if_def)

lemma count_if_Cons [simp]: "count_if p (x # xs) = (if p x then 1 else 0) + count_if p xs"
  by (simp add: count_if_def)

lemma count_if_append [simp]: "count_if p (xs @ ys) = count_if p xs + count_if p ys"
  by (simp add: count_if_def)

lemma count_if_mono: "(\<And>x. x \<in> set xs \<Longrightarrow> p x \<Longrightarrow> q x) \<Longrightarrow> count_if p xs \<le> count_if q xs"
  by (induction xs) auto

lemma count_if_map_mono:
  "(\<And>x. x \<in> set xs \<Longrightarrow> p (f x) \<Longrightarrow> q x) \<Longrightarrow> count_if p (map f xs) \<le> count_if q xs"
  by (induction xs) auto

lemma count_if_cong: "(\<And>x. x \<in> set xs \<Longrightarrow> p x = q x) \<Longrightarrow> count_if p xs = count_if q xs"
  by (induction xs) auto

lemma split_at: "s @ c # x = t @ c # y \<Longrightarrow> c \<notin> set s \<Longrightarrow> c \<notin> set t \<Longrightarrow> s = t \<and> x = y"
  by (induction s arbitrary: t) (auto simp: Cons_eq_append_conv append_eq_Cons_conv)

lemma find_app: "find P (xs @ ys) = (case find P xs of None \<Rightarrow> find P ys | Some x \<Rightarrow> Some x)"
  by (induction xs) auto

lemma filter_singletonD: "filter P xs = [x] \<Longrightarrow> x \<in> set xs \<and> P x \<and> (\<forall>y\<in>set xs. P y \<longrightarrow> y = x)"
  by (induction xs) (auto split: if_splits simp: filter_empty_conv)

text \<open>\<open>PurePosixPath(raw).parts\<close> of a relative path: empty and \<open>.\<close> components are dropped.\<close>

fun split_slash :: "string \<Rightarrow> string \<Rightarrow> string list" where
  "split_slash acc [] = [rev acc]"
| "split_slash acc (c # s) = (if c = CHR ''/'' then rev acc # split_slash [] s else split_slash (c # acc) s)"

definition path_parts :: "string \<Rightarrow> string list" where
  "path_parts raw = filter (\<lambda>p. p \<noteq> [] \<and> p \<noteq> ''.'') (split_slash [] raw)"

section \<open>One-shot registries\<close>

text \<open>Operations run one after the other, the results collected.\<close>

fun run_ops :: "('s, 'r) op list \<Rightarrow> 's \<Rightarrow> 'r res list \<times> 's" where
  "run_ops [] s = ([], s)"
| "run_ops (f # fs) s = (let (r, s') = f s; (rs, s'') = run_ops fs s' in (r # rs, s''))"

text \<open>
  The contract of a registry whose entries are written once: a request \<open>q\<close> whose result is
  \<open>granted\<close> finds its key free and installs its entry, every other request changes nothing. The
  registries of the source that guard a canonical fact (epoch owners, root anchors, consumed
  grants) and the consuming merge admission are instances.
\<close>

locale one_shot_registry =
  fixes register :: "'q \<Rightarrow> ('s, 'r) op"
    and granted :: "'r res \<Rightarrow> bool"
    and key :: "'q \<Rightarrow> 'k"
    and entry :: "'q \<Rightarrow> 'v"
    and lookup :: "'s \<Rightarrow> 'k \<Rightarrow> 'v option"
  assumes installs: "register q s = (r, s') \<Longrightarrow> granted r \<Longrightarrow>
      lookup s (key q) = None \<and> lookup s' = (lookup s)(key q \<mapsto> entry q)"
    and refuses: "register q s = (r, s') \<Longrightarrow> \<not> granted r \<Longrightarrow> s' = s"
begin

lemma taken_refused: "lookup s (key q) \<noteq> None \<Longrightarrow> \<not> granted (fst (register q s))"
  using installs [of q s] by (cases "register q s") auto

lemma register_keeps: "lookup s k = Some v \<Longrightarrow> lookup (snd (register q s)) k = Some v"
  using installs [of q s] refuses [of q s]
  by (cases "register q s"; cases "granted (fst (register q s))") auto

lemma run_keeps: "lookup s k = Some v \<Longrightarrow> lookup (snd (run_ops (map register qs) s)) k = Some v"
proof (induction qs arbitrary: s)
  case (Cons q qs)
  from Cons.IH [OF register_keeps [OF Cons.prems]] show ?case
    by (simp add: case_prod_beta Let_def)
qed simp

lemma registered_present: "register q s = (r, s') \<Longrightarrow> granted r \<Longrightarrow> lookup s' (key q) = Some (entry q)"
  using installs by simp

lemma run_taken_refused:
  "lookup s (key (qs ! j)) \<noteq> None \<Longrightarrow> j < length qs \<Longrightarrow> \<not> granted (fst (run_ops (map register qs) s) ! j)"
proof (induction qs arbitrary: s j)
  case (Cons q qs)
  show ?case
  proof (cases j)
    case 0
    then show ?thesis using Cons.prems by (simp add: case_prod_beta Let_def taken_refused)
  next
    case (Suc i)
    with Cons.prems register_keeps [of s "key (qs ! i)" _ q]
    have "lookup (snd (register q s)) (key (qs ! i)) \<noteq> None" by auto
    with Cons.IH [OF this] Cons.prems Suc show ?thesis by (simp add: case_prod_beta Let_def)
  qed
qed simp

lemma at_most_once:
  assumes "i < j" "j < length qs" "key (qs ! i) = key (qs ! j)"
  shows "\<not> (granted (fst (run_ops (map register qs) s) ! i) \<and> granted (fst (run_ops (map register qs) s) ! j))"
  using assms
proof (induction qs arbitrary: s i j)
  case (Cons q qs)
  from Cons.prems obtain j' where j: "j = Suc j'" "j' < length qs" by (cases j) auto
  obtain r s' where step: "register q s = (r, s')" by (cases "register q s")
  show ?case
  proof (cases i)
    case 0
    show ?thesis
    proof (cases "granted r")
      case True
      then have "lookup s' (key (qs ! j')) \<noteq> None"
        using registered_present [OF step] Cons.prems 0 j by simp
      with run_taken_refused [OF this] step j show ?thesis by (simp add: case_prod_beta Let_def)
    qed (use 0 step in \<open>simp add: case_prod_beta Let_def\<close>)
  next
    case (Suc i')
    with Cons.IH [of i' j' s'] Cons.prems j step show ?thesis
      by (simp add: case_prod_beta Let_def)
  qed
qed simp

end

end
