(* ===== verification/Py_Hash.thy ===== *)
theory Py_Hash
  imports Prelude "HOL-Library.Word"
begin

text \<open>
  \<open>hashlib.sha256(b).hexdigest()\<close>, the one hash function the modelled modules use, written out
  as FIPS 180-4 defines it: bytes are characters, words are 32 bits wide, addition wraps.
  The development needs its shape (64 lowercase hexadecimal digits, lemma \<open>is_hex_sha256\<close>) and
  that it is a function. No theorem assumes it injective: a statement that depends on collision
  resistance names the two byte strings that would collide in its conclusion, as
  \<open>collides x y\<close>.
\<close>

unbundle bit_operations_syntax

type_synonym u32 = "32 word"

definition sha_k :: "u32 list" where
  "sha_k = [
   1116352408, 1899447441, 3049323471, 3921009573, 961987163, 1508970993, 2453635748, 2870763221,
   3624381080, 310598401, 607225278, 1426881987, 1925078388, 2162078206, 2614888103, 3248222580,
   3835390401, 4022224774, 264347078, 604807628, 770255983, 1249150122, 1555081692, 1996064986,
   2554220882, 2821834349, 2952996808, 3210313671, 3336571891, 3584528711, 113926993, 338241895,
   666307205, 773529912, 1294757372, 1396182291, 1695183700, 1986661051, 2177026350, 2456956037,
   2730485921, 2820302411, 3259730800, 3345764771, 3516065817, 3600352804, 4094571909, 275423344,
   430227734, 506948616, 659060556, 883997877, 958139571, 1322822218, 1537002063, 1747873779,
   1955562222, 2024104815, 2227730452, 2361852424, 2428436474, 2756734187, 3204031479, 3329325298]"

definition sha_h0 :: "u32 list" where
  "sha_h0 = [1779033703, 3144134277, 1013904242, 2773480762, 1359893119, 2600822924, 528734635, 1541459225]"

definition sha_sigma0 :: "u32 \<Rightarrow> u32" where
  "sha_sigma0 x = word_rotr 7 x XOR word_rotr 18 x XOR drop_bit 3 x"

definition sha_sigma1 :: "u32 \<Rightarrow> u32" where
  "sha_sigma1 x = word_rotr 17 x XOR word_rotr 19 x XOR drop_bit 10 x"

definition sha_Sigma0 :: "u32 \<Rightarrow> u32" where
  "sha_Sigma0 x = word_rotr 2 x XOR word_rotr 13 x XOR word_rotr 22 x"

definition sha_Sigma1 :: "u32 \<Rightarrow> u32" where
  "sha_Sigma1 x = word_rotr 6 x XOR word_rotr 11 x XOR word_rotr 25 x"

text \<open>The message schedule, kept newest word first.\<close>

fun sha_expand :: "nat \<Rightarrow> u32 list \<Rightarrow> u32 list" where
  "sha_expand 0 ws = rev ws"
| "sha_expand (Suc n) ws =
     sha_expand n ((sha_sigma1 (ws ! 1) + ws ! 6 + sha_sigma0 (ws ! 14) + ws ! 15) # ws)"

fun sha_round :: "u32 \<times> u32 \<Rightarrow> u32 list \<Rightarrow> u32 list" where
  "sha_round (k, w) [a, b, c, d, e, f, g, h] =
     (let t1 = h + sha_Sigma1 e + ((e AND f) XOR (NOT e AND g)) + k + w;
          t2 = sha_Sigma0 a + ((a AND b) XOR (a AND c) XOR (b AND c))
      in [t1 + t2, a, b, c, d + t1, e, f, g])"
| "sha_round _ st = st"

definition sha_word :: "string \<Rightarrow> u32" where
  "sha_word bs = word_of_int (foldl (\<lambda>n b. n * 256 + of_char b) 0 bs)"

fun sha_words :: "nat \<Rightarrow> string \<Rightarrow> u32 list" where
  "sha_words 0 bs = []"
| "sha_words (Suc n) bs = sha_word (take 4 bs) # sha_words n (drop 4 bs)"

definition sha_block :: "u32 list \<Rightarrow> string \<Rightarrow> u32 list" where
  "sha_block st b =
     map2 (+) st (fold sha_round (zip sha_k (sha_expand 48 (rev (sha_words 16 b)))) st)"

fun sha_blocks :: "nat \<Rightarrow> u32 list \<Rightarrow> string \<Rightarrow> u32 list" where
  "sha_blocks 0 st bs = st"
| "sha_blocks (Suc n) st bs = sha_blocks n (sha_block st (take 64 bs)) (drop 64 bs)"

text \<open>Big-endian bytes of a length.\<close>

fun sha_be :: "nat \<Rightarrow> nat \<Rightarrow> string" where
  "sha_be 0 n = []"
| "sha_be (Suc k) n = sha_be k (n div 256) @ [char_of (n mod 256)]"

definition sha_pad :: "string \<Rightarrow> string" where
  "sha_pad m = m @ [CHR 0x80] @ replicate ((119 - length m mod 64) mod 64) nul @ sha_be 8 (8 * length m)"

definition hex_digit :: "int \<Rightarrow> char" where
  "hex_digit n = ''0123456789abcdef'' ! nat (n mod 16)"

fun hex_text :: "nat \<Rightarrow> int \<Rightarrow> string" where
  "hex_text 0 n = []"
| "hex_text (Suc k) n = hex_text k (n div 16) @ [hex_digit n]"

definition sha256 :: "string \<Rightarrow> string" where
  "sha256 m = (let p = sha_pad m in
     concat (map (\<lambda>w. hex_text 8 (uint w)) (sha_blocks (length p div 64) sha_h0 p)))"

definition collides :: "string \<Rightarrow> string \<Rightarrow> bool" where
  "collides x y = (x \<noteq> y \<and> sha256 x = sha256 y)"

lemma hex_digit_hex: "hex_char (hex_digit n)"
proof -
  have "nat (n mod 16) < length ''0123456789abcdef''" by (simp add: nat_less_iff)
  then show ?thesis unfolding hex_char_def hex_digit_def by (rule nth_mem)
qed

lemma hex_text_hex: "is_hex k (hex_text k n)"
  by (induction k arbitrary: n) (auto simp: is_hex_def hex_digit_hex)

lemma length_sha_round: "length (sha_round kw st) = length st"
  by (cases "(kw, st)" rule: sha_round.cases) (auto simp: Let_def)

lemma length_fold_sha_round: "length (fold sha_round kws st) = length st"
  by (induction kws arbitrary: st) (auto simp: length_sha_round)

lemma length_sha_blocks: "length (sha_blocks n st bs) = length st"
  by (induction n arbitrary: st bs) (auto simp: sha_block_def length_fold_sha_round)

lemma is_hex_concat: "(\<And>x. x \<in> set xs \<Longrightarrow> is_hex k (f x)) \<Longrightarrow> is_hex (k * length xs) (concat (map f xs))"
  by (induction xs) (auto simp: is_hex_def)

lemma is_hex_sha256 [simp]: "is_hex 64 (sha256 m)"
proof -
  have "is_hex (8 * length ws) (concat (map (\<lambda>w. hex_text 8 (uint (w :: u32))) ws))" for ws
    by (rule is_hex_concat) (rule hex_text_hex)
  from this [of "sha_blocks (length (sha_pad m) div 64) sha_h0 (sha_pad m)"] show ?thesis
    by (simp add: sha256_def Let_def length_sha_blocks sha_h0_def)
qed

lemma sha256_eqD: "sha256 x = sha256 y \<Longrightarrow> x = y \<or> collides x y"
  by (simp add: collides_def)

lemma sha256_nonblank [simp]: "\<not> text_invalid l (sha256 m)" if "64 \<le> l"
  using is_hex_sha256 [of m] that by (rule_tac is_hex_text) auto

text \<open>The one-block test vector of FIPS 180-4, evaluated by the kernel.\<close>

lemma sha256_abc: "sha256 ''abc'' = ''ba7816bf8f01cfea414140de5dae2223b00361a396177a9cb410ff61f20015ad''"
  by code_simp

end
