(* ===== verification/Py_Json.thy ===== *)
theory Py_Json
  imports Py_Hash
begin

text \<open>
  The canonical JSON of the source: \<open>json.dumps(value, sort_keys=True, separators=(",", ":"))\<close>,
  with \<open>ensure_ascii\<close> on (the default) or off. Dictionaries are association lists in insertion
  order; a dictionary has distinct keys. The values the modules serialise have no floats.
\<close>

datatype json =
    JNull
  | JBool bool
  | JInt int
  | JStr string
  | JList "json list"
  | JObj "(string \<times> json) list"

text \<open>
  Characters inside a JSON string. Control characters have their short escapes or the
  \<open>u00XX\<close> escape; with \<open>ensure_ascii\<close> so has everything from DEL (U+007F) on.
\<close>

definition json_escape :: "bool \<Rightarrow> char \<Rightarrow> string" where
  "json_escape ascii c = (let n = (of_char c :: nat) in
     if c = CHR 0x22 then [CHR 0x5C, CHR 0x22]
     else if c = CHR 0x5C then [CHR 0x5C, CHR 0x5C]
     else if n = 10 then CHR 0x5C # ''n''
     else if n = 13 then CHR 0x5C # ''r''
     else if n = 9 then CHR 0x5C # ''t''
     else if n = 12 then CHR 0x5C # ''f''
     else if n = 8 then CHR 0x5C # ''b''
     else if n < 32 \<or> (ascii \<and> 126 < n) then CHR 0x5C # ''u00'' @ hex_text 2 (int n)
     else [c])"

definition json_string :: "bool \<Rightarrow> string \<Rightarrow> string" where
  "json_string ascii s = CHR 0x22 # concat (map (json_escape ascii) s) @ [CHR 0x22]"

fun dumps :: "bool \<Rightarrow> json \<Rightarrow> string" where
  "dumps ascii JNull = ''null''"
| "dumps ascii (JBool b) = (if b then ''true'' else ''false'')"
| "dumps ascii (JInt i) = int_text i"
| "dumps ascii (JStr s) = json_string ascii s"
| "dumps ascii (JList xs) = ''['' @ join '','' (map (dumps ascii) xs) @ '']''"
| "dumps ascii (JObj kvs) =
     ''{'' @ join '','' (map (\<lambda>(k, v). json_string ascii k @ '':'' @ v)
       (sort_key fst (map (\<lambda>(k, v). (k, dumps ascii v)) kvs))) @ ''}''"

abbreviation strs :: "string list \<Rightarrow> json" where
  "strs xs \<equiv> JList (map JStr xs)"

definition opt_str :: "string option \<Rightarrow> json" where
  "opt_str x = (case x of None \<Rightarrow> JNull | Some s \<Rightarrow> JStr s)"

text \<open>\<open>d[k]\<close> and \<open>d.get(k)\<close> on a decoded object.\<close>

fun json_get :: "string \<Rightarrow> json \<Rightarrow> json option" where
  "json_get k (JObj kvs) = map_of kvs k"
| "json_get k _ = None"

text \<open>The bytes of \<open>_canon(value)\<close> and \<open>canonical_json(value)\<close>, and the digest of a payload.\<close>

definition canon :: "json \<Rightarrow> string" where
  "canon v = utf8 (dumps False v)"

definition canon_ascii :: "json \<Rightarrow> string" where
  "canon_ascii v = utf8 (dumps True v)"

lemma dumps_str_list: "dumps a (strs xs) = ''['' @ join '','' (map (json_string a) xs) @ '']''"
  by (simp add: comp_def)

end
