(* ===== verification/Py_Time.thy ===== *)
theory Py_Time
  imports Prelude
begin

text \<open>
  The part of \<open>datetime\<close> the source uses. An aware time is the integer number of microseconds of
  its UTC instant, counted from day ordinal 0; the ordinals are those of \<open>date.toordinal\<close>.
  \<open>fromisoformat\<close> follows the parser of CPython 3.11 (the version of the project's workflows),
  with its tolerances: basic and extended dates, ISO weeks, any separator character, one or more
  fraction digits, offsets with seconds. \<open>utc_text\<close> is \<open>isoformat()\<close> of a UTC time.
\<close>

section \<open>The calendar\<close>

definition leap :: "int \<Rightarrow> bool" where
  "leap y = (y mod 4 = 0 \<and> (y mod 100 \<noteq> 0 \<or> y mod 400 = 0))"

definition days_before_month :: "int \<Rightarrow> int \<Rightarrow> int" where
  "days_before_month y m =
     [0, 0, 31, 59, 90, 120, 151, 181, 212, 243, 273, 304, 334, 365] ! nat m
     + (if 2 < m \<and> leap y then 1 else 0)"

definition days_in_month :: "int \<Rightarrow> int \<Rightarrow> int" where
  "days_in_month y m = (if m = 2 then (if leap y then 29 else 28)
     else if m \<in> {4, 6, 9, 11} then 30 else 31)"

definition days_before_year :: "int \<Rightarrow> int" where
  "days_before_year y = (let z = y - 1 in z * 365 + z div 4 - z div 100 + z div 400)"

definition ymd_ord :: "int \<Rightarrow> int \<Rightarrow> int \<Rightarrow> int" where
  "ymd_ord y m d = days_before_year y + days_before_month y m + d"

definition valid_ymd :: "int \<Rightarrow> int \<Rightarrow> int \<Rightarrow> bool" where
  "valid_ymd y m d = (1 \<le> y \<and> y \<le> 9999 \<and> 1 \<le> m \<and> m \<le> 12 \<and> 1 \<le> d \<and> d \<le> days_in_month y m)"

definition max_ord :: int where
  "max_ord = ymd_ord 9999 12 31"

text \<open>\<open>_isoweek_to_gregorian\<close>, as an ordinal.\<close>

definition isoweek_ord :: "int \<Rightarrow> int \<Rightarrow> int \<Rightarrow> int option" where
  "isoweek_ord y w d =
     (let first = ymd_ord y 1 1; fw = (first + 6) mod 7;
          monday = first - fw + (if 3 < fw then 7 else 0);
          o' = monday + (w - 1) * 7 + d - 1
      in if \<not> (1 \<le> y \<and> y \<le> 9999) then None
         else if \<not> (0 < w \<and> w < 53) \<and> \<not> (w = 53 \<and> (first mod 7 = 4 \<or> first mod 7 = 3 \<and> leap y)) then None
         else if \<not> (0 < d \<and> d < 8) then None
         else if 1 \<le> o' \<and> o' \<le> max_ord then Some o' else None)"

section \<open>Parsing\<close>

definition is_digit :: "char \<Rightarrow> bool" where
  "is_digit c = (c \<in> set ''0123456789'')"

definition digit_val :: "char \<Rightarrow> int" where
  "digit_val c = of_char c - 48"

fun take_digits :: "nat \<Rightarrow> int \<Rightarrow> string \<Rightarrow> (int \<times> string) option" where
  "take_digits 0 acc s = Some (acc, s)"
| "take_digits (Suc n) acc [] = None"
| "take_digits (Suc n) acc (c # s) =
     (if is_digit c then take_digits n (acc * 10 + digit_val c) s else None)"

definition char_at :: "string \<Rightarrow> nat \<Rightarrow> char" where
  "char_at s i = (if i < length s then s ! i else nul)"

text \<open>The fraction of a second: up to six digits, further digits skipped.\<close>

definition fraction :: "string \<Rightarrow> char \<Rightarrow> (int \<times> bool) option" where
  "fraction r nxt =
     (let n = min 6 (length r) in
      case take_digits n 0 r of None \<Rightarrow> None
      | Some (u, r') \<Rightarrow>
          (let rest = dropWhile is_digit r'
           in Some (u * 10 ^ (6 - n), (case rest of [] \<Rightarrow> nxt | c # _ \<Rightarrow> c) \<noteq> nul)))"

text \<open>
  \<open>HH[:MM[:SS[.ffffff]]]\<close>: the components read so far are in \<open>acc\<close>, newest first; the result
  has the components (hour, minute, second), the microseconds, and whether unread text follows.
\<close>

fun hms_loop :: "nat \<Rightarrow> bool \<Rightarrow> int list \<Rightarrow> string \<Rightarrow> char \<Rightarrow> (int list \<times> int \<times> bool) option" where
  "hms_loop 0 sep acc r nxt =
     (case fraction r nxt of None \<Rightarrow> None | Some (u, more) \<Rightarrow> Some (rev acc, u, more))"
| "hms_loop (Suc n) sep acc r nxt =
     (case take_digits 2 0 r of None \<Rightarrow> None
      | Some (v, r') \<Rightarrow>
          (case r' of
             [] \<Rightarrow> Some (rev (v # acc), 0, nxt \<noteq> nul)
           | c # rest \<Rightarrow>
               (let sep' = (if acc = [] then c = CHR '':'' else sep) in
                if rest = [] then Some (rev (v # acc), 0, c \<noteq> nul)
                else if sep' \<and> c = CHR '':'' then hms_loop n sep' (v # acc) rest nxt
                else if c = CHR ''.'' \<or> c = CHR '','' then
                  (case fraction rest nxt of None \<Rightarrow> None | Some (u, more) \<Rightarrow> Some (rev (v # acc), u, more))
                else if \<not> sep' then hms_loop n sep' (v # acc) r' nxt
                else None)))"

definition hms :: "string \<Rightarrow> char \<Rightarrow> (int \<times> int \<times> int \<times> int \<times> bool) option" where
  "hms t nxt = (case hms_loop 3 True [] t nxt of
       None \<Rightarrow> None
     | Some (xs, u, more) \<Rightarrow>
         (let ys = xs @ [0, 0, 0] in Some (ys ! 0, ys ! 1, ys ! 2, u, more)))"

text \<open>Where the date ends.\<close>

definition date_end :: "string \<Rightarrow> nat option" where
  "date_end s =
     (let n = length s in
      if n < 7 then None
      else if n = 7 then Some 7
      else if s ! 4 = CHR ''-'' then
        (if s ! 5 = CHR ''W'' then
           (if 8 < n \<and> s ! 8 = CHR ''-'' then
              (if n = 9 then None
               else if 10 < n \<and> is_digit (s ! 10) then Some 8 else Some 10)
            else Some 8)
         else Some 10)
      else if s ! 4 = CHR ''W'' then
        (let i = 7 + length (takeWhile is_digit (drop 7 s)) in
         if i < 9 then Some i else if i mod 2 = 0 then Some 7 else Some 8)
      else Some 8)"

definition iso_date :: "string \<Rightarrow> nat \<Rightarrow> int option" where
  "iso_date s e =
     (case take_digits 4 0 s of None \<Rightarrow> None
      | Some (y, r) \<Rightarrow>
          (let sep = (char_at r 0 = CHR ''-''); r1 = (if sep then tl r else r) in
           if char_at r1 0 = CHR ''W'' then
             (case take_digits 2 0 (tl r1) of None \<Rightarrow> None
              | Some (w, r2) \<Rightarrow>
                  (if length s - length r2 < e then
                     (if sep \<and> char_at r2 0 \<noteq> CHR ''-'' then None
                      else (case take_digits 1 0 (if sep then tl r2 else r2) of None \<Rightarrow> None
                            | Some (d, _) \<Rightarrow> isoweek_ord y w d))
                   else isoweek_ord y w 1))
           else
             (case take_digits 2 0 r1 of None \<Rightarrow> None
              | Some (m, r2) \<Rightarrow>
                  (if sep \<and> char_at r2 0 \<noteq> CHR ''-'' then None
                   else (case take_digits 2 0 (if sep then tl r2 else r2) of None \<Rightarrow> None
                         | Some (d, _) \<Rightarrow> (if valid_ymd y m d then Some (ymd_ord y m d) else None))))))"

definition tz_char :: "char \<Rightarrow> bool" where
  "tz_char c = (c = CHR ''+'' \<or> c = CHR ''-'' \<or> c = CHR ''Z'')"

definition day_us :: int where "day_us = 86400000000"

text \<open>The offset in microseconds, from the sign character and the text after it.\<close>

definition iso_offset :: "char \<Rightarrow> string \<Rightarrow> int option" where
  "iso_offset c z =
     (if c = CHR ''Z'' then (if z = [] then Some 0 else None)
      else case hms z nul of None \<Rightarrow> None
        | Some (h, m, s, u, more) \<Rightarrow>
            (let a = h * 3600 + m * 60 + s;
                 o' = (if a = 0 then 0 else (if c = CHR ''-'' then -1 else 1) * (a * 1000000 + u))
             in if more then None else if - day_us < o' \<and> o' < day_us then Some o' else None))"

text \<open>The local time of day in microseconds and the offset, if there is one.\<close>

definition iso_time :: "string \<Rightarrow> (int \<times> int option) option" where
  "iso_time t =
     (let ts = takeWhile (\<lambda>c. \<not> tz_char c) t; zs = dropWhile (\<lambda>c. \<not> tz_char c) t in
      case hms ts (char_at zs 0) of None \<Rightarrow> None
      | Some (h, m, s, u, more) \<Rightarrow>
          (if 23 < h \<or> 59 < m \<or> 59 < s then None
           else
             (let us = ((h * 60 + m) * 60 + s) * 1000000 + u in
              case zs of
                [] \<Rightarrow> (if more then None else Some (us, None))
              | c # z \<Rightarrow> (case iso_offset c z of None \<Rightarrow> None | Some o' \<Rightarrow> Some (us, Some o')))))"

definition fromisoformat :: "string \<Rightarrow> (int \<times> int option) option" where
  "fromisoformat s =
     (case date_end s of None \<Rightarrow> None
      | Some e \<Rightarrow>
          (case iso_date s e of None \<Rightarrow> None
           | Some d \<Rightarrow>
               (if length s \<le> e then Some (d * day_us, None)
                else case iso_time (drop (Suc e) s) of None \<Rightarrow> None
                  | Some (us, o') \<Rightarrow> Some (d * day_us + us, o'))))"

text \<open>\<open>value.replace("Z", "+00:00")\<close>.\<close>

definition replace_z :: "string \<Rightarrow> string" where
  "replace_z s = concat (map (\<lambda>c. if c = CHR ''Z'' then ''+00:00'' else [c]) s)"

text \<open>
  \<open>parsed.astimezone(timezone.utc)\<close> of an aware time raises \<open>OverflowError\<close> when the instant is
  not between the first and the last representable UTC time.
\<close>

definition instant_ok :: "int \<Rightarrow> bool" where
  "instant_ok i = (day_us \<le> i \<and> i < (max_ord + 1) * day_us)"

text \<open>
  The timestamp helper shared by the modules: \<open>bad\<close> and \<open>naive\<close> are the exceptions it raises on
  text that is no ISO time and on a time without offset.
\<close>

definition parse_utc :: "exn \<Rightarrow> exn \<Rightarrow> string \<Rightarrow> int res" where
  "parse_utc bad naive s =
     (case fromisoformat (replace_z s) of
        None \<Rightarrow> Inl bad
      | Some (l, None) \<Rightarrow> Inl naive
      | Some (l, Some o') \<Rightarrow>
          (if instant_ok (l - o') then Inr (l - o')
           else Inl (Exn PyOverflowError ''date value out of range'')))"

section \<open>UTC times and their text\<close>

record utc_time =
  year :: int
  month :: int
  day :: int
  hour :: int
  minute :: int
  second :: int
  microsecond :: int

definition valid_utc :: "utc_time \<Rightarrow> bool" where
  "valid_utc t = (valid_ymd (year t) (month t) (day t)
     \<and> 0 \<le> hour t \<and> hour t \<le> 23 \<and> 0 \<le> minute t \<and> minute t \<le> 59
     \<and> 0 \<le> second t \<and> second t \<le> 59 \<and> 0 \<le> microsecond t \<and> microsecond t \<le> 999999)"

definition instant :: "utc_time \<Rightarrow> int" where
  "instant t = (((ymd_ord (year t) (month t) (day t) * 24 + hour t) * 60 + minute t) * 60
     + second t) * 1000000 + microsecond t"

definition utc_text :: "utc_time \<Rightarrow> string" where
  "utc_text t = pad_text 4 (nat (year t)) @ ''-'' @ pad_text 2 (nat (month t)) @ ''-''
     @ pad_text 2 (nat (day t)) @ ''T'' @ pad_text 2 (nat (hour t)) @ '':''
     @ pad_text 2 (nat (minute t)) @ '':'' @ pad_text 2 (nat (second t))
     @ (if microsecond t = 0 then [] else ''.'' @ pad_text 6 (nat (microsecond t))) @ ''+00:00''"


section \<open>The text of a UTC time\<close>

lemma digit_char_digit: "d < 10 \<Longrightarrow> is_digit (digit_char d) \<and> digit_val (digit_char d) = int d"
proof -
  assume "d < 10"
  then have "d \<in> {0, 1, 2, 3, 4, 5, 6, 7, 8, 9}" by auto
  then show ?thesis by (elim insertE emptyE; hypsubst; code_simp)
qed

lemma take_digits_append:
  "take_digits (m + n) acc s =
     (case take_digits m acc s of None \<Rightarrow> None | Some (v, r) \<Rightarrow> take_digits n v r)"
  by (induction m acc s rule: take_digits.induct) auto

lemma take_digits_pad:
  "take_digits w acc (pad_text w n @ r) = Some (acc * 10 ^ w + int (n mod 10 ^ w), r)"
proof (induction w arbitrary: acc n r)
  case 0
  then show ?case by simp
next
  case (Suc w)
  have d: "n mod 10 < 10" by simp
  have eq: "n mod (10 * 10 ^ w) = 10 * (n div 10 mod 10 ^ w) + n mod 10"
    by (rule mod_mult2_eq)
  have "take_digits (w + 1) acc (pad_text w (n div 10) @ digit_char (n mod 10) # r)
      = Some ((acc * 10 ^ w + int (n div 10 mod 10 ^ w)) * 10 + int (n mod 10), r)"
    using digit_char_digit [OF d] by (simp only: take_digits_append Suc.IH) simp
  then show ?case
    by (simp add: eq algebra_simps)
qed

lemma pad_text_digits: "list_all is_digit (pad_text w n)"
  by (induction w arbitrary: n) (auto simp: digit_char_digit)

lemma digit_not_tz: "is_digit c \<Longrightarrow> \<not> tz_char c"
  by (auto simp: is_digit_def tz_char_def)

lemma pad_text_no_tz: "c \<in> set (pad_text w n) \<Longrightarrow> \<not> tz_char c"
  using pad_text_digits [of w n] by (auto simp: list_all_iff dest: digit_not_tz)

lemma pad_text_no_Z: "CHR ''Z'' \<notin> set (pad_text w n)"
  using pad_text_no_tz by (fastforce simp: tz_char_def)

lemma replace_z_id: "CHR ''Z'' \<notin> set s \<Longrightarrow> replace_z s = s"
  by (induction s) (auto simp: replace_z_def)

lemma utc_text_no_Z: "CHR ''Z'' \<notin> set (utc_text t)"
  by (auto simp: utc_text_def pad_text_no_Z)

subsection \<open>Order of the calendar\<close>

lemma div_step: "0 < n \<Longrightarrow> (y :: int) div n = (y - 1) div n + (if y mod n = 0 then 1 else 0)"
proof -
  assume n: "0 < n"
  have y: "y = n * (y div n) + y mod n" by simp
  show ?thesis
  proof (cases "y mod n = 0")
    case True
    have "(y - 1) div n = y div n - 1"
      by (rule int_div_pos_eq [where r = "n - 1"]) (use True y n in \<open>auto simp: algebra_simps\<close>)
    with True show ?thesis by simp
  next
    case False
    have "0 \<le> y mod n" "y mod n < n" using n by auto
    with False have "(y - 1) div n = y div n"
      by (intro int_div_pos_eq [where r = "y mod n - 1"]) (use y in auto)
    with False show ?thesis by simp
  qed
qed

lemma days_before_year_Suc: "days_before_year (y + 1) = days_before_year y + 365 + (if leap y then 1 else 0)"
proof -
  define p where "p n = y div n" for n
  define q where "q n = (y - 1) div n" for n
  define z where "z n \<longleftrightarrow> y mod n = 0" for n
  have step: "p n = q n + (if z n then 1 else 0)" if "0 < n" for n
    using div_step [OF that, of y] by (simp add: p_def q_def z_def)
  have d: "z 100 \<Longrightarrow> z 4" "z 400 \<Longrightarrow> z 100"
    unfolding z_def using mod_mod_cancel [of 4 100 y] mod_mod_cancel [of 100 400 y] by auto
  have "days_before_year (y + 1) = y * 365 + p 4 - p 100 + p 400"
    and "days_before_year y = (y - 1) * 365 + q 4 - q 100 + q 400"
    and "leap y \<longleftrightarrow> z 4 \<and> (\<not> z 100 \<or> z 400)"
    by (simp_all only: days_before_year_def Let_def p_def q_def leap_def z_def add_diff_cancel_right')
  with step [of 4] step [of 100] step [of 400] d show ?thesis
    by (cases "z 4"; cases "z 100"; cases "z 400"; simp)
qed

lemma days_before_year_mono: "y < y' \<Longrightarrow> days_before_year y + 365 + (if leap y then 1 else 0) \<le> days_before_year y'"
proof (induction y' rule: int_gr_induct [where k = y])
  case base
  then show ?case by (simp add: days_before_year_Suc)
next
  case (step i)
  then show ?case by (simp add: days_before_year_Suc)
qed

lemma month_cases:
  assumes "1 \<le> m" "m \<le> (12 :: int)"
  shows "m \<in> {1, 2, 3, 4, 5, 6, 7, 8, 9, 10, 11, 12}"
  unfolding insert_iff empty_iff using assms by presburger

lemma days_before_month_bounds:
  assumes "valid_ymd y m d"
  shows "0 \<le> days_before_month y m"
    and "days_before_month y m + d \<le> 365 + (if leap y then 1 else 0)"
proof -
  have "m \<in> {1, 2, 3, 4, 5, 6, 7, 8, 9, 10, 11, 12}"
    using assms by (intro month_cases) (auto simp: valid_ymd_def)
  then show "0 \<le> days_before_month y m" "days_before_month y m + d \<le> 365 + (if leap y then 1 else 0)"
    using assms by (auto simp: days_before_month_def valid_ymd_def days_in_month_def)
qed

lemma days_before_month_mono:
  assumes "valid_ymd y m d" "valid_ymd y m' d'" "m < m'"
  shows "days_before_month y m + d \<le> days_before_month y m'"
proof -
  have m: "m \<in> {1, 2, 3, 4, 5, 6, 7, 8, 9, 10, 11, 12}" and m': "m' \<in> {1, 2, 3, 4, 5, 6, 7, 8, 9, 10, 11, 12}"
    using assms by (intro month_cases; simp add: valid_ymd_def)+
  have dm: "d \<le> days_in_month y m"
    using assms by (simp add: valid_ymd_def)
  have "days_before_month y m + days_in_month y m \<le> days_before_month y m'"
    using m m' \<open>m < m'\<close> by (elim insertE emptyE; simp add: days_before_month_def days_in_month_def)
  with dm show ?thesis by simp
qed

text \<open>Lexicographic order on two components, the way the text and the instant compare them.\<close>

definition lex_less :: "'a::linorder \<Rightarrow> 'a \<Rightarrow> bool \<Rightarrow> bool" where
  "lex_less a b r = (a < b \<or> a = b \<and> r)"

lemma ymd_ord_less:
  assumes "valid_ymd y m d" "valid_ymd y' m' d'"
  shows "ymd_ord y m d < ymd_ord y' m' d' \<longleftrightarrow> lex_less y y' (lex_less m m' (d < d'))"
proof -
  have less: "ymd_ord y m d < ymd_ord y' m' d'"
    if v: "valid_ymd y m d" "valid_ymd y' m' d'" and l: "lex_less y y' (lex_less m m' (d < d'))" for y m d y' m' d'
  proof -
    have d': "1 \<le> d'" using v by (simp add: valid_ymd_def)
    from l consider "y < y'" | "y = y'" "m < m'" | "y = y'" "m = m'" "d < d'"
      by (auto simp: lex_less_def)
    then show ?thesis
    proof cases
      case 1
      from days_before_year_mono [OF this] days_before_month_bounds [OF v(1)] days_before_month_bounds [OF v(2)] d'
      show ?thesis by (simp add: ymd_ord_def)
    next
      case 2
      with days_before_month_mono [of y m d m' d'] v d' show ?thesis by (simp add: ymd_ord_def)
    next
      case 3
      then show ?thesis by (simp add: ymd_ord_def)
    qed
  qed
  have "lex_less y y' (lex_less m m' (d < d')) \<or> (y = y' \<and> m = m' \<and> d = d')
      \<or> lex_less y' y (lex_less m' m (d' < d))"
    by (auto simp: lex_less_def)
  with less [OF assms] less [OF assms(2,1)] show ?thesis
    by (auto simp: lex_less_def)
qed

lemma radix_less:
  assumes "0 \<le> (b::int)" "b < n" "0 \<le> b'" "b' < n"
  shows "a * n + b < a' * n + b' \<longleftrightarrow> lex_less a a' (b < b')"
proof -
  have "a * n + b < a' * n + b'" if "a < a'" "0 \<le> b'" "b < n" for a a' b b'
  proof -
    have "(a + 1) * n \<le> a' * n" using that assms by (intro mult_right_mono) auto
    then show ?thesis using that by (simp add: algebra_simps)
  qed
  note step = this
  show ?thesis
  proof (rule linorder_cases [of a a'])
    assume "a < a'"
    with step [of a a' b' b] assms show ?thesis by (simp add: lex_less_def)
  next
    assume "a' < a"
    with step [of a' a b b'] assms show ?thesis by (simp add: lex_less_def)
  qed (simp add: lex_less_def)
qed

lemma radix_lex:
  assumes "0 \<le> (b::int)" "b < n" "0 \<le> b'" "b' < n"
  shows "lex_less (a * n + b) (a' * n + b') r \<longleftrightarrow> lex_less a a' (lex_less b b' r)"
  using radix_less [OF assms, of a a'] radix_less [OF assms(3,4,1,2), of a' a]
  by (auto simp: lex_less_def)

definition utc_less :: "utc_time \<Rightarrow> utc_time \<Rightarrow> bool" where
  "utc_less s t = lex_less (year s) (year t) (lex_less (month s) (month t) (lex_less (day s) (day t)
     (lex_less (hour s) (hour t) (lex_less (minute s) (minute t) (lex_less (second s) (second t)
     (microsecond s < microsecond t))))))"

lemma instant_less:
  assumes "valid_utc s" "valid_utc t"
  shows "instant s < instant t \<longleftrightarrow> utc_less s t"
proof -
  define D where "D u = ymd_ord (year u) (month u) (day u)" for u :: utc_time
  have D: "lex_less (D s) (D t) r
      \<longleftrightarrow> lex_less (year s) (year t) (lex_less (month s) (month t) (lex_less (day s) (day t) r))" for r
    using ymd_ord_less [of "year s" "month s" "day s" "year t" "month t" "day t"]
      ymd_ord_less [of "year t" "month t" "day t" "year s" "month s" "day s"] assms
    unfolding D_def valid_utc_def lex_less_def by (metis linorder_neqE order_less_asym)
  from assms have r: "0 \<le> hour s" "hour s < 24" "0 \<le> hour t" "hour t < 24"
      "0 \<le> minute s" "minute s < 60" "0 \<le> minute t" "minute t < 60"
      "0 \<le> second s" "second s < 60" "0 \<le> second t" "second t < 60"
      "0 \<le> microsecond s" "microsecond s < 1000000" "0 \<le> microsecond t" "microsecond t < 1000000"
    by (auto simp: valid_utc_def)
  have "instant s < instant t \<longleftrightarrow> lex_less (D s) (D t) (lex_less (hour s) (hour t)
     (lex_less (minute s) (minute t) (lex_less (second s) (second t) (microsecond s < microsecond t))))"
    unfolding instant_def D_def [symmetric]
    by (simp only: radix_less [OF r(13-16)] radix_lex [OF r(9-12)] radix_lex [OF r(5-8)] radix_lex [OF r(1-4)])
  then show ?thesis by (simp add: D utc_less_def)
qed


subsection \<open>Order of the text\<close>

lemma append_less_iff:
  "length p = length q \<Longrightarrow> (p @ r < q @ s) \<longleftrightarrow> lex_less p q (r < (s :: 'a::linorder list))"
  by (induction p q rule: list_induct2) (auto simp: lex_less_def)

lemma digit_char_less: "d < 10 \<Longrightarrow> e < 10 \<Longrightarrow> digit_char d < digit_char e \<longleftrightarrow> d < e"
  by (simp add: digit_char_def less_char_def)

lemma pad_text_less:
  "a < 10 ^ w \<Longrightarrow> b < 10 ^ w \<Longrightarrow> pad_text w a < pad_text w b \<longleftrightarrow> a < b"
proof (induction w arbitrary: a b)
  case 0
  then show ?case by simp
next
  case (Suc w)
  have l: "x div 10 < 10 ^ w" if "x < 10 ^ Suc w" for x :: nat
    using that by (simp add: less_mult_imp_div_less mult.commute)
  note IH = Suc.IH [OF l [OF Suc.prems(1)] l [OF Suc.prems(2)]]
    and IH' = Suc.IH [OF l [OF Suc.prems(2)] l [OF Suc.prems(1)]]
  have eq: "pad_text w (a div 10) = pad_text w (b div 10) \<longleftrightarrow> a div 10 = b div 10"
    using IH IH' by (metis less_irrefl linorder_neqE_nat)
  have "pad_text (Suc w) a < pad_text (Suc w) b
      \<longleftrightarrow> lex_less (a div 10) (b div 10) (a mod 10 < b mod 10)"
    by (simp add: append_less_iff lex_less_def IH eq digit_char_less)
  also have "\<dots> \<longleftrightarrow> int (a div 10) * 10 + int (a mod 10) < int (b div 10) * 10 + int (b mod 10)"
    by (subst radix_less) (auto simp: lex_less_def simp del: of_nat_mod of_nat_div)
  also have "\<dots> \<longleftrightarrow> a < b"
    using div_mult_mod_eq [of a 10] div_mult_mod_eq [of b 10] by linarith
  finally show ?case .
qed

lemma pad_text_inject: "a < 10 ^ w \<Longrightarrow> b < 10 ^ w \<Longrightarrow> pad_text w a = pad_text w b \<longleftrightarrow> a = b"
  by (metis less_irrefl linorder_neqE_nat pad_text_less)

lemma pad_text_lex:
  assumes "0 \<le> a" "a < 10 ^ w" "0 \<le> b" "b < 10 ^ w"
  shows "pad_text w (nat a) @ r < pad_text w (nat b) @ s \<longleftrightarrow> lex_less a b (r < s)"
proof -
  have "nat a < 10 ^ w" "nat b < 10 ^ w"
    using assms by (simp_all add: nat_less_iff)
  then show ?thesis
    using assms by (simp add: append_less_iff lex_less_def pad_text_less pad_text_inject nat_less_eq_zless)
      (auto simp: eq_nat_nat_iff)
qed

lemma utc_text_less:
  assumes "valid_utc s" "valid_utc t"
  shows "utc_text s < utc_text t \<longleftrightarrow> utc_less s t"
proof -
  have f: "(if microsecond s = 0 then [] else ''.'' @ pad_text 6 (nat (microsecond s))) @ ''+00:00''
      < (if microsecond t = 0 then [] else ''.'' @ pad_text 6 (nat (microsecond t))) @ ''+00:00''
      \<longleftrightarrow> microsecond s < microsecond t"
    using assms pad_text_lex [of "microsecond s" 6 "microsecond t" "''+00:00''" "''+00:00''"]
    by (auto simp: valid_utc_def lex_less_def less_char_def)
  have b: "0 \<le> year u" "year u < 10 ^ 4" "0 \<le> month u" "month u < 10 ^ 2" "0 \<le> day u" "day u < 10 ^ 2"
    "0 \<le> hour u" "hour u < 10 ^ 2" "0 \<le> minute u" "minute u < 10 ^ 2" "0 \<le> second u" "second u < 10 ^ 2"
    if "valid_utc u" for u
    using that by (auto simp: valid_utc_def valid_ymd_def days_in_month_def split: if_splits)
  show ?thesis
    unfolding utc_text_def utc_less_def
    by (simp add: pad_text_lex b [OF assms(1), simplified] b [OF assms(2), simplified] f del: pad_text.simps)
qed

lemma utc_less_irrefl: "\<not> utc_less s s"
  by (simp add: utc_less_def lex_less_def)

lemma utc_text_order:
  assumes "valid_utc s" "valid_utc t"
  shows "utc_text s \<le> utc_text t \<longleftrightarrow> instant s \<le> instant t"
  using utc_text_less [OF assms(2,1)] instant_less [OF assms(2,1)] by (simp add: not_less [symmetric])

subsection \<open>Reading the text back\<close>


definition date_text :: "utc_time \<Rightarrow> string" where
  "date_text t = pad_text 4 (nat (year t)) @ ''-'' @ pad_text 2 (nat (month t)) @ ''-'' @ pad_text 2 (nat (day t))"

definition clock_text :: "utc_time \<Rightarrow> string" where
  "clock_text t = pad_text 2 (nat (hour t)) @ '':'' @ pad_text 2 (nat (minute t)) @ '':''
     @ pad_text 2 (nat (second t)) @ (if microsecond t = 0 then [] else ''.'' @ pad_text 6 (nat (microsecond t)))"

lemma utc_text_split: "utc_text t = date_text t @ ''T'' @ clock_text t @ ''+00:00''"
  by (simp add: utc_text_def date_text_def clock_text_def)

lemma take_pad:
  assumes "0 \<le> a" "a < 10 ^ w"
  shows "take_digits w 0 (pad_text w (nat a) @ r) = Some (a, r)"
  using assms by (simp add: take_digits_pad nat_less_iff nat_mod_distrib)

lemma take_pad2: "0 \<le> a \<Longrightarrow> a < 100 \<Longrightarrow> take_digits 2 0 (pad_text 2 (nat a) @ r) = Some (a, r)"
  and take_pad4: "0 \<le> a \<Longrightarrow> a < 10000 \<Longrightarrow> take_digits 4 0 (pad_text 4 (nat a) @ r) = Some (a, r)"
  and take_pad6: "0 \<le> a \<Longrightarrow> a < 1000000 \<Longrightarrow> take_digits 6 0 (pad_text 6 (nat a) @ r) = Some (a, r)"
  using take_pad [of a 2 r] take_pad [of a 4 r] take_pad [of a 6 r] by simp_all

lemma clock_text_no_tz: "c \<in> set (clock_text t) \<Longrightarrow> \<not> tz_char c"
  by (auto simp: clock_text_def dest: pad_text_no_tz split: if_splits) (auto simp: tz_char_def)

lemma hms_clock:
  assumes "valid_utc t"
  shows "hms (clock_text t) CHR ''+'' = Some (hour t, minute t, second t, microsecond t, True)"
proof -
  have b: "0 \<le> hour t" "hour t < 100" "0 \<le> minute t" "minute t < 100" "0 \<le> second t" "second t < 100"
    "0 \<le> microsecond t" "microsecond t < 1000000"
    using assms by (auto simp: valid_utc_def)
  have p2: "take_digits 2 0 (pad_text 2 (nat (second t))) = Some (second t, [])"
    using take_pad2 [of "second t" "[]"] b by simp
  have p6: "take_digits 6 0 (pad_text 6 (nat (microsecond t))) = Some (microsecond t, [])"
    using take_pad6 [of "microsecond t" "[]"] b by simp
  have ne: "pad_text 2 n \<noteq> []" "pad_text 6 n \<noteq> []" for n
    using length_pad_text [of 2 n] length_pad_text [of 6 n] by fastforce+
  show ?thesis
    by (simp add: hms_def clock_text_def numeral_3_eq_3 take_pad2 b p2 p6 fraction_def ne nul_def)
qed

lemma iso_offset_utc: "iso_offset CHR ''+'' ''00:00'' = Some 0"
  by code_simp

lemma iso_time_utc:
  assumes "valid_utc t"
  shows "iso_time (clock_text t @ ''+00:00'')
    = Some (((hour t * 60 + minute t) * 60 + second t) * 1000000 + microsecond t, Some 0)"
proof -
  have tz: "tz_char CHR ''+''" by (simp add: tz_char_def)
  have t: "takeWhile (\<lambda>c. \<not> tz_char c) (clock_text t @ ''+00:00'') = clock_text t"
    "dropWhile (\<lambda>c. \<not> tz_char c) (clock_text t @ ''+00:00'') = ''+00:00''"
    using clock_text_no_tz [of _ t] tz by (simp_all add: takeWhile_append2 dropWhile_append2)
  show ?thesis
    using assms hms_clock [OF assms]
    by (simp add: iso_time_def t char_at_def iso_offset_utc valid_utc_def Let_def)
qed

lemma pad_text_nth: "i < w \<Longrightarrow> is_digit (pad_text w n ! i)"
  using pad_text_digits [of w n] by (simp add: list_all_length)

lemma pad_text_not_W: "pad_text 2 n ! 0 \<noteq> CHR ''W''"
proof
  assume "pad_text 2 n ! 0 = CHR ''W''"
  with pad_text_nth [of 0 2 n] show False by (simp add: is_digit_def)
qed

lemma date_end_utc: "date_end (utc_text t) = Some 10"
  by (simp add: date_end_def utc_text_split date_text_def nth_append pad_text_not_W [simplified] Let_def)

lemma iso_date_utc:
  assumes "valid_utc t"
  shows "iso_date (utc_text t) 10 = Some (ymd_ord (year t) (month t) (day t))"
proof -
  have b: "0 \<le> year t" "year t < 10000" "0 \<le> month t" "month t < 100" "0 \<le> day t" "day t < 100"
    using assms by (auto simp: valid_utc_def valid_ymd_def days_in_month_def split: if_splits)
  show ?thesis
    using assms
    by (simp add: iso_date_def utc_text_split date_text_def take_pad2 take_pad4 b char_at_def Let_def pad_text_not_W [simplified]
        nth_append valid_utc_def)
qed

lemma ymd_ord_bounds: "valid_ymd y m d \<Longrightarrow> 1 \<le> ymd_ord y m d \<and> ymd_ord y m d \<le> max_ord"
proof -
  assume v: "valid_ymd y m d"
  have lo: "valid_ymd 1 1 1" and hi: "valid_ymd 9999 12 31"
    by (simp_all add: valid_ymd_def days_in_month_def)
  have one: "ymd_ord 1 1 1 = 1"
    by (simp add: ymd_ord_def days_before_year_def days_before_month_def)
  have "\<not> ymd_ord y m d < ymd_ord 1 1 1" "\<not> ymd_ord 9999 12 31 < ymd_ord y m d"
    using v ymd_ord_less [OF v lo] ymd_ord_less [OF hi v]
    by (auto simp: lex_less_def valid_ymd_def days_in_month_def)
  then show ?thesis by (simp add: one max_ord_def)
qed

lemma instant_ok_utc: "valid_utc t \<Longrightarrow> instant_ok (instant t)"
  using ymd_ord_bounds [of "year t" "month t" "day t"]
  by (auto simp: instant_ok_def instant_def valid_utc_def day_us_def)

lemma fromisoformat_utc_text:
  assumes "valid_utc t"
  shows "fromisoformat (utc_text t) = Some (instant t, Some 0)"
proof -
  have l: "length (date_text t) = 10" by (simp add: date_text_def)
  then have "drop (Suc 10) (utc_text t) = clock_text t @ ''+00:00''" "\<not> length (utc_text t) \<le> 10"
    by (simp_all add: utc_text_split)
  then show ?thesis
    using iso_time_utc [OF assms]
    by (simp add: fromisoformat_def date_end_utc iso_date_utc [OF assms] instant_def day_us_def)
qed

lemma parse_utc_text [simp]: "valid_utc t \<Longrightarrow> parse_utc bad naive (utc_text t) = Inr (instant t)"
  by (simp add: parse_utc_def replace_z_id utc_text_no_Z fromisoformat_utc_text instant_ok_utc)

lemma parse_utc_instant_ok: "parse_utc bad naive s = Inr i \<Longrightarrow> instant_ok i"
  by (auto simp: parse_utc_def split: option.splits if_splits)

end
