(* ===== verification/Py_Json_Inject.thy ===== *)
theory Py_Json_Inject
  imports Py_Json Py_Time
begin

text \<open>
  Canonical JSON determines the value it encodes: two values with the same \<open>canon\<close> or
  \<open>canon_ascii\<close> bytes are equal up to the order of dictionary keys (\<open>json_norm\<close>, lemma
  \<open>canon_inject\<close>). The digests of the authority and fleet modules rest on this: where a digest
  is compared, the payloads agree field by field (\<open>json_norm_fields\<close>) unless SHA-256 collides on
  those two payloads.
\<close>

section \<open>Reading one character of a JSON string back\<close>

definition hex_val :: "char \<Rightarrow> nat" where
  "hex_val c = (let n = (of_char c :: nat) in if n < 58 then n - 48 else n - 87)"

fun json_unescape :: "string \<Rightarrow> (char \<times> string) option" where
  "json_unescape [] = None"
| "json_unescape (c # s) =
     (if c = CHR 0x22 then None
      else if c \<noteq> CHR 0x5C then Some (c, s)
      else case s of
        [] \<Rightarrow> None
      | e # t \<Rightarrow>
          (if e = CHR ''n'' then Some (CHR 0x0A, t)
           else if e = CHR ''r'' then Some (CHR 0x0D, t)
           else if e = CHR ''t'' then Some (CHR 0x09, t)
           else if e = CHR ''f'' then Some (CHR 0x0C, t)
           else if e = CHR ''b'' then Some (CHR 0x08, t)
           else if e = CHR ''u'' then Some (char_of (16 * hex_val (t ! 2) + hex_val (t ! 3)), drop 4 t)
           else Some (e, t)))"

lemma hex_val_digit:
  assumes "0 \<le> k" "k < 16"
  shows "int (hex_val (hex_digit k)) = k"
proof -
  have "\<forall>k\<in>set [0..15]. int (hex_val (hex_digit k)) = k" by code_simp
  with assms show ?thesis by simp
qed

lemma hex_text_2:
  assumes "n < 256"
  shows "16 * hex_val (hex_text 2 (int n) ! 0) + hex_val (hex_text 2 (int n) ! 1) = n"
proof -
  have a: "int n div 16 < 16" "0 \<le> int n div 16" using assms by auto
  have h: "hex_digit (int n) = hex_digit (int n mod 16)" by (simp add: hex_digit_def)
  have "int (hex_val (hex_digit (int n))) = int n mod 16" unfolding h by (rule hex_val_digit) auto
  moreover have "int (hex_val (hex_digit (int n div 16))) = int n div 16" using a by (rule_tac hex_val_digit)
  moreover have "hex_text 2 (int n) = [hex_digit (int n div 16), hex_digit (int n)]"
    by (simp add: numeral_2_eq_2)
  ultimately have "int (16 * hex_val (hex_text 2 (int n) ! 0) + hex_val (hex_text 2 (int n) ! 1)) = int n"
    by simp
  then show ?thesis by (simp only: of_nat_eq_iff)
qed

lemma length_hex_text [simp]: "length (hex_text k n) = k"
  by (induction k arbitrary: n) auto

lemma json_unescape_escape: "json_unescape (json_escape a c @ r) = Some (c, r)"
proof -
  let ?n = "of_char c :: nat"
  have code: "?n = of_char d \<Longrightarrow> c = d" for d by simp
  consider "c = CHR 0x22" | "c = CHR 0x5C" | "?n = 10" | "?n = 13" | "?n = 9" | "?n = 12" | "?n = 8"
    | (u) "c \<notin> {CHR 0x22, CHR 0x5C}" "?n \<notin> {10, 13, 9, 12, 8}" "?n < 32 \<or> a \<and> 126 < ?n"
    | (plain) "c \<notin> {CHR 0x22, CHR 0x5C}" "?n \<notin> {10, 13, 9, 12, 8}" "\<not> (?n < 32 \<or> a \<and> 126 < ?n)"
    by blast
  then show ?thesis
  proof cases
    case u
    then have "json_escape a c = CHR 0x5C # ''u00'' @ hex_text 2 (int ?n)"
      by (simp add: json_escape_def Let_def)
    moreover have "16 * hex_val (hex_text 2 (int ?n) ! 0) + hex_val (hex_text 2 (int ?n) ! Suc 0) = ?n"
      using hex_text_2 [of ?n] by simp
    ultimately show ?thesis
      by (simp add: nth_append numeral_2_eq_2 numeral_3_eq_3 del: hex_text.simps)
  next
    case plain
    then show ?thesis by (auto simp: json_escape_def Let_def)
  qed (use code [of "CHR 0x0A"] code [of "CHR 0x0D"] code [of "CHR 0x09"] code [of "CHR 0x0C"]
      code [of "CHR 0x08"] in \<open>simp_all add: json_escape_def Let_def\<close>)
qed

lemma json_escape_nonempty: "json_escape a c \<noteq> []"
  by (simp add: json_escape_def Let_def)

lemma json_chars_inject:
  "concat (map (json_escape a) s) @ CHR 0x22 # r = concat (map (json_escape a) t) @ CHR 0x22 # q
    \<Longrightarrow> s = t \<and> r = q"
proof (induction s arbitrary: t)
  case Nil
  show ?case
  proof (cases t)
    case (Cons d t')
    with Nil have "json_unescape (CHR 0x22 # r) = Some (d, concat (map (json_escape a) t') @ CHR 0x22 # q)"
      using json_unescape_escape [of a d] by simp
    then show ?thesis by simp
  qed (use Nil in simp)
next
  case (Cons c s)
  show ?case
  proof (cases t)
    case Nil
    with Cons.prems have "json_unescape (CHR 0x22 # q) = Some (c, concat (map (json_escape a) s) @ CHR 0x22 # r)"
      using json_unescape_escape [of a c] by (metis append.assoc append_Nil concat.simps(1) concat.simps(2) list.simps(8) list.simps(9))
    then show ?thesis by simp
  next
    case (Cons d t')
    with Cons.prems have "json_unescape (json_escape a c @ concat (map (json_escape a) s) @ CHR 0x22 # r)
        = json_unescape (json_escape a d @ concat (map (json_escape a) t') @ CHR 0x22 # q)"
      by simp
    then have "c = d" "concat (map (json_escape a) s) @ CHR 0x22 # r = concat (map (json_escape a) t') @ CHR 0x22 # q"
      by (simp_all add: json_unescape_escape)
    with Cons.IH [of t'] Cons show ?thesis by simp
  qed
qed

lemma json_string_inject: "json_string a s @ r = json_string a t @ q \<Longrightarrow> s = t \<and> r = q"
  by (drule arg_cong [where f = tl], rule json_chars_inject) (simp add: json_string_def)

section \<open>Integers\<close>

definition digit_value :: "string \<Rightarrow> nat" where
  "digit_value s = foldl (\<lambda>n c. 10 * n + (of_char c - 48)) 0 s"

lemma nat_text_value: "digit_value (nat_text n) = n"
proof (induction n rule: nat_text.induct)
  case (1 n)
  have d: "d < 10 \<Longrightarrow> of_char (digit_char d) - 48 = d" for d :: nat
    by (simp add: digit_char_def)
  show ?case
  proof (cases "n < 10")
    case True
    then show ?thesis by (simp add: nat_text.simps [of n] digit_value_def d)
  next
    case False
    with 1 have "digit_value (nat_text (n div 10)) = n div 10" by simp
    with False show ?thesis by (simp add: nat_text.simps [of n] digit_value_def d)
  qed
qed

lemma nat_text_digits: "list_all is_digit (nat_text n)"
proof (induction n rule: nat_text.induct)
  case (1 n)
  then show ?case by (cases "n < 10") (auto simp: nat_text.simps [of n] digit_char_digit)
qed

lemma nat_text_nonempty: "nat_text n \<noteq> []"
  by (subst nat_text.simps) simp

definition no_digit_head :: "string \<Rightarrow> bool" where
  "no_digit_head r = (case r of [] \<Rightarrow> True | c # _ \<Rightarrow> \<not> is_digit c)"

lemma digits_prefix_inject:
  assumes "list_all is_digit x" "list_all is_digit y" "no_digit_head r" "no_digit_head q" "x @ r = y @ q"
  shows "x = y \<and> r = q"
proof -
  have *: "takeWhile is_digit (z @ p) = z" if "list_all is_digit z" "no_digit_head p" for z p
    using that by (auto simp: list_all_iff no_digit_head_def takeWhile_append split: list.splits)
  show ?thesis
    using * [OF assms(1,3)] * [OF assms(2,4)] assms(5) by simp
qed

lemma nat_text_inject:
  "nat_text m @ r = nat_text n @ q \<Longrightarrow> no_digit_head r \<Longrightarrow> no_digit_head q \<Longrightarrow> m = n \<and> r = q"
  using digits_prefix_inject [OF nat_text_digits nat_text_digits] nat_text_value by metis

lemma nat_text_hd: "is_digit (hd (nat_text n))"
  using nat_text_digits [of n] nat_text_nonempty [of n] by (cases "nat_text n") auto

lemma int_text_inject:
  assumes "int_text i @ r = int_text j @ q" "no_digit_head r" "no_digit_head q"
  shows "i = j \<and> r = q"
proof -
  have m: "\<not> is_digit CHR ''-''" by (simp add: is_digit_def)
  have hd: "hd (nat_text n @ x) \<noteq> CHR ''-''" for n x
    using nat_text_hd [of n] nat_text_nonempty [of n] m by (metis hd_append2)
  show ?thesis
  proof (cases "i < 0"; cases "j < 0")
    assume "i < 0" "j < 0"
    then show ?thesis using assms nat_text_inject [of "nat (- i)" r "nat (- j)" q] by (auto simp: int_text_def)
  next
    assume "\<not> i < 0" "\<not> j < 0"
    then show ?thesis using assms nat_text_inject [of "nat i" r "nat j" q] by (auto simp: int_text_def)
  next
    assume "i < 0" "\<not> j < 0"
    then show ?thesis using assms hd [of "nat j" q] by (auto simp: int_text_def) (metis list.sel(1))+
  next
    assume "\<not> i < 0" "j < 0"
    then show ?thesis using assms hd [of "nat i" r] by (auto simp: int_text_def)
  qed
qed

section \<open>Values\<close>

text \<open>\<open>sort_keys\<close> as a normal form, and printing without sorting.\<close>

fun json_norm :: "json \<Rightarrow> json" where
  "json_norm (JList xs) = JList (map json_norm xs)"
| "json_norm (JObj kvs) = JObj (sort_key fst (map (\<lambda>(k, v). (k, json_norm v)) kvs))"
| "json_norm v = v"

fun dumps_raw :: "bool \<Rightarrow> json \<Rightarrow> string" where
  "dumps_raw a JNull = ''null''"
| "dumps_raw a (JBool b) = (if b then ''true'' else ''false'')"
| "dumps_raw a (JInt i) = int_text i"
| "dumps_raw a (JStr s) = json_string a s"
| "dumps_raw a (JList xs) = ''['' @ join '','' (map (dumps_raw a) xs) @ '']''"
| "dumps_raw a (JObj kvs) =
     ''{'' @ join '','' (map (\<lambda>(k, v). json_string a k @ '':'' @ dumps_raw a v) kvs) @ ''}''"

lemma sort_key_map_snd:
  "sort_key fst (map (\<lambda>(k, v). (k, f v)) xs) = map (\<lambda>(k, v). (k, f v)) (sort_key fst xs)"
proof (induction xs)
  case Nil
  then show ?case by simp
next
  case (Cons x xs)
  have "insort_key fst (k, f v) (map (\<lambda>(k, v). (k, f v)) ys) = map (\<lambda>(k, v). (k, f v)) (insort_key fst (k, v) ys)"
    for k v ys
    by (induction ys) auto
  with Cons show ?case by (cases x) simp
qed

lemma dumps_eq_raw: "dumps a v = dumps_raw a (json_norm v)"
proof (induction v rule: json_norm.induct)
  case (1 xs)
  then have "map (dumps a) xs = map (dumps_raw a \<circ> json_norm) xs" by simp
  then show ?case by (simp only: dumps.simps json_norm.simps dumps_raw.simps map_map)
next
  case (2 kvs)
  then have "map (\<lambda>(k, v). (k, dumps a v)) kvs = map (\<lambda>(k, v). (k, dumps_raw a (json_norm v))) kvs"
    by fastforce
  also have "\<dots> = map (\<lambda>(k, v). (k, dumps_raw a v)) (map (\<lambda>(k, v). (k, json_norm v)) kvs)"
    by (simp add: case_prod_beta comp_def)
  finally have eq: "map (\<lambda>(k, v). (k, dumps a v)) kvs
      = map (\<lambda>(k, v). (k, dumps_raw a v)) (map (\<lambda>(k, v). (k, json_norm v)) kvs)" .
  show ?case
    unfolding dumps.simps json_norm.simps dumps_raw.simps eq sort_key_map_snd
    by (simp add: case_prod_beta comp_def)
qed auto

lemma join_Cons: "join sep (x # xs) = x @ concat (map (\<lambda>y. sep @ y) xs)"
  by (induction xs arbitrary: x) auto

lemma items_inject:
  assumes "\<And>x y r q. x \<in> set xs \<Longrightarrow> no_digit_head r \<Longrightarrow> no_digit_head q \<Longrightarrow> f x @ r = f y @ q \<Longrightarrow> x = y \<and> r = q"
    and c: "c \<noteq> CHR '',''" "\<not> is_digit c"
    and "concat (map (\<lambda>y. '','' @ f y) xs) @ c # r = concat (map (\<lambda>y. '','' @ f y) ys) @ c # q"
  shows "xs = ys \<and> r = q"
  using assms(1,4)
proof (induction xs arbitrary: ys)
  case Nil
  then show ?case using c by (cases ys) auto
next
  case (Cons x xs)
  show ?case
  proof (cases ys)
    case Nil
    with Cons.prems c show ?thesis by auto
  next
    case (Cons y ys')
    have nd: "no_digit_head (concat (map (\<lambda>y. '','' @ f y) zs) @ c # p)" for zs p
      using c by (cases zs) (auto simp: no_digit_head_def is_digit_def)
    from Cons.prems(2) Cons have "f x @ concat (map (\<lambda>y. '','' @ f y) xs) @ c # r
        = f y @ concat (map (\<lambda>y. '','' @ f y) ys') @ c # q" by simp
    from Cons.prems(1) [OF _ nd nd this] have "x = y"
      and "concat (map (\<lambda>y. '','' @ f y) xs) @ c # r = concat (map (\<lambda>y. '','' @ f y) ys') @ c # q"
      by auto
    with Cons.IH [of ys'] Cons.prems(1) Cons show ?thesis by auto
  qed
qed

lemma join_inject:
  assumes f: "\<And>x y r q. x \<in> set xs \<Longrightarrow> no_digit_head r \<Longrightarrow> no_digit_head q \<Longrightarrow> f x @ r = f y @ q \<Longrightarrow> x = y \<and> r = q"
    and c: "c \<noteq> CHR '',''" "\<not> is_digit c"
    and hd: "\<And>x r. hd (f x @ r) \<noteq> c"
    and eq: "join '','' (map f xs) @ c # r = join '','' (map f ys) @ c # q"
  shows "xs = ys \<and> r = q"
proof (cases xs; cases ys)
  assume "xs = []" "ys = []"
  with eq show ?thesis by simp
next
  fix y ys' assume "xs = []" "ys = y # ys'"
  with eq hd [of y] show ?thesis by (auto simp: join_Cons) (metis list.sel(1))+
next
  fix x xs' assume "xs = x # xs'" "ys = []"
  with eq hd [of x] show ?thesis by (auto simp: join_Cons) (metis list.sel(1))+
next
  fix x xs' y ys' assume xs: "xs = x # xs'" and ys: "ys = y # ys'"
  have "concat (map (\<lambda>y. '','' @ f y) xs) @ c # r = concat (map (\<lambda>y. '','' @ f y) ys) @ c # q"
    using eq unfolding xs ys by (simp add: join_Cons comp_def)
  from items_inject [OF f c this] show ?thesis .
qed

definition head_kind :: "char \<Rightarrow> nat" where
  "head_kind c = (if c = CHR ''n'' then 0 else if c = CHR ''t'' \<or> c = CHR ''f'' then 1
     else if c = CHR ''-'' \<or> is_digit c then 2 else if c = CHR 0x22 then 3
     else if c = CHR ''['' then 4 else if c = CHR ''{'' then 5 else 6)"

fun json_kind :: "json \<Rightarrow> nat" where
  "json_kind JNull = 0"
| "json_kind (JBool _) = 1"
| "json_kind (JInt _) = 2"
| "json_kind (JStr _) = 3"
| "json_kind (JList _) = 4"
| "json_kind (JObj _) = 5"

lemma head_kind_digit: "is_digit c \<Longrightarrow> head_kind c = 2"
  by (auto simp: head_kind_def is_digit_def)

lemma dumps_raw_head: "head_kind (hd (dumps_raw a v @ r)) = json_kind v"
proof (cases v)
  case (JInt i)
  have "hd (nat_text n @ r) = hd (nat_text n)" for n
    by (simp add: nat_text_nonempty)
  then show ?thesis
    using JInt nat_text_hd head_kind_digit by (auto simp: int_text_def head_kind_def [of "CHR ''-''"])
qed (auto simp: head_kind_def is_digit_def json_string_def)

lemma json_kind_bound: "json_kind v < 6"
  by (cases v) auto

lemma dumps_raw_inject:
  assumes "dumps_raw a v @ r = dumps_raw a w @ q" "no_digit_head r" "no_digit_head q"
  shows "v = w \<and> r = q"
  using assms
proof (induction v arbitrary: w r q)
  case JNull
  then have "json_kind w = 0" using dumps_raw_head [of a w q] dumps_raw_head [of a JNull r] by auto
  with JNull show ?case by (cases w) auto
next
  case (JBool b)
  then have "json_kind w = 1" using dumps_raw_head [of a w q] dumps_raw_head [of a "JBool b" r] by auto
  then obtain c where w: "w = JBool c" by (cases w) auto
  show ?case using JBool.prems(1) unfolding w by (cases b; cases c) simp_all
next
  case (JInt i)
  then have "json_kind w = 2" using dumps_raw_head [of a w q] dumps_raw_head [of a "JInt i" r] by auto
  then obtain j where w: "w = JInt j" by (cases w) auto
  from JInt.prems have "int_text i @ r = int_text j @ q" by (simp add: w)
  from int_text_inject [OF this JInt.prems(2,3)] show ?case by (simp add: w)
next
  case (JStr s)
  then have "json_kind w = 3" using dumps_raw_head [of a w q] dumps_raw_head [of a "JStr s" r] by auto
  then obtain t where w: "w = JStr t" by (cases w) auto
  from JStr.prems have "json_string a s @ r = json_string a t @ q" by (simp add: w)
  from json_string_inject [OF this] show ?case by (simp add: w)
next
  case (JList xs)
  then have "json_kind w = 4" using dumps_raw_head [of a w q] dumps_raw_head [of a "JList xs" r] by auto
  then obtain ys where w: "w = JList ys" by (cases w) auto
  have h: "hd (dumps_raw a x @ p) \<noteq> CHR '']''" for x p
    using dumps_raw_head [of a x p] json_kind_bound [of x] by (auto simp: head_kind_def is_digit_def)
  have "xs = ys \<and> r = q"
    by (rule join_inject [where f = "dumps_raw a" and c = "CHR '']''"])
      (use JList w h in \<open>auto simp: is_digit_def\<close>)
  with w show ?case by simp
next
  case (JObj kvs)
  then have "json_kind w = 5" using dumps_raw_head [of a w q] dumps_raw_head [of a "JObj kvs" r] by auto
  then obtain kws where w: "w = JObj kws" by (cases w) auto
  let ?f = "\<lambda>(k, v). json_string a k @ '':'' @ dumps_raw a v"
  have f: "x = y \<and> r = q"
    if x: "x \<in> set kvs" and nd: "no_digit_head r" "no_digit_head q" and eq: "?f x @ r = ?f y @ q" for x y r q
  proof -
    obtain k v k' v' where xy: "x = (k, v)" "y = (k', v')" by (cases x; cases y) auto
    from eq have "json_string a k @ '':'' @ dumps_raw a v @ r = json_string a k' @ '':'' @ dumps_raw a v' @ q"
      by (simp add: xy)
    from json_string_inject [OF this] have "k = k'" "dumps_raw a v @ r = dumps_raw a v' @ q" by auto
    with JObj.IH [of x v] x nd xy show ?thesis by auto
  qed
  have "kvs = kws \<and> r = q"
    by (rule join_inject [where f = ?f and c = "CHR ''}''"])
      (use JObj.prems w f in \<open>auto simp: is_digit_def json_string_def\<close>)
  with w show ?case by simp
qed

lemma dumps_inject:
  assumes "dumps a v @ r = dumps a w @ q" "no_digit_head r" "no_digit_head q"
  shows "json_norm v = json_norm w \<and> r = q"
  using assms dumps_raw_inject by (simp add: dumps_eq_raw)

section \<open>UTF-8\<close>

lemma utf8_append [simp]: "utf8 (s @ t) = utf8 s @ utf8 t"
  by (simp add: utf8_def)

lemma utf8_Cons: "utf8 (c # s) = utf8_char c @ utf8 s"
  by (simp add: utf8_def)

lemma utf8_Nil [simp]: "utf8 [] = []"
  by (simp add: utf8_def)

text \<open>Reading one encoded character back.\<close>

definition utf8_read :: "string \<Rightarrow> char \<times> string" where
  "utf8_read s = (let n = (of_char (hd s) :: nat) in
     if n < 128 then (hd s, tl s)
     else (char_of ((n - 192) * 64 + ((of_char (s ! 1) :: nat) - 128)), drop 2 s))"

lemma utf8_read_char: "utf8_read (utf8_char c @ r) = (c, r)"
proof (cases "(of_char c :: nat) < 128")
  case True
  then show ?thesis by (simp add: utf8_read_def utf8_char_def)
next
  case False
  let ?n = "of_char c :: nat"
  have b: "?n div 64 < 4" "?n mod 64 < 64"
    using nat_of_char_less_256 [of c] by (simp_all add: less_mult_imp_div_less)
  then have "192 + ?n div 64 < 256" "128 + ?n mod 64 < 256" by simp_all
  then have two: "(of_char (char_of (192 + ?n div 64) :: char) :: nat) = 192 + ?n div 64"
    "(of_char (char_of (128 + ?n mod 64) :: char) :: nat) = 128 + ?n mod 64"
    by (simp_all only: of_char_of mod_less)
  have n: "?n div 64 * 64 + ?n mod 64 = ?n" by (rule div_mult_mod_eq)
  show ?thesis
    using False by (simp only: utf8_read_def utf8_char_def Let_def if_False append_Cons append_Nil
        list.sel(1) nth_Cons_Suc nth_Cons_0 One_nat_def two drop_Suc_Cons numeral_2_eq_2 drop_0)
      (simp add: n)
qed

lemma utf8_char_nonempty [simp]: "utf8_char c \<noteq> []"
  by (simp add: utf8_char_def Let_def)

lemma utf8_inject [simp]: "utf8 s = utf8 t \<longleftrightarrow> s = t"
proof (induction s arbitrary: t)
  case Nil
  then show ?case by (cases t) (auto simp: utf8_Cons)
next
  case (Cons c s)
  show ?case
  proof (cases t)
    case Nil
    then show ?thesis by (simp add: utf8_Cons)
  next
    case (Cons d t')
    have "utf8_char c @ utf8 s = utf8_char d @ utf8 t' \<longleftrightarrow> c = d \<and> utf8 s = utf8 t'"
      using utf8_read_char [of c "utf8 s"] utf8_read_char [of d "utf8 t'"] by (metis Pair_inject)
    with Cons Cons.IH show ?thesis by (simp add: utf8_Cons)
  qed
qed

section \<open>Encoded values\<close>

lemma canon_inject:
  "canon v = canon w \<Longrightarrow> json_norm v = json_norm w"
  "canon_ascii v = canon_ascii w \<Longrightarrow> json_norm v = json_norm w"
  using dumps_inject [of _ v "[]" w "[]"] by (auto simp: canon_def canon_ascii_def no_digit_head_def)

lemma canon_ascii_then_inject:
  assumes "canon_ascii v @ ''.'' @ utf8 s = canon_ascii w @ ''.'' @ utf8 t"
  shows "json_norm v = json_norm w \<and> s = t"
proof -
  have dot: "utf8 (''.'' @ s) = ''.'' @ utf8 s" for s
    by (simp add: utf8_Cons utf8_char_def)
  have "utf8 (dumps True v @ ''.'' @ s) = utf8 (dumps True w @ ''.'' @ t)"
    using assms by (simp only: canon_ascii_def utf8_append [of "dumps True _"] dot)
  then have "dumps True v @ ''.'' @ s = dumps True w @ ''.'' @ t"
    by (simp only: utf8_inject)
  from dumps_inject [OF this] show ?thesis by (simp add: is_digit_def no_digit_head_def)
qed

lemma map_of_sort_key: "distinct (map fst kvs) \<Longrightarrow> map_of (sort_key fst kvs) = map_of kvs"
  by (subst map_of_inject_set) (auto simp: distinct_map)

lemma json_norm_lookup:
  assumes "json_norm (JObj kvs) = json_norm (JObj kws)" "distinct (map fst kvs)" "distinct (map fst kws)"
  shows "map_option json_norm (map_of kvs k) = map_option json_norm (map_of kws k)"
proof -
  have m: "map_of (sort_key fst (map (\<lambda>(k, v). (k, json_norm v)) xs)) = (\<lambda>k. map_option json_norm (map_of xs k))"
    if "distinct (map fst xs)" for xs
    using that by (subst map_of_sort_key) (simp_all only: map_of_map comp_def, simp add: case_prod_beta comp_def)
  from assms(1) m [OF assms(2)] m [OF assms(3)] show ?thesis
    by (metis (no_types, lifting) json.inject(5) json_norm.simps(2))
qed

lemma json_norm_fields:
  assumes "json_norm (JObj kvs) = json_norm (JObj kws)" "distinct (map fst kvs)" "map fst kws = map fst kvs"
  shows "map (\<lambda>(k, v). json_norm v) kvs = map (\<lambda>(k, v). json_norm v) kws"
proof (rule nth_equalityI)
  have len: "length kws = length kvs" using assms(3) by (rule map_eq_imp_length_eq)
  then show "length (map (\<lambda>(k, v). json_norm v) kvs) = length (map (\<lambda>(k, v). json_norm v) kws)" by simp
  fix i assume "i < length (map (\<lambda>(k, v). json_norm v) kvs)"
  then have i: "i < length kvs" "i < length kws" using len by simp_all
  have k: "fst (kws ! i) = fst (kvs ! i)" using assms(3) i by (metis nth_map)
  have "map_of kvs (fst (kvs ! i)) = Some (snd (kvs ! i))" "map_of kws (fst (kvs ! i)) = Some (snd (kws ! i))"
    using assms(2,3) i k by (metis map_of_is_SomeI nth_mem prod.collapse)+
  then show "map (\<lambda>(k, v). json_norm v) kvs ! i = map (\<lambda>(k, v). json_norm v) kws ! i"
    using json_norm_lookup [OF assms(1,2), of "fst (kvs ! i)"] assms(2,3) i
    by (simp only: option.map option.inject nth_map case_prod_beta)
qed

lemma json_norm_strs [simp]: "json_norm (strs xs) = strs xs"
  by (simp add: comp_def)

lemma json_norm_opt_str [simp]: "json_norm (opt_str x) = opt_str x"
  by (simp add: opt_str_def split: option.split)

lemma map_JStr_inject [simp]: "map JStr xs = map JStr ys \<longleftrightarrow> xs = ys"
  by (simp add: inj_map_eq_map inj_def)

lemma json_norm_comp_JStr [simp]: "json_norm \<circ> JStr = JStr"
  by (simp add: comp_def)

lemma opt_str_inject [simp]: "opt_str x = opt_str y \<longleftrightarrow> x = y"
  by (simp add: opt_str_def split: option.split)

end
