(* ===== verification/Authority_Grant.thy ===== *)
theory Authority_Grant
  imports Py_Json_Inject
begin

text \<open>
  The authority-grant contract: \<open>authority_rank\<close> of enterprise/models.py and the whole of
  enterprise/authority_grant.py (the grant record, its validator, its canonical signed bytes and
  digest, and the one-hop attenuation check), then what a chain of one-hop checks gives.

  Fields of \<open>AuthorityGrant\<close> carry the prefix \<open>ag_\<close>, because several records of the source
  have fields of the same name.
\<close>

section \<open>Authority classes\<close>

definition AUTHORITY_RANK :: "(string \<times> int) list" where
  "AUTHORITY_RANK = [(''none'', 0), (''read'', 1), (''local_write'', 2), (''external_write'', 3),
     (''financial'', 4), (''deploy'', 4), (''privileged'', 5)]"

definition authority_rank :: "string \<Rightarrow> int res" where
  "authority_rank value = (case map_of AUTHORITY_RANK value of
       None \<Rightarrow> Inl (Exn EnterpriseModelError (''unknown authority class: '' @ value))
     | Some r \<Rightarrow> Inr r)"

definition AUTHORITY_CONTAINS :: "(string \<times> string list) list" where
  "AUTHORITY_CONTAINS = [
     (''none'', [''none'']),
     (''read'', [''none'', ''read'']),
     (''local_write'', [''none'', ''read'', ''local_write'']),
     (''external_write'', [''none'', ''read'', ''local_write'', ''external_write'']),
     (''financial'', [''none'', ''read'', ''local_write'', ''external_write'', ''financial'']),
     (''deploy'', [''none'', ''read'', ''local_write'', ''external_write'', ''deploy'']),
     (''privileged'', [''none'', ''read'', ''local_write'', ''external_write'', ''financial'',
        ''deploy'', ''privileged''])]"

definition validate_authority_attenuation :: "string \<Rightarrow> string \<Rightarrow> unit res" where
  "validate_authority_attenuation parent child =
     (case map_of AUTHORITY_CONTAINS parent of
        None \<Rightarrow> Inl (Exn AuthorityGrantError (''unknown authority class: '' @ parent))
      | Some below \<Rightarrow>
          (case map_of AUTHORITY_CONTAINS child of
             None \<Rightarrow> Inl (Exn AuthorityGrantError (''unknown authority class: '' @ child))
           | Some _ \<Rightarrow> raise_when (child \<notin> set below) AuthorityGrantError
               ''child authority must be semantically contained in parent authority''))"

section \<open>The grant\<close>

record authority_grant =
  ag_schema_version :: string
  ag_grant_id :: string
  ag_issuer_subject_id :: string
  ag_subject_id :: string
  ag_tenant_id :: string
  ag_organization_id :: string
  ag_mission_id :: string
  ag_capability_id :: string
  ag_capability_version :: string
  ag_actions :: "string list"
  ag_resource_scope :: "string list"
  ag_authority_ceiling :: string
  ag_constraints :: "string list"
  ag_parent_grant_id :: "string option"
  ag_issued_at :: string
  ag_expires_at :: string
  ag_epoch :: int
  ag_policy_digest :: string
  ag_observability_contract_digest :: string
  ag_signature :: string
  ag_delegation_allowed :: bool
  ag_delegation_depth_budget :: int

abbreviation grant_error :: "string \<Rightarrow> exn" where
  "grant_error m \<equiv> Exn AuthorityGrantError m"

definition grant_utc :: "string \<Rightarrow> int res" where
  "grant_utc = parse_utc (grant_error ''grant timestamp is invalid'')
     (grant_error ''grant timestamps must be timezone-aware'')"

definition validate_unique :: "string list \<Rightarrow> string \<Rightarrow> bool \<Rightarrow> unit res" where
  "validate_unique values field_name allow_empty = checks [
     raise_when (\<not> allow_empty \<and> values = []) AuthorityGrantError (field_name @ '' must not be empty''),
     raise_when (list_ex blank values) AuthorityGrantError (field_name @ '' must contain non-empty strings''),
     raise_when (\<not> no_dup values) AuthorityGrantError (field_name @ '' must be unique'')]"

text \<open>\<open>^sha256:[0-9a-f]{64}$\<close> under \<open>fullmatch\<close>.\<close>

definition is_sha256_ref :: "string \<Rightarrow> bool" where
  "is_sha256_ref s = (starts_with ''sha256:'' s \<and> is_hex 64 (drop 7 s))"

definition grant_required :: "authority_grant \<Rightarrow> string list" where
  "grant_required g = [ag_grant_id g, ag_issuer_subject_id g, ag_subject_id g, ag_tenant_id g,
     ag_organization_id g, ag_mission_id g, ag_capability_id g, ag_capability_version g,
     ag_authority_ceiling g, ag_policy_digest g, ag_observability_contract_digest g, ag_signature g]"

definition grant_validate :: "authority_grant \<Rightarrow> unit res" where
  "grant_validate g = checks [
     raise_when (ag_schema_version g \<notin> {''1.0.0'', ''1.1.0''} \<or> list_ex blank (grant_required g))
       AuthorityGrantError ''grant required fields/schema are invalid'',
     raise_when (case ag_parent_grant_id g of None \<Rightarrow> False | Some p \<Rightarrow> blank p)
       AuthorityGrantError ''parent_grant_id must be null or a non-empty string'',
     validate_unique (ag_actions g) ''actions'' False,
     validate_unique (ag_resource_scope g) ''resource_scope'' False,
     validate_unique (ag_constraints g) ''constraints'' True,
     and_then (authority_rank (ag_authority_ceiling g)) (\<lambda>_. Inr ()),
     raise_when (ag_epoch g < 0) AuthorityGrantError ''grant epoch must be a non-negative integer'',
     raise_when (ag_delegation_depth_budget g < 0) AuthorityGrantError
       ''delegation_depth_budget must be a non-negative integer'',
     (if ag_schema_version g = ''1.0.0'' then
        raise_when (ag_delegation_allowed g \<or> ag_delegation_depth_budget g \<noteq> 0) AuthorityGrantError
          ''AuthorityGrant 1.0.0 cannot express delegation''
      else checks [
        raise_when (ag_delegation_allowed g \<and> ag_delegation_depth_budget g = 0) AuthorityGrantError
          ''delegation_allowed requires a positive delegation_depth_budget'',
        raise_when (\<not> ag_delegation_allowed g \<and> ag_delegation_depth_budget g \<noteq> 0) AuthorityGrantError
          ''delegation_depth_budget must be zero when delegation is not allowed'']),
     and_then (grant_utc (ag_issued_at g)) (\<lambda>issued. and_then (grant_utc (ag_expires_at g)) (\<lambda>expires.
       raise_when (expires \<le> issued) AuthorityGrantError ''grant validity window is invalid'')),
     raise_when (\<not> is_sha256_ref (ag_policy_digest g)) AuthorityGrantError
       ''policy_digest must be canonical sha256'',
     raise_when (\<not> is_sha256_ref (ag_observability_contract_digest g)) AuthorityGrantError
       ''observability_contract_digest must be canonical sha256'']"

section \<open>Signed bytes and digest\<close>

definition grant_json :: "authority_grant \<Rightarrow> json" where
  "grant_json g = JObj ([
     (''schema_version'', JStr (ag_schema_version g)),
     (''grant_id'', JStr (ag_grant_id g)),
     (''issuer_subject_id'', JStr (ag_issuer_subject_id g)),
     (''subject_id'', JStr (ag_subject_id g)),
     (''tenant_id'', JStr (ag_tenant_id g)),
     (''organization_id'', JStr (ag_organization_id g)),
     (''mission_id'', JStr (ag_mission_id g)),
     (''capability_id'', JStr (ag_capability_id g)),
     (''capability_version'', JStr (ag_capability_version g)),
     (''actions'', strs (ag_actions g)),
     (''resource_scope'', strs (ag_resource_scope g)),
     (''authority_ceiling'', JStr (ag_authority_ceiling g)),
     (''constraints'', strs (ag_constraints g)),
     (''parent_grant_id'', opt_str (ag_parent_grant_id g)),
     (''issued_at'', JStr (ag_issued_at g)),
     (''expires_at'', JStr (ag_expires_at g)),
     (''epoch'', JInt (ag_epoch g)),
     (''policy_digest'', JStr (ag_policy_digest g)),
     (''observability_contract_digest'', JStr (ag_observability_contract_digest g))]
     @ (if ag_schema_version g = ''1.0.0'' then []
        else [(''delegation_allowed'', JBool (ag_delegation_allowed g)),
              (''delegation_depth_budget'', JInt (ag_delegation_depth_budget g))]))"

definition grant_canonical_payload :: "authority_grant \<Rightarrow> string res" where
  "grant_canonical_payload g = and_then (grant_validate g) (\<lambda>_. Inr (canon_ascii (grant_json g)))"

definition grant_digest :: "authority_grant \<Rightarrow> string res" where
  "grant_digest g = and_then (grant_canonical_payload g) (\<lambda>payload.
     Inr (sha256 (payload @ ''.'' @ utf8 (ag_signature g))))"

section \<open>One-hop attenuation\<close>

definition exact_bindings :: "authority_grant \<Rightarrow> authority_grant \<Rightarrow> (string \<times> bool) list" where
  "exact_bindings p c = [
     (''schema_version'', ag_schema_version p = ag_schema_version c),
     (''tenant_id'', ag_tenant_id p = ag_tenant_id c),
     (''organization_id'', ag_organization_id p = ag_organization_id c),
     (''mission_id'', ag_mission_id p = ag_mission_id c),
     (''capability_id'', ag_capability_id p = ag_capability_id c),
     (''capability_version'', ag_capability_version p = ag_capability_version c),
     (''epoch'', ag_epoch p = ag_epoch c),
     (''policy_digest'', ag_policy_digest p = ag_policy_digest c),
     (''observability_contract_digest'',
       ag_observability_contract_digest p = ag_observability_contract_digest c)]"

definition validate_attenuation :: "authority_grant \<Rightarrow> authority_grant \<Rightarrow> unit res" where
  "validate_attenuation p c = checks ([
     grant_validate p,
     grant_validate c,
     raise_when (ag_schema_version p \<noteq> ''1.1.0'' \<or> ag_schema_version c \<noteq> ''1.1.0'') AuthorityGrantError
       ''delegation requires AuthorityGrant 1.1.0 on both parent and child'',
     raise_when (ag_grant_id c = ag_grant_id p) AuthorityGrantError
       ''child grant_id must differ from parent grant_id'',
     raise_when (ag_parent_grant_id c \<noteq> Some (ag_grant_id p)) AuthorityGrantError
       ''child must bind to the exact parent grant'',
     raise_when (ag_issuer_subject_id c \<noteq> ag_subject_id p) AuthorityGrantError
       ''child issuer must equal parent grant subject'',
     raise_when (\<not> ag_delegation_allowed p) AuthorityGrantError
       ''parent grant does not permit delegation'',
     raise_when (ag_delegation_depth_budget p \<le> ag_delegation_depth_budget c) AuthorityGrantError
       ''child delegation_depth_budget must be strictly smaller than parent budget'']
     @ map (\<lambda>(name, same). raise_when (\<not> same) AuthorityGrantError
         (''child '' @ name @ '' must equal parent '' @ name)) (exact_bindings p c)
     @ [validate_authority_attenuation (ag_authority_ceiling p) (ag_authority_ceiling c),
     raise_when (\<not> set (ag_actions c) \<subseteq> set (ag_actions p)) AuthorityGrantError
       ''child actions must be a subset of parent actions'',
     raise_when (\<not> set (ag_resource_scope c) \<subseteq> set (ag_resource_scope p)) AuthorityGrantError
       ''child resource_scope must be a subset of parent scope'',
     raise_when (\<not> set (ag_constraints p) \<subseteq> set (ag_constraints c)) AuthorityGrantError
       ''child cannot remove parent constraints'',
     and_then (grant_utc (ag_issued_at c)) (\<lambda>ci. and_then (grant_utc (ag_issued_at p)) (\<lambda>pi.
       raise_when (ci < pi) AuthorityGrantError ''child cannot predate parent grant'')),
     and_then (grant_utc (ag_expires_at c)) (\<lambda>ce. and_then (grant_utc (ag_expires_at p)) (\<lambda>pe.
       raise_when (pe < ce) AuthorityGrantError ''child cannot outlive parent grant''))])"

text \<open>\<open>for parent, child in zip(lineage, lineage[1:]): validate_attenuation(parent, child)\<close>\<close>

definition attenuate_lineage :: "authority_grant list \<Rightarrow> unit res" where
  "attenuate_lineage lineage = checks (map2 validate_attenuation lineage (tl lineage))"

declare grant_validate_def [validate_defs] validate_unique_def [validate_defs]
  validate_attenuation_def [validate_defs] validate_authority_attenuation_def [validate_defs]


section \<open>The order of authority classes\<close>

abbreviation contained_in :: "string \<Rightarrow> string \<Rightarrow> bool" where
  "contained_in c p \<equiv> validate_authority_attenuation p c = Inr ()"

definition contained_pairs :: "(string \<times> string) list" where
  "contained_pairs = concat (map (\<lambda>(p, cs). map (Pair p) cs) AUTHORITY_CONTAINS)"

lemma contained_pairs_iff:
  "(p, c) \<in> set contained_pairs \<longleftrightarrow> (\<exists>cs. (p, cs) \<in> set AUTHORITY_CONTAINS \<and> c \<in> set cs)"
  unfolding contained_pairs_def by auto

lemma contained_in_iff: "contained_in c p \<longleftrightarrow> (p, c) \<in> set contained_pairs"
proof -
  have closed: "\<forall>(p, cs) \<in> set AUTHORITY_CONTAINS. \<forall>c \<in> set cs. map_of AUTHORITY_CONTAINS c \<noteq> None"
    by code_simp
  have "distinct (map fst AUTHORITY_CONTAINS)"
    by code_simp
  then have look: "map_of AUTHORITY_CONTAINS p = Some cs \<longleftrightarrow> (p, cs) \<in> set AUTHORITY_CONTAINS" for cs
    by (rule map_of_eq_Some_iff)
  show ?thesis
  proof (cases "map_of AUTHORITY_CONTAINS p")
    case None
    then show ?thesis
      by (simp add: validate_authority_attenuation_def contained_pairs_iff look [symmetric])
  next
    case (Some cs)
    then have mem: "(p, cs') \<in> set AUTHORITY_CONTAINS \<longleftrightarrow> cs' = cs" for cs'
      unfolding look [symmetric] by (metis option.inject)
    then have "(p, c) \<in> set contained_pairs \<longleftrightarrow> c \<in> set cs"
      unfolding contained_pairs_iff by simp
    moreover have "map_of AUTHORITY_CONTAINS c \<noteq> None" if "c \<in> set cs"
      using bspec [OF closed, of "(p, cs)"] mem [of cs] that by simp
    ultimately show ?thesis
      using Some by (auto simp: validate_authority_attenuation_def split: option.splits)
  qed
qed

definition rank_le :: "string \<Rightarrow> string \<Rightarrow> bool" where
  "rank_le c p = (case (authority_rank c, authority_rank p) of (Inr rc, Inr rp) \<Rightarrow> rc \<le> rp | _ \<Rightarrow> False)"

lemma contained_in_rank: "contained_in c p \<Longrightarrow> rank_le c p"
proof -
  have "\<forall>(p, c) \<in> set contained_pairs. rank_le c p"
    by code_simp
  then show "contained_in c p \<Longrightarrow> rank_le c p" by (auto simp: contained_in_iff)
qed

lemma contained_in_trans: "contained_in c b \<Longrightarrow> contained_in b a \<Longrightarrow> contained_in c a"
proof -
  have "\<forall>x \<in> set contained_pairs. \<forall>y \<in> set contained_pairs. snd x = fst y \<longrightarrow> (fst x, snd y) \<in> set contained_pairs"
    by code_simp
  then show "contained_in c b \<Longrightarrow> contained_in b a \<Longrightarrow> contained_in c a"
    unfolding contained_in_iff by fastforce
qed

lemma contained_in_antisym: "contained_in a b \<Longrightarrow> contained_in b a \<Longrightarrow> a = b"
proof -
  have "\<forall>x \<in> set contained_pairs. (snd x, fst x) \<in> set contained_pairs \<longrightarrow> fst x = snd x"
    by code_simp
  then show "contained_in a b \<Longrightarrow> contained_in b a \<Longrightarrow> a = b"
    unfolding contained_in_iff by fastforce
qed

lemma contained_in_refl: "authority_rank a = Inr r \<Longrightarrow> contained_in a a"
proof -
  have "\<forall>(a, r) \<in> set AUTHORITY_RANK. (a, a) \<in> set contained_pairs"
    by code_simp
  then show "authority_rank a = Inr r \<Longrightarrow> contained_in a a"
    unfolding contained_in_iff
    by (fastforce simp: authority_rank_def dest: map_of_SomeD split: option.splits)
qed

lemma contained_in_known: "contained_in c p \<Longrightarrow> (\<exists>r. authority_rank c = Inr r) \<and> (\<exists>r. authority_rank p = Inr r)"
  using contained_in_rank by (fastforce simp: rank_le_def split: sum.splits)

section \<open>What validation and one hop give\<close>

lemma grant_validateD:
  assumes "grant_validate g = Inr ()"
  shows "ag_schema_version g \<in> {''1.0.0'', ''1.1.0''}"
    and "\<And>s. s \<in> set (grant_required g) \<Longrightarrow> \<not> blank s"
    and "distinct (ag_actions g)" "ag_actions g \<noteq> []"
    and "distinct (ag_resource_scope g)" "ag_resource_scope g \<noteq> []"
    and "distinct (ag_constraints g)"
    and "\<exists>r. authority_rank (ag_authority_ceiling g) = Inr r"
    and "0 \<le> ag_epoch g" "0 \<le> ag_delegation_depth_budget g"
    and "ag_delegation_allowed g \<longleftrightarrow> ag_delegation_depth_budget g \<noteq> 0"
    and "\<exists>i e. grant_utc (ag_issued_at g) = Inr i \<and> grant_utc (ag_expires_at g) = Inr e \<and> i < e"
    and "is_sha256_ref (ag_policy_digest g)" "is_sha256_ref (ag_observability_contract_digest g)"
  using assms
  by (auto simp: grant_validate_def validate_unique_def and_then_ok list_ex_iff not_le split: if_splits)

text \<open>
  \<open>attenuates p c\<close>: everything a child may do was allowed to the parent, in the same mission
  context and within the parent's time window.
\<close>

definition window_within :: "authority_grant \<Rightarrow> authority_grant \<Rightarrow> bool" where
  "window_within p c = (case (grant_utc (ag_issued_at p), grant_utc (ag_expires_at p),
       grant_utc (ag_issued_at c), grant_utc (ag_expires_at c)) of
     (Inr pi, Inr pe, Inr ci, Inr ce) \<Rightarrow> pi \<le> ci \<and> ce \<le> pe | _ \<Rightarrow> False)"

definition same_binding :: "authority_grant \<Rightarrow> authority_grant \<Rightarrow> bool" where
  "same_binding p c = list_all snd (exact_bindings p c)"

definition attenuates :: "authority_grant \<Rightarrow> authority_grant \<Rightarrow> bool" where
  "attenuates p c = (same_binding p c \<and> contained_in (ag_authority_ceiling c) (ag_authority_ceiling p)
     \<and> set (ag_actions c) \<subseteq> set (ag_actions p) \<and> set (ag_resource_scope c) \<subseteq> set (ag_resource_scope p)
     \<and> set (ag_constraints p) \<subseteq> set (ag_constraints c) \<and> window_within p c)"

lemma same_binding_iff: "same_binding p c \<longleftrightarrow>
    ag_schema_version p = ag_schema_version c \<and> ag_tenant_id p = ag_tenant_id c
    \<and> ag_organization_id p = ag_organization_id c \<and> ag_mission_id p = ag_mission_id c
    \<and> ag_capability_id p = ag_capability_id c \<and> ag_capability_version p = ag_capability_version c
    \<and> ag_epoch p = ag_epoch c \<and> ag_policy_digest p = ag_policy_digest c
    \<and> ag_observability_contract_digest p = ag_observability_contract_digest c"
  by (simp add: same_binding_def exact_bindings_def)

lemma validate_attenuation_iff: "validate_attenuation p c = Inr () \<longleftrightarrow>
    grant_validate p = Inr () \<and> grant_validate c = Inr ()
    \<and> ag_schema_version p = ''1.1.0'' \<and> ag_schema_version c = ''1.1.0''
    \<and> ag_grant_id c \<noteq> ag_grant_id p \<and> ag_parent_grant_id c = Some (ag_grant_id p)
    \<and> ag_issuer_subject_id c = ag_subject_id p \<and> ag_delegation_allowed p
    \<and> ag_delegation_depth_budget c < ag_delegation_depth_budget p \<and> attenuates p c"
proof -
  have w: "checks [and_then (grant_utc (ag_issued_at c)) (\<lambda>ci. and_then (grant_utc (ag_issued_at p)) (\<lambda>pi.
       raise_when (ci < pi) AuthorityGrantError ''child cannot predate parent grant'')),
     and_then (grant_utc (ag_expires_at c)) (\<lambda>ce. and_then (grant_utc (ag_expires_at p)) (\<lambda>pe.
       raise_when (pe < ce) AuthorityGrantError ''child cannot outlive parent grant''))] = Inr ()
     \<longleftrightarrow> window_within p c"
    by (auto simp: window_within_def and_then_ok not_less split: sum.splits)
  have b: "checks (map (\<lambda>(name, same). raise_when (\<not> same) AuthorityGrantError
         (''child '' @ name @ '' must equal parent '' @ name)) (exact_bindings p c)) = Inr () \<longleftrightarrow> same_binding p c"
    by (auto simp: checks_map_ok same_binding_def list_all_iff)
  show ?thesis
    unfolding validate_attenuation_def attenuates_def checks_append_ok b w [symmetric]
    by (auto simp: not_le)
qed

lemma attenuates_trans: "attenuates a b \<Longrightarrow> attenuates b c \<Longrightarrow> attenuates a c"
  using contained_in_trans
  by (fastforce simp: attenuates_def same_binding_iff window_within_def split: sum.splits)

lemma attenuates_refl: "grant_validate g = Inr () \<Longrightarrow> attenuates g g"
  using grant_validateD(8,12) [of g]
  by (auto simp: attenuates_def same_binding_iff window_within_def contained_in_refl)

section \<open>Chains of hops\<close>

text \<open>
  A check on neighbouring elements of a sequence that implies a transitive relation: the relation
  then holds between any earlier and any later element.
\<close>

locale hop_chain =
  fixes hop :: "'a \<Rightarrow> 'a \<Rightarrow> bool" and rel :: "'a \<Rightarrow> 'a \<Rightarrow> bool"
  assumes hop_rel: "hop x y \<Longrightarrow> rel x y"
    and rel_trans: "rel x y \<Longrightarrow> rel y z \<Longrightarrow> rel x z"
begin

lemma chain_from_head: "successively hop (x # xs) \<Longrightarrow> y \<in> set xs \<Longrightarrow> rel x y"
proof (induction xs arbitrary: x)
  case Nil
  then show ?case by simp
next
  case (Cons a xs)
  then have "rel x a" by (simp add: hop_rel)
  with Cons show ?case by (auto intro: rel_trans)
qed

lemma chain_nth:
  assumes "successively hop xs" "i < j" "j < length xs"
  shows "rel (xs ! i) (xs ! j)"
proof -
  have split: "drop i xs = xs ! i # drop (Suc i) xs"
    using assms by (simp add: Cons_nth_drop_Suc)
  have "successively hop (drop i xs)"
    using assms(1) by (metis append_take_drop_id successively_append_iff)
  moreover have "xs ! j \<in> set (drop (Suc i) xs)"
  proof -
    have "drop (Suc i) xs ! (j - Suc i) = xs ! j" "j - Suc i < length (drop (Suc i) xs)"
      using assms by auto
    then show ?thesis by (metis nth_mem)
  qed
  ultimately show ?thesis
    unfolding split by (rule chain_from_head)
qed

end

text \<open>A check under which a non-negative measure falls bounds the length of the sequence.\<close>

locale budget_chain =
  fixes hop :: "'a \<Rightarrow> 'a \<Rightarrow> bool" and budget :: "'a \<Rightarrow> int"
  assumes hop_budget: "hop x y \<Longrightarrow> 0 \<le> budget y \<and> budget y < budget x"
begin

lemma chain_length: "successively hop (x # xs) \<Longrightarrow> int (length xs) \<le> max 0 (budget x)"
proof (induction xs arbitrary: x)
  case Nil
  then show ?case by simp
next
  case (Cons y ys)
  then have "0 \<le> budget y \<and> budget y < budget x" "int (length ys) \<le> max 0 (budget y)"
    by (auto dest: hop_budget)
  then show ?case by simp
qed

end

abbreviation attenuation_hop :: "authority_grant \<Rightarrow> authority_grant \<Rightarrow> bool" where
  "attenuation_hop p c \<equiv> validate_attenuation p c = Inr ()"

interpretation att: hop_chain attenuation_hop attenuates
  by unfold_locales (auto simp: validate_attenuation_iff intro: attenuates_trans)

interpretation att_budget: budget_chain attenuation_hop ag_delegation_depth_budget
  by unfold_locales (auto simp: validate_attenuation_iff dest: grant_validateD(10))

lemma checks_zip_tl: "checks (map2 f xs (tl xs)) = Inr () \<longleftrightarrow> successively (\<lambda>x y. f x y = Inr ()) xs"
  by (induction "\<lambda>x y. f x y = Inr ()" xs rule: successively.induct) auto

lemma attenuate_lineage_iff: "attenuate_lineage gs = Inr () \<longleftrightarrow> successively attenuation_hop gs"
  unfolding attenuate_lineage_def by (rule checks_zip_tl)

lemma grant_digest_ok: "grant_digest g = Inr d \<longleftrightarrow>
    grant_validate g = Inr () \<and> d = sha256 (canon_ascii (grant_json g) @ ''.'' @ utf8 (ag_signature g))"
  by (auto simp: grant_digest_def grant_canonical_payload_def and_then_ok)

lemma grant_digest_hex: "grant_digest g = Inr d \<Longrightarrow> is_hex 64 d"
  by (auto simp: grant_digest_ok)


section \<open>The signed bytes determine the grant\<close>

text \<open>The bytes whose SHA-256 is the digest.\<close>

definition grant_preimage :: "authority_grant \<Rightarrow> string" where
  "grant_preimage g = canon_ascii (grant_json g) @ ''.'' @ utf8 (ag_signature g)"

definition grant_fields :: "authority_grant \<Rightarrow> (string \<times> json) list" where
  "grant_fields g = (case grant_json g of JObj kvs \<Rightarrow> kvs | _ \<Rightarrow> [])"

lemma grant_json_fields: "grant_json g = JObj (grant_fields g)"
  by (simp add: grant_fields_def grant_json_def)

lemma grant_field_names: "map fst (grant_fields g) =
    [''schema_version'', ''grant_id'', ''issuer_subject_id'', ''subject_id'', ''tenant_id'', ''organization_id'',
     ''mission_id'', ''capability_id'', ''capability_version'', ''actions'', ''resource_scope'', ''authority_ceiling'',
     ''constraints'', ''parent_grant_id'', ''issued_at'', ''expires_at'', ''epoch'', ''policy_digest'',
     ''observability_contract_digest'']
    @ (if ag_schema_version g = ''1.0.0'' then [] else [''delegation_allowed'', ''delegation_depth_budget''])"
  by (simp add: grant_fields_def grant_json_def)

lemma grant_fields_distinct: "distinct (map fst (grant_fields g))"
  unfolding grant_field_names by simp

lemma grant_json_schema:
  assumes "json_norm (grant_json g) = json_norm (grant_json h)"
  shows "ag_schema_version g = ag_schema_version h"
proof -
  have "map_of (grant_fields g) ''schema_version'' = Some (JStr (ag_schema_version g))" for g
    by (simp add: grant_fields_def grant_json_def)
  then show ?thesis
    using json_norm_lookup [OF assms [unfolded grant_json_fields] grant_fields_distinct grant_fields_distinct,
        of "''schema_version''"] by (simp del: map_of_eq_Some_iff)
qed

lemma grant_json_inject:
  assumes eq: "json_norm (grant_json g) = json_norm (grant_json h)"
    and "grant_validate g = Inr ()" "grant_validate h = Inr ()"
  shows "g\<lparr>ag_signature := s\<rparr> = h\<lparr>ag_signature := s\<rparr>"
proof -
  have schema: "ag_schema_version g = ag_schema_version h" by (rule grant_json_schema [OF eq])
  have "map (\<lambda>(k, v). json_norm v) (grant_fields g) = map (\<lambda>(k, v). json_norm v) (grant_fields h)"
    by (rule json_norm_fields)
       (use eq schema in \<open>simp_all add: grant_json_fields grant_fields_distinct, simp add: grant_field_names\<close>)
  moreover have "ag_delegation_allowed g = ag_delegation_allowed h
      \<and> ag_delegation_depth_budget g = ag_delegation_depth_budget h" if "ag_schema_version g = ''1.0.0''"
    using that schema assms(2,3) by (simp add: grant_validate_def)
  ultimately show ?thesis
    using schema by (cases "ag_schema_version g = ''1.0.0''")
      (auto simp: grant_fields_def grant_json_def intro: authority_grant.equality)
qed

lemma grant_preimage_inject:
  assumes "grant_preimage g = grant_preimage h" "grant_validate g = Inr ()" "grant_validate h = Inr ()"
  shows "g = h"
proof -
  have "json_norm (grant_json g) = json_norm (grant_json h)" and sig: "ag_signature g = ag_signature h"
    using canon_ascii_then_inject [OF assms(1) [unfolded grant_preimage_def]] by auto
  from grant_json_inject [OF this(1) assms(2,3), of "ag_signature h"] sig show ?thesis
    by (cases g; cases h) simp
qed

lemma grant_digest_eqD:
  assumes "grant_validate g = Inr ()" "grant_validate h = Inr ()" "grant_digest g = grant_digest h"
  shows "g = h \<or> collides (grant_preimage g) (grant_preimage h)"
  using assms grant_preimage_inject [OF _ assms(1,2)]
  by (auto simp: grant_digest_def grant_canonical_payload_def grant_preimage_def collides_def)

lemma same_digests_same_grants:
  assumes "map grant_digest gs = map grant_digest hs" "map grant_digest gs = map Inr ds"
  shows "gs = hs \<or> (\<exists>i < length gs. collides (grant_preimage (gs ! i)) (grant_preimage (hs ! i)))"
proof (cases "gs = hs")
  case False
  have len: "length gs = length hs" "length ds = length gs"
    using map_eq_imp_length_eq [OF assms(1)] map_eq_imp_length_eq [OF assms(2)] by simp_all
  with False obtain i where i: "i < length gs" "gs ! i \<noteq> hs ! i" by (metis nth_equalityI)
  have d: "grant_digest (gs ! i) = Inr (ds ! i)" "grant_digest (hs ! i) = Inr (ds ! i)"
    using assms i len by (metis nth_map)+
  then have "grant_validate (gs ! i) = Inr ()" "grant_validate (hs ! i) = Inr ()"
    by (simp_all add: grant_digest_ok)
  from grant_digest_eqD [OF this] d i show ?thesis by auto
qed simp

section \<open>Example grants\<close>

text \<open>A root grant with delegation depth 1 and a leaf delegated from it, used by the witnesses.\<close>

definition hex64 :: string where
  "hex64 = replicate 64 CHR ''a''"

definition root_grant :: authority_grant where
  "root_grant = \<lparr>ag_schema_version = ''1.1.0'', ag_grant_id = ''root'', ag_issuer_subject_id = ''owner'',
     ag_subject_id = ''lead'', ag_tenant_id = ''tenant'', ag_organization_id = ''org'', ag_mission_id = ''m1'',
     ag_capability_id = ''merge'', ag_capability_version = ''1'',
     ag_actions = [''merge_pull_request'', ''read''],
     ag_resource_scope = [''github:repo:o/r:pr:7:base:'' @ replicate 40 CHR ''b'' @ '':head:'' @ replicate 40 CHR ''c''],
     ag_authority_ceiling = ''external_write'', ag_constraints = [''merge_method:squash''],
     ag_parent_grant_id = None, ag_issued_at = ''2026-01-01T00:00:00+00:00'',
     ag_expires_at = ''2026-02-01T00:00:00Z'', ag_epoch = 3,
     ag_policy_digest = ''sha256:'' @ hex64, ag_observability_contract_digest = ''sha256:'' @ hex64,
     ag_signature = ''sig-root'', ag_delegation_allowed = True, ag_delegation_depth_budget = 1\<rparr>"

definition leaf_grant :: authority_grant where
  "leaf_grant = root_grant\<lparr>ag_grant_id := ''leaf'', ag_issuer_subject_id := ''lead'', ag_subject_id := ''worker'',
     ag_actions := [''merge_pull_request''], ag_parent_grant_id := Some ''root'',
     ag_issued_at := ''2026-01-02T00:00:00+00:00'', ag_signature := ''sig-leaf'',
     ag_delegation_allowed := False, ag_delegation_depth_budget := 0\<rparr>"

lemma example_attenuation: "attenuate_lineage [root_grant, leaf_grant] = Inr ()"
  by code_simp

lemma example_grants_valid: "grant_validate root_grant = Inr ()" "grant_validate leaf_grant = Inr ()"
  using example_attenuation by (auto simp: attenuate_lineage_def validate_attenuation_iff)

section \<open>Properties\<close>

text \<open>C12. In a lineage that passes the one-hop checks, every later grant is attenuated with
  respect to every earlier one: same mission context, epoch and policy, contained authority class,
  fewer actions and resources, more constraints, a validity window inside the earlier one.\<close>

theorem lineage_attenuates:
  assumes "attenuate_lineage gs = Inr ()" and "i < j" and "j < length gs"
  shows "attenuates (gs ! i) (gs ! j)"
  using assms by (intro att.chain_nth) (auto simp: attenuate_lineage_iff)

theorem lineage_attenuates_witness: "attenuates root_grant leaf_grant"
  using lineage_attenuates [OF example_attenuation, of 0 1] by simp

text \<open>The delegation depth budget of the first grant bounds the number of delegations: a
  lineage that passes the one-hop checks has at most that many further grants.\<close>

theorem lineage_depth_bounded:
  assumes "attenuate_lineage (g # gs) = Inr ()" and "grant_validate g = Inr ()"
  shows "int (length gs) \<le> ag_delegation_depth_budget g"
  using att_budget.chain_length [of g gs] grant_validateD(10) [OF assms(2)] assms(1)
  by (simp add: attenuate_lineage_iff)

theorem lineage_depth_bounded_witness: "int (length [leaf_grant]) \<le> ag_delegation_depth_budget root_grant"
  using lineage_depth_bounded [OF example_attenuation example_grants_valid(1)] .

text \<open>Containment of authority classes is a partial order on the known classes and finer than
  their numeric rank: \<open>financial\<close> and \<open>deploy\<close> have one rank and neither contains the other,
  \<open>privileged\<close> contains both.\<close>

theorem authority_containment_order:
  "(\<forall>a r. authority_rank a = Inr r \<longrightarrow> contained_in a a)
   \<and> (\<forall>a b c. contained_in c b \<and> contained_in b a \<longrightarrow> contained_in c a)
   \<and> (\<forall>a b. contained_in a b \<and> contained_in b a \<longrightarrow> a = b)
   \<and> (\<forall>a b. contained_in a b \<longrightarrow> (\<exists>ra rb. authority_rank a = Inr ra \<and> authority_rank b = Inr rb \<and> ra \<le> rb))
   \<and> authority_rank ''financial'' = authority_rank ''deploy''
   \<and> \<not> contained_in ''financial'' ''deploy'' \<and> \<not> contained_in ''deploy'' ''financial''
   \<and> contained_in ''financial'' ''privileged'' \<and> contained_in ''deploy'' ''privileged''"
proof -
  have "authority_rank ''financial'' = authority_rank ''deploy''"
    "\<not> contained_in ''financial'' ''deploy''" "\<not> contained_in ''deploy'' ''financial''"
    "contained_in ''financial'' ''privileged''" "contained_in ''deploy'' ''privileged''"
    by code_simp+
  moreover have "\<exists>ra rb. authority_rank a = Inr ra \<and> authority_rank b = Inr rb \<and> ra \<le> rb"
    if "contained_in a b" for a b
    using contained_in_rank [OF that] by (auto simp: rank_le_def split: sum.splits)
  ultimately show ?thesis
    using contained_in_refl contained_in_trans contained_in_antisym by blast
qed

theorem authority_containment_order_witness:
  "contained_in ''read'' ''local_write'' \<and> contained_in ''local_write'' ''deploy'' \<and> contained_in ''read'' ''deploy''"
proof -
  have "contained_in ''read'' ''local_write''" "contained_in ''local_write'' ''deploy''"
    by code_simp+
  with authority_containment_order show ?thesis by blast
qed

text \<open>C13. The digest of a valid grant identifies the grant, signature included: two valid grants have
  the same digest exactly when they are the same grant, unless SHA-256 collides on their two
  canonical byte strings.\<close>

theorem grant_digest_binds:
  assumes "grant_validate g = Inr ()" "grant_validate h = Inr ()"
  shows "grant_digest g = grant_digest h \<longleftrightarrow> g = h \<or> collides (grant_preimage g) (grant_preimage h)"
  using grant_digest_eqD [OF assms] assms
  by (auto simp: grant_digest_def grant_canonical_payload_def grant_preimage_def collides_def)

theorem grant_digest_binds_witness:
  "grant_digest root_grant = grant_digest leaf_grant \<longleftrightarrow> collides (grant_preimage root_grant) (grant_preimage leaf_grant)"
proof -
  have "ag_grant_id root_grant \<noteq> ag_grant_id leaf_grant" by (simp add: root_grant_def leaf_grant_def)
  then show ?thesis using grant_digest_binds [OF example_grants_valid] by fastforce
qed

end
