(* ===== verification/Authority_Verification.thy ===== *)
theory Authority_Verification
  imports Authority_Grant
begin

text \<open>
  The authentication boundary of enterprise/authority_verification.py: the trusted context, the
  issuer-key bindings, the domain-separated signature payload and \<open>authenticate_authority_grant\<close>.

  The signature verifier is a callable the process is configured with. It is an argument here:
  \<open>verifier payload signature key_id algorithm\<close> is \<open>None\<close> when the callable raises and
  \<open>Some b\<close> when it returns, \<open>b\<close> saying whether the result is the object \<open>True\<close>. The iterable
  of issuer keys is an option likewise, \<open>None\<close> when iterating it raises.
\<close>

section \<open>Context, bindings and evidence\<close>

record verification_context =
  vc_trust_domain :: string
  vc_tenant_id :: string
  vc_organization_id :: string
  vc_mission_id :: string

record issuer_key_binding =
  ik_issuer_subject_id :: string
  ik_trust_domain :: string
  ik_key_id :: string
  ik_algorithm :: string

record authenticated_grant =
  au_grant_id :: string
  au_issuer_subject_id :: string
  au_subject_id :: string
  au_trust_domain :: string
  au_tenant_id :: string
  au_organization_id :: string
  au_mission_id :: string
  au_key_id :: string
  au_algorithm :: string
  au_signed_payload :: string
  au_grant_digest :: string

type_synonym verifier = "string \<Rightarrow> string \<Rightarrow> string \<Rightarrow> string \<Rightarrow> bool option"

abbreviation verification_error :: "string \<Rightarrow> exn" where
  "verification_error m \<equiv> Exn AuthorityVerificationError m"

definition verification_text :: "string \<Rightarrow> string \<Rightarrow> nat \<Rightarrow> unit res" where
  "verification_text value field_name limit =
     raise_when (text_invalid limit value) AuthorityVerificationError (field_name @ '' is invalid'')"

definition context_validate :: "verification_context \<Rightarrow> unit res" where
  "context_validate c = checks [
     verification_text (vc_trust_domain c) ''trust_domain'' 256,
     verification_text (vc_tenant_id c) ''tenant_id'' 256,
     verification_text (vc_organization_id c) ''organization_id'' 256,
     verification_text (vc_mission_id c) ''mission_id'' 256]"

definition binding_validate :: "issuer_key_binding \<Rightarrow> unit res" where
  "binding_validate b = checks [
     verification_text (ik_issuer_subject_id b) ''issuer_subject_id'' 256,
     verification_text (ik_trust_domain b) ''trust_domain'' 256,
     verification_text (ik_key_id b) ''key_id'' 256,
     verification_text (ik_algorithm b) ''algorithm'' 128]"

section \<open>Signature payload and authentication\<close>

definition DOMAIN_PREFIXES :: "(string \<times> string) list" where
  "DOMAIN_PREFIXES = [
     (''1.0.0'', ''CYBER-LION/AUTHORITY-GRANT/1.0.0'' @ [nul]),
     (''1.1.0'', ''CYBER-LION/AUTHORITY-GRANT/1.1.0'' @ [nul])]"

definition authority_grant_signature_payload :: "authority_grant \<Rightarrow> string \<Rightarrow> string res" where
  "authority_grant_signature_payload g trust_domain =
     and_then (verification_text trust_domain ''trust_domain'' 256) (\<lambda>_.
     and_then (wrap_errors is_grant_error (verification_error ''grant contract validation failed'')
       (grant_canonical_payload g)) (\<lambda>canonical.
     case map_of DOMAIN_PREFIXES (ag_schema_version g) of
       None \<Rightarrow> Inl (verification_error ''unsupported authority-grant signed contract version'')
     | Some prefix \<Rightarrow> Inr (prefix @ utf8 trust_domain @ [nul] @ canonical)))"

definition eligible :: "authority_grant \<Rightarrow> verification_context \<Rightarrow> issuer_key_binding \<Rightarrow> bool" where
  "eligible g c b = (ik_issuer_subject_id b = ag_issuer_subject_id g \<and> ik_trust_domain b = vc_trust_domain c)"

definition authenticated_evidence ::
  "authority_grant \<Rightarrow> verification_context \<Rightarrow> issuer_key_binding \<Rightarrow> string \<Rightarrow> string \<Rightarrow> authenticated_grant" where
  "authenticated_evidence g c b payload digest = \<lparr>au_grant_id = ag_grant_id g,
     au_issuer_subject_id = ag_issuer_subject_id g, au_subject_id = ag_subject_id g,
     au_trust_domain = vc_trust_domain c, au_tenant_id = ag_tenant_id g,
     au_organization_id = ag_organization_id g, au_mission_id = ag_mission_id g,
     au_key_id = ik_key_id b, au_algorithm = ik_algorithm b,
     au_signed_payload = payload, au_grant_digest = digest\<rparr>"

definition verify_signature ::
  "authority_grant \<Rightarrow> issuer_key_binding \<Rightarrow> verifier \<Rightarrow> verification_context \<Rightarrow> authenticated_grant res" where
  "verify_signature g b verifier c =
     and_then (authority_grant_signature_payload g (vc_trust_domain c)) (\<lambda>payload.
     case verifier payload (ag_signature g) (ik_key_id b) (ik_algorithm b) of
       None \<Rightarrow> Inl (verification_error ''authority-grant verifier failed closed'')
     | Some accepted \<Rightarrow> and_then
         (raise_when (\<not> accepted) AuthorityVerificationError ''authority-grant signature verification failed'') (\<lambda>_.
       and_then (grant_digest g) (\<lambda>digest. Inr (authenticated_evidence g c b payload digest))))"

definition authenticate_authority_grant ::
  "authority_grant \<Rightarrow> issuer_key_binding list option \<Rightarrow> verifier \<Rightarrow> verification_context \<Rightarrow> authenticated_grant res" where
  "authenticate_authority_grant g issuer_keys verifier c = and_then (checks [
       context_validate c,
       wrap_errors is_grant_error (verification_error ''grant contract validation failed'') (grant_validate g),
       raise_when ((ag_tenant_id g, ag_organization_id g, ag_mission_id g)
           \<noteq> (vc_tenant_id c, vc_organization_id c, vc_mission_id c)) AuthorityVerificationError
         ''grant does not bind to expected authority context'']) (\<lambda>_.
     case issuer_keys of
       None \<Rightarrow> Inl (verification_error ''issuer key bindings unavailable'')
     | Some bindings \<Rightarrow> and_then (checks (map binding_validate bindings)) (\<lambda>_.
         case filter (eligible g c) bindings of
           [b] \<Rightarrow> verify_signature g b verifier c
         | _ \<Rightarrow> Inl (verification_error ''issuer key binding is missing or ambiguous'')))"

section \<open>What authentication establishes\<close>

text \<open>The prefix of the signed bytes; the two supported versions have prefixes of one length.\<close>

definition domain_prefix :: "authority_grant \<Rightarrow> string" where
  "domain_prefix g = ''CYBER-LION/AUTHORITY-GRANT/'' @ ag_schema_version g @ [nul]"

lemma domain_prefix_lookup:
  "ag_schema_version g \<in> {''1.0.0'', ''1.1.0''} \<Longrightarrow> map_of DOMAIN_PREFIXES (ag_schema_version g) = Some (domain_prefix g)"
  by (auto simp: DOMAIN_PREFIXES_def domain_prefix_def)

lemma signature_payload_ok: "authority_grant_signature_payload g d = Inr p \<longleftrightarrow>
    \<not> text_invalid 256 d \<and> grant_validate g = Inr ()
    \<and> p = domain_prefix g @ utf8 d @ [nul] @ canon_ascii (grant_json g)"
  using grant_validateD(1) [of g] domain_prefix_lookup [of g]
  by (auto simp: authority_grant_signature_payload_def grant_canonical_payload_def and_then_ok
      verification_text_def split: option.splits)

lemma nul_in_utf8_char: "nul \<in> set (utf8_char c) \<longleftrightarrow> c = nul"
proof -
  have z: "(of_char nul :: nat) = 0" by (simp add: nul_def)
  define n where "n = (of_char c :: nat)"
  have "n div 64 < 4" using nat_of_char_less_256 [of c] by (simp add: n_def less_mult_imp_div_less)
  then have "(192 + n div 64) mod 256 \<noteq> 0" "(128 + n mod 64) mod 256 \<noteq> 0" by (simp_all add: mod_less)
  then have "char_of (192 + n div 64) \<noteq> nul" "char_of (128 + n mod 64) \<noteq> nul"
    using z by (metis of_char_of)+
  moreover have "n < 128" if "c = nul" using that z by (simp add: n_def)
  ultimately show ?thesis by (auto simp: utf8_char_def Let_def n_def [symmetric])
qed

lemma nul_in_utf8 [simp]: "nul \<in> set (utf8 s) \<longleftrightarrow> nul \<in> set s"
  by (induction s) (auto simp: utf8_Cons nul_in_utf8_char)

lemmas split_at_nul = split_at [of _ nul]

lemma authenticate_ok: "authenticate_authority_grant g keys v c = Inr a \<longleftrightarrow>
    (\<exists>bs b p d. keys = Some bs \<and> context_validate c = Inr () \<and> grant_validate g = Inr ()
      \<and> (\<forall>x\<in>set bs. binding_validate x = Inr ())
      \<and> ag_tenant_id g = vc_tenant_id c \<and> ag_organization_id g = vc_organization_id c
      \<and> ag_mission_id g = vc_mission_id c \<and> filter (eligible g c) bs = [b]
      \<and> authority_grant_signature_payload g (vc_trust_domain c) = Inr p \<and> grant_digest g = Inr d
      \<and> v p (ag_signature g) (ik_key_id b) (ik_algorithm b) = Some True
      \<and> a = authenticated_evidence g c b p d)"
  by (auto simp: authenticate_authority_grant_def verify_signature_def and_then_ok checks_map_ok
      split: option.splits list.splits)

lemma domain_prefix_length:
  "grant_validate g = Inr () \<Longrightarrow> length (domain_prefix g) = 33"
  using grant_validateD(1) [of g] by (auto simp: domain_prefix_def)

section \<open>Example context\<close>

definition example_context :: verification_context where
  "example_context = \<lparr>vc_trust_domain = ''lion.example'', vc_tenant_id = ''tenant'',
     vc_organization_id = ''org'', vc_mission_id = ''m1''\<rparr>"

definition example_keys :: "issuer_key_binding list" where
  "example_keys = [\<lparr>ik_issuer_subject_id = ''owner'', ik_trust_domain = ''lion.example'',
       ik_key_id = ''k1'', ik_algorithm = ''ed25519''\<rparr>,
     \<lparr>ik_issuer_subject_id = ''lead'', ik_trust_domain = ''lion.example'',
       ik_key_id = ''k2'', ik_algorithm = ''ed25519''\<rparr>]"

text \<open>A verifier for the examples: it accepts one signature text per key.\<close>

definition example_verifier :: verifier where
  "example_verifier payload signature key algorithm =
     Some ((key, signature) \<in> {(''k1'', ''sig-root''), (''k2'', ''sig-leaf'')})"

lemma example_context_valid: "context_validate example_context = Inr ()"
  by code_simp

lemma example_payload:
  "\<exists>p. authority_grant_signature_payload root_grant (vc_trust_domain example_context) = Inr p"
  "\<exists>p. authority_grant_signature_payload leaf_grant (vc_trust_domain example_context) = Inr p"
proof -
  have "\<not> text_invalid 256 (vc_trust_domain example_context)" by code_simp
  then show "\<exists>p. authority_grant_signature_payload root_grant (vc_trust_domain example_context) = Inr p"
    "\<exists>p. authority_grant_signature_payload leaf_grant (vc_trust_domain example_context) = Inr p"
    by (simp_all add: signature_payload_ok example_grants_valid)
qed

lemma example_authenticates:
  "\<exists>a. authenticate_authority_grant root_grant (Some example_keys) example_verifier example_context = Inr a"
  "\<exists>a. authenticate_authority_grant leaf_grant (Some example_keys) example_verifier example_context = Inr a"
proof -
  have "list_all (\<lambda>b. binding_validate b = Inr ()) example_keys" by code_simp
  then have keys: "\<forall>x\<in>set example_keys. binding_validate x = Inr ()" by (simp add: list_all_iff)
  have "\<exists>d. grant_digest root_grant = Inr d" "\<exists>d. grant_digest leaf_grant = Inr d"
    by (simp_all add: grant_digest_ok example_grants_valid)
  with keys example_payload show
    "\<exists>a. authenticate_authority_grant root_grant (Some example_keys) example_verifier example_context = Inr a"
    "\<exists>a. authenticate_authority_grant leaf_grant (Some example_keys) example_verifier example_context = Inr a"
    by (auto simp: authenticate_ok example_context_valid example_grants_valid example_verifier_def)
       (simp_all add: example_keys_def eligible_def root_grant_def leaf_grant_def example_context_def)
qed

section \<open>Properties\<close>

text \<open>The signed bytes are domain separated: from them one recovers the trust domain and every
  field of the grant but the signature itself, so a signature over them cannot be read as one for
  another trust domain, schema version or grant.\<close>

theorem signature_payload_binds:
  assumes g: "authority_grant_signature_payload g d = Inr p"
    and h: "authority_grant_signature_payload h e = Inr p"
  shows "d = e \<and> g\<lparr>ag_signature := s\<rparr> = h\<lparr>ag_signature := s\<rparr>"
proof -
  have eq: "domain_prefix g @ utf8 d @ nul # canon_ascii (grant_json g)
      = domain_prefix h @ utf8 e @ nul # canon_ascii (grant_json h)"
    and valid: "grant_validate g = Inr ()" "grant_validate h = Inr ()"
    and clean: "nul \<notin> set d" "nul \<notin> set e"
    using g h by (auto simp: signature_payload_ok text_invalid_def)
  have "utf8 d @ nul # canon_ascii (grant_json g) = utf8 e @ nul # canon_ascii (grant_json h)"
    using eq domain_prefix_length valid by (metis append_eq_append_conv)
  from split_at_nul [OF this] clean have "d = e" "canon_ascii (grant_json g) = canon_ascii (grant_json h)"
    by auto
  with grant_json_inject [OF canon_inject(2) valid] show ?thesis by blast
qed

theorem signature_payload_binds_witness:
  "\<exists>p. authority_grant_signature_payload root_grant ''lion.example'' = Inr p
     \<and> (\<forall>d h. authority_grant_signature_payload h d = Inr p \<longrightarrow> ag_tenant_id h = ''tenant'' \<and> d = ''lion.example'')"
proof -
  obtain p where p: "authority_grant_signature_payload root_grant ''lion.example'' = Inr p"
    using example_payload(1) by (auto simp: example_context_def)
  have "ag_tenant_id h = ''tenant'' \<and> d = ''lion.example''" if "authority_grant_signature_payload h d = Inr p" for d h
    using signature_payload_binds [OF p that, of "[]"]
    by (auto dest: arg_cong [where f = ag_tenant_id] simp: root_grant_def)
  with p show ?thesis by blast
qed

text \<open>A grant is authenticated only by the verifier accepting its exact domain-separated bytes
  under the single key bound, for the expected trust domain, to the issuer the grant names; the
  evidence carries those bytes, that key and the grant's digest, and the mission context is the
  expected one.\<close>

theorem authentication_sound:
  assumes "authenticate_authority_grant g keys v c = Inr a"
  shows "\<exists>bs b. keys = Some bs \<and> b \<in> set bs \<and> (\<forall>b'\<in>set bs. eligible g c b' \<longrightarrow> b' = b)
    \<and> ik_issuer_subject_id b = ag_issuer_subject_id g \<and> ik_trust_domain b = vc_trust_domain c
    \<and> au_key_id a = ik_key_id b \<and> au_algorithm a = ik_algorithm b
    \<and> v (au_signed_payload a) (ag_signature g) (au_key_id a) (au_algorithm a) = Some True
    \<and> authority_grant_signature_payload g (vc_trust_domain c) = Inr (au_signed_payload a)
    \<and> grant_digest g = Inr (au_grant_digest a)
    \<and> (au_trust_domain a, au_tenant_id a, au_organization_id a, au_mission_id a)
       = (vc_trust_domain c, vc_tenant_id c, vc_organization_id c, vc_mission_id c)"
proof -
  from assms obtain bs b p d where *: "keys = Some bs" "filter (eligible g c) bs = [b]"
    "authority_grant_signature_payload g (vc_trust_domain c) = Inr p" "grant_digest g = Inr d"
    "v p (ag_signature g) (ik_key_id b) (ik_algorithm b) = Some True" "a = authenticated_evidence g c b p d"
    "ag_tenant_id g = vc_tenant_id c" "ag_organization_id g = vc_organization_id c" "ag_mission_id g = vc_mission_id c"
    by (auto simp: authenticate_ok)
  from filter_singletonD [OF *(2)] have b: "b \<in> set bs" "eligible g c b"
    and unique: "\<forall>b'\<in>set bs. eligible g c b' \<longrightarrow> b' = b" by blast+
  show ?thesis
    by (intro exI [of _ bs] exI [of _ b] conjI unique)
       (use * b in \<open>simp_all add: authenticated_evidence_def eligible_def\<close>)
qed

theorem authentication_sound_witness:
  "\<exists>a. authenticate_authority_grant leaf_grant (Some example_keys) example_verifier example_context = Inr a
     \<and> example_verifier (au_signed_payload a) ''sig-leaf'' (au_key_id a) (au_algorithm a) = Some True"
proof -
  obtain a where a: "authenticate_authority_grant leaf_grant (Some example_keys) example_verifier example_context = Inr a"
    using example_authenticates(2) by blast
  have "ag_signature leaf_grant = ''sig-leaf''" by (simp add: leaf_grant_def)
  with a authentication_sound [OF a] show ?thesis by auto
qed

end
