(* ===== verification/Authority_Revocation.thy ===== *)
theory Authority_Revocation
  imports Authority_Verification
begin

text \<open>
  Epochs, revocation and lineage admission: enterprise/authority_revocation.py.

  \<open>authority_process\<close> is the state of the process: the canonical epoch registry (authority
  context to the current state of its one owner object) and the canonical root registry (context
  and epoch to the root anchor). An owner object is its current state; the registry never replaces
  an owner, so the context names it.

  Admission reads the process state twice: it resolves the owner and the root anchor first, then
  authenticates, and takes the owner's lock for the final epoch and revocation checks. Another
  thread may advance the owner in between, so the definitions take the process state at resolution
  and the owner's state at the lock as separate arguments. \<open>authority_step\<close> is what threads can
  do to the process state in between.
\<close>

section \<open>Epoch state\<close>

type_synonym authority_context = "string \<times> string \<times> string \<times> string"

record epoch_state =
  es_trust_domain :: string
  es_tenant_id :: string
  es_organization_id :: string
  es_mission_id :: string
  es_epoch :: int
  es_revoked_grant_ids :: "string list"

abbreviation revocation_error :: "string \<Rightarrow> exn" where
  "revocation_error m \<equiv> Exn AuthorityRevocationError m"

definition revocation_text :: "string \<Rightarrow> string \<Rightarrow> unit res" where
  "revocation_text value field_name =
     raise_when (text_invalid 256 value) AuthorityRevocationError (field_name @ '' is invalid'')"

definition valid_epoch :: "int \<Rightarrow> string \<Rightarrow> unit res" where
  "valid_epoch value field_name =
     raise_when (value < 0) AuthorityRevocationError (field_name @ '' must be a non-negative integer'')"

definition epoch_state_validate :: "epoch_state \<Rightarrow> unit res" where
  "epoch_state_validate s = checks ([
     revocation_text (es_trust_domain s) ''trust_domain'',
     revocation_text (es_tenant_id s) ''tenant_id'',
     revocation_text (es_organization_id s) ''organization_id'',
     revocation_text (es_mission_id s) ''mission_id'',
     valid_epoch (es_epoch s) ''epoch'']
     @ map (\<lambda>grant_id. revocation_text grant_id ''revoked_grant_id'') (es_revoked_grant_ids s)
     @ [raise_when (\<not> no_dup (es_revoked_grant_ids s)) AuthorityRevocationError
          ''revoked_grant_ids must be unique''])"

definition state_context :: "epoch_state \<Rightarrow> authority_context" where
  "state_context s = (es_trust_domain s, es_tenant_id s, es_organization_id s, es_mission_id s)"

section \<open>Evidence records\<close>

record admitted_grant =
  eg_grant_id :: string
  eg_subject_id :: string
  eg_trust_domain :: string
  eg_tenant_id :: string
  eg_organization_id :: string
  eg_mission_id :: string
  eg_epoch :: int
  eg_grant_digest :: string

record root_anchor =
  ra_root_grant_id :: string
  ra_root_grant_digest :: string

definition root_anchor_validate :: "root_anchor \<Rightarrow> unit res" where
  "root_anchor_validate a = checks [
     revocation_text (ra_root_grant_id a) ''root_grant_id'',
     raise_when (\<not> is_hex 64 (ra_root_grant_digest a)) AuthorityRevocationError
       ''root_grant_digest must be canonical sha256 hex'']"

record admitted_lineage =
  el_root_grant_id :: string
  el_leaf_grant_id :: string
  el_leaf_subject_id :: string
  el_grant_ids :: "string list"
  el_grant_digests :: "string list"
  el_lineage_digest :: string
  el_trust_domain :: string
  el_tenant_id :: string
  el_organization_id :: string
  el_mission_id :: string
  el_epoch :: int

section \<open>Observation snapshot\<close>

record epoch_observation =
  eo_trust_domain :: string
  eo_tenant_id :: string
  eo_organization_id :: string
  eo_mission_id :: string
  eo_epoch :: int
  eo_revoked_grant_ids :: "string list"
  eo_state_digest :: string

definition epoch_observation_payload ::
  "string \<Rightarrow> string \<Rightarrow> string \<Rightarrow> string \<Rightarrow> int \<Rightarrow> string list \<Rightarrow> string" where
  "epoch_observation_payload trust_domain tenant_id organization_id mission_id epoch revoked =
     ''CYBER-LION/AUTHORITY-EPOCH-OBSERVATION/1.0.0'' @ [nul]
     @ join [nul] (map utf8 ([trust_domain, tenant_id, organization_id, mission_id, int_text epoch] @ revoked))"

definition authority_epoch_observation_digest ::
  "string \<Rightarrow> string \<Rightarrow> string \<Rightarrow> string \<Rightarrow> int \<Rightarrow> string list \<Rightarrow> string" where
  "authority_epoch_observation_digest trust_domain tenant_id organization_id mission_id epoch revoked =
     sha256 (epoch_observation_payload trust_domain tenant_id organization_id mission_id epoch revoked)"

definition observation_validate :: "epoch_observation \<Rightarrow> unit res" where
  "observation_validate o1 = checks ([
     revocation_text (eo_trust_domain o1) ''trust_domain'',
     revocation_text (eo_tenant_id o1) ''tenant_id'',
     revocation_text (eo_organization_id o1) ''organization_id'',
     revocation_text (eo_mission_id o1) ''mission_id'',
     valid_epoch (eo_epoch o1) ''epoch'']
     @ map (\<lambda>grant_id. revocation_text grant_id ''revoked_grant_id'') (eo_revoked_grant_ids o1)
     @ [raise_when (\<not> no_dup (eo_revoked_grant_ids o1)) AuthorityRevocationError
          ''snapshot revoked_grant_ids must be unique'',
        raise_when (\<not> is_hex 64 (eo_state_digest o1)) AuthorityRevocationError
          ''state_digest must be canonical sha256 hex'',
        raise_when (eo_state_digest o1 \<noteq> authority_epoch_observation_digest (eo_trust_domain o1)
            (eo_tenant_id o1) (eo_organization_id o1) (eo_mission_id o1) (eo_epoch o1) (eo_revoked_grant_ids o1))
          AuthorityRevocationError ''state_digest does not bind exact epoch snapshot''])"

section \<open>Transitions and the owner\<close>

definition validate_epoch_transition :: "epoch_state \<Rightarrow> epoch_state \<Rightarrow> epoch_state res" where
  "validate_epoch_transition previous candidate = and_then (checks [
       epoch_state_validate previous,
       epoch_state_validate candidate,
       raise_when (state_context previous \<noteq> state_context candidate) AuthorityRevocationError
         ''authority epoch context cannot change'',
       raise_when (es_epoch candidate < es_epoch previous) AuthorityRevocationError
         ''authority epoch cannot roll back'',
       raise_when (es_epoch candidate = es_epoch previous
           \<and> \<not> set (es_revoked_grant_ids previous) \<subseteq> set (es_revoked_grant_ids candidate))
         AuthorityRevocationError ''revocation cannot be removed within the same epoch''])
     (\<lambda>_. Inr candidate)"

definition trusted_context :: "verification_context \<Rightarrow> authority_context" where
  "trusted_context c = (vc_trust_domain c, vc_tenant_id c, vc_organization_id c, vc_mission_id c)"

definition owner_new :: "epoch_state \<Rightarrow> epoch_state res" where
  "owner_new initial_state = and_then (epoch_state_validate initial_state) (\<lambda>_. Inr initial_state)"

definition owner_advance :: "epoch_state \<Rightarrow> (epoch_state, epoch_state) op" where
  "owner_advance candidate owner = (case validate_epoch_transition owner candidate of
       Inl e \<Rightarrow> (Inl e, owner)
     | Inr accepted \<Rightarrow> (Inr accepted, accepted))"

definition owner_require_context :: "epoch_state \<Rightarrow> authority_context \<Rightarrow> unit res" where
  "owner_require_context owner tc = raise_when (state_context owner \<noteq> tc) AuthorityRevocationError
     ''epoch state owner does not bind to trusted authority context''"

definition admit_authenticated_grant ::
  "authority_grant \<Rightarrow> authenticated_grant \<Rightarrow> verification_context \<Rightarrow> epoch_state \<Rightarrow> admitted_grant res" where
  "admit_authenticated_grant g a c s =
     and_then (authority_grant_signature_payload g (vc_trust_domain c)) (\<lambda>expected_payload.
     and_then (grant_digest g) (\<lambda>expected_digest.
     and_then (checks [
       raise_when ((au_grant_id a, au_issuer_subject_id a, au_subject_id a, au_trust_domain a, au_tenant_id a,
             au_organization_id a, au_mission_id a, au_signed_payload a, au_grant_digest a)
           \<noteq> (ag_grant_id g, ag_issuer_subject_id g, ag_subject_id g, vc_trust_domain c, ag_tenant_id g,
             ag_organization_id g, ag_mission_id g, expected_payload, expected_digest))
         AuthorityRevocationError ''authenticated grant binding does not match raw grant'',
       raise_when (ag_epoch g \<noteq> es_epoch s) AuthorityRevocationError
         ''grant epoch is not the admitted mission epoch'',
       raise_when (ag_grant_id g \<in> set (es_revoked_grant_ids s)) AuthorityRevocationError
         ''grant is revoked in the admitted mission epoch'']) (\<lambda>_.
     Inr \<lparr>eg_grant_id = ag_grant_id g, eg_subject_id = ag_subject_id g, eg_trust_domain = vc_trust_domain c,
       eg_tenant_id = ag_tenant_id g, eg_organization_id = ag_organization_id g, eg_mission_id = ag_mission_id g,
       eg_epoch = ag_epoch g, eg_grant_digest = au_grant_digest a\<rparr>)))"

definition owner_admit_authenticated ::
  "epoch_state \<Rightarrow> authority_grant \<Rightarrow> authenticated_grant \<Rightarrow> verification_context \<Rightarrow> authority_context
   \<Rightarrow> admitted_grant res" where
  "owner_admit_authenticated owner g a c tc = and_then (owner_require_context owner tc) (\<lambda>_.
     admit_authenticated_grant g a c owner)"

definition owner_admit_authenticated_lineage ::
  "epoch_state \<Rightarrow> authority_grant list \<Rightarrow> authenticated_grant list \<Rightarrow> verification_context
   \<Rightarrow> authority_context \<Rightarrow> admitted_grant list res" where
  "owner_admit_authenticated_lineage owner lineage evidence c tc = and_then (checks [
       raise_when (lineage = [] \<or> length lineage \<noteq> length evidence) AuthorityRevocationError
         ''lineage authentication evidence is incomplete'',
       owner_require_context owner tc]) (\<lambda>_.
     map_res (\<lambda>(g, a). admit_authenticated_grant g a c owner) (zip lineage evidence))"

section \<open>Registries\<close>

type_synonym epoch_registry = "authority_context \<rightharpoonup> epoch_state"
type_synonym root_registry = "authority_context \<times> int \<rightharpoonup> root_anchor"

definition epoch_registry_register :: "epoch_state \<Rightarrow> (epoch_registry, epoch_state) op" where
  "epoch_registry_register initial_state owners =
     (case and_then (epoch_state_validate initial_state) (\<lambda>_. owner_new initial_state) of
        Inl e \<Rightarrow> (Inl e, owners)
      | Inr candidate_owner \<Rightarrow>
          if state_context initial_state \<in> dom owners
          then (Inl (revocation_error ''canonical authority epoch context is already registered''), owners)
          else (Inr initial_state, owners(state_context initial_state \<mapsto> candidate_owner)))"

definition epoch_registry_resolve :: "epoch_registry \<Rightarrow> authority_context \<Rightarrow> epoch_state res" where
  "epoch_registry_resolve owners tc = (case owners tc of
       None \<Rightarrow> Inl (revocation_error ''canonical authority epoch context is not registered'')
     | Some owner \<Rightarrow> Inr owner)"

definition epoch_registry_advance :: "epoch_state \<Rightarrow> (epoch_registry, epoch_state) op" where
  "epoch_registry_advance candidate owners =
     (case and_then (epoch_state_validate candidate) (\<lambda>_. epoch_registry_resolve owners (state_context candidate)) of
        Inl e \<Rightarrow> (Inl e, owners)
      | Inr owner \<Rightarrow> (case owner_advance candidate owner of
          (r, owner') \<Rightarrow> (r, owners(state_context candidate \<mapsto> owner'))))"

definition root_registry_register ::
  "authority_context \<Rightarrow> int \<Rightarrow> root_anchor \<Rightarrow> epoch_state \<Rightarrow> (root_registry, root_anchor) op" where
  "root_registry_register tc epoch anchor owner anchors = (case checks [
       valid_epoch epoch ''epoch'',
       root_anchor_validate anchor,
       owner_require_context owner tc,
       raise_when (es_epoch owner \<noteq> epoch) AuthorityRevocationError
         ''root anchor can only be registered for the current canonical epoch'',
       raise_when ((tc, epoch) \<in> dom anchors) AuthorityRevocationError
         ''canonical lineage root anchor is already registered''] of
       Inl e \<Rightarrow> (Inl e, anchors)
     | Inr _ \<Rightarrow> (Inr anchor, anchors((tc, epoch) \<mapsto> anchor)))"

definition root_registry_resolve :: "root_registry \<Rightarrow> authority_context \<Rightarrow> int \<Rightarrow> root_anchor res" where
  "root_registry_resolve anchors tc epoch = and_then (valid_epoch epoch ''epoch'') (\<lambda>_.
     case anchors (tc, epoch) of
       None \<Rightarrow> Inl (revocation_error ''canonical lineage root anchor is not registered for this epoch'')
     | Some anchor \<Rightarrow> Inr anchor)"

section \<open>The process and its public operations\<close>

record authority_process =
  canonical_epoch_registry :: epoch_registry
  canonical_root_registry :: root_registry

definition register_canonical_authority_epoch_state :: "epoch_state \<Rightarrow> (authority_process, epoch_state) op" where
  "register_canonical_authority_epoch_state initial_state w =
     (case epoch_registry_register initial_state (canonical_epoch_registry w) of
        (r, owners) \<Rightarrow> (r, w\<lparr>canonical_epoch_registry := owners\<rparr>))"

definition advance_canonical_authority_epoch_state :: "epoch_state \<Rightarrow> (authority_process, epoch_state) op" where
  "advance_canonical_authority_epoch_state candidate w =
     (case epoch_registry_advance candidate (canonical_epoch_registry w) of
        (r, owners) \<Rightarrow> (r, w\<lparr>canonical_epoch_registry := owners\<rparr>))"

definition observe_canonical_authority_epoch_state ::
  "verification_context \<Rightarrow> authority_process \<Rightarrow> epoch_observation res" where
  "observe_canonical_authority_epoch_state c w = and_then (context_validate c) (\<lambda>_.
     and_then (epoch_registry_resolve (canonical_epoch_registry w) (trusted_context c)) (\<lambda>s.
     and_then (raise_when (state_context s \<noteq> trusted_context c) AuthorityRevocationError
       ''epoch observation context mismatch'') (\<lambda>_.
     let snapshot = \<lparr>eo_trust_domain = es_trust_domain s, eo_tenant_id = es_tenant_id s,
       eo_organization_id = es_organization_id s, eo_mission_id = es_mission_id s, eo_epoch = es_epoch s,
       eo_revoked_grant_ids = es_revoked_grant_ids s,
       eo_state_digest = authority_epoch_observation_digest (es_trust_domain s) (es_tenant_id s)
         (es_organization_id s) (es_mission_id s) (es_epoch s) (es_revoked_grant_ids s)\<rparr>
     in and_then (observation_validate snapshot) (\<lambda>_. Inr snapshot))))"

definition register_canonical_authority_lineage_root_anchor ::
  "verification_context \<Rightarrow> int \<Rightarrow> root_anchor \<Rightarrow> (authority_process, root_anchor) op" where
  "register_canonical_authority_lineage_root_anchor c epoch anchor w =
     (case and_then (checks [context_validate c, valid_epoch epoch ''epoch'', root_anchor_validate anchor]) (\<lambda>_.
         epoch_registry_resolve (canonical_epoch_registry w) (trusted_context c)) of
        Inl e \<Rightarrow> (Inl e, w)
      | Inr owner \<Rightarrow> (case root_registry_register (trusted_context c) epoch anchor owner (canonical_root_registry w) of
          (r, anchors) \<Rightarrow> (r, w\<lparr>canonical_root_registry := anchors\<rparr>)))"

section \<open>Admission\<close>

definition lineage_digest :: "string list \<Rightarrow> string res" where
  "lineage_digest grant_digests = and_then (checks [
       raise_when (grant_digests = []) AuthorityRevocationError
         ''grant_digests must be a non-empty immutable tuple'',
       raise_when (\<not> list_all (is_hex 64) grant_digests) AuthorityRevocationError
         ''grant_digests contain invalid values'']) (\<lambda>_.
     Inr (sha256 (''CYBER-LION/AUTHORITY-LINEAGE/1.0.0'' @ [nul] @ join [nul] grant_digests)))"

text \<open>The part before the lock, against the process state \<open>w\<close>, and the part under it.\<close>

definition resolve_and_authenticate_grant ::
  "authority_grant \<Rightarrow> issuer_key_binding list option \<Rightarrow> verifier \<Rightarrow> verification_context
   \<Rightarrow> authority_process \<Rightarrow> authenticated_grant res" where
  "resolve_and_authenticate_grant g issuer_keys verifier c w = and_then (context_validate c) (\<lambda>_.
     and_then (epoch_registry_resolve (canonical_epoch_registry w) (trusted_context c)) (\<lambda>owner.
     and_then (owner_require_context owner (trusted_context c)) (\<lambda>_.
     authenticate_authority_grant g issuer_keys verifier c)))"

definition authenticate_and_admit_authority_grant ::
  "authority_grant \<Rightarrow> issuer_key_binding list option \<Rightarrow> verifier \<Rightarrow> verification_context
   \<Rightarrow> authority_process \<Rightarrow> epoch_state \<Rightarrow> admitted_grant res" where
  "authenticate_and_admit_authority_grant g issuer_keys verifier c w locked =
     and_then (resolve_and_authenticate_grant g issuer_keys verifier c w) (\<lambda>authenticated.
     owner_admit_authenticated locked g authenticated c (trusted_context c))"

definition lineage_root_checks :: "authority_grant list \<Rightarrow> verification_context \<Rightarrow> authority_process \<Rightarrow> unit res" where
  "lineage_root_checks lineage c w = (let root = hd lineage in
     and_then (checks [
       raise_when (lineage = []) AuthorityRevocationError ''lineage must be a non-empty immutable tuple'',
       context_validate c,
       valid_epoch (ag_epoch root) ''root epoch'',
       raise_when (ag_parent_grant_id root \<noteq> None) AuthorityRevocationError
         ''trusted lineage root must not have a parent'',
       raise_when (\<not> no_dup (map ag_grant_id lineage)) AuthorityRevocationError
         ''lineage grant IDs must be unique and acyclic'']) (\<lambda>_.
     and_then (epoch_registry_resolve (canonical_epoch_registry w) (trusted_context c)) (\<lambda>owner.
     and_then (owner_require_context owner (trusted_context c)) (\<lambda>_.
     and_then (root_registry_resolve (canonical_root_registry w) (trusted_context c) (ag_epoch root)) (\<lambda>anchor.
     and_then (raise_when (ag_grant_id root \<noteq> ra_root_grant_id anchor) AuthorityRevocationError
         ''lineage root does not match canonical root grant ID'') (\<lambda>_.
     and_then (grant_digest root) (\<lambda>root_digest.
     and_then (raise_when (root_digest \<noteq> ra_root_grant_digest anchor) AuthorityRevocationError
         ''lineage root does not match canonical root digest'') (\<lambda>_.
     attenuate_lineage lineage))))))))"

definition authenticate_lineage ::
  "authority_grant list \<Rightarrow> issuer_key_binding list option \<Rightarrow> verifier \<Rightarrow> verification_context
   \<Rightarrow> authenticated_grant list res" where
  "authenticate_lineage lineage issuer_keys verifier c = (case issuer_keys of
       None \<Rightarrow> Inl (revocation_error ''issuer key bindings unavailable'')
     | Some bindings \<Rightarrow> map_res (\<lambda>g. authenticate_authority_grant g (Some bindings) verifier c) lineage)"

definition authenticate_and_admit_authority_lineage ::
  "authority_grant list \<Rightarrow> issuer_key_binding list option \<Rightarrow> verifier \<Rightarrow> verification_context
   \<Rightarrow> authority_process \<Rightarrow> epoch_state \<Rightarrow> admitted_lineage res" where
  "authenticate_and_admit_authority_lineage lineage issuer_keys verifier c w locked =
     and_then (lineage_root_checks lineage c w) (\<lambda>_.
     and_then (authenticate_lineage lineage issuer_keys verifier c) (\<lambda>evidence.
     and_then (owner_admit_authenticated_lineage locked lineage evidence c (trusted_context c)) (\<lambda>admitted.
     and_then (lineage_digest (map eg_grant_digest admitted)) (\<lambda>digest.
     Inr \<lparr>el_root_grant_id = ag_grant_id (hd lineage), el_leaf_grant_id = ag_grant_id (last lineage),
       el_leaf_subject_id = ag_subject_id (last lineage), el_grant_ids = map ag_grant_id lineage,
       el_grant_digests = map eg_grant_digest admitted, el_lineage_digest = digest,
       el_trust_domain = vc_trust_domain c, el_tenant_id = vc_tenant_id c,
       el_organization_id = vc_organization_id c, el_mission_id = vc_mission_id c,
       el_epoch = eg_epoch (hd admitted)\<rparr>))))"

section \<open>What threads do to the process state\<close>

inductive authority_step :: "authority_process \<Rightarrow> authority_process \<Rightarrow> bool" where
  register_epoch: "authority_step w (snd (register_canonical_authority_epoch_state s w))"
| advance_epoch: "authority_step w (snd (advance_canonical_authority_epoch_state s w))"
| register_root: "authority_step w (snd (register_canonical_authority_lineage_root_anchor c n a w))"

inductive_cases authority_stepE: "authority_step w w'"

abbreviation authority_steps :: "authority_process \<Rightarrow> authority_process \<Rightarrow> bool" where
  "authority_steps \<equiv> authority_step\<^sup>*\<^sup>*"

definition empty_process :: authority_process where
  "empty_process = \<lparr>canonical_epoch_registry = Map.empty, canonical_root_registry = Map.empty\<rparr>"

text \<open>
  \<open>later_state s s'\<close>: \<open>s'\<close> may follow \<open>s\<close> in one context, with a higher epoch or with no
  revocation removed.
\<close>

definition later_state :: "epoch_state \<Rightarrow> epoch_state \<Rightarrow> bool" where
  "later_state s s' = (state_context s' = state_context s \<and> es_epoch s \<le> es_epoch s'
     \<and> (es_epoch s' = es_epoch s \<longrightarrow> set (es_revoked_grant_ids s) \<subseteq> set (es_revoked_grant_ids s')))"

lemma later_state_refl [simp]: "later_state s s"
  by (simp add: later_state_def)

lemma later_state_trans: "later_state a b \<Longrightarrow> later_state b c \<Longrightarrow> later_state a c"
  by (auto simp: later_state_def)

lemma epoch_state_validate_iff: "epoch_state_validate s = Inr () \<longleftrightarrow>
    \<not> text_invalid 256 (es_trust_domain s) \<and> \<not> text_invalid 256 (es_tenant_id s)
    \<and> \<not> text_invalid 256 (es_organization_id s) \<and> \<not> text_invalid 256 (es_mission_id s) \<and> 0 \<le> es_epoch s
    \<and> (\<forall>i\<in>set (es_revoked_grant_ids s). \<not> text_invalid 256 i) \<and> distinct (es_revoked_grant_ids s)"
  by (auto simp: epoch_state_validate_def revocation_text_def valid_epoch_def checks_map_ok)

lemma transition_ok: "validate_epoch_transition s t = Inr u \<longleftrightarrow>
    u = t \<and> epoch_state_validate s = Inr () \<and> epoch_state_validate t = Inr () \<and> later_state s t"
  by (auto simp: validate_epoch_transition_def later_state_def not_less)

lemma owner_advance_cases:
  obtains (accepted) "owner_advance t s = (Inr t, t)" "epoch_state_validate t = Inr ()" "later_state s t"
    | (refused) e where "owner_advance t s = (Inl e, s)"
  by (cases "validate_epoch_transition s t") (auto simp: owner_advance_def transition_ok)

lemma epoch_registry_register_cases:
  obtains (installed) "epoch_registry_register s m = (Inr s, m(state_context s \<mapsto> s))"
      "m (state_context s) = None" "epoch_state_validate s = Inr ()"
    | (refused) e where "epoch_registry_register s m = (Inl e, m)"
  by (cases "epoch_state_validate s"; cases "m (state_context s)")
     (auto simp: epoch_registry_register_def owner_new_def dom_def)

lemma epoch_registry_advance_cases:
  obtains (advanced) old where "epoch_registry_advance t m = (Inr t, m(state_context t \<mapsto> t))"
      "m (state_context t) = Some old" "epoch_state_validate t = Inr ()" "later_state old t"
    | (refused) e where "epoch_registry_advance t m = (Inl e, m)"
proof (cases "and_then (epoch_state_validate t) (\<lambda>_. epoch_registry_resolve m (state_context t))")
  case (Inl e)
  then show ?thesis by (intro refused) (simp add: epoch_registry_advance_def)
next
  case (Inr old)
  then have m: "m (state_context t) = Some old" and v: "epoch_state_validate t = Inr ()"
    by (auto simp: epoch_registry_resolve_def split: option.splits)
  show ?thesis
  proof (cases rule: owner_advance_cases [where t = t and s = old])
    case accepted
    with m v Inr show ?thesis by (intro advanced) (auto simp: epoch_registry_advance_def)
  next
    case (refused e)
    with m Inr show ?thesis by (intro that(2)) (auto simp: epoch_registry_advance_def fun_upd_idem)
  qed
qed

lemma root_registry_register_cases:
  obtains (installed) "root_registry_register tc n a s m = (Inr a, m((tc, n) \<mapsto> a))" "m (tc, n) = None"
      "root_anchor_validate a = Inr ()" "state_context s = tc" "es_epoch s = n"
    | (refused) e where "root_registry_register tc n a s m = (Inl e, m)"
  by (cases "root_registry_register tc n a s m")
     (auto simp: root_registry_register_def owner_require_context_def dom_def split: sum.splits)

text \<open>The invariant of the process state.\<close>

definition process_ok :: "authority_process \<Rightarrow> bool" where
  "process_ok w \<longleftrightarrow>
     (\<forall>tc s. canonical_epoch_registry w tc = Some s \<longrightarrow> state_context s = tc \<and> epoch_state_validate s = Inr ())
     \<and> (\<forall>tc n a. canonical_root_registry w (tc, n) = Some a \<longrightarrow> root_anchor_validate a = Inr ()
          \<and> (\<exists>s. canonical_epoch_registry w tc = Some s \<and> n \<le> es_epoch s))"

lemma process_ok_empty: "process_ok empty_process"
  by (simp add: process_ok_def empty_process_def)

text \<open>What a step may change of the two registries.\<close>

definition process_later :: "authority_process \<Rightarrow> authority_process \<Rightarrow> bool" where
  "process_later w w' \<longleftrightarrow>
     (\<forall>tc s. canonical_epoch_registry w tc = Some s \<longrightarrow>
        (\<exists>s'. canonical_epoch_registry w' tc = Some s' \<and> later_state s s'))
     \<and> canonical_root_registry w \<subseteq>\<^sub>m canonical_root_registry w'"

lemma process_later_refl [simp]: "process_later w w"
  by (auto simp: process_later_def)

lemma process_later_trans: "process_later a b \<Longrightarrow> process_later b c \<Longrightarrow> process_later a c"
  unfolding process_later_def by (meson later_state_trans map_le_trans)

lemma authority_step_later: "authority_step w w' \<Longrightarrow> process_later w w'"
proof (induction rule: authority_step.induct)
  case (register_epoch w s)
  show ?case
    by (cases rule: epoch_registry_register_cases [where s = s and m = "canonical_epoch_registry w"])
       (auto simp: register_canonical_authority_epoch_state_def process_later_def)
next
  case (advance_epoch w s)
  show ?case
    by (cases rule: epoch_registry_advance_cases [where t = s and m = "canonical_epoch_registry w"])
       (auto simp: advance_canonical_authority_epoch_state_def process_later_def)
next
  case (register_root w c n a)
  show ?case
  proof (cases "canonical_epoch_registry w (trusted_context c)")
    case (Some s)
    then show ?thesis
      by (cases rule: root_registry_register_cases
          [where tc = "trusted_context c" and n = n and a = a and s = s and m = "canonical_root_registry w"])
         (auto simp: register_canonical_authority_lineage_root_anchor_def epoch_registry_resolve_def
            process_later_def map_le_def dom_def split: sum.splits)
  qed (auto simp: register_canonical_authority_lineage_root_anchor_def epoch_registry_resolve_def
        split: sum.splits)
qed

lemma process_ok_install:
  assumes ok: "process_ok w" and s: "epoch_state_validate s = Inr ()"
    and later: "\<And>old. canonical_epoch_registry w (state_context s) = Some old \<Longrightarrow> later_state old s"
  shows "process_ok (w\<lparr>canonical_epoch_registry := (canonical_epoch_registry w)(state_context s \<mapsto> s)\<rparr>)"
proof -
  have "\<exists>s'. ((canonical_epoch_registry w)(state_context s \<mapsto> s)) tc = Some s' \<and> n \<le> es_epoch s'"
    if "canonical_root_registry w (tc, n) = Some a" for tc n a
  proof -
    from ok that obtain t where t: "canonical_epoch_registry w tc = Some t" "n \<le> es_epoch t"
      unfolding process_ok_def by blast
    then show ?thesis using later [of t] by (auto simp: later_state_def)
  qed
  with ok s show ?thesis by (simp add: process_ok_def)
qed

lemma authority_step_ok: "authority_step w w' \<Longrightarrow> process_ok w \<Longrightarrow> process_ok w'"
proof (induction rule: authority_step.induct)
  case (register_epoch w s)
  show ?case
    by (cases rule: epoch_registry_register_cases [where s = s and m = "canonical_epoch_registry w"])
       (use register_epoch process_ok_install [of w s] in
         \<open>auto simp: register_canonical_authority_epoch_state_def\<close>)
next
  case (advance_epoch w s)
  show ?case
    by (cases rule: epoch_registry_advance_cases [where t = s and m = "canonical_epoch_registry w"])
       (use advance_epoch process_ok_install [of w s] in
         \<open>auto simp: advance_canonical_authority_epoch_state_def\<close>)
next
  case (register_root w c n a)
  show ?case
  proof (cases "canonical_epoch_registry w (trusted_context c)")
    case (Some s)
    show ?thesis
      by (cases rule: root_registry_register_cases
          [where tc = "trusted_context c" and n = n and a = a and s = s and m = "canonical_root_registry w"])
         (use register_root Some in \<open>auto simp: register_canonical_authority_lineage_root_anchor_def
            epoch_registry_resolve_def process_ok_def split: sum.splits\<close>)
  qed (use register_root in \<open>auto simp: register_canonical_authority_lineage_root_anchor_def
        epoch_registry_resolve_def split: sum.splits\<close>)
qed

lemma authority_steps_ok: "authority_steps w w' \<Longrightarrow> process_ok w \<Longrightarrow> process_ok w'"
  by (induction rule: rtranclp_induct) (auto intro: authority_step_ok)

lemma authority_steps_later: "authority_steps w w' \<Longrightarrow> process_later w w'"
  by (induction rule: rtranclp_induct) (auto intro: process_later_trans authority_step_later)

lemma authority_steps_state:
  assumes "authority_steps w w'" "canonical_epoch_registry w tc = Some s"
  obtains s' where "canonical_epoch_registry w' tc = Some s'" "later_state s s'"
  using authority_steps_later [OF assms(1)] assms(2) unfolding process_later_def by blast

section \<open>What admission establishes\<close>

lemma admit_grant_ok: "admit_authenticated_grant g a c s = Inr e \<longleftrightarrow>
    authority_grant_signature_payload g (vc_trust_domain c) = Inr (au_signed_payload a)
    \<and> grant_digest g = Inr (au_grant_digest a)
    \<and> (au_grant_id a, au_issuer_subject_id a, au_subject_id a, au_trust_domain a, au_tenant_id a,
         au_organization_id a, au_mission_id a) = (ag_grant_id g, ag_issuer_subject_id g, ag_subject_id g,
         vc_trust_domain c, ag_tenant_id g, ag_organization_id g, ag_mission_id g)
    \<and> ag_epoch g = es_epoch s \<and> ag_grant_id g \<notin> set (es_revoked_grant_ids s)
    \<and> e = \<lparr>eg_grant_id = ag_grant_id g, eg_subject_id = ag_subject_id g, eg_trust_domain = vc_trust_domain c,
       eg_tenant_id = ag_tenant_id g, eg_organization_id = ag_organization_id g, eg_mission_id = ag_mission_id g,
       eg_epoch = ag_epoch g, eg_grant_digest = au_grant_digest a\<rparr>"
  by (auto simp: admit_authenticated_grant_def and_then_ok)

lemma admit_lineage_hop:
  assumes "owner_admit_authenticated_lineage s gs as c tc = Inr es" and "i < length gs"
  shows "admit_authenticated_grant (gs ! i) (as ! i) c s = Inr (es ! i)"
    and "length as = length gs" "length es = length gs" "state_context s = tc"
proof -
  from assms have len: "length as = length gs" and ctx: "state_context s = tc"
    and m: "map_res (\<lambda>(g, a). admit_authenticated_grant g a c s) (zip gs as) = Inr es"
    by (auto simp: owner_admit_authenticated_lineage_def owner_require_context_def and_then_ok)
  show "length as = length gs" "length es = length gs" "state_context s = tc"
    using len ctx map_res_length [OF m] by auto
  show "admit_authenticated_grant (gs ! i) (as ! i) c s = Inr (es ! i)"
    using map_res_nth [OF m, of i] len assms(2) by simp
qed

lemma root_checks_ok: "lineage_root_checks gs c w = Inr () \<longleftrightarrow>
    (\<exists>g hs owner a. gs = g # hs \<and> context_validate c = Inr () \<and> 0 \<le> ag_epoch g \<and> ag_parent_grant_id g = None
      \<and> distinct (map ag_grant_id gs) \<and> canonical_epoch_registry w (trusted_context c) = Some owner
      \<and> state_context owner = trusted_context c
      \<and> canonical_root_registry w (trusted_context c, ag_epoch g) = Some a
      \<and> ra_root_grant_id a = ag_grant_id g \<and> grant_digest g = Inr (ra_root_grant_digest a)
      \<and> attenuate_lineage gs = Inr ())"
  by (cases gs) (auto simp: lineage_root_checks_def Let_def and_then_ok epoch_registry_resolve_def
      root_registry_resolve_def owner_require_context_def valid_epoch_def split: option.splits)

lemma admit_lineage_ok:
  assumes "authenticate_and_admit_authority_lineage gs keys v c w s = Inr e"
  obtains as es where "lineage_root_checks gs c w = Inr ()"
    and "owner_admit_authenticated_lineage s gs as c (trusted_context c) = Inr es"
    and "\<And>i. i < length gs \<Longrightarrow> authenticate_authority_grant (gs ! i) keys v c = Inr (as ! i)"
    and "el_grant_digests e = map eg_grant_digest es" "el_grant_ids e = map ag_grant_id gs"
    and "lineage_digest (el_grant_digests e) = Inr (el_lineage_digest e)"
    and "el_epoch e = eg_epoch (hd es)" "el_leaf_subject_id e = ag_subject_id (last gs)"
    and "el_root_grant_id e = ag_grant_id (hd gs)" "el_leaf_grant_id e = ag_grant_id (last gs)"
    and "(el_trust_domain e, el_tenant_id e, el_organization_id e, el_mission_id e) = trusted_context c"
proof -
  from assms obtain as es d where *: "lineage_root_checks gs c w = Inr ()"
    "authenticate_lineage gs keys v c = Inr as" "owner_admit_authenticated_lineage s gs as c (trusted_context c) = Inr es"
    "lineage_digest (map eg_grant_digest es) = Inr d"
    and e: "e = \<lparr>el_root_grant_id = ag_grant_id (hd gs), el_leaf_grant_id = ag_grant_id (last gs),
       el_leaf_subject_id = ag_subject_id (last gs), el_grant_ids = map ag_grant_id gs,
       el_grant_digests = map eg_grant_digest es, el_lineage_digest = d,
       el_trust_domain = vc_trust_domain c, el_tenant_id = vc_tenant_id c,
       el_organization_id = vc_organization_id c, el_mission_id = vc_mission_id c, el_epoch = eg_epoch (hd es)\<rparr>"
    by (auto simp: authenticate_and_admit_authority_lineage_def and_then_ok)
  have "authenticate_authority_grant (gs ! i) keys v c = Inr (as ! i)" if "i < length gs" for i
    using *(2) that by (auto simp: authenticate_lineage_def dest: map_res_nth split: option.splits)
  with * e show thesis by (intro that [of as es]) (simp_all add: trusted_context_def)
qed

lemma admit_of_authenticated:
  assumes "authenticate_authority_grant g keys v c = Inr a"
    and "ag_epoch g = es_epoch s" "ag_grant_id g \<notin> set (es_revoked_grant_ids s)"
  shows "\<exists>e. admit_authenticated_grant g a c s = Inr e \<and> is_hex 64 (eg_grant_digest e)"
  using assms grant_digest_hex by (fastforce simp: authenticate_ok admit_grant_ok authenticated_evidence_def)

lemma lineage_admitted_iff: "(\<exists>e. authenticate_and_admit_authority_lineage gs keys v c w s = Inr e) \<longleftrightarrow>
    lineage_root_checks gs c w = Inr () \<and> keys \<noteq> None \<and> state_context s = trusted_context c
    \<and> (\<forall>g\<in>set gs. (\<exists>a. authenticate_authority_grant g keys v c = Inr a)
         \<and> ag_epoch g = es_epoch s \<and> ag_grant_id g \<notin> set (es_revoked_grant_ids s))"
    (is "?L \<longleftrightarrow> ?R")
proof
  assume ?L
  then obtain e as es where root: "lineage_root_checks gs c w = Inr ()"
    and adm: "owner_admit_authenticated_lineage s gs as c (trusted_context c) = Inr es"
    and auth: "\<And>i. i < length gs \<Longrightarrow> authenticate_authority_grant (gs ! i) keys v c = Inr (as ! i)"
    by (elim exE, elim admit_lineage_ok) blast
  have ne: "0 < length gs" using root by (auto simp: root_checks_ok)
  have hop: "ag_epoch g = es_epoch s \<and> ag_grant_id g \<notin> set (es_revoked_grant_ids s)" if "g \<in> set gs" for g
    using that admit_lineage_hop(1) [OF adm] by (auto simp: in_set_conv_nth admit_grant_ok)
  have "\<exists>a. authenticate_authority_grant g keys v c = Inr a" if "g \<in> set gs" for g
    using that auth by (metis in_set_conv_nth)
  moreover have "keys \<noteq> None" using auth [OF ne] by (auto simp: authenticate_ok)
  ultimately show ?R using root hop admit_lineage_hop(4) [OF adm ne] by blast
next
  assume R: ?R
  then obtain bs where keys: "keys = Some bs" by blast
  have "\<exists>as. map_res (\<lambda>g. authenticate_authority_grant g (Some bs) v c) gs = Inr as"
    using R unfolding keys by (intro map_res_total) auto
  then obtain as where as: "map_res (\<lambda>g. authenticate_authority_grant g (Some bs) v c) gs = Inr as" by blast
  have auth: "authenticate_authority_grant (gs ! i) (Some bs) v c = Inr (as ! i)" if "i < length gs" for i
    using map_res_nth [OF as that] .
  have adm: "\<exists>e. admit_authenticated_grant g a c s = Inr e \<and> is_hex 64 (eg_grant_digest e)"
    if mem: "(g, a) \<in> set (zip gs as)" for g a
  proof -
    from mem obtain i where i: "i < length gs" "g = gs ! i" "a = as ! i" by (auto simp: in_set_zip)
    then have "g \<in> set gs" by simp
    then show ?thesis using admit_of_authenticated [OF auth [OF i(1)], of s] R i by auto
  qed
  then have "\<exists>es. map_res (\<lambda>(g, a). admit_authenticated_grant g a c s) (zip gs as) = Inr es"
    by (intro map_res_total) auto
  then obtain es where es: "map_res (\<lambda>(g, a). admit_authenticated_grant g a c s) (zip gs as) = Inr es" by blast
  have len: "length es = length gs" "length as = length gs"
    using map_res_length [OF es] map_res_length [OF as] by auto
  have "is_hex 64 (eg_grant_digest (es ! i))" if "i < length es" for i
    using map_res_nth [OF es, of i] adm [of "gs ! i" "as ! i"] that len by (fastforce simp: in_set_zip)
  then have hex: "list_all (is_hex 64) (map eg_grant_digest es)" by (simp add: list_all_length)
  have "gs \<noteq> []" using R by (auto simp: root_checks_ok)
  moreover then have "es \<noteq> []" using len by auto
  ultimately show ?L
    using R es len hex by (simp add: authenticate_and_admit_authority_lineage_def authenticate_lineage_def keys as
        owner_admit_authenticated_lineage_def owner_require_context_def lineage_digest_def comp_def)
qed

lemma join_nul_inject:
  assumes "join [nul] xs = join [nul] ys" "xs \<noteq> []" "ys \<noteq> []"
    and "\<And>x. x \<in> set xs \<Longrightarrow> nul \<notin> set x" "\<And>y. y \<in> set ys \<Longrightarrow> nul \<notin> set y"
  shows "xs = ys"
  using assms
proof (induction xs arbitrary: ys)
  case (Cons x xs)
  obtain y ys' where ys: "ys = y # ys'" using Cons.prems(3) by (cases ys) auto
  have clean: "nul \<notin> set x" "nul \<notin> set y" using Cons.prems(4,5) ys by auto
  show ?case
  proof (cases "xs = [] \<or> ys' = []")
    case True
    have "nul \<in> set (join [nul] (a # b # cs))" for a b cs by simp
    moreover have "nul \<notin> set (join [nul] [a])" if "nul \<notin> set a" for a using that by simp
    ultimately have "xs = [] \<and> ys' = []" using True Cons.prems(1) clean unfolding ys
      by (cases xs; cases ys') (metis, metis+)
    then show ?thesis using Cons.prems(1) ys by simp
  next
    case False
    then have "x @ nul # join [nul] xs = y @ nul # join [nul] ys'"
      using Cons.prems(1) unfolding ys by (cases xs; cases ys') simp_all
    from split_at_nul [OF this clean] have "x = y" "join [nul] xs = join [nul] ys'" by auto
    moreover have "xs = ys'" using False Cons.prems(4,5) ys by (intro Cons.IH [OF calculation(2)]) auto
    ultimately show ?thesis using ys by simp
  qed
qed simp

lemma hex_no_nul: "is_hex n s \<Longrightarrow> nul \<notin> set s"
  by (auto simp: is_hex_def list_all_iff dest: hex_char_not_nul)

lemma admitted_digests:
  assumes "authenticate_and_admit_authority_lineage gs keys v c w s = Inr e"
  shows "map grant_digest gs = map Inr (el_grant_digests e)"
    and "el_lineage_digest e = sha256 (''CYBER-LION/AUTHORITY-LINEAGE/1.0.0'' @ [nul] @ join [nul] (el_grant_digests e))"
    and "list_all (is_hex 64) (el_grant_digests e)" "list_all (\<lambda>g. grant_validate g = Inr ()) gs"
    and "el_grant_digests e \<noteq> []"
proof -
  from assms obtain as es
    where adm: "owner_admit_authenticated_lineage s gs as c (trusted_context c) = Inr es"
      and e: "el_grant_digests e = map eg_grant_digest es" "lineage_digest (el_grant_digests e) = Inr (el_lineage_digest e)"
    by (elim admit_lineage_ok) blast
  show "el_lineage_digest e = sha256 (''CYBER-LION/AUTHORITY-LINEAGE/1.0.0'' @ [nul] @ join [nul] (el_grant_digests e))"
    "list_all (is_hex 64) (el_grant_digests e)" "el_grant_digests e \<noteq> []"
    using e(2) by (auto simp: lineage_digest_def)
  have hop: "grant_digest (gs ! i) = Inr (eg_grant_digest (es ! i))" if "i < length gs" for i
    using admit_lineage_hop(1) [OF adm that] by (auto simp: admit_grant_ok)
  have len: "length es = length gs"
  proof (cases gs)
    case Nil
    then show ?thesis using adm by (simp add: owner_admit_authenticated_lineage_def)
  next
    case (Cons g hs)
    then show ?thesis using admit_lineage_hop(3) [OF adm, of 0] by simp
  qed
  then show "map grant_digest gs = map Inr (el_grant_digests e)"
    using hop by (intro nth_equalityI) (simp_all add: e(1))
  show "list_all (\<lambda>g. grant_validate g = Inr ()) gs"
    using hop by (auto simp: list_all_length grant_digest_ok)
qed

lemma admitted_fields:
  assumes "authenticate_and_admit_authority_lineage gs keys v c w s = Inr e"
  shows "gs \<noteq> []" "el_epoch e = es_epoch s" "\<And>g. g \<in> set gs \<Longrightarrow> ag_epoch g = es_epoch s \<and> ag_mission_id g = vc_mission_id c"
    and "el_leaf_grant_id e = ag_grant_id (last gs)" "el_mission_id e = vc_mission_id c"
    and "grant_digest (last gs) = Inr (last (el_grant_digests e))"
proof -
  from assms obtain as es where root: "lineage_root_checks gs c w = Inr ()"
    and adm: "owner_admit_authenticated_lineage s gs as c (trusted_context c) = Inr es"
    and auth: "\<And>i. i < length gs \<Longrightarrow> authenticate_authority_grant (gs ! i) keys v c = Inr (as ! i)"
    and e: "el_epoch e = eg_epoch (hd es)" "el_leaf_grant_id e = ag_grant_id (last gs)"
      "(el_trust_domain e, el_tenant_id e, el_organization_id e, el_mission_id e) = trusted_context c"
    by (elim admit_lineage_ok) blast
  show ne: "gs \<noteq> []" using root by (auto simp: root_checks_ok)
  show hop: "ag_epoch g = es_epoch s \<and> ag_mission_id g = vc_mission_id c" if "g \<in> set gs" for g
    using that admit_lineage_hop(1) [OF adm] auth by (auto simp: in_set_conv_nth admit_grant_ok authenticate_ok)
  have "admit_authenticated_grant (hd gs) (as ! 0) c s = Inr (hd es)"
    using admit_lineage_hop(1,3) [OF adm, of 0] ne by (metis hd_conv_nth length_0_conv length_greater_0_conv)
  then show "el_epoch e = es_epoch s" using e(1) by (auto simp: admit_grant_ok)
  show "el_leaf_grant_id e = ag_grant_id (last gs)" "el_mission_id e = vc_mission_id c"
    using e(2,3) by (auto simp: trusted_context_def)
  show "grant_digest (last gs) = Inr (last (el_grant_digests e))"
    using admitted_digests(1,5) [OF assms] ne by (metis last_map)
qed

lemma observe_ok: "observe_canonical_authority_epoch_state c w = Inr o1 \<longleftrightarrow>
    (\<exists>s. context_validate c = Inr () \<and> canonical_epoch_registry w (trusted_context c) = Some s
      \<and> state_context s = trusted_context c \<and> epoch_state_validate s = Inr ()
      \<and> o1 = \<lparr>eo_trust_domain = es_trust_domain s, eo_tenant_id = es_tenant_id s,
         eo_organization_id = es_organization_id s, eo_mission_id = es_mission_id s, eo_epoch = es_epoch s,
         eo_revoked_grant_ids = es_revoked_grant_ids s,
         eo_state_digest = authority_epoch_observation_digest (es_trust_domain s) (es_tenant_id s)
           (es_organization_id s) (es_mission_id s) (es_epoch s) (es_revoked_grant_ids s)\<rparr>)"
  by (auto simp: observe_canonical_authority_epoch_state_def Let_def and_then_ok epoch_registry_resolve_def
      observation_validate_def epoch_state_validate_iff checks_map_ok revocation_text_def valid_epoch_def
      authority_epoch_observation_digest_def split: option.splits)

text \<open>The snapshot of an owner state.\<close>

definition observation_of :: "epoch_state \<Rightarrow> epoch_observation" where
  "observation_of s = \<lparr>eo_trust_domain = es_trust_domain s, eo_tenant_id = es_tenant_id s,
     eo_organization_id = es_organization_id s, eo_mission_id = es_mission_id s, eo_epoch = es_epoch s,
     eo_revoked_grant_ids = es_revoked_grant_ids s,
     eo_state_digest = authority_epoch_observation_digest (es_trust_domain s) (es_tenant_id s)
       (es_organization_id s) (es_mission_id s) (es_epoch s) (es_revoked_grant_ids s)\<rparr>"

lemma int_text_no_nul: "nul \<notin> set (int_text i)"
proof -
  have "\<not> is_digit nul" by code_simp
  then have "nul \<notin> set (nat_text n)" for n
    using nat_text_digits [of n] unfolding list_all_iff by blast
  moreover have "nul \<noteq> CHR ''-''" by (simp add: nul_def)
  ultimately show ?thesis by (simp add: int_text_def)
qed

lemma int_text_eq: "int_text i = int_text j \<Longrightarrow> i = j"
  using int_text_inject [of i "[]" j "[]"] by (simp add: no_digit_head_def)

lemma observation_payload_inject:
  assumes "epoch_state_validate s = Inr ()" "epoch_state_validate t = Inr ()"
    and eq: "epoch_observation_payload (es_trust_domain s) (es_tenant_id s) (es_organization_id s) (es_mission_id s)
        (es_epoch s) (es_revoked_grant_ids s)
      = epoch_observation_payload (es_trust_domain t) (es_tenant_id t) (es_organization_id t) (es_mission_id t)
        (es_epoch t) (es_revoked_grant_ids t)"
  shows "s = t"
proof -
  let ?vs = "\<lambda>s. [es_trust_domain s, es_tenant_id s, es_organization_id s, es_mission_id s, int_text (es_epoch s)]
    @ es_revoked_grant_ids s"
  have clean: "nul \<notin> set x" if "epoch_state_validate s = Inr ()" "x \<in> set (map utf8 (?vs s))" for s x
    using that int_text_no_nul by (auto simp: epoch_state_validate_iff text_invalid_def)
  have "join [nul] (map utf8 (?vs s)) = join [nul] (map utf8 (?vs t))"
    using eq by (simp only: epoch_observation_payload_def append_same_eq same_append_eq)
  then have "map utf8 (?vs s) = map utf8 (?vs t)"
    by (rule join_nul_inject) (use clean assms in blast)+
  then have "?vs s = ?vs t" by (simp add: inj_map_eq_map inj_def)
  then show ?thesis by (auto dest: int_text_eq intro: epoch_state.equality)
qed

section \<open>The registries are one-shot\<close>

interpretation epochs: one_shot_registry epoch_registry_register "\<lambda>r. \<not> isl r" state_context "\<lambda>s. s" "\<lambda>m. m"
proof
  fix q :: epoch_state and s r s'
  assume "epoch_registry_register q s = (r, s')" "\<not> isl r"
  then show "s (state_context q) = None \<and> s' = s(state_context q \<mapsto> q)"
    by (cases rule: epoch_registry_register_cases [where s = q and m = s]) auto
next
  fix q :: epoch_state and s r s'
  assume "epoch_registry_register q s = (r, s')" "\<not> \<not> isl r"
  then show "s' = s"
    by (cases rule: epoch_registry_register_cases [where s = q and m = s]) auto
qed

text \<open>A request for a root anchor: context, epoch, anchor and the owner's current state.\<close>

type_synonym root_request = "authority_context \<times> int \<times> root_anchor \<times> epoch_state"

definition root_request :: "root_request \<Rightarrow> (root_registry, root_anchor) op" where
  "root_request q = (case q of (tc, n, a, s) \<Rightarrow> root_registry_register tc n a s)"

interpretation roots: one_shot_registry root_request "\<lambda>r. \<not> isl r" "\<lambda>(tc, n, a, s). (tc, n)"
  "\<lambda>(tc, n, a, s). a" "\<lambda>m. m"
proof
  fix q :: root_request and m r m'
  assume "root_request q m = (r, m')" "\<not> isl r"
  then show "m ((\<lambda>(tc, n, a, s). (tc, n)) q) = None
      \<and> m' = m((\<lambda>(tc, n, a, s). (tc, n)) q \<mapsto> (\<lambda>(tc, n, a, s). a) q)"
    by (cases q, cases rule: root_registry_register_cases
        [where tc = "fst q" and n = "fst (snd q)" and a = "fst (snd (snd q))" and s = "snd (snd (snd q))" and m = m])
       (auto simp: root_request_def)
next
  fix q :: root_request and m r m'
  assume "root_request q m = (r, m')" "\<not> \<not> isl r"
  then show "m' = m"
    by (cases q, cases rule: root_registry_register_cases
        [where tc = "fst q" and n = "fst (snd q)" and a = "fst (snd (snd q))" and s = "snd (snd (snd q))" and m = m])
       (auto simp: root_request_def)
qed

section \<open>Example process\<close>

definition example_state :: epoch_state where
  "example_state = \<lparr>es_trust_domain = ''lion.example'', es_tenant_id = ''tenant'', es_organization_id = ''org'',
     es_mission_id = ''m1'', es_epoch = 3, es_revoked_grant_ids = [''old'']\<rparr>"

definition example_anchor :: root_anchor where
  "example_anchor = \<lparr>ra_root_grant_id = ''root'', ra_root_grant_digest = sha256 (grant_preimage root_grant)\<rparr>"

definition example_process :: authority_process where
  "example_process = \<lparr>canonical_epoch_registry = [state_context example_state \<mapsto> example_state],
     canonical_root_registry = [(state_context example_state, 3) \<mapsto> example_anchor]\<rparr>"

lemma example_context_eq: "trusted_context example_context = state_context example_state"
  by (simp add: trusted_context_def example_context_def state_context_def example_state_def)

lemma example_state_valid: "epoch_state_validate example_state = Inr ()"
  by code_simp

lemma example_reachable: "authority_steps empty_process example_process"
proof -
  let ?w = "snd (register_canonical_authority_epoch_state example_state empty_process)"
  have w: "?w = \<lparr>canonical_epoch_registry = [state_context example_state \<mapsto> example_state],
      canonical_root_registry = Map.empty\<rparr>"
    by (simp add: register_canonical_authority_epoch_state_def epoch_registry_register_def owner_new_def
        example_state_valid empty_process_def)
  have "root_anchor_validate example_anchor = Inr ()"
    by (simp add: root_anchor_validate_def example_anchor_def revocation_text_def text_invalid_def py_space_def nul_def)
  then have "snd (register_canonical_authority_lineage_root_anchor example_context 3 example_anchor ?w) = example_process"
    unfolding w by (simp add: register_canonical_authority_lineage_root_anchor_def example_context_valid valid_epoch_def
        epoch_registry_resolve_def example_context_eq root_registry_register_def owner_require_context_def
        example_process_def) (simp add: example_state_def)
  moreover have "authority_step empty_process ?w" by (rule register_epoch)
  ultimately show ?thesis
    using register_root [of ?w example_context 3 example_anchor]
    by (metis r_into_rtranclp rtranclp.rtrancl_into_rtrancl)
qed

lemma example_root_checks: "lineage_root_checks [root_grant, leaf_grant] example_context example_process = Inr ()"
proof -
  have "grant_digest root_grant = Inr (ra_root_grant_digest example_anchor)"
    by (simp add: grant_digest_ok example_grants_valid example_anchor_def grant_preimage_def)
  then show ?thesis
    by (simp add: root_checks_ok example_context_valid example_context_eq example_process_def example_attenuation)
       (simp add: root_grant_def leaf_grant_def example_anchor_def)
qed

lemma example_admitted: "\<exists>e. authenticate_and_admit_authority_lineage [root_grant, leaf_grant] (Some example_keys)
    example_verifier example_context example_process example_state = Inr e"
  unfolding lineage_admitted_iff
  by (simp add: example_root_checks example_context_eq example_authenticates)
     (simp add: example_state_def root_grant_def leaf_grant_def)

section \<open>Properties\<close>

text \<open>C14. However the threads of the process interleave registrations and advances, the epoch of a
  registered context never decreases, and within one epoch no revocation is ever taken back.\<close>

theorem epoch_never_regresses:
  assumes "authority_steps w w'" and "canonical_epoch_registry w tc = Some s"
  shows "\<exists>s'. canonical_epoch_registry w' tc = Some s' \<and> es_epoch s \<le> es_epoch s'
    \<and> (es_epoch s' = es_epoch s \<longrightarrow> set (es_revoked_grant_ids s) \<subseteq> set (es_revoked_grant_ids s'))"
  using authority_steps_state [OF assms] by (metis later_state_def)

theorem epoch_never_regresses_witness:
  "\<exists>s'. canonical_epoch_registry (snd (advance_canonical_authority_epoch_state
       (example_state\<lparr>es_revoked_grant_ids := [''old'', ''leaf'']\<rparr>) example_process)) (state_context example_state) = Some s'
     \<and> 3 \<le> es_epoch s'"
proof -
  have "canonical_epoch_registry example_process (state_context example_state) = Some example_state"
    by (simp add: example_process_def)
  from epoch_never_regresses [OF r_into_rtranclp [where r = authority_step, OF advance_epoch] this] show ?thesis
    by (auto simp: example_state_def)
qed

text \<open>Every state the process reaches from start-up is well formed: each registered state is valid
  and stored under its own context, and each root anchor is valid and belongs to a registered
  context, at an epoch that context has reached.\<close>

theorem process_invariant:
  assumes "authority_steps empty_process w"
  shows "process_ok w"
  using authority_steps_ok [OF assms process_ok_empty] .

theorem process_invariant_witness: "process_ok example_process"
  using process_invariant [OF example_reachable] .

text \<open>C2. Revocation is final: once a grant id is revoked at an epoch not below the grant's, no later
  owner state admits the grant, alone or as a hop of a lineage, whatever the keys, the verifier and
  the process state at resolution.\<close>

theorem revocation_final:
  assumes steps: "authority_steps w w'"
    and revoked: "canonical_epoch_registry w (trusted_context c) = Some s"
      "ag_grant_id g \<in> set (es_revoked_grant_ids s)" "ag_epoch g \<le> es_epoch s"
    and locked: "canonical_epoch_registry w' (trusted_context c) = Some s'" and "g \<in> set gs"
  shows "(\<exists>x. authenticate_and_admit_authority_grant g keys v c r s' = Inl x)
    \<and> (\<exists>x. authenticate_and_admit_authority_lineage gs keys v c r s' = Inl x)"
proof -
  have "later_state s s'" using authority_steps_state [OF steps revoked(1)] locked by auto
  then have out: "\<not> (ag_epoch g = es_epoch s' \<and> ag_grant_id g \<notin> set (es_revoked_grant_ids s'))"
    using revoked by (auto simp: later_state_def)
  have "authenticate_and_admit_authority_grant g keys v c r s' \<noteq> Inr e" for e
    using out by (auto simp: authenticate_and_admit_authority_grant_def owner_admit_authenticated_def and_then_ok
        admit_grant_ok)
  moreover have "authenticate_and_admit_authority_lineage gs keys v c r s' \<noteq> Inr e" for e
    using lineage_admitted_iff [of gs keys v c r s'] out \<open>g \<in> set gs\<close> by blast
  ultimately show ?thesis
    by (metis sum.exhaust)
qed

theorem revocation_final_witness:
  "\<exists>x. authenticate_and_admit_authority_lineage [root_grant, leaf_grant\<lparr>ag_grant_id := ''old''\<rparr>]
     (Some example_keys) example_verifier example_context example_process example_state = Inl x"
proof -
  have "canonical_epoch_registry example_process (trusted_context example_context) = Some example_state"
    by (simp add: example_process_def example_context_eq)
  from conjunct2 [OF revocation_final [OF rtranclp.rtrancl_refl this _ _ this,
        of "leaf_grant\<lparr>ag_grant_id := ''old''\<rparr>"]] show ?thesis
    by (simp add: example_state_def leaf_grant_def root_grant_def)
qed

text \<open>A lineage is admitted exactly when its root checks pass at resolution and, at the moment of
  the lock, the owner is the one of the trusted context and every hop authenticates, carries the
  owner's current epoch and is not revoked there; nothing else makes admission fail.\<close>

theorem lineage_admission_exact:
  "(\<exists>e. authenticate_and_admit_authority_lineage gs (Some keys) v c w locked = Inr e) \<longleftrightarrow>
    lineage_root_checks gs c w = Inr () \<and> state_context locked = trusted_context c
    \<and> list_all (\<lambda>g. (\<exists>a. authenticate_authority_grant g (Some keys) v c = Inr a)
         \<and> ag_epoch g = es_epoch locked \<and> ag_grant_id g \<notin> set (es_revoked_grant_ids locked)) gs"
  by (simp add: lineage_admitted_iff list_all_iff)

text \<open>C15. What an admitted lineage carries: its root is the anchored grant of the context, to the
  digest; no delegation depth beyond the root's budget is used; every hop is attenuated with
  respect to the root; and the evidence names the root, the leaf and the epoch the owner had under
  the lock.\<close>

theorem lineage_admission_guarantee:
  assumes "authenticate_and_admit_authority_lineage gs keys v c w locked = Inr e"
  shows "\<exists>anchor. canonical_root_registry w (trusted_context c, es_epoch locked) = Some anchor
      \<and> ra_root_grant_id anchor = el_root_grant_id e \<and> grant_digest (hd gs) = Inr (ra_root_grant_digest anchor)
      \<and> (\<forall>g\<in>set gs. attenuates (hd gs) g)
      \<and> int (length gs) \<le> 1 + ag_delegation_depth_budget (hd gs)
      \<and> el_epoch e = es_epoch locked \<and> el_grant_ids e = map ag_grant_id gs \<and> distinct (el_grant_ids e)
      \<and> el_leaf_subject_id e = ag_subject_id (last gs)"
proof -
  from assms have root: "lineage_root_checks gs c w = Inr ()"
    and e: "el_grant_ids e = map ag_grant_id gs" "el_leaf_subject_id e = ag_subject_id (last gs)"
      "el_root_grant_id e = ag_grant_id (hd gs)"
    by (elim admit_lineage_ok, blast)+
  from root obtain g hs a where gs: "gs = g # hs" and ids: "distinct (map ag_grant_id gs)"
    and a: "canonical_root_registry w (trusted_context c, ag_epoch g) = Some a" "ra_root_grant_id a = ag_grant_id g"
      "grant_digest g = Inr (ra_root_grant_digest a)"
    and att: "attenuate_lineage gs = Inr ()"
    by (auto simp: root_checks_ok)
  have valid: "grant_validate g = Inr ()" using a(3) by (simp add: grant_digest_ok)
  have "attenuates g h" if "h \<in> set gs" for h
    using that att attenuates_refl [OF valid] by (auto simp: gs attenuate_lineage_iff intro: att.chain_from_head)
  moreover have "int (length gs) \<le> 1 + ag_delegation_depth_budget g"
    using att_budget.chain_length [of g hs] grant_validateD(10) [OF valid] att
    by (simp add: gs attenuate_lineage_iff)
  moreover have "ag_epoch g = es_epoch locked" "el_epoch e = es_epoch locked"
    using admitted_fields(2,3) [OF assms] by (auto simp: gs)
  ultimately show ?thesis
    using a e ids by (intro exI [of _ a]) (auto simp: gs)
qed

theorem lineage_admission_guarantee_witness:
  "\<exists>e. authenticate_and_admit_authority_lineage [root_grant, leaf_grant] (Some example_keys)
      example_verifier example_context example_process example_state = Inr e
    \<and> el_epoch e = 3 \<and> el_leaf_subject_id e = ''worker'' \<and> attenuates root_grant leaf_grant"
proof -
  obtain e where e: "authenticate_and_admit_authority_lineage [root_grant, leaf_grant] (Some example_keys)
      example_verifier example_context example_process example_state = Inr e"
    using example_admitted by blast
  from lineage_admission_guarantee [OF e] e show ?thesis
    by (auto simp: example_state_def leaf_grant_def)
qed

text \<open>The lineage digest of the evidence identifies the admitted grants: two admissions with the
  same lineage digest admitted the same list of grants, unless SHA-256 collides on the two lists of
  grant digests or on the bytes of two grants at the same position.\<close>

theorem lineage_digest_binds:
  assumes "authenticate_and_admit_authority_lineage gs keys v c w s = Inr e"
    and "authenticate_and_admit_authority_lineage hs keys' v' c' w' s' = Inr f"
    and "el_lineage_digest e = el_lineage_digest f"
  shows "gs = hs
    \<or> collides (''CYBER-LION/AUTHORITY-LINEAGE/1.0.0'' @ [nul] @ join [nul] (el_grant_digests e))
        (''CYBER-LION/AUTHORITY-LINEAGE/1.0.0'' @ [nul] @ join [nul] (el_grant_digests f))
    \<or> (\<exists>i < length gs. collides (grant_preimage (gs ! i)) (grant_preimage (hs ! i)))"
proof -
  note E = admitted_digests [OF assms(1)] and F = admitted_digests [OF assms(2)]
  show ?thesis
  proof (cases "join [nul] (el_grant_digests e) = join [nul] (el_grant_digests f)")
    case True
    have "el_grant_digests e = el_grant_digests f"
      by (rule join_nul_inject [OF True]) (use E F in \<open>auto simp: list_all_iff dest: hex_no_nul\<close>)
    then have "map grant_digest gs = map grant_digest hs" using E(1) F(1) by simp
    from same_digests_same_grants [OF this E(1)] show ?thesis by blast
  next
    case False
    with E F assms(3) show ?thesis by (auto simp: collides_def)
  qed
qed

theorem lineage_digest_binds_witness:
  "\<exists>e. authenticate_and_admit_authority_lineage [root_grant, leaf_grant] (Some example_keys)
      example_verifier example_context example_process example_state = Inr e
    \<and> (\<forall>hs. authenticate_and_admit_authority_lineage hs (Some example_keys) example_verifier example_context
          example_process example_state = Inr e \<longrightarrow>
        hs = [root_grant, leaf_grant] \<or> (\<exists>i < 2. collides (grant_preimage ([root_grant, leaf_grant] ! i)) (grant_preimage (hs ! i))))"
proof -
  obtain e where e: "authenticate_and_admit_authority_lineage [root_grant, leaf_grant] (Some example_keys)
      example_verifier example_context example_process example_state = Inr e"
    using example_admitted by blast
  have "hs = [root_grant, leaf_grant] \<or> (\<exists>i < 2. collides (grant_preimage ([root_grant, leaf_grant] ! i)) (grant_preimage (hs ! i)))"
    if "authenticate_and_admit_authority_lineage hs (Some example_keys) example_verifier example_context
          example_process example_state = Inr e" for hs
    using lineage_digest_binds [OF e that refl] by (simp add: collides_def numeral_2_eq_2) blast
  with e show ?thesis by blast
qed

text \<open>Observation is exact and live: in every reachable process state, a valid context that is
  registered is observed, the snapshot repeats the owner's state field by field and passes its own
  validation, and an unregistered context is refused.\<close>

theorem observation_exact:
  assumes "authority_steps empty_process w" and "context_validate c = Inr ()"
  shows "case canonical_epoch_registry w (trusted_context c) of
      None \<Rightarrow> observe_canonical_authority_epoch_state c w
        = Inl (revocation_error ''canonical authority epoch context is not registered'')
    | Some s \<Rightarrow> (\<exists>o1. observe_canonical_authority_epoch_state c w = Inr o1 \<and> observation_validate o1 = Inr ()
        \<and> (eo_trust_domain o1, eo_tenant_id o1, eo_organization_id o1, eo_mission_id o1) = trusted_context c
        \<and> eo_epoch o1 = es_epoch s \<and> eo_revoked_grant_ids o1 = es_revoked_grant_ids s)"
proof (cases "canonical_epoch_registry w (trusted_context c)")
  case None
  then show ?thesis
    using assms(2) by (simp add: observe_canonical_authority_epoch_state_def epoch_registry_resolve_def)
next
  case (Some s)
  have "process_ok w" using authority_steps_ok [OF assms(1) process_ok_empty] .
  with Some have s: "state_context s = trusted_context c" "epoch_state_validate s = Inr ()"
    unfolding process_ok_def by blast+
  with Some assms(2) obtain o1 where o1: "observe_canonical_authority_epoch_state c w = Inr o1"
    unfolding observe_ok by blast
  then have "observation_validate o1 = Inr ()"
    by (auto simp: observe_canonical_authority_epoch_state_def Let_def and_then_ok)
  with o1 Some s show ?thesis by (auto simp: observe_ok state_context_def)
qed

theorem observation_exact_witness:
  "\<exists>o1. observe_canonical_authority_epoch_state example_context example_process = Inr o1
     \<and> eo_epoch o1 = 3 \<and> eo_revoked_grant_ids o1 = [''old'']"
  using observation_exact [OF example_reachable example_context_valid]
  by (auto simp: example_process_def example_context_eq example_state_def)

text \<open>The state digest of an observation identifies the observed state: equal digests mean the same
  context, epoch and revocation list, unless SHA-256 collides on the two payloads.\<close>

theorem observation_digest_binds:
  assumes "observe_canonical_authority_epoch_state c w = Inr o1"
    and "observe_canonical_authority_epoch_state c' w' = Inr o2"
    and "eo_state_digest o1 = eo_state_digest o2"
  shows "o1 = o2 \<or> collides
      (epoch_observation_payload (eo_trust_domain o1) (eo_tenant_id o1) (eo_organization_id o1) (eo_mission_id o1)
        (eo_epoch o1) (eo_revoked_grant_ids o1))
      (epoch_observation_payload (eo_trust_domain o2) (eo_tenant_id o2) (eo_organization_id o2) (eo_mission_id o2)
        (eo_epoch o2) (eo_revoked_grant_ids o2))"
proof -
  obtain s where s: "epoch_state_validate s = Inr ()" and o1: "o1 = observation_of s"
    using assms(1) by (auto simp: observe_ok observation_of_def)
  obtain t where t: "epoch_state_validate t = Inr ()" and o2: "o2 = observation_of t"
    using assms(2) by (auto simp: observe_ok observation_of_def)
  from observation_payload_inject [OF s t] assms(3) show ?thesis
    unfolding o1 o2 by (auto simp: observation_of_def authority_epoch_observation_digest_def collides_def)
qed

theorem observation_digest_binds_witness:
  "\<exists>o1. observe_canonical_authority_epoch_state example_context example_process = Inr o1
     \<and> (\<forall>c w o2. observe_canonical_authority_epoch_state c w = Inr o2 \<and> eo_state_digest o2 = eo_state_digest o1
         \<and> eo_epoch o2 \<noteq> 3 \<longrightarrow> (\<exists>x y. collides x y \<and> sha256 x = eo_state_digest o1))"
proof -
  have "observe_canonical_authority_epoch_state example_context example_process = Inr (observation_of example_state)"
    by (simp add: observe_ok observation_of_def example_context_valid example_context_eq example_process_def
        example_state_valid)
  note o1 = this
  have "\<exists>x y. collides x y \<and> sha256 x = eo_state_digest (observation_of example_state)"
    if "observe_canonical_authority_epoch_state c w = Inr o2"
      "eo_state_digest o2 = eo_state_digest (observation_of example_state)" "eo_epoch o2 \<noteq> 3" for c w o2
  proof -
    from that(3) have "o2 \<noteq> observation_of example_state" by (auto simp: observation_of_def example_state_def)
    moreover have "eo_state_digest o2 = sha256 (epoch_observation_payload (eo_trust_domain o2) (eo_tenant_id o2)
        (eo_organization_id o2) (eo_mission_id o2) (eo_epoch o2) (eo_revoked_grant_ids o2))"
      using that(1) by (auto simp: observe_ok authority_epoch_observation_digest_def)
    ultimately show ?thesis using observation_digest_binds [OF that(1) o1 that(2)] that(2) by auto
  qed
  with o1 show ?thesis by blast
qed

text \<open>Registration is one-shot: in any sequence of registration requests against an epoch registry,
  of two requests for one authority context at most one succeeds; an installed owner and an
  installed root anchor are never replaced by later requests.\<close>

theorem registration_one_shot:
  assumes "i < j" and "j < length qs" and "state_context (qs ! i) = state_context (qs ! j)"
  shows "(isl (fst (run_ops (map epoch_registry_register qs) m) ! i)
       \<or> isl (fst (run_ops (map epoch_registry_register qs) m) ! j))
    \<and> m \<subseteq>\<^sub>m snd (run_ops (map epoch_registry_register qs) m)
    \<and> (\<forall>rs n. n \<subseteq>\<^sub>m snd (run_ops (map root_request rs) n))"
  using epochs.at_most_once [OF assms, of m] epochs.run_keeps [of m] roots.run_keeps
  by (auto simp: map_le_def dom_def)

theorem registration_one_shot_witness:
  "isl (fst (run_ops (map epoch_registry_register [example_state, example_state\<lparr>es_epoch := 9\<rparr>]) Map.empty) ! 0)
   \<or> isl (fst (run_ops (map epoch_registry_register [example_state, example_state\<lparr>es_epoch := 9\<rparr>]) Map.empty) ! 1)"
  using registration_one_shot [of 0 1 "[example_state, example_state\<lparr>es_epoch := 9\<rparr>]" Map.empty]
  by (simp add: state_context_def)

text \<open>Some grants cannot be revoked: revocation lists accept ids of at most 256 characters, a grant
  id has no such bound. For a grant with a longer id, no valid owner state of its epoch excludes
  it: admission succeeds exactly when authentication does. Only a new epoch ends such a grant.\<close>

theorem long_grant_id_irrevocable:
  assumes "256 < length (ag_grant_id g)" and "epoch_state_validate s = Inr ()"
    and "es_epoch s = ag_epoch g" and "state_context s = trusted_context c"
  shows "(\<exists>e. authenticate_and_admit_authority_grant g keys v c w s = Inr e)
    \<longleftrightarrow> (\<exists>a. resolve_and_authenticate_grant g keys v c w = Inr a)"
proof -
  have "ag_grant_id g \<notin> set (es_revoked_grant_ids s)"
    using assms(1,2) by (auto simp: epoch_state_validate_iff text_invalid_def)
  then have "\<exists>e. admit_authenticated_grant g a c s = Inr e" if "resolve_and_authenticate_grant g keys v c w = Inr a" for a
    using that admit_of_authenticated [of g keys v c a s] assms(3)
    by (auto simp: resolve_and_authenticate_grant_def and_then_ok)
  then show ?thesis
    using assms(4) by (auto simp: authenticate_and_admit_authority_grant_def owner_admit_authenticated_def
        owner_require_context_def and_then_ok)
qed

theorem long_grant_id_irrevocable_witness:
  "\<exists>e. authenticate_and_admit_authority_grant (root_grant\<lparr>ag_grant_id := replicate 257 CHR ''x''\<rparr>) (Some example_keys)
     example_verifier example_context example_process (example_state\<lparr>es_revoked_grant_ids := [''root'', ''leaf'']\<rparr>) = Inr e"
proof -
  let ?g = "root_grant\<lparr>ag_grant_id := replicate 257 CHR ''x''\<rparr>"
  let ?s = "example_state\<lparr>es_revoked_grant_ids := [''root'', ''leaf'']\<rparr>"
  have valid: "grant_validate ?g = Inr ()" and s: "epoch_state_validate ?s = Inr ()" by code_simp+
  obtain p d where "authority_grant_signature_payload ?g (vc_trust_domain example_context) = Inr p" "grant_digest ?g = Inr d"
    using valid example_payload(1) by (simp add: signature_payload_ok grant_digest_ok)
  moreover have "filter (eligible ?g example_context) example_keys = [hd example_keys]"
    by (simp add: example_keys_def eligible_def root_grant_def example_context_def)
  moreover have "list_all (\<lambda>b. binding_validate b = Inr ()) example_keys" by code_simp
  ultimately have "\<exists>a. authenticate_authority_grant ?g (Some example_keys) example_verifier example_context = Inr a"
    using valid by (simp add: authenticate_ok example_context_valid list_all_iff)
      (simp add: example_keys_def example_verifier_def root_grant_def example_context_def)
  then have "\<exists>a. resolve_and_authenticate_grant ?g (Some example_keys) example_verifier example_context example_process = Inr a"
    by (simp add: resolve_and_authenticate_grant_def example_context_valid epoch_registry_resolve_def example_context_eq
        example_process_def owner_require_context_def)
  then show ?thesis
    using long_grant_id_irrevocable [OF _ s, of ?g example_context] example_context_eq
    by (simp add: root_grant_def example_state_def state_context_def)
qed

end
