(* ===== verification/Authority_Source.thy ===== *)
theory Authority_Source
  imports Authority_Grant
begin

text \<open>
  The trusted authority source of enterprise/authority_source.py: exact lookup keys for pull
  requests and repository refs, the canonical resource tokens, lineage records and their
  validation, and exact resolution. \<open>validate_branch_name\<close> is the one function of
  contracts/repository_maintenance_sandbox.py it calls.

  The backend of a source is the abstract method \<open>_lookup_exact\<close>: an argument here, from a key to
  its candidate records or an exception.
\<close>

section \<open>Lookup keys\<close>

abbreviation source_error :: "string \<Rightarrow> exn" where
  "source_error m \<equiv> Exn AuthoritySourceError m"

definition source_text :: "string \<Rightarrow> string \<Rightarrow> nat \<Rightarrow> unit res" where
  "source_text value field_name limit =
     raise_when (text_invalid limit value) AuthoritySourceError (field_name @ '' is invalid'')"

definition source_sha :: "string \<Rightarrow> string \<Rightarrow> unit res" where
  "source_sha value field_name = checks [
     source_text value field_name 40,
     raise_when (\<not> is_hex 40 value) AuthoritySourceError (field_name @ '' must be a full lowercase git SHA'')]"

record lookup_key =
  lk_repository :: string
  lk_pr_number :: int
  lk_base_sha :: string
  lk_head_sha :: string
  lk_mission_id :: string
  lk_grant_id :: string

definition lookup_key_validate :: "lookup_key \<Rightarrow> unit res" where
  "lookup_key_validate k = checks [
     source_text (lk_repository k) ''repository'' 512,
     raise_when (lk_pr_number k \<le> 0) AuthoritySourceError ''pr_number must be a positive integer'',
     source_sha (lk_base_sha k) ''base_sha'',
     source_sha (lk_head_sha k) ''head_sha'',
     source_text (lk_mission_id k) ''mission_id'' 512,
     source_text (lk_grant_id k) ''grant_id'' 512]"

definition lookup_key_binding :: "lookup_key \<Rightarrow> (string \<times> int \<times> string \<times> string \<times> string \<times> string) res" where
  "lookup_key_binding k = and_then (lookup_key_validate k) (\<lambda>_. Inr (lk_repository k, lk_pr_number k,
     lk_base_sha k, lk_head_sha k, lk_mission_id k, lk_grant_id k))"

definition MAINTENANCE_BRANCH_PREFIXES :: "string list" where
  "MAINTENANCE_BRANCH_PREFIXES = [''cyber-lion/'', ''docs/'', ''experiment/'', ''integration/'', ''mission/'',
     ''reconcile/'', ''verification/'']"

definition branch_char :: "char \<Rightarrow> bool" where
  "branch_char c = (let n = (of_char c :: nat) in
     65 \<le> n \<and> n \<le> 90 \<or> 97 \<le> n \<and> n \<le> 122 \<or> 48 \<le> n \<and> n \<le> 57 \<or> c \<in> set ''._/-'')"

text \<open>\<open>_BRANCH.fullmatch\<close>: an allowed prefix and 1 to 220 branch characters.\<close>

definition branch_pattern :: "string \<Rightarrow> bool" where
  "branch_pattern s = list_ex (\<lambda>p. starts_with p s \<and> (let r = drop (length p) s in
     1 \<le> length r \<and> length r \<le> 220 \<and> list_all branch_char r)) MAINTENANCE_BRANCH_PREFIXES"

definition validate_branch_name :: "string \<Rightarrow> unit res" where
  "validate_branch_name branch = checks [
     raise_when (branch \<notin> {''__invalid_never_create'', ''tmp-r3-upload-staging''} \<and> \<not> branch_pattern branch)
       RepositoryMaintenanceContractError ''branch outside cleanup allowlist'',
     raise_when (branch \<in> {''master'', ''main''} \<or> starts_with ''refs/'' branch)
       RepositoryMaintenanceContractError ''protected or non-canonical branch denied'',
     raise_when (contains ''..'' branch \<or> contains ''//'' branch \<or> ends_with ''/'' branch \<or> starts_with ''-'' branch)
       RepositoryMaintenanceContractError ''unsafe branch name denied'']"

record ref_lookup_key =
  rk_repository :: string
  rk_branch :: string
  rk_expected_head :: string
  rk_protected_master_sha :: string
  rk_mission_id :: string
  rk_grant_id :: string

definition ref_lookup_key_validate :: "ref_lookup_key \<Rightarrow> unit res" where
  "ref_lookup_key_validate k = checks [
     source_text (rk_repository k) ''repository'' 512,
     wrap_errors (\<lambda>_. True) (source_error ''branch is invalid'') (validate_branch_name (rk_branch k)),
     source_sha (rk_expected_head k) ''expected_head'',
     source_sha (rk_protected_master_sha k) ''protected_master_sha'',
     source_text (rk_mission_id k) ''mission_id'' 512,
     source_text (rk_grant_id k) ''grant_id'' 512]"

definition ref_lookup_key_binding ::
  "ref_lookup_key \<Rightarrow> (string \<times> string \<times> string \<times> string \<times> string \<times> string) res" where
  "ref_lookup_key_binding k = and_then (ref_lookup_key_validate k) (\<lambda>_. Inr (rk_repository k, rk_branch k,
     rk_expected_head k, rk_protected_master_sha k, rk_mission_id k, rk_grant_id k))"

section \<open>Canonical resources and lineage digest\<close>

definition canonical_repository_ref_authority_resource :: "ref_lookup_key \<Rightarrow> string res" where
  "canonical_repository_ref_authority_resource k = and_then (ref_lookup_key_validate k) (\<lambda>_.
     Inr (''github:repo:'' @ rk_repository k @ '':ref:heads/'' @ rk_branch k @ '':'' @
       ''head:'' @ rk_expected_head k @ '':protected-master:'' @ rk_protected_master_sha k))"

definition canonical_pr_authority_resource :: "lookup_key \<Rightarrow> string res" where
  "canonical_pr_authority_resource k = and_then (lookup_key_validate k) (\<lambda>_.
     Inr (''github:repo:'' @ lk_repository k @ '':pr:'' @ int_text (lk_pr_number k) @ '':'' @
       ''base:'' @ lk_base_sha k @ '':head:'' @ lk_head_sha k))"

definition source_lineage_payload :: "string list \<Rightarrow> string" where
  "source_lineage_payload digests = ''CYBER-LION/AUTHORITY-SOURCE-LINEAGE/1.0.0'' @ [nul]
     @ concat (map (\<lambda>d. d @ [nul]) digests)"

definition canonical_source_lineage_digest :: "authority_grant list \<Rightarrow> string res" where
  "canonical_source_lineage_digest lineage = and_then (raise_when (lineage = []) AuthoritySourceError
       ''authority lineage must be a non-empty immutable tuple'') (\<lambda>_.
     and_then (map_res (\<lambda>g. and_then (grant_validate g) (\<lambda>_. grant_digest g)) lineage) (\<lambda>digests.
     Inr (sha256 (source_lineage_payload digests))))"

section \<open>Lineage records\<close>

record lineage_record =
  lr_lookup_key :: lookup_key
  lr_lineage :: "authority_grant list"
  lr_lineage_digest :: string
  lr_provenance_id :: string
  lr_source_kind :: string

record ref_lineage_record =
  rr_lookup_key :: ref_lookup_key
  rr_lineage :: "authority_grant list"
  rr_lineage_digest :: string
  rr_provenance_id :: string
  rr_source_kind :: string

definition alnum_char :: "char \<Rightarrow> bool" where
  "alnum_char c = (let n = (of_char c :: nat) in
     65 \<le> n \<and> n \<le> 90 \<or> 97 \<le> n \<and> n \<le> 122 \<or> 48 \<le> n \<and> n \<le> 57)"

text \<open>\<open>_PROVENANCE_RE.fullmatch\<close>\<close>

definition provenance_pattern :: "string \<Rightarrow> bool" where
  "provenance_pattern s = (case s of [] \<Rightarrow> False
     | c # r \<Rightarrow> alnum_char c \<and> length r \<le> 511 \<and> list_all (\<lambda>x. alnum_char x \<or> x \<in> set ''._:/-'') r)"

text \<open>The loop over the lineage; \<open>previous\<close> is the grant before the current one.\<close>

fun source_chain :: "string \<Rightarrow> authority_grant option \<Rightarrow> authority_grant list \<Rightarrow> unit res" where
  "source_chain mission_id previous [] = Inr ()"
| "source_chain mission_id previous (g # gs) = and_then (checks [
       grant_validate g,
       raise_when (ag_mission_id g \<noteq> mission_id) AuthoritySourceError
         ''lineage mission_id does not match lookup key'',
       (case previous of
          None \<Rightarrow> raise_when (ag_parent_grant_id g \<noteq> None) AuthoritySourceError
            ''lineage root must not declare a parent grant''
        | Some p \<Rightarrow> raise_when (ag_parent_grant_id g \<noteq> Some (ag_grant_id p)) AuthoritySourceError
            ''lineage parent chain is not contiguous'')]) (\<lambda>_. source_chain mission_id (Some g) gs)"

definition source_header_checks :: "authority_grant list \<Rightarrow> string \<Rightarrow> string \<Rightarrow> string \<Rightarrow> unit res" where
  "source_header_checks lineage source_kind provenance_id lineage_digest = checks [
     raise_when (lineage = []) AuthoritySourceError ''lineage must be a non-empty immutable tuple'',
     raise_when (source_kind \<noteq> ''trusted-control-plane'') AuthoritySourceError
       ''authority source must be trusted-control-plane'',
     raise_when (\<not> provenance_pattern provenance_id) AuthoritySourceError ''provenance_id is invalid'',
     raise_when (\<not> is_hex 64 lineage_digest) AuthoritySourceError ''lineage_digest must be canonical sha256 hex'']"

definition lineage_record_validate :: "lineage_record \<Rightarrow> unit res" where
  "lineage_record_validate r = (let k = lr_lookup_key r; leaf = last (lr_lineage r) in
     and_then (checks [
       lookup_key_validate k,
       source_header_checks (lr_lineage r) (lr_source_kind r) (lr_provenance_id r) (lr_lineage_digest r),
       source_chain (lk_mission_id k) None (lr_lineage r),
       raise_when (ag_grant_id leaf \<noteq> lk_grant_id k) AuthoritySourceError
         ''lineage leaf does not match lookup grant_id'']) (\<lambda>_.
     and_then (canonical_pr_authority_resource k) (\<lambda>expected_resource.
     and_then (raise_when (expected_resource \<notin> set (ag_resource_scope leaf)) AuthoritySourceError
       ''lineage leaf does not bind exact PR resource'') (\<lambda>_.
     and_then (canonical_source_lineage_digest (lr_lineage r)) (\<lambda>expected_digest.
     raise_when (lr_lineage_digest r \<noteq> expected_digest) AuthoritySourceError
       ''lineage_digest does not match immutable lineage'')))))"

definition ref_lineage_record_validate :: "ref_lineage_record \<Rightarrow> unit res" where
  "ref_lineage_record_validate r = (let k = rr_lookup_key r; leaf = last (rr_lineage r) in
     and_then (checks [
       ref_lookup_key_validate k,
       source_header_checks (rr_lineage r) (rr_source_kind r) (rr_provenance_id r) (rr_lineage_digest r),
       source_chain (rk_mission_id k) None (rr_lineage r),
       raise_when (ag_grant_id leaf \<noteq> rk_grant_id k) AuthoritySourceError
         ''lineage leaf does not match lookup grant_id'']) (\<lambda>_.
     and_then (canonical_repository_ref_authority_resource k) (\<lambda>expected_resource.
     and_then (raise_when (ag_resource_scope leaf \<noteq> [expected_resource]) AuthoritySourceError
       ''lineage leaf does not bind exact repository-ref resource'') (\<lambda>_.
     and_then (canonical_source_lineage_digest (rr_lineage r)) (\<lambda>expected_digest.
     raise_when (rr_lineage_digest r \<noteq> expected_digest) AuthoritySourceError
       ''lineage_digest does not match immutable lineage'')))))"

section \<open>Exact resolution\<close>

definition resolve_exact :: "(lookup_key \<Rightarrow> lineage_record list res) \<Rightarrow> lookup_key \<Rightarrow> lineage_record res" where
  "resolve_exact lookup_exact key = and_then (lookup_key_validate key) (\<lambda>_.
     and_then (lookup_exact key) (\<lambda>candidates.
     case candidates of
       [] \<Rightarrow> Inl (source_error ''authority lineage not found'')
     | [record] \<Rightarrow> and_then (lineage_record_validate record) (\<lambda>_.
         and_then (lookup_key_binding (lr_lookup_key record)) (\<lambda>actual.
         and_then (lookup_key_binding key) (\<lambda>expected.
         and_then (raise_when (actual \<noteq> expected) AuthoritySourceError
           ''authority source record does not match exact lookup key'') (\<lambda>_. Inr record))))
     | _ \<Rightarrow> Inl (source_error ''authority lineage lookup is ambiguous'')))"

text \<open>The base class method, for sources without repository-ref support.\<close>

definition lookup_repository_ref_unsupported :: "ref_lookup_key \<Rightarrow> ref_lineage_record list res" where
  "lookup_repository_ref_unsupported key = Inl (source_error ''repository-ref authority lookup unsupported'')"

definition resolve_repository_ref_exact ::
  "(ref_lookup_key \<Rightarrow> ref_lineage_record list res) \<Rightarrow> ref_lookup_key \<Rightarrow> ref_lineage_record res" where
  "resolve_repository_ref_exact lookup_exact key = and_then (ref_lookup_key_validate key) (\<lambda>_.
     and_then (lookup_exact key) (\<lambda>candidates.
     case candidates of
       [] \<Rightarrow> Inl (source_error ''repository-ref authority lineage not found'')
     | [record] \<Rightarrow> and_then (ref_lineage_record_validate record) (\<lambda>_.
         and_then (ref_lookup_key_binding (rr_lookup_key record)) (\<lambda>actual.
         and_then (ref_lookup_key_binding key) (\<lambda>expected.
         and_then (raise_when (actual \<noteq> expected) AuthoritySourceError
           ''authority source record does not match exact repository-ref lookup key'') (\<lambda>_. Inr record))))
     | _ \<Rightarrow> Inl (source_error ''repository-ref authority lineage lookup is ambiguous'')))"

section \<open>Resource tokens\<close>

lemma lookup_key_validate_ok: "lookup_key_validate k = Inr () \<longleftrightarrow>
    \<not> text_invalid 512 (lk_repository k) \<and> 0 < lk_pr_number k \<and> is_hex 40 (lk_base_sha k)
    \<and> is_hex 40 (lk_head_sha k) \<and> \<not> text_invalid 512 (lk_mission_id k) \<and> \<not> text_invalid 512 (lk_grant_id k)"
  by (auto simp: lookup_key_validate_def source_text_def source_sha_def not_le is_hex_text)

lemma ref_lookup_key_validate_ok: "ref_lookup_key_validate k = Inr () \<longleftrightarrow>
    \<not> text_invalid 512 (rk_repository k) \<and> validate_branch_name (rk_branch k) = Inr ()
    \<and> is_hex 40 (rk_expected_head k) \<and> is_hex 40 (rk_protected_master_sha k)
    \<and> \<not> text_invalid 512 (rk_mission_id k) \<and> \<not> text_invalid 512 (rk_grant_id k)"
  by (auto simp: ref_lookup_key_validate_def source_text_def source_sha_def is_hex_text)

lemma branch_no_colon: "validate_branch_name b = Inr () \<Longrightarrow> CHR '':'' \<notin> set b"
proof -
  have sep: "\<not> branch_char CHR '':''" "list_all (\<lambda>p. CHR '':'' \<notin> set p) MAINTENANCE_BRANCH_PREFIXES" by code_simp+
  have "CHR '':'' \<notin> set b" if "branch_pattern b"
  proof -
    from that obtain p where p: "p \<in> set MAINTENANCE_BRANCH_PREFIXES" "starts_with p b"
      "list_all branch_char (drop (length p) b)"
      by (auto simp: branch_pattern_def list_ex_iff Let_def)
    from p(2) obtain r where b: "b = p @ r" by (auto simp: starts_with_iff)
    with p sep show ?thesis by (auto simp: list_all_iff)
  qed
  moreover have "b \<in> {''__invalid_never_create'', ''tmp-r3-upload-staging''} \<or> branch_pattern b"
    if "validate_branch_name b = Inr ()"
    using that unfolding validate_branch_name_def checks_Cons_ok raise_when_ok by blast
  moreover have "CHR '':'' \<notin> set ''__invalid_never_create''" "CHR '':'' \<notin> set ''tmp-r3-upload-staging''" by simp_all
  ultimately show "validate_branch_name b = Inr () \<Longrightarrow> CHR '':'' \<notin> set b" by blast
qed

lemma int_text_digits: "0 \<le> i \<Longrightarrow> list_all is_digit (int_text i)"
  by (simp add: int_text_def nat_text_digits)

text \<open>Reading a token from its right end: two commit ids, then the decimal number.\<close>

lemma suffix_eqD: "x @ u = y @ v \<Longrightarrow> length u = length v \<Longrightarrow> x = y \<and> u = v"
  by (simp add: append_eq_append_conv)

lemma pr_token_inject:
  assumes "R @ '':pr:'' @ int_text n @ '':base:'' @ b @ '':head:'' @ h = R' @ '':pr:'' @ int_text m @ '':base:'' @ b' @ '':head:'' @ h'"
    and "0 < n" "0 < m" "is_hex 40 b" "is_hex 40 h" "is_hex 40 b'" "is_hex 40 h'"
  shows "R = R' \<and> n = m \<and> b = b' \<and> h = h'"
proof -
  have len: "length b = length b'" "length h = length h'" using assms by (simp_all add: is_hex_def)
  have eq: "(R @ '':pr:'' @ int_text n) @ '':base:'' @ b @ '':head:'' @ h
      = (R' @ '':pr:'' @ int_text m) @ '':base:'' @ b' @ '':head:'' @ h'" using assms(1) by simp
  have tail: "R @ '':pr:'' @ int_text n = R' @ '':pr:'' @ int_text m"
    "'':base:'' @ b @ '':head:'' @ h = '':base:'' @ b' @ '':head:'' @ h'"
    using suffix_eqD [OF eq] len by simp_all
  have "b = b'" "h = h'" using tail(2) len by (simp_all add: append_eq_append_conv)
  from tail(1) have "rev (int_text n) @ rev '':pr:'' @ rev R = rev (int_text m) @ rev '':pr:'' @ rev R'"
    by (metis append.assoc rev_append)
  moreover have "no_digit_head (rev '':pr:'' @ x)" for x by (simp add: no_digit_head_def is_digit_def)
  ultimately have "rev (int_text n) = rev (int_text m)" "rev '':pr:'' @ rev R = rev '':pr:'' @ rev R'"
    using digits_prefix_inject [of "rev (int_text n)" "rev (int_text m)" "rev '':pr:'' @ rev R" "rev '':pr:'' @ rev R'"]
      int_text_digits [of n] int_text_digits [of m] assms(2,3) by (simp_all add: list_all_iff)
  with \<open>b = b'\<close> \<open>h = h'\<close> show ?thesis
    using int_text_inject [of n "[]" m "[]"] by (simp add: no_digit_head_def)
qed

lemma ref_token_inject:
  assumes "R @ '':ref:heads/'' @ b @ '':head:'' @ h @ '':protected-master:'' @ s
      = R' @ '':ref:heads/'' @ b' @ '':head:'' @ h' @ '':protected-master:'' @ s'"
    and "CHR '':'' \<notin> set b" "CHR '':'' \<notin> set b'" "is_hex 40 h" "is_hex 40 h'" "is_hex 40 s" "is_hex 40 s'"
  shows "R = R' \<and> b = b' \<and> h = h' \<and> s = s'"
proof -
  have len: "length h = length h'" "length s = length s'" using assms by (simp_all add: is_hex_def)
  have eq: "(R @ '':ref:heads/'' @ b) @ '':head:'' @ h @ '':protected-master:'' @ s
      = (R' @ '':ref:heads/'' @ b') @ '':head:'' @ h' @ '':protected-master:'' @ s'" using assms(1) by simp
  have tail: "R @ '':ref:heads/'' @ b = R' @ '':ref:heads/'' @ b'"
    "'':head:'' @ h @ '':protected-master:'' @ s = '':head:'' @ h' @ '':protected-master:'' @ s'"
    using suffix_eqD [OF eq] len by simp_all
  have "h = h'" "s = s'" using tail(2) len by (simp_all add: append_eq_append_conv)
  from arg_cong [where f = rev, OF tail(1)] have "rev (''heads/'' @ b) @ CHR '':'' # rev (R @ '':ref'') = rev (''heads/'' @ b') @ CHR '':'' # rev (R' @ '':ref'')"
    by simp
  from split_at [OF this] assms(2,3) \<open>h = h'\<close> \<open>s = s'\<close> show ?thesis by simp
qed

lemma tokens_differ:
  assumes "x @ '':head:'' @ h = y @ '':protected-master:'' @ s" "is_hex 40 h" "is_hex 40 s"
  shows False
proof -
  have "(x @ '':'') @ ''head:'' @ h = (y @ '':protected-ma'') @ ''ster:'' @ s" using assms(1) by simp
  moreover have "length (''head:'' @ h) = length (''ster:'' @ s)" using assms(2,3) by (simp add: is_hex_def)
  ultimately have "''head:'' @ h = ''ster:'' @ s" by (rule suffix_eqD [THEN conjunct2])
  then show False by simp
qed

lemma pr_resource_valid: "canonical_pr_authority_resource k = Inr t \<Longrightarrow> lookup_key_validate k = Inr ()"
  by (simp add: canonical_pr_authority_resource_def)

lemma pr_resource_text: "canonical_pr_authority_resource k = Inr t \<Longrightarrow> t = ''github:repo:'' @ lk_repository k
    @ '':pr:'' @ int_text (lk_pr_number k) @ '':base:'' @ lk_base_sha k @ '':head:'' @ lk_head_sha k"
  by (simp add: canonical_pr_authority_resource_def)

lemma ref_resource_valid:
  "canonical_repository_ref_authority_resource k = Inr t \<Longrightarrow> ref_lookup_key_validate k = Inr ()"
  by (simp add: canonical_repository_ref_authority_resource_def)

lemma ref_resource_text: "canonical_repository_ref_authority_resource k = Inr t \<Longrightarrow>
    t = ''github:repo:'' @ rk_repository k @ '':ref:heads/'' @ rk_branch k @ '':head:'' @ rk_expected_head k
      @ '':protected-master:'' @ rk_protected_master_sha k"
  by (simp add: canonical_repository_ref_authority_resource_def)

section \<open>What resolution establishes\<close>

text \<open>
  The contract the two resolvers share: exactly one candidate, valid, for exactly the requested key.
\<close>

locale exact_resolver =
  fixes resolve :: "('k \<Rightarrow> 'r list res) \<Rightarrow> 'k \<Rightarrow> 'r res"
    and key_valid :: "'k \<Rightarrow> bool" and record_valid :: "'r \<Rightarrow> bool" and key_of :: "'r \<Rightarrow> 'k"
  assumes resolve_ok: "resolve lookup k = Inr r \<longleftrightarrow>
    key_valid k \<and> lookup k = Inr [r] \<and> record_valid r \<and> key_of r = k"
begin

lemma ambiguous_refused: "lookup k = Inr rs \<Longrightarrow> length rs \<noteq> 1 \<Longrightarrow> isl (resolve lookup k)"
  using resolve_ok by (cases "resolve lookup k") fastforce+

lemma failed_backend_refused: "lookup k = Inl e \<Longrightarrow> isl (resolve lookup k)"
  by (cases "resolve lookup k") (auto dest: resolve_ok [THEN iffD1])

lemma foreign_record_refused: "lookup k = Inr [r] \<Longrightarrow> key_of r \<noteq> k \<Longrightarrow> isl (resolve lookup k)"
  by (cases "resolve lookup k") (auto dest: resolve_ok [THEN iffD1])

end

lemma one_candidate_ok: "(case xs of [] \<Rightarrow> Inl e | x # [] \<Rightarrow> f x | x # y # zs \<Rightarrow> Inl e') = Inr r
    \<longleftrightarrow> (\<exists>x. xs = [x] \<and> f x = Inr r)"
  by (cases xs; cases "tl xs") auto

lemma lookup_key_eqI:
  "lookup_key_binding j = Inr b \<Longrightarrow> lookup_key_binding k = Inr b \<Longrightarrow> j = k"
  by (auto simp: lookup_key_binding_def intro: lookup_key.equality)

lemma ref_lookup_key_eqI:
  "ref_lookup_key_binding j = Inr b \<Longrightarrow> ref_lookup_key_binding k = Inr b \<Longrightarrow> j = k"
  by (auto simp: ref_lookup_key_binding_def intro: ref_lookup_key.equality)

lemma record_key_valid: "lineage_record_validate r = Inr () \<Longrightarrow> lookup_key_validate (lr_lookup_key r) = Inr ()"
  by (auto simp: lineage_record_validate_def Let_def)

lemma ref_record_key_valid:
  "ref_lineage_record_validate r = Inr () \<Longrightarrow> ref_lookup_key_validate (rr_lookup_key r) = Inr ()"
  by (auto simp: ref_lineage_record_validate_def Let_def)

interpretation pr: exact_resolver resolve_exact "\<lambda>k. lookup_key_validate k = Inr ()"
  "\<lambda>r. lineage_record_validate r = Inr ()" lr_lookup_key
proof
  fix lookup k r
  show "resolve_exact lookup k = Inr r \<longleftrightarrow> lookup_key_validate k = Inr () \<and> lookup k = Inr [r]
      \<and> lineage_record_validate r = Inr () \<and> lr_lookup_key r = k"
    using lookup_key_eqI [of "lr_lookup_key r" _ k]
    by (auto simp: resolve_exact_def and_then_ok one_candidate_ok lookup_key_binding_def dest: record_key_valid)
qed

interpretation ref: exact_resolver resolve_repository_ref_exact "\<lambda>k. ref_lookup_key_validate k = Inr ()"
  "\<lambda>r. ref_lineage_record_validate r = Inr ()" rr_lookup_key
proof
  fix lookup k r
  show "resolve_repository_ref_exact lookup k = Inr r \<longleftrightarrow> ref_lookup_key_validate k = Inr () \<and> lookup k = Inr [r]
      \<and> ref_lineage_record_validate r = Inr () \<and> rr_lookup_key r = k"
    using ref_lookup_key_eqI [of "rr_lookup_key r" _ k]
    by (auto simp: resolve_repository_ref_exact_def and_then_ok one_candidate_ok ref_lookup_key_binding_def
        dest: ref_record_key_valid)
qed

text \<open>The loop over the lineage checks neighbours only; what it gives for the whole list.\<close>

lemma source_chain_ok: "source_chain m prev gs = Inr () \<longleftrightarrow>
    (\<forall>g\<in>set gs. grant_validate g = Inr () \<and> ag_mission_id g = m)
    \<and> map ag_parent_grant_id gs = butlast (map_option ag_grant_id prev # map (\<lambda>g. Some (ag_grant_id g)) gs)"
  by (induction m prev gs rule: source_chain.induct) (auto split: option.splits)

lemma canonical_source_lineage_digest_ok: "canonical_source_lineage_digest gs = Inr d \<longleftrightarrow>
    gs \<noteq> [] \<and> (\<exists>ds. map grant_digest gs = map Inr ds \<and> d = sha256 (source_lineage_payload ds))"
proof -
  have "(\<lambda>g. and_then (grant_validate g) (\<lambda>_. grant_digest g)) = grant_digest"
  proof
    fix g show "and_then (grant_validate g) (\<lambda>_. grant_digest g) = grant_digest g"
      by (cases "grant_validate g") (simp_all add: grant_digest_def grant_canonical_payload_def)
  qed
  then show ?thesis by (auto simp: canonical_source_lineage_digest_def and_then_ok map_res_ok_iff)
qed

lemma source_payload_inject:
  assumes "source_lineage_payload ds = source_lineage_payload es" "list_all (\<lambda>d. nul \<notin> set d) ds" "list_all (\<lambda>d. nul \<notin> set d) es"
  shows "ds = es"
proof -
  have "concat (map (\<lambda>d. d @ [nul]) ds) = concat (map (\<lambda>d. d @ [nul]) es)"
    using assms(1) by (simp add: source_lineage_payload_def)
  then show ?thesis using assms(2,3)
  proof (induction ds arbitrary: es)
    case Nil
    then show ?case by (cases es) auto
  next
    case (Cons d ds)
    then obtain e es' where es: "es = e # es'" by (cases es) auto
    with Cons.prems split_at [of d nul "concat (map (\<lambda>d. d @ [nul]) ds)" e "concat (map (\<lambda>d. d @ [nul]) es')"]
    have "d = e" "concat (map (\<lambda>d. d @ [nul]) ds) = concat (map (\<lambda>d. d @ [nul]) es')" by auto
    with Cons es show ?case by auto
  qed
qed

lemma source_digest_eqD:
  assumes "canonical_source_lineage_digest gs = Inr d" "canonical_source_lineage_digest hs = Inr d"
  shows "gs = hs \<or> (\<exists>ds es. map grant_digest gs = map Inr ds \<and> map grant_digest hs = map Inr es
      \<and> collides (source_lineage_payload ds) (source_lineage_payload es))
    \<or> (\<exists>i < length gs. collides (grant_preimage (gs ! i)) (grant_preimage (hs ! i)))"
proof -
  obtain ds where ds: "map grant_digest gs = map Inr ds" "d = sha256 (source_lineage_payload ds)"
    using assms(1) by (auto simp: canonical_source_lineage_digest_ok)
  obtain es where es: "map grant_digest hs = map Inr es" "d = sha256 (source_lineage_payload es)"
    using assms(2) by (auto simp: canonical_source_lineage_digest_ok)
  have hex: "list_all (\<lambda>d. nul \<notin> set d) xs" if "map grant_digest ks = map Inr xs" for ks xs
  proof -
    have "is_hex 64 x" if "x \<in> set xs" for x
      using that \<open>map grant_digest ks = map Inr xs\<close> grant_digest_hex
      by (metis (mono_tags, lifting) ex_map_conv imageI image_set in_set_conv_nth length_map nth_map)
    then show ?thesis by (auto simp: list_all_iff is_hex_def dest: hex_char_not_nul)
  qed
  show ?thesis
  proof (cases "source_lineage_payload ds = source_lineage_payload es")
    case True
    then have "map grant_digest gs = map grant_digest hs"
      using source_payload_inject hex ds es by metis
    then show ?thesis using same_digests_same_grants ds(1) by blast
  qed (use ds es in \<open>auto simp: collides_def\<close>)
qed

section \<open>Example record\<close>

definition example_key :: lookup_key where
  "example_key = \<lparr>lk_repository = ''o/r'', lk_pr_number = 7, lk_base_sha = replicate 40 CHR ''b'',
     lk_head_sha = replicate 40 CHR ''c'', lk_mission_id = ''m1'', lk_grant_id = ''leaf''\<rparr>"

definition example_ref_key :: ref_lookup_key where
  "example_ref_key = \<lparr>rk_repository = ''o/r'', rk_branch = ''docs/a'', rk_expected_head = replicate 40 CHR ''b'',
     rk_protected_master_sha = replicate 40 CHR ''c'', rk_mission_id = ''m1'', rk_grant_id = ''leaf''\<rparr>"

definition example_record :: lineage_record where
  "example_record = \<lparr>lr_lookup_key = example_key, lr_lineage = [root_grant, leaf_grant],
     lr_lineage_digest = projr (canonical_source_lineage_digest [root_grant, leaf_grant]),
     lr_provenance_id = ''control-plane/1'', lr_source_kind = ''trusted-control-plane''\<rparr>"

definition example_lookup :: "lookup_key \<Rightarrow> lineage_record list res" where
  "example_lookup k = Inr (if k = example_key then [example_record] else [])"

lemma example_source_digest: "\<exists>d. canonical_source_lineage_digest [root_grant, leaf_grant] = Inr d \<and> is_hex 64 d"
proof -
  obtain d1 d2 where "grant_digest root_grant = Inr d1" "grant_digest leaf_grant = Inr d2"
    using example_grants_valid by (simp add: grant_digest_ok)
  then have "canonical_source_lineage_digest [root_grant, leaf_grant] = Inr (sha256 (source_lineage_payload [d1, d2]))"
    unfolding canonical_source_lineage_digest_ok by (intro conjI exI [of _ "[d1, d2]"]) simp_all
  then show ?thesis by simp
qed

lemma example_record_valid: "lineage_record_validate example_record = Inr ()"
proof -
  have key: "lookup_key_validate example_key = Inr ()" by code_simp
  have "canonical_pr_authority_resource example_key = Inr (hd (ag_resource_scope leaf_grant))" by code_simp
  moreover have "source_chain ''m1'' None [root_grant, leaf_grant] = Inr ()"
    using example_grants_valid by (simp add: source_chain_ok) (simp add: root_grant_def leaf_grant_def)
  moreover have "provenance_pattern ''control-plane/1''" by code_simp
  moreover have "hd (ag_resource_scope leaf_grant) \<in> set (ag_resource_scope leaf_grant)" "ag_grant_id leaf_grant = ''leaf''"
    by (simp_all add: leaf_grant_def root_grant_def)
  ultimately show ?thesis
    using key example_source_digest
    by (auto simp: lineage_record_validate_def example_record_def source_header_checks_def)
       (simp_all add: example_key_def)
qed

section \<open>Properties\<close>

text \<open>Resource tokens are unambiguous although the repository name is free text: a pull-request
  token determines repository, number, base and head, a ref token determines repository, branch,
  head and protected commit, and no token is of both kinds.\<close>

theorem resource_tokens_injective:
  "(\<forall>j k t. canonical_pr_authority_resource j = Inr t \<and> canonical_pr_authority_resource k = Inr t \<longrightarrow>
      (lk_repository j, lk_pr_number j, lk_base_sha j, lk_head_sha j)
      = (lk_repository k, lk_pr_number k, lk_base_sha k, lk_head_sha k))
   \<and> (\<forall>j k t. canonical_repository_ref_authority_resource j = Inr t
        \<and> canonical_repository_ref_authority_resource k = Inr t \<longrightarrow>
      (rk_repository j, rk_branch j, rk_expected_head j, rk_protected_master_sha j)
      = (rk_repository k, rk_branch k, rk_expected_head k, rk_protected_master_sha k))
   \<and> (\<forall>j k t. \<not> (canonical_pr_authority_resource j = Inr t \<and> canonical_repository_ref_authority_resource k = Inr t))"
proof (intro conjI allI impI notI; elim conjE)
  fix j k t assume j: "canonical_pr_authority_resource j = Inr t" and k: "canonical_pr_authority_resource k = Inr t"
  have "lk_repository j @ '':pr:'' @ int_text (lk_pr_number j) @ '':base:'' @ lk_base_sha j @ '':head:'' @ lk_head_sha j
      = lk_repository k @ '':pr:'' @ int_text (lk_pr_number k) @ '':base:'' @ lk_base_sha k @ '':head:'' @ lk_head_sha k"
    using pr_resource_text [OF j] pr_resource_text [OF k] by simp
  from pr_token_inject [OF this] pr_resource_valid [OF j] pr_resource_valid [OF k]
  show "(lk_repository j, lk_pr_number j, lk_base_sha j, lk_head_sha j)
      = (lk_repository k, lk_pr_number k, lk_base_sha k, lk_head_sha k)"
    by (simp add: lookup_key_validate_ok)
next
  fix j k t
  assume j: "canonical_repository_ref_authority_resource j = Inr t"
    and k: "canonical_repository_ref_authority_resource k = Inr t"
  have "rk_repository j @ '':ref:heads/'' @ rk_branch j @ '':head:'' @ rk_expected_head j @ '':protected-master:'' @ rk_protected_master_sha j
      = rk_repository k @ '':ref:heads/'' @ rk_branch k @ '':head:'' @ rk_expected_head k @ '':protected-master:'' @ rk_protected_master_sha k"
    using ref_resource_text [OF j] ref_resource_text [OF k] by simp
  from ref_token_inject [OF this] ref_resource_valid [OF j] ref_resource_valid [OF k]
  show "(rk_repository j, rk_branch j, rk_expected_head j, rk_protected_master_sha j)
      = (rk_repository k, rk_branch k, rk_expected_head k, rk_protected_master_sha k)"
    by (simp add: ref_lookup_key_validate_ok branch_no_colon)
next
  fix j k t
  assume j: "canonical_pr_authority_resource j = Inr t" and k: "canonical_repository_ref_authority_resource k = Inr t"
  have "(''github:repo:'' @ lk_repository j @ '':pr:'' @ int_text (lk_pr_number j) @ '':base:'' @ lk_base_sha j) @ '':head:'' @ lk_head_sha j
      = (''github:repo:'' @ rk_repository k @ '':ref:heads/'' @ rk_branch k @ '':head:'' @ rk_expected_head k)
        @ '':protected-master:'' @ rk_protected_master_sha k"
    using pr_resource_text [OF j] ref_resource_text [OF k] by simp
  from tokens_differ [OF this] pr_resource_valid [OF j] ref_resource_valid [OF k] show False
    by (simp add: lookup_key_validate_ok ref_lookup_key_validate_ok)
qed

theorem resource_tokens_injective_witness:
  "\<exists>t. canonical_pr_authority_resource example_key = Inr t
     \<and> (\<forall>k. canonical_pr_authority_resource k = Inr t \<longrightarrow> lk_repository k = ''o/r'' \<and> lk_pr_number k = 7)"
proof -
  have "lookup_key_validate example_key = Inr ()" by code_simp
  then obtain t where t: "canonical_pr_authority_resource example_key = Inr t"
    by (simp add: canonical_pr_authority_resource_def)
  have "lk_repository k = ''o/r'' \<and> lk_pr_number k = 7" if "canonical_pr_authority_resource k = Inr t" for k
    using conjunct1 [OF resource_tokens_injective, rule_format, OF conjI [OF that t]] by (simp add: example_key_def)
  with t show ?thesis by blast
qed

text \<open>Exact resolution: whatever the backend does, a record is returned only if it is the
  backend's single candidate for exactly the requested key; its lineage runs without gaps from a
  parentless root to the requested grant, in the requested mission, every grant valid; the leaf is
  scoped to the pull request; and the digest is the one of that lineage.\<close>

theorem resolve_exact_sound:
  assumes "resolve_exact lookup k = Inr r"
  shows "lookup k = Inr [r] \<and> lr_lookup_key r = k \<and> lr_source_kind r = ''trusted-control-plane''
    \<and> lr_lineage r \<noteq> [] \<and> list_all (\<lambda>g. grant_validate g = Inr () \<and> ag_mission_id g = lk_mission_id k) (lr_lineage r)
    \<and> map ag_parent_grant_id (lr_lineage r) = butlast (None # map (\<lambda>g. Some (ag_grant_id g)) (lr_lineage r))
    \<and> ag_grant_id (last (lr_lineage r)) = lk_grant_id k
    \<and> (\<exists>t. canonical_pr_authority_resource k = Inr t \<and> t \<in> set (ag_resource_scope (last (lr_lineage r))))
    \<and> canonical_source_lineage_digest (lr_lineage r) = Inr (lr_lineage_digest r)"
proof -
  from assms have "lookup k = Inr [r]" "lineage_record_validate r = Inr ()" "lr_lookup_key r = k"
    by (auto simp: pr.resolve_ok)
  then show ?thesis
    by (auto simp: lineage_record_validate_def Let_def and_then_ok source_header_checks_def source_chain_ok
        list_all_iff)
qed

theorem resolve_exact_sound_witness:
  "resolve_exact example_lookup example_key = Inr example_record
   \<and> canonical_source_lineage_digest [root_grant, leaf_grant] = Inr (lr_lineage_digest example_record)"
proof -
  have "lookup_key_validate example_key = Inr ()" by code_simp
  then have ok: "resolve_exact example_lookup example_key = Inr example_record"
    unfolding pr.resolve_ok by (simp add: example_lookup_def example_record_valid) (simp add: example_record_def)
  from resolve_exact_sound [OF ok] ok show ?thesis by (simp add: example_record_def)
qed

text \<open>Resolution fails closed, for pull requests and for refs: no candidate, several candidates, a
  failing backend or a record for another key never resolve.\<close>

theorem resolution_fails_closed:
  "(\<forall>rs. lookup k = Inr rs \<longrightarrow> length rs \<noteq> 1 \<longrightarrow> isl (resolve_exact lookup k))
   \<and> (\<forall>e. lookup k = Inl e \<longrightarrow> isl (resolve_exact lookup k))
   \<and> (\<forall>r. lookup k = Inr [r] \<longrightarrow> lr_lookup_key r \<noteq> k \<longrightarrow> isl (resolve_exact lookup k))
   \<and> (\<forall>rs. ref_lookup j = Inr rs \<longrightarrow> length rs \<noteq> 1 \<longrightarrow> isl (resolve_repository_ref_exact ref_lookup j))
   \<and> (\<forall>e. ref_lookup j = Inl e \<longrightarrow> isl (resolve_repository_ref_exact ref_lookup j))
   \<and> (\<forall>r. ref_lookup j = Inr [r] \<longrightarrow> rr_lookup_key r \<noteq> j \<longrightarrow> isl (resolve_repository_ref_exact ref_lookup j))"
  by (intro conjI allI impI)
     (rule pr.ambiguous_refused pr.failed_backend_refused pr.foreign_record_refused
       ref.ambiguous_refused ref.failed_backend_refused ref.foreign_record_refused, assumption+)+

theorem resolution_fails_closed_witness:
  "isl (resolve_exact (\<lambda>_. Inr [example_record, example_record]) example_key)
   \<and> isl (resolve_repository_ref_exact lookup_repository_ref_unsupported example_ref_key)"
  using resolution_fails_closed [of "\<lambda>_. Inr [example_record, example_record]" example_key
      lookup_repository_ref_unsupported example_ref_key]
  by (simp add: lookup_repository_ref_unsupported_def)

end
