(* ===== verification/Merge_Admission.thy ===== *)
theory Merge_Admission
  imports Authority_Revocation Authority_Source
begin

text \<open>
  Merge admission: enterprise/merge_admission.py. An intent and the independently obtained GitHub
  state are compared, the authority lineage is admitted, the leaf is bound to the exact merge, and
  the consuming path spends the leaf once in the consumption owner's dictionary.

  The non-consuming path only reads. The consuming path is an operation on the consumption store;
  its authority checks read the process state as in the revocation theory (\<open>w\<close> at resolution,
  \<open>locked\<close> under the owner's lock), so a list of such operations covers every interleaving of
  admissions with other threads: each element may have its own \<open>w\<close> and \<open>locked\<close>.
\<close>

section \<open>Intent and GitHub state\<close>

abbreviation merge_error :: "string \<Rightarrow> exn" where
  "merge_error m \<equiv> Exn MergeAdmissionError m"

definition merge_text :: "string \<Rightarrow> string \<Rightarrow> nat \<Rightarrow> unit res" where
  "merge_text value field_name limit =
     raise_when (text_invalid limit value) MergeAdmissionError (field_name @ '' is invalid'')"

definition merge_sha :: "string \<Rightarrow> string \<Rightarrow> unit res" where
  "merge_sha value field_name = checks [
     merge_text value field_name 40,
     raise_when (\<not> is_hex 40 value) MergeAdmissionError (field_name @ '' must be a full lowercase git SHA'')]"

record merge_intent =
  mi_repository :: string
  mi_pr_number :: int
  mi_base_sha :: string
  mi_head_sha :: string
  mi_merge_method :: string
  mi_action :: string

definition MERGE_ACTION :: string where
  "MERGE_ACTION = ''merge_pull_request''"

definition intent_validate :: "merge_intent \<Rightarrow> unit res" where
  "intent_validate i = checks [
     merge_text (mi_repository i) ''repository'' 512,
     raise_when (mi_pr_number i \<le> 0) MergeAdmissionError ''pr_number must be a positive integer'',
     merge_sha (mi_base_sha i) ''base_sha'',
     merge_sha (mi_head_sha i) ''head_sha'',
     raise_when (mi_merge_method i \<notin> {''merge'', ''squash'', ''rebase''}) MergeAdmissionError
       ''merge_method is unsupported'',
     raise_when (mi_action i \<noteq> MERGE_ACTION) MergeAdmissionError ''merge action must be merge_pull_request'']"

type_synonym merge_binding = "string \<times> int \<times> string \<times> string \<times> string \<times> string"

definition intent_binding :: "merge_intent \<Rightarrow> merge_binding res" where
  "intent_binding i = and_then (intent_validate i) (\<lambda>_. Inr (mi_repository i, mi_pr_number i, mi_base_sha i,
     mi_head_sha i, mi_merge_method i, mi_action i))"

record trusted_pr_state =
  ts_repository :: string
  ts_pr_number :: int
  ts_base_sha :: string
  ts_head_sha :: string
  ts_merge_method :: string
  ts_action :: string

definition trusted_validate :: "trusted_pr_state \<Rightarrow> unit res" where
  "trusted_validate t = intent_validate \<lparr>mi_repository = ts_repository t, mi_pr_number = ts_pr_number t,
     mi_base_sha = ts_base_sha t, mi_head_sha = ts_head_sha t, mi_merge_method = ts_merge_method t,
     mi_action = ts_action t\<rparr>"

definition trusted_binding :: "trusted_pr_state \<Rightarrow> merge_binding res" where
  "trusted_binding t = and_then (trusted_validate t) (\<lambda>_. Inr (ts_repository t, ts_pr_number t, ts_base_sha t,
     ts_head_sha t, ts_merge_method t, ts_action t))"

definition canonical_merge_resource :: "merge_intent \<Rightarrow> string res" where
  "canonical_merge_resource i = and_then (intent_validate i) (\<lambda>_.
     Inr (''github:repo:'' @ mi_repository i @ '':pr:'' @ int_text (mi_pr_number i) @ '':'' @
       ''base:'' @ mi_base_sha i @ '':head:'' @ mi_head_sha i))"

definition canonical_merge_method_constraint :: "merge_intent \<Rightarrow> string res" where
  "canonical_merge_method_constraint i = and_then (intent_validate i) (\<lambda>_.
     Inr (''merge_method:'' @ mi_merge_method i))"

section \<open>Decisions, evidence and receipts\<close>

record merge_decision =
  md_admission_id :: string
  md_decision :: string
  md_rationale :: string
  md_repository :: string
  md_pr_number :: int
  md_base_sha :: string
  md_head_sha :: string
  md_merge_method :: string
  md_grant_id :: "string option"
  md_grant_digest :: "string option"
  md_lineage_digest :: "string option"
  md_epoch :: "int option"

text \<open>\<open>MergeIntent(...).validate()\<close> on the fields of a decision, evidence or receipt.\<close>

definition fields_validate :: "string \<Rightarrow> int \<Rightarrow> string \<Rightarrow> string \<Rightarrow> string \<Rightarrow> unit res" where
  "fields_validate repository pr_number base_sha head_sha merge_method = intent_validate
     \<lparr>mi_repository = repository, mi_pr_number = pr_number, mi_base_sha = base_sha, mi_head_sha = head_sha,
      mi_merge_method = merge_method, mi_action = MERGE_ACTION\<rparr>"

definition decision_validate :: "merge_decision \<Rightarrow> unit res" where
  "decision_validate d = checks [
     merge_text (md_admission_id d) ''admission_id'' 512,
     merge_text (md_rationale d) ''rationale'' 1024,
     raise_when (md_decision d \<notin> {''ALLOW'', ''DENY''}) MergeAdmissionError ''decision must be ALLOW or DENY'',
     fields_validate (md_repository d) (md_pr_number d) (md_base_sha d) (md_head_sha d) (md_merge_method d),
     (if md_decision d = ''ALLOW'' then checks [
        raise_when (list_ex (\<lambda>v. v \<in> {None, Some []}) [md_grant_id d, md_grant_digest d, md_lineage_digest d])
          MergeAdmissionError ''ALLOW requires authority identity and digests'',
        raise_when (case md_epoch d of None \<Rightarrow> True | Some e \<Rightarrow> e < 0) MergeAdmissionError
          ''ALLOW requires a valid authority epoch'']
      else Inr ())]"

record nc_evidence =
  ne_admission_id :: string
  ne_repository :: string
  ne_pr_number :: int
  ne_base_sha :: string
  ne_head_sha :: string
  ne_merge_method :: string
  ne_mission_id :: string
  ne_grant_id :: string
  ne_grant_digest :: string
  ne_lineage_digest :: string
  ne_source_lineage_digest :: string
  ne_epoch :: int
  ne_authority_provenance_id :: string
  ne_authority_source_kind :: string

definition evidence_validate :: "nc_evidence \<Rightarrow> unit res" where
  "evidence_validate e = checks [
     merge_text (ne_admission_id e) ''admission_id'' 512,
     fields_validate (ne_repository e) (ne_pr_number e) (ne_base_sha e) (ne_head_sha e) (ne_merge_method e),
     merge_text (ne_mission_id e) ''mission_id'' 512,
     merge_text (ne_grant_id e) ''grant_id'' 512,
     merge_text (ne_grant_digest e) ''grant_digest'' 512,
     merge_text (ne_lineage_digest e) ''lineage_digest'' 512,
     merge_text (ne_source_lineage_digest e) ''source_lineage_digest'' 512,
     merge_text (ne_authority_provenance_id e) ''authority_provenance_id'' 512,
     merge_text (ne_authority_source_kind e) ''authority_source_kind'' 512,
     raise_when (ne_authority_source_kind e \<noteq> ''trusted-control-plane'') MergeAdmissionError
       ''non-consuming evidence requires trusted-control-plane source'',
     raise_when (ne_epoch e < 0) MergeAdmissionError ''non-consuming evidence epoch is invalid'']"

record nc_result =
  nr_admission_id :: string
  nr_decision :: string
  nr_rationale :: string
  nr_repository :: string
  nr_pr_number :: int
  nr_base_sha :: string
  nr_head_sha :: string
  nr_merge_method :: string
  nr_evidence :: "nc_evidence option"

definition result_validate :: "nc_result \<Rightarrow> unit res" where
  "result_validate r = checks [
     merge_text (nr_admission_id r) ''admission_id'' 512,
     merge_text (nr_rationale r) ''rationale'' 1024,
     raise_when (nr_decision r \<notin> {''ALLOW'', ''DENY''}) MergeAdmissionError ''decision must be ALLOW or DENY'',
     fields_validate (nr_repository r) (nr_pr_number r) (nr_base_sha r) (nr_head_sha r) (nr_merge_method r),
     (if nr_decision r = ''ALLOW'' then
        (case nr_evidence r of
           None \<Rightarrow> Inl (merge_error ''ALLOW requires exact non-consuming evidence'')
         | Some e \<Rightarrow> checks [
             evidence_validate e,
             raise_when ((ne_admission_id e, ne_repository e, ne_pr_number e, ne_base_sha e, ne_head_sha e,
                   ne_merge_method e)
                 \<noteq> (nr_admission_id r, nr_repository r, nr_pr_number r, nr_base_sha r, nr_head_sha r,
                   nr_merge_method r)) MergeAdmissionError ''non-consuming evidence does not bind result''])
      else raise_when (nr_evidence r \<noteq> None) MergeAdmissionError
        ''DENY must not carry positive admission evidence'')]"

record merge_receipt =
  mr_receipt_id :: string
  mr_admission_id :: string
  mr_repository :: string
  mr_pr_number :: int
  mr_base_sha :: string
  mr_head_sha :: string
  mr_merge_sha :: string
  mr_merge_method :: string
  mr_grant_id :: string
  mr_grant_digest :: string
  mr_lineage_digest :: string
  mr_epoch :: int
  mr_executor :: string
  mr_outcome :: string

definition receipt_validate :: "merge_receipt \<Rightarrow> unit res" where
  "receipt_validate r = checks [
     merge_text (mr_receipt_id r) ''receipt_id'' 512,
     merge_text (mr_admission_id r) ''admission_id'' 512,
     merge_text (mr_executor r) ''executor'' 512,
     fields_validate (mr_repository r) (mr_pr_number r) (mr_base_sha r) (mr_head_sha r) (mr_merge_method r),
     merge_sha (mr_merge_sha r) ''merge_sha'',
     merge_text (mr_grant_id r) ''grant_id'' 512,
     merge_text (mr_grant_digest r) ''grant_digest'' 512,
     merge_text (mr_lineage_digest r) ''lineage_digest'' 512,
     raise_when (mr_epoch r < 0) MergeAdmissionError ''receipt epoch is invalid'',
     raise_when (mr_outcome r \<notin> {''SUCCEEDED'', ''FAILED'', ''PARTIAL'', ''ABORTED''}) MergeAdmissionError
       ''invalid merge execution outcome'']"

section \<open>Consumption\<close>

type_synonym replay_key = "string \<times> string \<times> int"
type_synonym consumption_record = "string \<times> string \<times> string \<times> int"
type_synonym consumption_store = "replay_key \<rightharpoonup> consumption_record"

definition consume :: "consumption_record \<Rightarrow> (consumption_store, consumption_record) op" where
  "consume request consumed = (case request of (grant_id, digest, lineage, epoch) \<Rightarrow>
     (case checks [
         merge_text grant_id ''grant_id'' 512,
         merge_text digest ''grant_digest'' 512,
         merge_text lineage ''lineage_digest'' 512,
         raise_when (epoch < 0) MergeAdmissionError ''consumption epoch is invalid'',
         raise_when ((grant_id, digest, epoch) \<in> dom consumed) MergeAdmissionError
           ''merge authority has already been consumed''] of
        Inl e \<Rightarrow> (Inl e, consumed)
      | Inr _ \<Rightarrow> (Inr request, consumed((grant_id, digest, epoch) \<mapsto> request))))"

definition is_consumed :: "replay_key \<Rightarrow> consumption_store \<Rightarrow> bool" where
  "is_consumed key consumed = (key \<in> dom consumed)"

section \<open>Admission\<close>

definition deny_decision :: "merge_intent \<Rightarrow> string \<Rightarrow> string \<Rightarrow> merge_decision res" where
  "deny_decision i admission_id rationale =
     (let d = \<lparr>md_admission_id = admission_id, md_decision = ''DENY'', md_rationale = rationale,
        md_repository = mi_repository i, md_pr_number = mi_pr_number i, md_base_sha = mi_base_sha i,
        md_head_sha = mi_head_sha i, md_merge_method = mi_merge_method i, md_grant_id = None,
        md_grant_digest = None, md_lineage_digest = None, md_epoch = None\<rparr>
      in and_then (decision_validate d) (\<lambda>_. Inr d))"

definition deny_non_consuming :: "merge_intent \<Rightarrow> string \<Rightarrow> string \<Rightarrow> nc_result res" where
  "deny_non_consuming i admission_id rationale =
     (let r = \<lparr>nr_admission_id = admission_id, nr_decision = ''DENY'', nr_rationale = rationale,
        nr_repository = mi_repository i, nr_pr_number = mi_pr_number i, nr_base_sha = mi_base_sha i,
        nr_head_sha = mi_head_sha i, nr_merge_method = mi_merge_method i, nr_evidence = None\<rparr>
      in and_then (result_validate r) (\<lambda>_. Inr r))"

definition bind_leaf :: "authority_grant \<Rightarrow> admitted_lineage \<Rightarrow> merge_intent \<Rightarrow> unit res" where
  "bind_leaf leaf admitted i = and_then (checks [
       grant_validate leaf,
       raise_when (el_leaf_grant_id admitted \<noteq> ag_grant_id leaf) MergeAdmissionError
         ''admitted lineage leaf does not match authority leaf'']) (\<lambda>_.
     and_then (grant_digest leaf) (\<lambda>digest.
     and_then (checks [
       raise_when (el_grant_digests admitted = [] \<or> last (el_grant_digests admitted) \<noteq> digest)
         MergeAdmissionError ''admitted lineage digest does not match authority leaf'',
       raise_when (el_mission_id admitted \<noteq> ag_mission_id leaf \<or> el_epoch admitted \<noteq> ag_epoch leaf)
         MergeAdmissionError ''admitted lineage context does not match authority leaf'',
       raise_when (mi_action i \<notin> set (ag_actions leaf)) MergeAdmissionError
         ''authority leaf does not authorize merge action'']) (\<lambda>_.
     and_then (canonical_merge_resource i) (\<lambda>resource.
     and_then (raise_when (resource \<notin> set (ag_resource_scope leaf)) MergeAdmissionError
         ''authority leaf does not bind exact merge resource'') (\<lambda>_.
     and_then (canonical_merge_method_constraint i) (\<lambda>constraint.
     raise_when (constraint \<notin> set (ag_constraints leaf)) MergeAdmissionError
       ''authority leaf does not bind exact merge method''))))))"

definition authenticate_and_bind ::
  "merge_intent \<Rightarrow> trusted_pr_state \<Rightarrow> authority_grant list \<Rightarrow> issuer_key_binding list option \<Rightarrow> verifier
   \<Rightarrow> verification_context \<Rightarrow> authority_process \<Rightarrow> epoch_state \<Rightarrow> (admitted_lineage \<times> authority_grant) res" where
  "authenticate_and_bind i t lineage issuer_keys verifier c w locked =
     and_then (trusted_validate t) (\<lambda>_.
     and_then (intent_binding i) (\<lambda>ib.
     and_then (trusted_binding t) (\<lambda>tb.
     and_then (checks [
       raise_when (ib \<noteq> tb) MergeAdmissionError ''merge intent does not match trusted GitHub state'',
       raise_when (lineage = []) MergeAdmissionError ''authority lineage is unavailable'']) (\<lambda>_.
     and_then (authenticate_and_admit_authority_lineage lineage issuer_keys verifier c w locked) (\<lambda>admitted.
     and_then (bind_leaf (last lineage) admitted i) (\<lambda>_. Inr (admitted, last lineage)))))))"

definition bind_lookup_key :: "merge_intent \<Rightarrow> lookup_key \<Rightarrow> verification_context \<Rightarrow> unit res" where
  "bind_lookup_key i k c = checks [
     lookup_key_validate k,
     context_validate c,
     raise_when ((lk_repository k, lk_pr_number k, lk_base_sha k, lk_head_sha k, lk_mission_id k)
         \<noteq> (mi_repository i, mi_pr_number i, mi_base_sha i, mi_head_sha i, vc_mission_id c)) MergeAdmissionError
       ''authority lookup key does not bind exact trusted merge state'']"

definition non_consuming_evidence :: "merge_intent \<Rightarrow> verification_context \<Rightarrow> string \<Rightarrow> lineage_record
   \<Rightarrow> admitted_lineage \<Rightarrow> authority_grant \<Rightarrow> string \<Rightarrow> nc_evidence" where
  "non_consuming_evidence i c admission_id record admitted leaf digest =
     \<lparr>ne_admission_id = admission_id, ne_repository = mi_repository i, ne_pr_number = mi_pr_number i,
      ne_base_sha = mi_base_sha i, ne_head_sha = mi_head_sha i, ne_merge_method = mi_merge_method i,
      ne_mission_id = vc_mission_id c, ne_grant_id = ag_grant_id leaf, ne_grant_digest = digest,
      ne_lineage_digest = el_lineage_digest admitted, ne_source_lineage_digest = lr_lineage_digest record,
      ne_epoch = el_epoch admitted, ne_authority_provenance_id = lr_provenance_id record,
      ne_authority_source_kind = lr_source_kind record\<rparr>"

text \<open>The body of the \<open>try\<close> in \<open>admit_merge_non_consuming\<close>, then the function.\<close>

definition non_consuming_body ::
  "merge_intent \<Rightarrow> trusted_pr_state \<Rightarrow> (lookup_key \<Rightarrow> lineage_record list res) \<Rightarrow> lookup_key
   \<Rightarrow> issuer_key_binding list option \<Rightarrow> verifier \<Rightarrow> verification_context \<Rightarrow> string
   \<Rightarrow> authority_process \<Rightarrow> epoch_state \<Rightarrow> nc_result res" where
  "non_consuming_body i t lookup_exact k issuer_keys verifier c admission_id w locked =
     and_then (bind_lookup_key i k c) (\<lambda>_.
     and_then (resolve_exact lookup_exact k) (\<lambda>record.
     and_then (authenticate_and_bind i t (lr_lineage record) issuer_keys verifier c w locked) (\<lambda>(admitted, leaf).
     and_then (raise_when (ag_grant_id leaf \<noteq> lk_grant_id k) MergeAdmissionError
       ''authority leaf does not match exact lookup grant_id'') (\<lambda>_.
     and_then (grant_digest leaf) (\<lambda>digest.
     let evidence = non_consuming_evidence i c admission_id record admitted leaf digest;
         result = \<lparr>nr_admission_id = admission_id, nr_decision = ''ALLOW'',
           nr_rationale = ''exact trusted authority, current epoch, and live GitHub state admitted without consumption'',
           nr_repository = mi_repository i, nr_pr_number = mi_pr_number i, nr_base_sha = mi_base_sha i,
           nr_head_sha = mi_head_sha i, nr_merge_method = mi_merge_method i, nr_evidence = Some evidence\<rparr>
     in and_then (evidence_validate evidence) (\<lambda>_. and_then (result_validate result) (\<lambda>_. Inr result)))))))"

text \<open>\<open>str(exc) or fallback\<close>\<close>

definition rationale_of :: "exn \<Rightarrow> string \<Rightarrow> string" where
  "rationale_of e fallback = (if message e = [] then fallback else message e)"

definition admit_merge_non_consuming ::
  "merge_intent \<Rightarrow> trusted_pr_state \<Rightarrow> (lookup_key \<Rightarrow> lineage_record list res) \<Rightarrow> lookup_key
   \<Rightarrow> issuer_key_binding list option \<Rightarrow> verifier \<Rightarrow> verification_context \<Rightarrow> string
   \<Rightarrow> authority_process \<Rightarrow> epoch_state \<Rightarrow> nc_result res" where
  "admit_merge_non_consuming i t lookup_exact k issuer_keys verifier c admission_id w locked =
     and_then (checks [intent_validate i, merge_text admission_id ''admission_id'' 512]) (\<lambda>_.
     case non_consuming_body i t lookup_exact k issuer_keys verifier c admission_id w locked of
       Inl e \<Rightarrow> deny_non_consuming i admission_id (rationale_of e ''non-consuming merge admission failed closed'')
     | Inr result \<Rightarrow> Inr result)"

definition allow_decision :: "merge_intent \<Rightarrow> string \<Rightarrow> string \<Rightarrow> string \<Rightarrow> string \<Rightarrow> int \<Rightarrow> merge_decision" where
  "allow_decision i admission_id grant_id digest lineage epoch =
     \<lparr>md_admission_id = admission_id, md_decision = ''ALLOW'',
      md_rationale = ''exact merge authority, lineage, current epoch, and GitHub state admitted'',
      md_repository = mi_repository i, md_pr_number = mi_pr_number i, md_base_sha = mi_base_sha i,
      md_head_sha = mi_head_sha i, md_merge_method = mi_merge_method i, md_grant_id = Some grant_id,
      md_grant_digest = Some digest, md_lineage_digest = Some lineage, md_epoch = Some epoch\<rparr>"

text \<open>The body of the \<open>try\<close> in \<open>admit_merge\<close>: the operation on the consumption store.\<close>

definition consuming_body ::
  "merge_intent \<Rightarrow> trusted_pr_state \<Rightarrow> authority_grant list \<Rightarrow> issuer_key_binding list option \<Rightarrow> verifier
   \<Rightarrow> verification_context \<Rightarrow> string \<Rightarrow> authority_process \<Rightarrow> epoch_state \<Rightarrow> (consumption_store, merge_decision) op" where
  "consuming_body i t lineage issuer_keys verifier c admission_id w locked consumed =
     (case and_then (authenticate_and_bind i t lineage issuer_keys verifier c w locked) (\<lambda>(admitted, leaf).
         and_then (grant_digest leaf) (\<lambda>digest. Inr (admitted, leaf, digest))) of
        Inl e \<Rightarrow> (Inl e, consumed)
      | Inr (admitted, leaf, digest) \<Rightarrow>
          (case consume (ag_grant_id leaf, digest, el_lineage_digest admitted, el_epoch admitted) consumed of
             (Inl e, consumed') \<Rightarrow> (Inl e, consumed')
           | (Inr _, consumed') \<Rightarrow>
               (let d = allow_decision i admission_id (ag_grant_id leaf) digest (el_lineage_digest admitted)
                    (el_epoch admitted)
                in (and_then (decision_validate d) (\<lambda>_. Inr d), consumed'))))"

definition admit_merge ::
  "merge_intent \<Rightarrow> trusted_pr_state \<Rightarrow> authority_grant list \<Rightarrow> issuer_key_binding list option \<Rightarrow> verifier
   \<Rightarrow> verification_context \<Rightarrow> string \<Rightarrow> authority_process \<Rightarrow> epoch_state \<Rightarrow> (consumption_store, merge_decision) op" where
  "admit_merge i t lineage issuer_keys verifier c admission_id w locked consumed =
     (case checks [intent_validate i, merge_text admission_id ''admission_id'' 512] of
        Inl e \<Rightarrow> (Inl e, consumed)
      | Inr _ \<Rightarrow> (case consuming_body i t lineage issuer_keys verifier c admission_id w locked consumed of
          (Inr d, consumed') \<Rightarrow> (Inr d, consumed')
        | (Inl e, consumed') \<Rightarrow>
            (if is_value_error (exn_class e)
             then deny_decision i admission_id (rationale_of e ''merge admission failed closed'')
             else Inl e, consumed')))"

section \<open>Receipts\<close>

definition receipt_payload :: "merge_decision \<Rightarrow> string \<Rightarrow> string \<Rightarrow> string \<Rightarrow> string \<Rightarrow> string \<Rightarrow> int \<Rightarrow> string" where
  "receipt_payload d merge_sha1 executor outcome digest lineage epoch = utf8 (join [nul]
     [md_admission_id d, md_repository d, int_text (md_pr_number d), md_base_sha d, md_head_sha d, merge_sha1,
      md_merge_method d, digest, lineage, int_text epoch, executor, outcome])"

text \<open>
  A valid \<open>ALLOW\<close> decision has its four authority fields, so the assertions of the source hold and
  the remaining patterns are the same rejection.
\<close>

definition issue_merge_execution_receipt ::
  "merge_decision \<Rightarrow> string \<Rightarrow> string \<Rightarrow> string \<Rightarrow> merge_receipt res" where
  "issue_merge_execution_receipt d merge_sha1 executor outcome = and_then (checks [
       decision_validate d,
       raise_when (md_decision d \<noteq> ''ALLOW'') MergeAdmissionError
         ''cannot issue merge receipt for denied admission'']) (\<lambda>_.
     case (md_grant_id d, md_grant_digest d, md_lineage_digest d, md_epoch d) of
       (Some grant_id, Some digest, Some lineage, Some epoch) \<Rightarrow>
         (let r = \<lparr>mr_receipt_id = ''merge-receipt:''
              @ sha256 (receipt_payload d merge_sha1 executor outcome digest lineage epoch),
            mr_admission_id = md_admission_id d, mr_repository = md_repository d, mr_pr_number = md_pr_number d,
            mr_base_sha = md_base_sha d, mr_head_sha = md_head_sha d, mr_merge_sha = merge_sha1,
            mr_merge_method = md_merge_method d, mr_grant_id = grant_id, mr_grant_digest = digest,
            mr_lineage_digest = lineage, mr_epoch = epoch, mr_executor = executor, mr_outcome = outcome\<rparr>
          in and_then (receipt_validate r) (\<lambda>_. Inr r))
     | _ \<Rightarrow> Inl (Exn OtherException []))"

section \<open>What admission establishes\<close>

lemma intent_validate_ok: "intent_validate i = Inr () \<longleftrightarrow>
    \<not> text_invalid 512 (mi_repository i) \<and> 0 < mi_pr_number i \<and> is_hex 40 (mi_base_sha i) \<and> is_hex 40 (mi_head_sha i)
    \<and> mi_merge_method i \<in> {''merge'', ''squash'', ''rebase''} \<and> mi_action i = MERGE_ACTION"
  by (auto simp: intent_validate_def merge_text_def merge_sha_def not_le is_hex_text)

lemma intent_fields_valid: "intent_validate i = Inr () \<Longrightarrow>
    fields_validate (mi_repository i) (mi_pr_number i) (mi_base_sha i) (mi_head_sha i) (mi_merge_method i) = Inr ()"
  by (simp add: fields_validate_def intent_validate_ok)

text \<open>The intent and the GitHub state describe the same merge.\<close>

definition same_merge :: "merge_intent \<Rightarrow> trusted_pr_state \<Rightarrow> bool" where
  "same_merge i t \<longleftrightarrow> (mi_repository i, mi_pr_number i, mi_base_sha i, mi_head_sha i, mi_merge_method i, mi_action i)
     = (ts_repository t, ts_pr_number t, ts_base_sha t, ts_head_sha t, ts_merge_method t, ts_action t)"

text \<open>The leaf grants exactly this merge.\<close>

definition leaf_grants_merge :: "authority_grant \<Rightarrow> merge_intent \<Rightarrow> bool" where
  "leaf_grants_merge leaf i \<longleftrightarrow> mi_action i \<in> set (ag_actions leaf)
     \<and> (\<exists>t. canonical_merge_resource i = Inr t \<and> t \<in> set (ag_resource_scope leaf))
     \<and> (\<exists>t. canonical_merge_method_constraint i = Inr t \<and> t \<in> set (ag_constraints leaf))"

lemma bind_leaf_ok: "bind_leaf leaf a i = Inr () \<longleftrightarrow>
    el_leaf_grant_id a = ag_grant_id leaf \<and> el_grant_digests a \<noteq> []
    \<and> grant_digest leaf = Inr (last (el_grant_digests a))
    \<and> el_mission_id a = ag_mission_id leaf \<and> el_epoch a = ag_epoch leaf \<and> leaf_grants_merge leaf i"
  by (auto simp: bind_leaf_def leaf_grants_merge_def and_then_ok grant_digest_ok)

lemma same_merge_binding: "same_merge i t \<Longrightarrow> trusted_validate t = intent_validate i"
  by (cases i; cases t) (simp add: same_merge_def trusted_validate_def)

lemma bind_leaf_admitted:
  "authenticate_and_admit_authority_lineage gs keys v c w s = Inr a \<Longrightarrow>
    bind_leaf (last gs) a i = Inr () \<longleftrightarrow> leaf_grants_merge (last gs) i"
  using admitted_fields [of gs keys v c w s a] admitted_digests(5) [of gs keys v c w s a]
  by (auto simp: bind_leaf_ok)

lemma authenticate_and_bind_ok: "authenticate_and_bind i t gs keys v c w s = Inr (a, leaf) \<longleftrightarrow>
    intent_validate i = Inr () \<and> same_merge i t \<and> leaf = last gs
    \<and> authenticate_and_admit_authority_lineage gs keys v c w s = Inr a \<and> leaf_grants_merge leaf i"
proof -
  have "same_merge i t \<Longrightarrow> trusted_validate t = intent_validate i" by (rule same_merge_binding)
  then show ?thesis
    using admitted_fields(1) [of gs keys v c w s a] bind_leaf_admitted [of gs keys v c w s a i]
    by (auto simp: authenticate_and_bind_def and_then_ok intent_binding_def trusted_binding_def same_merge_def)
qed

lemma consume_cases:
  obtains (installed) "consume (g, d, l, n) m = (Inr (g, d, l, n), m((g, d, n) \<mapsto> (g, d, l, n)))"
      "m (g, d, n) = None" "\<not> text_invalid 512 g" "\<not> text_invalid 512 d" "\<not> text_invalid 512 l" "0 \<le> n"
    | (refused) e where "consume (g, d, l, n) m = (Inl e, m)" "exn_class e = MergeAdmissionError"
  by (cases "consume (g, d, l, n) m"; cases "m (g, d, n)")
     (auto simp: consume_def merge_text_def dom_def not_less split: sum.splits)

lemma is_consumed_iff: "\<not> is_consumed k m \<longleftrightarrow> m k = None"
  by (simp only: is_consumed_def domIff not_not)

lemma allow_decision_valid:
  assumes "intent_validate i = Inr ()" "\<not> text_invalid 512 adm" "\<not> text_invalid 512 g" "\<not> text_invalid 512 d"
    "\<not> text_invalid 512 l" "0 \<le> n"
  shows "decision_validate (allow_decision i adm g d l n) = Inr ()"
proof -
  have "\<not> text_invalid 1024 ''exact merge authority, lineage, current epoch, and GitHub state admitted''" by code_simp
  then show ?thesis
    using assms intent_fields_valid [OF assms(1)]
    by (auto simp: decision_validate_def allow_decision_def merge_text_def) (auto simp: text_invalid_def)
qed

lemma consuming_body_cases:
  assumes "\<not> text_invalid 512 adm"
  obtains (allowed) a leaf d where "authenticate_and_bind i t gs keys v c w s = Inr (a, leaf)" "grant_digest leaf = Inr d"
      "m (ag_grant_id leaf, d, el_epoch a) = None"
      "consuming_body i t gs keys v c adm w s m
        = (Inr (allow_decision i adm (ag_grant_id leaf) d (el_lineage_digest a) (el_epoch a)),
           m((ag_grant_id leaf, d, el_epoch a) \<mapsto> (ag_grant_id leaf, d, el_lineage_digest a, el_epoch a)))"
    | (refused) e where "consuming_body i t gs keys v c adm w s m = (Inl e, m)"
proof (cases "and_then (authenticate_and_bind i t gs keys v c w s) (\<lambda>(admitted, leaf).
         and_then (grant_digest leaf) (\<lambda>digest. Inr (admitted, leaf, digest)))")
  case (Inl e)
  then show thesis by (intro refused [of e]) (simp add: consuming_body_def)
next
  case (Inr x)
  then obtain a leaf d where x: "x = (a, leaf, d)" and bind: "authenticate_and_bind i t gs keys v c w s = Inr (a, leaf)"
    and d: "grant_digest leaf = Inr d"
    by (auto simp: and_then_ok)
  have i: "intent_validate i = Inr ()" using bind by (simp add: authenticate_and_bind_ok)
  show thesis
  proof (cases rule: consume_cases [where g = "ag_grant_id leaf" and d = d and l = "el_lineage_digest a"
        and n = "el_epoch a" and m = m])
    case installed
    then show thesis
      using Inr x bind d allow_decision_valid [OF i assms, of "ag_grant_id leaf" d "el_lineage_digest a" "el_epoch a"]
      by (intro allowed [of a leaf d]) (simp_all add: consuming_body_def)
  next
    case (refused e)
    then show thesis using Inr x by (intro that(2) [of e]) (simp add: consuming_body_def)
  qed
qed

definition allowed :: "merge_decision res \<Rightarrow> bool" where
  "allowed r = (case r of Inl _ \<Rightarrow> False | Inr d \<Rightarrow> md_decision d = ''ALLOW'')"

lemma deny_ok: "deny_decision i adm x = Inr d \<Longrightarrow> md_decision d = ''DENY''
    \<and> (md_repository d, md_pr_number d, md_base_sha d, md_head_sha d, md_merge_method d)
      = (mi_repository i, mi_pr_number i, mi_base_sha i, mi_head_sha i, mi_merge_method i)"
  by (auto simp: deny_decision_def Let_def)

lemma deny_not_allowed [simp]: "\<not> allowed (deny_decision i adm x)"
  using deny_ok by (fastforce simp: allowed_def split: sum.splits)

lemma allow_allowed [simp]: "allowed (Inr (allow_decision i adm g d l n))"
  by (simp add: allowed_def allow_decision_def)

lemma admit_merge_cases:
  obtains (granted) a leaf d where "authenticate_and_bind i t gs keys v c w s = Inr (a, leaf)" "grant_digest leaf = Inr d"
      "m (ag_grant_id leaf, d, el_epoch a) = None" "\<not> text_invalid 512 adm"
      "admit_merge i t gs keys v c adm w s m
        = (Inr (allow_decision i adm (ag_grant_id leaf) d (el_lineage_digest a) (el_epoch a)),
           m((ag_grant_id leaf, d, el_epoch a) \<mapsto> (ag_grant_id leaf, d, el_lineage_digest a, el_epoch a)))"
    | (refused) r where "admit_merge i t gs keys v c adm w s m = (r, m)" "\<not> allowed r"
proof (cases "checks [intent_validate i, merge_text adm ''admission_id'' 512]")
  case (Inl e)
  then show thesis
    by (intro refused [of "Inl e"]) (simp_all only: admit_merge_def allowed_def sum.case simp_thms)
next
  case (Inr u)
  then have adm: "\<not> text_invalid 512 adm" by (simp add: merge_text_def)
  show thesis
  proof (cases rule: consuming_body_cases [OF adm, where i = i and t = t and gs = gs and keys = keys and v = v
        and c = c and w = w and s = s and m = m])
    case (1 a leaf d)
    with Inr adm show thesis by (intro granted [of a leaf d]) (simp_all add: admit_merge_def)
  next
    case (2 e)
    then show thesis
      using Inr by (intro that(2) [of "if is_value_error (exn_class e)
          then deny_decision i adm (rationale_of e ''merge admission failed closed'') else Inl e"])
        (simp_all add: admit_merge_def allowed_def [of "Inl e"])
  qed
qed

lemma bound_epoch: "authenticate_and_bind i t gs keys v c w s = Inr (a, leaf) \<Longrightarrow>
    leaf = last gs \<and> el_epoch a = ag_epoch (last gs)"
  using admitted_fields [of gs keys v c w s a] by (auto simp: authenticate_and_bind_ok)

section \<open>Consumption is one-shot\<close>

definition record_key :: "consumption_record \<Rightarrow> replay_key" where
  "record_key r = (case r of (g, d, l, n) \<Rightarrow> (g, d, n))"

interpretation spends: one_shot_registry consume "\<lambda>r. \<not> isl r" record_key "\<lambda>r. r" "\<lambda>m. m"
proof
  fix q :: consumption_record and m r m'
  obtain g d l n where q: "q = (g, d, l, n)" by (cases q)
  assume "consume q m = (r, m')" "\<not> isl r"
  then show "m (record_key q) = None \<and> m' = m(record_key q \<mapsto> q)"
    by (cases rule: consume_cases [where g = g and d = d and l = l and n = n and m = m])
       (auto simp: q record_key_def)
next
  fix q :: consumption_record and m r m'
  obtain g d l n where q: "q = (g, d, l, n)" by (cases q)
  assume "consume q m = (r, m')" "\<not> \<not> isl r"
  then show "m' = m"
    by (cases rule: consume_cases [where g = g and d = d and l = l and n = n and m = m]) (auto simp: q)
qed

text \<open>
  A call of \<open>admit_merge\<close> with everything it reads besides the consumption store, and its view as
  a request to a one-shot registry.
\<close>

record merge_call =
  mc_intent :: merge_intent
  mc_trusted :: trusted_pr_state
  mc_lineage :: "authority_grant list"
  mc_keys :: "issuer_key_binding list option"
  mc_verifier :: verifier
  mc_context :: verification_context
  mc_admission_id :: string
  mc_process :: authority_process
  mc_locked :: epoch_state

definition run_call :: "merge_call \<Rightarrow> (consumption_store, merge_decision) op" where
  "run_call q = admit_merge (mc_intent q) (mc_trusted q) (mc_lineage q) (mc_keys q) (mc_verifier q) (mc_context q)
     (mc_admission_id q) (mc_process q) (mc_locked q)"

definition call_key :: "merge_call \<Rightarrow> replay_key" where
  "call_key q = (let leaf = last (mc_lineage q) in (ag_grant_id leaf, projr (grant_digest leaf), ag_epoch leaf))"

definition call_entry :: "merge_call \<Rightarrow> consumption_record" where
  "call_entry q = (let leaf = last (mc_lineage q) in
     (ag_grant_id leaf, projr (grant_digest leaf), el_lineage_digest (projr (authenticate_and_admit_authority_lineage
        (mc_lineage q) (mc_keys q) (mc_verifier q) (mc_context q) (mc_process q) (mc_locked q))), ag_epoch leaf))"

interpretation calls: one_shot_registry run_call allowed call_key call_entry "\<lambda>m. m"
proof
  fix q :: merge_call and m r m'
  assume run: "run_call q m = (r, m')" and ok: "allowed r"
  show "m (call_key q) = None \<and> m' = m(call_key q \<mapsto> call_entry q)"
  proof (cases rule: admit_merge_cases [where i = "mc_intent q" and t = "mc_trusted q" and gs = "mc_lineage q"
        and keys = "mc_keys q" and v = "mc_verifier q" and c = "mc_context q" and adm = "mc_admission_id q"
        and w = "mc_process q" and s = "mc_locked q" and m = m])
    case (granted a leaf d)
    with run bound_epoch [OF granted(1)] granted(1) show ?thesis
      by (simp add: run_call_def call_key_def call_entry_def authenticate_and_bind_ok Let_def)
  next
    case (refused x)
    with run ok show ?thesis by (simp add: run_call_def)
  qed
next
  fix q :: merge_call and m r m'
  assume run: "run_call q m = (r, m')" and no: "\<not> allowed r"
  show "m' = m"
  proof (cases rule: admit_merge_cases [where i = "mc_intent q" and t = "mc_trusted q" and gs = "mc_lineage q"
        and keys = "mc_keys q" and v = "mc_verifier q" and c = "mc_context q" and adm = "mc_admission_id q"
        and w = "mc_process q" and s = "mc_locked q" and m = m])
    case (granted a leaf d)
    with run no show ?thesis by (auto simp: run_call_def)
  next
    case (refused x)
    with run show ?thesis by (simp add: run_call_def)
  qed
qed

lemma admit_merge_bound:
  assumes "authenticate_and_bind i t gs keys v c w s = Inr (a, leaf)" "grant_digest leaf = Inr d" "\<not> text_invalid 512 adm"
  shows "allowed (fst (admit_merge i t gs keys v c adm w s m)) \<longleftrightarrow> m (ag_grant_id leaf, d, el_epoch a) = None
    \<and> \<not> text_invalid 512 (ag_grant_id leaf) \<and> \<not> text_invalid 512 d \<and> \<not> text_invalid 512 (el_lineage_digest a)
    \<and> 0 \<le> el_epoch a"
proof -
  have i: "intent_validate i = Inr ()" using assms(1) by (simp add: authenticate_and_bind_ok)
  show ?thesis
  proof (cases rule: consume_cases [where g = "ag_grant_id leaf" and d = d and l = "el_lineage_digest a"
        and n = "el_epoch a" and m = m])
    case installed
    with assms i show ?thesis
      using allow_decision_valid [OF i assms(3), of "ag_grant_id leaf" d "el_lineage_digest a" "el_epoch a"]
      by (simp add: admit_merge_def consuming_body_def merge_text_def)
  next
    case (refused e)
    then have "\<not> (m (ag_grant_id leaf, d, el_epoch a) = None \<and> \<not> text_invalid 512 (ag_grant_id leaf)
        \<and> \<not> text_invalid 512 d \<and> \<not> text_invalid 512 (el_lineage_digest a) \<and> 0 \<le> el_epoch a)"
      by (auto simp: consume_def merge_text_def not_less split: sum.splits)
    moreover have "\<not> allowed (fst (admit_merge i t gs keys v c adm w s m))"
      using refused assms i by (simp add: admit_merge_def consuming_body_def merge_text_def)
    ultimately show ?thesis by blast
  qed
qed

section \<open>Example merge\<close>

definition example_intent :: merge_intent where
  "example_intent = \<lparr>mi_repository = ''o/r'', mi_pr_number = 7, mi_base_sha = replicate 40 CHR ''b'',
     mi_head_sha = replicate 40 CHR ''c'', mi_merge_method = ''squash'', mi_action = MERGE_ACTION\<rparr>"

definition example_trusted :: trusted_pr_state where
  "example_trusted = \<lparr>ts_repository = ''o/r'', ts_pr_number = 7, ts_base_sha = replicate 40 CHR ''b'',
     ts_head_sha = replicate 40 CHR ''c'', ts_merge_method = ''squash'', ts_action = MERGE_ACTION\<rparr>"

definition example_call :: merge_call where
  "example_call = \<lparr>mc_intent = example_intent, mc_trusted = example_trusted, mc_lineage = [root_grant, leaf_grant],
     mc_keys = Some example_keys, mc_verifier = example_verifier, mc_context = example_context,
     mc_admission_id = ''adm-1'', mc_process = example_process, mc_locked = example_state\<rparr>"

lemma example_leaf_grants: "leaf_grants_merge leaf_grant example_intent"
proof -
  have "canonical_merge_resource example_intent = Inr (hd (ag_resource_scope leaf_grant))"
    "canonical_merge_method_constraint example_intent = Inr (hd (ag_constraints leaf_grant))" by code_simp+
  then show ?thesis
    by (simp add: leaf_grants_merge_def) (simp add: leaf_grant_def root_grant_def example_intent_def MERGE_ACTION_def)
qed

lemma example_intent_valid: "intent_validate example_intent = Inr ()"
  by code_simp

lemma example_bound: "\<exists>a. authenticate_and_bind example_intent example_trusted [root_grant, leaf_grant] (Some example_keys)
    example_verifier example_context example_process example_state = Inr (a, leaf_grant)"
proof -
  have "same_merge example_intent example_trusted"
    by (simp add: same_merge_def example_intent_def example_trusted_def)
  then show ?thesis
    using example_admitted by (simp add: authenticate_and_bind_ok example_intent_valid example_leaf_grants)
qed

lemma lineage_digest_text:
  "authenticate_and_admit_authority_lineage gs keys v c w s = Inr a \<Longrightarrow> \<not> text_invalid 512 (el_lineage_digest a)"
  using admitted_digests(2) by auto

lemma example_allowed: "\<exists>d m'. admit_merge example_intent example_trusted [root_grant, leaf_grant] (Some example_keys)
    example_verifier example_context ''adm-1'' example_process example_state Map.empty = (Inr d, m')
    \<and> md_decision d = ''ALLOW''"
proof -
  obtain a where a: "authenticate_and_bind example_intent example_trusted [root_grant, leaf_grant] (Some example_keys)
      example_verifier example_context example_process example_state = Inr (a, leaf_grant)"
    using example_bound by blast
  obtain d where d: "grant_digest leaf_grant = Inr d" using example_grants_valid(2) by (simp add: grant_digest_ok)
  have "\<not> text_invalid 512 ''adm-1''" "\<not> text_invalid 512 (ag_grant_id leaf_grant)" by code_simp+
  moreover have "\<not> text_invalid 512 d" using is_hex_text [OF grant_digest_hex [OF d]] by simp
  moreover have "\<not> text_invalid 512 (el_lineage_digest a)" "el_epoch a = 3"
    using a lineage_digest_text admitted_fields(2) by (auto simp: authenticate_and_bind_ok example_state_def)
  ultimately have "allowed (fst (admit_merge example_intent example_trusted [root_grant, leaf_grant] (Some example_keys)
      example_verifier example_context ''adm-1'' example_process example_state Map.empty))"
    using admit_merge_bound [OF a d, of "''adm-1''" Map.empty] by simp
  then show ?thesis by (auto simp: allowed_def split: sum.splits) (metis prod.collapse)
qed

lemma example_non_consuming: "\<exists>r. admit_merge_non_consuming example_intent example_trusted example_lookup example_key
    (Some example_keys) example_verifier example_context ''adm-1'' example_process example_state = Inr r
    \<and> nr_decision r = ''ALLOW''"
proof -
  obtain a where a: "authenticate_and_bind example_intent example_trusted [root_grant, leaf_grant] (Some example_keys)
      example_verifier example_context example_process example_state = Inr (a, leaf_grant)"
    using example_bound by blast
  obtain d where d: "grant_digest leaf_grant = Inr d" using example_grants_valid(2) by (simp add: grant_digest_ok)
  have "lookup_key_validate example_key = Inr ()" by code_simp
  then have rec: "resolve_exact example_lookup example_key = Inr example_record"
    unfolding pr.resolve_ok by (simp add: example_lookup_def example_record_valid) (simp add: example_record_def)
  have key: "bind_lookup_key example_intent example_key example_context = Inr ()" by code_simp
  have texts: "\<not> text_invalid 512 ''adm-1''" "\<not> text_invalid 512 (ag_grant_id leaf_grant)"
    "\<not> text_invalid 512 (vc_mission_id example_context)" "\<not> text_invalid 512 ''control-plane/1''"
    "\<not> text_invalid 512 ''trusted-control-plane''"
    "\<not> text_invalid 1024 ''exact trusted authority, current epoch, and live GitHub state admitted without consumption''"
    "ag_grant_id leaf_grant = lk_grant_id example_key"
    by code_simp+
  have "\<not> text_invalid 512 d" using is_hex_text [OF grant_digest_hex [OF d]] by simp
  moreover have "\<not> text_invalid 512 (el_lineage_digest a)" "el_epoch a = 3"
    using a lineage_digest_text admitted_fields(2) by (auto simp: authenticate_and_bind_ok example_state_def)
  moreover have "\<not> text_invalid 512 (lr_lineage_digest example_record)"
    using example_source_digest is_hex_text [of 64] by (auto simp: example_record_def)
  moreover have "lr_lineage example_record = [root_grant, leaf_grant]" "lr_provenance_id example_record = ''control-plane/1''"
    "lr_source_kind example_record = ''trusted-control-plane''"
    by (simp_all add: example_record_def)
  ultimately show ?thesis
    using a d rec key texts example_intent_valid intent_fields_valid [OF example_intent_valid]
    by (simp add: admit_merge_non_consuming_def non_consuming_body_def Let_def evidence_validate_def result_validate_def
        non_consuming_evidence_def merge_text_def)
qed

lemma example_root_failure:
  assumes "grant_validate g = Inl e" "ag_grant_id g = ''root''" "ag_epoch g = 3" "ag_parent_grant_id g = None"
  shows "authenticate_and_bind example_intent example_trusted [g] keys v example_context example_process s = Inl e"
proof -
  have "lineage_root_checks [g] example_context example_process = Inl e"
    using assms by (simp add: lineage_root_checks_def example_context_valid valid_epoch_def epoch_registry_resolve_def
        root_registry_resolve_def owner_require_context_def example_process_def example_context_eq example_anchor_def
        grant_digest_def grant_canonical_payload_def)
  moreover have "trusted_validate example_trusted = Inr ()" by code_simp
  moreover have "intent_binding example_intent = trusted_binding example_trusted" "\<exists>b. intent_binding example_intent = Inr b"
    using example_intent_valid \<open>trusted_validate example_trusted = Inr ()\<close>
    by (simp_all add: intent_binding_def trusted_binding_def example_intent_def example_trusted_def)
  ultimately show ?thesis
    by (auto simp: authenticate_and_bind_def authenticate_and_admit_authority_lineage_def)
qed

lemma deny_nc_ok: "deny_non_consuming i adm x = Inr r \<Longrightarrow> nr_decision r = ''DENY''"
  by (auto simp: deny_non_consuming_def Let_def)

lemma nc_allow:
  assumes "admit_merge_non_consuming i t lookup k keys v c adm w s = Inr r" "nr_decision r = ''ALLOW''"
  obtains rec a d e where "resolve_exact lookup k = Inr rec" "\<not> text_invalid 512 adm"
    "authenticate_and_bind i t (lr_lineage rec) keys v c w s = Inr (a, last (lr_lineage rec))"
    "grant_digest (last (lr_lineage rec)) = Inr d" "nr_evidence r = Some e" "evidence_validate e = Inr ()"
    "ne_grant_id e = ag_grant_id (last (lr_lineage rec))" "ne_grant_digest e = d"
    "ne_lineage_digest e = el_lineage_digest a" "ne_epoch e = el_epoch a"
proof -
  have adm: "\<not> text_invalid 512 adm" and body: "non_consuming_body i t lookup k keys v c adm w s = Inr r"
    using assms deny_nc_ok by (fastforce simp: admit_merge_non_consuming_def merge_text_def split: sum.splits)+
  from body obtain rec a leaf d where *: "resolve_exact lookup k = Inr rec" "grant_digest leaf = Inr d"
    "authenticate_and_bind i t (lr_lineage rec) keys v c w s = Inr (a, leaf)"
    and r: "nr_evidence r = Some (non_consuming_evidence i c adm rec a leaf d)"
    and e: "evidence_validate (non_consuming_evidence i c adm rec a leaf d) = Inr ()"
    by (auto simp: non_consuming_body_def Let_def and_then_ok)
  have "leaf = last (lr_lineage rec)" using bound_epoch [OF *(3)] by simp
  with * r e adm show thesis
    by (intro that [of rec a d "non_consuming_evidence i c adm rec a leaf d"]) (simp_all, simp_all add: non_consuming_evidence_def)
qed

lemma decision_error: "intent_validate i = Inr () \<Longrightarrow> \<not> text_invalid 512 adm \<Longrightarrow>
    deny_decision i adm x = Inl y \<Longrightarrow> y = merge_error ''rationale is invalid''"
  using intent_fields_valid [of i] by (auto simp: deny_decision_def Let_def decision_validate_def merge_text_def and_then_err)

lemma deny_nc_error: "intent_validate i = Inr () \<Longrightarrow> \<not> text_invalid 512 adm \<Longrightarrow>
    deny_non_consuming i adm x = Inl y \<Longrightarrow> y = merge_error ''rationale is invalid''"
  using intent_fields_valid [of i] by (auto simp: deny_non_consuming_def Let_def result_validate_def merge_text_def and_then_err)

section \<open>Receipt ids\<close>

text \<open>The hashed text of a receipt, from its fields.\<close>

definition receipt_values :: "merge_receipt \<Rightarrow> string list" where
  "receipt_values r = [mr_admission_id r, mr_repository r, int_text (mr_pr_number r), mr_base_sha r, mr_head_sha r,
     mr_merge_sha r, mr_merge_method r, mr_grant_digest r, mr_lineage_digest r, int_text (mr_epoch r), mr_executor r,
     mr_outcome r]"

definition receipt_text :: "merge_receipt \<Rightarrow> string" where
  "receipt_text r = utf8 (join [nul] (receipt_values r))"

lemma int_text_eq_iff: "int_text i = int_text j \<longleftrightarrow> i = j"
  using int_text_eq by auto

lemma receipt_issued:
  assumes "issue_merge_execution_receipt d x ex oc = Inr r"
  shows "md_decision d = ''ALLOW''" "mr_receipt_id r = ''merge-receipt:'' @ sha256 (receipt_text r)"
    "receipt_validate r = Inr ()" "mr_executor r = ex"
  using assms by (auto simp: issue_merge_execution_receipt_def Let_def receipt_text_def receipt_values_def
      receipt_payload_def split: option.splits)

lemma receipt_values_clean:
  assumes "receipt_validate r = Inr ()" "y \<in> set (receipt_values r)"
  shows "nul \<notin> set y"
proof -
  have "nul \<notin> set m" if "m \<in> {''merge'', ''squash'', ''rebase'', ''SUCCEEDED'', ''FAILED'', ''PARTIAL'', ''ABORTED''}" for m
    using that by (auto simp: nul_def)
  with assms int_text_no_nul hex_no_nul show ?thesis
    unfolding receipt_validate_def receipt_values_def fields_validate_def checks_Cons_ok intent_validate_ok merge_text_def
      raise_when_ok text_invalid_def merge_sha_def
    by auto
qed

lemma receipt_text_inject:
  assumes "receipt_text r = receipt_text r'" "receipt_validate r = Inr ()" "receipt_validate r' = Inr ()"
  shows "mr_admission_id r = mr_admission_id r' \<and> mr_repository r = mr_repository r' \<and> mr_pr_number r = mr_pr_number r'
    \<and> mr_base_sha r = mr_base_sha r' \<and> mr_head_sha r = mr_head_sha r' \<and> mr_merge_sha r = mr_merge_sha r'
    \<and> mr_merge_method r = mr_merge_method r' \<and> mr_grant_digest r = mr_grant_digest r'
    \<and> mr_lineage_digest r = mr_lineage_digest r' \<and> mr_epoch r = mr_epoch r' \<and> mr_executor r = mr_executor r'
    \<and> mr_outcome r = mr_outcome r'"
proof -
  have "join [nul] (receipt_values r) = join [nul] (receipt_values r')" using assms(1) by (simp add: receipt_text_def)
  then have "receipt_values r = receipt_values r'"
    by (rule join_nul_inject) (use receipt_values_clean assms(2,3) in \<open>auto simp: receipt_values_def\<close>)
  then show ?thesis by (simp add: receipt_values_def int_text_eq_iff)
qed

section \<open>Properties\<close>

text \<open>C16. An allowed merge is exactly authorised: the intent equals the GitHub state, the lineage is
  admitted under the owner's lock, its leaf grants this action on this pull request at these
  commits with this merge method, the leaf was unspent, and the call spends it: the store gains
  exactly the entry of this grant and the decision carries its identity.\<close>

theorem merge_allow_exact:
  assumes "admit_merge i t gs keys v c adm w s m = (Inr d, m')" and "md_decision d = ''ALLOW''"
  shows "same_merge i t \<and> leaf_grants_merge (last gs) i
    \<and> (\<exists>a dg. authenticate_and_admit_authority_lineage gs keys v c w s = Inr a \<and> grant_digest (last gs) = Inr dg
        \<and> m (ag_grant_id (last gs), dg, es_epoch s) = None
        \<and> m' = m((ag_grant_id (last gs), dg, es_epoch s) \<mapsto> (ag_grant_id (last gs), dg, el_lineage_digest a, es_epoch s))
        \<and> d = allow_decision i adm (ag_grant_id (last gs)) dg (el_lineage_digest a) (es_epoch s))"
proof (cases rule: admit_merge_cases [where i = i and t = t and gs = gs and keys = keys and v = v and c = c
      and adm = adm and w = w and s = s and m = m])
  case (granted a leaf dg)
  then have "authenticate_and_admit_authority_lineage gs keys v c w s = Inr a" "leaf = last gs"
    "same_merge i t" "leaf_grants_merge (last gs) i"
    by (auto simp: authenticate_and_bind_ok)
  with granted assms(1) admitted_fields(2) [OF this(1)] show ?thesis by auto
next
  case (refused r)
  with assms show ?thesis by (simp add: allowed_def)
qed

theorem merge_allow_exact_witness:
  "\<exists>d m'. admit_merge example_intent example_trusted [root_grant, leaf_grant] (Some example_keys) example_verifier
      example_context ''adm-1'' example_process example_state Map.empty = (Inr d, m')
    \<and> md_decision d = ''ALLOW'' \<and> md_grant_id d = Some ''leaf'' \<and> m' \<noteq> Map.empty"
proof -
  have adm: "\<not> text_invalid 512 ''adm-1''" by code_simp
  obtain d m' where d: "admit_merge example_intent example_trusted [root_grant, leaf_grant] (Some example_keys)
      example_verifier example_context ''adm-1'' example_process example_state Map.empty = (Inr d, m')"
    "md_decision d = ''ALLOW''"
    using example_allowed by blast
  from merge_allow_exact [OF d] d show ?thesis
    by (fastforce simp: allow_decision_def leaf_grant_def)
qed

text \<open>Only an allowed merge spends authority: when the call denies or raises, the consumption store
  is unchanged; in particular nothing fails after the authority is spent.\<close>

theorem merge_refusal_spends_nothing:
  assumes "\<not> allowed (fst (admit_merge i t gs keys v c adm w s m))"
  shows "snd (admit_merge i t gs keys v c adm w s m) = m"
  by (cases rule: admit_merge_cases [where i = i and t = t and gs = gs and keys = keys and v = v and c = c
      and adm = adm and w = w and s = s and m = m]) (use assms in simp_all)

theorem merge_refusal_spends_nothing_witness:
  "snd (admit_merge example_intent example_trusted [] (Some example_keys) example_verifier
      example_context ''adm-1'' example_process example_state Map.empty) = Map.empty"
proof -
  have "\<not> allowed (fst (admit_merge example_intent example_trusted [] (Some example_keys) example_verifier
      example_context ''adm-1'' example_process example_state Map.empty))"
    by (cases rule: admit_merge_cases [where i = example_intent and t = example_trusted and gs = "[]"
          and keys = "Some example_keys" and v = example_verifier and c = example_context and adm = "''adm-1''"
          and w = example_process and s = example_state and m = Map.empty])
       (auto simp: authenticate_and_bind_ok lineage_admitted_iff root_checks_ok dest: admitted_fields(1))
  from merge_refusal_spends_nothing [OF this] show ?thesis .
qed

text \<open>C3. Merge authority is single use: in every sequence of admission calls on one consumption owner,
  each with its own intent, lineage, keys, verifier and authority state, at most one of two calls
  that present the same leaf grant is allowed.\<close>

theorem merge_authority_single_use:
  assumes "i < j" and "j < length qs" and "last (mc_lineage (qs ! i)) = last (mc_lineage (qs ! j))"
  shows "\<not> (allowed (fst (run_ops (map run_call qs) m) ! i) \<and> allowed (fst (run_ops (map run_call qs) m) ! j))"
  by (rule calls.at_most_once) (use assms in \<open>simp_all add: call_key_def Let_def\<close>)

theorem merge_authority_single_use_witness:
  "\<not> (allowed (fst (run_ops (map run_call [example_call, example_call\<lparr>mc_admission_id := ''adm-2''\<rparr>]) Map.empty) ! 0)
     \<and> allowed (fst (run_ops (map run_call [example_call, example_call\<lparr>mc_admission_id := ''adm-2''\<rparr>]) Map.empty) ! 1))"
  by (rule merge_authority_single_use) simp_all

text \<open>Non-consuming admission predicts the merge: when it allows, the consuming call with the
  resolved lineage, against the same authority state, is allowed exactly if the grant the evidence
  names has not been spent.\<close>

theorem non_consuming_predicts:
  assumes "admit_merge_non_consuming i t lookup k keys v c adm w s = Inr r" and "nr_decision r = ''ALLOW''"
  shows "\<exists>rec e. resolve_exact lookup k = Inr rec \<and> nr_evidence r = Some e
    \<and> (\<forall>m. allowed (fst (admit_merge i t (lr_lineage rec) keys v c adm w s m))
         \<longleftrightarrow> \<not> is_consumed (ne_grant_id e, ne_grant_digest e, ne_epoch e) m)"
proof -
  from assms obtain rec a d e where *: "resolve_exact lookup k = Inr rec" "\<not> text_invalid 512 adm"
    "authenticate_and_bind i t (lr_lineage rec) keys v c w s = Inr (a, last (lr_lineage rec))"
    "grant_digest (last (lr_lineage rec)) = Inr d" "nr_evidence r = Some e" "evidence_validate e = Inr ()"
    "ne_grant_id e = ag_grant_id (last (lr_lineage rec))" "ne_grant_digest e = d"
    "ne_lineage_digest e = el_lineage_digest a" "ne_epoch e = el_epoch a"
    by (rule nc_allow)
  have "allowed (fst (admit_merge i t (lr_lineage rec) keys v c adm w s m))
      \<longleftrightarrow> \<not> is_consumed (ne_grant_id e, ne_grant_digest e, ne_epoch e) m" for m
    using admit_merge_bound [OF *(3,4,2), of m] *(6-10)
    by (simp add: is_consumed_iff evidence_validate_def merge_text_def not_less)
  with *(1,5) show ?thesis by blast
qed

theorem non_consuming_predicts_witness:
  "\<exists>r rec. admit_merge_non_consuming example_intent example_trusted example_lookup example_key (Some example_keys)
      example_verifier example_context ''adm-1'' example_process example_state = Inr r
    \<and> nr_decision r = ''ALLOW'' \<and> resolve_exact example_lookup example_key = Inr rec
    \<and> allowed (fst (admit_merge example_intent example_trusted (lr_lineage rec) (Some example_keys)
      example_verifier example_context ''adm-1'' example_process example_state Map.empty))"
proof -
  obtain r where r: "admit_merge_non_consuming example_intent example_trusted example_lookup example_key
      (Some example_keys) example_verifier example_context ''adm-1'' example_process example_state = Inr r"
    "nr_decision r = ''ALLOW''"
    using example_non_consuming by blast
  from non_consuming_predicts [OF r] r show ?thesis by (fastforce simp: is_consumed_def)
qed

text \<open>Both admissions answer every well-formed call: with a valid intent and admission id the
  non-consuming one returns a decision unless the rationale it derives from the failure is itself
  unusable (too long or with a NUL), and so does the consuming one, except for exceptions that are
  no \<open>ValueError\<close>.\<close>

theorem admission_answers:
  assumes "intent_validate i = Inr ()" and "\<not> text_invalid 512 adm"
  shows "((\<exists>r. admit_merge_non_consuming i t lookup k keys v c adm w s = Inr r)
      \<or> admit_merge_non_consuming i t lookup k keys v c adm w s = Inl (merge_error ''rationale is invalid''))
    \<and> ((\<exists>d. fst (admit_merge i t gs keys v c adm w s m) = Inr d)
      \<or> fst (admit_merge i t gs keys v c adm w s m) = Inl (merge_error ''rationale is invalid'')
      \<or> (\<exists>e. fst (admit_merge i t gs keys v c adm w s m) = Inl e \<and> \<not> is_value_error (exn_class e)))"
proof
  show "(\<exists>r. admit_merge_non_consuming i t lookup k keys v c adm w s = Inr r)
      \<or> admit_merge_non_consuming i t lookup k keys v c adm w s = Inl (merge_error ''rationale is invalid'')"
  proof (cases "admit_merge_non_consuming i t lookup k keys v c adm w s")
    case (Inl y)
    then obtain x where "deny_non_consuming i adm x = Inl y"
      using assms by (auto simp: admit_merge_non_consuming_def merge_text_def split: sum.splits)
    with Inl deny_nc_error [OF assms] show ?thesis by simp
  qed simp
  show "(\<exists>d. fst (admit_merge i t gs keys v c adm w s m) = Inr d)
      \<or> fst (admit_merge i t gs keys v c adm w s m) = Inl (merge_error ''rationale is invalid'')
      \<or> (\<exists>e. fst (admit_merge i t gs keys v c adm w s m) = Inl e \<and> \<not> is_value_error (exn_class e))"
  proof (cases "fst (admit_merge i t gs keys v c adm w s m)")
    case (Inl y)
    have "(\<exists>x. deny_decision i adm x = Inl y) \<or> \<not> is_value_error (exn_class y)"
      using Inl assms by (auto simp: admit_merge_def merge_text_def split: sum.splits prod.splits if_splits)
    with Inl decision_error [OF assms] show ?thesis by auto
  qed simp
qed

theorem admission_answers_witness:
  "(\<exists>d. fst (admit_merge example_intent example_trusted [] None example_verifier example_context ''adm-1''
       example_process example_state Map.empty) = Inr d)
   \<or> fst (admit_merge example_intent example_trusted [] None example_verifier example_context ''adm-1''
       example_process example_state Map.empty) = Inl (merge_error ''rationale is invalid'')
   \<or> (\<exists>e. fst (admit_merge example_intent example_trusted [] None example_verifier example_context ''adm-1''
       example_process example_state Map.empty) = Inl e \<and> \<not> is_value_error (exn_class e))"
proof -
  have "\<not> text_invalid 512 ''adm-1''" by code_simp
  from conjunct2 [OF admission_answers [OF example_intent_valid this]] show ?thesis .
qed

text \<open>Both exceptions happen. A root grant whose authority class is an unknown word of 1100
  characters makes the denial itself raise, in either admission; one whose start time lies before
  year 1 once converted to UTC makes the consuming admission raise \<open>OverflowError\<close>. The
  module documents both paths as failing closed with a decision.\<close>

theorem admission_may_raise:
  "fst (admit_merge example_intent example_trusted [root_grant\<lparr>ag_authority_ceiling := replicate 1100 CHR ''x''\<rparr>]
      (Some example_keys) example_verifier example_context ''adm-1'' example_process example_state Map.empty)
     = Inl (merge_error ''rationale is invalid'')
   \<and> exn_class (projl (fst (admit_merge example_intent example_trusted
        [root_grant\<lparr>ag_issued_at := ''0001-01-01T00:00:00+05:00''\<rparr>]
        (Some example_keys) example_verifier example_context ''adm-1'' example_process example_state Map.empty)))
     = PyOverflowError
   \<and> isl (fst (admit_merge example_intent example_trusted
        [root_grant\<lparr>ag_issued_at := ''0001-01-01T00:00:00+05:00''\<rparr>]
        (Some example_keys) example_verifier example_context ''adm-1'' example_process example_state Map.empty))"
proof -
  have adm: "merge_text ''adm-1'' ''admission_id'' 512 = Inr ()" by code_simp
  let ?u = "root_grant\<lparr>ag_authority_ceiling := replicate 1100 CHR ''x''\<rparr>"
  let ?o = "root_grant\<lparr>ag_issued_at := ''0001-01-01T00:00:00+05:00''\<rparr>"
  have u: "grant_validate ?u = Inl (Exn EnterpriseModelError (''unknown authority class: '' @ replicate 1100 CHR ''x''))"
    by code_simp
  have o: "isl (grant_validate ?o)" "exn_class (projl (grant_validate ?o)) = PyOverflowError" by code_simp+
  then obtain x where x: "grant_validate ?o = Inl x" "exn_class x = PyOverflowError" by (cases "grant_validate ?o") auto
  have body: "consuming_body example_intent example_trusted [g] (Some example_keys) example_verifier example_context
      ''adm-1'' example_process example_state Map.empty = (Inl e, Map.empty)"
    if "grant_validate g = Inl e" "ag_grant_id g = ''root''" "ag_epoch g = 3" "ag_parent_grant_id g = None" for g e
    using example_root_failure [OF that] by (simp add: consuming_body_def)
  have "deny_decision example_intent ''adm-1'' (''unknown authority class: '' @ replicate 1100 CHR ''x'')
      = Inl (merge_error ''rationale is invalid'')" by code_simp
  moreover have "consuming_body example_intent example_trusted [?u] (Some example_keys) example_verifier example_context
      ''adm-1'' example_process example_state Map.empty
      = (Inl (Exn EnterpriseModelError (''unknown authority class: '' @ replicate 1100 CHR ''x'')), Map.empty)"
    by (rule body [OF u]) (simp_all add: root_grant_def)
  moreover have "consuming_body example_intent example_trusted [?o] (Some example_keys) example_verifier example_context
      ''adm-1'' example_process example_state Map.empty = (Inl x, Map.empty)"
    by (rule body [OF x(1)]) (simp_all add: root_grant_def)
  ultimately show ?thesis
    using x(2) adm by (simp add: admit_merge_def example_intent_valid rationale_of_def)
qed

text \<open>Receipts are issued only for allowed decisions and their id identifies what it attests: two
  receipts with the same id agree on every field other than the grant id (which the grant digest
  covers), unless SHA-256 collides on the two payloads.\<close>

theorem receipt_id_binds:
  assumes "issue_merge_execution_receipt d x ex oc = Inr r" and "issue_merge_execution_receipt d' x' ex' oc' = Inr r'"
    and "mr_receipt_id r = mr_receipt_id r'"
  shows "md_decision d = ''ALLOW'' \<and> md_decision d' = ''ALLOW''
    \<and> (r\<lparr>mr_grant_id := g\<rparr> = r'\<lparr>mr_grant_id := g\<rparr> \<or> collides (receipt_text r) (receipt_text r'))"
proof -
  note R = receipt_issued [OF assms(1)] and R' = receipt_issued [OF assms(2)]
  have "r\<lparr>mr_grant_id := g\<rparr> = r'\<lparr>mr_grant_id := g\<rparr>" if "receipt_text r = receipt_text r'"
    using receipt_text_inject [OF that R(3) R'(3)] assms(3) by (auto intro: merge_receipt.equality)
  moreover have "sha256 (receipt_text r) = sha256 (receipt_text r')"
    using assms(3) R(2) R'(2) by simp
  ultimately show ?thesis using R(1) R'(1) by (auto simp: collides_def)
qed

theorem receipt_id_binds_witness:
  "\<exists>r. issue_merge_execution_receipt (allow_decision example_intent ''adm-1'' ''leaf'' hex64 hex64 3)
       (replicate 40 CHR ''d'') ''ci'' ''SUCCEEDED'' = Inr r \<and> mr_executor r = ''ci''
     \<and> (\<forall>d x ex oc r'. issue_merge_execution_receipt d x ex oc = Inr r' \<longrightarrow> mr_receipt_id r = mr_receipt_id r' \<longrightarrow>
          mr_executor r' = ''ci'' \<or> collides (receipt_text r) (receipt_text r'))"
proof -
  have "decision_validate (allow_decision example_intent ''adm-1'' ''leaf'' hex64 hex64 3) = Inr ()" by code_simp
  moreover have "\<not> text_invalid 512 ''adm-1''" "\<not> text_invalid 512 ''leaf''" "\<not> text_invalid 512 hex64" "\<not> text_invalid 512 ''ci''"
    "is_hex 40 (replicate 40 CHR ''d'')" "\<not> text_invalid 40 (replicate 40 CHR ''d'')" by code_simp+
  moreover have "\<not> text_invalid 512 (''merge-receipt:'' @ sha256 m)" for m
    using is_hex_sha256 [of m] by (auto simp: text_invalid_def is_hex_def list_all_iff py_space_def nul_def dest: hex_char_not_nul [unfolded nul_def])
  ultimately obtain r where r: "issue_merge_execution_receipt (allow_decision example_intent ''adm-1'' ''leaf'' hex64 hex64 3)
       (replicate 40 CHR ''d'') ''ci'' ''SUCCEEDED'' = Inr r"
    using intent_fields_valid [OF example_intent_valid]
    by (simp add: issue_merge_execution_receipt_def allow_decision_def receipt_validate_def merge_text_def merge_sha_def Let_def)
  have ex: "mr_executor r = ''ci''" using receipt_issued(4) [OF r] .
  have "mr_executor r' = ''ci'' \<or> collides (receipt_text r) (receipt_text r')"
    if "issue_merge_execution_receipt d x e oc = Inr r'" "mr_receipt_id r = mr_receipt_id r'" for d x e oc r'
  proof -
    from receipt_id_binds [OF r that, of "[]"] have "r\<lparr>mr_grant_id := []\<rparr> = r'\<lparr>mr_grant_id := []\<rparr> \<or> collides (receipt_text r) (receipt_text r')"
      by blast
    then show ?thesis using ex by (auto dest: arg_cong [where f = mr_executor])
  qed
  with r ex show ?thesis by blast
qed

end
