(* ===== verification/Fleet_Effect_Budget.thy ===== *)
theory Fleet_Effect_Budget
  imports Py_Json_Inject "HOL-Library.Product_Lexorder" "HOL-Library.Multiset"
begin

text \<open>
  The fleet effect budget: the contracts of contracts/fleet_effect_budget.py and the SQLite store of
  enterprise/fleet_effect_budget.py.

  The database is \<open>budget_store\<close>: the singleton meta row and the reservation rows in insertion
  order. A row is the reservation it is read back as; the column \<open>changed_paths_json\<close> holds the
  JSON text of a list of strings and is kept decoded. Each method runs one \<open>BEGIN IMMEDIATE\<close>
  transaction, so an operation is a function of the store. The clock is an argument: \<open>None\<close> when
  it returns something other than an aware datetime, else the UTC time. It is read before the
  transaction begins, hence nothing relates the times of successive operations.

  SQLite compares TEXT byte by byte; on the code points of the model that is the lexicographic
  order of strings.
\<close>

section \<open>Contract helpers\<close>

abbreviation contract_error :: "string \<Rightarrow> exn" where
  "contract_error m \<equiv> Exn FleetEffectBudgetContractError m"

abbreviation budget_error :: "string \<Rightarrow> exn" where
  "budget_error m \<equiv> Exn FleetEffectBudgetError m"

definition budget_text :: "string \<Rightarrow> string \<Rightarrow> nat \<Rightarrow> unit res" where
  "budget_text value name limit =
     raise_when (text_invalid limit value) FleetEffectBudgetContractError (name @ '' is invalid'')"

definition budget_digest :: "string \<Rightarrow> string \<Rightarrow> unit res" where
  "budget_digest value name = checks [
     budget_text value name 64,
     raise_when (\<not> is_hex 64 value) FleetEffectBudgetContractError (name @ '' must be lowercase sha256'')]"

definition budget_positive :: "int \<Rightarrow> string \<Rightarrow> unit res" where
  "budget_positive value name =
     raise_when (value \<le> 0) FleetEffectBudgetContractError (name @ '' must be a positive integer'')"

definition budget_nonnegative :: "int \<Rightarrow> string \<Rightarrow> unit res" where
  "budget_nonnegative value name =
     raise_when (value < 0) FleetEffectBudgetContractError (name @ '' must be a non-negative integer'')"

definition budget_utc :: "string \<Rightarrow> string \<Rightarrow> int res" where
  "budget_utc value name = and_then (budget_text value name 1024) (\<lambda>_.
     parse_utc (contract_error (name @ '' is invalid'')) (contract_error (name @ '' must be timezone-aware'')) value)"

definition ref_char :: "char \<Rightarrow> bool" where
  "ref_char c = (let n = (of_char c :: nat) in
     65 \<le> n \<and> n \<le> 90 \<or> 97 \<le> n \<and> n \<le> 122 \<or> 48 \<le> n \<and> n \<le> 57 \<or> c \<in> set ''._/-'')"

text \<open>
  \<open>_BRANCH.fullmatch\<close>. The look-aheads for an at-sign before a brace and for the characters outside
  the final class never fire on text that the class accepts.
\<close>

definition ref_pattern :: "string \<Rightarrow> bool" where
  "ref_pattern s = (s \<noteq> [] \<and> list_all ref_char s \<and> \<not> starts_with ''/'' s \<and> \<not> contains ''//'' s
     \<and> \<not> contains ''..'' s \<and> \<not> ends_with ''.'' s \<and> \<not> contains ''.lock/'' s \<and> \<not> ends_with ''.lock'' s)"

definition budget_branch :: "string \<Rightarrow> unit res" where
  "budget_branch value = checks [
     budget_text value ''branch'' 255,
     raise_when (starts_with ''refs/'' value \<or> \<not> ref_pattern value) FleetEffectBudgetContractError ''branch is invalid'']"

definition path_check :: "string \<Rightarrow> unit res" where
  "path_check raw = checks [
     budget_text raw ''changed_path'' 1024,
     raise_when (CHR 0x5C \<in> set raw) FleetEffectBudgetContractError ''changed_path must use POSIX separators'',
     raise_when (starts_with ''/'' raw \<or> ''..'' \<in> set (path_parts raw) \<or> path_parts raw = [])
       FleetEffectBudgetContractError ''changed_path is unsafe'']"

definition budget_paths :: "string list \<Rightarrow> unit res" where
  "budget_paths values = checks (
     raise_when (values = [] \<or> \<not> no_dup values) FleetEffectBudgetContractError
       ''changed_paths must be a non-empty unique tuple'' # map path_check values)"

section \<open>Contract records\<close>

record effect_envelope =
  fe_envelope_id :: string
  fe_fleet_id :: string
  fe_generation :: int
  fe_policy_digest :: string
  fe_max_concurrent_writers :: int
  fe_max_active_repository_effects :: int
  fe_max_active_branch_effects :: int
  fe_max_active_path_effects :: int
  fe_valid_from :: string
  fe_expires_at :: string
  fe_schema_version :: string

definition envelope_validate :: "effect_envelope \<Rightarrow> unit res" where
  "envelope_validate e = checks [
     raise_when (fe_schema_version e \<noteq> ''1.0.0'') FleetEffectBudgetContractError
       ''unsupported fleet effect envelope schema'',
     budget_text (fe_envelope_id e) ''envelope_id'' 1024,
     budget_text (fe_fleet_id e) ''fleet_id'' 1024,
     budget_positive (fe_generation e) ''generation'',
     budget_digest (fe_policy_digest e) ''policy_digest'',
     budget_positive (fe_max_concurrent_writers e) ''max_concurrent_writers'',
     budget_positive (fe_max_active_repository_effects e) ''max_active_repository_effects'',
     budget_positive (fe_max_active_branch_effects e) ''max_active_branch_effects'',
     budget_positive (fe_max_active_path_effects e) ''max_active_path_effects'',
     and_then (budget_utc (fe_valid_from e) ''valid_from'') (\<lambda>start.
       and_then (budget_utc (fe_expires_at e) ''expires_at'') (\<lambda>end1.
         raise_when (end1 \<le> start) FleetEffectBudgetContractError ''envelope expiry must follow activation''))]"

definition envelope_json :: "effect_envelope \<Rightarrow> json" where
  "envelope_json e = JObj [
     (''envelope_id'', JStr (fe_envelope_id e)), (''fleet_id'', JStr (fe_fleet_id e)),
     (''generation'', JInt (fe_generation e)), (''policy_digest'', JStr (fe_policy_digest e)),
     (''max_concurrent_writers'', JInt (fe_max_concurrent_writers e)),
     (''max_active_repository_effects'', JInt (fe_max_active_repository_effects e)),
     (''max_active_branch_effects'', JInt (fe_max_active_branch_effects e)),
     (''max_active_path_effects'', JInt (fe_max_active_path_effects e)),
     (''valid_from'', JStr (fe_valid_from e)), (''expires_at'', JStr (fe_expires_at e)),
     (''schema_version'', JStr (fe_schema_version e))]"

definition envelope_digest :: "effect_envelope \<Rightarrow> string res" where
  "envelope_digest e = and_then (envelope_validate e) (\<lambda>_.
     Inr (sha256 (''LION/FLEET-EFFECT-ENVELOPE/1'' @ [nul] @ canon (envelope_json e))))"

record reservation_request =
  rq_reservation_id :: string
  rq_effect_id :: string
  rq_candidate_digest :: string
  rq_mission_id :: string
  rq_executor_id :: string
  rq_runtime_id :: string
  rq_repository :: string
  rq_branch :: string
  rq_changed_paths :: "string list"
  rq_authority_effect_key :: string
  rq_authority_epoch :: int
  rq_envelope_generation :: int
  rq_requested_at :: string
  rq_expires_at :: string
  rq_schema_version :: string

definition request_validate :: "reservation_request \<Rightarrow> unit res" where
  "request_validate q = checks [
     raise_when (rq_schema_version q \<noteq> ''1.0.0'') FleetEffectBudgetContractError ''unsupported reservation request schema'',
     budget_text (rq_reservation_id q) ''reservation_id'' 1024,
     budget_text (rq_effect_id q) ''effect_id'' 1024,
     budget_text (rq_mission_id q) ''mission_id'' 1024,
     budget_text (rq_executor_id q) ''executor_id'' 1024,
     budget_text (rq_runtime_id q) ''runtime_id'' 1024,
     budget_text (rq_repository q) ''repository'' 1024,
     budget_digest (rq_candidate_digest q) ''candidate_digest'',
     budget_branch (rq_branch q),
     budget_paths (rq_changed_paths q),
     budget_digest (rq_authority_effect_key q) ''authority_effect_key'',
     budget_nonnegative (rq_authority_epoch q) ''authority_epoch'',
     budget_positive (rq_envelope_generation q) ''envelope_generation'',
     and_then (budget_utc (rq_requested_at q) ''requested_at'') (\<lambda>requested.
       and_then (budget_utc (rq_expires_at q) ''expires_at'') (\<lambda>expires.
         raise_when (expires \<le> requested) FleetEffectBudgetContractError ''reservation expiry must follow request time''))]"

definition request_json :: "reservation_request \<Rightarrow> json" where
  "request_json q = JObj [
     (''reservation_id'', JStr (rq_reservation_id q)), (''effect_id'', JStr (rq_effect_id q)),
     (''candidate_digest'', JStr (rq_candidate_digest q)), (''mission_id'', JStr (rq_mission_id q)),
     (''executor_id'', JStr (rq_executor_id q)), (''runtime_id'', JStr (rq_runtime_id q)),
     (''repository'', JStr (rq_repository q)), (''branch'', JStr (rq_branch q)),
     (''changed_paths'', strs (rq_changed_paths q)),
     (''authority_effect_key'', JStr (rq_authority_effect_key q)),
     (''authority_epoch'', JInt (rq_authority_epoch q)),
     (''envelope_generation'', JInt (rq_envelope_generation q)),
     (''requested_at'', JStr (rq_requested_at q)), (''expires_at'', JStr (rq_expires_at q)),
     (''schema_version'', JStr (rq_schema_version q))]"

definition request_digest :: "reservation_request \<Rightarrow> string res" where
  "request_digest q = and_then (request_validate q) (\<lambda>_.
     Inr (sha256 (''LION/FLEET-EFFECT-RESERVATION-REQUEST/1'' @ [nul] @ canon (request_json q))))"

record reservation =
  rv_reservation_id :: string
  rv_request_digest :: string
  rv_effect_id :: string
  rv_candidate_digest :: string
  rv_mission_id :: string
  rv_executor_id :: string
  rv_runtime_id :: string
  rv_repository :: string
  rv_branch :: string
  rv_changed_paths :: "string list"
  rv_authority_effect_key :: string
  rv_authority_epoch :: int
  rv_envelope_id :: string
  rv_envelope_generation :: int
  rv_envelope_digest :: string
  rv_state :: string
  rv_reserved_at :: string
  rv_expires_at :: string
  rv_finalized_at :: "string option"
  rv_schema_version :: string

definition TERMINAL :: "string set" where
  "TERMINAL = {''RELEASED'', ''FINALIZED'', ''EXPIRED''}"

definition reservation_validate :: "reservation \<Rightarrow> unit res" where
  "reservation_validate r = checks [
     raise_when (rv_schema_version r \<noteq> ''1.0.0'') FleetEffectBudgetContractError ''unsupported reservation schema'',
     budget_text (rv_reservation_id r) ''reservation_id'' 1024,
     budget_text (rv_effect_id r) ''effect_id'' 1024,
     budget_text (rv_mission_id r) ''mission_id'' 1024,
     budget_text (rv_executor_id r) ''executor_id'' 1024,
     budget_text (rv_runtime_id r) ''runtime_id'' 1024,
     budget_text (rv_repository r) ''repository'' 1024,
     budget_text (rv_envelope_id r) ''envelope_id'' 1024,
     budget_digest (rv_request_digest r) ''request_digest'',
     budget_digest (rv_candidate_digest r) ''candidate_digest'',
     budget_digest (rv_authority_effect_key r) ''authority_effect_key'',
     budget_digest (rv_envelope_digest r) ''envelope_digest'',
     budget_branch (rv_branch r),
     budget_paths (rv_changed_paths r),
     budget_nonnegative (rv_authority_epoch r) ''authority_epoch'',
     budget_positive (rv_envelope_generation r) ''envelope_generation'',
     and_then (budget_utc (rv_reserved_at r) ''reserved_at'') (\<lambda>reserved.
       and_then (budget_utc (rv_expires_at r) ''expires_at'') (\<lambda>expires.
         raise_when (expires \<le> reserved) FleetEffectBudgetContractError ''reservation expiry must follow reservation time'')),
     raise_when (rv_state r \<notin> insert ''RESERVED'' TERMINAL) FleetEffectBudgetContractError ''reservation state is invalid'',
     (if rv_state r \<in> TERMINAL then
        (case rv_finalized_at r of
           None \<Rightarrow> Inl (contract_error ''terminal reservation requires finalized_at'')
         | Some t \<Rightarrow> and_then (budget_utc t ''finalized_at'') (\<lambda>_. Inr ()))
      else raise_when (rv_finalized_at r \<noteq> None) FleetEffectBudgetContractError
        ''active reservation cannot be finalized'')]"

definition reservation_json :: "reservation \<Rightarrow> json" where
  "reservation_json r = JObj [
     (''reservation_id'', JStr (rv_reservation_id r)), (''request_digest'', JStr (rv_request_digest r)),
     (''effect_id'', JStr (rv_effect_id r)), (''candidate_digest'', JStr (rv_candidate_digest r)),
     (''mission_id'', JStr (rv_mission_id r)), (''executor_id'', JStr (rv_executor_id r)),
     (''runtime_id'', JStr (rv_runtime_id r)), (''repository'', JStr (rv_repository r)),
     (''branch'', JStr (rv_branch r)), (''changed_paths'', strs (rv_changed_paths r)),
     (''authority_effect_key'', JStr (rv_authority_effect_key r)), (''authority_epoch'', JInt (rv_authority_epoch r)),
     (''envelope_id'', JStr (rv_envelope_id r)), (''envelope_generation'', JInt (rv_envelope_generation r)),
     (''envelope_digest'', JStr (rv_envelope_digest r)), (''state'', JStr (rv_state r)),
     (''reserved_at'', JStr (rv_reserved_at r)), (''expires_at'', JStr (rv_expires_at r)),
     (''finalized_at'', opt_str (rv_finalized_at r)), (''schema_version'', JStr (rv_schema_version r))]"

definition reservation_preimage :: "reservation \<Rightarrow> string" where
  "reservation_preimage r = ''LION/FLEET-EFFECT-RESERVATION/1'' @ [nul] @ canon (reservation_json r)"

definition reservation_digest :: "reservation \<Rightarrow> string res" where
  "reservation_digest r = and_then (reservation_validate r) (\<lambda>_. Inr (sha256 (reservation_preimage r)))"

record budget_snapshot =
  sn_envelope_id :: string
  sn_envelope_generation :: int
  sn_envelope_digest :: string
  sn_active_writers :: int
  sn_active_repository_effects :: "(string \<times> int) list"
  sn_active_branch_effects :: "(string \<times> string \<times> int) list"
  sn_active_path_effects :: "(string \<times> string \<times> int) list"
  sn_active_reservation_ids :: "string list"
  sn_observed_at :: string
  sn_schema_version :: string

definition snapshot_validate :: "budget_snapshot \<Rightarrow> unit res" where
  "snapshot_validate s = checks ([
     raise_when (sn_schema_version s \<noteq> ''1.0.0'') FleetEffectBudgetContractError ''unsupported budget snapshot schema'',
     budget_text (sn_envelope_id s) ''envelope_id'' 1024,
     budget_positive (sn_envelope_generation s) ''envelope_generation'',
     budget_digest (sn_envelope_digest s) ''envelope_digest'',
     budget_nonnegative (sn_active_writers s) ''active_writers'',
     and_then (budget_utc (sn_observed_at s) ''observed_at'') (\<lambda>_. Inr ()),
     raise_when (\<not> no_dup (sn_active_reservation_ids s)) FleetEffectBudgetContractError ''active reservation ids invalid'']
     @ map (\<lambda>i. budget_text i ''active_reservation_id'' 1024) (sn_active_reservation_ids s)
     @ map (\<lambda>(repo, n). checks [budget_text repo ''repository'' 1024, budget_nonnegative n ''repository_count''])
         (sn_active_repository_effects s)
     @ map (\<lambda>(repo, branch, n). checks [budget_text repo ''repository'' 1024, budget_branch branch,
         budget_nonnegative n ''branch_count'']) (sn_active_branch_effects s)
     @ map (\<lambda>(repo, path, n). checks [budget_text repo ''repository'' 1024, budget_text path ''path'' 1024,
         budget_nonnegative n ''path_count'']) (sn_active_path_effects s))"

definition snapshot_json :: "budget_snapshot \<Rightarrow> json" where
  "snapshot_json s = JObj [
     (''envelope_id'', JStr (sn_envelope_id s)), (''envelope_generation'', JInt (sn_envelope_generation s)),
     (''envelope_digest'', JStr (sn_envelope_digest s)), (''active_writers'', JInt (sn_active_writers s)),
     (''active_repository_effects'',
       JList (map (\<lambda>(repo, n). JList [JStr repo, JInt n]) (sn_active_repository_effects s))),
     (''active_branch_effects'',
       JList (map (\<lambda>(repo, branch, n). JList [JStr repo, JStr branch, JInt n]) (sn_active_branch_effects s))),
     (''active_path_effects'',
       JList (map (\<lambda>(repo, path, n). JList [JStr repo, JStr path, JInt n]) (sn_active_path_effects s))),
     (''active_reservation_ids'', strs (sn_active_reservation_ids s)),
     (''observed_at'', JStr (sn_observed_at s)), (''schema_version'', JStr (sn_schema_version s))]"

definition snapshot_digest :: "budget_snapshot \<Rightarrow> string res" where
  "snapshot_digest s = and_then (snapshot_validate s) (\<lambda>_.
     Inr (sha256 (''LION/FLEET-EFFECT-BUDGET-SNAPSHOT/1'' @ [nul] @ canon (snapshot_json s))))"

section \<open>The store\<close>

record budget_store =
  bs_meta :: "(string \<times> string \<times> int \<times> string \<times> string) option"
  bs_rows :: "reservation list"

definition empty_store :: budget_store where
  "empty_store = \<lparr>bs_meta = None, bs_rows = []\<rparr>"

type_synonym clock = "utc_time option"

definition store_now :: "clock \<Rightarrow> utc_time res" where
  "store_now c = (case c of None \<Rightarrow> Inl (budget_error ''trusted clock returned invalid time'') | Some t \<Rightarrow> Inr t)"

definition store_parse :: "string \<Rightarrow> int res" where
  "store_parse = parse_utc (Exn PyValueError ''Invalid isoformat string'')
     (budget_error ''stored timestamp must be timezone-aware'')"

text \<open>The constructor: validation, then \<open>_bind_envelope\<close>.\<close>

definition bind_envelope :: "effect_envelope \<Rightarrow> (budget_store, unit) op" where
  "bind_envelope e s = (case envelope_digest e of
     Inl x \<Rightarrow> (Inl x, s)
   | Inr d \<Rightarrow> (let expected = (fe_envelope_id e, fe_fleet_id e, fe_generation e, d, fe_policy_digest e) in
       case bs_meta s of
         None \<Rightarrow> (if sqlite_int (fe_generation e) then (Inr (), s\<lparr>bs_meta := Some expected\<rparr>)
           else (Inl sqlite_overflow, s))
       | Some row \<Rightarrow> (if row \<noteq> expected
           then Inl (budget_error ''fleet effect envelope substitution/generation drift denied'') else Inr (), s)))"

definition store_init :: "effect_envelope \<Rightarrow> string \<Rightarrow> string \<Rightarrow> (budget_store, unit) op" where
  "store_init e identity_digest implementation_digest s = (case checks [
       envelope_validate e,
       raise_when (\<not> is_hex 64 identity_digest) FleetEffectBudgetError ''identity_digest invalid'',
       raise_when (\<not> is_hex 64 implementation_digest) FleetEffectBudgetError ''implementation_digest invalid''] of
     Inl x \<Rightarrow> (Inl x, s)
   | Inr _ \<Rightarrow> bind_envelope e s)"

definition expire_row :: "string \<Rightarrow> reservation \<Rightarrow> reservation" where
  "expire_row now_iso r = (if rv_state r = ''RESERVED'' \<and> rv_expires_at r \<le> now_iso
     then r\<lparr>rv_state := ''EXPIRED'', rv_finalized_at := Some now_iso\<rparr> else r)"

definition expire_locked :: "string \<Rightarrow> budget_store \<Rightarrow> budget_store" where
  "expire_locked now_iso s = s\<lparr>bs_rows := map (expire_row now_iso) (bs_rows s)\<rparr>"

text \<open>\<open>WHERE state='RESERVED' AND expires_at>?\<close>\<close>

definition active :: "string \<Rightarrow> reservation \<Rightarrow> bool" where
  "active now_iso r = (rv_state r = ''RESERVED'' \<and> now_iso < rv_expires_at r)"

section \<open>Reservation\<close>

text \<open>The checks before the transaction; the result is \<open>now_iso\<close>.\<close>

definition reserve_precheck :: "effect_envelope \<Rightarrow> clock \<Rightarrow> reservation_request \<Rightarrow> string res" where
  "reserve_precheck e c q = and_then (request_validate q) (\<lambda>_.
     and_then (store_now c) (\<lambda>now.
     and_then (raise_when (rq_envelope_generation q \<noteq> fe_generation e) FleetEffectBudgetError
       ''stale envelope generation denied'') (\<lambda>_.
     and_then (store_parse (fe_valid_from e)) (\<lambda>valid_from.
     and_then (raise_when (instant now < valid_from) FleetEffectBudgetError
       ''fleet effect envelope is not yet current'') (\<lambda>_.
     and_then (store_parse (fe_expires_at e)) (\<lambda>envelope_end.
     and_then (raise_when (envelope_end \<le> instant now) FleetEffectBudgetError ''fleet effect envelope expired'') (\<lambda>_.
     and_then (store_parse (rq_requested_at q)) (\<lambda>requested.
     and_then (store_parse (rq_expires_at q)) (\<lambda>expires.
     and_then (checks [
       raise_when (requested \<noteq> instant now) FleetEffectBudgetError
         ''reservation request must bind exact trusted current time'',
       raise_when (envelope_end < expires) FleetEffectBudgetError ''reservation cannot outlive envelope'']) (\<lambda>_.
     Inr (utc_text now)))))))))))"

definition same_identity :: "reservation \<Rightarrow> reservation \<Rightarrow> bool" where
  "same_identity x r = (rv_reservation_id x = rv_reservation_id r \<or> rv_request_digest x = rv_request_digest r
     \<or> rv_effect_id x = rv_effect_id r \<or> rv_authority_effect_key x = rv_authority_effect_key r)"

definition insert_row :: "reservation \<Rightarrow> reservation list \<Rightarrow> reservation list res" where
  "insert_row r rows = (if \<not> sqlite_int (rv_authority_epoch r) \<or> \<not> sqlite_int (rv_envelope_generation r)
     then Inl sqlite_overflow else if list_ex (\<lambda>x. same_identity x r) rows
     then Inl (Exn SqliteIntegrityError ''UNIQUE constraint failed'') else Inr (rows @ [r]))"

definition new_row :: "effect_envelope \<Rightarrow> string \<Rightarrow> reservation_request \<Rightarrow> string \<Rightarrow> string \<Rightarrow> reservation" where
  "new_row e env_digest q req_digest now_iso = \<lparr>rv_reservation_id = rq_reservation_id q,
     rv_request_digest = req_digest, rv_effect_id = rq_effect_id q, rv_candidate_digest = rq_candidate_digest q,
     rv_mission_id = rq_mission_id q, rv_executor_id = rq_executor_id q, rv_runtime_id = rq_runtime_id q,
     rv_repository = rq_repository q, rv_branch = rq_branch q, rv_changed_paths = rq_changed_paths q,
     rv_authority_effect_key = rq_authority_effect_key q, rv_authority_epoch = rq_authority_epoch q,
     rv_envelope_id = fe_envelope_id e, rv_envelope_generation = fe_generation e, rv_envelope_digest = env_digest,
     rv_state = ''RESERVED'', rv_reserved_at = now_iso, rv_expires_at = rq_expires_at q, rv_finalized_at = None,
     rv_schema_version = ''1.0.0''\<rparr>"

definition on_repository :: "string \<Rightarrow> reservation \<Rightarrow> bool" where
  "on_repository repo r = (rv_repository r = repo)"

definition on_branch :: "string \<Rightarrow> string \<Rightarrow> reservation \<Rightarrow> bool" where
  "on_branch repo branch r = (rv_repository r = repo \<and> rv_branch r = branch)"

definition on_path :: "string \<Rightarrow> string \<Rightarrow> reservation \<Rightarrow> bool" where
  "on_path repo path r = (rv_repository r = repo \<and> path \<in> set (rv_changed_paths r))"

definition active_count :: "string \<Rightarrow> (reservation \<Rightarrow> bool) \<Rightarrow> reservation list \<Rightarrow> int" where
  "active_count now_iso p rows = int (count_if (\<lambda>r. active now_iso r \<and> p r) rows)"

definition budget_checks :: "effect_envelope \<Rightarrow> string \<Rightarrow> reservation_request \<Rightarrow> reservation list \<Rightarrow> unit res" where
  "budget_checks e now_iso q rows = checks ([
     raise_when (fe_max_concurrent_writers e \<le> active_count now_iso (\<lambda>_. True) rows) FleetEffectBudgetError
       ''fleet concurrent writer budget exhausted'',
     raise_when (fe_max_active_repository_effects e \<le> active_count now_iso (on_repository (rq_repository q)) rows)
       FleetEffectBudgetError ''repository effect budget exhausted'',
     raise_when (fe_max_active_branch_effects e
         \<le> active_count now_iso (on_branch (rq_repository q) (rq_branch q)) rows)
       FleetEffectBudgetError ''branch effect budget exhausted'']
     @ map (\<lambda>path. raise_when (fe_max_active_path_effects e
           \<le> active_count now_iso (on_path (rq_repository q) path) rows)
         FleetEffectBudgetError (''path effect budget exhausted: '' @ path)) (rq_changed_paths q))"

definition reserve_transaction ::
  "effect_envelope \<Rightarrow> string \<Rightarrow> reservation_request \<Rightarrow> budget_store \<Rightarrow> budget_store res" where
  "reserve_transaction e now_iso q s = (let s1 = expire_locked now_iso s; rows = bs_rows s1 in
     and_then (envelope_digest e) (\<lambda>env_digest.
     and_then (raise_when (case bs_meta s1 of None \<Rightarrow> True
         | Some (i, _, g, d, _) \<Rightarrow> (i, g, d) \<noteq> (fe_envelope_id e, fe_generation e, env_digest))
       FleetEffectBudgetError ''authoritative budget meta ambiguous or stale'') (\<lambda>_.
     and_then (request_digest q) (\<lambda>req_digest.
     and_then (raise_when (list_ex (\<lambda>x. same_identity x (new_row e env_digest q req_digest now_iso)) rows)
       FleetEffectBudgetError ''reservation/effect/authority replay denied'') (\<lambda>_.
     and_then (budget_checks e now_iso q rows) (\<lambda>_.
     and_then (insert_row (new_row e env_digest q req_digest now_iso) rows) (\<lambda>rows'.
     Inr (s1\<lparr>bs_rows := rows'\<rparr>))))))))"

definition fetch_row :: "string \<Rightarrow> budget_store \<Rightarrow> reservation option" where
  "fetch_row i s = find (\<lambda>r. rv_reservation_id r = i) (bs_rows s)"

text \<open>\<open>_reservation(row)\<close>, after \<open>if row is None: raise\<close>.\<close>

definition read_row :: "string \<Rightarrow> reservation option \<Rightarrow> reservation res" where
  "read_row missing row = (case row of None \<Rightarrow> Inl (budget_error missing)
     | Some r \<Rightarrow> and_then (reservation_validate r) (\<lambda>_. Inr r))"

definition reserve_exact ::
  "effect_envelope \<Rightarrow> clock \<Rightarrow> reservation_request \<Rightarrow> (budget_store, reservation) op" where
  "reserve_exact e c q s = (case and_then (reserve_precheck e c q) (\<lambda>now_iso. reserve_transaction e now_iso q s) of
       Inl x \<Rightarrow> (Inl x, s)
     | Inr s' \<Rightarrow> (read_row ''reservation write disappeared'' (fetch_row (rq_reservation_id q) s'), s'))"

section \<open>Reading and finishing\<close>

definition get_reservation :: "clock \<Rightarrow> string \<Rightarrow> (budget_store, reservation) op" where
  "get_reservation c i s = (case and_then (raise_when (blank i) FleetEffectBudgetError ''reservation_id required'') (\<lambda>_.
       store_now c) of
       Inl x \<Rightarrow> (Inl x, s)
     | Inr now \<Rightarrow> (let s' = expire_locked (utc_text now) s in
         (read_row ''reservation unavailable'' (fetch_row i s'), s')))"

record effect_scope =
  sc_effect_id :: string
  sc_candidate_digest :: string
  sc_mission_id :: string
  sc_executor_id :: string
  sc_runtime_id :: string
  sc_repository :: string
  sc_branch :: string
  sc_authority_effect_key :: string
  sc_authority_epoch :: int

definition in_scope :: "effect_envelope \<Rightarrow> string \<Rightarrow> effect_scope \<Rightarrow> reservation \<Rightarrow> bool" where
  "in_scope e env_digest x r = ((rv_effect_id r, rv_candidate_digest r, rv_mission_id r, rv_executor_id r,
      rv_runtime_id r, rv_repository r, rv_branch r, rv_authority_effect_key r, rv_authority_epoch r,
      rv_envelope_id r, rv_envelope_generation r, rv_envelope_digest r, rv_state r)
    = (sc_effect_id x, sc_candidate_digest x, sc_mission_id x, sc_executor_id x, sc_runtime_id x, sc_repository x,
      sc_branch x, sc_authority_effect_key x, sc_authority_epoch x, fe_envelope_id e, fe_generation e, env_digest,
      ''RESERVED''))"

definition validate_for_effect ::
  "effect_envelope \<Rightarrow> clock \<Rightarrow> reservation \<Rightarrow> effect_scope \<Rightarrow> (budget_store, reservation) op" where
  "validate_for_effect e c r x s = (case reservation_validate r of
       Inl y \<Rightarrow> (Inl y, s)
     | Inr _ \<Rightarrow> (case get_reservation c (rv_reservation_id r) s of
         (Inl y, s') \<Rightarrow> (Inl y, s')
       | (Inr current, s') \<Rightarrow> (and_then (reservation_digest current) (\<lambda>cd.
           and_then (reservation_digest r) (\<lambda>rd.
           and_then (raise_when (cd \<noteq> rd) FleetEffectBudgetError ''reservation changed since admission'') (\<lambda>_.
           and_then (envelope_digest e) (\<lambda>env_digest.
           and_then (raise_when (\<not> in_scope e env_digest x current) FleetEffectBudgetError
             ''reservation does not bind exact effect/runtime/authority scope'') (\<lambda>_. Inr current))))), s')))"

definition finish_row :: "string \<Rightarrow> string \<Rightarrow> string \<Rightarrow> reservation \<Rightarrow> reservation" where
  "finish_row now_iso i state r = (if rv_reservation_id r = i \<and> active now_iso r
     then r\<lparr>rv_state := state, rv_finalized_at := Some now_iso\<rparr> else r)"

definition terminal_transition :: "string \<Rightarrow> clock \<Rightarrow> string \<Rightarrow> (budget_store, reservation) op" where
  "terminal_transition state c i s = (case and_then (raise_when (state \<notin> {''RELEASED'', ''FINALIZED''})
         FleetEffectBudgetError ''terminal state invalid'') (\<lambda>_. store_now c) of
       Inl x \<Rightarrow> (Inl x, s)
     | Inr now \<Rightarrow> (let now_iso = utc_text now; s1 = expire_locked now_iso s in
         if count_if (\<lambda>r. rv_reservation_id r = i \<and> active now_iso r) (bs_rows s1) \<noteq> 1
         then (Inl (budget_error ''reservation cannot transition from current state''), s)
         else (let s2 = s1\<lparr>bs_rows := map (finish_row now_iso i state) (bs_rows s1)\<rparr> in
           (read_row ''terminal reservation disappeared'' (fetch_row i s2), s2))))"

definition release :: "clock \<Rightarrow> string \<Rightarrow> (budget_store, reservation) op" where
  "release = terminal_transition ''RELEASED''"

definition finalize :: "clock \<Rightarrow> string \<Rightarrow> (budget_store, reservation) op" where
  "finalize = terminal_transition ''FINALIZED''"

section \<open>Snapshot\<close>

text \<open>\<open>d[k] = d.get(k, 0) + 1\<close> on a dictionary in insertion order.\<close>

fun bump :: "'k \<Rightarrow> ('k \<times> int) list \<Rightarrow> ('k \<times> int) list" where
  "bump k [] = [(k, 1)]"
| "bump k ((j, n) # d) = (if j = k then (j, n + 1) # d else (j, n) # bump k d)"

definition tally :: "'k list \<Rightarrow> ('k \<times> int) list" where
  "tally ks = fold bump ks []"

definition snapshot_of :: "effect_envelope \<Rightarrow> string \<Rightarrow> string \<Rightarrow> reservation list \<Rightarrow> budget_snapshot" where
  "snapshot_of e env_digest now_iso rows = \<lparr>sn_envelope_id = fe_envelope_id e,
     sn_envelope_generation = fe_generation e, sn_envelope_digest = env_digest,
     sn_active_writers = int (length rows),
     sn_active_repository_effects = sort_key fst (tally (map rv_repository rows)),
     sn_active_branch_effects = map (\<lambda>((repo, branch), n). (repo, branch, n))
       (sort_key fst (tally (map (\<lambda>r. (rv_repository r, rv_branch r)) rows))),
     sn_active_path_effects = map (\<lambda>((repo, path), n). (repo, path, n))
       (sort_key fst (tally (concat (map (\<lambda>r. map (Pair (rv_repository r)) (rv_changed_paths r)) rows)))),
     sn_active_reservation_ids = map rv_reservation_id rows,
     sn_observed_at = now_iso, sn_schema_version = ''1.0.0''\<rparr>"

definition store_snapshot :: "effect_envelope \<Rightarrow> clock \<Rightarrow> (budget_store, budget_snapshot) op" where
  "store_snapshot e c s = (case store_now c of
       Inl x \<Rightarrow> (Inl x, s)
     | Inr now \<Rightarrow> (let now_iso = utc_text now; s1 = expire_locked now_iso s;
           rows = sort_key rv_reservation_id (filter (active now_iso) (bs_rows s1)) in
         (and_then (envelope_digest e) (\<lambda>env_digest.
            let snapshot = snapshot_of e env_digest now_iso rows in
            and_then (snapshot_validate snapshot) (\<lambda>_. Inr snapshot)), s1)))"

section \<open>Steps and the invariant\<close>

definition clock_ok :: "clock \<Rightarrow> bool" where
  "clock_ok c = (case c of None \<Rightarrow> True | Some t \<Rightarrow> valid_utc t)"

text \<open>
  What happens to the database while stores bound to the envelope \<open>e\<close> use it: any of their
  operations, at any clock reading, and constructors with any other envelope.
\<close>

inductive budget_step :: "effect_envelope \<Rightarrow> budget_store \<Rightarrow> budget_store \<Rightarrow> bool" for e where
  open_store: "budget_step e s (snd (store_init e' i d s))"
| reserve_step: "clock_ok c \<Longrightarrow> budget_step e s (snd (reserve_exact e c q s))"
| get_step: "clock_ok c \<Longrightarrow> budget_step e s (snd (get_reservation c i s))"
| validate_step: "clock_ok c \<Longrightarrow> budget_step e s (snd (validate_for_effect e c r x s))"
| finish_step: "clock_ok c \<Longrightarrow> budget_step e s (snd (terminal_transition state c i s))"
| snapshot_step: "clock_ok c \<Longrightarrow> budget_step e s (snd (store_snapshot e c s))"

abbreviation budget_steps :: "effect_envelope \<Rightarrow> budget_store \<Rightarrow> budget_store \<Rightarrow> bool" where
  "budget_steps e \<equiv> (budget_step e)\<^sup>*\<^sup>*"

definition reserved :: "reservation \<Rightarrow> bool" where
  "reserved r = (rv_state r = ''RESERVED'')"

text \<open>The limits of an envelope: which reservations a limit counts, and the limit.\<close>

definition limits :: "effect_envelope \<Rightarrow> ((reservation \<Rightarrow> bool) \<times> int) set" where
  "limits e = {(\<lambda>_. True, fe_max_concurrent_writers e)}
     \<union> {(on_repository repo, fe_max_active_repository_effects e) | repo. True}
     \<union> {(on_branch repo branch, fe_max_active_branch_effects e) | repo branch. True}
     \<union> {(on_path repo path, fe_max_active_path_effects e) | repo path. True}"

definition within :: "effect_envelope \<Rightarrow> reservation list \<Rightarrow> bool" where
  "within e rows \<longleftrightarrow> (\<forall>(p, m) \<in> limits e. int (count_if (\<lambda>r. reserved r \<and> p r) rows) \<le> m)"

definition unique_rows :: "reservation list \<Rightarrow> bool" where
  "unique_rows rows \<longleftrightarrow> distinct (map rv_reservation_id rows) \<and> distinct (map rv_request_digest rows)
     \<and> distinct (map rv_effect_id rows) \<and> distinct (map rv_authority_effect_key rows)"

definition budget_ok :: "effect_envelope \<Rightarrow> budget_store \<Rightarrow> bool" where
  "budget_ok e s \<longleftrightarrow> within e (bs_rows s) \<and> unique_rows (bs_rows s)
     \<and> (\<forall>r\<in>set (bs_rows s). reservation_validate r = Inr ())"

text \<open>
  \<open>row_later r r'\<close>: \<open>r'\<close> is \<open>r\<close> or \<open>r\<close> moved from \<open>RESERVED\<close> to a terminal state;
  nothing else about a row ever changes.
\<close>

definition row_later :: "reservation \<Rightarrow> reservation \<Rightarrow> bool" where
  "row_later r r' \<longleftrightarrow> r' = r \<or> (reserved r \<and> rv_state r' \<in> TERMINAL \<and> rv_finalized_at r' \<noteq> None
     \<and> r' = r\<lparr>rv_state := rv_state r', rv_finalized_at := rv_finalized_at r'\<rparr>)"

lemma row_later_refl [simp]: "row_later r r"
  by (simp add: row_later_def)

lemma row_later_fields:
  assumes "row_later r r'"
  shows "rv_reservation_id r' = rv_reservation_id r" "rv_request_digest r' = rv_request_digest r"
    "rv_effect_id r' = rv_effect_id r" "rv_authority_effect_key r' = rv_authority_effect_key r"
    "rv_repository r' = rv_repository r" "rv_branch r' = rv_branch r" "rv_changed_paths r' = rv_changed_paths r"
    "reserved r' \<Longrightarrow> reserved r"
proof -
  have *: "r' = r \<or> r' = r\<lparr>rv_state := rv_state r', rv_finalized_at := rv_finalized_at r'\<rparr>"
    using assms by (auto simp: row_later_def)
  show "rv_reservation_id r' = rv_reservation_id r" "rv_request_digest r' = rv_request_digest r"
    "rv_effect_id r' = rv_effect_id r" "rv_authority_effect_key r' = rv_authority_effect_key r"
    "rv_repository r' = rv_repository r" "rv_branch r' = rv_branch r" "rv_changed_paths r' = rv_changed_paths r"
    using * by (cases r; cases r'; auto)+
  show "reserved r' \<Longrightarrow> reserved r" using assms by (auto simp: row_later_def)
qed

lemma row_later_trans: "row_later a b \<Longrightarrow> row_later b c \<Longrightarrow> row_later a c"
  by (cases a; cases b; cases c) (auto simp: row_later_def reserved_def TERMINAL_def)

lemma expire_row_later: "row_later r (expire_row t r)"
  by (cases r) (auto simp: row_later_def expire_row_def reserved_def TERMINAL_def)

lemma finish_row_later: "state \<in> {''RELEASED'', ''FINALIZED''} \<Longrightarrow> row_later r (finish_row t i state r)"
  by (cases r) (auto simp: row_later_def finish_row_def active_def reserved_def TERMINAL_def)

lemma reserved_expire_row: "reserved (expire_row t r) \<longleftrightarrow> active t (expire_row t r)"
  by (auto simp: reserved_def expire_row_def active_def)

section \<open>Valid rows\<close>

lemma utc_text_valid: "valid_utc t \<Longrightarrow> budget_utc (utc_text t) n = Inr (instant t)"
proof -
  assume v: "valid_utc t"
  have "length (utc_text t) \<le> 1024" by (simp add: utc_text_def)
  moreover have "\<not> blank (utc_text t)" by (auto simp: utc_text_def py_space_def)
  moreover have "nul \<notin> set (utc_text t)"
  proof -
    have "\<not> is_digit nul" by code_simp
    then have "nul \<notin> set (pad_text w n)" for w n using pad_text_digits [of w n] by (auto simp: list_all_iff)
    then show ?thesis by (auto simp: utc_text_def nul_def)
  qed
  ultimately show ?thesis using v by (simp add: budget_utc_def budget_text_def text_invalid_def)
qed

lemma parse_utc_indep: "parse_utc a b s = Inr i \<Longrightarrow> parse_utc c d s = Inr i"
  by (auto simp: parse_utc_def split: option.splits if_splits)

lemma budget_utc_parse: "budget_utc s n = Inr i \<Longrightarrow> store_parse s = Inr i"
  by (auto simp: budget_utc_def store_parse_def intro: parse_utc_indep)

lemma budget_utc_name: "budget_utc s n = Inr i \<Longrightarrow> budget_utc s m = Inr i"
  by (auto simp: budget_utc_def budget_text_def intro: parse_utc_indep)

lemma budget_digest_hex: "is_hex 64 d \<Longrightarrow> budget_digest d n = Inr ()"
  by (simp add: budget_digest_def budget_text_def is_hex_text)

text \<open>Validity does not depend on how a terminal row was reached.\<close>

lemma terminal_valid:
  assumes "reservation_validate r = Inr ()" "st \<in> TERMINAL" "valid_utc t"
  shows "reservation_validate (r\<lparr>rv_state := st, rv_finalized_at := Some (utc_text t)\<rparr>) = Inr ()"
  using assms by (simp add: reservation_validate_def utc_text_valid)

lemma expire_row_valid:
  "reservation_validate r = Inr () \<Longrightarrow> valid_utc t \<Longrightarrow> reservation_validate (expire_row (utc_text t) r) = Inr ()"
  by (auto simp: expire_row_def TERMINAL_def intro!: terminal_valid)

lemma finish_row_valid:
  "reservation_validate r = Inr () \<Longrightarrow> valid_utc t \<Longrightarrow> state \<in> {''RELEASED'', ''FINALIZED''} \<Longrightarrow>
    reservation_validate (finish_row (utc_text t) i state r) = Inr ()"
  by (auto simp: finish_row_def TERMINAL_def intro!: terminal_valid)

lemma new_row_valid:
  assumes e: "envelope_digest e = Inr d" and q: "request_digest q = Inr qd" and t: "valid_utc t"
    and now: "store_parse (rq_requested_at q) = Inr (instant t)"
  shows "reservation_validate (new_row e d q qd (utc_text t)) = Inr ()"
proof -
  have hex: "is_hex 64 d" "is_hex 64 qd" using e q by (auto simp: envelope_digest_def request_digest_def)
  have v: "request_validate q = Inr ()" using q by (auto simp: request_digest_def)
  have ev: "envelope_validate e = Inr ()" using e by (auto simp: envelope_digest_def)
  from v obtain i x where "budget_utc (rq_requested_at q) ''requested_at'' = Inr i"
    "budget_utc (rq_expires_at q) ''expires_at'' = Inr x" "i < x"
    by (auto simp: request_validate_def and_then_ok)
  moreover then have "i = instant t" using now budget_utc_parse by fastforce
  ultimately show ?thesis
    using v ev hex t by (simp add: reservation_validate_def new_row_def request_validate_def envelope_validate_def
        budget_digest_hex utc_text_valid TERMINAL_def budget_positive_def)
qed

section \<open>Limits\<close>

lemma limit_writers: "(\<lambda>_. True, fe_max_concurrent_writers e) \<in> limits e"
  and limit_repository: "(on_repository repo, fe_max_active_repository_effects e) \<in> limits e"
  and limit_branch: "(on_branch repo branch, fe_max_active_branch_effects e) \<in> limits e"
  and limit_path: "(on_path repo path, fe_max_active_path_effects e) \<in> limits e"
  unfolding limits_def by blast+

lemma within_limit: "within e rows \<Longrightarrow> (p, m) \<in> limits e \<Longrightarrow> int (count_if (\<lambda>r. reserved r \<and> p r) rows) \<le> m"
  by (auto simp: within_def)

lemma limit_cong: "(p, m) \<in> limits e \<Longrightarrow> row_later r r' \<Longrightarrow> p r' = p r"
  by (auto simp: limits_def on_repository_def on_branch_def on_path_def row_later_fields)

lemma within_later:
  assumes "within e rows" "\<And>r. row_later r (f r)"
  shows "within e (map f rows)"
  unfolding within_def
proof (intro ballI, clarify)
  fix p m assume m: "(p, m) \<in> limits e"
  have "count_if (\<lambda>r. reserved r \<and> p r) (map f rows) \<le> count_if (\<lambda>r. reserved r \<and> p r) rows"
    using assms(2) limit_cong [OF m assms(2)] by (intro count_if_map_mono) (auto dest: row_later_fields(8))
  with assms(1) m show "int (count_if (\<lambda>r. reserved r \<and> p r) (map f rows)) \<le> m"
    by (fastforce simp: within_def)
qed

lemma unique_later:
  assumes "unique_rows rows" "\<And>r. row_later r (f r)"
  shows "unique_rows (map f rows)"
  using assms(1) by (simp add: unique_rows_def comp_def row_later_fields [OF assms(2)])

lemma expired_counts:
  "active_count t p (map (expire_row t) rows) = int (count_if (\<lambda>r. reserved r \<and> p r) (map (expire_row t) rows))"
  unfolding active_count_def
  by (intro arg_cong [where f = int] count_if_cong) (auto simp: reserved_expire_row)

lemma new_row_place:
  "on_repository x (new_row e d q qd t) \<longleftrightarrow> x = rq_repository q"
  "on_branch x b (new_row e d q qd t) \<longleftrightarrow> x = rq_repository q \<and> b = rq_branch q"
  "on_path x p (new_row e d q qd t) \<longleftrightarrow> x = rq_repository q \<and> p \<in> set (rq_changed_paths q)"
  by (auto simp: on_repository_def on_branch_def on_path_def new_row_def)

lemma budget_checks_limit:
  assumes ok: "budget_checks e t q (map (expire_row t) rows) = Inr ()" and m: "(p, m) \<in> limits e"
    and new: "p (new_row e d q qd t)"
  shows "int (count_if (\<lambda>r. reserved r \<and> p r) (map (expire_row t) rows)) < m"
proof -
  have c: "active_count t (\<lambda>_. True) (map (expire_row t) rows) < fe_max_concurrent_writers e"
    "active_count t (on_repository (rq_repository q)) (map (expire_row t) rows) < fe_max_active_repository_effects e"
    "active_count t (on_branch (rq_repository q) (rq_branch q)) (map (expire_row t) rows) < fe_max_active_branch_effects e"
    "\<And>path. path \<in> set (rq_changed_paths q) \<Longrightarrow>
      active_count t (on_path (rq_repository q) path) (map (expire_row t) rows) < fe_max_active_path_effects e"
    using ok unfolding budget_checks_def checks_append_ok checks_map_ok checks_Cons_ok raise_when_ok not_le by blast+
  from m new c show ?thesis
    unfolding expired_counts [symmetric]
    by (auto simp: limits_def new_row_place)
qed

lemma within_insert:
  assumes "within e rows" "budget_checks e t q (map (expire_row t) rows) = Inr ()"
  shows "within e (map (expire_row t) rows @ [new_row e d q qd t])"
proof -
  have w: "within e (map (expire_row t) rows)" by (rule within_later [OF assms(1) expire_row_later])
  show ?thesis
    unfolding within_def
  proof (intro ballI, clarify)
    fix p m assume m: "(p, m) \<in> limits e"
    show "int (count_if (\<lambda>r. reserved r \<and> p r) (map (expire_row t) rows @ [new_row e d q qd t])) \<le> m"
    proof (cases "p (new_row e d q qd t)")
      case True
      then show ?thesis using budget_checks_limit [OF assms(2) m True] by simp
    next
      case False
      then show ?thesis using w m by (fastforce simp: within_def)
    qed
  qed
qed

lemma unique_insert:
  assumes "unique_rows rows" "\<not> list_ex (\<lambda>x. same_identity x r) rows"
  shows "unique_rows (rows @ [r])"
  using assms by (auto simp: unique_rows_def same_identity_def list_ex_iff)

section \<open>Transactions\<close>

lemma reserve_transaction_ok: "reserve_transaction e t q s = Inr s' \<longleftrightarrow>
    (\<exists>d f p qd. envelope_digest e = Inr d \<and> bs_meta s = Some (fe_envelope_id e, f, fe_generation e, d, p)
      \<and> request_digest q = Inr qd
      \<and> \<not> list_ex (\<lambda>x. same_identity x (new_row e d q qd t)) (map (expire_row t) (bs_rows s))
      \<and> budget_checks e t q (map (expire_row t) (bs_rows s)) = Inr ()
      \<and> sqlite_int (rq_authority_epoch q) \<and> sqlite_int (fe_generation e)
      \<and> s' = s\<lparr>bs_rows := map (expire_row t) (bs_rows s) @ [new_row e d q qd t]\<rparr>)"
  by (auto simp: reserve_transaction_def expire_locked_def insert_row_def new_row_def and_then_ok Let_def
      split: option.splits if_splits)

lemma precheck_ok: "reserve_precheck e c q = Inr t \<Longrightarrow> \<exists>now. c = Some now \<and> t = utc_text now
    \<and> store_parse (rq_requested_at q) = Inr (instant now) \<and> request_validate q = Inr ()
    \<and> rq_envelope_generation q = fe_generation e"
  by (auto simp: reserve_precheck_def and_then_ok store_now_def split: option.splits)

lemma new_row_id: "rv_reservation_id (new_row e d q qd t) = rq_reservation_id q"
  by (simp add: new_row_def)

lemma reserve_exact_cases:
  assumes "clock_ok c"
  obtains (reserved) now d f p qd where "c = Some now" "valid_utc now" "envelope_digest e = Inr d" "request_digest q = Inr qd"
      "bs_meta s = Some (fe_envelope_id e, f, fe_generation e, d, p)"
      "store_parse (rq_requested_at q) = Inr (instant now)"
      "\<not> list_ex (\<lambda>x. same_identity x (new_row e d q qd (utc_text now))) (map (expire_row (utc_text now)) (bs_rows s))"
      "budget_checks e (utc_text now) q (map (expire_row (utc_text now)) (bs_rows s)) = Inr ()"
      "reserve_precheck e c q = Inr (utc_text now)"
      "reserve_exact e c q s = (Inr (new_row e d q qd (utc_text now)),
         s\<lparr>bs_rows := map (expire_row (utc_text now)) (bs_rows s) @ [new_row e d q qd (utc_text now)]\<rparr>)"
    | (refused) x where "reserve_exact e c q s = (Inl x, s)"
proof (cases "and_then (reserve_precheck e c q) (\<lambda>now_iso. reserve_transaction e now_iso q s)")
  case (Inl x)
  then show thesis by (intro refused) (simp add: reserve_exact_def)
next
  case (Inr s')
  then obtain t where pre: "reserve_precheck e c q = Inr t" and tx: "reserve_transaction e t q s = Inr s'"
    by (auto simp: and_then_ok)
  from precheck_ok [OF pre] assms obtain now where now: "c = Some now" "t = utc_text now" "valid_utc now"
    "store_parse (rq_requested_at q) = Inr (instant now)" by (auto simp: clock_ok_def)
  from tx obtain d f p qd where r: "envelope_digest e = Inr d" "request_digest q = Inr qd"
    "bs_meta s = Some (fe_envelope_id e, f, fe_generation e, d, p)"
    "\<not> list_ex (\<lambda>x. same_identity x (new_row e d q qd t)) (map (expire_row t) (bs_rows s))"
    "budget_checks e t q (map (expire_row t) (bs_rows s)) = Inr ()"
    "s' = s\<lparr>bs_rows := map (expire_row t) (bs_rows s) @ [new_row e d q qd t]\<rparr>"
    by (auto simp: reserve_transaction_ok)
  have "find (\<lambda>r. rv_reservation_id r = rq_reservation_id q) (map (expire_row t) (bs_rows s)) = None"
    using r(4) by (auto simp: find_None_iff list_ex_iff same_identity_def new_row_def)
  then have "fetch_row (rq_reservation_id q) s' = Some (new_row e d q qd t)"
    by (simp add: fetch_row_def r(6) find_app new_row_def)
  moreover have "reservation_validate (new_row e d q qd t) = Inr ()"
    using new_row_valid [OF r(1,2) now(3,4)] now(2) by simp
  ultimately show thesis
    using r now pre Inr by (intro reserved [of now d qd f p]) (simp_all add: reserve_exact_def read_row_def)
qed

text \<open>What any step does to the rows: each stays or moves to a terminal state, and rows are appended.\<close>

definition rows_later :: "reservation list \<Rightarrow> reservation list \<Rightarrow> bool" where
  "rows_later rows rows' \<longleftrightarrow> (\<exists>old new. rows' = old @ new \<and> list_all2 row_later rows old)"

lemma rows_later_refl [simp]: "rows_later rows rows"
  unfolding rows_later_def by (intro exI [of _ rows] exI [of _ "[]"]) (simp add: list_all2_refl)

lemma rows_later_trans: "rows_later a b \<Longrightarrow> rows_later b c \<Longrightarrow> rows_later a c"
proof -
  assume "rows_later a b" "rows_later b c"
  then obtain o1 n1 o2 n2 where b: "b = o1 @ n1" "list_all2 row_later a o1" and c: "c = o2 @ n2" "list_all2 row_later b o2"
    unfolding rows_later_def by blast
  then obtain u v where o2: "o2 = u @ v" "list_all2 row_later o1 u"
    unfolding b(1) by (auto simp: list_all2_append1)
  have "list_all2 row_later a u" using list_all2_trans [OF row_later_trans b(2) o2(2)] .
  then show ?thesis unfolding rows_later_def c(1) o2(1) by (intro exI [of _ u] exI [of _ "v @ n2"]) simp
qed

lemma rows_later_map: "(\<And>r. row_later r (f r)) \<Longrightarrow> rows_later rows (map f rows @ new)"
  unfolding rows_later_def by (intro exI [of _ "map f rows"] exI [of _ new]) (simp add: list_all2_conv_all_nth)

lemma store_init_rows [simp]: "bs_rows (snd (store_init e i d s)) = bs_rows s"
  by (auto simp: store_init_def bind_envelope_def Let_def split: sum.splits option.splits)

lemma get_store: "snd (get_reservation c i s) = s \<or> (\<exists>now. c = Some now \<and> snd (get_reservation c i s) = expire_locked (utc_text now) s)"
  by (auto simp: get_reservation_def Let_def store_now_def split: sum.splits option.splits)

lemma validate_store: "snd (validate_for_effect e c r x s) = s \<or> snd (validate_for_effect e c r x s) = snd (get_reservation c (rv_reservation_id r) s)"
  by (auto simp: validate_for_effect_def split: sum.splits prod.splits)

lemma snapshot_store: "snd (store_snapshot e c s) = s \<or> (\<exists>now. c = Some now \<and> snd (store_snapshot e c s) = expire_locked (utc_text now) s)"
  by (auto simp: store_snapshot_def Let_def store_now_def split: sum.splits option.splits)

lemma terminal_store: "snd (terminal_transition st c i s) = s \<or> (\<exists>now. c = Some now \<and> st \<in> {''RELEASED'', ''FINALIZED''}
    \<and> snd (terminal_transition st c i s) = s\<lparr>bs_rows := map (finish_row (utc_text now) i st \<circ> expire_row (utc_text now)) (bs_rows s)\<rparr>)"
  by (auto simp: terminal_transition_def Let_def store_now_def expire_locked_def split: sum.splits option.splits if_splits)

lemma budget_ok_map:
  assumes "budget_ok e s" "\<And>r. row_later r (f r)"
    "\<And>r. reservation_validate r = Inr () \<Longrightarrow> reservation_validate (f r) = Inr ()"
  shows "budget_ok e (s\<lparr>bs_rows := map f (bs_rows s)\<rparr>)"
  using assms within_later [of e "bs_rows s" f] unique_later [of "bs_rows s" f] by (auto simp: budget_ok_def)

lemma budget_ok_expire: "budget_ok e s \<Longrightarrow> valid_utc now \<Longrightarrow> budget_ok e (expire_locked (utc_text now) s)"
  unfolding expire_locked_def by (rule budget_ok_map) (auto intro: expire_row_later expire_row_valid)

lemma rows_later_expire: "rows_later (bs_rows s) (bs_rows (expire_locked t s))"
  using rows_later_map [where f = "expire_row t" and rows = "bs_rows s" and new = "[]"] expire_row_later
  by (simp add: expire_locked_def)

text \<open>Every step keeps the invariant and only moves rows forward.\<close>

lemma budget_step_ok:
  assumes "budget_step e s s'"
  shows "rows_later (bs_rows s) (bs_rows s') \<and> (budget_ok e s \<longrightarrow> budget_ok e s')"
  using assms
proof cases
  case (open_store e' i d)
  then show ?thesis by (simp add: budget_ok_def)
next
  case (reserve_step c q)
  show ?thesis
  proof (cases rule: reserve_exact_cases [OF reserve_step(2), where e = e and q = q and s = s])
    case (1 now d f p qd)
    let ?r = "new_row e d q qd (utc_text now)" and ?rows = "map (expire_row (utc_text now)) (bs_rows s)"
    have s': "s' = s\<lparr>bs_rows := ?rows @ [?r]\<rparr>" using reserve_step 1 by simp
    moreover have "budget_ok e s'" if "budget_ok e s"
    proof -
      have "budget_ok e (s\<lparr>bs_rows := ?rows\<rparr>)"
        using budget_ok_expire [OF that 1(2)] by (simp add: expire_locked_def)
      then show ?thesis
        using within_insert [of e "bs_rows s" "utc_text now" q d qd] unique_insert [of ?rows ?r] that 1
          new_row_valid [OF 1(3,4,2,6)]
        unfolding s' by (auto simp: budget_ok_def)
    qed
    ultimately show ?thesis by (auto intro: rows_later_map expire_row_later)
  qed (use reserve_step in simp)
next
  case (get_step c i)
  with get_store [of c i s] show ?thesis
    by (auto simp: clock_ok_def intro: rows_later_expire budget_ok_expire)
next
  case (validate_step c r x)
  with get_store [of c "rv_reservation_id r" s] validate_store [of e c r x s] show ?thesis
    by (auto simp: clock_ok_def intro: rows_later_expire budget_ok_expire)
next
  case (finish_step c st i)
  let ?f = "\<lambda>now. finish_row (utc_text now) i st \<circ> expire_row (utc_text now)"
  have "row_later r (?f now r)" if "st \<in> {''RELEASED'', ''FINALIZED''}" for now r
    using row_later_trans [OF expire_row_later finish_row_later [OF that]] by simp
  moreover have "reservation_validate r = Inr () \<Longrightarrow> reservation_validate (?f now r) = Inr ()"
    if "st \<in> {''RELEASED'', ''FINALIZED''}" "valid_utc now" for now r
    using that by (auto intro!: finish_row_valid expire_row_valid)
  ultimately show ?thesis
    using terminal_store [of st c i s] finish_step budget_ok_map [of e s] rows_later_map [where new = "[]" and rows = "bs_rows s"]
    by (fastforce simp: clock_ok_def)
next
  case (snapshot_step c)
  with snapshot_store [of e c s] show ?thesis
    by (auto simp: clock_ok_def intro: rows_later_expire budget_ok_expire)
qed

lemma budget_steps_later: "budget_steps e s s' \<Longrightarrow> rows_later (bs_rows s) (bs_rows s')"
  by (induction rule: rtranclp_induct) (auto dest: budget_step_ok intro: rows_later_trans)

lemma budget_steps_ok: "budget_steps e s s' \<Longrightarrow> budget_ok e s \<Longrightarrow> budget_ok e s'"
  by (induction rule: rtranclp_induct) (auto dest: budget_step_ok)

lemma budget_ok_empty: "envelope_validate e = Inr () \<Longrightarrow> budget_ok e empty_store"
  by (auto simp: budget_ok_def empty_store_def within_def unique_rows_def limits_def envelope_validate_def
      budget_positive_def)

section \<open>Digests and snapshots\<close>

definition reservation_fields :: "reservation \<Rightarrow> (string \<times> json) list" where
  "reservation_fields r = (case reservation_json r of JObj kvs \<Rightarrow> kvs | _ \<Rightarrow> [])"

lemma reservation_json_fields: "reservation_json r = JObj (reservation_fields r)"
  by (simp add: reservation_fields_def reservation_json_def)

lemma reservation_field_names: "map fst (reservation_fields r) = [''reservation_id'', ''request_digest'', ''effect_id'',
    ''candidate_digest'', ''mission_id'', ''executor_id'', ''runtime_id'', ''repository'', ''branch'', ''changed_paths'',
    ''authority_effect_key'', ''authority_epoch'', ''envelope_id'', ''envelope_generation'', ''envelope_digest'', ''state'',
    ''reserved_at'', ''expires_at'', ''finalized_at'', ''schema_version'']"
  by (simp add: reservation_fields_def reservation_json_def)

lemma reservation_preimage_inject:
  assumes "reservation_preimage r = reservation_preimage r'"
  shows "r = r'"
proof -
  have "canon (reservation_json r) = canon (reservation_json r')"
    using assms by (simp add: reservation_preimage_def)
  then have "json_norm (JObj (reservation_fields r)) = json_norm (JObj (reservation_fields r'))"
    unfolding reservation_json_fields [symmetric] by (rule canon_inject)
  then have "map (\<lambda>(k, v). json_norm v) (reservation_fields r) = map (\<lambda>(k, v). json_norm v) (reservation_fields r')"
    by (rule json_norm_fields) (simp_all add: reservation_field_names)
  then show ?thesis
    by (auto simp: reservation_fields_def reservation_json_def intro: reservation.equality)
qed

lemma bump_lookup: "map_of (bump k d) = (map_of d)(k \<mapsto> (case map_of d k of None \<Rightarrow> 1 | Some n \<Rightarrow> n + 1))"
  by (induction d) (auto simp: fun_eq_iff)

lemma bump_keys: "fst ` set (bump k d) = insert k (fst ` set d)"
  by (simp add: dom_map_of_conv_image_fst [symmetric] bump_lookup)

lemma bump_distinct: "distinct (map fst d) \<Longrightarrow> distinct (map fst (bump k d))"
  by (induction d) (auto simp: bump_keys)

lemma tally_distinct: "distinct (map fst (tally ks))"
  by (induction ks rule: rev_induct) (auto simp: tally_def bump_distinct)

lemma tally_lookup: "map_of (tally ks) k = (if count_list ks k = 0 then None else Some (int (count_list ks k)))"
  by (induction ks rule: rev_induct) (auto simp: tally_def bump_lookup)

lemma tally_mem: "(k, n) \<in> set (tally ks) \<longleftrightarrow> n = int (count_list ks k) \<and> 0 < n"
  using map_of_eq_Some_iff [OF tally_distinct, of ks k n] tally_lookup [of ks k] by (auto split: if_splits)

lemma count_list_map_if: "count_list (map f xs) k = count_if (\<lambda>x. f x = k) xs"
  by (induction xs) auto

lemma count_list_paths:
  "(\<And>r. r \<in> set rows \<Longrightarrow> distinct (rv_changed_paths r)) \<Longrightarrow>
    count_list (concat (map (\<lambda>r. map (Pair (rv_repository r)) (rv_changed_paths r)) rows)) (repo, path)
    = count_if (on_path repo path) rows"
proof (induction rows)
  case (Cons r rows)
  have "count_list (map (Pair a) ps) (repo, path) = (if a = repo \<and> path \<in> set ps then 1 else 0)"
    if "distinct ps" for a and ps :: "string list"
    using that by (induction ps) auto
  with Cons show ?case by (simp add: on_path_def)
qed simp

lemma count_if_sort_filter: "count_if p (sort_key f (filter q xs)) = count_if (\<lambda>x. q x \<and> p x) xs"
proof -
  have "count_if p ys = size (filter_mset p (mset ys))" for ys
    by (induction ys) (auto simp: count_if_def)
  then have "count_if p (sort_key f (filter q xs)) = count_if p (filter q xs)" by simp
  also have "\<dots> = count_if (\<lambda>x. q x \<and> p x) xs" by (induction xs) auto
  finally show ?thesis .
qed

text \<open>Rows that the invariant holds of give a snapshot that passes its own validation.\<close>

lemma snapshot_of_valid:
  assumes "envelope_digest e = Inr d" "valid_utc now" "distinct (map rv_reservation_id rows)"
    and valid: "\<And>r. r \<in> set rows \<Longrightarrow> reservation_validate r = Inr ()"
  shows "snapshot_validate (snapshot_of e d (utc_text now) rows) = Inr ()"
proof -
  have row: "budget_text (rv_reservation_id r) n 1024 = Inr ()" "budget_text (rv_repository r) n 1024 = Inr ()"
    "budget_branch (rv_branch r) = Inr ()" "\<And>p. p \<in> set (rv_changed_paths r) \<Longrightarrow> budget_text p n 1024 = Inr ()"
    if "r \<in> set rows" for r n
    using valid [OF that] by (auto simp: reservation_validate_def budget_text_def budget_paths_def checks_map_ok path_check_def)
  have env: "budget_text (fe_envelope_id e) n 1024 = Inr ()" "budget_positive (fe_generation e) n = Inr ()" for n
    using assms(1) by (auto simp: envelope_digest_def and_then_ok envelope_validate_def budget_text_def budget_positive_def)
  have "is_hex 64 d" using assms(1) by (auto simp: envelope_digest_def and_then_ok)
  then have dig: "budget_digest d n = Inr ()" for n by (rule budget_digest_hex)
  have pos: "k \<in> set ks \<and> 0 \<le> n" if "(k, n) \<in> set (tally ks)" for k n and ks :: "'k list"
    using that by (auto simp: tally_mem count_list_0_iff intro: ccontr)
  show ?thesis
    unfolding snapshot_validate_def
    using assms(3) env dig utc_text_valid [OF assms(2)]
    by (auto simp: snapshot_of_def checks_map_ok budget_nonnegative_def no_dup_def row dest!: pos)
qed

lemma flat_mem: "(a, b, n) \<in> (\<lambda>((x, y), k). (x, y, k)) ` A \<longleftrightarrow> ((a, b), n) \<in> A"
  by force

lemma active_expired_rows: "filter (active t) (bs_rows (expire_locked t s)) = filter reserved (bs_rows (expire_locked t s))"
  by (auto simp: expire_locked_def reserved_expire_row intro!: filter_cong)

section \<open>Example envelope\<close>

definition example_hex :: "char \<Rightarrow> string" where
  "example_hex c = replicate 64 c"

definition example_envelope :: effect_envelope where
  "example_envelope = \<lparr>fe_envelope_id = ''env'', fe_fleet_id = ''fleet'', fe_generation = 1,
     fe_policy_digest = example_hex CHR ''a'', fe_max_concurrent_writers = 2, fe_max_active_repository_effects = 2,
     fe_max_active_branch_effects = 2, fe_max_active_path_effects = 1, fe_valid_from = ''2026-01-01T00:00:00+00:00'',
     fe_expires_at = ''2026-02-01T00:00:00+00:00'', fe_schema_version = ''1.0.0''\<rparr>"

definition example_now :: utc_time where
  "example_now = \<lparr>year = 2026, month = 1, day = 5, hour = 6, minute = 0, second = 0, microsecond = 0\<rparr>"

definition example_request :: reservation_request where
  "example_request = \<lparr>rq_reservation_id = ''r1'', rq_effect_id = ''e1'', rq_candidate_digest = example_hex CHR ''b'',
     rq_mission_id = ''m1'', rq_executor_id = ''x1'', rq_runtime_id = ''rt'', rq_repository = ''o/r'', rq_branch = ''docs/a'',
     rq_changed_paths = [''a/b''], rq_authority_effect_key = example_hex CHR ''c'', rq_authority_epoch = 3,
     rq_envelope_generation = 1, rq_requested_at = ''2026-01-05T06:00:00+00:00'',
     rq_expires_at = ''2026-01-05T08:00:00+00:00'', rq_schema_version = ''1.0.0''\<rparr>"

definition example_bound :: budget_store where
  "example_bound = snd (store_init example_envelope (example_hex CHR ''d'') (example_hex CHR ''e'') empty_store)"

lemma example_envelope_valid: "envelope_validate example_envelope = Inr ()"
  by code_simp

lemma example_now_valid: "valid_utc example_now"
  by code_simp

lemma example_times:
  "\<exists>a b c. store_parse (fe_valid_from example_envelope) = Inr a \<and> store_parse (fe_expires_at example_envelope) = Inr b
     \<and> store_parse (rq_requested_at example_request) = Inr (instant example_now)
     \<and> store_parse (rq_expires_at example_request) = Inr c
     \<and> a \<le> instant example_now \<and> instant example_now < c \<and> c \<le> b"
proof (intro exI conjI)
  let ?t = "\<lambda>mo d h. instant \<lparr>year = 2026, month = mo, day = d, hour = h, minute = 0, second = 0, microsecond = 0\<rparr>"
  show "store_parse (fe_valid_from example_envelope) = Inr (?t 1 1 0)" by code_simp
  show "store_parse (fe_expires_at example_envelope) = Inr (?t 2 1 0)" by code_simp
  show "store_parse (rq_requested_at example_request) = Inr (instant example_now)" by code_simp
  show "store_parse (rq_expires_at example_request) = Inr (?t 1 5 8)" by code_simp
  show "?t 1 1 0 \<le> instant example_now" by code_simp
  show "instant example_now < ?t 1 5 8" by code_simp
  show "?t 1 5 8 \<le> ?t 2 1 0" by code_simp
qed

lemma example_reserve:
  "\<exists>d qd. envelope_digest example_envelope = Inr d \<and> request_digest example_request = Inr qd
     \<and> bs_meta example_bound = Some (''env'', ''fleet'', 1, d, fe_policy_digest example_envelope) \<and> bs_rows example_bound = []
     \<and> reserve_exact example_envelope (Some example_now) example_request example_bound
       = (Inr (new_row example_envelope d example_request qd (utc_text example_now)),
          example_bound\<lparr>bs_rows := [new_row example_envelope d example_request qd (utc_text example_now)]\<rparr>)"
proof -
  obtain d where d: "envelope_digest example_envelope = Inr d"
    by (simp add: envelope_digest_def example_envelope_valid)
  have "rq_envelope_generation example_request = 1" by (simp add: example_request_def)
  have "request_validate example_request = Inr ()" by code_simp
  then obtain qd where qd: "request_digest example_request = Inr qd" by (simp add: request_digest_def)
  have hex: "is_hex 64 (example_hex CHR ''d'')" "is_hex 64 (example_hex CHR ''e'')" by code_simp+
  have ids: "fe_envelope_id example_envelope = ''env''" "fe_generation example_envelope = 1"
    "fe_fleet_id example_envelope = ''fleet''" by (simp_all add: example_envelope_def)
  from hex d ids have meta: "bs_meta example_bound = Some (''env'', ''fleet'', 1, d, fe_policy_digest example_envelope)"
    and rows: "bs_rows example_bound = []"
    by (simp_all add: example_bound_def store_init_def bind_envelope_def example_envelope_valid empty_store_def sqlite_int_def)
  have pre: "reserve_precheck example_envelope (Some example_now) example_request = Inr (utc_text example_now)"
    using example_times by (elim exE conjE) (simp add: reserve_precheck_def store_now_def \<open>request_validate example_request = Inr ()\<close>
      ids \<open>rq_envelope_generation example_request = 1\<close>)
  have "budget_checks example_envelope (utc_text example_now) example_request [] = Inr ()" by code_simp
  then have "reserve_transaction example_envelope (utc_text example_now) example_request example_bound
      = Inr (example_bound\<lparr>bs_rows := [new_row example_envelope d example_request qd (utc_text example_now)]\<rparr>)"
    unfolding reserve_transaction_ok using d qd meta rows ids by (simp add: sqlite_int_def example_request_def)
  moreover have "reservation_validate (new_row example_envelope d example_request qd (utc_text example_now)) = Inr ()"
    using new_row_valid [OF d qd example_now_valid] example_times by auto
  ultimately show ?thesis
    using d qd meta rows pre by (simp add: reserve_exact_def read_row_def fetch_row_def new_row_id)
qed

lemma example_bound_reachable: "budget_steps example_envelope empty_store example_bound"
  unfolding example_bound_def by (rule r_into_rtranclp, rule open_store)

definition example_reserved :: budget_store where
  "example_reserved = snd (reserve_exact example_envelope (Some example_now) example_request example_bound)"

lemma example_reserved_reachable: "budget_steps example_envelope empty_store example_reserved"
proof -
  have "budget_step example_envelope example_bound example_reserved"
    unfolding example_reserved_def by (rule reserve_step) (simp add: clock_ok_def example_now_valid)
  with example_bound_reachable show ?thesis by (rule rtranclp.rtrancl_into_rtrancl)
qed

section \<open>Properties\<close>

text \<open>C4. The budget is never exceeded: in every database state reachable by stores of one envelope,
  at any clock readings and in any order, the reservations in state \<open>RESERVED\<close> stay within the
  envelope's limits for the fleet, for every repository, every branch and every path.\<close>

theorem effect_budget_never_exceeded:
  assumes "envelope_validate e = Inr ()" and "budget_steps e empty_store s"
  shows "int (count_if reserved (bs_rows s)) \<le> fe_max_concurrent_writers e
    \<and> int (count_if (\<lambda>r. reserved r \<and> on_repository repo r) (bs_rows s)) \<le> fe_max_active_repository_effects e
    \<and> int (count_if (\<lambda>r. reserved r \<and> on_branch repo branch r) (bs_rows s)) \<le> fe_max_active_branch_effects e
    \<and> int (count_if (\<lambda>r. reserved r \<and> on_path repo path r) (bs_rows s)) \<le> fe_max_active_path_effects e"
proof -
  have "within e (bs_rows s)"
    using budget_steps_ok [OF assms(2) budget_ok_empty [OF assms(1)]] by (simp add: budget_ok_def)
  then show ?thesis
    using within_limit [OF _ limit_writers, of e "bs_rows s"] within_limit [OF _ limit_repository, of e "bs_rows s" repo]
      within_limit [OF _ limit_branch, of e "bs_rows s" repo branch] within_limit [OF _ limit_path, of e "bs_rows s" repo path]
    by simp
qed

theorem effect_budget_never_exceeded_witness:
  "int (count_if (\<lambda>r. reserved r \<and> on_path ''o/r'' ''a/b'' r) (bs_rows example_reserved)) \<le> 1"
  using effect_budget_never_exceeded [OF example_envelope_valid example_reserved_reachable]
  by (simp add: example_envelope_def)

text \<open>Reserving is all or nothing: a refused request leaves the database as it was, the expiry sweep
  of its transaction included; a granted one returns a valid \<open>RESERVED\<close> reservation, which is the
  one new row of a database that otherwise saw only the sweep, and which repeats no earlier
  reservation id, request digest, effect id or authority key.\<close>

theorem reserve_atomic:
  assumes "clock_ok c"
  shows "case reserve_exact e c q s of
      (Inl x, s') \<Rightarrow> s' = s
    | (Inr r, s') \<Rightarrow> reserved r \<and> reservation_validate r = Inr () \<and> rv_reservation_id r = rq_reservation_id q
        \<and> rv_effect_id r = rq_effect_id q \<and> rv_authority_effect_key r = rq_authority_effect_key q
        \<and> (\<exists>now. c = Some now \<and> s' = s\<lparr>bs_rows := map (expire_row (utc_text now)) (bs_rows s) @ [r]\<rparr>)
        \<and> list_all (\<lambda>x. \<not> same_identity x r) (bs_rows s)"
proof (cases rule: reserve_exact_cases [OF assms, where e = e and q = q and s = s])
  case (1 now d f p qd)
  let ?r = "new_row e d q qd (utc_text now)"
  have "list_all (\<lambda>x. \<not> same_identity x ?r) (bs_rows s)"
    using 1(7) row_later_fields [OF expire_row_later] by (auto simp: list_all_iff list_ex_iff same_identity_def)
  with 1 new_row_valid [OF 1(3,4,2,6)] show ?thesis by (auto simp: new_row_def reserved_def)
qed simp

theorem reserve_atomic_witness:
  "\<exists>r s'. reserve_exact example_envelope (Some example_now) example_request example_bound = (Inr r, s')
     \<and> reserved r \<and> reservation_validate r = Inr ()"
proof -
  have "clock_ok (Some example_now)" by (simp add: clock_ok_def example_now_valid)
  from reserve_atomic [OF this, where e = example_envelope and q = example_request and s = example_bound] show ?thesis
    using example_reserve by auto
qed

text \<open>Reservations are durable: no step deletes a row, and a row that has been released, finalised or
  expired never changes again; a reserved one keeps all its columns and can only become terminal.\<close>

theorem reservations_durable:
  assumes "budget_steps e s s'" and "r \<in> set (bs_rows s)"
  shows "\<exists>r'\<in>set (bs_rows s'). row_later r r' \<and> (reserved r \<or> r' = r)"
proof -
  obtain old new where old: "bs_rows s' = old @ new" "list_all2 row_later (bs_rows s) old"
    using budget_steps_later [OF assms(1)] unfolding rows_later_def by blast
  from assms(2) obtain i where i: "i < length (bs_rows s)" "r = bs_rows s ! i" by (auto simp: in_set_conv_nth)
  then have "row_later r (old ! i)" "old ! i \<in> set (bs_rows s')"
    using old by (auto simp: list_all2_conv_all_nth)
  then show ?thesis by (auto simp: row_later_def)
qed

theorem reservations_durable_witness:
  "\<exists>r\<in>set (bs_rows example_reserved). \<exists>r'\<in>set (bs_rows (snd (release (Some example_now) ''r1'' example_reserved))). row_later r r'"
proof -
  obtain r where r: "r \<in> set (bs_rows example_reserved)"
    using example_reserve by (auto simp: example_reserved_def)
  have "budget_step example_envelope example_reserved (snd (release (Some example_now) ''r1'' example_reserved))"
    unfolding release_def by (rule finish_step) (simp add: clock_ok_def example_now_valid)
  from reservations_durable [OF r_into_rtranclp [where r = "budget_step example_envelope", OF this] r] r show ?thesis by blast
qed

text \<open>Effects are not replayed: once a reservation is in the database, no later request with the same
  reservation id, effect id or authority key is granted, whatever became of the reservation.\<close>

theorem no_effect_replay:
  assumes "r \<in> set (bs_rows s)" and "budget_steps e s s'" and "clock_ok c"
    and "rq_reservation_id q = rv_reservation_id r \<or> rq_effect_id q = rv_effect_id r
      \<or> rq_authority_effect_key q = rv_authority_effect_key r"
  shows "\<exists>x. reserve_exact e c q s' = (Inl x, s')"
proof (cases rule: reserve_exact_cases [OF assms(3), where e = e and q = q and s = s'])
  case (1 now d f p qd)
  obtain r' where r': "r' \<in> set (bs_rows s')" "row_later r r'"
    using budget_steps_later [OF assms(2)] assms(1) unfolding rows_later_def
    by (fastforce simp: list_all2_conv_all_nth in_set_conv_nth)
  let ?x = "expire_row (utc_text now) r'"
  have "row_later r ?x" using row_later_trans [OF r'(2) expire_row_later] .
  then have "same_identity ?x (new_row e d q qd (utc_text now))"
    using assms(4) row_later_fields by (fastforce simp: same_identity_def new_row_def)
  then have "list_ex (\<lambda>x. same_identity x (new_row e d q qd (utc_text now))) (map (expire_row (utc_text now)) (bs_rows s'))"
    using r'(1) by (auto simp: list_ex_iff)
  with 1 show ?thesis by blast
next
  case (2 x)
  then show ?thesis by blast
qed

theorem no_effect_replay_witness:
  "\<exists>x. reserve_exact example_envelope (Some example_now) example_request example_reserved = (Inl x, example_reserved)"
proof -
  obtain r where r: "r \<in> set (bs_rows example_reserved)" "rv_reservation_id r = ''r1''"
    using example_reserve by (auto simp: example_reserved_def new_row_def example_request_def)
  have "clock_ok (Some example_now)" by (simp add: clock_ok_def example_now_valid)
  from no_effect_replay [OF r(1) rtranclp.rtrancl_refl this] r(2) show ?thesis by (simp add: example_request_def)
qed

text \<open>A snapshot is exact: on every reachable database it succeeds, commits nothing but the expiry sweep,
  and reports for the fleet, each repository, each branch and each path exactly the number of
  reservations that are in state \<open>RESERVED\<close> afterwards, listing their ids once each in order.\<close>

theorem snapshot_exact:
  assumes "envelope_validate e = Inr ()" and "budget_steps e empty_store s" and "valid_utc now"
  shows "\<exists>sn s'. store_snapshot e (Some now) s = (Inr sn, s') \<and> s' = expire_locked (utc_text now) s
    \<and> sn_active_writers sn = int (count_if reserved (bs_rows s'))
    \<and> sorted (sn_active_reservation_ids sn) \<and> distinct (sn_active_reservation_ids sn)
    \<and> set (sn_active_reservation_ids sn) = {rv_reservation_id r |r. r \<in> set (bs_rows s') \<and> reserved r}
    \<and> (\<forall>repo n. (repo, n) \<in> set (sn_active_repository_effects sn) \<longleftrightarrow>
          0 < n \<and> n = int (count_if (\<lambda>r. reserved r \<and> on_repository repo r) (bs_rows s')))
    \<and> (\<forall>repo branch n. (repo, branch, n) \<in> set (sn_active_branch_effects sn) \<longleftrightarrow>
          0 < n \<and> n = int (count_if (\<lambda>r. reserved r \<and> on_branch repo branch r) (bs_rows s')))
    \<and> (\<forall>repo path n. (repo, path, n) \<in> set (sn_active_path_effects sn) \<longleftrightarrow>
          0 < n \<and> n = int (count_if (\<lambda>r. reserved r \<and> on_path repo path r) (bs_rows s')))"
proof -
  let ?s = "expire_locked (utc_text now) s"
  let ?rows = "sort_key rv_reservation_id (filter reserved (bs_rows ?s))"
  obtain d where d: "envelope_digest e = Inr d" using assms(1) by (simp add: envelope_digest_def)
  let ?sn = "snapshot_of e d (utc_text now) ?rows"
  have ok: "budget_ok e ?s" using budget_ok_expire budget_steps_ok budget_ok_empty assms by blast
  then have dist: "distinct (map rv_reservation_id ?rows)"
    by (auto simp: budget_ok_def unique_rows_def distinct_map inj_on_def)
  have valid: "reservation_validate r = Inr ()" if "r \<in> set ?rows" for r using ok that by (simp add: budget_ok_def)
  then have paths: "distinct (rv_changed_paths r)" if "r \<in> set ?rows" for r
    using that by (auto simp: reservation_validate_def budget_paths_def)
  have "store_snapshot e (Some now) s = (Inr ?sn, ?s)"
    using d snapshot_of_valid [OF d assms(3) dist valid]
    by (simp add: store_snapshot_def store_now_def active_expired_rows Let_def)
  moreover have "sn_active_writers ?sn = int (count_if reserved (bs_rows ?s))"
    by (simp add: snapshot_of_def count_if_def)
  moreover have "sorted (sn_active_reservation_ids ?sn) \<and> distinct (sn_active_reservation_ids ?sn)"
    "set (sn_active_reservation_ids ?sn) = {rv_reservation_id r |r. r \<in> set (bs_rows ?s) \<and> reserved r}"
    using dist by (auto simp: snapshot_of_def)
  moreover have "(repo, n) \<in> set (sn_active_repository_effects ?sn) \<longleftrightarrow>
      0 < n \<and> n = int (count_if (\<lambda>r. reserved r \<and> on_repository repo r) (bs_rows ?s))" for repo n
    by (auto simp: snapshot_of_def tally_mem count_list_map_if on_repository_def count_if_sort_filter)
  moreover have "(repo, branch, n) \<in> set (sn_active_branch_effects ?sn) \<longleftrightarrow>
      0 < n \<and> n = int (count_if (\<lambda>r. reserved r \<and> on_branch repo branch r) (bs_rows ?s))" for repo branch n
    by (auto simp: snapshot_of_def tally_mem count_list_map_if on_branch_def count_if_sort_filter flat_mem)
  moreover have "(repo, path, n) \<in> set (sn_active_path_effects ?sn) \<longleftrightarrow>
      0 < n \<and> n = int (count_if (\<lambda>r. reserved r \<and> on_path repo path r) (bs_rows ?s))" for repo path n
    using count_list_paths [where rows = ?rows and repo = repo and path = path, OF paths]
    by (auto simp: snapshot_of_def tally_mem count_if_sort_filter flat_mem)
  ultimately show ?thesis by blast
qed

theorem snapshot_exact_witness:
  "\<exists>sn s'. store_snapshot example_envelope (Some example_now) example_reserved = (Inr sn, s')
     \<and> distinct (sn_active_reservation_ids sn)"
  using snapshot_exact [OF example_envelope_valid example_reserved_reachable example_now_valid] by blast

text \<open>A reservation that passes \<open>validate_for_effect\<close> is in the database, in state \<open>RESERVED\<close> and not
  past its expiry, and binds exactly the effect, runtime, authority and envelope of the call; the reservation
  the caller presented is that row, unless the two are a SHA-256 collision.\<close>

theorem validate_for_effect_sound:
  assumes "validate_for_effect e (Some now) r x s = (Inr cur, s')"
  shows "cur \<in> set (bs_rows s') \<and> active (utc_text now) cur
    \<and> (\<exists>d. envelope_digest e = Inr d \<and> in_scope e d x cur)
    \<and> (r = cur \<or> collides (reservation_preimage r) (reservation_preimage cur))"
proof -
  have g: "get_reservation (Some now) (rv_reservation_id r) s = (Inr cur, s')"
    and dig: "reservation_digest cur = reservation_digest r" and ok: "\<exists>z. reservation_digest r = Inr z"
    and env: "\<exists>d. envelope_digest e = Inr d \<and> in_scope e d x cur"
    using assms by (auto simp: validate_for_effect_def and_then_ok split: sum.splits prod.splits)
  from g have s': "s' = expire_locked (utc_text now) s" and cur: "cur \<in> set (bs_rows s')"
    by (auto simp: get_reservation_def store_now_def read_row_def fetch_row_def and_then_ok Let_def
        split: sum.splits option.splits simp: find_Some_iff)
  moreover have "reserved cur" using env by (auto simp: in_scope_def reserved_def)
  then have "cur \<in> set (filter reserved (bs_rows s'))" using cur by simp
  then have "cur \<in> set (filter (active (utc_text now)) (bs_rows s'))" using s' active_expired_rows [of "utc_text now" s] by simp
  then have "active (utc_text now) cur" by simp
  moreover have "sha256 (reservation_preimage r) = sha256 (reservation_preimage cur)"
    using dig ok by (auto simp: reservation_digest_def and_then_ok)
  then have "r = cur \<or> collides (reservation_preimage r) (reservation_preimage cur)"
    using sha256_eqD reservation_preimage_inject by blast
  ultimately show ?thesis using env by blast
qed

theorem validate_for_effect_sound_witness:
  "\<exists>r x cur s'. validate_for_effect example_envelope (Some example_now) r x example_reserved = (Inr cur, s')
     \<and> active (utc_text example_now) cur"
proof -
  obtain d qd where d: "envelope_digest example_envelope = Inr d" and qd: "request_digest example_request = Inr qd"
    and st: "bs_rows example_reserved = [new_row example_envelope d example_request qd (utc_text example_now)]"
    using example_reserve by (auto simp: example_reserved_def)
  let ?r = "new_row example_envelope d example_request qd (utc_text example_now)"
  let ?x = "\<lparr>sc_effect_id = rv_effect_id ?r, sc_candidate_digest = rv_candidate_digest ?r, sc_mission_id = rv_mission_id ?r,
    sc_executor_id = rv_executor_id ?r, sc_runtime_id = rv_runtime_id ?r, sc_repository = rv_repository ?r,
    sc_branch = rv_branch ?r, sc_authority_effect_key = rv_authority_effect_key ?r, sc_authority_epoch = rv_authority_epoch ?r\<rparr>"
  have valid: "reservation_validate ?r = Inr ()" using new_row_valid [OF d qd example_now_valid] example_times by auto
  have "\<not> rq_expires_at example_request \<le> utc_text example_now" by code_simp
  then have same: "expire_row (utc_text example_now) ?r = ?r" by (simp add: expire_row_def new_row_def)
  have "\<not> blank (rv_reservation_id ?r)"
    using valid by (auto simp: reservation_validate_def budget_text_def text_invalid_def)
  then have "validate_for_effect example_envelope (Some example_now) ?r ?x example_reserved
      = (Inr ?r, expire_locked (utc_text example_now) example_reserved)"
    using valid d by (simp add: validate_for_effect_def get_reservation_def store_now_def read_row_def fetch_row_def
        expire_locked_def st same Let_def reservation_digest_def in_scope_def) (simp add: new_row_def)
  with validate_for_effect_sound [OF this] show ?thesis by blast
qed

section \<open>Expiry\<close>

text \<open>On expiry times written the way the store writes its own, the textual comparison of the sweep is the
  comparison of instants.\<close>

lemma expiry_of_utc_text:
  assumes "valid_utc now" "valid_utc t" "rv_expires_at r = utc_text t" "reserved r"
  shows "active (utc_text now) r \<longleftrightarrow> instant now < instant t"
    and "reserved (expire_row (utc_text now) r) \<longleftrightarrow> instant now < instant t"
  using assms utc_text_order [OF assms(2,1)]
  by (auto simp: active_def reserved_def expire_row_def not_less [symmetric])

text \<open>With another offset it is not: a valid reservation that ended half an hour ago is still active.\<close>

lemma offset_expiry_not_honoured:
  "\<exists>r now i. reservation_validate r = Inr () \<and> valid_utc now \<and> store_parse (rv_expires_at r) = Inr i
     \<and> i < instant now \<and> active (utc_text now) r \<and> expire_row (utc_text now) r = r"
proof -
  obtain d qd where d: "envelope_digest example_envelope = Inr d" and qd: "request_digest example_request = Inr qd"
    using example_reserve by blast
  let ?n = "\<lambda>h m. \<lparr>year = 2026, month = 1, day = 5, hour = h, minute = m, second = 0, microsecond = 0\<rparr>"
  let ?q = "''2026-01-05T11:30:00+05:00''"
  let ?r = "(new_row example_envelope d example_request qd (utc_text example_now))\<lparr>rv_expires_at := ?q\<rparr>"
  have ex: "budget_utc ?q ''expires_at'' = Inr (instant (?n 6 30))" by code_simp
  have "instant example_now < instant (?n 6 30)" by code_simp
  then have "reservation_validate ?r = Inr ()"
    using new_row_valid [OF d qd example_now_valid] example_times ex utc_text_valid [OF example_now_valid]
    by (auto simp: reservation_validate_def new_row_def)
  moreover have "valid_utc (?n 7 0)" by code_simp
  moreover have "store_parse (rv_expires_at ?r) = Inr (instant (?n 6 30))" using budget_utc_parse [OF ex] by simp
  moreover have "instant (?n 6 30) < instant (?n 7 0)" by code_simp
  moreover have "utc_text (?n 7 0) < ?q" by code_simp
  then have "active (utc_text (?n 7 0)) ?r" "expire_row (utc_text (?n 7 0)) ?r = ?r"
    by (auto simp: active_def expire_row_def new_row_def)
  ultimately show ?thesis by blast
qed

text \<open>Paths are compared as written: two spellings of one path, both accepted, do not share a path budget.\<close>

lemma path_alias_not_counted:
  "budget_paths [''docs/a''] = Inr () \<and> budget_paths [''docs//a''] = Inr () \<and> path_parts ''docs//a'' = path_parts ''docs/a''
   \<and> (rv_changed_paths r = [''docs/a''] \<longrightarrow> \<not> on_path repo ''docs//a'' r)"
  by (simp add: on_path_def) code_simp

end
