(* ===== verification/Fleet_Coordination_Contract.thy ===== *)
theory Fleet_Coordination_Contract
  imports Py_Json_Inject Py_Time
begin

text \<open>
  The contracts of contracts/fleet_coordination.py: mission specifications, plan requests, dispatches,
  mission states, leases and snapshots, with their validators, canonical JSON and digests.
\<close>

section \<open>Helpers\<close>

abbreviation coord_contract_error :: "string \<Rightarrow> exn" where
  "coord_contract_error m \<equiv> Exn FleetCoordinationContractError m"

definition printable :: "char \<Rightarrow> bool" where
  "printable c = (let n = (of_char c :: nat) in 32 \<le> n \<and> n \<noteq> 127)"

definition coord_text_invalid :: "nat \<Rightarrow> string \<Rightarrow> bool" where
  "coord_text_invalid limit s = (blank s \<or> limit < length s \<or> \<not> list_all printable s)"

definition coord_text :: "string \<Rightarrow> string \<Rightarrow> nat \<Rightarrow> unit res" where
  "coord_text value name limit =
     raise_when (coord_text_invalid limit value) FleetCoordinationContractError (name @ '' is invalid'')"

definition optional :: "('a \<Rightarrow> unit res) \<Rightarrow> 'a option \<Rightarrow> unit res" where
  "optional f x = (case x of None \<Rightarrow> Inr () | Some v \<Rightarrow> f v)"

definition coord_sha40 :: "string \<Rightarrow> string \<Rightarrow> unit res" where
  "coord_sha40 value name = checks [
     coord_text value name 40,
     raise_when (\<not> is_hex 40 value) FleetCoordinationContractError (name @ '' must be a full lowercase git SHA'')]"

definition coord_sha256 :: "string \<Rightarrow> string \<Rightarrow> unit res" where
  "coord_sha256 value name = checks [
     coord_text value name 64,
     raise_when (\<not> is_hex 64 value) FleetCoordinationContractError (name @ '' must be sha256 hex'')]"

text \<open>\<open>_REPO.fullmatch\<close>\<close>

definition repo_pattern :: "string \<Rightarrow> bool" where
  "repo_pattern s = (case split_slash [] s of
     [owner, name] \<Rightarrow> owner \<noteq> [] \<and> name \<noteq> [] \<and> \<not> list_ex py_space s
   | _ \<Rightarrow> False)"

definition coord_repository :: "string \<Rightarrow> unit res" where
  "coord_repository value = checks [
     coord_text value ''repository'' 4096,
     raise_when (\<not> repo_pattern value) FleetCoordinationContractError ''repository must use owner/name form'']"

definition BRANCH_FORBIDDEN :: "char set" where
  "BRANCH_FORBIDDEN = set (CHR 0x5C # '' ~^:?*['')"

definition coord_branch :: "string \<Rightarrow> unit res" where
  "coord_branch value = checks [
     coord_text value ''branch'' 255,
     raise_when (starts_with ''refs/'' value \<or> starts_with ''/'' value
         \<or> ends_with ''/'' value \<or> ends_with ''.'' value \<or> ends_with ''.lock'' value
         \<or> contains ''..'' value \<or> contains ''//'' value \<or> contains [CHR 0x40, CHR 0x7B] value
         \<or> list_ex (\<lambda>c. c \<in> BRANCH_FORBIDDEN) value)
       FleetCoordinationContractError ''branch is not a safe repository branch name'']"

definition coord_string_tuple :: "string list \<Rightarrow> string \<Rightarrow> bool \<Rightarrow> unit res" where
  "coord_string_tuple value name nonempty = checks (
     raise_when (nonempty \<and> value = []) FleetCoordinationContractError (name @ '' must be a non-empty tuple'')
     # map (\<lambda>x. coord_text x name 4096) value
     @ [raise_when (\<not> no_dup value) FleetCoordinationContractError (name @ '' entries must be unique'')])"

definition unsafe_path :: "string \<Rightarrow> bool" where
  "unsafe_path raw = (CHR 0x5C \<in> set raw \<or> list_ex (\<lambda>c. c \<in> set ''*?[]'') raw \<or> starts_with ''/'' raw
     \<or> ''..'' \<in> set (path_parts raw) \<or> path_parts raw = [] \<or> join ''/'' (path_parts raw) \<noteq> raw)"

definition coord_write_scope :: "string list \<Rightarrow> unit res" where
  "coord_write_scope value = checks (coord_string_tuple value ''write_scope'' True
     # map (\<lambda>raw. raise_when (unsafe_path raw) FleetCoordinationContractError
         ''write_scope contains a non-canonical or unsafe path'') value)"

definition coord_heads :: "(string \<times> string) list \<Rightarrow> unit res" where
  "coord_heads value = checks (
     raise_when (value = []) FleetCoordinationContractError ''current_heads must be a non-empty tuple''
     # map (\<lambda>(repo, head). checks [coord_repository repo, coord_sha40 head ''current head'']) value
     @ [raise_when (\<not> no_dup (map fst value)) FleetCoordinationContractError
          ''current_heads repositories must be unique''])"

section \<open>Mission specification\<close>

record coord_spec =
  fs_mission_id :: string
  fs_drone_id :: string
  fs_repository :: string
  fs_baseline_sha :: string
  fs_baseline_tree_sha :: string
  fs_branch :: string
  fs_write_scope :: "string list"
  fs_dependencies :: "string list"
  fs_evidence_refs :: "string list"

definition spec_validate :: "coord_spec \<Rightarrow> unit res" where
  "spec_validate x = checks [
     coord_text (fs_mission_id x) ''mission_id'' 4096,
     coord_text (fs_drone_id x) ''drone_id'' 4096,
     coord_repository (fs_repository x),
     coord_sha40 (fs_baseline_sha x) ''baseline_sha'',
     coord_sha40 (fs_baseline_tree_sha x) ''baseline_tree_sha'',
     coord_branch (fs_branch x),
     coord_write_scope (fs_write_scope x),
     coord_string_tuple (fs_dependencies x) ''dependencies'' False,
     coord_string_tuple (fs_evidence_refs x) ''evidence_refs'' True,
     raise_when (fs_mission_id x \<in> set (fs_dependencies x)) FleetCoordinationContractError
       ''mission cannot depend on itself'']"

definition spec_json :: "coord_spec \<Rightarrow> json" where
  "spec_json x = JObj [
     (''mission_id'', JStr (fs_mission_id x)), (''drone_id'', JStr (fs_drone_id x)),
     (''repository'', JStr (fs_repository x)), (''baseline_sha'', JStr (fs_baseline_sha x)),
     (''baseline_tree_sha'', JStr (fs_baseline_tree_sha x)), (''branch'', JStr (fs_branch x)),
     (''write_scope'', strs (fs_write_scope x)), (''dependencies'', strs (fs_dependencies x)),
     (''evidence_refs'', strs (fs_evidence_refs x))]"

definition spec_digest :: "coord_spec \<Rightarrow> string res" where
  "spec_digest x = and_then (spec_validate x) (\<lambda>_. Inr (sha256 (canon (spec_json x))))"

section \<open>Plan request\<close>

record plan_request =
  fp_request_id :: string
  fp_coordinator_id :: string
  fp_current_heads :: "(string \<times> string) list"
  fp_max_parallel :: int

definition plan_request_validate :: "plan_request \<Rightarrow> unit res" where
  "plan_request_validate q = checks [
     coord_text (fp_request_id q) ''request_id'' 4096,
     coord_text (fp_coordinator_id q) ''coordinator_id'' 4096,
     coord_heads (fp_current_heads q),
     raise_when (\<not> (1 \<le> fp_max_parallel q \<and> fp_max_parallel q \<le> 100)) FleetCoordinationContractError
       ''max_parallel must be in [1,100]'']"

definition head_map :: "plan_request \<Rightarrow> (string \<rightharpoonup> string) res" where
  "head_map q = and_then (plan_request_validate q) (\<lambda>_. Inr (map_of (fp_current_heads q)))"

definition plan_request_json :: "plan_request \<Rightarrow> json" where
  "plan_request_json q = JObj [
     (''request_id'', JStr (fp_request_id q)), (''coordinator_id'', JStr (fp_coordinator_id q)),
     (''current_heads'', JList (map (\<lambda>(repo, head). JList [JStr repo, JStr head]) (fp_current_heads q))),
     (''max_parallel'', JInt (fp_max_parallel q))]"

definition plan_request_digest :: "plan_request \<Rightarrow> string res" where
  "plan_request_digest q = and_then (plan_request_validate q) (\<lambda>_. Inr (sha256 (canon (plan_request_json q))))"

section \<open>Dispatch\<close>

record dispatch =
  fd_dispatch_id :: string
  fd_fencing_token :: string
  fd_request_id :: string
  fd_coordinator_id :: string
  fd_mission_id :: string
  fd_drone_id :: string
  fd_generation :: int
  fd_repository :: string
  fd_baseline_sha :: string
  fd_baseline_tree_sha :: string
  fd_branch :: string
  fd_write_scope :: "string list"
  fd_issued_at :: string

definition dispatch_validate :: "dispatch \<Rightarrow> unit res" where
  "dispatch_validate d = checks [
     coord_sha256 (fd_dispatch_id d) ''dispatch_id'',
     coord_sha256 (fd_fencing_token d) ''fencing_token'',
     coord_text (fd_request_id d) ''request_id'' 4096,
     coord_text (fd_coordinator_id d) ''coordinator_id'' 4096,
     coord_text (fd_mission_id d) ''mission_id'' 4096,
     coord_text (fd_drone_id d) ''drone_id'' 4096,
     coord_text (fd_issued_at d) ''issued_at'' 4096,
     raise_when (fd_generation d < 1) FleetCoordinationContractError ''generation must be positive'',
     coord_repository (fd_repository d),
     coord_sha40 (fd_baseline_sha d) ''baseline_sha'',
     coord_sha40 (fd_baseline_tree_sha d) ''baseline_tree_sha'',
     coord_branch (fd_branch d),
     coord_write_scope (fd_write_scope d)]"

definition dispatch_json :: "dispatch \<Rightarrow> json" where
  "dispatch_json d = JObj [
     (''dispatch_id'', JStr (fd_dispatch_id d)), (''fencing_token'', JStr (fd_fencing_token d)),
     (''request_id'', JStr (fd_request_id d)), (''coordinator_id'', JStr (fd_coordinator_id d)),
     (''mission_id'', JStr (fd_mission_id d)), (''drone_id'', JStr (fd_drone_id d)),
     (''generation'', JInt (fd_generation d)), (''repository'', JStr (fd_repository d)),
     (''baseline_sha'', JStr (fd_baseline_sha d)), (''baseline_tree_sha'', JStr (fd_baseline_tree_sha d)),
     (''branch'', JStr (fd_branch d)), (''write_scope'', strs (fd_write_scope d)),
     (''issued_at'', JStr (fd_issued_at d))]"

definition dispatch_canonical :: "dispatch \<Rightarrow> json res" where
  "dispatch_canonical d = and_then (dispatch_validate d) (\<lambda>_. Inr (dispatch_json d))"

definition dispatch_validate_for :: "dispatch \<Rightarrow> coord_spec \<Rightarrow> plan_request \<Rightarrow> unit res" where
  "dispatch_validate_for d x q = checks [
     dispatch_validate d, spec_validate x, plan_request_validate q,
     raise_when ((fd_request_id d, fd_coordinator_id d, fd_mission_id d, fd_drone_id d, fd_repository d,
           fd_baseline_sha d, fd_baseline_tree_sha d, fd_branch d, fd_write_scope d)
         \<noteq> (fp_request_id q, fp_coordinator_id q, fs_mission_id x, fs_drone_id x, fs_repository x,
           fs_baseline_sha x, fs_baseline_tree_sha x, fs_branch x, fs_write_scope x))
       FleetCoordinationContractError ''dispatch binding mismatch'']"

section \<open>Mission state, lease, snapshot\<close>

definition MISSION_STATES :: "string set" where
  "MISSION_STATES = {''STARTING'', ''WAITING'', ''RUNNING'', ''DONE'', ''FAILED'', ''TERMINATED''}"

definition TERMINAL_STATES :: "string set" where
  "TERMINAL_STATES = {''DONE'', ''FAILED'', ''TERMINATED''}"

definition LEASE_KINDS :: "string set" where
  "LEASE_KINDS = {''BRANCH'', ''PATH''}"

record mission_state =
  fm_mission_id :: string
  fm_drone_id :: string
  fm_state :: string
  fm_generation :: int
  fm_spec_digest :: string
  fm_dispatch_id :: "string option"
  fm_fencing_token :: "string option"
  fm_terminal_evidence_ref :: "string option"
  fm_updated_at :: string

text \<open>\<open>not x\<close> for an optional string: absent or empty.\<close>

definition falsy :: "string option \<Rightarrow> bool" where
  "falsy x = (case x of None \<Rightarrow> True | Some s \<Rightarrow> s = [])"

definition mission_state_validate :: "mission_state \<Rightarrow> unit res" where
  "mission_state_validate m = checks [
     coord_text (fm_mission_id m) ''mission_id'' 4096,
     coord_text (fm_drone_id m) ''drone_id'' 4096,
     coord_sha256 (fm_spec_digest m) ''spec_digest'',
     optional (\<lambda>x. coord_sha256 x ''dispatch_id'') (fm_dispatch_id m),
     optional (\<lambda>x. coord_sha256 x ''fencing_token'') (fm_fencing_token m),
     optional (\<lambda>x. coord_text x ''terminal_evidence_ref'' 4096) (fm_terminal_evidence_ref m),
     coord_text (fm_updated_at m) ''updated_at'' 4096,
     raise_when (fm_state m \<notin> MISSION_STATES \<or> fm_generation m < 0) FleetCoordinationContractError
       ''mission state is invalid'',
     raise_when (fm_state m = ''RUNNING''
         \<and> (falsy (fm_dispatch_id m) \<or> falsy (fm_fencing_token m) \<or> fm_generation m < 1))
       FleetCoordinationContractError ''RUNNING requires fenced dispatch'',
     raise_when (fm_state m \<in> TERMINAL_STATES \<and> fm_terminal_evidence_ref m = None) FleetCoordinationContractError
       ''terminal mission requires evidence reference'']"

record lease =
  fl_mission_id :: string
  fl_drone_id :: string
  fl_dispatch_id :: string
  fl_generation :: int
  fl_repository :: string
  fl_lease_kind :: string
  fl_resource :: string
  fl_acquired_at :: string

definition lease_validate :: "lease \<Rightarrow> unit res" where
  "lease_validate l = checks [
     coord_text (fl_mission_id l) ''mission_id'' 4096,
     coord_text (fl_drone_id l) ''drone_id'' 4096,
     coord_text (fl_resource l) ''resource'' 4096,
     coord_text (fl_acquired_at l) ''acquired_at'' 4096,
     coord_sha256 (fl_dispatch_id l) ''dispatch_id'',
     coord_repository (fl_repository l),
     raise_when (fl_lease_kind l \<notin> LEASE_KINDS \<or> fl_generation l < 1) FleetCoordinationContractError ''lease is invalid'',
     (if fl_lease_kind l = ''BRANCH'' then coord_branch (fl_resource l) else coord_write_scope [fl_resource l])]"

record coord_snapshot =
  fx_coordinator_id :: string
  fx_revision :: int
  fx_event_head :: string
  fx_missions :: "mission_state list"
  fx_active_leases :: "lease list"

definition coord_snapshot_validate :: "coord_snapshot \<Rightarrow> unit res" where
  "coord_snapshot_validate x = checks ([
     coord_text (fx_coordinator_id x) ''coordinator_id'' 4096,
     coord_sha256 (fx_event_head x) ''event_head'',
     raise_when (fx_revision x < 0) FleetCoordinationContractError ''snapshot is invalid'']
     @ map mission_state_validate (fx_missions x)
     @ map lease_validate (fx_active_leases x)
     @ [raise_when (\<not> no_dup (map fm_mission_id (fx_missions x))) FleetCoordinationContractError ''duplicate missions''])"

section \<open>Lemmas\<close>

lemma coord_text_ok [simp]: "coord_text v n l = Inr u \<longleftrightarrow> \<not> coord_text_invalid l v"
  by (simp add: coord_text_def)

lemma hex_char_printable: "hex_char c \<Longrightarrow> printable c"
  by (auto simp: hex_char_def printable_def)

lemma hex_coord_text: "is_hex n s \<Longrightarrow> 0 < n \<Longrightarrow> n \<le> l \<Longrightarrow> \<not> coord_text_invalid l s"
  by (cases s) (auto simp: is_hex_def coord_text_invalid_def list_all_iff hex_char_not_space hex_char_printable)

lemma coord_sha256_ok [simp]: "coord_sha256 v n = Inr u \<longleftrightarrow> is_hex 64 v"
  using hex_coord_text [of 64 v 64] by (auto simp: coord_sha256_def)

lemma coord_sha40_ok [simp]: "coord_sha40 v n = Inr u \<longleftrightarrow> is_hex 40 v"
  using hex_coord_text [of 40 v 40] by (auto simp: coord_sha40_def)

lemma optional_ok [simp]: "optional f x = Inr u \<longleftrightarrow> (\<forall>v. x = Some v \<longrightarrow> f v = Inr ())"
  by (auto simp: optional_def split: option.splits)

lemma coord_string_tuple_ok [simp]: "coord_string_tuple xs n b = Inr u \<longleftrightarrow>
    (b \<longrightarrow> xs \<noteq> []) \<and> (\<forall>x\<in>set xs. \<not> coord_text_invalid 4096 x) \<and> distinct xs"
  by (auto simp: coord_string_tuple_def checks_ok)

lemma coord_write_scope_ok [simp]: "coord_write_scope xs = Inr u \<longleftrightarrow>
    xs \<noteq> [] \<and> (\<forall>x\<in>set xs. \<not> coord_text_invalid 4096 x \<and> \<not> unsafe_path x) \<and> distinct xs"
  by (auto simp: coord_write_scope_def checks_ok)

lemma spec_digest_ok: "spec_digest x = Inr d \<longleftrightarrow> spec_validate x = Inr () \<and> d = sha256 (canon (spec_json x))"
  by (auto simp: spec_digest_def and_then_ok)

lemma plan_request_digest_ok:
  "plan_request_digest q = Inr d \<longleftrightarrow> plan_request_validate q = Inr () \<and> d = sha256 (canon (plan_request_json q))"
  by (auto simp: plan_request_digest_def and_then_ok)

lemma pad_text_printable: "c \<in> set (pad_text w n) \<Longrightarrow> printable c"
  by (induction w arbitrary: n) (auto simp: digit_char_def printable_def)

lemma utc_text_printable [simp]: "\<not> coord_text_invalid 4096 (utc_text t)"
proof -
  have "list_all printable (pad_text w n)" for w n using pad_text_printable by (auto simp: list_all_iff)
  then have "list_all printable (utc_text t)" by (simp add: utc_text_def printable_def)
  then show ?thesis by (simp add: coord_text_invalid_def utc_text_def py_space_def)
qed

end
