(* ===== verification/Dependency_Graph.thy ===== *)
theory Dependency_Graph
  imports Prelude
begin

text \<open>
  The cycle check of enterprise/fleet_coordination_state.py (\<open>_dependency_graph\<close>, \<open>_has_cycle\<close>).

  A graph is the dictionary from a mission to its dependencies, in insertion order; a frozenset of
  dependencies is a list, in the order in which the interpreter happens to iterate it, and nothing
  below depends on that order. The recursion of \<open>visit\<close> is the recursion of the source, one
  Python frame per call: \<open>depth\<close> is the number of calls the interpreter still allows, and running
  out of it is the \<open>RecursionError\<close> that the source then raises. The sets \<open>visiting\<close> and \<open>visited\<close>
  are threaded through the calls as the source mutates them.
\<close>

type_synonym graph = "(string \<times> string list) list"

definition deps_of :: "graph \<Rightarrow> string \<Rightarrow> string list" where
  "deps_of g n = (case map_of g n of None \<Rightarrow> [] | Some ds \<Rightarrow> ds)"

definition nodes :: "graph \<Rightarrow> string set" where
  "nodes g = fst ` set g"

record marks =
  visiting :: "string set"
  visited :: "string set"

abbreviation recursion_error :: exn where
  "recursion_error \<equiv> Exn PyRecursionError ''maximum recursion depth exceeded''"

fun visit :: "nat \<Rightarrow> graph \<Rightarrow> marks \<Rightarrow> string \<Rightarrow> (bool \<times> marks) res"
and visit_deps :: "nat \<Rightarrow> graph \<Rightarrow> marks \<Rightarrow> string list \<Rightarrow> (bool \<times> marks) res" where
  "visit 0 g m n = Inl recursion_error"
| "visit (Suc depth) g m n =
     (if n \<in> visited m then Inr (False, m)
      else if n \<in> visiting m then Inr (True, m)
      else and_then (visit_deps depth g (m\<lparr>visiting := insert n (visiting m)\<rparr>) (deps_of g n)) (\<lambda>(found, m').
        Inr (if found then (True, m')
          else (False, m'\<lparr>visiting := visiting m' - {n}, visited := insert n (visited m')\<rparr>))))"
| "visit_deps depth g m [] = Inr (False, m)"
| "visit_deps depth g m (d # ds) =
     (if d \<in> nodes g then and_then (visit depth g m d) (\<lambda>(found, m').
        if found then Inr (True, m') else visit_deps depth g m' ds)
      else visit_deps depth g m ds)"

text \<open>\<open>any(visit(n) for n in g)\<close>\<close>

fun any_visit :: "nat \<Rightarrow> graph \<Rightarrow> marks \<Rightarrow> string list \<Rightarrow> bool res" where
  "any_visit depth g m [] = Inr False"
| "any_visit depth g m (n # ns) = and_then (visit depth g m n) (\<lambda>(found, m').
     if found then Inr True else any_visit depth g m' ns)"

definition has_cycle :: "nat \<Rightarrow> graph \<Rightarrow> bool res" where
  "has_cycle depth g = any_visit depth g \<lparr>visiting = {}, visited = {}\<rparr> (map fst g)"

section \<open>Reference: paths in the graph\<close>

definition edges :: "graph \<Rightarrow> (string \<times> string) set" where
  "edges g = {(n, d). n \<in> nodes g \<and> d \<in> nodes g \<and> d \<in> set (deps_of g n)}"

text \<open>
  \<open>finished g m\<close>: the visited nodes are closed under edges, none of them lies on a cycle, and none
  is still being visited.
\<close>

definition finished :: "graph \<Rightarrow> marks \<Rightarrow> bool" where
  "finished g m \<longleftrightarrow> (\<forall>v\<in>visited m. v \<in> nodes g \<and> (\<forall>d. (v, d) \<in> edges g \<longrightarrow> d \<in> visited m) \<and> (v, v) \<notin> (edges g)\<^sup>+)
     \<and> visited m \<inter> visiting m = {}"

lemma finished_closed:
  assumes "finished g m" "v \<in> visited m" "(v, w) \<in> (edges g)\<^sup>*"
  shows "w \<in> visited m"
  using assms(3,2,1) by (induction rule: rtrancl_induct) (auto simp: finished_def)

section \<open>The search\<close>

text \<open>A search that finds nothing leaves the stack as it found it.\<close>

lemma visit_restores:
  "visit depth g m n = Inr (False, m') \<Longrightarrow> visiting m' = visiting m"
  "visit_deps depth g m ds = Inr (False, m') \<Longrightarrow> visiting m' = visiting m"
proof (induction depth g m n and depth g m ds arbitrary: m' and m' rule: visit_visit_deps.induct)
  case (2 depth g m n)
  show ?case
  proof (cases "n \<in> visited m \<or> n \<in> visiting m")
    case False
    then obtain m1 where m1: "visit_deps depth g (m\<lparr>visiting := insert n (visiting m)\<rparr>) (deps_of g n) = Inr (False, m1)"
      "visiting m' = visiting m1 - {n}"
      using 2(2) by (auto simp: and_then_ok split: if_splits)
    from 2(1) [OF _ _ m1(1)] False have "visiting m1 = insert n (visiting m)" by simp
    with m1(2) False show ?thesis by auto
  qed (use 2(2) in \<open>auto split: if_splits\<close>)
next
  case (4 depth g m d ds)
  show ?case
  proof (cases "d \<in> nodes g")
    case True
    with 4(4) obtain m1 where m1: "visit depth g m d = Inr (False, m1)" "visit_deps depth g m1 ds = Inr (False, m')"
      by (auto simp: and_then_ok split: if_splits)
    from 4(1) [OF True m1(1)] 4(2) [OF True _ m1(2), of False] show ?thesis by simp
  next
    case False
    with 4(3) [OF False] 4(4) show ?thesis by simp
  qed
qed auto

text \<open>A reported cycle exists: every node on the stack has a path to the node under inspection.\<close>

lemma visit_True:
  "visit depth g m n = Inr (True, m') \<Longrightarrow> n \<in> nodes g \<Longrightarrow> \<forall>v\<in>visiting m. (v, n) \<in> (edges g)\<^sup>+
    \<Longrightarrow> \<exists>c. (c, c) \<in> (edges g)\<^sup>+"
  "visit_deps depth g m ds = Inr (True, m') \<Longrightarrow> a \<in> nodes g \<Longrightarrow> set ds \<subseteq> set (deps_of g a)
    \<Longrightarrow> \<forall>v\<in>visiting m. (v, a) \<in> (edges g)\<^sup>* \<Longrightarrow> \<exists>c. (c, c) \<in> (edges g)\<^sup>+"
proof (induction depth g m n and depth g m ds arbitrary: m' and m' a rule: visit_visit_deps.induct)
  case (2 depth g m n)
  show ?case
  proof (cases "n \<in> visiting m")
    case False
    then obtain m1 where m1: "n \<notin> visited m"
      "visit_deps depth g (m\<lparr>visiting := insert n (visiting m)\<rparr>) (deps_of g n) = Inr (True, m1)"
      using 2(2) by (auto simp: and_then_ok split: if_splits)
    have "\<forall>v\<in>visiting (m\<lparr>visiting := insert n (visiting m)\<rparr>). (v, n) \<in> (edges g)\<^sup>*"
      using 2(4) by (auto dest: trancl_into_rtrancl)
    with 2(1) [OF m1(1) False m1(2) 2(3) order_refl] show ?thesis by blast
  qed (use 2 in blast)
next
  case (4 depth g m d ds)
  show ?case
  proof (cases "d \<in> nodes g")
    case True
    have "(a, d) \<in> edges g" using 4(5,6) True by (auto simp: edges_def)
    then have stack: "\<forall>v\<in>visiting m. (v, d) \<in> (edges g)\<^sup>+" using 4(7) by (auto intro: rtrancl_into_trancl1)
    from 4(4) True obtain f m1 where m1: "visit depth g m d = Inr (f, m1)"
      and rest: "\<not> f \<Longrightarrow> visit_deps depth g m1 ds = Inr (True, m')"
      by (auto simp: and_then_ok split: if_splits)
    show ?thesis
    proof (cases f)
      case True
      with 4(1) [OF \<open>d \<in> nodes g\<close> _ \<open>d \<in> nodes g\<close> stack] m1 show ?thesis by simp
    next
      case False
      with m1 have "visiting m1 = visiting m" by (simp add: visit_restores(1))
      with 4(2) [OF True _ rest 4(5)] False 4(6,7) show ?thesis by simp
    qed
  next
    case False
    with 4(3) [OF False _ 4(5)] 4(4,6,7) show ?thesis by simp
  qed
qed auto

text \<open>A search that finds nothing has finished every node it was asked about.\<close>

lemma finish_node:
  assumes "finished g m" "visiting m = insert n A" "n \<in> nodes g" "set (deps_of g n) \<inter> nodes g \<subseteq> visited m"
  shows "finished g (m\<lparr>visiting := visiting m - {n}, visited := insert n (visited m)\<rparr>)"
proof -
  have succ: "d \<in> visited m" if "(n, d) \<in> edges g" for d using that assms(4) by (auto simp: edges_def)
  have "n \<notin> visited m" using assms(1,2) by (auto simp: finished_def)
  then have "(n, n) \<notin> (edges g)\<^sup>+"
    using succ finished_closed [OF assms(1)] by (blast dest: tranclD)
  with assms(1,3) succ show ?thesis by (auto simp: finished_def)
qed

lemma visit_False:
  "visit depth g m n = Inr (False, m') \<Longrightarrow> n \<in> nodes g \<Longrightarrow> finished g m
    \<Longrightarrow> finished g m' \<and> insert n (visited m) \<subseteq> visited m'"
  "visit_deps depth g m ds = Inr (False, m') \<Longrightarrow> finished g m
    \<Longrightarrow> finished g m' \<and> visited m \<union> set ds \<inter> nodes g \<subseteq> visited m'"
proof (induction depth g m n and depth g m ds arbitrary: m' and m' rule: visit_visit_deps.induct)
  case (2 depth g m n)
  show ?case
  proof (cases "n \<in> visited m")
    case True
    then show ?thesis using 2 by auto
  next
    case False
    let ?m = "m\<lparr>visiting := insert n (visiting m)\<rparr>"
    from False 2(2) obtain m1 where n: "n \<notin> visiting m" and m1: "visit_deps depth g ?m (deps_of g n) = Inr (False, m1)"
      and m': "m' = m1\<lparr>visiting := visiting m1 - {n}, visited := insert n (visited m1)\<rparr>"
      by (auto simp: and_then_ok split: if_splits)
    have "finished g ?m" using 2(4) False by (auto simp: finished_def)
    from 2(1) [OF False n m1 this] have "finished g m1" "visited m \<union> set (deps_of g n) \<inter> nodes g \<subseteq> visited m1" by auto
    moreover have "visiting m1 = insert n (visiting m)" using visit_restores(2) [OF m1] by simp
    ultimately show ?thesis using finish_node [OF _ _ 2(3)] m' by auto
  qed
next
  case (4 depth g m d ds)
  show ?case
  proof (cases "d \<in> nodes g")
    case True
    with 4(4) obtain m1 where m1: "visit depth g m d = Inr (False, m1)" and rest: "visit_deps depth g m1 ds = Inr (False, m')"
      by (auto simp: and_then_ok split: if_splits)
    from 4(1) [OF True m1 True 4(5)] have "finished g m1" "insert d (visited m) \<subseteq> visited m1" by auto
    with 4(2) [OF True _ rest] show ?thesis by auto
  next
    case False
    with 4(3) [OF False] 4(4,5) show ?thesis by simp
  qed
qed auto

text \<open>With a depth above the number of nodes not yet on the stack, the search returns.\<close>

lemma visit_returns:
  "card (nodes g - visiting m) < depth \<Longrightarrow> n \<in> nodes g \<Longrightarrow> \<exists>r. visit depth g m n = Inr r"
  "card (nodes g - visiting m) < depth \<Longrightarrow> \<exists>r. visit_deps depth g m ds = Inr r"
proof (induction depth g m n and depth g m ds rule: visit_visit_deps.induct)
  case (2 depth g m n)
  let ?m = "m\<lparr>visiting := insert n (visiting m)\<rparr>"
  show ?case
  proof (cases "n \<in> visited m \<or> n \<in> visiting m")
    case False
    have "card (nodes g - visiting ?m) < card (nodes g - visiting m)"
      using False 2(3) by (intro psubset_card_mono) (auto simp: nodes_def)
    with 2(2) have "card (nodes g - visiting ?m) < depth" by simp
    with 2(1) False obtain r where "visit_deps depth g ?m (deps_of g n) = Inr r" by blast
    with False show ?thesis by (cases r) auto
  qed auto
next
  case (4 depth g m d ds)
  show ?case
  proof (cases "d \<in> nodes g")
    case True
    from 4(1) [OF True 4(4) True] obtain f m1 where m1: "visit depth g m d = Inr (f, m1)" by auto
    show ?thesis
    proof (cases f)
      case False
      with m1 have "visiting m1 = visiting m" by (simp add: visit_restores(1))
      with 4(2) [OF True False] 4(4) m1 False True show ?thesis by simp
    qed (use True m1 in auto)
  next
    case False
    then show ?thesis using 4(3,4) by auto
  qed
qed auto

lemma any_visit_returns:
  assumes "card (nodes g) < depth" "visiting m = {}" "set ns \<subseteq> nodes g"
  shows "\<exists>b. any_visit depth g m ns = Inr b"
  using assms(2,3)
proof (induction ns arbitrary: m)
  case (Cons n ns)
  then obtain f m1 where m1: "visit depth g m n = Inr (f, m1)"
    using visit_returns(1) [where g = g and m = m and depth = depth and n = n] assms(1) by auto
  show ?case
  proof (cases f)
    case False
    with visit_restores(1) m1 Cons.prems have "visiting m1 = {}" by simp
    with Cons m1 False show ?thesis by simp
  qed (use m1 in auto)
qed auto

text \<open>An answer is right at every depth.\<close>

lemma any_visit_sound:
  assumes "finished g m" "visiting m = {}" "set ns \<subseteq> nodes g" "\<forall>n\<in>nodes g - visited m. n \<in> set ns"
    "any_visit depth g m ns = Inr b"
  shows "b \<longleftrightarrow> (\<exists>c. (c, c) \<in> (edges g)\<^sup>+)"
  using assms
proof (induction ns arbitrary: m)
  case Nil
  have "(c, c) \<notin> (edges g)\<^sup>+" for c
  proof
    assume c: "(c, c) \<in> (edges g)\<^sup>+"
    then obtain d where "(c, d) \<in> edges g" by (blast dest: tranclD)
    then have "c \<in> nodes g" by (simp add: edges_def)
    then have "c \<in> visited m" using Nil(4) by simp
    then show False using Nil(1) c by (simp add: finished_def)
  qed
  with Nil show ?case by simp
next
  case (Cons n ns)
  have n: "n \<in> nodes g" using Cons.prems by simp
  from Cons.prems(5) obtain f m1 where m1: "visit depth g m n = Inr (f, m1)"
    and rest: "f \<and> b \<or> \<not> f \<and> any_visit depth g m1 ns = Inr b"
    by (auto simp: and_then_ok split: if_splits)
  show ?case
  proof (cases f)
    case True
    with visit_True(1) [OF _ n] m1 Cons.prems(2) rest show ?thesis by auto
  next
    case False
    with visit_False(1) [OF _ n Cons.prems(1)] visit_restores(1) m1
    have "finished g m1" "insert n (visited m) \<subseteq> visited m1" "visiting m1 = visiting m" by auto
    moreover from this Cons.prems(4) have "\<forall>k\<in>nodes g - visited m1. k \<in> set ns" by auto
    ultimately show ?thesis using Cons.IH [of m1] Cons.prems(2,3) rest False by simp
  qed
qed

text \<open>The check decides whether the graph has a cycle, within as many frames as there are nodes.\<close>

lemma has_cycle_sound: "has_cycle depth g = Inr b \<Longrightarrow> b \<longleftrightarrow> (\<exists>c. (c, c) \<in> (edges g)\<^sup>+)"
  unfolding has_cycle_def by (erule any_visit_sound [rotated -1]) (auto simp: finished_def nodes_def)

lemma has_cycle_decides:
  assumes "length g < depth"
  shows "has_cycle depth g = Inr (\<exists>c. (c, c) \<in> (edges g)\<^sup>+)"
proof -
  have "card (nodes g) \<le> length g" using card_length [of "map fst g"] by (simp add: nodes_def)
  with assms obtain b where "has_cycle depth g = Inr b"
    unfolding has_cycle_def using any_visit_returns [of g depth "\<lparr>visiting = {}, visited = {}\<rparr>" "map fst g"]
    by (auto simp: nodes_def)
  with has_cycle_sound show ?thesis by blast
qed

section \<open>Properties\<close>

text \<open>C21. The cycle check returns and is right: with at least one Python frame more than the graph has missions, the
  recursive search never runs into the recursion limit, and it answers whether some mission depends on itself through
  registered missions, in whatever order the dependency sets are iterated.\<close>

theorem cycle_check_returns:
  assumes "length g < depth"
  shows "\<exists>b. has_cycle depth g = Inr b \<and> (b \<longleftrightarrow> \<not> acyclic (edges g))"
  using has_cycle_decides [OF assms] by (simp add: acyclic_def)

theorem cycle_check_returns_witness:
  "\<exists>b. has_cycle 3 [(''a'', [''b'', ''c'']), (''b'', [''a''])] = Inr b
     \<and> (b \<longleftrightarrow> \<not> acyclic (edges [(''a'', [''b'', ''c'']), (''b'', [''a''])]))"
  using cycle_check_returns [of "[(''a'', [''b'', ''c'']), (''b'', [''a''])]" 3] by simp

end
