(* ===== verification/Fleet_Coordination.thy ===== *)
theory Fleet_Coordination
  imports Fleet_Coordination_Contract Dependency_Graph "HOL-Library.AList" "HOL-Library.Product_Lexorder"
begin

text \<open>
  The coordination store of enterprise/fleet_coordination_state.py.

  The database is \<open>coord_store\<close>: the singleton meta row and the mission, dependency, lease, plan and
  event tables, rows in insertion order. The columns of a mission row that repeat its specification
  are kept as the specification. JSON columns hold the value they decode to: the text the store
  writes is canonical, so nothing is lost; text that is not JSON, which the store never writes, is
  outside the model. Every mutating method is one \<open>BEGIN IMMEDIATE\<close> transaction (\<open>write_tx\<close>), rolled
  back when its body raises. The clock is an argument: \<open>None\<close> for a reading that is not an aware
  datetime, else the UTC time. Counters stay below the 64-bit range of an INTEGER column.
\<close>

abbreviation coord_error :: "string \<Rightarrow> exn" where
  "coord_error m \<equiv> Exn FleetCoordinationStateError m"

definition coord_state_text :: "string \<Rightarrow> string \<Rightarrow> unit res" where
  "coord_state_text v n =
     raise_when (blank v \<or> nul \<in> set v) FleetCoordinationStateError (n @ '' is invalid'')"

definition coord_state_digest :: "string \<Rightarrow> string \<Rightarrow> unit res" where
  "coord_state_digest v n = checks [
     coord_state_text v n,
     raise_when (\<not> is_hex 64 v) FleetCoordinationStateError (n @ '' must be sha256 hex'')]"

type_synonym trusted_clock = "utc_time option"

definition coord_utc :: "trusted_clock \<Rightarrow> string res" where
  "coord_utc c = (case c of None \<Rightarrow> Inl (coord_error ''trusted clock must be timezone-aware'') | Some t \<Rightarrow> Inr (utc_text t))"

definition coord_parse_time :: "string \<Rightarrow> int res" where
  "coord_parse_time = parse_utc (coord_error ''stored timestamp invalid'')
     (coord_error ''stored timestamp not timezone-aware'')"

definition path_overlap :: "string \<Rightarrow> string \<Rightarrow> bool" where
  "path_overlap a b = (let x = path_parts a; y = path_parts b; n = min (length x) (length y) in take n x = take n y)"

definition event_payload_json :: "string \<Rightarrow> string \<Rightarrow> string option \<Rightarrow> json \<Rightarrow> string \<Rightarrow> json" where
  "event_payload_json prev event_type mission_id payload observed_at = JObj [
     (''previous_digest'', JStr prev), (''event_type'', JStr event_type), (''mission_id'', opt_str mission_id),
     (''payload'', payload), (''observed_at'', JStr observed_at)]"

definition event_digest :: "string \<Rightarrow> string \<Rightarrow> string option \<Rightarrow> json \<Rightarrow> string \<Rightarrow> string" where
  "event_digest prev event_type mission_id payload observed_at =
     sha256 (canon (event_payload_json prev event_type mission_id payload observed_at))"

section \<open>Reading stored JSON\<close>

text \<open>\<open>tuple(v)\<close> of a decoded value; a string iterates its characters, an object its keys.\<close>

definition json_tuple :: "exn \<Rightarrow> json \<Rightarrow> json list res" where
  "json_tuple e j = (case j of JList xs \<Rightarrow> Inr xs | JStr s \<Rightarrow> Inr (map (\<lambda>c. JStr [c]) s)
     | JObj kvs \<Rightarrow> Inr (map (JStr \<circ> fst) kvs) | _ \<Rightarrow> Inl e)"

text \<open>
  The three kinds of failure inside the \<open>try\<close> blocks, a missing key, a value of the wrong type and a
  failed validation, end in the same handler and so raise the same exception \<open>e\<close>.
\<close>

definition json_str :: "exn \<Rightarrow> json option \<Rightarrow> string res" where
  "json_str e j = (case j of Some (JStr s) \<Rightarrow> Inr s | _ \<Rightarrow> Inl e)"

definition json_int :: "exn \<Rightarrow> json option \<Rightarrow> int res" where
  "json_int e j = (case j of Some (JInt i) \<Rightarrow> Inr i | _ \<Rightarrow> Inl e)"

definition json_items :: "exn \<Rightarrow> json option \<Rightarrow> json list res" where
  "json_items e j = (case j of Some v \<Rightarrow> json_tuple e v | None \<Rightarrow> Inl e)"

definition json_strs :: "exn \<Rightarrow> json option \<Rightarrow> string list res" where
  "json_strs e j = and_then (json_items e j) (map_res (json_str e \<circ> Some))"

definition json_pair :: "exn \<Rightarrow> json \<Rightarrow> (string \<times> string) res" where
  "json_pair e j = and_then (json_strs e (Some j)) (\<lambda>xs. case xs of [a, b] \<Rightarrow> Inr (a, b) | _ \<Rightarrow> Inl e)"

definition or_raise :: "exn \<Rightarrow> unit res \<Rightarrow> unit res" where
  "or_raise e r = (case r of Inl _ \<Rightarrow> Inl e | Inr _ \<Rightarrow> Inr ())"

definition request_from_json :: "json \<Rightarrow> plan_request res" where
  "request_from_json v = (let e = coord_error ''stored request failed reconstruction'' in
     case v of JObj _ \<Rightarrow>
       and_then (json_str e (json_get ''request_id'' v)) (\<lambda>request_id.
       and_then (json_str e (json_get ''coordinator_id'' v)) (\<lambda>coordinator_id.
       and_then (and_then (json_items e (json_get ''current_heads'' v)) (map_res (json_pair e))) (\<lambda>heads.
       and_then (json_int e (json_get ''max_parallel'' v)) (\<lambda>max_parallel.
       let q = \<lparr>fp_request_id = request_id, fp_coordinator_id = coordinator_id, fp_current_heads = heads,
         fp_max_parallel = max_parallel\<rparr> in
       and_then (or_raise e (plan_request_validate q)) (\<lambda>_. Inr q)))))
     | _ \<Rightarrow> Inl (coord_error ''stored request invalid''))"

definition dispatch_from_json :: "json \<Rightarrow> dispatch res" where
  "dispatch_from_json v = (let e = coord_error ''stored dispatch failed reconstruction'' in
     case v of JObj _ \<Rightarrow>
       and_then (map_res (\<lambda>k. json_str e (json_get k v)) [''dispatch_id'', ''fencing_token'', ''request_id'',
         ''coordinator_id'', ''mission_id'', ''drone_id'', ''repository'', ''baseline_sha'', ''baseline_tree_sha'',
         ''branch'', ''issued_at'']) (\<lambda>xs.
       and_then (json_int e (json_get ''generation'' v)) (\<lambda>generation.
       and_then (json_strs e (json_get ''write_scope'' v)) (\<lambda>scope.
       let d = \<lparr>fd_dispatch_id = xs ! 0, fd_fencing_token = xs ! 1, fd_request_id = xs ! 2, fd_coordinator_id = xs ! 3,
         fd_mission_id = xs ! 4, fd_drone_id = xs ! 5, fd_generation = generation, fd_repository = xs ! 6,
         fd_baseline_sha = xs ! 7, fd_baseline_tree_sha = xs ! 8, fd_branch = xs ! 9, fd_write_scope = scope,
         fd_issued_at = xs ! 10\<rparr> in
       and_then (or_raise e (dispatch_validate d)) (\<lambda>_. Inr d))))
     | _ \<Rightarrow> Inl (coord_error ''stored dispatch invalid''))"

definition dispatches_from_json :: "json \<Rightarrow> dispatch list res" where
  "dispatches_from_json v = (case v of JList vals \<Rightarrow> map_res dispatch_from_json vals
     | _ \<Rightarrow> Inl (coord_error ''stored result invalid''))"

definition dispatches_json :: "dispatch list \<Rightarrow> json res" where
  "dispatches_json xs = and_then (map_res dispatch_canonical xs) (\<lambda>vals. Inr (JList vals))"

section \<open>The database\<close>

record mission_row =
  ms_spec :: coord_spec
  ms_spec_digest :: string
  ms_state :: string
  ms_generation :: int
  ms_dispatch_id :: "string option"
  ms_fencing_token :: "string option"
  ms_terminal_evidence_ref :: "string option"
  ms_last_requeue_evidence_ref :: "string option"
  ms_registered_at :: string
  ms_updated_at :: string

abbreviation ms_id :: "mission_row \<Rightarrow> string" where
  "ms_id r \<equiv> fs_mission_id (ms_spec r)"

record plan_row =
  pl_request_id :: string
  pl_request_digest :: string
  pl_request :: json
  pl_result :: json
  pl_result_digest :: string
  pl_observed_at :: string

record event_row =
  ev_event_id :: string
  ev_event_type :: string
  ev_mission_id :: "string option"
  ev_payload :: json
  ev_previous_digest :: string
  ev_event_digest :: string
  ev_observed_at :: string

record coord_store =
  co_meta :: "(string \<times> int \<times> string) option"
  co_missions :: "mission_row list"
  co_deps :: "(string \<times> string) list"
  co_leases :: "lease list"
  co_plans :: "plan_row list"
  co_events :: "event_row list"

definition coord_empty :: coord_store where
  "coord_empty = \<lparr>co_meta = None, co_missions = [], co_deps = [], co_leases = [], co_plans = [], co_events = []\<rparr>"

definition ZERO :: string where
  "ZERO = replicate 64 CHR ''0''"

type_synonym 'a tx = "coord_store \<Rightarrow> ('a \<times> coord_store) res"

definition write_tx :: "'a tx \<Rightarrow> (coord_store, 'a) op" where
  "write_tx f s = (case f s of Inl e \<Rightarrow> (Inl e, s) | Inr (x, s') \<Rightarrow> (Inr x, s'))"

abbreviation none_subscript :: exn where
  "none_subscript \<equiv> Exn PyTypeError ''NoneType object is not subscriptable''"

abbreviation integrity_error :: exn where
  "integrity_error \<equiv> Exn SqliteIntegrityError ''UNIQUE constraint failed''"

definition coord_bind :: "string \<Rightarrow> (coord_store, unit) op" where
  "coord_bind coordinator_id s = (case co_meta s of
     None \<Rightarrow> (Inr (), s\<lparr>co_meta := Some (coordinator_id, 0, ZERO)\<rparr>)
   | Some (c, _, _) \<Rightarrow> (raise_when (c \<noteq> coordinator_id) FleetCoordinationStateError
       ''coordinator instance substitution denied'', s))"

definition coord_now :: "trusted_clock \<Rightarrow> coord_store \<Rightarrow> string res" where
  "coord_now c s = and_then (coord_utc c) (\<lambda>now.
     if co_events s = [] then Inr now
     else and_then (coord_parse_time now) (\<lambda>a.
       and_then (coord_parse_time (ev_observed_at (last (co_events s)))) (\<lambda>b.
       and_then (raise_when (a < b) FleetCoordinationStateError ''trusted clock rollback denied'') (\<lambda>_. Inr now))))"

definition bump_revision :: "coord_store \<Rightarrow> coord_store" where
  "bump_revision s = s\<lparr>co_meta := map_option (\<lambda>(c, r, h). (c, r + 1, h)) (co_meta s)\<rparr>"

definition append_event :: "string \<Rightarrow> string option \<Rightarrow> json \<Rightarrow> string \<Rightarrow> coord_store \<Rightarrow> coord_store res" where
  "append_event event_type mission_id payload observed_at s = (case co_meta s of
     None \<Rightarrow> Inl none_subscript
   | Some (c, r, prev) \<Rightarrow> (let d = event_digest prev event_type mission_id payload observed_at in
       if list_ex (\<lambda>e. ev_event_id e = d \<or> ev_event_digest e = d) (co_events s) then Inl integrity_error
       else Inr (s\<lparr>co_events := co_events s @ [\<lparr>ev_event_id = d, ev_event_type = event_type,
           ev_mission_id = mission_id, ev_payload = payload, ev_previous_digest = prev, ev_event_digest = d,
           ev_observed_at = observed_at\<rparr>], co_meta := Some (c, r, d)\<rparr>)))"

fun chain_from :: "string \<Rightarrow> int option \<Rightarrow> event_row list \<Rightarrow> string res" where
  "chain_from prev last_time [] = Inr prev"
| "chain_from prev last_time (r # rs) =
     and_then (case ev_payload r of JObj _ \<Rightarrow> Inr () | _ \<Rightarrow> Inl (coord_error ''event payload corruption'')) (\<lambda>_.
     let exp = event_digest prev (ev_event_type r) (ev_mission_id r) (ev_payload r) (ev_observed_at r) in
     and_then (coord_parse_time (ev_observed_at r)) (\<lambda>t.
     and_then (checks [
       raise_when (case last_time of None \<Rightarrow> False | Some t0 \<Rightarrow> t < t0) FleetCoordinationStateError
         ''event time ordering corruption'',
       raise_when (ev_previous_digest r \<noteq> prev \<or> ev_event_digest r \<noteq> exp \<or> ev_event_id r \<noteq> exp)
         FleetCoordinationStateError ''event chain corruption'']) (\<lambda>_.
     chain_from exp (Some t) rs)))"

definition verify_event_chain :: "coord_store \<Rightarrow> string res" where
  "verify_event_chain s = and_then (chain_from ZERO None (co_events s)) (\<lambda>last1.
     case co_meta s of None \<Rightarrow> Inl none_subscript
     | Some (_, _, h) \<Rightarrow> and_then (raise_when (h \<noteq> last1) FleetCoordinationStateError ''event chain head mismatch'') (\<lambda>_.
         Inr last1))"

section \<open>Registration\<close>

fun add_dep :: "string \<times> string \<Rightarrow> graph \<Rightarrow> graph" where
  "add_dep (n, d) [] = [(n, [d])]"
| "add_dep (n, d) ((k, ds) # g) = (if k = n then (k, List.insert d ds) # g else (k, ds) # add_dep (n, d) g)"

definition dependency_graph :: "coord_store \<Rightarrow> graph" where
  "dependency_graph s = fold add_dep (co_deps s) (map (\<lambda>r. (ms_id r, [])) (co_missions s))"

definition find_mission :: "string \<Rightarrow> coord_store \<Rightarrow> mission_row option" where
  "find_mission i s = find (\<lambda>r. ms_id r = i) (co_missions s)"

definition new_mission :: "coord_spec \<Rightarrow> string \<Rightarrow> string \<Rightarrow> mission_row" where
  "new_mission x dg now = \<lparr>ms_spec = x, ms_spec_digest = dg, ms_state = ''STARTING'', ms_generation = 0,
     ms_dispatch_id = None, ms_fencing_token = None, ms_terminal_evidence_ref = None,
     ms_last_requeue_evidence_ref = None, ms_registered_at = now, ms_updated_at = now\<rparr>"

definition insert_mission :: "mission_row \<Rightarrow> coord_store \<Rightarrow> coord_store res" where
  "insert_mission r s = (if list_ex (\<lambda>m. ms_id m = ms_id r \<or> fs_drone_id (ms_spec m) = fs_drone_id (ms_spec r)
       \<or> ms_spec_digest m = ms_spec_digest r) (co_missions s) then Inl integrity_error
     else Inr (s\<lparr>co_missions := co_missions s @ [r]\<rparr>))"

fun insert_deps :: "string \<Rightarrow> string list \<Rightarrow> coord_store \<Rightarrow> coord_store res" where
  "insert_deps i [] s = Inr s"
| "insert_deps i (d # ds) s = (if (i, d) \<in> set (co_deps s) then Inl integrity_error
     else insert_deps i ds (s\<lparr>co_deps := co_deps s @ [(i, d)]\<rparr>))"

definition register_body :: "nat \<Rightarrow> trusted_clock \<Rightarrow> coord_spec \<Rightarrow> string \<Rightarrow> unit tx" where
  "register_body depth c x dg s = (case find_mission (fs_mission_id x) s of
     Some row \<Rightarrow> (if ms_spec_digest row = dg then Inr ((), s)
       else Inl (coord_error ''mission identity substitution denied''))
   | None \<Rightarrow>
       and_then (raise_when (list_ex (\<lambda>m. fs_drone_id (ms_spec m) = fs_drone_id x) (co_missions s))
         FleetCoordinationStateError ''drone already bound'') (\<lambda>_.
       and_then (has_cycle depth (AList.update (fs_mission_id x) (fs_dependencies x) (dependency_graph s))) (\<lambda>cyclic.
       and_then (raise_when cyclic FleetCoordinationStateError ''dependency cycle detected'') (\<lambda>_.
       and_then (coord_now c s) (\<lambda>now.
       and_then (insert_mission (new_mission x dg now) s) (\<lambda>s1.
       and_then (insert_deps (fs_mission_id x) (fs_dependencies x) s1) (\<lambda>s2.
       and_then (append_event ''MISSION_REGISTERED'' (Some (fs_mission_id x))
         (JObj [(''drone_id'', JStr (fs_drone_id x)), (''spec_digest'', JStr dg)]) now s2) (\<lambda>s3.
       Inr ((), bump_revision s3)))))))))"

definition register_mission :: "nat \<Rightarrow> trusted_clock \<Rightarrow> coord_spec \<Rightarrow> (coord_store, unit) op" where
  "register_mission depth c x s = (case and_then (spec_validate x) (\<lambda>_. spec_digest x) of
     Inl e \<Rightarrow> (Inl e, s)
   | Inr dg \<Rightarrow> write_tx (register_body depth c x dg) s)"

section \<open>Planning\<close>

definition dependencies_done :: "coord_store \<Rightarrow> string \<Rightarrow> bool" where
  "dependencies_done s i = list_all (\<lambda>(m, d). m = i \<longrightarrow>
     map_option ms_state (find_mission d s) = Some ''DONE'') (co_deps s)"

definition leases_available :: "coord_store \<Rightarrow> string \<Rightarrow> string \<Rightarrow> string list \<Rightarrow> bool" where
  "leases_available s repo branch scope =
     (\<not> list_ex (\<lambda>l. fl_repository l = repo \<and> fl_lease_kind l = ''BRANCH'' \<and> fl_resource l = branch) (co_leases s)
      \<and> \<not> list_ex (\<lambda>a. list_ex (\<lambda>l. fl_repository l = repo \<and> fl_lease_kind l = ''PATH'' \<and> path_overlap a (fl_resource l))
        (co_leases s)) scope)"

definition lease_of :: "dispatch \<Rightarrow> string \<Rightarrow> string \<Rightarrow> lease" where
  "lease_of d kind resource = \<lparr>fl_mission_id = fd_mission_id d, fl_drone_id = fd_drone_id d,
     fl_dispatch_id = fd_dispatch_id d, fl_generation = fd_generation d, fl_repository = fd_repository d,
     fl_lease_kind = kind, fl_resource = resource, fl_acquired_at = fd_issued_at d\<rparr>"

definition dispatch_leases :: "dispatch \<Rightarrow> lease list" where
  "dispatch_leases d = lease_of d ''BRANCH'' (fd_branch d) # map (lease_of d ''PATH'') (fd_write_scope d)"

definition lease_key :: "lease \<Rightarrow> string \<times> string \<times> string" where
  "lease_key l = (fl_repository l, fl_lease_kind l, fl_resource l)"

fun insert_leases :: "lease list \<Rightarrow> coord_store \<Rightarrow> coord_store res" where
  "insert_leases [] s = Inr s"
| "insert_leases (l # ls) s = (if list_ex (\<lambda>x. lease_key x = lease_key l) (co_leases s)
     then Inl (coord_error ''lease conflict during atomic claim'')
     else insert_leases ls (s\<lparr>co_leases := co_leases s @ [l]\<rparr>))"

definition claim_leases :: "dispatch \<Rightarrow> coord_store \<Rightarrow> coord_store res" where
  "claim_leases d = insert_leases (dispatch_leases d)"

definition update_mission :: "string \<Rightarrow> (mission_row \<Rightarrow> mission_row) \<Rightarrow> coord_store \<Rightarrow> coord_store" where
  "update_mission i f s = s\<lparr>co_missions := map (\<lambda>r. if ms_id r = i then f r else r) (co_missions s)\<rparr>"

definition seed_json :: "string \<Rightarrow> string \<Rightarrow> string \<Rightarrow> mission_row \<Rightarrow> int \<Rightarrow> string \<Rightarrow> json" where
  "seed_json kind cid rd row gen now = JObj [
     (''kind'', JStr kind), (''coordinator_id'', JStr cid), (''request_digest'', JStr rd), (''mission_id'', JStr (ms_id row)),
     (''drone_id'', JStr (fs_drone_id (ms_spec row))), (''spec_digest'', JStr (ms_spec_digest row)),
     (''generation'', JInt gen), (''issued_at'', JStr now)]"

definition new_dispatch :: "string \<Rightarrow> string \<Rightarrow> plan_request \<Rightarrow> string \<Rightarrow> mission_row \<Rightarrow> dispatch" where
  "new_dispatch cid rd q now row = (let x = ms_spec row; gen = ms_generation row + 1 in
     \<lparr>fd_dispatch_id = sha256 (canon (seed_json ''dispatch'' cid rd row gen now)),
      fd_fencing_token = sha256 (canon (seed_json ''fence'' cid rd row gen now)),
      fd_request_id = fp_request_id q, fd_coordinator_id = cid, fd_mission_id = fs_mission_id x,
      fd_drone_id = fs_drone_id x, fd_generation = gen, fd_repository = fs_repository x,
      fd_baseline_sha = fs_baseline_sha x, fd_baseline_tree_sha = fs_baseline_tree_sha x, fd_branch = fs_branch x,
      fd_write_scope = fs_write_scope x, fd_issued_at = now\<rparr>)"

definition run_row :: "dispatch \<Rightarrow> string \<Rightarrow> mission_row \<Rightarrow> mission_row" where
  "run_row d now r = r\<lparr>ms_state := ''RUNNING'', ms_generation := fd_generation d,
     ms_dispatch_id := Some (fd_dispatch_id d), ms_fencing_token := Some (fd_fencing_token d),
     ms_terminal_evidence_ref := None, ms_last_requeue_evidence_ref := None, ms_updated_at := now\<rparr>"

definition dispatch_event :: "plan_request \<Rightarrow> string \<Rightarrow> dispatch \<Rightarrow> mission_row \<Rightarrow> json" where
  "dispatch_event q rd d row = JObj [(''request_id'', JStr (fp_request_id q)), (''request_digest'', JStr rd),
     (''dispatch_id'', JStr (fd_dispatch_id d)), (''fencing_token'', JStr (fd_fencing_token d)),
     (''generation'', JInt (fd_generation d)), (''spec_digest'', JStr (ms_spec_digest row))]"

definition dispatch_mission :: "string \<Rightarrow> string \<Rightarrow> plan_request \<Rightarrow> string \<Rightarrow> mission_row \<Rightarrow> dispatch tx" where
  "dispatch_mission cid rd q now row s = (let d = new_dispatch cid rd q now row in
     and_then (dispatch_validate d) (\<lambda>_.
     and_then (claim_leases d s) (\<lambda>s1.
     and_then (append_event ''MISSION_DISPATCHED'' (Some (ms_id row)) (dispatch_event q rd d row) now
       (update_mission (ms_id row) (run_row d now) s1)) (\<lambda>s2.
     Inr (d, s2)))))"

fun select_missions ::
  "string \<Rightarrow> string \<Rightarrow> plan_request \<Rightarrow> string \<Rightarrow> (string \<rightharpoonup> string) \<Rightarrow> mission_row list \<Rightarrow> dispatch list \<Rightarrow> dispatch list tx" where
  "select_missions cid rd q now heads [] selected s = Inr (selected, s)"
| "select_missions cid rd q now heads (row # rows) selected s =
     (if fp_max_parallel q \<le> int (length selected) then Inr (selected, s)
      else if \<not> dependencies_done s (ms_id row) then select_missions cid rd q now heads rows selected s
      else case heads (fs_repository (ms_spec row)) of
        None \<Rightarrow> Inl (coord_error (''current head missing for repository: '' @ fs_repository (ms_spec row)))
      | Some head \<Rightarrow>
          (if head \<noteq> fs_baseline_sha (ms_spec row)
           then Inl (coord_error (''stale baseline: '' @ fs_repository (ms_spec row) @ '':'' @ ms_id row))
           else if \<not> leases_available s (fs_repository (ms_spec row)) (fs_branch (ms_spec row)) (fs_write_scope (ms_spec row))
           then select_missions cid rd q now heads rows selected s
           else and_then (dispatch_mission cid rd q now row s) (\<lambda>(d, s').
             select_missions cid rd q now heads rows (selected @ [d]) s')))"

definition candidates :: "coord_store \<Rightarrow> mission_row list" where
  "candidates s = sort_key (\<lambda>r. ms_id r) (filter (\<lambda>r. ms_state r \<in> {''STARTING'', ''WAITING''}) (co_missions s))"

definition find_plan :: "string \<Rightarrow> coord_store \<Rightarrow> plan_row option" where
  "find_plan i s = find (\<lambda>p. pl_request_id p = i) (co_plans s)"

definition commit_event :: "plan_request \<Rightarrow> string \<Rightarrow> string \<Rightarrow> dispatch list \<Rightarrow> json" where
  "commit_event q rd result_digest selected = JObj [(''request_id'', JStr (fp_request_id q)), (''request_digest'', JStr rd),
     (''result_digest'', JStr result_digest), (''dispatch_ids'', strs (map fd_dispatch_id selected))]"

definition commit_plan :: "plan_request \<Rightarrow> string \<Rightarrow> string \<Rightarrow> dispatch list \<Rightarrow> coord_store \<Rightarrow> coord_store res" where
  "commit_plan q rd now selected s =
     and_then (dispatches_json selected) (\<lambda>result.
     and_then (plan_request_validate q) (\<lambda>_.
     let result_digest = sha256 (canon result) in
     if list_ex (\<lambda>p. pl_request_id p = fp_request_id q) (co_plans s) then Inl integrity_error
     else and_then (append_event ''PLAN_COMMITTED'' None (commit_event q rd result_digest selected) now
       (s\<lparr>co_plans := co_plans s @ [\<lparr>pl_request_id = fp_request_id q, pl_request_digest = rd,
          pl_request = plan_request_json q, pl_result = result, pl_result_digest = result_digest,
          pl_observed_at = now\<rparr>]\<rparr>)) (\<lambda>s1.
       Inr (bump_revision s1))))"

definition plan_body :: "string \<Rightarrow> trusted_clock \<Rightarrow> plan_request \<Rightarrow> string \<Rightarrow> dispatch list tx" where
  "plan_body cid c q rd s = (case find_plan (fp_request_id q) s of
     Some p \<Rightarrow> and_then (checks [
         raise_when (pl_request_digest p \<noteq> rd) FleetCoordinationStateError ''request_id replay substitution denied'',
         raise_when (sha256 (canon (pl_result p)) \<noteq> pl_result_digest p) FleetCoordinationStateError
           ''stored plan result digest mismatch'']) (\<lambda>_.
       and_then (dispatches_from_json (pl_result p)) (\<lambda>ds. Inr (ds, s)))
   | None \<Rightarrow>
       and_then (coord_now c s) (\<lambda>now.
       and_then (head_map q) (\<lambda>heads.
       and_then (select_missions cid rd q now heads (candidates s) [] s) (\<lambda>(selected, s1).
       and_then (commit_plan q rd now selected s1) (\<lambda>s2. Inr (selected, s2))))))"

definition plan :: "string \<Rightarrow> trusted_clock \<Rightarrow> plan_request \<Rightarrow> (coord_store, dispatch list) op" where
  "plan cid c q s = (case and_then (plan_request_validate q) (\<lambda>_.
       and_then (raise_when (fp_coordinator_id q \<noteq> cid) FleetCoordinationStateError ''plan coordinator mismatch'') (\<lambda>_.
       plan_request_digest q)) of
     Inl e \<Rightarrow> (Inl e, s)
   | Inr rd \<Rightarrow> write_tx (plan_body cid c q rd) s)"

section \<open>Requeueing and finishing\<close>

definition require_mission :: "string \<Rightarrow> coord_store \<Rightarrow> mission_row res" where
  "require_mission i s = (case find_mission i s of None \<Rightarrow> Inl (coord_error (''unknown mission: '' @ i)) | Some r \<Rightarrow> Inr r)"

definition require_active :: "mission_row \<Rightarrow> string \<Rightarrow> string \<Rightarrow> unit res" where
  "require_active r did fence =
     raise_when (ms_dispatch_id r \<noteq> Some did \<or> ms_fencing_token r \<noteq> Some fence) FleetCoordinationStateError
       ''stale or foreign dispatch fencing token denied''"

definition owned_by :: "string \<Rightarrow> string \<Rightarrow> lease \<Rightarrow> bool" where
  "owned_by i did l = (fl_mission_id l = i \<and> fl_dispatch_id l = did)"

definition release_leases :: "string \<Rightarrow> string \<Rightarrow> coord_store \<Rightarrow> int \<times> coord_store" where
  "release_leases i did s = (int (count_if (owned_by i did) (co_leases s)),
     s\<lparr>co_leases := filter (\<lambda>l. \<not> owned_by i did l) (co_leases s)\<rparr>)"

definition requeue_body :: "trusted_clock \<Rightarrow> string \<Rightarrow> string \<Rightarrow> string \<Rightarrow> string \<Rightarrow> unit tx" where
  "requeue_body c i did fence evidence s = and_then (require_mission i s) (\<lambda>row.
     if ms_state row = ''WAITING'' then
       (if ms_dispatch_id row = Some did \<and> ms_fencing_token row = Some fence
           \<and> ms_last_requeue_evidence_ref row = Some evidence
        then Inr ((), s) else Inl (coord_error ''requeue replay mismatch''))
     else if ms_state row \<noteq> ''RUNNING'' then Inl (coord_error ''only RUNNING may requeue'')
     else and_then (require_active row did fence) (\<lambda>_.
       and_then (coord_now c s) (\<lambda>now.
       let (released, s1) = release_leases i did s in
       and_then (append_event ''MISSION_REQUEUED'' (Some i) (JObj [(''dispatch_id'', JStr did),
           (''generation'', JInt (ms_generation row)), (''evidence_ref'', JStr evidence),
           (''released_lease_count'', JInt released)]) now
         (update_mission i (\<lambda>r. r\<lparr>ms_state := ''WAITING'', ms_terminal_evidence_ref := None,
           ms_last_requeue_evidence_ref := Some evidence, ms_updated_at := now\<rparr>) s1)) (\<lambda>s2.
       Inr ((), bump_revision s2)))))"

definition requeue :: "trusted_clock \<Rightarrow> string \<Rightarrow> string \<Rightarrow> string \<Rightarrow> string \<Rightarrow> (coord_store, unit) op" where
  "requeue c i did fence evidence s = (case checks [coord_state_text i ''mission_id'',
       coord_state_digest did ''dispatch_id'', coord_state_digest fence ''fencing_token'',
       coord_state_text evidence ''evidence_ref''] of
     Inl e \<Rightarrow> (Inl e, s)
   | Inr _ \<Rightarrow> write_tx (requeue_body c i did fence evidence) s)"

definition terminal_body :: "trusted_clock \<Rightarrow> string \<Rightarrow> string \<Rightarrow> string \<Rightarrow> string \<Rightarrow> string \<Rightarrow> unit tx" where
  "terminal_body c i did fence state evidence s = and_then (require_mission i s) (\<lambda>row.
     if ms_state row \<in> TERMINAL_STATES then
       (if ms_state row = state \<and> ms_dispatch_id row = Some did \<and> ms_fencing_token row = Some fence
           \<and> ms_terminal_evidence_ref row = Some evidence
        then Inr ((), s) else Inl (coord_error ''terminal replay mismatch''))
     else if ms_state row \<noteq> ''RUNNING'' then Inl (coord_error ''only RUNNING may become terminal'')
     else and_then (require_active row did fence) (\<lambda>_.
       and_then (coord_now c s) (\<lambda>now.
       let (released, s1) = release_leases i did s in
       and_then (append_event ''MISSION_TERMINAL'' (Some i) (JObj [(''dispatch_id'', JStr did),
           (''generation'', JInt (ms_generation row)), (''terminal_state'', JStr state),
           (''evidence_ref'', JStr evidence), (''released_lease_count'', JInt released)]) now
         (update_mission i (\<lambda>r. r\<lparr>ms_state := state, ms_terminal_evidence_ref := Some evidence,
           ms_last_requeue_evidence_ref := None, ms_updated_at := now\<rparr>) s1)) (\<lambda>s2.
       Inr ((), bump_revision s2)))))"

definition record_terminal :: "trusted_clock \<Rightarrow> string \<Rightarrow> string \<Rightarrow> string \<Rightarrow> string \<Rightarrow> string \<Rightarrow> (coord_store, unit) op" where
  "record_terminal c i did fence state evidence s = (case checks [coord_state_text i ''mission_id'',
       coord_state_digest did ''dispatch_id'', coord_state_digest fence ''fencing_token'',
       coord_state_text evidence ''evidence_ref'',
       raise_when (state \<notin> TERMINAL_STATES) FleetCoordinationStateError ''terminal_state invalid''] of
     Inl e \<Rightarrow> (Inl e, s)
   | Inr _ \<Rightarrow> write_tx (terminal_body c i did fence state evidence) s)"

section \<open>Reading\<close>

definition mission_view :: "mission_row \<Rightarrow> mission_state res" where
  "mission_view r = (let m = \<lparr>fm_mission_id = ms_id r, fm_drone_id = fs_drone_id (ms_spec r), fm_state = ms_state r,
       fm_generation = ms_generation r, fm_spec_digest = ms_spec_digest r, fm_dispatch_id = ms_dispatch_id r,
       fm_fencing_token = ms_fencing_token r, fm_terminal_evidence_ref = ms_terminal_evidence_ref r,
       fm_updated_at = ms_updated_at r\<rparr> in
     and_then (mission_state_validate m) (\<lambda>_. Inr m))"

definition read_mission_state :: "string \<Rightarrow> coord_store \<Rightarrow> mission_state res" where
  "read_mission_state i s = and_then (require_mission i s) mission_view"

definition active_leases :: "coord_store \<Rightarrow> lease list res" where
  "active_leases s = map_res (\<lambda>l. and_then (lease_validate l) (\<lambda>_. Inr l)) (sort_key lease_key (co_leases s))"

definition coord_read_snapshot :: "coord_store \<Rightarrow> coord_snapshot res" where
  "coord_read_snapshot s = and_then (map_res mission_view (sort_key (\<lambda>r. ms_id r) (co_missions s))) (\<lambda>missions.
     case co_meta s of None \<Rightarrow> Inl none_subscript
     | Some (c, r, h) \<Rightarrow> and_then (active_leases s) (\<lambda>ls.
         let x = \<lparr>fx_coordinator_id = c, fx_revision = r, fx_event_head = h, fx_missions = missions,
           fx_active_leases = ls\<rparr> in
         and_then (coord_snapshot_validate x) (\<lambda>_. Inr x)))"

section \<open>Recovery\<close>

text \<open>\<open>payload[k]\<close>\<close>

definition payload_item :: "string \<Rightarrow> json \<Rightarrow> json res" where
  "payload_item k p = (case p of JObj kvs \<Rightarrow> (case map_of kvs k of Some v \<Rightarrow> Inr v | None \<Rightarrow> Inl (Exn PyKeyError k))
     | _ \<Rightarrow> Inl (Exn PyTypeError ''indices must be integers''))"

record replay_row =
  rp_state :: json
  rp_generation :: json
  rp_dispatch_id :: json
  rp_fencing_token :: json
  rp_terminal_evidence_ref :: json
  rp_last_requeue_evidence_ref :: json

type_synonym replay = "(string option \<times> replay_row) list"

text \<open>\<open>replay[mid].update(...)\<close>\<close>

definition replay_update :: "string option \<Rightarrow> (replay_row \<Rightarrow> replay_row) \<Rightarrow> replay \<Rightarrow> replay res" where
  "replay_update i f m = (case map_of m i of None \<Rightarrow> Inl (Exn PyKeyError (case i of None \<Rightarrow> ''None'' | Some k \<Rightarrow> k))
     | Some x \<Rightarrow> Inr (AList.update i (f x) m))"

definition replay_event :: "event_row \<Rightarrow> replay \<Rightarrow> replay res" where
  "replay_event e m = (let typ = ev_event_type e; i = ev_mission_id e; p = ev_payload e in
     if typ = ''MISSION_REGISTERED'' then Inr (AList.update i \<lparr>rp_state = JStr ''STARTING'', rp_generation = JInt 0,
       rp_dispatch_id = JNull, rp_fencing_token = JNull, rp_terminal_evidence_ref = JNull,
       rp_last_requeue_evidence_ref = JNull\<rparr> m)
     else if typ = ''MISSION_DISPATCHED'' then
       and_then (payload_item ''generation'' p) (\<lambda>g. and_then (payload_item ''dispatch_id'' p) (\<lambda>d.
       and_then (payload_item ''fencing_token'' p) (\<lambda>f.
       replay_update i (\<lambda>x. x\<lparr>rp_state := JStr ''RUNNING'', rp_generation := g, rp_dispatch_id := d,
         rp_fencing_token := f, rp_terminal_evidence_ref := JNull, rp_last_requeue_evidence_ref := JNull\<rparr>) m)))
     else if typ = ''MISSION_REQUEUED'' then
       and_then (payload_item ''evidence_ref'' p) (\<lambda>r.
       replay_update i (\<lambda>x. x\<lparr>rp_state := JStr ''WAITING'', rp_last_requeue_evidence_ref := r,
         rp_terminal_evidence_ref := JNull\<rparr>) m)
     else if typ = ''MISSION_TERMINAL'' then
       and_then (payload_item ''terminal_state'' p) (\<lambda>t. and_then (payload_item ''evidence_ref'' p) (\<lambda>r.
       replay_update i (\<lambda>x. x\<lparr>rp_state := t, rp_terminal_evidence_ref := r,
         rp_last_requeue_evidence_ref := JNull\<rparr>) m))
     else Inr m)"

fun replay_events :: "event_row list \<Rightarrow> replay \<Rightarrow> replay res" where
  "replay_events [] m = Inr m"
| "replay_events (e # es) m = and_then (replay_event e m) (replay_events es)"

text \<open>A JSON boolean equals the integer 0 or 1 in Python.\<close>

definition py_number :: "json \<Rightarrow> json" where
  "py_number j = (case j of JBool b \<Rightarrow> JInt (if b then 1 else 0) | _ \<Rightarrow> j)"

definition compare_row :: "replay \<Rightarrow> mission_row \<Rightarrow> unit res" where
  "compare_row m r = (case map_of m (Some (ms_id r)) of None \<Rightarrow> Inl (Exn PyKeyError (ms_id r)) | Some x \<Rightarrow> checks [
     raise_when (JStr (ms_state r) \<noteq> rp_state x) FleetCoordinationStateError ''materialized mission state mismatch: state'',
     raise_when (JInt (ms_generation r) \<noteq> py_number (rp_generation x)) FleetCoordinationStateError
       ''materialized mission state mismatch: generation'',
     raise_when (opt_str (ms_dispatch_id r) \<noteq> rp_dispatch_id x) FleetCoordinationStateError
       ''materialized mission state mismatch: dispatch_id'',
     raise_when (opt_str (ms_fencing_token r) \<noteq> rp_fencing_token x) FleetCoordinationStateError
       ''materialized mission state mismatch: fencing_token'',
     raise_when (opt_str (ms_terminal_evidence_ref r) \<noteq> rp_terminal_evidence_ref x) FleetCoordinationStateError
       ''materialized mission state mismatch: terminal_evidence_ref'',
     raise_when (opt_str (ms_last_requeue_evidence_ref r) \<noteq> rp_last_requeue_evidence_ref x) FleetCoordinationStateError
       ''materialized mission state mismatch: last_requeue_evidence_ref''])"

definition verify_materialized :: "coord_store \<Rightarrow> unit res" where
  "verify_materialized s = and_then (replay_events (co_events s) []) (\<lambda>m.
     and_then (raise_when (fst ` set m \<noteq> Some ` (\<lambda>r. ms_id r) ` set (co_missions s)) FleetCoordinationStateError
       ''event/materialized mission population mismatch'') (\<lambda>_.
     checks (map (compare_row m) (co_missions s))))"

definition verify_spec :: "coord_store \<Rightarrow> mission_row \<Rightarrow> unit res" where
  "verify_spec s r = and_then (or_raise (coord_error ''mission spec reconstruction failed'') (spec_validate (ms_spec r))) (\<lambda>_.
     and_then (spec_digest (ms_spec r)) (\<lambda>dg.
     checks [
       raise_when (dg \<noteq> ms_spec_digest r) FleetCoordinationStateError ''mission spec digest mismatch'',
       raise_when (snd ` {e \<in> set (co_deps s). fst e = ms_id r} \<noteq> set (fs_dependencies (ms_spec r)))
         FleetCoordinationStateError ''dependency materialization mismatch'']))"

definition verify_dispatch :: "coord_store \<Rightarrow> plan_request \<Rightarrow> dispatch \<Rightarrow> unit res" where
  "verify_dispatch s q d = (case find_mission (fd_mission_id d) s of
     None \<Rightarrow> Inl (coord_error ''dispatch references unknown mission'')
   | Some r \<Rightarrow> or_raise (coord_error ''dispatch-to-spec binding mismatch'') (dispatch_validate_for d (ms_spec r) q))"

definition verify_plan :: "string \<Rightarrow> coord_store \<Rightarrow> plan_row \<Rightarrow> dispatch list res" where
  "verify_plan cid s p = and_then (request_from_json (pl_request p)) (\<lambda>q.
     and_then (plan_request_digest q) (\<lambda>rd.
     and_then (checks [
       raise_when (fp_request_id q \<noteq> pl_request_id p \<or> fp_coordinator_id q \<noteq> cid \<or> rd \<noteq> pl_request_digest p)
         FleetCoordinationStateError ''plan request digest/materialization mismatch'',
       raise_when (sha256 (canon (pl_result p)) \<noteq> pl_result_digest p) FleetCoordinationStateError
         ''stored plan result digest mismatch'']) (\<lambda>_.
     and_then (dispatches_from_json (pl_result p)) (\<lambda>ds.
     and_then (checks (map (verify_dispatch s q) ds)) (\<lambda>_. Inr ds)))))"

text \<open>\<open>all_dispatches\<close>: a later dispatch with the same id replaces an earlier one.\<close>

definition last_dispatch :: "dispatch list \<Rightarrow> string option \<Rightarrow> dispatch option" where
  "last_dispatch ds i = find (\<lambda>d. Some (fd_dispatch_id d) = i) (rev ds)"

definition verify_binding :: "coord_store \<Rightarrow> dispatch list \<Rightarrow> mission_row \<Rightarrow> unit res" where
  "verify_binding s ds r = (let ls = filter (\<lambda>l. fl_mission_id l = ms_id r) (co_leases s); x = ms_spec r in
     checks [
       raise_when (0 < ms_generation r \<and> (case last_dispatch ds (ms_dispatch_id r) of None \<Rightarrow> True
           | Some d \<Rightarrow> Some (fd_fencing_token d) \<noteq> ms_fencing_token r \<or> fd_generation d \<noteq> ms_generation r))
         FleetCoordinationStateError ''materialized dispatch binding mismatch'',
       (if ms_state r = ''RUNNING'' then checks [
          raise_when (insert (''BRANCH'', fs_branch x) (Pair ''PATH'' ` set (fs_write_scope x))
              \<noteq> (\<lambda>l. (fl_lease_kind l, fl_resource l)) ` set ls)
            FleetCoordinationStateError ''RUNNING mission lease set mismatch'',
          raise_when (list_ex (\<lambda>l. Some (fl_dispatch_id l) \<noteq> ms_dispatch_id r \<or> fl_generation l \<noteq> ms_generation r
              \<or> fl_drone_id l \<noteq> fs_drone_id x \<or> fl_repository l \<noteq> fs_repository x) ls)
            FleetCoordinationStateError ''active lease binding mismatch'']
        else raise_when (ls \<noteq> []) FleetCoordinationStateError ''non-RUNNING mission owns active leases'')])"

definition verify_consistency :: "string \<Rightarrow> coord_store \<Rightarrow> unit res" where
  "verify_consistency cid s = and_then (checks (map (verify_spec s) (co_missions s))) (\<lambda>_.
     and_then (map_res (verify_plan cid s) (co_plans s)) (\<lambda>dss.
     and_then (verify_materialized s) (\<lambda>_.
     checks (map (verify_binding s (concat dss)) (co_missions s)))))"

definition coord_init :: "string \<Rightarrow> (coord_store, unit) op" where
  "coord_init cid s = (case coord_state_text cid ''coordinator_id'' of
     Inl e \<Rightarrow> (Inl e, s)
   | Inr _ \<Rightarrow> (case coord_bind cid s of
       (Inl e, s') \<Rightarrow> (Inl e, s')
     | (Inr _, s') \<Rightarrow> (and_then (verify_event_chain s') (\<lambda>_. verify_consistency cid s'), s')))"

end
