(* ===== verification/Fleet_Coordination_Log.thy ===== *)
theory Fleet_Coordination_Log
  imports Fleet_Coordination
begin

text \<open>
  The event log of the coordination store: what a committed event does, the hash chain, and the replay of the
  log as an abstraction of the mission table.
\<close>

section \<open>Committed events\<close>

definition event_of :: "string \<Rightarrow> string \<Rightarrow> string option \<Rightarrow> json \<Rightarrow> string \<Rightarrow> event_row" where
  "event_of prev typ i payload now = \<lparr>ev_event_id = event_digest prev typ i payload now, ev_event_type = typ,
     ev_mission_id = i, ev_payload = payload, ev_previous_digest = prev,
     ev_event_digest = event_digest prev typ i payload now, ev_observed_at = now\<rparr>"

lemma append_event_ok:
  "append_event typ i payload now s = Inr s' \<Longrightarrow> \<exists>c r prev. co_meta s = Some (c, r, prev)
     \<and> s' = s\<lparr>co_events := co_events s @ [event_of prev typ i payload now],
         co_meta := Some (c, r, event_digest prev typ i payload now)\<rparr>"
  by (auto simp: append_event_def event_of_def Let_def split: option.splits if_splits)

definition stamped :: "coord_store \<Rightarrow> bool" where
  "stamped s \<longleftrightarrow> (\<forall>e\<in>set (co_events s). \<exists>t. valid_utc t \<and> ev_observed_at e = utc_text t)"

definition clock_valid :: "trusted_clock \<Rightarrow> bool" where
  "clock_valid c = (case c of None \<Rightarrow> True | Some t \<Rightarrow> valid_utc t)"

lemma parse_stamp [simp]: "valid_utc t \<Longrightarrow> coord_parse_time (utc_text t) = Inr (instant t)"
  by (simp add: coord_parse_time_def)

text \<open>A clock reading that is accepted is at or after the last event.\<close>

definition not_before :: "coord_store \<Rightarrow> string \<Rightarrow> bool" where
  "not_before s now \<longleftrightarrow> (\<exists>t. valid_utc t \<and> now = utc_text t \<and> (co_events s \<noteq> [] \<longrightarrow>
     (\<forall>b. coord_parse_time (ev_observed_at (last (co_events s))) = Inr b \<longrightarrow> b \<le> instant t)))"

lemma coord_now_ok: "coord_now c s = Inr now \<Longrightarrow> clock_valid c \<Longrightarrow> not_before s now"
  by (auto simp: coord_now_def coord_utc_def not_before_def clock_valid_def and_then_ok split: option.splits if_splits)

section \<open>The hash chain\<close>

definition last_time :: "int option \<Rightarrow> event_row list \<Rightarrow> int option" where
  "last_time lt es = (if es = [] then lt
     else case coord_parse_time (ev_observed_at (last es)) of Inr t \<Rightarrow> Some t | Inl _ \<Rightarrow> None)"

lemma and_then_assoc: "and_then (and_then m f) g = and_then m (\<lambda>x. and_then (f x) g)"
  by (cases m) auto

lemma and_then_cong: "m = m' \<Longrightarrow> (\<And>x. m' = Inr x \<Longrightarrow> f x = g x) \<Longrightarrow> and_then m f = and_then m' g"
  by (cases m') auto

lemma chain_from_Cons:
  "chain_from p lt (e # es) = and_then (chain_from p lt [e]) (\<lambda>h. chain_from h (last_time lt [e]) es)"
  by (auto simp: and_then_assoc last_time_def Let_def intro!: and_then_cong)

lemma chain_from_snoc:
  "chain_from p lt (es @ [e]) = and_then (chain_from p lt es) (\<lambda>h. chain_from h (last_time lt es) [e])"
proof (induction es arbitrary: p lt)
  case (Cons a es)
  have time: "last_time (last_time lt [a]) es = last_time lt (a # es)" by (simp add: last_time_def)
  have "chain_from p lt (a # es @ [e]) = and_then (chain_from p lt [a]) (\<lambda>h. chain_from h (last_time lt [a]) (es @ [e]))"
    by (rule chain_from_Cons)
  also have "\<dots> = and_then (and_then (chain_from p lt [a]) (\<lambda>h. chain_from h (last_time lt [a]) es))
      (\<lambda>h. chain_from h (last_time lt (a # es)) [e])"
    by (simp only: Cons time and_then_assoc)
  also have "\<dots> = and_then (chain_from p lt (a # es)) (\<lambda>h. chain_from h (last_time lt (a # es)) [e])"
    by (simp only: chain_from_Cons [symmetric])
  finally show ?case by simp
qed (simp add: last_time_def and_then_def split: sum.splits)

definition chain_ok :: "coord_store \<Rightarrow> bool" where
  "chain_ok s \<longleftrightarrow> stamped s \<and> (case co_meta s of None \<Rightarrow> co_events s = []
     | Some (c, r, h) \<Rightarrow> chain_from ZERO None (co_events s) = Inr h \<and> 0 \<le> r \<and> is_hex 64 h)"

lemma chain_ok_append:
  assumes "chain_ok s" "co_meta s = Some (c, r, prev)" "not_before s now"
    "co_events s' = co_events s @ [event_of prev typ i (JObj kvs) now]"
    "co_meta s' = Some (c, r', event_digest prev typ i (JObj kvs) now)" "0 \<le> r'"
  shows "chain_ok s'"
proof -
  obtain t where t: "valid_utc t" "now = utc_text t"
    and le: "co_events s \<noteq> [] \<Longrightarrow> coord_parse_time (ev_observed_at (last (co_events s))) = Inr b \<Longrightarrow> b \<le> instant t" for b
    using assms(3) by (auto simp: not_before_def)
  have order: "\<not> (case last_time None (co_events s) of None \<Rightarrow> False | Some t0 \<Rightarrow> instant t < t0)"
    using le by (auto simp: last_time_def not_less split: sum.splits)
  have "chain_from ZERO None (co_events s) = Inr prev" using assms(1,2) by (simp add: chain_ok_def)
  then have "chain_from ZERO None (co_events s') = Inr (event_digest prev typ i (JObj kvs) now)"
    using t order by (simp add: assms(4) chain_from_snoc event_of_def)
  then show ?thesis
    using assms t unfolding chain_ok_def stamped_def by (auto simp: event_of_def event_digest_def)
qed

lemma chain_ok_verifies: "chain_ok s \<Longrightarrow> co_meta s = Some (c, r, h) \<Longrightarrow> verify_event_chain s = Inr h"
  by (simp add: chain_ok_def verify_event_chain_def)

section \<open>Mission rows\<close>

lemma find_map:
  "(\<And>x. x \<in> set xs \<Longrightarrow> P (f x) = P x) \<Longrightarrow> find P (map f xs) = map_option f (find P xs)"
  by (induction xs) auto

lemma find_mission_update:
  assumes "\<And>r. ms_id (f r) = ms_id r"
  shows "find_mission j (update_mission i f s) = (if j = i then map_option f (find_mission j s) else find_mission j s)"
proof (cases "j = i")
  case True
  have "find (\<lambda>r. ms_id r = i) (map (\<lambda>r. if ms_id r = i then f r else r) xs) = map_option f (find (\<lambda>r. ms_id r = i) xs)"
    for xs :: "mission_row list"
    by (induction xs) (auto simp: assms)
  with True show ?thesis by (simp add: find_mission_def update_mission_def)
next
  case False
  have "find (\<lambda>r. ms_id r = j) (map (\<lambda>r. if ms_id r = i then f r else r) xs) = find (\<lambda>r. ms_id r = j) xs"
    for xs :: "mission_row list"
    using False by (induction xs) (auto simp: assms)
  with False show ?thesis by (simp add: find_mission_def update_mission_def)
qed

lemma find_mission_SomeD: "find_mission i s = Some r \<Longrightarrow> r \<in> set (co_missions s) \<and> ms_id r = i"
  by (auto simp: find_mission_def find_Some_iff)

lemma find_mission_mem:
  assumes "distinct (map (\<lambda>r. ms_id r) (co_missions s))" "r \<in> set (co_missions s)"
  shows "find_mission (ms_id r) s = Some r"
proof -
  have "find (\<lambda>x. ms_id x = ms_id r) xs = Some r" if "distinct (map (\<lambda>r. ms_id r) xs)" "r \<in> set xs" for xs
    using that by (induction xs) (auto simp: rev_image_eqI)
  with assms show ?thesis by (simp add: find_mission_def)
qed

lemma find_mission_None: "find_mission i s = None \<longleftrightarrow> (\<forall>r\<in>set (co_missions s). ms_id r \<noteq> i)"
  by (auto simp: find_mission_def find_None_iff)

section \<open>Replay refines the mission table\<close>

text \<open>What the log says about a mission, read off its row.\<close>

definition replay_of :: "mission_row \<Rightarrow> replay_row" where
  "replay_of r = \<lparr>rp_state = JStr (ms_state r), rp_generation = JInt (ms_generation r),
     rp_dispatch_id = opt_str (ms_dispatch_id r), rp_fencing_token = opt_str (ms_fencing_token r),
     rp_terminal_evidence_ref = opt_str (ms_terminal_evidence_ref r),
     rp_last_requeue_evidence_ref = opt_str (ms_last_requeue_evidence_ref r)\<rparr>"

definition coord_abs :: "coord_store \<Rightarrow> string option \<Rightarrow> replay_row option" where
  "coord_abs s k = (case k of None \<Rightarrow> None | Some i \<Rightarrow> map_option replay_of (find_mission i s))"

definition replay_ok :: "coord_store \<Rightarrow> bool" where
  "replay_ok s \<longleftrightarrow> (\<exists>m. replay_events (co_events s) [] = Inr m \<and> map_of m = coord_abs s)"

lemma replay_events_snoc: "replay_events (es @ [e]) m = and_then (replay_events es m) (replay_event e)"
  by (induction es arbitrary: m) (auto simp: and_then_def split: sum.splits)

lemma replay_ok_append:
  assumes "replay_ok s" "co_events s' = co_events s @ [e]"
    "\<And>m. map_of m = coord_abs s \<Longrightarrow> \<exists>m'. replay_event e m = Inr m' \<and> map_of m' = coord_abs s'"
  shows "replay_ok s'"
  using assms unfolding replay_ok_def by (auto simp: replay_events_snoc)

lemma replay_update_ok:
  assumes "map_of m i = Some x"
  shows "replay_update i f m = Inr (AList.update i (f x) m)"
  using assms by (simp add: replay_update_def)

lemma coord_abs_update:
  assumes "find_mission i s = Some r" "\<And>x. ms_id (f x) = ms_id x"
  shows "coord_abs (update_mission i f s) = (coord_abs s)(Some i \<mapsto> replay_of (f r))"
  using assms by (auto simp: coord_abs_def fun_eq_iff find_mission_update split: option.splits)

lemma verify_materialized_ok:
  assumes "replay_ok s" "distinct (map (\<lambda>r. ms_id r) (co_missions s))"
  shows "verify_materialized s = Inr ()"
proof -
  obtain m where m: "replay_events (co_events s) [] = Inr m" "map_of m = coord_abs s"
    using assms(1) by (auto simp: replay_ok_def)
  have "fst ` set m = dom (coord_abs s)" by (simp add: m(2) [symmetric] dom_map_of_conv_image_fst)
  also have "\<dots> = Some ` (\<lambda>r. ms_id r) ` set (co_missions s)"
  proof (rule set_eqI)
    fix k
    show "k \<in> dom (coord_abs s) \<longleftrightarrow> k \<in> Some ` (\<lambda>r. ms_id r) ` set (co_missions s)"
      using find_mission_None [of "the k" s] by (cases k) (auto simp: coord_abs_def dom_def)
  qed
  finally have keys: "fst ` set m = Some ` (\<lambda>r. ms_id r) ` set (co_missions s)" .
  have "compare_row m r = Inr ()" if "r \<in> set (co_missions s)" for r
    using find_mission_mem [OF assms(2) that]
    by (simp add: compare_row_def m(2) coord_abs_def replay_of_def py_number_def)
  with m keys show ?thesis by (simp add: verify_materialized_def checks_map_ok)
qed

end
