(* ===== verification/Fleet_Coordination_Inv.thy ===== *)
theory Fleet_Coordination_Inv
  imports Fleet_Coordination_Log
begin

text \<open>
  The invariant of the coordination store and its preservation by every transaction. The invariant is a
  conjunction of parts, one per table, each with a lemma per kind of update: registering a mission, dispatching
  one, committing a plan, and taking a running mission back (requeue, terminal state).
\<close>

section \<open>Rows and leases\<close>

definition row_ok :: "mission_row \<Rightarrow> bool" where
  "row_ok r \<longleftrightarrow> ms_state r \<in> MISSION_STATES
     \<and> (if ms_state r = ''STARTING'' then ms_generation r = 0 \<and> ms_dispatch_id r = None \<and> ms_fencing_token r = None
        else 0 < ms_generation r \<and> (\<exists>d f. ms_dispatch_id r = Some d \<and> ms_fencing_token r = Some f \<and> is_hex 64 d \<and> is_hex 64 f))
     \<and> (ms_state r \<in> TERMINAL_STATES \<longleftrightarrow> ms_terminal_evidence_ref r \<noteq> None)
     \<and> (\<exists>t. valid_utc t \<and> ms_updated_at r = utc_text t)"

definition lease_for :: "mission_row \<Rightarrow> string \<Rightarrow> string \<Rightarrow> lease" where
  "lease_for r kind resource = \<lparr>fl_mission_id = ms_id r, fl_drone_id = fs_drone_id (ms_spec r),
     fl_dispatch_id = the (ms_dispatch_id r), fl_generation = ms_generation r, fl_repository = fs_repository (ms_spec r),
     fl_lease_kind = kind, fl_resource = resource, fl_acquired_at = ms_updated_at r\<rparr>"

definition row_leases :: "mission_row \<Rightarrow> lease list" where
  "row_leases r = lease_for r ''BRANCH'' (fs_branch (ms_spec r)) # map (lease_for r ''PATH'') (fs_write_scope (ms_spec r))"

definition leases_ok :: "mission_row list \<Rightarrow> lease list \<Rightarrow> bool" where
  "leases_ok ms ls \<longleftrightarrow> set ls = (\<Union>r\<in>{r \<in> set ms. ms_state r = ''RUNNING''}. set (row_leases r))"

definition conflict :: "lease \<Rightarrow> lease \<Rightarrow> bool" where
  "conflict l l' \<longleftrightarrow> fl_repository l = fl_repository l'
     \<and> (fl_lease_kind l = ''BRANCH'' \<and> fl_lease_kind l' = ''BRANCH'' \<and> fl_resource l = fl_resource l'
       \<or> fl_lease_kind l = ''PATH'' \<and> fl_lease_kind l' = ''PATH'' \<and> path_overlap (fl_resource l) (fl_resource l'))"

definition exclusive :: "lease list \<Rightarrow> bool" where
  "exclusive ls \<longleftrightarrow> (\<forall>l\<in>set ls. \<forall>l'\<in>set ls. fl_mission_id l \<noteq> fl_mission_id l' \<longrightarrow> \<not> conflict l l')"

lemma path_overlap_sym: "path_overlap a b = path_overlap b a"
  by (auto simp: path_overlap_def Let_def min.commute)

lemma conflict_sym: "conflict l l' = conflict l' l"
  by (auto simp: conflict_def path_overlap_sym)

lemma row_lease_fields:
  "l \<in> set (row_leases r) \<Longrightarrow> fl_mission_id l = ms_id r \<and> fl_dispatch_id l = the (ms_dispatch_id r)"
  by (auto simp: row_leases_def lease_for_def)

lemma dispatch_row_leases:
  assumes "d = new_dispatch cid rd q now row"
  shows "dispatch_leases d = row_leases (run_row d now row)"
  by (simp add: assms dispatch_leases_def row_leases_def run_row_def new_dispatch_def lease_of_def lease_for_def Let_def
      comp_def)

lemma row_ok_new: "valid_utc t \<Longrightarrow> row_ok (new_mission x dg (utc_text t))"
  by (auto simp: row_ok_def new_mission_def MISSION_STATES_def TERMINAL_STATES_def)

lemma row_ok_run:
  "row_ok r \<Longrightarrow> valid_utc t \<Longrightarrow> d = new_dispatch cid rd q (utc_text t) r \<Longrightarrow> row_ok (run_row d (utc_text t) r)"
  by (auto simp: row_ok_def run_row_def new_dispatch_def Let_def MISSION_STATES_def TERMINAL_STATES_def split: if_splits)

text \<open>What \<open>requeue\<close> and \<open>record_terminal\<close> write into the row of a running mission.\<close>

definition back_row :: "string \<Rightarrow> string option \<Rightarrow> string option \<Rightarrow> string \<Rightarrow> mission_row \<Rightarrow> mission_row" where
  "back_row st te rq now r = r\<lparr>ms_state := st, ms_terminal_evidence_ref := te, ms_last_requeue_evidence_ref := rq,
     ms_updated_at := now\<rparr>"

lemma row_ok_back:
  "row_ok r \<Longrightarrow> ms_state r = ''RUNNING'' \<Longrightarrow> valid_utc t \<Longrightarrow> st = ''WAITING'' \<and> te = None \<or> st \<in> TERMINAL_STATES \<and> te \<noteq> None
    \<Longrightarrow> row_ok (back_row st te rq (utc_text t) r)"
  by (auto simp: row_ok_def back_row_def MISSION_STATES_def TERMINAL_STATES_def)

section \<open>Updating one row\<close>

abbreviation set_row :: "string \<Rightarrow> (mission_row \<Rightarrow> mission_row) \<Rightarrow> mission_row list \<Rightarrow> mission_row list" where
  "set_row i f ms \<equiv> map (\<lambda>r. if ms_id r = i then f r else r) ms"

lemma row_unique: "distinct (map (\<lambda>r. ms_id r) ms) \<Longrightarrow> x \<in> set ms \<Longrightarrow> y \<in> set ms \<Longrightarrow> ms_id x = ms_id y \<Longrightarrow> x = y"
  by (metis distinct_map inj_onD)

lemma set_row_mem:
  assumes "distinct (map (\<lambda>r. ms_id r) ms)" "row \<in> set ms" "\<And>r. ms_id (f r) = ms_id r"
  shows "r \<in> set (set_row (ms_id row) f ms) \<longleftrightarrow> r = f row \<or> r \<in> set ms \<and> ms_id r \<noteq> ms_id row"
proof -
  have "x = row" if "x \<in> set ms" "ms_id x = ms_id row" for x
    using row_unique [OF assms(1) that(1) assms(2) that(2)] .
  with assms(2,3) show ?thesis by (auto simp: image_iff)
qed

lemma set_row_ids: "(\<And>r. ms_id (f r) = ms_id r) \<Longrightarrow> map (\<lambda>r. ms_id r) (set_row i f ms) = map (\<lambda>r. ms_id r) ms"
  by simp

lemma leases_ok_run:
  assumes "leases_ok ms ls" "distinct (map (\<lambda>r. ms_id r) ms)" "row \<in> set ms" "ms_state row \<noteq> ''RUNNING''"
    "d = new_dispatch cid rd q now row"
  shows "leases_ok (set_row (ms_id row) (run_row d now) ms) (ls @ dispatch_leases d)"
proof -
  have f: "ms_id (run_row d now r) = ms_id r" for r by (simp add: run_row_def)
  have "{r \<in> set (set_row (ms_id row) (run_row d now) ms). ms_state r = ''RUNNING''}
      = insert (run_row d now row) {r \<in> set ms. ms_state r = ''RUNNING''}"
  proof (rule set_eqI)
    fix r
    have "ms_state (run_row d now row) = ''RUNNING''" by (simp add: run_row_def)
    with set_row_mem [OF assms(2,3), of "run_row d now" r, OF f] row_unique [OF assms(2) _ assms(3), of r] assms(4)
    show "r \<in> {r \<in> set (set_row (ms_id row) (run_row d now) ms). ms_state r = ''RUNNING''}
        \<longleftrightarrow> r \<in> insert (run_row d now row) {r \<in> set ms. ms_state r = ''RUNNING''}" by blast
  qed
  then show ?thesis
    using assms(1) dispatch_row_leases [OF assms(5)] unfolding leases_ok_def by auto
qed

lemma leases_ok_back:
  assumes "leases_ok ms ls" "distinct (map (\<lambda>r. ms_id r) ms)" "row \<in> set ms" "ms_state row = ''RUNNING''"
    "ms_dispatch_id row = Some did" "st \<noteq> ''RUNNING''"
  shows "leases_ok (set_row (ms_id row) (back_row st te rq now) ms) (filter (\<lambda>l. \<not> owned_by (ms_id row) did l) ls)"
proof -
  have f: "ms_id (back_row st te rq now r) = ms_id r" for r by (simp add: back_row_def)
  have rows: "{r \<in> set (set_row (ms_id row) (back_row st te rq now) ms). ms_state r = ''RUNNING''}
      = {r \<in> set ms. ms_state r = ''RUNNING'' \<and> ms_id r \<noteq> ms_id row}"
    using assms(6) set_row_mem [OF assms(2,3), of "back_row st te rq now", OF f] by (auto simp: back_row_def)
  have "owned_by (ms_id row) did l \<longleftrightarrow> ms_id r = ms_id row" if "l \<in> set (row_leases r)" "r \<in> set ms" for r l
    using row_lease_fields [OF that(1)] row_unique [OF assms(2) that(2) assms(3)] assms(5) by (auto simp: owned_by_def)
  then show ?thesis using assms(1) unfolding leases_ok_def rows by auto
qed

lemma exclusive_claim:
  assumes "exclusive ls" "d = new_dispatch cid rd q now row"
    "leases_available (s\<lparr>co_leases := ls\<rparr>) (fs_repository (ms_spec row)) (fs_branch (ms_spec row)) (fs_write_scope (ms_spec row))"
  shows "exclusive (ls @ dispatch_leases d)"
proof -
  have "\<not> conflict l l'" if "l \<in> set (dispatch_leases d)" "l' \<in> set ls" for l l'
    using assms(3) that unfolding leases_available_def conflict_def
    by (auto simp: list_ex_iff dispatch_leases_def lease_of_def assms(2) new_dispatch_def Let_def)
  moreover have "fl_mission_id l = fd_mission_id d" if "l \<in> set (dispatch_leases d)" for l
    using that by (auto simp: dispatch_leases_def lease_of_def)
  ultimately show ?thesis
    using assms(1) conflict_sym unfolding exclusive_def by (metis Un_iff set_append)
qed

lemma exclusive_subset: "exclusive ls \<Longrightarrow> set ls' \<subseteq> set ls \<Longrightarrow> exclusive ls'"
  by (auto simp: exclusive_def)

section \<open>The dependency graph\<close>

lemma deps_of_Nil: "deps_of [] n = []"
  by (simp add: deps_of_def)

lemma deps_of_Cons: "deps_of ((k, ds) # g) n = (if n = k then ds else deps_of g n)"
  by (simp add: deps_of_def)

lemma nodes_Cons: "nodes ((k, ds) # g) = insert k (nodes g)"
  by (simp add: nodes_def)

lemma nodes_add_dep: "nodes (add_dep e g) = insert (fst e) (nodes g)"
  by (induction e g rule: add_dep.induct) (auto simp: nodes_def)

lemma deps_add_same: "set (deps_of (add_dep (n, d) g) n) = insert d (set (deps_of g n))"
  by (induction g) (auto simp: deps_of_Cons deps_of_Nil split: if_splits)

lemma deps_add_other: "k \<noteq> n \<Longrightarrow> deps_of (add_dep (n, d) g) k = deps_of g k"
  by (induction g) (auto simp: deps_of_Cons deps_of_Nil)

lemma deps_add_dep: "set (deps_of (add_dep e g) k) = set (deps_of g k) \<union> (if k = fst e then {snd e} else {})"
  by (cases e; cases "k = fst e") (auto simp: deps_add_same deps_add_other)

lemma nodes_fold_add: "nodes (fold add_dep es g) = nodes g \<union> fst ` set es"
  by (induction es arbitrary: g) (auto simp: nodes_add_dep)

lemma deps_fold_add: "set (deps_of (fold add_dep es g) k) = set (deps_of g k) \<union> {d. (k, d) \<in> set es}"
  by (induction es arbitrary: g) (auto simp: deps_add_dep)

lemma graph_nodes: "nodes (dependency_graph s) = (\<lambda>r. ms_id r) ` set (co_missions s) \<union> fst ` set (co_deps s)"
  by (auto simp: dependency_graph_def nodes_fold_add) (auto simp: nodes_def image_iff)

lemma graph_deps: "set (deps_of (dependency_graph s) k) = {d. (k, d) \<in> set (co_deps s)}"
proof -
  have "deps_of (map (\<lambda>r. (ms_id r, [])) ms) k = []" for ms
    by (induction ms) (auto simp: deps_of_def)
  then show ?thesis by (simp add: dependency_graph_def deps_fold_add)
qed

lemma update_nodes: "nodes (AList.update i ds g) = insert i (nodes g)"
  by (simp add: nodes_def AList.dom_update)

lemma update_deps: "deps_of (AList.update i ds g) k = (if k = i then ds else deps_of g k)"
  by (simp add: deps_of_def AList.update_conv')

definition deps_ok :: "mission_row list \<Rightarrow> (string \<times> string) list \<Rightarrow> bool" where
  "deps_ok ms es \<longleftrightarrow> (\<forall>r\<in>set ms. {d. (ms_id r, d) \<in> set es} = set (fs_dependencies (ms_spec r)))
     \<and> fst ` set es \<subseteq> (\<lambda>r. ms_id r) ` set ms"

definition acyclic_deps :: "coord_store \<Rightarrow> bool" where
  "acyclic_deps s \<longleftrightarrow> acyclic (edges (dependency_graph s))"

lemma acyclic_deps_cong:
  "co_deps s' = co_deps s \<Longrightarrow> (\<lambda>r. ms_id r) ` set (co_missions s') = (\<lambda>r. ms_id r) ` set (co_missions s)
    \<Longrightarrow> acyclic_deps s' = acyclic_deps s"
  by (simp add: acyclic_deps_def edges_def graph_nodes graph_deps)

lemma deps_ok_register:
  assumes "deps_ok ms es" "i \<notin> (\<lambda>r. ms_id r) ` set ms" "ms_id r = i" "ds = fs_dependencies (ms_spec r)"
  shows "deps_ok (ms @ [r]) (es @ map (Pair i) ds)"
  using assms unfolding deps_ok_def by (auto simp: image_iff)

lemma acyclic_register:
  assumes "has_cycle depth (AList.update i ds (dependency_graph s)) = Inr False"
    "deps_ok (co_missions s) (co_deps s)" "i \<notin> (\<lambda>r. ms_id r) ` set (co_missions s)" "ms_id r = i"
    "co_missions s' = co_missions s @ [r]" "co_deps s' = co_deps s @ map (Pair i) ds"
  shows "acyclic_deps s'"
proof -
  let ?g = "AList.update i ds (dependency_graph s)"
  have "(i, d) \<notin> set (co_deps s)" for d using assms(2,3) by (force simp: deps_ok_def)
  then have "set (deps_of (dependency_graph s') k) = set (deps_of ?g k)" for k
    by (auto simp: graph_deps update_deps assms(6))
  moreover have "nodes (dependency_graph s') = nodes ?g"
    by (auto simp: graph_nodes update_nodes assms(4-6))
  ultimately have "edges (dependency_graph s') = edges ?g" by (simp add: edges_def)
  moreover have "\<not> (\<exists>c. (c, c) \<in> (edges ?g)\<^sup>+)" using has_cycle_sound [OF assms(1)] by blast
  ultimately show ?thesis by (simp add: acyclic_deps_def acyclic_def)
qed

section \<open>Stored plans\<close>

lemma map_res_map: "(\<And>x. x \<in> set xs \<Longrightarrow> f (g x) = Inr x) \<Longrightarrow> map_res f (map g xs) = Inr xs"
  by (induction xs) auto

lemma json_strs_strs [simp]: "json_strs e (Some (strs xs)) = Inr xs"
  by (simp add: json_strs_def json_items_def json_tuple_def map_res_map json_str_def)

lemma request_roundtrip: "plan_request_validate q = Inr () \<Longrightarrow> request_from_json (plan_request_json q) = Inr q"
proof -
  assume v: "plan_request_validate q = Inr ()"
  have "json_pair e (JList [JStr a, JStr b]) = Inr (a, b)" for e a b
    using json_strs_strs [of e "[a, b]"] by (simp add: json_pair_def)
  then have "map_res (json_pair e) (map (\<lambda>(repo, head). JList [JStr repo, JStr head]) hs) = Inr hs" for e hs
    by (intro map_res_map) auto
  with v show ?thesis
    by (cases q) (simp add: request_from_json_def plan_request_json_def json_str_def json_int_def json_items_def json_tuple_def
        or_raise_def Let_def)
qed

lemma dispatch_roundtrip: "dispatch_validate d = Inr () \<Longrightarrow> dispatch_from_json (dispatch_json d) = Inr d"
  by (cases d) (simp add: dispatch_from_json_def dispatch_json_def json_str_def json_int_def or_raise_def Let_def)

lemma dispatches_roundtrip:
  "(\<And>d. d \<in> set ds \<Longrightarrow> dispatch_validate d = Inr ()) \<Longrightarrow> dispatches_from_json (JList (map dispatch_json ds)) = Inr ds"
  by (simp add: dispatches_from_json_def map_res_map dispatch_roundtrip)

lemma dispatches_json_ok: "dispatches_json ds = Inr j \<longleftrightarrow> (\<forall>d\<in>set ds. dispatch_validate d = Inr ()) \<and> j = JList (map dispatch_json ds)"
proof -
  have "map_res dispatch_canonical ds = Inr js \<longleftrightarrow> (\<forall>d\<in>set ds. dispatch_validate d = Inr ()) \<and> js = map dispatch_json ds" for js
    by (induction ds arbitrary: js) (auto simp: dispatch_canonical_def and_then_ok)
  then show ?thesis by (auto simp: dispatches_json_def and_then_ok)
qed

text \<open>The dispatch \<open>d\<close> was built for the mission of row \<open>r\<close> under the request \<open>q\<close> with digest \<open>rd\<close>.\<close>

definition made_for :: "string \<Rightarrow> string \<Rightarrow> plan_request \<Rightarrow> mission_row \<Rightarrow> dispatch \<Rightarrow> bool" where
  "made_for cid rd q r d \<longleftrightarrow> dispatch_validate d = Inr ()
     \<and> d = new_dispatch cid rd q (fd_issued_at d) (r\<lparr>ms_generation := fd_generation d - 1\<rparr>)"

definition plan_ok :: "string \<Rightarrow> mission_row list \<Rightarrow> plan_row \<Rightarrow> bool" where
  "plan_ok cid ms p \<longleftrightarrow> (\<exists>q ds. plan_request_digest q = Inr (pl_request_digest p) \<and> fp_request_id q = pl_request_id p
     \<and> fp_coordinator_id q = cid \<and> pl_request p = plan_request_json q \<and> pl_result p = JList (map dispatch_json ds)
     \<and> pl_result_digest p = sha256 (canon (pl_result p))
     \<and> (\<forall>d\<in>set ds. \<exists>r\<in>set ms. made_for cid (pl_request_digest p) q r d))"

definition plan_dispatches :: "plan_row \<Rightarrow> dispatch list" where
  "plan_dispatches p = (case dispatches_from_json (pl_result p) of Inr ds \<Rightarrow> ds | Inl _ \<Rightarrow> [])"

definition issued :: "coord_store \<Rightarrow> dispatch list" where
  "issued s = concat (map plan_dispatches (co_plans s))"

text \<open>Every dispatched row names a recorded dispatch, or one of the plan in progress.\<close>

definition bound_to :: "mission_row \<Rightarrow> dispatch \<Rightarrow> bool" where
  "bound_to r d \<longleftrightarrow> fd_mission_id d = ms_id r \<and> ms_dispatch_id r = Some (fd_dispatch_id d)
     \<and> ms_fencing_token r = Some (fd_fencing_token d) \<and> ms_generation r = fd_generation d"

definition bind_ok :: "mission_row list \<Rightarrow> dispatch list \<Rightarrow> bool" where
  "bind_ok ms ds \<longleftrightarrow> (\<forall>r\<in>set ms. 0 < ms_generation r \<longrightarrow> (\<exists>d\<in>set ds. bound_to r d))"

lemma made_for_cong: "ms_spec r' = ms_spec r \<Longrightarrow> ms_spec_digest r' = ms_spec_digest r \<Longrightarrow> made_for cid rd q r' d = made_for cid rd q r d"
  by (simp add: made_for_def new_dispatch_def seed_json_def)

lemma plan_ok_mono:
  assumes "plan_ok cid ms p"
    "\<And>r. r \<in> set ms \<Longrightarrow> \<exists>r'\<in>set ms'. ms_spec r' = ms_spec r \<and> ms_spec_digest r' = ms_spec_digest r"
  shows "plan_ok cid ms' p"
  using assms made_for_cong unfolding plan_ok_def by metis

lemma made_dispatch:
  "dispatch_validate (new_dispatch cid rd q now row) = Inr () \<Longrightarrow> made_for cid rd q row (new_dispatch cid rd q now row)"
  by (simp add: made_for_def new_dispatch_def Let_def)

lemma bound_run: "bound_to (run_row (new_dispatch cid rd q now row) t row) (new_dispatch cid rd q now row)"
  by (simp add: bound_to_def run_row_def new_dispatch_def Let_def)

end
