(* ===== verification/Fleet_Coordination_Steps.thy ===== *)
theory Fleet_Coordination_Steps
  imports Fleet_Coordination_Inv
begin

text \<open>
  The transactions of the coordination store keep its invariant, and the reachable databases.
\<close>

section \<open>The invariant\<close>

definition core_ok :: "coord_store \<Rightarrow> bool" where
  "core_ok s \<longleftrightarrow> chain_ok s \<and> replay_ok s \<and> distinct (map (\<lambda>r. ms_id r) (co_missions s))
     \<and> (\<forall>r\<in>set (co_missions s). row_ok r \<and> spec_digest (ms_spec r) = Inr (ms_spec_digest r))
     \<and> deps_ok (co_missions s) (co_deps s) \<and> acyclic_deps s
     \<and> leases_ok (co_missions s) (co_leases s) \<and> exclusive (co_leases s)
     \<and> (\<forall>p\<in>set (co_plans s). \<exists>c r h. co_meta s = Some (c, r, h) \<and> plan_ok c (co_missions s) p)"

definition coord_ok :: "coord_store \<Rightarrow> bool" where
  "coord_ok s \<longleftrightarrow> core_ok s \<and> bind_ok (co_missions s) (issued s)"

definition coordinator_of :: "coord_store \<Rightarrow> string option" where
  "coordinator_of s = map_option fst (co_meta s)"

lemma core_okD:
  assumes "core_ok s"
  shows "chain_ok s" "replay_ok s" "distinct (map (\<lambda>r. ms_id r) (co_missions s))"
    "r \<in> set (co_missions s) \<Longrightarrow> row_ok r" "r \<in> set (co_missions s) \<Longrightarrow> spec_digest (ms_spec r) = Inr (ms_spec_digest r)"
    "deps_ok (co_missions s) (co_deps s)" "acyclic_deps s" "leases_ok (co_missions s) (co_leases s)" "exclusive (co_leases s)"
    "p \<in> set (co_plans s) \<Longrightarrow> coordinator_of s = Some c \<Longrightarrow> plan_ok c (co_missions s) p"
  using assms by (auto simp: core_ok_def coordinator_of_def)

lemma find_row: "core_ok s \<Longrightarrow> r \<in> set (co_missions s) \<Longrightarrow> find_mission (ms_id r) s = Some r"
  by (rule find_mission_mem) (auto simp: core_ok_def)

section \<open>Rewriting one row\<close>

lemma coord_abs_cong: "co_missions s' = co_missions s \<Longrightarrow> coord_abs s' = coord_abs s"
  by (auto simp: coord_abs_def find_mission_def fun_eq_iff split: option.splits)

lemma replay_row_step:
  assumes "replay_ok s" "find_mission i s = Some row" "\<And>x. ms_id (f x) = ms_id x"
    "co_events s' = co_events s @ [e]" "co_missions s' = set_row i f (co_missions s)"
    "\<And>m. replay_event e m = replay_update (Some i) g m" "g (replay_of row) = replay_of (f row)"
  shows "replay_ok s'"
proof (rule replay_ok_append [OF assms(1,4)])
  fix m
  assume m: "map_of m = coord_abs s"
  have row: "map_of m (Some i) = Some (replay_of row)" by (simp add: m coord_abs_def assms(2))
  have "coord_abs s' = coord_abs (update_mission i f s)"
    by (rule coord_abs_cong) (simp add: assms(5) update_mission_def)
  also have "\<dots> = (coord_abs s)(Some i \<mapsto> replay_of (f row))"
    by (rule coord_abs_update) (use assms in auto)
  finally show "\<exists>m'. replay_event e m = Inr m' \<and> map_of m' = coord_abs s'"
    using replay_update_ok [OF row] by (simp add: assms(6,7) AList.update_conv' m)
qed

text \<open>
  What a rewrite of the row \<open>row\<close> to \<open>f row\<close>, with one event appended, keeps: everything but the lease table,
  which the caller accounts for.
\<close>

lemma core_row_step:
  assumes ok: "core_ok s" and row: "row \<in> set (co_missions s)" and now: "not_before s now"
    and meta: "co_meta s = Some (c, r, prev)" "co_meta s' = Some (c, r', event_digest prev etype i (JObj kvs) now)" "r \<le> r'"
    and events: "co_events s' = co_events s @ [event_of prev etype i (JObj kvs) now]"
    and ms: "co_missions s' = set_row (ms_id row) f (co_missions s)"
    and f: "\<And>x. ms_spec (f x) = ms_spec x" "\<And>x. ms_spec_digest (f x) = ms_spec_digest x" "row_ok (f row)"
    and same: "co_deps s' = co_deps s" "co_plans s' = co_plans s"
    and replay: "\<And>m. replay_event (event_of prev etype i (JObj kvs) now) m = replay_update (Some (ms_id row)) g m"
      "g (replay_of row) = replay_of (f row)"
    and leases: "leases_ok (co_missions s') (co_leases s')" "exclusive (co_leases s')"
  shows "core_ok s'"
proof -
  note D = core_okD [OF ok]
  have id: "ms_id (f x) = ms_id x" for x by (simp add: f(1))
  have mem: "x \<in> set (co_missions s') \<longleftrightarrow> x = f row \<or> x \<in> set (co_missions s) \<and> ms_id x \<noteq> ms_id row" for x
    unfolding ms by (rule set_row_mem [OF D(3) row id])
  have "0 \<le> r" using D(1) meta(1) by (simp add: chain_ok_def)
  then have chain: "chain_ok s'" by (intro chain_ok_append [OF D(1) meta(1) now events meta(2)]) (use meta(3) in simp)
  have rep: "replay_ok s'" by (rule replay_row_step [OF D(2) find_row [OF ok row] id events ms replay])
  have ids: "map (\<lambda>r. ms_id r) (co_missions s') = map (\<lambda>r. ms_id r) (co_missions s)" unfolding ms by (simp add: f(1))
  have idset: "(\<lambda>r. ms_id r) ` set (co_missions s') = (\<lambda>r. ms_id r) ` set (co_missions s)"
    using ids by (metis list.set_map)
  have "{d. (ms_id x, d) \<in> set (co_deps s)} = set (fs_dependencies (ms_spec x))" if "x \<in> set (co_missions s')" for x
    using D(6) row that by (cases "x = f row") (simp_all add: deps_ok_def mem f(1))
  then have deps: "deps_ok (co_missions s') (co_deps s')" using D(6) by (simp add: deps_ok_def same idset)
  have "\<exists>r'\<in>set (co_missions s'). ms_spec r' = ms_spec x \<and> ms_spec_digest r' = ms_spec_digest x"
    if "x \<in> set (co_missions s)" for x
  proof (cases "ms_id x = ms_id row")
    case True
    with row_unique [OF D(3) that row] have "x = row" by blast
    moreover have "f row \<in> set (co_missions s')" by (simp add: mem)
    ultimately show ?thesis using f(1,2) by blast
  qed (use that mem in blast)
  note specs = this
  have "plan_ok c (co_missions s') p" if "p \<in> set (co_plans s')" for p
  proof -
    have "plan_ok c (co_missions s) p" using D(10) that same(2) meta(1) by (simp add: coordinator_of_def)
    then show ?thesis by (rule plan_ok_mono) (rule specs)
  qed
  with chain rep ids D(3,4,5,7) deps leases same meta f(3) row acyclic_deps_cong [OF same(1) idset] show ?thesis
    by (auto simp: core_ok_def mem f(1,2))
qed

lemma not_before_append: "not_before s now \<Longrightarrow> co_events s' = es @ [event_of prev etype i p now] \<Longrightarrow> not_before s' now"
  by (auto simp: not_before_def event_of_def)

section \<open>Dispatching\<close>

lemma insert_leases_ok: "insert_leases ls s = Inr s' \<Longrightarrow> s' = s\<lparr>co_leases := co_leases s @ ls\<rparr>"
proof (induction ls arbitrary: s)
  case (Cons l ls)
  then have "insert_leases ls (s\<lparr>co_leases := co_leases s @ [l]\<rparr>) = Inr s'" by (simp split: if_splits)
  from Cons.IH [OF this] show ?case by simp
qed simp

lemma dispatch_mission_ok:
  assumes "dispatch_mission cid rd q now row s = Inr (d, s')"
  obtains c r prev where "d = new_dispatch cid rd q now row" "dispatch_validate d = Inr ()" "co_meta s = Some (c, r, prev)"
    "s' = s\<lparr>co_leases := co_leases s @ dispatch_leases d, co_missions := set_row (ms_id row) (run_row d now) (co_missions s),
       co_events := co_events s @ [event_of prev ''MISSION_DISPATCHED'' (Some (ms_id row)) (dispatch_event q rd d row) now],
       co_meta := Some (c, r, event_digest prev ''MISSION_DISPATCHED'' (Some (ms_id row)) (dispatch_event q rd d row) now)\<rparr>"
proof -
  from assms obtain s1 where d: "d = new_dispatch cid rd q now row" "dispatch_validate d = Inr ()"
    and s1: "claim_leases d s = Inr s1"
    and app: "append_event ''MISSION_DISPATCHED'' (Some (ms_id row)) (dispatch_event q rd d row) now
      (update_mission (ms_id row) (run_row d now) s1) = Inr s'"
    by (auto simp: dispatch_mission_def and_then_ok Let_def)
  have "s1 = s\<lparr>co_leases := co_leases s @ dispatch_leases d\<rparr>"
    using s1 unfolding claim_leases_def by (rule insert_leases_ok)
  with append_event_ok [OF app] d that show thesis by (auto simp: update_mission_def)
qed

lemma core_dispatch:
  assumes ok: "core_ok s" and row: "row \<in> set (co_missions s)" "ms_state row \<in> {''STARTING'', ''WAITING''}"
    and now: "not_before s now"
    and free: "leases_available s (fs_repository (ms_spec row)) (fs_branch (ms_spec row)) (fs_write_scope (ms_spec row))"
    and run: "dispatch_mission cid rd q now row s = Inr (d, s')"
  shows "core_ok s'" "not_before s' now" "coordinator_of s' = coordinator_of s" "co_plans s' = co_plans s"
    "co_missions s' = set_row (ms_id row) (run_row d now) (co_missions s)"
    "bind_ok (co_missions s) ds \<Longrightarrow> bind_ok (co_missions s') (ds @ [d])" "made_for cid rd q row d"
proof -
  from run obtain c r prev where d: "d = new_dispatch cid rd q now row" "dispatch_validate d = Inr ()"
    and meta: "co_meta s = Some (c, r, prev)"
    and s': "s' = s\<lparr>co_leases := co_leases s @ dispatch_leases d, co_missions := set_row (ms_id row) (run_row d now) (co_missions s),
       co_events := co_events s @ [event_of prev ''MISSION_DISPATCHED'' (Some (ms_id row)) (dispatch_event q rd d row) now],
       co_meta := Some (c, r, event_digest prev ''MISSION_DISPATCHED'' (Some (ms_id row)) (dispatch_event q rd d row) now)\<rparr>"
    by (rule dispatch_mission_ok)
  note D = core_okD [OF ok]
  obtain t where t: "valid_utc t" "now = utc_text t" using now by (auto simp: not_before_def)
  obtain kvs where kvs: "dispatch_event q rd d row = JObj kvs"
    "map_of kvs ''generation'' = Some (JInt (fd_generation d))" "map_of kvs ''dispatch_id'' = Some (JStr (fd_dispatch_id d))"
    "map_of kvs ''fencing_token'' = Some (JStr (fd_fencing_token d))"
    by (simp add: dispatch_event_def)
  let ?e = "event_of prev ''MISSION_DISPATCHED'' (Some (ms_id row)) (JObj kvs) now"
  let ?g = "\<lambda>x. x\<lparr>rp_state := JStr ''RUNNING'', rp_generation := JInt (fd_generation d),
    rp_dispatch_id := JStr (fd_dispatch_id d), rp_fencing_token := JStr (fd_fencing_token d),
    rp_terminal_evidence_ref := JNull, rp_last_requeue_evidence_ref := JNull\<rparr>"
  have rep: "replay_event ?e m = replay_update (Some (ms_id row)) ?g m" "?g (replay_of row) = replay_of (run_row d now row)" for m
    using kvs by (simp_all add: replay_event_def event_of_def payload_item_def replay_of_def run_row_def opt_str_def)
  have "ms_state row \<noteq> ''RUNNING''" using row(2) by auto
  then have "leases_ok (co_missions s') (co_leases s')"
    using leases_ok_run [OF D(8,3) row(1) _ d(1)] by (simp add: s')
  moreover have "exclusive (co_leases s')"
    using exclusive_claim [OF D(9) d(1), of s] free by (simp add: s')
  moreover have "row_ok (run_row d now row)" using row_ok_run [OF D(4) [OF row(1)] t(1)] d(1) t(2) by simp
  ultimately show "core_ok s'"
    by (intro core_row_step [OF ok row(1) now meta, where f = "run_row d now" and g = ?g and kvs = kvs and r' = r
        and etype = "''MISSION_DISPATCHED''" and i = "Some (ms_id row)"])
       (use rep in \<open>simp_all add: s' kvs run_row_def\<close>)
  show "not_before s' now" by (rule not_before_append [OF now]) (simp add: s')
  show "coordinator_of s' = coordinator_of s" "co_plans s' = co_plans s"
    "co_missions s' = set_row (ms_id row) (run_row d now) (co_missions s)" by (simp_all add: s' meta coordinator_of_def)
  show "made_for cid rd q row d" using made_dispatch d by simp
  assume "bind_ok (co_missions s) ds"
  then show "bind_ok (co_missions s') (ds @ [d])"
    using bound_run [of cid rd q now row now] d(1) row_unique [OF D(3) _ row(1)] by (fastforce simp: bind_ok_def s')
qed

lemma select_cases:
  assumes "select_missions cid rd q now heads (row # rows) sel s = Inr (sel', s')"
  obtains (stop) "sel' = sel" "s' = s"
    | (skip) "select_missions cid rd q now heads rows sel s = Inr (sel', s')"
    | (run) d s1 where "leases_available s (fs_repository (ms_spec row)) (fs_branch (ms_spec row)) (fs_write_scope (ms_spec row))"
        "dependencies_done s (ms_id row)" "heads (fs_repository (ms_spec row)) = Some (fs_baseline_sha (ms_spec row))"
        "int (length sel) < fp_max_parallel q"
        "dispatch_mission cid rd q now row s = Inr (d, s1)"
        "select_missions cid rd q now heads rows (sel @ [d]) s1 = Inr (sel', s')"
proof -
  let ?free = "leases_available s (fs_repository (ms_spec row)) (fs_branch (ms_spec row)) (fs_write_scope (ms_spec row))"
  consider (a) "fp_max_parallel q \<le> int (length sel)" | (b) "int (length sel) < fp_max_parallel q" "\<not> dependencies_done s (ms_id row)"
    | (c) "int (length sel) < fp_max_parallel q" "dependencies_done s (ms_id row)" by linarith
  then show thesis
  proof cases
    case a
    with assms stop show thesis by simp
  next
    case b
    with assms skip show thesis by simp
  next
    case c
    then have head: "heads (fs_repository (ms_spec row)) = Some (fs_baseline_sha (ms_spec row))"
      using assms by (auto split: option.splits if_splits)
    show thesis
    proof (cases ?free)
      case True
      with assms c head obtain d s1 where "dispatch_mission cid rd q now row s = Inr (d, s1)"
        "select_missions cid rd q now heads rows (sel @ [d]) s1 = Inr (sel', s')" by (auto simp: and_then_ok)
      with True c head run show thesis by blast
    qed (use assms c head skip in simp)
  qed
qed

lemma core_select:
  assumes "select_missions cid rd q now heads rows sel s = Inr (sel', s')"
    "core_ok s" "not_before s now" "bind_ok (co_missions s) (ds @ sel)" "coordinator_of s = Some cid"
    "set rows \<subseteq> set (co_missions s)" "distinct (map (\<lambda>r. ms_id r) rows)"
    "\<forall>r\<in>set rows. ms_state r \<in> {''STARTING'', ''WAITING''}"
    "\<forall>d\<in>set sel. \<exists>r\<in>set (co_missions s). made_for cid rd q r d"
  shows "core_ok s' \<and> not_before s' now \<and> bind_ok (co_missions s') (ds @ sel') \<and> coordinator_of s' = Some cid
    \<and> co_plans s' = co_plans s \<and> (\<forall>d\<in>set sel'. \<exists>r\<in>set (co_missions s'). made_for cid rd q r d)"
  using assms
proof (induction rows arbitrary: sel s)
  case (Cons row rows)
  have rest: "set rows \<subseteq> set (co_missions s)" "distinct (map (\<lambda>r. ms_id r) rows)"
    "\<forall>r\<in>set rows. ms_state r \<in> {''STARTING'', ''WAITING''}" using Cons.prems(6-8) by auto
  from Cons.prems(1) show ?case
  proof (cases rule: select_cases)
    case stop
    with Cons.prems show ?thesis by simp
  next
    case skip
    from Cons.IH [OF skip Cons.prems(2-5) rest Cons.prems(9)] show ?thesis .
  next
    case (run d s1)
    have row: "row \<in> set (co_missions s)" "ms_state row \<in> {''STARTING'', ''WAITING''}" using Cons.prems(6,8) by auto
    note S = core_dispatch [OF Cons.prems(2) row Cons.prems(3) run(1,5)]
    have rows: "set rows \<subseteq> set (co_missions s1)" unfolding S(5)
    proof
      fix x
      assume x: "x \<in> set rows"
      then have "x \<in> set (co_missions s)" "ms_id x \<noteq> ms_id row" using Cons.prems(6,7) by (auto simp: image_iff)
      then show "x \<in> set (set_row (ms_id row) (run_row d now) (co_missions s))" by (force simp: image_iff)
    qed
    have made: "\<exists>r\<in>set (co_missions s1). made_for cid rd q r x" if x: "x \<in> set (sel @ [d])" for x
    proof -
      obtain r where r: "r \<in> set (co_missions s)" "made_for cid rd q r x"
        using x Cons.prems(9) S(7) row(1) by auto
      let ?r = "if ms_id r = ms_id row then run_row d now r else r"
      have "?r \<in> set (co_missions s1)" unfolding S(5) using r(1) by simp
      moreover have "made_for cid rd q ?r x"
        using r(2) made_for_cong [of "run_row d now r" r] by (simp add: run_row_def)
      ultimately show ?thesis by blast
    qed
    have "bind_ok (co_missions s1) (ds @ sel @ [d])" using S(6) [OF Cons.prems(4)] by simp
    moreover have "coordinator_of s1 = Some cid" using S(3) Cons.prems(5) by simp
    ultimately show ?thesis using Cons.IH [OF run(6) S(1,2) _ _ rows rest(2,3)] made S(4) by simp
  qed
qed simp

section \<open>Planning\<close>

lemma core_commit:
  assumes ok: "core_ok s" and now: "not_before s now" and bind: "bind_ok (co_missions s) (issued s @ sel)"
    and cid: "coordinator_of s = Some cid" "fp_coordinator_id q = cid" and rd: "plan_request_digest q = Inr rd"
    and made: "\<forall>d\<in>set sel. \<exists>r\<in>set (co_missions s). made_for cid rd q r d"
    and commit: "commit_plan q rd now sel s = Inr s'"
  shows "coord_ok s'"
proof -
  note D = core_okD [OF ok]
  let ?j = "JList (map dispatch_json sel)"
  let ?p = "\<lparr>pl_request_id = fp_request_id q, pl_request_digest = rd, pl_request = plan_request_json q, pl_result = ?j,
    pl_result_digest = sha256 (canon ?j), pl_observed_at = now\<rparr>"
  obtain kvs where kvs: "commit_event q rd (sha256 (canon ?j)) sel = JObj kvs" by (simp add: commit_event_def)
  obtain s1 where valid: "\<forall>d\<in>set sel. dispatch_validate d = Inr ()" and s': "s' = bump_revision s1"
    and app: "append_event ''PLAN_COMMITTED'' None (JObj kvs) now (s\<lparr>co_plans := co_plans s @ [?p]\<rparr>) = Inr s1"
    using commit unfolding commit_plan_def by (auto simp: and_then_ok dispatches_json_ok Let_def kvs split: if_splits)
  from append_event_ok [OF app] obtain c r prev where meta: "co_meta s = Some (c, r, prev)"
    and s1: "s1 = s\<lparr>co_plans := co_plans s @ [?p], co_events := co_events s @ [event_of prev ''PLAN_COMMITTED'' None (JObj kvs) now],
      co_meta := Some (c, r, event_digest prev ''PLAN_COMMITTED'' None (JObj kvs) now)\<rparr>" by auto
  have fields: "co_missions s' = co_missions s" "co_deps s' = co_deps s" "co_leases s' = co_leases s" "co_plans s' = co_plans s @ [?p]"
    "co_events s' = co_events s @ [event_of prev ''PLAN_COMMITTED'' None (JObj kvs) now]"
    "co_meta s' = Some (c, r + 1, event_digest prev ''PLAN_COMMITTED'' None (JObj kvs) now)"
    by (simp_all add: s' s1 bump_revision_def)
  have c: "c = cid" using cid(1) meta by (simp add: coordinator_of_def)
  have "0 \<le> r" using D(1) meta by (simp add: chain_ok_def)
  then have chain: "chain_ok s'" by (intro chain_ok_append [OF D(1) meta now fields(5,6)]) simp
  have rep: "replay_ok s'"
    by (rule replay_ok_append [OF D(2) fields(5)])
       (simp add: replay_event_def event_of_def coord_abs_cong [OF fields(1)])
  have plan: "plan_ok cid (co_missions s') ?p"
    unfolding plan_ok_def using rd cid(2) made by (intro exI [of _ q] exI [of _ sel]) (simp add: fields)
  have "acyclic_deps s'" using acyclic_deps_cong [OF fields(2), of] fields(1) D(7) by simp
  then have "core_ok s'"
    using chain rep plan D(3-6,8-10) cid(1) c unfolding core_ok_def fields by (auto simp: coordinator_of_def)
  moreover have "issued s' = issued s @ sel"
    using dispatches_roundtrip [of sel] valid by (simp add: issued_def fields plan_dispatches_def)
  ultimately show ?thesis using bind by (simp add: coord_ok_def fields(1))
qed

lemma candidates_props:
  "set (candidates s) \<subseteq> set (co_missions s)" "\<forall>r\<in>set (candidates s). ms_state r \<in> {''STARTING'', ''WAITING''}"
  "core_ok s \<Longrightarrow> distinct (map (\<lambda>r. ms_id r) (candidates s))"
  by (auto simp: candidates_def core_ok_def distinct_map inj_on_def)

lemma coord_ok_plan:
  assumes "coord_ok s" "coordinator_of s = Some cid" "clock_valid c"
  shows "coord_ok (snd (plan cid c q s))"
proof (cases "and_then (plan_request_validate q) (\<lambda>_.
       and_then (raise_when (fp_coordinator_id q \<noteq> cid) FleetCoordinationStateError ''plan coordinator mismatch'') (\<lambda>_.
       plan_request_digest q))")
  case (Inl e)
  then show ?thesis using assms by (simp add: plan_def)
next
  case (Inr rd)
  then have rd: "plan_request_digest q = Inr rd" "fp_coordinator_id q = cid" by (auto simp: and_then_ok)
  show ?thesis
  proof (cases "plan_body cid c q rd s")
    case (Inl e)
    with Inr assms show ?thesis by (simp add: plan_def write_tx_def)
  next
    case body: (Inr r)
    obtain sel s2 where r: "r = (sel, s2)" by (cases r)
    have "coord_ok s2"
    proof (cases "find_plan (fp_request_id q) s")
      case (Some p)
      with body r have "s2 = s" by (auto simp: plan_body_def and_then_ok)
      with assms show ?thesis by simp
    next
      case None
      with body r obtain now heads s1 where now: "coord_now c s = Inr now"
        and sel: "select_missions cid rd q now heads (candidates s) [] s = Inr (sel, s1)"
        and commit: "commit_plan q rd now sel s1 = Inr s2"
        by (auto simp: plan_body_def and_then_ok)
      have core: "core_ok s" "bind_ok (co_missions s) (issued s @ [])" using assms by (auto simp: coord_ok_def)
      note P = candidates_props [of s]
      have S: "core_ok s1 \<and> not_before s1 now \<and> bind_ok (co_missions s1) (issued s @ sel) \<and> coordinator_of s1 = Some cid
          \<and> co_plans s1 = co_plans s \<and> (\<forall>d\<in>set sel. \<exists>r\<in>set (co_missions s1). made_for cid rd q r d)"
        by (rule core_select [OF sel core(1) coord_now_ok [OF now assms(3)] core(2) assms(2) P(1) P(3) [OF core(1)] P(2)]) simp
      then have "issued s1 = issued s" by (simp add: issued_def)
      with S core_commit [OF _ _ _ _ rd(2,1) _ commit] show ?thesis by simp
    qed
    with Inr body r show ?thesis by (simp add: plan_def write_tx_def)
  qed
qed

section \<open>Registration\<close>

lemma insert_deps_ok: "insert_deps i ds s = Inr s' \<Longrightarrow> s' = s\<lparr>co_deps := co_deps s @ map (Pair i) ds\<rparr>"
proof (induction ds arbitrary: s)
  case (Cons d ds)
  then have "insert_deps i ds (s\<lparr>co_deps := co_deps s @ [(i, d)]\<rparr>) = Inr s'" by (simp split: if_splits)
  from Cons.IH [OF this] show ?case by simp
qed simp

text \<open>What a registration that changes the database did.\<close>

lemma register_cases:
  assumes "clock_valid c"
  obtains (same) "snd (register_mission depth c x s) = s"
    | (new) dg now cid r prev kvs where "spec_digest x = Inr dg" "find_mission (fs_mission_id x) s = None"
        "fst (register_mission depth c x s) = Inr ()"
        "has_cycle depth (AList.update (fs_mission_id x) (fs_dependencies x) (dependency_graph s)) = Inr False"
        "not_before s now" "co_meta s = Some (cid, r, prev)"
        "snd (register_mission depth c x s) = s\<lparr>co_missions := co_missions s @ [new_mission x dg now],
          co_deps := co_deps s @ map (Pair (fs_mission_id x)) (fs_dependencies x),
          co_events := co_events s @ [event_of prev ''MISSION_REGISTERED'' (Some (fs_mission_id x)) (JObj kvs) now],
          co_meta := Some (cid, r + 1, event_digest prev ''MISSION_REGISTERED'' (Some (fs_mission_id x)) (JObj kvs) now)\<rparr>"
proof (cases "and_then (spec_validate x) (\<lambda>_. spec_digest x)")
  case (Inl e)
  then show thesis using same by (simp add: register_mission_def)
next
  case (Inr dg)
  show thesis
  proof (cases "register_body depth c x dg s")
    case (Inl e)
    with Inr same show thesis by (simp add: register_mission_def write_tx_def)
  next
    case body: (Inr y)
    obtain s' where y: "y = ((), s')" by (cases y) auto
    have op: "register_mission depth c x s = (Inr (), s')" using Inr body y by (simp add: register_mission_def write_tx_def)
    show thesis
    proof (cases "find_mission (fs_mission_id x) s")
      case (Some row)
      with body y op same show thesis by (auto simp: register_body_def split: if_splits)
    next
      case None
      let ?kvs = "[(''drone_id'', JStr (fs_drone_id x)), (''spec_digest'', JStr dg)]"
      from None body y obtain now s1 s2 s3 where
        cyc: "has_cycle depth (AList.update (fs_mission_id x) (fs_dependencies x) (dependency_graph s)) = Inr False"
        and now: "coord_now c s = Inr now" and ins: "insert_mission (new_mission x dg now) s = Inr s1"
        and deps: "insert_deps (fs_mission_id x) (fs_dependencies x) s1 = Inr s2"
        and app: "append_event ''MISSION_REGISTERED'' (Some (fs_mission_id x)) (JObj ?kvs) now s2 = Inr s3"
        and s': "s' = bump_revision s3"
        by (auto simp: register_body_def and_then_ok)
      have s1: "s1 = s\<lparr>co_missions := co_missions s @ [new_mission x dg now]\<rparr>"
        using ins by (auto simp: insert_mission_def split: if_splits)
      from append_event_ok [OF app] obtain cid r prev where "co_meta s2 = Some (cid, r, prev)"
        "s3 = s2\<lparr>co_events := co_events s2 @ [event_of prev ''MISSION_REGISTERED'' (Some (fs_mission_id x)) (JObj ?kvs) now],
           co_meta := Some (cid, r, event_digest prev ''MISSION_REGISTERED'' (Some (fs_mission_id x)) (JObj ?kvs) now)\<rparr>" by blast
      then show thesis
        using new [of dg now cid r prev ?kvs] Inr None cyc coord_now_ok [OF now assms] op s' s1 insert_deps_ok [OF deps]
        by (auto simp: and_then_ok bump_revision_def)
    qed
  qed
qed

lemma coord_ok_register:
  assumes ok: "coord_ok s" and c: "clock_valid c"
  shows "coord_ok (snd (register_mission depth c x s))"
  using c
proof (cases rule: register_cases [where depth = depth and x = x and s = s])
  case same
  then show ?thesis using ok by simp
next
  case (new dg now cid r prev kvs)
  let ?i = "fs_mission_id x" and ?r = "new_mission x dg now" and ?s = "snd (register_mission depth c x s)"
  have core: "core_ok s" and bind: "bind_ok (co_missions s) (issued s)" using ok by (auto simp: coord_ok_def)
  note D = core_okD [OF core]
  have id: "ms_id ?r = ?i" by (simp add: new_mission_def)
  have fresh: "?i \<notin> (\<lambda>r. ms_id r) ` set (co_missions s)" using new(2) by (auto simp: find_mission_None)
  have fields: "co_missions ?s = co_missions s @ [?r]" "co_deps ?s = co_deps s @ map (Pair ?i) (fs_dependencies x)"
    "co_leases ?s = co_leases s" "co_plans ?s = co_plans s"
    "co_events ?s = co_events s @ [event_of prev ''MISSION_REGISTERED'' (Some ?i) (JObj kvs) now]"
    "co_meta ?s = Some (cid, r + 1, event_digest prev ''MISSION_REGISTERED'' (Some ?i) (JObj kvs) now)"
    by (simp_all add: new(7))
  have "0 \<le> r" using D(1) new(6) by (simp add: chain_ok_def)
  then have chain: "chain_ok ?s" by (intro chain_ok_append [OF D(1) new(6,5) fields(5,6)]) simp
  have abs: "coord_abs ?s = (coord_abs s)(Some ?i \<mapsto> replay_of ?r)"
    using new(2) by (auto simp: fun_eq_iff coord_abs_def find_mission_def fields find_app id split: option.splits)
  have rep: "replay_ok ?s"
    by (rule replay_ok_append [OF D(2) fields(5)])
       (simp add: abs replay_event_def event_of_def AList.update_conv' replay_of_def new_mission_def opt_str_def)
  have deps: "deps_ok (co_missions ?s) (co_deps ?s)"
    unfolding fields by (rule deps_ok_register [OF D(6) fresh id]) (simp add: new_mission_def)
  have acyc: "acyclic_deps ?s" by (rule acyclic_register [OF new(4) D(6) fresh id fields(1,2)])
  obtain t where "valid_utc t" "now = utc_text t" using new(5) by (auto simp: not_before_def)
  then have row: "row_ok ?r" by (simp add: row_ok_new)
  have leases: "leases_ok (co_missions ?s) (co_leases ?s)"
    using D(8) unfolding leases_ok_def fields by (auto simp: new_mission_def)
  have plans: "plan_ok cid (co_missions ?s) p" if "p \<in> set (co_plans ?s)" for p
  proof (rule plan_ok_mono)
    show "plan_ok cid (co_missions s) p" using D(10) that new(6) by (simp add: fields coordinator_of_def)
  qed (auto simp: fields)
  have "core_ok ?s"
    unfolding core_ok_def using chain rep fresh D(3-5) row deps acyc leases D(9) plans fields new(1) id
    by (auto simp: new_mission_def)
  moreover have "bind_ok (co_missions ?s) (issued ?s)"
    using bind by (auto simp: bind_ok_def fields issued_def new_mission_def)
  ultimately show ?thesis by (simp add: coord_ok_def)
qed

section \<open>Taking a running mission back\<close>

text \<open>The effect shared by \<open>requeue\<close> and \<open>record_terminal\<close>.\<close>

definition after_release :: "string \<Rightarrow> string \<Rightarrow> string \<Rightarrow> string option \<Rightarrow> string option \<Rightarrow> string \<Rightarrow> string \<Rightarrow> int
    \<Rightarrow> string \<Rightarrow> string \<Rightarrow> (string \<times> json) list \<Rightarrow> coord_store \<Rightarrow> coord_store" where
  "after_release i did st te rq now cid r prev etype kvs s = s\<lparr>co_leases := filter (\<lambda>l. \<not> owned_by i did l) (co_leases s),
         co_missions := set_row i (back_row st te rq now) (co_missions s),
         co_events := co_events s @ [event_of prev etype (Some i) (JObj kvs) now],
         co_meta := Some (cid, r + 1, event_digest prev etype (Some i) (JObj kvs) now)\<rparr>"

definition takes_back ::
  "string \<Rightarrow> string \<Rightarrow> string \<Rightarrow> string \<Rightarrow> string option \<Rightarrow> string option \<Rightarrow> coord_store \<Rightarrow> coord_store \<Rightarrow> bool" where
  "takes_back i did fence st te rq s s' \<longleftrightarrow> (\<exists>row now cid r prev etype kvs.
     find_mission i s = Some row \<and> ms_state row = ''RUNNING'' \<and> ms_dispatch_id row = Some did
     \<and> ms_fencing_token row = Some fence \<and> not_before s now \<and> co_meta s = Some (cid, r, prev)
     \<and> (st = ''WAITING'' \<and> te = None \<or> st \<in> TERMINAL_STATES \<and> te \<noteq> None)
     \<and> (\<forall>m. replay_event (event_of prev etype (Some i) (JObj kvs) now) m = replay_update (Some i)
           (\<lambda>x. x\<lparr>rp_state := JStr st, rp_terminal_evidence_ref := opt_str te, rp_last_requeue_evidence_ref := opt_str rq\<rparr>) m)
     \<and> s' = after_release i did st te rq now cid r prev etype kvs s)"

lemma back_row_fun: "back_row st te rq now = (\<lambda>r. r\<lparr>ms_state := st, ms_terminal_evidence_ref := te,
    ms_last_requeue_evidence_ref := rq, ms_updated_at := now\<rparr>)"
  by (simp add: back_row_def fun_eq_iff)

lemma released_event:
  assumes "append_event etype (Some i) (JObj kvs) now (update_mission i (back_row st te rq now) (snd (release_leases i did s))) = Inr s2"
  shows "\<exists>cid r prev. co_meta s = Some (cid, r, prev)
    \<and> bump_revision s2 = after_release i did st te rq now cid r prev etype kvs s"
  using append_event_ok [OF assms] by (auto simp: update_mission_def release_leases_def bump_revision_def after_release_def)

lemma takes_backI:
  assumes "find_mission i s = Some row" "ms_state row = ''RUNNING''" "require_active row did fence = Inr ()" "not_before s now"
    "co_meta s = Some (cid, r, prev)" "st = ''WAITING'' \<and> te = None \<or> st \<in> TERMINAL_STATES \<and> te \<noteq> None"
    "\<And>m. replay_event (event_of prev etype (Some i) (JObj kvs) now) m = replay_update (Some i)
       (\<lambda>x. x\<lparr>rp_state := JStr st, rp_terminal_evidence_ref := opt_str te, rp_last_requeue_evidence_ref := opt_str rq\<rparr>) m"
    "s' = after_release i did st te rq now cid r prev etype kvs s"
  shows "takes_back i did fence st te rq s s'"
  using assms unfolding takes_back_def require_active_def raise_when_ok by blast

lemma takes_back_ok:
  assumes ok: "coord_ok s" and bk: "takes_back i did fence st te rq s s'"
  shows "coord_ok s'"
proof -
  from bk obtain row now cid r prev etype kvs where find: "find_mission i s = Some row"
    and row: "ms_state row = ''RUNNING''" "ms_dispatch_id row = Some did"
    and now: "not_before s now" and meta: "co_meta s = Some (cid, r, prev)"
    and st: "st = ''WAITING'' \<and> te = None \<or> st \<in> TERMINAL_STATES \<and> te \<noteq> None"
    and rep: "\<And>m. replay_event (event_of prev etype (Some i) (JObj kvs) now) m = replay_update (Some i)
           (\<lambda>x. x\<lparr>rp_state := JStr st, rp_terminal_evidence_ref := opt_str te, rp_last_requeue_evidence_ref := opt_str rq\<rparr>) m"
    and s': "s' = after_release i did st te rq now cid r prev etype kvs s"
    unfolding takes_back_def by blast
  have core: "core_ok s" and bind: "bind_ok (co_missions s) (issued s)" using ok by (auto simp: coord_ok_def)
  note s' = s' [unfolded after_release_def]
  note D = core_okD [OF core]
  have mem: "row \<in> set (co_missions s)" and i: "i = ms_id row" using find_mission_SomeD [OF find] by auto
  obtain t where t: "valid_utc t" "now = utc_text t" using now by (auto simp: not_before_def)
  have run: "st \<noteq> ''RUNNING''" using st by (auto simp: TERMINAL_STATES_def)
  have rok: "row_ok (back_row st te rq now row)" using row_ok_back [OF D(4) [OF mem] row(1) t(1) st] t(2) by simp
  have "leases_ok (co_missions s') (co_leases s')"
    using leases_ok_back [OF D(8,3) mem row run] by (simp add: s' i)
  moreover have "exclusive (co_leases s')" using exclusive_subset [OF D(9)] by (auto simp: s')
  ultimately have "core_ok s'"
    by (intro core_row_step [OF core mem now meta, where f = "back_row st te rq now" and kvs = kvs and r' = "r + 1"
        and etype = etype and i = "Some (ms_id row)"
        and g = "\<lambda>x. x\<lparr>rp_state := JStr st, rp_terminal_evidence_ref := opt_str te, rp_last_requeue_evidence_ref := opt_str rq\<rparr>"])
       (use rep rok in \<open>simp_all add: s' i back_row_def replay_of_def\<close>)
  moreover have "bind_ok (co_missions s') (issued s')"
    using bind by (auto simp: bind_ok_def s' issued_def back_row_def bound_to_def)
  ultimately show ?thesis by (simp add: coord_ok_def)
qed

lemma replay_swap: "x\<lparr>rp_last_requeue_evidence_ref := a, rp_terminal_evidence_ref := b\<rparr>
    = x\<lparr>rp_terminal_evidence_ref := b, rp_last_requeue_evidence_ref := a\<rparr>"
  by (cases x) simp

lemma requeue_cases:
  assumes "clock_valid c"
  shows "snd (requeue c i did fence evidence s) = s
    \<or> (fst (requeue c i did fence evidence s) = Inr ()
       \<and> takes_back i did fence ''WAITING'' None (Some evidence) s (snd (requeue c i did fence evidence s)))"
proof (cases "fst (requeue c i did fence evidence s) = Inr () \<and> snd (requeue c i did fence evidence s) \<noteq> s")
  case False
  then show ?thesis by (auto simp: requeue_def write_tx_def split: sum.splits)
next
  case True
  let ?s = "snd (requeue c i did fence evidence s)"
  have body: "requeue_body c i did fence evidence s = Inr ((), ?s)"
    using True by (auto simp: requeue_def write_tx_def split: sum.splits prod.splits)
  obtain row where row: "find_mission i s = Some row"
    using body by (auto simp: requeue_body_def require_mission_def and_then_ok split: option.splits)
  have run: "ms_state row = ''RUNNING''"
    using body True by (auto simp: requeue_body_def require_mission_def row split: if_splits)
  let ?kvs = "[(''dispatch_id'', JStr did), (''generation'', JInt (ms_generation row)), (''evidence_ref'', JStr evidence),
     (''released_lease_count'', JInt (fst (release_leases i did s)))]"
  obtain now s2 where act: "require_active row did fence = Inr ()" and now: "coord_now c s = Inr now"
    and app: "append_event ''MISSION_REQUEUED'' (Some i) (JObj ?kvs) now (update_mission i (back_row ''WAITING'' None
      (Some evidence) now) (snd (release_leases i did s))) = Inr s2" and s2: "?s = bump_revision s2"
    using body by (auto simp: requeue_body_def require_mission_def row run and_then_ok case_prod_beta back_row_fun)
  from released_event [OF app] obtain cid r prev where meta: "co_meta s = Some (cid, r, prev)"
    and s': "bump_revision s2 = after_release i did ''WAITING'' None (Some evidence) now cid r prev ''MISSION_REQUEUED'' ?kvs s"
    by blast
  have "takes_back i did fence ''WAITING'' None (Some evidence) s ?s"
  proof (rule takes_backI [OF row run act coord_now_ok [OF now assms] meta])
    show "?s = after_release i did ''WAITING'' None (Some evidence) now cid r prev ''MISSION_REQUEUED'' ?kvs s"
      by (simp only: s2 s')
  qed (simp_all add: replay_event_def event_of_def payload_item_def opt_str_def replay_swap)
  with True show ?thesis by blast
qed

lemma terminal_cases:
  assumes "clock_valid c"
  shows "snd (record_terminal c i did fence st evidence s) = s
    \<or> (fst (record_terminal c i did fence st evidence s) = Inr ()
       \<and> takes_back i did fence st (Some evidence) None s (snd (record_terminal c i did fence st evidence s)))"
proof (cases "fst (record_terminal c i did fence st evidence s) = Inr () \<and> snd (record_terminal c i did fence st evidence s) \<noteq> s")
  case False
  then show ?thesis by (auto simp: record_terminal_def write_tx_def split: sum.splits)
next
  case True
  let ?s = "snd (record_terminal c i did fence st evidence s)"
  have body: "terminal_body c i did fence st evidence s = Inr ((), ?s)" and st: "st \<in> TERMINAL_STATES"
    using True by (auto simp: record_terminal_def write_tx_def split: sum.splits prod.splits)
  obtain row where row: "find_mission i s = Some row"
    using body by (auto simp: terminal_body_def require_mission_def and_then_ok split: option.splits)
  have run: "ms_state row = ''RUNNING''" "ms_state row \<notin> TERMINAL_STATES"
    using body True by (auto simp: terminal_body_def require_mission_def row split: if_splits)
  let ?kvs = "[(''dispatch_id'', JStr did), (''generation'', JInt (ms_generation row)), (''terminal_state'', JStr st),
     (''evidence_ref'', JStr evidence), (''released_lease_count'', JInt (fst (release_leases i did s)))]"
  obtain now s2 where act: "require_active row did fence = Inr ()" and now: "coord_now c s = Inr now"
    and app: "append_event ''MISSION_TERMINAL'' (Some i) (JObj ?kvs) now (update_mission i (back_row st (Some evidence)
      None now) (snd (release_leases i did s))) = Inr s2" and s2: "?s = bump_revision s2"
    using body run(2) by (auto simp: terminal_body_def require_mission_def row run(1) and_then_ok case_prod_beta back_row_fun)
  from released_event [OF app] obtain cid r prev where meta: "co_meta s = Some (cid, r, prev)"
    and s': "bump_revision s2 = after_release i did st (Some evidence) None now cid r prev ''MISSION_TERMINAL'' ?kvs s"
    by blast
  have "takes_back i did fence st (Some evidence) None s ?s"
  proof (rule takes_backI [OF row run(1) act coord_now_ok [OF now assms] meta])
    show "?s = after_release i did st (Some evidence) None now cid r prev ''MISSION_TERMINAL'' ?kvs s"
      by (simp only: s2 s')
  qed (simp_all add: st replay_event_def event_of_def payload_item_def opt_str_def)
  with True show ?thesis by blast
qed

section \<open>Reachable databases\<close>

lemma coord_ok_empty: "coord_ok coord_empty"
  by (auto simp: coord_ok_def core_ok_def coord_empty_def chain_ok_def stamped_def replay_ok_def coord_abs_def fun_eq_iff
      find_mission_def deps_ok_def acyclic_deps_def dependency_graph_def edges_def nodes_def leases_ok_def exclusive_def
      bind_ok_def acyclic_def split: option.splits)

lemma bind_store: "snd (coord_bind cid s) = s \<or> (co_meta s = None \<and> snd (coord_bind cid s) = s\<lparr>co_meta := Some (cid, 0, ZERO)\<rparr>)"
  by (auto simp: coord_bind_def split: option.splits prod.splits)

lemma coord_ok_init: "coord_ok s \<Longrightarrow> coord_ok (snd (coord_init cid s))"
proof -
  assume ok: "coord_ok s"
  have "coord_ok (snd (coord_bind cid s))"
  proof (cases "snd (coord_bind cid s) = s")
    case False
    let ?s = "s\<lparr>co_meta := Some (cid, 0, ZERO)\<rparr>"
    from False bind_store have m: "co_meta s = None" and s': "snd (coord_bind cid s) = ?s" by blast+
    have core: "core_ok s" using ok by (simp add: coord_ok_def)
    note D = core_okD [OF core]
    have ev: "co_events s = []" and pl: "co_plans s = []" using D(1) core m by (auto simp: chain_ok_def core_ok_def)
    have "chain_ok ?s" using ev by (simp add: chain_ok_def stamped_def is_hex_def ZERO_def hex_char_def list_all_iff)
    moreover have "replay_ok ?s" using D(2) by (auto simp: replay_ok_def coord_abs_def find_mission_def fun_eq_iff split: option.splits)
    moreover have "acyclic_deps ?s" using D(7) by (simp add: acyclic_deps_def dependency_graph_def)
    ultimately have "core_ok ?s" using D(3-6,8-9) pl by (simp add: core_ok_def)
    then show ?thesis using ok s' by (simp add: coord_ok_def issued_def)
  qed (use ok in simp)
  with ok show ?thesis by (auto simp: coord_init_def split: sum.splits prod.splits)
qed

text \<open>
  One use of the database: opening it with any coordinator id, or an operation of a store object. An object exists
  only once its constructor has succeeded, so the database is bound to its coordinator.
\<close>

inductive coord_step :: "coord_store \<Rightarrow> coord_store \<Rightarrow> bool" where
  open_step: "coord_step s (snd (coord_init cid s))"
| register_step: "coordinator_of s = Some cid \<Longrightarrow> clock_valid c \<Longrightarrow> coord_step s (snd (register_mission depth c x s))"
| plan_step: "coordinator_of s = Some cid \<Longrightarrow> clock_valid c \<Longrightarrow> coord_step s (snd (plan cid c q s))"
| requeue_step: "coordinator_of s = Some cid \<Longrightarrow> clock_valid c \<Longrightarrow> coord_step s (snd (requeue c i did fence evidence s))"
| terminal_step: "coordinator_of s = Some cid \<Longrightarrow> clock_valid c \<Longrightarrow>
    coord_step s (snd (record_terminal c i did fence st evidence s))"

abbreviation coord_reachable :: "coord_store \<Rightarrow> bool" where
  "coord_reachable s \<equiv> coord_step\<^sup>*\<^sup>* coord_empty s"

lemma coord_step_ok: "coord_step s s' \<Longrightarrow> coord_ok s \<Longrightarrow> coord_ok s'"
proof (induction rule: coord_step.induct)
  case (open_step s cid)
  then show ?case by (rule coord_ok_init)
next
  case (register_step s cid c depth x)
  then show ?case using coord_ok_register by blast
next
  case (plan_step s cid c q)
  then show ?case using coord_ok_plan by blast
next
  case (requeue_step s cid c i did fence evidence)
  then show ?case using requeue_cases [of c i did fence evidence s] takes_back_ok by metis
next
  case (terminal_step s cid c i did fence st evidence)
  then show ?case using terminal_cases [of c i did fence st evidence s] takes_back_ok by metis
qed

lemma reachable_ok: "coord_reachable s \<Longrightarrow> coord_ok s"
  by (induction rule: rtranclp_induct) (auto intro: coord_ok_empty coord_step_ok)

end
