(* ===== verification/Fleet_Coordination_Facts.thy ===== *)
theory Fleet_Coordination_Facts
  imports Fleet_Coordination_Steps "HOL-Library.Sublist"
begin

text \<open>
  Facts about reachable databases of the coordination store: path overlap, recorded dispatches, the consistency
  checks of the constructor, the life cycle of a mission, stored plans and snapshots.
\<close>

section \<open>Path overlap\<close>

lemma path_overlap_prefix: "path_overlap a b \<longleftrightarrow> prefix (path_parts a) (path_parts b) \<or> prefix (path_parts b) (path_parts a)"
proof -
  have "take (min (length x) (length y)) x = take (min (length x) (length y)) y \<longleftrightarrow> prefix x y \<or> prefix y x" for x y :: "string list"
  proof (cases "length x \<le> length y")
    case True
    then have "take (min (length x) (length y)) x = take (min (length x) (length y)) y \<longleftrightarrow> x = take (length x) y" by simp
    also have "\<dots> \<longleftrightarrow> prefix x y" by (metis append_take_drop_id prefixE prefixI append_eq_conv_conj)
    also have "\<dots> \<longleftrightarrow> prefix x y \<or> prefix y x" using True by (metis prefix_length_le prefix_order.eq_iff not_equal_is_parallel
          parallelD1 le_antisym)
    finally show ?thesis .
  next
    case False
    then have "take (min (length x) (length y)) x = take (min (length x) (length y)) y \<longleftrightarrow> take (length y) x = y" by simp
    also have "\<dots> \<longleftrightarrow> prefix y x" by (metis append_take_drop_id prefixE prefixI append_eq_conv_conj)
    also have "\<dots> \<longleftrightarrow> prefix x y \<or> prefix y x" using False by (metis prefix_length_le)
    finally show ?thesis .
  qed
  then show ?thesis by (simp add: path_overlap_def Let_def)
qed

lemma split_slash_append: "split_slash acc (a @ CHR ''/'' # t) = split_slash acc a @ split_slash [] t"
  by (induction a arbitrary: acc) auto

lemma join_append: "xs \<noteq> [] \<Longrightarrow> ys \<noteq> [] \<Longrightarrow> join sep (xs @ ys) = join sep xs @ sep @ join sep ys"
proof (induction sep xs rule: join.induct)
  case (2 sep x)
  then show ?case by (cases ys) auto
qed auto

text \<open>On the paths that specifications may hold, the components of one path start those of another exactly when
  the texts are equal or one continues the other after a separator.\<close>

lemma prefix_textual:
  assumes "\<not> unsafe_path a" "\<not> unsafe_path b"
  shows "prefix (path_parts a) (path_parts b) \<longleftrightarrow> a = b \<or> starts_with (a @ ''/'') b"
proof
  have a: "join ''/'' (path_parts a) = a" "path_parts a \<noteq> []" and b: "join ''/'' (path_parts b) = b"
    using assms by (auto simp: unsafe_path_def)
  assume "prefix (path_parts a) (path_parts b)"
  then obtain zs where zs: "path_parts b = path_parts a @ zs" by (auto elim: prefixE)
  then have bj: "b = join ''/'' (path_parts a @ zs)" using b by metis
  show "a = b \<or> starts_with (a @ ''/'') b"
  proof (cases "zs = []")
    case True
    with bj a(1) show ?thesis by simp
  next
    case False
    have "b = a @ ''/'' @ join ''/'' zs" unfolding bj join_append [OF a(2) False] a(1) ..
    then have "\<exists>t. b = (a @ ''/'') @ t" by (metis append.assoc)
    then show ?thesis by (simp only: starts_with_iff) blast
  qed
next
  assume "a = b \<or> starts_with (a @ ''/'') b"
  then obtain t where "a = b \<or> b = a @ CHR ''/'' # t" by (auto simp: starts_with_iff)
  then show "prefix (path_parts a) (path_parts b)"
    by (auto simp: path_parts_def split_slash_append)
qed

text \<open>A path lies under a scope entry when the entry's components start its own.\<close>

definition under :: "string \<Rightarrow> string \<Rightarrow> bool" where
  "under p a \<longleftrightarrow> prefix (path_parts a) (path_parts p)"

lemma disjoint_not_under: "\<not> path_overlap a b \<Longrightarrow> \<not> (under p a \<and> under p b)"
  unfolding path_overlap_prefix under_def using prefix_same_cases by blast

section \<open>Recorded dispatches\<close>

definition seed_of :: "coord_store \<Rightarrow> plan_row \<Rightarrow> dispatch \<Rightarrow> string set" where
  "seed_of s p d = {canon (seed_json ''dispatch'' (fd_coordinator_id d) (pl_request_digest p) r (fd_generation d) (fd_issued_at d))
     | r. find_mission (fd_mission_id d) s = Some r}"

definition dispatch_seeds :: "coord_store \<Rightarrow> string set" where
  "dispatch_seeds s = (\<Union>p\<in>set (co_plans s). \<Union>d\<in>set (plan_dispatches p). seed_of s p d)"

definition collision_free :: "string set \<Rightarrow> bool" where
  "collision_free A \<longleftrightarrow> (\<forall>x\<in>A. \<forall>y\<in>A. \<not> collides x y)"

lemma seed_inject:
  assumes "canon (seed_json k cid rd r g t) = canon (seed_json k' cid' rd' r' g' t')"
  shows "rd = rd' \<and> ms_id r = ms_id r' \<and> fs_drone_id (ms_spec r) = fs_drone_id (ms_spec r') \<and> ms_spec_digest r = ms_spec_digest r'
    \<and> g = g' \<and> t = t' \<and> cid = cid'"
proof -
  have "json_norm (seed_json k cid rd r g t) = json_norm (seed_json k' cid' rd' r' g' t')" using assms by (rule canon_inject)
  then show ?thesis unfolding seed_json_def by (drule_tac json_norm_fields) auto
qed

lemma issued_made:
  assumes ok: "core_ok s" and p: "p \<in> set (co_plans s)" and d: "d \<in> set (plan_dispatches p)"
  shows "\<exists>r q cid. find_mission (fd_mission_id d) s = Some r \<and> coordinator_of s = Some cid \<and> made_for cid (pl_request_digest p) q r d"
proof -
  obtain cid where cid: "coordinator_of s = Some cid" and plan: "plan_ok cid (co_missions s) p"
    using ok p by (fastforce simp: core_ok_def coordinator_of_def)
  from plan obtain q ds where ds: "pl_result p = JList (map dispatch_json ds)"
    "\<forall>d\<in>set ds. \<exists>r\<in>set (co_missions s). made_for cid (pl_request_digest p) q r d" by (auto simp: plan_ok_def)
  then have "plan_dispatches p = ds"
    using dispatches_roundtrip [of ds] by (auto simp: plan_dispatches_def made_for_def)
  with ds(2) d obtain r where r: "r \<in> set (co_missions s)" "made_for cid (pl_request_digest p) q r d" by blast
  have "fd_mission_id d = ms_id r" using r(2) unfolding made_for_def by (auto simp: new_dispatch_def Let_def dest: arg_cong [of _ _ fd_mission_id])
  then show ?thesis using find_row [OF ok r(1)] r(2) cid by auto
qed

lemma made_fields:
  assumes "made_for cid rd q r d"
  shows "fd_coordinator_id d = cid" "fd_dispatch_id d = sha256 (canon (seed_json ''dispatch'' cid rd r (fd_generation d) (fd_issued_at d)))"
    "fd_fencing_token d = sha256 (canon (seed_json ''fence'' cid rd r (fd_generation d) (fd_issued_at d)))"
proof -
  have "d = new_dispatch cid rd q (fd_issued_at d) (r\<lparr>ms_generation := fd_generation d - 1\<rparr>)" using assms by (simp add: made_for_def)
  from arg_cong [OF this, of fd_coordinator_id] arg_cong [OF this, of fd_dispatch_id] arg_cong [OF this, of fd_fencing_token]
  show "fd_coordinator_id d = cid" "fd_dispatch_id d = sha256 (canon (seed_json ''dispatch'' cid rd r (fd_generation d) (fd_issued_at d)))"
    "fd_fencing_token d = sha256 (canon (seed_json ''fence'' cid rd r (fd_generation d) (fd_issued_at d)))"
    by (simp_all add: new_dispatch_def Let_def seed_json_def)
qed

text \<open>Without a collision among the recorded seeds, a dispatch id determines mission, generation and fencing token.\<close>

lemma dispatch_id_unique:
  assumes ok: "core_ok s" and free: "collision_free (dispatch_seeds s)"
    and d: "d \<in> set (issued s)" "d' \<in> set (issued s)" "fd_dispatch_id d = fd_dispatch_id d'"
  shows "fd_mission_id d = fd_mission_id d' \<and> fd_generation d = fd_generation d' \<and> fd_fencing_token d = fd_fencing_token d'"
proof -
  obtain p p' where p: "p \<in> set (co_plans s)" "d \<in> set (plan_dispatches p)" "p' \<in> set (co_plans s)" "d' \<in> set (plan_dispatches p')"
    using d by (auto simp: issued_def)
  from issued_made [OF ok p(1,2)] issued_made [OF ok p(3,4)] obtain r q r' q' cid where
    r: "find_mission (fd_mission_id d) s = Some r" "made_for cid (pl_request_digest p) q r d"
      "find_mission (fd_mission_id d') s = Some r'" "made_for cid (pl_request_digest p') q' r' d'" by auto
  note F = made_fields [OF r(2)] and F' = made_fields [OF r(4)]
  let ?x = "canon (seed_json ''dispatch'' cid (pl_request_digest p) r (fd_generation d) (fd_issued_at d))"
  let ?y = "canon (seed_json ''dispatch'' cid (pl_request_digest p') r' (fd_generation d') (fd_issued_at d'))"
  have "?x \<in> seed_of s p d" "?y \<in> seed_of s p' d'" using r F(1) F'(1) by (auto simp: seed_of_def)
  then have "?x \<in> dispatch_seeds s" "?y \<in> dispatch_seeds s" unfolding dispatch_seeds_def using p by blast+
  moreover have "sha256 ?x = sha256 ?y" using F(2) F'(2) d(3) by simp
  ultimately have "?x = ?y" using free sha256_eqD unfolding collision_free_def by blast
  note eq = seed_inject [OF this]
  then have "canon (seed_json ''fence'' cid (pl_request_digest p) r (fd_generation d) (fd_issued_at d))
      = canon (seed_json ''fence'' cid (pl_request_digest p') r' (fd_generation d') (fd_issued_at d'))"
    by (simp add: seed_json_def)
  then show ?thesis using eq F(3) F'(3) find_mission_SomeD r(1,3) by auto
qed

section \<open>Verification of a reachable database\<close>

lemma verify_spec_ok: "core_ok s \<Longrightarrow> r \<in> set (co_missions s) \<Longrightarrow> verify_spec s r = Inr ()"
proof -
  assume ok: "core_ok s" and r: "r \<in> set (co_missions s)"
  note D = core_okD [OF ok]
  have "snd ` {e \<in> set (co_deps s). fst e = ms_id r} = {d. (ms_id r, d) \<in> set (co_deps s)}" by force
  also have "\<dots> = set (fs_dependencies (ms_spec r))" using D(6) r by (simp add: deps_ok_def)
  finally have deps: "snd ` {e \<in> set (co_deps s). fst e = ms_id r} = set (fs_dependencies (ms_spec r))" .
  have "spec_validate (ms_spec r) = Inr ()" using D(5) [OF r] by (simp add: spec_digest_ok)
  then show ?thesis using D(5) [OF r] deps by (simp add: verify_spec_def or_raise_def)
qed

lemma verify_plan_ok:
  assumes ok: "core_ok s" and p: "p \<in> set (co_plans s)" and cid: "coordinator_of s = Some cid"
  shows "verify_plan cid s p = Inr (plan_dispatches p)"
proof -
  from core_okD(10) [OF ok p cid] obtain q ds where q: "plan_request_digest q = Inr (pl_request_digest p)"
    "fp_request_id q = pl_request_id p" "fp_coordinator_id q = cid" "pl_request p = plan_request_json q"
    and ds: "pl_result p = JList (map dispatch_json ds)" "pl_result_digest p = sha256 (canon (pl_result p))"
      "\<forall>d\<in>set ds. \<exists>r\<in>set (co_missions s). made_for cid (pl_request_digest p) q r d"
    unfolding plan_ok_def by blast
  have valid: "plan_request_validate q = Inr ()" using q(1) by (simp add: plan_request_digest_ok)
  have dec: "dispatches_from_json (pl_result p) = Inr ds"
    using dispatches_roundtrip [of ds] ds(1,3) by (auto simp: made_for_def)
  have "verify_dispatch s q d = Inr ()" if "d \<in> set ds" for d
  proof -
    from ds(3) that obtain r where r: "r \<in> set (co_missions s)" "made_for cid (pl_request_digest p) q r d" by blast
    then have "d = new_dispatch cid (pl_request_digest p) q (fd_issued_at d) (r\<lparr>ms_generation := fd_generation d - 1\<rparr>)"
      and v: "dispatch_validate d = Inr ()" by (auto simp: made_for_def)
    then obtain g t where d: "d = new_dispatch cid (pl_request_digest p) q t (r\<lparr>ms_generation := g\<rparr>)" by blast
    have spec: "spec_validate (ms_spec r) = Inr ()" using core_okD(5) [OF ok r(1)] by (simp add: spec_digest_ok)
    have "find_mission (fd_mission_id d) s = Some r" using find_row [OF ok r(1)] by (simp add: d new_dispatch_def Let_def)
    moreover have "dispatch_validate_for d (ms_spec r) q = Inr ()"
      using v spec valid q(3) unfolding dispatch_validate_for_def by (simp add: d new_dispatch_def Let_def)
    ultimately show ?thesis by (simp add: verify_dispatch_def or_raise_def)
  qed
  then show ?thesis
    using q dec ds(2) request_roundtrip [OF valid] by (simp add: verify_plan_def plan_dispatches_def checks_map_ok)
qed

lemma find_mem: "find P xs = Some x \<Longrightarrow> x \<in> set xs \<and> P x"
  by (auto simp: find_Some_iff)

lemma row_leases_filter:
  assumes ok: "core_ok s" and r: "r \<in> set (co_missions s)"
  shows "set (filter (\<lambda>l. fl_mission_id l = ms_id r) (co_leases s)) = (if ms_state r = ''RUNNING'' then set (row_leases r) else {})"
proof -
  have "l \<in> set (co_leases s) \<and> fl_mission_id l = ms_id r \<longleftrightarrow> ms_state r = ''RUNNING'' \<and> l \<in> set (row_leases r)" for l
  proof -
    have "l \<in> set (co_leases s) \<longleftrightarrow> (\<exists>x\<in>set (co_missions s). ms_state x = ''RUNNING'' \<and> l \<in> set (row_leases x))"
      using core_okD(8) [OF ok] by (auto simp: leases_ok_def)
    moreover have "x = r" if "x \<in> set (co_missions s)" "l \<in> set (row_leases x)" "fl_mission_id l = ms_id r" for x
      using row_unique [OF core_okD(3) [OF ok] that(1) r] row_lease_fields [OF that(2)] that(3) by simp
    moreover have "l \<in> set (row_leases r) \<Longrightarrow> fl_mission_id l = ms_id r" using row_lease_fields by blast
    ultimately show ?thesis using r by blast
  qed
  then show ?thesis by auto
qed

lemma verify_binding_ok:
  assumes ok: "coord_ok s" and free: "collision_free (dispatch_seeds s)" and r: "r \<in> set (co_missions s)"
  shows "verify_binding s (issued s) r = Inr ()"
proof -
  have core: "core_ok s" and bind: "bind_ok (co_missions s) (issued s)" using ok by (auto simp: coord_ok_def)
  note D = core_okD [OF core]
  let ?ls = "filter (\<lambda>l. fl_mission_id l = ms_id r) (co_leases s)"
  have bound: "\<not> (0 < ms_generation r \<and> (case last_dispatch (issued s) (ms_dispatch_id r) of None \<Rightarrow> True
      | Some d \<Rightarrow> Some (fd_fencing_token d) \<noteq> ms_fencing_token r \<or> fd_generation d \<noteq> ms_generation r))"
  proof (cases "0 < ms_generation r")
    case True
    with bind r obtain d where d: "d \<in> set (issued s)" "bound_to r d" by (auto simp: bind_ok_def)
    then have "find (\<lambda>x. Some (fd_dispatch_id x) = ms_dispatch_id r) (rev (issued s)) \<noteq> None"
      by (auto simp: find_None_iff bound_to_def)
    then obtain d' where d': "last_dispatch (issued s) (ms_dispatch_id r) = Some d'" unfolding last_dispatch_def by blast
    then have "d' \<in> set (issued s)" "Some (fd_dispatch_id d') = ms_dispatch_id r"
      using find_mem [of _ "rev (issued s)" d'] unfolding last_dispatch_def by auto
    with dispatch_id_unique [OF core free d(1), of d'] d(2) d' show ?thesis by (simp add: bound_to_def)
  qed simp
  note leases = row_leases_filter [OF core r]
  show ?thesis
  proof (cases "ms_state r = ''RUNNING''")
    case False
    then have "?ls = []" using leases by simp
    with False bound show ?thesis by (simp add: verify_binding_def Let_def)
  next
    case True
    then have ls: "set ?ls = set (row_leases r)" using leases by simp
    obtain did where did: "ms_dispatch_id r = Some did" using D(4) [OF r] True by (auto simp: row_ok_def)
    have "insert (''BRANCH'', fs_branch (ms_spec r)) (Pair ''PATH'' ` set (fs_write_scope (ms_spec r)))
        = (\<lambda>l. (fl_lease_kind l, fl_resource l)) ` set ?ls"
      unfolding ls by (simp add: row_leases_def lease_for_def image_image)
    moreover have "\<not> list_ex (\<lambda>l. Some (fl_dispatch_id l) \<noteq> ms_dispatch_id r \<or> fl_generation l \<noteq> ms_generation r
        \<or> fl_drone_id l \<noteq> fs_drone_id (ms_spec r) \<or> fl_repository l \<noteq> fs_repository (ms_spec r)) ?ls"
      unfolding list_ex_iff ls by (auto simp: row_leases_def lease_for_def did)
    ultimately show ?thesis using True bound by (simp add: verify_binding_def Let_def)
  qed
qed

lemma verify_consistency_ok:
  assumes "coord_ok s" "collision_free (dispatch_seeds s)" "coordinator_of s = Some cid"
  shows "verify_consistency cid s = Inr ()"
proof -
  have core: "core_ok s" using assms(1) by (simp add: coord_ok_def)
  have "map_res (verify_plan cid s) ps = Inr (map plan_dispatches ps)" if "set ps \<subseteq> set (co_plans s)" for ps
    using that by (induction ps) (auto simp: verify_plan_ok [OF core _ assms(3)])
  then show ?thesis
    using verify_spec_ok [OF core] verify_materialized_ok [OF core_okD(2,3) [OF core]] verify_binding_ok [OF assms(1,2)]
    by (simp add: verify_consistency_def checks_map_ok issued_def [symmetric])
qed

section \<open>Life of a mission\<close>

text \<open>The life cycle of a mission: its state and its generation, the number of times it was dispatched.\<close>

inductive life_step :: "string \<times> int \<Rightarrow> string \<times> int \<Rightarrow> bool" where
  dispatched: "st \<in> {''STARTING'', ''WAITING''} \<Longrightarrow> life_step (st, g) (''RUNNING'', g + 1)"
| requeued: "life_step (''RUNNING'', g) (''WAITING'', g)"
| finished: "st \<in> TERMINAL_STATES \<Longrightarrow> life_step (''RUNNING'', g) (st, g)"

inductive_cases life_stepE: "life_step (st, g) (st', g')"

definition life_of :: "mission_row \<Rightarrow> string \<times> int" where
  "life_of r = (ms_state r, ms_generation r)"

text \<open>\<open>r'\<close> is the row \<open>r\<close> after at most one transition of its life cycle.\<close>

definition row_next :: "mission_row \<Rightarrow> mission_row \<Rightarrow> bool" where
  "row_next r r' \<longleftrightarrow> ms_spec r' = ms_spec r \<and> ms_spec_digest r' = ms_spec_digest r \<and> life_step\<^sup>=\<^sup>= (life_of r) (life_of r')
     \<and> (r' = r \<or> life_of r' \<noteq> life_of r)"

lemma row_next_refl [simp]: "row_next r r"
  by (simp add: row_next_def)

lemma rows_same: "r \<in> A \<Longrightarrow> \<exists>x\<in>A. row_next r x"
  using row_next_refl by blast

lemma row_next_run:
  "ms_state row \<in> {''STARTING'', ''WAITING''} \<Longrightarrow> row_next row (run_row (new_dispatch cid rd q now row) t row)"
  by (auto simp: row_next_def run_row_def life_of_def new_dispatch_def Let_def intro: dispatched)

lemma row_next_back:
  "ms_state row = ''RUNNING'' \<Longrightarrow> st = ''WAITING'' \<or> st \<in> TERMINAL_STATES \<Longrightarrow> row_next row (back_row st te rq now row)"
  by (auto simp: row_next_def back_row_def life_of_def TERMINAL_STATES_def intro: requeued finished)

lemma dispatch_fields:
  "dispatch_mission cid rd q now row s = Inr (d, s') \<Longrightarrow> d = new_dispatch cid rd q now row
    \<and> co_missions s' = set_row (ms_id row) (run_row d now) (co_missions s) \<and> co_plans s' = co_plans s
    \<and> coordinator_of s' = coordinator_of s"
  by (erule dispatch_mission_ok) (simp add: coordinator_of_def)

lemma select_rows:
  assumes "select_missions cid rd q now heads rows sel s = Inr (sel', s')" "distinct (map (\<lambda>r. ms_id r) rows)"
    "\<forall>r\<in>set rows. ms_state r \<in> {''STARTING'', ''WAITING''}" "r \<in> set (co_missions s)"
    "\<forall>x\<in>set rows. ms_id x = ms_id r \<longrightarrow> x = r"
  shows "\<exists>r'\<in>set (co_missions s'). row_next r r' \<and> (r \<notin> set rows \<longrightarrow> r' = r)"
  using assms
proof (induction rows arbitrary: sel s r)
  case (Cons row rows)
  from Cons.prems(1) show ?case
  proof (cases rule: select_cases)
    case stop
    with Cons.prems(4) show ?thesis by (intro bexI [of _ r]) simp_all
  next
    case skip
    have "distinct (map (\<lambda>r. ms_id r) rows)" "\<forall>r\<in>set rows. ms_state r \<in> {''STARTING'', ''WAITING''}"
      "\<forall>x\<in>set rows. ms_id x = ms_id r \<longrightarrow> x = r" using Cons.prems(2,3,5) by auto
    from Cons.IH [OF skip this(1,2) Cons.prems(4) this(3)] show ?thesis by auto
  next
    case (run d s1)
    have ms: "co_missions s1 = set_row (ms_id row) (run_row d now) (co_missions s)"
      and d: "d = new_dispatch cid rd q now row" using dispatch_fields [OF run(5)] by blast+
    have rest: "distinct (map (\<lambda>r. ms_id r) rows)" "\<forall>r\<in>set rows. ms_state r \<in> {''STARTING'', ''WAITING''}"
      using Cons.prems(2,3) by auto
    show ?thesis
    proof (cases "ms_id r = ms_id row")
      case True
      then have r: "r = row" using Cons.prems(5) by auto
      let ?r = "run_row d now row"
      have "?r \<in> set (co_missions s1)" using Cons.prems(4) r unfolding ms by force
      moreover have same: "\<forall>x\<in>set rows. ms_id x = ms_id ?r \<longrightarrow> x = ?r"
        using Cons.prems(2) by (auto simp: run_row_def image_iff)
      ultimately obtain r' where "r' \<in> set (co_missions s')" "?r \<notin> set rows \<longrightarrow> r' = ?r"
        using Cons.IH [OF run(6) rest] by blast
      moreover have "?r \<notin> set rows" using rest(2) by (auto simp: run_row_def)
      moreover have "row_next row ?r" unfolding d by (rule row_next_run) (use Cons.prems(3) in simp)
      ultimately show ?thesis using r by auto
    next
      case False
      then have "r \<in> set (co_missions s1)" using Cons.prems(4) unfolding ms by force
      moreover have "\<forall>x\<in>set rows. ms_id x = ms_id r \<longrightarrow> x = r" using Cons.prems(5) by auto
      ultimately have "\<exists>r'\<in>set (co_missions s'). row_next r r' \<and> (r \<notin> set rows \<longrightarrow> r' = r)"
        by (rule Cons.IH [OF run(6) rest])
      then show ?thesis by auto
    qed
  qed
qed auto

lemma commit_missions: "commit_plan q rd now sel s = Inr s' \<Longrightarrow> co_missions s' = co_missions s \<and> (\<exists>p. co_plans s' = co_plans s @ [p]
    \<and> pl_request_id p = fp_request_id q \<and> pl_request_digest p = rd \<and> pl_result p = JList (map dispatch_json sel)
    \<and> pl_result_digest p = sha256 (canon (pl_result p)) \<and> (\<forall>d\<in>set sel. dispatch_validate d = Inr ()))"
  by (auto simp: commit_plan_def and_then_ok dispatches_json_ok Let_def bump_revision_def split: if_splits dest!: append_event_ok)

lemma select_plans:
  "select_missions cid rd q now heads rows sel s = Inr (sel', s') \<Longrightarrow> co_plans s' = co_plans s \<and> coordinator_of s' = coordinator_of s"
proof (induction rows arbitrary: sel s)
  case (Cons row rows)
  from Cons.prems show ?case
  proof (cases rule: select_cases)
    case (run d s1)
    from dispatch_fields [OF run(5)] Cons.IH [OF run(6)] show ?thesis by simp
  qed (use Cons.IH in auto)
qed simp

text \<open>How a plan request ends: refused, answered from the stored plan, or planned and stored.\<close>

definition stored_as :: "coord_store \<Rightarrow> plan_request \<Rightarrow> string \<Rightarrow> dispatch list \<Rightarrow> bool" where
  "stored_as s q rd ds \<longleftrightarrow> (\<exists>p. find_plan (fp_request_id q) s = Some p \<and> pl_request_digest p = rd
     \<and> sha256 (canon (pl_result p)) = pl_result_digest p \<and> dispatches_from_json (pl_result p) = Inr ds)"

lemma plan_cases:
  obtains (refused) e where "plan cid c q s = (Inl e, s)"
    | (cached) rd ds where "plan_request_digest q = Inr rd" "fp_coordinator_id q = cid" "stored_as s q rd ds"
        "plan cid c q s = (Inr ds, s)"
    | (fresh) rd now heads sel s1 s2 where "plan_request_digest q = Inr rd" "find_plan (fp_request_id q) s = None"
        "fp_coordinator_id q = cid" "select_missions cid rd q now heads (candidates s) [] s = Inr (sel, s1)"
        "commit_plan q rd now sel s1 = Inr s2" "plan cid c q s = (Inr sel, s2)"
proof (cases "and_then (plan_request_validate q) (\<lambda>_.
       and_then (raise_when (fp_coordinator_id q \<noteq> cid) FleetCoordinationStateError ''plan coordinator mismatch'') (\<lambda>_.
       plan_request_digest q))")
  case (Inl e)
  then show thesis using refused by (simp add: plan_def)
next
  case (Inr rd)
  then have rd: "plan_request_digest q = Inr rd" "fp_coordinator_id q = cid" by (auto simp: and_then_ok)
  show thesis
  proof (cases "plan_body cid c q rd s")
    case (Inl e)
    with Inr refused show thesis by (simp add: plan_def write_tx_def)
  next
    case body: (Inr y)
    obtain sel s2 where y: "y = (sel, s2)" by (cases y)
    have op: "plan cid c q s = (Inr sel, s2)" using Inr body y by (simp add: plan_def write_tx_def)
    show thesis
    proof (cases "find_plan (fp_request_id q) s")
      case (Some p)
      with body y have "s2 = s" "stored_as s q rd sel" by (auto simp: plan_body_def and_then_ok stored_as_def)
      with cached rd op show thesis by simp
    next
      case None
      with body y obtain now heads s1 where "select_missions cid rd q now heads (candidates s) [] s = Inr (sel, s1)"
        "commit_plan q rd now sel s1 = Inr s2"
        by (auto simp: plan_body_def and_then_ok)
      with fresh rd None op show thesis by blast
    qed
  qed
qed

lemma append_coordinator: "append_event e i p now s = Inr s' \<Longrightarrow> coordinator_of s' = coordinator_of s \<and> co_plans s' = co_plans s"
  using append_event_ok by (fastforce simp: coordinator_of_def)

lemma commit_coordinator: "commit_plan q rd now sel s = Inr s' \<Longrightarrow> coordinator_of s' = coordinator_of s"
  by (auto simp: commit_plan_def and_then_ok Let_def bump_revision_def coordinator_of_def split: if_splits dest!: append_event_ok)

text \<open>One step moves every mission along its life cycle and only appends plans; the coordinator is bound once.\<close>

definition step_frame :: "coord_store \<Rightarrow> coord_store \<Rightarrow> bool" where
  "step_frame s s' \<longleftrightarrow> (\<forall>r\<in>set (co_missions s). \<exists>r'\<in>set (co_missions s'). row_next r r')
     \<and> (\<exists>new. co_plans s' = co_plans s @ new) \<and> (\<forall>cid. coordinator_of s = Some cid \<longrightarrow> coordinator_of s' = Some cid)"

lemma step_frame_refl [simp]: "step_frame s s"
  by (simp add: step_frame_def rows_same)

lemma step_frame_back:
  assumes ok: "core_ok s" and bk: "takes_back i did fence st te rq s s'"
  shows "step_frame s s'"
proof -
  from bk obtain row now cid k prev etype kvs where row: "find_mission i s = Some row" "ms_state row = ''RUNNING''"
    and meta: "co_meta s = Some (cid, k, prev)" and st: "st = ''WAITING'' \<or> st \<in> TERMINAL_STATES"
    and s': "s' = after_release i did st te rq now cid k prev etype kvs s"
    unfolding takes_back_def by blast
  have mem: "row \<in> set (co_missions s)" "ms_id row = i" using find_mission_SomeD [OF row(1)] by auto
  have "\<exists>r'\<in>set (co_missions s'). row_next r r'" if r: "r \<in> set (co_missions s)" for r
  proof (cases "ms_id r = i")
    case True
    with row_unique [OF core_okD(3) [OF ok] r mem(1)] mem have "r = row" by simp
    moreover have "back_row st te rq now row \<in> set (co_missions s')" using mem by (force simp: s' after_release_def)
    ultimately show ?thesis using row_next_back [OF row(2) st] by blast
  next
    case False
    then have "r \<in> set (co_missions s')" using r by (force simp: s' after_release_def)
    then show ?thesis using row_next_refl by blast
  qed
  then show ?thesis using meta by (simp add: step_frame_def s' after_release_def coordinator_of_def)
qed

lemma step_frame_plan:
  assumes "core_ok s"
  shows "step_frame s (snd (plan cid c q s))"
proof (cases rule: plan_cases [of cid c q s])
  case (fresh rd now heads sel s1 s2)
  note P = candidates_props [of s]
  have "\<exists>r'\<in>set (co_missions s1). row_next r r'" if r: "r \<in> set (co_missions s)" for r
    using select_rows [OF fresh(4) P(3) [OF assms] P(2) r] row_unique [OF core_okD(3) [OF assms] _ r] P(1) by blast
  moreover from commit_missions [OF fresh(5)] obtain p where "co_missions s2 = co_missions s1" "co_plans s2 = co_plans s1 @ [p]" by blast
  moreover note select_plans [OF fresh(4)] commit_coordinator [OF fresh(5)]
  ultimately show ?thesis by (simp add: step_frame_def fresh(6))
qed simp_all

lemma coord_step_frame: "coord_step s s' \<Longrightarrow> coord_ok s \<Longrightarrow> step_frame s s'"
proof (induction rule: coord_step.induct)
  case (open_step s cid)
  have "snd (coord_init cid s) = s \<or> snd (coord_init cid s) = snd (coord_bind cid s)"
    by (auto simp: coord_init_def split: sum.splits prod.splits)
  moreover have "step_frame s (s\<lparr>co_meta := Some (cid, 0, ZERO)\<rparr>)" if "co_meta s = None"
    using that by (simp add: step_frame_def coordinator_of_def rows_same)
  ultimately show ?case using bind_store [of cid s] by auto
next
  case (register_step s cid c depth x)
  from register_step(2) show ?case
  proof (cases rule: register_cases [where depth = depth and x = x and s = s])
    case (new dg now cid' r prev kvs)
    show ?thesis using new(6) by (simp add: step_frame_def coordinator_of_def new(7) rows_same)
  qed simp
next
  case (plan_step s cid c q)
  then show ?case using step_frame_plan by (simp add: coord_ok_def)
next
  case (requeue_step s cid c i did fence evidence)
  then have "core_ok s" by (simp add: coord_ok_def)
  then show ?case using requeue_cases [OF requeue_step(2), of i did fence evidence s] step_frame_back step_frame_refl by metis
next
  case (terminal_step s cid c i did fence st evidence)
  then have "core_ok s" by (simp add: coord_ok_def)
  then show ?case using terminal_cases [OF terminal_step(2), of i did fence st evidence s] step_frame_back step_frame_refl by metis
qed

lemma steps_plans: "coord_step\<^sup>*\<^sup>* s s' \<Longrightarrow> coord_ok s \<Longrightarrow> coord_ok s' \<and> (\<exists>new. co_plans s' = co_plans s @ new)
    \<and> (\<forall>cid. coordinator_of s = Some cid \<longrightarrow> coordinator_of s' = Some cid)"
proof (induction rule: rtranclp_induct)
  case (step y z)
  with coord_step_frame [OF step(2)] coord_step_ok [OF step(2)] show ?case by (auto simp: step_frame_def)
qed auto

section \<open>Stored plans answer again\<close>

lemma stored_mono: "stored_as s q rd ds \<Longrightarrow> co_plans s' = co_plans s @ new \<Longrightarrow> stored_as s' q rd ds"
  by (auto simp: stored_as_def find_plan_def find_app)

lemma plan_stores:
  assumes "plan cid c q s = (Inr ds, s')"
  shows "\<exists>rd. plan_request_digest q = Inr rd \<and> fp_coordinator_id q = cid \<and> stored_as s' q rd ds"
proof (cases rule: plan_cases [of cid c q s])
  case (fresh rd now heads sel s1 s2)
  from commit_missions [OF fresh(5)] obtain p where p: "co_plans s2 = co_plans s1 @ [p]" "pl_request_id p = fp_request_id q"
    "pl_request_digest p = rd" "pl_result p = JList (map dispatch_json sel)" "pl_result_digest p = sha256 (canon (pl_result p))"
    "\<forall>d\<in>set sel. dispatch_validate d = Inr ()" by blast
  have "find_plan (fp_request_id q) s2 = Some p"
    using fresh(2) p(1,2) select_plans [OF fresh(4)] by (simp add: find_plan_def find_app)
  then have "stored_as s2 q rd sel" using p dispatches_roundtrip [of sel] by (simp add: stored_as_def)
  with fresh assms show ?thesis by simp
qed (use assms in simp_all)

lemma plan_answers:
  assumes "plan_request_digest q = Inr rd" "fp_coordinator_id q = cid" "stored_as s q rd ds"
  shows "plan cid c q s = (Inr ds, s)"
proof -
  from assms(3) obtain p where "find_plan (fp_request_id q) s = Some p" "pl_request_digest p = rd"
    "sha256 (canon (pl_result p)) = pl_result_digest p" "dispatches_from_json (pl_result p) = Inr ds"
    by (auto simp: stored_as_def)
  then have "plan_body cid c q rd s = Inr (ds, s)" by (simp add: plan_body_def)
  moreover have "plan_request_validate q = Inr ()" using assms(1) by (simp add: plan_request_digest_ok)
  ultimately show ?thesis using assms(1,2) by (simp add: plan_def write_tx_def)
qed

lemma plan_substitution:
  assumes "stored_as s q rd ds" "fp_request_id q' = fp_request_id q" "plan_request_digest q' = Inr rd'" "rd' \<noteq> rd"
    "fp_coordinator_id q' = cid"
  shows "plan cid c q' s = (Inl (coord_error ''request_id replay substitution denied''), s)"
proof -
  from assms(1,2) obtain p where "find_plan (fp_request_id q') s = Some p" "pl_request_digest p = rd" by (auto simp: stored_as_def)
  then have "plan_body cid c q' rd' s = Inl (coord_error ''request_id replay substitution denied'')"
    using assms(4) by (simp add: plan_body_def)
  moreover have "plan_request_validate q' = Inr ()" using assms(3) by (simp add: plan_request_digest_ok)
  ultimately show ?thesis using assms(3,5) by (simp add: plan_def write_tx_def)
qed

section \<open>Snapshots\<close>

lemma coord_text_mono: "\<not> coord_text_invalid l s \<Longrightarrow> l \<le> l' \<Longrightarrow> \<not> coord_text_invalid l' s"
  by (auto simp: coord_text_invalid_def)

lemma spec_ok_text:
  assumes "spec_validate x = Inr ()"
  shows "\<not> coord_text_invalid 4096 (fs_mission_id x)" "\<not> coord_text_invalid 4096 (fs_drone_id x)"
    "coord_repository (fs_repository x) = Inr ()" "coord_branch (fs_branch x) = Inr ()" "\<not> coord_text_invalid 4096 (fs_branch x)"
    "coord_write_scope (fs_write_scope x) = Inr ()"
  using assms coord_text_mono [of 255 "fs_branch x" 4096] by (auto simp: spec_validate_def coord_branch_def)

lemma row_lease_valid:
  assumes "core_ok s" "r \<in> set (co_missions s)" "ms_state r = ''RUNNING''" "l \<in> set (row_leases r)"
  shows "lease_validate l = Inr ()"
proof -
  have spec: "spec_validate (ms_spec r) = Inr ()" using core_okD(5) [OF assms(1,2)] by (simp add: spec_digest_ok)
  note T = spec_ok_text [OF spec]
  have row: "0 < ms_generation r" "is_hex 64 (the (ms_dispatch_id r))" "\<exists>t. ms_updated_at r = utc_text t"
    using core_okD(4) [OF assms(1,2)] assms(3) by (auto simp: row_ok_def)
  from assms(4) consider (branch) "l = lease_for r ''BRANCH'' (fs_branch (ms_spec r))"
    | (path) a where "a \<in> set (fs_write_scope (ms_spec r))" "l = lease_for r ''PATH'' a" by (auto simp: row_leases_def)
  then show ?thesis
  proof cases
    case branch
    then show ?thesis using T row by (auto simp: lease_validate_def lease_for_def LEASE_KINDS_def)
  next
    case path
    then show ?thesis using T row by (auto simp: lease_validate_def lease_for_def LEASE_KINDS_def)
  qed
qed

definition view_of :: "mission_row \<Rightarrow> mission_state" where
  "view_of r = \<lparr>fm_mission_id = ms_id r, fm_drone_id = fs_drone_id (ms_spec r), fm_state = ms_state r,
     fm_generation = ms_generation r, fm_spec_digest = ms_spec_digest r, fm_dispatch_id = ms_dispatch_id r,
     fm_fencing_token = ms_fencing_token r, fm_terminal_evidence_ref = ms_terminal_evidence_ref r,
     fm_updated_at = ms_updated_at r\<rparr>"

definition evidence_ok :: "mission_row \<Rightarrow> bool" where
  "evidence_ok r = (case ms_terminal_evidence_ref r of None \<Rightarrow> True | Some e \<Rightarrow> \<not> coord_text_invalid 4096 e)"

text \<open>A row of a reachable database has a valid view, up to the text of its terminal evidence.\<close>

lemma mission_view_iff:
  assumes "core_ok s" "r \<in> set (co_missions s)"
  shows "mission_state_validate (view_of r) = Inr () \<longleftrightarrow> evidence_ok r"
proof -
  have spec: "spec_validate (ms_spec r) = Inr ()" "is_hex 64 (ms_spec_digest r)"
    using core_okD(5) [OF assms] by (auto simp: spec_digest_ok)
  note T = spec_ok_text [OF spec(1)]
  have row: "row_ok r" using core_okD(4) [OF assms] .
  then obtain t where t: "ms_updated_at r = utc_text t" by (auto simp: row_ok_def)
  have "\<not> falsy (Some d)" if "is_hex 64 d" for d using that by (auto simp: falsy_def is_hex_def)
  with row have run: "\<not> (ms_state r = ''RUNNING'' \<and> (falsy (ms_dispatch_id r) \<or> falsy (ms_fencing_token r) \<or> ms_generation r < 1))"
    by (auto simp: row_ok_def split: if_splits)
  have rest: "ms_state r \<in> MISSION_STATES" "0 \<le> ms_generation r" "\<forall>d. ms_dispatch_id r = Some d \<longrightarrow> is_hex 64 d"
    "\<forall>f. ms_fencing_token r = Some f \<longrightarrow> is_hex 64 f" "\<not> (ms_state r \<in> TERMINAL_STATES \<and> ms_terminal_evidence_ref r = None)"
    using row by (auto simp: row_ok_def split: if_splits)
  show ?thesis
    unfolding mission_state_validate_def using T(1,2) spec(2) t run rest
    by (simp add: view_of_def evidence_ok_def split: option.splits)
qed

lemma mission_view_eq: "mission_view r = and_then (mission_state_validate (view_of r)) (\<lambda>_. Inr (view_of r))"
  by (simp add: mission_view_def view_of_def Let_def)

end
