(* ===== verification/Fleet_Coordination_Run.thy ===== *)
theory Fleet_Coordination_Run
  imports Fleet_Coordination_Facts
begin

text \<open>
  Runs of the coordination store: sufficient conditions under which an event is appended, a single waiting mission is
  dispatched by a plan and a running mission is requeued, and an example run through two generations of a mission. A new
  event is refused only when its digest is already logged, so the example run completes unless SHA-256 collides on two of
  the texts it hashes.
\<close>

section \<open>Progress\<close>

definition logged :: "coord_store \<Rightarrow> string set" where
  "logged s = ev_event_id ` set (co_events s) \<union> ev_event_digest ` set (co_events s)"

lemma append_run:
  "co_meta s = Some (c, r, prev) \<Longrightarrow> event_digest prev typ1 i p now \<notin> logged s \<Longrightarrow>
   append_event typ1 i p now s = Inr (s\<lparr>co_events := co_events s @ [event_of prev typ1 i p now],
     co_meta := Some (c, r, event_digest prev typ1 i p now)\<rparr>)"
  by (auto simp: append_event_def logged_def event_of_def list_ex_iff Let_def image_iff)

lemma logged_append: "co_events s' = co_events s @ es \<Longrightarrow> logged s' = logged s \<union> ev_event_id ` set es \<union> ev_event_digest ` set es"
  by (auto simp: logged_def)

lemma event_of_fields [simp]:
  "ev_event_id (event_of h t i p now) = event_digest h t i p now" "ev_event_digest (event_of h t i p now) = event_digest h t i p now"
  "ev_observed_at (event_of h t i p now) = now"
  by (simp_all add: event_of_def)

lemma insert_leases_run:
  assumes "distinct (map lease_key (co_leases s @ ls))"
  shows "insert_leases ls s = Inr (s\<lparr>co_leases := co_leases s @ ls\<rparr>)"
  using assms
proof (induction ls arbitrary: s)
  case (Cons l ls)
  have "\<not> list_ex (\<lambda>x. lease_key x = lease_key l) (co_leases s)" using Cons.prems by (auto simp: list_ex_iff image_iff)
  then show ?case using Cons.IH [of "s\<lparr>co_leases := co_leases s @ [l]\<rparr>"] Cons.prems by simp
qed simp

lemma dispatch_lease_keys: "distinct (fd_write_scope d) \<Longrightarrow> distinct (map lease_key (dispatch_leases d))"
  by (auto simp: dispatch_leases_def lease_key_def lease_of_def distinct_map inj_on_def)

lemma new_dispatch_valid:
  assumes "spec_validate (ms_spec row) = Inr ()" "plan_request_validate q = Inr ()" "\<not> coord_text_invalid 4096 cid"
    and "0 \<le> ms_generation row"
  shows "dispatch_validate (new_dispatch cid rd q (utc_text t) row) = Inr ()"
  using assms by (simp add: dispatch_validate_def new_dispatch_def spec_validate_def plan_request_validate_def Let_def)

text \<open>The database after a plan that dispatches the mission of \<open>row\<close>.\<close>

definition after_plan :: "string \<Rightarrow> string \<Rightarrow> plan_request \<Rightarrow> string \<Rightarrow> mission_row \<Rightarrow> int \<Rightarrow> string \<Rightarrow> coord_store \<Rightarrow> coord_store" where
  "after_plan cid rd q now row r h s = (let d = new_dispatch cid rd q now row;
     e1 = event_of h ''MISSION_DISPATCHED'' (Some (ms_id row)) (dispatch_event q rd d row) now;
     res = JList [dispatch_json d]; rdg = sha256 (canon res);
     e2 = event_of (ev_event_digest e1) ''PLAN_COMMITTED'' None (commit_event q rd rdg [d]) now in
     s\<lparr>co_missions := set_row (ms_id row) (run_row d now) (co_missions s), co_leases := dispatch_leases d,
       co_plans := co_plans s @ [\<lparr>pl_request_id = fp_request_id q, pl_request_digest = rd, pl_request = plan_request_json q,
         pl_result = res, pl_result_digest = rdg, pl_observed_at = now\<rparr>],
       co_events := co_events s @ [e1, e2], co_meta := Some (cid, r + 1, ev_event_digest e2)\<rparr>)"

lemma plan_single:
  assumes req: "plan_request_digest q = Inr rd" "fp_coordinator_id q = cid" "find_plan (fp_request_id q) s = None"
    and now: "coord_now c s = Inr now"
    and row: "candidates s = [row]" "dependencies_done s (ms_id row)" "distinct (fs_write_scope (ms_spec row))"
      "map_of (fp_current_heads q) (fs_repository (ms_spec row)) = Some (fs_baseline_sha (ms_spec row))" "co_leases s = []"
    and d: "d = new_dispatch cid rd q now row" "dispatch_validate d = Inr ()"
    and meta: "co_meta s = Some (cid, r, h)"
    and h1: "h1 = event_digest h ''MISSION_DISPATCHED'' (Some (ms_id row)) (dispatch_event q rd d row) now" "h1 \<notin> logged s"
    and h2: "event_digest h1 ''PLAN_COMMITTED'' None (commit_event q rd (sha256 (canon (JList [dispatch_json d]))) [d]) now
      \<notin> insert h1 (logged s)"
  shows "plan cid c q s = (Inr [d], after_plan cid rd q now row r h s)"
proof -
  have q: "plan_request_validate q = Inr ()" using req(1) by (simp add: plan_request_digest_ok)
  have scope: "fd_write_scope d = fs_write_scope (ms_spec row)" by (simp add: d(1) new_dispatch_def Let_def)
  let ?s1 = "s\<lparr>co_leases := dispatch_leases d\<rparr>"
  let ?s2 = "?s1\<lparr>co_missions := set_row (ms_id row) (run_row d now) (co_missions s)\<rparr>"
  let ?s3 = "?s2\<lparr>co_events := co_events s @ [event_of h ''MISSION_DISPATCHED'' (Some (ms_id row)) (dispatch_event q rd d row) now],
     co_meta := Some (cid, r, h1)\<rparr>"
  have claim: "claim_leases d s = Inr ?s1"
    using insert_leases_run [of s "dispatch_leases d"] dispatch_lease_keys [of d] row(3,5) scope by (simp add: claim_leases_def)
  have "append_event ''MISSION_DISPATCHED'' (Some (ms_id row)) (dispatch_event q rd d row) now (update_mission (ms_id row) (run_row d now) ?s1)
    = Inr ?s3"
    using append_run [of ?s2 cid r h] meta h1 by (simp add: update_mission_def logged_def)
  then have disp: "dispatch_mission cid rd q now row s = Inr (d, ?s3)"
    using claim d by (simp add: dispatch_mission_def Let_def)
  have free: "leases_available s (fs_repository (ms_spec row)) (fs_branch (ms_spec row)) (fs_write_scope (ms_spec row))"
    using row(5) by (simp add: leases_available_def list_ex_iff)
  have sel: "select_missions cid rd q now (map_of (fp_current_heads q)) [row] [] s = Inr ([d], ?s3)"
    using q row(2,4) free disp by (simp add: plan_request_validate_def)
  let ?res = "JList [dispatch_json d]"
  let ?p = "\<lparr>pl_request_id = fp_request_id q, pl_request_digest = rd, pl_request = plan_request_json q, pl_result = ?res,
     pl_result_digest = sha256 (canon ?res), pl_observed_at = now\<rparr>"
  have noplan: "\<not> list_ex (\<lambda>p. pl_request_id p = fp_request_id q) (co_plans ?s3)"
    using req(3) by (simp add: find_plan_def find_None_iff list_ex_iff)
  have "append_event ''PLAN_COMMITTED'' None (commit_event q rd (sha256 (canon ?res)) [d]) now (?s3\<lparr>co_plans := co_plans s @ [?p]\<rparr>)
    = Inr (?s3\<lparr>co_plans := co_plans s @ [?p],
        co_events := co_events ?s3 @ [event_of h1 ''PLAN_COMMITTED'' None (commit_event q rd (sha256 (canon ?res)) [d]) now],
        co_meta := Some (cid, r, event_digest h1 ''PLAN_COMMITTED'' None (commit_event q rd (sha256 (canon ?res)) [d]) now)\<rparr>)"
    using append_run [of "?s3\<lparr>co_plans := co_plans s @ [?p]\<rparr>" cid r h1 "''PLAN_COMMITTED''" None _ now] h1(1) h2
    by (auto simp: logged_def event_of_def)
  moreover have "dispatches_json [d] = Inr ?res" using d(2) by (simp add: dispatches_json_ok)
  ultimately have "commit_plan q rd now [d] ?s3 = Inr (after_plan cid rd q now row r h s)"
    using q noplan h1(1) d(1) by (simp add: commit_plan_def after_plan_def bump_revision_def event_of_def Let_def)
  then show ?thesis
    using req q now row(1) sel by (simp add: plan_def write_tx_def plan_body_def head_map_def)
qed

text \<open>The database after the mission of \<open>row\<close>, the only one with leases, was requeued.\<close>

definition after_requeue :: "string \<Rightarrow> string \<Rightarrow> string \<Rightarrow> mission_row \<Rightarrow> string \<Rightarrow> int \<Rightarrow> string \<Rightarrow> int \<Rightarrow> coord_store \<Rightarrow> coord_store" where
  "after_requeue did evidence now row cid r h n s = after_release (ms_id row) did ''WAITING'' None (Some evidence) now cid r h ''MISSION_REQUEUED''
     [(''dispatch_id'', JStr did), (''generation'', JInt (ms_generation row)), (''evidence_ref'', JStr evidence),
      (''released_lease_count'', JInt n)] s"

lemma requeue_single:
  assumes row: "find_mission i s = Some row" "ms_state row = ''RUNNING''" "ms_dispatch_id row = Some did" "ms_fencing_token row = Some fence"
    and texts: "coord_state_text i ''mission_id'' = Inr ()" "is_hex 64 did" "is_hex 64 fence" "coord_state_text evidence ''evidence_ref'' = Inr ()"
    and now: "coord_now c s = Inr now" and meta: "co_meta s = Some (cid, r, h)"
    and n: "n = int (count_if (owned_by i did) (co_leases s))"
    and fresh: "event_digest h ''MISSION_REQUEUED'' (Some i) (JObj [(''dispatch_id'', JStr did),
      (''generation'', JInt (ms_generation row)), (''evidence_ref'', JStr evidence), (''released_lease_count'', JInt n)]) now \<notin> logged s"
  shows "requeue c i did fence evidence s = (Inr (), after_requeue did evidence now row cid r h n s)"
proof -
  have i: "i = ms_id row" using find_mission_SomeD [OF row(1)] by simp
  have dig: "coord_state_digest x m = Inr ()" if "is_hex 64 x" for x m
    using that is_hex_text [of 64 x 64] by (simp add: coord_state_digest_def coord_state_text_def text_invalid_def)
  let ?p = "JObj [(''dispatch_id'', JStr did), (''generation'', JInt (ms_generation row)), (''evidence_ref'', JStr evidence),
    (''released_lease_count'', JInt n)]"
  let ?s1 = "update_mission i (back_row ''WAITING'' None (Some evidence) now) (snd (release_leases i did s))"
  have "append_event ''MISSION_REQUEUED'' (Some i) ?p now ?s1 = Inr (?s1\<lparr>co_events := co_events s @ [event_of h ''MISSION_REQUEUED'' (Some i) ?p now],
      co_meta := Some (cid, r, event_digest h ''MISSION_REQUEUED'' (Some i) ?p now)\<rparr>)"
    using append_run [of ?s1 cid r h "''MISSION_REQUEUED''" "Some i" ?p now] meta fresh
    by (simp add: update_mission_def release_leases_def logged_def)
  then have "requeue_body c i did fence evidence s = Inr ((), after_requeue did evidence now row cid r h n s)"
    using row now by (simp add: requeue_body_def require_mission_def require_active_def case_prod_beta n [symmetric]
        release_leases_def back_row_fun after_requeue_def after_release_def bump_revision_def update_mission_def i [symmetric])
  then show ?thesis using texts dig by (simp add: requeue_def write_tx_def)
qed

section \<open>Example database\<close>

definition example_time :: utc_time where
  "example_time = \<lparr>year = 2026, month = 1, day = 5, hour = 6, minute = 0, second = 0, microsecond = 0\<rparr>"

definition example_spec :: coord_spec where
  "example_spec = \<lparr>fs_mission_id = ''m1'', fs_drone_id = ''d1'', fs_repository = ''o/r'', fs_baseline_sha = replicate 40 CHR ''a'',
     fs_baseline_tree_sha = replicate 40 CHR ''b'', fs_branch = ''work'', fs_write_scope = [''docs/a''],
     fs_dependencies = [], fs_evidence_refs = [''e'']\<rparr>"

definition example_opened :: coord_store where
  "example_opened = snd (coord_init ''c'' coord_empty)"

definition example_registered :: coord_store where
  "example_registered = snd (register_mission 5 (Some example_time) example_spec example_opened)"

definition example_plan_request :: plan_request where
  "example_plan_request = \<lparr>fp_request_id = ''q'', fp_coordinator_id = ''c'', fp_current_heads = [(''o/r'', replicate 40 CHR ''a'')],
     fp_max_parallel = 2\<rparr>"

lemma example_time_valid: "valid_utc example_time" "clock_valid (Some example_time)"
  by (code_simp, simp add: clock_valid_def, code_simp)

lemma example_opened_eq: "example_opened = coord_empty\<lparr>co_meta := Some (''c'', 0, ZERO)\<rparr>" "fst (coord_init ''c'' coord_empty) = Inr ()"
proof -
  have "coord_state_text ''c'' ''coordinator_id'' = Inr ()" by code_simp
  then show "example_opened = coord_empty\<lparr>co_meta := Some (''c'', 0, ZERO)\<rparr>" "fst (coord_init ''c'' coord_empty) = Inr ()"
    by (simp_all add: example_opened_def coord_init_def coord_bind_def coord_empty_def verify_event_chain_def
        verify_consistency_def verify_materialized_def)
qed

lemma example_opened_reachable: "coord_reachable example_opened" "coordinator_of example_opened = Some ''c''"
  unfolding example_opened_def by (rule r_into_rtranclp, rule open_step)
    (simp add: example_opened_eq [unfolded example_opened_def] coordinator_of_def)

definition example_now :: string where
  "example_now = utc_text example_time"

definition example_row :: mission_row where
  "example_row = new_mission example_spec (sha256 (canon (spec_json example_spec))) example_now"

definition example_first :: event_row where
  "example_first = event_of ZERO ''MISSION_REGISTERED'' (Some ''m1'')
     (JObj [(''drone_id'', JStr ''d1''), (''spec_digest'', JStr (ms_spec_digest example_row))]) example_now"

lemma example_spec_valid: "spec_validate example_spec = Inr ()"
  by code_simp

lemma example_registered_full:
  "register_mission 5 (Some example_time) example_spec example_opened = (Inr (), example_registered)"
  "example_registered = \<lparr>co_meta = Some (''c'', 1, ev_event_digest example_first), co_missions = [example_row], co_deps = [],
     co_leases = [], co_plans = [], co_events = [example_first]\<rparr>"
proof -
  have "has_cycle 5 (AList.update ''m1'' [] []) = Inr False" by code_simp
  then have "register_mission 5 (Some example_time) example_spec example_opened
    = (Inr (), \<lparr>co_meta = Some (''c'', 1, ev_event_digest example_first), co_missions = [example_row], co_deps = [],
     co_leases = [], co_plans = [], co_events = [example_first]\<rparr>)"
    using example_spec_valid
    by (simp add: register_mission_def write_tx_def register_body_def example_opened_eq coord_empty_def spec_digest_def
        find_mission_def dependency_graph_def coord_now_def coord_utc_def insert_mission_def append_event_def
        bump_revision_def Let_def example_first_def example_row_def example_now_def event_of_def new_mission_def)
      (simp add: example_spec_def Let_def bump_revision_def)
  then show "register_mission 5 (Some example_time) example_spec example_opened = (Inr (), example_registered)"
    "example_registered = \<lparr>co_meta = Some (''c'', 1, ev_event_digest example_first), co_missions = [example_row], co_deps = [],
     co_leases = [], co_plans = [], co_events = [example_first]\<rparr>"
    by (simp_all add: example_registered_def)
qed

lemma example_registered_eq:
  "\<exists>dg. spec_digest example_spec = Inr dg \<and> co_missions example_registered = [new_mission example_spec dg (utc_text example_time)]
     \<and> co_leases example_registered = [] \<and> co_plans example_registered = [] \<and> coordinator_of example_registered = Some ''c''
     \<and> fst (register_mission 5 (Some example_time) example_spec example_opened) = Inr ()"
  using example_registered_full(1) example_spec_valid
  by (simp add: example_registered_full(2) spec_digest_def example_row_def example_now_def coordinator_of_def)

lemma example_registered_reachable: "coord_reachable example_registered"
proof -
  have "coord_step example_opened example_registered"
    unfolding example_registered_def by (rule register_step [OF example_opened_reachable(2) example_time_valid(2)])
  with example_opened_reachable(1) show ?thesis by (rule rtranclp.rtrancl_into_rtrancl)
qed

lemma example_planned: "\<exists>s'. plan ''c'' (Some example_time) example_plan_request example_opened = (Inr [], s')"
proof -
  have valid: "plan_request_validate example_plan_request = Inr ()" by code_simp
  have q: "fp_request_id example_plan_request = ''q''" "fp_coordinator_id example_plan_request = ''c''"
    by (simp_all add: example_plan_request_def)
  show ?thesis
    using valid
    by (simp add: plan_def plan_request_digest_def write_tx_def plan_body_def example_opened_eq coord_empty_def find_plan_def
        coord_now_def coord_utc_def head_map_def candidates_def commit_plan_def dispatches_json_def append_event_def q Let_def)
qed

section \<open>Example run\<close>

text \<open>
  The mission of the example is dispatched, requeued and dispatched again under a second request: the requests, their
  digests, the dispatches, the rows of the mission and the heads of the event log after each event.
\<close>

definition example_second :: plan_request where
  "example_second = example_plan_request\<lparr>fp_request_id := ''q2''\<rparr>"

definition request_sha :: "plan_request \<Rightarrow> string" where
  "request_sha q = sha256 (canon (plan_request_json q))"

definition example_d1 :: dispatch where
  "example_d1 = new_dispatch ''c'' (request_sha example_plan_request) example_plan_request example_now example_row"

definition example_row1 :: mission_row where
  "example_row1 = run_row example_d1 example_now example_row"

definition example_row2 :: mission_row where
  "example_row2 = back_row ''WAITING'' None (Some ''e'') example_now example_row1"

definition example_d2 :: dispatch where
  "example_d2 = new_dispatch ''c'' (request_sha example_second) example_second example_now example_row2"

definition event_json :: "string \<Rightarrow> string \<times> string option \<times> json \<Rightarrow> json" where
  "event_json h e = (case e of (t, i, p) \<Rightarrow> event_payload_json h t i p example_now)"

definition example_log :: "(string \<times> string option \<times> json) list" where
  "example_log = [(''MISSION_DISPATCHED'', Some ''m1'', dispatch_event example_plan_request (request_sha example_plan_request) example_d1 example_row),
     (''PLAN_COMMITTED'', None, commit_event example_plan_request (request_sha example_plan_request) (sha256 (canon (JList [dispatch_json example_d1]))) [example_d1]),
     (''MISSION_REQUEUED'', Some ''m1'', JObj [(''dispatch_id'', JStr (fd_dispatch_id example_d1)), (''generation'', JInt 1),
        (''evidence_ref'', JStr ''e''), (''released_lease_count'', JInt 2)]),
     (''MISSION_DISPATCHED'', Some ''m1'', dispatch_event example_second (request_sha example_second) example_d2 example_row2),
     (''PLAN_COMMITTED'', None, commit_event example_second (request_sha example_second) (sha256 (canon (JList [dispatch_json example_d2]))) [example_d2])]"

text \<open>The texts hashed for the events of the run, each with the digest of the one before.\<close>

fun chain_texts :: "string \<Rightarrow> (string \<times> string option \<times> json) list \<Rightarrow> string list" where
  "chain_texts h [] = []"
| "chain_texts h (e # es) = (let x = canon (event_json h e) in x # chain_texts (sha256 x) es)"

definition example_texts :: "string list" where
  "example_texts = chain_texts ZERO ((''MISSION_REGISTERED'', Some ''m1'',
     JObj [(''drone_id'', JStr ''d1''), (''spec_digest'', JStr (ms_spec_digest example_row))]) # example_log)"

definition example_seeds :: "string list" where
  "example_seeds = [canon (seed_json ''dispatch'' ''c'' (request_sha example_plan_request) example_row 1 example_now),
     canon (seed_json ''dispatch'' ''c'' (request_sha example_second) example_row 2 example_now)]"

lemma event_json_inject: "canon (event_json h (t, i, p)) = canon (event_json h' (t', i', p')) \<Longrightarrow> t = t' \<and> json_norm p = json_norm p'"
  unfolding event_json_def prod.case event_payload_json_def by (drule canon_inject(1), drule json_norm_fields) auto

lemma generation_differs: "json_norm (dispatch_event q rd d row) = json_norm (dispatch_event q' rd' d' row') \<Longrightarrow> fd_generation d = fd_generation d'"
  unfolding dispatch_event_def by (drule json_norm_fields) auto

lemma request_differs: "json_norm (commit_event q rd r ds) = json_norm (commit_event q' rd' r' ds') \<Longrightarrow> fp_request_id q = fp_request_id q'"
  unfolding commit_event_def by (drule json_norm_fields) auto

lemma example_fields:
  "ms_spec example_row = example_spec" "ms_state example_row = ''STARTING''" "ms_generation example_row = 0"
  "ms_spec example_row1 = example_spec" "ms_state example_row1 = ''RUNNING''" "ms_generation example_row1 = 1"
  "ms_dispatch_id example_row1 = Some (fd_dispatch_id example_d1)" "ms_fencing_token example_row1 = Some (fd_fencing_token example_d1)"
  "ms_spec example_row2 = example_spec" "ms_state example_row2 = ''WAITING''" "ms_generation example_row2 = 1"
  "ms_spec_digest example_row2 = ms_spec_digest example_row"
  "fd_generation example_d1 = 1" "fd_generation example_d2 = 2" "fd_mission_id example_d1 = ''m1''" "fd_mission_id example_d2 = ''m1''"
  "fd_branch example_d1 = ''work''" "fd_write_scope example_d1 = [''docs/a'']"
  "is_hex 64 (fd_dispatch_id example_d1)" "is_hex 64 (fd_fencing_token example_d1)"
  "fp_request_id example_plan_request = ''q''" "fp_request_id example_second = ''q2''"
  by (simp_all add: example_row_def new_mission_def example_row1_def run_row_def example_row2_def back_row_def example_d1_def
      example_d2_def new_dispatch_def Let_def example_plan_request_def example_second_def example_spec_def)

lemma example_texts_distinct: "distinct example_texts"
  unfolding example_texts_def example_log_def
  by (simp add: Let_def) (auto dest!: event_json_inject generation_differs request_differs simp: example_fields)

text \<open>The heads of the log: the digest of each text.\<close>

definition example_h1 :: string where
  "example_h1 = map sha256 example_texts ! 0"

definition example_h2 :: string where
  "example_h2 = map sha256 example_texts ! 1"

definition example_h3 :: string where
  "example_h3 = map sha256 example_texts ! 2"

definition example_h4 :: string where
  "example_h4 = map sha256 example_texts ! 3"

definition example_h5 :: string where
  "example_h5 = map sha256 example_texts ! 4"

definition example_h6 :: string where
  "example_h6 = map sha256 example_texts ! 5"

lemma event_json_digest: "sha256 (canon (event_json h (t, i, p))) = event_digest h t i p example_now"
  by (simp add: event_json_def event_digest_def)

lemma example_heads:
  "ev_event_digest example_first = example_h1"
  "event_digest example_h1 ''MISSION_DISPATCHED'' (Some ''m1'') (dispatch_event example_plan_request (request_sha example_plan_request) example_d1 example_row)
     example_now = example_h2"
  "event_digest example_h2 ''PLAN_COMMITTED'' None (commit_event example_plan_request (request_sha example_plan_request)
     (sha256 (canon (JList [dispatch_json example_d1]))) [example_d1]) example_now = example_h3"
  "event_digest example_h3 ''MISSION_REQUEUED'' (Some ''m1'') (JObj [(''dispatch_id'', JStr (fd_dispatch_id example_d1)), (''generation'', JInt 1),
     (''evidence_ref'', JStr ''e''), (''released_lease_count'', JInt 2)]) example_now = example_h4"
  "event_digest example_h4 ''MISSION_DISPATCHED'' (Some ''m1'') (dispatch_event example_second (request_sha example_second) example_d2 example_row2)
     example_now = example_h5"
  "event_digest example_h5 ''PLAN_COMMITTED'' None (commit_event example_second (request_sha example_second)
     (sha256 (canon (JList [dispatch_json example_d2]))) [example_d2]) example_now = example_h6"
  by (simp_all add: example_h1_def example_h2_def example_h3_def example_h4_def example_h5_def example_h6_def example_texts_def example_log_def Let_def event_json_digest example_first_def event_of_def
      eval_nat_numeral)

lemma example_heads_distinct:
  assumes "collision_free (set example_texts)"
  shows "distinct [example_h1, example_h2, example_h3, example_h4, example_h5, example_h6]"
proof -
  have "inj_on sha256 (set example_texts)" using assms unfolding inj_on_def collision_free_def collides_def by blast
  then have "distinct (map sha256 example_texts)" using example_texts_distinct by (simp add: distinct_map)
  moreover have "length example_texts = 6" by (simp add: example_texts_def example_log_def Let_def)
  then have "map sha256 example_texts = [example_h1, example_h2, example_h3, example_h4, example_h5, example_h6]"
    by (intro nth_equalityI) (auto simp: example_h1_def example_h2_def example_h3_def example_h4_def example_h5_def example_h6_def less_Suc_eq eval_nat_numeral)
  ultimately show ?thesis by simp
qed

definition example_running :: coord_store where
  "example_running = snd (plan ''c'' (Some example_time) example_plan_request example_registered)"

definition example_requeued :: coord_store where
  "example_requeued = snd (requeue (Some example_time) ''m1'' (fd_dispatch_id example_d1) (fd_fencing_token example_d1) ''e'' example_running)"

definition example_rerun :: coord_store where
  "example_rerun = snd (plan ''c'' (Some example_time) example_second example_requeued)"

lemma example_now_again: "co_events s \<noteq> [] \<Longrightarrow> ev_observed_at (last (co_events s)) = example_now \<Longrightarrow> coord_now (Some example_time) s = Inr example_now"
  using example_time_valid(1) by (simp add: coord_now_def coord_utc_def example_now_def)

lemma example_requests:
  "plan_request_digest example_plan_request = Inr (request_sha example_plan_request)"
  "plan_request_digest example_second = Inr (request_sha example_second)"
proof -
  have "plan_request_validate example_plan_request = Inr ()" "plan_request_validate example_second = Inr ()" by code_simp+
  then show "plan_request_digest example_plan_request = Inr (request_sha example_plan_request)"
    "plan_request_digest example_second = Inr (request_sha example_second)"
    by (simp_all add: plan_request_digest_def request_sha_def)
qed

lemma example_dispatches_valid: "dispatch_validate example_d1 = Inr ()" "dispatch_validate example_d2 = Inr ()"
proof -
  have c: "\<not> coord_text_invalid 4096 ''c''" by code_simp
  have q: "plan_request_validate example_plan_request = Inr ()" "plan_request_validate example_second = Inr ()"
    using example_requests by (simp_all add: plan_request_digest_ok)
  show "dispatch_validate example_d1 = Inr ()" "dispatch_validate example_d2 = Inr ()"
    unfolding example_d1_def example_d2_def example_now_def
    using q c example_spec_valid by (auto intro!: new_dispatch_valid simp: example_fields)
qed

lemma example_running_eq:
  assumes "collision_free (set example_texts)"
  shows "plan ''c'' (Some example_time) example_plan_request example_registered = (Inr [example_d1], example_running)"
    and "example_running = after_plan ''c'' (request_sha example_plan_request) example_plan_request example_now example_row 1 example_h1 example_registered"
proof -
  have "plan ''c'' (Some example_time) example_plan_request example_registered = (Inr [example_d1],
      after_plan ''c'' (request_sha example_plan_request) example_plan_request example_now example_row 1 example_h1 example_registered)"
  proof (rule plan_single [OF example_requests(1)])
    show "coord_now (Some example_time) example_registered = Inr example_now"
      by (rule example_now_again) (simp_all add: example_registered_full(2) example_first_def event_of_def)
    show "co_meta example_registered = Some (''c'', 1, example_h1)" by (simp add: example_registered_full(2) example_heads)
    show "candidates example_registered = [example_row]" by (simp add: candidates_def example_registered_full(2) example_fields)
    have log: "logged example_registered = {example_h1}"
      using example_heads(1) by (simp add: logged_def example_registered_full(2)) (simp add: example_first_def event_of_def)
    show "event_digest example_h1 ''MISSION_DISPATCHED'' (Some (ms_id example_row)) (dispatch_event example_plan_request
        (request_sha example_plan_request) example_d1 example_row) example_now \<notin> logged example_registered"
      using example_heads_distinct [OF assms] by (auto simp: log example_fields example_spec_def example_heads)
    show "event_digest (event_digest example_h1 ''MISSION_DISPATCHED'' (Some (ms_id example_row)) (dispatch_event example_plan_request
        (request_sha example_plan_request) example_d1 example_row) example_now) ''PLAN_COMMITTED'' None (commit_event example_plan_request (request_sha example_plan_request)
       (sha256 (canon (JList [dispatch_json example_d1]))) [example_d1]) example_now \<notin> insert (event_digest example_h1 ''MISSION_DISPATCHED'' (Some (ms_id example_row)) (dispatch_event example_plan_request
        (request_sha example_plan_request) example_d1 example_row) example_now) (logged example_registered)"
      using example_heads_distinct [OF assms] by (auto simp: log example_fields example_spec_def example_heads)
  qed (use example_dispatches_valid(1) in \<open>simp_all add: find_plan_def example_registered_full(2) dependencies_done_def example_fields
      example_d1_def example_spec_def example_plan_request_def\<close>)
  then show "plan ''c'' (Some example_time) example_plan_request example_registered = (Inr [example_d1], example_running)"
    "example_running = after_plan ''c'' (request_sha example_plan_request) example_plan_request example_now example_row 1 example_h1 example_registered"
    by (simp_all add: example_running_def)
qed

lemma example_logged_first: "logged example_registered = {example_h1}"
  using example_heads(1) by (simp add: logged_def example_registered_full(2) example_first_def)

lemma example_running_events:
  assumes "collision_free (set example_texts)"
  shows "co_events example_running = co_events example_registered @ [
    event_of example_h1 ''MISSION_DISPATCHED'' (Some ''m1'') (dispatch_event example_plan_request (request_sha example_plan_request) example_d1 example_row) example_now,
    event_of example_h2 ''PLAN_COMMITTED'' None (commit_event example_plan_request (request_sha example_plan_request)
     (sha256 (canon (JList [dispatch_json example_d1]))) [example_d1]) example_now]"
  unfolding example_running_eq(2) [OF assms]
  by (simp add: after_plan_def Let_def example_d1_def [symmetric] example_fields example_spec_def example_heads)

lemma example_running_fields:
  assumes "collision_free (set example_texts)"
  shows "co_missions example_running = [example_row1]" "co_meta example_running = Some (''c'', 2, example_h3)"
    "co_leases example_running = dispatch_leases example_d1" "co_deps example_running = []"
    "map pl_request_id (co_plans example_running) = [''q'']" "map pl_request_digest (co_plans example_running) = [request_sha example_plan_request]"
    "map pl_result (co_plans example_running) = [JList [dispatch_json example_d1]]"
    "co_events example_running \<noteq> []" "ev_observed_at (last (co_events example_running)) = example_now"
    "logged example_running = {example_h1, example_h2, example_h3}"
proof -
  show "co_events example_running \<noteq> []" "ev_observed_at (last (co_events example_running)) = example_now"
    by (simp_all add: example_running_events [OF assms])
  show "logged example_running = {example_h1, example_h2, example_h3}"
    unfolding logged_append [OF example_running_events [OF assms]] example_logged_first by (auto simp: example_heads)
  show "co_missions example_running = [example_row1]" "co_meta example_running = Some (''c'', 2, example_h3)"
    "co_leases example_running = dispatch_leases example_d1" "co_deps example_running = []"
    "map pl_request_id (co_plans example_running) = [''q'']" "map pl_request_digest (co_plans example_running) = [request_sha example_plan_request]"
    "map pl_result (co_plans example_running) = [JList [dispatch_json example_d1]]"
    unfolding example_running_eq(2) [OF assms]
    by (simp_all add: after_plan_def Let_def example_registered_full(2) example_d1_def [symmetric] example_row1_def
        example_fields example_spec_def example_heads)
qed

lemma example_requeued_eq:
  assumes "collision_free (set example_texts)"
  shows "requeue (Some example_time) ''m1'' (fd_dispatch_id example_d1) (fd_fencing_token example_d1) ''e'' example_running = (Inr (), example_requeued)"
    and "example_requeued = after_requeue (fd_dispatch_id example_d1) ''e'' example_now example_row1 ''c'' 2 example_h3 2 example_running"
proof -
  note F = example_running_fields [OF assms]
  have "requeue (Some example_time) ''m1'' (fd_dispatch_id example_d1) (fd_fencing_token example_d1) ''e'' example_running
    = (Inr (), after_requeue (fd_dispatch_id example_d1) ''e'' example_now example_row1 ''c'' 2 example_h3 2 example_running)"
  proof (rule requeue_single [OF _ _ _ _ _ _ _ _ _ F(2)])
    show "coord_now (Some example_time) example_running = Inr example_now" using F(8,9) by (rule example_now_again)
    show "coord_state_text ''m1'' ''mission_id'' = Inr ()" "coord_state_text ''e'' ''evidence_ref'' = Inr ()" by code_simp+
    show "find_mission ''m1'' example_running = Some example_row1" by (simp add: find_mission_def F(1) example_fields example_spec_def)
    show "2 = int (count_if (owned_by ''m1'' (fd_dispatch_id example_d1)) (co_leases example_running))"
      by (simp add: F(3) dispatch_leases_def example_fields owned_by_def lease_of_def)
    show "event_digest example_h3 ''MISSION_REQUEUED'' (Some ''m1'') (JObj [(''dispatch_id'', JStr (fd_dispatch_id example_d1)),
        (''generation'', JInt (ms_generation example_row1)), (''evidence_ref'', JStr ''e''), (''released_lease_count'', JInt 2)]) example_now
      \<notin> logged example_running"
      using example_heads_distinct [OF assms] by (auto simp: F(10) example_fields example_heads)
  qed (simp_all add: example_fields)
  then show "requeue (Some example_time) ''m1'' (fd_dispatch_id example_d1) (fd_fencing_token example_d1) ''e'' example_running = (Inr (), example_requeued)"
    "example_requeued = after_requeue (fd_dispatch_id example_d1) ''e'' example_now example_row1 ''c'' 2 example_h3 2 example_running"
    by (simp_all add: example_requeued_def)
qed

lemma example_requeued_events:
  assumes "collision_free (set example_texts)"
  shows "co_events example_requeued = co_events example_running @ [event_of example_h3 ''MISSION_REQUEUED'' (Some ''m1'')
    (JObj [(''dispatch_id'', JStr (fd_dispatch_id example_d1)), (''generation'', JInt 1), (''evidence_ref'', JStr ''e''),
      (''released_lease_count'', JInt 2)]) example_now]"
  unfolding example_requeued_eq(2) [OF assms]
  by (simp add: after_requeue_def after_release_def example_fields example_spec_def)

lemma example_requeued_fields:
  assumes "collision_free (set example_texts)"
  shows "co_missions example_requeued = [example_row2]" "co_meta example_requeued = Some (''c'', 3, example_h4)"
    "co_leases example_requeued = []" "co_deps example_requeued = []" "co_plans example_requeued = co_plans example_running"
    "co_events example_requeued \<noteq> []" "ev_observed_at (last (co_events example_requeued)) = example_now"
    "logged example_requeued = {example_h1, example_h2, example_h3, example_h4}"
proof -
  show "co_events example_requeued \<noteq> []" "ev_observed_at (last (co_events example_requeued)) = example_now"
    by (simp_all add: example_requeued_events [OF assms])
  show "logged example_requeued = {example_h1, example_h2, example_h3, example_h4}"
    unfolding logged_append [OF example_requeued_events [OF assms]] example_running_fields(10) [OF assms] by (auto simp: example_heads)
  show "co_missions example_requeued = [example_row2]" "co_meta example_requeued = Some (''c'', 3, example_h4)"
    "co_leases example_requeued = []" "co_deps example_requeued = []" "co_plans example_requeued = co_plans example_running"
    using example_running_fields(1-4) [OF assms]
    unfolding example_requeued_eq(2) [OF assms]
    by (simp_all add: after_requeue_def after_release_def example_fields example_spec_def example_row2_def example_heads
        dispatch_leases_def owned_by_def lease_of_def)
qed

lemma example_rerun_eq:
  assumes "collision_free (set example_texts)"
  shows "plan ''c'' (Some example_time) example_second example_requeued = (Inr [example_d2], example_rerun)"
    and "example_rerun = after_plan ''c'' (request_sha example_second) example_second example_now example_row2 3 example_h4 example_requeued"
proof -
  note F = example_requeued_fields [OF assms]
  have noplan: "find_plan ''q2'' example_requeued = None"
    using example_running_fields(5) [OF assms] by (auto simp: find_plan_def find_None_iff F(5))
  have "plan ''c'' (Some example_time) example_second example_requeued = (Inr [example_d2],
      after_plan ''c'' (request_sha example_second) example_second example_now example_row2 3 example_h4 example_requeued)"
  proof (rule plan_single [OF example_requests(2)])
    show "coord_now (Some example_time) example_requeued = Inr example_now" using F(6,7) by (rule example_now_again)
    show "event_digest example_h4 ''MISSION_DISPATCHED'' (Some (ms_id example_row2)) (dispatch_event example_second
        (request_sha example_second) example_d2 example_row2) example_now \<notin> logged example_requeued"
      using example_heads_distinct [OF assms] by (auto simp: F(8) example_fields example_spec_def example_heads)
    show "event_digest (event_digest example_h4 ''MISSION_DISPATCHED'' (Some (ms_id example_row2)) (dispatch_event example_second
        (request_sha example_second) example_d2 example_row2) example_now) ''PLAN_COMMITTED'' None (commit_event example_second (request_sha example_second)
       (sha256 (canon (JList [dispatch_json example_d2]))) [example_d2]) example_now \<notin> insert (event_digest example_h4 ''MISSION_DISPATCHED'' (Some (ms_id example_row2)) (dispatch_event example_second
        (request_sha example_second) example_d2 example_row2) example_now) (logged example_requeued)"
      using example_heads_distinct [OF assms] by (auto simp: F(8) example_fields example_spec_def example_heads)
  qed (use example_dispatches_valid(2) F noplan in \<open>simp_all add: candidates_def dependencies_done_def example_fields
      example_d2_def example_spec_def example_plan_request_def example_second_def\<close>)
  then show "plan ''c'' (Some example_time) example_second example_requeued = (Inr [example_d2], example_rerun)"
    "example_rerun = after_plan ''c'' (request_sha example_second) example_second example_now example_row2 3 example_h4 example_requeued"
    by (simp_all add: example_rerun_def)
qed

lemma example_rerun_reachable:
  assumes "collision_free (set example_texts)"
  shows "coord_reachable example_rerun"
proof -
  have c: "coordinator_of example_registered = Some ''c''" "coordinator_of example_running = Some ''c''" "coordinator_of example_requeued = Some ''c''"
    using example_running_fields(2) [OF assms] example_requeued_fields(2) [OF assms]
    by (simp_all add: coordinator_of_def example_registered_full(2))
  have "coord_step example_registered example_running" "coord_step example_running example_requeued" "coord_step example_requeued example_rerun"
    unfolding example_running_def example_requeued_def example_rerun_def
    by (rule plan_step [OF c(1) example_time_valid(2)])
       (rule requeue_step [OF c(2) [unfolded example_running_def] example_time_valid(2)], rule plan_step [OF c(3) [unfolded example_requeued_def example_running_def] example_time_valid(2)])
  with example_registered_reachable show ?thesis by (meson rtranclp.rtrancl_into_rtrancl)
qed

lemma example_rerun_plans:
  assumes "collision_free (set example_texts)"
  shows "\<exists>p1 p2. co_plans example_rerun = [p1, p2] \<and> plan_dispatches p1 = [example_d1] \<and> plan_dispatches p2 = [example_d2]
    \<and> pl_request_digest p1 = request_sha example_plan_request \<and> pl_request_digest p2 = request_sha example_second"
proof -
  have reads: "dispatches_from_json (JList [dispatch_json d]) = Inr [d]" if "dispatch_validate d = Inr ()" for d
    using dispatches_roundtrip [of "[d]"] that by simp
  note F = example_running_fields [OF assms] example_requeued_fields(5) [OF assms]
  obtain p1 where p1: "co_plans example_running = [p1]" using F(5) by (auto simp: map_eq_Cons_conv)
  have D1: "plan_dispatches p1 = [example_d1]" "pl_request_digest p1 = request_sha example_plan_request"
    using F(6,7) reads [OF example_dispatches_valid(1)] by (simp_all add: p1 plan_dispatches_def)
  obtain p2 where p2: "co_plans example_rerun = [p1, p2]" "pl_result p2 = JList [dispatch_json example_d2]" "pl_request_digest p2 = request_sha example_second"
    unfolding example_rerun_eq(2) [OF assms] by (simp add: after_plan_def Let_def F(11) p1 example_d2_def [symmetric])
  have "plan_dispatches p2 = [example_d2]" using p2(2) reads [OF example_dispatches_valid(2)] by (simp add: plan_dispatches_def)
  then show ?thesis using p2 D1 by simp
qed

lemma example_rerun_facts:
  assumes "collision_free (set example_texts)"
  shows "issued example_rerun = [example_d1, example_d2]"
    "find_mission ''m1'' example_rerun = Some (run_row example_d2 example_now example_row2)"
    "dispatch_seeds example_rerun = set example_seeds"
proof -
  obtain p1 p2 where P: "co_plans example_rerun = [p1, p2]" "plan_dispatches p1 = [example_d1]" "plan_dispatches p2 = [example_d2]"
    "pl_request_digest p1 = request_sha example_plan_request" "pl_request_digest p2 = request_sha example_second"
    using example_rerun_plans [OF assms] by blast
  show "issued example_rerun = [example_d1, example_d2]" by (simp add: issued_def P)
  show m: "find_mission ''m1'' example_rerun = Some (run_row example_d2 example_now example_row2)"
    using example_requeued_fields(1) [OF assms]
    unfolding example_rerun_eq(2) [OF assms] find_mission_def
    by (simp add: after_plan_def Let_def example_d2_def [symmetric] example_fields example_spec_def run_row_def)
  have d: "fd_coordinator_id example_d1 = ''c''" "fd_issued_at example_d1 = example_now" "fd_coordinator_id example_d2 = ''c''"
    "fd_issued_at example_d2 = example_now" by (simp_all add: example_d1_def example_d2_def new_dispatch_def Let_def)
  have "seed_json k c rd (run_row example_d2 example_now example_row2) g t = seed_json k c rd example_row g t" for k c rd g t
    by (simp add: seed_json_def run_row_def example_fields)
  then show "dispatch_seeds example_rerun = set example_seeds"
    by (simp add: dispatch_seeds_def P seed_of_def m d example_fields example_seeds_def insert_commute)
qed

text \<open>A rival of the example mission that wants the directory above its scope, registered and planned beside it.\<close>

definition example_rival :: coord_spec where
  "example_rival = example_spec\<lparr>fs_mission_id := ''m2'', fs_drone_id := ''d2'', fs_branch := ''other'', fs_write_scope := [''docs'']\<rparr>"

definition example_contested :: coord_store where
  "example_contested = snd (plan ''c'' (Some example_time) example_plan_request
     (snd (register_mission 5 (Some example_time) example_rival example_registered)))"

lemma example_contested_reachable: "coord_reachable example_contested"
proof -
  have c: "coordinator_of example_registered = Some ''c''" by (simp add: coordinator_of_def example_registered_full(2))
  have step: "coord_step example_registered (snd (register_mission 5 (Some example_time) example_rival example_registered))"
    by (rule register_step [OF c example_time_valid(2)])
  have "coordinator_of (snd (register_mission 5 (Some example_time) example_rival example_registered)) = Some ''c''"
    using coord_step_frame [OF step reachable_ok [OF example_registered_reachable]] c by (simp add: step_frame_def)
  from plan_step [OF this example_time_valid(2)]
  have "coord_step (snd (register_mission 5 (Some example_time) example_rival example_registered)) example_contested"
    unfolding example_contested_def .
  with step example_registered_reachable show ?thesis by (meson rtranclp.rtrancl_into_rtrancl)
qed

end
