(* ===== verification/Fleet_Coordination_Props.thy ===== *)
theory Fleet_Coordination_Props
  imports Fleet_Coordination_Run
begin

text \<open>
  What the coordination store guarantees on every reachable database: acyclic dependencies, exclusive leases, fenced
  dispatches, an event log that refines the mission table, recovery after a restart, replayed plans, and snapshots.
\<close>

section \<open>Properties\<close>

text \<open>Dependencies stay acyclic: on every reachable database the dependencies among registered missions have no
  cycle, also when a mission was registered before the missions it depends on, and the dependency table holds exactly
  the dependencies of the specifications.\<close>

theorem dependencies_acyclic:
  assumes "coord_reachable s"
  shows "acyclic {(i, d) \<in> set (co_deps s). d \<in> (\<lambda>r. ms_id r) ` set (co_missions s)}
    \<and> (\<forall>r\<in>set (co_missions s). {d. (ms_id r, d) \<in> set (co_deps s)} = set (fs_dependencies (ms_spec r)))"
proof -
  have ok: "core_ok s" using reachable_ok [OF assms] by (simp add: coord_ok_def)
  note D = core_okD [OF ok]
  have "nodes (dependency_graph s) = (\<lambda>r. ms_id r) ` set (co_missions s)"
    using D(6) by (auto simp: graph_nodes deps_ok_def)
  then have "edges (dependency_graph s) = {(i, d) \<in> set (co_deps s). d \<in> (\<lambda>r. ms_id r) ` set (co_missions s)}"
    using D(6) by (force simp: edges_def graph_deps deps_ok_def)
  with D(6,7) show ?thesis by (simp add: acyclic_deps_def deps_ok_def)
qed

theorem dependencies_acyclic_witness:
  "co_missions example_registered \<noteq> [] \<and> acyclic {(i, d) \<in> set (co_deps example_registered).
     d \<in> (\<lambda>r. ms_id r) ` set (co_missions example_registered)}"
  using dependencies_acyclic [OF example_registered_reachable] example_registered_eq by auto

text \<open>The overlap test on path components is the textual one: for the canonical paths a specification may hold, two
  scope entries overlap exactly when they are equal or one continues the other after a separator.\<close>

theorem path_overlap_textual:
  assumes "\<not> unsafe_path a" and "\<not> unsafe_path b"
  shows "path_overlap a b \<longleftrightarrow> a = b \<or> starts_with (a @ ''/'') b \<or> starts_with (b @ ''/'') a"
  unfolding path_overlap_prefix using prefix_textual [OF assms] prefix_textual [OF assms(2,1)] by blast

theorem path_overlap_textual_witness: "path_overlap ''docs'' ''docs/a'' \<and> \<not> path_overlap ''doc'' ''docs/a''"
proof -
  have "\<not> unsafe_path ''docs''" "\<not> unsafe_path ''doc''" "\<not> unsafe_path ''docs/a''" by code_simp+
  then show ?thesis
    using path_overlap_textual [of "''docs''" "''docs/a''"] path_overlap_textual [of "''doc''" "''docs/a''"] by simp
qed

text \<open>C5. Running missions exclude each other: on every reachable database two different running missions of one
  repository work on different branches, no entries of their write scopes overlap, and no path lies under both scopes.\<close>

theorem lease_exclusion:
  assumes "coord_reachable s"
  shows "\<forall>r\<in>set (co_missions s). \<forall>r'\<in>set (co_missions s). ms_state r = ''RUNNING'' \<and> ms_state r' = ''RUNNING''
      \<and> ms_id r \<noteq> ms_id r' \<and> fs_repository (ms_spec r) = fs_repository (ms_spec r') \<longrightarrow>
    fs_branch (ms_spec r) \<noteq> fs_branch (ms_spec r')
    \<and> (\<forall>a\<in>set (fs_write_scope (ms_spec r)). \<forall>b\<in>set (fs_write_scope (ms_spec r')).
        \<not> path_overlap a b \<and> \<not> (\<exists>p. under p a \<and> under p b))"
proof (intro ballI impI)
  fix r r'
  assume r: "r \<in> set (co_missions s)" "r' \<in> set (co_missions s)"
    and run: "ms_state r = ''RUNNING'' \<and> ms_state r' = ''RUNNING'' \<and> ms_id r \<noteq> ms_id r'
      \<and> fs_repository (ms_spec r) = fs_repository (ms_spec r')"
  have ok: "core_ok s" using reachable_ok [OF assms] by (simp add: coord_ok_def)
  note D = core_okD [OF ok]
  have mem: "set (row_leases r) \<subseteq> set (co_leases s)" "set (row_leases r') \<subseteq> set (co_leases s)"
    using D(8) r run by (auto simp: leases_ok_def)
  have free: "\<not> conflict l l'" if "l \<in> set (row_leases r)" "l' \<in> set (row_leases r')" for l l'
  proof -
    have "fl_mission_id l \<noteq> fl_mission_id l'" using row_lease_fields [OF that(1)] row_lease_fields [OF that(2)] run by simp
    then show ?thesis using D(9) mem that unfolding exclusive_def by blast
  qed
  have "fs_branch (ms_spec r) \<noteq> fs_branch (ms_spec r')"
    using free [of "lease_for r ''BRANCH'' (fs_branch (ms_spec r))" "lease_for r' ''BRANCH'' (fs_branch (ms_spec r'))"] run
    by (simp add: row_leases_def conflict_def lease_for_def)
  moreover have "\<not> path_overlap a b" if "a \<in> set (fs_write_scope (ms_spec r))" "b \<in> set (fs_write_scope (ms_spec r'))" for a b
    using free [of "lease_for r ''PATH'' a" "lease_for r' ''PATH'' b"] run that
    by (simp add: row_leases_def conflict_def lease_for_def)
  ultimately show "fs_branch (ms_spec r) \<noteq> fs_branch (ms_spec r')
    \<and> (\<forall>a\<in>set (fs_write_scope (ms_spec r)). \<forall>b\<in>set (fs_write_scope (ms_spec r')).
        \<not> path_overlap a b \<and> \<not> (\<exists>p. under p a \<and> under p b))"
    using disjoint_not_under by blast
qed

theorem lease_exclusion_witness:
  "coord_reachable example_contested
   \<and> \<not> (\<exists>r\<in>set (co_missions example_contested). \<exists>r'\<in>set (co_missions example_contested). ms_spec r = example_spec
        \<and> ms_spec r' = example_rival \<and> ms_state r = ''RUNNING'' \<and> ms_state r' = ''RUNNING'')"
proof -
  have "path_overlap ''docs/a'' ''docs''" by code_simp
  then show ?thesis
    using lease_exclusion [OF example_contested_reachable] example_contested_reachable
    by (fastforce simp: example_rival_def example_spec_def)
qed

text \<open>C17. Stale dispatches are fenced off: a worker that holds the id and token of a dispatch that its mission has since
  outlived, by a later dispatch, can neither requeue the mission nor finish it, and its attempt changes nothing, unless
  SHA-256 collides on two recorded dispatch seeds.\<close>

theorem stale_dispatch_fenced:
  assumes "coord_reachable s" and "collision_free (dispatch_seeds s)"
  shows "\<forall>d\<in>set (issued s). \<forall>r. find_mission (fd_mission_id d) s = Some r \<and> ms_generation r \<noteq> fd_generation d \<longrightarrow>
    (\<exists>e. requeue c (fd_mission_id d) (fd_dispatch_id d) (fd_fencing_token d) evidence s = (Inl e, s))
    \<and> (\<exists>e. record_terminal c (fd_mission_id d) (fd_dispatch_id d) (fd_fencing_token d) st evidence s = (Inl e, s))"
proof (intro ballI allI impI)
  fix d r
  assume d: "d \<in> set (issued s)" and r: "find_mission (fd_mission_id d) s = Some r \<and> ms_generation r \<noteq> fd_generation d"
  have ok: "core_ok s" "bind_ok (co_missions s) (issued s)" using reachable_ok [OF assms(1)] by (auto simp: coord_ok_def)
  have mem: "r \<in> set (co_missions s)" "row_ok r" using r find_mission_SomeD core_okD(4) [OF ok(1)] by blast+
  have stale: "ms_dispatch_id r \<noteq> Some (fd_dispatch_id d)"
  proof
    assume eq: "ms_dispatch_id r = Some (fd_dispatch_id d)"
    then have "0 < ms_generation r" using mem(2) by (auto simp: row_ok_def split: if_splits)
    with ok(2) mem(1) obtain d' where d': "d' \<in> set (issued s)" "bound_to r d'" by (auto simp: bind_ok_def)
    with dispatch_id_unique [OF ok(1) assms(2) d, of d'] eq r show False by (auto simp: bound_to_def)
  qed
  have "requeue_body c (fd_mission_id d) (fd_dispatch_id d) (fd_fencing_token d) evidence s
      \<in> range (Inl :: exn \<Rightarrow> (unit \<times> coord_store) res)"
    using r stale by (auto simp: requeue_body_def require_mission_def require_active_def)
  moreover have "terminal_body c (fd_mission_id d) (fd_dispatch_id d) (fd_fencing_token d) st evidence s
      \<in> range (Inl :: exn \<Rightarrow> (unit \<times> coord_store) res)"
    using r stale by (auto simp: terminal_body_def require_mission_def require_active_def)
  ultimately show "(\<exists>e. requeue c (fd_mission_id d) (fd_dispatch_id d) (fd_fencing_token d) evidence s = (Inl e, s))
    \<and> (\<exists>e. record_terminal c (fd_mission_id d) (fd_dispatch_id d) (fd_fencing_token d) st evidence s = (Inl e, s))"
    by (auto simp: requeue_def record_terminal_def write_tx_def split: sum.splits)
qed

text \<open>In the example run the first dispatch is outlived by the second.\<close>

theorem stale_dispatch_fenced_witness:
  "(\<exists>x\<in>set (example_texts @ example_seeds). \<exists>y\<in>set (example_texts @ example_seeds). collides x y)
   \<or> (\<exists>d r. d \<in> set (issued example_rerun) \<and> find_mission (fd_mission_id d) example_rerun = Some r \<and> ms_generation r = 2 \<and> fd_generation d = 1
     \<and> (\<exists>e. requeue (Some example_time) (fd_mission_id d) (fd_dispatch_id d) (fd_fencing_token d) ''e'' example_rerun = (Inl e, example_rerun))
     \<and> (\<exists>e. record_terminal (Some example_time) (fd_mission_id d) (fd_dispatch_id d) (fd_fencing_token d) ''DONE'' ''e'' example_rerun
          = (Inl e, example_rerun)))"
proof (cases "\<exists>x\<in>set (example_texts @ example_seeds). \<exists>y\<in>set (example_texts @ example_seeds). collides x y")
  case False
  then have free: "collision_free (set example_texts)" "collision_free (set example_seeds)" by (auto simp: collision_free_def)
  note F = example_rerun_facts [OF free(1)]
  let ?r = "run_row example_d2 example_now example_row2"
  have d: "example_d1 \<in> set (issued example_rerun)" "fd_mission_id example_d1 = ''m1''" "fd_generation example_d1 = 1" "ms_generation ?r = 2"
    by (simp_all add: F(1) example_fields run_row_def)
  have "\<forall>r. find_mission (fd_mission_id example_d1) example_rerun = Some r \<and> ms_generation r \<noteq> fd_generation example_d1 \<longrightarrow>
    (\<exists>e. requeue (Some example_time) (fd_mission_id example_d1) (fd_dispatch_id example_d1) (fd_fencing_token example_d1) ''e'' example_rerun = (Inl e, example_rerun))
    \<and> (\<exists>e. record_terminal (Some example_time) (fd_mission_id example_d1) (fd_dispatch_id example_d1) (fd_fencing_token example_d1) ''DONE'' ''e'' example_rerun
      = (Inl e, example_rerun))"
    using stale_dispatch_fenced [OF example_rerun_reachable [OF free(1)]] free(2) d(1) unfolding F(3) by blast
  then show ?thesis using d F(2) by (intro disjI2 exI [of _ example_d1] exI [of _ ?r]) simp
qed blast

text \<open>C18. The event log refines the mission table: on every reachable database, replaying the log from the beginning
  succeeds and yields, for every mission, exactly the state, generation, dispatch, token and evidence of its row, and
  nothing for any other id. So the check the constructor makes of it passes.\<close>

theorem replay_refines_missions:
  assumes "coord_reachable s"
  shows "(\<exists>m. replay_events (co_events s) [] = Inr m \<and> map_of m = coord_abs s) \<and> verify_materialized s = Inr ()"
proof -
  have ok: "core_ok s" using reachable_ok [OF assms] by (simp add: coord_ok_def)
  note D = core_okD [OF ok]
  from D(2) verify_materialized_ok [OF D(2,3)] show ?thesis by (simp add: replay_ok_def)
qed

theorem replay_refines_missions_witness:
  "\<exists>m r. replay_events (co_events example_registered) [] = Inr m \<and> map_of m (Some ''m1'') = Some r \<and> rp_state r = JStr ''STARTING''"
proof -
  obtain m where m: "replay_events (co_events example_registered) [] = Inr m" "map_of m = coord_abs example_registered"
    using replay_refines_missions [OF example_registered_reachable] by blast
  obtain dg where "co_missions example_registered = [new_mission example_spec dg (utc_text example_time)]"
    using example_registered_eq by auto
  then have "coord_abs example_registered (Some ''m1'') = Some (replay_of (new_mission example_spec dg (utc_text example_time)))"
    by (simp add: coord_abs_def find_mission_def new_mission_def example_spec_def)
  with m show ?thesis by (simp add: replay_of_def new_mission_def)
qed

text \<open>C19. Missions follow their life cycle: a step on a reachable database removes no mission and changes no
  specification, and moves each mission by at most one transition: from starting or waiting to running with the next
  generation, from running to waiting, or from running to a terminal state. A terminal mission never changes.\<close>

theorem mission_lifecycle:
  assumes "coord_reachable s" and "coord_step s s'" and "r \<in> set (co_missions s)"
  shows "\<exists>r'\<in>set (co_missions s'). ms_spec r' = ms_spec r \<and> life_step\<^sup>=\<^sup>= (life_of r) (life_of r')
    \<and> (ms_state r \<in> TERMINAL_STATES \<longrightarrow> r' = r)"
proof -
  from coord_step_frame [OF assms(2) reachable_ok [OF assms(1)]] assms(3) obtain r' where
    r': "r' \<in> set (co_missions s')" "row_next r r'" by (auto simp: step_frame_def)
  moreover have "r' = r" if "ms_state r \<in> TERMINAL_STATES"
  proof -
    have "\<not> life_step (life_of r) x" for x
      using that by (cases x) (auto simp: life_of_def TERMINAL_STATES_def elim: life_stepE)
    with r'(2) show ?thesis by (auto simp: row_next_def)
  qed
  ultimately show ?thesis unfolding row_next_def by blast
qed

theorem mission_lifecycle_witness:
  "\<exists>r\<in>set (co_missions example_registered). \<exists>r'\<in>set (co_missions (snd (requeue (Some example_time) ''m1'' ZERO ZERO ''e'' example_registered))).
     ms_state r = ''STARTING'' \<and> ms_spec r' = ms_spec r \<and> life_step\<^sup>=\<^sup>= (life_of r) (life_of r')"
proof -
  obtain dg where dg: "co_missions example_registered = [new_mission example_spec dg (utc_text example_time)]"
    and c: "coordinator_of example_registered = Some ''c''" using example_registered_eq by auto
  have "coord_step example_registered (snd (requeue (Some example_time) ''m1'' ZERO ZERO ''e'' example_registered))"
    by (rule requeue_step [OF c example_time_valid(2)])
  from mission_lifecycle [OF example_registered_reachable this, of "new_mission example_spec dg (utc_text example_time)"] dg
  show ?thesis by (auto simp: new_mission_def)
qed

text \<open>C20. A restart recovers: on every reachable database the constructor called with the coordinator the database is
  bound to passes all its checks (the event chain, specifications, stored plans, the replayed log, the bindings of
  rows to dispatches and leases) and leaves the database as it is, unless SHA-256 collides on two recorded dispatch seeds;
  any other coordinator is refused.\<close>

theorem restart_recovers:
  assumes "coord_reachable s" and "coordinator_of s = Some cid" and "\<not> blank cid" and "nul \<notin> set cid"
    and "collision_free (dispatch_seeds s)"
  shows "coord_init cid s = (Inr (), s) \<and> (cid' \<noteq> cid \<longrightarrow> (\<exists>e. coord_init cid' s = (Inl e, s)))"
proof -
  have ok: "coord_ok s" using reachable_ok [OF assms(1)] .
  then have core: "core_ok s" by (simp add: coord_ok_def)
  obtain k h where meta: "co_meta s = Some (cid, k, h)" using assms(2) by (auto simp: coordinator_of_def)
  have "verify_event_chain s = Inr h" using chain_ok_verifies [OF core_okD(1) [OF core] meta] .
  then show ?thesis
    using verify_consistency_ok [OF ok assms(5,2)] assms(3,4) meta
    by (auto simp: coord_init_def coord_bind_def coord_state_text_def split: sum.splits)
qed

theorem restart_recovers_witness:
  "coord_init ''c'' example_registered = (Inr (), example_registered)
   \<and> (\<exists>e. coord_init ''other'' example_registered = (Inl e, example_registered))"
proof -
  have free: "collision_free (dispatch_seeds example_registered)"
    using example_registered_eq by (auto simp: collision_free_def dispatch_seeds_def)
  have ctext: "\<not> blank ''c''" "nul \<notin> set ''c''" by code_simp+
  have c: "coordinator_of example_registered = Some ''c''" using example_registered_eq by auto
  from restart_recovers [OF example_registered_reachable c ctext free, of "''other''"] show ?thesis by simp
qed

text \<open>Plans are replayed, not recomputed: once a plan request has been answered, every later request with the same
  content, at any later state and clock reading, returns the same dispatches and changes nothing, and a request that
  reuses its id with another digest is refused.\<close>

theorem plan_replayed:
  assumes "coord_reachable s" and "coordinator_of s = Some cid" and "clock_valid c"
    and "plan cid c q s = (Inr ds, s')" and "coord_step\<^sup>*\<^sup>* s' s''"
  shows "plan cid c' q s'' = (Inr ds, s'')
    \<and> (fp_request_id q' = fp_request_id q \<and> fp_coordinator_id q' = cid \<and> plan_request_digest q' = Inr rd'
        \<and> plan_request_digest q \<noteq> Inr rd' \<longrightarrow>
       plan cid c'' q' s'' = (Inl (coord_error ''request_id replay substitution denied''), s''))"
proof -
  have "coord_ok s'" using coord_ok_plan [OF reachable_ok [OF assms(1)] assms(2,3), of q] assms(4) by simp
  from steps_plans [OF assms(5) this] obtain new where new: "co_plans s'' = co_plans s' @ new" by blast
  from plan_stores [OF assms(4)] obtain rd where rd: "plan_request_digest q = Inr rd" "fp_coordinator_id q = cid" "stored_as s' q rd ds" by blast
  have st: "stored_as s'' q rd ds" using stored_mono [OF rd(3) new] .
  from plan_answers [OF rd(1,2) st] plan_substitution [OF st] rd(1) show ?thesis by auto
qed

theorem plan_replayed_witness:
  "\<exists>s'. plan ''c'' (Some example_time) example_plan_request example_opened = (Inr [], s')
     \<and> plan ''c'' None example_plan_request s' = (Inr [], s')"
proof -
  obtain s' where s': "plan ''c'' (Some example_time) example_plan_request example_opened = (Inr [], s')"
    using example_planned by blast
  from plan_replayed [OF example_opened_reachable example_time_valid(2) s' rtranclp.rtrancl_refl] s' show ?thesis by blast
qed

text \<open>C22. Reads are well typed: on every reachable database whose coordinator id and terminal evidence references are
  texts the contracts accept, the snapshot succeeds; its missions are the rows in the order of their ids, each a
  valid \<open>FleetMissionState\<close>, and its leases are the lease table in key order, each a valid \<open>FleetLease\<close>.\<close>

theorem snapshot_total:
  assumes "coord_reachable s" and "coordinator_of s = Some cid" and "\<not> coord_text_invalid 4096 cid"
    and "\<forall>r\<in>set (co_missions s). evidence_ok r"
  shows "\<exists>x. coord_read_snapshot s = Inr x \<and> fx_coordinator_id x = cid
    \<and> fx_missions x = map view_of (sort_key (\<lambda>r. ms_id r) (co_missions s)) \<and> fx_active_leases x = sort_key lease_key (co_leases s)
    \<and> (\<forall>m\<in>set (fx_missions x). mission_state_validate m = Inr ()) \<and> (\<forall>l\<in>set (fx_active_leases x). lease_validate l = Inr ())"
proof -
  have ok: "core_ok s" using reachable_ok [OF assms(1)] by (simp add: coord_ok_def)
  note D = core_okD [OF ok]
  let ?ms = "sort_key (\<lambda>r. ms_id r) (co_missions s)" and ?ls = "sort_key lease_key (co_leases s)"
  obtain k h where meta: "co_meta s = Some (cid, k, h)" "0 \<le> k" "is_hex 64 h"
    using assms(2) D(1) by (auto simp: coordinator_of_def chain_ok_def)
  have views: "mission_state_validate (view_of r) = Inr ()" if "r \<in> set ?ms" for r
    using mission_view_iff [OF ok, of r] assms(4) that by simp
  have "map_res mission_view xs = Inr (map view_of xs)" if "set xs \<subseteq> set ?ms" for xs
    using that by (induction xs) (auto simp: mission_view_eq views)
  then have missions: "map_res mission_view ?ms = Inr (map view_of ?ms)" by simp
  have valid: "lease_validate l = Inr ()" if "l \<in> set ?ls" for l
    using D(8) that row_lease_valid [OF ok] by (auto simp: leases_ok_def)
  have "map_res (\<lambda>l. and_then (lease_validate l) (\<lambda>_. Inr l)) xs = Inr xs" if "set xs \<subseteq> set ?ls" for xs
    using that by (induction xs) (auto simp: valid)
  then have leases: "active_leases s = Inr ?ls" by (simp add: active_leases_def)
  let ?x = "\<lparr>fx_coordinator_id = cid, fx_revision = k, fx_event_head = h, fx_missions = map view_of ?ms, fx_active_leases = ?ls\<rparr>"
  have "distinct (map fm_mission_id (map view_of ?ms))"
    using D(3) by (simp add: view_of_def comp_def distinct_map inj_on_def)
  then have "coord_snapshot_validate ?x = Inr ()"
    using assms(3) meta(2,3) views valid unfolding coord_snapshot_validate_def by (auto simp: checks_map_ok)
  then have "coord_read_snapshot s = Inr ?x"
    by (simp add: coord_read_snapshot_def missions meta(1) leases Let_def)
  then show ?thesis using views valid by (intro exI [of _ ?x]) auto
qed

theorem snapshot_total_witness:
  "\<exists>x. coord_read_snapshot example_registered = Inr x \<and> map fm_mission_id (fx_missions x) = [''m1'']"
proof -
  obtain dg where dg: "co_missions example_registered = [new_mission example_spec dg (utc_text example_time)]"
    and c: "coordinator_of example_registered = Some ''c''" using example_registered_eq by auto
  have ctext: "\<not> coord_text_invalid 4096 ''c''" by code_simp
  have "\<forall>r\<in>set (co_missions example_registered). evidence_ok r" by (simp add: dg evidence_ok_def new_mission_def)
  from snapshot_total [OF example_registered_reachable c ctext this] dg show ?thesis
    by (auto simp: view_of_def new_mission_def example_spec_def)
qed

text \<open>
  The last hypothesis is not a consequence of the code: \<open>record_terminal\<close> accepts evidence that the contract of the
  mission state refuses, and then no snapshot succeeds any more.
\<close>

lemma terminal_evidence_accepted: "coord_state_text (replicate 5000 CHR ''e'') ''evidence_ref'' = Inr ()"
  by (simp add: coord_state_text_def blank_def list_all_iff py_space_def nul_def)

lemma snapshot_poisoned:
  assumes "coord_reachable s" "r \<in> set (co_missions s)" "\<not> evidence_ok r"
  shows "\<exists>e. coord_read_snapshot s = Inl e"
proof -
  have ok: "core_ok s" using reachable_ok [OF assms(1)] by (simp add: coord_ok_def)
  have "mission_state_validate (view_of r) \<noteq> Inr ()" using mission_view_iff [OF ok assms(2)] assms(3) by simp
  then obtain e where e: "mission_view r = Inl e"
    unfolding mission_view_eq by (cases "mission_state_validate (view_of r)") auto
  have "\<exists>e. map_res mission_view xs = Inl e" if "r \<in> set xs" for xs
    using that e by (induction xs) (auto simp: and_then_def split: sum.splits)
  then have "\<exists>e. map_res mission_view (sort_key (\<lambda>r. ms_id r) (co_missions s)) = Inl e" using assms(2) by simp
  then show ?thesis by (auto simp: coord_read_snapshot_def)
qed

end
