(* ===== verification/Enterprise_Models.thy ===== *)
theory Enterprise_Models
  imports Authority_Grant Complex_Main
begin

text \<open>
  The contracts of enterprise/models.py (agents, missions, swarms and topology deltas) and the deterministic gate of
  enterprise/control_plane.py: action proposals, gate decisions, execution receipts, the admission of a proposal and the
  receipt of its execution.

  A Python number that is only compared is a \<open>pynum\<close>: an exact rational (the value of an \<open>int\<close> or of a finite
  \<open>float\<close>, which Python compares exactly), an infinity, or NaN, which is below and above nothing.
\<close>

section \<open>Numbers and text\<close>

datatype pynum = Num rat | PosInf | NegInf | NaN

fun num_le :: "pynum \<Rightarrow> pynum \<Rightarrow> bool" where
  "num_le NaN y = False"
| "num_le x NaN = False"
| "num_le NegInf y = True"
| "num_le x PosInf = True"
| "num_le (Num a) (Num b) = (a \<le> b)"
| "num_le _ _ = False"

definition num_less :: "pynum \<Rightarrow> pynum \<Rightarrow> bool" where
  "num_less x y = (num_le x y \<and> \<not> num_le y x)"

definition in_unit :: "pynum \<Rightarrow> bool" where
  "in_unit x = (num_le (Num 0) x \<and> num_le x (Num 1))"

lemma in_unit_Num: "in_unit x \<longleftrightarrow> (\<exists>q. x = Num q \<and> 0 \<le> q \<and> q \<le> 1)"
  by (cases x) (auto simp: in_unit_def)

lemma negative_num: "num_less x (Num 0) \<longleftrightarrow> x = NegInf \<or> (\<exists>q. x = Num q \<and> q < 0)"
  by (cases x) (auto simp: num_less_def)

text \<open>\<open>repr\<close> of a string and of a list of strings, as an f-string prints them.\<close>

definition repr_char :: "char \<Rightarrow> char \<Rightarrow> string" where
  "repr_char q c = (let n = (of_char c :: nat) in
     if c = q \<or> c = CHR 0x5C then [CHR 0x5C, c]
     else if n = 9 then CHR 0x5C # ''t'' else if n = 10 then CHR 0x5C # ''n'' else if n = 13 then CHR 0x5C # ''r''
     else if n < 32 \<or> (127 \<le> n \<and> n \<le> 160) \<or> n = 173 then CHR 0x5C # ''x'' @ hex_text 2 (int n)
     else [c])"

definition repr_str :: "string \<Rightarrow> string" where
  "repr_str s = (let q = (if CHR 0x27 \<in> set s \<and> CHR 0x22 \<notin> set s then CHR 0x22 else CHR 0x27) in
     q # concat (map (repr_char q) s) @ [q])"

definition repr_list :: "string list \<Rightarrow> string" where
  "repr_list xs = ''['' @ join '', '' (map repr_str xs) @ '']''"

section \<open>Agents, missions, swarms and deltas\<close>

abbreviation model_error :: "bool \<Rightarrow> string \<Rightarrow> unit res" where
  "model_error b m \<equiv> raise_when b EnterpriseModelError m"

definition RISK_CLASSES :: "string list" where
  "RISK_CLASSES = [''GREEN'', ''AMBER'', ''RED'']"

definition rank_check :: "string \<Rightarrow> unit res" where
  "rank_check value = and_then (authority_rank value) (\<lambda>_. Inr ())"

text \<open>\<open>authority_rank(a) > authority_rank(b)\<close>, used where both ranks are known.\<close>

definition rank_above :: "string \<Rightarrow> string \<Rightarrow> bool" where
  "rank_above a b = (case (authority_rank a, authority_rank b) of (Inr x, Inr y) \<Rightarrow> y < x | _ \<Rightarrow> False)"

record agent_spec =
  as_agent_id :: string
  as_version :: string
  as_role :: string
  as_mission :: string
  as_capabilities :: "string list"
  as_authority_ceiling :: string
  as_execution_domain :: string
  as_observability_events :: "string list"
  as_memory_read :: bool
  as_memory_write :: bool
  as_memory_policy_ids :: "string list"
  as_max_runtime_seconds :: int
  as_max_cost_units :: pynum
  as_risk_class :: string
  as_provider_class :: string
  as_is_verifier :: bool
  as_process_profile :: "string option"

definition agent_validate :: "agent_spec \<Rightarrow> unit res" where
  "agent_validate a = checks [
     model_error (as_agent_id a = [] \<or> as_version a = [] \<or> as_role a = [] \<or> as_mission a = [])
       ''agent identity/version/role/mission are required'',
     model_error (as_capabilities a = [] \<or> list_ex (\<lambda>x. x = []) (as_capabilities a))
       ''agent must declare at least one capability'',
     model_error (\<not> no_dup (as_capabilities a)) ''agent capabilities must be unique'',
     rank_check (as_authority_ceiling a),
     model_error (as_risk_class a \<notin> set RISK_CLASSES) (''invalid risk_class: '' @ as_risk_class a),
     model_error (as_max_runtime_seconds a \<le> 0 \<or> num_less (as_max_cost_units a) (Num 0))
       ''runtime must be positive and cost budget non-negative'',
     model_error (as_memory_write a \<and> as_memory_policy_ids a = []) ''memory_write requires explicit memory_policy_ids'',
     model_error (rank_above (as_authority_ceiling a) ''read'' \<and> as_observability_events a = [])
       ''consequential agent authority requires observability events'']"

record mission_spec =
  mi_mission_id :: string
  mi_purpose :: string
  mi_required_capabilities :: "string list"
  mi_authority_ceiling :: string
  mi_risk_class :: string
  mi_max_agents :: int
  mi_observability_quorum :: pynum
  mi_require_independent_verifier :: bool
  mi_max_total_cost_units :: pynum

definition mission_validate :: "mission_spec \<Rightarrow> unit res" where
  "mission_validate m = checks [
     model_error (mi_mission_id m = [] \<or> mi_purpose m = []) ''mission_id and purpose are required'',
     model_error (mi_required_capabilities m = [] \<or> list_ex (\<lambda>x. x = []) (mi_required_capabilities m))
       ''mission requires at least one capability'',
     model_error (\<not> no_dup (mi_required_capabilities m)) ''required capabilities must be unique'',
     rank_check (mi_authority_ceiling m),
     model_error (mi_risk_class m \<notin> set RISK_CLASSES) (''invalid risk_class: '' @ mi_risk_class m),
     model_error (mi_max_agents m \<le> 0) ''max_agents must be positive'',
     model_error (\<not> in_unit (mi_observability_quorum m)) ''observability_quorum must be in [0,1]'',
     model_error (num_less (mi_max_total_cost_units m) (Num 0)) ''max_total_cost_units must be non-negative'']"

record swarm_spec =
  sw_swarm_id :: string
  sw_mission_id :: string
  sw_member_agent_ids :: "string list"
  sw_covered_capabilities :: "string list"
  sw_topology :: string
  sw_authority_ceiling :: string
  sw_risk_class :: string
  sw_observability_quorum :: pynum
  sw_verifier_agent_ids :: "string list"
  sw_estimated_cost_units :: pynum

definition swarm_validate :: "swarm_spec \<Rightarrow> unit res" where
  "swarm_validate w = checks [
     model_error (sw_swarm_id w = [] \<or> sw_mission_id w = [] \<or> sw_member_agent_ids w = [])
       ''swarm identity/mission/members are required'',
     model_error (\<not> no_dup (sw_member_agent_ids w)) ''swarm member IDs must be unique'',
     rank_check (sw_authority_ceiling w),
     model_error (sw_risk_class w \<notin> set RISK_CLASSES) (''invalid risk_class: '' @ sw_risk_class w),
     model_error (\<not> in_unit (sw_observability_quorum w)) ''observability_quorum must be in [0,1]'',
     model_error (num_less (sw_estimated_cost_units w) (Num 0)) ''estimated_cost_units must be non-negative'',
     model_error (sw_risk_class w = ''RED'' \<and> sw_verifier_agent_ids w = []) ''RED swarm requires an independent verifier'']"

record mosaic_delta =
  md_delta_id :: string
  md_swarm_id :: string
  md_added_agents :: "string list"
  md_removed_agents :: "string list"
  md_added_edges :: "(string \<times> string) list"
  md_removed_edges :: "(string \<times> string) list"
  md_authority_before :: string
  md_authority_after :: string
  md_reason :: string
  md_evidence_refs :: "string list"
  md_gate_event_id :: "string option"

text \<open>\<open>not value\<close> for an optional string: absent or empty.\<close>

definition no_text :: "string option \<Rightarrow> bool" where
  "no_text x = (case x of None \<Rightarrow> True | Some s \<Rightarrow> s = [])"

definition delta_validate :: "mosaic_delta \<Rightarrow> unit res" where
  "delta_validate d = checks [
     model_error (md_delta_id d = [] \<or> md_swarm_id d = [] \<or> md_reason d = []) ''delta_id/swarm_id/reason are required'',
     rank_check (md_authority_before d),
     rank_check (md_authority_after d),
     model_error (rank_above (md_authority_after d) (md_authority_before d) \<and> no_text (md_gate_event_id d))
       ''authority-expanding MosaicDelta requires gate_event_id'',
     model_error (list_ex (\<lambda>x. x \<in> set (md_removed_agents d)) (md_added_agents d))
       ''same agent cannot be added and removed in one delta'',
     model_error (md_evidence_refs d = []) ''MosaicDelta requires evidence_refs'']"

section \<open>Proposals, decisions and receipts\<close>

record action_proposal =
  ap_proposal_id :: string
  ap_mission_id :: string
  ap_swarm_id :: string
  ap_proposer_agent_id :: string
  ap_capability :: string
  ap_requested_authority :: string
  ap_action_class :: string
  ap_target :: string
  ap_consequential :: bool
  ap_evidence_refs :: "string list"
  ap_required_observability :: "string list"
  ap_verifier_agent_id :: "string option"
  ap_payload_digest :: "string option"

definition proposal_validate :: "action_proposal \<Rightarrow> unit res" where
  "proposal_validate p = checks [
     model_error (ap_proposal_id p = [] \<or> ap_mission_id p = [] \<or> ap_swarm_id p = [] \<or> ap_proposer_agent_id p = [])
       ''proposal identity/mission/swarm/proposer are required'',
     model_error (ap_capability p = [] \<or> ap_action_class p = [] \<or> ap_target p = [])
       ''proposal capability/action_class/target are required'',
     rank_check (ap_requested_authority p),
     model_error (ap_consequential p \<and> ap_evidence_refs p = []) ''consequential proposal requires evidence_refs'',
     model_error (ap_consequential p \<and> ap_required_observability p = [])
       ''consequential proposal requires observability requirements'']"

record gate_decision =
  gd_gate_event_id :: string
  gd_proposal_id :: string
  gd_decision :: string
  gd_effective_authority :: string
  gd_policy_ids :: "string list"
  gd_rationale :: string
  gd_verifier_agent_id :: "string option"

definition gate_validate :: "gate_decision \<Rightarrow> unit res" where
  "gate_validate d = checks [
     model_error (gd_decision d \<noteq> ''ALLOW'' \<and> gd_decision d \<noteq> ''DENY'') ''gate decision must be ALLOW or DENY'',
     model_error (gd_gate_event_id d = [] \<or> gd_proposal_id d = [] \<or> gd_rationale d = [])
       ''gate identity/proposal/rationale are required'',
     rank_check (gd_effective_authority d),
     model_error (gd_decision d = ''ALLOW'' \<and> gd_policy_ids d = []) ''ALLOW requires policy_ids'',
     model_error (gd_decision d = ''DENY'' \<and> gd_effective_authority d \<noteq> ''none'')
       ''DENY must have effective_authority=none'']"

record execution_receipt =
  er_receipt_id :: string
  er_proposal_id :: string
  er_gate_event_id :: string
  er_executor_agent_id :: string
  er_outcome :: string
  er_effect_digest :: string
  er_observed_events :: "string list"
  er_side_effect_refs :: "string list"

definition execution_receipt_validate :: "execution_receipt \<Rightarrow> unit res" where
  "execution_receipt_validate r = checks [
     model_error (er_receipt_id r = [] \<or> er_proposal_id r = [] \<or> er_gate_event_id r = [] \<or> er_executor_agent_id r = [])
       ''receipt identity/proposal/gate/executor are required'',
     model_error (er_outcome r \<notin> {''SUCCEEDED'', ''FAILED'', ''PARTIAL'', ''ABORTED''}) ''invalid execution outcome'',
     model_error (er_effect_digest r = []) ''execution receipt requires effect_digest'',
     model_error (er_observed_events r = []) ''execution receipt requires observed_events'']"

section \<open>The gate\<close>

definition gate_deny :: "action_proposal \<Rightarrow> string \<Rightarrow> string \<Rightarrow> gate_decision res" where
  "gate_deny p gate rationale = (let d = \<lparr>gd_gate_event_id = gate, gd_proposal_id = ap_proposal_id p, gd_decision = ''DENY'',
       gd_effective_authority = ''none'', gd_policy_ids = [], gd_rationale = rationale, gd_verifier_agent_id = None\<rparr>
     in and_then (gate_validate d) (\<lambda>_. Inr d))"

text \<open>\<open>set(required) - set(observed)\<close>, sorted.\<close>

definition missing_events :: "string list \<Rightarrow> string list \<Rightarrow> string list" where
  "missing_events required observed = sort (remdups (filter (\<lambda>e. e \<notin> set observed) required))"

definition verifier_required :: "action_proposal \<Rightarrow> mission_spec \<Rightarrow> bool" where
  "verifier_required p m = (ap_consequential p \<and> (mi_risk_class m = ''RED''
     \<or> \<not> rank_above ''external_write'' (ap_requested_authority p) \<or> mi_require_independent_verifier m))"

text \<open>The checks of the verifier: the rationale of a denial, or none.\<close>

definition verifier_check :: "action_proposal \<Rightarrow> swarm_spec \<Rightarrow> (string \<rightharpoonup> agent_spec) \<Rightarrow> string option res" where
  "verifier_check p w agents = (case ap_verifier_agent_id p of
     None \<Rightarrow> Inr (Some ''independent verifier required'')
   | Some v \<Rightarrow>
       if v = [] \<or> v = ap_proposer_agent_id p then Inr (Some ''independent verifier required'')
       else if v \<notin> set (sw_verifier_agent_ids w) then Inr (Some ''verifier is not admitted by SwarmSpec'')
       else (case agents v of
           None \<Rightarrow> Inr (Some ''invalid verifier AgentSpec'')
         | Some a \<Rightarrow> and_then (agent_validate a) (\<lambda>_.
             Inr (if as_is_verifier a then None else Some ''invalid verifier AgentSpec''))))"

definition gate_evaluate ::
  "action_proposal \<Rightarrow> mission_spec \<Rightarrow> swarm_spec \<Rightarrow> (string \<rightharpoonup> agent_spec) \<Rightarrow> string list \<Rightarrow> string list \<Rightarrow> string
    \<Rightarrow> gate_decision res" where
  "gate_evaluate p m w agents policy_ids observed gate =
     and_then (checks [proposal_validate p, mission_validate m, swarm_validate w]) (\<lambda>_.
     if ap_mission_id p \<noteq> mi_mission_id m \<or> ap_swarm_id p \<noteq> sw_swarm_id w
       then gate_deny p gate ''proposal mission/swarm binding mismatch''
     else if ap_proposer_agent_id p \<notin> set (sw_member_agent_ids w) then gate_deny p gate ''proposer is not a swarm member''
     else case agents (ap_proposer_agent_id p) of
       None \<Rightarrow> gate_deny p gate ''proposer AgentSpec unavailable''
     | Some proposer \<Rightarrow> and_then (agent_validate proposer) (\<lambda>_.
         if ap_capability p \<notin> set (as_capabilities proposer) then gate_deny p gate ''proposer lacks requested capability''
         else if rank_above (ap_requested_authority p) (as_authority_ceiling proposer)
           then gate_deny p gate ''proposal exceeds agent authority ceiling''
         else if rank_above (ap_requested_authority p) (mi_authority_ceiling m)
           then gate_deny p gate ''proposal exceeds mission authority ceiling''
         else if rank_above (ap_requested_authority p) (sw_authority_ceiling w)
           then gate_deny p gate ''proposal exceeds swarm authority ceiling''
         else let missing = missing_events (ap_required_observability p) observed in
           if missing \<noteq> [] then gate_deny p gate (''observability preconditions missing: '' @ repr_list missing)
         else and_then (if verifier_required p m then verifier_check p w agents else Inr None) (\<lambda>refused.
           case refused of Some rationale \<Rightarrow> gate_deny p gate rationale
         | None \<Rightarrow>
           if ap_consequential p \<and> policy_ids = [] then gate_deny p gate ''consequential ALLOW requires policy_ids''
           else let d = \<lparr>gd_gate_event_id = gate, gd_proposal_id = ap_proposal_id p, gd_decision = ''ALLOW'',
               gd_effective_authority = ap_requested_authority p, gd_policy_ids = policy_ids,
               gd_rationale = ''all deterministic admission invariants satisfied'',
               gd_verifier_agent_id = ap_verifier_agent_id p\<rparr>
             in and_then (gate_validate d) (\<lambda>_. Inr d))))"

definition issue_receipt ::
  "action_proposal \<Rightarrow> gate_decision \<Rightarrow> string \<Rightarrow> string \<Rightarrow> string \<Rightarrow> string list \<Rightarrow> string list \<Rightarrow> execution_receipt res" where
  "issue_receipt p d executor outcome effect_digest observed side_effects =
     and_then (checks [proposal_validate p, gate_validate d,
       model_error (gd_proposal_id d \<noteq> ap_proposal_id p) ''gate decision does not bind to proposal'',
       model_error (gd_decision d \<noteq> ''ALLOW'') ''cannot issue execution receipt for denied proposal'']) (\<lambda>_.
     let r = \<lparr>er_receipt_id = ''receipt:'' @ ap_proposal_id p, er_proposal_id = ap_proposal_id p,
         er_gate_event_id = gd_gate_event_id d, er_executor_agent_id = executor, er_outcome = outcome,
         er_effect_digest = effect_digest, er_observed_events = observed, er_side_effect_refs = side_effects\<rparr>
     in and_then (execution_receipt_validate r) (\<lambda>_. Inr r))"

section \<open>What the gate guarantees\<close>

lemma rank_check_ok: "rank_check v = Inr () \<longleftrightarrow> (\<exists>r. authority_rank v = Inr r)"
  by (auto simp: rank_check_def and_then_ok)

lemma not_rank_above: "rank_check a = Inr () \<Longrightarrow> rank_check b = Inr () \<Longrightarrow> \<not> rank_above a b \<longleftrightarrow> rank_le a b"
  by (auto simp: rank_check_ok rank_above_def rank_le_def)

lemma rank_none: "rank_check ''none'' = Inr ()"
  by code_simp

lemma gate_deny_ok: "ap_proposal_id p \<noteq> [] \<Longrightarrow> rationale \<noteq> [] \<Longrightarrow> gate_deny p gate rationale =
   (if gate = [] then Inl (Exn EnterpriseModelError ''gate identity/proposal/rationale are required'')
    else Inr \<lparr>gd_gate_event_id = gate, gd_proposal_id = ap_proposal_id p, gd_decision = ''DENY'',
       gd_effective_authority = ''none'', gd_policy_ids = [], gd_rationale = rationale, gd_verifier_agent_id = None\<rparr>)"
  by (simp add: gate_deny_def gate_validate_def rank_none)

lemma gate_deny_not_allow: "gate_deny p gate rationale = Inr d \<Longrightarrow> gd_decision d = ''DENY'' \<and> gd_effective_authority d = ''none''"
  by (auto simp: gate_deny_def Let_def)

lemma missing_events_Nil: "missing_events required observed = [] \<longleftrightarrow> set required \<subseteq> set observed"
proof -
  have "missing_events required observed = [] \<longleftrightarrow> set (missing_events required observed) = {}" by simp
  then show ?thesis by (auto simp: missing_events_def)
qed

lemma proposal_rank: "proposal_validate p = Inr () \<Longrightarrow> rank_check (ap_requested_authority p) = Inr () \<and> ap_proposal_id p \<noteq> []"
  by (simp add: proposal_validate_def)

lemma agent_rank: "agent_validate a = Inr () \<Longrightarrow> rank_check (as_authority_ceiling a) = Inr ()"
  by (simp add: agent_validate_def)

lemma mission_rank: "mission_validate m = Inr () \<Longrightarrow> rank_check (mi_authority_ceiling m) = Inr ()"
  by (simp add: mission_validate_def)

lemma swarm_rank: "swarm_validate w = Inr () \<Longrightarrow> rank_check (sw_authority_ceiling w) = Inr ()"
  by (simp add: swarm_validate_def)

text \<open>The independent verifier the gate asks for: named, not the proposer, admitted by the swarm, with a valid verifier specification.\<close>

definition verified :: "action_proposal \<Rightarrow> swarm_spec \<Rightarrow> (string \<rightharpoonup> agent_spec) \<Rightarrow> bool" where
  "verified p w agents = (\<exists>v a. ap_verifier_agent_id p = Some v \<and> v \<noteq> [] \<and> v \<noteq> ap_proposer_agent_id p
     \<and> v \<in> set (sw_verifier_agent_ids w) \<and> agents v = Some a \<and> agent_validate a = Inr () \<and> as_is_verifier a)"

lemma verifier_check_None: "verifier_check p w agents = Inr None \<longleftrightarrow> verified p w agents"
  by (auto simp: verifier_check_def verified_def split: option.splits)

lemma verifier_check_Some: "verifier_check p w agents = Inr (Some t) \<Longrightarrow> t \<noteq> []"
  by (auto simp: verifier_check_def split: option.splits if_splits)

text \<open>The organisational conditions of admission.\<close>

definition admissible ::
  "action_proposal \<Rightarrow> mission_spec \<Rightarrow> swarm_spec \<Rightarrow> (string \<rightharpoonup> agent_spec) \<Rightarrow> string list \<Rightarrow> bool" where
  "admissible p m w agents observed = (\<exists>a. agents (ap_proposer_agent_id p) = Some a \<and> agent_validate a = Inr ()
     \<and> ap_mission_id p = mi_mission_id m \<and> ap_swarm_id p = sw_swarm_id w
     \<and> ap_proposer_agent_id p \<in> set (sw_member_agent_ids w) \<and> ap_capability p \<in> set (as_capabilities a)
     \<and> list_all (rank_le (ap_requested_authority p)) [as_authority_ceiling a, mi_authority_ceiling m, sw_authority_ceiling w]
     \<and> set (ap_required_observability p) \<subseteq> set observed
     \<and> (verifier_required p m \<longrightarrow> verified p w agents))"

definition gate_allowance :: "action_proposal \<Rightarrow> string list \<Rightarrow> string \<Rightarrow> gate_decision" where
  "gate_allowance p policy_ids gate = \<lparr>gd_gate_event_id = gate, gd_proposal_id = ap_proposal_id p, gd_decision = ''ALLOW'',
     gd_effective_authority = ap_requested_authority p, gd_policy_ids = policy_ids,
     gd_rationale = ''all deterministic admission invariants satisfied'', gd_verifier_agent_id = ap_verifier_agent_id p\<rparr>"

lemma gate_allowance_valid: "proposal_validate p = Inr () \<Longrightarrow>
   gate_validate (gate_allowance p ids gate) = Inr () \<longleftrightarrow> gate \<noteq> [] \<and> ids \<noteq> []"
  using proposal_rank [of p] by (auto simp: gate_validate_def gate_allowance_def)

lemma admissible_ranks:
  assumes "proposal_validate p = Inr ()" "mission_validate m = Inr ()" "swarm_validate w = Inr ()" "agent_validate a = Inr ()"
  shows "list_all (rank_le (ap_requested_authority p)) [as_authority_ceiling a, mi_authority_ceiling m, sw_authority_ceiling w]
    \<longleftrightarrow> \<not> rank_above (ap_requested_authority p) (as_authority_ceiling a)
      \<and> \<not> rank_above (ap_requested_authority p) (mi_authority_ceiling m)
      \<and> \<not> rank_above (ap_requested_authority p) (sw_authority_ceiling w)"
  using proposal_rank [OF assms(1)] mission_rank [OF assms(2)] swarm_rank [OF assms(3)] agent_rank [OF assms(4)]
  by (simp add: not_rank_above)

text \<open>The gate as one conditional: what it decides once its inputs are valid and the agents it looks at are.\<close>

lemma gate_allows:
  assumes "proposal_validate p = Inr ()" "mission_validate m = Inr ()" "swarm_validate w = Inr ()"
    and "admissible p m w agents observed"
  shows "gate_evaluate p m w agents ids observed gate =
    (if ap_consequential p \<and> ids = [] then gate_deny p gate ''consequential ALLOW requires policy_ids''
     else and_then (gate_validate (gate_allowance p ids gate)) (\<lambda>_. Inr (gate_allowance p ids gate)))"
proof -
  obtain a where a: "agents (ap_proposer_agent_id p) = Some a" "agent_validate a = Inr ()"
    "ap_mission_id p = mi_mission_id m" "ap_swarm_id p = sw_swarm_id w" "ap_proposer_agent_id p \<in> set (sw_member_agent_ids w)"
    "ap_capability p \<in> set (as_capabilities a)" "set (ap_required_observability p) \<subseteq> set observed"
    "verifier_required p m \<Longrightarrow> verified p w agents"
    and ranks: "list_all (rank_le (ap_requested_authority p)) [as_authority_ceiling a, mi_authority_ceiling m, sw_authority_ceiling w]"
    using assms(4) unfolding admissible_def by blast
  have "(if verifier_required p m then verifier_check p w agents else Inr None) = Inr None"
    using a(8) by (simp add: verifier_check_None)
  then show ?thesis
    using assms(1-3) a(1-7) ranks [unfolded admissible_ranks [OF assms(1-3) a(2)]]
    by (simp add: gate_evaluate_def missing_events_Nil gate_allowance_def [symmetric] Let_def)
qed

lemma gate_refuses:
  assumes "\<not> admissible p m w agents observed" and "gate_evaluate p m w agents ids observed gate = Inr d"
  shows "\<exists>t. gate_deny p gate t = Inr d"
proof (rule ccontr)
  assume no: "\<nexists>t. gate_deny p gate t = Inr d"
  have valid: "proposal_validate p = Inr ()" "mission_validate m = Inr ()" "swarm_validate w = Inr ()"
    using assms(2) by (auto simp: gate_evaluate_def)
  obtain a where a: "agents (ap_proposer_agent_id p) = Some a" "agent_validate a = Inr ()"
    "ap_mission_id p = mi_mission_id m" "ap_swarm_id p = sw_swarm_id w" "ap_proposer_agent_id p \<in> set (sw_member_agent_ids w)"
    using assms(2) no valid by (auto simp: gate_evaluate_def split: if_splits option.splits)
  have b: "ap_capability p \<in> set (as_capabilities a)" "\<not> rank_above (ap_requested_authority p) (as_authority_ceiling a)"
    "\<not> rank_above (ap_requested_authority p) (mi_authority_ceiling m)"
    "\<not> rank_above (ap_requested_authority p) (sw_authority_ceiling w)"
    "missing_events (ap_required_observability p) observed = []"
    using assms(2) no valid a by (auto simp: gate_evaluate_def Let_def split: if_splits)
  have "verified p w agents" if "verifier_required p m"
    using assms(2) no valid a b that
    by (auto simp: gate_evaluate_def and_then_ok verifier_check_None [symmetric] split: option.splits)
  then have "admissible p m w agents observed"
    unfolding admissible_def using a b admissible_ranks [OF valid a(2)] missing_events_Nil by blast
  with assms(1) show False by simp
qed

lemma deny_if: "t0 \<noteq> [] \<Longrightarrow> (\<not> b \<Longrightarrow> \<exists>t. t \<noteq> [] \<and> X = gate_deny p gate t) \<Longrightarrow>
   \<exists>t. t \<noteq> [] \<and> (if b then gate_deny p gate t0 else X) = gate_deny p gate t"
  by (cases b) auto

lemma gate_denies:
  assumes "proposal_validate p = Inr ()" "mission_validate m = Inr ()" "swarm_validate w = Inr ()"
    and agents: "\<forall>a\<in>ran agents. agent_validate a = Inr ()" and "\<not> admissible p m w agents observed"
  shows "\<exists>t. t \<noteq> [] \<and> gate_evaluate p m w agents ids observed gate = gate_deny p gate t"
proof (cases "agents (ap_proposer_agent_id p)")
  case None
  then show ?thesis using assms(1-3) by (auto simp: gate_evaluate_def)
next
  case (Some a)
  then have a: "agent_validate a = Inr ()" using agents by (auto intro: ranI)
  have total: "\<exists>r. verifier_check p w agents = Inr r"
    using agents by (auto simp: verifier_check_def ran_def split: option.splits)
  have no: False if "ap_mission_id p = mi_mission_id m" "ap_swarm_id p = sw_swarm_id w"
     "ap_proposer_agent_id p \<in> set (sw_member_agent_ids w)" "ap_capability p \<in> set (as_capabilities a)"
     "\<not> rank_above (ap_requested_authority p) (as_authority_ceiling a)"
     "\<not> rank_above (ap_requested_authority p) (mi_authority_ceiling m)"
     "\<not> rank_above (ap_requested_authority p) (sw_authority_ceiling w)"
     "missing_events (ap_required_observability p) observed = []"
     "verifier_required p m \<longrightarrow> verifier_check p w agents = Inr None"
    using assms(5) Some a admissible_ranks [OF assms(1-3) a] that
    unfolding admissible_def missing_events_Nil verifier_check_None by blast
  have verif: "\<exists>t. t \<noteq> [] \<and> and_then (if verifier_required p m then verifier_check p w agents else Inr None) f = gate_deny p gate t"
    if "verifier_required p m \<and> verifier_check p w agents \<noteq> Inr None" and "\<And>t. f (Some t) = gate_deny p gate t" for f
  proof -
    obtain r where r: "verifier_check p w agents = Inr r" using total by blast
    with that(1) obtain t where t: "verifier_check p w agents = Inr (Some t)" by (cases r) auto
    then have "and_then (if verifier_required p m then verifier_check p w agents else Inr None) f = gate_deny p gate t"
      using that by simp
    with verifier_check_Some [OF t] show ?thesis by blast
  qed
  show ?thesis
    unfolding gate_evaluate_def Let_def Some option.case assms(1-3) checks.simps and_then_simps a
  proof (intro deny_if verif)
    assume "\<not> (ap_mission_id p \<noteq> mi_mission_id m \<or> ap_swarm_id p \<noteq> sw_swarm_id w)"
      "\<not> ap_proposer_agent_id p \<notin> set (sw_member_agent_ids w)" "\<not> ap_capability p \<notin> set (as_capabilities a)"
      "\<not> rank_above (ap_requested_authority p) (as_authority_ceiling a)"
      "\<not> rank_above (ap_requested_authority p) (mi_authority_ceiling m)"
      "\<not> rank_above (ap_requested_authority p) (sw_authority_ceiling w)"
      "\<not> missing_events (ap_required_observability p) observed \<noteq> []"
    then show "verifier_required p m \<and> verifier_check p w agents \<noteq> Inr None" using no by blast
  qed simp_all
qed

lemma gate_deny_valid: "ap_proposal_id p \<noteq> [] \<Longrightarrow> t \<noteq> [] \<Longrightarrow> gate \<noteq> [] \<Longrightarrow> \<exists>d. gate_deny p gate t = Inr d
    \<and> gate_validate d = Inr () \<and> gd_proposal_id d = ap_proposal_id p \<and> gd_decision d = ''DENY'' \<and> gd_effective_authority d = ''none''"
  by (simp add: gate_deny_def gate_validate_def rank_none)

text \<open>An execution receipt is only issued for an allowing decision on the proposal.\<close>

lemma receipt_needs_allow:
  "issue_receipt p d executor outcome effect observed refs = Inr r \<Longrightarrow> gd_decision d = ''ALLOW'' \<and> gate_validate d = Inr ()
    \<and> gd_proposal_id d = er_proposal_id r \<and> er_proposal_id r = ap_proposal_id p \<and> er_gate_event_id r = gd_gate_event_id d
    \<and> execution_receipt_validate r = Inr ()"
  by (auto simp: issue_receipt_def Let_def)

section \<open>Example organisation\<close>

definition example_agent :: agent_spec where
  "example_agent = \<lparr>as_agent_id = ''a1'', as_version = ''1'', as_role = ''payer'', as_mission = ''m'', as_capabilities = [''pay''],
     as_authority_ceiling = ''financial'', as_execution_domain = ''analysis'', as_observability_events = [''ev''],
     as_memory_read = False, as_memory_write = False, as_memory_policy_ids = [], as_max_runtime_seconds = 900,
     as_max_cost_units = Num 1, as_risk_class = ''GREEN'', as_provider_class = ''hybrid'', as_is_verifier = False,
     as_process_profile = None\<rparr>"

definition example_verifier :: agent_spec where
  "example_verifier = example_agent\<lparr>as_agent_id := ''v1'', as_is_verifier := True\<rparr>"

definition example_agents :: "string \<rightharpoonup> agent_spec" where
  "example_agents = [''a1'' \<mapsto> example_agent, ''v1'' \<mapsto> example_verifier]"

definition example_mission :: mission_spec where
  "example_mission = \<lparr>mi_mission_id = ''m'', mi_purpose = ''pay'', mi_required_capabilities = [''pay''],
     mi_authority_ceiling = ''financial'', mi_risk_class = ''GREEN'', mi_max_agents = 5, mi_observability_quorum = Num 1,
     mi_require_independent_verifier = False, mi_max_total_cost_units = Num 10\<rparr>"

definition example_swarm :: swarm_spec where
  "example_swarm = \<lparr>sw_swarm_id = ''s'', sw_mission_id = ''m'', sw_member_agent_ids = [''a1'', ''v1''],
     sw_covered_capabilities = [''pay''], sw_topology = ''direct_cell'', sw_authority_ceiling = ''financial'',
     sw_risk_class = ''GREEN'', sw_observability_quorum = Num 1, sw_verifier_agent_ids = [''v1''], sw_estimated_cost_units = Num 2\<rparr>"

definition example_proposal :: "string \<Rightarrow> bool \<Rightarrow> action_proposal" where
  "example_proposal authority consequential = \<lparr>ap_proposal_id = ''p'', ap_mission_id = ''m'', ap_swarm_id = ''s'', ap_proposer_agent_id = ''a1'',
     ap_capability = ''pay'', ap_requested_authority = authority, ap_action_class = ''c'', ap_target = ''t'',
     ap_consequential = consequential, ap_evidence_refs = [''e''], ap_required_observability = [''ev''],
     ap_verifier_agent_id = Some ''v1'', ap_payload_digest = None\<rparr>"

lemmas example_org_defs = example_agent_def example_verifier_def example_agents_def example_mission_def example_swarm_def
  example_proposal_def

lemma known_ranks: "rank_check ''financial'' = Inr ()" "rank_check ''deploy'' = Inr ()" "rank_check ''read'' = Inr ()"
  by code_simp+

lemma example_org_valid:
  "agent_validate example_agent = Inr ()" "agent_validate example_verifier = Inr ()" "mission_validate example_mission = Inr ()"
  "swarm_validate example_swarm = Inr ()"
  "rank_check authority = Inr () \<Longrightarrow> proposal_validate (example_proposal authority b) = Inr ()"
  by (simp_all add: example_org_defs agent_validate_def mission_validate_def swarm_validate_def proposal_validate_def known_ranks
      RISK_CLASSES_def in_unit_def num_less_def)

lemma example_admissible:
  assumes "rank_le authority ''financial''"
  shows "admissible (example_proposal authority b) example_mission example_swarm example_agents [''ev'']"
proof -
  have "verified (example_proposal authority b) example_swarm example_agents"
    unfolding verified_def using example_org_valid(2)
    by (simp add: example_proposal_def example_swarm_def example_agents_def) (simp add: example_verifier_def)
  then show ?thesis
    unfolding admissible_def using example_org_valid(1) assms by (simp add: example_org_defs)
qed

text \<open>
  The ceilings are compared by rank, and \<open>financial\<close> and \<open>deploy\<close> have the same rank: an agent, a mission and a swarm
  limited to financial authority are granted deploy authority, which the containment order of the grants refuses.
\<close>

lemma financial_ceiling_allows_deploy:
  "gate_evaluate (example_proposal ''deploy'' True) example_mission example_swarm example_agents [''pol''] [''ev''] ''g''
     = Inr (gate_allowance (example_proposal ''deploy'' True) [''pol''] ''g'')
   \<and> \<not> contained_in ''deploy'' ''financial''"
proof -
  have "rank_le ''deploy'' ''financial''" "\<not> contained_in ''deploy'' ''financial''" by code_simp+
  moreover from gate_allows [OF example_org_valid(5,3,4) example_admissible] known_ranks this(1)
    gate_allowance_valid [OF example_org_valid(5)]
  have "gate_evaluate (example_proposal ''deploy'' True) example_mission example_swarm example_agents [''pol''] [''ev''] ''g''
     = Inr (gate_allowance (example_proposal ''deploy'' True) [''pol''] ''g'')" by simp
  ultimately show ?thesis by simp
qed

section \<open>Properties\<close>

text \<open>C23. The gate allows exactly what is admissible: it answers with an allowing decision exactly when the proposal, the
  mission and the swarm are valid, the proposer is a valid member with the capability, the requested authority is within
  the ceilings of agent, mission and swarm, the required events were observed, an independent verifier is named where one
  is required, and gate id and policies are given; the decision then grants the requested authority and nothing else.\<close>

theorem gate_allow_exact:
  "(gate_evaluate p m w agents ids observed gate = Inr d \<and> gd_decision d = ''ALLOW'') \<longleftrightarrow>
   (proposal_validate p = Inr () \<and> mission_validate m = Inr () \<and> swarm_validate w = Inr ()
    \<and> admissible p m w agents observed \<and> gate \<noteq> [] \<and> ids \<noteq> [] \<and> d = gate_allowance p ids gate)"
proof
  assume l: "gate_evaluate p m w agents ids observed gate = Inr d \<and> gd_decision d = ''ALLOW''"
  then have valid: "proposal_validate p = Inr ()" "mission_validate m = Inr ()" "swarm_validate w = Inr ()"
    by (auto simp: gate_evaluate_def)
  have adm: "admissible p m w agents observed"
  proof (rule ccontr)
    assume "\<not> admissible p m w agents observed"
    from gate_refuses [OF this] l obtain t where "gate_deny p gate t = Inr d" by blast
    with l show False by (simp add: gate_deny_not_allow)
  qed
  have "\<not> (ap_consequential p \<and> ids = [])"
    using gate_allows [OF valid adm, of ids gate] l
      gate_deny_not_allow [of p gate "''consequential ALLOW requires policy_ids''" d] by auto
  then have eq: "gate_evaluate p m w agents ids observed gate = and_then (gate_validate (gate_allowance p ids gate)) (\<lambda>_. Inr (gate_allowance p ids gate))"
    unfolding gate_allows [OF valid adm] by (rule if_not_P)
  with l gate_allowance_valid [OF valid(1), of ids gate] valid adm
  show "proposal_validate p = Inr () \<and> mission_validate m = Inr () \<and> swarm_validate w = Inr ()
    \<and> admissible p m w agents observed \<and> gate \<noteq> [] \<and> ids \<noteq> [] \<and> d = gate_allowance p ids gate"
    by simp
next
  assume r: "proposal_validate p = Inr () \<and> mission_validate m = Inr () \<and> swarm_validate w = Inr ()
    \<and> admissible p m w agents observed \<and> gate \<noteq> [] \<and> ids \<noteq> [] \<and> d = gate_allowance p ids gate"
  then show "gate_evaluate p m w agents ids observed gate = Inr d \<and> gd_decision d = ''ALLOW''"
    using gate_allows [of p m w agents observed ids gate] gate_allowance_valid [of p ids gate]
    by (simp add: gate_allowance_def)
qed

text \<open>C24. The gate always answers: for a valid proposal, mission and swarm, valid agent specifications and a gate id,
  evaluation returns a valid decision on this proposal, and a denial grants no authority. The one exception is a
  proposal without consequences and without policies, for which the code raises instead of denying when all else holds.\<close>

theorem gate_answers:
  assumes "proposal_validate p = Inr ()" "mission_validate m = Inr ()" "swarm_validate w = Inr ()" "gate \<noteq> []"
    and "\<forall>a\<in>ran agents. agent_validate a = Inr ()"
  shows "(\<exists>d. gate_evaluate p m w agents ids observed gate = Inr d \<and> gate_validate d = Inr () \<and> gd_proposal_id d = ap_proposal_id p
      \<and> (gd_decision d = ''ALLOW'' \<or> gd_decision d = ''DENY'' \<and> gd_effective_authority d = ''none''))
    \<or> (gate_evaluate p m w agents ids observed gate = Inl (Exn EnterpriseModelError ''ALLOW requires policy_ids'')
        \<and> \<not> ap_consequential p \<and> ids = [] \<and> admissible p m w agents observed)"
proof (cases "admissible p m w agents observed")
  case True
  show ?thesis
  proof (cases "ids = []")
    case empty: True
    have "gate_validate (gate_allowance p [] gate) = Inl (Exn EnterpriseModelError ''ALLOW requires policy_ids'')"
      using proposal_rank [OF assms(1)] assms(4) by (simp add: gate_validate_def gate_allowance_def)
    then show ?thesis
      using gate_allows [OF assms(1-3) True, of ids gate] True empty assms(4) proposal_rank [OF assms(1)]
        gate_deny_valid [of p "''consequential ALLOW requires policy_ids''" gate] by auto
  next
    case False
    then show ?thesis
      using gate_allows [OF assms(1-3) True, of ids gate] gate_allowance_valid [OF assms(1), of ids gate] assms(4)
      by (simp add: gate_allowance_def)
  qed
next
  case False
  obtain t where "t \<noteq> []" "gate_evaluate p m w agents ids observed gate = gate_deny p gate t"
    using gate_denies [OF assms(1-3,5) False] by blast
  then show ?thesis using gate_deny_valid [of p t gate] proposal_rank [OF assms(1)] assms(4) by auto
qed

theorem gate_answers_witness:
  "\<exists>d. gate_evaluate (example_proposal ''financial'' True) example_mission example_swarm example_agents [] [''ev''] ''g'' = Inr d
     \<and> gate_validate d = Inr () \<and> gd_proposal_id d = ''p''"
proof -
  have "\<forall>a\<in>ran example_agents. agent_validate a = Inr ()" by (auto simp: example_agents_def ran_def example_org_valid split: if_splits)
  then show ?thesis
    using gate_answers [OF example_org_valid(5,3,4), of "''financial''" "''g''" example_agents True "[]" "[''ev'']"] known_ranks
    by (auto simp: example_proposal_def)
qed

end
