(* ===== verification/Federation.thy ===== *)
theory Federation
  imports Enterprise_Models "HOL-Library.AList" "HOL-Library.Product_Lexorder"
begin

text \<open>
  Repository federation (enterprise/federation.py): repository manifests with their architecture knowledge, the strict
  reading of a decoded manifest document, and the registry of manifests with its discovery queries.

  A decoded document is a \<open>doc\<close>: what a JSON or YAML loader returns, with text keys. Dictionaries are association lists
  in insertion order with distinct keys; integers and floats are told apart, because \<open>isinstance\<close> tells them apart.
\<close>

datatype doc =
    DNull
  | DBool bool
  | DInt int
  | DFloat pynum
  | DStr string
  | DList "doc list"
  | DObj "(string \<times> doc) list"

section \<open>Vocabulary\<close>

definition ALLOWED_LAYERS :: "string list" where
  "ALLOWED_LAYERS = [''INF'', ''SEM'', ''MAND'']"

definition ALLOWED_DISPOSITIONS :: "string list" where
  "ALLOWED_DISPOSITIONS = [''KEEP'', ''REFINE'', ''EXTRACT'', ''GENERALIZE'', ''INTEGRATE'', ''DEPRECATE'', ''EXPERIMENTAL'', ''UNKNOWN'']"

definition MANIFEST_ROOT_KEYS :: "string list" where
  "MANIFEST_ROOT_KEYS = [''schema_version'', ''repository'', ''cyber_lion'', ''capabilities'', ''authority'', ''observability'',
     ''security'', ''epistemic'']"

definition KNOWLEDGE_ROOT_KEYS :: "string list" where
  "KNOWLEDGE_ROOT_KEYS = [''schema_version'', ''global_owner'', ''semantic_exports'', ''semantic_imports'',
     ''repository_dependencies'', ''architecture_artifacts'', ''discoverability'', ''invalidation_triggers'']"

definition ARTIFACT_KEYS :: "string list" where
  "ARTIFACT_KEYS = [''path'', ''class'', ''currentness'']"

definition DISCOVERABILITY_KEYS :: "string list" where
  "DISCOVERABILITY_KEYS = [''entrypoint'', ''global_owner_route'', ''max_reads_to_global_owner'']"

definition ARTIFACT_CLASSES :: "string list" where
  "ARTIFACT_CLASSES = [''HUMAN_ARCHITECTURE_DOCUMENT'', ''MACHINE_READABLE_ARCHITECTURE'', ''CONTRACT'', ''SCHEMA'', ''ROADMAP'',
     ''PROCESS_GUARD'', ''RESEARCH_ARCHITECTURE'', ''GENERATED_PROJECTION'']"

definition ARCHITECTURE_CURRENTNESS :: "string list" where
  "ARCHITECTURE_CURRENTNESS = [''SOURCE_BOUND'', ''VERSIONED_STATIC'', ''HISTORICAL'', ''GENERATED'', ''LOCAL_OWNER'']"

definition INVALIDATION_TRIGGERS :: "string list" where
  "INVALIDATION_TRIGGERS = [''SOURCE_CHANGE'', ''CONTRACT_CHANGE'', ''CAPABILITY_CHANGE'', ''SEMANTIC_OWNER_CHANGE'', ''FLOW_CHANGE'',
     ''RUNTIME_OBSERVATION'', ''CURRENTNESS_CHANGE'', ''RAG_RELEASE'', ''REPOSITORY_ROLE_CHANGE'', ''DEPENDENCY_CHANGE'',
     ''NAMING_STANDARD_CHANGE'', ''STATUS_MODEL_CHANGE'', ''VERSION_MODEL_CHANGE'', ''PANEL_CONTRACT_CHANGE'',
     ''REPOSITORY_CONTENT_CHANGE'']"

definition REPOSITORY_KEYS :: "string list" where
  "REPOSITORY_KEYS = [''id'', ''url'', ''owner'', ''default_branch'', ''vcs_ref'']"

definition CYBER_LION_KEYS :: "string list" where
  "CYBER_LION_KEYS = [''tile_id'', ''roles'', ''layers'', ''disposition'']"

definition AUTHORITY_KEYS :: "string list" where
  "AUTHORITY_KEYS = [''maximum_level'', ''required_gates'']"

definition OBSERVABILITY_KEYS :: "string list" where
  "OBSERVABILITY_KEYS = [''logs'', ''metrics'', ''traces'']"

definition SECURITY_KEYS :: "string list" where
  "SECURITY_KEYS = [''trust_boundaries'']"

definition EPISTEMIC_KEYS :: "string list" where
  "EPISTEMIC_KEYS = [''status'', ''confidence'']"

section \<open>Reading a document\<close>

abbreviation doc_error :: "string \<Rightarrow> 'a res" where
  "doc_error m \<equiv> Inl (Exn EnterpriseModelError m)"

definition same_keys :: "(string \<times> 'v) list \<Rightarrow> string list \<Rightarrow> bool" where
  "same_keys kvs keys = (list_all (\<lambda>k. k \<in> set keys) (map fst kvs) \<and> list_all (\<lambda>k. k \<in> set (map fst kvs)) keys)"

definition doc_get :: "string \<Rightarrow> (string \<times> doc) list \<Rightarrow> doc" where
  "doc_get k kvs = (case map_of kvs k of None \<Rightarrow> DNull | Some v \<Rightarrow> v)"

fun exact_object :: "doc \<Rightarrow> string \<Rightarrow> string list \<Rightarrow> (string \<times> doc) list res" where
  "exact_object (DObj kvs) name keys = (if same_keys kvs keys then Inr kvs else doc_error (name @ '' shape invalid''))"
| "exact_object _ name keys = doc_error (name @ '' shape invalid'')"

fun native_string :: "doc \<Rightarrow> string \<Rightarrow> string res" where
  "native_string (DStr s) name = Inr s"
| "native_string _ name = doc_error (name @ '' must be string'')"

fun doc_text :: "doc \<Rightarrow> string option" where
  "doc_text (DStr s) = Some s"
| "doc_text _ = None"

fun native_string_list :: "doc \<Rightarrow> string \<Rightarrow> string list res" where
  "native_string_list (DList xs) name =
     (if list_ex (\<lambda>x. doc_text x = None) xs then doc_error (name @ '' must be array of strings'')
      else Inr (map (\<lambda>x. the (doc_text x)) xs))"
| "native_string_list _ name = doc_error (name @ '' must be array of strings'')"

definition unique_native_string_list :: "doc \<Rightarrow> string \<Rightarrow> string list res" where
  "unique_native_string_list v name = and_then (native_string_list v name) (\<lambda>items.
     if no_dup items then Inr items else doc_error (name @ '' must contain unique strings''))"

section \<open>Architecture knowledge\<close>

record architecture_artifact =
  aa_path :: string
  aa_artifact_class :: string
  aa_currentness :: string

definition artifact_validate :: "architecture_artifact \<Rightarrow> unit res" where
  "artifact_validate a = checks [
     model_error (aa_path a = [] \<or> nul \<in> set (aa_path a)) ''architecture_knowledge artifact path invalid'',
     model_error (aa_artifact_class a \<notin> set ARTIFACT_CLASSES) ''architecture_knowledge artifact class invalid'',
     model_error (aa_currentness a \<notin> set ARCHITECTURE_CURRENTNESS) ''architecture_knowledge artifact currentness invalid'']"

record architecture_discoverability =
  di_entrypoint :: string
  di_global_owner_route :: string
  di_max_reads_to_global_owner :: int

definition discoverability_validate :: "architecture_discoverability \<Rightarrow> unit res" where
  "discoverability_validate d = checks [
     model_error (di_entrypoint d = [] \<or> di_global_owner_route d = []) ''architecture_knowledge discoverability strings required'',
     model_error (\<not> (1 \<le> di_max_reads_to_global_owner d \<and> di_max_reads_to_global_owner d \<le> 8))
       ''architecture_knowledge max_reads_to_global_owner out of range'']"

record architecture_knowledge =
  ak_schema_version :: string
  ak_global_owner :: string
  ak_semantic_exports :: "string list"
  ak_semantic_imports :: "string list"
  ak_repository_dependencies :: "string list"
  ak_architecture_artifacts :: "architecture_artifact list"
  ak_discoverability :: architecture_discoverability
  ak_invalidation_triggers :: "string list"

definition knowledge_validate :: "architecture_knowledge \<Rightarrow> unit res" where
  "knowledge_validate k = checks ([
     model_error (ak_schema_version k \<noteq> ''1.0.0'') ''unsupported architecture_knowledge schema_version'',
     model_error (ak_global_owner k \<noteq> ''DonkeyJJLove/ai_platform'') ''architecture_knowledge global_owner invalid'']
   @ map (\<lambda>(name, values). model_error (\<not> no_dup values) (''architecture_knowledge '' @ name @ '' must be unique''))
     [(''semantic_exports'', ak_semantic_exports k), (''semantic_imports'', ak_semantic_imports k),
      (''repository_dependencies'', ak_repository_dependencies k), (''invalidation_triggers'', ak_invalidation_triggers k)]
   @ [model_error (\<not> list_all (\<lambda>t. t \<in> set INVALIDATION_TRIGGERS) (ak_invalidation_triggers k))
       ''architecture_knowledge invalidation trigger invalid'']
   @ map artifact_validate (ak_architecture_artifacts k)
   @ [discoverability_validate (ak_discoverability k)])"

definition read_artifact :: "doc \<Rightarrow> architecture_artifact res" where
  "read_artifact item = and_then (exact_object item ''architecture_knowledge.architecture_artifact'' ARTIFACT_KEYS) (\<lambda>artifact.
     and_then (native_string (doc_get ''path'' artifact) ''architecture_knowledge.architecture_artifact.path'') (\<lambda>path.
     and_then (native_string (doc_get ''class'' artifact) ''architecture_knowledge.architecture_artifact.class'') (\<lambda>cls.
     and_then (native_string (doc_get ''currentness'' artifact) ''architecture_knowledge.architecture_artifact.currentness'') (\<lambda>cur.
     let a = \<lparr>aa_path = path, aa_artifact_class = cls, aa_currentness = cur\<rparr> in
     and_then (artifact_validate a) (\<lambda>_. Inr a)))))"

definition read_knowledge :: "doc \<Rightarrow> architecture_knowledge res" where
  "read_knowledge v =
     and_then (exact_object v ''architecture_knowledge'' KNOWLEDGE_ROOT_KEYS) (\<lambda>raw.
     and_then (case doc_get ''architecture_artifacts'' raw of DList xs \<Rightarrow> Inr xs
       | _ \<Rightarrow> doc_error ''architecture_knowledge.architecture_artifacts must be array'') (\<lambda>items.
     and_then (map_res read_artifact items) (\<lambda>artifacts.
     and_then (exact_object (doc_get ''discoverability'' raw) ''architecture_knowledge.discoverability'' DISCOVERABILITY_KEYS) (\<lambda>disc.
     and_then (case doc_get ''max_reads_to_global_owner'' disc of DInt i \<Rightarrow> Inr i
       | _ \<Rightarrow> doc_error ''architecture_knowledge.max_reads_to_global_owner must be integer'') (\<lambda>reads.
     and_then (native_string (doc_get ''schema_version'' raw) ''architecture_knowledge.schema_version'') (\<lambda>version.
     and_then (native_string (doc_get ''global_owner'' raw) ''architecture_knowledge.global_owner'') (\<lambda>owner.
     and_then (unique_native_string_list (doc_get ''semantic_exports'' raw) ''architecture_knowledge.semantic_exports'') (\<lambda>exports.
     and_then (unique_native_string_list (doc_get ''semantic_imports'' raw) ''architecture_knowledge.semantic_imports'') (\<lambda>imps.
     and_then (unique_native_string_list (doc_get ''repository_dependencies'' raw) ''architecture_knowledge.repository_dependencies'') (\<lambda>deps.
     and_then (native_string (doc_get ''entrypoint'' disc) ''architecture_knowledge.discoverability.entrypoint'') (\<lambda>entry.
     and_then (native_string (doc_get ''global_owner_route'' disc) ''architecture_knowledge.discoverability.global_owner_route'') (\<lambda>route.
     let d = \<lparr>di_entrypoint = entry, di_global_owner_route = route, di_max_reads_to_global_owner = reads\<rparr> in
     and_then (discoverability_validate d) (\<lambda>_.
     and_then (unique_native_string_list (doc_get ''invalidation_triggers'' raw) ''architecture_knowledge.invalidation_triggers'') (\<lambda>triggers.
     let k = \<lparr>ak_schema_version = version, ak_global_owner = owner, ak_semantic_exports = exports, ak_semantic_imports = imps,
         ak_repository_dependencies = deps, ak_architecture_artifacts = artifacts, ak_discoverability = d,
         ak_invalidation_triggers = triggers\<rparr> in
     and_then (knowledge_validate k) (\<lambda>_. Inr k)))))))))))))))"

section \<open>Repository manifests\<close>

record repository_manifest =
  rm_repository_id :: string
  rm_url :: string
  rm_owner :: string
  rm_default_branch :: string
  rm_tile_id :: string
  rm_roles :: "string list"
  rm_layers :: "string list"
  rm_dispositions :: "string list"
  rm_capabilities :: "string list"
  rm_maximum_authority :: string
  rm_required_gates :: "string list"
  rm_logs :: "string list"
  rm_metrics :: "string list"
  rm_traces :: "string list"
  rm_trust_boundaries :: "string list"
  rm_epistemic_status :: string
  rm_epistemic_confidence :: "pynum option"
  rm_architecture_knowledge :: "architecture_knowledge option"

definition manifest_validate :: "repository_manifest \<Rightarrow> unit res" where
  "manifest_validate m = checks [
     model_error (rm_repository_id m = [] \<or> rm_url m = [] \<or> rm_owner m = [] \<or> rm_default_branch m = [] \<or> rm_tile_id m = [])
       ''repository manifest identity fields are required'',
     model_error (rm_roles m = [] \<or> rm_capabilities m = []) ''repository manifest requires roles and capabilities'',
     model_error (\<not> no_dup (rm_capabilities m)) ''repository capabilities must be unique'',
     model_error (\<not> list_all (\<lambda>l. l \<in> set ALLOWED_LAYERS) (rm_layers m) \<or> rm_layers m = [])
       ''repository manifest contains invalid or empty layers'',
     model_error (\<not> list_all (\<lambda>d. d \<in> set ALLOWED_DISPOSITIONS) (rm_dispositions m) \<or> rm_dispositions m = [])
       ''repository manifest contains invalid or empty dispositions'',
     rank_check (rm_maximum_authority m),
     model_error (rank_above (rm_maximum_authority m) ''read'' \<and> rm_required_gates m = [])
       ''consequential repository authority requires required_gates'',
     model_error (rm_trust_boundaries m = []) ''repository manifest requires explicit trust_boundaries'',
     model_error (case rm_epistemic_confidence m of None \<Rightarrow> False | Some x \<Rightarrow> \<not> in_unit x) ''epistemic confidence must be in [0,1]'',
     (case rm_architecture_knowledge m of None \<Rightarrow> Inr () | Some k \<Rightarrow> knowledge_validate k)]"

text \<open>The fields that may be absent or null: the ref, which is checked and dropped, and the confidence.\<close>

fun read_vcs_ref :: "doc \<Rightarrow> unit res" where
  "read_vcs_ref DNull = Inr ()"
| "read_vcs_ref (DStr s) = Inr ()"
| "read_vcs_ref _ = doc_error ''repository.vcs_ref must be string or null''"

fun read_confidence :: "doc \<Rightarrow> pynum option res" where
  "read_confidence DNull = Inr None"
| "read_confidence (DInt i) = Inr (Some (Num (of_int i)))"
| "read_confidence (DFloat x) = Inr (Some x)"
| "read_confidence _ = doc_error ''epistemic.confidence must be number or null''"

definition from_mapping :: "doc \<Rightarrow> repository_manifest res" where
  "from_mapping doc = (case doc of
     DObj value \<Rightarrow>
     if \<not> same_keys value MANIFEST_ROOT_KEYS \<and> \<not> same_keys value (''architecture_knowledge'' # MANIFEST_ROOT_KEYS)
       then doc_error ''repository manifest shape invalid''
     else if doc_get ''schema_version'' value \<noteq> DStr ''1.0.0'' then doc_error ''unsupported repository manifest schema_version''
     else
     and_then (exact_object (doc_get ''repository'' value) ''repository'' REPOSITORY_KEYS) (\<lambda>repo.
     and_then (exact_object (doc_get ''cyber_lion'' value) ''cyber_lion'' CYBER_LION_KEYS) (\<lambda>cyber.
     and_then (exact_object (doc_get ''authority'' value) ''authority'' AUTHORITY_KEYS) (\<lambda>authority.
     and_then (exact_object (doc_get ''observability'' value) ''observability'' OBSERVABILITY_KEYS) (\<lambda>obs.
     and_then (exact_object (doc_get ''security'' value) ''security'' SECURITY_KEYS) (\<lambda>security.
     and_then (exact_object (doc_get ''epistemic'' value) ''epistemic'' EPISTEMIC_KEYS) (\<lambda>epistemic.
     and_then (read_vcs_ref (doc_get ''vcs_ref'' repo)) (\<lambda>_.
     and_then (read_confidence (doc_get ''confidence'' epistemic)) (\<lambda>confidence.
     and_then (native_string (doc_get ''id'' repo) ''repository.id'') (\<lambda>f_repository_id.
     and_then (native_string (doc_get ''url'' repo) ''repository.url'') (\<lambda>f_url.
     and_then (native_string (doc_get ''owner'' repo) ''repository.owner'') (\<lambda>f_owner.
     and_then (native_string (doc_get ''default_branch'' repo) ''repository.default_branch'') (\<lambda>f_default_branch.
     and_then (native_string (doc_get ''tile_id'' cyber) ''cyber_lion.tile_id'') (\<lambda>f_tile_id.
     and_then (native_string_list (doc_get ''roles'' cyber) ''cyber_lion.roles'') (\<lambda>f_roles.
     and_then (native_string_list (doc_get ''layers'' cyber) ''cyber_lion.layers'') (\<lambda>f_layers.
     and_then (native_string_list (doc_get ''disposition'' cyber) ''cyber_lion.disposition'') (\<lambda>f_dispositions.
     and_then (native_string_list (doc_get ''capabilities'' value) ''capabilities'') (\<lambda>f_capabilities.
     and_then (native_string (doc_get ''maximum_level'' authority) ''authority.maximum_level'') (\<lambda>f_maximum_authority.
     and_then (native_string_list (doc_get ''required_gates'' authority) ''authority.required_gates'') (\<lambda>f_required_gates.
     and_then (native_string_list (doc_get ''logs'' obs) ''observability.logs'') (\<lambda>f_logs.
     and_then (native_string_list (doc_get ''metrics'' obs) ''observability.metrics'') (\<lambda>f_metrics.
     and_then (native_string_list (doc_get ''traces'' obs) ''observability.traces'') (\<lambda>f_traces.
     and_then (native_string_list (doc_get ''trust_boundaries'' security) ''security.trust_boundaries'') (\<lambda>f_trust_boundaries.
     and_then (native_string (doc_get ''status'' epistemic) ''epistemic.status'') (\<lambda>f_epistemic_status.
     and_then (case map_of value ''architecture_knowledge'' of None \<Rightarrow> Inr None
       | Some v \<Rightarrow> and_then (read_knowledge v) (\<lambda>k. Inr (Some k))) (\<lambda>knowledge.
     let m = \<lparr>rm_repository_id = f_repository_id, rm_url = f_url, rm_owner = f_owner, rm_default_branch = f_default_branch, rm_tile_id = f_tile_id,
       rm_roles = f_roles, rm_layers = f_layers, rm_dispositions = f_dispositions,
       rm_capabilities = f_capabilities, rm_maximum_authority = f_maximum_authority, rm_required_gates = f_required_gates,
       rm_logs = f_logs, rm_metrics = f_metrics, rm_traces = f_traces, rm_trust_boundaries = f_trust_boundaries, rm_epistemic_status = f_epistemic_status,
       rm_epistemic_confidence = confidence, rm_architecture_knowledge = knowledge\<rparr> in
     and_then (manifest_validate m) (\<lambda>_. Inr m))))))))))))))))))))))))))
   | _ \<Rightarrow> doc_error ''repository manifest shape invalid'')"

section \<open>The registry\<close>

record federation_registry =
  fr_repositories :: "(string \<times> repository_manifest) list"
  fr_tiles :: "(string \<times> string) list"

definition registry_empty :: federation_registry where
  "registry_empty = \<lparr>fr_repositories = [], fr_tiles = []\<rparr>"

definition federation_register :: "repository_manifest \<Rightarrow> (federation_registry, unit) op" where
  "federation_register m r = (case and_then (manifest_validate m) (\<lambda>_. checks [
       model_error (case map_of (fr_repositories r) (rm_repository_id m) of None \<Rightarrow> False | Some current \<Rightarrow> current \<noteq> m)
         (''repository manifest changed under same repository id: '' @ rm_repository_id m),
       (case map_of (fr_tiles r) (rm_tile_id m) of None \<Rightarrow> Inr ()
        | Some tile_owner \<Rightarrow> model_error (tile_owner \<noteq> rm_repository_id m)
            (''tile_id collision: '' @ rm_tile_id m @ '' already owned by '' @ tile_owner))]) of
     Inl e \<Rightarrow> (Inl e, r)
   | Inr _ \<Rightarrow> (Inr (), r\<lparr>fr_repositories := AList.update (rm_repository_id m) m (fr_repositories r),
       fr_tiles := AList.update (rm_tile_id m) (rm_repository_id m) (fr_tiles r)\<rparr>))"

definition federation_register_mapping :: "doc \<Rightarrow> (federation_registry, repository_manifest) op" where
  "federation_register_mapping v r = (case from_mapping v of
     Inl e \<Rightarrow> (Inl e, r)
   | Inr m \<Rightarrow> (case federation_register m r of (Inl e, r') \<Rightarrow> (Inl e, r') | (Inr _, r') \<Rightarrow> (Inr m, r')))"

definition federation_get :: "string \<Rightarrow> federation_registry \<Rightarrow> repository_manifest res" where
  "federation_get i r = (case map_of (fr_repositories r) i of
     None \<Rightarrow> Inl (Exn PyKeyError (''unknown repository manifest: '' @ i)) | Some m \<Rightarrow> Inr m)"

text \<open>\<open>sorted\<close> with a key that may raise: the keys are computed first, in order.\<close>

definition discover_capability :: "string \<Rightarrow> federation_registry \<Rightarrow> repository_manifest list res" where
  "discover_capability capability r =
     and_then (map_res (\<lambda>m. and_then (authority_rank (rm_maximum_authority m)) (\<lambda>k. Inr ((k, rm_repository_id m), m)))
       (filter (\<lambda>m. capability \<in> set (rm_capabilities m)) (map snd (fr_repositories r)))) (\<lambda>keyed.
     Inr (map snd (sort_key fst keyed)))"

definition discover_layer :: "string \<Rightarrow> federation_registry \<Rightarrow> repository_manifest list res" where
  "discover_layer layer r = (if layer \<notin> set ALLOWED_LAYERS then doc_error (''unknown enterprise layer: '' @ layer)
     else Inr (sort_key rm_repository_id (filter (\<lambda>m. layer \<in> set (rm_layers m)) (map snd (fr_repositories r)))))"

definition registry_all :: "federation_registry \<Rightarrow> repository_manifest list" where
  "registry_all r = sort_key rm_repository_id (map snd (fr_repositories r))"

section \<open>Registries of owned tiles\<close>

text \<open>
  The contract of the registry: an entry is added only when it is valid, its id is free or already holds this very entry,
  and its tile is free or its own; every other request changes nothing.
\<close>

definition well_owned ::
  "('m \<Rightarrow> 'k) \<Rightarrow> ('m \<Rightarrow> 't) \<Rightarrow> ('m \<Rightarrow> bool) \<Rightarrow> ('k \<Rightarrow> 'm option) \<Rightarrow> ('t \<Rightarrow> 'k option) \<Rightarrow> bool" where
  "well_owned ident tile valid entries owner = ((\<forall>i m. entries i = Some m \<longrightarrow> ident m = i \<and> valid m)
     \<and> (\<forall>t i. owner t = Some i \<longleftrightarrow> (\<exists>m. entries i = Some m \<and> tile m = t)))"

locale owned_registry =
  fixes add :: "'m \<Rightarrow> ('s, unit) op"
    and entries :: "'s \<Rightarrow> 'k \<Rightarrow> 'm option"
    and owner :: "'s \<Rightarrow> 't \<Rightarrow> 'k option"
    and ident :: "'m \<Rightarrow> 'k"
    and tile :: "'m \<Rightarrow> 't"
    and valid :: "'m \<Rightarrow> bool"
  assumes refuses: "add m s = (Inl e, s') \<Longrightarrow> s' = s"
    and adds: "add m s = (Inr u, s') \<Longrightarrow> valid m \<and> entries s (ident m) \<in> {None, Some m}
      \<and> owner s (tile m) \<in> {None, Some (ident m)}
      \<and> entries s' = (entries s)(ident m \<mapsto> m) \<and> owner s' = (owner s)(tile m \<mapsto> ident m)"
begin

abbreviation good :: "'s \<Rightarrow> bool" where
  "good s \<equiv> well_owned ident tile valid (entries s) (owner s)"

lemma add_good:
  assumes "good s"
  shows "good (snd (add m s))"
proof (cases "add m s")
  case (Pair x s')
  show ?thesis
  proof (cases x)
    case (Inl e)
    then have "s' = s" using refuses Pair by blast
    then show ?thesis using Pair assms by simp
  next
    case (Inr u)
    have A: "valid m" "entries s (ident m) = None \<or> entries s (ident m) = Some m"
      "owner s (tile m) = None \<or> owner s (tile m) = Some (ident m)"
      "entries s' = (entries s)(ident m \<mapsto> m)" "owner s' = (owner s)(tile m \<mapsto> ident m)"
      using adds Pair Inr by blast+
    have own: "owner s t = Some i \<longleftrightarrow> (\<exists>m. entries s i = Some m \<and> tile m = t)" for t i
      using assms unfolding well_owned_def by blast
    have "owner s' t = Some i \<longleftrightarrow> (\<exists>m. entries s' i = Some m \<and> tile m = t)" for t i
      using A(2,3) own [of t i] own [of "tile m" i] by (cases "i = ident m"; cases "t = tile m") (auto simp: A(4,5))
    moreover have "ident n = i \<and> valid n" if "entries s' i = Some n" for i n
      using that assms A(1) unfolding A(4) well_owned_def by (cases "i = ident m") auto
    ultimately show ?thesis by (simp add: Pair well_owned_def)
  qed
qed

lemma add_keeps: "entries s i = Some n \<Longrightarrow> entries (snd (add m s)) i = Some n"
  using refuses [of m s] adds [of m s] by (cases "add m s"; cases "fst (add m s)") auto

lemma tile_owner: "good s \<Longrightarrow> entries s i = Some m \<Longrightarrow> entries s j = Some n \<Longrightarrow> tile m = tile n \<Longrightarrow> i = j"
  unfolding well_owned_def by (metis option.inject)

lemma entry_ok: "good s \<Longrightarrow> entries s i = Some m \<Longrightarrow> ident m = i \<and> valid m"
  unfolding well_owned_def by blast

end

interpretation fed: owned_registry federation_register "\<lambda>r. map_of (fr_repositories r)" "\<lambda>r. map_of (fr_tiles r)"
  rm_repository_id rm_tile_id "\<lambda>m. manifest_validate m = Inr ()"
  by unfold_locales (simp_all add: federation_register_def update_conv' and_then_def split: sum.splits option.splits prod.splits if_splits)

inductive federation_step :: "federation_registry \<Rightarrow> federation_registry \<Rightarrow> bool" where
  register_manifest: "federation_step r (snd (federation_register m r))"
| register_document: "federation_step r (snd (federation_register_mapping v r))"

abbreviation federation_reachable :: "federation_registry \<Rightarrow> bool" where
  "federation_reachable \<equiv> federation_step\<^sup>*\<^sup>* registry_empty"

lemma register_mapping_snd:
  "snd (federation_register_mapping v r) = (case from_mapping v of Inl e \<Rightarrow> r | Inr m \<Rightarrow> snd (federation_register m r))"
  by (simp add: federation_register_mapping_def split: sum.splits prod.splits)

lemma federation_step_register: "federation_step r r' \<Longrightarrow> r' = r \<or> (\<exists>m. r' = snd (federation_register m r))"
  by (erule federation_step.cases) (auto simp: register_mapping_snd split: sum.splits)

definition registry_ok :: "federation_registry \<Rightarrow> bool" where
  "registry_ok r = (fed.good r \<and> distinct (map fst (fr_repositories r)))"

lemma distinct_register: "distinct (map fst (fr_repositories r)) \<Longrightarrow> distinct (map fst (fr_repositories (snd (federation_register m r))))"
  by (simp add: federation_register_def distinct_update split: sum.splits)

lemma reachable_registry_ok: "federation_reachable r \<Longrightarrow> registry_ok r"
proof (induction rule: rtranclp_induct)
  case base
  show ?case by (simp add: registry_ok_def registry_empty_def well_owned_def)
next
  case (step r r')
  from federation_step_register [OF step.hyps(2)] step.IH show ?case
    using fed.add_good distinct_register unfolding registry_ok_def by blast
qed

lemma steps_keep: "federation_step\<^sup>*\<^sup>* r r' \<Longrightarrow> map_of (fr_repositories r) i = Some m \<Longrightarrow> map_of (fr_repositories r') i = Some m"
proof (induction rule: rtranclp_induct)
  case (step r1 r2)
  from federation_step_register [OF step.hyps(2)] step show ?case using fed.add_keeps by blast
qed

lemma federation_get_iff: "federation_get i r = Inr m \<longleftrightarrow> map_of (fr_repositories r) i = Some m"
  by (simp add: federation_get_def split: option.splits)

lemma keyed_values:
  assumes "distinct (map fst kvs)" and "\<And>i m. map_of kvs i = Some m \<Longrightarrow> f m = i"
  shows "map f (map snd kvs) = map fst kvs" "set (map snd kvs) = {m. \<exists>i. map_of kvs i = Some m}"
proof -
  show "map f (map snd kvs) = map fst kvs" using assms by (auto simp: map_of_eq_Some_iff)
  show "set (map snd kvs) = {m. \<exists>i. map_of kvs i = Some m}" using assms(1) by (force simp: map_of_eq_Some_iff)
qed

lemma sort_key_decorated: "map snd (sort_key fst (map (\<lambda>m. (g m, m)) xs)) = sort_key g xs"
proof (induction xs)
  case (Cons x xs)
  have "map snd (insort_key fst (g x, x) ys) = insort_key g x (map snd ys)" if "\<forall>y\<in>set ys. fst y = g (snd y)" for ys
    using that by (induction ys) auto
  moreover have "\<forall>y\<in>set (sort_key fst (map (\<lambda>m. (g m, m)) xs)). fst y = g (snd y)" by auto
  ultimately show ?case using Cons.IH by simp
qed simp

definition rank_of :: "string \<Rightarrow> int" where
  "rank_of a = (case map_of AUTHORITY_RANK a of None \<Rightarrow> 0 | Some k \<Rightarrow> k)"

lemma rank_of: "rank_check a = Inr () \<Longrightarrow> authority_rank a = Inr (rank_of a)"
  by (auto simp: rank_check_ok authority_rank_def rank_of_def split: option.splits)

lemma map_res_Inr: "(\<And>x. x \<in> set xs \<Longrightarrow> f x = Inr (g x)) \<Longrightarrow> map_res f xs = Inr (map g xs)"
  by (induction xs) auto

lemma discover_capability_eq:
  assumes "\<And>m. m \<in> set (map snd (fr_repositories r)) \<Longrightarrow> manifest_validate m = Inr ()"
  shows "discover_capability c r = Inr (sort_key (\<lambda>m. (rank_of (rm_maximum_authority m), rm_repository_id m))
    (filter (\<lambda>m. c \<in> set (rm_capabilities m)) (map snd (fr_repositories r))))"
proof -
  have "authority_rank (rm_maximum_authority m) = Inr (rank_of (rm_maximum_authority m))"
    if "m \<in> set (map snd (fr_repositories r))" for m
    using assms [OF that] by (intro rank_of) (simp add: manifest_validate_def)
  then have "map_res (\<lambda>m. and_then (authority_rank (rm_maximum_authority m)) (\<lambda>k. Inr ((k, rm_repository_id m), m)))
      (filter (\<lambda>m. c \<in> set (rm_capabilities m)) (map snd (fr_repositories r)))
    = Inr (map (\<lambda>m. ((rank_of (rm_maximum_authority m), rm_repository_id m), m))
      (filter (\<lambda>m. c \<in> set (rm_capabilities m)) (map snd (fr_repositories r))))"
    by (intro map_res_Inr) (simp del: list.set_map)
  then show ?thesis by (simp only: discover_capability_def and_then_simps sort_key_decorated)
qed

section \<open>Documents of manifests\<close>

text \<open>The document of a manifest: the shape \<open>from_mapping\<close> expects, the ref given or null.\<close>

abbreviation doc_strs :: "string list \<Rightarrow> doc" where
  "doc_strs xs \<equiv> DList (map DStr xs)"

definition artifact_doc :: "architecture_artifact \<Rightarrow> doc" where
  "artifact_doc a = DObj [(''path'', DStr (aa_path a)), (''class'', DStr (aa_artifact_class a)), (''currentness'', DStr (aa_currentness a))]"

definition knowledge_doc :: "architecture_knowledge \<Rightarrow> doc" where
  "knowledge_doc k = DObj [(''schema_version'', DStr (ak_schema_version k)), (''global_owner'', DStr (ak_global_owner k)),
     (''semantic_exports'', doc_strs (ak_semantic_exports k)), (''semantic_imports'', doc_strs (ak_semantic_imports k)),
     (''repository_dependencies'', doc_strs (ak_repository_dependencies k)),
     (''architecture_artifacts'', DList (map artifact_doc (ak_architecture_artifacts k))),
     (''discoverability'', DObj [(''entrypoint'', DStr (di_entrypoint (ak_discoverability k))),
       (''global_owner_route'', DStr (di_global_owner_route (ak_discoverability k))),
       (''max_reads_to_global_owner'', DInt (di_max_reads_to_global_owner (ak_discoverability k)))]),
     (''invalidation_triggers'', doc_strs (ak_invalidation_triggers k))]"

definition manifest_doc :: "string option \<Rightarrow> repository_manifest \<Rightarrow> doc" where
  "manifest_doc ref m = DObj ([(''schema_version'', DStr ''1.0.0''),
     (''repository'', DObj [(''id'', DStr (rm_repository_id m)), (''url'', DStr (rm_url m)), (''owner'', DStr (rm_owner m)),
       (''default_branch'', DStr (rm_default_branch m)), (''vcs_ref'', case ref of None \<Rightarrow> DNull | Some x \<Rightarrow> DStr x)]),
     (''cyber_lion'', DObj [(''tile_id'', DStr (rm_tile_id m)), (''roles'', doc_strs (rm_roles m)),
       (''layers'', doc_strs (rm_layers m)), (''disposition'', doc_strs (rm_dispositions m))]),
     (''capabilities'', doc_strs (rm_capabilities m)),
     (''authority'', DObj [(''maximum_level'', DStr (rm_maximum_authority m)), (''required_gates'', doc_strs (rm_required_gates m))]),
     (''observability'', DObj [(''logs'', doc_strs (rm_logs m)), (''metrics'', doc_strs (rm_metrics m)), (''traces'', doc_strs (rm_traces m))]),
     (''security'', DObj [(''trust_boundaries'', doc_strs (rm_trust_boundaries m))]),
     (''epistemic'', DObj [(''status'', DStr (rm_epistemic_status m)),
       (''confidence'', case rm_epistemic_confidence m of None \<Rightarrow> DNull | Some x \<Rightarrow> DFloat x)])]
     @ (case rm_architecture_knowledge m of None \<Rightarrow> [] | Some k \<Rightarrow> [(''architecture_knowledge'', knowledge_doc k)]))"

lemma native_string_list_strs [simp]: "native_string_list (doc_strs xs) name = Inr xs"
  by (simp add: list_ex_iff comp_def)

declare native_string_list.simps [simp del]

lemma unique_strs [simp]: "distinct xs \<Longrightarrow> unique_native_string_list (doc_strs xs) name = Inr xs"
  by (simp only: unique_native_string_list_def native_string_list_strs and_then_simps no_dup_iff if_True)

text \<open>A record rebuilt from its fields is the record.\<close>

lemma artifact_eta: "\<lparr>aa_path = aa_path a, aa_artifact_class = aa_artifact_class a, aa_currentness = aa_currentness a\<rparr> = a"
  by (cases a) simp

lemma discoverability_eta: "\<lparr>di_entrypoint = di_entrypoint d, di_global_owner_route = di_global_owner_route d,
    di_max_reads_to_global_owner = di_max_reads_to_global_owner d\<rparr> = d"
  by (cases d) simp

lemma knowledge_eta: "\<lparr>ak_schema_version = ak_schema_version k, ak_global_owner = ak_global_owner k,
    ak_semantic_exports = ak_semantic_exports k, ak_semantic_imports = ak_semantic_imports k,
    ak_repository_dependencies = ak_repository_dependencies k, ak_architecture_artifacts = ak_architecture_artifacts k,
    ak_discoverability = ak_discoverability k, ak_invalidation_triggers = ak_invalidation_triggers k\<rparr> = k"
  by (cases k) simp

lemma read_artifact_doc: "artifact_validate a = Inr () \<Longrightarrow> read_artifact (artifact_doc a) = Inr a"
  by (simp add: read_artifact_def artifact_doc_def same_keys_def ARTIFACT_KEYS_def doc_get_def Let_def artifact_eta)

lemma read_artifact_docs: "\<forall>a\<in>set xs. artifact_validate a = Inr () \<Longrightarrow> map_res read_artifact (map artifact_doc xs) = Inr xs"
  by (induction xs) (simp_all add: read_artifact_doc)

lemma read_knowledge_doc:
  assumes "knowledge_validate k = Inr ()"
  shows "read_knowledge (knowledge_doc k) = Inr k"
proof -
  have D: "distinct (ak_semantic_exports k)" "distinct (ak_semantic_imports k)" "distinct (ak_repository_dependencies k)"
    "distinct (ak_invalidation_triggers k)" "\<forall>a\<in>set (ak_architecture_artifacts k). artifact_validate a = Inr ()"
    "discoverability_validate (ak_discoverability k) = Inr ()"
    using assms by (simp_all add: knowledge_validate_def checks_map_ok)
  have keys: "same_keys [(''schema_version'', a1), (''global_owner'', a2), (''semantic_exports'', a3), (''semantic_imports'', a4),
      (''repository_dependencies'', a5), (''architecture_artifacts'', a6), (''discoverability'', a7), (''invalidation_triggers'', a8)]
      KNOWLEDGE_ROOT_KEYS" for a1 a2 a3 a4 a5 a6 a7 a8 :: doc
    by (simp add: same_keys_def KNOWLEDGE_ROOT_KEYS_def)
  have dkeys: "same_keys [(''entrypoint'', a1), (''global_owner_route'', a2), (''max_reads_to_global_owner'', a3)] DISCOVERABILITY_KEYS"
    for a1 a2 a3 :: doc
    by (simp add: same_keys_def DISCOVERABILITY_KEYS_def)
  show ?thesis
    using assms D
    by (simp add: read_knowledge_def knowledge_doc_def keys dkeys doc_get_def read_artifact_docs Let_def discoverability_eta knowledge_eta)
qed

lemma manifest_eta: "\<lparr>rm_repository_id = rm_repository_id m, rm_url = rm_url m, rm_owner = rm_owner m,
    rm_default_branch = rm_default_branch m, rm_tile_id = rm_tile_id m, rm_roles = rm_roles m,
    rm_layers = rm_layers m, rm_dispositions = rm_dispositions m,
    rm_capabilities = rm_capabilities m, rm_maximum_authority = rm_maximum_authority m,
    rm_required_gates = rm_required_gates m, rm_logs = rm_logs m, rm_metrics = rm_metrics m,
    rm_traces = rm_traces m, rm_trust_boundaries = rm_trust_boundaries m,
    rm_epistemic_status = rm_epistemic_status m,
    rm_epistemic_confidence = rm_epistemic_confidence m,
    rm_architecture_knowledge = rm_architecture_knowledge m\<rparr> = m"
  by (cases m) simp

lemma root_keys:
  "same_keys [(''schema_version'', a1), (''repository'', a2), (''cyber_lion'', a3), (''capabilities'', a4), (''authority'', a5),
     (''observability'', a6), (''security'', a7), (''epistemic'', a8)] MANIFEST_ROOT_KEYS"
  "same_keys [(''schema_version'', a1), (''repository'', a2), (''cyber_lion'', a3), (''capabilities'', a4), (''authority'', a5),
     (''observability'', a6), (''security'', a7), (''epistemic'', a8), (''architecture_knowledge'', a9)]
     (''architecture_knowledge'' # MANIFEST_ROOT_KEYS)"
  by (simp_all add: same_keys_def MANIFEST_ROOT_KEYS_def)

lemma part_keys:
  "same_keys [(''id'', a1), (''url'', a2), (''owner'', a3), (''default_branch'', a4), (''vcs_ref'', a5)] REPOSITORY_KEYS"
  "same_keys [(''tile_id'', a1), (''roles'', a2), (''layers'', a3), (''disposition'', a4)] CYBER_LION_KEYS"
  "same_keys [(''maximum_level'', a1), (''required_gates'', a2)] AUTHORITY_KEYS"
  "same_keys [(''logs'', a1), (''metrics'', a2), (''traces'', a3)] OBSERVABILITY_KEYS"
  "same_keys [(''trust_boundaries'', a1)] SECURITY_KEYS"
  "same_keys [(''status'', a1), (''confidence'', a2)] EPISTEMIC_KEYS"
  by (simp_all add: same_keys_def REPOSITORY_KEYS_def CYBER_LION_KEYS_def AUTHORITY_KEYS_def OBSERVABILITY_KEYS_def
      SECURITY_KEYS_def EPISTEMIC_KEYS_def)

lemma same_keys_iff: "same_keys kvs keys \<longleftrightarrow> fst ` set kvs = set keys"
  by (auto simp: same_keys_def list_all_iff)

lemma optional_docs:
  "read_vcs_ref (case ref of None \<Rightarrow> DNull | Some x \<Rightarrow> DStr x) = Inr ()"
  "read_confidence (case conf of None \<Rightarrow> DNull | Some x \<Rightarrow> DFloat x) = Inr conf"
  by (simp_all split: option.split)

lemma from_mapping_doc:
  assumes "manifest_validate m = Inr ()"
  shows "from_mapping (manifest_doc ref m) = Inr m"
proof (cases "rm_architecture_knowledge m")
  case None
  show ?thesis
    using assms
    by (simp add: manifest_eta [of m, unfolded None] from_mapping_def manifest_doc_def None root_keys part_keys doc_get_def optional_docs Let_def)
next
  case (Some k)
  then have "knowledge_validate k = Inr ()" using assms by (simp add: manifest_validate_def)
  then show ?thesis
    using assms
    by (simp add: manifest_eta [of m, unfolded Some] from_mapping_def manifest_doc_def Some root_keys part_keys doc_get_def optional_docs Let_def read_knowledge_doc)
qed

lemma and_then_cont: "and_then a f = Inr y \<Longrightarrow> (\<And>x. f x = Inr y \<Longrightarrow> P) \<Longrightarrow> P"
  by (cases a) simp_all

lemma and_then_unitE: "and_then (a :: unit res) f = Inr y \<Longrightarrow> (a = Inr () \<Longrightarrow> f () = Inr y \<Longrightarrow> P) \<Longrightarrow> P"
  by simp

lemma from_mapping_valid: "from_mapping v = Inr m \<Longrightarrow> manifest_validate m = Inr ()"
  unfolding from_mapping_def Let_def
  by (simp del: and_then_unit_ok split: doc.splits if_splits) (elim and_then_unitE and_then_cont conjE; simp)

section \<open>What a document says\<close>

text \<open>
  The documents of a manifest, written down without the reader: an object is given by all its fields, which fixes
  its keys and their values, in any order.
\<close>

definition has_fields :: "(string \<times> doc) list \<Rightarrow> (string \<times> doc) list \<Rightarrow> bool" where
  "has_fields kvs xs \<longleftrightarrow> map_of kvs = map_of xs"

definition artifact_document :: "doc \<Rightarrow> architecture_artifact \<Rightarrow> bool" where
  "artifact_document d a \<longleftrightarrow> (\<exists>kvs. d = DObj kvs \<and> has_fields kvs
     [(''path'', DStr (aa_path a)), (''class'', DStr (aa_artifact_class a)), (''currentness'', DStr (aa_currentness a))])"

definition knowledge_document :: "doc \<Rightarrow> architecture_knowledge \<Rightarrow> bool" where
  "knowledge_document d k \<longleftrightarrow> (\<exists>kvs items disc. d = DObj kvs
     \<and> has_fields kvs [(''schema_version'', DStr (ak_schema_version k)), (''global_owner'', DStr (ak_global_owner k)),
         (''semantic_exports'', doc_strs (ak_semantic_exports k)), (''semantic_imports'', doc_strs (ak_semantic_imports k)),
         (''repository_dependencies'', doc_strs (ak_repository_dependencies k)), (''architecture_artifacts'', DList items),
         (''discoverability'', DObj disc), (''invalidation_triggers'', doc_strs (ak_invalidation_triggers k))]
     \<and> list_all2 artifact_document items (ak_architecture_artifacts k)
     \<and> has_fields disc [(''entrypoint'', DStr (di_entrypoint (ak_discoverability k))),
         (''global_owner_route'', DStr (di_global_owner_route (ak_discoverability k))),
         (''max_reads_to_global_owner'', DInt (di_max_reads_to_global_owner (ak_discoverability k)))])"

definition confidence_document :: "doc \<Rightarrow> pynum option \<Rightarrow> bool" where
  "confidence_document d x \<longleftrightarrow> d = DNull \<and> x = None \<or> (\<exists>i. d = DInt i \<and> x = Some (Num (of_int i))) \<or> (\<exists>y. d = DFloat y \<and> x = Some y)"

definition manifest_document :: "doc \<Rightarrow> repository_manifest \<Rightarrow> bool" where
  "manifest_document d m \<longleftrightarrow> (\<exists>root_fields knowledge repo cyber authority obs security epistemic ref confidence. d = DObj root_fields
     \<and> has_fields root_fields ([(''schema_version'', DStr ''1.0.0''), (''repository'', DObj repo), (''cyber_lion'', DObj cyber),
         (''capabilities'', doc_strs (rm_capabilities m)), (''authority'', DObj authority), (''observability'', DObj obs),
         (''security'', DObj security), (''epistemic'', DObj epistemic)] @ knowledge)
     \<and> (case rm_architecture_knowledge m of None \<Rightarrow> knowledge = []
        | Some k \<Rightarrow> \<exists>v. knowledge = [(''architecture_knowledge'', v)] \<and> knowledge_document v k)
     \<and> has_fields repo [(''id'', DStr (rm_repository_id m)), (''url'', DStr (rm_url m)), (''owner'', DStr (rm_owner m)),
         (''default_branch'', DStr (rm_default_branch m)), (''vcs_ref'', ref)] \<and> (ref = DNull \<or> (\<exists>x. ref = DStr x))
     \<and> has_fields cyber [(''tile_id'', DStr (rm_tile_id m)), (''roles'', doc_strs (rm_roles m)), (''layers'', doc_strs (rm_layers m)),
         (''disposition'', doc_strs (rm_dispositions m))]
     \<and> has_fields authority [(''maximum_level'', DStr (rm_maximum_authority m)), (''required_gates'', doc_strs (rm_required_gates m))]
     \<and> has_fields obs [(''logs'', doc_strs (rm_logs m)), (''metrics'', doc_strs (rm_metrics m)), (''traces'', doc_strs (rm_traces m))]
     \<and> has_fields security [(''trust_boundaries'', doc_strs (rm_trust_boundaries m))]
     \<and> has_fields epistemic [(''status'', DStr (rm_epistemic_status m)), (''confidence'', confidence)]
     \<and> confidence_document confidence (rm_epistemic_confidence m))"

lemma has_fields_iff:
  assumes "distinct (map fst xs)"
  shows "has_fields kvs xs \<longleftrightarrow> same_keys kvs (map fst xs) \<and> list_all (\<lambda>(k, v). doc_get k kvs = v) xs"
unfolding has_fields_def
proof
  assume "map_of kvs = map_of xs"
  moreover from this have "fst ` set kvs = fst ` set xs" by (metis dom_map_of_conv_image_fst)
  ultimately show "same_keys kvs (map fst xs) \<and> list_all (\<lambda>(k, v). doc_get k kvs = v) xs"
    using map_of_is_SomeI [OF assms] by (auto simp: same_keys_iff list_all_iff doc_get_def)
next
  assume f: "same_keys kvs (map fst xs) \<and> list_all (\<lambda>(k, v). doc_get k kvs = v) xs"
  then have d: "dom (map_of kvs) = fst ` set xs" by (simp add: same_keys_iff dom_map_of_conv_image_fst)
  show "map_of kvs = map_of xs"
  proof
    fix k
    show "map_of kvs k = map_of xs k"
    proof (cases "k \<in> fst ` set xs")
      case True
      then obtain v where v: "(k, v) \<in> set xs" by auto
      then have "doc_get k kvs = v" using f by (auto simp: list_all_iff)
      moreover have "map_of kvs k \<noteq> None" using True d by auto
      ultimately show ?thesis using map_of_is_SomeI [OF assms v] by (auto simp: doc_get_def)
    next
      case False
      then have "map_of kvs k = None" using d by (metis domIff)
      with False show ?thesis by (metis map_of_eq_None_iff)
    qed
  qed
qed

lemma exact_object_ok: "exact_object d name keys = Inr kvs \<longleftrightarrow> d = DObj kvs \<and> same_keys kvs keys"
  by (cases d) auto

lemma native_string_ok: "native_string d name = Inr s \<longleftrightarrow> d = DStr s"
  by (cases d) auto

lemma native_string_list_ok: "native_string_list d name = Inr xs \<longleftrightarrow> d = doc_strs xs"
proof
  assume "native_string_list d name = Inr xs"
  then obtain ds where ds: "d = DList ds" "\<forall>x\<in>set ds. doc_text x \<noteq> None" "xs = map (\<lambda>x. the (doc_text x)) ds"
    by (cases d) (auto simp: native_string_list.simps list_ex_iff split: if_splits)
  have "DStr (the (doc_text x)) = x" if "doc_text x \<noteq> None" for x using that by (cases x) auto
  then show "d = doc_strs xs" using ds by (simp add: comp_def map_idI)
qed simp

lemma unique_strings_ok: "unique_native_string_list d name = Inr xs \<longleftrightarrow> d = doc_strs xs \<and> distinct xs"
  by (auto simp: unique_native_string_list_def and_then_ok native_string_list_ok no_dup_iff split: if_splits)

lemma read_vcs_ref_ok: "read_vcs_ref d = Inr () \<longleftrightarrow> d = DNull \<or> (\<exists>x. d = DStr x)"
  by (cases d) auto

lemma read_confidence_ok: "read_confidence d = Inr x \<longleftrightarrow> confidence_document d x"
  by (cases d) (auto simp: confidence_document_def)

lemmas reads_ok = and_then_ok exact_object_ok native_string_ok native_string_list_ok unique_strings_ok read_vcs_ref_ok read_confidence_ok

lemma read_artifact_iff: "read_artifact d = Inr a \<longleftrightarrow> artifact_validate a = Inr () \<and> artifact_document d a"
  by (cases a) (auto simp: read_artifact_def artifact_document_def reads_ok has_fields_iff ARTIFACT_KEYS_def Let_def)

lemma map_res_iff: "map_res f xs = Inr ys \<longleftrightarrow> list_all2 (\<lambda>x y. f x = Inr y) xs ys"
  by (induction xs arbitrary: ys) (auto simp: and_then_ok list_all2_Cons1)

lemma doc_list_ok: "(case d of DList xs \<Rightarrow> Inr xs | _ \<Rightarrow> doc_error m) = Inr ys \<longleftrightarrow> d = DList ys"
  by (cases d) auto

lemma doc_int_ok: "(case d of DInt i \<Rightarrow> Inr i | _ \<Rightarrow> doc_error m) = Inr j \<longleftrightarrow> d = DInt j"
  by (cases d) auto

lemma knowledge_valid_parts:
  assumes "knowledge_validate k = Inr ()"
  shows "distinct (ak_semantic_exports k)" "distinct (ak_semantic_imports k)" "distinct (ak_repository_dependencies k)"
    "distinct (ak_invalidation_triggers k)" "\<forall>a\<in>set (ak_architecture_artifacts k). artifact_validate a = Inr ()"
    "discoverability_validate (ak_discoverability k) = Inr ()"
  using assms by (simp_all add: knowledge_validate_def checks_map_ok)

lemma artifacts_iff:
  "map_res read_artifact items = Inr xs \<longleftrightarrow> (\<forall>a\<in>set xs. artifact_validate a = Inr ()) \<and> list_all2 artifact_document items xs"
  by (auto simp: map_res_iff read_artifact_iff list_all2_conv_all_nth all_set_conv_all_nth)

lemmas knowledge_reads = reads_ok doc_list_ok doc_int_ok artifacts_iff has_fields_iff KNOWLEDGE_ROOT_KEYS_def DISCOVERABILITY_KEYS_def Let_def

lemma read_knowledge_iff: "read_knowledge d = Inr k \<longleftrightarrow> knowledge_validate k = Inr () \<and> knowledge_document d k"
proof
  assume "read_knowledge d = Inr k"
  then show "knowledge_validate k = Inr () \<and> knowledge_document d k"
    by (auto simp: read_knowledge_def knowledge_document_def knowledge_reads)
next
  assume k: "knowledge_validate k = Inr () \<and> knowledge_document d k"
  note v = knowledge_valid_parts [OF conjunct1 [OF k]]
  obtain kvs items disc where d: "d = DObj kvs" "list_all2 artifact_document items (ak_architecture_artifacts k)"
    "has_fields kvs [(''schema_version'', DStr (ak_schema_version k)), (''global_owner'', DStr (ak_global_owner k)),
       (''semantic_exports'', doc_strs (ak_semantic_exports k)), (''semantic_imports'', doc_strs (ak_semantic_imports k)),
       (''repository_dependencies'', doc_strs (ak_repository_dependencies k)), (''architecture_artifacts'', DList items),
       (''discoverability'', DObj disc), (''invalidation_triggers'', doc_strs (ak_invalidation_triggers k))]"
    "has_fields disc [(''entrypoint'', DStr (di_entrypoint (ak_discoverability k))),
       (''global_owner_route'', DStr (di_global_owner_route (ak_discoverability k))),
       (''max_reads_to_global_owner'', DInt (di_max_reads_to_global_owner (ak_discoverability k)))]"
    using k unfolding knowledge_document_def by blast
  have "map_res read_artifact items = Inr (ak_architecture_artifacts k)" using v(5) d(2) by (simp add: artifacts_iff)
  with d(3,4) v k show "read_knowledge d = Inr k"
    by (simp add: d(1) read_knowledge_def has_fields_iff KNOWLEDGE_ROOT_KEYS_def DISCOVERABILITY_KEYS_def Let_def discoverability_eta knowledge_eta)
qed

lemmas manifest_parts = MANIFEST_ROOT_KEYS_def REPOSITORY_KEYS_def CYBER_LION_KEYS_def AUTHORITY_KEYS_def OBSERVABILITY_KEYS_def
  SECURITY_KEYS_def EPISTEMIC_KEYS_def

lemma root_keys_iff:
  "same_keys kvs MANIFEST_ROOT_KEYS \<Longrightarrow> map_of kvs ''architecture_knowledge'' = None"
  "same_keys kvs (''architecture_knowledge'' # MANIFEST_ROOT_KEYS) \<longleftrightarrow> same_keys kvs (MANIFEST_ROOT_KEYS @ [''architecture_knowledge''])"
proof -
  have "''architecture_knowledge'' \<notin> set MANIFEST_ROOT_KEYS" by code_simp
  then show "same_keys kvs MANIFEST_ROOT_KEYS \<Longrightarrow> map_of kvs ''architecture_knowledge'' = None" by (simp add: same_keys_iff map_of_eq_None_iff)
qed (simp add: same_keys_iff)

lemma from_mapping_sound:
  assumes "from_mapping d = Inr m"
  shows "manifest_document d m"
proof -
  obtain kvs where d: "d = DObj kvs" using assms by (cases d) (auto simp: from_mapping_def)
  show ?thesis
  proof (cases "map_of kvs ''architecture_knowledge''")
    case None
    then have "\<not> same_keys kvs (''architecture_knowledge'' # MANIFEST_ROOT_KEYS)" by (auto simp: same_keys_iff map_of_eq_None_iff)
    with assms None show ?thesis unfolding d
      by (auto simp: from_mapping_def manifest_document_def reads_ok has_fields_iff manifest_parts Let_def split: if_splits)
  next
    case (Some v)
    then have "\<not> same_keys kvs MANIFEST_ROOT_KEYS" "doc_get ''architecture_knowledge'' kvs = v" using root_keys_iff(1) [of kvs] by (auto simp: doc_get_def)
    moreover from this have "same_keys kvs (MANIFEST_ROOT_KEYS @ [''architecture_knowledge''])"
      using assms root_keys_iff(2) [of kvs] by (auto simp: d from_mapping_def split: if_splits)
    ultimately show ?thesis using assms Some unfolding d manifest_document_def
      by (rule_tac exI [of _ kvs], rule_tac exI [of _ "[(''architecture_knowledge'', v)]"])
        (auto simp: from_mapping_def reads_ok has_fields_iff manifest_parts read_knowledge_iff Let_def split: if_splits)
  qed
qed

lemma from_mapping_complete:
  assumes "manifest_validate m = Inr ()" "manifest_document d m"
  shows "from_mapping d = Inr m"
proof -
  obtain kvs knowledge repo cyber authority obs security epistemic ref confidence where d: "d = DObj kvs"
    "has_fields kvs ([(''schema_version'', DStr ''1.0.0''), (''repository'', DObj repo), (''cyber_lion'', DObj cyber),
       (''capabilities'', doc_strs (rm_capabilities m)), (''authority'', DObj authority), (''observability'', DObj obs),
       (''security'', DObj security), (''epistemic'', DObj epistemic)] @ knowledge)"
    "case rm_architecture_knowledge m of None \<Rightarrow> knowledge = []
       | Some k \<Rightarrow> \<exists>v. knowledge = [(''architecture_knowledge'', v)] \<and> knowledge_document v k"
    and f: "has_fields repo [(''id'', DStr (rm_repository_id m)), (''url'', DStr (rm_url m)), (''owner'', DStr (rm_owner m)),
       (''default_branch'', DStr (rm_default_branch m)), (''vcs_ref'', ref)]" "ref = DNull \<or> (\<exists>x. ref = DStr x)"
    "has_fields cyber [(''tile_id'', DStr (rm_tile_id m)), (''roles'', doc_strs (rm_roles m)), (''layers'', doc_strs (rm_layers m)),
       (''disposition'', doc_strs (rm_dispositions m))]"
    "has_fields authority [(''maximum_level'', DStr (rm_maximum_authority m)), (''required_gates'', doc_strs (rm_required_gates m))]"
    "has_fields obs [(''logs'', doc_strs (rm_logs m)), (''metrics'', doc_strs (rm_metrics m)), (''traces'', doc_strs (rm_traces m))]"
    "has_fields security [(''trust_boundaries'', doc_strs (rm_trust_boundaries m))]"
    "has_fields epistemic [(''status'', DStr (rm_epistemic_status m)), (''confidence'', confidence)]"
    "confidence_document confidence (rm_epistemic_confidence m)"
    using assms(2) unfolding manifest_document_def by blast
  have c: "read_confidence confidence = Inr (rm_epistemic_confidence m)" "read_vcs_ref ref = Inr ()"
    using f(2,8) by (simp_all add: read_confidence_ok read_vcs_ref_ok)
  show ?thesis
  proof (cases "rm_architecture_knowledge m")
    case None
    then have "same_keys kvs MANIFEST_ROOT_KEYS" using d(2,3) by (simp add: has_fields_iff manifest_parts)
    with d(2,3) None f c assms(1) show ?thesis
      by (simp add: d(1) from_mapping_def root_keys_iff(1)) (simp add: has_fields_iff manifest_parts Let_def manifest_eta [of m, unfolded None])
  next
    case (Some k)
    then obtain v where v: "knowledge = [(''architecture_knowledge'', v)]" "knowledge_document v k" using d(3) by auto
    have "knowledge_validate k = Inr ()" using assms(1) Some by (simp add: manifest_validate_def)
    with v(2) have r: "read_knowledge v = Inr k" by (simp add: read_knowledge_iff)
    have "same_keys kvs (''architecture_knowledge'' # MANIFEST_ROOT_KEYS)"
      using d(2) unfolding v(1) root_keys_iff(2) by (simp add: has_fields_iff manifest_parts)
    moreover have "map_of kvs ''architecture_knowledge'' = Some v" using d(2) by (simp add: has_fields_def v(1))
    ultimately show ?thesis using d(2) v(1) f c r assms(1)
      by (simp add: d(1) from_mapping_def) (simp add: has_fields_iff manifest_parts Let_def manifest_eta [of m, unfolded Some])
  qed
qed

lemma from_mapping_iff: "from_mapping d = Inr m \<longleftrightarrow> manifest_validate m = Inr () \<and> manifest_document d m"
  using from_mapping_valid from_mapping_sound from_mapping_complete by blast

text \<open>The three queries on a reachable registry.\<close>

lemma discovery_facts:
  assumes "federation_reachable r"
  shows "\<exists>ms. discover_capability c r = Inr ms \<and> distinct (map rm_repository_id ms)
      \<and> set ms = {m. (\<exists>i. federation_get i r = Inr m) \<and> c \<in> set (rm_capabilities m)}
      \<and> sorted (map (\<lambda>m. (rank_of (rm_maximum_authority m), rm_repository_id m)) ms)"
    and "l \<in> set ALLOWED_LAYERS \<Longrightarrow> \<exists>ms. discover_layer l r = Inr ms \<and> distinct (map rm_repository_id ms)
      \<and> set ms = {m. (\<exists>i. federation_get i r = Inr m) \<and> l \<in> set (rm_layers m)} \<and> sorted (map rm_repository_id ms)"
    and "set (registry_all r) = {m. \<exists>i. federation_get i r = Inr m} \<and> sorted (map rm_repository_id (registry_all r))"
proof -
  have good: "fed.good r" and keys: "distinct (map fst (fr_repositories r))"
    using reachable_registry_ok [OF assms] by (simp_all add: registry_ok_def)
  note entry = fed.entry_ok [OF good]
  note vals = keyed_values [OF keys, of rm_repository_id]
  have set_all: "set (map snd (fr_repositories r)) = {m. \<exists>i. federation_get i r = Inr m}"
    unfolding federation_get_iff using vals(2) entry by blast
  have dist: "distinct (map rm_repository_id (map snd (fr_repositories r)))" using vals(1) entry keys by metis
  have dist_sort: "distinct (map rm_repository_id (sort_key g (filter P (map snd (fr_repositories r)))))" for g :: "_ \<Rightarrow> 'b::linorder" and P
    using distinct_map_filter [OF dist, of P] by (simp add: distinct_map del: map_map)
  have "discover_capability c r = Inr (sort_key (\<lambda>m. (rank_of (rm_maximum_authority m), rm_repository_id m))
    (filter (\<lambda>m. c \<in> set (rm_capabilities m)) (map snd (fr_repositories r))))"
    by (rule discover_capability_eq) (use set_all entry federation_get_iff in blast)
  then show "\<exists>ms. discover_capability c r = Inr ms \<and> distinct (map rm_repository_id ms)
      \<and> set ms = {m. (\<exists>i. federation_get i r = Inr m) \<and> c \<in> set (rm_capabilities m)}
      \<and> sorted (map (\<lambda>m. (rank_of (rm_maximum_authority m), rm_repository_id m)) ms)"
    using dist_sort set_all by (simp del: list.set_map)
  show "\<exists>ms. discover_layer l r = Inr ms \<and> distinct (map rm_repository_id ms)
      \<and> set ms = {m. (\<exists>i. federation_get i r = Inr m) \<and> l \<in> set (rm_layers m)} \<and> sorted (map rm_repository_id ms)"
    if "l \<in> set ALLOWED_LAYERS"
    using that dist_sort set_all by (simp add: discover_layer_def del: list.set_map)
  show "set (registry_all r) = {m. \<exists>i. federation_get i r = Inr m} \<and> sorted (map rm_repository_id (registry_all r))"
    using set_all by (simp add: registry_all_def del: list.set_map)
qed

section \<open>Properties\<close>

text \<open>C25. The registry keeps one immutable owner per tile: on every registry reached by registrations of manifests and
  documents, each manifest is valid and stored under its own id, repositories that claim the same tile are the same, and
  a manifest once registered is what every later lookup of its id returns, whatever is registered after it.\<close>

theorem federation_registry_sound:
  assumes "federation_reachable r"
  shows "(\<forall>i m. federation_get i r = Inr m \<longrightarrow> rm_repository_id m = i \<and> manifest_validate m = Inr ())
    \<and> (\<forall>i j m n. federation_get i r = Inr m \<and> federation_get j r = Inr n \<and> rm_tile_id m = rm_tile_id n \<longrightarrow> i = j)
    \<and> (\<forall>i m r'. federation_get i r = Inr m \<and> federation_step\<^sup>*\<^sup>* r r' \<longrightarrow> federation_get i r' = Inr m)"
proof -
  have good: "fed.good r" using reachable_registry_ok [OF assms] by (simp add: registry_ok_def)
  show ?thesis
    unfolding federation_get_iff using fed.entry_ok [OF good] fed.tile_owner [OF good] steps_keep by blast
qed

text \<open>Discovery is exact: on every reachable registry the search for a capability succeeds and returns exactly the
  registered manifests that declare it, each once, in the order of authority rank and then repository id; the search for
  a known layer and the listing do the same in the order of the id.\<close>

theorem discovery_exact:
  assumes "federation_reachable r"
  shows "(\<exists>ms. discover_capability c r = Inr ms \<and> distinct (map rm_repository_id ms)
      \<and> set ms = {m. (\<exists>i. federation_get i r = Inr m) \<and> c \<in> set (rm_capabilities m)}
      \<and> sorted (map (\<lambda>m. (rank_of (rm_maximum_authority m), rm_repository_id m)) ms))
    \<and> (\<forall>l\<in>set ALLOWED_LAYERS. \<exists>ms. discover_layer l r = Inr ms \<and> distinct (map rm_repository_id ms)
      \<and> set ms = {m. (\<exists>i. federation_get i r = Inr m) \<and> l \<in> set (rm_layers m)} \<and> sorted (map rm_repository_id ms))
    \<and> set (registry_all r) = {m. \<exists>i. federation_get i r = Inr m} \<and> sorted (map rm_repository_id (registry_all r))"
  using discovery_facts [OF assms] by blast

text \<open>C26. Manifest documents and manifests correspond. Reading a document succeeds with a manifest exactly when the manifest is
  valid and the document says it: every object of the document, the nested ones, the architecture knowledge and its
  artifacts included, has exactly the known keys with exactly the values of the manifest. In particular every valid manifest is what its
  document reads back as, with or without a ref and with or without architecture knowledge.\<close>

theorem manifest_roundtrip:
  "(from_mapping d = Inr m \<longleftrightarrow> manifest_validate m = Inr () \<and> manifest_document d m)
   \<and> (manifest_validate m = Inr () \<longrightarrow> from_mapping (manifest_doc ref m) = Inr m)"
  using from_mapping_iff from_mapping_doc by blast

section \<open>Example registry\<close>

definition example_knowledge :: architecture_knowledge where
  "example_knowledge = \<lparr>ak_schema_version = ''1.0.0'', ak_global_owner = ''DonkeyJJLove/ai_platform'', ak_semantic_exports = [''x''],
     ak_semantic_imports = [], ak_repository_dependencies = [],
     ak_architecture_artifacts = [\<lparr>aa_path = ''README.md'', aa_artifact_class = ''CONTRACT'', aa_currentness = ''GENERATED''\<rparr>],
     ak_discoverability = \<lparr>di_entrypoint = ''README.md'', di_global_owner_route = ''r'', di_max_reads_to_global_owner = 2\<rparr>,
     ak_invalidation_triggers = [''RAG_RELEASE'']\<rparr>"

definition example_manifest :: "string \<Rightarrow> string \<Rightarrow> repository_manifest" where
  "example_manifest i t = \<lparr>rm_repository_id = i, rm_url = ''u'', rm_owner = ''o'', rm_default_branch = ''main'', rm_tile_id = t,
     rm_roles = [''r''], rm_layers = [''SEM''], rm_dispositions = [''KEEP''], rm_capabilities = [''cap''], rm_maximum_authority = ''read'',
     rm_required_gates = [], rm_logs = [], rm_metrics = [], rm_traces = [], rm_trust_boundaries = [''b''], rm_epistemic_status = ''OK'',
     rm_epistemic_confidence = Some (Num (1/2)), rm_architecture_knowledge = Some example_knowledge\<rparr>"

lemma example_manifest_valid: "i \<noteq> [] \<Longrightarrow> t \<noteq> [] \<Longrightarrow> manifest_validate (example_manifest i t) = Inr ()"
  by (simp add: example_manifest_def example_knowledge_def manifest_validate_def knowledge_validate_def artifact_validate_def
      discoverability_validate_def known_ranks rank_above_def in_unit_def ALLOWED_LAYERS_def ALLOWED_DISPOSITIONS_def
      ARTIFACT_CLASSES_def ARCHITECTURE_CURRENTNESS_def INVALIDATION_TRIGGERS_def nul_def authority_rank_def split: sum.splits)

definition example_federation :: federation_registry where
  "example_federation = snd (federation_register (example_manifest ''z'' ''t2'') (snd (federation_register_mapping
     (manifest_doc None (example_manifest ''a'' ''t1'')) registry_empty)))"

lemma example_federation_eq: "fr_repositories example_federation = [(''a'', example_manifest ''a'' ''t1''), (''z'', example_manifest ''z'' ''t2'')]"
  by (simp add: example_federation_def register_mapping_snd from_mapping_doc example_manifest_valid federation_register_def registry_empty_def)
     (simp add: example_manifest_def)

lemma example_federation_reachable: "federation_reachable example_federation"
  unfolding example_federation_def
  by (rule rtranclp.rtrancl_into_rtrancl [OF r_into_rtranclp]) (rule register_document, rule register_manifest)

section \<open>Witnesses\<close>

theorem federation_registry_sound_witness:
  "federation_get ''a'' example_federation = Inr (example_manifest ''a'' ''t1'')
   \<and> federation_get ''a'' (snd (federation_register (example_manifest ''a'' ''t3'') example_federation)) = Inr (example_manifest ''a'' ''t1'')"
proof -
  have "federation_get ''a'' example_federation = Inr (example_manifest ''a'' ''t1'')"
    by (simp add: federation_get_def example_federation_eq)
  moreover have "federation_step\<^sup>*\<^sup>* example_federation (snd (federation_register (example_manifest ''a'' ''t3'') example_federation))"
    by (rule r_into_rtranclp, rule register_manifest)
  ultimately show ?thesis using federation_registry_sound [OF example_federation_reachable] by blast
qed

theorem discovery_exact_witness:
  "\<exists>ms. discover_capability ''cap'' example_federation = Inr ms \<and> example_manifest ''z'' ''t2'' \<in> set ms"
proof -
  have "federation_get ''z'' example_federation = Inr (example_manifest ''z'' ''t2'')"
    by (simp add: federation_get_def example_federation_eq)
  moreover have "''cap'' \<in> set (rm_capabilities (example_manifest ''z'' ''t2''))" by (simp add: example_manifest_def)
  ultimately show ?thesis using discovery_exact [OF example_federation_reachable, of "''cap''"] by blast
qed

theorem manifest_roundtrip_witness:
  "from_mapping (manifest_doc (Some ''ref'') (example_manifest ''a'' ''t1'')) = Inr (example_manifest ''a'' ''t1'')"
  using manifest_roundtrip [of _ "example_manifest ''a'' ''t1''" "Some ''ref''"] example_manifest_valid [of "''a''" "''t1''"] by blast

end
