(* ===== verification/Persistent_Authority.thy ===== *)
theory Persistent_Authority
  imports Authority_Revocation
begin

text \<open>
  The durable authority state (enterprise/persistent_authority_state.py): epochs and revocations per context, root
  anchors, consumed replay keys, the origin of the store and the finalisation of a binding, on SQLite tables. A table
  is a map from its primary key; a method is one transaction and a transaction that raises leaves the tables as they
  were. The builder issuance records in the same store are in \<open>Builder_Issuance\<close>.
\<close>

section \<open>Helpers\<close>

abbreviation durable_error :: "string \<Rightarrow> exn" where
  "durable_error m \<equiv> Exn PersistentAuthorityStateError m"

text \<open>
  \<open>int(value, 16)\<close> accepts more than digits: surrounding white space (below U+0100: TAB to CR, space, NEL, the no-break
  space), a sign, the prefix \<open>0x\<close>, and single underscores between digits and after the prefix.
\<close>

definition int_space :: "char \<Rightarrow> bool" where
  "int_space c = (let n = (of_char c :: nat) in 9 \<le> n \<and> n \<le> 13 \<or> n = 32 \<or> n = 133 \<or> n = 160)"

definition hex_any :: "char \<Rightarrow> bool" where
  "hex_any c = (c \<in> set ''0123456789abcdefABCDEF'')"

fun hex_rest :: "string \<Rightarrow> bool" where
  "hex_rest [] = True"
| "hex_rest [c] = hex_any c"
| "hex_rest (c # d # s) = (if c = CHR ''_'' then hex_any d \<and> hex_rest s else hex_any c \<and> hex_rest (d # s))"

definition hex_digits :: "string \<Rightarrow> bool" where
  "hex_digits s = (case s of [] \<Rightarrow> False | c # t \<Rightarrow> hex_any c \<and> hex_rest t)"

definition int16_ok :: "string \<Rightarrow> bool" where
  "int16_ok s = (let t = rev (dropWhile int_space (rev (dropWhile int_space s)));
     u = (case t of c # r \<Rightarrow> (if c = CHR ''+'' \<or> c = CHR ''-'' then r else t) | [] \<Rightarrow> t)
   in if starts_with ''0x'' u \<or> starts_with ''0X'' u
      then (case drop 2 u of c # r \<Rightarrow> hex_digits (if c = CHR ''_'' then r else c # r) | [] \<Rightarrow> False)
      else hex_digits u)"

definition py_upper :: "char \<Rightarrow> bool" where
  "py_upper c = (let n = (of_char c :: nat) in 65 \<le> n \<and> n \<le> 90 \<or> 192 \<le> n \<and> n \<le> 222 \<and> n \<noteq> 215)"

definition durable_sha256 :: "string \<Rightarrow> string \<Rightarrow> unit res" where
  "durable_sha256 v name = checks [
     raise_when (length v \<noteq> 64) PersistentAuthorityStateError (name @ '' is invalid''),
     raise_when (\<not> int16_ok v) PersistentAuthorityStateError (name @ '' is invalid''),
     raise_when (list_ex py_upper v) PersistentAuthorityStateError (name @ '' is invalid'')]"

definition durable_text :: "nat \<Rightarrow> string \<Rightarrow> string \<Rightarrow> unit res" where
  "durable_text limit v name = raise_when (text_invalid limit v) PersistentAuthorityStateError (name @ '' is invalid'')"

section \<open>Records\<close>

record epoch_snapshot =
  pe_context :: authority_context
  pe_epoch :: int
  pe_revoked_grant_ids :: "string list"
  pe_version :: int

record durable_root =
  pr_context :: authority_context
  pr_epoch :: int
  pr_root_grant_id :: string
  pr_root_grant_digest :: string

record store_origin =
  so_origin_id :: string
  so_origin_digest :: string
  so_runtime_factory_version :: string
  so_repository_root :: string
  so_canonical_database_path :: string

definition origin_validate :: "store_origin \<Rightarrow> unit res" where
  "origin_validate o1 = checks [
     durable_text 256 (so_origin_id o1) ''origin_id'',
     durable_sha256 (so_origin_digest o1) ''origin_digest'',
     durable_text 64 (so_runtime_factory_version o1) ''runtime_factory_version'',
     durable_text 4096 (so_repository_root o1) ''repository_root'',
     durable_text 4096 (so_canonical_database_path o1) ''canonical_database_path'',
     raise_when (so_origin_id o1 \<noteq> ''aso:'' @ so_origin_digest o1) PersistentAuthorityStateError
       ''authority store origin id binding mismatch'',
     raise_when (\<not> starts_with ''/'' (so_repository_root o1) \<or> \<not> starts_with ''/'' (so_canonical_database_path o1))
       PersistentAuthorityStateError ''authority store origin path is invalid'']"

record binding_finalization =
  bf_context :: authority_context
  bf_epoch :: int
  bf_authority_state_version :: int
  bf_grant_id :: string
  bf_root_grant_id :: string
  bf_root_grant_digest :: string
  bf_live_admission_digest :: string
  bf_runtime_evidence_digest :: string
  bf_binding_nonce :: string
  bf_finalization_key_digest :: string
  bf_finalized_at :: string

definition finalization_validate :: "binding_finalization \<Rightarrow> unit res" where
  "finalization_validate f = (case bf_context f of (d, t, org, m) \<Rightarrow> checks [
     durable_text 512 d ''trust_domain'', durable_text 512 t ''tenant_id'', durable_text 512 org ''organization_id'',
     durable_text 512 m ''mission_id'', durable_text 512 (bf_grant_id f) ''grant_id'',
     durable_text 512 (bf_root_grant_id f) ''root_grant_id'', durable_text 512 (bf_binding_nonce f) ''binding_nonce'',
     durable_text 512 (bf_finalized_at f) ''finalized_at'',
     durable_sha256 (bf_root_grant_digest f) ''root_grant_digest'',
     durable_sha256 (bf_live_admission_digest f) ''live_admission_digest'',
     durable_sha256 (bf_runtime_evidence_digest f) ''runtime_evidence_digest'',
     durable_sha256 (bf_finalization_key_digest f) ''finalization_key_digest'',
     raise_when (bf_epoch f < 0) PersistentAuthorityStateError ''epoch is invalid'',
     raise_when (bf_authority_state_version f < 1) PersistentAuthorityStateError ''authority_state_version is invalid''])"

definition finalization_digest :: "binding_finalization \<Rightarrow> string res" where
  "finalization_digest f = and_then (finalization_validate f) (\<lambda>_. case bf_context f of (d, t, org, m) \<Rightarrow>
     Inr (sha256 (canon_ascii (JObj [
       (''trust_domain'', JStr d), (''tenant_id'', JStr t), (''organization_id'', JStr org), (''mission_id'', JStr m),
       (''epoch'', JInt (bf_epoch f)), (''authority_state_version'', JInt (bf_authority_state_version f)),
       (''grant_id'', JStr (bf_grant_id f)), (''root_grant_id'', JStr (bf_root_grant_id f)),
       (''root_grant_digest'', JStr (bf_root_grant_digest f)), (''live_admission_digest'', JStr (bf_live_admission_digest f)),
       (''runtime_evidence_digest'', JStr (bf_runtime_evidence_digest f)), (''binding_nonce'', JStr (bf_binding_nonce f)),
       (''finalization_key_digest'', JStr (bf_finalization_key_digest f)), (''finalized_at'', JStr (bf_finalized_at f))]))))"

section \<open>The store\<close>

record durable_store =
  da_epochs :: "authority_context \<rightharpoonup> int \<times> string list \<times> int"
  da_roots :: "authority_context \<times> int \<rightharpoonup> string \<times> string"
  da_replay :: "string \<times> string \<rightharpoonup> string"
  da_origin :: "store_origin option"

definition durable_empty :: durable_store where
  "durable_empty = \<lparr>da_epochs = Map.empty, da_roots = Map.empty, da_replay = Map.empty, da_origin = None\<rparr>"

definition context_check :: "authority_context \<Rightarrow> unit res" where
  "context_check c = (case c of (d, t, org, m) \<Rightarrow>
     raise_when (d = [] \<or> t = [] \<or> org = [] \<or> m = []) PersistentAuthorityStateError ''authority context is invalid'')"

text \<open>The stored list of revoked grants: sorted, written and read back as JSON.\<close>

definition revoked_sorted :: "string list \<Rightarrow> string list res" where
  "revoked_sorted items = and_then (raise_when (list_ex (\<lambda>x. x = []) items \<or> \<not> no_dup items) PersistentAuthorityStateError
     ''revoked grant ids are invalid'') (\<lambda>_. Inr (sort items))"

definition current_epoch :: "authority_context \<Rightarrow> durable_store \<Rightarrow> epoch_snapshot res" where
  "current_epoch c s = and_then (context_check c) (\<lambda>_. case da_epochs s c of
     None \<Rightarrow> Inl (durable_error ''authority context is not bootstrapped'')
   | Some (e, revoked, v) \<Rightarrow> Inr \<lparr>pe_context = c, pe_epoch = e, pe_revoked_grant_ids = revoked, pe_version = v\<rparr>)"

text \<open>
  The snapshot these two return is read after the commit, on a connection of its own. The store afterwards is that of the
  transaction; the answer is the one when no other process writes in between. What a later reading may show is bounded by
  the history of the store (\<open>durable_history\<close>).
\<close>

definition bootstrap_context :: "authority_context \<Rightarrow> int \<Rightarrow> string list \<Rightarrow> (durable_store, epoch_snapshot) op" where
  "bootstrap_context c epoch revoked_ids s = (case and_then (context_check c) (\<lambda>_. and_then (revoked_sorted revoked_ids) (\<lambda>revoked.
       and_then (raise_when (epoch < 0) PersistentAuthorityStateError ''epoch must be non-negative'') (\<lambda>_. Inr revoked))) of
     Inl e \<Rightarrow> (Inl e, s)
   | Inr revoked \<Rightarrow>
       if \<not> sqlite_int epoch then (Inl sqlite_overflow, s)
       else if c \<in> dom (da_epochs s) then (Inl (durable_error ''authority context is already bootstrapped''), s)
       else (let s' = s\<lparr>da_epochs := (da_epochs s)(c \<mapsto> (epoch, revoked, 1))\<rparr> in (current_epoch c s', s')))"

definition advance_epoch :: "authority_context \<Rightarrow> int \<Rightarrow> string list \<Rightarrow> (durable_store, epoch_snapshot) op" where
  "advance_epoch c epoch revoked_ids s = (case and_then (context_check c) (\<lambda>_. revoked_sorted revoked_ids) of
     Inl e \<Rightarrow> (Inl e, s)
   | Inr revoked \<Rightarrow> (case da_epochs s c of
       None \<Rightarrow> (Inl (durable_error ''authority context is not bootstrapped''), s)
     | Some (previous_epoch, previous_revoked, version) \<Rightarrow>
         if epoch < previous_epoch \<or> epoch = previous_epoch \<and> \<not> set previous_revoked \<subseteq> set revoked
         then (Inl (durable_error ''authority epoch/revocation cannot roll back''), s)
         else if \<not> sqlite_int epoch \<or> \<not> sqlite_int (version + 1) then (Inl sqlite_overflow, s)
         else (let s' = s\<lparr>da_epochs := (da_epochs s)(c \<mapsto> (epoch, revoked, version + 1))\<rparr> in (current_epoch c s', s'))))"

definition register_root :: "authority_context \<Rightarrow> int \<Rightarrow> string \<Rightarrow> string \<Rightarrow> (durable_store, durable_root) op" where
  "register_root c epoch grant_id digest s = (case checks [context_check c, durable_text 512 grant_id ''root_grant_id'',
       durable_sha256 digest ''root_grant_digest''] of
     Inl e \<Rightarrow> (Inl e, s)
   | Inr _ \<Rightarrow>
       if map_option fst (da_epochs s c) \<noteq> Some epoch then (Inl (durable_error ''root anchor must bind current epoch''), s)
       else if (c, epoch) \<in> dom (da_roots s) then (Inl (durable_error ''root anchor already exists''), s)
       else (Inr \<lparr>pr_context = c, pr_epoch = epoch, pr_root_grant_id = grant_id, pr_root_grant_digest = digest\<rparr>,
         s\<lparr>da_roots := (da_roots s)((c, epoch) \<mapsto> (grant_id, digest))\<rparr>))"

definition resolve_root :: "authority_context \<Rightarrow> int \<Rightarrow> durable_store \<Rightarrow> durable_root res" where
  "resolve_root c epoch s = and_then (context_check c) (\<lambda>_.
     if \<not> sqlite_int epoch then Inl sqlite_overflow
     else (case da_roots s (c, epoch) of
       None \<Rightarrow> Inl (durable_error ''root anchor is missing'')
     | Some (grant_id, digest) \<Rightarrow>
         Inr \<lparr>pr_context = c, pr_epoch = epoch, pr_root_grant_id = grant_id, pr_root_grant_digest = digest\<rparr>))"

definition consume_replay :: "string \<Rightarrow> string \<Rightarrow> string \<Rightarrow> (durable_store, bool) op" where
  "consume_replay replay_domain key at s = (case checks [durable_text 512 replay_domain ''replay_domain'',
       durable_sha256 key ''replay_key_digest'', durable_text 1024 at ''consumed_at''] of
     Inl e \<Rightarrow> (Inl e, s)
   | Inr _ \<Rightarrow> if (replay_domain, key) \<in> dom (da_replay s) then (Inr False, s)
       else (Inr True, s\<lparr>da_replay := (da_replay s)((replay_domain, key) \<mapsto> at)\<rparr>))"

definition register_origin :: "store_origin \<Rightarrow> (durable_store, store_origin) op" where
  "register_origin o1 s = (case origin_validate o1 of
     Inl e \<Rightarrow> (Inl e, s)
   | Inr _ \<Rightarrow> (case da_origin s of
       Some _ \<Rightarrow> (Inl (durable_error ''authority store origin is already registered''), s)
     | None \<Rightarrow> (Inr o1, s\<lparr>da_origin := Some o1\<rparr>)))"

definition resolve_origin :: "durable_store \<Rightarrow> store_origin res" where
  "resolve_origin s = (case da_origin s of
     None \<Rightarrow> Inl (durable_error ''authority store origin is missing or ambiguous'')
   | Some o1 \<Rightarrow> and_then (origin_validate o1) (\<lambda>_. Inr o1))"

section \<open>Binding finalisation\<close>

record finalization_request =
  fq_context :: authority_context
  fq_expected_epoch :: int
  fq_expected_state_version :: int
  fq_grant_id :: string
  fq_expected_root_grant_id :: string
  fq_expected_root_grant_digest :: string
  fq_live_admission_digest :: string
  fq_runtime_evidence_digest :: string
  fq_binding_nonce :: string
  fq_finalized_at :: string

definition FINALIZATION_DOMAIN :: string where
  "FINALIZATION_DOMAIN = ''live-authority-binding-finalization''"

definition finalization_text :: "finalization_request \<Rightarrow> string" where
  "finalization_text q = utf8 (join [nul] [FINALIZATION_DOMAIN, fq_live_admission_digest q, fq_runtime_evidence_digest q, fq_binding_nonce q])"

definition request_check :: "finalization_request \<Rightarrow> unit res" where
  "request_check q = checks [
     context_check (fq_context q),
     raise_when (fq_expected_epoch q < 0) PersistentAuthorityStateError ''expected_epoch is invalid'',
     raise_when (fq_expected_state_version q < 1) PersistentAuthorityStateError ''expected_state_version is invalid'',
     durable_text 512 (fq_grant_id q) ''grant_id'', durable_text 512 (fq_expected_root_grant_id q) ''expected_root_grant_id'',
     durable_text 512 (fq_binding_nonce q) ''binding_nonce'', durable_text 512 (fq_finalized_at q) ''finalized_at'',
     durable_sha256 (fq_expected_root_grant_digest q) ''expected_root_grant_digest'',
     durable_sha256 (fq_live_admission_digest q) ''live_admission_digest'',
     durable_sha256 (fq_runtime_evidence_digest q) ''runtime_evidence_digest'']"

definition finalization_of :: "finalization_request \<Rightarrow> string \<Rightarrow> binding_finalization" where
  "finalization_of q key = \<lparr>bf_context = fq_context q, bf_epoch = fq_expected_epoch q,
     bf_authority_state_version = fq_expected_state_version q, bf_grant_id = fq_grant_id q,
     bf_root_grant_id = fq_expected_root_grant_id q, bf_root_grant_digest = fq_expected_root_grant_digest q,
     bf_live_admission_digest = fq_live_admission_digest q, bf_runtime_evidence_digest = fq_runtime_evidence_digest q,
     bf_binding_nonce = fq_binding_nonce q, bf_finalization_key_digest = key, bf_finalized_at = fq_finalized_at q\<rparr>"

text \<open>The receipt is validated after the commit: when its validation raises, the key stays consumed.\<close>

definition finalize_binding :: "finalization_request \<Rightarrow> (durable_store, binding_finalization) op" where
  "finalize_binding q s = (case request_check q of
     Inl e \<Rightarrow> (Inl e, s)
   | Inr _ \<Rightarrow> (let key = sha256 (finalization_text q) in case da_epochs s (fq_context q) of
       None \<Rightarrow> (Inl (durable_error ''authority context is not bootstrapped''), s)
     | Some (epoch, revoked, version) \<Rightarrow>
         if epoch \<noteq> fq_expected_epoch q \<or> version \<noteq> fq_expected_state_version q \<or> fq_grant_id q \<in> set revoked
         then (Inl (durable_error ''authority state changed before binding finalization''), s)
         else if da_roots s (fq_context q, epoch) \<noteq> Some (fq_expected_root_grant_id q, fq_expected_root_grant_digest q)
         then (Inl (durable_error ''root anchor changed before binding finalization''), s)
         else if (FINALIZATION_DOMAIN, key) \<in> dom (da_replay s)
         then (Inl (durable_error ''binding finalization replay rejected''), s)
         else (and_then (finalization_validate (finalization_of q key)) (\<lambda>_. Inr (finalization_of q key)),
           s\<lparr>da_replay := (da_replay s)((FINALIZATION_DOMAIN, key) \<mapsto> fq_finalized_at q)\<rparr>)))"

section \<open>The clients of the store\<close>

text \<open>\<open>DurableReplayGuard.consume\<close> is \<open>consume_replay\<close> with its domain.\<close>

definition replay_guard_consume :: "string \<Rightarrow> string \<Rightarrow> string \<Rightarrow> (durable_store, bool) op" where
  "replay_guard_consume replay_domain key at = consume_replay replay_domain key at"

inductive durable_step :: "durable_store \<Rightarrow> durable_store \<Rightarrow> bool" where
  bootstrap_step: "durable_step s (snd (bootstrap_context c epoch revoked s))"
| advance_step: "durable_step s (snd (advance_epoch c epoch revoked s))"
| root_step: "durable_step s (snd (register_root c epoch grant_id digest s))"
| replay_step: "durable_step s (snd (consume_replay d key at s))"
| origin_step: "durable_step s (snd (register_origin o1 s))"
| finalize_step: "durable_step s (snd (finalize_binding q s))"

abbreviation durable_reachable :: "durable_store \<Rightarrow> bool" where
  "durable_reachable \<equiv> durable_step\<^sup>*\<^sup>* durable_empty"

section \<open>History\<close>

text \<open>What a store keeps: contexts with their epoch, revocations and version, root anchors, consumed keys, the origin.\<close>

definition row_after :: "int \<times> string list \<times> int \<Rightarrow> int \<times> string list \<times> int \<Rightarrow> bool" where
  "row_after x y = (case (x, y) of ((e, r, v), (e', r', v')) \<Rightarrow>
     e \<le> e' \<and> v \<le> v' \<and> (e' = e \<longrightarrow> set r \<subseteq> set r') \<and> (v' = v \<longrightarrow> (e', r') = (e, r)))"

definition durable_later :: "durable_store \<Rightarrow> durable_store \<Rightarrow> bool" where
  "durable_later s s' \<longleftrightarrow> (\<forall>c x. da_epochs s c = Some x \<longrightarrow> (\<exists>y. da_epochs s' c = Some y \<and> row_after x y))
     \<and> da_roots s \<subseteq>\<^sub>m da_roots s' \<and> da_replay s \<subseteq>\<^sub>m da_replay s' \<and> (da_origin s \<noteq> None \<longrightarrow> da_origin s' = da_origin s)"

lemma row_after_refl [simp]: "row_after x x"
  by (simp add: row_after_def split: prod.split)

lemma row_after_trans: "row_after x y \<Longrightarrow> row_after y z \<Longrightarrow> row_after x z"
  by (auto simp: row_after_def split: prod.splits)

lemma durable_later_refl [simp]: "durable_later s s"
  by (auto simp: durable_later_def)

lemma durable_later_trans: "durable_later a b \<Longrightarrow> durable_later b c \<Longrightarrow> durable_later a c"
  unfolding durable_later_def
proof (elim conjE, intro conjI allI impI)
  fix c' x
  assume "\<forall>c x. da_epochs a c = Some x \<longrightarrow> (\<exists>y. da_epochs b c = Some y \<and> row_after x y)"
    "\<forall>c' x. da_epochs b c' = Some x \<longrightarrow> (\<exists>y. da_epochs c c' = Some y \<and> row_after x y)" "da_epochs a c' = Some x"
  then show "\<exists>y. da_epochs c c' = Some y \<and> row_after x y" using row_after_trans by blast
qed (use map_le_trans in \<open>blast, blast, simp\<close>)

lemma durable_later_row:
  assumes "durable_later s s'" "da_epochs s c = Some (e, r, v)"
  obtains e' r' v' where "da_epochs s' c = Some (e', r', v')" "row_after (e, r, v) (e', r', v')"
proof -
  obtain y where "da_epochs s' c = Some y" "row_after (e, r, v) y" using assms unfolding durable_later_def by blast
  then show thesis by (cases y) (auto intro: that)
qed

lemma durable_later_kept: "durable_later s s' \<Longrightarrow> da_roots s k = Some x \<Longrightarrow> da_roots s' k = Some x"
  "durable_later s s' \<Longrightarrow> da_replay s j = Some y \<Longrightarrow> da_replay s' j = Some y"
  "durable_later s s' \<Longrightarrow> da_origin s = Some z \<Longrightarrow> da_origin s' = Some z"
proof -
  assume later: "durable_later s s'"
  show "da_roots s k = Some x \<Longrightarrow> da_roots s' k = Some x" "da_replay s j = Some y \<Longrightarrow> da_replay s' j = Some y"
    using later unfolding durable_later_def map_le_def by (metis domI)+
  show "da_origin s = Some z \<Longrightarrow> da_origin s' = Some z" using later unfolding durable_later_def by simp
qed

text \<open>The effect of each operation: nothing, or one row more or changed.\<close>

lemma bootstrap_cases:
  obtains (refused) e where "bootstrap_context c epoch ids s = (Inl e, s)"
  | (inserted) "bootstrap_context c epoch ids s = (Inr \<lparr>pe_context = c, pe_epoch = epoch, pe_revoked_grant_ids = sort ids, pe_version = 1\<rparr>,
        s\<lparr>da_epochs := (da_epochs s)(c \<mapsto> (epoch, sort ids, 1))\<rparr>)"
      "da_epochs s c = None" "context_check c = Inr ()" "0 \<le> epoch" "sqlite_int epoch" "[] \<notin> set ids" "distinct ids"
proof (cases "\<exists>e. bootstrap_context c epoch ids s = (Inl e, s)")
  case False
  then have A: "context_check c = Inr ()" "\<not> list_ex (\<lambda>x. x = []) ids" "distinct ids" "0 \<le> epoch" "sqlite_int epoch" "da_epochs s c = None"
    by (auto simp: bootstrap_context_def revoked_sorted_def and_then_def raise_when_def split: sum.splits if_splits)
  then show ?thesis by (intro inserted) (auto simp: bootstrap_context_def revoked_sorted_def current_epoch_def list_ex_iff)
qed (use refused in blast)

lemma advance_cases:
  obtains (refused) e where "advance_epoch c epoch ids s = (Inl e, s)"
  | (updated) e r v where "advance_epoch c epoch ids s = (Inr \<lparr>pe_context = c, pe_epoch = epoch, pe_revoked_grant_ids = sort ids, pe_version = v + 1\<rparr>,
        s\<lparr>da_epochs := (da_epochs s)(c \<mapsto> (epoch, sort ids, v + 1))\<rparr>)"
      "da_epochs s c = Some (e, r, v)" "row_after (e, r, v) (epoch, sort ids, v + 1)" "context_check c = Inr ()" "[] \<notin> set ids" "distinct ids"
proof (cases "\<exists>e. advance_epoch c epoch ids s = (Inl e, s)")
  case False
  then have A: "context_check c = Inr ()" "\<not> list_ex (\<lambda>x. x = []) ids" "distinct ids"
    by (auto simp: advance_epoch_def revoked_sorted_def and_then_def raise_when_def split: sum.splits if_splits)
  with False obtain e r v where row: "da_epochs s c = Some (e, r, v)"
    by (auto simp: advance_epoch_def revoked_sorted_def split: option.splits)
  with A False have "e \<le> epoch" "epoch = e \<longrightarrow> set r \<subseteq> set ids" "sqlite_int epoch" "sqlite_int (v + 1)"
    by (auto simp: advance_epoch_def revoked_sorted_def split: if_splits)
  with A row show ?thesis
    by (intro updated) (auto simp: advance_epoch_def revoked_sorted_def current_epoch_def list_ex_iff row_after_def)
qed (use refused in blast)

lemma finalize_cases:
  obtains (refused) e where "finalize_binding q s = (Inl e, s)"
  | (spent) revoked where "request_check q = Inr ()"
      "da_epochs s (fq_context q) = Some (fq_expected_epoch q, revoked, fq_expected_state_version q)" "fq_grant_id q \<notin> set revoked"
      "da_roots s (fq_context q, fq_expected_epoch q) = Some (fq_expected_root_grant_id q, fq_expected_root_grant_digest q)"
      "da_replay s (FINALIZATION_DOMAIN, sha256 (finalization_text q)) = None"
      "finalize_binding q s = (and_then (finalization_validate (finalization_of q (sha256 (finalization_text q))))
          (\<lambda>_. Inr (finalization_of q (sha256 (finalization_text q)))),
        s\<lparr>da_replay := (da_replay s)((FINALIZATION_DOMAIN, sha256 (finalization_text q)) \<mapsto> fq_finalized_at q)\<rparr>)"
proof (cases "\<exists>e. finalize_binding q s = (Inl e, s)")
  case False
  then have A: "request_check q = Inr ()" by (auto simp: finalize_binding_def split: sum.splits)
  with False obtain e r v where row: "da_epochs s (fq_context q) = Some (e, r, v)"
    by (auto simp: finalize_binding_def Let_def split: option.splits)
  with A False have B: "e = fq_expected_epoch q" "v = fq_expected_state_version q" "fq_grant_id q \<notin> set r"
    by (auto simp: finalize_binding_def Let_def split: if_splits)
  with A row False have C: "da_roots s (fq_context q, fq_expected_epoch q) = Some (fq_expected_root_grant_id q, fq_expected_root_grant_digest q)"
    by (auto simp: finalize_binding_def Let_def split: if_splits)
  with A row B False have D: "da_replay s (FINALIZATION_DOMAIN, sha256 (finalization_text q)) = None"
    by (cases "da_replay s (FINALIZATION_DOMAIN, sha256 (finalization_text q))") (auto simp: finalize_binding_def Let_def dom_def)
  show ?thesis by (rule spent [of r]) (use A row B C D in \<open>simp_all add: finalize_binding_def Let_def dom_def\<close>)
qed (use refused in blast)

lemma durable_step_later: "durable_step s s' \<Longrightarrow> durable_later s s'"
proof (induction rule: durable_step.induct)
  case (bootstrap_step s c epoch revoked)
  show ?case by (rule bootstrap_cases [of c epoch revoked s]) (auto simp: durable_later_def)
next
  case (advance_step s c epoch revoked)
  show ?case by (rule advance_cases [of c epoch revoked s]) (auto simp: durable_later_def)
next
  case (root_step s c epoch grant_id digest)
  show ?case by (auto simp: register_root_def durable_later_def map_le_def split: sum.splits)
next
  case (replay_step s d key at)
  show ?case by (auto simp: consume_replay_def durable_later_def map_le_def split: sum.splits)
next
  case (origin_step s o1)
  show ?case by (auto simp: register_origin_def durable_later_def split: sum.splits option.splits)
next
  case (finalize_step s q)
  show ?case by (rule finalize_cases [of q s]) (auto simp: durable_later_def map_le_def)
qed

lemma durable_steps_later: "durable_step\<^sup>*\<^sup>* s s' \<Longrightarrow> durable_later s s'"
  by (induction rule: rtranclp_induct) (auto intro: durable_later_trans durable_step_later)

section \<open>The state a store holds\<close>

definition durable_ok :: "durable_store \<Rightarrow> bool" where
  "durable_ok s \<longleftrightarrow> (\<forall>c e r v. da_epochs s c = Some (e, r, v) \<longrightarrow> context_check c = Inr () \<and> 0 \<le> e \<and> 1 \<le> v
       \<and> sorted r \<and> distinct r \<and> [] \<notin> set r)
     \<and> (\<forall>c n x. da_roots s (c, n) = Some x \<longrightarrow> (\<exists>e r v. da_epochs s c = Some (e, r, v) \<and> n \<le> e))"

lemma durable_ok_row: "durable_ok s \<Longrightarrow> da_epochs s c = Some (e, r, v) \<Longrightarrow> 0 \<le> e \<and> 1 \<le> v"
  unfolding durable_ok_def by blast

lemma durable_ok_root:
  assumes "durable_ok s" "da_roots s (c, n) = Some x" "da_epochs s c = Some (e, r, v)"
  shows "n \<le> e"
proof -
  obtain e' r' v' where "da_epochs s c = Some (e', r', v')" "n \<le> e'" using assms(1,2) unfolding durable_ok_def by blast
  with assms(3) show ?thesis by simp
qed

lemma durable_ok_no_roots: "durable_ok s \<Longrightarrow> da_epochs s c = None \<Longrightarrow> da_roots s (c, n) = None"
  unfolding durable_ok_def by (metis option.distinct(1) not_None_eq)

lemma durable_step_ok: "durable_step s s' \<Longrightarrow> durable_ok s \<Longrightarrow> durable_ok s'"
proof (induction rule: durable_step.induct)
  case (bootstrap_step s c epoch revoked)
  show ?case
  proof (cases rule: bootstrap_cases [of c epoch revoked s])
    case inserted
    have "da_roots s (c, n) = None" for n using bootstrap_step inserted(2) by (rule durable_ok_no_roots)
    then show ?thesis using bootstrap_step inserted by (auto simp: durable_ok_def simp del: split_paired_All split_paired_Ex)
  qed (use bootstrap_step in simp)
next
  case (advance_step s c epoch revoked)
  show ?case
  proof (rule advance_cases [of c epoch revoked s])
    fix e r v
    assume A: "advance_epoch c epoch revoked s = (Inr \<lparr>pe_context = c, pe_epoch = epoch, pe_revoked_grant_ids = sort revoked, pe_version = v + 1\<rparr>,
        s\<lparr>da_epochs := (da_epochs s)(c \<mapsto> (epoch, sort revoked, v + 1))\<rparr>)"
      "da_epochs s c = Some (e, r, v)" "row_after (e, r, v) (epoch, sort revoked, v + 1)" "context_check c = Inr ()" "[] \<notin> set revoked" "distinct revoked"
    have "e \<le> epoch" using A(3) by (simp add: row_after_def)
    moreover have "0 \<le> epoch" "0 \<le> v" using durable_ok_row [OF advance_step A(2)] \<open>e \<le> epoch\<close> by auto
    moreover have "n \<le> epoch" if "da_roots s (c, n) = Some x" for n x
      using durable_ok_root [OF advance_step that A(2)] \<open>e \<le> epoch\<close> by simp
    ultimately show ?thesis using A advance_step by (auto simp: durable_ok_def simp del: split_paired_All split_paired_Ex)
  qed (use advance_step in simp)
next
  case (root_step s c epoch grant_id digest)
  then show ?case by (fastforce simp: register_root_def durable_ok_def simp del: split_paired_All split_paired_Ex split: sum.splits)
next
  case (replay_step s d key at)
  then show ?case by (auto simp: consume_replay_def durable_ok_def split: sum.splits)
next
  case (origin_step s o1)
  then show ?case by (auto simp: register_origin_def durable_ok_def split: sum.splits option.splits)
next
  case (finalize_step s q)
  then show ?case by (rule_tac finalize_cases [of q s]) (auto simp: durable_ok_def simp del: split_paired_All split_paired_Ex)
qed

lemma durable_reachable_ok: "durable_reachable s \<Longrightarrow> durable_ok s"
proof (induction rule: rtranclp_induct)
  case base
  show ?case by (simp add: durable_ok_def durable_empty_def)
next
  case (step s s')
  then show ?case using durable_step_ok by blast
qed

section \<open>Refinement of the registry in memory\<close>

definition state_of :: "authority_context \<Rightarrow> int \<Rightarrow> string list \<Rightarrow> epoch_state" where
  "state_of c e r = (case c of (d, t, org, m) \<Rightarrow> \<lparr>es_trust_domain = d, es_tenant_id = t, es_organization_id = org,
     es_mission_id = m, es_epoch = e, es_revoked_grant_ids = r\<rparr>)"

definition durable_abs :: "durable_store \<Rightarrow> epoch_registry" where
  "durable_abs s = (\<lambda>c. map_option (\<lambda>(e, r, v). state_of c e r) (da_epochs s c))"

text \<open>The durable store keeps the revoked grants sorted, the registry as they are given; answers are compared up to that.\<close>

definition sorted_state :: "epoch_state \<Rightarrow> epoch_state" where
  "sorted_state t = t\<lparr>es_revoked_grant_ids := sort (es_revoked_grant_ids t)\<rparr>"

definition sorted_registry :: "epoch_registry \<Rightarrow> epoch_registry" where
  "sorted_registry m = (\<lambda>c. map_option sorted_state (m c))"

definition same_answer :: "epoch_snapshot res \<Rightarrow> epoch_state res \<Rightarrow> bool" where
  "same_answer r r' = (case (r, r') of
     (Inr p, Inr t) \<Rightarrow> state_of (pe_context p) (pe_epoch p) (pe_revoked_grant_ids p) = sorted_state t
   | (Inl _, Inl _) \<Rightarrow> True
   | _ \<Rightarrow> False)"

lemma state_of_sel [simp]: "state_context (state_of c e r) = c" "es_epoch (state_of c e r) = e"
  "es_revoked_grant_ids (state_of c e r) = r"
  by (simp_all add: state_of_def state_context_def split: prod.split)

lemma sorted_state_of: "sorted_state t = state_of (state_context t) (es_epoch t) (sort (es_revoked_grant_ids t))"
  by (simp add: sorted_state_def state_of_def state_context_def)

lemma sorted_state_context [simp]: "state_context (sorted_state t) = state_context t"
  by (simp add: sorted_state_of)

lemma sorted_state_valid [simp]: "epoch_state_validate (sorted_state t) = Inr () \<longleftrightarrow> epoch_state_validate t = Inr ()"
  by (simp add: epoch_state_validate_iff sorted_state_def)

lemma valid_state_checks:
  assumes "epoch_state_validate t = Inr ()"
  shows "context_check (state_context t) = Inr ()" "revoked_sorted (es_revoked_grant_ids t) = Inr (sort (es_revoked_grant_ids t))"
    "0 \<le> es_epoch t"
  using assms
  by (auto simp: epoch_state_validate_iff context_check_def state_context_def revoked_sorted_def text_invalid_def list_ex_iff)

lemma durable_abs_upd: "durable_abs (s\<lparr>da_epochs := (da_epochs s)(c \<mapsto> (e, r, v))\<rparr>) = (durable_abs s)(c \<mapsto> state_of c e r)"
  by (auto simp: durable_abs_def)

lemma sorted_registry_upd: "sorted_registry (m(c \<mapsto> t)) = (sorted_registry m)(c \<mapsto> sorted_state t)"
  by (auto simp: sorted_registry_def)

lemma bootstrap_refines:
  assumes t: "epoch_state_validate t = Inr ()" and fits: "sqlite_int (es_epoch t)" and rel: "durable_abs s = sorted_registry m"
    and D: "bootstrap_context (state_context t) (es_epoch t) (es_revoked_grant_ids t) s = (r, s')"
    and A: "epoch_registry_register t m = (r', m')"
  shows "same_answer r r' \<and> durable_abs s' = sorted_registry m'"
proof (cases "da_epochs s (state_context t)")
  case None
  then have "sorted_registry m (state_context t) = None" unfolding rel [symmetric] by (simp add: durable_abs_def)
  then have "m (state_context t) = None" by (simp add: sorted_registry_def)
  then have "r' = Inr t" "m' = m(state_context t \<mapsto> t)"
    using A t by (auto simp: epoch_registry_register_def owner_new_def dom_def)
  moreover have "r = Inr \<lparr>pe_context = state_context t, pe_epoch = es_epoch t, pe_revoked_grant_ids = sort (es_revoked_grant_ids t), pe_version = 1\<rparr>"
      "s' = s\<lparr>da_epochs := (da_epochs s)(state_context t \<mapsto> (es_epoch t, sort (es_revoked_grant_ids t), 1))\<rparr>"
    using D None fits valid_state_checks [OF t] by (auto simp: bootstrap_context_def current_epoch_def dom_def Let_def)
  ultimately show ?thesis by (simp add: same_answer_def durable_abs_upd sorted_registry_upd sorted_state_of rel)
next
  case (Some row)
  then have "sorted_registry m (state_context t) \<noteq> None" unfolding rel [symmetric] by (simp add: durable_abs_def)
  then have "m (state_context t) \<noteq> None" by (simp add: sorted_registry_def)
  then have "isl r'" "m' = m" using A t by (auto simp: epoch_registry_register_def owner_new_def dom_def)
  moreover have "isl r" "s' = s" using D Some fits valid_state_checks [OF t] domI [of "da_epochs s" "state_context t" row]
    by (auto simp: bootstrap_context_def)
  ultimately show ?thesis using rel by (auto simp: same_answer_def split: sum.splits)
qed

lemma advance_refines:
  assumes t: "epoch_state_validate t = Inr ()" and fits: "sqlite_int (es_epoch t)" and rel: "durable_abs s = sorted_registry m"
    and rows: "\<And>e r v. da_epochs s (state_context t) = Some (e, r, v) \<Longrightarrow>
        epoch_state_validate (state_of (state_context t) e r) = Inr () \<and> sqlite_int (v + 1)"
    and D: "advance_epoch (state_context t) (es_epoch t) (es_revoked_grant_ids t) s = (r, s')"
    and A: "epoch_registry_advance t m = (r', m')"
  shows "same_answer r r' \<and> durable_abs s' = sorted_registry m'"
proof (cases "da_epochs s (state_context t)")
  case None
  then have "sorted_registry m (state_context t) = None" unfolding rel [symmetric] by (simp add: durable_abs_def)
  then have "m (state_context t) = None" by (simp add: sorted_registry_def)
  then have "isl r'" "m' = m" using A t by (auto simp: epoch_registry_advance_def epoch_registry_resolve_def)
  moreover have "isl r" "s' = s" using D None valid_state_checks [OF t] by (auto simp: advance_epoch_def)
  ultimately show ?thesis using rel by (auto simp: same_answer_def split: sum.splits)
next
  case (Some row)
  then obtain e x v where row: "da_epochs s (state_context t) = Some (e, x, v)" by (cases row) auto
  have "sorted_registry m (state_context t) = Some (state_of (state_context t) e x)" unfolding rel [symmetric] using row by (simp add: durable_abs_def)
  then obtain old where m: "m (state_context t) = Some old" "sorted_state old = state_of (state_context t) e x" by (auto simp: sorted_registry_def)
  have old: "epoch_state_validate old = Inr ()" and v: "sqlite_int (v + 1)" using rows [OF row] sorted_state_valid [of old] by (auto simp: m(2))
  have o: "state_context old = state_context t" "es_epoch old = e" "set (es_revoked_grant_ids old) = set x"
    using arg_cong [OF m(2), of state_context] arg_cong [OF m(2), of es_epoch] arg_cong [OF m(2), of "\<lambda>t. set (es_revoked_grant_ids t)"]
    by (simp_all add: sorted_state_of)
  have step: "later_state old t \<longleftrightarrow> \<not> (es_epoch t < e \<or> es_epoch t = e \<and> \<not> set x \<subseteq> set (es_revoked_grant_ids t))"
    by (auto simp: later_state_def o)
  show ?thesis
  proof (cases "later_state old t")
    case True
    then have "r' = Inr t" "m' = m(state_context t \<mapsto> t)"
      using A t old m(1) transition_ok [of old t t]
      by (auto simp: epoch_registry_advance_def epoch_registry_resolve_def owner_advance_def)
    moreover have "r = Inr \<lparr>pe_context = state_context t, pe_epoch = es_epoch t, pe_revoked_grant_ids = sort (es_revoked_grant_ids t), pe_version = v + 1\<rparr>"
        "s' = s\<lparr>da_epochs := (da_epochs s)(state_context t \<mapsto> (es_epoch t, sort (es_revoked_grant_ids t), v + 1))\<rparr>"
      using D row True fits v valid_state_checks [OF t] unfolding step
      by (auto simp: advance_epoch_def current_epoch_def Let_def)
    ultimately show ?thesis by (simp add: same_answer_def durable_abs_upd sorted_registry_upd sorted_state_of rel)
  next
    case False
    then obtain err where "validate_epoch_transition old t = Inl err"
      using transition_ok [of old t] by (cases "validate_epoch_transition old t") auto
    then have "isl r'" "m' = m"
      using A t m(1) by (simp_all add: epoch_registry_advance_def epoch_registry_resolve_def owner_advance_def fun_upd_idem) (metis sum.disc(1))
    moreover have "isl r" "s' = s"
      using D row False valid_state_checks [OF t] unfolding step by (auto simp: advance_epoch_def)
    ultimately show ?thesis using rel by (auto simp: same_answer_def split: sum.splits)
  qed
qed

section \<open>Store and registry side by side\<close>

text \<open>The states both can hold: accepted by the validator of the registry, with an epoch that fits a column of SQLite.\<close>

definition storable :: "epoch_state \<Rightarrow> bool" where
  "storable t \<longleftrightarrow> epoch_state_validate t = Inr () \<and> sqlite_int (es_epoch t)"

text \<open>
  A store and a registry that are given the same calls, from the beginning; \<open>n\<close> counts them. In between the store may be used in
  any way that leaves the epochs alone: root anchors, replay keys, the origin and finalisations.
\<close>

inductive twin_run :: "int \<Rightarrow> durable_store \<Rightarrow> epoch_registry \<Rightarrow> bool" where
  twin_start: "twin_run 0 durable_empty Map.empty"
| twin_bootstrap: "twin_run n s m \<Longrightarrow> storable t \<Longrightarrow>
    twin_run (n + 1) (snd (bootstrap_context (state_context t) (es_epoch t) (es_revoked_grant_ids t) s)) (snd (epoch_registry_register t m))"
| twin_advance: "twin_run n s m \<Longrightarrow> storable t \<Longrightarrow>
    twin_run (n + 1) (snd (advance_epoch (state_context t) (es_epoch t) (es_revoked_grant_ids t) s)) (snd (epoch_registry_advance t m))"
| twin_other: "twin_run n s m \<Longrightarrow> durable_step s s' \<Longrightarrow> da_epochs s' = da_epochs s \<Longrightarrow> twin_run n s' m"

definition rows_ok :: "int \<Rightarrow> durable_store \<Rightarrow> bool" where
  "rows_ok n s \<longleftrightarrow> (\<forall>c e r v. da_epochs s c = Some (e, r, v) \<longrightarrow> epoch_state_validate (state_of c e r) = Inr () \<and> 1 \<le> v \<and> v \<le> n)"

lemma rows_ok_upd:
  assumes "rows_ok n s" "storable t" "1 \<le> v" "v \<le> n + 1"
  shows "rows_ok (n + 1) (s\<lparr>da_epochs := (da_epochs s)(state_context t \<mapsto> (es_epoch t, sort (es_revoked_grant_ids t), v))\<rparr>)"
proof -
  have "epoch_state_validate (state_of (state_context t) (es_epoch t) (sort (es_revoked_grant_ids t))) = Inr ()"
    using assms(2) sorted_state_valid [of t] by (simp add: storable_def sorted_state_of)
  with assms show ?thesis by (fastforce simp: rows_ok_def)
qed

lemma rows_ok_mono: "rows_ok n s \<Longrightarrow> rows_ok (n + 1) s"
  by (fastforce simp: rows_ok_def)

lemma bootstrap_rows:
  assumes "rows_ok n s" "0 \<le> n" "storable t"
  shows "rows_ok (n + 1) (snd (bootstrap_context (state_context t) (es_epoch t) (es_revoked_grant_ids t) s))"
  using rows_ok_mono [OF assms(1)] rows_ok_upd [OF assms(1,3), of 1] assms(2,3) valid_state_checks [of t]
  by (simp add: bootstrap_context_def storable_def Let_def)

lemma advance_rows:
  assumes "rows_ok n s" "0 \<le> n" "storable t"
  shows "rows_ok (n + 1) (snd (advance_epoch (state_context t) (es_epoch t) (es_revoked_grant_ids t) s))"
proof (cases "da_epochs s (state_context t)")
  case None
  with rows_ok_mono [OF assms(1)] show ?thesis by (simp add: advance_epoch_def split: sum.split)
next
  case (Some row)
  then obtain e r v where row: "da_epochs s (state_context t) = Some (e, r, v)" by (cases row) auto
  then have "1 \<le> v" "v \<le> n" using assms(1) unfolding rows_ok_def by blast+
  with rows_ok_mono [OF assms(1)] rows_ok_upd [OF assms(1,3), of "v + 1"] assms(3) valid_state_checks [of t] show ?thesis
    by (simp add: advance_epoch_def row storable_def Let_def)
qed

lemma twin_run_rel:
  assumes "twin_run n s m" "n < 2 ^ 63"
  shows "durable_abs s = sorted_registry m \<and> rows_ok n s \<and> 0 \<le> n"
  using assms
proof induction
  case twin_start
  show ?case by (simp add: durable_abs_def durable_empty_def sorted_registry_def rows_ok_def)
next
  case (twin_bootstrap n s m t)
  then have i: "durable_abs s = sorted_registry m" "rows_ok n s" "0 \<le> n" "epoch_state_validate t = Inr ()" "sqlite_int (es_epoch t)"
    by (auto simp: storable_def)
  from bootstrap_refines [OF i(4,5,1) surjective_pairing surjective_pairing] bootstrap_rows [OF i(2,3) twin_bootstrap.hyps(2)] i(3)
  show ?case by simp
next
  case (twin_advance n s m t)
  then have i: "durable_abs s = sorted_registry m" "rows_ok n s" "0 \<le> n" "epoch_state_validate t = Inr ()" "sqlite_int (es_epoch t)"
    by (auto simp: storable_def)
  have "epoch_state_validate (state_of (state_context t) e r) = Inr () \<and> sqlite_int (v + 1)" if "da_epochs s (state_context t) = Some (e, r, v)" for e r v
    using that i(2) twin_advance.prems unfolding rows_ok_def sqlite_int_def by fastforce
  from advance_refines [OF i(4,5,1) this surjective_pairing surjective_pairing] advance_rows [OF i(2,3) twin_advance.hyps(2)] i(3)
  show ?case by simp
next
  case (twin_other n s m s')
  then show ?case by (simp add: durable_abs_def rows_ok_def)
qed

section \<open>An example\<close>

text \<open>A digest in lower case is accepted, so that every receipt of the store has a valid key.\<close>

lemma hex_char_any: "hex_char c \<Longrightarrow> hex_any c \<and> c \<noteq> CHR ''_'' \<and> \<not> int_space c \<and> \<not> py_upper c \<and> c \<notin> set ''+-xX''"
  by (auto simp: hex_char_def hex_any_def int_space_def py_upper_def)

lemma hex_rest_hex: "list_all hex_char s \<Longrightarrow> hex_rest s"
  by (induction s rule: hex_rest.induct) (auto dest: hex_char_any)

lemma int16_ok_hex:
  assumes "list_all hex_char s" "s \<noteq> []"
  shows "int16_ok s"
proof -
  have clean: "dropWhile int_space t = t" if "list_all hex_char t" for t using that by (cases t) (auto dest: hex_char_any)
  obtain c t where s: "s = c # t" using assms(2) by (cases s) auto
  have "\<not> starts_with ''0x'' s" "\<not> starts_with ''0X'' s" using assms(1) s hex_char_any by (cases t; auto)+
  moreover have "list_all hex_char (rev s)" using assms(1) by simp
  ultimately show ?thesis using assms(1) s hex_char_any [of c] hex_rest_hex [of t] clean [of s] clean [of "rev s"]
    by (auto simp: int16_ok_def hex_digits_def Let_def)
qed

lemma durable_sha256_hex: "is_hex 64 v \<Longrightarrow> durable_sha256 v name = Inr ()"
proof -
  assume v: "is_hex 64 v"
  then have "int16_ok v" using int16_ok_hex [of v] by (cases "v = []") (simp_all add: is_hex_def)
  moreover have "\<not> list_ex py_upper v" using v hex_char_any by (auto simp: is_hex_def list_ex_iff list_all_iff)
  ultimately show "durable_sha256 v name = Inr ()" using v by (simp add: durable_sha256_def is_hex_def)
qed

abbreviation example_digest :: string where
  "example_digest \<equiv> replicate 64 (CHR ''a'')"

definition example_durable :: durable_store where
  "example_durable = durable_empty\<lparr>da_epochs := [state_context example_state \<mapsto> (3, [''old''], 1)],
     da_roots := [(state_context example_state, 3) \<mapsto> (''root'', example_digest)]\<rparr>"

definition example_request :: finalization_request where
  "example_request = \<lparr>fq_context = state_context example_state, fq_expected_epoch = 3, fq_expected_state_version = 1,
     fq_grant_id = ''leaf'', fq_expected_root_grant_id = ''root'', fq_expected_root_grant_digest = example_digest,
     fq_live_admission_digest = example_digest, fq_runtime_evidence_digest = example_digest, fq_binding_nonce = ''n1'',
     fq_finalized_at = ''2026-01-01T00:00:00Z''\<rparr>"

lemma example_digest_ok: "durable_sha256 example_digest name = Inr ()"
  by (rule durable_sha256_hex) (simp add: is_hex_def hex_char_def list_all_iff)

lemma example_context_check: "context_check (state_context example_state) = Inr ()"
  by (simp add: context_check_def state_context_def example_state_def)

lemma example_durable_reachable: "durable_reachable example_durable"
proof -
  let ?c = "state_context example_state"
  let ?s = "durable_empty\<lparr>da_epochs := [?c \<mapsto> (3, [''old''], 1)]\<rparr>"
  have "snd (bootstrap_context ?c 3 [''old''] durable_empty) = ?s"
    by (simp add: bootstrap_context_def example_context_check revoked_sorted_def sqlite_int_def durable_empty_def Let_def)
  moreover have "snd (register_root ?c 3 ''root'' example_digest ?s) = example_durable"
    by (simp add: register_root_def example_context_check durable_text_def text_invalid_def py_space_def nul_def
        example_digest_ok example_durable_def durable_empty_def)
  ultimately show ?thesis using bootstrap_step [of durable_empty ?c 3 "[''old'']"] root_step [of ?s ?c 3 "''root''" example_digest]
    by (metis converse_rtranclp_into_rtranclp r_into_rtranclp)
qed

lemma example_finalized: "finalize_binding example_request example_durable =
    (Inr (finalization_of example_request (sha256 (finalization_text example_request))),
     example_durable\<lparr>da_replay := [(FINALIZATION_DOMAIN, sha256 (finalization_text example_request)) \<mapsto> ''2026-01-01T00:00:00Z'']\<rparr>)"
proof -
  have "request_check example_request = Inr ()"
    by (simp add: request_check_def example_request_def example_context_check example_digest_ok durable_text_def
        text_invalid_def py_space_def nul_def)
  moreover have "finalization_validate (finalization_of example_request (sha256 (finalization_text example_request))) = Inr ()"
    by (simp add: finalization_validate_def finalization_of_def example_request_def durable_sha256_hex is_hex_sha256 example_digest_ok
        durable_text_def text_invalid_def py_space_def nul_def state_context_def example_state_def)
  ultimately show ?thesis
    by (simp add: finalize_binding_def example_durable_def durable_empty_def Let_def)
       (simp add: example_request_def)
qed

text \<open>What \<open>int(value, 16)\<close> lets through: a prefixed text of the right length passes as a digest.\<close>

lemma prefixed_digest_accepted: "durable_sha256 (''0x'' @ replicate 62 (CHR ''a'')) name = Inr ()"
proof -
  have "int16_ok (''0x'' @ replicate 62 (CHR ''a''))" "\<not> list_ex py_upper (''0x'' @ replicate 62 (CHR ''a''))" by code_simp+
  then show ?thesis by (simp add: durable_sha256_def)
qed

text \<open>The late validation of the receipt: for a context with a blank text the key is consumed and no receipt returned.\<close>

lemma blank_context_spends_key:
  fixes q s
  defines "q \<equiv> example_request\<lparr>fq_context := ('' '', ''t'', ''o'', ''m'')\<rparr>"
    and "s \<equiv> durable_empty\<lparr>da_epochs := [('' '', ''t'', ''o'', ''m'') \<mapsto> (3, [], 1)],
      da_roots := [(('' '', ''t'', ''o'', ''m''), 3) \<mapsto> (''root'', example_digest)]\<rparr>"
  shows "finalize_binding q s = (Inl (durable_error ''trust_domain is invalid''),
    s\<lparr>da_replay := [(FINALIZATION_DOMAIN, sha256 (finalization_text q)) \<mapsto> ''2026-01-01T00:00:00Z'']\<rparr>)"
proof -
  have "request_check q = Inr ()"
    by (simp add: q_def request_check_def example_request_def context_check_def example_digest_ok durable_text_def
        text_invalid_def py_space_def nul_def)
  moreover have "finalization_validate (finalization_of q k) = Inl (durable_error ''trust_domain is invalid'')" for k
    by (simp add: q_def finalization_validate_def finalization_of_def example_request_def durable_text_def text_invalid_def py_space_def)
  ultimately show ?thesis
    by (simp add: finalize_binding_def s_def durable_empty_def Let_def) (simp add: q_def example_request_def)
qed

definition example_advanced :: "durable_store \<Rightarrow> durable_store" where
  "example_advanced s = snd (advance_epoch (state_context example_state) 3 [''new'', ''old''] s)"

lemma example_advance: "da_epochs s (state_context example_state) = Some (3, [''old''], 1) \<Longrightarrow>
    advance_epoch (state_context example_state) 3 [''new'', ''old''] s =
      (Inr \<lparr>pe_context = state_context example_state, pe_epoch = 3, pe_revoked_grant_ids = [''new'', ''old''], pe_version = 2\<rparr>,
       s\<lparr>da_epochs := (da_epochs s)(state_context example_state \<mapsto> (3, [''new'', ''old''], 2))\<rparr>)"
proof -
  have "sort [''new'', ''old''] = [''new'', ''old'']" by code_simp
  then show "da_epochs s (state_context example_state) = Some (3, [''old''], 1) \<Longrightarrow> ?thesis"
    by (simp add: advance_epoch_def example_context_check revoked_sorted_def sqlite_int_def current_epoch_def Let_def)
qed

lemma example_advanced_steps: "durable_step\<^sup>*\<^sup>* s (example_advanced s)"
  unfolding example_advanced_def by (rule r_into_rtranclp) (rule advance_step)

section \<open>Properties\<close>

text \<open>C27. The durable store refines the registry in memory. Give an empty store and an empty registry the same sequence of
  fewer than \<open>2\<^sup>6\<^sup>3 - 1\<close> bootstraps and advances, with states that the validator of the registry accepts and whose epochs fit
  a column of SQLite, and use the other tables of the store in between as you like. Then the next such bootstrap
  and the next such advance get the same answer from both (success with the same state, its revocations sorted, or a
  refusal), and afterwards the store stands for the registry.\<close>
theorem durable_refines_registry:
  assumes "twin_run n s m" "n < 2 ^ 63 - 1" "storable t"
  shows "(let (r, s') = bootstrap_context (state_context t) (es_epoch t) (es_revoked_grant_ids t) s; (r', m') = epoch_registry_register t m
      in same_answer r r' \<and> durable_abs s' = sorted_registry m')
    \<and> (let (r, s') = advance_epoch (state_context t) (es_epoch t) (es_revoked_grant_ids t) s; (r', m') = epoch_registry_advance t m
      in same_answer r r' \<and> durable_abs s' = sorted_registry m')"
proof -
  have i: "durable_abs s = sorted_registry m" "rows_ok n s" "epoch_state_validate t = Inr ()" "sqlite_int (es_epoch t)"
    using twin_run_rel [OF assms(1)] assms(2,3) by (auto simp: storable_def)
  have "epoch_state_validate (state_of (state_context t) e r) = Inr () \<and> sqlite_int (v + 1)" if "da_epochs s (state_context t) = Some (e, r, v)" for e r v
    using that i(2) assms(2) unfolding rows_ok_def sqlite_int_def by fastforce
  note a = advance_refines [OF i(3,4,1) this] and b = bootstrap_refines [OF i(3,4,1)]
  show ?thesis by (simp add: a b split: prod.split)
qed

text \<open>The example context, bootstrapped and advanced in both.\<close>
theorem durable_refines_registry_witness:
  "sorted_registry (snd (epoch_registry_advance (example_state\<lparr>es_revoked_grant_ids := [''old'', ''new'']\<rparr>)
       (snd (epoch_registry_register example_state Map.empty))))
     = durable_abs (snd (advance_epoch (state_context example_state) 3 [''old'', ''new'']
         (snd (bootstrap_context (state_context example_state) 3 [''old''] durable_empty))))"
proof -
  let ?t = "example_state\<lparr>es_revoked_grant_ids := [''old'', ''new'']\<rparr>"
  have t: "storable ?t" "storable example_state" unfolding storable_def by code_simp+
  have c: "state_context ?t = state_context example_state" "es_epoch ?t = 3" "es_epoch example_state = 3" "es_revoked_grant_ids example_state = [''old'']"
    by (simp_all add: state_context_def example_state_def)
  have "twin_run 1 (snd (bootstrap_context (state_context example_state) 3 [''old''] durable_empty)) (snd (epoch_registry_register example_state Map.empty))"
    using twin_bootstrap [OF twin_start t(2)] by (simp add: c)
  from durable_refines_registry [OF this _ t(1)] show ?thesis by (simp add: c Let_def split: prod.splits)
qed

text \<open>The durable history is kept by every sequence of operations of any number of clients, refused ones
  included: a context that can be read stays readable with an epoch and a version that never fall, without losing a
  revocation inside an epoch, and the same version means the same epoch and revocations; a resolved root anchor, the
  registered origin and a consumed replay key stay what they are.\<close>
theorem durable_history:
  assumes "durable_step\<^sup>*\<^sup>* s s'"
  shows "(current_epoch c s = Inr p \<longrightarrow> (\<exists>p'. current_epoch c s' = Inr p' \<and> pe_epoch p \<le> pe_epoch p' \<and> pe_version p \<le> pe_version p'
        \<and> (pe_epoch p' = pe_epoch p \<longrightarrow> set (pe_revoked_grant_ids p) \<subseteq> set (pe_revoked_grant_ids p'))
        \<and> (pe_version p' = pe_version p \<longrightarrow> p' = p)))
    \<and> (resolve_root c n s = Inr a \<longrightarrow> resolve_root c n s' = Inr a)
    \<and> (resolve_origin s = Inr o1 \<longrightarrow> resolve_origin s' = Inr o1)
    \<and> (fst (consume_replay d key at s) = Inr False \<longrightarrow> consume_replay d key at s' = (Inr False, s'))"
proof -
  have later: "durable_later s s'" using assms by (rule durable_steps_later)
  have epoch: "\<exists>p'. current_epoch c s' = Inr p' \<and> pe_epoch p \<le> pe_epoch p' \<and> pe_version p \<le> pe_version p'
        \<and> (pe_epoch p' = pe_epoch p \<longrightarrow> set (pe_revoked_grant_ids p) \<subseteq> set (pe_revoked_grant_ids p'))
        \<and> (pe_version p' = pe_version p \<longrightarrow> p' = p)" if "current_epoch c s = Inr p"
  proof -
    from that obtain e r v where row: "da_epochs s c = Some (e, r, v)" "context_check c = Inr ()"
        "p = \<lparr>pe_context = c, pe_epoch = e, pe_revoked_grant_ids = r, pe_version = v\<rparr>"
      by (auto simp: current_epoch_def split: option.splits prod.splits)
    obtain e' r' v' where "da_epochs s' c = Some (e', r', v')" "row_after (e, r, v) (e', r', v')"
      using later row(1) by (rule durable_later_row)
    with row show ?thesis by (auto simp: current_epoch_def row_after_def)
  qed
  moreover have "resolve_root c n s' = Inr a" if "resolve_root c n s = Inr a"
    using that by (cases "da_roots s (c, n)") (auto simp: resolve_root_def durable_later_kept(1) [OF later] split: if_splits)
  moreover have "resolve_origin s' = Inr o1" if "resolve_origin s = Inr o1"
    using that by (cases "da_origin s") (auto simp: resolve_origin_def durable_later_kept(3) [OF later])
  moreover have "consume_replay d key at s' = (Inr False, s')" if "fst (consume_replay d key at s) = Inr False"
  proof -
    from that have "(d, key) \<in> dom (da_replay s)" by (auto simp: consume_replay_def split: sum.splits if_splits)
    then have "(d, key) \<in> dom (da_replay s')" using durable_later_kept(2) [OF later] by blast
    with that show ?thesis by (auto simp: consume_replay_def split: sum.splits if_splits)
  qed
  ultimately show ?thesis by blast
qed

theorem durable_history_witness:
  "resolve_root (state_context example_state) 3 (example_advanced example_durable) = Inr \<lparr>pr_context = state_context example_state,
     pr_epoch = 3, pr_root_grant_id = ''root'', pr_root_grant_digest = example_digest\<rparr>"
proof -
  have "resolve_root (state_context example_state) 3 example_durable = Inr \<lparr>pr_context = state_context example_state,
     pr_epoch = 3, pr_root_grant_id = ''root'', pr_root_grant_digest = example_digest\<rparr>"
    by (simp add: resolve_root_def example_context_check sqlite_int_def example_durable_def)
  then show ?thesis using durable_history [OF example_advanced_steps [of example_durable]] by blast
qed

text \<open>C28. A binding is finalised at most once, and only against the live state: a finalisation that returns
  found the epoch, the version and the root anchor the caller expected and the grant not revoked, and after any
  further operations of any client every finalisation with the same admission digest, evidence digest and nonce is
  refused and changes nothing.\<close>
theorem finalization_once:
  assumes "finalize_binding q s = (Inr f, s1)" "durable_step\<^sup>*\<^sup>* s1 s2"
    and "fq_live_admission_digest q' = fq_live_admission_digest q" "fq_runtime_evidence_digest q' = fq_runtime_evidence_digest q"
      "fq_binding_nonce q' = fq_binding_nonce q"
  shows "(\<exists>revoked. current_epoch (fq_context q) s = Inr \<lparr>pe_context = fq_context q, pe_epoch = fq_expected_epoch q,
        pe_revoked_grant_ids = revoked, pe_version = fq_expected_state_version q\<rparr> \<and> fq_grant_id q \<notin> set revoked)
    \<and> da_roots s (fq_context q, fq_expected_epoch q) = Some (fq_expected_root_grant_id q, fq_expected_root_grant_digest q)
    \<and> bf_context f = fq_context q \<and> bf_grant_id f = fq_grant_id q
    \<and> (\<exists>e. finalize_binding q' s2 = (Inl e, s2))"
proof (cases rule: finalize_cases [of q s])
  case (refused e)
  with assms(1) show ?thesis by simp
next
  case (spent revoked)
  let ?key = "(FINALIZATION_DOMAIN, sha256 (finalization_text q))"
  have same: "finalization_text q' = finalization_text q" using assms(3-5) by (simp add: finalization_text_def)
  have "da_replay s1 ?key = Some (fq_finalized_at q)" using spent(6) assms(1) by auto
  then have "da_replay s2 ?key \<noteq> None" using durable_later_kept(2) [OF durable_steps_later [OF assms(2)]] by simp
  moreover have "\<exists>e. finalize_binding q' s2 = (Inl e, s2)" if "da_replay s2 ?key \<noteq> None"
    by (rule finalize_cases [of q' s2]) (use that same in auto)
  moreover have "context_check (fq_context q) = Inr ()" using spent(1) by (simp add: request_check_def)
  moreover have "f = finalization_of q (sha256 (finalization_text q))" 
    using spent(6) assms(1) by (cases "finalization_validate (finalization_of q (sha256 (finalization_text q)))") auto
  ultimately show ?thesis using spent by (simp add: current_epoch_def finalization_of_def)
qed

theorem finalization_once_witness:
  "\<exists>e. finalize_binding example_request (example_advanced (snd (finalize_binding example_request example_durable)))
      = (Inl e, example_advanced (snd (finalize_binding example_request example_durable)))"
  using finalization_once [OF example_finalized example_advanced_steps refl refl refl] by (simp add: example_finalized)

text \<open>A finalisation prepared against an older state is fenced off: once the context was read at some version and
  an advance of that context succeeded afterwards, by whatever client and with whatever operations around it, every
  finalisation that expects the version read is refused and consumes nothing.\<close>
theorem stale_finalization_refused:
  assumes "current_epoch c s = Inr p" "durable_step\<^sup>*\<^sup>* s s1" "advance_epoch c epoch ids s1 = (Inr p', s2)" "durable_step\<^sup>*\<^sup>* s2 s3"
    and "fq_context q = c" "fq_expected_state_version q = pe_version p"
  shows "\<exists>e. finalize_binding q s3 = (Inl e, s3)"
proof -
  obtain e r where row: "da_epochs s c = Some (e, r, pe_version p)"
    using assms(1) by (auto simp: current_epoch_def split: option.splits)
  obtain e1 r1 v1 where "da_epochs s1 c = Some (e1, r1, v1)" "row_after (e, r, pe_version p) (e1, r1, v1)"
    using durable_steps_later [OF assms(2)] row by (rule durable_later_row)
  then have v1: "da_epochs s1 c = Some (e1, r1, v1)" "pe_version p \<le> v1" by (auto simp: row_after_def)
  have "da_epochs s2 c = Some (epoch, sort ids, v1 + 1)"
    by (rule advance_cases [of c epoch ids s1]) (use assms(3) v1 in auto)
  from durable_steps_later [OF assms(4)] this
  obtain e3 r3 v3 where "da_epochs s3 c = Some (e3, r3, v3)" "row_after (epoch, sort ids, v1 + 1) (e3, r3, v3)"
    by (rule durable_later_row)
  with v1(2) have "da_epochs s3 c = Some (e3, r3, v3)" "pe_version p < v3" by (auto simp: row_after_def)
  with assms(5,6) have "\<nexists>revoked. da_epochs s3 (fq_context q) = Some (fq_expected_epoch q, revoked, fq_expected_state_version q)" by simp
  then show ?thesis using finalize_cases [of q s3] by metis
qed

theorem stale_finalization_refused_witness:
  "\<exists>e. finalize_binding example_request (example_advanced example_durable) = (Inl e, example_advanced example_durable)"
proof -
  let ?c = "state_context example_state"
  have row: "da_epochs example_durable ?c = Some (3, [''old''], 1)" by (simp add: example_durable_def)
  have "current_epoch ?c example_durable = Inr \<lparr>pe_context = ?c, pe_epoch = 3, pe_revoked_grant_ids = [''old''], pe_version = 1\<rparr>"
    using row by (simp add: current_epoch_def example_context_check)
  from stale_finalization_refused [OF this rtranclp.rtrancl_refl example_advance [OF row] rtranclp.rtrancl_refl, of example_request]
  show ?thesis by (simp add: example_advance [OF row] example_advanced_def) (simp add: example_request_def)
qed

end
