(* ===== verification/Builder_Issuance.thy ===== *)
theory Builder_Issuance
  imports Persistent_Authority
begin

text \<open>
  The issuance records of the builder pipeline in the durable authority store (enterprise/persistent_authority_state.py):
  seven tables, each with a record class, a recording and a resolving method. A table is the list of its decoded rows in
  the order of their insertion; the UNIQUE columns of a table refuse a row that shares one of them.
\<close>

section \<open>Helpers\<close>

definition durable_sha40 :: "string \<Rightarrow> string \<Rightarrow> unit res" where
  "durable_sha40 v name = checks [
     raise_when (length v \<noteq> 40) PersistentAuthorityStateError (name @ '' is invalid''),
     raise_when (\<not> int16_ok v) PersistentAuthorityStateError (name @ '' is invalid''),
     raise_when (list_ex py_upper v) PersistentAuthorityStateError (name @ '' is invalid'')]"

definition durable_scope :: "string list \<Rightarrow> string \<Rightarrow> unit res" where
  "durable_scope v name = checks (
     raise_when (v = [] \<or> \<not> no_dup v) PersistentAuthorityStateError (name @ '' is invalid'')
     # map (\<lambda>item. durable_text 2048 item name) v)"

text \<open>\<open>str.isdigit\<close> below U+0100: the decimal digits and the superscripts two, three and one.\<close>

definition py_isdigit :: "string \<Rightarrow> bool" where
  "py_isdigit s = (s \<noteq> [] \<and> list_all (\<lambda>c. let n = (of_char c :: nat) in 48 \<le> n \<and> n \<le> 57 \<or> n \<in> {178, 179, 185}) s)"

section \<open>Records\<close>

record entry_issuance =
  be_builder_entry_permit_id :: string
  be_builder_entry_permit_digest :: string
  be_builder_entry_replay_digest :: string
  be_repository :: string
  be_baseline_master_sha :: string
  be_baseline_master_tree_sha :: string
  be_action :: string
  be_candidate_scope :: "string list"
  be_resource_scope :: "string list"
  be_authority_epoch :: int
  be_authority_state_version :: int
  be_root_grant_id :: string
  be_root_grant_digest :: string
  be_current_authority_digest :: string
  be_builder_subject_id :: string
  be_builder_instance_id :: string
  be_builder_capability_class :: string
  be_builder_identity_digest :: string
  be_builder_implementation_digest :: string
  be_builder_attestation_digest :: string
  be_authority_store_origin_id :: string
  be_authority_store_origin_digest :: string
  be_issued_at :: string

definition entry_issuance_validate :: "entry_issuance \<Rightarrow> unit res" where
  "entry_issuance_validate r = checks [
     durable_text 2048 (be_builder_entry_permit_id r) ''builder_entry_permit_id'',
     durable_text 2048 (be_repository r) ''repository'', durable_text 2048 (be_action r) ''action'',
     durable_text 2048 (be_root_grant_id r) ''root_grant_id'',
     durable_text 2048 (be_builder_subject_id r) ''builder_subject_id'',
     durable_text 2048 (be_builder_instance_id r) ''builder_instance_id'',
     durable_text 2048 (be_builder_capability_class r) ''builder_capability_class'',
     durable_text 2048 (be_authority_store_origin_id r) ''authority_store_origin_id'',
     durable_text 2048 (be_issued_at r) ''issued_at'',
     durable_sha256 (be_builder_entry_permit_digest r) ''builder_entry_permit_digest'',
     durable_sha256 (be_builder_entry_replay_digest r) ''builder_entry_replay_digest'',
     durable_sha256 (be_root_grant_digest r) ''root_grant_digest'',
     durable_sha256 (be_current_authority_digest r) ''current_authority_digest'',
     durable_sha256 (be_builder_identity_digest r) ''builder_identity_digest'',
     durable_sha256 (be_builder_implementation_digest r) ''builder_implementation_digest'',
     durable_sha256 (be_builder_attestation_digest r) ''builder_attestation_digest'',
     durable_sha256 (be_authority_store_origin_digest r) ''authority_store_origin_digest'',
     durable_sha40 (be_baseline_master_sha r) ''baseline_master_sha'',
     durable_sha40 (be_baseline_master_tree_sha r) ''baseline_master_tree_sha'',
     durable_scope (be_candidate_scope r) ''candidate_scope'',
     durable_scope (be_resource_scope r) ''resource_scope'',
     raise_when (be_authority_store_origin_id r \<noteq> ''aso:'' @ be_authority_store_origin_digest r
         \<or> be_action r \<noteq> ''BUILD_CANDIDATE''
         \<or> be_builder_capability_class r \<noteq> ''DETACHED_CANDIDATE_BUILD_ONLY'')
       PersistentAuthorityStateError ''builder entry issuance semantics invalid'',
     raise_when (be_authority_epoch r < 0) PersistentAuthorityStateError ''authority_epoch is invalid'',
     raise_when (be_authority_state_version r < 1) PersistentAuthorityStateError ''authority_state_version is invalid'']"

record invocation_issuance =
  bi_builder_invocation_permit_id :: string
  bi_builder_invocation_permit_digest :: string
  bi_builder_invocation_replay_digest :: string
  bi_source_builder_entry_permit_id :: string
  bi_source_builder_entry_permit_digest :: string
  bi_repository :: string
  bi_baseline_master_sha :: string
  bi_baseline_master_tree_sha :: string
  bi_current_baseline_digest :: string
  bi_action :: string
  bi_candidate_scope :: "string list"
  bi_resource_scope :: "string list"
  bi_authority_epoch :: int
  bi_authority_state_version :: int
  bi_root_grant_id :: string
  bi_root_grant_digest :: string
  bi_current_authority_digest :: string
  bi_builder_subject_id :: string
  bi_builder_instance_id :: string
  bi_builder_capability_class :: string
  bi_builder_identity_digest :: string
  bi_builder_implementation_digest :: string
  bi_builder_attestation_digest :: string
  bi_current_builder_subject_digest :: string
  bi_authority_store_origin_id :: string
  bi_authority_store_origin_digest :: string
  bi_issued_at :: string

definition invocation_issuance_validate :: "invocation_issuance \<Rightarrow> unit res" where
  "invocation_issuance_validate r = checks [
     durable_text 2048 (bi_builder_invocation_permit_id r) ''builder_invocation_permit_id'',
     durable_text 2048 (bi_source_builder_entry_permit_id r) ''source_builder_entry_permit_id'',
     durable_text 2048 (bi_repository r) ''repository'', durable_text 2048 (bi_action r) ''action'',
     durable_text 2048 (bi_root_grant_id r) ''root_grant_id'',
     durable_text 2048 (bi_builder_subject_id r) ''builder_subject_id'',
     durable_text 2048 (bi_builder_instance_id r) ''builder_instance_id'',
     durable_text 2048 (bi_builder_capability_class r) ''builder_capability_class'',
     durable_text 2048 (bi_authority_store_origin_id r) ''authority_store_origin_id'',
     durable_text 2048 (bi_issued_at r) ''issued_at'',
     durable_sha256 (bi_builder_invocation_permit_digest r) ''builder_invocation_permit_digest'',
     durable_sha256 (bi_builder_invocation_replay_digest r) ''builder_invocation_replay_digest'',
     durable_sha256 (bi_source_builder_entry_permit_digest r) ''source_builder_entry_permit_digest'',
     durable_sha256 (bi_current_baseline_digest r) ''current_baseline_digest'',
     durable_sha256 (bi_root_grant_digest r) ''root_grant_digest'',
     durable_sha256 (bi_current_authority_digest r) ''current_authority_digest'',
     durable_sha256 (bi_builder_identity_digest r) ''builder_identity_digest'',
     durable_sha256 (bi_builder_implementation_digest r) ''builder_implementation_digest'',
     durable_sha256 (bi_builder_attestation_digest r) ''builder_attestation_digest'',
     durable_sha256 (bi_current_builder_subject_digest r) ''current_builder_subject_digest'',
     durable_sha256 (bi_authority_store_origin_digest r) ''authority_store_origin_digest'',
     durable_sha40 (bi_baseline_master_sha r) ''baseline_master_sha'',
     durable_sha40 (bi_baseline_master_tree_sha r) ''baseline_master_tree_sha'',
     durable_scope (bi_candidate_scope r) ''candidate_scope'',
     durable_scope (bi_resource_scope r) ''resource_scope'',
     raise_when (bi_authority_store_origin_id r \<noteq> ''aso:'' @ bi_authority_store_origin_digest r
         \<or> bi_action r \<noteq> ''BUILD_CANDIDATE''
         \<or> bi_builder_capability_class r \<noteq> ''DETACHED_CANDIDATE_BUILD_ONLY'')
       PersistentAuthorityStateError ''builder invocation issuance semantics invalid'',
     raise_when (bi_authority_epoch r < 0) PersistentAuthorityStateError ''authority_epoch is invalid'',
     raise_when (bi_authority_state_version r < 1) PersistentAuthorityStateError ''authority_state_version is invalid'']"

record consumption_issuance =
  bc_invocation_consumption_permit_id :: string
  bc_invocation_consumption_permit_digest :: string
  bc_invocation_consumption_replay_digest :: string
  bc_source_builder_invocation_permit_id :: string
  bc_source_builder_invocation_permit_digest :: string
  bc_source_builder_invocation_replay_digest :: string
  bc_source_builder_entry_permit_id :: string
  bc_source_builder_entry_permit_digest :: string
  bc_repository :: string
  bc_baseline_master_sha :: string
  bc_baseline_master_tree_sha :: string
  bc_current_baseline_digest :: string
  bc_action :: string
  bc_candidate_scope :: "string list"
  bc_resource_scope :: "string list"
  bc_authority_epoch :: int
  bc_authority_state_version :: int
  bc_root_grant_id :: string
  bc_root_grant_digest :: string
  bc_current_authority_digest :: string
  bc_builder_subject_id :: string
  bc_builder_instance_id :: string
  bc_builder_capability_class :: string
  bc_builder_identity_digest :: string
  bc_builder_implementation_digest :: string
  bc_builder_attestation_digest :: string
  bc_current_builder_subject_digest :: string
  bc_authority_store_origin_id :: string
  bc_authority_store_origin_digest :: string
  bc_issued_at :: string

definition consumption_issuance_validate :: "consumption_issuance \<Rightarrow> unit res" where
  "consumption_issuance_validate r = checks [
     durable_text 2048 (bc_invocation_consumption_permit_id r) ''invocation_consumption_permit_id'',
     durable_text 2048 (bc_source_builder_invocation_permit_id r) ''source_builder_invocation_permit_id'',
     durable_text 2048 (bc_source_builder_entry_permit_id r) ''source_builder_entry_permit_id'',
     durable_text 2048 (bc_repository r) ''repository'', durable_text 2048 (bc_action r) ''action'',
     durable_text 2048 (bc_root_grant_id r) ''root_grant_id'',
     durable_text 2048 (bc_builder_subject_id r) ''builder_subject_id'',
     durable_text 2048 (bc_builder_instance_id r) ''builder_instance_id'',
     durable_text 2048 (bc_builder_capability_class r) ''builder_capability_class'',
     durable_text 2048 (bc_authority_store_origin_id r) ''authority_store_origin_id'',
     durable_text 2048 (bc_issued_at r) ''issued_at'',
     durable_sha256 (bc_invocation_consumption_permit_digest r) ''invocation_consumption_permit_digest'',
     durable_sha256 (bc_invocation_consumption_replay_digest r) ''invocation_consumption_replay_digest'',
     durable_sha256 (bc_source_builder_invocation_permit_digest r) ''source_builder_invocation_permit_digest'',
     durable_sha256 (bc_source_builder_invocation_replay_digest r) ''source_builder_invocation_replay_digest'',
     durable_sha256 (bc_source_builder_entry_permit_digest r) ''source_builder_entry_permit_digest'',
     durable_sha256 (bc_current_baseline_digest r) ''current_baseline_digest'',
     durable_sha256 (bc_root_grant_digest r) ''root_grant_digest'',
     durable_sha256 (bc_current_authority_digest r) ''current_authority_digest'',
     durable_sha256 (bc_builder_identity_digest r) ''builder_identity_digest'',
     durable_sha256 (bc_builder_implementation_digest r) ''builder_implementation_digest'',
     durable_sha256 (bc_builder_attestation_digest r) ''builder_attestation_digest'',
     durable_sha256 (bc_current_builder_subject_digest r) ''current_builder_subject_digest'',
     durable_sha256 (bc_authority_store_origin_digest r) ''authority_store_origin_digest'',
     durable_sha40 (bc_baseline_master_sha r) ''baseline_master_sha'',
     durable_sha40 (bc_baseline_master_tree_sha r) ''baseline_master_tree_sha'',
     durable_scope (bc_candidate_scope r) ''candidate_scope'',
     durable_scope (bc_resource_scope r) ''resource_scope'',
     raise_when (\<not> starts_with ''bicp:'' (bc_invocation_consumption_permit_id r)
         \<or> bc_authority_store_origin_id r \<noteq> ''aso:'' @ bc_authority_store_origin_digest r
         \<or> bc_action r \<noteq> ''BUILD_CANDIDATE''
         \<or> bc_builder_capability_class r \<noteq> ''DETACHED_CANDIDATE_BUILD_ONLY'')
       PersistentAuthorityStateError ''builder invocation consumption issuance semantics invalid'']"

record start_issuance =
  bt_builder_start_admission_id :: string
  bt_builder_start_admission_digest :: string
  bt_builder_start_admission_replay_digest :: string
  bt_source_invocation_consumption_permit_id :: string
  bt_source_invocation_consumption_permit_digest :: string
  bt_source_invocation_consumption_replay_digest :: string
  bt_source_builder_invocation_permit_id :: string
  bt_source_builder_invocation_permit_digest :: string
  bt_source_builder_entry_permit_id :: string
  bt_source_builder_entry_permit_digest :: string
  bt_repository :: string
  bt_baseline_master_sha :: string
  bt_baseline_master_tree_sha :: string
  bt_current_baseline_digest :: string
  bt_action :: string
  bt_candidate_scope :: "string list"
  bt_resource_scope :: "string list"
  bt_authority_epoch :: int
  bt_authority_state_version :: int
  bt_root_grant_id :: string
  bt_root_grant_digest :: string
  bt_current_authority_digest :: string
  bt_builder_subject_id :: string
  bt_builder_instance_id :: string
  bt_builder_capability_class :: string
  bt_builder_identity_digest :: string
  bt_builder_implementation_digest :: string
  bt_builder_attestation_digest :: string
  bt_current_builder_subject_digest :: string
  bt_process_profile_id :: string
  bt_process_profile_digest :: string
  bt_launch_policy_digest :: string
  bt_authority_store_origin_id :: string
  bt_authority_store_origin_digest :: string
  bt_issued_at :: string

definition start_issuance_validate :: "start_issuance \<Rightarrow> unit res" where
  "start_issuance_validate r = checks [
     durable_text 2048 (bt_builder_start_admission_id r) ''builder_start_admission_id'',
     durable_text 2048 (bt_source_invocation_consumption_permit_id r) ''source_invocation_consumption_permit_id'',
     durable_text 2048 (bt_source_builder_invocation_permit_id r) ''source_builder_invocation_permit_id'',
     durable_text 2048 (bt_source_builder_entry_permit_id r) ''source_builder_entry_permit_id'',
     durable_text 2048 (bt_repository r) ''repository'', durable_text 2048 (bt_action r) ''action'',
     durable_text 2048 (bt_root_grant_id r) ''root_grant_id'',
     durable_text 2048 (bt_builder_subject_id r) ''builder_subject_id'',
     durable_text 2048 (bt_builder_instance_id r) ''builder_instance_id'',
     durable_text 2048 (bt_builder_capability_class r) ''builder_capability_class'',
     durable_text 2048 (bt_process_profile_id r) ''process_profile_id'',
     durable_text 2048 (bt_authority_store_origin_id r) ''authority_store_origin_id'',
     durable_text 2048 (bt_issued_at r) ''issued_at'',
     durable_sha256 (bt_builder_start_admission_digest r) ''builder_start_admission_digest'',
     durable_sha256 (bt_builder_start_admission_replay_digest r) ''builder_start_admission_replay_digest'',
     durable_sha256 (bt_source_invocation_consumption_permit_digest r) ''source_invocation_consumption_permit_digest'',
     durable_sha256 (bt_source_invocation_consumption_replay_digest r) ''source_invocation_consumption_replay_digest'',
     durable_sha256 (bt_source_builder_invocation_permit_digest r) ''source_builder_invocation_permit_digest'',
     durable_sha256 (bt_source_builder_entry_permit_digest r) ''source_builder_entry_permit_digest'',
     durable_sha256 (bt_current_baseline_digest r) ''current_baseline_digest'',
     durable_sha256 (bt_root_grant_digest r) ''root_grant_digest'',
     durable_sha256 (bt_current_authority_digest r) ''current_authority_digest'',
     durable_sha256 (bt_builder_identity_digest r) ''builder_identity_digest'',
     durable_sha256 (bt_builder_implementation_digest r) ''builder_implementation_digest'',
     durable_sha256 (bt_builder_attestation_digest r) ''builder_attestation_digest'',
     durable_sha256 (bt_current_builder_subject_digest r) ''current_builder_subject_digest'',
     durable_sha256 (bt_process_profile_digest r) ''process_profile_digest'',
     durable_sha256 (bt_launch_policy_digest r) ''launch_policy_digest'',
     durable_sha256 (bt_authority_store_origin_digest r) ''authority_store_origin_digest'',
     durable_sha40 (bt_baseline_master_sha r) ''baseline_master_sha'',
     durable_sha40 (bt_baseline_master_tree_sha r) ''baseline_master_tree_sha'',
     durable_scope (bt_candidate_scope r) ''candidate_scope'',
     durable_scope (bt_resource_scope r) ''resource_scope'',
     raise_when (\<not> starts_with ''bsa:'' (bt_builder_start_admission_id r)
         \<or> \<not> starts_with ''bpp:'' (bt_process_profile_id r)
         \<or> bt_authority_store_origin_id r \<noteq> ''aso:'' @ bt_authority_store_origin_digest r
         \<or> bt_action r \<noteq> ''BUILD_CANDIDATE''
         \<or> bt_builder_capability_class r \<noteq> ''DETACHED_CANDIDATE_BUILD_ONLY'')
       PersistentAuthorityStateError ''builder start admission issuance semantics invalid'']"

record launch_intent =
  bl_launch_request_id :: string
  bl_launch_request_digest :: string
  bl_launch_replay_digest :: string
  bl_source_builder_start_admission_id :: string
  bl_source_builder_start_admission_digest :: string
  bl_source_builder_start_admission_replay_digest :: string
  bl_source_builder_start_issuance_record_id :: string
  bl_source_builder_start_issuance_record_digest :: string
  bl_repository :: string
  bl_baseline_master_sha :: string
  bl_baseline_master_tree_sha :: string
  bl_authority_epoch :: int
  bl_authority_state_version :: int
  bl_root_grant_id :: string
  bl_root_grant_digest :: string
  bl_expected_current_authority_digest :: string
  bl_builder_subject_id :: string
  bl_builder_instance_id :: string
  bl_builder_identity_digest :: string
  bl_builder_implementation_digest :: string
  bl_builder_attestation_digest :: string
  bl_expected_builder_subject_digest :: string
  bl_process_profile_id :: string
  bl_process_profile_digest :: string
  bl_launch_policy_digest :: string
  bl_runtime_provider_id :: string
  bl_runtime_provider_identity_digest :: string
  bl_runtime_provider_implementation_digest :: string
  bl_runtime_provider_attestation_digest :: string
  bl_runtime_instance_identity :: string
  bl_authority_store_origin_id :: string
  bl_authority_store_origin_digest :: string
  bl_prepared_at :: string

definition launch_intent_validate :: "launch_intent \<Rightarrow> unit res" where
  "launch_intent_validate r = checks [
     durable_text 2048 (bl_launch_request_id r) ''launch_request_id'',
     durable_text 2048 (bl_source_builder_start_admission_id r) ''source_builder_start_admission_id'',
     durable_text 2048 (bl_source_builder_start_issuance_record_id r) ''source_builder_start_issuance_record_id'',
     durable_text 2048 (bl_repository r) ''repository'', durable_text 2048 (bl_root_grant_id r) ''root_grant_id'',
     durable_text 2048 (bl_builder_subject_id r) ''builder_subject_id'',
     durable_text 2048 (bl_builder_instance_id r) ''builder_instance_id'',
     durable_text 2048 (bl_process_profile_id r) ''process_profile_id'',
     durable_text 2048 (bl_runtime_provider_id r) ''runtime_provider_id'',
     durable_text 2048 (bl_runtime_instance_identity r) ''runtime_instance_identity'',
     durable_text 2048 (bl_authority_store_origin_id r) ''authority_store_origin_id'',
     durable_text 2048 (bl_prepared_at r) ''prepared_at'',
     durable_sha256 (bl_launch_request_digest r) ''launch_request_digest'',
     durable_sha256 (bl_launch_replay_digest r) ''launch_replay_digest'',
     durable_sha256 (bl_source_builder_start_admission_digest r) ''source_builder_start_admission_digest'',
     durable_sha256 (bl_source_builder_start_admission_replay_digest r) ''source_builder_start_admission_replay_digest'',
     durable_sha256 (bl_source_builder_start_issuance_record_digest r) ''source_builder_start_issuance_record_digest'',
     durable_sha256 (bl_root_grant_digest r) ''root_grant_digest'',
     durable_sha256 (bl_expected_current_authority_digest r) ''expected_current_authority_digest'',
     durable_sha256 (bl_builder_identity_digest r) ''builder_identity_digest'',
     durable_sha256 (bl_builder_implementation_digest r) ''builder_implementation_digest'',
     durable_sha256 (bl_builder_attestation_digest r) ''builder_attestation_digest'',
     durable_sha256 (bl_expected_builder_subject_digest r) ''expected_builder_subject_digest'',
     durable_sha256 (bl_process_profile_digest r) ''process_profile_digest'',
     durable_sha256 (bl_launch_policy_digest r) ''launch_policy_digest'',
     durable_sha256 (bl_runtime_provider_identity_digest r) ''runtime_provider_identity_digest'',
     durable_sha256 (bl_runtime_provider_implementation_digest r) ''runtime_provider_implementation_digest'',
     durable_sha256 (bl_runtime_provider_attestation_digest r) ''runtime_provider_attestation_digest'',
     durable_sha256 (bl_authority_store_origin_digest r) ''authority_store_origin_digest'',
     durable_sha40 (bl_baseline_master_sha r) ''baseline_master_sha'',
     durable_sha40 (bl_baseline_master_tree_sha r) ''baseline_master_tree_sha'',
     raise_when (\<not> starts_with ''bplr:'' (bl_launch_request_id r)
         \<or> bl_authority_store_origin_id r \<noteq> ''aso:'' @ bl_authority_store_origin_digest r)
       PersistentAuthorityStateError ''launch intent semantics invalid'',
     raise_when (bl_authority_epoch r < 0) PersistentAuthorityStateError ''launch intent authority_epoch is invalid'',
     raise_when (bl_authority_state_version r < 1) PersistentAuthorityStateError ''launch intent authority_state_version is invalid'']"

record held_materialization =
  bh_launch_id :: string
  bh_launch_request_id :: string
  bh_launch_request_digest :: string
  bh_launch_replay_digest :: string
  bh_provider_id :: string
  bh_provider_identity_digest :: string
  bh_provider_implementation_digest :: string
  bh_provider_attestation_digest :: string
  bh_runtime_instance_identity :: string
  bh_execution_environment_id :: string
  bh_process_handle_reference :: string
  bh_process_identity_token :: string
  bh_held_identity_digest :: string
  bh_execution_gate_id :: string
  bh_execution_gate_digest :: string
  bh_gate_state :: string
  bh_gate_attestation_digest :: string
  bh_builder_entrypoint_digest :: string
  bh_state :: string
  bh_prepared_at :: string
  bh_observed_at :: string
  bh_authority_store_origin_id :: string
  bh_authority_store_origin_digest :: string

definition held_materialization_validate :: "held_materialization \<Rightarrow> unit res" where
  "held_materialization_validate r = checks [
     durable_text 2048 (bh_launch_id r) ''launch_id'',
     durable_text 2048 (bh_launch_request_id r) ''launch_request_id'',
     durable_text 2048 (bh_provider_id r) ''provider_id'',
     durable_text 2048 (bh_runtime_instance_identity r) ''runtime_instance_identity'',
     durable_text 2048 (bh_execution_environment_id r) ''execution_environment_id'',
     durable_text 2048 (bh_process_handle_reference r) ''process_handle_reference'',
     durable_text 2048 (bh_process_identity_token r) ''process_identity_token'',
     durable_text 2048 (bh_execution_gate_id r) ''execution_gate_id'',
     durable_text 2048 (bh_gate_state r) ''gate_state'', durable_text 2048 (bh_state r) ''state'',
     durable_text 2048 (bh_prepared_at r) ''prepared_at'', durable_text 2048 (bh_observed_at r) ''observed_at'',
     durable_text 2048 (bh_authority_store_origin_id r) ''authority_store_origin_id'',
     durable_sha256 (bh_launch_request_digest r) ''launch_request_digest'',
     durable_sha256 (bh_launch_replay_digest r) ''launch_replay_digest'',
     durable_sha256 (bh_provider_identity_digest r) ''provider_identity_digest'',
     durable_sha256 (bh_provider_implementation_digest r) ''provider_implementation_digest'',
     durable_sha256 (bh_provider_attestation_digest r) ''provider_attestation_digest'',
     durable_sha256 (bh_held_identity_digest r) ''held_identity_digest'',
     durable_sha256 (bh_execution_gate_digest r) ''execution_gate_digest'',
     durable_sha256 (bh_gate_attestation_digest r) ''gate_attestation_digest'',
     durable_sha256 (bh_builder_entrypoint_digest r) ''builder_entrypoint_digest'',
     durable_sha256 (bh_authority_store_origin_digest r) ''authority_store_origin_digest'',
     raise_when (py_isdigit (bh_process_handle_reference r)
         \<or> bh_state r \<noteq> ''HELD_NOT_EXECUTING_BUILDER''
         \<or> bh_gate_state r \<noteq> ''CLOSED''
         \<or> bh_authority_store_origin_id r \<noteq> ''aso:'' @ bh_authority_store_origin_digest r)
       PersistentAuthorityStateError ''held materialization semantics invalid'']"

record launch_receipt =
  bp_launch_receipt_id :: string
  bp_launch_receipt_digest :: string
  bp_launch_request_id :: string
  bp_launch_request_digest :: string
  bp_launch_replay_digest :: string
  bp_source_builder_start_admission_id :: string
  bp_source_builder_start_admission_digest :: string
  bp_repository :: string
  bp_baseline_master_sha :: string
  bp_baseline_master_tree_sha :: string
  bp_authority_digest_at_launch :: string
  bp_builder_subject_digest_at_launch :: string
  bp_process_profile_id :: string
  bp_process_profile_digest :: string
  bp_launch_policy_digest :: string
  bp_runtime_provider_id :: string
  bp_runtime_provider_identity_digest :: string
  bp_runtime_provider_implementation_digest :: string
  bp_runtime_provider_attestation_digest :: string
  bp_runtime_instance_identity :: string
  bp_launch_id :: string
  bp_execution_environment_id :: string
  bp_process_handle_reference :: string
  bp_process_identity_token :: string
  bp_process_identity_digest :: string
  bp_execution_gate_id :: string
  bp_execution_gate_closed_digest :: string
  bp_execution_gate_opened_digest :: string
  bp_builder_entrypoint_digest :: string
  bp_launch_started_at :: string
  bp_launch_observed_at :: string
  bp_effect_class :: string
  bp_effect_state :: string
  bp_gate_transition :: string
  bp_authority_store_origin_id :: string
  bp_authority_store_origin_digest :: string

definition launch_receipt_validate :: "launch_receipt \<Rightarrow> unit res" where
  "launch_receipt_validate r = checks [
     durable_text 2048 (bp_launch_receipt_id r) ''launch_receipt_id'',
     durable_text 2048 (bp_launch_request_id r) ''launch_request_id'',
     durable_text 2048 (bp_source_builder_start_admission_id r) ''source_builder_start_admission_id'',
     durable_text 2048 (bp_repository r) ''repository'',
     durable_text 2048 (bp_process_profile_id r) ''process_profile_id'',
     durable_text 2048 (bp_runtime_provider_id r) ''runtime_provider_id'',
     durable_text 2048 (bp_runtime_instance_identity r) ''runtime_instance_identity'',
     durable_text 2048 (bp_launch_id r) ''launch_id'',
     durable_text 2048 (bp_execution_environment_id r) ''execution_environment_id'',
     durable_text 2048 (bp_process_handle_reference r) ''process_handle_reference'',
     durable_text 2048 (bp_process_identity_token r) ''process_identity_token'',
     durable_text 2048 (bp_execution_gate_id r) ''execution_gate_id'',
     durable_text 2048 (bp_launch_started_at r) ''launch_started_at'',
     durable_text 2048 (bp_launch_observed_at r) ''launch_observed_at'',
     durable_text 2048 (bp_effect_class r) ''effect_class'', durable_text 2048 (bp_effect_state r) ''effect_state'',
     durable_text 2048 (bp_gate_transition r) ''gate_transition'',
     durable_text 2048 (bp_authority_store_origin_id r) ''authority_store_origin_id'',
     durable_sha256 (bp_launch_receipt_digest r) ''launch_receipt_digest'',
     durable_sha256 (bp_launch_request_digest r) ''launch_request_digest'',
     durable_sha256 (bp_launch_replay_digest r) ''launch_replay_digest'',
     durable_sha256 (bp_source_builder_start_admission_digest r) ''source_builder_start_admission_digest'',
     durable_sha256 (bp_authority_digest_at_launch r) ''authority_digest_at_launch'',
     durable_sha256 (bp_builder_subject_digest_at_launch r) ''builder_subject_digest_at_launch'',
     durable_sha256 (bp_process_profile_digest r) ''process_profile_digest'',
     durable_sha256 (bp_launch_policy_digest r) ''launch_policy_digest'',
     durable_sha256 (bp_runtime_provider_identity_digest r) ''runtime_provider_identity_digest'',
     durable_sha256 (bp_runtime_provider_implementation_digest r) ''runtime_provider_implementation_digest'',
     durable_sha256 (bp_runtime_provider_attestation_digest r) ''runtime_provider_attestation_digest'',
     durable_sha256 (bp_process_identity_digest r) ''process_identity_digest'',
     durable_sha256 (bp_execution_gate_closed_digest r) ''execution_gate_closed_digest'',
     durable_sha256 (bp_execution_gate_opened_digest r) ''execution_gate_opened_digest'',
     durable_sha256 (bp_builder_entrypoint_digest r) ''builder_entrypoint_digest'',
     durable_sha256 (bp_authority_store_origin_digest r) ''authority_store_origin_digest'',
     durable_sha40 (bp_baseline_master_sha r) ''baseline_master_sha'',
     durable_sha40 (bp_baseline_master_tree_sha r) ''baseline_master_tree_sha'',
     raise_when (py_isdigit (bp_process_handle_reference r)
         \<or> bp_effect_class r \<noteq> ''BUILDER_PROCESS_START''
         \<or> bp_effect_state r \<noteq> ''STARTED_OBSERVED''
         \<or> bp_gate_transition r \<noteq> ''CLOSED_TO_OPENED_ONCE''
         \<or> bp_authority_store_origin_id r \<noteq> ''aso:'' @ bp_authority_store_origin_digest r)
       PersistentAuthorityStateError ''launch receipt semantics invalid'']"


section \<open>The tables\<close>

record issuance_store =
  is_base :: durable_store
  is_entries :: "entry_issuance list"
  is_invocations :: "invocation_issuance list"
  is_consumptions :: "consumption_issuance list"
  is_starts :: "start_issuance list"
  is_intents :: "launch_intent list"
  is_held :: "held_materialization list"
  is_receipts :: "launch_receipt list"

definition issuance_empty :: issuance_store where
  "issuance_empty = \<lparr>is_base = durable_empty, is_entries = [], is_invocations = [], is_consumptions = [], is_starts = [], is_intents = [], is_held = [], is_receipts = []\<rparr>"

text \<open>Two rows violate a UNIQUE constraint when they agree in one of the constrained columns.\<close>

definition clash :: "string list \<Rightarrow> string list \<Rightarrow> bool" where
  "clash xs ys = list_ex (\<lambda>(x, y). x = y) (zip xs ys)"

definition require_record_origin :: "unit res \<Rightarrow> string \<times> string \<Rightarrow> string \<Rightarrow> durable_store \<Rightarrow> unit res" where
  "require_record_origin validated origin label s = and_then validated (\<lambda>_. and_then (resolve_origin s) (\<lambda>o1.
     raise_when (origin \<noteq> (so_origin_id o1, so_origin_digest o1)) PersistentAuthorityStateError (label @ '' store origin mismatch'')))"

definition require_resolved_origin :: "string \<times> string \<Rightarrow> string \<Rightarrow> durable_store \<Rightarrow> unit res" where
  "require_resolved_origin origin label s = and_then (resolve_origin s) (\<lambda>o1.
     raise_when (origin \<noteq> (so_origin_id o1, so_origin_digest o1)) PersistentAuthorityStateError (label @ '' origin mismatch''))"

definition insert_issuance_row :: "('r \<Rightarrow> string list) \<Rightarrow> string \<Rightarrow> 'r \<Rightarrow> ('r list, 'r) op" where
  "insert_issuance_row columns conflict r rows =
     (if list_ex (\<lambda>x. clash (columns x) (columns r)) rows then (Inl (durable_error conflict), rows) else (Inr r, rows @ [r]))"

definition select_row :: "('r \<Rightarrow> string list) \<Rightarrow> string \<Rightarrow> string \<Rightarrow> 'r list \<Rightarrow> 'r res" where
  "select_row columns missing key rows = (case filter (\<lambda>x. hd (columns x) = key) rows of
     [r] \<Rightarrow> Inr r
   | _ \<Rightarrow> Inl (durable_error missing))"

definition entry_issuance_columns :: "entry_issuance \<Rightarrow> string list" where
  "entry_issuance_columns r = [be_builder_entry_permit_id r, be_builder_entry_permit_digest r, be_builder_entry_replay_digest r]"

definition entry_issuance_origin :: "entry_issuance \<Rightarrow> string \<times> string" where
  "entry_issuance_origin r = (be_authority_store_origin_id r, be_authority_store_origin_digest r)"

definition record_builder_entry_issuance :: "entry_issuance \<Rightarrow> (issuance_store, entry_issuance) op" where
  "record_builder_entry_issuance r s =
     (case require_record_origin (entry_issuance_validate r) (entry_issuance_origin r) ''builder entry issuance'' (is_base s) of
        Inl e \<Rightarrow> (Inl e, s)
      | Inr _ \<Rightarrow> (case insert_issuance_row entry_issuance_columns ''builder entry issuance already exists or conflicts'' r (is_entries s) of
          (x, rows) \<Rightarrow> (x, s\<lparr>is_entries := rows\<rparr>)))"

definition resolve_builder_entry_issuance :: "string \<Rightarrow> issuance_store \<Rightarrow> entry_issuance res" where
  "resolve_builder_entry_issuance key s = and_then (durable_text 2048 key ''builder_entry_permit_id'') (\<lambda>_.
     and_then (select_row entry_issuance_columns ''builder entry issuance is missing or ambiguous'' key (is_entries s)) (\<lambda>r.
     and_then (checks [
       entry_issuance_validate r,
       raise_when (be_builder_entry_permit_id r \<noteq> key) PersistentAuthorityStateError ''builder entry issuance lookup binding mismatch'',
       require_resolved_origin (entry_issuance_origin r) ''builder entry issuance'' (is_base s)]) (\<lambda>_. Inr r)))"

definition invocation_issuance_columns :: "invocation_issuance \<Rightarrow> string list" where
  "invocation_issuance_columns r = [bi_builder_invocation_permit_id r, bi_builder_invocation_permit_digest r, bi_builder_invocation_replay_digest r]"

definition invocation_issuance_origin :: "invocation_issuance \<Rightarrow> string \<times> string" where
  "invocation_issuance_origin r = (bi_authority_store_origin_id r, bi_authority_store_origin_digest r)"

definition record_builder_invocation_issuance :: "invocation_issuance \<Rightarrow> (issuance_store, invocation_issuance) op" where
  "record_builder_invocation_issuance r s =
     (case require_record_origin (invocation_issuance_validate r) (invocation_issuance_origin r) ''builder invocation issuance'' (is_base s) of
        Inl e \<Rightarrow> (Inl e, s)
      | Inr _ \<Rightarrow> (case insert_issuance_row invocation_issuance_columns ''builder invocation issuance already exists or conflicts'' r (is_invocations s) of
          (x, rows) \<Rightarrow> (x, s\<lparr>is_invocations := rows\<rparr>)))"

definition resolve_builder_invocation_issuance :: "string \<Rightarrow> issuance_store \<Rightarrow> invocation_issuance res" where
  "resolve_builder_invocation_issuance key s = and_then (durable_text 2048 key ''builder_invocation_permit_id'') (\<lambda>_.
     and_then (select_row invocation_issuance_columns ''builder invocation issuance is missing or ambiguous'' key (is_invocations s)) (\<lambda>r.
     and_then (checks [
       invocation_issuance_validate r,
       raise_when (bi_builder_invocation_permit_id r \<noteq> key) PersistentAuthorityStateError ''builder invocation issuance lookup binding mismatch'',
       require_resolved_origin (invocation_issuance_origin r) ''builder invocation issuance'' (is_base s)]) (\<lambda>_. Inr r)))"

definition consumption_issuance_columns :: "consumption_issuance \<Rightarrow> string list" where
  "consumption_issuance_columns r = [bc_invocation_consumption_permit_id r, bc_invocation_consumption_permit_digest r, bc_invocation_consumption_replay_digest r]"

definition consumption_issuance_origin :: "consumption_issuance \<Rightarrow> string \<times> string" where
  "consumption_issuance_origin r = (bc_authority_store_origin_id r, bc_authority_store_origin_digest r)"

definition record_builder_invocation_consumption_issuance :: "consumption_issuance \<Rightarrow> (issuance_store, consumption_issuance) op" where
  "record_builder_invocation_consumption_issuance r s =
     (case require_record_origin (consumption_issuance_validate r) (consumption_issuance_origin r) ''builder invocation consumption issuance'' (is_base s) of
        Inl e \<Rightarrow> (Inl e, s)
      | Inr _ \<Rightarrow> (case insert_issuance_row consumption_issuance_columns ''builder invocation consumption issuance already exists or conflicts'' r (is_consumptions s) of
          (x, rows) \<Rightarrow> (x, s\<lparr>is_consumptions := rows\<rparr>)))"

definition resolve_builder_invocation_consumption_issuance :: "string \<Rightarrow> issuance_store \<Rightarrow> consumption_issuance res" where
  "resolve_builder_invocation_consumption_issuance key s = and_then (durable_text 2048 key ''invocation_consumption_permit_id'') (\<lambda>_.
     and_then (select_row consumption_issuance_columns ''builder invocation consumption issuance is missing or ambiguous'' key (is_consumptions s)) (\<lambda>r.
     and_then (checks [
       consumption_issuance_validate r,
       raise_when (bc_invocation_consumption_permit_id r \<noteq> key) PersistentAuthorityStateError ''builder invocation consumption issuance lookup binding mismatch'',
       require_resolved_origin (consumption_issuance_origin r) ''builder invocation consumption issuance'' (is_base s)]) (\<lambda>_. Inr r)))"

definition start_issuance_columns :: "start_issuance \<Rightarrow> string list" where
  "start_issuance_columns r = [bt_builder_start_admission_id r, bt_builder_start_admission_digest r, bt_builder_start_admission_replay_digest r]"

definition start_issuance_origin :: "start_issuance \<Rightarrow> string \<times> string" where
  "start_issuance_origin r = (bt_authority_store_origin_id r, bt_authority_store_origin_digest r)"

definition record_builder_start_admission_issuance :: "start_issuance \<Rightarrow> (issuance_store, start_issuance) op" where
  "record_builder_start_admission_issuance r s =
     (case require_record_origin (start_issuance_validate r) (start_issuance_origin r) ''builder start admission issuance'' (is_base s) of
        Inl e \<Rightarrow> (Inl e, s)
      | Inr _ \<Rightarrow> (case insert_issuance_row start_issuance_columns ''builder start admission issuance already exists or conflicts'' r (is_starts s) of
          (x, rows) \<Rightarrow> (x, s\<lparr>is_starts := rows\<rparr>)))"

definition resolve_builder_start_admission_issuance :: "string \<Rightarrow> issuance_store \<Rightarrow> start_issuance res" where
  "resolve_builder_start_admission_issuance key s = and_then (durable_text 2048 key ''builder_start_admission_id'') (\<lambda>_.
     and_then (select_row start_issuance_columns ''builder start admission issuance is missing or ambiguous'' key (is_starts s)) (\<lambda>r.
     and_then (checks [
       start_issuance_validate r,
       raise_when (bt_builder_start_admission_id r \<noteq> key) PersistentAuthorityStateError ''builder start admission issuance lookup binding mismatch'',
       require_resolved_origin (start_issuance_origin r) ''builder start admission issuance'' (is_base s)]) (\<lambda>_. Inr r)))"

definition launch_intent_columns :: "launch_intent \<Rightarrow> string list" where
  "launch_intent_columns r = [bl_launch_request_id r, bl_launch_request_digest r, bl_launch_replay_digest r]"

definition launch_intent_origin :: "launch_intent \<Rightarrow> string \<times> string" where
  "launch_intent_origin r = (bl_authority_store_origin_id r, bl_authority_store_origin_digest r)"

definition record_builder_process_launch_intent :: "launch_intent \<Rightarrow> (issuance_store, launch_intent) op" where
  "record_builder_process_launch_intent r s =
     (case require_record_origin (launch_intent_validate r) (launch_intent_origin r) ''builder process launch intent'' (is_base s) of
        Inl e \<Rightarrow> (Inl e, s)
      | Inr _ \<Rightarrow> (case insert_issuance_row launch_intent_columns ''launch intent exists or conflicts'' r (is_intents s) of
          (x, rows) \<Rightarrow> (x, s\<lparr>is_intents := rows\<rparr>)))"

definition resolve_builder_process_launch_intent :: "string \<Rightarrow> issuance_store \<Rightarrow> launch_intent res" where
  "resolve_builder_process_launch_intent key s = and_then (durable_text 2048 key ''launch_request_id'') (\<lambda>_.
     and_then (select_row launch_intent_columns ''launch intent missing or ambiguous'' key (is_intents s)) (\<lambda>r.
     and_then (checks [
       launch_intent_validate r,
       raise_when (bl_launch_request_id r \<noteq> key) PersistentAuthorityStateError ''launch intent lookup binding mismatch'',
       require_resolved_origin (launch_intent_origin r) ''builder process launch intent'' (is_base s)]) (\<lambda>_. Inr r)))"

definition held_materialization_columns :: "held_materialization \<Rightarrow> string list" where
  "held_materialization_columns r = [bh_launch_id r, bh_held_identity_digest r, bh_process_identity_token r, bh_execution_gate_id r, bh_execution_gate_digest r]"

definition held_materialization_origin :: "held_materialization \<Rightarrow> string \<times> string" where
  "held_materialization_origin r = (bh_authority_store_origin_id r, bh_authority_store_origin_digest r)"

definition record_builder_process_held_materialization :: "held_materialization \<Rightarrow> (issuance_store, held_materialization) op" where
  "record_builder_process_held_materialization r s =
     (case require_record_origin (held_materialization_validate r) (held_materialization_origin r) ''builder process held materialization'' (is_base s) of
        Inl e \<Rightarrow> (Inl e, s)
      | Inr _ \<Rightarrow> (case insert_issuance_row held_materialization_columns ''held materialization exists or conflicts'' r (is_held s) of
          (x, rows) \<Rightarrow> (x, s\<lparr>is_held := rows\<rparr>)))"

definition resolve_builder_process_held_materialization :: "string \<Rightarrow> issuance_store \<Rightarrow> held_materialization res" where
  "resolve_builder_process_held_materialization key s = and_then (durable_text 2048 key ''launch_id'') (\<lambda>_.
     and_then (select_row held_materialization_columns ''held materialization missing or ambiguous'' key (is_held s)) (\<lambda>r.
     and_then (checks [
       held_materialization_validate r,
       raise_when (bh_launch_id r \<noteq> key) PersistentAuthorityStateError ''held materialization lookup binding mismatch'',
       require_resolved_origin (held_materialization_origin r) ''builder process held materialization'' (is_base s)]) (\<lambda>_. Inr r)))"

definition launch_receipt_columns :: "launch_receipt \<Rightarrow> string list" where
  "launch_receipt_columns r = [bp_launch_receipt_id r, bp_launch_receipt_digest r, bp_launch_replay_digest r, bp_execution_gate_id r]"

definition launch_receipt_origin :: "launch_receipt \<Rightarrow> string \<times> string" where
  "launch_receipt_origin r = (bp_authority_store_origin_id r, bp_authority_store_origin_digest r)"

definition record_builder_process_launch_receipt :: "launch_receipt \<Rightarrow> (issuance_store, launch_receipt) op" where
  "record_builder_process_launch_receipt r s =
     (case require_record_origin (launch_receipt_validate r) (launch_receipt_origin r) ''builder process launch receipt'' (is_base s) of
        Inl e \<Rightarrow> (Inl e, s)
      | Inr _ \<Rightarrow> (case insert_issuance_row launch_receipt_columns ''launch receipt exists or conflicts'' r (is_receipts s) of
          (x, rows) \<Rightarrow> (x, s\<lparr>is_receipts := rows\<rparr>)))"

definition resolve_builder_process_launch_receipt :: "string \<Rightarrow> issuance_store \<Rightarrow> launch_receipt res" where
  "resolve_builder_process_launch_receipt key s = and_then (durable_text 2048 key ''launch_receipt_id'') (\<lambda>_.
     and_then (select_row launch_receipt_columns ''launch receipt missing or ambiguous'' key (is_receipts s)) (\<lambda>r.
     and_then (checks [
       launch_receipt_validate r,
       raise_when (bp_launch_receipt_id r \<noteq> key) PersistentAuthorityStateError ''launch receipt lookup binding mismatch'',
       require_resolved_origin (launch_receipt_origin r) ''builder process launch receipt'' (is_base s)]) (\<lambda>_. Inr r)))"

section \<open>Steps\<close>

inductive issuance_step :: "issuance_store \<Rightarrow> issuance_store \<Rightarrow> bool" where
  base_step: "durable_step (is_base s) b \<Longrightarrow> issuance_step s (s\<lparr>is_base := b\<rparr>)"
| entry_issuance_step: "issuance_step s (snd (record_builder_entry_issuance r s))"
| invocation_issuance_step: "issuance_step s (snd (record_builder_invocation_issuance r s))"
| consumption_issuance_step: "issuance_step s (snd (record_builder_invocation_consumption_issuance r s))"
| start_issuance_step: "issuance_step s (snd (record_builder_start_admission_issuance r s))"
| launch_intent_step: "issuance_step s (snd (record_builder_process_launch_intent r s))"
| held_materialization_step: "issuance_step s (snd (record_builder_process_held_materialization r s))"
| launch_receipt_step: "issuance_step s (snd (record_builder_process_launch_receipt r s))"

section \<open>The contract of a table\<close>

text \<open>A row is good when it is valid and bound to the registered origin of the store.\<close>

definition good_row :: "('r \<Rightarrow> unit res) \<Rightarrow> ('r \<Rightarrow> string \<times> string) \<Rightarrow> durable_store \<Rightarrow> 'r \<Rightarrow> bool" where
  "good_row validate origin b r \<longleftrightarrow> validate r = Inr ()
     \<and> (\<exists>o1. resolve_origin b = Inr o1 \<and> origin r = (so_origin_id o1, so_origin_digest o1))"

lemma clash_refl: "xs \<noteq> [] \<Longrightarrow> clash xs xs"
  by (cases xs) (simp_all add: clash_def)

lemma clash_hd: "xs \<noteq> [] \<Longrightarrow> ys \<noteq> [] \<Longrightarrow> hd xs = hd ys \<Longrightarrow> clash xs ys"
  by (cases xs; cases ys) (simp_all add: clash_def)

lemma good_row_later: "good_row v g b r \<Longrightarrow> durable_later b b' \<Longrightarrow> good_row v g b' r"
proof -
  assume good: "good_row v g b r" and later: "durable_later b b'"
  from good obtain o1 where o1: "resolve_origin b = Inr o1" "g r = (so_origin_id o1, so_origin_digest o1)"
    by (auto simp: good_row_def)
  then have "resolve_origin b' = Inr o1"
    by (cases "da_origin b") (auto simp: resolve_origin_def durable_later_kept(3) [OF later])
  with good o1 show ?thesis by (auto simp: good_row_def)
qed

lemma step_base_later: "issuance_step s s' \<Longrightarrow> durable_later (is_base s) (is_base s')"
proof (induction rule: issuance_step.induct)
  case (base_step s b)
  then show ?case by (simp add: durable_step_later)

next
  case (entry_issuance_step s r)
  show ?case by (simp add: record_builder_entry_issuance_def split: sum.split prod.split)
next
  case (invocation_issuance_step s r)
  show ?case by (simp add: record_builder_invocation_issuance_def split: sum.split prod.split)
next
  case (consumption_issuance_step s r)
  show ?case by (simp add: record_builder_invocation_consumption_issuance_def split: sum.split prod.split)
next
  case (start_issuance_step s r)
  show ?case by (simp add: record_builder_start_admission_issuance_def split: sum.split prod.split)
next
  case (launch_intent_step s r)
  show ?case by (simp add: record_builder_process_launch_intent_def split: sum.split prod.split)
next
  case (held_materialization_step s r)
  show ?case by (simp add: record_builder_process_held_materialization_def split: sum.split prod.split)
next
  case (launch_receipt_step s r)
  show ?case by (simp add: record_builder_process_launch_receipt_def split: sum.split prod.split)
qed

text \<open>What the two methods of a table promise, for any of the seven: \<open>rows\<close> reads the table, \<open>put\<close> records, \<open>get\<close> resolves.\<close>

locale issuance_table =
  fixes rows :: "issuance_store \<Rightarrow> 'r list"
    and put :: "'r \<Rightarrow> (issuance_store, 'r) op"
    and get :: "string \<Rightarrow> issuance_store \<Rightarrow> 'r res"
    and columns :: "'r \<Rightarrow> string list"
    and good :: "durable_store \<Rightarrow> 'r \<Rightarrow> bool"
  assumes put_inserts: "put r s = (Inr r', s') \<Longrightarrow> r' = r \<and> rows s' = rows s @ [r] \<and> is_base s' = is_base s
      \<and> good (is_base s) r \<and> \<not> list_ex (\<lambda>x. clash (columns x) (columns r)) (rows s)"
    and put_refuses: "put r s = (Inl e, s') \<Longrightarrow> s' = s"
    and get_finds: "filter (\<lambda>x. hd (columns x) = key) (rows s) = [r] \<Longrightarrow> good (is_base s) r \<Longrightarrow> get key s = Inr r"
    and good_later: "good b r \<Longrightarrow> durable_later b b' \<Longrightarrow> good b' r"
    and step_table: "issuance_step s s' \<Longrightarrow> rows s' = rows s \<or> (\<exists>r. put r s = (Inr r, s'))"
    and put_step: "issuance_step s (snd (put r s))"
    and columns_ne: "columns r \<noteq> []"
    and empty_rows: "rows issuance_empty = []"
begin

definition table_ok :: "issuance_store \<Rightarrow> bool" where
  "table_ok s \<longleftrightarrow> sorted_wrt (\<lambda>x y. \<not> clash (columns x) (columns y)) (rows s) \<and> list_all (good (is_base s)) (rows s)"

lemma put_ok: "put r s = (Inr r', s') \<Longrightarrow> table_ok s \<Longrightarrow> table_ok s'"
  using put_inserts [of r s r' s'] by (auto simp: table_ok_def sorted_wrt_append list_ex_iff list_all_iff)

lemma step_ok:
  assumes "issuance_step s s'" "table_ok s"
  shows "table_ok s'"
  using step_table [OF assms(1)]
proof
  assume "rows s' = rows s"
  with assms(2) step_base_later [OF assms(1)] show ?thesis by (auto simp: table_ok_def list_all_iff intro: good_later)
qed (use put_ok assms(2) in blast)

lemma steps_ok: "issuance_step\<^sup>*\<^sup>* s s' \<Longrightarrow> table_ok s \<Longrightarrow> table_ok s'"
  by (induction rule: rtranclp_induct) (auto intro: step_ok)

lemma empty_ok: "table_ok issuance_empty"
  by (simp add: table_ok_def empty_rows)

lemma rows_kept: "issuance_step\<^sup>*\<^sup>* s s' \<Longrightarrow> set (rows s) \<subseteq> set (rows s')"
proof (induction rule: rtranclp_induct)
  case (step t u)
  then show ?case using step_table [OF step.hyps(2)] put_inserts by fastforce
qed simp

lemma get_recorded:
  assumes "table_ok s" "r \<in> set (rows s)"
  shows "get (hd (columns r)) s = Inr r"
proof -
  obtain xs ys where split: "rows s = xs @ r # ys" using split_list [OF assms(2)] by blast
  have "hd (columns x) \<noteq> hd (columns r)" if "x \<in> set xs \<union> set ys" for x
    using that assms(1) clash_hd [OF columns_ne columns_ne, of x r] clash_hd [OF columns_ne columns_ne, of r x]
    by (auto simp: table_ok_def split sorted_wrt_append)
  then have "filter (\<lambda>x. hd (columns x) = hd (columns r)) (rows s) = [r]"
    by (auto simp: split filter_empty_conv)
  moreover have "good (is_base s) r" using assms by (simp add: table_ok_def list_all_iff)
  ultimately show ?thesis by (rule get_finds)
qed

lemma put_clash: "x' \<in> set (rows s) \<Longrightarrow> clash (columns x') (columns r) \<Longrightarrow> \<exists>e. put r s = (Inl e, s)"
proof (cases "put r s")
  case (Pair x t)
  assume "x' \<in> set (rows s)" "clash (columns x') (columns r)"
  then show ?thesis using Pair put_inserts [of r s _ t] put_refuses [of r s _ t] by (cases x) (auto simp: list_ex_iff)
qed

lemma recorded_later: "put x s = (Inr x', s1) \<Longrightarrow> issuance_step\<^sup>*\<^sup>* s1 s2 \<Longrightarrow> x \<in> set (rows s2)"
  using put_inserts [of x s x' s1] rows_kept [of s1 s2] by auto

lemma recorded_once: "put x s = (Inr x', s1) \<Longrightarrow> issuance_step\<^sup>*\<^sup>* s1 s2 \<Longrightarrow> clash (columns x) (columns y) \<Longrightarrow> \<exists>e. put y s2 = (Inl e, s2)"
  using recorded_later put_clash by blast

lemma recorded_resolves:
  assumes "issuance_step\<^sup>*\<^sup>* issuance_empty s" "put x s = (Inr x', s1)" "issuance_step\<^sup>*\<^sup>* s1 s2"
  shows "x' = x \<and> get (hd (columns x)) s2 = Inr x"
proof
  show "x' = x" using put_inserts [OF assms(2)] by simp
  have "issuance_step s s1" using put_step [of s x] assms(2) by simp
  then have "issuance_step\<^sup>*\<^sup>* issuance_empty s2" using assms(1,3) by (meson rtranclp.rtrancl_into_rtrancl rtranclp_trans)
  then have "table_ok s2" using empty_ok by (rule steps_ok)
  then show "get (hd (columns x)) s2 = Inr x" using recorded_later [OF assms(2,3)] by (rule get_recorded)
qed

end

text \<open>The laws hold for every method written with the shared helpers.\<close>

lemma record_laws:
  assumes op: "op = (case require_record_origin (v r) (g r) label (is_base s) of Inl e \<Rightarrow> (Inl e, s)
      | Inr _ \<Rightarrow> (case insert_issuance_row c conflict r (rows s) of (x, t) \<Rightarrow> (x, upd t s)))"
    and upd: "\<And>t. rows (upd t s) = t" "\<And>t. is_base (upd t s) = is_base s" "upd (rows s) s = s"
  shows "op = (Inr r', s') \<Longrightarrow> r' = r \<and> rows s' = rows s @ [r] \<and> is_base s' = is_base s
      \<and> good_row v g (is_base s) r \<and> \<not> list_ex (\<lambda>x. clash (c x) (c r)) (rows s)"
    and "op = (Inl e, s') \<Longrightarrow> s' = s"
proof -
  have good: "good_row v g (is_base s) r" if "require_record_origin (v r) (g r) label (is_base s) = Inr ()"
    using that by (cases "v r"; cases "resolve_origin (is_base s)") (auto simp: require_record_origin_def good_row_def)
  show "op = (Inr r', s') \<Longrightarrow> r' = r \<and> rows s' = rows s @ [r] \<and> is_base s' = is_base s
      \<and> good_row v g (is_base s) r \<and> \<not> list_ex (\<lambda>x. clash (c x) (c r)) (rows s)"
    using good upd unfolding op by (auto simp: insert_issuance_row_def split: sum.splits if_splits)
  show "op = (Inl e, s') \<Longrightarrow> s' = s"
    using upd unfolding op by (auto simp: insert_issuance_row_def split: sum.splits if_splits)
qed

lemma resolve_law:
  assumes op: "op = and_then (durable_text 2048 key name) (\<lambda>_. and_then (select_row c missing key rows) (\<lambda>r.
      and_then (checks [v r, raise_when (k r \<noteq> key) PersistentAuthorityStateError mismatch,
        require_resolved_origin (g r) label b]) (\<lambda>_. Inr r)))"
    and key: "\<And>x. hd (c x) = k x" "\<And>x. v x = Inr () \<Longrightarrow> durable_text 2048 (k x) name = Inr ()"
    and r: "filter (\<lambda>x. hd (c x) = key) rows = [r]" "good_row v g b r"
  shows "op = Inr r"
proof -
  have "k r = key" using r(1) key(1) by (metis (mono_tags) filter_eq_ConsD)
  with key r show ?thesis unfolding op by (auto simp: select_row_def good_row_def require_resolved_origin_def)
qed

lemma issuance_tableI:
  assumes put: "\<And>r s. put r s = (case require_record_origin (v r) (g r) label (is_base s) of Inl e \<Rightarrow> (Inl e, s)
      | Inr _ \<Rightarrow> (case insert_issuance_row c conflict r (rows s) of (x, t) \<Rightarrow> (x, upd t s)))"
    and get: "\<And>key s. get key s = and_then (durable_text 2048 key name) (\<lambda>_. and_then (select_row c missing key (rows s)) (\<lambda>r.
      and_then (checks [v r, raise_when (k r \<noteq> key) PersistentAuthorityStateError mismatch,
        require_resolved_origin (g r) label (is_base s)]) (\<lambda>_. Inr r)))"
    and key: "\<And>x. v x = Inr () \<Longrightarrow> durable_text 2048 (k x) name = Inr ()"
    and step: "\<And>s s'. issuance_step s s' \<Longrightarrow> rows s' = rows s \<or> (\<exists>r. put r s = (Inr r, s'))"
    and upd: "\<And>t s. rows (upd t s) = t" "\<And>t s. is_base (upd t s) = is_base s" "\<And>s. upd (rows s) s = s"
    and hd: "\<And>x. hd (c x) = k x" "\<And>x. c x \<noteq> []"
    and run: "\<And>s r. issuance_step s (snd (put r s))" "rows issuance_empty = []"
  shows "issuance_table rows put get c (good_row v g)"
proof
  fix r r' s s' e key
  show "put r s = (Inr r', s') \<Longrightarrow> r' = r \<and> rows s' = rows s @ [r] \<and> is_base s' = is_base s
      \<and> good_row v g (is_base s) r \<and> \<not> list_ex (\<lambda>x. clash (c x) (c r)) (rows s)"
    "put r s = (Inl e, s') \<Longrightarrow> s' = s"
    by (rule record_laws [OF put upd]; assumption)+
  show "filter (\<lambda>x. hd (c x) = key) (rows s) = [r] \<Longrightarrow> good_row v g (is_base s) r \<Longrightarrow> get key s = Inr r"
    by (rule resolve_law [OF get hd(1) key])
qed (erule (1) good_row_later, erule step, rule run(1), rule hd(2), rule run(2))


lemma step_frame:
  "issuance_step s s' \<Longrightarrow> is_entries s' = is_entries s \<or> (\<exists>r. record_builder_entry_issuance r s = (Inr r, s'))"
  "issuance_step s s' \<Longrightarrow> is_invocations s' = is_invocations s \<or> (\<exists>r. record_builder_invocation_issuance r s = (Inr r, s'))"
  "issuance_step s s' \<Longrightarrow> is_consumptions s' = is_consumptions s \<or> (\<exists>r. record_builder_invocation_consumption_issuance r s = (Inr r, s'))"
  "issuance_step s s' \<Longrightarrow> is_starts s' = is_starts s \<or> (\<exists>r. record_builder_start_admission_issuance r s = (Inr r, s'))"
  "issuance_step s s' \<Longrightarrow> is_intents s' = is_intents s \<or> (\<exists>r. record_builder_process_launch_intent r s = (Inr r, s'))"
  "issuance_step s s' \<Longrightarrow> is_held s' = is_held s \<or> (\<exists>r. record_builder_process_held_materialization r s = (Inr r, s'))"
  "issuance_step s s' \<Longrightarrow> is_receipts s' = is_receipts s \<or> (\<exists>r. record_builder_process_launch_receipt r s = (Inr r, s'))"
  by (erule issuance_step.cases; auto simp: insert_issuance_row_def record_builder_entry_issuance_def record_builder_invocation_issuance_def record_builder_invocation_consumption_issuance_def record_builder_start_admission_issuance_def record_builder_process_launch_intent_def record_builder_process_held_materialization_def record_builder_process_launch_receipt_def split: sum.split)+

lemma key_text:
  "entry_issuance_validate re = Inr () \<Longrightarrow> durable_text 2048 (be_builder_entry_permit_id re) ''builder_entry_permit_id'' = Inr ()"
  "invocation_issuance_validate ri = Inr () \<Longrightarrow> durable_text 2048 (bi_builder_invocation_permit_id ri) ''builder_invocation_permit_id'' = Inr ()"
  "consumption_issuance_validate rc = Inr () \<Longrightarrow> durable_text 2048 (bc_invocation_consumption_permit_id rc) ''invocation_consumption_permit_id'' = Inr ()"
  "start_issuance_validate rt = Inr () \<Longrightarrow> durable_text 2048 (bt_builder_start_admission_id rt) ''builder_start_admission_id'' = Inr ()"
  "launch_intent_validate rl = Inr () \<Longrightarrow> durable_text 2048 (bl_launch_request_id rl) ''launch_request_id'' = Inr ()"
  "held_materialization_validate rh = Inr () \<Longrightarrow> durable_text 2048 (bh_launch_id rh) ''launch_id'' = Inr ()"
  "launch_receipt_validate rp = Inr () \<Longrightarrow> durable_text 2048 (bp_launch_receipt_id rp) ''launch_receipt_id'' = Inr ()"
  by (simp_all add: entry_issuance_validate_def invocation_issuance_validate_def consumption_issuance_validate_def start_issuance_validate_def launch_intent_validate_def held_materialization_validate_def launch_receipt_validate_def)

interpretation entry_issuance: issuance_table is_entries record_builder_entry_issuance resolve_builder_entry_issuance
  entry_issuance_columns "good_row entry_issuance_validate entry_issuance_origin"
  by (rule issuance_tableI [where upd = "\<lambda>t. is_entries_update (\<lambda>_. t)", OF record_builder_entry_issuance_def
      resolve_builder_entry_issuance_def key_text(1) step_frame(1)])
     (simp_all add: entry_issuance_columns_def issuance_empty_def entry_issuance_step)

interpretation invocation_issuance: issuance_table is_invocations record_builder_invocation_issuance resolve_builder_invocation_issuance
  invocation_issuance_columns "good_row invocation_issuance_validate invocation_issuance_origin"
  by (rule issuance_tableI [where upd = "\<lambda>t. is_invocations_update (\<lambda>_. t)", OF record_builder_invocation_issuance_def
      resolve_builder_invocation_issuance_def key_text(2) step_frame(2)])
     (simp_all add: invocation_issuance_columns_def issuance_empty_def invocation_issuance_step)

interpretation consumption_issuance: issuance_table is_consumptions record_builder_invocation_consumption_issuance resolve_builder_invocation_consumption_issuance
  consumption_issuance_columns "good_row consumption_issuance_validate consumption_issuance_origin"
  by (rule issuance_tableI [where upd = "\<lambda>t. is_consumptions_update (\<lambda>_. t)", OF record_builder_invocation_consumption_issuance_def
      resolve_builder_invocation_consumption_issuance_def key_text(3) step_frame(3)])
     (simp_all add: consumption_issuance_columns_def issuance_empty_def consumption_issuance_step)

interpretation start_issuance: issuance_table is_starts record_builder_start_admission_issuance resolve_builder_start_admission_issuance
  start_issuance_columns "good_row start_issuance_validate start_issuance_origin"
  by (rule issuance_tableI [where upd = "\<lambda>t. is_starts_update (\<lambda>_. t)", OF record_builder_start_admission_issuance_def
      resolve_builder_start_admission_issuance_def key_text(4) step_frame(4)])
     (simp_all add: start_issuance_columns_def issuance_empty_def start_issuance_step)

interpretation launch_intent: issuance_table is_intents record_builder_process_launch_intent resolve_builder_process_launch_intent
  launch_intent_columns "good_row launch_intent_validate launch_intent_origin"
  by (rule issuance_tableI [where upd = "\<lambda>t. is_intents_update (\<lambda>_. t)", OF record_builder_process_launch_intent_def
      resolve_builder_process_launch_intent_def key_text(5) step_frame(5)])
     (simp_all add: launch_intent_columns_def issuance_empty_def launch_intent_step)

interpretation held_materialization: issuance_table is_held record_builder_process_held_materialization resolve_builder_process_held_materialization
  held_materialization_columns "good_row held_materialization_validate held_materialization_origin"
  by (rule issuance_tableI [where upd = "\<lambda>t. is_held_update (\<lambda>_. t)", OF record_builder_process_held_materialization_def
      resolve_builder_process_held_materialization_def key_text(6) step_frame(6)])
     (simp_all add: held_materialization_columns_def issuance_empty_def held_materialization_step)

interpretation launch_receipt: issuance_table is_receipts record_builder_process_launch_receipt resolve_builder_process_launch_receipt
  launch_receipt_columns "good_row launch_receipt_validate launch_receipt_origin"
  by (rule issuance_tableI [where upd = "\<lambda>t. is_receipts_update (\<lambda>_. t)", OF record_builder_process_launch_receipt_def
      resolve_builder_process_launch_receipt_def key_text(7) step_frame(7)])
     (simp_all add: launch_receipt_columns_def issuance_empty_def launch_receipt_step)

section \<open>Issuance of any kind\<close>

datatype issuance =
    Entry entry_issuance
  | Invocation invocation_issuance
  | Consumption consumption_issuance
  | Start start_issuance
  | Intent launch_intent
  | Held held_materialization
  | Receipt launch_receipt

fun record_issuance :: "issuance \<Rightarrow> (issuance_store, issuance) op" where
  "record_issuance (Entry r) s = map_prod (map_sum id Entry) id (record_builder_entry_issuance r s)"
| "record_issuance (Invocation r) s = map_prod (map_sum id Invocation) id (record_builder_invocation_issuance r s)"
| "record_issuance (Consumption r) s = map_prod (map_sum id Consumption) id (record_builder_invocation_consumption_issuance r s)"
| "record_issuance (Start r) s = map_prod (map_sum id Start) id (record_builder_start_admission_issuance r s)"
| "record_issuance (Intent r) s = map_prod (map_sum id Intent) id (record_builder_process_launch_intent r s)"
| "record_issuance (Held r) s = map_prod (map_sum id Held) id (record_builder_process_held_materialization r s)"
| "record_issuance (Receipt r) s = map_prod (map_sum id Receipt) id (record_builder_process_launch_receipt r s)"

text \<open>The resolution of the record under its own key.\<close>

fun resolve_issuance :: "issuance \<Rightarrow> issuance_store \<Rightarrow> issuance res" where
  "resolve_issuance (Entry r) s = map_sum id Entry (resolve_builder_entry_issuance (be_builder_entry_permit_id r) s)"
| "resolve_issuance (Invocation r) s = map_sum id Invocation (resolve_builder_invocation_issuance (bi_builder_invocation_permit_id r) s)"
| "resolve_issuance (Consumption r) s = map_sum id Consumption (resolve_builder_invocation_consumption_issuance (bc_invocation_consumption_permit_id r) s)"
| "resolve_issuance (Start r) s = map_sum id Start (resolve_builder_start_admission_issuance (bt_builder_start_admission_id r) s)"
| "resolve_issuance (Intent r) s = map_sum id Intent (resolve_builder_process_launch_intent (bl_launch_request_id r) s)"
| "resolve_issuance (Held r) s = map_sum id Held (resolve_builder_process_held_materialization (bh_launch_id r) s)"
| "resolve_issuance (Receipt r) s = map_sum id Receipt (resolve_builder_process_launch_receipt (bp_launch_receipt_id r) s)"

text \<open>Two records of one kind agree in an identity the table keeps unique.\<close>

fun shares_identity :: "issuance \<Rightarrow> issuance \<Rightarrow> bool" where
  "shares_identity (Entry r) (Entry r') = clash (entry_issuance_columns r) (entry_issuance_columns r')"
| "shares_identity (Invocation r) (Invocation r') = clash (invocation_issuance_columns r) (invocation_issuance_columns r')"
| "shares_identity (Consumption r) (Consumption r') = clash (consumption_issuance_columns r) (consumption_issuance_columns r')"
| "shares_identity (Start r) (Start r') = clash (start_issuance_columns r) (start_issuance_columns r')"
| "shares_identity (Intent r) (Intent r') = clash (launch_intent_columns r) (launch_intent_columns r')"
| "shares_identity (Held r) (Held r') = clash (held_materialization_columns r) (held_materialization_columns r')"
| "shares_identity (Receipt r) (Receipt r') = clash (launch_receipt_columns r) (launch_receipt_columns r')"
| "shares_identity _ _ = False"

lemma record_issuance_ok: "record_issuance x s = (Inr x', s') \<Longrightarrow> (case x of
    Entry r \<Rightarrow> \<exists>r'. x' = Entry r' \<and> record_builder_entry_issuance r s = (Inr r', s')
  | Invocation r \<Rightarrow> \<exists>r'. x' = Invocation r' \<and> record_builder_invocation_issuance r s = (Inr r', s')
  | Consumption r \<Rightarrow> \<exists>r'. x' = Consumption r' \<and> record_builder_invocation_consumption_issuance r s = (Inr r', s')
  | Start r \<Rightarrow> \<exists>r'. x' = Start r' \<and> record_builder_start_admission_issuance r s = (Inr r', s')
  | Intent r \<Rightarrow> \<exists>r'. x' = Intent r' \<and> record_builder_process_launch_intent r s = (Inr r', s')
  | Held r \<Rightarrow> \<exists>r'. x' = Held r' \<and> record_builder_process_held_materialization r s = (Inr r', s')
  | Receipt r \<Rightarrow> \<exists>r'. x' = Receipt r' \<and> record_builder_process_launch_receipt r s = (Inr r', s'))"
  by (cases x; auto simp: map_prod_def map_sum_def split: prod.splits sum.splits)


lemma lifted_refusal: "\<exists>e. op = (Inl e, s) \<Longrightarrow> \<exists>e. map_prod (map_sum id f) id op = (Inl e, s)"
  by auto

lemmas columns_defs = entry_issuance_columns_def
  invocation_issuance_columns_def
  consumption_issuance_columns_def
  start_issuance_columns_def
  launch_intent_columns_def
  held_materialization_columns_def
  launch_receipt_columns_def

section \<open>An example\<close>

definition example_origin :: store_origin where
  "example_origin = \<lparr>so_origin_id = ''aso:'' @ example_digest, so_origin_digest = example_digest, so_runtime_factory_version = ''1'',
     so_repository_root = ''/r'', so_canonical_database_path = ''/r/db''\<rparr>"

definition example_entry :: entry_issuance where
  "example_entry = \<lparr>
     be_builder_entry_permit_id = ''bep:1'', be_builder_entry_permit_digest = example_digest,
     be_builder_entry_replay_digest = example_digest, be_repository = ''r'',
     be_baseline_master_sha = replicate 40 (CHR ''a''), be_baseline_master_tree_sha = replicate 40 (CHR ''a''),
     be_action = ''BUILD_CANDIDATE'', be_candidate_scope = [''docs''], be_resource_scope = [''docs''],
     be_authority_epoch = 1, be_authority_state_version = 1, be_root_grant_id = ''root'',
     be_root_grant_digest = example_digest, be_current_authority_digest = example_digest,
     be_builder_subject_id = ''b'', be_builder_instance_id = ''b1'',
     be_builder_capability_class = ''DETACHED_CANDIDATE_BUILD_ONLY'', be_builder_identity_digest = example_digest,
     be_builder_implementation_digest = example_digest, be_builder_attestation_digest = example_digest,
     be_authority_store_origin_id = ''aso:'' @ example_digest, be_authority_store_origin_digest = example_digest,
     be_issued_at = ''2026-01-01T00:00:00Z''\<rparr>"

definition example_bound :: issuance_store where
  "example_bound = issuance_empty\<lparr>is_base := durable_empty\<lparr>da_origin := Some example_origin\<rparr>\<rparr>"

lemma example_origin_valid: "origin_validate example_origin = Inr ()"
  by (simp add: origin_validate_def example_origin_def durable_text_def text_invalid_def py_space_def nul_def example_digest_ok)

lemma example_issuance_reachable: "issuance_step\<^sup>*\<^sup>* issuance_empty example_bound"
proof (rule r_into_rtranclp)
  have "snd (register_origin example_origin durable_empty) = durable_empty\<lparr>da_origin := Some example_origin\<rparr>"
    by (simp add: register_origin_def example_origin_valid durable_empty_def)
  then have "durable_step (is_base issuance_empty) (durable_empty\<lparr>da_origin := Some example_origin\<rparr>)"
    using origin_step [of durable_empty example_origin] by (simp add: issuance_empty_def)
  then show "issuance_step issuance_empty example_bound" unfolding example_bound_def by (rule base_step)
qed

lemma example_entry_valid: "entry_issuance_validate example_entry = Inr ()"
proof -
  have sha40: "durable_sha40 (replicate 40 (CHR ''a'')) name = Inr ()" for name
    using int16_ok_hex [of "replicate 40 (CHR ''a'')"] hex_char_any [of "CHR ''a''"]
    by (simp add: durable_sha40_def list_all_iff list_ex_iff hex_char_def)
  have scope: "durable_scope [''docs''] name = Inr ()" for name
    by (simp add: durable_scope_def durable_text_def text_invalid_def py_space_def nul_def)
  show ?thesis
    by (simp add: entry_issuance_validate_def example_entry_def sha40 scope example_digest_ok durable_text_def text_invalid_def
        py_space_def nul_def)
qed

lemma example_recorded: "record_issuance (Entry example_entry) example_bound
    = (Inr (Entry example_entry), example_bound\<lparr>is_entries := [example_entry]\<rparr>)"
proof -
  have "resolve_origin (is_base example_bound) = Inr example_origin"
    by (simp add: resolve_origin_def example_bound_def example_origin_valid)
  moreover have "entry_issuance_origin example_entry = (so_origin_id example_origin, so_origin_digest example_origin)"
    by (simp add: entry_issuance_origin_def example_entry_def example_origin_def)
  ultimately show ?thesis
    by (simp add: record_builder_entry_issuance_def require_record_origin_def example_entry_valid insert_issuance_row_def)
       (simp add: example_bound_def issuance_empty_def)
qed

section \<open>Properties\<close>

text \<open>C29. An issuance is recorded at most once: after a record of any of the seven kinds was accepted, and whatever
  operations any client runs on the store afterwards, every record of that kind which repeats its id or one of its
  other unique identities (permit digest, replay digest, gate, process token) is refused and changes nothing.\<close>
theorem issuance_once:
  assumes "record_issuance x s = (Inr x', s1)" "issuance_step\<^sup>*\<^sup>* s1 s2" "shares_identity x y"
  shows "\<exists>e. record_issuance y s2 = (Inl e, s2)"
  using record_issuance_ok [OF assms(1)] assms(2,3)
  by (cases x; cases y; simp only: shares_identity.simps record_issuance.simps issuance.case)
     (blast intro: lifted_refusal entry_issuance.recorded_once
        invocation_issuance.recorded_once
        consumption_issuance.recorded_once
        start_issuance.recorded_once
        launch_intent.recorded_once
        held_materialization.recorded_once
        launch_receipt.recorded_once)+

theorem issuance_once_witness:
  "\<exists>e. record_issuance (Entry (example_entry\<lparr>be_builder_entry_permit_id := ''bep:2''\<rparr>)) (example_bound\<lparr>is_entries := [example_entry]\<rparr>)
    = (Inl e, example_bound\<lparr>is_entries := [example_entry]\<rparr>)"
  by (rule issuance_once [OF example_recorded rtranclp.rtrancl_refl])
     (simp add: entry_issuance_columns_def clash_def example_entry_def)

text \<open>What was recorded is what is resolved: on every store that the operations can reach, a record of any
  of the seven kinds that was accepted is returned unchanged under its own id, at that moment and after any
  further operations: the row decodes to a valid record that is still bound to the origin of the store.\<close>
theorem issuance_resolves:
  assumes "issuance_step\<^sup>*\<^sup>* issuance_empty s" "record_issuance x s = (Inr x', s1)" "issuance_step\<^sup>*\<^sup>* s1 s2"
  shows "x' = x \<and> resolve_issuance x s2 = Inr x"
proof (cases x)
  case (Entry r)
  then obtain r' where "x' = Entry r'" "record_builder_entry_issuance r s = (Inr r', s1)" using record_issuance_ok [OF assms(2)] by auto
  then show ?thesis using entry_issuance.recorded_resolves [OF assms(1) _ assms(3)] Entry by (auto simp: entry_issuance_columns_def)
next
  case (Invocation r)
  then obtain r' where "x' = Invocation r'" "record_builder_invocation_issuance r s = (Inr r', s1)" using record_issuance_ok [OF assms(2)] by auto
  then show ?thesis using invocation_issuance.recorded_resolves [OF assms(1) _ assms(3)] Invocation by (auto simp: invocation_issuance_columns_def)
next
  case (Consumption r)
  then obtain r' where "x' = Consumption r'" "record_builder_invocation_consumption_issuance r s = (Inr r', s1)" using record_issuance_ok [OF assms(2)] by auto
  then show ?thesis using consumption_issuance.recorded_resolves [OF assms(1) _ assms(3)] Consumption by (auto simp: consumption_issuance_columns_def)
next
  case (Start r)
  then obtain r' where "x' = Start r'" "record_builder_start_admission_issuance r s = (Inr r', s1)" using record_issuance_ok [OF assms(2)] by auto
  then show ?thesis using start_issuance.recorded_resolves [OF assms(1) _ assms(3)] Start by (auto simp: start_issuance_columns_def)
next
  case (Intent r)
  then obtain r' where "x' = Intent r'" "record_builder_process_launch_intent r s = (Inr r', s1)" using record_issuance_ok [OF assms(2)] by auto
  then show ?thesis using launch_intent.recorded_resolves [OF assms(1) _ assms(3)] Intent by (auto simp: launch_intent_columns_def)
next
  case (Held r)
  then obtain r' where "x' = Held r'" "record_builder_process_held_materialization r s = (Inr r', s1)" using record_issuance_ok [OF assms(2)] by auto
  then show ?thesis using held_materialization.recorded_resolves [OF assms(1) _ assms(3)] Held by (auto simp: held_materialization_columns_def)
next
  case (Receipt r)
  then obtain r' where "x' = Receipt r'" "record_builder_process_launch_receipt r s = (Inr r', s1)" using record_issuance_ok [OF assms(2)] by auto
  then show ?thesis using launch_receipt.recorded_resolves [OF assms(1) _ assms(3)] Receipt by (auto simp: launch_receipt_columns_def)
qed

theorem issuance_resolves_witness:
  "resolve_issuance (Entry example_entry) (example_bound\<lparr>is_entries := [example_entry]\<rparr>) = Inr (Entry example_entry)"
  using issuance_resolves [OF example_issuance_reachable example_recorded rtranclp.rtrancl_refl] by simp

end
