(* ===== verification/Executor_Provisioning.thy ===== *)
theory Executor_Provisioning
  imports Prelude Py_Hash Py_Json Py_Time Authority_Source Enterprise_Models
begin

text \<open>
  contracts/executor_provisioning.py: the request for a bounded executor, what the provider materialises, the receipt of a
  provisioned executor and its check against request and provider.
\<close>

section \<open>Helpers\<close>

abbreviation provisioning_when :: "bool \<Rightarrow> string \<Rightarrow> unit res" where
  "provisioning_when b m \<equiv> raise_when b ExecutorProvisioningContractError m"

definition provisioning_text :: "nat \<Rightarrow> string \<times> string \<Rightarrow> unit res" where
  "provisioning_text limit nv = provisioning_when (text_invalid limit (snd nv)) (fst nv @ '' is invalid'')"

definition provisioning_sha40 :: "string \<times> string \<Rightarrow> unit res" where
  "provisioning_sha40 nv = checks [provisioning_text 40 nv,
     provisioning_when (\<not> is_hex 40 (snd nv)) (fst nv @ '' must be a full lowercase git SHA'')]"

definition provisioning_sha256 :: "string \<times> string \<Rightarrow> unit res" where
  "provisioning_sha256 nv = checks [provisioning_text 64 nv, provisioning_when (\<not> is_hex 64 (snd nv)) (fst nv @ '' must be sha256 hex'')]"

definition provisioning_utc :: "string \<times> string \<Rightarrow> unit res" where
  "provisioning_utc nv = and_then (provisioning_text 4096 nv) (\<lambda>_. case fromisoformat (replace_z (snd nv)) of
     None \<Rightarrow> Inl (Exn ExecutorProvisioningContractError (fst nv @ '' is invalid''))
   | Some (_, offset) \<Rightarrow> provisioning_when (offset = None) (fst nv @ '' must be timezone-aware''))"

text \<open>\<open>_BRANCH\<close>: branch characters, no leading slash, no component \<open>.\<close> or \<open>..\<close>, none that ends in \<open>.lock\<close>; \<open>_REPO\<close>: two
  components without white space.\<close>

definition provisioning_branch_pattern :: "string \<Rightarrow> bool" where
  "provisioning_branch_pattern v = (v \<noteq> [] \<and> list_all branch_char v \<and> \<not> starts_with ''/'' v
     \<and> list_all (\<lambda>c. c \<noteq> ''.'' \<and> c \<noteq> ''..'' \<and> \<not> ends_with ''.lock'' c) (split_slash [] v))"

definition provisioning_repo_pattern :: "string \<Rightarrow> bool" where
  "provisioning_repo_pattern v = (case split_slash [] v of
     [a, b] \<Rightarrow> a \<noteq> [] \<and> b \<noteq> [] \<and> \<not> list_ex py_space a \<and> \<not> list_ex py_space b | _ \<Rightarrow> False)"

definition provisioning_branch :: "string \<Rightarrow> unit res" where
  "provisioning_branch v = checks [
     provisioning_text 255 (''branch'', v),
     provisioning_when (starts_with ''refs/'' v \<or> ends_with ''/'' v \<or> ends_with ''.'' v \<or> contains ''//'' v) ''branch is invalid'',
     provisioning_when (list_ex (\<lambda>c. c \<in> set '' ~^:?*['' \<or> c = CHR 0x5C) v) ''branch contains unsafe git ref characters'',
     provisioning_when (\<not> provisioning_branch_pattern v) ''branch is invalid'']"

definition provisioning_scope :: "string \<times> string list \<Rightarrow> unit res" where
  "provisioning_scope nv = (let n = fst nv; v = snd nv in checks (
     [provisioning_when (v = []) (n @ '' must be a non-empty tuple''), provisioning_when (\<not> no_dup v) (n @ '' entries must be unique'')]
     @ concat (map (\<lambda>raw. [provisioning_text 1024 (n, raw),
         provisioning_when (CHR 0x5C \<in> set raw) (n @ '' must use POSIX repository paths''),
         provisioning_when (starts_with ''/'' raw \<or> ''..'' \<in> set (path_parts raw) \<or> path_parts raw = [])
           (n @ '' contains unsafe path: '' @ repr_str raw)]) v)))"

definition provisioning_ids :: "string \<times> string list \<Rightarrow> unit res" where
  "provisioning_ids nv = checks (map (\<lambda>v. provisioning_text 4096 (fst nv, v)) (snd nv)
     @ [provisioning_when (\<not> no_dup (snd nv)) (fst nv @ '' entries must be unique'')])"

section \<open>Request\<close>

record credential_handle =
  hc_handle_id :: string
  hc_broker_id :: string
  hc_purpose :: string

definition handle_validate :: "credential_handle \<Rightarrow> unit res" where
  "handle_validate h = checks [provisioning_text 512 (''credential handle_id'', hc_handle_id h),
     provisioning_text 512 (''credential broker_id'', hc_broker_id h), provisioning_text 512 (''credential purpose'', hc_purpose h)]"

definition handle_json :: "credential_handle \<Rightarrow> json" where
  "handle_json h = JObj [(''handle_id'', JStr (hc_handle_id h)), (''broker_id'', JStr (hc_broker_id h)), (''purpose'', JStr (hc_purpose h))]"

record provider_trust =
  vt_provider_id :: string
  vt_provider_instance_id :: string
  vt_implementation_digest :: string
  vt_trust_anchor_id :: string
  vt_trust_anchor_digest :: string

definition provider_trust_validate :: "provider_trust \<Rightarrow> unit res" where
  "provider_trust_validate x = checks (map (provisioning_text 4096) [(''provider_id'', vt_provider_id x), (''provider_instance_id'', vt_provider_instance_id x), (''trust_anchor_id'', vt_trust_anchor_id x)]
     @ [provisioning_sha256 (''implementation_digest'', vt_implementation_digest x), provisioning_sha256 (''trust_anchor_digest'', vt_trust_anchor_digest x)])"

record provisioning_request =
  vq_schema_version :: string
  vq_request_id :: string
  vq_idempotency_key :: string
  vq_drone_id :: string
  vq_executor_id :: string
  vq_mission_id :: string
  vq_parent_mission_id :: string
  vq_repository :: string
  vq_baseline_sha :: string
  vq_baseline_tree_sha :: string
  vq_branch :: string
  vq_read_scope :: "string list"
  vq_write_scope :: "string list"
  vq_runtime_class :: string
  vq_image_digest :: string
  vq_sandbox_profile_digest :: string
  vq_resource_profile_digest :: string
  vq_credential_handles :: "credential_handle list"
  vq_requested_at :: string

text \<open>The repository fields that request, materialisation and receipt validate alike.\<close>

definition repository_checks :: "string \<Rightarrow> string \<Rightarrow> string \<Rightarrow> string \<Rightarrow> string list \<Rightarrow> string list \<Rightarrow> unit res list" where
  "repository_checks repository sha tree branch reads writes = [
     provisioning_when (\<not> provisioning_repo_pattern repository) ''repository must use owner/name form'',
     provisioning_sha40 (''baseline_sha'', sha), provisioning_sha40 (''baseline_tree_sha'', tree), provisioning_branch branch,
     provisioning_scope (''read_scope'', reads), provisioning_scope (''write_scope'', writes)]"

definition provisioning_request_validate :: "provisioning_request \<Rightarrow> unit res" where
  "provisioning_request_validate x = checks (
     [provisioning_when (vq_schema_version x \<noteq> ''1.0.0'') ''unsupported provisioning request schema_version'']
     @ map (provisioning_text 4096) [(''request_id'', vq_request_id x), (''idempotency_key'', vq_idempotency_key x), (''drone_id'', vq_drone_id x),
         (''executor_id'', vq_executor_id x), (''mission_id'', vq_mission_id x), (''parent_mission_id'', vq_parent_mission_id x),
         (''runtime_class'', vq_runtime_class x)]
     @ repository_checks (vq_repository x) (vq_baseline_sha x) (vq_baseline_tree_sha x) (vq_branch x) (vq_read_scope x) (vq_write_scope x)
     @ map provisioning_sha256 [(''image_digest'', vq_image_digest x), (''sandbox_profile_digest'', vq_sandbox_profile_digest x), (''resource_profile_digest'', vq_resource_profile_digest x)]
     @ map handle_validate (vq_credential_handles x)
     @ [provisioning_when (\<not> no_dup (map hc_handle_id (vq_credential_handles x))) ''credential handle ids must be unique'',
        provisioning_utc (''requested_at'', vq_requested_at x)])"

definition provisioning_request_json :: "provisioning_request \<Rightarrow> json" where
  "provisioning_request_json x = JObj [
     (''schema_version'', JStr (vq_schema_version x)), (''request_id'', JStr (vq_request_id x)),
     (''idempotency_key'', JStr (vq_idempotency_key x)), (''drone_id'', JStr (vq_drone_id x)),
     (''executor_id'', JStr (vq_executor_id x)), (''mission_id'', JStr (vq_mission_id x)),
     (''parent_mission_id'', JStr (vq_parent_mission_id x)), (''repository'', JStr (vq_repository x)),
     (''baseline_sha'', JStr (vq_baseline_sha x)), (''baseline_tree_sha'', JStr (vq_baseline_tree_sha x)),
     (''branch'', JStr (vq_branch x)), (''read_scope'', strs (vq_read_scope x)), (''write_scope'', strs (vq_write_scope x)),
     (''runtime_class'', JStr (vq_runtime_class x)), (''image_digest'', JStr (vq_image_digest x)),
     (''sandbox_profile_digest'', JStr (vq_sandbox_profile_digest x)),
     (''resource_profile_digest'', JStr (vq_resource_profile_digest x)),
     (''credential_handles'', JList (map handle_json (vq_credential_handles x))), (''requested_at'', JStr (vq_requested_at x))]"

definition provisioning_request_digest :: "provisioning_request \<Rightarrow> string" where
  "provisioning_request_digest x = sha256 (canon (provisioning_request_json x))"

section \<open>Materialisation\<close>

definition PROVISIONING_STATES :: "string list" where
  "PROVISIONING_STATES = [''READY'', ''FAILED'']"

record provisioning_materialization =
  vm_request_digest :: string
  vm_provider_id :: string
  vm_provider_instance_id :: string
  vm_runtime_instance_id :: string
  vm_sandbox_id :: string
  vm_workspace_id :: string
  vm_runtime_class :: string
  vm_image_digest :: string
  vm_sandbox_profile_digest :: string
  vm_resource_profile_digest :: string
  vm_repository :: string
  vm_baseline_sha :: string
  vm_baseline_tree_sha :: string
  vm_branch :: string
  vm_read_scope :: "string list"
  vm_write_scope :: "string list"
  vm_credential_handle_ids :: "string list"
  vm_state :: string
  vm_runtime_attestation_digest :: "string option"
  vm_evidence_ref :: string
  vm_failure_code :: "string option"
  vm_observed_at :: string

definition materialization_validate :: "provisioning_materialization \<Rightarrow> unit res" where
  "materialization_validate x = checks (
     [provisioning_sha256 (''request_digest'', vm_request_digest x)]
     @ map (provisioning_text 4096) [(''provider_id'', vm_provider_id x), (''provider_instance_id'', vm_provider_instance_id x), (''runtime_instance_id'', vm_runtime_instance_id x),
         (''sandbox_id'', vm_sandbox_id x), (''workspace_id'', vm_workspace_id x), (''runtime_class'', vm_runtime_class x),
         (''evidence_ref'', vm_evidence_ref x)]
     @ map provisioning_sha256 [(''image_digest'', vm_image_digest x), (''sandbox_profile_digest'', vm_sandbox_profile_digest x), (''resource_profile_digest'', vm_resource_profile_digest x)]
     @ repository_checks (vm_repository x) (vm_baseline_sha x) (vm_baseline_tree_sha x) (vm_branch x) (vm_read_scope x) (vm_write_scope x)
     @ [provisioning_ids (''credential_handle_ids'', vm_credential_handle_ids x),
        provisioning_when (vm_state x \<notin> set PROVISIONING_STATES) ''provisioning state is invalid'',
        (case vm_runtime_attestation_digest x of
           None \<Rightarrow> provisioning_when (vm_state x = ''READY'') ''READY materialization requires runtime attestation''
         | Some d \<Rightarrow> provisioning_sha256 (''runtime_attestation_digest'', d)),
        (case vm_failure_code x of
           None \<Rightarrow> provisioning_when (vm_state x \<noteq> ''READY'') ''FAILED materialization requires failure_code''
         | Some f \<Rightarrow> if vm_state x = ''READY'' then Inl (Exn ExecutorProvisioningContractError ''READY materialization cannot contain failure_code'')
             else provisioning_text 4096 (''failure_code'', f)),
        provisioning_utc (''observed_at'', vm_observed_at x)])"

section \<open>The provisioned executor\<close>

record provisioned_executor =
  vx_schema_version :: string
  vx_receipt_id :: string
  vx_request_id :: string
  vx_request_digest :: string
  vx_idempotency_key :: string
  vx_drone_id :: string
  vx_executor_id :: string
  vx_runtime_instance_id :: string
  vx_sandbox_id :: string
  vx_workspace_id :: string
  vx_mission_id :: string
  vx_parent_mission_id :: string
  vx_repository :: string
  vx_baseline_sha :: string
  vx_baseline_tree_sha :: string
  vx_branch :: string
  vx_read_scope :: "string list"
  vx_write_scope :: "string list"
  vx_runtime_class :: string
  vx_image_digest :: string
  vx_sandbox_profile_digest :: string
  vx_resource_profile_digest :: string
  vx_credential_handle_ids :: "string list"
  vx_provider_id :: string
  vx_provider_instance_id :: string
  vx_provider_implementation_digest :: string
  vx_provider_trust_anchor_id :: string
  vx_provider_trust_anchor_digest :: string
  vx_runtime_attestation_digest :: string
  vx_provider_evidence_ref :: string
  vx_provisioned_at :: string

definition provisioned_validate :: "provisioned_executor \<Rightarrow> unit res" where
  "provisioned_validate x = checks (
     [provisioning_when (vx_schema_version x \<noteq> ''1.0.0'') ''unsupported provisioned executor schema_version'']
     @ map (provisioning_text 4096) [(''receipt_id'', vx_receipt_id x), (''request_id'', vx_request_id x), (''idempotency_key'', vx_idempotency_key x),
         (''drone_id'', vx_drone_id x), (''executor_id'', vx_executor_id x), (''runtime_instance_id'', vx_runtime_instance_id x),
         (''sandbox_id'', vx_sandbox_id x), (''workspace_id'', vx_workspace_id x), (''mission_id'', vx_mission_id x),
         (''parent_mission_id'', vx_parent_mission_id x), (''runtime_class'', vx_runtime_class x), (''provider_id'', vx_provider_id x),
         (''provider_instance_id'', vx_provider_instance_id x), (''provider_trust_anchor_id'', vx_provider_trust_anchor_id x), (''provider_evidence_ref'', vx_provider_evidence_ref x)]
     @ repository_checks (vx_repository x) (vx_baseline_sha x) (vx_baseline_tree_sha x) (vx_branch x) (vx_read_scope x) (vx_write_scope x)
     @ [provisioning_ids (''credential_handle_ids'', vx_credential_handle_ids x)]
     @ map provisioning_sha256 [(''request_digest'', vx_request_digest x), (''image_digest'', vx_image_digest x), (''sandbox_profile_digest'', vx_sandbox_profile_digest x),
         (''resource_profile_digest'', vx_resource_profile_digest x), (''provider_implementation_digest'', vx_provider_implementation_digest x), (''provider_trust_anchor_digest'', vx_provider_trust_anchor_digest x),
         (''runtime_attestation_digest'', vx_runtime_attestation_digest x)]
     @ [provisioning_utc (''provisioned_at'', vx_provisioned_at x)])"

definition provisioned_json :: "provisioned_executor \<Rightarrow> json" where
  "provisioned_json x = JObj [
     (''schema_version'', JStr (vx_schema_version x)), (''receipt_id'', JStr (vx_receipt_id x)),
     (''request_id'', JStr (vx_request_id x)), (''request_digest'', JStr (vx_request_digest x)),
     (''idempotency_key'', JStr (vx_idempotency_key x)), (''drone_id'', JStr (vx_drone_id x)),
     (''executor_id'', JStr (vx_executor_id x)), (''runtime_instance_id'', JStr (vx_runtime_instance_id x)),
     (''sandbox_id'', JStr (vx_sandbox_id x)), (''workspace_id'', JStr (vx_workspace_id x)), (''mission_id'', JStr (vx_mission_id x)),
     (''parent_mission_id'', JStr (vx_parent_mission_id x)), (''repository'', JStr (vx_repository x)),
     (''baseline_sha'', JStr (vx_baseline_sha x)), (''baseline_tree_sha'', JStr (vx_baseline_tree_sha x)),
     (''branch'', JStr (vx_branch x)), (''read_scope'', strs (vx_read_scope x)), (''write_scope'', strs (vx_write_scope x)),
     (''runtime_class'', JStr (vx_runtime_class x)), (''image_digest'', JStr (vx_image_digest x)),
     (''sandbox_profile_digest'', JStr (vx_sandbox_profile_digest x)),
     (''resource_profile_digest'', JStr (vx_resource_profile_digest x)),
     (''credential_handle_ids'', strs (vx_credential_handle_ids x)), (''provider_id'', JStr (vx_provider_id x)),
     (''provider_instance_id'', JStr (vx_provider_instance_id x)),
     (''provider_implementation_digest'', JStr (vx_provider_implementation_digest x)),
     (''provider_trust_anchor_id'', JStr (vx_provider_trust_anchor_id x)),
     (''provider_trust_anchor_digest'', JStr (vx_provider_trust_anchor_digest x)),
     (''runtime_attestation_digest'', JStr (vx_runtime_attestation_digest x)),
     (''provider_evidence_ref'', JStr (vx_provider_evidence_ref x)), (''provisioned_at'', JStr (vx_provisioned_at x))]"

definition provisioned_digest :: "provisioned_executor \<Rightarrow> string" where
  "provisioned_digest x = sha256 (canon (provisioned_json x))"

text \<open>The fields a receipt has to share with its request.\<close>

definition binds_request :: "provisioned_executor \<Rightarrow> provisioning_request \<Rightarrow> bool" where
  "binds_request x q \<longleftrightarrow>
     (vx_request_id x, vx_idempotency_key x, vx_drone_id x, vx_executor_id x, vx_mission_id x, vx_parent_mission_id x)
       = (vq_request_id q, vq_idempotency_key q, vq_drone_id q, vq_executor_id q, vq_mission_id q, vq_parent_mission_id q)
     \<and> (vx_repository x, vx_baseline_sha x, vx_baseline_tree_sha x, vx_branch x, vx_read_scope x, vx_write_scope x)
       = (vq_repository q, vq_baseline_sha q, vq_baseline_tree_sha q, vq_branch q, vq_read_scope q, vq_write_scope q)
     \<and> (vx_runtime_class x, vx_image_digest x, vx_sandbox_profile_digest x, vx_resource_profile_digest x, vx_credential_handle_ids x)
       = (vq_runtime_class q, vq_image_digest q, vq_sandbox_profile_digest q, vq_resource_profile_digest q,
          map hc_handle_id (vq_credential_handles q))"

definition provisioned_validate_for :: "provisioned_executor \<Rightarrow> provisioning_request \<Rightarrow> provider_trust \<Rightarrow> unit res" where
  "provisioned_validate_for x q t = checks [provisioned_validate x, provisioning_request_validate q, provider_trust_validate t,
     provisioning_when (vx_request_digest x \<noteq> provisioning_request_digest q) ''receipt request digest mismatch'',
     provisioning_when (\<not> binds_request x q) ''receipt does not bind exact provisioning request'',
     provisioning_when ((vx_provider_id x, vx_provider_instance_id x, vx_provider_implementation_digest x, vx_provider_trust_anchor_id x,
         vx_provider_trust_anchor_digest x)
       \<noteq> (vt_provider_id t, vt_provider_instance_id t, vt_implementation_digest t, vt_trust_anchor_id t, vt_trust_anchor_digest t))
       ''receipt provider trust binding mismatch'']"

end
