(* ===== verification/Live_Authority.thy ===== *)
theory Live_Authority
  imports Persistent_Authority Authority_Source
begin

text \<open>
  enterprise/live_authority_admission.py: a lineage from the authority source is admitted against the durable epoch,
  revocation and root state, and a receipt of the admission can be revalidated and finalised later.

  The source and the database may change while a method runs. A method reads them twice, before and after the signatures
  are checked; each reading (\<open>live_reads\<close>) has the backend, the database when the epoch is read and the database when the
  root anchor is read, and the database at the final write is the argument of the operation. The trusted time is a UTC time.
\<close>

section \<open>Receipts\<close>

abbreviation live_error :: "string \<Rightarrow> exn" where
  "live_error m \<equiv> Exn LiveAuthorityAdmissionError m"

abbreviation live_when :: "bool \<Rightarrow> string \<Rightarrow> unit res" where
  "live_when b m \<equiv> raise_when b LiveAuthorityAdmissionError m"

definition live_sha256 :: "string \<Rightarrow> string \<Rightarrow> unit res" where
  "live_sha256 v name = checks [live_when (length v \<noteq> 64) (name @ '' is invalid''), live_when (\<not> int16_ok v) (name @ '' is invalid''),
     live_when (list_ex py_upper v) (name @ '' is invalid'')]"

definition live_text :: "string \<times> string \<Rightarrow> unit res" where
  "live_text nv = live_when (text_invalid 512 (snd nv)) (fst nv @ '' is invalid'')"

definition receipt_utc :: "string \<Rightarrow> int res" where
  "receipt_utc = parse_utc (live_error ''admitted_at is invalid'') (live_error ''admitted_at must be timezone-aware'')"

text \<open>The fields that the receipts for a pull request and for a repository ref share.\<close>

record live_receipt =
  lv_repository :: string
  lv_mission_id :: string
  lv_grant_id :: string
  lv_lineage_digest :: string
  lv_provenance_id :: string
  lv_epoch :: int
  lv_epoch_state_version :: int
  lv_authority_ceiling :: string
  lv_root_grant_id :: string
  lv_root_grant_digest :: string
  lv_authenticated_grant_digests :: "string list"
  lv_leaf_key_id :: string
  lv_leaf_algorithm :: string
  lv_replay_digest :: string
  lv_admitted_at :: string

record live_authority = live_receipt +
  la_pr_number :: int
  la_base_sha :: string
  la_head_sha :: string

record live_ref_authority = live_receipt +
  lz_branch :: string
  lz_expected_head :: string
  lz_protected_master_sha :: string

definition receipt_texts :: "'a live_receipt_scheme \<Rightarrow> (string \<times> string) list" where
  "receipt_texts a = [(''mission_id'', lv_mission_id a), (''grant_id'', lv_grant_id a), (''provenance_id'', lv_provenance_id a),
     (''authority_ceiling'', lv_authority_ceiling a), (''root_grant_id'', lv_root_grant_id a), (''leaf_key_id'', lv_leaf_key_id a),
     (''leaf_algorithm'', lv_leaf_algorithm a), (''admitted_at'', lv_admitted_at a)]"

definition receipt_state_checks :: "'a live_receipt_scheme \<Rightarrow> unit res list" where
  "receipt_state_checks a = [
     live_when (lv_epoch a < 0) ''epoch is invalid'',
     live_when (lv_epoch_state_version a < 1) ''epoch_state_version is invalid'',
     live_sha256 (lv_lineage_digest a) ''lineage_digest'', live_sha256 (lv_root_grant_digest a) ''root_grant_digest'',
     live_sha256 (lv_replay_digest a) ''replay_digest'',
     live_when (lv_authenticated_grant_digests a = []) ''authenticated_grant_digests are invalid'']
   @ map (\<lambda>d. live_sha256 d ''authenticated_grant_digest'') (lv_authenticated_grant_digests a)
   @ [and_then (receipt_utc (lv_admitted_at a)) (\<lambda>_. Inr ())]"

definition live_validate :: "live_authority \<Rightarrow> unit res" where
  "live_validate a = checks (map live_text ([(''repository'', lv_repository a), (''base_sha'', la_base_sha a), (''head_sha'', la_head_sha a)]
       @ receipt_texts a)
     @ [live_when (la_pr_number a \<le> 0) ''pr_number is invalid''] @ receipt_state_checks a)"

definition ref_key_of :: "live_ref_authority \<Rightarrow> ref_lookup_key" where
  "ref_key_of a = \<lparr>rk_repository = lv_repository a, rk_branch = lz_branch a, rk_expected_head = lz_expected_head a,
     rk_protected_master_sha = lz_protected_master_sha a, rk_mission_id = lv_mission_id a, rk_grant_id = lv_grant_id a\<rparr>"

definition live_ref_validate :: "live_ref_authority \<Rightarrow> unit res" where
  "live_ref_validate a = checks (map live_text ([(''repository'', lv_repository a), (''branch'', lz_branch a),
       (''expected_head'', lz_expected_head a), (''protected_master_sha'', lz_protected_master_sha a)] @ receipt_texts a)
     @ receipt_state_checks a @ [ref_lookup_key_validate (ref_key_of a)])"

definition receipt_fields :: "'a live_receipt_scheme \<Rightarrow> (string \<times> json) list" where
  "receipt_fields a = [
     (''admitted_at'', JStr (lv_admitted_at a)), (''authenticated_grant_digests'', strs (lv_authenticated_grant_digests a)),
     (''authority_ceiling'', JStr (lv_authority_ceiling a)), (''epoch'', JInt (lv_epoch a)),
     (''epoch_state_version'', JInt (lv_epoch_state_version a)), (''grant_id'', JStr (lv_grant_id a)),
     (''leaf_algorithm'', JStr (lv_leaf_algorithm a)), (''leaf_key_id'', JStr (lv_leaf_key_id a)),
     (''lineage_digest'', JStr (lv_lineage_digest a)), (''mission_id'', JStr (lv_mission_id a)),
     (''provenance_id'', JStr (lv_provenance_id a)), (''replay_digest'', JStr (lv_replay_digest a)),
     (''repository'', JStr (lv_repository a)), (''root_grant_digest'', JStr (lv_root_grant_digest a)),
     (''root_grant_id'', JStr (lv_root_grant_id a))]"

definition live_json :: "live_authority \<Rightarrow> json" where
  "live_json a = JObj (receipt_fields a @ [(''base_sha'', JStr (la_base_sha a)), (''head_sha'', JStr (la_head_sha a)),
     (''pr_number'', JInt (la_pr_number a))])"

definition live_ref_json :: "live_ref_authority \<Rightarrow> json" where
  "live_ref_json a = JObj (receipt_fields a @ [(''branch'', JStr (lz_branch a)), (''expected_head'', JStr (lz_expected_head a)),
     (''protected_master_sha'', JStr (lz_protected_master_sha a))])"

definition live_digest :: "live_authority \<Rightarrow> string res" where
  "live_digest a = and_then (live_validate a) (\<lambda>_. Inr (sha256 (canon_ascii (live_json a))))"

definition live_ref_digest :: "live_ref_authority \<Rightarrow> string res" where
  "live_ref_digest a = and_then (live_ref_validate a) (\<lambda>_. Inr (sha256 (canon_ascii (live_ref_json a))))"

definition leaf_grant_digest :: "live_authority \<Rightarrow> string res" where
  "leaf_grant_digest a = and_then (live_validate a) (\<lambda>_. Inr (last (lv_authenticated_grant_digests a)))"

definition ref_leaf_grant_digest :: "live_ref_authority \<Rightarrow> string res" where
  "ref_leaf_grant_digest a = and_then (live_ref_validate a) (\<lambda>_. Inr (last (lv_authenticated_grant_digests a)))"

section \<open>The admission service\<close>

record live_config =
  lf_context :: verification_context
  lf_issuer_keys :: "issuer_key_binding list"
  lf_verifier :: verifier
  lf_replay_domain :: string

definition live_init :: "live_config \<Rightarrow> unit res" where
  "live_init cfg = checks (context_validate (lf_context cfg)
     # live_when (lf_issuer_keys cfg = []) ''issuer_keys must be a non-empty tuple'' # map binding_validate (lf_issuer_keys cfg))"

definition context_key :: "live_config \<Rightarrow> authority_context" where
  "context_key cfg = (vc_trust_domain (lf_context cfg), vc_tenant_id (lf_context cfg), vc_organization_id (lf_context cfg),
     vc_mission_id (lf_context cfg))"

text \<open>The backend of the source, what one reading sees, and a lineage record of either kind as the later steps use it.\<close>

record authority_backend =
  be_lookup_exact :: "lookup_key \<Rightarrow> lineage_record list res"
  be_lookup_repository_ref_exact :: "ref_lookup_key \<Rightarrow> ref_lineage_record list res"

record live_reads =
  rd_backend :: authority_backend
  rd_epoch_store :: durable_store
  rd_root_store :: durable_store

record 'k lineage_view =
  vw_key :: 'k
  vw_lineage :: "authority_grant list"
  vw_lineage_digest :: string
  vw_provenance_id :: string

type_synonym 'k live_state = "'k lineage_view \<times> epoch_snapshot \<times> durable_root"

definition durable_view :: "live_config \<Rightarrow> live_reads \<Rightarrow> (epoch_snapshot \<times> durable_root) res" where
  "durable_view cfg rd = and_then (current_epoch (context_key cfg) (rd_epoch_store rd)) (\<lambda>st.
     and_then (resolve_root (context_key cfg) (pe_epoch st) (rd_root_store rd)) (\<lambda>root. Inr (st, root)))"

definition live_snapshot ::
  "live_config \<Rightarrow> lookup_key \<Rightarrow> live_reads \<Rightarrow> lookup_key live_state res" where
  "live_snapshot cfg key rd = and_then (wrap_errors (\<lambda>_. True) (live_error ''canonical authority state unavailable'')
       (and_then (resolve_exact (be_lookup_exact (rd_backend rd)) key) (\<lambda>r. and_then (durable_view cfg rd) (\<lambda>d. Inr (r, d))))) (\<lambda>(r, d).
     and_then (lineage_record_validate r) (\<lambda>_. Inr (\<lparr>vw_key = lr_lookup_key r, vw_lineage = lr_lineage r,
       vw_lineage_digest = lr_lineage_digest r, vw_provenance_id = lr_provenance_id r\<rparr>, d)))"

definition live_snapshot_repository_ref ::
  "live_config \<Rightarrow> ref_lookup_key \<Rightarrow> live_reads \<Rightarrow> ref_lookup_key live_state res" where
  "live_snapshot_repository_ref cfg key rd = and_then
       (wrap_errors (\<lambda>_. True) (live_error ''canonical repository-ref authority state unavailable'')
       (and_then (resolve_repository_ref_exact (be_lookup_repository_ref_exact (rd_backend rd)) key) (\<lambda>r. and_then (durable_view cfg rd) (\<lambda>d. Inr (r, d))))) (\<lambda>(r, d).
     and_then (ref_lineage_record_validate r) (\<lambda>_. Inr (\<lparr>vw_key = rr_lookup_key r, vw_lineage = rr_lineage r,
       vw_lineage_digest = rr_lineage_digest r, vw_provenance_id = rr_provenance_id r\<rparr>, d)))"

definition live_grant_utc :: "string \<Rightarrow> int res" where
  "live_grant_utc = parse_utc (live_error ''grant timestamp is invalid'') (live_error ''grant timestamp must be timezone-aware'')"

text \<open>The loop over the lineage; \<open>previous\<close> is the grant before the current one.\<close>

definition live_grant :: "live_config \<Rightarrow> epoch_snapshot \<Rightarrow> int \<Rightarrow> authority_grant option \<Rightarrow> authority_grant \<Rightarrow> authenticated_grant res" where
  "live_grant cfg st now previous g = and_then (checks [
       wrap_errors is_grant_error (live_error ''grant contract is invalid'') (grant_validate g),
       live_when (ag_epoch g \<noteq> pe_epoch st) ''grant epoch is stale or future'',
       live_when (ag_grant_id g \<in> set (pe_revoked_grant_ids st)) ''grant is revoked'']) (\<lambda>_.
     and_then (live_grant_utc (ag_issued_at g)) (\<lambda>issued. and_then (live_grant_utc (ag_expires_at g)) (\<lambda>expires.
     and_then (checks [
       live_when (now < issued) ''grant is not yet current'',
       live_when (expires \<le> now) ''grant is expired'',
       (case previous of None \<Rightarrow> Inr ()
        | Some p \<Rightarrow> wrap_errors is_grant_error (live_error ''authority attenuation failed'') (validate_attenuation p g))]) (\<lambda>_.
     wrap_errors (\<lambda>_. True) (live_error ''authority signature authentication failed'')
       (authenticate_authority_grant g (Some (lf_issuer_keys cfg)) (lf_verifier cfg) (lf_context cfg))))))"

fun authenticate_live_lineage ::
  "live_config \<Rightarrow> epoch_snapshot \<Rightarrow> int \<Rightarrow> authority_grant option \<Rightarrow> authority_grant list \<Rightarrow> authenticated_grant list res" where
  "authenticate_live_lineage cfg st now previous [] = Inr []"
| "authenticate_live_lineage cfg st now previous (g # gs) = and_then (live_grant cfg st now previous g) (\<lambda>a.
     and_then (authenticate_live_lineage cfg st now (Some g) gs) (\<lambda>as. Inr (a # as)))"

definition authenticate_record :: "live_config \<Rightarrow> int \<Rightarrow> 'k live_state \<Rightarrow> authenticated_grant list res" where
  "authenticate_record cfg now x = (case x of (v, st, root) \<Rightarrow> case vw_lineage v of
     [] \<Rightarrow> Inl (live_error ''authority lineage is empty'')
   | g # _ \<Rightarrow> and_then (if pr_root_grant_id root \<noteq> ag_grant_id g then Inl (live_error ''canonical root anchor mismatch'')
         else and_then (grant_digest g) (\<lambda>d. live_when (pr_root_grant_digest root \<noteq> d) ''canonical root anchor mismatch''))
       (\<lambda>_. authenticate_live_lineage cfg st now None (vw_lineage v)))"

definition same_snapshot :: "'k live_state \<Rightarrow> 'k live_state \<Rightarrow> bool" where
  "same_snapshot x y = (case (x, y) of ((v, st, root), (v', st', root')) \<Rightarrow>
     vw_key v = vw_key v' \<and> vw_lineage_digest v = vw_lineage_digest v' \<and> vw_provenance_id v = vw_provenance_id v'
     \<and> map grant_digest (vw_lineage v) = map grant_digest (vw_lineage v') \<and> st = st' \<and> root = root')"

text \<open>The common part of the four methods: two readings around the authentication of the lineage.\<close>

definition live_lineage ::
  "live_config \<Rightarrow> int \<Rightarrow> string \<Rightarrow> 'k live_state res \<Rightarrow> 'k live_state res \<Rightarrow> ('k live_state \<times> authenticated_grant list) res" where
  "live_lineage cfg now changed before after = and_then before (\<lambda>x. and_then (authenticate_record cfg now x) (\<lambda>as.
     and_then after (\<lambda>y. and_then (live_when (\<not> same_snapshot x y) changed) (\<lambda>_. Inr (x, as)))))"

definition live_consume :: "live_config \<Rightarrow> string \<Rightarrow> string \<Rightarrow> (durable_store, unit) op" where
  "live_consume cfg digest at s = (case replay_guard_consume (lf_replay_domain cfg) digest at s of
     (Inl (Exn c m), s') \<Rightarrow> (Inl (if c = PersistentAuthorityStateError then live_error ''durable replay state unavailable'' else Exn c m), s')
   | (Inr accepted, s') \<Rightarrow> (live_when (\<not> accepted) ''authority admission replay rejected'', s'))"

definition replay_material :: "lookup_key \<Rightarrow> string \<Rightarrow> lookup_key live_state \<Rightarrow> string" where
  "replay_material key nonce x = (case x of (v, st, root) \<Rightarrow> utf8 (join [nul] [vw_lineage_digest v, ag_grant_id (last (vw_lineage v)),
     lk_repository key, int_text (lk_pr_number key), lk_base_sha key, lk_head_sha key, lk_mission_id key, int_text (pe_epoch st),
     int_text (pe_version st), nonce]))"

definition ref_replay_material :: "ref_lookup_key \<Rightarrow> string \<Rightarrow> ref_lookup_key live_state \<Rightarrow> string" where
  "ref_replay_material key nonce x = (case x of (v, st, root) \<Rightarrow> utf8 (join [nul] [vw_lineage_digest v, ag_grant_id (last (vw_lineage v)),
     rk_repository key, rk_branch key, rk_expected_head key, rk_protected_master_sha key, rk_mission_id key, int_text (pe_epoch st),
     int_text (pe_version st), nonce]))"

definition live_authority_of :: "lookup_key \<Rightarrow> lookup_key live_state \<Rightarrow> authenticated_grant list \<Rightarrow> string \<Rightarrow> utc_time \<Rightarrow> live_authority" where
  "live_authority_of key x as replay now = (case x of (v, st, root) \<Rightarrow> \<lparr>lv_repository = lk_repository key,
     lv_mission_id = lk_mission_id key, lv_grant_id = ag_grant_id (last (vw_lineage v)), lv_lineage_digest = vw_lineage_digest v,
     lv_provenance_id = vw_provenance_id v, lv_epoch = pe_epoch st, lv_epoch_state_version = pe_version st,
     lv_authority_ceiling = ag_authority_ceiling (last (vw_lineage v)), lv_root_grant_id = pr_root_grant_id root,
     lv_root_grant_digest = pr_root_grant_digest root, lv_authenticated_grant_digests = map au_grant_digest as,
     lv_leaf_key_id = au_key_id (last as), lv_leaf_algorithm = au_algorithm (last as), lv_replay_digest = replay,
     lv_admitted_at = utc_text now, la_pr_number = lk_pr_number key, la_base_sha = lk_base_sha key, la_head_sha = lk_head_sha key\<rparr>)"

definition live_ref_authority_of ::
  "ref_lookup_key \<Rightarrow> ref_lookup_key live_state \<Rightarrow> authenticated_grant list \<Rightarrow> string \<Rightarrow> utc_time \<Rightarrow> live_ref_authority" where
  "live_ref_authority_of key x as replay now = (case x of (v, st, root) \<Rightarrow> \<lparr>lv_repository = rk_repository key,
     lv_mission_id = rk_mission_id key, lv_grant_id = ag_grant_id (last (vw_lineage v)), lv_lineage_digest = vw_lineage_digest v,
     lv_provenance_id = vw_provenance_id v, lv_epoch = pe_epoch st, lv_epoch_state_version = pe_version st,
     lv_authority_ceiling = ag_authority_ceiling (last (vw_lineage v)), lv_root_grant_id = pr_root_grant_id root,
     lv_root_grant_digest = pr_root_grant_digest root, lv_authenticated_grant_digests = map au_grant_digest as,
     lv_leaf_key_id = au_key_id (last as), lv_leaf_algorithm = au_algorithm (last as), lv_replay_digest = replay,
     lv_admitted_at = utc_text now, lz_branch = rk_branch key, lz_expected_head = rk_expected_head key,
     lz_protected_master_sha = rk_protected_master_sha key\<rparr>)"

text \<open>The receipt is validated after its replay key is consumed.\<close>

definition admit_live ::
  "live_config \<Rightarrow> lookup_key \<Rightarrow> utc_time \<Rightarrow> string \<Rightarrow> live_reads \<Rightarrow> live_reads \<Rightarrow> (durable_store, live_authority) op" where
  "admit_live cfg key now nonce before after s = (case and_then (checks [
       live_when (lk_mission_id key \<noteq> vc_mission_id (lf_context cfg)) ''mission does not match trusted authority context'',
       live_when (blank nonce) ''replay_nonce is required'']) (\<lambda>_.
       live_lineage cfg (instant now) ''authority state changed during authentication'' (live_snapshot cfg key before) (live_snapshot cfg key after)) of
     Inl e \<Rightarrow> (Inl e, s)
   | Inr (x, as) \<Rightarrow> (let replay = sha256 (replay_material key nonce x); a = live_authority_of key x as replay now in
       case live_consume cfg replay (utc_text now) s of
         (Inl e, s') \<Rightarrow> (Inl e, s')
       | (Inr _, s') \<Rightarrow> (and_then (live_validate a) (\<lambda>_. Inr a), s')))"

definition admit_live_repository_ref ::
  "live_config \<Rightarrow> ref_lookup_key \<Rightarrow> utc_time \<Rightarrow> string \<Rightarrow> live_reads \<Rightarrow> live_reads \<Rightarrow> (durable_store, live_ref_authority) op" where
  "admit_live_repository_ref cfg key now nonce before after s = (case and_then (checks [
       ref_lookup_key_validate key,
       live_when (rk_mission_id key \<noteq> vc_mission_id (lf_context cfg)) ''mission does not match trusted authority context'',
       live_when (blank nonce) ''replay_nonce is required'']) (\<lambda>_.
       live_lineage cfg (instant now) ''authority state changed during authentication'' (live_snapshot_repository_ref cfg key before)
         (live_snapshot_repository_ref cfg key after)) of
     Inl e \<Rightarrow> (Inl e, s)
   | Inr (x, as) \<Rightarrow> (let replay = sha256 (ref_replay_material key nonce x); a = live_ref_authority_of key x as replay now in
       case live_consume cfg replay (utc_text now) s of
         (Inl e, s') \<Rightarrow> (Inl e, s')
       | (Inr _, s') \<Rightarrow> (and_then (live_ref_validate a) (\<lambda>_. Inr a), s')))"

section \<open>Revalidation and finalisation\<close>

definition receipt_current :: "'a live_receipt_scheme \<Rightarrow> 'k live_state \<times> authenticated_grant list \<Rightarrow> bool" where
  "receipt_current a y = (case y of ((v, st, root), as) \<Rightarrow>
     (lv_lineage_digest a, lv_provenance_id a, lv_epoch a, lv_epoch_state_version a, lv_authority_ceiling a)
       = (vw_lineage_digest v, vw_provenance_id v, pe_epoch st, pe_version st, ag_authority_ceiling (last (vw_lineage v)))
     \<and> (lv_root_grant_id a, lv_root_grant_digest a, lv_authenticated_grant_digests a, lv_leaf_key_id a, lv_leaf_algorithm a)
       = (pr_root_grant_id root, pr_root_grant_digest root, map au_grant_digest as, au_key_id (last as), au_algorithm (last as)))"

definition key_of :: "live_authority \<Rightarrow> lookup_key" where
  "key_of a = \<lparr>lk_repository = lv_repository a, lk_pr_number = la_pr_number a, lk_base_sha = la_base_sha a, lk_head_sha = la_head_sha a,
     lk_mission_id = lv_mission_id a, lk_grant_id = lv_grant_id a\<rparr>"

definition revalidate ::
  "live_config \<Rightarrow> live_authority \<Rightarrow> utc_time \<Rightarrow> live_reads \<Rightarrow> live_reads \<Rightarrow> live_authority res" where
  "revalidate cfg a now before after = and_then (checks [live_validate a,
       live_when (lv_mission_id a \<noteq> vc_mission_id (lf_context cfg)) ''admission receipt mission mismatch'']) (\<lambda>_.
     and_then (live_lineage cfg (instant now) ''authority state changed during revalidation'' (live_snapshot cfg (key_of a) before)
       (live_snapshot cfg (key_of a) after)) (\<lambda>y.
     and_then (live_when (\<not> receipt_current a y) ''live admission receipt is stale or forged'') (\<lambda>_. Inr a)))"

definition revalidate_repository_ref ::
  "live_config \<Rightarrow> live_ref_authority \<Rightarrow> utc_time \<Rightarrow> live_reads \<Rightarrow> live_reads \<Rightarrow> live_ref_authority res" where
  "revalidate_repository_ref cfg a now before after = and_then (checks [live_ref_validate a,
       live_when (lv_mission_id a \<noteq> vc_mission_id (lf_context cfg)) ''admission receipt mission mismatch'',
       ref_lookup_key_validate (ref_key_of a)]) (\<lambda>_.
     and_then (live_lineage cfg (instant now) ''authority state changed during revalidation'' (live_snapshot_repository_ref cfg (ref_key_of a) before)
       (live_snapshot_repository_ref cfg (ref_key_of a) after)) (\<lambda>y.
     and_then (live_when (\<not> receipt_current a y) ''live admission receipt is stale or forged'') (\<lambda>_. Inr a)))"

definition finalization_call :: "live_config \<Rightarrow> live_authority \<Rightarrow> string \<Rightarrow> string \<Rightarrow> string \<Rightarrow> utc_time \<Rightarrow> finalization_request" where
  "finalization_call cfg a digest evidence nonce now = \<lparr>fq_context = context_key cfg, fq_expected_epoch = lv_epoch a,
     fq_expected_state_version = lv_epoch_state_version a, fq_grant_id = lv_grant_id a, fq_expected_root_grant_id = lv_root_grant_id a,
     fq_expected_root_grant_digest = lv_root_grant_digest a, fq_live_admission_digest = digest, fq_runtime_evidence_digest = evidence,
     fq_binding_nonce = nonce, fq_finalized_at = utc_text now\<rparr>"

definition finalize_live ::
  "live_config \<Rightarrow> live_authority \<Rightarrow> string \<Rightarrow> string \<Rightarrow> utc_time \<Rightarrow> live_reads \<Rightarrow> live_reads \<Rightarrow> (durable_store, binding_finalization) op" where
  "finalize_live cfg a evidence nonce now before after s = (case and_then (checks [
       live_sha256 evidence ''runtime_evidence_digest'', live_text (''binding_nonce'', nonce)]) (\<lambda>_.
       and_then (revalidate cfg a now before after) live_digest) of
     Inl e \<Rightarrow> (Inl e, s)
   | Inr digest \<Rightarrow> (case finalize_binding (finalization_call cfg a digest evidence nonce now) s of
       (Inl (Exn c m), s') \<Rightarrow> (Inl (if c = PersistentAuthorityStateError then live_error ''binding finalization failed closed'' else Exn c m), s')
     | (Inr f, s') \<Rightarrow> (Inr f, s')))"

end
