(* ===== verification/Policy_Gate.thy ===== *)
theory Policy_Gate
  imports Live_Authority Enterprise_Models
begin

text \<open>
  contracts/policy_gate.py and enterprise/policy_gate.py: policy revisions, gate requests, decisions and receipts, and the
  policy decision point, which admits live authority, asks the execution gate and answers a repeated request from memory.

  The digests of the enterprise graph and of the status projection come from other modules and are arguments
  (\<open>_graph_digest\<close> and \<open>_status_digest\<close> with their exceptions). Records returned by a resolution are valid, so their second
  validation has no branch.
\<close>

section \<open>Contracts\<close>

abbreviation gate_contract_when :: "bool \<Rightarrow> string \<Rightarrow> unit res" where
  "gate_contract_when b m \<equiv> raise_when b PolicyGateContractError m"

definition LANES :: "string list" where
  "LANES = [''GREEN'', ''AMBER'', ''RED'']"

definition OBSERVABILITY_STATES :: "string list" where
  "OBSERVABILITY_STATES = [''HEALTHY'', ''DEGRADED'', ''LOST'']"

definition DECISIONS :: "string list" where
  "DECISIONS = [''ALLOW'', ''DENY'']"

definition gate_text :: "string \<times> string \<Rightarrow> unit res" where
  "gate_text nv = gate_contract_when (blank (snd nv)) (fst nv @ '' required'')"

definition gate_hex :: "string \<Rightarrow> string \<times> string \<Rightarrow> unit res" where
  "gate_hex suffix nv = gate_contract_when (\<not> is_hex 64 (snd nv)) (fst nv @ suffix)"

record policy_revision =
  pl_policy_id :: string
  pl_revision :: string
  pl_content_digest :: string
  pl_lane :: string
  pl_active :: bool
  pl_schema_version :: string

definition policy_validate :: "policy_revision \<Rightarrow> unit res" where
  "policy_validate p = checks [
     gate_contract_when (pl_schema_version p \<noteq> ''1.0.0'') ''unsupported policy schema'',
     gate_text (''policy_id'', pl_policy_id p), gate_text (''revision'', pl_revision p),
     gate_contract_when (\<not> is_sha256_ref (pl_content_digest p)) ''content_digest must be sha256:<hex>'',
     gate_contract_when (pl_lane p \<notin> set LANES) ''invalid lane'']"

definition policy_binding :: "policy_revision \<Rightarrow> string" where
  "policy_binding p = pl_policy_id p @ ''@'' @ pl_revision p @ '':'' @ pl_content_digest p"

record gate_requested =
  gq_request_id :: string
  gq_proposal_id :: string
  gq_policy_binding :: string
  gq_authority_lineage_digest :: string
  gq_enterprise_graph_digest :: string
  gq_status_digest :: string
  gq_observability_state :: string
  gq_lane :: string
  gq_requested_authority :: string
  gq_evidence_refs :: "string list"
  gq_request_digest :: string
  gq_schema_version :: string

definition requested_digest :: "gate_requested \<Rightarrow> string" where
  "requested_digest q = sha256 (canon (JObj [
     (''request_id'', JStr (gq_request_id q)), (''proposal_id'', JStr (gq_proposal_id q)), (''policy_binding'', JStr (gq_policy_binding q)),
     (''authority_lineage_digest'', JStr (gq_authority_lineage_digest q)), (''enterprise_graph_digest'', JStr (gq_enterprise_graph_digest q)),
     (''status_digest'', JStr (gq_status_digest q)), (''observability_state'', JStr (gq_observability_state q)), (''lane'', JStr (gq_lane q)),
     (''requested_authority'', JStr (gq_requested_authority q)), (''evidence_refs'', strs (gq_evidence_refs q)),
     (''schema_version'', JStr (gq_schema_version q))]))"

definition requested_validate :: "gate_requested \<Rightarrow> unit res" where
  "requested_validate q = checks ([gate_contract_when (gq_schema_version q \<noteq> ''1.0.0'') ''unsupported GateRequested schema'']
     @ map gate_text [(''request_id'', gq_request_id q), (''proposal_id'', gq_proposal_id q), (''policy_binding'', gq_policy_binding q),
         (''requested_authority'', gq_requested_authority q)]
     @ map (gate_hex '' must be canonical sha256 hex'') [(''authority_lineage_digest'', gq_authority_lineage_digest q),
         (''enterprise_graph_digest'', gq_enterprise_graph_digest q), (''status_digest'', gq_status_digest q)]
     @ [gate_contract_when (gq_observability_state q \<notin> set OBSERVABILITY_STATES) ''invalid observability_state'',
        gate_contract_when (gq_lane q \<notin> set LANES) ''invalid lane'',
        gate_contract_when (gq_evidence_refs q = [] \<or> \<not> no_dup (gq_evidence_refs q)) ''unique evidence_refs required'',
        gate_contract_when (gq_request_digest q \<noteq> [] \<and> gq_request_digest q \<noteq> requested_digest q) ''request_digest mismatch''])"

definition requested_sealed :: "gate_requested \<Rightarrow> gate_requested res" where
  "requested_sealed q = and_then (requested_validate q) (\<lambda>_. Inr (q\<lparr>gq_request_digest := requested_digest q\<rparr>))"

record gate_applied =
  gz_gate_event_id :: string
  gz_request_id :: string
  gz_proposal_id :: string
  gz_decision :: string
  gz_effective_authority :: string
  gz_policy_binding :: string
  gz_authority_lineage_digest :: string
  gz_enterprise_graph_digest :: string
  gz_status_digest :: string
  gz_observability_state :: string
  gz_lane :: string
  gz_rationale :: string
  gz_decision_digest :: string
  gz_schema_version :: string

definition applied_digest :: "gate_applied \<Rightarrow> string" where
  "applied_digest z = sha256 (canon (JObj [
     (''gate_event_id'', JStr (gz_gate_event_id z)), (''request_id'', JStr (gz_request_id z)), (''proposal_id'', JStr (gz_proposal_id z)),
     (''decision'', JStr (gz_decision z)), (''effective_authority'', JStr (gz_effective_authority z)),
     (''policy_binding'', JStr (gz_policy_binding z)), (''authority_lineage_digest'', JStr (gz_authority_lineage_digest z)),
     (''enterprise_graph_digest'', JStr (gz_enterprise_graph_digest z)), (''status_digest'', JStr (gz_status_digest z)),
     (''observability_state'', JStr (gz_observability_state z)), (''lane'', JStr (gz_lane z)), (''rationale'', JStr (gz_rationale z)),
     (''schema_version'', JStr (gz_schema_version z))]))"

definition applied_validate :: "gate_applied \<Rightarrow> unit res" where
  "applied_validate z = checks ([gate_contract_when (gz_schema_version z \<noteq> ''1.0.0'') ''unsupported GateApplied schema'']
     @ map gate_text [(''gate_event_id'', gz_gate_event_id z), (''request_id'', gz_request_id z), (''proposal_id'', gz_proposal_id z),
         (''policy_binding'', gz_policy_binding z), (''rationale'', gz_rationale z)]
     @ [gate_contract_when (gz_decision z \<notin> set DECISIONS) ''invalid decision'',
        gate_contract_when (gz_decision z = ''DENY'' \<and> gz_effective_authority z \<noteq> ''none'') ''DENY requires none authority'',
        gate_contract_when (gz_observability_state z \<notin> set OBSERVABILITY_STATES \<or> gz_lane z \<notin> set LANES) ''invalid lane/observability'']
     @ map (gate_hex '' invalid'') [(''authority_lineage_digest'', gz_authority_lineage_digest z),
         (''enterprise_graph_digest'', gz_enterprise_graph_digest z), (''status_digest'', gz_status_digest z)]
     @ [gate_contract_when (gz_decision_digest z \<noteq> [] \<and> gz_decision_digest z \<noteq> applied_digest z) ''decision_digest mismatch''])"

definition applied_sealed :: "gate_applied \<Rightarrow> gate_applied res" where
  "applied_sealed z = and_then (applied_validate z) (\<lambda>_. Inr (z\<lparr>gz_decision_digest := applied_digest z\<rparr>))"

record pdp_receipt =
  dr_receipt_id :: string
  dr_request_id :: string
  dr_gate_event_id :: string
  dr_request_digest :: string
  dr_decision_digest :: string
  dr_replay_key :: string
  dr_schema_version :: string

definition pdp_receipt_validate :: "pdp_receipt \<Rightarrow> unit res" where
  "pdp_receipt_validate r = checks ([gate_contract_when (dr_schema_version r \<noteq> ''1.0.0'') ''unsupported receipt schema'']
     @ map gate_text [(''receipt_id'', dr_receipt_id r), (''request_id'', dr_request_id r), (''gate_event_id'', dr_gate_event_id r)]
     @ map (gate_hex '' invalid'') [(''request_digest'', dr_request_digest r), (''decision_digest'', dr_decision_digest r),
         (''replay_key'', dr_replay_key r)])"

section \<open>The decision point\<close>

abbreviation policy_error :: "string \<Rightarrow> exn" where
  "policy_error m \<equiv> Exn PolicyGateError m"

abbreviation policy_when :: "bool \<Rightarrow> string \<Rightarrow> unit res" where
  "policy_when b m \<equiv> raise_when b PolicyGateError m"

definition CONTAINS :: "(string \<times> string list) list" where
  "CONTAINS = [
     (''none'', [''none'']), (''read'', [''none'', ''read'']), (''local_write'', [''none'', ''read'', ''local_write'']),
     (''external_write'', [''none'', ''read'', ''local_write'', ''external_write'']),
     (''financial'', [''none'', ''read'', ''local_write'', ''external_write'', ''financial'']),
     (''deploy'', [''none'', ''read'', ''local_write'', ''external_write'', ''deploy'']),
     (''privileged'', [''none'', ''read'', ''local_write'', ''external_write'', ''financial'', ''deploy'', ''privileged''])]"

definition OBS_CEILING :: "(string \<times> string) list" where
  "OBS_CEILING = [(''HEALTHY'', ''privileged''), (''DEGRADED'', ''read''), (''LOST'', ''none'')]"

definition authority_contains :: "string \<Rightarrow> string \<Rightarrow> bool res" where
  "authority_contains parent child = (case map_of CONTAINS parent of
     None \<Rightarrow> Inl (policy_error (''unknown authority class: '' @ parent)) | Some below \<Rightarrow> Inr (child \<in> set below))"

datatype authority_key = PrKey lookup_key | RefKey ref_lookup_key

definition authority_key_validate :: "authority_key \<Rightarrow> unit res" where
  "authority_key_validate k = (case k of PrKey x \<Rightarrow> lookup_key_validate x | RefKey x \<Rightarrow> ref_lookup_key_validate x)"

definition key_binding_json :: "authority_key \<Rightarrow> json" where
  "key_binding_json k = (case k of
     PrKey x \<Rightarrow> JList [JStr (lk_repository x), JInt (lk_pr_number x), JStr (lk_base_sha x), JStr (lk_head_sha x), JStr (lk_mission_id x),
       JStr (lk_grant_id x)]
   | RefKey x \<Rightarrow> strs [rk_repository x, rk_branch x, rk_expected_head x, rk_protected_master_sha x, rk_mission_id x, rk_grant_id x])"

definition proposal_json :: "action_proposal \<Rightarrow> json" where
  "proposal_json p = JObj [
     (''proposal_id'', JStr (ap_proposal_id p)), (''mission_id'', JStr (ap_mission_id p)), (''swarm_id'', JStr (ap_swarm_id p)),
     (''proposer_agent_id'', JStr (ap_proposer_agent_id p)), (''capability'', JStr (ap_capability p)),
     (''requested_authority'', JStr (ap_requested_authority p)), (''action_class'', JStr (ap_action_class p)), (''target'', JStr (ap_target p)),
     (''consequential'', JBool (ap_consequential p)), (''evidence_refs'', strs (ap_evidence_refs p)),
     (''required_observability'', strs (ap_required_observability p)), (''verifier_agent_id'', opt_str (ap_verifier_agent_id p)),
     (''payload_digest'', opt_str (ap_payload_digest p))]"

definition policy_json :: "policy_revision \<Rightarrow> json" where
  "policy_json p = JObj [(''policy_id'', JStr (pl_policy_id p)), (''revision'', JStr (pl_revision p)),
     (''content_digest'', JStr (pl_content_digest p)), (''lane'', JStr (pl_lane p)), (''active'', JBool (pl_active p)),
     (''schema_version'', JStr (pl_schema_version p))]"

text \<open>One call of \<open>evaluate\<close>: its arguments and what the source and the database show at each reading.\<close>

record pdp_call =
  pk_request_id :: string
  pk_gate_event_id :: string
  pk_proposal :: action_proposal
  pk_mission :: mission_spec
  pk_swarm :: swarm_spec
  pk_agents :: "string \<rightharpoonup> agent_spec"
  pk_policy :: policy_revision
  pk_authority_key :: authority_key
  pk_graph_digest :: "string res"
  pk_status_digest :: "string res"
  pk_observability_state :: string
  pk_observed_event_types :: "string list"
  pk_evidence_refs :: "string list"
  pk_trusted_now :: utc_time
  pk_admit_reads :: "live_reads \<times> live_reads"
  pk_resolve_backend :: authority_backend
  pk_revalidate_reads :: "live_reads \<times> live_reads"

definition pre_request_digest :: "pdp_call \<Rightarrow> string \<Rightarrow> string \<Rightarrow> string" where
  "pre_request_digest k gd sd = sha256 (canon_ascii (JObj [
     (''request_id'', JStr (pk_request_id k)), (''gate_event_id'', JStr (pk_gate_event_id k)), (''proposal'', proposal_json (pk_proposal k)),
     (''policy'', policy_json (pk_policy k)), (''authority_key'', key_binding_json (pk_authority_key k)), (''graph_digest'', JStr gd),
     (''status_digest'', JStr sd), (''observability_state'', JStr (pk_observability_state k)),
     (''observed_event_types'', strs (pk_observed_event_types k)), (''evidence_refs'', strs (pk_evidence_refs k))]))"

record pdp_result =
  pt_requested :: gate_requested
  pt_applied :: gate_applied
  pt_receipt :: pdp_receipt

record pdp_state =
  ps_replay :: "string \<rightharpoonup> string \<times> pdp_result"
  ps_store :: durable_store

definition pdp_precheck :: "pdp_call \<Rightarrow> (string \<times> string) res" where
  "pdp_precheck k = and_then (checks [
       proposal_validate (pk_proposal k), mission_validate (pk_mission k), swarm_validate (pk_swarm k), policy_validate (pk_policy k),
       authority_key_validate (pk_authority_key k),
       policy_when (\<not> pl_active (pk_policy k)) ''policy revision inactive'',
       policy_when (pl_lane (pk_policy k) \<noteq> mi_risk_class (pk_mission k)) ''policy lane does not bind mission risk class'',
       policy_when (pk_observability_state k \<notin> set (map fst OBS_CEILING)) ''invalid observability_state'',
       policy_when (pk_evidence_refs k = [] \<or> \<not> no_dup (pk_evidence_refs k)) ''unique evidence_refs required'']) (\<lambda>_.
     and_then (pk_status_digest k) (\<lambda>sd. and_then (pk_graph_digest k) (\<lambda>gd. Inr (sd, gd))))"

text \<open>The admitted authority of either kind, its common fields and its digest.\<close>

datatype admitted_authority = PrAdmitted live_authority | RefAdmitted live_ref_authority

definition admitted_core :: "admitted_authority \<Rightarrow> live_receipt" where
  "admitted_core x = (case x of PrAdmitted a \<Rightarrow> live_receipt.truncate a | RefAdmitted a \<Rightarrow> live_receipt.truncate a)"

definition admitted_digest :: "admitted_authority \<Rightarrow> string res" where
  "admitted_digest x = (case x of PrAdmitted a \<Rightarrow> live_digest a | RefAdmitted a \<Rightarrow> live_ref_digest a)"

definition admit_key :: "live_config \<Rightarrow> pdp_call \<Rightarrow> (durable_store, admitted_authority \<times> authority_grant list \<times> string) op" where
  "admit_key cfg k s = (let nonce = ''pdp:'' @ pk_request_id k; now = pk_trusted_now k; (before, after) = pk_admit_reads k in
     case pk_authority_key k of
       PrKey key \<Rightarrow> (case admit_live cfg key now nonce before after s of
         (Inl e, s') \<Rightarrow> (Inl e, s')
       | (Inr a, s') \<Rightarrow> (and_then (resolve_exact (be_lookup_exact (pk_resolve_backend k)) key)
           (\<lambda>r. Inr (PrAdmitted a, lr_lineage r, lr_lineage_digest r)), s'))
     | RefKey key \<Rightarrow> (case admit_live_repository_ref cfg key now nonce before after s of
         (Inl e, s') \<Rightarrow> (Inl e, s')
       | (Inr a, s') \<Rightarrow> (and_then (resolve_repository_ref_exact (be_lookup_repository_ref_exact (pk_resolve_backend k)) key)
           (\<lambda>r. Inr (RefAdmitted a, rr_lineage r, rr_lineage_digest r)), s')))"

definition authority_bindings :: "pdp_call \<Rightarrow> admitted_authority \<times> authority_grant list \<times> string \<Rightarrow> unit res" where
  "authority_bindings k y = (case y of (x, lineage, digest) \<Rightarrow> let leaf = last lineage; a = admitted_core x; p = pk_proposal k in
     and_then (checks [
       policy_when (digest \<noteq> lv_lineage_digest a \<or> grant_digest leaf \<noteq> Inr (last (lv_authenticated_grant_digests a)))
         ''live admission/lineage binding mismatch'',
       policy_when (ag_mission_id leaf \<noteq> ap_mission_id p \<or> ag_capability_id leaf \<noteq> ap_capability p) ''authority mission/capability mismatch'',
       policy_when (ag_policy_digest leaf \<noteq> pl_content_digest (pk_policy k)) ''policy revision digest does not match admitted authority grant'']) (\<lambda>_.
     and_then (authority_contains (lv_authority_ceiling a) (ap_requested_authority p)) (\<lambda>contained.
     policy_when (\<not> contained) ''requested authority not semantically contained by live admission'')))"

text \<open>The decision with its effective authority and rationale; each rule overrides the ones before it.\<close>

definition decide :: "pdp_call \<Rightarrow> (string \<times> string \<times> string) res" where
  "decide k = (let p = pk_proposal k; lane = pl_lane (pk_policy k) in
     and_then (authority_contains (the (map_of OBS_CEILING (pk_observability_state k))) (ap_requested_authority p)) (\<lambda>seen.
     let d1 = (if seen then (''ALLOW'', ap_requested_authority p, ''all canonical PDP invariants satisfied'')
               else (''DENY'', ''none'', ''observability-conditioned authority ceiling exceeded''));
         d2 = (if ap_consequential p \<and> lane \<in> {''AMBER'', ''RED''}
                 \<and> (ap_verifier_agent_id p = None \<or> ap_verifier_agent_id p = Some [] \<or> ap_verifier_agent_id p = Some (ap_proposer_agent_id p))
               then (''DENY'', ''none'', ''AMBER/RED consequential request requires independent verifier'') else d1)
     in and_then (gate_evaluate p (pk_mission k) (pk_swarm k) (pk_agents k) [policy_binding (pk_policy k)] (pk_observed_event_types k)
          (pk_gate_event_id k)) (\<lambda>base.
        Inr (if gd_decision base \<noteq> ''ALLOW'' then (''DENY'', ''none'', ''base deterministic admission denied: '' @ gd_rationale base) else d2))))"

definition revalidate_key :: "live_config \<Rightarrow> pdp_call \<Rightarrow> admitted_authority \<Rightarrow> unit res" where
  "revalidate_key cfg k x = (let now = pk_trusted_now k; (before, after) = pk_revalidate_reads k in
     wrap_errors (\<lambda>c. c = LiveAuthorityAdmissionError) (policy_error ''live authority changed before GateApplied'') (case x of
       PrAdmitted a \<Rightarrow> and_then (revalidate cfg a now before after) (\<lambda>_. Inr ())
     | RefAdmitted a \<Rightarrow> and_then (revalidate_repository_ref cfg a now before after) (\<lambda>_. Inr ())))"

definition request_of :: "pdp_call \<Rightarrow> string \<Rightarrow> string \<Rightarrow> admitted_authority \<Rightarrow> gate_requested" where
  "request_of k sd gd x = \<lparr>gq_request_id = pk_request_id k, gq_proposal_id = ap_proposal_id (pk_proposal k),
     gq_policy_binding = policy_binding (pk_policy k), gq_authority_lineage_digest = lv_lineage_digest (admitted_core x),
     gq_enterprise_graph_digest = gd, gq_status_digest = sd, gq_observability_state = pk_observability_state k,
     gq_lane = pl_lane (pk_policy k), gq_requested_authority = ap_requested_authority (pk_proposal k),
     gq_evidence_refs = pk_evidence_refs k, gq_request_digest = [], gq_schema_version = ''1.0.0''\<rparr>"

definition applied_of :: "pdp_call \<Rightarrow> string \<Rightarrow> string \<Rightarrow> admitted_authority \<Rightarrow> string \<times> string \<times> string \<Rightarrow> gate_applied" where
  "applied_of k sd gd x d = (case d of (decision, effective, rationale) \<Rightarrow> \<lparr>gz_gate_event_id = pk_gate_event_id k,
     gz_request_id = pk_request_id k, gz_proposal_id = ap_proposal_id (pk_proposal k), gz_decision = decision,
     gz_effective_authority = effective, gz_policy_binding = policy_binding (pk_policy k),
     gz_authority_lineage_digest = lv_lineage_digest (admitted_core x), gz_enterprise_graph_digest = gd, gz_status_digest = sd,
     gz_observability_state = pk_observability_state k, gz_lane = pl_lane (pk_policy k), gz_rationale = rationale,
     gz_decision_digest = [], gz_schema_version = ''1.0.0''\<rparr>)"

definition receipt_of :: "pdp_call \<Rightarrow> gate_requested \<Rightarrow> gate_applied \<Rightarrow> string \<Rightarrow> pdp_receipt" where
  "receipt_of k q z digest = \<lparr>dr_receipt_id = ''pdp-receipt:'' @ pk_request_id k, dr_request_id = pk_request_id k,
     dr_gate_event_id = pk_gate_event_id k, dr_request_digest = gq_request_digest q, dr_decision_digest = gz_decision_digest z,
     dr_replay_key = sha256 (gq_request_digest q @ gz_decision_digest z @ digest), dr_schema_version = ''1.0.0''\<rparr>"

text \<open>What is computed once the authority is admitted.\<close>

definition pdp_decision :: "live_config \<Rightarrow> pdp_call \<Rightarrow> string \<Rightarrow> string \<Rightarrow> admitted_authority \<times> authority_grant list \<times> string \<Rightarrow> pdp_result res" where
  "pdp_decision cfg k sd gd y = (let x = fst y in
     and_then (authority_bindings k y) (\<lambda>_. and_then (requested_sealed (request_of k sd gd x)) (\<lambda>q.
     and_then (decide k) (\<lambda>d. and_then (revalidate_key cfg k x) (\<lambda>_.
     and_then (applied_sealed (applied_of k sd gd x d)) (\<lambda>z. and_then (admitted_digest x) (\<lambda>digest.
     let r = receipt_of k q z digest in
     and_then (pdp_receipt_validate r) (\<lambda>_. Inr \<lparr>pt_requested = q, pt_applied = z, pt_receipt = r\<rparr>))))))))"

definition pdp_evaluate :: "live_config \<Rightarrow> pdp_call \<Rightarrow> (pdp_state, pdp_result) op" where
  "pdp_evaluate cfg k s = (case pdp_precheck k of
     Inl e \<Rightarrow> (Inl e, s)
   | Inr (sd, gd) \<Rightarrow> (let pre = pre_request_digest k gd sd in case ps_replay s (pk_request_id k) of
       Some (old, result) \<Rightarrow> (if old \<noteq> pre then Inl (policy_error ''replayed request_id payload substitution denied'') else Inr result, s)
     | None \<Rightarrow> (case admit_key cfg k (ps_store s) of
         (Inl _, store) \<Rightarrow> (Inl (policy_error ''live canonical authority admission unavailable''), s\<lparr>ps_store := store\<rparr>)
       | (Inr y, store) \<Rightarrow> (case pdp_decision cfg k sd gd y of
           Inl e \<Rightarrow> (Inl e, s\<lparr>ps_store := store\<rparr>)
         | Inr result \<Rightarrow> (Inr result, \<lparr>ps_replay = (ps_replay s)(pk_request_id k \<mapsto> (pre, result)), ps_store = store\<rparr>)))))"

end
