(* ===== verification/Action_IR.thy ===== *)
theory Action_IR
  imports Enterprise_Models Py_Hash Py_Json
begin

text \<open>
  contracts/action_ir.py, contracts/action_proposal_projection.py and contracts/action_proposal_context.py: the canonical
  representation of an action, its static projection and the binding of an action with an explicit context to the
  proposal that the execution gate judges.

  A decoded action document is a typed record; the fields that only some kinds carry are optional. The strict JSON reader
  and the tests that only reject values of another type have no counterpart.
\<close>

section \<open>The action\<close>

record action_target =
  tg_host :: string
  tg_environment :: string
  tg_runtime :: string

record authority_request =
  aq_domain :: string
  aq_capability :: string
  aq_grant_ref :: "string option"

record action_boundary =
  by_shell :: bool
  by_network :: string
  by_filesystem_read :: "string list"
  by_filesystem_write :: "string list"
  by_process_children :: "string list"
  by_timeout_ms :: int
  by_max_processes :: int
  by_memory_limit_bytes :: int

record action_workspace =
  wk_repository :: string
  wk_commit :: string
  wk_tree :: string
  wk_path :: string

record action_io =
  io_stdin :: string
  io_stdout :: string
  io_stderr :: string
  io_tty :: bool

record action_model =
  ac_schema_version :: string
  ac_action_id :: string
  ac_kind :: string
  ac_intent_ref :: string
  ac_mission_ref :: string
  ac_autonomy_ref :: string
  ac_bean_ref :: string
  ac_target :: action_target
  ac_authority_request :: authority_request
  ac_boundary :: action_boundary
  ac_preconditions :: "string list"
  ac_expected_effects :: "string list"
  ac_forbidden_effects :: "string list"
  ac_observer_class :: string
  ac_required_events :: "string list"
  ac_reconciliation_mode :: string
  ac_reconciliation_receipt :: string
  ac_executable :: "(string \<times> string) option"
  ac_arguments :: "string list option"
  ac_workspace :: "action_workspace option"
  ac_environment :: "(bool \<times> (string \<times> string) list) option"
  ac_io :: "action_io option"

definition KINDS :: "string list" where
  "KINDS = [''process.exec'', ''filesystem.read'', ''filesystem.write'', ''repository.observe'', ''repository.prepare_candidate'',
     ''repository.attach_exact'', ''test.execute'', ''artifact.generate'', ''robot.task'']"

definition NETWORK_MODES :: "string list" where
  "NETWORK_MODES = [''DENY'', ''READ_ONLY_PINNED'', ''ALLOW_EXACT'']"

definition OBSERVER_CLASSES :: "string list" where
  "OBSERVER_CLASSES = [''independent'', ''deterministic_independent'']"

definition RECONCILIATION_MODES :: "string list" where
  "RECONCILIATION_MODES = [''EXACT'', ''PHYSICAL_POSTCONDITION'']"

definition CAPTURE_MODES :: "string list" where
  "CAPTURE_MODES = [''CAPTURE'', ''DISCARD'']"

abbreviation air_when :: "bool \<Rightarrow> string \<Rightarrow> unit res" where
  "air_when b m \<equiv> raise_when b ActionIRContractError m"

definition letter :: "char \<Rightarrow> bool" where
  "letter c = (c \<in> set ''ABCDEFGHIJKLMNOPQRSTUVWXYZabcdefghijklmnopqrstuvwxyz'')"

definition word_char :: "char \<Rightarrow> bool" where
  "word_char c = (letter c \<or> c \<in> set ''0123456789_.-'')"

text \<open>\<open>^[A-Za-z][A-Za-z0-9_.:-]{0,255}$\<close>, \<open>^sha256:[0-9a-f]{64}$\<close> and \<open>^[A-Za-z0-9_.-]+/[A-Za-z0-9_.-]+$\<close>.\<close>

definition action_id_pattern :: "string \<Rightarrow> bool" where
  "action_id_pattern s = (case s of [] \<Rightarrow> False
     | c # cs \<Rightarrow> letter c \<and> length cs \<le> 255 \<and> list_all (\<lambda>c. word_char c \<or> c = CHR '':'') cs)"

definition sha256_ref :: "string \<Rightarrow> bool" where
  "sha256_ref s = (starts_with ''sha256:'' s \<and> is_hex 64 (drop 7 s))"

definition repository_pattern :: "string \<Rightarrow> bool" where
  "repository_pattern s = (case split_slash [] s of [a, b] \<Rightarrow> a \<noteq> [] \<and> b \<noteq> [] \<and> list_all word_char a \<and> list_all word_char b | _ \<Rightarrow> False)"

definition air_string :: "string \<Rightarrow> string \<Rightarrow> nat \<Rightarrow> nat option \<Rightarrow> (string \<Rightarrow> bool) \<Rightarrow> unit res" where
  "air_string v name minimum maximum pattern = checks [
     air_when (length v < minimum \<or> (case maximum of None \<Rightarrow> False | Some l \<Rightarrow> l < length v)) (name @ '' length is invalid''),
     air_when (\<not> pattern v) (name @ '' format is invalid'')]"

definition any_text :: "string \<Rightarrow> bool" where
  "any_text s = True"

definition air_integer :: "int \<Rightarrow> string \<Rightarrow> int \<Rightarrow> int option \<Rightarrow> unit res" where
  "air_integer v name minimum maximum =
     air_when (v < minimum \<or> (case maximum of None \<Rightarrow> False | Some l \<Rightarrow> l < v)) (name @ '' range is invalid'')"

definition air_unique_strings :: "string list \<Rightarrow> string \<Rightarrow> unit res" where
  "air_unique_strings vs name = checks (map (\<lambda>v. air_string v name 1 (Some 4096) any_text) vs
     @ [air_when (\<not> no_dup vs) (name @ '' must contain unique strings'')])"

definition target_check :: "action_target \<Rightarrow> unit res" where
  "target_check t = checks [air_string (tg_host t) ''target.host'' 1 None any_text,
     air_string (tg_environment t) ''target.environment'' 1 None any_text, air_string (tg_runtime t) ''target.runtime'' 1 None any_text]"

definition authority_request_check :: "authority_request \<Rightarrow> unit res" where
  "authority_request_check q = checks [air_string (aq_domain q) ''authority_request.domain'' 1 None any_text,
     air_string (aq_capability q) ''authority_request.capability'' 1 None any_text,
     (case aq_grant_ref q of None \<Rightarrow> Inr () | Some g \<Rightarrow> air_string g ''authority_request.grant_ref'' 0 None any_text)]"

definition boundary_check :: "action_boundary \<Rightarrow> unit res" where
  "boundary_check b = checks [
     air_when (by_shell b) ''boundary.shell must be false'',
     air_when (by_network b \<notin> set NETWORK_MODES) ''boundary.network is invalid'',
     air_unique_strings (by_filesystem_read b) ''boundary.filesystem_read'',
     air_unique_strings (by_filesystem_write b) ''boundary.filesystem_write'',
     air_unique_strings (by_process_children b) ''boundary.process_children'',
     air_integer (by_timeout_ms b) ''boundary.timeout_ms'' 1 (Some 3600000),
     air_integer (by_max_processes b) ''boundary.max_processes'' 1 (Some 128),
     air_integer (by_memory_limit_bytes b) ''boundary.memory_limit_bytes'' 1048576 None]"

definition observation_spec_check :: "action_model \<Rightarrow> unit res" where
  "observation_spec_check m = checks [air_when (ac_observer_class m \<notin> set OBSERVER_CLASSES) ''observation.observer_class is invalid'',
     air_unique_strings (ac_required_events m) ''observation.required_events'']"

definition reconciliation_spec_check :: "action_model \<Rightarrow> unit res" where
  "reconciliation_spec_check m = checks [
     air_when (ac_reconciliation_mode m \<notin> set RECONCILIATION_MODES) ''reconciliation.mode is invalid'',
     air_when (ac_reconciliation_receipt m \<noteq> ''REQUIRED'') ''reconciliation.receipt must be REQUIRED'']"

definition executable_check :: "string \<times> string \<Rightarrow> unit res" where
  "executable_check x = checks [air_string (fst x) ''executable.path'' 0 None any_text,
     air_when (\<not> starts_with ''/'' (fst x)) ''executable.path format is invalid'',
     air_string (snd x) ''executable.digest'' 0 None sha256_ref]"

definition arguments_check :: "string list \<Rightarrow> unit res" where
  "arguments_check as = checks (air_when (256 < length as) ''arguments must be a bounded array''
     # map (\<lambda>v. air_string v ''arguments'' 0 (Some 4096) any_text) as)"

definition workspace_check :: "action_workspace \<Rightarrow> unit res" where
  "workspace_check w = checks [
     air_string (wk_repository w) ''workspace.repository'' 0 None repository_pattern,
     air_string (wk_commit w) ''workspace.commit'' 0 None (is_hex 40),
     air_string (wk_tree w) ''workspace.tree'' 0 None (is_hex 40),
     air_string (wk_path w) ''workspace.path'' 0 None any_text,
     air_when (\<not> starts_with ''/'' (wk_path w)) ''workspace.path format is invalid'']"

definition environment_check :: "bool \<times> (string \<times> string) list \<Rightarrow> unit res" where
  "environment_check e = checks (air_when (fst e) ''environment.inherit must be false''
     # map (\<lambda>(k, v). air_string v (''environment.allow.'' @ k) 0 (Some 4096) any_text) (snd e))"

definition io_check :: "action_io \<Rightarrow> unit res" where
  "io_check x = checks [
     air_when (io_stdin x \<noteq> ''NONE'') ''io.stdin must be NONE'',
     air_when (io_stdout x \<notin> set CAPTURE_MODES \<or> io_stderr x \<notin> set CAPTURE_MODES) ''io capture mode is invalid'',
     air_when (io_tty x) ''io.tty must be false'']"

definition when_present :: "('a \<Rightarrow> unit res) \<Rightarrow> 'a option \<Rightarrow> unit res" where
  "when_present f x = (case x of None \<Rightarrow> Inr () | Some y \<Rightarrow> f y)"

definition validate_action_ir :: "action_model \<Rightarrow> unit res" where
  "validate_action_ir m = checks [
     air_when (ac_schema_version m \<noteq> ''1.0.0'') ''schema_version mismatch'',
     air_string (ac_action_id m) ''action_id'' 0 None action_id_pattern,
     air_when (ac_kind m \<notin> set KINDS) ''kind is outside the closed vocabulary'',
     air_string (ac_intent_ref m) ''intent_ref'' 1 None any_text,
     air_string (ac_mission_ref m) ''mission_ref'' 1 None any_text,
     air_string (ac_autonomy_ref m) ''autonomy_ref'' 1 None any_text,
     air_string (ac_bean_ref m) ''bean_ref'' 1 None any_text,
     target_check (ac_target m), authority_request_check (ac_authority_request m), boundary_check (ac_boundary m),
     air_unique_strings (ac_preconditions m) ''preconditions'',
     air_unique_strings (ac_expected_effects m) ''expected_effects'',
     air_unique_strings (ac_forbidden_effects m) ''forbidden_effects'',
     observation_spec_check m, reconciliation_spec_check m,
     air_when (ac_kind m = ''process.exec'' \<and> (ac_executable m = None \<or> ac_arguments m = None \<or> ac_workspace m = None
         \<or> ac_environment m = None \<or> ac_io m = None)) ''process.exec requires execution-shaped fields'',
     when_present executable_check (ac_executable m), when_present arguments_check (ac_arguments m),
     when_present workspace_check (ac_workspace m), when_present environment_check (ac_environment m),
     when_present io_check (ac_io m)]"

section \<open>Canonical bytes\<close>

definition field_if :: "string \<Rightarrow> ('a \<Rightarrow> json) \<Rightarrow> 'a option \<Rightarrow> (string \<times> json) list" where
  "field_if name f x = (case x of None \<Rightarrow> [] | Some y \<Rightarrow> [(name, f y)])"

definition action_json :: "action_model \<Rightarrow> json" where
  "action_json m = JObj ([
     (''schema_version'', JStr (ac_schema_version m)), (''action_id'', JStr (ac_action_id m)), (''kind'', JStr (ac_kind m)),
     (''intent_ref'', JStr (ac_intent_ref m)), (''mission_ref'', JStr (ac_mission_ref m)), (''autonomy_ref'', JStr (ac_autonomy_ref m)),
     (''bean_ref'', JStr (ac_bean_ref m)),
     (''target'', let t = ac_target m in JObj [(''host'', JStr (tg_host t)), (''environment'', JStr (tg_environment t)),
       (''runtime'', JStr (tg_runtime t))]),
     (''authority_request'', let q = ac_authority_request m in JObj [(''domain'', JStr (aq_domain q)),
       (''capability'', JStr (aq_capability q)), (''grant_ref'', opt_str (aq_grant_ref q))]),
     (''boundary'', let b = ac_boundary m in JObj [(''shell'', JBool (by_shell b)), (''network'', JStr (by_network b)),
       (''filesystem_read'', strs (by_filesystem_read b)), (''filesystem_write'', strs (by_filesystem_write b)),
       (''process_children'', strs (by_process_children b)), (''timeout_ms'', JInt (by_timeout_ms b)),
       (''max_processes'', JInt (by_max_processes b)), (''memory_limit_bytes'', JInt (by_memory_limit_bytes b))]),
     (''preconditions'', strs (ac_preconditions m)), (''expected_effects'', strs (ac_expected_effects m)),
     (''forbidden_effects'', strs (ac_forbidden_effects m)),
     (''observation'', JObj [(''observer_class'', JStr (ac_observer_class m)), (''required_events'', strs (ac_required_events m))]),
     (''reconciliation'', JObj [(''mode'', JStr (ac_reconciliation_mode m)), (''receipt'', JStr (ac_reconciliation_receipt m))])]
     @ field_if ''executable'' (\<lambda>(p, d). JObj [(''path'', JStr p), (''digest'', JStr d)]) (ac_executable m)
     @ field_if ''arguments'' strs (ac_arguments m)
     @ field_if ''workspace'' (\<lambda>w. JObj [(''repository'', JStr (wk_repository w)), (''commit'', JStr (wk_commit w)),
         (''tree'', JStr (wk_tree w)), (''path'', JStr (wk_path w))]) (ac_workspace m)
     @ field_if ''environment'' (\<lambda>(inh, allow). JObj [(''inherit'', JBool inh),
         (''allow'', JObj (map (\<lambda>(k, v). (k, JStr v)) allow))]) (ac_environment m)
     @ field_if ''io'' (\<lambda>x. JObj [(''stdin'', JStr (io_stdin x)), (''stdout'', JStr (io_stdout x)),
         (''stderr'', JStr (io_stderr x)), (''tty'', JBool (io_tty x))]) (ac_io m))"

definition canonical_action_ir_bytes :: "action_model \<Rightarrow> string" where
  "canonical_action_ir_bytes m = canon (action_json m)"

definition action_ir_payload_digest :: "action_model \<Rightarrow> string" where
  "action_ir_payload_digest m = sha256 (canonical_action_ir_bytes m)"

text \<open>The canonical pair: the bytes stand for the document they encode.\<close>

record canonical_action =
  ca_model :: action_model
  ca_payload_digest :: string

definition canonical_action_validate :: "canonical_action \<Rightarrow> unit res" where
  "canonical_action_validate c = checks [validate_action_ir (ca_model c),
     air_when (\<not> is_hex 64 (ca_payload_digest c)) ''payload_digest must be lowercase SHA-256'',
     air_when (ca_payload_digest c \<noteq> action_ir_payload_digest (ca_model c)) ''payload_digest mismatch'']"

section \<open>The static projection\<close>

definition ACTION_PROPOSAL_FIELDS :: "string list" where
  "ACTION_PROPOSAL_FIELDS = [''proposal_id'', ''mission_id'', ''swarm_id'', ''proposer_agent_id'', ''capability'', ''requested_authority'',
     ''action_class'', ''target'', ''consequential'', ''evidence_refs'', ''required_observability'', ''verifier_agent_id'', ''payload_digest'']"

definition DIRECT_BINDINGS :: "string list" where
  "DIRECT_BINDINGS = [''payload_digest'']"

definition UNRESOLVED_FIELDS :: "string list" where
  "UNRESOLVED_FIELDS = filter (\<lambda>n. n \<notin> set DIRECT_BINDINGS) ACTION_PROPOSAL_FIELDS"

definition BLOCKED_IMPLICIT_MAPPINGS :: "string list" where
  "BLOCKED_IMPLICIT_MAPPINGS = [''authority_request->requested_authority'', ''kind->action_class'', ''structured_target->target'']"

record static_projection =
  pj_source_action_id :: string
  pj_source_mission_ref :: string
  pj_source_kind :: string
  pj_source_authority_domain :: string
  pj_source_capability :: string
  pj_source_grant_ref :: "string option"
  pj_source_target_host :: string
  pj_source_target_environment :: string
  pj_source_target_runtime :: string
  pj_source_required_events :: "string list"
  pj_source_expected_effects :: "string list"
  pj_source_forbidden_effects :: "string list"
  pj_lair_payload_digest :: string
  pj_action_proposal_payload_digest :: string
  pj_direct_bindings :: "string list"
  pj_unresolved_action_proposal_fields :: "string list"
  pj_blocked_implicit_mappings :: "string list"
  pj_effects :: "string \<times> string \<times> string \<times> string"
  pj_schema_version :: string

abbreviation projection_when :: "bool \<Rightarrow> string \<Rightarrow> unit res" where
  "projection_when b m \<equiv> raise_when b ActionProposalProjectionError m"

definition projection_text :: "string \<Rightarrow> string \<Rightarrow> unit res" where
  "projection_text v n = projection_when (v = [] \<or> nul \<in> set v) (n @ '' invalid'')"

definition projection_list :: "string list \<Rightarrow> string \<Rightarrow> unit res" where
  "projection_list vs n = checks [projection_when (list_ex (\<lambda>v. v = []) vs) (n @ '' invalid''),
     projection_when (\<not> no_dup vs) (n @ '' duplicates'')]"

definition projection_validate :: "static_projection \<Rightarrow> unit res" where
  "projection_validate p = checks [
     projection_when (pj_schema_version p \<noteq> ''1.0.0'') ''unsupported projection schema'',
     projection_text (pj_source_action_id p) ''source_action_id'', projection_text (pj_source_mission_ref p) ''source_mission_ref'',
     projection_text (pj_source_kind p) ''source_kind'', projection_text (pj_source_authority_domain p) ''source_authority_domain'',
     projection_text (pj_source_capability p) ''source_capability'', projection_text (pj_source_target_host p) ''source_target_host'',
     projection_text (pj_source_target_environment p) ''source_target_environment'',
     projection_text (pj_source_target_runtime p) ''source_target_runtime'',
     projection_list (pj_source_required_events p) ''source_required_events'',
     projection_list (pj_source_expected_effects p) ''source_expected_effects'',
     projection_list (pj_source_forbidden_effects p) ''source_forbidden_effects'',
     projection_when (\<not> is_hex 64 (pj_lair_payload_digest p)) ''lair_payload_digest invalid'',
     projection_when (pj_action_proposal_payload_digest p \<noteq> pj_lair_payload_digest p) ''payload digest binding mismatch'',
     projection_when (pj_direct_bindings p \<noteq> DIRECT_BINDINGS) ''direct binding set is closed'',
     projection_when (pj_unresolved_action_proposal_fields p \<noteq> UNRESOLVED_FIELDS) ''unresolved field set is closed'',
     projection_when (pj_blocked_implicit_mappings p \<noteq> BLOCKED_IMPLICIT_MAPPINGS) ''blocked implicit mapping set is closed'',
     projection_when (pj_effects p \<noteq> (''NONE'', ''NONE'', ''NONE'', ''NONE'')) ''static projection cannot carry effects'']"

definition projection_of :: "canonical_action \<Rightarrow> static_projection" where
  "projection_of c = (let m = ca_model c in \<lparr>pj_source_action_id = ac_action_id m, pj_source_mission_ref = ac_mission_ref m,
     pj_source_kind = ac_kind m, pj_source_authority_domain = aq_domain (ac_authority_request m),
     pj_source_capability = aq_capability (ac_authority_request m), pj_source_grant_ref = aq_grant_ref (ac_authority_request m),
     pj_source_target_host = tg_host (ac_target m), pj_source_target_environment = tg_environment (ac_target m),
     pj_source_target_runtime = tg_runtime (ac_target m), pj_source_required_events = ac_required_events m,
     pj_source_expected_effects = ac_expected_effects m, pj_source_forbidden_effects = ac_forbidden_effects m,
     pj_lair_payload_digest = ca_payload_digest c, pj_action_proposal_payload_digest = ca_payload_digest c,
     pj_direct_bindings = DIRECT_BINDINGS, pj_unresolved_action_proposal_fields = UNRESOLVED_FIELDS,
     pj_blocked_implicit_mappings = BLOCKED_IMPLICIT_MAPPINGS, pj_effects = (''NONE'', ''NONE'', ''NONE'', ''NONE''),
     pj_schema_version = ''1.0.0''\<rparr>)"

definition project_lair_to_action_proposal_static :: "canonical_action \<Rightarrow> static_projection res" where
  "project_lair_to_action_proposal_static c = and_then (canonical_action_validate c) (\<lambda>_.
     and_then (projection_validate (projection_of c)) (\<lambda>_. Inr (projection_of c)))"

section \<open>The explicit context\<close>

definition REQUIRED_CONTEXT_FIELDS :: "string list" where
  "REQUIRED_CONTEXT_FIELDS = [''proposal_id'', ''mission_id'', ''swarm_id'', ''proposer_agent_id'', ''capability'', ''requested_authority'',
     ''action_class'', ''target'', ''consequential'', ''evidence_refs'', ''required_observability'']"

record proposal_context =
  px_proposal_id :: string
  px_mission_id :: string
  px_swarm_id :: string
  px_proposer_agent_id :: string
  px_capability :: string
  px_requested_authority :: string
  px_action_class :: string
  px_target :: string
  px_consequential :: bool
  px_evidence_refs :: "string list"
  px_required_observability :: "string list"
  px_expected_lair_payload_digest :: string
  px_field_provenance :: "(string \<times> string) list"
  px_verifier_agent_id :: "string option"
  px_schema_version :: string

abbreviation binding_when :: "bool \<Rightarrow> string \<Rightarrow> unit res" where
  "binding_when b m \<equiv> raise_when b ActionProposalContextBindingError m"

definition context_text :: "string \<Rightarrow> string \<Rightarrow> unit res" where
  "context_text v n = binding_when (v = [] \<or> nul \<in> set v) (n @ '' invalid'')"

definition context_refs :: "string list \<Rightarrow> string \<Rightarrow> unit res" where
  "context_refs vs n = checks [binding_when (list_ex (\<lambda>v. v = [] \<or> nul \<in> set v) vs) (n @ '' invalid''),
     binding_when (\<not> no_dup vs) (n @ '' duplicates'')]"

definition provenance_check :: "proposal_context \<Rightarrow> unit res" where
  "provenance_check c = (let names = map fst (px_field_provenance c);
       expected = REQUIRED_CONTEXT_FIELDS @ (if px_verifier_agent_id c = None then [] else [''verifier_agent_id''])
     in checks (concat (map (\<lambda>(n, r). [context_text n ''field_provenance field'', context_text r ''field_provenance ref'']) (px_field_provenance c))
       @ [binding_when (\<not> no_dup names) ''field_provenance duplicates'',
          binding_when (set names \<noteq> set expected) ''field_provenance must cover exactly supplied semantic fields'',
          binding_when (names \<noteq> sort names) ''field_provenance must be sorted by field name'']))"

definition proposal_context_validate :: "proposal_context \<Rightarrow> unit res" where
  "proposal_context_validate c = checks [
     binding_when (px_schema_version c \<noteq> ''1.0.0'') ''unsupported context schema'',
     context_text (px_proposal_id c) ''proposal_id'', context_text (px_mission_id c) ''mission_id'',
     context_text (px_swarm_id c) ''swarm_id'', context_text (px_proposer_agent_id c) ''proposer_agent_id'',
     context_text (px_capability c) ''capability'', context_text (px_requested_authority c) ''requested_authority'',
     context_text (px_action_class c) ''action_class'', context_text (px_target c) ''target'',
     context_refs (px_evidence_refs c) ''evidence_refs'', context_refs (px_required_observability c) ''required_observability'',
     (case px_verifier_agent_id c of None \<Rightarrow> Inr () | Some v \<Rightarrow> context_text v ''verifier_agent_id''),
     binding_when (\<not> is_hex 64 (px_expected_lair_payload_digest c)) ''expected_lair_payload_digest invalid'',
     provenance_check c]"

definition proposal_context_digest :: "proposal_context \<Rightarrow> string" where
  "proposal_context_digest c = sha256 (''LION/ACTION-PROPOSAL-EXPLICIT-CONTEXT/1'' @ nul # canon (JObj [
     (''proposal_id'', JStr (px_proposal_id c)), (''mission_id'', JStr (px_mission_id c)), (''swarm_id'', JStr (px_swarm_id c)),
     (''proposer_agent_id'', JStr (px_proposer_agent_id c)), (''capability'', JStr (px_capability c)),
     (''requested_authority'', JStr (px_requested_authority c)), (''action_class'', JStr (px_action_class c)),
     (''target'', JStr (px_target c)), (''consequential'', JBool (px_consequential c)), (''evidence_refs'', strs (px_evidence_refs c)),
     (''required_observability'', strs (px_required_observability c)),
     (''expected_lair_payload_digest'', JStr (px_expected_lair_payload_digest c)),
     (''field_provenance'', JList (map (\<lambda>(n, r). strs [n, r]) (px_field_provenance c))),
     (''verifier_agent_id'', opt_str (px_verifier_agent_id c)), (''schema_version'', JStr (px_schema_version c))]))"

definition proposal_of :: "canonical_action \<Rightarrow> proposal_context \<Rightarrow> action_proposal" where
  "proposal_of ir c = \<lparr>ap_proposal_id = px_proposal_id c, ap_mission_id = px_mission_id c, ap_swarm_id = px_swarm_id c,
     ap_proposer_agent_id = px_proposer_agent_id c, ap_capability = px_capability c,
     ap_requested_authority = px_requested_authority c, ap_action_class = px_action_class c, ap_target = px_target c,
     ap_consequential = px_consequential c, ap_evidence_refs = px_evidence_refs c,
     ap_required_observability = px_required_observability c, ap_verifier_agent_id = px_verifier_agent_id c,
     ap_payload_digest = Some (ca_payload_digest ir)\<rparr>"

definition bind_lair_to_action_proposal :: "canonical_action \<Rightarrow> proposal_context \<Rightarrow> action_proposal res" where
  "bind_lair_to_action_proposal ir c = and_then (checks [canonical_action_validate ir, proposal_context_validate c]) (\<lambda>_.
     and_then (project_lair_to_action_proposal_static ir) (\<lambda>projection.
     and_then (checks [
       binding_when (pj_direct_bindings projection \<noteq> DIRECT_BINDINGS) ''static direct binding set drift'',
       binding_when (pj_blocked_implicit_mappings projection \<noteq> BLOCKED_IMPLICIT_MAPPINGS) ''static blocked mapping set drift'',
       binding_when (px_expected_lair_payload_digest c \<noteq> ca_payload_digest ir) ''context/LAIR payload digest mismatch'',
       binding_when (pj_action_proposal_payload_digest projection \<noteq> ca_payload_digest ir) ''static projection payload binding mismatch'',
       wrap_errors (\<lambda>_. True) (Exn ActionProposalContextBindingError ''ActionProposal context validation failed'')
         (proposal_validate (proposal_of ir c))]) (\<lambda>_. Inr (proposal_of ir c))))"

end
