(* ===== verification/Runtime_Contracts.thy ===== *)
theory Runtime_Contracts
  imports Prelude Py_Hash Py_Json Py_Time Py_Json_Inject
begin

text \<open>
  The contracts of the governed runtime: contracts/runtime_enforcement.py (evidence of a policy decision, runtime identity,
  requested effect, admission), contracts/runtime_currentness.py (currentness at the time of the effect),
  contracts/runtime_execution.py (request and receipt of an execution), contracts/runtime_reconciliation.py (independent
  observation and reconciliation) and the operations and receipts of contracts/executor_sandbox.py.

  Each record has a JSON form in the order of its fields without its own digest, a domain-separated digest, a check
  without and a validator with the digest. The \<open>digest()\<close> methods of the source validate first; here the digest is a plain
  function, because every caller has validated.
\<close>

section \<open>Text, digests and times\<close>

definition contract_text :: "exn_class \<Rightarrow> nat \<Rightarrow> string \<Rightarrow> string \<Rightarrow> unit res" where
  "contract_text e limit v n = raise_when (text_invalid limit v) e (n @ '' invalid'')"

definition contract_digest :: "exn_class \<Rightarrow> string \<Rightarrow> string \<Rightarrow> unit res" where
  "contract_digest e v n = checks [contract_text e 64 v n, raise_when (\<not> is_hex 64 v) e (n @ '' must be sha256 hex'')]"

definition contract_utc :: "exn_class \<Rightarrow> string \<Rightarrow> string \<Rightarrow> int res" where
  "contract_utc e v n = and_then (contract_text e 2048 v n) (\<lambda>_. case fromisoformat (replace_z v) of
     None \<Rightarrow> Inl (Exn e (n @ '' invalid''))
   | Some (l, None) \<Rightarrow> Inl (Exn e (n @ '' must be timezone-aware''))
   | Some (l, Some o') \<Rightarrow> Inr (l - o'))"

text \<open>The loops over the names of text and digest fields.\<close>

definition texts :: "exn_class \<Rightarrow> (string \<times> string) list \<Rightarrow> unit res" where
  "texts e nvs = checks (map (\<lambda>(n, v). contract_text e 2048 v n) nvs)"

definition digests :: "exn_class \<Rightarrow> (string \<times> string) list \<Rightarrow> unit res" where
  "digests e nvs = checks (map (\<lambda>(n, v). contract_digest e v n) nvs)"

definition valid_time :: "exn_class \<Rightarrow> string \<Rightarrow> string \<Rightarrow> unit res" where
  "valid_time e v n = and_then (contract_utc e v n) (\<lambda>_. Inr ())"

definition opt_int :: "int option \<Rightarrow> json" where
  "opt_int x = (case x of None \<Rightarrow> JNull | Some i \<Rightarrow> JInt i)"

definition observability_states :: "string list" where
  "observability_states = [''HEALTHY'', ''DEGRADED'', ''LOST'']"

lemma contract_text_ok [simp]: "contract_text e l v n = Inr u \<longleftrightarrow> \<not> text_invalid l v"
  by (simp add: contract_text_def)

lemma contract_digest_ok [simp]: "contract_digest e v n = Inr u \<longleftrightarrow> is_hex 64 v"
  using is_hex_text [of 64 v 64] by (auto simp: contract_digest_def)

lemma texts_ok [simp]: "texts e nvs = Inr u \<longleftrightarrow> (\<forall>nv\<in>set nvs. \<not> text_invalid 2048 (snd nv))"
  by (auto simp: texts_def checks_ok)

lemma digests_ok [simp]: "digests e nvs = Inr u \<longleftrightarrow> (\<forall>nv\<in>set nvs. is_hex 64 (snd nv))"
  by (auto simp: digests_def checks_ok)

section \<open>Trust bindings\<close>

text \<open>The four sources (policy decisions, currentness, admissions, observations) are bound by the same five texts.\<close>

record trust_binding =
  tb_source_id :: string
  tb_source_instance_id :: string
  tb_source_implementation_digest :: string
  tb_trust_anchor_id :: string
  tb_trust_anchor_digest :: string
  tb_schema_version :: string

definition trust_validate :: "exn_class \<Rightarrow> string \<Rightarrow> string \<Rightarrow> trust_binding \<Rightarrow> unit res" where
  "trust_validate e schema unsupported b = checks [
     raise_when (tb_schema_version b \<noteq> schema) e unsupported,
     texts e [(''source_id'', tb_source_id b), (''source_instance_id'', tb_source_instance_id b),
       (''trust_anchor_id'', tb_trust_anchor_id b)],
     contract_digest e (tb_source_implementation_digest b) ''source_implementation_digest'',
     contract_digest e (tb_trust_anchor_digest b) ''trust_anchor_digest'']"

definition pdp_trust_validate :: "trust_binding \<Rightarrow> unit res" where
  "pdp_trust_validate = trust_validate RuntimeEnforcementContractError ''1.1.0'' ''unsupported PDP source trust schema''"

definition currentness_trust_validate :: "trust_binding \<Rightarrow> unit res" where
  "currentness_trust_validate = trust_validate RuntimeCurrentnessContractError ''1.0.0'' ''unsupported currentness trust schema''"

definition admission_trust_validate :: "trust_binding \<Rightarrow> unit res" where
  "admission_trust_validate = trust_validate RuntimeExecutionContractError ''1.0.0'' ''unsupported admission source trust schema''"

definition observer_trust_validate :: "trust_binding \<Rightarrow> unit res" where
  "observer_trust_validate = trust_validate RuntimeReconciliationContractError ''1.0.0'' ''unsupported observer trust schema''"

text \<open>\<open>binding()\<close>, the five texts that identify a source.\<close>

type_synonym source_binding = "string \<times> string \<times> string \<times> string \<times> string"

definition trust_of :: "trust_binding \<Rightarrow> source_binding" where
  "trust_of b = (tb_source_id b, tb_source_instance_id b, tb_source_implementation_digest b, tb_trust_anchor_id b,
     tb_trust_anchor_digest b)"

section \<open>Admission\<close>

record pdp_evidence =
  pv_request_id :: string
  pv_gate_event_id :: string
  pv_proposal_id :: string
  pv_gate_decision_digest :: string
  pv_pdp_receipt_digest :: string
  pv_request_digest :: string
  pv_replay_key :: string
  pv_policy_binding :: string
  pv_authority_lineage_digest :: string
  pv_observability_state :: string
  pv_source_id :: string
  pv_source_instance_id :: string
  pv_source_implementation_digest :: string
  pv_trust_anchor_id :: string
  pv_trust_anchor_digest :: string
  pv_issued_at :: string
  pv_expires_at :: string
  pv_evidence_digest :: string
  pv_schema_version :: string

definition pdp_evidence_json :: "pdp_evidence \<Rightarrow> json" where
  "pdp_evidence_json p = JObj [
     (''request_id'', JStr (pv_request_id p)), (''gate_event_id'', JStr (pv_gate_event_id p)),
     (''proposal_id'', JStr (pv_proposal_id p)), (''gate_decision_digest'', JStr (pv_gate_decision_digest p)),
     (''pdp_receipt_digest'', JStr (pv_pdp_receipt_digest p)), (''request_digest'', JStr (pv_request_digest p)),
     (''replay_key'', JStr (pv_replay_key p)), (''policy_binding'', JStr (pv_policy_binding p)),
     (''authority_lineage_digest'', JStr (pv_authority_lineage_digest p)),
     (''observability_state'', JStr (pv_observability_state p)), (''source_id'', JStr (pv_source_id p)),
     (''source_instance_id'', JStr (pv_source_instance_id p)),
     (''source_implementation_digest'', JStr (pv_source_implementation_digest p)),
     (''trust_anchor_id'', JStr (pv_trust_anchor_id p)), (''trust_anchor_digest'', JStr (pv_trust_anchor_digest p)),
     (''issued_at'', JStr (pv_issued_at p)), (''expires_at'', JStr (pv_expires_at p)),
     (''schema_version'', JStr (pv_schema_version p))]"

definition pdp_evidence_digest :: "pdp_evidence \<Rightarrow> string" where
  "pdp_evidence_digest p = sha256 (''LION/F009-PDP-EVIDENCE/2'' @ nul # canon (pdp_evidence_json p))"

definition pdp_window :: "pdp_evidence \<Rightarrow> unit res" where
  "pdp_window p = and_then (contract_utc RuntimeEnforcementContractError (pv_issued_at p) ''issued_at'') (\<lambda>issued.
     and_then (contract_utc RuntimeEnforcementContractError (pv_expires_at p) ''expires_at'') (\<lambda>expires.
     raise_when (expires \<le> issued) RuntimeEnforcementContractError ''PDP evidence expiry must follow issue time''))"

definition pdp_evidence_check :: "pdp_evidence \<Rightarrow> unit res" where
  "pdp_evidence_check p = checks [
     raise_when (pv_schema_version p \<noteq> ''1.1.0'') RuntimeEnforcementContractError ''unsupported PDP evidence schema'',
     texts RuntimeEnforcementContractError [(''request_id'', pv_request_id p), (''gate_event_id'', pv_gate_event_id p), (''proposal_id'', pv_proposal_id p),
       (''policy_binding'', pv_policy_binding p), (''source_id'', pv_source_id p),
       (''source_instance_id'', pv_source_instance_id p), (''trust_anchor_id'', pv_trust_anchor_id p)],
     digests RuntimeEnforcementContractError [(''gate_decision_digest'', pv_gate_decision_digest p), (''pdp_receipt_digest'', pv_pdp_receipt_digest p),
       (''request_digest'', pv_request_digest p), (''replay_key'', pv_replay_key p),
       (''authority_lineage_digest'', pv_authority_lineage_digest p),
       (''source_implementation_digest'', pv_source_implementation_digest p),
       (''trust_anchor_digest'', pv_trust_anchor_digest p)],
     raise_when (pv_observability_state p \<notin> set observability_states) RuntimeEnforcementContractError ''invalid observability_state'',
     pdp_window p]"

definition pdp_evidence_validate :: "pdp_evidence \<Rightarrow> unit res" where
  "pdp_evidence_validate p = checks [pdp_evidence_check p, contract_digest RuntimeEnforcementContractError (pv_evidence_digest p) ''evidence_digest'',
     raise_when (pv_evidence_digest p \<noteq> pdp_evidence_digest p) RuntimeEnforcementContractError ''PDP evidence digest mismatch'']"

definition pdp_evidence_sealed :: "pdp_evidence \<Rightarrow> pdp_evidence res" where
  "pdp_evidence_sealed p = and_then (pdp_evidence_check p) (\<lambda>_.
     let s = p\<lparr>pv_evidence_digest := pdp_evidence_digest p\<rparr> in and_then (pdp_evidence_validate s) (\<lambda>_. Inr s))"

record runtime_identity =
  ib_workload_identity :: string
  ib_execution_subject :: string
  ib_runtime_instance_id :: string
  ib_sandbox_id :: string
  ib_workspace_id :: string
  ib_runtime_attestation_digest :: string
  ib_provisioned_executor_digest :: string
  ib_schema_version :: string

definition runtime_identity_json :: "runtime_identity \<Rightarrow> json" where
  "runtime_identity_json i = JObj [
     (''workload_identity'', JStr (ib_workload_identity i)), (''execution_subject'', JStr (ib_execution_subject i)),
     (''runtime_instance_id'', JStr (ib_runtime_instance_id i)), (''sandbox_id'', JStr (ib_sandbox_id i)),
     (''workspace_id'', JStr (ib_workspace_id i)), (''runtime_attestation_digest'', JStr (ib_runtime_attestation_digest i)),
     (''provisioned_executor_digest'', JStr (ib_provisioned_executor_digest i)),
     (''schema_version'', JStr (ib_schema_version i))]"

definition runtime_identity_digest :: "runtime_identity \<Rightarrow> string" where
  "runtime_identity_digest i = sha256 (''LION/F009-RUNTIME-IDENTITY/2'' @ nul # canon (runtime_identity_json i))"

definition runtime_identity_validate :: "runtime_identity \<Rightarrow> unit res" where
  "runtime_identity_validate i = checks [
     raise_when (ib_schema_version i \<noteq> ''1.1.0'') RuntimeEnforcementContractError ''unsupported runtime identity schema'',
     texts RuntimeEnforcementContractError [(''workload_identity'', ib_workload_identity i), (''execution_subject'', ib_execution_subject i),
       (''runtime_instance_id'', ib_runtime_instance_id i), (''sandbox_id'', ib_sandbox_id i),
       (''workspace_id'', ib_workspace_id i)],
     digests RuntimeEnforcementContractError [(''runtime_attestation_digest'', ib_runtime_attestation_digest i),
       (''provisioned_executor_digest'', ib_provisioned_executor_digest i)]]"

record requested_effect =
  qe_effect_id :: string
  qe_proposal_id :: string
  qe_mission_id :: string
  qe_policy_binding :: string
  qe_authority_lineage_digest :: string
  qe_requested_authority :: string
  qe_action_class :: string
  qe_resource :: string
  qe_payload_digest :: string
  qe_observability_state :: string
  qe_runtime_identity_digest :: string
  qe_schema_version :: string

definition requested_effect_json :: "requested_effect \<Rightarrow> json" where
  "requested_effect_json e = JObj [
     (''effect_id'', JStr (qe_effect_id e)), (''proposal_id'', JStr (qe_proposal_id e)),
     (''mission_id'', JStr (qe_mission_id e)), (''policy_binding'', JStr (qe_policy_binding e)),
     (''authority_lineage_digest'', JStr (qe_authority_lineage_digest e)),
     (''requested_authority'', JStr (qe_requested_authority e)), (''action_class'', JStr (qe_action_class e)),
     (''resource'', JStr (qe_resource e)), (''payload_digest'', JStr (qe_payload_digest e)),
     (''observability_state'', JStr (qe_observability_state e)),
     (''runtime_identity_digest'', JStr (qe_runtime_identity_digest e)), (''schema_version'', JStr (qe_schema_version e))]"

definition requested_effect_digest :: "requested_effect \<Rightarrow> string" where
  "requested_effect_digest e = sha256 (''LION/F009-REQUESTED-EFFECT/2'' @ nul # canon (requested_effect_json e))"

definition requested_effect_validate :: "requested_effect \<Rightarrow> unit res" where
  "requested_effect_validate e = checks [
     raise_when (qe_schema_version e \<noteq> ''1.1.0'') RuntimeEnforcementContractError ''unsupported requested effect schema'',
     texts RuntimeEnforcementContractError [(''effect_id'', qe_effect_id e), (''proposal_id'', qe_proposal_id e), (''mission_id'', qe_mission_id e),
       (''policy_binding'', qe_policy_binding e), (''requested_authority'', qe_requested_authority e),
       (''action_class'', qe_action_class e), (''resource'', qe_resource e)],
     digests RuntimeEnforcementContractError [(''authority_lineage_digest'', qe_authority_lineage_digest e), (''payload_digest'', qe_payload_digest e),
       (''runtime_identity_digest'', qe_runtime_identity_digest e)],
     raise_when (qe_observability_state e \<notin> set observability_states) RuntimeEnforcementContractError ''invalid observability_state'']"

record runtime_admission =
  rn_admission_id :: string
  rn_request_id :: string
  rn_gate_event_id :: string
  rn_proposal_id :: string
  rn_gate_decision_digest :: string
  rn_pdp_receipt_digest :: string
  rn_pdp_evidence_digest :: string
  rn_live_authority_digest :: string
  rn_authority_lineage_digest :: string
  rn_policy_binding :: string
  rn_effective_authority :: string
  rn_requested_effect_digest :: string
  rn_runtime_identity_digest :: string
  rn_provisioned_executor_digest :: string
  rn_observability_state :: string
  rn_replay_key :: string
  rn_admission_digest :: string
  rn_schema_version :: string

definition runtime_admission_json :: "runtime_admission \<Rightarrow> json" where
  "runtime_admission_json a = JObj [
     (''admission_id'', JStr (rn_admission_id a)), (''request_id'', JStr (rn_request_id a)),
     (''gate_event_id'', JStr (rn_gate_event_id a)), (''proposal_id'', JStr (rn_proposal_id a)),
     (''gate_decision_digest'', JStr (rn_gate_decision_digest a)), (''pdp_receipt_digest'', JStr (rn_pdp_receipt_digest a)),
     (''pdp_evidence_digest'', JStr (rn_pdp_evidence_digest a)),
     (''live_authority_digest'', JStr (rn_live_authority_digest a)),
     (''authority_lineage_digest'', JStr (rn_authority_lineage_digest a)), (''policy_binding'', JStr (rn_policy_binding a)),
     (''effective_authority'', JStr (rn_effective_authority a)),
     (''requested_effect_digest'', JStr (rn_requested_effect_digest a)),
     (''runtime_identity_digest'', JStr (rn_runtime_identity_digest a)),
     (''provisioned_executor_digest'', JStr (rn_provisioned_executor_digest a)),
     (''observability_state'', JStr (rn_observability_state a)), (''replay_key'', JStr (rn_replay_key a)),
     (''schema_version'', JStr (rn_schema_version a))]"

definition runtime_admission_digest :: "runtime_admission \<Rightarrow> string" where
  "runtime_admission_digest a = sha256 (''LION/F009-RUNTIME-ADMISSION/2'' @ nul # canon (runtime_admission_json a))"

definition runtime_admission_check :: "runtime_admission \<Rightarrow> unit res" where
  "runtime_admission_check a = checks [
     raise_when (rn_schema_version a \<noteq> ''1.1.0'') RuntimeEnforcementContractError ''unsupported runtime admission schema'',
     texts RuntimeEnforcementContractError [(''admission_id'', rn_admission_id a), (''request_id'', rn_request_id a), (''gate_event_id'', rn_gate_event_id a),
       (''proposal_id'', rn_proposal_id a), (''policy_binding'', rn_policy_binding a),
       (''effective_authority'', rn_effective_authority a)],
     digests RuntimeEnforcementContractError [(''gate_decision_digest'', rn_gate_decision_digest a), (''pdp_receipt_digest'', rn_pdp_receipt_digest a),
       (''pdp_evidence_digest'', rn_pdp_evidence_digest a), (''live_authority_digest'', rn_live_authority_digest a),
       (''authority_lineage_digest'', rn_authority_lineage_digest a),
       (''requested_effect_digest'', rn_requested_effect_digest a),
       (''runtime_identity_digest'', rn_runtime_identity_digest a),
       (''provisioned_executor_digest'', rn_provisioned_executor_digest a), (''replay_key'', rn_replay_key a)],
     raise_when (rn_observability_state a \<notin> set observability_states) RuntimeEnforcementContractError ''invalid observability_state'']"

definition runtime_admission_validate :: "runtime_admission \<Rightarrow> unit res" where
  "runtime_admission_validate a = checks [runtime_admission_check a, contract_digest RuntimeEnforcementContractError (rn_admission_digest a) ''admission_digest'',
     raise_when (rn_admission_digest a \<noteq> runtime_admission_digest a) RuntimeEnforcementContractError ''admission_digest mismatch'']"

definition runtime_admission_sealed :: "runtime_admission \<Rightarrow> runtime_admission res" where
  "runtime_admission_sealed a = and_then (runtime_admission_check a) (\<lambda>_.
     let s = a\<lparr>rn_admission_digest := runtime_admission_digest a\<rparr> in and_then (runtime_admission_validate s) (\<lambda>_. Inr s))"

section \<open>Currentness at the time of the effect\<close>

record effect_currentness =
  cu_evidence_id :: string
  cu_admission_digest :: string
  cu_requested_effect_digest :: string
  cu_runtime_identity_digest :: string
  cu_live_authority_digest :: string
  cu_authority_lineage_digest :: string
  cu_policy_binding :: string
  cu_observability_state :: string
  cu_source_id :: string
  cu_source_instance_id :: string
  cu_source_implementation_digest :: string
  cu_trust_anchor_id :: string
  cu_trust_anchor_digest :: string
  cu_observed_at :: string
  cu_evidence_digest :: string
  cu_schema_version :: string

definition effect_currentness_json :: "effect_currentness \<Rightarrow> json" where
  "effect_currentness_json c = JObj [
     (''evidence_id'', JStr (cu_evidence_id c)), (''admission_digest'', JStr (cu_admission_digest c)),
     (''requested_effect_digest'', JStr (cu_requested_effect_digest c)),
     (''runtime_identity_digest'', JStr (cu_runtime_identity_digest c)),
     (''live_authority_digest'', JStr (cu_live_authority_digest c)),
     (''authority_lineage_digest'', JStr (cu_authority_lineage_digest c)), (''policy_binding'', JStr (cu_policy_binding c)),
     (''observability_state'', JStr (cu_observability_state c)), (''source_id'', JStr (cu_source_id c)),
     (''source_instance_id'', JStr (cu_source_instance_id c)),
     (''source_implementation_digest'', JStr (cu_source_implementation_digest c)),
     (''trust_anchor_id'', JStr (cu_trust_anchor_id c)), (''trust_anchor_digest'', JStr (cu_trust_anchor_digest c)),
     (''observed_at'', JStr (cu_observed_at c)), (''schema_version'', JStr (cu_schema_version c))]"

definition effect_currentness_digest :: "effect_currentness \<Rightarrow> string" where
  "effect_currentness_digest c = sha256 (''LION/F009-EFFECT-CURRENTNESS/1'' @ nul # canon (effect_currentness_json c))"

definition effect_currentness_check :: "effect_currentness \<Rightarrow> unit res" where
  "effect_currentness_check c = checks [
     raise_when (cu_schema_version c \<noteq> ''1.0.0'') RuntimeCurrentnessContractError ''unsupported currentness evidence schema'',
     texts RuntimeCurrentnessContractError [(''evidence_id'', cu_evidence_id c), (''policy_binding'', cu_policy_binding c), (''source_id'', cu_source_id c),
       (''source_instance_id'', cu_source_instance_id c), (''trust_anchor_id'', cu_trust_anchor_id c)],
     digests RuntimeCurrentnessContractError [(''admission_digest'', cu_admission_digest c), (''requested_effect_digest'', cu_requested_effect_digest c),
       (''runtime_identity_digest'', cu_runtime_identity_digest c), (''live_authority_digest'', cu_live_authority_digest c),
       (''authority_lineage_digest'', cu_authority_lineage_digest c),
       (''source_implementation_digest'', cu_source_implementation_digest c),
       (''trust_anchor_digest'', cu_trust_anchor_digest c)],
     raise_when (cu_observability_state c \<notin> set observability_states) RuntimeCurrentnessContractError ''invalid observability_state'',
     valid_time RuntimeCurrentnessContractError (cu_observed_at c) ''observed_at'']"

definition effect_currentness_validate :: "effect_currentness \<Rightarrow> unit res" where
  "effect_currentness_validate c = checks [effect_currentness_check c, contract_digest RuntimeCurrentnessContractError (cu_evidence_digest c) ''evidence_digest'',
     raise_when (cu_evidence_digest c \<noteq> effect_currentness_digest c) RuntimeCurrentnessContractError ''evidence_digest mismatch'']"

definition effect_currentness_sealed :: "effect_currentness \<Rightarrow> effect_currentness res" where
  "effect_currentness_sealed c = and_then (effect_currentness_check c) (\<lambda>_.
     let s = c\<lparr>cu_evidence_digest := effect_currentness_digest c\<rparr> in and_then (effect_currentness_validate s) (\<lambda>_. Inr s))"

section \<open>Execution\<close>

definition runtime_actions :: "string list" where
  "runtime_actions = [''READ_FILE'', ''WRITE_FILE'', ''RUN_TEST'']"

definition runtime_outcomes :: "string list" where
  "runtime_outcomes = [''SUCCEEDED'', ''FAILED'', ''ABORTED'']"

definition effect_states :: "string list" where
  "effect_states = [''OBSERVED'', ''UNKNOWN'', ''PARTIAL_UNKNOWN'']"

definition command_check :: "exn_class \<Rightarrow> string list \<Rightarrow> unit res" where
  "command_check e ts = checks (raise_when (ts = []) e ''command invalid'' # concat (map (\<lambda>t. [
     contract_text e 2048 t ''command token'',
     raise_when (CHR 0x0A \<in> set t \<or> CHR 0x0D \<in> set t) e ''command token invalid'']) ts))"

record execution_request =
  xq_execution_id :: string
  xq_admission_digest :: string
  xq_requested_effect_digest :: string
  xq_runtime_identity_digest :: string
  xq_provisioned_executor_digest :: string
  xq_mission_id :: string
  xq_executor_id :: string
  xq_runtime_instance_id :: string
  xq_sandbox_id :: string
  xq_workspace_id :: string
  xq_dispatch_id :: string
  xq_fencing_token :: string
  xq_generation :: int
  xq_action :: string
  xq_resource :: string
  xq_payload_digest :: string
  xq_payload_size :: int
  xq_command :: "string list"
  xq_schema_version :: string

definition execution_request_json :: "execution_request \<Rightarrow> json" where
  "execution_request_json q = JObj [
     (''execution_id'', JStr (xq_execution_id q)), (''admission_digest'', JStr (xq_admission_digest q)),
     (''requested_effect_digest'', JStr (xq_requested_effect_digest q)),
     (''runtime_identity_digest'', JStr (xq_runtime_identity_digest q)),
     (''provisioned_executor_digest'', JStr (xq_provisioned_executor_digest q)), (''mission_id'', JStr (xq_mission_id q)),
     (''executor_id'', JStr (xq_executor_id q)), (''runtime_instance_id'', JStr (xq_runtime_instance_id q)),
     (''sandbox_id'', JStr (xq_sandbox_id q)), (''workspace_id'', JStr (xq_workspace_id q)),
     (''dispatch_id'', JStr (xq_dispatch_id q)), (''fencing_token'', JStr (xq_fencing_token q)),
     (''generation'', JInt (xq_generation q)), (''action'', JStr (xq_action q)), (''resource'', JStr (xq_resource q)),
     (''payload_digest'', JStr (xq_payload_digest q)), (''payload_size'', JInt (xq_payload_size q)),
     (''command'', strs (xq_command q)), (''schema_version'', JStr (xq_schema_version q))]"

definition execution_request_digest :: "execution_request \<Rightarrow> string" where
  "execution_request_digest q = sha256 (''LION/F009-RUNTIME-EXECUTION-REQUEST/1'' @ nul # canon (execution_request_json q))"

definition execution_request_validate :: "execution_request \<Rightarrow> unit res" where
  "execution_request_validate q = checks [
     raise_when (xq_schema_version q \<noteq> ''1.0.0'') RuntimeExecutionContractError ''unsupported execution request schema'',
     texts RuntimeExecutionContractError [(''execution_id'', xq_execution_id q), (''mission_id'', xq_mission_id q), (''executor_id'', xq_executor_id q),
       (''runtime_instance_id'', xq_runtime_instance_id q), (''sandbox_id'', xq_sandbox_id q),
       (''workspace_id'', xq_workspace_id q), (''resource'', xq_resource q)],
     digests RuntimeExecutionContractError [(''admission_digest'', xq_admission_digest q), (''requested_effect_digest'', xq_requested_effect_digest q),
       (''runtime_identity_digest'', xq_runtime_identity_digest q),
       (''provisioned_executor_digest'', xq_provisioned_executor_digest q), (''dispatch_id'', xq_dispatch_id q),
       (''fencing_token'', xq_fencing_token q), (''payload_digest'', xq_payload_digest q)],
     raise_when (xq_generation q < 1) RuntimeExecutionContractError ''generation invalid'',
     raise_when (xq_action q \<notin> set runtime_actions) RuntimeExecutionContractError ''action invalid'',
     raise_when (xq_payload_size q < 0) RuntimeExecutionContractError ''payload_size invalid'',
     if xq_action q = ''WRITE_FILE'' then raise_when (xq_payload_size q < 1 \<or> xq_command q \<noteq> []) RuntimeExecutionContractError ''WRITE_FILE payload/command invalid''
     else if xq_action q = ''RUN_TEST'' then checks [
       raise_when (xq_payload_size q \<noteq> 0) RuntimeExecutionContractError ''RUN_TEST payload_size must be zero'',
       command_check RuntimeExecutionContractError (xq_command q)]
     else raise_when (xq_payload_size q \<noteq> 0 \<or> xq_command q \<noteq> []) RuntimeExecutionContractError ''READ_FILE cannot carry payload or command'']"

record runtime_receipt =
  xr_receipt_id :: string
  xr_execution_id :: string
  xr_admission_digest :: string
  xr_request_digest :: string
  xr_sandbox_receipt_digest :: string
  xr_operation_digest :: string
  xr_mission_id :: string
  xr_executor_id :: string
  xr_runtime_instance_id :: string
  xr_sandbox_id :: string
  xr_workspace_id :: string
  xr_dispatch_id :: string
  xr_fencing_token :: string
  xr_generation :: int
  xr_action :: string
  xr_resource :: string
  xr_payload_digest :: string
  xr_outcome :: string
  xr_effect_state :: string
  xr_effect_digest :: string
  xr_observed_events :: "string list"
  xr_side_effect_refs :: "string list"
  xr_receipt_digest :: string
  xr_schema_version :: string

definition runtime_receipt_json :: "runtime_receipt \<Rightarrow> json" where
  "runtime_receipt_json r = JObj [
     (''receipt_id'', JStr (xr_receipt_id r)), (''execution_id'', JStr (xr_execution_id r)),
     (''admission_digest'', JStr (xr_admission_digest r)), (''request_digest'', JStr (xr_request_digest r)),
     (''sandbox_receipt_digest'', JStr (xr_sandbox_receipt_digest r)), (''operation_digest'', JStr (xr_operation_digest r)),
     (''mission_id'', JStr (xr_mission_id r)), (''executor_id'', JStr (xr_executor_id r)),
     (''runtime_instance_id'', JStr (xr_runtime_instance_id r)), (''sandbox_id'', JStr (xr_sandbox_id r)),
     (''workspace_id'', JStr (xr_workspace_id r)), (''dispatch_id'', JStr (xr_dispatch_id r)),
     (''fencing_token'', JStr (xr_fencing_token r)), (''generation'', JInt (xr_generation r)),
     (''action'', JStr (xr_action r)), (''resource'', JStr (xr_resource r)),
     (''payload_digest'', JStr (xr_payload_digest r)), (''outcome'', JStr (xr_outcome r)),
     (''effect_state'', JStr (xr_effect_state r)), (''effect_digest'', JStr (xr_effect_digest r)),
     (''observed_events'', strs (xr_observed_events r)), (''side_effect_refs'', strs (xr_side_effect_refs r)),
     (''schema_version'', JStr (xr_schema_version r))]"

definition runtime_receipt_digest :: "runtime_receipt \<Rightarrow> string" where
  "runtime_receipt_digest r = sha256 (''LION/F009-RUNTIME-EXECUTION-RECEIPT/1'' @ nul # canon (runtime_receipt_json r))"

definition runtime_receipt_check :: "runtime_receipt \<Rightarrow> unit res" where
  "runtime_receipt_check r = checks [
     raise_when (xr_schema_version r \<noteq> ''1.0.0'') RuntimeExecutionContractError ''unsupported execution receipt schema'',
     texts RuntimeExecutionContractError [(''receipt_id'', xr_receipt_id r), (''execution_id'', xr_execution_id r), (''mission_id'', xr_mission_id r),
       (''executor_id'', xr_executor_id r), (''runtime_instance_id'', xr_runtime_instance_id r),
       (''sandbox_id'', xr_sandbox_id r), (''workspace_id'', xr_workspace_id r), (''resource'', xr_resource r)],
     digests RuntimeExecutionContractError [(''admission_digest'', xr_admission_digest r), (''request_digest'', xr_request_digest r),
       (''sandbox_receipt_digest'', xr_sandbox_receipt_digest r), (''operation_digest'', xr_operation_digest r),
       (''dispatch_id'', xr_dispatch_id r), (''fencing_token'', xr_fencing_token r),
       (''payload_digest'', xr_payload_digest r), (''effect_digest'', xr_effect_digest r)],
     raise_when (xr_generation r < 1) RuntimeExecutionContractError ''generation invalid'',
     raise_when (xr_action r \<notin> set runtime_actions \<or> xr_outcome r \<notin> set runtime_outcomes \<or> xr_effect_state r \<notin> set effect_states) RuntimeExecutionContractError ''receipt classification invalid'',
     raise_when (xr_observed_events r = [] \<or> \<not> no_dup (xr_observed_events r)) RuntimeExecutionContractError ''observed_events invalid'',
     raise_when (\<not> no_dup (xr_side_effect_refs r)) RuntimeExecutionContractError ''side_effect_refs invalid'',
     raise_when (xr_outcome r = ''SUCCEEDED'' \<and> xr_effect_state r \<noteq> ''OBSERVED'') RuntimeExecutionContractError ''success requires observed effect'',
     raise_when (xr_effect_state r \<in> set [''UNKNOWN'', ''PARTIAL_UNKNOWN''] \<and> xr_outcome r = ''SUCCEEDED'') RuntimeExecutionContractError ''unknown effect cannot succeed'',
     raise_when (xr_effect_state r = ''PARTIAL_UNKNOWN'' \<and> xr_side_effect_refs r = []) RuntimeExecutionContractError ''partial unknown effect requires side-effect evidence'',
     raise_when (xr_action r = ''WRITE_FILE'' \<and> xr_outcome r = ''SUCCEEDED'' \<and> xr_side_effect_refs r = []) RuntimeExecutionContractError ''successful write requires side-effect reference'']"

definition runtime_receipt_validate :: "runtime_receipt \<Rightarrow> unit res" where
  "runtime_receipt_validate r = checks [runtime_receipt_check r, contract_digest RuntimeExecutionContractError (xr_receipt_digest r) ''receipt_digest'',
     raise_when (xr_receipt_digest r \<noteq> runtime_receipt_digest r) RuntimeExecutionContractError ''receipt_digest mismatch'']"

definition runtime_receipt_sealed :: "runtime_receipt \<Rightarrow> runtime_receipt res" where
  "runtime_receipt_sealed r = and_then (runtime_receipt_check r) (\<lambda>_.
     let s = r\<lparr>xr_receipt_digest := runtime_receipt_digest r\<rparr> in and_then (runtime_receipt_validate s) (\<lambda>_. Inr s))"

section \<open>Observation and reconciliation\<close>

record effect_observation =
  ob_observation_id :: string
  ob_execution_id :: string
  ob_admission_digest :: string
  ob_request_digest :: string
  ob_operation_digest :: string
  ob_action :: string
  ob_resource :: string
  ob_effect_state :: string
  ob_effect_digest :: string
  ob_observed_events :: "string list"
  ob_side_effect_refs :: "string list"
  ob_source_id :: string
  ob_source_instance_id :: string
  ob_source_implementation_digest :: string
  ob_trust_anchor_id :: string
  ob_trust_anchor_digest :: string
  ob_observed_at :: string
  ob_observation_digest :: string
  ob_schema_version :: string

definition effect_observation_json :: "effect_observation \<Rightarrow> json" where
  "effect_observation_json b = JObj [
     (''observation_id'', JStr (ob_observation_id b)), (''execution_id'', JStr (ob_execution_id b)),
     (''admission_digest'', JStr (ob_admission_digest b)), (''request_digest'', JStr (ob_request_digest b)),
     (''operation_digest'', JStr (ob_operation_digest b)), (''action'', JStr (ob_action b)),
     (''resource'', JStr (ob_resource b)), (''effect_state'', JStr (ob_effect_state b)),
     (''effect_digest'', JStr (ob_effect_digest b)), (''observed_events'', strs (ob_observed_events b)),
     (''side_effect_refs'', strs (ob_side_effect_refs b)), (''source_id'', JStr (ob_source_id b)),
     (''source_instance_id'', JStr (ob_source_instance_id b)),
     (''source_implementation_digest'', JStr (ob_source_implementation_digest b)),
     (''trust_anchor_id'', JStr (ob_trust_anchor_id b)), (''trust_anchor_digest'', JStr (ob_trust_anchor_digest b)),
     (''observed_at'', JStr (ob_observed_at b)), (''schema_version'', JStr (ob_schema_version b))]"

definition effect_observation_digest :: "effect_observation \<Rightarrow> string" where
  "effect_observation_digest b = sha256 (''LION/F009-RUNTIME-OBSERVATION/1'' @ nul # canon (effect_observation_json b))"

definition effect_observation_check :: "effect_observation \<Rightarrow> unit res" where
  "effect_observation_check b = checks [
     raise_when (ob_schema_version b \<noteq> ''1.0.0'') RuntimeReconciliationContractError ''unsupported observation schema'',
     texts RuntimeReconciliationContractError [(''observation_id'', ob_observation_id b), (''execution_id'', ob_execution_id b), (''action'', ob_action b),
       (''resource'', ob_resource b), (''source_id'', ob_source_id b), (''source_instance_id'', ob_source_instance_id b),
       (''trust_anchor_id'', ob_trust_anchor_id b)],
     digests RuntimeReconciliationContractError [(''admission_digest'', ob_admission_digest b), (''request_digest'', ob_request_digest b),
       (''operation_digest'', ob_operation_digest b), (''effect_digest'', ob_effect_digest b),
       (''source_implementation_digest'', ob_source_implementation_digest b),
       (''trust_anchor_digest'', ob_trust_anchor_digest b)],
     raise_when (ob_effect_state b \<notin> set effect_states) RuntimeReconciliationContractError ''invalid effect_state'',
     raise_when (ob_observed_events b = [] \<or> \<not> no_dup (ob_observed_events b)) RuntimeReconciliationContractError ''observed_events invalid'',
     raise_when (\<not> no_dup (ob_side_effect_refs b)) RuntimeReconciliationContractError ''side_effect_refs invalid'',
     raise_when (ob_effect_state b = ''PARTIAL_UNKNOWN'' \<and> ob_side_effect_refs b = []) RuntimeReconciliationContractError ''partial unknown requires side-effect evidence'',
     valid_time RuntimeReconciliationContractError (ob_observed_at b) ''observed_at'']"

definition effect_observation_validate :: "effect_observation \<Rightarrow> unit res" where
  "effect_observation_validate b = checks [effect_observation_check b, contract_digest RuntimeReconciliationContractError (ob_observation_digest b) ''observation_digest'',
     raise_when (ob_observation_digest b \<noteq> effect_observation_digest b) RuntimeReconciliationContractError ''observation_digest mismatch'']"

definition effect_observation_sealed :: "effect_observation \<Rightarrow> effect_observation res" where
  "effect_observation_sealed b = and_then (effect_observation_check b) (\<lambda>_.
     let s = b\<lparr>ob_observation_digest := effect_observation_digest b\<rparr> in and_then (effect_observation_validate s) (\<lambda>_. Inr s))"

definition dispositions :: "string list" where
  "dispositions = [''MATCHED'', ''NON_SUCCESS_RECONCILED'', ''MISMATCH'', ''UNKNOWN'']"

record reconciliation_receipt =
  rx_reconciliation_id :: string
  rx_runtime_execution_receipt_digest :: string
  rx_effect_observation_digest :: string
  rx_currentness_evidence_digest :: string
  rx_execution_id :: string
  rx_admission_digest :: string
  rx_disposition :: string
  rx_anomaly_codes :: "string list"
  rx_reconciled_effect_digest :: string
  rx_reconciled_at :: string
  rx_reconciliation_digest :: string
  rx_schema_version :: string

definition reconciliation_receipt_json :: "reconciliation_receipt \<Rightarrow> json" where
  "reconciliation_receipt_json x = JObj [
     (''reconciliation_id'', JStr (rx_reconciliation_id x)),
     (''runtime_execution_receipt_digest'', JStr (rx_runtime_execution_receipt_digest x)),
     (''effect_observation_digest'', JStr (rx_effect_observation_digest x)),
     (''currentness_evidence_digest'', JStr (rx_currentness_evidence_digest x)),
     (''execution_id'', JStr (rx_execution_id x)), (''admission_digest'', JStr (rx_admission_digest x)),
     (''disposition'', JStr (rx_disposition x)), (''anomaly_codes'', strs (rx_anomaly_codes x)),
     (''reconciled_effect_digest'', JStr (rx_reconciled_effect_digest x)), (''reconciled_at'', JStr (rx_reconciled_at x)),
     (''schema_version'', JStr (rx_schema_version x))]"

definition reconciliation_receipt_digest :: "reconciliation_receipt \<Rightarrow> string" where
  "reconciliation_receipt_digest x = sha256 (''LION/F009-RUNTIME-RECONCILIATION/1'' @ nul # canon (reconciliation_receipt_json x))"

definition reconciliation_receipt_check :: "reconciliation_receipt \<Rightarrow> unit res" where
  "reconciliation_receipt_check x = checks [
     raise_when (rx_schema_version x \<noteq> ''1.0.0'') RuntimeReconciliationContractError ''unsupported reconciliation schema'',
     texts RuntimeReconciliationContractError [(''reconciliation_id'', rx_reconciliation_id x), (''execution_id'', rx_execution_id x)],
     digests RuntimeReconciliationContractError [(''runtime_execution_receipt_digest'', rx_runtime_execution_receipt_digest x),
       (''effect_observation_digest'', rx_effect_observation_digest x),
       (''currentness_evidence_digest'', rx_currentness_evidence_digest x), (''admission_digest'', rx_admission_digest x),
       (''reconciled_effect_digest'', rx_reconciled_effect_digest x)],
     raise_when (rx_disposition x \<notin> set dispositions) RuntimeReconciliationContractError ''invalid disposition'',
     raise_when (\<not> no_dup (rx_anomaly_codes x)) RuntimeReconciliationContractError ''anomaly_codes invalid'',
     raise_when (rx_disposition x = ''MATCHED'' \<and> rx_anomaly_codes x \<noteq> []) RuntimeReconciliationContractError ''MATCHED cannot contain anomalies'',
     raise_when (rx_disposition x \<in> set [''MISMATCH'', ''UNKNOWN''] \<and> rx_anomaly_codes x = []) RuntimeReconciliationContractError ''non-matched disposition requires anomaly evidence'',
     valid_time RuntimeReconciliationContractError (rx_reconciled_at x) ''reconciled_at'']"

definition reconciliation_receipt_validate :: "reconciliation_receipt \<Rightarrow> unit res" where
  "reconciliation_receipt_validate x = checks [reconciliation_receipt_check x, contract_digest RuntimeReconciliationContractError (rx_reconciliation_digest x) ''reconciliation_digest'',
     raise_when (rx_reconciliation_digest x \<noteq> reconciliation_receipt_digest x) RuntimeReconciliationContractError ''reconciliation_digest mismatch'']"

definition reconciliation_receipt_sealed :: "reconciliation_receipt \<Rightarrow> reconciliation_receipt res" where
  "reconciliation_receipt_sealed x = and_then (reconciliation_receipt_check x) (\<lambda>_.
     let s = x\<lparr>rx_reconciliation_digest := reconciliation_receipt_digest x\<rparr> in and_then (reconciliation_receipt_validate s) (\<lambda>_. Inr s))"

section \<open>Sandbox operations\<close>

definition sandbox_digest :: "string \<Rightarrow> string \<Rightarrow> unit res" where
  "sandbox_digest v n = checks [contract_text ExecutionSandboxContractError 64 v n,
     raise_when (\<not> is_hex 64 v) ExecutionSandboxContractError (n @ '' must be sha256'')]"

definition sandbox_path :: "string \<Rightarrow> unit res" where
  "sandbox_path v = checks [
     contract_text ExecutionSandboxContractError 2048 v ''path'',
     raise_when (CHR 0x5C \<in> set v \<or> list_ex (\<lambda>c. c \<in> set ''*?[]'') v) ExecutionSandboxContractError ''path not concrete POSIX'',
     raise_when (starts_with ''/'' v \<or> ''..'' \<in> set (path_parts v) \<or> path_parts v = [] \<or> join ''/'' (path_parts v) \<noteq> v)
       ExecutionSandboxContractError ''path unsafe'']"

lemma sandbox_digest_ok [simp]: "sandbox_digest v n = Inr u \<longleftrightarrow> is_hex 64 v"
  using is_hex_text [of 64 v 64] by (auto simp: sandbox_digest_def)

record sandbox_operation =
  sb_operation_id :: string
  sb_mission_id :: string
  sb_drone_id :: string
  sb_executor_id :: string
  sb_sandbox_id :: string
  sb_workspace_id :: string
  sb_dispatch_id :: string
  sb_fencing_token :: string
  sb_generation :: int
  sb_policy_digest :: string
  sb_action :: string
  sb_path :: string
  sb_payload_digest :: "string option"
  sb_payload_size :: int
  sb_command :: "string list"
  sb_schema_version :: string

definition sandbox_operation_json :: "sandbox_operation \<Rightarrow> json" where
  "sandbox_operation_json p = JObj [
     (''operation_id'', JStr (sb_operation_id p)), (''mission_id'', JStr (sb_mission_id p)),
     (''drone_id'', JStr (sb_drone_id p)), (''executor_id'', JStr (sb_executor_id p)),
     (''sandbox_id'', JStr (sb_sandbox_id p)), (''workspace_id'', JStr (sb_workspace_id p)),
     (''dispatch_id'', JStr (sb_dispatch_id p)), (''fencing_token'', JStr (sb_fencing_token p)),
     (''generation'', JInt (sb_generation p)), (''policy_digest'', JStr (sb_policy_digest p)),
     (''action'', JStr (sb_action p)), (''path'', JStr (sb_path p)), (''payload_digest'', opt_str (sb_payload_digest p)),
     (''payload_size'', JInt (sb_payload_size p)), (''command'', strs (sb_command p)),
     (''schema_version'', JStr (sb_schema_version p))]"

definition sandbox_operation_digest :: "sandbox_operation \<Rightarrow> string" where
  "sandbox_operation_digest p = sha256 (''LION/SANDBOX-OP/2'' @ nul # canon (sandbox_operation_json p))"

definition sandbox_operation_validate :: "sandbox_operation \<Rightarrow> unit res" where
  "sandbox_operation_validate p = checks [
     raise_when (sb_schema_version p \<noteq> ''2.0.0'') ExecutionSandboxContractError ''operation schema'',
     texts ExecutionSandboxContractError [(''operation_id'', sb_operation_id p), (''mission_id'', sb_mission_id p), (''drone_id'', sb_drone_id p),
       (''executor_id'', sb_executor_id p), (''sandbox_id'', sb_sandbox_id p), (''workspace_id'', sb_workspace_id p)],
     checks (map (\<lambda>(n, v). sandbox_digest v n) [(''dispatch_id'', sb_dispatch_id p), (''fencing_token'', sb_fencing_token p), (''policy_digest'', sb_policy_digest p)]),
     raise_when (sb_generation p < 1) ExecutionSandboxContractError ''generation invalid'',
     raise_when (sb_action p \<notin> set runtime_actions) ExecutionSandboxContractError ''action invalid'',
     sandbox_path (sb_path p),
     raise_when (sb_payload_size p < 0) ExecutionSandboxContractError ''payload size'',
     if sb_action p = ''WRITE_FILE'' then (case sb_payload_digest p of
         None \<Rightarrow> Inl (Exn ExecutionSandboxContractError ''write digest missing'')
       | Some d \<Rightarrow> checks [sandbox_digest d ''payload_digest'', raise_when (sb_command p \<noteq> []) ExecutionSandboxContractError ''write command''])
     else if sb_action p = ''RUN_TEST'' then checks [
       raise_when (sb_payload_digest p \<noteq> None \<or> sb_payload_size p \<noteq> 0) ExecutionSandboxContractError ''test payload'',
       command_check ExecutionSandboxContractError (sb_command p)]
     else raise_when (sb_payload_digest p \<noteq> None \<or> sb_payload_size p \<noteq> 0 \<or> sb_command p \<noteq> []) ExecutionSandboxContractError ''read extras'']"

record sandbox_receipt =
  sr_receipt_id :: string
  sr_operation_id :: string
  sr_operation_digest :: string
  sr_policy_digest :: string
  sr_authority_binding_digest :: string
  sr_runtime_binding_digest :: string
  sr_fleet_dispatch_binding_digest :: string
  sr_provisioning_binding_digest :: string
  sr_mission_id :: string
  sr_drone_id :: string
  sr_executor_id :: string
  sr_sandbox_id :: string
  sr_workspace_id :: string
  sr_dispatch_id :: string
  sr_fencing_token :: string
  sr_generation :: int
  sr_runtime_instance_id :: string
  sr_runtime_attestation_digest :: string
  sr_action :: string
  sr_outcome :: string
  sr_effect_digest :: string
  sr_output_digest :: string
  sr_bytes_read :: int
  sr_bytes_written :: int
  sr_exit_code :: "int option"
  sr_observed_events :: "string list"
  sr_side_effect_refs :: "string list"
  sr_schema_version :: string

definition sandbox_receipt_json :: "sandbox_receipt \<Rightarrow> json" where
  "sandbox_receipt_json r = JObj [
     (''receipt_id'', JStr (sr_receipt_id r)), (''operation_id'', JStr (sr_operation_id r)),
     (''operation_digest'', JStr (sr_operation_digest r)), (''policy_digest'', JStr (sr_policy_digest r)),
     (''authority_binding_digest'', JStr (sr_authority_binding_digest r)),
     (''runtime_binding_digest'', JStr (sr_runtime_binding_digest r)),
     (''fleet_dispatch_binding_digest'', JStr (sr_fleet_dispatch_binding_digest r)),
     (''provisioning_binding_digest'', JStr (sr_provisioning_binding_digest r)), (''mission_id'', JStr (sr_mission_id r)),
     (''drone_id'', JStr (sr_drone_id r)), (''executor_id'', JStr (sr_executor_id r)),
     (''sandbox_id'', JStr (sr_sandbox_id r)), (''workspace_id'', JStr (sr_workspace_id r)),
     (''dispatch_id'', JStr (sr_dispatch_id r)), (''fencing_token'', JStr (sr_fencing_token r)),
     (''generation'', JInt (sr_generation r)), (''runtime_instance_id'', JStr (sr_runtime_instance_id r)),
     (''runtime_attestation_digest'', JStr (sr_runtime_attestation_digest r)), (''action'', JStr (sr_action r)),
     (''outcome'', JStr (sr_outcome r)), (''effect_digest'', JStr (sr_effect_digest r)),
     (''output_digest'', JStr (sr_output_digest r)), (''bytes_read'', JInt (sr_bytes_read r)),
     (''bytes_written'', JInt (sr_bytes_written r)), (''exit_code'', opt_int (sr_exit_code r)),
     (''observed_events'', strs (sr_observed_events r)), (''side_effect_refs'', strs (sr_side_effect_refs r)),
     (''schema_version'', JStr (sr_schema_version r))]"

definition sandbox_receipt_digest :: "sandbox_receipt \<Rightarrow> string" where
  "sandbox_receipt_digest r = sha256 (''LION/SANDBOX-RECEIPT/2'' @ nul # canon (sandbox_receipt_json r))"

definition sandbox_receipt_validate :: "sandbox_receipt \<Rightarrow> unit res" where
  "sandbox_receipt_validate r = checks [
     raise_when (sr_schema_version r \<noteq> ''2.0.0'') ExecutionSandboxContractError ''receipt schema'',
     texts ExecutionSandboxContractError [(''receipt_id'', sr_receipt_id r), (''operation_id'', sr_operation_id r), (''mission_id'', sr_mission_id r),
       (''drone_id'', sr_drone_id r), (''executor_id'', sr_executor_id r), (''sandbox_id'', sr_sandbox_id r),
       (''workspace_id'', sr_workspace_id r), (''runtime_instance_id'', sr_runtime_instance_id r)],
     checks (map (\<lambda>(n, v). sandbox_digest v n) [(''operation_digest'', sr_operation_digest r), (''policy_digest'', sr_policy_digest r),
       (''authority_binding_digest'', sr_authority_binding_digest r),
       (''runtime_binding_digest'', sr_runtime_binding_digest r),
       (''fleet_dispatch_binding_digest'', sr_fleet_dispatch_binding_digest r),
       (''provisioning_binding_digest'', sr_provisioning_binding_digest r), (''dispatch_id'', sr_dispatch_id r),
       (''fencing_token'', sr_fencing_token r), (''runtime_attestation_digest'', sr_runtime_attestation_digest r),
       (''effect_digest'', sr_effect_digest r), (''output_digest'', sr_output_digest r)]),
     raise_when (sr_generation r < 1 \<or> sr_action r \<notin> set runtime_actions \<or> sr_outcome r \<notin> set runtime_outcomes) ExecutionSandboxContractError ''receipt binding'',
     raise_when (sr_bytes_read r < 0) ExecutionSandboxContractError ''receipt bytes'',
     raise_when (sr_bytes_written r < 0) ExecutionSandboxContractError ''receipt bytes'',
     raise_when (sr_observed_events r = [] \<or> \<not> no_dup (sr_observed_events r) \<or> \<not> no_dup (sr_side_effect_refs r)) ExecutionSandboxContractError ''receipt evidence'',
     raise_when (sr_action r \<noteq> ''WRITE_FILE'' \<and> sr_bytes_written r \<noteq> 0 \<or> sr_action r \<noteq> ''READ_FILE'' \<and> sr_bytes_read r \<noteq> 0) ExecutionSandboxContractError ''receipt byte/action'',
     raise_when (sr_action r = ''RUN_TEST'' \<and> sr_exit_code r = None \<or> sr_action r \<noteq> ''RUN_TEST'' \<and> sr_exit_code r \<noteq> None) ExecutionSandboxContractError ''receipt exit'']"

end
