(* ===== verification/Runtime_Execution.thy ===== *)
theory Runtime_Execution
  imports Runtime_Contracts
begin

text \<open>
  enterprise/runtime_execution.py and enterprise/runtime_reconciliation.py: the durable source of runtime admissions, the
  two guards that consume an admission once, the engine that runs an admitted effect in a sandbox, and the reconciler
  of its receipt with an independent observation.

  The engine takes its collaborators as the source does: the admission source, the guard and the sandbox are arguments. The
  sandbox acts on a world of any type; what it does there is not restricted. The identity checks of the state files (path,
  inode, symbolic link) are not modelled, JSON columns are kept decoded, and \<open>published_at\<close> is a time in UTC.
\<close>

abbreviation runtime_error :: "string \<Rightarrow> exn" where
  "runtime_error m \<equiv> Exn RuntimeExecutionError m"

abbreviation runtime_when :: "bool \<Rightarrow> string \<Rightarrow> unit res" where
  "runtime_when b m \<equiv> raise_when b RuntimeExecutionError m"

section \<open>The source of admissions\<close>

record admission_row =
  aw_admission :: runtime_admission
  aw_provenance_digest :: string
  aw_published_at :: string
  aw_schema_id :: string

type_synonym admission_table = "string \<rightharpoonup> admission_row"

definition RUNTIME_STATE_SCHEMA :: string where
  "RUNTIME_STATE_SCHEMA = ''lion.runtime-execution-state/v1''"

definition zoned_text :: "string \<Rightarrow> unit res" where
  "zoned_text v = and_then (runtime_when (v = []) ''runtime state timestamp required'') (\<lambda>_.
     and_then (parse_utc (runtime_error ''runtime state timestamp invalid'') (runtime_error ''runtime state timestamp must be zoned'') v)
       (\<lambda>_. Inr ()))"

definition admission_row_of :: "runtime_admission \<Rightarrow> string \<Rightarrow> utc_time \<Rightarrow> admission_row" where
  "admission_row_of a provenance at = \<lparr>aw_admission = a, aw_provenance_digest = provenance, aw_published_at = utc_text at,
     aw_schema_id = RUNTIME_STATE_SCHEMA\<rparr>"

definition publish_admission :: "runtime_admission \<Rightarrow> string \<Rightarrow> utc_time \<Rightarrow> (admission_table, string) op" where
  "publish_admission a provenance at s = (case checks [
       runtime_admission_validate a,
       runtime_when (\<not> is_hex 64 provenance) ''runtime admission provenance digest invalid'',
       runtime_when (s (rn_admission_digest a) \<noteq> None) ''runtime admission publication replay denied''] of
     Inl e \<Rightarrow> (Inl e, s)
   | Inr _ \<Rightarrow> (Inr (rn_admission_digest a), s(rn_admission_digest a \<mapsto> admission_row_of a provenance at)))"

definition strict_runtime_admission :: "runtime_admission \<Rightarrow> unit res" where
  "strict_runtime_admission a = wrap_errors (\<lambda>_. True) (runtime_error ''runtime admission record invalid'') (runtime_admission_validate a)"

definition resolve_admission :: "admission_table \<Rightarrow> string \<Rightarrow> runtime_admission res" where
  "resolve_admission s d = and_then (runtime_when (\<not> is_hex 64 d) ''runtime admission digest invalid'') (\<lambda>_.
     case s d of
       None \<Rightarrow> Inl (runtime_error ''runtime admission unavailable or ambiguous'')
     | Some row \<Rightarrow> and_then (checks [
         runtime_when (aw_schema_id row \<noteq> RUNTIME_STATE_SCHEMA) ''runtime admission unavailable or ambiguous'',
         runtime_when (\<not> is_hex 64 (aw_provenance_digest row)) ''runtime admission provenance corrupt'',
         zoned_text (aw_published_at row),
         strict_runtime_admission (aw_admission row),
         runtime_when (rn_admission_digest (aw_admission row) \<noteq> d) ''runtime admission source digest substitution''])
         (\<lambda>_. Inr (aw_admission row)))"

definition is_current_admission :: "admission_table \<Rightarrow> string \<Rightarrow> bool res" where
  "is_current_admission s d = (case resolve_admission s d of
     Inr a \<Rightarrow> Inr (rn_admission_digest a = d)
   | Inl (Exn c m) \<Rightarrow> if c = RuntimeExecutionError then Inr False else Inl (Exn c m))"

section \<open>Consumption guards\<close>

definition memory_consume :: "utc_time \<Rightarrow> string \<Rightarrow> string \<Rightarrow> (string set, bool) op" where
  "memory_consume now digest execution seen = (if digest \<in> seen then (Inr False, seen) else (Inr True, insert digest seen))"

record consumption_row =
  cw_admission_digest :: string
  cw_execution_id :: string
  cw_consumed_at :: string
  cw_schema_id :: string

definition sqlite_consume :: "utc_time \<Rightarrow> string \<Rightarrow> string \<Rightarrow> (consumption_row list, bool) op" where
  "sqlite_consume now digest execution rows = (case checks [
       runtime_when (\<not> is_hex 64 digest) ''admission consumption digest invalid'',
       runtime_when (blank execution \<or> nul \<in> set execution) ''admission consumption execution identity invalid''] of
     Inl e \<Rightarrow> (Inl e, rows)
   | Inr _ \<Rightarrow> if digest \<in> set (map cw_admission_digest rows) \<or> execution \<in> set (map cw_execution_id rows) then (Inr False, rows)
       else (Inr True, rows @ [\<lparr>cw_admission_digest = digest, cw_execution_id = execution, cw_consumed_at = utc_text now,
         cw_schema_id = RUNTIME_STATE_SCHEMA\<rparr>]))"

section \<open>The engine\<close>

text \<open>The constructor accepts a source that carries exactly the trusted binding.\<close>

definition engine_init :: "trust_binding \<Rightarrow> source_binding \<Rightarrow> unit res" where
  "engine_init trust source = checks [admission_trust_validate trust,
     runtime_when (source \<noteq> trust_of trust) ''runtime admission source substitution denied'']"

definition canonical_admission ::
  "(string \<Rightarrow> runtime_admission res) \<Rightarrow> (string \<Rightarrow> bool res) \<Rightarrow> runtime_admission \<Rightarrow> runtime_admission res" where
  "canonical_admission resolve current a =
     and_then (wrap_errors (\<lambda>_. True) (runtime_error ''canonical runtime admission unavailable'')
       (and_then (runtime_admission_validate a) (\<lambda>_. resolve (rn_admission_digest a)))) (\<lambda>canonical.
     and_then (wrap_errors (\<lambda>_. True) (runtime_error ''canonical runtime admission invalid'') (runtime_admission_validate canonical)) (\<lambda>_.
     and_then (runtime_when (rn_admission_digest canonical \<noteq> rn_admission_digest a \<or> canonical \<noteq> a)
       ''forged or substituted RuntimeAdmission denied'') (\<lambda>_.
     and_then (wrap_errors (\<lambda>_. True) (runtime_error ''runtime admission currentness unavailable'') (current (rn_admission_digest a))) (\<lambda>now.
     and_then (runtime_when (\<not> now) ''stale RuntimeAdmission denied'') (\<lambda>_. Inr canonical)))))"

definition validate_bindings ::
  "runtime_admission \<Rightarrow> execution_request \<Rightarrow> requested_effect \<Rightarrow> runtime_identity \<Rightarrow> string \<Rightarrow> unit res" where
  "validate_bindings a q e i payload = checks [
     wrap_errors (\<lambda>_. True) (runtime_error ''runtime execution input invalid'')
       (checks [execution_request_validate q, requested_effect_validate e, runtime_identity_validate i]),
     runtime_when (xq_admission_digest q \<noteq> rn_admission_digest a) ''execution request admission substitution denied'',
     runtime_when (xq_requested_effect_digest q \<noteq> rn_requested_effect_digest a
         \<or> requested_effect_digest e \<noteq> rn_requested_effect_digest a) ''admission effect substitution denied'',
     runtime_when (xq_runtime_identity_digest q \<noteq> rn_runtime_identity_digest a
         \<or> runtime_identity_digest i \<noteq> rn_runtime_identity_digest a) ''runtime identity substitution denied'',
     runtime_when (xq_provisioned_executor_digest q \<noteq> rn_provisioned_executor_digest a
         \<or> ib_provisioned_executor_digest i \<noteq> rn_provisioned_executor_digest a) ''provisioned executor substitution denied'',
     runtime_when (xq_mission_id q \<noteq> qe_mission_id e) ''mission binding mismatch'',
     runtime_when ((xq_runtime_instance_id q, xq_sandbox_id q, xq_workspace_id q)
         \<noteq> (ib_runtime_instance_id i, ib_sandbox_id i, ib_workspace_id i)) ''runtime/sandbox/workspace binding mismatch'',
     runtime_when (xq_executor_id q \<noteq> ib_execution_subject i) ''execution subject binding mismatch'',
     runtime_when ((xq_action q, xq_resource q) \<noteq> (qe_action_class e, qe_resource e)) ''action or resource substitution denied'',
     runtime_when (xq_payload_digest q \<noteq> qe_payload_digest e) ''payload digest substitution denied'',
     if xq_action q = ''WRITE_FILE''
     then runtime_when (int (length payload) \<noteq> xq_payload_size q \<or> sha256 payload \<noteq> xq_payload_digest q) ''write payload binding mismatch''
     else runtime_when (payload \<noteq> [] \<or> xq_payload_size q \<noteq> 0) ''unexpected payload for non-write operation'']"

definition operation_of :: "string \<Rightarrow> execution_request \<Rightarrow> runtime_identity \<Rightarrow> sandbox_operation" where
  "operation_of policy q i = \<lparr>sb_operation_id = xq_execution_id q, sb_mission_id = xq_mission_id q,
     sb_drone_id = ib_workload_identity i, sb_executor_id = xq_executor_id q, sb_sandbox_id = xq_sandbox_id q,
     sb_workspace_id = xq_workspace_id q, sb_dispatch_id = xq_dispatch_id q, sb_fencing_token = xq_fencing_token q,
     sb_generation = xq_generation q, sb_policy_digest = policy, sb_action = xq_action q, sb_path = xq_resource q,
     sb_payload_digest = (if xq_action q = ''WRITE_FILE'' then Some (xq_payload_digest q) else None),
     sb_payload_size = xq_payload_size q, sb_command = xq_command q, sb_schema_version = ''2.0.0''\<rparr>"

definition receipt_bound :: "string \<Rightarrow> sandbox_operation \<Rightarrow> execution_request \<Rightarrow> sandbox_receipt \<Rightarrow> bool" where
  "receipt_bound policy p q r \<longleftrightarrow>
     (sr_operation_id r, sr_operation_digest r, sr_policy_digest r, sr_mission_id r, sr_executor_id r, sr_sandbox_id r)
       = (sb_operation_id p, sandbox_operation_digest p, policy, xq_mission_id q, xq_executor_id q, xq_sandbox_id q)
     \<and> (sr_workspace_id r, sr_dispatch_id r, sr_fencing_token r, sr_generation r, sr_runtime_instance_id r, sr_action r)
       = (xq_workspace_id q, xq_dispatch_id q, xq_fencing_token q, xq_generation q, xq_runtime_instance_id q, xq_action q)"

definition effect_state_of :: "sandbox_receipt \<Rightarrow> string" where
  "effect_state_of r = (if sr_outcome r = ''ABORTED'' then (if sr_side_effect_refs r \<noteq> [] then ''PARTIAL_UNKNOWN'' else ''UNKNOWN'')
     else ''OBSERVED'')"

definition unsealed_receipt :: "runtime_admission \<Rightarrow> execution_request \<Rightarrow> sandbox_operation \<Rightarrow> sandbox_receipt \<Rightarrow> runtime_receipt" where
  "unsealed_receipt a q p r = (let d = sandbox_receipt_digest r in \<lparr>
     xr_receipt_id = ''runtime-execution:'' @ sha256 (rn_admission_digest a @ execution_request_digest q @ d),
     xr_execution_id = xq_execution_id q, xr_admission_digest = rn_admission_digest a, xr_request_digest = execution_request_digest q,
     xr_sandbox_receipt_digest = d, xr_operation_digest = sandbox_operation_digest p, xr_mission_id = xq_mission_id q,
     xr_executor_id = xq_executor_id q, xr_runtime_instance_id = xq_runtime_instance_id q, xr_sandbox_id = xq_sandbox_id q,
     xr_workspace_id = xq_workspace_id q, xr_dispatch_id = xq_dispatch_id q, xr_fencing_token = xq_fencing_token q,
     xr_generation = xq_generation q, xr_action = xq_action q, xr_resource = xq_resource q, xr_payload_digest = xq_payload_digest q,
     xr_outcome = sr_outcome r, xr_effect_state = effect_state_of r, xr_effect_digest = sr_effect_digest r,
     xr_observed_events = sr_observed_events r, xr_side_effect_refs = sr_side_effect_refs r, xr_receipt_digest = [],
     xr_schema_version = ''1.0.0''\<rparr>)"

text \<open>What the engine does with the answer of the sandbox.\<close>

definition sandbox_answer ::
  "string \<Rightarrow> runtime_admission \<Rightarrow> execution_request \<Rightarrow> sandbox_operation \<Rightarrow> sandbox_receipt \<Rightarrow> runtime_receipt res" where
  "sandbox_answer policy a q p r = and_then (checks [
     wrap_errors (\<lambda>_. True) (runtime_error ''sandbox execution receipt invalid'') (sandbox_receipt_validate r),
     runtime_when (\<not> receipt_bound policy p q r) ''sandbox receipt binding mismatch'',
     runtime_when (sr_observed_events r = []) ''effect observation missing'',
     runtime_when (xq_action q = ''WRITE_FILE'' \<and> sr_outcome r = ''SUCCEEDED''
         \<and> (sr_effect_digest r \<noteq> xq_payload_digest q \<or> sr_side_effect_refs r = []))
       ''successful write lacks exact observed effect binding'',
     runtime_when (sr_outcome r = ''SUCCEEDED'' \<and> effect_state_of r \<noteq> ''OBSERVED'') ''unknown effect cannot succeed''])
   (\<lambda>_. runtime_receipt_sealed (unsealed_receipt a q p r))"

text \<open>One call of the engine with its collaborators at that moment.\<close>

record 'w engine_call =
  ek_resolve :: "string \<Rightarrow> runtime_admission res"
  ek_is_current :: "string \<Rightarrow> bool res"
  ek_now :: utc_time
  ek_policy_digest :: string
  ek_sandbox :: "sandbox_operation \<Rightarrow> string \<Rightarrow> ('w, sandbox_receipt) op"
  ek_admission :: runtime_admission
  ek_request :: execution_request
  ek_effect :: requested_effect
  ek_identity :: runtime_identity
  ek_payload :: string

definition call_operation :: "'w engine_call \<Rightarrow> sandbox_operation" where
  "call_operation k = operation_of (ek_policy_digest k) (ek_request k) (ek_identity k)"

definition prepare :: "'w engine_call \<Rightarrow> unit res" where
  "prepare k = and_then (canonical_admission (ek_resolve k) (ek_is_current k) (ek_admission k)) (\<lambda>canonical.
     checks [validate_bindings canonical (ek_request k) (ek_effect k) (ek_identity k) (ek_payload k),
       sandbox_operation_validate (call_operation k)])"

definition engine_execute ::
  "(utc_time \<Rightarrow> string \<Rightarrow> string \<Rightarrow> ('g, bool) op) \<Rightarrow> 'w engine_call \<Rightarrow> ('g \<times> 'w, runtime_receipt) op" where
  "engine_execute consume k s = (case s of (g, w) \<Rightarrow> (case prepare k of
     Inl x \<Rightarrow> (Inl x, g, w)
   | Inr _ \<Rightarrow> (case consume (ek_now k) (rn_admission_digest (ek_admission k)) (xq_execution_id (ek_request k)) g of
       (Inl _, g') \<Rightarrow> (Inl (runtime_error ''admission consumption state unavailable''), g', w)
     | (Inr False, g') \<Rightarrow> (Inl (runtime_error ''RuntimeAdmission replay denied''), g', w)
     | (Inr True, g') \<Rightarrow> (case ek_sandbox k (call_operation k) (ek_payload k) w of
         (Inl _, w') \<Rightarrow> (Inl (runtime_error ''bounded sandbox execution failed before trustworthy receipt''), g', w')
       | (Inr r, w') \<Rightarrow> (sandbox_answer (ek_policy_digest k) (ek_admission k) (ek_request k) (call_operation k) r, g', w')))))"

section \<open>The reconciler\<close>

abbreviation reconcile_when :: "bool \<Rightarrow> string \<Rightarrow> unit res" where
  "reconcile_when b m \<equiv> raise_when b RuntimeReconciliationError m"

definition reconciler_init :: "trust_binding \<Rightarrow> source_binding \<Rightarrow> unit res" where
  "reconciler_init trust source = checks [observer_trust_validate trust,
     reconcile_when (source \<noteq> trust_of trust) ''runtime observer substitution denied'']"

definition same_operation :: "runtime_receipt \<Rightarrow> effect_observation \<Rightarrow> bool" where
  "same_operation r b \<longleftrightarrow> (ob_execution_id b, ob_admission_digest b, ob_request_digest b, ob_operation_digest b, ob_action b, ob_resource b)
     = (xr_execution_id r, xr_admission_digest r, xr_request_digest r, xr_operation_digest r, xr_action r, xr_resource r)"

definition evidence_anomalies :: "runtime_receipt \<Rightarrow> effect_observation \<Rightarrow> string list" where
  "evidence_anomalies r b =
     (if same_operation r b then [] else [''IDENTITY_OR_OPERATION_MISMATCH''])
     @ (if ob_effect_digest b = xr_effect_digest r then [] else [''EFFECT_DIGEST_MISMATCH''])
     @ (if ob_observed_events b = xr_observed_events r then [] else [''OBSERVED_EVENTS_MISMATCH''])
     @ (if set (ob_side_effect_refs b) = set (xr_side_effect_refs r) then [] else [''SIDE_EFFECT_REFERENCE_MISMATCH''])"

definition disposition_of :: "runtime_receipt \<Rightarrow> effect_observation \<Rightarrow> string \<times> string list" where
  "disposition_of r b = (let anomalies = evidence_anomalies r b; lost = [''UNKNOWN'', ''PARTIAL_UNKNOWN''] in
     if xr_outcome r = ''SUCCEEDED'' then
       (let all = anomalies @ (if xr_effect_state r \<noteq> ''OBSERVED'' \<or> ob_effect_state b \<noteq> ''OBSERVED''
          then [''SUCCESS_WITHOUT_OBSERVED_EFFECT''] else []) in (if all \<noteq> [] then ''MISMATCH'' else ''MATCHED'', all))
     else if xr_effect_state r \<in> set lost \<or> ob_effect_state b \<in> set lost then
       (if ob_effect_state b = ''UNKNOWN'' \<or> xr_effect_state r = ''UNKNOWN'' then (''UNKNOWN'', anomalies @ [''UNKNOWN_EFFECT''])
        else (''NON_SUCCESS_RECONCILED'', anomalies))
     else if anomalies \<noteq> [] then (''MISMATCH'', anomalies)
     else (''NON_SUCCESS_RECONCILED'', anomalies))"

definition unsealed_reconciliation ::
  "runtime_receipt \<Rightarrow> effect_observation \<Rightarrow> effect_currentness \<Rightarrow> string \<Rightarrow> string list \<Rightarrow> utc_time \<Rightarrow> reconciliation_receipt" where
  "unsealed_reconciliation r b c disposition anomalies now = \<lparr>
     rx_reconciliation_id = sha256 (xr_receipt_digest r @ [nul] @ ob_observation_digest b @ [nul] @ cu_evidence_digest c),
     rx_runtime_execution_receipt_digest = xr_receipt_digest r, rx_effect_observation_digest = ob_observation_digest b,
     rx_currentness_evidence_digest = cu_evidence_digest c, rx_execution_id = xr_execution_id r,
     rx_admission_digest = xr_admission_digest r, rx_disposition = disposition, rx_anomaly_codes = sort (remdups anomalies),
     rx_reconciled_effect_digest = ob_effect_digest b, rx_reconciled_at = utc_text now, rx_reconciliation_digest = [],
     rx_schema_version = ''1.0.0''\<rparr>"

definition reconcile ::
  "trust_binding \<Rightarrow> (string \<Rightarrow> effect_observation res) \<Rightarrow> utc_time \<Rightarrow> runtime_receipt \<Rightarrow> effect_currentness \<Rightarrow> reconciliation_receipt res" where
  "reconcile trust observe now r c =
     and_then (wrap_errors (\<lambda>_. True) (Exn RuntimeReconciliationError ''runtime reconciliation input invalid'')
       (checks [runtime_receipt_validate r, effect_currentness_validate c])) (\<lambda>_.
     and_then (reconcile_when (cu_admission_digest c \<noteq> xr_admission_digest r) ''currentness/admission binding mismatch'') (\<lambda>_.
     and_then (wrap_errors (\<lambda>_. True) (Exn RuntimeReconciliationError ''independent runtime observation unavailable'')
       (observe (xr_execution_id r))) (\<lambda>b.
     and_then (wrap_errors (\<lambda>_. True) (Exn RuntimeReconciliationError ''independent runtime observation invalid'')
       (effect_observation_validate b)) (\<lambda>_.
     and_then (reconcile_when ((ob_source_id b, ob_source_instance_id b, ob_source_implementation_digest b, ob_trust_anchor_id b,
         ob_trust_anchor_digest b) \<noteq> trust_of trust) ''observation source binding mismatch'') (\<lambda>_.
     case disposition_of r b of (disposition, anomalies) \<Rightarrow>
     and_then (reconcile_when (xr_outcome r \<noteq> ''SUCCEEDED'' \<and> disposition = ''MATCHED'') ''non-success cannot reconcile as MATCHED'') (\<lambda>_.
     reconciliation_receipt_sealed (unsealed_reconciliation r b c disposition anomalies now)))))))"

end
