(* ===== verification/Runtime_Admission.thy ===== *)
theory Runtime_Admission
  imports Executor_Provisioning Policy_Gate Action_IR Runtime_Execution
begin

text \<open>
  contracts/action_runtime_binding.py, enterprise/runtime_enforcement.py and enterprise/runtime_currentness.py: the inputs of a
  runtime admission made from an allowed action, the engine that issues the admission, and the guard that revalidates the
  authority right before the sandbox acts.

  The source of policy decisions, the source of currentness evidence and the clock are arguments. Times are in UTC.
\<close>

section \<open>Inputs of an admission\<close>

abbreviation runtime_binding_when :: "bool \<Rightarrow> string \<Rightarrow> unit res" where
  "runtime_binding_when b m \<equiv> raise_when b ActionRuntimeBindingError m"

definition pdp_receipt_json :: "pdp_receipt \<Rightarrow> json" where
  "pdp_receipt_json r = JObj [(''receipt_id'', JStr (dr_receipt_id r)), (''request_id'', JStr (dr_request_id r)),
     (''gate_event_id'', JStr (dr_gate_event_id r)), (''request_digest'', JStr (dr_request_digest r)),
     (''decision_digest'', JStr (dr_decision_digest r)), (''replay_key'', JStr (dr_replay_key r)),
     (''schema_version'', JStr (dr_schema_version r))]"

definition pdp_receipt_digest :: "pdp_receipt \<Rightarrow> string" where
  "pdp_receipt_digest r = sha256 (''LION/F009-PDP-RECEIPT/2'' @ nul # canon (pdp_receipt_json r))"

record binding_currentness =
  bc_pdp_source_trust :: trust_binding
  bc_provisioned_executor_digest :: string
  bc_trusted_now :: utc_time
  bc_issued_at :: utc_time
  bc_expires_at :: utc_time

definition binding_currentness_validate :: "binding_currentness \<Rightarrow> unit res" where
  "binding_currentness_validate c = checks [
     pdp_trust_validate (bc_pdp_source_trust c),
     runtime_binding_when (\<not> is_hex 64 (bc_provisioned_executor_digest c)) ''provisioned_executor_digest must be exact lowercase sha256'',
     runtime_binding_when (\<not> (instant (bc_issued_at c) \<le> instant (bc_trusted_now c) \<and> instant (bc_trusted_now c) < instant (bc_expires_at c)))
       ''PDP binding evidence is stale or not yet current'']"

definition proposal_matches_context :: "action_proposal \<Rightarrow> proposal_context \<Rightarrow> bool" where
  "proposal_matches_context p c \<longleftrightarrow>
     (ap_proposal_id p, ap_mission_id p, ap_swarm_id p, ap_proposer_agent_id p, ap_capability p, ap_requested_authority p)
       = (px_proposal_id c, px_mission_id c, px_swarm_id c, px_proposer_agent_id c, px_capability c, px_requested_authority c)
     \<and> (ap_action_class p, ap_target p, ap_consequential p, ap_evidence_refs p, ap_required_observability p, ap_verifier_agent_id p)
       = (px_action_class c, px_target c, px_consequential c, px_evidence_refs c, px_required_observability c, px_verifier_agent_id c)
     \<and> ap_payload_digest p = Some (px_expected_lair_payload_digest c)"

definition binding_gate_checks :: "action_proposal \<Rightarrow> pdp_result \<Rightarrow> provisioned_executor \<Rightarrow> unit res" where
  "binding_gate_checks p r v = (let q = pt_requested r; g = pt_applied r; d = pt_receipt r in checks [
     runtime_binding_when (gz_decision g \<noteq> ''ALLOW'' \<or> gz_effective_authority g = ''none'') ''runtime binding requires canonical PDP ALLOW'',
     runtime_binding_when (gz_effective_authority g \<noteq> ap_requested_authority p) ''PDP effective authority/proposal substitution denied'',
     runtime_binding_when (vx_mission_id v \<noteq> ap_mission_id p) ''provisioning mission/proposal substitution denied'',
     runtime_binding_when ((gz_proposal_id g, gz_request_id g, gz_policy_binding g, gz_authority_lineage_digest g, gz_observability_state g,
         gz_effective_authority g)
       \<noteq> (ap_proposal_id p, gq_request_id q, gq_policy_binding q, gq_authority_lineage_digest q, gq_observability_state q,
         gq_requested_authority q)) ''GateRequested/GateApplied binding mismatch'',
     runtime_binding_when (gq_proposal_id q \<noteq> ap_proposal_id p) ''GateRequested/proposal substitution denied'',
     runtime_binding_when ((dr_request_id d, dr_gate_event_id d, dr_request_digest d, dr_decision_digest d)
       \<noteq> (gz_request_id g, gz_gate_event_id g, gq_request_digest q, gz_decision_digest g)) ''PDP receipt does not bind exact request and decision''])"

definition identity_of :: "provisioned_executor \<Rightarrow> runtime_identity" where
  "identity_of v = \<lparr>ib_workload_identity = vx_drone_id v, ib_execution_subject = vx_executor_id v,
     ib_runtime_instance_id = vx_runtime_instance_id v, ib_sandbox_id = vx_sandbox_id v, ib_workspace_id = vx_workspace_id v,
     ib_runtime_attestation_digest = vx_runtime_attestation_digest v, ib_provisioned_executor_digest = provisioned_digest v,
     ib_schema_version = ''1.1.0''\<rparr>"

definition effect_of :: "action_proposal \<Rightarrow> gate_applied \<Rightarrow> runtime_identity \<Rightarrow> requested_effect" where
  "effect_of p g i = \<lparr>
     qe_effect_id = ''runtime-effect:'' @ sha256 (utf8 (ap_proposal_id p @ [nul] @ gz_decision_digest g @ [nul] @ runtime_identity_digest i)),
     qe_proposal_id = ap_proposal_id p, qe_mission_id = ap_mission_id p, qe_policy_binding = gz_policy_binding g,
     qe_authority_lineage_digest = gz_authority_lineage_digest g, qe_requested_authority = ap_requested_authority p,
     qe_action_class = ap_action_class p, qe_resource = ap_target p,
     qe_payload_digest = (case ap_payload_digest p of None \<Rightarrow> [] | Some d \<Rightarrow> d), qe_observability_state = gz_observability_state g,
     qe_runtime_identity_digest = runtime_identity_digest i, qe_schema_version = ''1.1.0''\<rparr>"

definition evidence_of :: "pdp_result \<Rightarrow> binding_currentness \<Rightarrow> pdp_evidence" where
  "evidence_of r c = (let g = pt_applied r; d = pt_receipt r; t = bc_pdp_source_trust c in \<lparr>
     pv_request_id = gz_request_id g, pv_gate_event_id = gz_gate_event_id g, pv_proposal_id = gz_proposal_id g,
     pv_gate_decision_digest = gz_decision_digest g, pv_pdp_receipt_digest = pdp_receipt_digest d, pv_request_digest = dr_request_digest d,
     pv_replay_key = dr_replay_key d, pv_policy_binding = gz_policy_binding g, pv_authority_lineage_digest = gz_authority_lineage_digest g,
     pv_observability_state = gz_observability_state g, pv_source_id = tb_source_id t, pv_source_instance_id = tb_source_instance_id t,
     pv_source_implementation_digest = tb_source_implementation_digest t, pv_trust_anchor_id = tb_trust_anchor_id t,
     pv_trust_anchor_digest = tb_trust_anchor_digest t, pv_issued_at = utc_text (bc_issued_at c), pv_expires_at = utc_text (bc_expires_at c),
     pv_evidence_digest = [], pv_schema_version = ''1.1.0''\<rparr>)"

definition bind_allowed_action_to_runtime_inputs ::
  "action_proposal \<Rightarrow> proposal_context \<Rightarrow> pdp_result \<Rightarrow> binding_currentness \<Rightarrow> provisioned_executor
    \<Rightarrow> (requested_effect \<times> runtime_identity \<times> pdp_evidence) res" where
  "bind_allowed_action_to_runtime_inputs p context r c v = (let i = identity_of v; e = effect_of p (pt_applied r) i in
     and_then (checks [
       proposal_validate p, proposal_context_validate context,
       runtime_binding_when (\<not> proposal_matches_context p context) ''ActionProposal/explicit-context substitution denied'',
       binding_currentness_validate c, provisioned_validate v,
       runtime_binding_when (provisioned_digest v \<noteq> bc_provisioned_executor_digest c) ''trusted ProvisionedExecutor/currentness substitution denied'',
       requested_validate (pt_requested r), applied_validate (pt_applied r), pdp_receipt_validate (pt_receipt r),
       binding_gate_checks p r v, runtime_identity_validate i, requested_effect_validate e]) (\<lambda>_.
     and_then (pdp_evidence_sealed (evidence_of r c)) (\<lambda>evidence. Inr (e, i, evidence))))"

section \<open>The admission engine\<close>

abbreviation enforcement_error :: "string \<Rightarrow> exn" where
  "enforcement_error m \<equiv> Exn RuntimeEnforcementError m"

abbreviation enforcement_when :: "bool \<Rightarrow> string \<Rightarrow> unit res" where
  "enforcement_when b m \<equiv> raise_when b RuntimeEnforcementError m"

definition replay_consume :: "string \<Rightarrow> (string set, bool) op" where
  "replay_consume key seen = (if key \<in> seen then (Inr False, seen) else (Inr True, insert key seen))"

text \<open>The engine with its trusted sources at the time of a call, and the arguments of \<open>admit\<close>.\<close>

record admission_engine =
  an_live :: live_config
  an_source_trust :: trust_binding
  an_resolve :: "string \<Rightarrow> string \<Rightarrow> pdp_evidence res"
  an_current_policy_binding :: "string \<Rightarrow> string res"
  an_reads :: "live_reads \<times> live_reads"

definition admission_engine_init :: "trust_binding \<Rightarrow> source_binding \<Rightarrow> unit res" where
  "admission_engine_init trust source = checks [pdp_trust_validate trust,
     enforcement_when (source \<noteq> trust_of trust) ''canonical PDP source substitution denied'']"

record admission_call =
  aj_gate :: gate_applied
  aj_pdp_receipt :: pdp_receipt
  aj_admitted_authority :: live_authority
  aj_proposal :: action_proposal
  aj_effect :: requested_effect
  aj_runtime_identity :: runtime_identity
  aj_provisioned_executor :: provisioned_executor
  aj_provisioning_request :: provisioning_request
  aj_provider_trust :: provider_trust
  aj_trusted_now :: utc_time

definition evidence_utc :: "string \<Rightarrow> int res" where
  "evidence_utc = parse_utc (enforcement_error ''canonical PDP evidence timestamp invalid'')
     (enforcement_error ''canonical PDP evidence timestamp must be timezone-aware'')"

definition evidence_matches :: "pdp_evidence \<Rightarrow> gate_applied \<Rightarrow> pdp_receipt \<Rightarrow> bool" where
  "evidence_matches e g d \<longleftrightarrow>
     (pv_request_id e, pv_gate_event_id e, pv_proposal_id e, pv_gate_decision_digest e, pv_pdp_receipt_digest e)
       = (gz_request_id g, gz_gate_event_id g, gz_proposal_id g, gz_decision_digest g, pdp_receipt_digest d)
     \<and> (pv_request_digest e, pv_replay_key e, pv_policy_binding e, pv_authority_lineage_digest e, pv_observability_state e)
       = (dr_request_digest d, dr_replay_key d, gz_policy_binding g, gz_authority_lineage_digest g, gz_observability_state g)"

text \<open>The left test of the disjunction on the window is taken first, as the source evaluates it.\<close>

definition canonical_pdp :: "admission_engine \<Rightarrow> gate_applied \<Rightarrow> pdp_receipt \<Rightarrow> utc_time \<Rightarrow> pdp_evidence res" where
  "canonical_pdp n g d now = and_then (wrap_errors (\<lambda>_. True) (enforcement_error ''canonical PDP evidence unavailable'')
       (an_resolve n (gz_request_id g) (gz_gate_event_id g))) (\<lambda>e.
     and_then (wrap_errors (\<lambda>_. True) (enforcement_error ''canonical PDP evidence invalid'') (pdp_evidence_validate e)) (\<lambda>_.
     and_then (enforcement_when ((pv_source_id e, pv_source_instance_id e, pv_source_implementation_digest e, pv_trust_anchor_id e,
         pv_trust_anchor_digest e) \<noteq> trust_of (an_source_trust n)) ''canonical PDP evidence source binding mismatch'') (\<lambda>_.
     and_then (evidence_utc (pv_issued_at e)) (\<lambda>issued.
     and_then (enforcement_when (instant now < issued) ''canonical GateApplied is stale or not yet current'') (\<lambda>_.
     and_then (evidence_utc (pv_expires_at e)) (\<lambda>expires.
     and_then (enforcement_when (expires \<le> instant now) ''canonical GateApplied is stale or not yet current'') (\<lambda>_.
     and_then (pdp_receipt_validate d) (\<lambda>_.
     and_then (enforcement_when (\<not> evidence_matches e g d) ''caller PDP evidence does not match canonical source'') (\<lambda>_.
     and_then (wrap_errors (\<lambda>_. True) (enforcement_error ''current policy binding unavailable'')
       (an_current_policy_binding n (gz_policy_binding g))) (\<lambda>current.
     and_then (enforcement_when (current \<noteq> gz_policy_binding g) ''GateApplied policy binding is stale'') (\<lambda>_. Inr e)))))))))))"

definition runtime_identity_check :: "runtime_identity \<Rightarrow> provisioned_executor \<Rightarrow> provisioning_request \<Rightarrow> provider_trust \<Rightarrow> unit res" where
  "runtime_identity_check i v q t = checks [
     wrap_errors (\<lambda>_. True) (enforcement_error ''authoritative provisioned runtime evidence invalid'')
       (checks [provisioned_validate_for v q t, runtime_identity_validate i]),
     enforcement_when ((ib_workload_identity i, ib_execution_subject i, ib_runtime_instance_id i, ib_sandbox_id i, ib_workspace_id i,
         ib_runtime_attestation_digest i, ib_provisioned_executor_digest i)
       \<noteq> (vx_drone_id v, vx_executor_id v, vx_runtime_instance_id v, vx_sandbox_id v, vx_workspace_id v,
         vx_runtime_attestation_digest v, provisioned_digest v)) ''runtime/workload/execution-subject substitution denied'']"

definition ceiling_check :: "string \<Rightarrow> string \<Rightarrow> string \<Rightarrow> unit res" where
  "ceiling_check limit authority m = and_then (authority_contains limit authority) (\<lambda>inside. enforcement_when (\<not> inside) m)"

definition admission_links :: "admission_call \<Rightarrow> unit res" where
  "admission_links k = (let g = aj_gate k; p = aj_proposal k; e = aj_effect k; a = aj_admitted_authority k in checks [
     enforcement_when (vx_mission_id (aj_provisioned_executor k) \<noteq> ap_mission_id p) ''provisioned executor mission substitution denied'',
     enforcement_when (gz_proposal_id g \<noteq> ap_proposal_id p \<or> qe_proposal_id e \<noteq> ap_proposal_id p) ''proposal substitution denied'',
     enforcement_when (qe_mission_id e \<noteq> ap_mission_id p \<or> lv_mission_id a \<noteq> ap_mission_id p) ''mission substitution denied'',
     enforcement_when (qe_policy_binding e \<noteq> gz_policy_binding g) ''policy binding mismatch'',
     enforcement_when (qe_authority_lineage_digest e \<noteq> gz_authority_lineage_digest g \<or> lv_lineage_digest a \<noteq> gz_authority_lineage_digest g)
       ''authority lineage mismatch'',
     enforcement_when (qe_observability_state e \<noteq> gz_observability_state g) ''observability state mismatch'',
     enforcement_when (qe_runtime_identity_digest e \<noteq> runtime_identity_digest (aj_runtime_identity k)) ''runtime identity substitution denied'',
     enforcement_when (qe_requested_authority e \<noteq> ap_requested_authority p \<or> gz_effective_authority g \<noteq> ap_requested_authority p)
       ''authority class substitution denied'',
     ceiling_check (lv_authority_ceiling a) (gz_effective_authority g) ''live authority ceiling exceeded'',
     (if gz_observability_state g = ''LOST'' then Inl (enforcement_error ''observability-conditioned authority ceiling exceeded'')
      else ceiling_check (the (map_of OBS_CEILING (gz_observability_state g))) (gz_effective_authority g)
        ''observability-conditioned authority ceiling exceeded''),
     enforcement_when ((qe_action_class e, qe_resource e) \<noteq> (ap_action_class p, ap_target p)) ''resource or action substitution denied'',
     enforcement_when (ap_payload_digest p \<noteq> Some (qe_payload_digest e)) ''exact proposal payload binding required''])"

definition admission_replay_key :: "admission_call \<Rightarrow> pdp_evidence \<Rightarrow> string \<Rightarrow> string" where
  "admission_replay_key k e live = sha256 (join [nul] [pv_evidence_digest e, gz_decision_digest (aj_gate k),
     requested_effect_digest (aj_effect k), runtime_identity_digest (aj_runtime_identity k), live,
     provisioned_digest (aj_provisioned_executor k)])"

definition admission_of :: "admission_call \<Rightarrow> pdp_evidence \<Rightarrow> string \<Rightarrow> runtime_admission" where
  "admission_of k e live = (let g = aj_gate k; key = admission_replay_key k e live in \<lparr>
     rn_admission_id = ''runtime-admission:'' @ key, rn_request_id = gz_request_id g, rn_gate_event_id = gz_gate_event_id g,
     rn_proposal_id = gz_proposal_id g, rn_gate_decision_digest = gz_decision_digest g,
     rn_pdp_receipt_digest = pdp_receipt_digest (aj_pdp_receipt k), rn_pdp_evidence_digest = pv_evidence_digest e,
     rn_live_authority_digest = live, rn_authority_lineage_digest = gz_authority_lineage_digest g, rn_policy_binding = gz_policy_binding g,
     rn_effective_authority = gz_effective_authority g, rn_requested_effect_digest = requested_effect_digest (aj_effect k),
     rn_runtime_identity_digest = runtime_identity_digest (aj_runtime_identity k),
     rn_provisioned_executor_digest = provisioned_digest (aj_provisioned_executor k), rn_observability_state = gz_observability_state g,
     rn_replay_key = key, rn_admission_digest = [], rn_schema_version = ''1.1.0''\<rparr>)"

text \<open>Everything up to the replay guard: the canonical evidence and the digest of the live authority.\<close>

definition admission_checks :: "admission_engine \<Rightarrow> admission_call \<Rightarrow> (pdp_evidence \<times> string) res" where
  "admission_checks n k = (let g = aj_gate k; a = aj_admitted_authority k; d = aj_pdp_receipt k in
     and_then (checks [
       wrap_errors (\<lambda>_. True) (enforcement_error ''runtime admission input invalid'') (checks [applied_validate g, pdp_receipt_validate d,
         live_validate a, proposal_validate (aj_proposal k), requested_effect_validate (aj_effect k),
         runtime_identity_validate (aj_runtime_identity k)]),
       enforcement_when (gz_decision g \<noteq> ''ALLOW'' \<or> gz_effective_authority g = ''none'') ''runtime admission requires canonical ALLOW'',
       enforcement_when ((dr_request_id d, dr_gate_event_id d, dr_decision_digest d) \<noteq> (gz_request_id g, gz_gate_event_id g, gz_decision_digest g))
         ''PDP receipt does not bind exact GateApplied'']) (\<lambda>_.
     and_then (canonical_pdp n g d (aj_trusted_now k)) (\<lambda>e.
     and_then (checks [
       runtime_identity_check (aj_runtime_identity k) (aj_provisioned_executor k) (aj_provisioning_request k) (aj_provider_trust k),
       admission_links k]) (\<lambda>_.
     and_then (wrap_errors (\<lambda>_. True) (enforcement_error ''live authority revalidation failed'')
       (revalidate (an_live n) a (aj_trusted_now k) (fst (an_reads n)) (snd (an_reads n)))) (\<lambda>current.
     and_then (live_digest current) (\<lambda>live. and_then (live_digest a) (\<lambda>admitted.
     and_then (enforcement_when (live \<noteq> admitted) ''live authority changed before runtime admission'') (\<lambda>_. Inr (e, live)))))))))"

definition admit_runtime :: "(string \<Rightarrow> ('g, bool) op) \<Rightarrow> admission_engine \<Rightarrow> admission_call \<Rightarrow> ('g, runtime_admission) op" where
  "admit_runtime consume n k g = (case admission_checks n k of
     Inl x \<Rightarrow> (Inl x, g)
   | Inr (e, live) \<Rightarrow> (case consume (admission_replay_key k e live) g of
       (Inl _, g') \<Rightarrow> (Inl (enforcement_error ''runtime replay state unavailable''), g')
     | (Inr fresh, g') \<Rightarrow> (if \<not> fresh then Inl (enforcement_error ''runtime admission replay denied'')
         else runtime_admission_sealed (admission_of k e live), g')))"

text \<open>\<open>admit_bound_action\<close>: the inputs come from the binder and must agree with the canonical source.\<close>

definition admit_bound_action ::
  "(string \<Rightarrow> ('g, bool) op) \<Rightarrow> admission_engine \<Rightarrow> action_proposal \<Rightarrow> proposal_context \<Rightarrow> pdp_result \<Rightarrow> binding_currentness \<Rightarrow> live_authority
    \<Rightarrow> provisioned_executor \<Rightarrow> provisioning_request \<Rightarrow> provider_trust \<Rightarrow> utc_time \<Rightarrow> ('g, runtime_admission) op" where
  "admit_bound_action consume n p context r c a v q t now g = (case
     and_then (checks [
       wrap_errors (\<lambda>_. True) (enforcement_error ''runtime binding currentness invalid'') (binding_currentness_validate c),
       enforcement_when (bc_pdp_source_trust c \<noteq> an_source_trust n) ''runtime binder PDP source trust substitution denied'',
       enforcement_when (instant (bc_trusted_now c) \<noteq> instant now) ''runtime binder/admission trusted time mismatch'']) (\<lambda>_.
     and_then (wrap_errors (\<lambda>_. True) (enforcement_error ''action runtime binding denied'')
       (bind_allowed_action_to_runtime_inputs p context r c v)) (\<lambda>(e, i, bound).
     and_then (canonical_pdp n (pt_applied r) (pt_receipt r) now) (\<lambda>canonical.
     and_then (enforcement_when (bound \<noteq> canonical) ''runtime binder PDP evidence does not match canonical source'') (\<lambda>_. Inr (e, i))))) of
     Inl x \<Rightarrow> (Inl x, g)
   | Inr (e, i) \<Rightarrow> admit_runtime consume n \<lparr>aj_gate = pt_applied r, aj_pdp_receipt = pt_receipt r, aj_admitted_authority = a, aj_proposal = p,
       aj_effect = e, aj_runtime_identity = i, aj_provisioned_executor = v, aj_provisioning_request = q, aj_provider_trust = t,
       aj_trusted_now = now\<rparr> g)"

section \<open>The guard at the time of the effect\<close>

abbreviation currentness_when :: "bool \<Rightarrow> string \<Rightarrow> unit res" where
  "currentness_when b m \<equiv> raise_when b RuntimeCurrentnessError m"

abbreviation currentness_error :: "string \<Rightarrow> exn" where
  "currentness_error m \<equiv> Exn RuntimeCurrentnessError m"

text \<open>The guard object, and its sources and two clock readings at one call.\<close>

record currentness_guard =
  gu_admission :: runtime_admission
  gu_effect :: requested_effect
  gu_runtime_identity :: runtime_identity
  gu_live :: live_config
  gu_trust :: trust_binding

record guard_reads =
  gr_resolve_authority :: "string \<Rightarrow> live_authority res"
  gr_current_policy_binding :: "string \<Rightarrow> string res"
  gr_current_observability_state :: "string \<Rightarrow> string \<Rightarrow> string res"
  gr_reads :: "live_reads \<times> live_reads"
  gr_revalidated_at :: utc_time
  gr_observed_at :: utc_time

definition guard_init :: "currentness_guard \<Rightarrow> source_binding \<Rightarrow> unit res" where
  "guard_init u source = checks [runtime_admission_validate (gu_admission u), requested_effect_validate (gu_effect u),
     runtime_identity_validate (gu_runtime_identity u), currentness_trust_validate (gu_trust u),
     currentness_when (source \<noteq> trust_of (gu_trust u)) ''effect-time currentness source substitution denied'',
     currentness_when (rn_requested_effect_digest (gu_admission u) \<noteq> requested_effect_digest (gu_effect u)
       \<or> rn_runtime_identity_digest (gu_admission u) \<noteq> runtime_identity_digest (gu_runtime_identity u)) ''currentness context binding mismatch'']"

definition guard_evidence :: "currentness_guard \<Rightarrow> sandbox_operation \<Rightarrow> string \<Rightarrow> utc_time \<Rightarrow> effect_currentness" where
  "guard_evidence u p obs moment = (let a = gu_admission u; t = gu_trust u in \<lparr>
     cu_evidence_id = sha256 (join [nul] [rn_admission_digest a, sandbox_operation_digest p, utc_text moment]),
     cu_admission_digest = rn_admission_digest a, cu_requested_effect_digest = rn_requested_effect_digest a,
     cu_runtime_identity_digest = rn_runtime_identity_digest a, cu_live_authority_digest = rn_live_authority_digest a,
     cu_authority_lineage_digest = rn_authority_lineage_digest a, cu_policy_binding = rn_policy_binding a, cu_observability_state = obs,
     cu_source_id = tb_source_id t, cu_source_instance_id = tb_source_instance_id t,
     cu_source_implementation_digest = tb_source_implementation_digest t, cu_trust_anchor_id = tb_trust_anchor_id t,
     cu_trust_anchor_digest = tb_trust_anchor_digest t, cu_observed_at = utc_text moment, cu_evidence_digest = [], cu_schema_version = ''1.0.0''\<rparr>)"

definition guard_check :: "currentness_guard \<Rightarrow> guard_reads \<Rightarrow> sandbox_operation \<Rightarrow> effect_currentness res" where
  "guard_check u rd p = (let a = gu_admission u; e = gu_effect u; i = gu_runtime_identity u in
     and_then (checks [
       currentness_when (sb_mission_id p \<noteq> qe_mission_id e \<or> sb_executor_id p \<noteq> ib_execution_subject i \<or> sb_sandbox_id p \<noteq> ib_sandbox_id i
         \<or> sb_workspace_id p \<noteq> ib_workspace_id i) ''effect-time operation identity substitution denied'',
       currentness_when ((sb_action p, sb_path p) \<noteq> (qe_action_class e, qe_resource e)) ''effect-time action/resource substitution denied'']) (\<lambda>_.
     and_then (wrap_errors (\<lambda>_. True) (currentness_error ''effect-time authority evidence unavailable'')
       (gr_resolve_authority rd (rn_admission_digest a))) (\<lambda>admitted.
     and_then (live_digest admitted) (\<lambda>digest.
     and_then (currentness_when (digest \<noteq> rn_live_authority_digest a \<or> lv_lineage_digest admitted \<noteq> rn_authority_lineage_digest a)
       ''effect-time authority substitution denied'') (\<lambda>_.
     and_then (wrap_errors (\<lambda>_. True) (currentness_error ''authority revoked or stale at effect boundary'')
       (revalidate (gu_live u) admitted (gr_revalidated_at rd) (fst (gr_reads rd)) (snd (gr_reads rd)))) (\<lambda>current.
     and_then (live_digest current) (\<lambda>live.
     and_then (currentness_when (live \<noteq> rn_live_authority_digest a) ''authority changed at effect boundary'') (\<lambda>_.
     and_then (wrap_errors (\<lambda>_. True) (currentness_error ''effect-time policy currentness unavailable'')
       (gr_current_policy_binding rd (rn_policy_binding a))) (\<lambda>policy.
     and_then (currentness_when (policy \<noteq> rn_policy_binding a) ''policy changed before effect'') (\<lambda>_.
     and_then (wrap_errors (\<lambda>_. True) (currentness_error ''effect-time observability unavailable'')
       (gr_current_observability_state rd (rn_runtime_identity_digest a) (rn_requested_effect_digest a))) (\<lambda>obs.
     and_then (currentness_when (obs \<noteq> rn_observability_state a) ''observability changed before effect'') (\<lambda>_.
     and_then (currentness_when (obs = ''LOST'') ''effect-time observability ceiling exceeded'') (\<lambda>_.
     and_then (authority_contains (the (map_of OBS_CEILING obs)) (rn_effective_authority a)) (\<lambda>inside.
     and_then (currentness_when (\<not> inside) ''effect-time observability ceiling exceeded'') (\<lambda>_.
     effect_currentness_sealed (guard_evidence u p obs (gr_observed_at rd)))))))))))))))))"

text \<open>The guarded sandbox keeps the last evidence next to the world of the sandbox inside.\<close>

definition guarded_execute ::
  "currentness_guard \<Rightarrow> guard_reads \<Rightarrow> (sandbox_operation \<Rightarrow> string \<Rightarrow> ('w, sandbox_receipt) op)
    \<Rightarrow> sandbox_operation \<Rightarrow> string \<Rightarrow> (effect_currentness option \<times> 'w, sandbox_receipt) op" where
  "guarded_execute u rd inner p payload s = (case guard_check u rd p of
     Inl x \<Rightarrow> (Inl x, s)
   | Inr evidence \<Rightarrow> (case inner p payload (snd s) of (r, w') \<Rightarrow> (r, Some evidence, w')))"

end
