(* ===== verification/Live_Props.thy ===== *)
theory Live_Props
  imports Live_Authority
begin

text \<open>
  What a live admission guarantees while the source and the database change: it is an admission of the one record for its
  key, current for the whole time between the two readings, and a receipt stops being valid with the next change of its
  context.
\<close>

section \<open>A current lineage\<close>

definition grant_live :: "epoch_snapshot \<Rightarrow> int \<Rightarrow> authority_grant \<Rightarrow> bool" where
  "grant_live st now g \<longleftrightarrow> grant_validate g = Inr () \<and> ag_epoch g = pe_epoch st \<and> ag_grant_id g \<notin> set (pe_revoked_grant_ids st)
     \<and> (\<exists>issued expires. grant_utc (ag_issued_at g) = Inr issued \<and> grant_utc (ag_expires_at g) = Inr expires \<and> issued \<le> now \<and> now < expires)"

definition authenticates :: "live_config \<Rightarrow> authority_grant \<Rightarrow> authenticated_grant \<Rightarrow> bool" where
  "authenticates cfg g a \<longleftrightarrow> authenticate_authority_grant g (Some (lf_issuer_keys cfg)) (lf_verifier cfg) (lf_context cfg) = Inr a"

lemma live_grant_utc_ok: "live_grant_utc t = Inr i \<longleftrightarrow> grant_utc t = Inr i"
  by (auto simp: live_grant_utc_def grant_utc_def parse_utc_def split: option.splits)

lemma live_grant_ok: "live_grant cfg st now previous g = Inr a \<longleftrightarrow> grant_live st now g \<and> authenticates cfg g a
    \<and> (\<forall>p. previous = Some p \<longrightarrow> attenuation_hop p g)"
  by (auto simp: live_grant_def grant_live_def authenticates_def and_then_ok live_grant_utc_ok split: option.splits)

lemma authenticate_live_lineage_ok: "authenticate_live_lineage cfg st now previous gs = Inr as \<longleftrightarrow>
    list_all (grant_live st now) gs \<and> list_all2 (authenticates cfg) gs as
    \<and> successively attenuation_hop (case previous of None \<Rightarrow> gs | Some p \<Rightarrow> p # gs)"
proof (induction gs arbitrary: previous as)
  case Nil
  then show ?case by (auto split: option.splits)
next
  case (Cons g gs)
  have "authenticate_live_lineage cfg st now previous (g # gs) = Inr as \<longleftrightarrow>
      (\<exists>a as'. as = a # as' \<and> live_grant cfg st now previous g = Inr a \<and> authenticate_live_lineage cfg st now (Some g) gs = Inr as')"
    by (auto simp: and_then_ok)
  then show ?case unfolding Cons.IH live_grant_ok
    by (auto simp: list_all2_Cons1 successively_Cons split: option.splits)
qed

lemma authenticate_record_ok: "authenticate_record cfg now (v, st, root) = Inr as \<longleftrightarrow> vw_lineage v \<noteq> []
    \<and> pr_root_grant_id root = ag_grant_id (hd (vw_lineage v)) \<and> grant_digest (hd (vw_lineage v)) = Inr (pr_root_grant_digest root)
    \<and> list_all (grant_live st now) (vw_lineage v) \<and> list_all2 (authenticates cfg) (vw_lineage v) as
    \<and> attenuate_lineage (vw_lineage v) = Inr ()"
  by (cases "vw_lineage v") (auto simp: authenticate_record_def and_then_ok authenticate_live_lineage_ok attenuate_lineage_iff
      simp del: authenticate_live_lineage.simps)

lemma live_lineage_ok: "live_lineage cfg now changed before after = Inr (x, as) \<longleftrightarrow>
    before = Inr x \<and> authenticate_record cfg now x = Inr as \<and> (\<exists>y. after = Inr y \<and> same_snapshot x y)"
  by (cases x) (auto simp: live_lineage_def and_then_ok)

lemma durable_view_ok: "durable_view cfg rd = Inr (st, root) \<longleftrightarrow> current_epoch (context_key cfg) (rd_epoch_store rd) = Inr st
    \<and> resolve_root (context_key cfg) (pe_epoch st) (rd_root_store rd) = Inr root"
  by (auto simp: durable_view_def and_then_ok)

lemma same_snapshot_refl [simp]: "same_snapshot x x"
  by (cases x) (simp add: same_snapshot_def)

definition record_view :: "lineage_record \<Rightarrow> lookup_key lineage_view" where
  "record_view r = \<lparr>vw_key = lr_lookup_key r, vw_lineage = lr_lineage r, vw_lineage_digest = lr_lineage_digest r,
     vw_provenance_id = lr_provenance_id r\<rparr>"

lemma live_snapshot_ok: "live_snapshot cfg key rd = Inr (v, d) \<longleftrightarrow>
    (\<exists>r. resolve_exact (be_lookup_exact (rd_backend rd)) key = Inr r \<and> v = record_view r \<and> durable_view cfg rd = Inr d)"
  by (cases d) (auto simp: live_snapshot_def and_then_ok record_view_def pr.resolve_ok)

lemma live_snapshot_ref_ok: "live_snapshot_repository_ref cfg key rd = Inr (v, d) \<Longrightarrow> durable_view cfg rd = Inr d"
  by (auto simp: live_snapshot_repository_ref_def and_then_ok)

section \<open>Between the two readings\<close>

lemma current_epoch_row: "current_epoch c s = Inr st \<longleftrightarrow> context_check c = Inr () \<and> pe_context st = c
    \<and> da_epochs s c = Some (pe_epoch st, pe_revoked_grant_ids st, pe_version st)"
  by (cases st) (auto simp: current_epoch_def split: option.splits)

lemma row_after_antisym: "row_after (e, r, v) (e', r', v') \<Longrightarrow> row_after (e', r', v') (e, r, v) \<Longrightarrow> (e', r', v') = (e, r, v)"
  by (auto simp: row_after_def)

text \<open>A context that reads the same twice did not change in between.\<close>

lemma same_reading_between:
  assumes "durable_step\<^sup>*\<^sup>* s m" "durable_step\<^sup>*\<^sup>* m t" "current_epoch c s = Inr st" "current_epoch c t = Inr st"
  shows "current_epoch c m = Inr st"
proof -
  let ?row = "(pe_epoch st, pe_revoked_grant_ids st, pe_version st)"
  from assms(3,4) have rows: "da_epochs s c = Some ?row" "da_epochs t c = Some ?row" by (simp_all add: current_epoch_row)
  obtain e r v where m: "da_epochs m c = Some (e, r, v)" "row_after ?row (e, r, v)"
    using durable_later_row [OF durable_steps_later [OF assms(1)] rows(1)] by blast
  have "row_after (e, r, v) ?row"
    using durable_later_row [OF durable_steps_later [OF assms(2)] m(1)] rows(2) by force
  from row_after_antisym [OF m(2) this] m(1) assms(3) show ?thesis by (simp add: current_epoch_row)
qed

section \<open>Admission\<close>

lemma live_consume_ok:
  assumes "live_consume cfg digest at s = (Inr u, s')"
  shows "da_replay s (lf_replay_domain cfg, digest) = None" "s' = s\<lparr>da_replay := (da_replay s)((lf_replay_domain cfg, digest) \<mapsto> at)\<rparr>"
  using assms by (auto simp: live_consume_def replay_guard_consume_def consume_replay_def domIff split: sum.splits exn.splits if_splits)

lemma admit_live_ok:
  assumes "admit_live cfg key now nonce before after s = (Inr a, s')"
  obtains x as where "live_lineage cfg (instant now) ''authority state changed during authentication'' (live_snapshot cfg key before)
      (live_snapshot cfg key after) = Inr (x, as)"
    "a = live_authority_of key x as (sha256 (replay_material key nonce x)) now" "live_validate a = Inr ()"
    "lk_mission_id key = vc_mission_id (lf_context cfg)"
    "live_consume cfg (sha256 (replay_material key nonce x)) (utc_text now) s = (Inr (), s')"
  using assms by (auto simp: admit_live_def Let_def split: sum.splits prod.splits)

lemma live_consume_step: "live_consume cfg digest at s = (r, s') \<Longrightarrow> durable_step s s'"
  using replay_step [of s "lf_replay_domain cfg" digest "at"]
  by (auto simp: live_consume_def replay_guard_consume_def split: prod.splits sum.splits exn.splits)

lemma admit_live_store: "admit_live cfg key now nonce before after s = (r, s') \<Longrightarrow> durable_step\<^sup>*\<^sup>* s s'"
  by (auto simp: admit_live_def Let_def split: sum.splits prod.splits dest!: live_consume_step)

text \<open>What an accepted lineage says about its grants at a moment between the readings.\<close>

definition lineage_live :: "live_config \<Rightarrow> authority_grant list \<Rightarrow> int \<Rightarrow> durable_store \<Rightarrow> bool" where
  "lineage_live cfg gs now m \<longleftrightarrow> (\<exists>st. current_epoch (context_key cfg) m = Inr st \<and> list_all (grant_live st now) gs
     \<and> list_all (\<lambda>g. \<exists>a. authenticates cfg g a) gs)"

lemma list_all2_some: "list_all2 P xs ys \<Longrightarrow> list_all (\<lambda>x. \<exists>y. P x y) xs"
  by (induction rule: list_all2_induct) auto

lemma live_lineage_between:
  assumes "live_lineage cfg now changed (live_snapshot cfg key before) (live_snapshot cfg key after) = Inr ((v, st, root), as)"
    "durable_step\<^sup>*\<^sup>* (rd_epoch_store before) m" "durable_step\<^sup>*\<^sup>* m (rd_epoch_store after)"
  shows "current_epoch (context_key cfg) m = Inr st" "lineage_live cfg (vw_lineage v) now m"
proof -
  from assms(1) obtain v' where d: "durable_view cfg before = Inr (st, root)" "durable_view cfg after = Inr (st, root)"
    and au: "authenticate_record cfg now (v, st, root) = Inr as"
    by (auto simp: live_lineage_ok live_snapshot_ok same_snapshot_def)
  then show m: "current_epoch (context_key cfg) m = Inr st"
    using same_reading_between [OF assms(2,3)] by (simp add: durable_view_ok)
  from au have "list_all (grant_live st now) (vw_lineage v)" "list_all2 (authenticates cfg) (vw_lineage v) as"
    by (simp_all add: authenticate_record_ok)
  with m show "lineage_live cfg (vw_lineage v) now m"
    by (simp add: lineage_live_def list_all2_some)
qed

text \<open>C38. A live admission is sound under concurrency. When a receipt is returned, the source held exactly one record for the
  key at the first reading; its grants attenuate one another; and at every state of the database between the two readings of
  the epoch, every grant was valid, signed by its issuer's key, of the current epoch, not revoked and within its window, and the
  receipt names the epoch, the version and the leaf's ceiling. The replay key of the receipt was fresh.\<close>
theorem live_admission_sound:
  assumes "admit_live cfg key now nonce before after s = (Inr a, s')"
    "durable_step\<^sup>*\<^sup>* (rd_epoch_store before) m" "durable_step\<^sup>*\<^sup>* m (rd_epoch_store after)"
  shows "\<exists>r. be_lookup_exact (rd_backend before) key = Inr [r] \<and> lr_lookup_key r = key \<and> attenuate_lineage (lr_lineage r) = Inr ()
    \<and> lineage_live cfg (lr_lineage r) (instant now) m
    \<and> (\<exists>revoked. da_epochs m (context_key cfg) = Some (lv_epoch a, revoked, lv_epoch_state_version a))
    \<and> lv_grant_id a = lk_grant_id key \<and> lv_authority_ceiling a = ag_authority_ceiling (last (lr_lineage r))
    \<and> grant_digest (hd (lr_lineage r)) = Inr (lv_root_grant_digest a)
    \<and> da_replay s (lf_replay_domain cfg, lv_replay_digest a) = None \<and> da_replay s' (lf_replay_domain cfg, lv_replay_digest a) \<noteq> None"
  using assms(1)
proof (rule admit_live_ok)
  fix x as
  assume L: "live_lineage cfg (instant now) ''authority state changed during authentication'' (live_snapshot cfg key before)
      (live_snapshot cfg key after) = Inr (x, as)"
    and a: "a = live_authority_of key x as (sha256 (replay_material key nonce x)) now"
    and C: "live_consume cfg (sha256 (replay_material key nonce x)) (utc_text now) s = (Inr (), s')"
  obtain v st root where x: "x = (v, st, root)" by (cases x)
  from L obtain r where r: "resolve_exact (be_lookup_exact (rd_backend before)) key = Inr r" "v = record_view r"
    and au: "authenticate_record cfg (instant now) (v, st, root) = Inr as"
    unfolding x by (auto simp: live_lineage_ok live_snapshot_ok)
  have rec: "be_lookup_exact (rd_backend before) key = Inr [r]" "lr_lookup_key r = key" "lineage_record_validate r = Inr ()"
    using r(1) by (auto simp: pr.resolve_ok)
  have leaf: "ag_grant_id (last (lr_lineage r)) = lk_grant_id key"
    using rec by (auto simp: lineage_record_validate_def Let_def and_then_ok)
  note m = live_lineage_between [OF L [unfolded x] assms(2,3)]
  have row: "da_epochs m (context_key cfg) = Some (lv_epoch a, pe_revoked_grant_ids st, lv_epoch_state_version a)"
    using m(1) by (simp add: current_epoch_row a x live_authority_of_def)
  show ?thesis
  proof (intro exI [of _ r] conjI exI [of _ "pe_revoked_grant_ids st"] rec(1,2) row)
    show "lineage_live cfg (lr_lineage r) (instant now) m" using m(2) by (simp add: r(2) record_view_def)
  qed (use au live_consume_ok [OF C] leaf in \<open>simp_all add: a x r(2) record_view_def live_authority_of_def authenticate_record_ok\<close>)
qed

section \<open>Once\<close>

lemma admit_live_fresh:
  assumes "admit_live cfg key now nonce before after s = (Inr a, s')"
  shows "da_replay s (lf_replay_domain cfg, lv_replay_digest a) = None" "da_replay s' (lf_replay_domain cfg, lv_replay_digest a) \<noteq> None"
  using assms by (rule admit_live_ok; auto dest: live_consume_ok simp: live_authority_of_def split: prod.splits)+

text \<open>No replay key is accepted twice: whatever happens to the database after an admission, no later admission returns a
  receipt with the same replay digest, in particular none for the same key, nonce, lineage, epoch and version.\<close>
theorem live_admission_once:
  assumes "admit_live cfg key now nonce before after s = (Inr a, s1)" "durable_step\<^sup>*\<^sup>* s1 s2"
  shows "\<nexists>a' s3. admit_live cfg key' now' nonce' before' after' s2 = (Inr a', s3) \<and> lv_replay_digest a' = lv_replay_digest a"
proof -
  from admit_live_fresh(2) [OF assms(1)] durable_later_kept(2) [OF durable_steps_later [OF assms(2)]]
  have "da_replay s2 (lf_replay_domain cfg, lv_replay_digest a) \<noteq> None" by auto
  then show ?thesis by (auto dest: admit_live_fresh(1))
qed

section \<open>Receipts expire with their context\<close>

text \<open>What the clients of the service rely on: a check that reads the context when it starts and accepts a receipt only
  at the version the receipt names.\<close>

locale version_fence =
  fixes accepts :: "'a \<Rightarrow> live_reads \<Rightarrow> live_reads \<Rightarrow> bool"
    and domain :: authority_context
    and version :: "'a \<Rightarrow> int"
  assumes reads_version: "accepts a before after \<Longrightarrow> \<exists>e r. da_epochs (rd_epoch_store before) domain = Some (e, r, version a)"
begin

lemma stale_refused:
  assumes "current_epoch domain s = Inr p" "version a \<le> pe_version p" "advance_epoch domain epoch ids s = (Inr p', s')"
    "durable_step\<^sup>*\<^sup>* s' (rd_epoch_store before)"
  shows "\<not> accepts a before after"
proof
  assume "accepts a before after"
  then obtain e r where now: "da_epochs (rd_epoch_store before) domain = Some (e, r, version a)" using reads_version by blast
  have "da_epochs s' domain = Some (epoch, sort ids, pe_version p + 1)"
    using assms(1,3) by (cases rule: advance_cases [of domain epoch ids s]) (auto simp: current_epoch_row)
  from durable_later_row [OF durable_steps_later [OF assms(4)] this] now have "pe_version p + 1 \<le> version a"
    by (auto simp: row_after_def)
  with assms(2) show False by simp
qed

end

lemma revalidate_ok:
  assumes "revalidate cfg a now before after = Inr b"
  obtains y where "b = a" "live_validate a = Inr ()" "receipt_current a y" "lv_mission_id a = vc_mission_id (lf_context cfg)"
    "live_lineage cfg (instant now) ''authority state changed during revalidation'' (live_snapshot cfg (key_of a) before)
       (live_snapshot cfg (key_of a) after) = Inr y"
  using assms by (auto simp: revalidate_def and_then_ok)

interpretation pr_receipt: version_fence "\<lambda>a before after. \<exists>b. revalidate cfg a now before after = Inr b" "context_key cfg"
  lv_epoch_state_version
proof
  fix a before after assume "\<exists>b. revalidate cfg a now before after = Inr b"
  then obtain b where "revalidate cfg a now before after = Inr b" by blast
  then show "\<exists>e r. da_epochs (rd_epoch_store before) (context_key cfg) = Some (e, r, lv_epoch_state_version a)"
    by (rule revalidate_ok)
       (auto simp: receipt_current_def live_lineage_ok live_snapshot_ok durable_view_ok current_epoch_row split: prod.splits)
qed

interpretation ref_receipt: version_fence "\<lambda>a before after. \<exists>b. revalidate_repository_ref cfg a now before after = Inr b"
  "context_key cfg" lv_epoch_state_version
proof
  fix a before after assume "\<exists>b. revalidate_repository_ref cfg a now before after = Inr b"
  then show "\<exists>e r. da_epochs (rd_epoch_store before) (context_key cfg) = Some (e, r, lv_epoch_state_version a)"
    by (auto simp: revalidate_repository_ref_def and_then_ok receipt_current_def live_lineage_ok durable_view_ok current_epoch_row
        dest!: live_snapshot_ref_ok split: prod.splits)
qed

lemma finalize_live_revalidates: "finalize_live cfg a evidence nonce now before after s = (Inr f, s') \<Longrightarrow>
    \<exists>b. revalidate cfg a now before after = Inr b"
  by (auto simp: finalize_live_def and_then_ok split: sum.splits)

text \<open>C39. Revocation reaches every receipt. Once the context of a receipt was advanced (a new epoch, or more revocations in the
  same epoch) at or after the receipt's version, the receipt is never revalidated again and no binding is finalised with it,
  at whatever later state the checks read and at whatever time.\<close>
theorem receipts_expire:
  assumes "current_epoch (context_key cfg) s = Inr p" "lv_epoch_state_version a \<le> pe_version p"
    "advance_epoch (context_key cfg) epoch ids s = (Inr p', s')" "durable_step\<^sup>*\<^sup>* s' (rd_epoch_store before)"
  shows "(\<exists>e. revalidate cfg a now before after = Inl e) \<and> (\<exists>e. fst (finalize_live cfg a evidence nonce now before after t) = Inl e)"
  using pr_receipt.stale_refused [OF assms, of now after] finalize_live_revalidates [of cfg a evidence nonce now before after t]
  by (metis prod.collapse sum.exhaust)

text \<open>The same for receipts of repository refs.\<close>

lemma ref_receipts_expire:
  assumes "current_epoch (context_key cfg) s = Inr p" "lv_epoch_state_version a \<le> pe_version p"
    "advance_epoch (context_key cfg) epoch ids s = (Inr p', s')" "durable_step\<^sup>*\<^sup>* s' (rd_epoch_store before)"
  shows "\<exists>e. revalidate_repository_ref cfg a now before after = Inl e"
  using ref_receipt.stale_refused [OF assms, of now after] by (metis sum.exhaust)

section \<open>An example\<close>

definition live_example :: live_config where
  "live_example = \<lparr>lf_context = example_context, lf_issuer_keys = example_keys, lf_verifier = example_verifier, lf_replay_domain = ''live''\<rparr>"

definition live_moment :: utc_time where
  "live_moment = \<lparr>year = 2026, month = 1, day = 5, hour = 12, minute = 0, second = 0, microsecond = 0\<rparr>"

definition live_store :: durable_store where
  "live_store = durable_empty\<lparr>da_epochs := [state_context example_state \<mapsto> (3, [''old''], 1)],
     da_roots := [(state_context example_state, 3) \<mapsto> (''root'', sha256 (grant_preimage root_grant))]\<rparr>"

definition live_read :: "durable_store \<Rightarrow> live_reads" where
  "live_read s = \<lparr>rd_backend = \<lparr>be_lookup_exact = example_lookup, be_lookup_repository_ref_exact = lookup_repository_ref_unsupported\<rparr>,
     rd_epoch_store = s, rd_root_store = s\<rparr>"

definition live_view :: "lookup_key live_state" where
  "live_view = (record_view example_record,
     \<lparr>pe_context = state_context example_state, pe_epoch = 3, pe_revoked_grant_ids = [''old''], pe_version = 1\<rparr>,
     \<lparr>pr_context = state_context example_state, pr_epoch = 3, pr_root_grant_id = ''root'', pr_root_grant_digest = sha256 (grant_preimage root_grant)\<rparr>)"

definition live_digests :: "authenticated_grant list" where
  "live_digests = map (\<lambda>g. projr (authenticate_authority_grant g (Some example_keys) example_verifier example_context)) [root_grant, leaf_grant]"

definition live_example_receipt :: "string \<Rightarrow> live_authority" where
  "live_example_receipt n = live_authority_of example_key live_view live_digests (sha256 (replay_material example_key n live_view)) live_moment"

lemma live_moment_valid: "valid_utc live_moment"
  by code_simp

lemma live_example_key: "context_key live_example = state_context example_state"
  by (simp add: context_key_def live_example_def example_context_def state_context_def example_state_def)

lemma live_sha256_hex [simp]: "is_hex 64 v \<Longrightarrow> live_sha256 v name = Inr ()"
  using durable_sha256_hex [of v name] by (simp add: live_sha256_def durable_sha256_def)

lemma live_example_snapshot: "live_snapshot live_example example_key (live_read live_store) = Inr live_view"
proof -
  have "lookup_key_validate example_key = Inr ()" by code_simp
  then have "resolve_exact example_lookup example_key = Inr example_record"
    unfolding pr.resolve_ok by (simp add: example_lookup_def example_record_valid) (simp add: example_record_def)
  then show ?thesis
    by (simp add: live_view_def live_snapshot_ok durable_view_ok live_example_key live_read_def current_epoch_def resolve_root_def
        live_store_def example_context_check sqlite_int_def)
qed

lemma live_example_grants: "list_all (\<lambda>g. grant_live (fst (snd live_view)) (instant live_moment) g) [root_grant, leaf_grant]"
proof -
  have "grant_utc (ag_issued_at root_grant) = Inr 63902908800000000" "grant_utc (ag_expires_at root_grant) = Inr 63905587200000000"
    "grant_utc (ag_issued_at leaf_grant) = Inr 63902995200000000" "grant_utc (ag_expires_at leaf_grant) = Inr 63905587200000000"
    "instant live_moment = 63903297600000000" by code_simp+
  then show ?thesis
    by (simp add: grant_live_def example_grants_valid live_view_def) (simp add: root_grant_def leaf_grant_def)
qed

lemma live_example_authenticates: "list_all2 (authenticates live_example) [root_grant, leaf_grant] live_digests"
proof -
  have "authenticates live_example g (projr (authenticate_authority_grant g (Some example_keys) example_verifier example_context))"
    if "\<exists>a. authenticate_authority_grant g (Some example_keys) example_verifier example_context = Inr a" for g
    using that by (auto simp: authenticates_def live_example_def)
  with example_authenticates show ?thesis by (simp add: live_digests_def)
qed

lemma live_example_lineage: "live_lineage live_example (instant live_moment) changed (live_snapshot live_example example_key (live_read live_store))
    (live_snapshot live_example example_key (live_read live_store)) = Inr (live_view, live_digests)"
proof -
  have view: "vw_lineage (record_view example_record) = [root_grant, leaf_grant]" by (simp add: record_view_def example_record_def)
  have root: "ag_grant_id root_grant = ''root''" by (simp add: root_grant_def)
  have digest: "grant_digest root_grant = Inr (sha256 (grant_preimage root_grant))"
    by (simp add: grant_digest_ok example_grants_valid grant_preimage_def)
  have "authenticate_record live_example (instant live_moment) live_view = Inr live_digests"
    using live_example_grants live_example_authenticates example_attenuation
    by (simp add: live_view_def authenticate_record_ok view root digest)
  then show ?thesis by (simp add: live_lineage_ok live_example_snapshot)
qed

lemma live_digest_evidence:
  assumes "authenticates cfg g a"
  shows "is_hex 64 (au_grant_digest a) \<and> (\<exists>b\<in>set (lf_issuer_keys cfg). au_key_id a = ik_key_id b \<and> au_algorithm a = ik_algorithm b)"
proof -
  from assms obtain b p d where f: "filter (eligible g (lf_context cfg)) (lf_issuer_keys cfg) = [b]" and d: "grant_digest g = Inr d"
    and a: "a = authenticated_evidence g (lf_context cfg) b p d"
    unfolding authenticates_def authenticate_ok by blast
  from filter_singletonD [OF f] have "b \<in> set (lf_issuer_keys cfg)" by blast
  with grant_digest_hex [OF d] show ?thesis by (auto simp: a authenticated_evidence_def)
qed

lemma live_example_digests: "list_all (\<lambda>a. is_hex 64 (au_grant_digest a) \<and> \<not> text_invalid 512 (au_key_id a) \<and> \<not> text_invalid 512 (au_algorithm a)) live_digests"
proof -
  have keys: "list_all (\<lambda>b. \<not> text_invalid 512 (ik_key_id b) \<and> \<not> text_invalid 512 (ik_algorithm b)) example_keys" by code_simp
  have good: "is_hex 64 (au_grant_digest a) \<and> \<not> text_invalid 512 (au_key_id a) \<and> \<not> text_invalid 512 (au_algorithm a)"
    if "authenticates live_example g a" for g a
    using live_digest_evidence [OF that] keys by (auto simp: list_all_iff live_example_def)
  from live_example_authenticates show ?thesis
    by (rule list_all2_induct) (simp_all add: good)
qed

lemma live_example_sel:
  "lv_repository (live_example_receipt n) = ''o/r''" "lv_mission_id (live_example_receipt n) = ''m1''" "lv_grant_id (live_example_receipt n) = ''leaf''"
  "lv_lineage_digest (live_example_receipt n) = lr_lineage_digest example_record" "lv_provenance_id (live_example_receipt n) = ''control-plane/1''"
  "lv_epoch (live_example_receipt n) = 3" "lv_epoch_state_version (live_example_receipt n) = 1"
  "lv_authority_ceiling (live_example_receipt n) = ''external_write''" "lv_root_grant_id (live_example_receipt n) = ''root''"
  "lv_root_grant_digest (live_example_receipt n) = sha256 (grant_preimage root_grant)"
  "lv_authenticated_grant_digests (live_example_receipt n) = map au_grant_digest live_digests"
  "lv_leaf_key_id (live_example_receipt n) = au_key_id (last live_digests)" "lv_leaf_algorithm (live_example_receipt n) = au_algorithm (last live_digests)"
  "lv_replay_digest (live_example_receipt n) = sha256 (replay_material example_key n live_view)"
  "lv_admitted_at (live_example_receipt n) = utc_text live_moment" "la_pr_number (live_example_receipt n) = 7"
  "la_base_sha (live_example_receipt n) = replicate 40 CHR ''b''" "la_head_sha (live_example_receipt n) = replicate 40 CHR ''c''"
  by (simp_all add: live_example_receipt_def live_authority_of_def live_view_def record_view_def)
     (simp_all add: example_record_def example_key_def, simp_all add: leaf_grant_def root_grant_def)

lemma live_example_valid: "live_validate (live_example_receipt n) = Inr ()"
proof -
  have t: "list_all (\<lambda>t. \<not> text_invalid 512 t) [''o/r'', ''m1'', ''leaf'', ''control-plane/1'', ''external_write'', ''root'',
      replicate 40 CHR ''b'', replicate 40 CHR ''c'', utc_text live_moment]" by code_simp
  have d: "is_hex 64 (lr_lineage_digest example_record)" using example_source_digest by (auto simp: example_record_def)
  have ne: "live_digests \<noteq> []" by (simp add: live_digests_def)
  with live_example_digests have l: "\<not> text_invalid 512 (au_key_id (last live_digests))" "\<not> text_invalid 512 (au_algorithm (last live_digests))"
    by (simp_all add: list_all_iff)
  have e: "\<forall>a\<in>set live_digests. live_sha256 (au_grant_digest a) n = Inr ()" for n
    using live_example_digests by (simp add: list_all_iff)
  show ?thesis using t d l e ne
    by (simp add: live_validate_def live_example_sel receipt_texts_def receipt_state_checks_def live_text_def checks_map_ok receipt_utc_def
        live_moment_valid)
qed

lemma live_example_admitted:
  assumes n: "\<not> blank n"
  shows "admit_live live_example example_key live_moment n (live_read live_store) (live_read live_store) live_store
    = (Inr (live_example_receipt n), live_store\<lparr>da_replay := [(''live'', lv_replay_digest (live_example_receipt n)) \<mapsto> utc_text live_moment]\<rparr>)"
proof -
  let ?d = "sha256 (replay_material example_key n live_view)"
  have "\<not> text_invalid 512 ''live''" "\<not> text_invalid 1024 (utc_text live_moment)" by code_simp+
  moreover have "lk_mission_id example_key = vc_mission_id (lf_context live_example)"
    by (simp add: example_key_def live_example_def example_context_def)
  moreover have "da_replay live_store = Map.empty" by (simp add: live_store_def durable_empty_def)
  ultimately have "live_consume live_example ?d (utc_text live_moment) live_store
      = (Inr (), live_store\<lparr>da_replay := [(''live'', ?d) \<mapsto> utc_text live_moment]\<rparr>)"
    and pre: "lk_mission_id example_key = vc_mission_id (lf_context live_example)"
    by (simp_all add: live_consume_def replay_guard_consume_def consume_replay_def durable_text_def durable_sha256_hex live_example_def)
  then show ?thesis using live_example_valid [of n] n
    by (simp add: admit_live_def live_example_lineage Let_def live_example_receipt_def [symmetric] live_example_sel)
qed

lemma issued_receipt_current: "receipt_current (live_authority_of key x as d now) (x, as)"
  by (cases x) (simp add: receipt_current_def live_authority_of_def)

lemma live_example_revalidates: "revalidate live_example (live_example_receipt n) live_moment (live_read live_store) (live_read live_store)
    = Inr (live_example_receipt n)"
proof -
  have "key_of (live_example_receipt n) = example_key" by (simp add: key_of_def live_example_sel example_key_def)
  moreover have "receipt_current (live_example_receipt n) (live_view, live_digests)"
    unfolding live_example_receipt_def by (rule issued_receipt_current)
  moreover have "lv_mission_id (live_example_receipt n) = vc_mission_id (lf_context live_example)"
    by (simp add: live_example_sel live_example_def example_context_def)
  ultimately show ?thesis by (simp add: revalidate_def live_example_valid live_example_lineage)
qed

lemma live_store_row: "da_epochs live_store (state_context example_state) = Some (3, [''old''], 1)"
  by (simp add: live_store_def)

lemma live_store_current: "current_epoch (context_key live_example) live_store = Inr \<lparr>pe_context = state_context example_state, pe_epoch = 3,
    pe_revoked_grant_ids = [''old''], pe_version = 1\<rparr>"
  by (simp add: live_example_key current_epoch_def live_store_row example_context_check)

lemma live_nonce: "\<not> blank ''n''"
  by code_simp

text \<open>The admission of the example, read twice at the same state.\<close>
theorem live_admission_sound_witness:
  "lineage_live live_example [root_grant, leaf_grant] (instant live_moment) live_store
   \<and> lv_authority_ceiling (live_example_receipt ''n'') = ''external_write''"
proof -
  obtain r where "be_lookup_exact (rd_backend (live_read live_store)) example_key = Inr [r]" "lineage_live live_example (lr_lineage r) (instant live_moment) live_store"
    using live_admission_sound [OF live_example_admitted [OF live_nonce], of live_store] by (auto simp: live_read_def)
  moreover from this(1) have "r = example_record" by (simp add: live_read_def example_lookup_def)
  ultimately show ?thesis by (simp add: example_record_def live_example_sel)
qed

text \<open>The same admission is not granted again.\<close>
theorem live_admission_once_witness:
  "\<exists>e. fst (admit_live live_example example_key live_moment ''n'' (live_read live_store) (live_read live_store)
     (snd (admit_live live_example example_key live_moment ''n'' (live_read live_store) (live_read live_store) live_store))) = Inl e"
proof -
  let ?again = "admit_live live_example example_key live_moment ''n'' (live_read live_store) (live_read live_store)"
  let ?s = "snd (?again live_store)"
  have once: "\<nexists>a' s3. ?again ?s = (Inr a', s3) \<and> lv_replay_digest a' = lv_replay_digest (live_example_receipt ''n'')"
    using live_admission_once [OF live_example_admitted [OF live_nonce], of ?s] by (simp add: live_example_admitted [OF live_nonce])
  have "lv_replay_digest a' = lv_replay_digest (live_example_receipt ''n'')" if "?again ?s = (Inr a', s3)" for a' s3
    using that by (rule admit_live_ok) (simp add: live_example_lineage live_example_receipt_def)
  with once show ?thesis by (metis prod.collapse sum.exhaust)
qed

text \<open>One more revocation in the same epoch ends the receipt.\<close>
theorem receipts_expire_witness:
  "revalidate live_example (live_example_receipt ''n'') live_moment (live_read live_store) (live_read live_store) = Inr (live_example_receipt ''n'')
   \<and> (\<exists>e. revalidate live_example (live_example_receipt ''n'') live_moment (live_read (example_advanced live_store))
        (live_read (example_advanced live_store)) = Inl e)"
proof -
  let ?s = "example_advanced live_store"
  have "advance_epoch (context_key live_example) 3 [''new'', ''old''] live_store = (Inr \<lparr>pe_context = state_context example_state, pe_epoch = 3,
      pe_revoked_grant_ids = [''new'', ''old''], pe_version = 2\<rparr>, ?s)"
    using example_advance [OF live_store_row] by (simp add: live_example_key example_advanced_def)
  from receipts_expire [OF live_store_current _ this, of "live_example_receipt ''n''" "live_read ?s" live_moment "live_read ?s"] live_example_revalidates
  show ?thesis by (simp add: live_example_sel live_read_def)
qed

end
