(* ===== verification/Policy_Props.thy ===== *)
theory Policy_Props
  imports Policy_Gate Live_Props
begin

text \<open>
  The properties of the policy decision point: it allows only what a live, revalidated authority, the observability and the
  execution gate permit, and it decides a request once.
\<close>

section \<open>A backed receipt\<close>

text \<open>A receipt whose lineage is live at a state of the database.\<close>

definition receipt_backed :: "live_config \<Rightarrow> 'a live_receipt_scheme \<Rightarrow> authority_grant list \<Rightarrow> int \<Rightarrow> durable_store \<Rightarrow> bool" where
  "receipt_backed cfg a gs now m \<longleftrightarrow> lineage_live cfg gs now m \<and> gs \<noteq> [] \<and> attenuate_lineage gs = Inr ()
     \<and> (\<exists>revoked. da_epochs m (context_key cfg) = Some (lv_epoch a, revoked, lv_epoch_state_version a))
     \<and> lv_authority_ceiling a = ag_authority_ceiling (last gs) \<and> map grant_digest gs = map Inr (lv_authenticated_grant_digests a)"

lemma authenticates_digest: "authenticates cfg g a \<Longrightarrow> grant_digest g = Inr (au_grant_digest a)"
  by (auto simp: authenticates_def authenticate_ok authenticated_evidence_def)

lemma authenticated_digests: "list_all2 (authenticates cfg) gs as \<Longrightarrow> map grant_digest gs = map Inr (map au_grant_digest as)"
  by (induction rule: list_all2_induct) (simp_all add: authenticates_digest)

lemma lineage_backed:
  assumes L: "live_lineage cfg now changed before after = Inr ((v, st, rt), as)" and cur: "receipt_current a ((v, st, rt), as)"
    and views: "\<And>d. before = Inr (v, d) \<Longrightarrow> durable_view cfg rb = Inr d" "\<And>w d. after = Inr (w, d) \<Longrightarrow> durable_view cfg ra = Inr d"
    and m: "durable_step\<^sup>*\<^sup>* (rd_epoch_store rb) m" "durable_step\<^sup>*\<^sup>* m (rd_epoch_store ra)"
  shows "receipt_backed cfg a (vw_lineage v) now m"
proof -
  from L obtain w where b: "before = Inr (v, st, rt)" and au: "authenticate_record cfg now (v, st, rt) = Inr as"
    and w: "after = Inr (w, st, rt)"
    by (auto simp: live_lineage_ok same_snapshot_def)
  have st: "current_epoch (context_key cfg) m = Inr st"
    using same_reading_between [OF m] views(1) [OF b] views(2) [OF w] by (simp add: durable_view_ok)
  from au have as: "list_all2 (authenticates cfg) (vw_lineage v) as" by (simp add: authenticate_record_ok)
  have "lineage_live cfg (vw_lineage v) now m"
    using au st list_all2_some [OF as] by (auto simp: lineage_live_def authenticate_record_ok)
  moreover have "da_epochs m (context_key cfg) = Some (lv_epoch a, pe_revoked_grant_ids st, lv_epoch_state_version a)"
    using st cur by (simp add: current_epoch_row receipt_current_def)
  ultimately show ?thesis
    using au cur authenticated_digests [OF as] by (simp add: receipt_backed_def receipt_current_def authenticate_record_ok)
qed

lemma pr_backed:
  assumes "revalidate cfg a now before after = Inr b" "durable_step\<^sup>*\<^sup>* (rd_epoch_store before) m" "durable_step\<^sup>*\<^sup>* m (rd_epoch_store after)"
  obtains gs where "receipt_backed cfg a gs (instant now) m"
  using assms(1)
proof (rule revalidate_ok)
  fix y assume y: "receipt_current a y" "live_lineage cfg (instant now) ''authority state changed during revalidation''
      (live_snapshot cfg (key_of a) before) (live_snapshot cfg (key_of a) after) = Inr y"
  obtain v st rt as where "y = ((v, st, rt), as)" by (metis prod.collapse)
  with lineage_backed [OF y(2) [unfolded this] y(1) [unfolded this] _ _ assms(2,3)] that show thesis
    by (fastforce simp: live_snapshot_ok)
qed

lemma ref_backed:
  assumes "revalidate_repository_ref cfg a now before after = Inr b" "durable_step\<^sup>*\<^sup>* (rd_epoch_store before) m"
    "durable_step\<^sup>*\<^sup>* m (rd_epoch_store after)"
  obtains gs where "receipt_backed cfg a gs (instant now) m"
proof -
  from assms(1) obtain v st rt as where y: "receipt_current a ((v, st, rt), as)"
    "live_lineage cfg (instant now) ''authority state changed during revalidation'' (live_snapshot_repository_ref cfg (ref_key_of a) before)
       (live_snapshot_repository_ref cfg (ref_key_of a) after) = Inr ((v, st, rt), as)"
    by (auto simp: revalidate_repository_ref_def and_then_ok)
  have "receipt_backed cfg a (vw_lineage v) (instant now) m"
    by (rule lineage_backed [OF y(2,1) _ _ assms(2,3)]) (auto dest: live_snapshot_ref_ok)
  with that show thesis by blast
qed

lemma receipt_backed_truncate [simp]: "receipt_backed cfg (live_receipt.truncate a) gs now m \<longleftrightarrow> receipt_backed cfg a gs now m"
  by (simp add: receipt_backed_def live_receipt.defs)

lemma key_backed:
  assumes "revalidate_key cfg k x = Inr u" "durable_step\<^sup>*\<^sup>* (rd_epoch_store (fst (pk_revalidate_reads k))) m"
    "durable_step\<^sup>*\<^sup>* m (rd_epoch_store (snd (pk_revalidate_reads k)))"
  obtains gs where "receipt_backed cfg (admitted_core x) gs (instant (pk_trusted_now k)) m"
proof (cases x)
  case (PrAdmitted a)
  with assms(1) obtain b where "revalidate cfg a (pk_trusted_now k) (fst (pk_revalidate_reads k)) (snd (pk_revalidate_reads k)) = Inr b"
    by (auto simp: revalidate_key_def and_then_ok split: prod.splits)
  from pr_backed [OF this assms(2,3)] that show thesis by (auto simp: PrAdmitted admitted_core_def)
next
  case (RefAdmitted a)
  with assms(1) obtain b where "revalidate_repository_ref cfg a (pk_trusted_now k) (fst (pk_revalidate_reads k)) (snd (pk_revalidate_reads k)) = Inr b"
    by (auto simp: revalidate_key_def and_then_ok split: prod.splits)
  from ref_backed [OF this assms(2,3)] that show thesis by (auto simp: RefAdmitted admitted_core_def)
qed

lemma backed_leaf:
  assumes "receipt_backed cfg a gs now m"
  shows "grant_digest (last gs) = Inr (last (lv_authenticated_grant_digests a))"
proof -
  from assms have m: "map grant_digest gs = map Inr (lv_authenticated_grant_digests a)" and ne: "gs \<noteq> []" by (simp_all add: receipt_backed_def)
  then have "lv_authenticated_grant_digests a \<noteq> []" by auto
  with arg_cong [OF m, of last] ne show ?thesis by (simp add: last_map)
qed

section \<open>What an ALLOW rests on\<close>

definition independent_verifier :: "action_proposal \<Rightarrow> bool" where
  "independent_verifier p \<longleftrightarrow> (\<exists>v. ap_verifier_agent_id p = Some v \<and> v \<noteq> [] \<and> v \<noteq> ap_proposer_agent_id p)"

lemma decide_allow:
  assumes "decide k = Inr d" "fst d = ''ALLOW''"
  shows "fst (snd d) = ap_requested_authority (pk_proposal k)"
    "authority_contains (the (map_of OBS_CEILING (pk_observability_state k))) (ap_requested_authority (pk_proposal k)) = Inr True"
    "ap_consequential (pk_proposal k) \<and> pl_lane (pk_policy k) \<in> {''AMBER'', ''RED''} \<Longrightarrow> independent_verifier (pk_proposal k)"
    "\<exists>base. gate_evaluate (pk_proposal k) (pk_mission k) (pk_swarm k) (pk_agents k) [policy_binding (pk_policy k)] (pk_observed_event_types k)
       (pk_gate_event_id k) = Inr base \<and> gd_decision base = ''ALLOW''"
  using assms by (auto simp: decide_def Let_def and_then_ok independent_verifier_def split: if_splits option.splits)

definition decision_backed :: "pdp_call \<Rightarrow> 'a live_receipt_scheme \<Rightarrow> authority_grant \<Rightarrow> bool" where
  "decision_backed k a leaf \<longleftrightarrow> (let p = pk_proposal k in
     ag_mission_id leaf = ap_mission_id p \<and> ag_capability_id leaf = ap_capability p \<and> ag_policy_digest leaf = pl_content_digest (pk_policy k)
     \<and> pl_active (pk_policy k) \<and> pl_lane (pk_policy k) = mi_risk_class (pk_mission k)
     \<and> authority_contains (lv_authority_ceiling a) (ap_requested_authority p) = Inr True
     \<and> authority_contains (the (map_of OBS_CEILING (pk_observability_state k))) (ap_requested_authority p) = Inr True
     \<and> (ap_consequential p \<and> pl_lane (pk_policy k) \<in> {''AMBER'', ''RED''} \<longrightarrow> independent_verifier p)
     \<and> (\<exists>base. gate_evaluate p (pk_mission k) (pk_swarm k) (pk_agents k) [policy_binding (pk_policy k)] (pk_observed_event_types k)
          (pk_gate_event_id k) = Inr base \<and> gd_decision base = ''ALLOW''))"

lemma pdp_evaluate_fresh:
  assumes "pdp_evaluate cfg k s = (Inr r, s')" "ps_replay s (pk_request_id k) = None"
  obtains sd gd y store where "pdp_precheck k = Inr (sd, gd)" "admit_key cfg k (ps_store s) = (Inr y, store)"
    "pdp_decision cfg k sd gd y = Inr r"
  using assms by (auto simp: pdp_evaluate_def Let_def split: sum.splits prod.splits)

lemma pdp_decision_ok:
  assumes "pdp_decision cfg k sd gd y = Inr r"
  obtains q d z where "authority_bindings k y = Inr ()" "decide k = Inr d" "revalidate_key cfg k (fst y) = Inr ()"
    "applied_sealed (applied_of k sd gd (fst y) d) = Inr z" "pt_applied r = z"
  using assms by (auto simp: pdp_decision_def Let_def and_then_ok)

lemma applied_sealed_sel:
  assumes "applied_sealed z = Inr z'"
  shows "gz_decision z' = gz_decision z" "gz_effective_authority z' = gz_effective_authority z"
  using assms by (auto simp: applied_sealed_def)

lemma authority_bindings_ok: "authority_bindings k (x, gs, d) = Inr u \<longleftrightarrow> d = lv_lineage_digest (admitted_core x)
    \<and> grant_digest (last gs) = Inr (last (lv_authenticated_grant_digests (admitted_core x)))
    \<and> ag_mission_id (last gs) = ap_mission_id (pk_proposal k) \<and> ag_capability_id (last gs) = ap_capability (pk_proposal k)
    \<and> ag_policy_digest (last gs) = pl_content_digest (pk_policy k)
    \<and> authority_contains (lv_authority_ceiling (admitted_core x)) (ap_requested_authority (pk_proposal k)) = Inr True"
  by (auto simp: authority_bindings_def Let_def and_then_ok)

text \<open>C7. The decision point allows only live authority. When it decides \<open>ALLOW\<close> on a fresh request, then at every state of the
  database between the readings of its last revalidation there is a lineage, signed, attenuating, unrevoked, of the current
  epoch and within its windows, whose leaf has the ceiling that contains the requested authority and has the digest of a grant
  for exactly the mission, capability and policy content of the request; the policy is active and of the mission's lane,
  the observability permits the authority, a consequential request in \<open>AMBER\<close> or \<open>RED\<close> names an independent verifier, the execution
  gate allows the proposal, and the authority granted is the one requested.\<close>
theorem pdp_allow_sound:
  assumes "pdp_evaluate cfg k s = (Inr r, s')" "ps_replay s (pk_request_id k) = None" "gz_decision (pt_applied r) = ''ALLOW''"
    "durable_step\<^sup>*\<^sup>* (rd_epoch_store (fst (pk_revalidate_reads k))) m" "durable_step\<^sup>*\<^sup>* m (rd_epoch_store (snd (pk_revalidate_reads k)))"
  shows "\<exists>a gs leaf. receipt_backed cfg (a :: live_receipt) gs (instant (pk_trusted_now k)) m \<and> grant_digest leaf = grant_digest (last gs)
    \<and> decision_backed k a leaf \<and> gz_effective_authority (pt_applied r) = ap_requested_authority (pk_proposal k)"
  using assms(1,2)
proof (rule pdp_evaluate_fresh)
  fix sd gd y store
  assume pre: "pdp_precheck k = Inr (sd, gd)" and D: "pdp_decision cfg k sd gd y = Inr r"
  obtain x gs0 d0 where y: "y = (x, gs0, d0)" by (cases y)
  from D show ?thesis
  proof (rule pdp_decision_ok)
    fix d z
    assume b: "authority_bindings k y = Inr ()" and d: "decide k = Inr d" and v: "revalidate_key cfg k (fst y) = Inr ()"
      and z: "applied_sealed (applied_of k sd gd (fst y) d) = Inr z" "pt_applied r = z"
    have allow: "fst d = ''ALLOW''" and eff: "gz_effective_authority z = fst (snd d)"
      using assms(3) applied_sealed_sel [OF z(1)] by (simp_all add: z(2) applied_of_def split: prod.splits)
    from v assms(4,5) obtain gs where gs: "receipt_backed cfg (admitted_core x) gs (instant (pk_trusted_now k)) m"
      unfolding y fst_conv by (rule key_backed)
    with b backed_leaf [OF gs] have "grant_digest (last gs0) = grant_digest (last gs)" by (simp add: y authority_bindings_ok)
    moreover have "decision_backed k (admitted_core x) (last gs0)"
      using b pre decide_allow [OF d allow] by (simp add: decision_backed_def Let_def y authority_bindings_ok pdp_precheck_def)
    ultimately show ?thesis using gs eff decide_allow(1) [OF d allow] z(2)
      by (intro exI [of _ "admitted_core x"] exI [of _ gs] exI [of _ "last gs0"]) simp
  qed
qed

section \<open>Deciding once\<close>

definition call_digest :: "pdp_call \<Rightarrow> string" where
  "call_digest k = pre_request_digest k (projr (pk_graph_digest k)) (projr (pk_status_digest k))"

lemma pdp_precheck_digests: "pdp_precheck k = Inr (sd, gd) \<Longrightarrow> pre_request_digest k gd sd = call_digest k"
  by (auto simp: pdp_precheck_def and_then_ok call_digest_def)

lemma pdp_evaluate_known:
  assumes "ps_replay s (pk_request_id k) = Some (old, result)"
  shows "snd (pdp_evaluate cfg k s) = s" "fst (pdp_evaluate cfg k s) = Inr r \<Longrightarrow> r = result \<and> old = call_digest k"
  using assms pdp_precheck_digests [of k]
  by (auto simp: pdp_evaluate_def Let_def split: sum.splits prod.splits if_splits)

lemma pdp_evaluate_records:
  assumes "pdp_evaluate cfg k s = (Inr r, s')"
  shows "ps_replay s' (pk_request_id k) = Some (call_digest k, r)"
proof (cases "ps_replay s (pk_request_id k)")
  case None
  with assms pdp_precheck_digests [of k] show ?thesis
    by (auto simp: pdp_evaluate_def Let_def split: sum.splits prod.splits)
next
  case (Some y)
  with assms pdp_evaluate_known(1) [of s k "fst y" "snd y" cfg] pdp_evaluate_known(2) [of s k "fst y" "snd y" cfg r]
  show ?thesis by (cases y) simp
qed

lemma pdp_evaluate_keeps: "ps_replay s i = Some y \<Longrightarrow> ps_replay (snd (pdp_evaluate cfg k s)) i = Some y"
  by (auto simp: pdp_evaluate_def Let_def split: sum.splits prod.splits option.splits if_splits)

lemma pdp_run_keeps: "ps_replay s i = Some y \<Longrightarrow> ps_replay (snd (run_ops (map (pdp_evaluate cfg) ks) s)) i = Some y"
proof (induction ks arbitrary: s)
  case (Cons k ks)
  from Cons.IH [OF pdp_evaluate_keeps [OF Cons.prems]] show ?case by (simp add: case_prod_beta Let_def)
qed simp

text \<open>A request is decided once. After a decision, whatever is evaluated in between, a call with the same request id changes
  nothing, admits no authority again, and either returns that very decision, for a call with the same digest over proposal,
  policy, authority key, graph, status, observability and evidence, or raises.\<close>
theorem pdp_decides_once:
  assumes "pdp_evaluate cfg k s = (Inr r, s1)" "pk_request_id k' = pk_request_id k"
    "pdp_evaluate cfg k' (snd (run_ops (map (pdp_evaluate cfg) ks) s1)) = (r', s3)"
  shows "s3 = snd (run_ops (map (pdp_evaluate cfg) ks) s1) \<and> (r' = Inr r \<and> call_digest k' = call_digest k \<or> (\<exists>e. r' = Inl e))"
proof -
  let ?s = "snd (run_ops (map (pdp_evaluate cfg) ks) s1)"
  have "ps_replay ?s (pk_request_id k') = Some (call_digest k, r)"
    unfolding assms(2) by (rule pdp_run_keeps [OF pdp_evaluate_records [OF assms(1)]])
  from pdp_evaluate_known(1) [OF this, of cfg] pdp_evaluate_known(2) [OF this, of cfg] assms(3) show ?thesis
    by (cases r') auto
qed

section \<open>An example\<close>

definition policy_example :: policy_revision where
  "policy_example = \<lparr>pl_policy_id = ''pol'', pl_revision = ''1'', pl_content_digest = ''sha256:'' @ hex64, pl_lane = ''GREEN'',
     pl_active = True, pl_schema_version = ''1.0.0''\<rparr>"

definition merge_proposal :: action_proposal where
  "merge_proposal = (example_proposal ''external_write'' True)\<lparr>ap_mission_id := ''m1'', ap_capability := ''merge''\<rparr>"

definition merge_mission :: mission_spec where
  "merge_mission = example_mission\<lparr>mi_mission_id := ''m1'', mi_required_capabilities := [''merge'']\<rparr>"

definition merge_swarm :: swarm_spec where
  "merge_swarm = example_swarm\<lparr>sw_mission_id := ''m1'', sw_covered_capabilities := [''merge'']\<rparr>"

definition merge_agents :: "string \<rightharpoonup> agent_spec" where
  "merge_agents = example_agents(''a1'' \<mapsto> example_agent\<lparr>as_capabilities := [''merge'']\<rparr>)"

definition pdp_example :: pdp_call where
  "pdp_example = \<lparr>pk_request_id = ''req'', pk_gate_event_id = ''gate'', pk_proposal = merge_proposal, pk_mission = merge_mission,
     pk_swarm = merge_swarm, pk_agents = merge_agents, pk_policy = policy_example, pk_authority_key = PrKey example_key,
     pk_graph_digest = Inr hex64, pk_status_digest = Inr hex64, pk_observability_state = ''HEALTHY'',
     pk_observed_event_types = [''ev''], pk_evidence_refs = [''e''], pk_trusted_now = live_moment,
     pk_admit_reads = (live_read live_store, live_read live_store), pk_resolve_backend = rd_backend (live_read live_store),
     pk_revalidate_reads = (live_read live_store, live_read live_store)\<rparr>"

definition pdp_start :: pdp_state where
  "pdp_start = \<lparr>ps_replay = Map.empty, ps_store = live_store\<rparr>"

lemma merge_ranks: "rank_check ''external_write'' = Inr ()" "rank_le ''external_write'' ''financial''"
  by code_simp+

lemma merge_org_valid: "agent_validate (example_agent\<lparr>as_capabilities := [''merge'']\<rparr>) = Inr ()" "mission_validate merge_mission = Inr ()"
  "swarm_validate merge_swarm = Inr ()" "proposal_validate merge_proposal = Inr ()"
  by (simp_all add: example_org_defs merge_mission_def merge_swarm_def merge_proposal_def agent_validate_def mission_validate_def
      swarm_validate_def proposal_validate_def known_ranks merge_ranks RISK_CLASSES_def in_unit_def num_less_def)

lemma merge_admissible: "admissible merge_proposal merge_mission merge_swarm merge_agents [''ev'']"
proof -
  have "verified merge_proposal merge_swarm merge_agents"
    unfolding verified_def using example_org_valid(2)
    by (simp add: merge_proposal_def merge_swarm_def merge_agents_def example_proposal_def example_swarm_def example_agents_def)
       (simp add: Enterprise_Models.example_verifier_def)
  then show ?thesis
    unfolding admissible_def using merge_org_valid(1) merge_ranks
    by (simp add: merge_proposal_def merge_mission_def merge_swarm_def merge_agents_def example_org_defs)
qed

lemma merge_gate: "gate_evaluate merge_proposal merge_mission merge_swarm merge_agents [policy_binding policy_example] [''ev''] ''gate''
    = Inr (gate_allowance merge_proposal [policy_binding policy_example] ''gate'')"
  using gate_allows [OF merge_org_valid(4,2,3) merge_admissible] gate_allowance_valid [OF merge_org_valid(4)] by simp

lemma hex64_hex [simp]: "is_hex 64 hex64"
  by code_simp

lemma live_receipt_lineage: "is_hex 64 (lv_lineage_digest (live_example_receipt n))"
  using example_source_digest by (auto simp: live_example_sel example_record_def)

lemma pdp_example_precheck: "pdp_precheck pdp_example = Inr (hex64, hex64)"
proof -
  have "policy_validate policy_example = Inr ()" "lookup_key_validate example_key = Inr ()" by code_simp+
  moreover have "pl_lane policy_example = mi_risk_class merge_mission" "pl_active policy_example"
    by (simp_all add: policy_example_def merge_mission_def example_mission_def)
  ultimately show ?thesis
    by (simp add: pdp_precheck_def pdp_example_def merge_org_valid authority_key_validate_def OBS_CEILING_def)
qed

lemma pdp_example_admits: "\<exists>store. admit_key live_example pdp_example live_store
    = (Inr (PrAdmitted (live_example_receipt ''pdp:req''), [root_grant, leaf_grant], lr_lineage_digest example_record), store)"
proof -
  have "\<not> blank ''pdp:req''" by code_simp
  moreover have "resolve_exact example_lookup example_key = Inr example_record"
    using live_example_snapshot by (auto simp: live_view_def live_snapshot_ok live_read_def example_lookup_def pr.resolve_ok)
  ultimately show ?thesis using live_example_admitted [of "''pdp:req''"]
    by (simp add: admit_key_def Let_def pdp_example_def live_read_def) (simp add: example_record_def)
qed

lemma pdp_example_decides: "decide pdp_example = Inr (''ALLOW'', ''external_write'', ''all canonical PDP invariants satisfied'')"
proof -
  have "authority_contains (the (map_of OBS_CEILING ''HEALTHY'')) ''external_write'' = Inr True" by code_simp
  then show ?thesis
    by (simp add: decide_def pdp_example_def merge_gate Let_def gate_allowance_def)
       (simp add: merge_proposal_def policy_example_def example_proposal_def)
qed

lemma policy_binding_example: "policy_binding policy_example = ''pol@1:sha256:'' @ hex64"
  by (simp add: policy_binding_def policy_example_def)

lemma pdp_example_bindings: "authority_bindings pdp_example (PrAdmitted (live_example_receipt n), [root_grant, leaf_grant], lr_lineage_digest example_record) = Inr ()"
proof -
  have "authenticates live_example leaf_grant (last live_digests)"
    using live_example_authenticates by (auto simp: live_digests_def)
  then have "grant_digest leaf_grant = Inr (last (map au_grant_digest live_digests))"
    using authenticates_digest by (simp add: live_digests_def)
  moreover have "authority_contains ''external_write'' ''external_write'' = Inr True" by code_simp
  ultimately show ?thesis
    by (simp add: authority_bindings_ok admitted_core_def live_receipt.defs live_example_sel)
       (simp add: pdp_example_def merge_proposal_def example_proposal_def policy_example_def leaf_grant_def root_grant_def)
qed

lemma pdp_example_sealed:
  "\<exists>q. requested_sealed (request_of pdp_example hex64 hex64 (PrAdmitted (live_example_receipt n))) = Inr q \<and> is_hex 64 (gq_request_digest q)"
  "\<exists>z. applied_sealed (applied_of pdp_example hex64 hex64 (PrAdmitted (live_example_receipt n))
      (''ALLOW'', ''external_write'', ''all canonical PDP invariants satisfied'')) = Inr z \<and> gz_decision z = ''ALLOW''
      \<and> is_hex 64 (gz_decision_digest z)"
proof -
  have t: "list_all (\<lambda>t. \<not> blank t) [''req'', ''gate'', ''p'', ''external_write'', ''all canonical PDP invariants satisfied'', ''pol@1:sha256:'' @ hex64]"
    by code_simp
  have b: "policy_binding (pk_policy pdp_example) = ''pol@1:sha256:'' @ hex64" by (simp add: pdp_example_def policy_binding_example)
  have p: "ap_proposal_id (pk_proposal pdp_example) = ''p''" "ap_requested_authority (pk_proposal pdp_example) = ''external_write''"
    "pl_lane (pk_policy pdp_example) = ''GREEN''" "pk_request_id pdp_example = ''req''" "pk_gate_event_id pdp_example = ''gate''"
    "pk_observability_state pdp_example = ''HEALTHY''" "pk_evidence_refs pdp_example = [''e'']"
    by (simp_all add: pdp_example_def merge_proposal_def example_proposal_def policy_example_def)
  have d: "is_hex 64 (lv_lineage_digest (admitted_core (PrAdmitted (live_example_receipt n))))"
    using live_receipt_lineage [of n] by (simp add: admitted_core_def live_receipt.defs)
  show "\<exists>q. requested_sealed (request_of pdp_example hex64 hex64 (PrAdmitted (live_example_receipt n))) = Inr q \<and> is_hex 64 (gq_request_digest q)"
    using t d by (simp add: requested_sealed_def requested_validate_def request_of_def b p gate_text_def gate_hex_def OBSERVABILITY_STATES_def
        LANES_def requested_digest_def)
  show "\<exists>z. applied_sealed (applied_of pdp_example hex64 hex64 (PrAdmitted (live_example_receipt n))
      (''ALLOW'', ''external_write'', ''all canonical PDP invariants satisfied'')) = Inr z \<and> gz_decision z = ''ALLOW''
      \<and> is_hex 64 (gz_decision_digest z)"
    using t d by (simp add: applied_sealed_def applied_validate_def applied_of_def b p gate_text_def gate_hex_def OBSERVABILITY_STATES_def
        LANES_def DECISIONS_def applied_digest_def)
qed

lemma pdp_example_run: "\<exists>r s'. pdp_evaluate live_example pdp_example pdp_start = (Inr r, s') \<and> gz_decision (pt_applied r) = ''ALLOW''"
proof -
  let ?n = "''pdp:req''"
  let ?x = "PrAdmitted (live_example_receipt ?n)"
  obtain q where q: "requested_sealed (request_of pdp_example hex64 hex64 ?x) = Inr q" "is_hex 64 (gq_request_digest q)"
    using pdp_example_sealed(1) by blast
  obtain z where z: "applied_sealed (applied_of pdp_example hex64 hex64 ?x (''ALLOW'', ''external_write'', ''all canonical PDP invariants satisfied'')) = Inr z"
    "gz_decision z = ''ALLOW''" "is_hex 64 (gz_decision_digest z)"
    using pdp_example_sealed(2) by blast
  have v: "revalidate_key live_example pdp_example ?x = Inr ()"
    by (simp add: revalidate_key_def pdp_example_def live_example_revalidates)
  obtain live where live: "admitted_digest ?x = Inr live"
    by (simp add: admitted_digest_def live_digest_def live_example_valid)
  have "\<not> blank ''pdp-receipt:req''" "\<not> blank ''req''" "\<not> blank ''gate''" by code_simp+
  then have r: "pdp_receipt_validate (receipt_of pdp_example q z live) = Inr ()"
    using q(2) z(3) by (simp add: pdp_receipt_validate_def receipt_of_def pdp_example_def gate_text_def gate_hex_def)
  obtain store where a: "admit_key live_example pdp_example live_store = (Inr (?x, [root_grant, leaf_grant], lr_lineage_digest example_record), store)"
    using pdp_example_admits by blast
  from q z v live r a show ?thesis
    by (simp add: pdp_evaluate_def pdp_example_precheck pdp_start_def pdp_decision_def pdp_example_bindings pdp_example_decides Let_def)
qed

text \<open>The example request is allowed, on a lineage that is live in the example store.\<close>
theorem pdp_allow_sound_witness:
  "\<exists>r s' a gs. pdp_evaluate live_example pdp_example pdp_start = (Inr r, s') \<and> gz_effective_authority (pt_applied r) = ''external_write''
     \<and> receipt_backed live_example (a :: live_receipt) gs (instant live_moment) live_store"
proof -
  obtain r s' where r: "pdp_evaluate live_example pdp_example pdp_start = (Inr r, s')" "gz_decision (pt_applied r) = ''ALLOW''"
    using pdp_example_run by blast
  have "ps_replay pdp_start (pk_request_id pdp_example) = None" by (simp add: pdp_start_def)
  from pdp_allow_sound [OF r(1) this r(2), of live_store] r(1) show ?thesis
    by (fastforce simp: pdp_example_def live_read_def merge_proposal_def example_proposal_def)
qed

text \<open>Asked again, the decision point returns the decision and changes nothing.\<close>
theorem pdp_decides_once_witness:
  "snd (pdp_evaluate live_example (pdp_example\<lparr>pk_observability_state := ''DEGRADED''\<rparr>) (snd (pdp_evaluate live_example pdp_example pdp_start)))
   = snd (pdp_evaluate live_example pdp_example pdp_start)"
proof -
  obtain r s1 where r: "pdp_evaluate live_example pdp_example pdp_start = (Inr r, s1)" using pdp_example_run by blast
  let ?k = "pdp_example\<lparr>pk_observability_state := ''DEGRADED''\<rparr>"
  obtain r' s3 where e: "pdp_evaluate live_example ?k (snd (run_ops (map (pdp_evaluate live_example) []) s1)) = (r', s3)" by fastforce
  from pdp_decides_once [OF r _ e] e r show ?thesis by (simp add: pdp_example_def)
qed

end
