(* ===== verification/Process_IR.thy ===== *)
theory Process_IR
  imports Py_Json_Inject
begin

text \<open>
  The process contract (contracts/process_ir.py): what a process may do next, as data. A process model is a record
  tree with the keys of the JSON document; dictionaries from names are association lists. A canonical process is a
  model that passes \<open>validate_process_ir\<close>; its bytes are its canonical JSON and its digest is a function of them. Then the
  evidence records and the context snapshot that a selection is made from.
\<close>

section \<open>Constants\<close>

definition TRANSITION_CLASSES :: "string list" where
  "TRANSITION_CLASSES = [''INTERNAL'', ''ACTION_REQUIRED'']"

definition OPERATORS :: "string list" where
  "OPERATORS = [''OBSERVE'', ''REACQUIRE'', ''ASSERT'', ''REQUIRE'', ''PROHIBIT'', ''DERIVE'', ''PREPARE'', ''VERIFY'',
     ''FALSIFY'', ''REQUEST_AUTHORITY_CONTEXT'', ''VERIFY_AUTHORITY_CONTEXT'', ''EMIT_ACTION_INTENT'', ''READBACK'',
     ''RECONCILE'', ''DEGRADE'', ''SUPERSEDE'', ''DEFER'', ''CONTINUE'', ''HANDOFF'', ''STOP'']"

definition OUTCOME_LABELS :: "string list" where
  "OUTCOME_LABELS = [''PASS'', ''FAIL'', ''UNKNOWN'', ''DRIFT'', ''BLOCKED'', ''AUTHORITY_BOUNDARY'', ''COMPLETE'']"

definition NEXT_DIRECTIVES :: "string list" where
  "NEXT_DIRECTIVES = [''CONTINUE'', ''DEFER'', ''HANDOFF'', ''STOP'', ''COMPLETE'']"

definition REPLAY_POLICIES :: "string list" where
  "REPLAY_POLICIES = [''DENY'', ''IDEMPOTENT'', ''RECONCILE_FIRST'']"

definition IDEMPOTENCY_CLASSES :: "string list" where
  "IDEMPOTENCY_CLASSES = [''PURE'', ''IDEMPOTENT'', ''NON_IDEMPOTENT'']"

definition SCHEDULING_STRATEGIES :: "string list" where
  "SCHEDULING_STRATEGIES = [''DECLARED_ORDER'', ''EXPLICIT_PRIORITY'']"

definition CURRENTNESS_STATES :: "string list" where
  "CURRENTNESS_STATES = [''CURRENT'', ''STALE'', ''NOT_REVALIDATED'', ''UNKNOWN'']"

definition CURRENTNESS_DRIFT_RULES :: "string list" where
  "CURRENTNESS_DRIFT_RULES = [''IDENTITY_CHANGED'', ''EVIDENCE_EXPIRED'', ''SUBJECT_CHANGED'', ''UNKNOWN_DRIFT'']"

definition PROCESS_CONTROL_STATES :: "string list" where
  "PROCESS_CONTROL_STATES = [''ACTIVE'', ''DEFERRED'', ''HANDOFF_REQUIRED'', ''TERMINATED'', ''COMPLETE'']"

section \<open>The process model\<close>

record ir_scope =
  sx_domains :: "string list"
  sx_resources :: "string list"
  sx_widening_allowed :: bool

record ir_dependency =
  dp_dependency_id :: string
  dp_required :: bool
  dp_description :: string

record retry_policy =
  ry_max_attempts :: int
  ry_on_exhausted :: string

record resource_claims =
  rc_read_scopes :: "string list"
  rc_write_scopes :: "string list"
  rc_authority_budgets :: "string list"
  rc_currentness_subjects :: "string list"
  rc_replay_domain :: string
  rc_reconciliation_group :: string

record ir_transition =
  tr_transition_id :: string
  tr_transition_class :: string
  tr_source_states :: "string list"
  tr_trigger :: string
  tr_dependencies :: "string list"
  tr_guards :: "string list"
  tr_evidence_requirements :: "string list"
  tr_currentness_requirements :: "string list"
  tr_authority_requirements :: "string list"
  tr_operator :: string
  tr_expected_postconditions :: "string list"
  tr_outcome_map :: "(string \<times> string) list"
  tr_retry_policy :: retry_policy
  tr_replay_policy :: string
  tr_idempotency_class :: string
  tr_resource_claims :: resource_claims

record scheduling_policy =
  sp_strategy :: string
  sp_order :: "string list"
  sp_priorities :: "(string \<times> int) list"
  sp_max_wip :: int
  sp_parallel_safe_groups :: "string list list"

record termination_policy =
  tp_terminal_states :: "string list"
  tp_allow_no_legal_transition :: bool
  tp_on_unknown :: string

record ir_lineage =
  li_parent_process_digests :: "string list"
  li_generation :: int
  li_source_refs :: "string list"

record process_model =
  pm_schema_version :: string
  pm_process_id :: string
  pm_mission_ref :: string
  pm_goal_ref :: string
  pm_scope :: ir_scope
  pm_initial_state :: string
  pm_states :: "string list"
  pm_dependencies :: "ir_dependency list"
  pm_transitions :: "ir_transition list"
  pm_scheduling_policy :: scheduling_policy
  pm_termination_policy :: termination_policy
  pm_lineage :: ir_lineage

section \<open>Validation\<close>

abbreviation ir_error :: "string \<Rightarrow> exn" where
  "ir_error m \<equiv> Exn ProcessIRContractError m"

abbreviation ir_when :: "bool \<Rightarrow> string \<Rightarrow> unit res" where
  "ir_when b m \<equiv> raise_when b ProcessIRContractError m"

definition ir_text :: "nat \<Rightarrow> bool \<Rightarrow> string \<Rightarrow> string \<Rightarrow> unit res" where
  "ir_text maximum allow_empty v name = checks [
     ir_when (maximum < length v \<or> nul \<in> set v) (name @ '' must be a bounded string''),
     ir_when (\<not> allow_empty \<and> v = []) (name @ '' must not be empty'')]"

text \<open>The pattern \<open>[A-Za-z][A-Za-z0-9_.:/-]{0,255}\<close>.\<close>

definition id_first :: "char \<Rightarrow> bool" where
  "id_first c = (let n = (of_char c :: nat) in 65 \<le> n \<and> n \<le> 90 \<or> 97 \<le> n \<and> n \<le> 122)"

definition id_char :: "char \<Rightarrow> bool" where
  "id_char c = (let n = (of_char c :: nat) in id_first c \<or> 48 \<le> n \<and> n \<le> 57 \<or> c \<in> set ''_.:/-'')"

definition id_syntax :: "string \<Rightarrow> bool" where
  "id_syntax s = (case s of [] \<Rightarrow> False | c # t \<Rightarrow> id_first c \<and> list_all id_char t \<and> length t \<le> 255)"

definition ir_id :: "string \<Rightarrow> string \<Rightarrow> unit res" where
  "ir_id v name = checks [
     ir_text 256 False v name,
     ir_when (\<not> id_syntax v) (name @ '' has invalid identifier syntax'')]"

definition unique_strings :: "bool \<Rightarrow> string list \<Rightarrow> string \<Rightarrow> unit res" where
  "unique_strings allow_empty vs name = checks (map (\<lambda>item. ir_text 4096 False item name) vs @ [
     ir_when (\<not> allow_empty \<and> vs = []) (name @ '' must not be empty''),
     ir_when (\<not> no_dup vs) (name @ '' must contain unique values'')])"

definition states_check :: "string list \<Rightarrow> unit res" where
  "states_check vs = checks (unique_strings False vs ''states'' # map (\<lambda>state. ir_id state ''state'') vs)"

definition scope_check :: "ir_scope \<Rightarrow> unit res" where
  "scope_check s = checks [
     unique_strings False (sx_domains s) ''scope.domains'',
     unique_strings True (sx_resources s) ''scope.resources'',
     ir_when (sx_widening_allowed s) ''scope.widening_allowed must be false'']"

fun dependencies_check :: "string list \<Rightarrow> ir_dependency list \<Rightarrow> unit res" where
  "dependencies_check seen [] = Inr ()"
| "dependencies_check seen (d # ds) = checks [
     ir_id (dp_dependency_id d) ''dependency.dependency_id'',
     ir_when (dp_dependency_id d \<in> set seen) ''duplicate dependency_id'',
     ir_text 4096 False (dp_description d) ''dependency.description'',
     dependencies_check (dp_dependency_id d # seen) ds]"

definition retry_check :: "retry_policy \<Rightarrow> unit res" where
  "retry_check r = checks [
     ir_when (ry_max_attempts r < 0 \<or> 100 < ry_max_attempts r) ''retry_policy.max_attempts out of range'',
     ir_when (ry_on_exhausted r \<notin> set [''BLOCKED'', ''HANDOFF'', ''STOP'', ''UNKNOWN'']) ''retry_policy.on_exhausted invalid'']"

definition claims_check :: "resource_claims \<Rightarrow> unit res" where
  "claims_check c = checks [
     unique_strings True (rc_read_scopes c) ''resource_claims.read_scopes'',
     unique_strings True (rc_write_scopes c) ''resource_claims.write_scopes'',
     unique_strings True (rc_authority_budgets c) ''resource_claims.authority_budgets'',
     unique_strings True (rc_currentness_subjects c) ''resource_claims.currentness_subjects'',
     ir_text 4096 True (rc_replay_domain c) ''resource_claims.replay_domain'',
     ir_text 4096 True (rc_reconciliation_group c) ''resource_claims.reconciliation_group'']"

definition outcome_check :: "string list \<Rightarrow> string \<times> string \<Rightarrow> unit res" where
  "outcome_check states e = checks [
     ir_when (fst e \<notin> set OUTCOME_LABELS) ''transition.outcome_map has unknown outcome'',
     ir_text 4096 False (snd e) ''transition.outcome_map target'',
     ir_when (snd e \<notin> set states \<and> snd e \<notin> set NEXT_DIRECTIVES) ''transition.outcome_map target invalid'']"

definition transition_check :: "string list \<Rightarrow> string list \<Rightarrow> ir_transition \<Rightarrow> unit res" where
  "transition_check states deps t = checks ([
     ir_id (tr_transition_id t) ''transition.transition_id'',
     ir_when (tr_transition_class t \<notin> set TRANSITION_CLASSES) ''transition.transition_class invalid'',
     unique_strings False (tr_source_states t) ''transition.source_states'',
     ir_when (\<not> set (tr_source_states t) \<subseteq> set states) ''transition references undefined source state'',
     ir_text 4096 False (tr_trigger t) ''transition.trigger'',
     unique_strings True (tr_dependencies t) ''transition.dependencies'',
     ir_when (\<not> set (tr_dependencies t) \<subseteq> set deps) ''transition references undefined dependency'',
     unique_strings True (tr_guards t) ''transition.guards'',
     unique_strings True (tr_evidence_requirements t) ''transition.evidence_requirements'',
     unique_strings True (tr_currentness_requirements t) ''transition.currentness_requirements'',
     unique_strings True (tr_authority_requirements t) ''transition.authority_requirements'',
     ir_when (tr_operator t \<notin> set OPERATORS) ''transition.operator invalid'',
     unique_strings True (tr_expected_postconditions t) ''transition.expected_postconditions'',
     ir_when (tr_outcome_map t = []) ''transition.outcome_map must be a non-empty object'']
     @ map (outcome_check states) (tr_outcome_map t) @ [
     retry_check (tr_retry_policy t),
     ir_when (tr_replay_policy t \<notin> set REPLAY_POLICIES) ''transition.replay_policy invalid'',
     ir_when (tr_idempotency_class t \<notin> set IDEMPOTENCY_CLASSES) ''transition.idempotency_class invalid'',
     claims_check (tr_resource_claims t),
     ir_when (\<not> set (tr_currentness_requirements t) \<subseteq> set (rc_currentness_subjects (tr_resource_claims t)))
       ''currentness requirements must bind declared currentness subjects'',
     ir_when (tr_transition_class t = ''ACTION_REQUIRED'' \<and> tr_operator t \<noteq> ''EMIT_ACTION_INTENT'')
       ''ACTION_REQUIRED transition must use EMIT_ACTION_INTENT'',
     ir_when (tr_transition_class t = ''ACTION_REQUIRED'' \<and> (tr_evidence_requirements t = []
         \<or> tr_currentness_requirements t = [] \<or> tr_authority_requirements t = []))
       ''ACTION_REQUIRED transition requires evidence, currentness and authority requirements'',
     ir_when (tr_transition_class t \<noteq> ''ACTION_REQUIRED'' \<and> tr_operator t = ''EMIT_ACTION_INTENT'')
       ''INTERNAL transition cannot emit ActionIntent'',
     ir_when (tr_idempotency_class t = ''NON_IDEMPOTENT'' \<and> 0 < ry_max_attempts (tr_retry_policy t)
         \<and> tr_replay_policy t \<noteq> ''RECONCILE_FIRST'')
       ''non-idempotent retry requires RECONCILE_FIRST replay policy''])"

fun transitions_check :: "string list \<Rightarrow> string list \<Rightarrow> string list \<Rightarrow> ir_transition list \<Rightarrow> unit res" where
  "transitions_check states deps seen [] = Inr ()"
| "transitions_check states deps seen (t # ts) = checks [
     transition_check states deps t,
     ir_when (tr_transition_id t \<in> set seen) ''duplicate transition_id'',
     transitions_check states deps (tr_transition_id t # seen) ts]"

definition scheduling_check :: "string list \<Rightarrow> scheduling_policy \<Rightarrow> unit res" where
  "scheduling_check ids p = checks ([
     ir_when (sp_strategy p \<notin> set SCHEDULING_STRATEGIES) ''scheduling_policy.strategy invalid'',
     unique_strings False (sp_order p) ''scheduling_policy.order'',
     ir_when (set (sp_order p) \<noteq> set ids \<or> length (sp_order p) \<noteq> length (remdups ids))
       ''scheduling_policy.order must contain every transition exactly once'',
     ir_when (set (map fst (sp_priorities p)) \<noteq> set ids) ''scheduling_policy.priorities must cover all transitions'']
     @ map (\<lambda>e. checks [ir_id (fst e) ''scheduling_policy.priorities key'',
         ir_when (snd e < 0) ''scheduling priority invalid'']) (sp_priorities p) @ [
     ir_when (\<not> (1 \<le> sp_max_wip p \<and> sp_max_wip p \<le> 128)) ''scheduling_policy.max_wip invalid'']
     @ map (\<lambda>g. checks [unique_strings False g ''parallel_safe_group'',
         ir_when (length g < 2 \<or> \<not> set g \<subseteq> set ids) ''parallel safe group invalid'']) (sp_parallel_safe_groups p))"

definition termination_check :: "string list \<Rightarrow> termination_policy \<Rightarrow> unit res" where
  "termination_check states p = checks [
     unique_strings False (tp_terminal_states p) ''termination_policy.terminal_states'',
     ir_when (\<not> set (tp_terminal_states p) \<subseteq> set states) ''termination_policy references undefined terminal state'',
     ir_when (tp_on_unknown p \<notin> set [''HANDOFF'', ''STOP'', ''DEFER'']) ''termination_policy.on_unknown invalid'']"

definition lineage_check :: "ir_lineage \<Rightarrow> unit res" where
  "lineage_check l = checks (unique_strings True (li_parent_process_digests l) ''lineage.parent_process_digests''
     # map (\<lambda>d. ir_when (\<not> is_hex 64 d) ''parent process digest invalid'') (li_parent_process_digests l) @ [
     ir_when (li_generation l < 0) ''lineage.generation invalid'',
     unique_strings True (li_source_refs l) ''lineage.source_refs''])"

definition transition_ids :: "process_model \<Rightarrow> string list" where
  "transition_ids m = map tr_transition_id (pm_transitions m)"

definition dependency_ids :: "process_model \<Rightarrow> string list" where
  "dependency_ids m = map dp_dependency_id (pm_dependencies m)"

definition validate_process_ir :: "process_model \<Rightarrow> unit res" where
  "validate_process_ir m = checks [
     ir_when (pm_schema_version m \<noteq> ''1.0.0'') ''schema_version mismatch'',
     ir_id (pm_process_id m) ''process_id'',
     ir_text 4096 False (pm_mission_ref m) ''mission_ref'',
     ir_text 4096 False (pm_goal_ref m) ''goal_ref'',
     scope_check (pm_scope m),
     states_check (pm_states m),
     ir_when (pm_initial_state m \<notin> set (pm_states m)) ''initial_state is undefined'',
     dependencies_check [] (pm_dependencies m),
     ir_when (pm_transitions m = []) ''transitions must be a non-empty array'',
     transitions_check (pm_states m) (dependency_ids m) [] (pm_transitions m),
     scheduling_check (transition_ids m) (pm_scheduling_policy m),
     termination_check (pm_states m) (pm_termination_policy m),
     lineage_check (pm_lineage m)]"

section \<open>Canonical bytes and digest\<close>

definition transition_json :: "ir_transition \<Rightarrow> json" where
  "transition_json t = JObj [
     (''transition_id'', JStr (tr_transition_id t)), (''transition_class'', JStr (tr_transition_class t)),
     (''source_states'', strs (tr_source_states t)), (''trigger'', JStr (tr_trigger t)),
     (''dependencies'', strs (tr_dependencies t)), (''guards'', strs (tr_guards t)),
     (''evidence_requirements'', strs (tr_evidence_requirements t)),
     (''currentness_requirements'', strs (tr_currentness_requirements t)),
     (''authority_requirements'', strs (tr_authority_requirements t)), (''operator'', JStr (tr_operator t)),
     (''expected_postconditions'', strs (tr_expected_postconditions t)),
     (''outcome_map'', JObj (map (\<lambda>(k, v). (k, JStr v)) (tr_outcome_map t))),
     (''retry_policy'', JObj [(''max_attempts'', JInt (ry_max_attempts (tr_retry_policy t))),
       (''on_exhausted'', JStr (ry_on_exhausted (tr_retry_policy t)))]),
     (''replay_policy'', JStr (tr_replay_policy t)), (''idempotency_class'', JStr (tr_idempotency_class t)),
     (''resource_claims'', JObj [(''read_scopes'', strs (rc_read_scopes (tr_resource_claims t))),
       (''write_scopes'', strs (rc_write_scopes (tr_resource_claims t))),
       (''authority_budgets'', strs (rc_authority_budgets (tr_resource_claims t))),
       (''currentness_subjects'', strs (rc_currentness_subjects (tr_resource_claims t))),
       (''replay_domain'', JStr (rc_replay_domain (tr_resource_claims t))),
       (''reconciliation_group'', JStr (rc_reconciliation_group (tr_resource_claims t)))])]"

definition process_json :: "process_model \<Rightarrow> json" where
  "process_json m = JObj [
     (''schema_version'', JStr (pm_schema_version m)), (''process_id'', JStr (pm_process_id m)),
     (''mission_ref'', JStr (pm_mission_ref m)), (''goal_ref'', JStr (pm_goal_ref m)),
     (''scope'', JObj [(''domains'', strs (sx_domains (pm_scope m))), (''resources'', strs (sx_resources (pm_scope m))),
       (''widening_allowed'', JBool (sx_widening_allowed (pm_scope m)))]),
     (''initial_state'', JStr (pm_initial_state m)), (''states'', strs (pm_states m)),
     (''dependencies'', JList (map (\<lambda>d. JObj [(''dependency_id'', JStr (dp_dependency_id d)),
       (''required'', JBool (dp_required d)), (''description'', JStr (dp_description d))]) (pm_dependencies m))),
     (''transitions'', JList (map transition_json (pm_transitions m))),
     (''scheduling_policy'', let p = pm_scheduling_policy m in JObj [(''strategy'', JStr (sp_strategy p)),
       (''order'', strs (sp_order p)), (''priorities'', JObj (map (\<lambda>(k, v). (k, JInt v)) (sp_priorities p))),
       (''max_wip'', JInt (sp_max_wip p)), (''parallel_safe_groups'', JList (map strs (sp_parallel_safe_groups p)))]),
     (''termination_policy'', let p = pm_termination_policy m in JObj [(''terminal_states'', strs (tp_terminal_states p)),
       (''allow_no_legal_transition'', JBool (tp_allow_no_legal_transition p)), (''on_unknown'', JStr (tp_on_unknown p))]),
     (''lineage'', let l = pm_lineage m in JObj [(''parent_process_digests'', strs (li_parent_process_digests l)),
       (''generation'', JInt (li_generation l)), (''source_refs'', strs (li_source_refs l))])]"

definition canonical_process_ir_bytes :: "process_model \<Rightarrow> string" where
  "canonical_process_ir_bytes m = canon (process_json m)"

definition process_digest :: "process_model \<Rightarrow> string" where
  "process_digest m = sha256 (''LION/PROCESS-IR/1'' @ nul # canonical_process_ir_bytes m)"

section \<open>Evidence records\<close>

record currentness_basis =
  cb_requirement_id :: string
  cb_subject :: string
  cb_observed_identity :: string
  cb_evidence_ref :: string
  cb_observed_at :: string
  cb_state :: string
  cb_drift_rule :: string
  cb_basis_digest :: string

definition basis_digest :: "currentness_basis \<Rightarrow> string" where
  "basis_digest b = sha256 (''LION/PROCESS-CURRENTNESS-BASIS/1'' @ nul # canon (JObj [
     (''requirement_id'', JStr (cb_requirement_id b)), (''subject'', JStr (cb_subject b)),
     (''observed_identity'', JStr (cb_observed_identity b)), (''evidence_ref'', JStr (cb_evidence_ref b)),
     (''observed_at'', JStr (cb_observed_at b)), (''state'', JStr (cb_state b)), (''drift_rule'', JStr (cb_drift_rule b))]))"

definition basis_validate :: "currentness_basis \<Rightarrow> unit res" where
  "basis_validate b = checks [
     ir_id (cb_requirement_id b) ''currentness.requirement_id'',
     ir_text 4096 False (cb_subject b) ''currentness.subject'',
     ir_text 4096 False (cb_observed_identity b) ''currentness.observed_identity'',
     ir_text 4096 False (cb_evidence_ref b) ''currentness.evidence_ref'',
     ir_text 4096 False (cb_observed_at b) ''currentness.observed_at'',
     ir_when (cb_state b \<notin> set CURRENTNESS_STATES) ''currentness.state invalid'',
     ir_when (cb_drift_rule b \<notin> set CURRENTNESS_DRIFT_RULES) ''currentness.drift_rule invalid'',
     ir_when (cb_basis_digest b \<noteq> [] \<and> \<not> is_hex 64 (cb_basis_digest b)) ''currentness.basis_digest invalid'',
     ir_when (cb_basis_digest b \<noteq> [] \<and> cb_basis_digest b \<noteq> basis_digest b) ''currentness.basis_digest mismatch'']"

record attempt_record =
  at_transition_id :: string
  at_attempt_number :: int
  at_outcome :: string
  at_effect_ref :: string
  at_observation_ref :: string
  at_reconciliation_ref :: string
  at_attempt_digest :: string

definition attempt_json :: "attempt_record \<Rightarrow> (string \<times> json) list" where
  "attempt_json a = [
     (''transition_id'', JStr (at_transition_id a)), (''attempt_number'', JInt (at_attempt_number a)),
     (''outcome'', JStr (at_outcome a)), (''effect_ref'', JStr (at_effect_ref a)),
     (''observation_ref'', JStr (at_observation_ref a)), (''reconciliation_ref'', JStr (at_reconciliation_ref a))]"

definition attempt_digest :: "attempt_record \<Rightarrow> string" where
  "attempt_digest a = sha256 (''LION/PROCESS-ATTEMPT/1'' @ nul # canon (JObj (attempt_json a)))"

definition attempt_validate :: "attempt_record \<Rightarrow> unit res" where
  "attempt_validate a = checks [
     ir_id (at_transition_id a) ''attempt.transition_id'',
     ir_when (at_attempt_number a < 1) ''attempt.attempt_number invalid'',
     ir_when (at_outcome a \<notin> set OUTCOME_LABELS) ''attempt.outcome invalid'',
     ir_text 4096 True (at_effect_ref a) ''attempt.effect_ref'',
     ir_text 4096 True (at_observation_ref a) ''attempt.observation_ref'',
     ir_text 4096 True (at_reconciliation_ref a) ''attempt.reconciliation_ref'',
     ir_when (at_attempt_digest a \<noteq> [] \<and> \<not> is_hex 64 (at_attempt_digest a)) ''attempt.attempt_digest invalid'',
     ir_when (at_attempt_digest a \<noteq> [] \<and> at_attempt_digest a \<noteq> attempt_digest a) ''attempt.attempt_digest mismatch'']"

definition attempt_sealed :: "attempt_record \<Rightarrow> attempt_record res" where
  "attempt_sealed a = (let b = a\<lparr>at_attempt_digest := attempt_digest a\<rparr> in and_then (attempt_validate b) (\<lambda>_. Inr b))"

section \<open>The context snapshot\<close>

record process_context =
  pc_process_ir_digest :: string
  pc_process_state :: string
  pc_completed_transitions :: "string list"
  pc_satisfied_dependencies :: "string list"
  pc_satisfied_guards :: "string list"
  pc_satisfied_evidence_requirements :: "string list"
  pc_satisfied_currentness_requirements :: "string list"
  pc_currentness_bases :: "currentness_basis list"
  pc_verified_authority_context_refs :: "string list"
  pc_action_result_refs :: "string list"
  pc_observation_refs :: "string list"
  pc_reconciliation_refs :: "string list"
  pc_attempt_counts :: "(string \<times> int) list"
  pc_attempt_records :: "attempt_record list"
  pc_process_control :: string
  pc_observed_at :: string

fun bases_check :: "string list \<Rightarrow> string list \<Rightarrow> currentness_basis list \<Rightarrow> unit res" where
  "bases_check subjects seen [] = Inr ()"
| "bases_check subjects seen (b # bs) = checks [
     basis_validate b,
     ir_when (cb_requirement_id b \<in> set seen) ''duplicate currentness requirement basis'',
     ir_when (cb_subject b \<notin> set subjects) ''currentness basis subject is outside Process IR'',
     bases_check subjects (cb_requirement_id b # seen) bs]"

fun counts_check :: "string list \<Rightarrow> string list \<Rightarrow> (string \<times> int) list \<Rightarrow> unit res" where
  "counts_check ids seen [] = Inr ()"
| "counts_check ids seen ((tid, n) # cs) = checks [
     ir_when (tid \<notin> set ids \<or> tid \<in> set seen) ''attempt_counts reference invalid transition'',
     ir_when (n < 0) ''attempt count invalid'',
     counts_check ids (tid # seen) cs]"

fun records_check :: "string list \<Rightarrow> (string \<times> int) list \<Rightarrow> attempt_record list \<Rightarrow> unit res" where
  "records_check ids seen [] = Inr ()"
| "records_check ids seen (a # as) = checks [
     attempt_validate a,
     ir_when (at_transition_id a \<notin> set ids) ''attempt record references invalid transition'',
     ir_when ((at_transition_id a, at_attempt_number a) \<in> set seen) ''duplicate attempt record'',
     records_check ids ((at_transition_id a, at_attempt_number a) # seen) as]"

text \<open>\<open>counts.get(tid, 0)\<close> and \<open>record_max.get(tid, 0)\<close>.\<close>

definition count_of :: "(string \<times> int) list \<Rightarrow> string \<Rightarrow> int" where
  "count_of counts tid = (case map_of counts tid of None \<Rightarrow> 0 | Some n \<Rightarrow> n)"

definition record_max :: "attempt_record list \<Rightarrow> string \<Rightarrow> int" where
  "record_max rs tid = fold max (map at_attempt_number (filter (\<lambda>a. at_transition_id a = tid) rs)) 0"

text \<open>
  The dictionaries of the largest recorded attempts and of the positive counts are equal: attempt numbers are
  positive, so they are when they agree, with 0 for a missing key, on every key of either.
\<close>

definition attempts_match :: "(string \<times> int) list \<Rightarrow> attempt_record list \<Rightarrow> bool" where
  "attempts_match counts rs =
     list_all (\<lambda>tid. record_max rs tid = count_of counts tid) (map fst counts @ map at_transition_id rs)"

definition context_validate_for :: "process_model \<Rightarrow> process_context \<Rightarrow> unit res" where
  "context_validate_for m c = checks [
     validate_process_ir m,
     ir_when (pc_process_ir_digest c \<noteq> process_digest m) ''process context does not bind Process IR'',
     ir_when (pc_process_state c \<notin> set (pm_states m)) ''process context state is undefined'',
     ir_when (pc_process_control c \<notin> set PROCESS_CONTROL_STATES) ''process context control state invalid'',
     ir_when (\<not> set (pc_completed_transitions c) \<subseteq> set (transition_ids m))
       ''process context references unknown completed transition'',
     ir_when (\<not> set (pc_satisfied_dependencies c) \<subseteq> set (dependency_ids m)) ''process context references unknown dependency'',
     bases_check (concat (map (\<lambda>t. rc_currentness_subjects (tr_resource_claims t)) (pm_transitions m))) [] (pc_currentness_bases c),
     ir_when (\<not> no_dup (pc_satisfied_currentness_requirements c)) ''currentness compatibility labels must be unique'',
     counts_check (transition_ids m) [] (pc_attempt_counts c),
     records_check (transition_ids m) [] (pc_attempt_records c),
     ir_when (\<not> attempts_match (pc_attempt_counts c) (pc_attempt_records c)) ''attempt_counts do not match attempt record lineage'',
     ir_when (pc_observed_at c = []) ''process context requires observed_at'']"

definition basis_json :: "currentness_basis \<Rightarrow> json" where
  "basis_json b = JObj [
     (''requirement_id'', JStr (cb_requirement_id b)), (''subject'', JStr (cb_subject b)),
     (''observed_identity'', JStr (cb_observed_identity b)), (''evidence_ref'', JStr (cb_evidence_ref b)),
     (''observed_at'', JStr (cb_observed_at b)), (''state'', JStr (cb_state b)), (''drift_rule'', JStr (cb_drift_rule b)),
     (''basis_digest'', JStr (cb_basis_digest b))]"

definition context_json :: "process_context \<Rightarrow> json" where
  "context_json c = JObj [
     (''process_ir_digest'', JStr (pc_process_ir_digest c)), (''process_state'', JStr (pc_process_state c)),
     (''completed_transitions'', strs (pc_completed_transitions c)),
     (''satisfied_dependencies'', strs (pc_satisfied_dependencies c)), (''satisfied_guards'', strs (pc_satisfied_guards c)),
     (''satisfied_evidence_requirements'', strs (pc_satisfied_evidence_requirements c)),
     (''satisfied_currentness_requirements'', strs (pc_satisfied_currentness_requirements c)),
     (''currentness_bases'', JList (map basis_json (pc_currentness_bases c))),
     (''verified_authority_context_refs'', strs (pc_verified_authority_context_refs c)),
     (''action_result_refs'', strs (pc_action_result_refs c)), (''observation_refs'', strs (pc_observation_refs c)),
     (''reconciliation_refs'', strs (pc_reconciliation_refs c)),
     (''attempt_counts'', JList (map (\<lambda>(tid, n). JList [JStr tid, JInt n]) (pc_attempt_counts c))),
     (''attempt_records'', JList (map (\<lambda>a. JObj (attempt_json a @ [(''attempt_digest'', JStr (at_attempt_digest a))]))
       (pc_attempt_records c))),
     (''process_control'', JStr (pc_process_control c)), (''observed_at'', JStr (pc_observed_at c))]"

definition context_digest :: "process_model \<Rightarrow> process_context \<Rightarrow> string res" where
  "context_digest m c = and_then (context_validate_for m c) (\<lambda>_.
     Inr (sha256 (''LION/PROCESS-CONTEXT/1'' @ nul # canon (context_json c))))"

end
