(* ===== verification/Process_Semantics.thy ===== *)
theory Process_Semantics
  imports Process_IR "HOL-Library.AList"
begin

text \<open>
  The boundary contracts of a process (contracts/process_action.py) and its dynamic semantics
  (enterprise/process_semantics.py): which transition is legal next, which may run together, and how one
  evidence-bound outcome moves the context. The check of the downstream evidence of an action
  (enterprise/process_outcome_evidence.py) is an argument.
\<close>

section \<open>Boundary contracts\<close>

abbreviation action_when :: "bool \<Rightarrow> string \<Rightarrow> unit res" where
  "action_when b m \<equiv> raise_when b ProcessActionContractError m"

definition action_id :: "string \<Rightarrow> string \<Rightarrow> unit res" where
  "action_id v name = action_when (\<not> id_syntax v) (name @ '' invalid'')"

definition action_text :: "bool \<Rightarrow> string \<Rightarrow> string \<Rightarrow> unit res" where
  "action_text optional v name = checks [
     action_when (nul \<in> set v \<or> 4096 < length v) (name @ '' invalid''),
     action_when (\<not> optional \<and> v = []) (name @ '' required'')]"

definition action_digest :: "string \<Rightarrow> string \<Rightarrow> unit res" where
  "action_digest v name = action_when (\<not> is_hex 64 v) (name @ '' invalid'')"

definition action_unique :: "string list \<Rightarrow> string \<Rightarrow> unit res" where
  "action_unique vs name = checks (action_when (\<not> no_dup vs) (name @ '' invalid'') # map (\<lambda>v. action_text False v name) vs)"

record action_intent =
  in_process_id :: string
  in_process_ir_digest :: string
  in_transition_id :: string
  in_mission_ref :: string
  in_intent :: string
  in_target_class :: string
  in_required_capability :: string
  in_authority_requirement :: string
  in_process_scope_digest :: string
  in_expected_process_outcome :: string
  in_evidence_context_refs :: "string list"
  in_currentness_context_refs :: "string list"
  in_action_intent_digest :: string
  in_authority_effect :: string
  in_execution_effect :: string

definition intent_digest :: "action_intent \<Rightarrow> string" where
  "intent_digest i = sha256 (''LION/PROCESS-ACTION-INTENT/1'' @ nul # canon (JObj [
     (''process_id'', JStr (in_process_id i)), (''process_ir_digest'', JStr (in_process_ir_digest i)),
     (''transition_id'', JStr (in_transition_id i)), (''mission_ref'', JStr (in_mission_ref i)),
     (''intent'', JStr (in_intent i)), (''target_class'', JStr (in_target_class i)),
     (''required_capability'', JStr (in_required_capability i)), (''authority_requirement'', JStr (in_authority_requirement i)),
     (''process_scope_digest'', JStr (in_process_scope_digest i)),
     (''expected_process_outcome'', JStr (in_expected_process_outcome i)),
     (''evidence_context_refs'', strs (in_evidence_context_refs i)),
     (''currentness_context_refs'', strs (in_currentness_context_refs i)),
     (''authority_effect'', JStr (in_authority_effect i)), (''execution_effect'', JStr (in_execution_effect i))]))"

definition action_intent_validate :: "action_intent \<Rightarrow> unit res" where
  "action_intent_validate i = checks [
     action_id (in_process_id i) ''process_id'',
     action_digest (in_process_ir_digest i) ''process_ir_digest'',
     action_id (in_transition_id i) ''transition_id'',
     action_text False (in_mission_ref i) ''mission_ref'', action_text False (in_intent i) ''intent'',
     action_text False (in_target_class i) ''target_class'',
     action_text False (in_required_capability i) ''required_capability'',
     action_text False (in_authority_requirement i) ''authority_requirement'',
     action_text False (in_expected_process_outcome i) ''expected_process_outcome'',
     action_digest (in_process_scope_digest i) ''process_scope_digest'',
     action_unique (in_evidence_context_refs i) ''evidence_context_refs'',
     action_unique (in_currentness_context_refs i) ''currentness_context_refs'',
     action_when (in_authority_effect i \<noteq> ''NONE'' \<or> in_execution_effect i \<noteq> ''NONE'')
       ''ActionIntentCandidate must be non-authoritative and non-effectful'',
     if in_action_intent_digest i \<noteq> [] then checks [
       action_digest (in_action_intent_digest i) ''action_intent_digest'',
       action_when (in_action_intent_digest i \<noteq> intent_digest i) ''action_intent_digest mismatch''] else Inr ()]"

record decision_record =
  dr_process_id :: string
  dr_process_ir_digest :: string
  dr_process_context_digest :: string
  dr_transition_id :: string
  dr_transition_class :: string
  dr_decision :: string
  dr_decision_basis :: string
  dr_selected_at :: string
  dr_transition_decision_digest :: string
  dr_authority_effect :: string
  dr_execution_effect :: string

definition decision_digest :: "decision_record \<Rightarrow> string" where
  "decision_digest d = sha256 (''LION/PROCESS-TRANSITION-DECISION/1'' @ nul # canon (JObj [
     (''process_id'', JStr (dr_process_id d)), (''process_ir_digest'', JStr (dr_process_ir_digest d)),
     (''process_context_digest'', JStr (dr_process_context_digest d)), (''transition_id'', JStr (dr_transition_id d)),
     (''transition_class'', JStr (dr_transition_class d)), (''decision'', JStr (dr_decision d)),
     (''decision_basis'', JStr (dr_decision_basis d)), (''selected_at'', JStr (dr_selected_at d)),
     (''authority_effect'', JStr (dr_authority_effect d)), (''execution_effect'', JStr (dr_execution_effect d))]))"

definition decision_record_validate :: "decision_record \<Rightarrow> unit res" where
  "decision_record_validate d = checks [
     action_id (dr_process_id d) ''process_id'',
     action_digest (dr_process_ir_digest d) ''process_ir_digest'',
     action_digest (dr_process_context_digest d) ''process_context_digest'',
     action_id (dr_transition_id d) ''transition_id'',
     action_when (dr_transition_class d \<notin> set TRANSITION_CLASSES) ''transition_class invalid'',
     action_when (dr_decision d \<noteq> ''SELECTED'') ''transition decision record must be SELECTED'',
     action_text False (dr_decision_basis d) ''decision_basis'',
     action_text False (dr_selected_at d) ''selected_at'',
     action_when (dr_authority_effect d \<noteq> ''NONE'' \<or> dr_execution_effect d \<noteq> ''NONE'')
       ''TransitionDecisionRecord must be non-authoritative and non-effectful'',
     if dr_transition_decision_digest d \<noteq> [] then checks [
       action_digest (dr_transition_decision_digest d) ''transition_decision_digest'',
       action_when (dr_transition_decision_digest d \<noteq> decision_digest d) ''transition_decision_digest mismatch''] else Inr ()]"

definition decision_sealed :: "decision_record \<Rightarrow> decision_record res" where
  "decision_sealed d = (let e = d\<lparr>dr_transition_decision_digest := decision_digest d\<rparr>
     in and_then (decision_record_validate e) (\<lambda>_. Inr e))"

record transition_outcome =
  oc_process_id :: string
  oc_process_ir_digest :: string
  oc_transition_id :: string
  oc_transition_decision_digest :: string
  oc_attempt_number :: int
  oc_outcome :: string
  oc_next_state :: string
  oc_action_ref :: string
  oc_proposal_digest :: string
  oc_admission_ref :: string
  oc_effect_ref :: string
  oc_observation_ref :: string
  oc_reconciliation_ref :: string
  oc_currentness_basis_ref :: string
  oc_transition_outcome_digest :: string

definition outcome_digest :: "transition_outcome \<Rightarrow> string" where
  "outcome_digest x = sha256 (''LION/PROCESS-TRANSITION-OUTCOME/1'' @ nul # canon (JObj [
     (''process_id'', JStr (oc_process_id x)), (''process_ir_digest'', JStr (oc_process_ir_digest x)),
     (''transition_id'', JStr (oc_transition_id x)),
     (''transition_decision_digest'', JStr (oc_transition_decision_digest x)),
     (''attempt_number'', JInt (oc_attempt_number x)), (''outcome'', JStr (oc_outcome x)),
     (''next_state'', JStr (oc_next_state x)), (''action_ref'', JStr (oc_action_ref x)),
     (''proposal_digest'', JStr (oc_proposal_digest x)), (''admission_ref'', JStr (oc_admission_ref x)),
     (''effect_ref'', JStr (oc_effect_ref x)), (''observation_ref'', JStr (oc_observation_ref x)),
     (''reconciliation_ref'', JStr (oc_reconciliation_ref x)),
     (''currentness_basis_ref'', JStr (oc_currentness_basis_ref x))]))"

definition outcome_validate :: "transition_outcome \<Rightarrow> unit res" where
  "outcome_validate x = checks [
     action_id (oc_process_id x) ''process_id'',
     action_digest (oc_process_ir_digest x) ''process_ir_digest'',
     action_id (oc_transition_id x) ''transition_id'',
     action_digest (oc_transition_decision_digest x) ''transition_decision_digest'',
     action_when (oc_attempt_number x < 1) ''attempt_number invalid'',
     action_when (oc_outcome x \<notin> set OUTCOME_LABELS) ''outcome invalid'',
     action_text False (oc_next_state x) ''next_state'',
     action_text True (oc_action_ref x) ''action_ref'', action_text True (oc_proposal_digest x) ''proposal_digest'',
     action_text True (oc_admission_ref x) ''admission_ref'', action_text True (oc_effect_ref x) ''effect_ref'',
     action_text True (oc_observation_ref x) ''observation_ref'',
     action_text True (oc_reconciliation_ref x) ''reconciliation_ref'',
     action_text True (oc_currentness_basis_ref x) ''currentness_basis_ref'',
     if oc_proposal_digest x \<noteq> [] then action_digest (oc_proposal_digest x) ''proposal_digest'' else Inr (),
     if oc_currentness_basis_ref x \<noteq> [] then action_digest (oc_currentness_basis_ref x) ''currentness_basis_ref'' else Inr (),
     if oc_transition_outcome_digest x \<noteq> [] then checks [
       action_digest (oc_transition_outcome_digest x) ''transition_outcome_digest'',
       action_when (oc_transition_outcome_digest x \<noteq> outcome_digest x) ''transition_outcome_digest mismatch''] else Inr ()]"

section \<open>Selection\<close>

abbreviation semantic_error :: "string \<Rightarrow> exn" where
  "semantic_error m \<equiv> Exn ProcessSemanticError m"

record transition_decision =
  tn_decision :: string
  tn_transition_id :: string
  tn_reason :: string

definition no_transition :: "string \<Rightarrow> string \<Rightarrow> transition_decision" where
  "no_transition d reason = \<lparr>tn_decision = d, tn_transition_id = [], tn_reason = reason\<rparr>"

definition transition_of :: "process_model \<Rightarrow> string \<Rightarrow> ir_transition option" where
  "transition_of m tid = find (\<lambda>t. tr_transition_id t = tid) (pm_transitions m)"

text \<open>
  \<open>sorted(order, key=(priority, index))\<close> is the stable sort of the order by priority. On a canonical process every
  entry of the order has its transition and its priority.
\<close>

definition ordered :: "process_model \<Rightarrow> ir_transition list" where
  "ordered m = (let p = pm_scheduling_policy m;
       ids = (if sp_strategy p = ''EXPLICIT_PRIORITY'' then sort_key (count_of (sp_priorities p)) (sp_order p) else sp_order p)
     in List.map_filter (transition_of m) ids)"

definition missing :: "string list \<Rightarrow> string list \<Rightarrow> bool" where
  "missing required satisfied = (\<not> set required \<subseteq> set satisfied)"

text \<open>The dictionary of bases by requirement: a later basis replaces an earlier one.\<close>

definition current_basis :: "process_context \<Rightarrow> string \<Rightarrow> currentness_basis option" where
  "current_basis c r = find (\<lambda>b. cb_requirement_id b = r) (rev (pc_currentness_bases c))"

definition currentness_satisfied :: "ir_transition \<Rightarrow> process_context \<Rightarrow> bool" where
  "currentness_satisfied t c = list_all (\<lambda>r. case current_basis c r of
       None \<Rightarrow> False
     | Some b \<Rightarrow> cb_state b = ''CURRENT'' \<and> cb_subject b = r
         \<and> cb_subject b \<in> set (rc_currentness_subjects (tr_resource_claims t)) \<and> cb_evidence_ref b \<noteq> []
         \<and> cb_observed_identity b \<noteq> [] \<and> cb_observed_at b \<noteq> [] \<and> cb_basis_digest b \<noteq> [])
     (tr_currentness_requirements t)"

definition retry_reconciled :: "ir_transition \<Rightarrow> process_context \<Rightarrow> bool" where
  "retry_reconciled t c = (let n = count_of (pc_attempt_counts c) (tr_transition_id t) in
     if n = 0 then True
     else if tr_idempotency_class t \<noteq> ''NON_IDEMPOTENT'' then True
     else if tr_replay_policy t \<noteq> ''RECONCILE_FIRST'' then False
     else (case filter (\<lambda>a. at_transition_id a = tr_transition_id t \<and> at_attempt_number a = n) (pc_attempt_records c) of
       [a] \<Rightarrow> at_reconciliation_ref a \<noteq> []
     | _ \<Rightarrow> False))"

datatype verdict = Skip | Dependency | Unknown | Handoff | Retry | Legal

definition judge :: "process_context \<Rightarrow> ir_transition \<Rightarrow> verdict" where
  "judge c t =
     (if tr_transition_id t \<in> set (pc_completed_transitions c) \<or> pc_process_state c \<notin> set (tr_source_states t) then Skip
      else if missing (tr_dependencies t) (pc_satisfied_dependencies c) then Dependency
      else if missing (tr_guards t) (pc_satisfied_guards c) then Unknown
      else if missing (tr_evidence_requirements t) (pc_satisfied_evidence_requirements c) then Unknown
      else if \<not> currentness_satisfied t c then Unknown
      else if missing (tr_authority_requirements t) (pc_verified_authority_context_refs c) then Handoff
      else if ry_max_attempts (tr_retry_policy t) < count_of (pc_attempt_counts c) (tr_transition_id t) then Retry
      else if \<not> retry_reconciled t c then Retry
      else Legal)"

text \<open>The loop of \<open>select\<close>: the first legal transition, with the verdicts met on the way.\<close>

fun scan :: "process_context \<Rightarrow> ir_transition list \<Rightarrow> verdict list \<Rightarrow> ir_transition option \<times> verdict list" where
  "scan c [] seen = (None, seen)"
| "scan c (t # ts) seen = (case judge c t of Legal \<Rightarrow> (Some t, seen) | v \<Rightarrow> scan c ts (v # seen))"

definition select :: "process_model \<Rightarrow> process_context \<Rightarrow> transition_decision res" where
  "select m c = (case context_validate_for m c of
     Inl (Exn cls msg) \<Rightarrow> (if cls = ProcessIRContractError then Inl (semantic_error msg) else Inl (Exn cls msg))
   | Inr _ \<Rightarrow> Inr (
     if pc_process_control c = ''COMPLETE'' then no_transition ''COMPLETE'' ''process control is complete''
     else if pc_process_control c = ''HANDOFF_REQUIRED'' then no_transition ''HANDOFF_REQUIRED'' ''process control requires handoff''
     else if pc_process_control c = ''DEFERRED'' then no_transition ''BLOCKED'' ''process control is deferred''
     else if pc_process_control c = ''TERMINATED'' then no_transition ''BLOCKED'' ''process control is terminated''
     else if pc_process_state c \<in> set (tp_terminal_states (pm_termination_policy m))
       then no_transition ''COMPLETE'' ''terminal process state''
     else (case scan c (ordered m) [] of
       (Some t, _) \<Rightarrow> \<lparr>tn_decision = ''SELECTED'', tn_transition_id = tr_transition_id t,
         tn_reason = ''first legal unfinished transition''\<rparr>
     | (None, seen) \<Rightarrow>
         if Handoff \<in> set seen then no_transition ''HANDOFF_REQUIRED'' ''authority context is not independently verified''
         else if Unknown \<in> set seen
           then no_transition ''UNKNOWN'' ''evidence/currentness/guard requirements are unresolved''
         else if Dependency \<in> set seen \<or> Retry \<in> set seen
           then no_transition ''BLOCKED'' ''dependency, retry or reconciliation boundary blocks remaining transition''
         else if tp_allow_no_legal_transition (pm_termination_policy m)
           then no_transition ''COMPLETE'' ''no legal unfinished transition remains''
         else no_transition ''BLOCKED'' ''no legal transition and implicit completion is forbidden'')))"

definition bind_selected :: "process_model \<Rightarrow> process_context \<Rightarrow> decision_record res" where
  "bind_selected m c = and_then (select m c) (\<lambda>d.
     and_then (raise_when (tn_decision d \<noteq> ''SELECTED'') ProcessSemanticError
       (''cannot bind non-selected transition decision: '' @ tn_decision d)) (\<lambda>_.
     case transition_of m (tn_transition_id d) of
       None \<Rightarrow> Inl (Exn PyKeyError (tn_transition_id d))
     | Some t \<Rightarrow> and_then (context_digest m c) (\<lambda>digest.
         decision_sealed \<lparr>dr_process_id = pm_process_id m, dr_process_ir_digest = process_digest m,
           dr_process_context_digest = digest, dr_transition_id = tn_transition_id d,
           dr_transition_class = tr_transition_class t, dr_decision = ''SELECTED'', dr_decision_basis = tn_reason d,
           dr_selected_at = pc_observed_at c, dr_transition_decision_digest = [], dr_authority_effect = ''NONE'',
           dr_execution_effect = ''NONE''\<rparr>)))"

section \<open>Parallel selection\<close>

definition disjoint :: "string list \<Rightarrow> string list \<Rightarrow> bool" where
  "disjoint xs ys = (\<not> list_ex (\<lambda>x. x \<in> set ys) xs)"

definition independent :: "ir_transition \<Rightarrow> ir_transition \<Rightarrow> bool" where
  "independent left right = (let l = tr_resource_claims left; r = tr_resource_claims right in
     if \<not> disjoint (rc_write_scopes l) (rc_write_scopes r @ rc_read_scopes r) \<or> \<not> disjoint (rc_write_scopes r) (rc_read_scopes l)
       then False
     else if \<not> disjoint (rc_authority_budgets l) (rc_authority_budgets r) then False
     else if rc_replay_domain l \<noteq> [] \<and> rc_replay_domain l = rc_replay_domain r then False
     else if rc_reconciliation_group l \<noteq> [] \<and> rc_reconciliation_group l = rc_reconciliation_group r then False
     else if (rc_write_scopes l \<noteq> [] \<or> rc_write_scopes r \<noteq> [])
         \<and> \<not> disjoint (rc_currentness_subjects l) (rc_currentness_subjects r) then False
     else True)"

fun pick_independent :: "ir_transition list \<Rightarrow> ir_transition list \<Rightarrow> ir_transition list" where
  "pick_independent chosen [] = chosen"
| "pick_independent chosen (t # ts) =
     pick_independent (if list_all (independent t) chosen then chosen @ [t] else chosen) ts"

definition select_parallel :: "process_model \<Rightarrow> process_context \<Rightarrow> string list res" where
  "select_parallel m c = and_then (context_validate_for m c) (\<lambda>_. Inr (
     let p = pm_scheduling_policy m in
     if pc_process_control c \<noteq> ''ACTIVE'' then []
     else if sp_max_wip p \<le> 1 then []
     else (let legal = filter (\<lambda>t. judge c t = Legal) (ordered m); candidates = take (nat (sp_max_wip p)) legal in
       if length candidates < 2 then map tr_transition_id candidates
       else if \<not> list_ex (\<lambda>g. set (map tr_transition_id candidates) \<subseteq> set g) (sp_parallel_safe_groups p)
         then [tr_transition_id (hd candidates)]
       else map tr_transition_id (pick_independent [] candidates))))"

section \<open>Outcomes\<close>

definition required_bases :: "ir_transition \<Rightarrow> process_context \<Rightarrow> string list" where
  "required_bases t c = List.map_filter (\<lambda>r. case current_basis c r of
       None \<Rightarrow> None
     | Some b \<Rightarrow> if cb_state b = ''CURRENT'' then Some (cb_basis_digest b) else None) (tr_currentness_requirements t)"

definition directive_control :: "string \<Rightarrow> string" where
  "directive_control d = (if d = ''CONTINUE'' then ''ACTIVE'' else if d = ''DEFER'' then ''DEFERRED''
     else if d = ''HANDOFF'' then ''HANDOFF_REQUIRED'' else if d = ''STOP'' then ''TERMINATED'' else ''COMPLETE'')"

text \<open>\<open>tuple(dict.fromkeys(xs))\<close>: the first occurrences, in order.\<close>

definition first_occurrences :: "string list \<Rightarrow> string list" where
  "first_occurrences xs = rev (remdups (rev xs))"

definition semantic_when :: "bool \<Rightarrow> string \<Rightarrow> unit res" where
  "semantic_when b m = raise_when b ProcessSemanticError m"

text \<open>The evidence of a passed action: every reference, a current basis, and the downstream chain.\<close>

definition action_evidence ::
  "('d \<Rightarrow> transition_outcome \<Rightarrow> string \<times> string \<times> string \<times> string \<Rightarrow> unit res) \<Rightarrow> process_model \<Rightarrow> process_context
   \<Rightarrow> ir_transition \<Rightarrow> transition_outcome \<Rightarrow> 'd option \<Rightarrow> unit res" where
  "action_evidence evidence_check m c t x evidence =
     (if tr_transition_class t = ''ACTION_REQUIRED'' \<and> oc_outcome x = ''PASS'' then checks [
        semantic_when (list_ex (\<lambda>r. r = []) [oc_action_ref x, oc_proposal_digest x, oc_admission_ref x, oc_effect_ref x,
            oc_observation_ref x, oc_reconciliation_ref x, oc_currentness_basis_ref x])
          ''ACTION_REQUIRED PASS requires action, proposal, admission, effect, observation, reconciliation and currentness evidence'',
        semantic_when (oc_currentness_basis_ref x \<notin> set (required_bases t c))
          ''ACTION_REQUIRED PASS currentness basis does not bind selected context'',
        (case evidence of
           None \<Rightarrow> Inl (semantic_error
             ''ACTION_REQUIRED PASS requires independently materialized canonical downstream evidence'')
         | Some d \<Rightarrow> (case evidence_check d x (pm_process_id m, process_digest m, tr_transition_id t, pm_mission_ref m) of
             Inl (Exn cls msg) \<Rightarrow> if cls = ProcessOutcomeEvidenceError
               then Inl (semantic_error (''canonical downstream evidence invalid: '' @ msg)) else Inl (Exn cls msg)
           | Inr u \<Rightarrow> Inr u))]
      else semantic_when (evidence \<noteq> None) ''canonical downstream evidence is only valid for ACTION_REQUIRED PASS'')"

definition bump_count :: "(string \<times> int) list \<Rightarrow> string \<Rightarrow> int \<Rightarrow> (string \<times> int) list" where
  "bump_count counts tid n = sort_key fst (AList.update tid n counts)"

definition moved_context :: "process_context \<Rightarrow> transition_outcome \<Rightarrow> string \<Rightarrow> attempt_record \<Rightarrow> process_context" where
  "moved_context c x control a = c\<lparr>
     pc_process_state := oc_next_state x,
     pc_process_control := control,
     pc_completed_transitions := (if oc_outcome x = ''PASS'' \<and> oc_transition_id x \<notin> set (pc_completed_transitions c)
       then pc_completed_transitions c @ [oc_transition_id x] else pc_completed_transitions c),
     pc_action_result_refs := first_occurrences (pc_action_result_refs c @ filter (\<lambda>r. r \<noteq> []) [oc_action_ref x]),
     pc_observation_refs := first_occurrences (pc_observation_refs c @ filter (\<lambda>r. r \<noteq> []) [oc_observation_ref x]),
     pc_reconciliation_refs := first_occurrences (pc_reconciliation_refs c @ filter (\<lambda>r. r \<noteq> []) [oc_reconciliation_ref x]),
     pc_attempt_counts := bump_count (pc_attempt_counts c) (oc_transition_id x) (at_attempt_number a),
     pc_attempt_records := pc_attempt_records c @ [a]\<rparr>"

definition new_attempt :: "ir_transition \<Rightarrow> int \<Rightarrow> transition_outcome \<Rightarrow> attempt_record" where
  "new_attempt t n x = \<lparr>at_transition_id = tr_transition_id t, at_attempt_number = n, at_outcome = oc_outcome x,
     at_effect_ref = oc_effect_ref x, at_observation_ref = oc_observation_ref x,
     at_reconciliation_ref = oc_reconciliation_ref x, at_attempt_digest = []\<rparr>"

definition apply_transition_outcome ::
  "('d \<Rightarrow> transition_outcome \<Rightarrow> string \<times> string \<times> string \<times> string \<Rightarrow> unit res) \<Rightarrow> process_model \<Rightarrow> process_context
   \<Rightarrow> decision_record \<Rightarrow> transition_outcome \<Rightarrow> 'd option \<Rightarrow> process_context res" where
  "apply_transition_outcome evidence_check m c d x evidence =
     and_then (checks [validate_process_ir m, context_validate_for m c]) (\<lambda>_.
     and_then (case checks [decision_record_validate d, outcome_validate x] of
         Inl (Exn cls msg) \<Rightarrow> if cls = ProcessActionContractError then Inl (semantic_error msg) else Inl (Exn cls msg)
       | Inr u \<Rightarrow> Inr u) (\<lambda>_.
     and_then (checks [
       semantic_when (dr_process_id d \<noteq> pm_process_id m) ''decision process identity mismatch'',
       semantic_when (dr_process_ir_digest d \<noteq> process_digest m) ''decision Process IR binding mismatch'']) (\<lambda>_.
     and_then (context_digest m c) (\<lambda>digest.
     and_then (semantic_when (dr_process_context_digest d \<noteq> digest) ''decision ProcessContext binding mismatch'') (\<lambda>_.
     and_then (select m c) (\<lambda>current.
     and_then (semantic_when (tn_decision current \<noteq> ''SELECTED'' \<or> tn_transition_id current \<noteq> dr_transition_id d)
       ''outcome lacks a currently legal selected transition'') (\<lambda>_.
     and_then (bind_selected m c) (\<lambda>expected.
     and_then (semantic_when (dr_transition_decision_digest d \<noteq> dr_transition_decision_digest expected)
       ''transition decision record was not produced by canonical selection'') (\<lambda>_.
     case transition_of m (dr_transition_id d) of
       None \<Rightarrow> Inl (semantic_error ''decision transition is undefined'')
     | Some t \<Rightarrow> (let n = count_of (pc_attempt_counts c) (tr_transition_id t) + 1 in
         and_then (checks [
           semantic_when (dr_transition_class d \<noteq> tr_transition_class t) ''decision transition class mismatch'',
           semantic_when (dr_transition_decision_digest d \<noteq> oc_transition_decision_digest x)
             ''outcome transition decision binding mismatch'',
           semantic_when (oc_process_ir_digest x \<noteq> process_digest m) ''outcome Process IR binding mismatch'',
           semantic_when (oc_process_id x \<noteq> pm_process_id m) ''outcome process identity mismatch'',
           semantic_when (oc_transition_id x \<noteq> tr_transition_id t) ''outcome transition identity mismatch'',
           semantic_when (pc_process_state c \<notin> set (tr_source_states t)) ''outcome source-state substitution denied'',
           semantic_when (oc_attempt_number x \<noteq> n) ''outcome attempt number is not the next legal attempt'']) (\<lambda>_.
         case map_of (tr_outcome_map t) (oc_outcome x) of
           None \<Rightarrow> Inl (semantic_error ''outcome label is not declared by transition'')
         | Some next \<Rightarrow> and_then (action_evidence evidence_check m c t x evidence) (\<lambda>_.
         and_then (if next \<in> set NEXT_DIRECTIVES
           then semantic_when (oc_next_state x \<noteq> pc_process_state c) ''directive outcome cannot substitute arbitrary process state''
           else semantic_when (oc_next_state x \<noteq> next) ''outcome next-state substitution denied'') (\<lambda>_.
         and_then (attempt_sealed (new_attempt t n x)) (\<lambda>a.
         let c' = moved_context c x (if next \<in> set NEXT_DIRECTIVES then directive_control next else ''ACTIVE'') a in
         and_then (context_validate_for m c') (\<lambda>_. Inr c')))))))))))))))"

end
