(* ===== verification/Process_Runs.thy ===== *)
theory Process_Runs
  imports Process_Semantics
begin

text \<open>
  Runs of a process: which transition the selection picks, what one accepted outcome does to the context, the relation of runs
  that alternate outcomes and new snapshots, the invariants they keep (numbered attempts, reconciled retries, the retry
  bound, backed actions), when an outcome is accepted, and the parallel selection.
\<close>

section \<open>Facts of a canonical process\<close>

lemma transitions_check_ok: "transitions_check states deps seen ts = Inr () \<longleftrightarrow>
    list_all (\<lambda>t. transition_check states deps t = Inr ()) ts \<and> distinct (map tr_transition_id ts)
    \<and> set (map tr_transition_id ts) \<inter> set seen = {}"
  by (induction ts arbitrary: seen) auto

lemma unique_strings_distinct: "unique_strings e vs name = Inr () \<Longrightarrow> distinct vs"
  by (simp add: unique_strings_def)

lemma transition_check_retry: "transition_check states deps t = Inr () \<Longrightarrow> 0 \<le> ry_max_attempts (tr_retry_policy t)"
  by (simp add: transition_check_def retry_check_def)

lemma valid_process:
  assumes "validate_process_ir m = Inr ()"
  shows "distinct (transition_ids m)" "\<And>t. t \<in> set (pm_transitions m) \<Longrightarrow> 0 \<le> ry_max_attempts (tr_retry_policy t)"
    "distinct (sp_order (pm_scheduling_policy m))" "set (sp_order (pm_scheduling_policy m)) = set (transition_ids m)"
proof -
  have T: "transitions_check (pm_states m) (dependency_ids m) [] (pm_transitions m) = Inr ()"
    and S: "scheduling_check (transition_ids m) (pm_scheduling_policy m) = Inr ()"
    using assms by (simp_all add: validate_process_ir_def)
  show "distinct (transition_ids m)" using T by (simp add: transitions_check_ok transition_ids_def)
  show "0 \<le> ry_max_attempts (tr_retry_policy t)" if "t \<in> set (pm_transitions m)" for t
    using T that transition_check_retry by (auto simp: transitions_check_ok list_all_iff)
  show "distinct (sp_order (pm_scheduling_policy m))" "set (sp_order (pm_scheduling_policy m)) = set (transition_ids m)"
    using S unique_strings_distinct by (auto simp: scheduling_check_def)
qed

lemma transition_of_iff:
  assumes "distinct (transition_ids m)"
  shows "transition_of m tid = Some t \<longleftrightarrow> t \<in> set (pm_transitions m) \<and> tr_transition_id t = tid"
proof
  assume "transition_of m tid = Some t"
  then show "t \<in> set (pm_transitions m) \<and> tr_transition_id t = tid"
    by (auto simp: transition_of_def find_Some_iff)
next
  assume t: "t \<in> set (pm_transitions m) \<and> tr_transition_id t = tid"
  then obtain u where u: "transition_of m tid = Some u" by (fastforce simp: transition_of_def find_None_iff)
  then have "u \<in> set (pm_transitions m)" "tr_transition_id u = tid" by (auto simp: transition_of_def find_Some_iff)
  with t assms have "u = t" unfolding transition_ids_def by (auto simp: distinct_map dest: inj_onD)
  with u show "transition_of m tid = Some t" by simp
qed

lemma ordered_ids: "\<exists>ids. ordered m = List.map_filter (transition_of m) ids \<and> set ids = set (sp_order (pm_scheduling_policy m))
    \<and> (distinct (sp_order (pm_scheduling_policy m)) \<longrightarrow> distinct ids)"
  unfolding ordered_def Let_def by (rule exI, rule conjI, rule refl) simp

lemma set_ordered:
  assumes "validate_process_ir m = Inr ()"
  shows "set (ordered m) = set (pm_transitions m)"
proof -
  obtain ids where ids: "ordered m = List.map_filter (transition_of m) ids" "set ids = set (sp_order (pm_scheduling_policy m))"
    using ordered_ids by blast
  have "set (ordered m) = {t. \<exists>tid \<in> set (transition_ids m). transition_of m tid = Some t}"
    using valid_process(4) [OF assms] ids by (auto simp: List.map_filter_def image_iff) force+
  also have "\<dots> = set (pm_transitions m)"
    using transition_of_iff [OF valid_process(1) [OF assms]] by (auto simp: transition_ids_def)
  finally show ?thesis .
qed

section \<open>Selection\<close>

text \<open>When a transition may run: what the code tests one guard after the other, stated as one condition.\<close>

definition legal :: "process_context \<Rightarrow> ir_transition \<Rightarrow> bool" where
  "legal c t \<longleftrightarrow> tr_transition_id t \<notin> set (pc_completed_transitions c) \<and> pc_process_state c \<in> set (tr_source_states t)
     \<and> set (tr_dependencies t) \<subseteq> set (pc_satisfied_dependencies c) \<and> set (tr_guards t) \<subseteq> set (pc_satisfied_guards c)
     \<and> set (tr_evidence_requirements t) \<subseteq> set (pc_satisfied_evidence_requirements c) \<and> currentness_satisfied t c
     \<and> set (tr_authority_requirements t) \<subseteq> set (pc_verified_authority_context_refs c)
     \<and> count_of (pc_attempt_counts c) (tr_transition_id t) \<le> ry_max_attempts (tr_retry_policy t) \<and> retry_reconciled t c"

lemma judge_legal: "judge c t = Legal \<longleftrightarrow> legal c t"
  by (auto simp: judge_def legal_def missing_def)

lemma scan_find: "fst (scan c ts seen) = find (legal c) ts"
  by (induction ts arbitrary: seen) (auto simp: judge_legal [symmetric] split: verdict.split)

lemma scan_seen: "scan c ts seen = (None, vs) \<Longrightarrow> set vs = set seen \<union> judge c ` set ts"
  by (induction ts arbitrary: seen) (auto split: verdict.splits)

lemma select_valid: "select m c = Inr d \<Longrightarrow> context_validate_for m c = Inr ()"
  by (auto simp: select_def split: sum.splits exn.splits if_splits)

lemma select_selected:
  assumes "select m c = Inr d" "tn_decision d = ''SELECTED''"
  obtains t where "find (legal c) (ordered m) = Some t" "tn_transition_id d = tr_transition_id t"
    "pc_process_control c \<notin> set [''COMPLETE'', ''HANDOFF_REQUIRED'', ''DEFERRED'', ''TERMINATED'']"
    "pc_process_state c \<notin> set (tp_terminal_states (pm_termination_policy m))"
proof (cases "scan c (ordered m) []")
  case (Pair r vs)
  have v: "context_validate_for m c = Inr ()" using assms(1) by (rule select_valid)
  show thesis
  proof (cases r)
    case None
    with assms v Pair show thesis by (simp add: select_def no_transition_def split: if_splits) (auto split: if_splits)
  next
    case (Some t)
    have "find (legal c) (ordered m) = Some t" using scan_find [of c "ordered m" "[]"] Pair Some by simp
    with assms v Pair Some that show thesis by (simp add: select_def no_transition_def split: if_splits) (auto split: if_splits)
  qed
qed

section \<open>One outcome\<close>

text \<open>The attempt an outcome records and the context it leads to.\<close>

definition attempt_of :: "ir_transition \<Rightarrow> process_context \<Rightarrow> transition_outcome \<Rightarrow> attempt_record" where
  "attempt_of t c x = (let a = new_attempt t (count_of (pc_attempt_counts c) (tr_transition_id t) + 1) x
     in a\<lparr>at_attempt_digest := attempt_digest a\<rparr>)"

definition control_after :: "string \<Rightarrow> string" where
  "control_after nx = (if nx \<in> set NEXT_DIRECTIVES then directive_control nx else ''ACTIVE'')"

lemma apply_ok:
  assumes "apply_transition_outcome ec m c d x ev = Inr c'"
  obtains t nx where "context_validate_for m c = Inr ()" "find (legal c) (ordered m) = Some t"
    "pc_process_control c \<notin> set [''COMPLETE'', ''HANDOFF_REQUIRED'', ''DEFERRED'', ''TERMINATED'']"
    "pc_process_state c \<notin> set (tp_terminal_states (pm_termination_policy m))"
    "oc_transition_id x = tr_transition_id t" "map_of (tr_outcome_map t) (oc_outcome x) = Some nx"
    "action_evidence ec m c t x ev = Inr ()"
    "oc_next_state x = (if nx \<in> set NEXT_DIRECTIVES then pc_process_state c else nx)"
    "c' = moved_context c x (control_after nx) (attempt_of t c x)" "context_validate_for m c' = Inr ()"
proof -
  from assms obtain cur where v: "context_validate_for m c = Inr ()" and sel: "select m c = Inr cur"
    and cur: "tn_decision cur = ''SELECTED''" "tn_transition_id cur = dr_transition_id d"
    unfolding apply_transition_outcome_def semantic_when_def by (auto simp: and_then_ok)
  from sel cur(1) obtain t where t: "find (legal c) (ordered m) = Some t" "tn_transition_id cur = tr_transition_id t"
      "pc_process_control c \<notin> set [''COMPLETE'', ''HANDOFF_REQUIRED'', ''DEFERRED'', ''TERMINATED'']"
      "pc_process_state c \<notin> set (tp_terminal_states (pm_termination_policy m))"
    by (rule select_selected)
  have m: "validate_process_ir m = Inr ()" using v by (simp add: context_validate_for_def)
  have "t \<in> set (pm_transitions m)" using t(1) set_ordered [OF m] by (auto simp: find_Some_iff)
  then have of_id: "transition_of m (dr_transition_id d) = Some t"
    using transition_of_iff [OF valid_process(1) [OF m]] t(2) cur(2) by simp
  from assms obtain nx where nxt: "map_of (tr_outcome_map t) (oc_outcome x) = Some nx"
    and rest: "oc_transition_id x = tr_transition_id t" "action_evidence ec m c t x ev = Inr ()"
      "oc_next_state x = (if nx \<in> set NEXT_DIRECTIVES then pc_process_state c else nx)"
      "attempt_sealed (new_attempt t (count_of (pc_attempt_counts c) (tr_transition_id t) + 1) x) = Inr (attempt_of t c x)"
      "c' = moved_context c x (control_after nx) (attempt_of t c x)" "context_validate_for m c' = Inr ()"
    unfolding apply_transition_outcome_def semantic_when_def
    by (auto simp: and_then_ok of_id attempt_sealed_def attempt_of_def Let_def control_after_def split: option.splits if_splits)
  show thesis by (rule that [OF v t(1,3,4) rest(1) nxt rest(2,3,5,6)])
qed

section \<open>Counts and records\<close>

lemma counts_check_ok: "counts_check ids seen cs = Inr () \<longleftrightarrow> distinct (map fst cs) \<and> set (map fst cs) \<inter> set seen = {}
    \<and> set (map fst cs) \<subseteq> set ids \<and> (\<forall>p\<in>set cs. 0 \<le> snd p)"
  by (induction ids seen cs rule: counts_check.induct) auto

lemma valid_context_counts: "context_validate_for m c = Inr () \<Longrightarrow> distinct (map fst (pc_attempt_counts c))"
  by (simp add: context_validate_for_def counts_check_ok)

lemma count_of_nonneg:
  assumes "context_validate_for m c = Inr ()"
  shows "0 \<le> count_of (pc_attempt_counts c) tid"
proof -
  have "\<forall>p\<in>set (pc_attempt_counts c). 0 \<le> snd p" using assms by (simp add: context_validate_for_def counts_check_ok)
  then show ?thesis by (auto simp: count_of_def dest!: map_of_SomeD split: option.splits)
qed

lemma count_of_bump: "distinct (map fst cs) \<Longrightarrow> count_of (bump_count cs tid n) k = (if k = tid then n else count_of cs k)"
  by (simp add: count_of_def bump_count_def map_of_sort_key distinct_update update_conv')

lemma moved_counts:
  assumes "context_validate_for m c = Inr ()" "oc_transition_id x = tr_transition_id t"
  shows "count_of (pc_attempt_counts (moved_context c x k (attempt_of t c x))) tid
    = count_of (pc_attempt_counts c) tid + (if tid = tr_transition_id t then 1 else 0)"
  using valid_context_counts [OF assms(1)] assms(2)
  by (simp add: moved_context_def count_of_bump attempt_of_def new_attempt_def Let_def)

lemma moved_records [simp]: "pc_attempt_records (moved_context c x k a) = pc_attempt_records c @ [a]"
  by (simp add: moved_context_def)

lemma attempt_of_fields [simp]: "at_transition_id (attempt_of t c x) = tr_transition_id t"
  "at_attempt_number (attempt_of t c x) = count_of (pc_attempt_counts c) (tr_transition_id t) + 1"
  "at_outcome (attempt_of t c x) = oc_outcome x" "at_effect_ref (attempt_of t c x) = oc_effect_ref x"
  "at_observation_ref (attempt_of t c x) = oc_observation_ref x" "at_reconciliation_ref (attempt_of t c x) = oc_reconciliation_ref x"
  by (simp_all add: attempt_of_def new_attempt_def Let_def)

section \<open>Runs\<close>

text \<open>
  Between two outcomes the caller takes new snapshots: evidence, guards, dependencies, currentness bases and verified
  authority may change in any way, what the process itself has recorded may not. The number counts the outcomes.
\<close>

definition same_progress :: "process_context \<Rightarrow> process_context \<Rightarrow> bool" where
  "same_progress c c' \<longleftrightarrow> pc_process_state c' = pc_process_state c \<and> pc_process_control c' = pc_process_control c
     \<and> pc_completed_transitions c' = pc_completed_transitions c \<and> pc_attempt_counts c' = pc_attempt_counts c
     \<and> pc_attempt_records c' = pc_attempt_records c"

inductive process_run ::
  "('d \<Rightarrow> transition_outcome \<Rightarrow> string \<times> string \<times> string \<times> string \<Rightarrow> unit res) \<Rightarrow> process_model \<Rightarrow> process_context
   \<Rightarrow> nat \<Rightarrow> process_context \<Rightarrow> bool" for ec m c where
  run_start: "process_run ec m c 0 c"
| run_snapshot: "process_run ec m c n c1 \<Longrightarrow> same_progress c1 c2 \<Longrightarrow> process_run ec m c n c2"
| run_outcome: "process_run ec m c n c1 \<Longrightarrow> apply_transition_outcome ec m c1 d x ev = Inr c2 \<Longrightarrow> process_run ec m c (Suc n) c2"

definition fresh :: "process_context \<Rightarrow> bool" where
  "fresh c = (pc_completed_transitions c = [] \<and> pc_attempt_counts c = [] \<and> pc_attempt_records c = [])"

text \<open>The attempts a context may still make.\<close>

definition attempts_left :: "process_model \<Rightarrow> process_context \<Rightarrow> nat" where
  "attempts_left m c = sum_list (map (\<lambda>t. nat (ry_max_attempts (tr_retry_policy t) + 1
     - count_of (pc_attempt_counts c) (tr_transition_id t))) (pm_transitions m))"

lemma attempts_left_cong: "same_progress c c' \<Longrightarrow> attempts_left m c' = attempts_left m c"
  by (simp add: same_progress_def attempts_left_def)

lemma sum_list_one_less:
  assumes "distinct xs" "x \<in> set xs" "f x = Suc (g x)" "\<And>y. y \<in> set xs \<Longrightarrow> y \<noteq> x \<Longrightarrow> f y = g y"
  shows "sum_list (map f xs) = Suc (sum_list (map g xs))"
proof -
  have "sum_list (map f xs) = sum f (set xs)" "sum_list (map g xs) = sum g (set xs)"
    using assms(1) by (simp_all add: sum_list_distinct_conv_sum_set)
  moreover have "sum f (set xs) = f x + sum f (set xs - {x})" "sum g (set xs) = g x + sum g (set xs - {x})"
    using assms(2) by (simp_all add: sum.remove)
  moreover have "sum f (set xs - {x}) = sum g (set xs - {x})" using assms(4) by (intro sum.cong) auto
  ultimately show ?thesis using assms(3) by simp
qed

lemma apply_attempts_left:
  assumes "apply_transition_outcome ec m c d x ev = Inr c'"
  shows "attempts_left m c = Suc (attempts_left m c')"
  using assms
proof (rule apply_ok)
  fix t nx
  assume A: "context_validate_for m c = Inr ()" "find (legal c) (ordered m) = Some t" "oc_transition_id x = tr_transition_id t"
    "c' = moved_context c x (control_after nx) (attempt_of t c x)"
  have m: "validate_process_ir m = Inr ()" using A(1) by (simp add: context_validate_for_def)
  have t: "t \<in> set (pm_transitions m)" and l: "legal c t"
    using A(2) set_ordered [OF m] by (auto simp: find_Some_iff)
  have ids: "distinct (map tr_transition_id (pm_transitions m))" using valid_process(1) [OF m] by (simp add: transition_ids_def)
  note counts = moved_counts [OF A(1,3), of "control_after nx", folded A(4)]
  show ?thesis unfolding attempts_left_def
  proof (rule sum_list_one_less)
    show "distinct (pm_transitions m)" using ids by (simp add: distinct_map)
    show "nat (ry_max_attempts (tr_retry_policy t) + 1 - count_of (pc_attempt_counts c) (tr_transition_id t))
        = Suc (nat (ry_max_attempts (tr_retry_policy t) + 1 - count_of (pc_attempt_counts c') (tr_transition_id t)))"
      using l by (simp add: counts legal_def) linarith
    show "nat (ry_max_attempts (tr_retry_policy y) + 1 - count_of (pc_attempt_counts c) (tr_transition_id y))
        = nat (ry_max_attempts (tr_retry_policy y) + 1 - count_of (pc_attempt_counts c') (tr_transition_id y))"
      if "y \<in> set (pm_transitions m)" "y \<noteq> t" for y
      using that ids t by (auto simp: counts distinct_map dest: inj_onD)
  qed (rule t)
qed

lemma run_attempts_left: "process_run ec m c n c' \<Longrightarrow> n + attempts_left m c' = attempts_left m c"
proof (induction rule: process_run.induct)
  case (run_snapshot n c1 c2)
  then show ?case using attempts_left_cong by metis
next
  case (run_outcome n c1 d x ev c2)
  then show ?case using apply_attempts_left by fastforce
qed simp

section \<open>Invariants of runs\<close>

abbreviation attempts_at :: "process_context \<Rightarrow> string \<Rightarrow> attempt_record list" where
  "attempts_at c tid \<equiv> filter (\<lambda>a. at_transition_id a = tid) (pc_attempt_records c)"

text \<open>The attempts of a transition are numbered from 1 without gaps up to its count.\<close>

definition numbered :: "process_context \<Rightarrow> bool" where
  "numbered c \<longleftrightarrow> (\<forall>tid. map at_attempt_number (attempts_at c tid) = [1..count_of (pc_attempt_counts c) tid])"

text \<open>Every attempt but the last of a transition that is not idempotent was reconciled.\<close>

definition reconciled :: "process_model \<Rightarrow> process_context \<Rightarrow> bool" where
  "reconciled m c \<longleftrightarrow> (\<forall>t\<in>set (pm_transitions m). tr_idempotency_class t = ''NON_IDEMPOTENT'' \<longrightarrow>
     (\<forall>a\<in>set (butlast (attempts_at c (tr_transition_id t))). at_reconciliation_ref a \<noteq> []))"

definition within_retries :: "process_model \<Rightarrow> process_context \<Rightarrow> bool" where
  "within_retries m c \<longleftrightarrow> (\<forall>t\<in>set (pm_transitions m).
     count_of (pc_attempt_counts c) (tr_transition_id t) \<le> ry_max_attempts (tr_retry_policy t) + 1)"

text \<open>A completed action has a recorded pass whose evidence was accepted.\<close>

definition backed ::
  "('d \<Rightarrow> transition_outcome \<Rightarrow> string \<times> string \<times> string \<times> string \<Rightarrow> unit res) \<Rightarrow> process_model \<Rightarrow> process_context \<Rightarrow> bool" where
  "backed ec m c \<longleftrightarrow> (\<forall>t\<in>set (pm_transitions m). tr_transition_class t = ''ACTION_REQUIRED'' \<longrightarrow>
     tr_transition_id t \<in> set (pc_completed_transitions c) \<longrightarrow>
     (\<exists>a x ev. a \<in> set (attempts_at c (tr_transition_id t)) \<and> at_outcome a = ''PASS'' \<and> at_effect_ref a = oc_effect_ref x
        \<and> at_observation_ref a = oc_observation_ref x \<and> at_reconciliation_ref a = oc_reconciliation_ref x
        \<and> [] \<notin> {oc_action_ref x, oc_proposal_digest x, oc_admission_ref x, oc_effect_ref x, oc_observation_ref x,
            oc_reconciliation_ref x, oc_currentness_basis_ref x}
        \<and> ec ev x (pm_process_id m, process_digest m, tr_transition_id t, pm_mission_ref m) = Inr ()))"

lemma butlast_or_last: "a \<in> set xs \<Longrightarrow> a \<in> set (butlast xs) \<or> a = last xs"
  by (cases xs rule: rev_cases) auto

lemma same_id: "validate_process_ir m = Inr () \<Longrightarrow> t \<in> set (pm_transitions m) \<Longrightarrow> u \<in> set (pm_transitions m)
    \<Longrightarrow> tr_transition_id t = tr_transition_id u \<longleftrightarrow> t = u"
  using valid_process(1) [of m] by (auto simp: transition_ids_def distinct_map dest: inj_onD)

text \<open>What one outcome does, as far as the invariants look.\<close>

lemma apply_moves:
  assumes "apply_transition_outcome ec m c d x ev = Inr c'"
  obtains t where "validate_process_ir m = Inr ()" "context_validate_for m c = Inr ()" "t \<in> set (pm_transitions m)" "legal c t"
    "action_evidence ec m c t x ev = Inr ()" "oc_transition_id x = tr_transition_id t"
    "\<And>tid. count_of (pc_attempt_counts c') tid = count_of (pc_attempt_counts c) tid + (if tid = tr_transition_id t then 1 else 0)"
    "pc_attempt_records c' = pc_attempt_records c @ [attempt_of t c x]"
    "set (pc_completed_transitions c') = (if oc_outcome x = ''PASS'' then insert (tr_transition_id t) else id) (set (pc_completed_transitions c))"
  using assms
proof (rule apply_ok)
  fix t nx
  assume A: "context_validate_for m c = Inr ()" "find (legal c) (ordered m) = Some t" "oc_transition_id x = tr_transition_id t"
    "action_evidence ec m c t x ev = Inr ()" "c' = moved_context c x (control_after nx) (attempt_of t c x)"
  have m: "validate_process_ir m = Inr ()" using A(1) by (simp add: context_validate_for_def)
  have t: "t \<in> set (pm_transitions m)" "legal c t" using A(2) set_ordered [OF m] by (auto simp: find_Some_iff)
  show thesis
  proof (rule that [OF m A(1) t A(4,3)])
    show "count_of (pc_attempt_counts c') tid = count_of (pc_attempt_counts c) tid + (if tid = tr_transition_id t then 1 else 0)" for tid
      unfolding A(5) by (rule moved_counts [OF A(1,3)])
    show "pc_attempt_records c' = pc_attempt_records c @ [attempt_of t c x]" by (simp add: A(5))
    show "set (pc_completed_transitions c')
        = (if oc_outcome x = ''PASS'' then insert (tr_transition_id t) else id) (set (pc_completed_transitions c))"
      using A(3) by (auto simp: A(5) moved_context_def)
  qed
qed

lemma apply_numbered:
  assumes "apply_transition_outcome ec m c d x ev = Inr c'" "numbered c"
  shows "numbered c'"
  using assms(1)
proof (rule apply_moves)
  fix t
  assume A: "context_validate_for m c = Inr ()" "pc_attempt_records c' = pc_attempt_records c @ [attempt_of t c x]"
    and n: "\<And>tid. count_of (pc_attempt_counts c') tid = count_of (pc_attempt_counts c) tid + (if tid = tr_transition_id t then 1 else 0)"
  have "0 \<le> count_of (pc_attempt_counts c) tid" for tid using A(1) by (rule count_of_nonneg)
  then show ?thesis using assms(2) by (auto simp: numbered_def A(2) n upto_rec2)
qed

lemma apply_reconciled:
  assumes "apply_transition_outcome ec m c d x ev = Inr c'" "numbered c" "reconciled m c"
  shows "reconciled m c'"
  using assms(1)
proof (rule apply_moves)
  fix t
  assume A: "validate_process_ir m = Inr ()" "context_validate_for m c = Inr ()" "t \<in> set (pm_transitions m)" "legal c t"
    "pc_attempt_records c' = pc_attempt_records c @ [attempt_of t c x]"
  let ?rs = "attempts_at c (tr_transition_id t)" and ?n = "count_of (pc_attempt_counts c) (tr_transition_id t)"
  have last: "at_reconciliation_ref (last ?rs) \<noteq> []" if rs: "?rs \<noteq> []" and ni: "tr_idempotency_class t = ''NON_IDEMPOTENT''"
  proof -
    have nums: "map at_attempt_number ?rs = [1..?n]" using assms(2) by (simp add: numbered_def)
    then have "[1..?n] \<noteq> []" using rs by (metis Nil_is_map_conv)
    then have n: "1 \<le> ?n" by simp
    have "at_attempt_number (last ?rs) = last [1..?n]" using nums rs by (metis last_map)
    then have l: "at_attempt_number (last ?rs) = ?n" using n by (simp add: upto_rec2)
    obtain a where a: "filter (\<lambda>a. at_transition_id a = tr_transition_id t \<and> at_attempt_number a = ?n) (pc_attempt_records c) = [a]"
      "at_reconciliation_ref a \<noteq> []"
      using A(4) n ni by (auto simp: legal_def retry_reconciled_def Let_def split: list.splits if_splits)
    have "last ?rs \<in> set ?rs" using rs by (rule last_in_set)
    then have "last ?rs \<in> set (filter (\<lambda>a. at_transition_id a = tr_transition_id t \<and> at_attempt_number a = ?n) (pc_attempt_records c))"
      using l by simp
    with a show ?thesis by simp
  qed
  show ?thesis unfolding reconciled_def
  proof (intro ballI impI)
    fix u a
    assume u: "u \<in> set (pm_transitions m)" "tr_idempotency_class u = ''NON_IDEMPOTENT''"
      "a \<in> set (butlast (attempts_at c' (tr_transition_id u)))"
    show "at_reconciliation_ref a \<noteq> []"
    proof (cases "u = t")
      case True
      then have "a \<in> set ?rs" using u(3) by (simp add: A(5))
      then have "a \<in> set (butlast ?rs) \<or> a = last ?rs" by (rule butlast_or_last)
      moreover have "?rs \<noteq> []" using \<open>a \<in> set ?rs\<close> by (metis empty_iff empty_set)
      ultimately show ?thesis using last True u(2) assms(3) A(3) by (auto simp: reconciled_def)
    next
      case False
      then have "attempts_at c' (tr_transition_id u) = attempts_at c (tr_transition_id u)"
        using same_id [OF A(1) u(1) A(3)] by (auto simp: A(5))
      with u assms(3) show ?thesis by (auto simp: reconciled_def)
    qed
  qed
qed

lemma apply_within_retries:
  assumes "apply_transition_outcome ec m c d x ev = Inr c'" "within_retries m c"
  shows "within_retries m c'"
  using assms(1)
proof (rule apply_moves)
  fix t
  assume A: "validate_process_ir m = Inr ()" "t \<in> set (pm_transitions m)" "legal c t"
    and n: "\<And>tid. count_of (pc_attempt_counts c') tid = count_of (pc_attempt_counts c) tid + (if tid = tr_transition_id t then 1 else 0)"
  show ?thesis unfolding within_retries_def
  proof
    fix u
    assume u: "u \<in> set (pm_transitions m)"
    show "count_of (pc_attempt_counts c') (tr_transition_id u) \<le> ry_max_attempts (tr_retry_policy u) + 1"
      using same_id [OF A(1) u A(2)] assms(2) u A(3) by (cases "u = t") (auto simp: n within_retries_def legal_def)
  qed
qed

lemma passed_action:
  assumes "action_evidence ec m c t x ev = Inr ()" "tr_transition_class t = ''ACTION_REQUIRED''" "oc_outcome x = ''PASS''"
  obtains d where "ev = Some d" "ec d x (pm_process_id m, process_digest m, tr_transition_id t, pm_mission_ref m) = Inr ()"
    "[] \<notin> {oc_action_ref x, oc_proposal_digest x, oc_admission_ref x, oc_effect_ref x, oc_observation_ref x,
      oc_reconciliation_ref x, oc_currentness_basis_ref x}"
proof (cases ev)
  case (Some d)
  have "ec d x (pm_process_id m, process_digest m, tr_transition_id t, pm_mission_ref m) = Inr ()"
    using assms Some by (auto simp: action_evidence_def semantic_when_def split: sum.splits exn.splits if_splits)
  moreover have "[] \<notin> {oc_action_ref x, oc_proposal_digest x, oc_admission_ref x, oc_effect_ref x, oc_observation_ref x,
      oc_reconciliation_ref x, oc_currentness_basis_ref x}"
    using assms by (auto simp: action_evidence_def semantic_when_def)
  ultimately show thesis using that Some by blast
qed (use assms in \<open>simp add: action_evidence_def semantic_when_def\<close>)

lemma apply_backed:
  assumes "apply_transition_outcome ec m c d x ev = Inr c'" "backed ec m c"
  shows "backed ec m c'"
  using assms(1)
proof (rule apply_moves)
  fix t
  assume A: "validate_process_ir m = Inr ()" "t \<in> set (pm_transitions m)" "action_evidence ec m c t x ev = Inr ()"
    "pc_attempt_records c' = pc_attempt_records c @ [attempt_of t c x]"
    "set (pc_completed_transitions c') = (if oc_outcome x = ''PASS'' then insert (tr_transition_id t) else id) (set (pc_completed_transitions c))"
  show ?thesis unfolding backed_def
  proof (intro ballI impI)
    fix u
    assume u: "u \<in> set (pm_transitions m)" "tr_transition_class u = ''ACTION_REQUIRED''" "tr_transition_id u \<in> set (pc_completed_transitions c')"
    show "\<exists>a x ev. a \<in> set (attempts_at c' (tr_transition_id u)) \<and> at_outcome a = ''PASS'' \<and> at_effect_ref a = oc_effect_ref x
        \<and> at_observation_ref a = oc_observation_ref x \<and> at_reconciliation_ref a = oc_reconciliation_ref x
        \<and> [] \<notin> {oc_action_ref x, oc_proposal_digest x, oc_admission_ref x, oc_effect_ref x, oc_observation_ref x,
            oc_reconciliation_ref x, oc_currentness_basis_ref x}
        \<and> ec ev x (pm_process_id m, process_digest m, tr_transition_id u, pm_mission_ref m) = Inr ()"
    proof (cases "tr_transition_id u \<in> set (pc_completed_transitions c)")
      case True
      then obtain a y w where "a \<in> set (attempts_at c (tr_transition_id u))" "at_outcome a = ''PASS''" "at_effect_ref a = oc_effect_ref y"
        "at_observation_ref a = oc_observation_ref y" "at_reconciliation_ref a = oc_reconciliation_ref y"
        "[] \<notin> {oc_action_ref y, oc_proposal_digest y, oc_admission_ref y, oc_effect_ref y, oc_observation_ref y,
            oc_reconciliation_ref y, oc_currentness_basis_ref y}"
        "ec w y (pm_process_id m, process_digest m, tr_transition_id u, pm_mission_ref m) = Inr ()"
        using assms(2) u(1,2) unfolding backed_def by blast
      then show ?thesis by (intro exI [of _ a] exI [of _ y] exI [of _ w]) (simp add: A(4))
    next
      case False
      with u(3) A(5) have p: "oc_outcome x = ''PASS''" "tr_transition_id u = tr_transition_id t" by (auto split: if_splits)
      then have "u = t" using same_id [OF A(1) u(1) A(2)] by simp
      with u(2) A(3) p(1) obtain w where "ec w x (pm_process_id m, process_digest m, tr_transition_id t, pm_mission_ref m) = Inr ()"
        "[] \<notin> {oc_action_ref x, oc_proposal_digest x, oc_admission_ref x, oc_effect_ref x, oc_observation_ref x,
            oc_reconciliation_ref x, oc_currentness_basis_ref x}" using passed_action by metis
      then show ?thesis using p \<open>u = t\<close> by (intro exI [of _ "attempt_of t c x"] exI [of _ x] exI [of _ w]) (simp add: A(4))
    qed
  qed
qed

text \<open>All of them together, kept by new snapshots and by outcomes.\<close>

definition run_ok ::
  "('d \<Rightarrow> transition_outcome \<Rightarrow> string \<times> string \<times> string \<times> string \<Rightarrow> unit res) \<Rightarrow> process_model \<Rightarrow> process_context \<Rightarrow> bool" where
  "run_ok ec m c \<longleftrightarrow> numbered c \<and> reconciled m c \<and> within_retries m c \<and> backed ec m c"

lemma run_ok_snapshot: "run_ok ec m c \<Longrightarrow> same_progress c c' \<Longrightarrow> run_ok ec m c'"
  by (simp add: run_ok_def same_progress_def numbered_def reconciled_def within_retries_def backed_def)

lemma run_ok_apply: "apply_transition_outcome ec m c d x ev = Inr c' \<Longrightarrow> run_ok ec m c \<Longrightarrow> run_ok ec m c'"
  unfolding run_ok_def using apply_numbered apply_reconciled apply_within_retries apply_backed by metis

lemma run_ok_fresh:
  assumes "fresh c" "validate_process_ir m = Inr ()"
  shows "run_ok ec m c"
proof -
  have "0 \<le> ry_max_attempts (tr_retry_policy t) + 1" if "t \<in> set (pm_transitions m)" for t
    using valid_process(2) [OF assms(2) that] by simp
  then show ?thesis
    using assms(1) by (auto simp: run_ok_def fresh_def numbered_def reconciled_def within_retries_def backed_def count_of_def)
qed

lemma process_run_keeps: "process_run ec m c n c' \<Longrightarrow> run_ok ec m c
    \<Longrightarrow> run_ok ec m c' \<and> length (pc_attempt_records c') = length (pc_attempt_records c) + n"
proof (induction rule: process_run.induct)
  case (run_snapshot n c1 c2)
  then show ?case using run_ok_snapshot by (metis same_progress_def)
next
  case (run_outcome n c1 d x ev c2)
  moreover have "length (pc_attempt_records c2) = Suc (length (pc_attempt_records c1))"
    by (rule apply_moves [OF run_outcome.hyps(2)]) simp
  ultimately show ?case using run_ok_apply by fastforce
qed simp

section \<open>Progress\<close>

text \<open>The decision record that the canonical selection of a legal transition binds.\<close>

definition selected_record :: "process_model \<Rightarrow> process_context \<Rightarrow> ir_transition \<Rightarrow> decision_record" where
  "selected_record m c t = (let d = \<lparr>dr_process_id = pm_process_id m, dr_process_ir_digest = process_digest m,
       dr_process_context_digest = sha256 (''LION/PROCESS-CONTEXT/1'' @ nul # canon (context_json c)),
       dr_transition_id = tr_transition_id t, dr_transition_class = tr_transition_class t, dr_decision = ''SELECTED'',
       dr_decision_basis = ''first legal unfinished transition'', dr_selected_at = pc_observed_at c,
       dr_transition_decision_digest = [], dr_authority_effect = ''NONE'', dr_execution_effect = ''NONE''\<rparr>
     in d\<lparr>dr_transition_decision_digest := decision_digest d\<rparr>)"

definition selectable :: "process_model \<Rightarrow> process_context \<Rightarrow> ir_transition \<Rightarrow> bool" where
  "selectable m c t \<longleftrightarrow> context_validate_for m c = Inr () \<and> pc_process_control c = ''ACTIVE''
     \<and> pc_process_state c \<notin> set (tp_terminal_states (pm_termination_policy m)) \<and> find (legal c) (ordered m) = Some t
     \<and> action_text False (pc_observed_at c) ''selected_at'' = Inr ()"

lemma select_selectable: "selectable m c t \<Longrightarrow> select m c = Inr \<lparr>tn_decision = ''SELECTED'',
    tn_transition_id = tr_transition_id t, tn_reason = ''first legal unfinished transition''\<rparr>"
  using scan_find [of c "ordered m" "[]"]
  by (cases "scan c (ordered m) []") (simp add: selectable_def select_def)

lemma selectable_facts:
  assumes "selectable m c t"
  shows "validate_process_ir m = Inr ()" "t \<in> set (pm_transitions m)" "transition_of m (tr_transition_id t) = Some t"
    "legal c t" "id_syntax (pm_process_id m)" "id_syntax (tr_transition_id t)" "tr_transition_class t \<in> set TRANSITION_CLASSES"
proof -
  show m: "validate_process_ir m = Inr ()" using assms by (simp add: selectable_def context_validate_for_def)
  show t: "t \<in> set (pm_transitions m)" "legal c t"
    using assms set_ordered [OF m] by (auto simp: selectable_def find_Some_iff)
  show "transition_of m (tr_transition_id t) = Some t" using transition_of_iff [OF valid_process(1) [OF m]] t by simp
  have "transition_check (pm_states m) (dependency_ids m) t = Inr ()"
    using m t(1) by (auto simp: validate_process_ir_def transitions_check_ok list_all_iff)
  then show "id_syntax (tr_transition_id t)" "tr_transition_class t \<in> set TRANSITION_CLASSES"
    by (simp_all add: transition_check_def ir_id_def)
  show "id_syntax (pm_process_id m)" using m by (simp add: validate_process_ir_def ir_id_def)
qed

lemma selected_record_fields [simp]: "dr_process_id (selected_record m c t) = pm_process_id m"
  "dr_process_ir_digest (selected_record m c t) = process_digest m" "dr_transition_id (selected_record m c t) = tr_transition_id t"
  "dr_transition_class (selected_record m c t) = tr_transition_class t" "dr_decision (selected_record m c t) = ''SELECTED''"
  "dr_process_context_digest (selected_record m c t) = sha256 (''LION/PROCESS-CONTEXT/1'' @ nul # canon (context_json c))"
  "dr_decision_basis (selected_record m c t) = ''first legal unfinished transition''" "dr_selected_at (selected_record m c t) = pc_observed_at c"
  "dr_authority_effect (selected_record m c t) = ''NONE''" "dr_execution_effect (selected_record m c t) = ''NONE''"
  "dr_transition_decision_digest (selected_record m c t) = decision_digest (selected_record m c t)"
  by (simp_all add: selected_record_def Let_def decision_digest_def)

lemma decision_digest_hex: "is_hex 64 (decision_digest d)"
  by (simp add: decision_digest_def is_hex_sha256)

lemma process_digest_hex: "is_hex 64 (process_digest m)"
  by (simp add: process_digest_def is_hex_sha256)

lemma selected_record_valid:
  assumes "selectable m c t"
  shows "decision_record_validate (selected_record m c t) = Inr ()"
proof -
  have "action_text False ''first legal unfinished transition'' ''decision_basis'' = Inr ()"
    by (simp add: action_text_def nul_def)
  then show ?thesis using selectable_facts(5-7) [OF assms] assms
    by (simp add: decision_record_validate_def action_id_def action_digest_def selectable_def is_hex_sha256
        decision_digest_hex process_digest_hex del: append.simps)
qed

lemma bind_selectable:
  assumes "selectable m c t"
  shows "bind_selected m c = Inr (selected_record m c t)"
  using selected_record_valid [OF assms] selectable_facts(3) [OF assms] assms
  by (simp add: bind_selected_def select_selectable context_digest_def decision_sealed_def selectable_def selected_record_def Let_def)

lemma apply_selectable:
  assumes s: "selectable m c t" and x: "outcome_validate x = Inr ()" "oc_process_id x = pm_process_id m"
      "oc_process_ir_digest x = process_digest m" "oc_transition_id x = tr_transition_id t"
      "oc_transition_decision_digest x = dr_transition_decision_digest (selected_record m c t)"
      "oc_attempt_number x = count_of (pc_attempt_counts c) (tr_transition_id t) + 1"
      "map_of (tr_outcome_map t) (oc_outcome x) = Some nx"
      "oc_next_state x = (if nx \<in> set NEXT_DIRECTIVES then pc_process_state c else nx)"
    and e: "action_evidence ec m c t x ev = Inr ()" and a: "attempt_validate (attempt_of t c x) = Inr ()"
    and v: "context_validate_for m (moved_context c x (control_after nx) (attempt_of t c x)) = Inr ()"
  shows "apply_transition_outcome ec m c (selected_record m c t) x ev = Inr (moved_context c x (control_after nx) (attempt_of t c x))"
proof -
  have sealed: "attempt_sealed (new_attempt t (count_of (pc_attempt_counts c) (tr_transition_id t) + 1) x) = Inr (attempt_of t c x)"
    using a by (simp add: attempt_sealed_def attempt_of_def Let_def)
  have src: "pc_process_state c \<in> set (tr_source_states t)" using selectable_facts(4) [OF s] by (simp add: legal_def)
  have c: "context_validate_for m c = Inr ()" using s by (simp add: selectable_def)
  show ?thesis unfolding apply_transition_outcome_def semantic_when_def
    using selectable_facts(1,3) [OF s] selected_record_valid [OF s]
    by (simp add: c x e src select_selectable [OF s] bind_selectable [OF s] context_digest_def Let_def sealed
        v [unfolded control_after_def] control_after_def)
qed

section \<open>Parallel selection\<close>

text \<open>Two transitions do not interfere: what one writes the other neither writes nor reads, they share no budget,
  no replay domain and no reconciliation group, and no currentness subject when one of them writes.\<close>

definition no_conflict :: "ir_transition \<Rightarrow> ir_transition \<Rightarrow> bool" where
  "no_conflict t u \<longleftrightarrow> (let l = tr_resource_claims t; r = tr_resource_claims u in
     set (rc_write_scopes l) \<inter> (set (rc_write_scopes r) \<union> set (rc_read_scopes r)) = {}
     \<and> set (rc_write_scopes r) \<inter> set (rc_read_scopes l) = {} \<and> set (rc_authority_budgets l) \<inter> set (rc_authority_budgets r) = {}
     \<and> (rc_replay_domain l = rc_replay_domain r \<longrightarrow> rc_replay_domain l = [])
     \<and> (rc_reconciliation_group l = rc_reconciliation_group r \<longrightarrow> rc_reconciliation_group l = [])
     \<and> (rc_write_scopes l \<noteq> [] \<or> rc_write_scopes r \<noteq> [] \<longrightarrow> set (rc_currentness_subjects l) \<inter> set (rc_currentness_subjects r) = {}))"

lemma disjoint_iff: "disjoint xs ys \<longleftrightarrow> set xs \<inter> set ys = {}"
  by (auto simp: disjoint_def list_ex_iff)

lemma independent_no_conflict: "independent t u \<Longrightarrow> no_conflict t u \<and> no_conflict u t"
  by (auto simp: independent_def no_conflict_def Let_def disjoint_iff split: if_splits)

lemma pick_independent_sub: "set (pick_independent chosen ts) \<subseteq> set chosen \<union> set ts"
  by (induction chosen ts rule: pick_independent.induct) (auto split: if_splits)

lemma pick_independent_prefix: "\<exists>us. pick_independent chosen ts = chosen @ us \<and> length us \<le> length ts"
proof (induction chosen ts rule: pick_independent.induct)
  case (2 chosen t ts)
  then obtain us where us: "pick_independent (if list_all (independent t) chosen then chosen @ [t] else chosen) ts
      = (if list_all (independent t) chosen then chosen @ [t] else chosen) @ us" "length us \<le> length ts" by blast
  then show ?case by (intro exI [of _ "(if list_all (independent t) chosen then [t] else []) @ us"]) auto
qed simp

lemma pick_independent_pairwise:
  "sorted_wrt no_conflict chosen \<Longrightarrow> sorted_wrt no_conflict (pick_independent chosen ts)"
proof (induction chosen ts rule: pick_independent.induct)
  case (2 chosen t ts)
  have "sorted_wrt no_conflict (if list_all (independent t) chosen then chosen @ [t] else chosen)"
    using "2.prems" independent_no_conflict by (auto simp: sorted_wrt_append list_all_iff)
  then show ?case by (simp only: pick_independent.simps "2.IH")
qed simp

lemma pick_independent_distinct: "distinct (map tr_transition_id (chosen @ ts)) \<Longrightarrow> distinct (map tr_transition_id (pick_independent chosen ts))"
  by (induction chosen ts rule: pick_independent.induct) (auto split: if_splits)

lemma distinct_ordered: "validate_process_ir m = Inr () \<Longrightarrow> distinct (map tr_transition_id (ordered m))"
proof -
  assume m: "validate_process_ir m = Inr ()"
  obtain ids where ids: "ordered m = List.map_filter (transition_of m) ids" "set ids = set (sp_order (pm_scheduling_policy m))"
      "distinct (sp_order (pm_scheduling_policy m)) \<longrightarrow> distinct ids" using ordered_ids by blast
  have "distinct ids" using ids(3) valid_process(3) [OF m] by simp
  moreover have "transition_of m tid = Some t \<Longrightarrow> tr_transition_id t = tid" for tid t
    using transition_of_iff [OF valid_process(1) [OF m]] by simp
  then have "map tr_transition_id (List.map_filter (transition_of m) ks) = filter (\<lambda>k. transition_of m k \<noteq> None) ks" for ks
    by (induction ks) (auto simp: map_filter_simps split: option.splits)
  ultimately show ?thesis by (simp add: ids(1))
qed

end
