(* ===== verification/Process_Props.thy ===== *)
theory Process_Props
  imports Process_Runs
begin

text \<open>
  The properties of the process semantics: the selection is exact, runs are finite with a bound the model states, retries
  of transitions that are not idempotent are reconciled, actions complete only with accepted evidence, and parallel
  selections do not interfere. An example process and a run of it witness each of them.
\<close>

section \<open>An example\<close>

text \<open>
  An action that is not idempotent and may be retried once, and two internal steps that may run together.
\<close>

definition example_claims :: "string \<Rightarrow> resource_claims" where
  "example_claims k = \<lparr>rc_read_scopes = [''repo''], rc_write_scopes = [''w:'' @ k], rc_authority_budgets = [''b:'' @ k],
     rc_currentness_subjects = [''cur:'' @ k], rc_replay_domain = k, rc_reconciliation_group = k\<rparr>"

definition example_act :: ir_transition where
  "example_act = \<lparr>tr_transition_id = ''act'', tr_transition_class = ''ACTION_REQUIRED'', tr_source_states = [''S0''],
     tr_trigger = ''go'', tr_dependencies = [], tr_guards = [], tr_evidence_requirements = [''e''],
     tr_currentness_requirements = [''cur:act''], tr_authority_requirements = [''auth''], tr_operator = ''EMIT_ACTION_INTENT'',
     tr_expected_postconditions = [''p''], tr_outcome_map = [(''PASS'', ''DONE''), (''UNKNOWN'', ''CONTINUE'')],
     tr_retry_policy = \<lparr>ry_max_attempts = 1, ry_on_exhausted = ''HANDOFF''\<rparr>, tr_replay_policy = ''RECONCILE_FIRST'',
     tr_idempotency_class = ''NON_IDEMPOTENT'', tr_resource_claims = example_claims ''act''\<rparr>"

definition example_note :: "string \<Rightarrow> ir_transition" where
  "example_note k = \<lparr>tr_transition_id = k, tr_transition_class = ''INTERNAL'', tr_source_states = [''S0''], tr_trigger = ''go'',
     tr_dependencies = [], tr_guards = [], tr_evidence_requirements = [], tr_currentness_requirements = [],
     tr_authority_requirements = [], tr_operator = ''OBSERVE'', tr_expected_postconditions = [''p''],
     tr_outcome_map = [(''PASS'', ''CONTINUE'')], tr_retry_policy = \<lparr>ry_max_attempts = 0, ry_on_exhausted = ''STOP''\<rparr>,
     tr_replay_policy = ''DENY'', tr_idempotency_class = ''PURE'', tr_resource_claims = example_claims k\<rparr>"

definition example_model :: process_model where
  "example_model = \<lparr>pm_schema_version = ''1.0.0'', pm_process_id = ''p'', pm_mission_ref = ''mission:m'', pm_goal_ref = ''goal:g'',
     pm_scope = \<lparr>sx_domains = [''d''], sx_resources = [], sx_widening_allowed = False\<rparr>, pm_initial_state = ''S0'',
     pm_states = [''S0'', ''DONE''], pm_dependencies = [], pm_transitions = [example_act, example_note ''n1'', example_note ''n2''],
     pm_scheduling_policy = \<lparr>sp_strategy = ''DECLARED_ORDER'', sp_order = [''act'', ''n1'', ''n2''],
       sp_priorities = [(''act'', 0), (''n1'', 1), (''n2'', 2)], sp_max_wip = 2, sp_parallel_safe_groups = [[''n1'', ''n2'']]\<rparr>,
     pm_termination_policy = \<lparr>tp_terminal_states = [''DONE''], tp_allow_no_legal_transition = True, tp_on_unknown = ''HANDOFF''\<rparr>,
     pm_lineage = \<lparr>li_parent_process_digests = [], li_generation = 0, li_source_refs = [''s'']\<rparr>\<rparr>"

definition example_basis :: currentness_basis where
  "example_basis = (let b = \<lparr>cb_requirement_id = ''cur:act'', cb_subject = ''cur:act'', cb_observed_identity = ''i'',
     cb_evidence_ref = ''ev'', cb_observed_at = ''t'', cb_state = ''CURRENT'', cb_drift_rule = ''IDENTITY_CHANGED'',
     cb_basis_digest = []\<rparr> in b\<lparr>cb_basis_digest := basis_digest b\<rparr>)"

definition example_snapshot :: process_context where
  "example_snapshot = \<lparr>pc_process_ir_digest = process_digest example_model, pc_process_state = ''S0'',
     pc_completed_transitions = [], pc_satisfied_dependencies = [], pc_satisfied_guards = [],
     pc_satisfied_evidence_requirements = [''e''], pc_satisfied_currentness_requirements = [],
     pc_currentness_bases = [example_basis], pc_verified_authority_context_refs = [''auth''], pc_action_result_refs = [],
     pc_observation_refs = [], pc_reconciliation_refs = [], pc_attempt_counts = [], pc_attempt_records = [],
     pc_process_control = ''ACTIVE'', pc_observed_at = ''t''\<rparr>"

definition example_outcome :: "process_context \<Rightarrow> int \<Rightarrow> string \<Rightarrow> string \<Rightarrow> transition_outcome" where
  "example_outcome c n label state = \<lparr>oc_process_id = ''p'', oc_process_ir_digest = process_digest example_model,
     oc_transition_id = ''act'', oc_transition_decision_digest = decision_digest (selected_record example_model c example_act),
     oc_attempt_number = n, oc_outcome = label, oc_next_state = state, oc_action_ref = ''a'',
     oc_proposal_digest = process_digest example_model, oc_admission_ref = ''adm'', oc_effect_ref = ''eff'',
     oc_observation_ref = ''obs'', oc_reconciliation_ref = ''rec'', oc_currentness_basis_ref = cb_basis_digest example_basis,
     oc_transition_outcome_digest = []\<rparr>"

lemma example_model_valid: "validate_process_ir example_model = Inr ()"
  by code_simp

lemma example_ordered: "ordered example_model = [example_act, example_note ''n1'', example_note ''n2'']"
  by code_simp

lemma example_basis_valid: "basis_validate example_basis = Inr ()"
proof -
  have "basis_digest (b\<lparr>cb_basis_digest := v\<rparr>) = basis_digest b" for b v by (simp add: basis_digest_def)
  then have d: "cb_basis_digest example_basis = basis_digest example_basis" "is_hex 64 (basis_digest example_basis)"
    by (simp_all add: example_basis_def Let_def basis_digest_def is_hex_sha256)
  show ?thesis unfolding basis_validate_def d(1)
    by (simp add: d(2)) (simp add: example_basis_def Let_def ir_id_def ir_text_def id_syntax_def id_first_def id_char_def
        nul_def CURRENTNESS_STATES_def CURRENTNESS_DRIFT_RULES_def)
qed

lemma example_snapshot_valid: "context_validate_for example_model example_snapshot = Inr ()"
proof -
  have "bases_check [''cur:act'', ''cur:n1'', ''cur:n2''] [] [example_basis] = Inr ()"
    using example_basis_valid by (simp add: example_basis_def Let_def)
  moreover have "concat (map (\<lambda>t. rc_currentness_subjects (tr_resource_claims t)) (pm_transitions example_model)) = [''cur:act'', ''cur:n1'', ''cur:n2'']"
    by (simp add: example_model_def example_act_def example_note_def example_claims_def)
  ultimately show ?thesis using example_model_valid
    by (simp add: context_validate_for_def example_snapshot_def attempts_match_def PROCESS_CONTROL_STATES_def)
       (simp add: example_model_def)
qed

lemma sha256_nonempty: "sha256 t \<noteq> []"
  using is_hex_sha256 [of t] by (auto simp: is_hex_def)

lemma example_basis_sel: "cb_requirement_id example_basis = ''cur:act''" "cb_subject example_basis = ''cur:act''"
  "cb_state example_basis = ''CURRENT''" "cb_evidence_ref example_basis = ''ev''" "cb_observed_identity example_basis = ''i''"
  "cb_observed_at example_basis = ''t''" "cb_basis_digest example_basis \<noteq> []" "is_hex 64 (cb_basis_digest example_basis)"
  by (simp_all add: example_basis_def Let_def basis_digest_def sha256_nonempty is_hex_sha256)

text \<open>The contexts of the example run: the snapshot with the attempts made so far.\<close>

definition example_at :: "attempt_record list \<Rightarrow> process_context" where
  "example_at rs = example_snapshot\<lparr>pc_attempt_counts := (if rs = [] then [] else [(''act'', int (length rs))]),
     pc_attempt_records := rs, pc_action_result_refs := (if rs = [] then [] else [''a'']),
     pc_observation_refs := (if rs = [] then [] else [''obs'']), pc_reconciliation_refs := (if rs = [] then [] else [''rec''])\<rparr>"

definition example_accepts :: "unit \<Rightarrow> transition_outcome \<Rightarrow> string \<times> string \<times> string \<times> string \<Rightarrow> unit res" where
  "example_accepts d x ids = raise_when (oc_effect_ref x \<noteq> ''eff'') ProcessOutcomeEvidenceError ''effect not observed''"

lemma example_attempt_valid: "attempt_validate (attempt_of example_act c (example_outcome c' n label state)) = Inr ()"
  if "0 \<le> count_of (pc_attempt_counts c) ''act''" "label \<in> set OUTCOME_LABELS"
proof -
  have d: "attempt_digest (a\<lparr>at_attempt_digest := v\<rparr>) = attempt_digest a" for a v by (simp add: attempt_digest_def attempt_json_def)
  have h: "is_hex 64 (attempt_digest a)" for a by (simp add: attempt_digest_def is_hex_sha256)
  show ?thesis using that
    by (simp add: attempt_of_def Let_def attempt_validate_def d h)
       (simp add: new_attempt_def example_act_def example_outcome_def ir_id_def ir_text_def id_syntax_def id_first_def id_char_def nul_def)
qed

lemma example_outcome_valid: "outcome_validate (example_outcome c n label state) = Inr ()"
  if "1 \<le> n" "label \<in> set OUTCOME_LABELS" "state \<in> {''S0'', ''DONE''}"
proof -
  have t: "action_text True (process_digest example_model) name = Inr ()" "action_text True (cb_basis_digest example_basis) name = Inr ()" for name
    using process_digest_hex [of example_model] example_basis_sel(8)
    by (auto simp: action_text_def is_hex_def list_all_iff dest: hex_char_not_nul)
  have l: "action_text b v name = Inr ()" if "v \<in> {''S0'', ''DONE'', ''a'', ''adm'', ''eff'', ''obs'', ''rec''}" for b v name
    using that by (auto simp: action_text_def nul_def)
  show ?thesis using that
    by (auto simp: outcome_validate_def example_outcome_def t l example_basis_sel process_digest_hex decision_digest_hex action_digest_def
        action_id_def id_syntax_def id_first_def id_char_def)
qed

lemma example_sort_one: "sort_key fst [p] = [p]"
  by simp

lemma example_at_valid:
  assumes "list_all (\<lambda>a. attempt_validate a = Inr () \<and> at_transition_id a = ''act'') rs"
    "map at_attempt_number rs = [1..int (length rs)]" "length rs \<le> 1"
  shows "context_validate_for example_model (example_at rs) = Inr ()"
proof -
  have v: "context_validate_for example_model example_snapshot = Inr ()" by (rule example_snapshot_valid)
  have ids: "transition_ids example_model = [''act'', ''n1'', ''n2'']"
    by (simp add: transition_ids_def example_model_def example_act_def example_note_def)
  show ?thesis
  proof (cases rs)
    case Nil
    with v show ?thesis by (simp add: context_validate_for_def example_at_def example_snapshot_def)
  next
    case (Cons a as)
    with assms have "rs = [a]" "at_attempt_number a = 1" "at_transition_id a = ''act''" "attempt_validate a = Inr ()" by auto
    with v show ?thesis
      by (simp add: context_validate_for_def example_at_def ids attempts_match_def record_max_def count_of_def)
  qed
qed

lemma example_legal:
  assumes "rs = [] \<or> rs = [a] \<and> at_transition_id a = ''act'' \<and> at_attempt_number a = 1 \<and> at_reconciliation_ref a \<noteq> []"
  shows "legal (example_at rs) example_act"
proof -
  have "currentness_satisfied example_act (example_at rs)"
    by (simp add: currentness_satisfied_def current_basis_def example_act_def example_claims_def example_at_def example_snapshot_def
        example_basis_sel)
  moreover have "retry_reconciled example_act (example_at rs)"
    using assms by (auto simp: retry_reconciled_def example_at_def example_act_def count_of_def Let_def example_snapshot_def)
  ultimately show ?thesis using assms
    by (auto simp: legal_def example_at_def example_snapshot_def example_act_def count_of_def)
qed

lemma example_selectable:
  assumes "context_validate_for example_model (example_at rs) = Inr ()" "legal (example_at rs) example_act"
  shows "selectable example_model (example_at rs) example_act"
  using assms by (simp add: selectable_def example_ordered)
    (simp add: example_at_def example_snapshot_def example_model_def action_text_def nul_def)

definition example_attempt :: attempt_record where
  "example_attempt = attempt_of example_act (example_at []) (example_outcome (example_at []) 1 ''UNKNOWN'' ''S0'')"

definition example_done :: process_context where
  "example_done = moved_context (example_at [example_attempt]) (example_outcome (example_at [example_attempt]) 2 ''PASS'' ''DONE'') ''ACTIVE''
     (attempt_of example_act (example_at [example_attempt]) (example_outcome (example_at [example_attempt]) 2 ''PASS'' ''DONE''))"

lemma example_attempt_facts: "attempt_validate example_attempt = Inr ()" "at_transition_id example_attempt = ''act''"
  "at_attempt_number example_attempt = 1" "at_reconciliation_ref example_attempt \<noteq> []"
proof -
  have "count_of (pc_attempt_counts (example_at [])) ''act'' = 0" by (simp add: example_at_def count_of_def)
  then show "attempt_validate example_attempt = Inr ()" "at_attempt_number example_attempt = 1"
    unfolding example_attempt_def by (simp_all add: example_attempt_valid OUTCOME_LABELS_def) (simp add: example_act_def)
  show "at_transition_id example_attempt = ''act''" "at_reconciliation_ref example_attempt \<noteq> []"
    by (simp_all add: example_attempt_def) (simp_all add: example_act_def example_outcome_def)
qed

lemma example_mid_selectable: "selectable example_model (example_at []) example_act"
  "selectable example_model (example_at [example_attempt]) example_act"
  using example_attempt_facts by (auto intro!: example_selectable example_at_valid example_legal)

lemma example_control: "control_after ''CONTINUE'' = ''ACTIVE''" "control_after ''DONE'' = ''ACTIVE''"
  by (simp_all add: control_after_def NEXT_DIRECTIVES_def directive_control_def)

lemma example_moved: "at_attempt_number a = 1 \<Longrightarrow>
    moved_context (example_at []) (example_outcome c 1 ''UNKNOWN'' ''S0'') ''ACTIVE'' a = example_at [a]"
  by (simp add: moved_context_def bump_count_def example_at_def example_snapshot_def first_occurrences_def example_outcome_def)

lemma example_step_1: "apply_transition_outcome example_accepts example_model (example_at [])
    (selected_record example_model (example_at []) example_act) (example_outcome (example_at []) 1 ''UNKNOWN'' ''S0'') None
  = Inr (example_at [example_attempt])"
proof -
  let ?x = "example_outcome (example_at []) 1 ''UNKNOWN'' ''S0''"
  have c: "moved_context (example_at []) ?x (control_after ''CONTINUE'') (attempt_of example_act (example_at []) ?x) = example_at [example_attempt]"
    using example_moved [OF example_attempt_facts(3)] by (simp add: example_attempt_def example_control)
  show ?thesis unfolding c [symmetric]
  proof (rule apply_selectable [OF example_mid_selectable(1)])
    show "outcome_validate ?x = Inr ()" by (rule example_outcome_valid) (simp_all add: OUTCOME_LABELS_def)
    show "action_evidence example_accepts example_model (example_at []) example_act ?x None = Inr ()"
      by (simp add: action_evidence_def semantic_when_def example_outcome_def)
    show "attempt_validate (attempt_of example_act (example_at []) ?x) = Inr ()"
      using example_attempt_facts(1) by (simp add: example_attempt_def)
    show "context_validate_for example_model (moved_context (example_at []) ?x (control_after ''CONTINUE'')
        (attempt_of example_act (example_at []) ?x)) = Inr ()"
      unfolding c using example_attempt_facts by (intro example_at_valid) simp_all
  qed (simp_all add: example_outcome_def example_model_def example_act_def example_at_def count_of_def NEXT_DIRECTIVES_def example_snapshot_def)
qed

lemma example_done_sel: "pc_completed_transitions example_done = [''act'']" "pc_process_state example_done = ''DONE''"
  "pc_attempt_counts example_done = [(''act'', 2)]" "pc_process_control example_done = ''ACTIVE''"
  by (simp_all add: example_done_def moved_context_def example_outcome_def example_at_def example_snapshot_def bump_count_def
      count_of_def) (simp add: example_act_def)

lemma example_done_valid: "context_validate_for example_model example_done = Inr ()"
proof -
  let ?c = "example_at [example_attempt]" and ?x = "example_outcome (example_at [example_attempt]) 2 ''PASS'' ''DONE''"
  have v: "context_validate_for example_model ?c = Inr ()" using example_attempt_facts by (intro example_at_valid) simp_all
  have n: "count_of (pc_attempt_counts ?c) ''act'' = 1" by (simp add: example_at_def count_of_def)
  have ids: "transition_ids example_model = [''act'', ''n1'', ''n2'']"
    by (simp add: transition_ids_def example_model_def example_act_def example_note_def)
  have a: "attempt_validate (attempt_of example_act ?c ?x) = Inr ()" using n by (simp add: example_attempt_valid OUTCOME_LABELS_def)
  have id: "tr_transition_id example_act = ''act''" by (simp add: example_act_def)
  have r: "pc_attempt_records example_done = [example_attempt, attempt_of example_act ?c ?x]"
    by (simp add: example_done_def) (simp add: example_at_def)
  have same: "pc_process_ir_digest example_done = pc_process_ir_digest ?c" "pc_satisfied_dependencies example_done = pc_satisfied_dependencies ?c"
    "pc_currentness_bases example_done = pc_currentness_bases ?c"
    "pc_satisfied_currentness_requirements example_done = pc_satisfied_currentness_requirements ?c"
    "pc_observed_at example_done = pc_observed_at ?c" by (simp_all add: example_done_def moved_context_def)
  have "records_check [''act'', ''n1'', ''n2''] [] (pc_attempt_records example_done) = Inr ()"
    using example_attempt_facts n a by (simp add: r id)
  moreover have "attempts_match (pc_attempt_counts example_done) (pc_attempt_records example_done)"
    using example_attempt_facts n by (simp add: attempts_match_def example_done_sel r id record_max_def count_of_def)
  moreover have "''DONE'' \<in> set (pm_states example_model)" by (simp add: example_model_def)
  ultimately show ?thesis using v
    by (simp add: context_validate_for_def same example_done_sel ids PROCESS_CONTROL_STATES_def)
qed

lemma example_step_2: "apply_transition_outcome example_accepts example_model (example_at [example_attempt])
    (selected_record example_model (example_at [example_attempt]) example_act)
    (example_outcome (example_at [example_attempt]) 2 ''PASS'' ''DONE'') (Some ()) = Inr example_done"
proof -
  let ?c = "example_at [example_attempt]" and ?x = "example_outcome (example_at [example_attempt]) 2 ''PASS'' ''DONE''"
  have n: "count_of (pc_attempt_counts ?c) ''act'' = 1" by (simp add: example_at_def count_of_def)
  have c: "moved_context ?c ?x (control_after ''DONE'') (attempt_of example_act ?c ?x) = example_done"
    by (simp add: example_done_def example_control)
  show ?thesis unfolding c [symmetric]
  proof (rule apply_selectable [OF example_mid_selectable(2)])
    show "outcome_validate ?x = Inr ()" by (rule example_outcome_valid) (simp_all add: OUTCOME_LABELS_def)
    show "action_evidence example_accepts example_model ?c example_act ?x (Some ()) = Inr ()"
      using example_basis_sel by (simp add: action_evidence_def semantic_when_def example_outcome_def example_accepts_def process_digest_def
          sha256_nonempty required_bases_def map_filter_simps current_basis_def example_act_def example_at_def example_snapshot_def)
    show "attempt_validate (attempt_of example_act ?c ?x) = Inr ()" using n by (simp add: example_attempt_valid OUTCOME_LABELS_def)
    show "context_validate_for example_model (moved_context ?c ?x (control_after ''DONE'') (attempt_of example_act ?c ?x)) = Inr ()"
      unfolding c by (rule example_done_valid)
    show "oc_attempt_number ?x = count_of (pc_attempt_counts ?c) (tr_transition_id example_act) + 1"
      using n by (simp add: example_outcome_def) (simp add: example_act_def)
  qed (simp_all add: example_outcome_def example_model_def example_act_def NEXT_DIRECTIVES_def)
qed

lemma example_run: "process_run example_accepts example_model (example_at []) 2 example_done"
  using run_outcome [OF run_outcome [OF run_start example_step_1] example_step_2] by (simp add: numeral_2_eq_2)

section \<open>Properties\<close>

lemma judge_skip: "judge c t = Skip \<longleftrightarrow> tr_transition_id t \<in> set (pc_completed_transitions c) \<or> pc_process_state c \<notin> set (tr_source_states t)"
  by (auto simp: judge_def)

lemma all_skip: "Legal \<notin> V \<Longrightarrow> Handoff \<notin> V \<Longrightarrow> Unknown \<notin> V \<Longrightarrow> Dependency \<notin> V \<Longrightarrow> Retry \<notin> V \<Longrightarrow> v \<in> V \<Longrightarrow> v = Skip"
  by (cases v) auto

lemma find_first: "find P xs = Some x \<Longrightarrow> \<exists>ys zs. xs = ys @ x # zs \<and> P x \<and> (\<forall>y\<in>set ys. \<not> P y)"
proof (induction xs)
  case (Cons a xs)
  show ?case
  proof (cases "P a")
    case True
    with Cons.prems show ?thesis by (intro exI [of _ "[]"] exI [of _ xs]) simp
  next
    case False
    with Cons obtain ys zs where "xs = ys @ x # zs" "P x" "\<forall>y\<in>set ys. \<not> P y" by auto
    with False show ?thesis by (intro exI [of _ "a # ys"] exI [of _ zs]) simp
  qed
qed simp

text \<open>The answer when the process is active in a state that is not terminal.\<close>

lemma select_active:
  assumes "context_validate_for m c = Inr ()" "pc_process_control c = ''ACTIVE''"
    "pc_process_state c \<notin> set (tp_terminal_states (pm_termination_policy m))"
  obtains (chosen) t where "find (legal c) (ordered m) = Some t" "select m c = Inr \<lparr>tn_decision = ''SELECTED'',
      tn_transition_id = tr_transition_id t, tn_reason = ''first legal unfinished transition''\<rparr>"
  | (none) d where "find (legal c) (ordered m) = None" "select m c = Inr d" "tn_decision d \<noteq> ''SELECTED''"
      "tn_decision d = ''COMPLETE'' \<longleftrightarrow> (\<forall>t\<in>set (ordered m). judge c t = Skip) \<and> tp_allow_no_legal_transition (pm_termination_policy m)"
proof (cases "scan c (ordered m) []")
  case (Pair r vs)
  have r: "r = find (legal c) (ordered m)" using scan_find [of c "ordered m" "[]"] Pair by simp
  show thesis
  proof (cases r)
    case (Some t)
    have "find (legal c) (ordered m) = Some t" using r Some by simp
    moreover have "select m c = Inr \<lparr>tn_decision = ''SELECTED'', tn_transition_id = tr_transition_id t,
        tn_reason = ''first legal unfinished transition''\<rparr>" using assms Pair Some by (simp add: select_def)
    ultimately show thesis by (rule chosen)
  next
    case None
    have seen: "set vs = judge c ` set (ordered m)" using scan_seen [of c "ordered m" "[]" vs] Pair None by simp
    have no: "Legal \<notin> set vs" using None r by (auto simp: seen judge_legal [symmetric] find_None_iff)
    have skip: "Handoff \<notin> set vs \<and> Unknown \<notin> set vs \<and> Dependency \<notin> set vs \<and> Retry \<notin> set vs \<longleftrightarrow> (\<forall>t\<in>set (ordered m). judge c t = Skip)"
      using all_skip [OF no] unfolding seen by fastforce
    let ?d = "projr (select m c)"
    have "select m c = Inr ?d" using assms Pair None by (simp add: select_def)
    moreover have "tn_decision ?d \<noteq> ''SELECTED''" using assms Pair None by (simp add: select_def no_transition_def)
    moreover have "tn_decision ?d = ''COMPLETE'' \<longleftrightarrow> (\<forall>t\<in>set (ordered m). judge c t = Skip) \<and> tp_allow_no_legal_transition (pm_termination_policy m)"
      unfolding skip [symmetric] using assms Pair None by (simp add: select_def no_transition_def)
    moreover have "find (legal c) (ordered m) = None" using None r by simp
    ultimately show thesis by (intro none)
  qed
qed

text \<open>C30. Selection is exact. On every valid context it answers. It selects a transition if and only if the process is active,
  its state is not terminal and some transition is legal; the selected one is the first legal transition in the
  scheduling order. It reports completion if and only if the process was completed, or is active and in a terminal state, or
  nothing is left to do in its state and the policy lets it end so.\<close>
theorem select_exact:
  assumes "context_validate_for m c = Inr ()"
  shows "\<exists>d. select m c = Inr d
    \<and> (tn_decision d = ''SELECTED'' \<longleftrightarrow> pc_process_control c = ''ACTIVE''
         \<and> pc_process_state c \<notin> set (tp_terminal_states (pm_termination_policy m)) \<and> (\<exists>t\<in>set (pm_transitions m). legal c t))
    \<and> (tn_decision d = ''SELECTED'' \<longrightarrow> (\<exists>ts t us. ordered m = ts @ t # us \<and> tn_transition_id d = tr_transition_id t
         \<and> legal c t \<and> (\<forall>u\<in>set ts. \<not> legal c u)))
    \<and> (tn_decision d = ''COMPLETE'' \<longleftrightarrow> pc_process_control c = ''COMPLETE'' \<or> pc_process_control c = ''ACTIVE''
         \<and> (pc_process_state c \<in> set (tp_terminal_states (pm_termination_policy m))
            \<or> (\<forall>t\<in>set (pm_transitions m). tr_transition_id t \<in> set (pc_completed_transitions c) \<or> pc_process_state c \<notin> set (tr_source_states t))
              \<and> tp_allow_no_legal_transition (pm_termination_policy m)))"
proof (cases "pc_process_control c = ''ACTIVE'' \<and> pc_process_state c \<notin> set (tp_terminal_states (pm_termination_policy m))")
  case True
  have m: "validate_process_ir m = Inr ()" using assms by (simp add: context_validate_for_def)
  note trans = set_ordered [OF m]
  have T: "pc_process_control c = ''ACTIVE''" "pc_process_state c \<notin> set (tp_terminal_states (pm_termination_policy m))"
    using True by auto
  from assms T show ?thesis
  proof (cases rule: select_active)
    case (chosen t)
    obtain ts us where o: "ordered m = ts @ t # us" "legal c t" "\<forall>u\<in>set ts. \<not> legal c u"
      using find_first [OF chosen(1)] by blast
    have t: "t \<in> set (pm_transitions m)" "tr_transition_id t \<notin> set (pc_completed_transitions c)" "pc_process_state c \<in> set (tr_source_states t)"
      using o trans by (auto simp: legal_def)
    show ?thesis
    proof (intro exI conjI, rule chosen(2))
    qed (use T t o in \<open>auto\<close>)
  next
    case (none d)
    then have "\<not> (\<exists>t\<in>set (pm_transitions m). legal c t)" using trans by (auto simp: find_None_iff)
    with none(2-4) True show ?thesis unfolding trans judge_skip by (intro exI [of _ d]) auto
  qed
next
  case False
  have "pc_process_control c \<in> set PROCESS_CONTROL_STATES" using assms by (simp add: context_validate_for_def)
  with False assms show ?thesis by (auto simp: select_def no_transition_def PROCESS_CONTROL_STATES_def)
qed

text \<open>The selection of the example.\<close>
theorem select_exact_witness: "context_validate_for example_model example_snapshot = Inr () \<and> (\<exists>d. select example_model example_snapshot = Inr d
    \<and> tn_decision d = ''SELECTED'')"
proof -
  have "legal (example_at []) example_act" by (rule example_legal) simp
  moreover have "example_at [] = example_snapshot" by (simp add: example_at_def example_snapshot_def)
  ultimately have "legal example_snapshot example_act" by simp
  moreover have "example_act \<in> set (pm_transitions example_model)" "pc_process_control example_snapshot = ''ACTIVE''"
    "pc_process_state example_snapshot \<notin> set (tp_terminal_states (pm_termination_policy example_model))"
    by (simp_all add: example_model_def example_snapshot_def)
  ultimately show ?thesis using select_exact [OF example_snapshot_valid] example_snapshot_valid by blast
qed

text \<open>C31. Every run of a process is finite, with a bound the contract states. From a context with no attempts, a run
  records exactly one attempt per outcome, no transition is attempted more often than its retry policy allows (one attempt and
  \<open>max_attempts\<close> retries), the attempts of each transition are numbered 1, 2, 3, \<open>\<dots>\<close> up to its count, and so the length of
  the run is at most the sum of \<open>max_attempts + 1\<close> over the transitions, whatever snapshots are taken in between.\<close>
theorem process_runs_end:
  assumes "process_run ec m c n c'" "fresh c" "validate_process_ir m = Inr ()"
  shows "n \<le> sum_list (map (\<lambda>t. nat (ry_max_attempts (tr_retry_policy t) + 1)) (pm_transitions m))
    \<and> length (pc_attempt_records c') = n
    \<and> (\<forall>t\<in>set (pm_transitions m). count_of (pc_attempt_counts c') (tr_transition_id t) \<le> ry_max_attempts (tr_retry_policy t) + 1)
    \<and> (\<forall>tid. map at_attempt_number (attempts_at c' tid) = [1..count_of (pc_attempt_counts c') tid])"
proof -
  have "run_ok ec m c' \<and> length (pc_attempt_records c') = length (pc_attempt_records c) + n"
    using process_run_keeps [OF assms(1) run_ok_fresh [OF assms(2,3)]] .
  moreover have "attempts_left m c = sum_list (map (\<lambda>t. nat (ry_max_attempts (tr_retry_policy t) + 1)) (pm_transitions m))"
    using assms(2) by (simp add: attempts_left_def fresh_def count_of_def)
  ultimately show ?thesis using run_attempts_left [OF assms(1)] assms(2)
    by (simp add: run_ok_def numbered_def within_retries_def fresh_def)
qed

lemma example_fresh: "fresh (example_at [])"
  by (simp add: fresh_def example_at_def example_snapshot_def)

text \<open>A failed attempt and its retry.\<close>
theorem process_runs_end_witness: "process_run example_accepts example_model (example_at []) 2 example_done
  \<and> length (pc_attempt_records example_done) = 2"
  using process_runs_end [OF example_run example_fresh example_model_valid] example_run by simp

text \<open>C32. A transition that is not idempotent is never attempted again before its earlier attempt was reconciled: in every
  context a run from a fresh one reaches, each attempt that a later attempt follows carries the reference of its reconciliation.\<close>
theorem retries_reconciled:
  assumes "process_run ec m c n c'" "fresh c" "t \<in> set (pm_transitions m)" "validate_process_ir m = Inr ()"
    "tr_idempotency_class t = ''NON_IDEMPOTENT''" "attempts_at c' (tr_transition_id t) = as @ a # b # bs"
  shows "at_reconciliation_ref a \<noteq> [] \<and> at_attempt_number b = at_attempt_number a + 1"
proof -
  let ?n = "count_of (pc_attempt_counts c') (tr_transition_id t)"
  have "run_ok ec m c'" using process_run_keeps [OF assms(1) run_ok_fresh [OF assms(2,4)]] by simp
  then have ok: "reconciled m c'" "map at_attempt_number (as @ a # b # bs) = [1..?n]"
    by (simp_all add: run_ok_def numbered_def assms(6) [symmetric])
  have "a \<in> set (butlast (attempts_at c' (tr_transition_id t)))" by (simp add: assms(6) butlast_append)
  then have "at_reconciliation_ref a \<noteq> []" using ok(1) assms(3,5) by (auto simp: reconciled_def)
  moreover have l: "Suc (Suc (length as + length bs)) = nat ?n" using arg_cong [OF ok(2), of length] by simp
  have "at_attempt_number a = [1..?n] ! length as" "at_attempt_number b = [1..?n] ! Suc (length as)"
    unfolding ok(2) [symmetric] by (simp_all add: nth_append)
  then have "at_attempt_number b = at_attempt_number a + 1" using l by (simp add: nth_upto)
  ultimately show ?thesis by simp
qed

lemma example_attempts: "attempts_at example_done ''act'' = [] @ example_attempt # attempt_of example_act (example_at [example_attempt])
    (example_outcome (example_at [example_attempt]) 2 ''PASS'' ''DONE'') # []"
proof -
  have "tr_transition_id example_act = ''act''" by (simp add: example_act_def)
  then show ?thesis using example_attempt_facts(2) by (simp add: example_done_def) (simp add: example_at_def)
qed

text \<open>The retry of the example followed a reconciled attempt.\<close>
theorem retries_reconciled_witness: "at_reconciliation_ref example_attempt \<noteq> [] \<and> at_attempt_number (attempt_of example_act
    (example_at [example_attempt]) (example_outcome (example_at [example_attempt]) 2 ''PASS'' ''DONE'')) = at_attempt_number example_attempt + 1"
proof (rule retries_reconciled [OF example_run example_fresh _ example_model_valid])
  show "example_act \<in> set (pm_transitions example_model)" by (simp add: example_model_def)
  show "attempts_at example_done (tr_transition_id example_act) = [] @ example_attempt # attempt_of example_act (example_at [example_attempt])
      (example_outcome (example_at [example_attempt]) 2 ''PASS'' ''DONE'') # []"
    using example_attempts by (simp add: example_act_def)
qed (simp add: example_act_def)

text \<open>An action counts as completed only with evidence. In every context a run reaches, each completed transition of
  class \<open>ACTION_REQUIRED\<close> has a recorded attempt with outcome \<open>PASS\<close>, made by an outcome that named an action, a proposal, an
  admission, an effect, an observation, a reconciliation and a currentness basis, and whose downstream evidence was
  accepted for this process, this digest, this transition and this mission.\<close>
theorem actions_backed:
  assumes "process_run ec m c n c'" "fresh c" "validate_process_ir m = Inr ()" "t \<in> set (pm_transitions m)"
    "tr_transition_class t = ''ACTION_REQUIRED''" "tr_transition_id t \<in> set (pc_completed_transitions c')"
  shows "\<exists>a x ev. a \<in> set (attempts_at c' (tr_transition_id t)) \<and> at_outcome a = ''PASS'' \<and> at_effect_ref a = oc_effect_ref x
    \<and> at_observation_ref a = oc_observation_ref x \<and> at_reconciliation_ref a = oc_reconciliation_ref x
    \<and> [] \<notin> {oc_action_ref x, oc_proposal_digest x, oc_admission_ref x, oc_effect_ref x, oc_observation_ref x,
        oc_reconciliation_ref x, oc_currentness_basis_ref x}
    \<and> ec ev x (pm_process_id m, process_digest m, tr_transition_id t, pm_mission_ref m) = Inr ()"
proof -
  have "backed ec m c'" using process_run_keeps [OF assms(1) run_ok_fresh [OF assms(2,3)]] by (simp add: run_ok_def)
  then show ?thesis using assms(4-6) unfolding backed_def by blast
qed

text \<open>The completed action of the example, with a check that accepts only the observed effect.\<close>
theorem actions_backed_witness: "\<exists>a. a \<in> set (attempts_at example_done ''act'') \<and> at_effect_ref a = ''eff''"
proof -
  have act: "example_act \<in> set (pm_transitions example_model)" "tr_transition_class example_act = ''ACTION_REQUIRED''"
    "tr_transition_id example_act = ''act''" by (simp_all add: example_model_def) (simp_all add: example_act_def)
  have "tr_transition_id example_act \<in> set (pc_completed_transitions example_done)" by (simp add: act(3) example_done_sel)
  then obtain a x ev where "a \<in> set (attempts_at example_done ''act'')" "at_effect_ref a = oc_effect_ref x"
      "example_accepts ev x (pm_process_id example_model, process_digest example_model, ''act'', pm_mission_ref example_model) = Inr ()"
    using actions_backed [OF example_run example_fresh example_model_valid act(1,2)] unfolding act(3) by blast
  then show ?thesis by (intro exI [of _ a]) (simp add: example_accepts_def)
qed

lemma find_filter_take: "take n (filter P xs) = y # ys \<Longrightarrow> find P xs = Some y"
  by (induction xs) (auto split: if_splits, cases n, auto)

lemma parallel_cases:
  assumes "select_parallel m c = Inr tids" "tids \<noteq> []"
  shows "\<exists>ts. tids = map tr_transition_id ts \<and> (let p = pm_scheduling_policy m; cs = take (nat (sp_max_wip p)) (filter (legal c) (ordered m)) in
    ts = cs \<and> length cs < 2 \<or> ts = [hd cs] \<and> cs \<noteq> []
    \<or> ts = pick_independent [] cs \<and> (\<exists>g\<in>set (sp_parallel_safe_groups p). set (map tr_transition_id cs) \<subseteq> set g))"
proof -
  let ?p = "pm_scheduling_policy m"
  define cs where "cs = take (nat (sp_max_wip ?p)) (filter (legal c) (ordered m))"
  have "tids = (if length cs < 2 then map tr_transition_id cs
      else if \<not> list_ex (\<lambda>g. set (map tr_transition_id cs) \<subseteq> set g) (sp_parallel_safe_groups ?p)
        then [tr_transition_id (hd cs)] else map tr_transition_id (pick_independent [] cs))"
    using assms by (auto simp: select_parallel_def judge_legal and_then_ok Let_def cs_def split: if_splits)
  then consider "length cs < 2" "tids = map tr_transition_id cs" | "cs \<noteq> []" "tids = map tr_transition_id [hd cs]"
    | "list_ex (\<lambda>g. set (map tr_transition_id cs) \<subseteq> set g) (sp_parallel_safe_groups ?p)" "tids = map tr_transition_id (pick_independent [] cs)"
    by (cases "length cs < 2"; cases "cs = []") (auto split: if_splits)
  then show ?thesis unfolding Let_def cs_def [symmetric] list_ex_iff by cases blast+
qed

lemma parallel_chosen:
  assumes "ts = cs \<and> length cs < 2 \<or> ts = [hd cs] \<and> cs \<noteq> [] \<or> ts = pick_independent [] cs \<and> G" "ts \<noteq> []" "distinct (map tr_transition_id cs)"
  shows "set ts \<subseteq> set cs \<and> length ts \<le> length cs \<and> hd ts = hd cs \<and> distinct (map tr_transition_id ts)
    \<and> sorted_wrt no_conflict ts \<and> cs \<noteq> []"
  using assms(1)
proof (elim disjE conjE)
  assume "ts = cs" "length cs < 2"
  with assms(2,3) show ?thesis by (cases cs) auto
next
  assume "ts = [hd cs]" "cs \<noteq> []"
  then show ?thesis by (cases cs) auto
next
  assume ts: "ts = pick_independent [] cs"
  then have cs: "cs \<noteq> []" using assms(2) by auto
  have "hd (pick_independent [] cs) = hd cs"
    using pick_independent_prefix [of "[hd cs]" "tl cs"] cs by (cases cs) auto
  then show ?thesis using ts cs pick_independent_sub [of "[]" cs] pick_independent_prefix [of "[]" cs]
      pick_independent_pairwise [of "[]" cs] pick_independent_distinct [of "[]" cs] assms(3) by auto
qed

text \<open>A parallel selection is safe. It never exceeds the work-in-progress limit, names distinct transitions of the
  process, each legal now, of which no two conflict (write and read scopes, authority budgets, replay domains, reconciliation
  groups, currentness subjects); two or more of them lie in one declared parallel-safe group; and when it selects anything it starts with the
  transition the sequential order prefers.\<close>
theorem parallel_selection_safe:
  assumes "select_parallel m c = Inr tids"
  shows "length tids \<le> nat (sp_max_wip (pm_scheduling_policy m)) \<and> distinct tids
    \<and> (\<exists>ts. tids = map tr_transition_id ts \<and> set ts \<subseteq> {t \<in> set (pm_transitions m). legal c t} \<and> sorted_wrt no_conflict ts)
    \<and> (2 \<le> length tids \<longrightarrow> (\<exists>g\<in>set (sp_parallel_safe_groups (pm_scheduling_policy m)). set tids \<subseteq> set g))
    \<and> (tids \<noteq> [] \<longrightarrow> (\<exists>t. find (legal c) (ordered m) = Some t \<and> hd tids = tr_transition_id t))"
proof (cases "tids = []")
  case False
  let ?p = "pm_scheduling_policy m"
  define cs where "cs = take (nat (sp_max_wip ?p)) (filter (legal c) (ordered m))"
  have m: "validate_process_ir m = Inr ()" using assms by (auto simp: select_parallel_def context_validate_for_def and_then_ok)
  obtain ts where ts: "tids = map tr_transition_id ts" "ts = cs \<and> length cs < 2 \<or> ts = [hd cs] \<and> cs \<noteq> [] \<or> ts = pick_independent [] cs
      \<and> (\<exists>g\<in>set (sp_parallel_safe_groups ?p). set (map tr_transition_id cs) \<subseteq> set g)"
    using parallel_cases [OF assms False] unfolding Let_def cs_def [symmetric] by blast
  have cs: "set cs \<subseteq> {t \<in> set (pm_transitions m). legal c t}" "length cs \<le> nat (sp_max_wip ?p)"
    using set_take_subset [of _ "filter (legal c) (ordered m)"] unfolding cs_def set_ordered [OF m, symmetric] set_filter [symmetric]
    by simp_all
  have dist: "distinct (map tr_transition_id cs)"
    using distinct_ordered [OF m] unfolding cs_def by (metis distinct_map_filter distinct_take take_map)
  have ne: "ts \<noteq> []" using False ts(1) by simp
  have sub: "set ts \<subseteq> set cs" "length ts \<le> length cs" "hd ts = hd cs" "distinct (map tr_transition_id ts)" "sorted_wrt no_conflict ts" "cs \<noteq> []"
    using parallel_chosen [OF ts(2) ne dist] by auto
  have "cs = hd cs # tl cs" using sub(6) by simp
  then have first: "find (legal c) (ordered m) = Some (hd cs)" unfolding cs_def by (rule find_filter_take)
  have "\<exists>g\<in>set (sp_parallel_safe_groups ?p). set tids \<subseteq> set g" if two: "2 \<le> length tids"
  proof -
    have "2 \<le> length ts" "\<not> length cs < 2" using two sub(2) by (simp_all add: ts(1))
    then obtain g where "g \<in> set (sp_parallel_safe_groups ?p)" "set (map tr_transition_id cs) \<subseteq> set g" using ts(2) by auto
    then show ?thesis using sub(1) by (intro bexI [of _ g]) (auto simp: ts(1))
  qed
  moreover have "hd tids = tr_transition_id (hd cs)" using sub(3) ne by (simp add: ts(1) hd_map)
  moreover have "length tids \<le> nat (sp_max_wip ?p)" "distinct tids" using sub(2,4) cs(2) by (simp_all add: ts(1))
  moreover have "set ts \<subseteq> {t \<in> set (pm_transitions m). legal c t}" using sub(1) cs(1) by blast
  ultimately show ?thesis using ts(1) sub(5) first by blast
qed simp

text \<open>The two internal steps of the example, when the authority of the action is not there.\<close>

definition example_parallel :: process_context where
  "example_parallel = example_snapshot\<lparr>pc_verified_authority_context_refs := []\<rparr>"

lemma example_parallel_valid: "context_validate_for example_model example_parallel = Inr ()"
  using example_snapshot_valid by (simp add: context_validate_for_def example_parallel_def)

lemma example_parallel_selected: "select_parallel example_model example_parallel = Inr [''n1'', ''n2'']"
proof -
  have a: "\<not> legal example_parallel example_act"
    by (simp add: legal_def example_parallel_def example_act_def)
  have n: "legal example_parallel (example_note k)" for k
    by (simp add: legal_def example_parallel_def example_note_def example_snapshot_def currentness_satisfied_def count_of_def
        retry_reconciled_def Let_def example_claims_def)
  have i: "independent (example_note ''n2'') (example_note ''n1'')" by code_simp
  have id: "tr_transition_id (example_note k) = k" for k by (simp add: example_note_def)
  have p: "sp_max_wip (pm_scheduling_policy example_model) = 2"
    "sp_parallel_safe_groups (pm_scheduling_policy example_model) = [[''n1'', ''n2'']]" by (simp_all add: example_model_def)
  have "pc_process_control example_parallel = ''ACTIVE''" by (simp add: example_parallel_def example_snapshot_def)
  then show ?thesis by (simp add: select_parallel_def example_parallel_valid example_ordered judge_legal a n i id p)
qed

theorem parallel_selection_safe_witness: "select_parallel example_model example_parallel = Inr [''n1'', ''n2'']
  \<and> (\<exists>g\<in>set (sp_parallel_safe_groups (pm_scheduling_policy example_model)). set [''n1'', ''n2''] \<subseteq> set g)"
  using parallel_selection_safe [OF example_parallel_selected] example_parallel_selected by simp

text \<open>The parallel selection looks at the control state only. In a terminal state, where the selection answers that the process
  is complete, it still hands out work that is legal there.\<close>

definition example_after :: process_model where
  "example_after = example_model\<lparr>pm_termination_policy := \<lparr>tp_terminal_states = [''S0''], tp_allow_no_legal_transition = True,
     tp_on_unknown = ''HANDOFF''\<rparr>\<rparr>"

lemma parallel_after_end: "\<exists>d. select example_after (example_parallel\<lparr>pc_process_ir_digest := process_digest example_after\<rparr>) = Inr d
  \<and> tn_decision d = ''COMPLETE''
  \<and> select_parallel example_after (example_parallel\<lparr>pc_process_ir_digest := process_digest example_after\<rparr>) = Inr [''n1'', ''n2'']"
proof -
  let ?c = "example_parallel\<lparr>pc_process_ir_digest := process_digest example_after\<rparr>"
  have same: "pm_transitions example_after = pm_transitions example_model" "pm_states example_after = pm_states example_model"
    "pm_dependencies example_after = pm_dependencies example_model" "pm_scheduling_policy example_after = pm_scheduling_policy example_model"
    by (simp_all add: example_after_def)
  have ord: "ordered example_after = ordered example_model"
    by (simp add: ordered_def transition_of_def [abs_def] same)
  have m: "validate_process_ir example_after = Inr ()" by code_simp
  have v: "context_validate_for example_after ?c = Inr ()"
    using example_snapshot_valid m by (simp add: context_validate_for_def example_parallel_def same dependency_ids_def transition_ids_def)
  have "judge ?c t = judge example_parallel t" for t
    by (simp add: judge_def currentness_satisfied_def current_basis_def retry_reconciled_def Let_def)
  then have "select_parallel example_after ?c = select_parallel example_model example_parallel"
    by (simp add: select_parallel_def v example_parallel_valid same ord Let_def)
  moreover have "pc_process_control ?c = ''ACTIVE''" "pc_process_state ?c \<in> set (tp_terminal_states (pm_termination_policy example_after))"
    by (simp_all add: example_parallel_def example_snapshot_def example_after_def)
  then have "\<exists>d. select example_after ?c = Inr d \<and> tn_decision d = ''COMPLETE''"
    by (simp add: select_def v no_transition_def)
  ultimately show ?thesis using example_parallel_selected by simp
qed

end
