(* ===== verification/Runtime_Props.thy ===== *)
theory Runtime_Props
  imports Runtime_Execution
begin

text \<open>
  The properties of the runtime: an admission is acted on at most once, only for exactly the admitted effect, an answer of
  the sandbox is never lost, published admissions resolve to themselves, and the reconciler reports a match exactly when
  receipt and observation agree on an observed success.
\<close>

section \<open>Consuming once\<close>

text \<open>What the engine relies on in a guard: it says yes at most once for a digest.\<close>

locale consumption_guard =
  fixes consume :: "utc_time \<Rightarrow> string \<Rightarrow> string \<Rightarrow> ('g, bool) op"
    and spent :: "'g \<Rightarrow> string \<Rightarrow> bool"
  assumes grants_fresh: "consume t d x g = (Inr True, g') \<Longrightarrow> \<not> spent g d \<and> spent g' d"
    and keeps_spent: "consume t d x g = (r, g') \<Longrightarrow> spent g j \<Longrightarrow> spent g' j"
begin

lemma execute_keeps: "engine_execute consume k (g, w) = (r, g', w') \<Longrightarrow> spent g j \<Longrightarrow> spent g' j"
  using keeps_spent
  by (auto simp: engine_execute_def split: sum.splits prod.splits bool.splits)

lemma execute_refuses:
  assumes "engine_execute consume k (g, w) = (r, g', w')" "spent g (rn_admission_digest (ek_admission k))"
  shows "(\<exists>x. r = Inl x) \<and> w' = w"
proof -
  have "consume (ek_now k) (rn_admission_digest (ek_admission k)) (xq_execution_id (ek_request k)) g \<noteq> (Inr True, h)" for h
    using grants_fresh assms(2) by blast
  then show ?thesis using assms(1)
    by (auto simp: engine_execute_def split: sum.splits prod.splits bool.splits)
qed

lemma execute_spends:
  assumes "engine_execute consume k (g, w) = (r, g', w')" "(\<exists>x. r = Inr x) \<or> w' \<noteq> w"
  shows "spent g' (rn_admission_digest (ek_admission k))"
  using assms grants_fresh
  by (auto simp: engine_execute_def split: sum.splits prod.splits bool.splits)

lemma run_keeps_spent: "spent (fst s) j \<Longrightarrow> spent (fst (snd (run_ops (map (engine_execute consume) ks) s))) j"
proof (induction ks arbitrary: s)
  case (Cons k ks)
  obtain g w where s: "s = (g, w)" by (cases s)
  obtain r g' w' where e: "engine_execute consume k (g, w) = (r, g', w')" by (metis prod_cases3)
  have "spent (fst (g', w')) j" using execute_keeps [OF e] Cons.prems s by simp
  from Cons.IH [OF this] show ?case by (simp add: s e case_prod_beta Let_def)
qed simp

lemma acts_once:
  assumes "engine_execute consume k s = (r, s1)" "(\<exists>x. r = Inr x) \<or> snd s1 \<noteq> snd s"
    "rn_admission_digest (ek_admission k') = rn_admission_digest (ek_admission k)"
    "engine_execute consume k' (snd (run_ops (map (engine_execute consume) ks) s1)) = (r', s2)"
  shows "(\<exists>x. r' = Inl x) \<and> snd s2 = snd (snd (run_ops (map (engine_execute consume) ks) s1))"
proof -
  obtain g w g1 w1 g2 w2 where st: "s = (g, w)" "s1 = (g1, w1)" "s2 = (g2, w2)" by (metis surj_pair)
  obtain h v where m: "snd (run_ops (map (engine_execute consume) ks) s1) = (h, v)" by (metis surj_pair)
  have "spent g1 (rn_admission_digest (ek_admission k))" using execute_spends assms(1,2) st by simp
  then have "spent h (rn_admission_digest (ek_admission k'))"
    using run_keeps_spent [of s1 _ ks] assms(3) st m by simp
  then show ?thesis using execute_refuses assms(4) st m by simp
qed

end

interpretation memory: consumption_guard memory_consume "\<lambda>seen d. d \<in> seen"
  by unfold_locales (auto simp: memory_consume_def split: if_splits)

interpretation durable: consumption_guard sqlite_consume "\<lambda>rows d. d \<in> set (map cw_admission_digest rows)"
  by unfold_locales (auto simp: sqlite_consume_def split: sum.splits if_splits)

text \<open>C33. An admission is acted on at most once. After a call that returned a receipt or changed the world of the sandbox, every
  later call with the same admission digest raises and leaves that world as it was, whatever calls were made in
  between, with the durable guard, whose table outlives the process, and for any source, sandbox and clock.\<close>
theorem admission_acts_once:
  assumes "engine_execute sqlite_consume k s = (r, s1)" "(\<exists>x. r = Inr x) \<or> snd s1 \<noteq> snd s"
    "rn_admission_digest (ek_admission k') = rn_admission_digest (ek_admission k)"
    "engine_execute sqlite_consume k' (snd (run_ops (map (engine_execute sqlite_consume) ks) s1)) = (r', s2)"
  shows "(\<exists>x. r' = Inl x) \<and> snd s2 = snd (snd (run_ops (map (engine_execute sqlite_consume) ks) s1))"
  using assms by (rule durable.acts_once)

text \<open>The same holds with the guard in memory.\<close>

lemma admission_acts_once_memory:
  assumes "engine_execute memory_consume k s = (r, s1)" "(\<exists>x. r = Inr x) \<or> snd s1 \<noteq> snd s"
    "rn_admission_digest (ek_admission k') = rn_admission_digest (ek_admission k)"
    "engine_execute memory_consume k' (snd (run_ops (map (engine_execute memory_consume) ks) s1)) = (r', s2)"
  shows "(\<exists>x. r' = Inl x) \<and> snd s2 = snd (snd (run_ops (map (engine_execute memory_consume) ks) s1))"
  using assms by (rule memory.acts_once)

section \<open>Only the admitted effect\<close>

lemma runtime_admission_hex: "runtime_admission_validate a = Inr () \<Longrightarrow> is_hex 64 (rn_admission_digest a)"
  by (auto simp: runtime_admission_validate_def)

text \<open>What an operation has to be for an admission to cover it.\<close>

definition covers :: "runtime_admission \<Rightarrow> requested_effect \<Rightarrow> runtime_identity \<Rightarrow> string \<Rightarrow> sandbox_operation \<Rightarrow> bool" where
  "covers a e i payload p \<longleftrightarrow> requested_effect_digest e = rn_requested_effect_digest a \<and> runtime_identity_digest i = rn_runtime_identity_digest a
     \<and> ib_provisioned_executor_digest i = rn_provisioned_executor_digest a
     \<and> sb_action p = qe_action_class e \<and> sb_path p = qe_resource e \<and> sb_mission_id p = qe_mission_id e
     \<and> sb_executor_id p = ib_execution_subject i \<and> sb_drone_id p = ib_workload_identity i
     \<and> sb_sandbox_id p = ib_sandbox_id i \<and> sb_workspace_id p = ib_workspace_id i
     \<and> (sb_action p = ''WRITE_FILE'' \<longrightarrow> sha256 payload = qe_payload_digest e \<and> sb_payload_digest p = Some (qe_payload_digest e))
     \<and> (sb_action p \<noteq> ''WRITE_FILE'' \<longrightarrow> payload = [])"

lemma canonical_admission_ok: "canonical_admission resolve current a = Inr c \<longleftrightarrow> c = a \<and> runtime_admission_validate a = Inr ()
    \<and> resolve (rn_admission_digest a) = Inr a \<and> current (rn_admission_digest a) = Inr True"
  by (auto simp: canonical_admission_def and_then_ok)

lemma prepare_ok:
  assumes "prepare k = Inr ()"
  shows "runtime_admission_validate (ek_admission k) = Inr ()"
    "ek_resolve k (rn_admission_digest (ek_admission k)) = Inr (ek_admission k)"
    "ek_is_current k (rn_admission_digest (ek_admission k)) = Inr True"
    "execution_request_validate (ek_request k) = Inr ()" "xq_admission_digest (ek_request k) = rn_admission_digest (ek_admission k)"
    "covers (ek_admission k) (ek_effect k) (ek_identity k) (ek_payload k) (call_operation k)"
    "sandbox_operation_validate (call_operation k) = Inr ()"
proof -
  from assms have c: "canonical_admission (ek_resolve k) (ek_is_current k) (ek_admission k) = Inr (ek_admission k)"
    and b: "validate_bindings (ek_admission k) (ek_request k) (ek_effect k) (ek_identity k) (ek_payload k) = Inr ()"
    and o: "sandbox_operation_validate (call_operation k) = Inr ()"
    by (auto simp: prepare_def and_then_ok canonical_admission_ok)
  show "runtime_admission_validate (ek_admission k) = Inr ()"
    "ek_resolve k (rn_admission_digest (ek_admission k)) = Inr (ek_admission k)"
    "ek_is_current k (rn_admission_digest (ek_admission k)) = Inr True" using c by (simp_all add: canonical_admission_ok)
  show "execution_request_validate (ek_request k) = Inr ()" "xq_admission_digest (ek_request k) = rn_admission_digest (ek_admission k)"
    using b by (simp_all add: validate_bindings_def)
  show "covers (ek_admission k) (ek_effect k) (ek_identity k) (ek_payload k) (call_operation k)"
    using b by (auto simp: validate_bindings_def covers_def call_operation_def operation_of_def split: if_splits)
  show "sandbox_operation_validate (call_operation k) = Inr ()" by (rule o)
qed

lemma execute_acts:
  assumes "engine_execute consume k (g, w) = (r, g', w')" "(\<exists>x. r = Inr x) \<or> w' \<noteq> w"
  obtains ans where "prepare k = Inr ()" "ek_sandbox k (call_operation k) (ek_payload k) w = (ans, w')"
    "consume (ek_now k) (rn_admission_digest (ek_admission k)) (xq_execution_id (ek_request k)) g = (Inr True, g')"
    "\<And>x. r = Inr x \<Longrightarrow> \<exists>sr. ans = Inr sr
      \<and> sandbox_answer (ek_policy_digest k) (ek_admission k) (ek_request k) (call_operation k) sr = Inr x"
  using assms by (auto simp: engine_execute_def split: sum.splits prod.splits bool.splits)


section \<open>Receipts\<close>

lemma request_fields:
  assumes "execution_request_validate q = Inr ()"
  shows "\<not> text_invalid 2048 (xq_execution_id q)" "\<not> text_invalid 2048 (xq_mission_id q)" "\<not> text_invalid 2048 (xq_executor_id q)"
    "\<not> text_invalid 2048 (xq_runtime_instance_id q)" "\<not> text_invalid 2048 (xq_sandbox_id q)" "\<not> text_invalid 2048 (xq_workspace_id q)"
    "\<not> text_invalid 2048 (xq_resource q)" "is_hex 64 (xq_admission_digest q)" "is_hex 64 (xq_dispatch_id q)" "is_hex 64 (xq_fencing_token q)"
    "is_hex 64 (xq_payload_digest q)" "1 \<le> xq_generation q" "xq_action q \<in> set runtime_actions"
  using assms by (simp_all add: execution_request_validate_def)

lemma runtime_receipt_digest_update [simp]: "runtime_receipt_digest (r\<lparr>xr_receipt_digest := d\<rparr>) = runtime_receipt_digest r"
  by (simp add: runtime_receipt_digest_def runtime_receipt_json_def)

lemma runtime_receipt_check_update [simp]: "runtime_receipt_check (r\<lparr>xr_receipt_digest := d\<rparr>) = runtime_receipt_check r"
  by (simp add: runtime_receipt_check_def)

lemma runtime_receipt_sealed_ok: "runtime_receipt_check r = Inr () \<Longrightarrow>
    runtime_receipt_sealed r = Inr (r\<lparr>xr_receipt_digest := runtime_receipt_digest r\<rparr>)"
  by (simp add: runtime_receipt_sealed_def Let_def runtime_receipt_validate_def) (simp add: runtime_receipt_digest_def)

lemma receipt_id_text: "\<not> text_invalid 2048 (''runtime-execution:'' @ sha256 m)"
proof -
  have "is_hex 64 (sha256 m)" by simp
  then have "nul \<notin> set (sha256 m)" "length (sha256 m) = 64" using hex_char_not_nul by (auto simp: is_hex_def list_all_iff)
  then show ?thesis by (simp add: text_invalid_def py_space_def nul_def)
qed

text \<open>The checks on the answer, and that nothing after them can fail.\<close>

definition trustworthy :: "string \<Rightarrow> execution_request \<Rightarrow> sandbox_operation \<Rightarrow> sandbox_receipt \<Rightarrow> bool" where
  "trustworthy policy q p sr \<longleftrightarrow> sandbox_receipt_validate sr = Inr () \<and> receipt_bound policy p q sr
     \<and> (xq_action q = ''WRITE_FILE'' \<and> sr_outcome sr = ''SUCCEEDED''
        \<longrightarrow> sr_effect_digest sr = xq_payload_digest q \<and> sr_side_effect_refs sr \<noteq> [])"

lemma sandbox_receipt_fields:
  assumes "sandbox_receipt_validate r = Inr ()"
  shows "sr_outcome r \<in> set runtime_outcomes" "sr_observed_events r \<noteq> []" "distinct (sr_observed_events r)" "distinct (sr_side_effect_refs r)"
    "is_hex 64 (sr_effect_digest r)"
  using assms by (simp_all add: sandbox_receipt_validate_def checks_map_ok)

lemma unsealed_receipt_ok:
  assumes "execution_request_validate q = Inr ()" "is_hex 64 (rn_admission_digest a)" "trustworthy policy q p sr"
  shows "runtime_receipt_check (unsealed_receipt a q p sr) = Inr ()"
proof -
  have sr: "sr_outcome sr \<in> set runtime_outcomes" "sr_observed_events sr \<noteq> []" "distinct (sr_observed_events sr)"
      "distinct (sr_side_effect_refs sr)" "is_hex 64 (sr_effect_digest sr)"
    using assms(3) sandbox_receipt_fields by (auto simp: trustworthy_def)
  have d: "is_hex 64 (sandbox_receipt_digest sr)" "is_hex 64 (execution_request_digest q)" "is_hex 64 (sandbox_operation_digest p)"
    by (simp_all add: sandbox_receipt_digest_def execution_request_digest_def sandbox_operation_digest_def)
  have st: "effect_state_of sr \<in> set effect_states" "sr_outcome sr = ''SUCCEEDED'' \<Longrightarrow> effect_state_of sr = ''OBSERVED''"
      "effect_state_of sr = ''PARTIAL_UNKNOWN'' \<Longrightarrow> sr_side_effect_refs sr \<noteq> []"
    by (auto simp: effect_state_of_def effect_states_def split: if_splits)
  show ?thesis
    using request_fields [OF assms(1)] assms(2,3) sr d st
    by (auto simp: runtime_receipt_check_def unsealed_receipt_def Let_def receipt_id_text trustworthy_def simp del: append.simps)
qed

lemma sandbox_answer_trustworthy:
  assumes "execution_request_validate q = Inr ()" "is_hex 64 (rn_admission_digest a)" "trustworthy policy q p sr"
  shows "sandbox_answer policy a q p sr
    = Inr ((unsealed_receipt a q p sr)\<lparr>xr_receipt_digest := runtime_receipt_digest (unsealed_receipt a q p sr)\<rparr>)"
proof -
  have "effect_state_of sr = ''OBSERVED'' \<or> sr_outcome sr \<noteq> ''SUCCEEDED''" by (simp add: effect_state_of_def)
  then show ?thesis using runtime_receipt_sealed_ok [OF unsealed_receipt_ok [OF assms]] assms(3) sandbox_receipt_fields(2) [of sr]
    by (auto simp: sandbox_answer_def trustworthy_def)
qed

lemma sandbox_answer_ok: "sandbox_answer policy a q p sr = Inr x \<Longrightarrow> trustworthy policy q p sr"
  by (auto simp: sandbox_answer_def trustworthy_def)

text \<open>C35. The answer of the sandbox is never lost. Once an admission is consumed and the sandbox answered with a trustworthy
  receipt (valid, bound to the operation, with the exact written payload when it claims success), the call returns a valid
  sealed receipt that reports the answer: outcome, effect digest, events and side effects, bound to the admission and the
  request; success is reported only for an observed effect, an aborted operation as unknown or partly unknown. On any
  other answer it raises.\<close>
theorem receipt_exact:
  assumes "prepare k = Inr ()" "ek_sandbox k (call_operation k) (ek_payload k) w = (Inr sr, w')"
    "consume (ek_now k) (rn_admission_digest (ek_admission k)) (xq_execution_id (ek_request k)) g = (Inr True, g')"
  shows "if trustworthy (ek_policy_digest k) (ek_request k) (call_operation k) sr
    then (\<exists>x. engine_execute consume k (g, w) = (Inr x, g', w') \<and> runtime_receipt_validate x = Inr ()
        \<and> xr_admission_digest x = rn_admission_digest (ek_admission k) \<and> xr_request_digest x = execution_request_digest (ek_request k)
        \<and> xr_outcome x = sr_outcome sr \<and> xr_effect_digest x = sr_effect_digest sr \<and> xr_observed_events x = sr_observed_events sr
        \<and> xr_side_effect_refs x = sr_side_effect_refs sr \<and> (xr_effect_state x = ''OBSERVED'' \<longleftrightarrow> sr_outcome sr \<noteq> ''ABORTED''))
    else (\<exists>m. engine_execute consume k (g, w) = (Inl (runtime_error m), g', w'))"
proof -
  let ?q = "ek_request k" and ?a = "ek_admission k" and ?p = "call_operation k" and ?d = "ek_policy_digest k"
  let ?u = "unsealed_receipt ?a ?q ?p sr"
  have e: "engine_execute consume k (g, w) = (sandbox_answer ?d ?a ?q ?p sr, g', w')"
    using assms by (simp add: engine_execute_def)
  have q: "execution_request_validate ?q = Inr ()" and a: "is_hex 64 (rn_admission_digest ?a)"
    using prepare_ok(1,4) [OF assms(1)] runtime_admission_hex by auto
  show ?thesis
  proof (cases "trustworthy ?d ?q ?p sr")
    case True
    have v: "runtime_receipt_validate (?u\<lparr>xr_receipt_digest := runtime_receipt_digest ?u\<rparr>) = Inr ()"
      using unsealed_receipt_ok [OF q a True] by (simp add: runtime_receipt_validate_def) (simp add: runtime_receipt_digest_def)
    then show ?thesis using True sandbox_answer_trustworthy [OF q a True] e
      by simp (simp add: unsealed_receipt_def Let_def effect_state_of_def)
  next
    case False
    then have "\<exists>m. sandbox_answer ?d ?a ?q ?p sr = Inl (runtime_error m)"
      by (auto simp: sandbox_answer_def trustworthy_def effect_state_of_def and_then_def wrap_errors_def raise_when_def split: sum.splits)
    then show ?thesis using False e by auto
  qed
qed

section \<open>Publication\<close>

interpretation admissions: one_shot_registry "\<lambda>(a, provenance, at). publish_admission a provenance at" "\<lambda>r. \<exists>d. r = Inr d"
  "\<lambda>(a, provenance, at). rn_admission_digest a" "\<lambda>(a, provenance, at). admission_row_of a provenance at" "\<lambda>s. s"
  by unfold_locales (auto simp: publish_admission_def split: sum.splits)

text \<open>A published admission resolves to itself for ever. At every later state of the table, whatever was published in
  between, it is returned unchanged under its digest and called current, and its digest cannot be published again.\<close>
theorem published_admission_resolves:
  assumes "publish_admission a provenance at s = (Inr d, s1)" "valid_utc at"
  shows "d = rn_admission_digest a
    \<and> (let s2 = snd (run_ops (map (\<lambda>(a, provenance, at). publish_admission a provenance at) qs) s1) in
        resolve_admission s2 d = Inr a \<and> is_current_admission s2 d = Inr True
        \<and> (\<forall>b provenance' at'. rn_admission_digest b = d \<longrightarrow> (\<exists>x. publish_admission b provenance' at' s2 = (Inl x, s2))))"
proof -
  let ?s2 = "snd (run_ops (map (\<lambda>(a, provenance, at). publish_admission a provenance at) qs) s1)"
  have d: "d = rn_admission_digest a" and v: "runtime_admission_validate a = Inr ()" "is_hex 64 provenance"
    using assms(1) by (auto simp: publish_admission_def split: sum.splits)
  have "s1 d = Some (admission_row_of a provenance at)"
    using admissions.registered_present [of "(a, provenance, at)" s "Inr d" s1] assms(1) d by simp
  then have row: "?s2 d = Some (admission_row_of a provenance at)" by (rule admissions.run_keeps)
  have h: "is_hex 64 d" using runtime_admission_hex [OF v(1)] by (simp add: d)
  have "utc_text at \<noteq> []" by (simp add: utc_text_def)
  then have z: "zoned_text (utc_text at) = Inr ()" using assms(2) by (simp add: zoned_text_def)
  have res: "resolve_admission ?s2 d = Inr a"
    using row h v z d by (simp add: resolve_admission_def admission_row_of_def strict_runtime_admission_def)
  moreover have "is_current_admission ?s2 d = Inr True" using res by (simp add: is_current_admission_def d)
  moreover have "\<exists>x. publish_admission b p t ?s2 = (Inl x, ?s2)" if "rn_admission_digest b = d" for b p t
  proof -
    have "\<not> (\<exists>d'. fst (publish_admission b p t ?s2) = Inr d')"
      using admissions.taken_refused [of ?s2 "(b, p, t)"] row that by simp
    then obtain x where "fst (publish_admission b p t ?s2) = Inl x" by (cases "fst (publish_admission b p t ?s2)") auto
    then show ?thesis using admissions.refuses [of "(b, p, t)" ?s2] by (cases "publish_admission b p t ?s2") auto
  qed
  ultimately show ?thesis using d by (simp add: Let_def)
qed

section \<open>Reconciliation\<close>

definition agrees :: "runtime_receipt \<Rightarrow> effect_observation \<Rightarrow> bool" where
  "agrees r b \<longleftrightarrow> same_operation r b \<and> ob_effect_digest b = xr_effect_digest r \<and> ob_observed_events b = xr_observed_events r
     \<and> set (ob_side_effect_refs b) = set (xr_side_effect_refs r)"

lemma evidence_anomalies_agrees: "evidence_anomalies r b = [] \<longleftrightarrow> agrees r b"
  by (auto simp: evidence_anomalies_def agrees_def)

lemma disposition_cases:
  "fst (disposition_of r b) = ''MATCHED'' \<longleftrightarrow> xr_outcome r = ''SUCCEEDED'' \<and> xr_effect_state r = ''OBSERVED''
     \<and> ob_effect_state b = ''OBSERVED'' \<and> agrees r b"
  "fst (disposition_of r b) = ''MATCHED'' \<Longrightarrow> snd (disposition_of r b) = []"
  "fst (disposition_of r b) \<in> set [''MISMATCH'', ''UNKNOWN''] \<Longrightarrow> snd (disposition_of r b) \<noteq> []"
  "fst (disposition_of r b) \<in> set dispositions"
  using evidence_anomalies_agrees [of r b] by (auto simp: disposition_of_def Let_def dispositions_def split: if_splits)

lemma reconciliation_digest_update [simp]:
  "reconciliation_receipt_digest (x\<lparr>rx_reconciliation_digest := d\<rparr>) = reconciliation_receipt_digest x"
  "reconciliation_receipt_check (x\<lparr>rx_reconciliation_digest := d\<rparr>) = reconciliation_receipt_check x"
  by (simp_all add: reconciliation_receipt_digest_def reconciliation_receipt_json_def reconciliation_receipt_check_def)

lemma reconciliation_sealed_ok: "reconciliation_receipt_check x = Inr () \<Longrightarrow>
    reconciliation_receipt_sealed x = Inr (x\<lparr>rx_reconciliation_digest := reconciliation_receipt_digest x\<rparr>)"
  by (simp add: reconciliation_receipt_sealed_def Let_def reconciliation_receipt_validate_def) (simp add: reconciliation_receipt_digest_def)

lemma runtime_utc_text_valid:
  assumes "valid_utc t"
  shows "\<not> text_invalid 2048 (utc_text t)"
proof -
  have "\<not> is_digit nul" by (simp add: is_digit_def nul_def)
  then have "nul \<notin> set (pad_text n m)" for n m using pad_text_digits [of n m] unfolding list_all_iff by blast
  moreover have "nul \<notin> set ''-T:.+0''" by (simp add: nul_def)
  ultimately have "nul \<notin> set (utc_text t)" unfolding utc_text_def by auto
  moreover have "CHR ''T'' \<in> set (utc_text t)" "\<not> py_space (CHR ''T'')" by (simp_all add: utc_text_def py_space_def)
  then have "\<not> blank (utc_text t)" by (auto simp: blank_def list_all_iff)
  moreover have "length (utc_text t) \<le> 2048" by (simp add: utc_text_def)
  ultimately show ?thesis by (simp add: text_invalid_def)
qed

lemma valid_time_utc: "valid_utc t \<Longrightarrow> valid_time e (utc_text t) n = Inr ()"
  using fromisoformat_utc_text [of t] runtime_utc_text_valid [of t]
  by (simp add: valid_time_def contract_utc_def contract_text_def replace_z_id utc_text_no_Z)

lemma sort_eq_Nil: "sort xs = [] \<longleftrightarrow> xs = []"
  by (metis length_0_conv length_sort)

lemma reconciliation_check_ok:
  assumes "rx_schema_version x = ''1.0.0''" "\<not> text_invalid 2048 (rx_reconciliation_id x)" "\<not> text_invalid 2048 (rx_execution_id x)"
    "is_hex 64 (rx_runtime_execution_receipt_digest x)" "is_hex 64 (rx_effect_observation_digest x)"
    "is_hex 64 (rx_currentness_evidence_digest x)" "is_hex 64 (rx_admission_digest x)" "is_hex 64 (rx_reconciled_effect_digest x)"
    "rx_disposition x \<in> set dispositions" "distinct (rx_anomaly_codes x)" "rx_disposition x = ''MATCHED'' \<Longrightarrow> rx_anomaly_codes x = []"
    "rx_disposition x \<in> set [''MISMATCH'', ''UNKNOWN''] \<Longrightarrow> rx_anomaly_codes x \<noteq> []"
    "valid_time RuntimeReconciliationContractError (rx_reconciled_at x) ''reconciled_at'' = Inr ()"
  shows "reconciliation_receipt_check x = Inr ()"
  using assms by (auto simp: reconciliation_receipt_check_def)

lemma validated_parts:
  "runtime_receipt_validate r = Inr () \<Longrightarrow> runtime_receipt_check r = Inr ()"
  "runtime_receipt_validate r = Inr () \<Longrightarrow> is_hex 64 (xr_receipt_digest r)"
  "effect_observation_validate b = Inr () \<Longrightarrow> effect_observation_check b = Inr ()"
  "effect_observation_validate b = Inr () \<Longrightarrow> is_hex 64 (ob_observation_digest b)"
  "effect_currentness_validate c = Inr () \<Longrightarrow> is_hex 64 (cu_evidence_digest c)"
  by (auto simp: runtime_receipt_validate_def effect_observation_validate_def effect_currentness_validate_def)

text \<open>The observation the reconciler accepts.\<close>

definition trusted_observation :: "trust_binding \<Rightarrow> effect_observation \<Rightarrow> bool" where
  "trusted_observation trust b \<longleftrightarrow> effect_observation_validate b = Inr ()
     \<and> (ob_source_id b, ob_source_instance_id b, ob_source_implementation_digest b, ob_trust_anchor_id b, ob_trust_anchor_digest b)
       = trust_of trust"

lemma reconcile_answers:
  assumes "runtime_receipt_validate r = Inr ()" "effect_currentness_validate c = Inr ()" "cu_admission_digest c = xr_admission_digest r"
    "observe (xr_execution_id r) = Inr b" "trusted_observation trust b" "valid_utc now"
  obtains x where "reconcile trust observe now r c = Inr x" "reconciliation_receipt_validate x = Inr ()"
    "rx_runtime_execution_receipt_digest x = xr_receipt_digest r" "rx_effect_observation_digest x = ob_observation_digest b"
    "rx_currentness_evidence_digest x = cu_evidence_digest c" "rx_execution_id x = xr_execution_id r"
    "rx_admission_digest x = xr_admission_digest r" "rx_reconciled_effect_digest x = ob_effect_digest b"
    "rx_disposition x = fst (disposition_of r b)" "rx_anomaly_codes x = sort (remdups (snd (disposition_of r b)))"
proof -
  obtain d as where da: "disposition_of r b = (d, as)" by (cases "disposition_of r b")
  note disp = disposition_cases [of r b, unfolded da fst_conv snd_conv]
  let ?u = "unsealed_reconciliation r b c d as now"
  let ?x = "?u\<lparr>rx_reconciliation_digest := reconciliation_receipt_digest ?u\<rparr>"
  have r: "is_hex 64 (xr_receipt_digest r)" "\<not> text_invalid 2048 (xr_execution_id r)" "is_hex 64 (xr_admission_digest r)"
    using validated_parts(1,2) [OF assms(1)] by (simp_all add: runtime_receipt_check_def)
  have b: "is_hex 64 (ob_observation_digest b)" "is_hex 64 (ob_effect_digest b)"
    using assms(5) validated_parts(3,4) [of b] by (simp_all add: trusted_observation_def effect_observation_check_def)
  have c: "is_hex 64 (cu_evidence_digest c)" using validated_parts(5) [OF assms(2)] .
  have chk: "reconciliation_receipt_check ?u = Inr ()"
    by (rule reconciliation_check_ok)
      (use disp(2-4) r b c in \<open>simp_all add: unsealed_reconciliation_def valid_time_utc [OF assms(6)] sort_eq_Nil\<close>)
  have "\<not> (xr_outcome r \<noteq> ''SUCCEEDED'' \<and> d = ''MATCHED'')" using disp(1) by blast
  then have ok: "reconcile_when (xr_outcome r \<noteq> ''SUCCEEDED'' \<and> d = ''MATCHED'') z = Inr ()" for z by (simp only: raise_when_ok simp_thms)
  have "reconcile trust observe now r c = reconciliation_receipt_sealed ?u"
    using assms(1-5) unfolding trusted_observation_def reconcile_def by (simp add: da ok)
  then have "reconcile trust observe now r c = Inr ?x" using reconciliation_sealed_ok [OF chk] by simp
  moreover have "reconciliation_receipt_validate ?x = Inr ()"
    unfolding reconciliation_receipt_validate_def reconciliation_digest_update using chk by (simp add: reconciliation_receipt_digest_def)
  ultimately show thesis using that [of ?x] da by (simp add: unsealed_reconciliation_def)
qed

text \<open>C36. Reconciliation is exact. For a valid receipt and valid currentness evidence of the same admission, with an observation from
  the trusted source, the reconciler answers with a valid receipt that binds the three; it says \<open>MATCHED\<close> if and only if
  the execution succeeded with an observed effect and the independent observation reports an observed effect of the
  same operation with the same effect digest, the same events and the same side effects.\<close>
theorem reconcile_exact:
  assumes "runtime_receipt_validate r = Inr ()" "effect_currentness_validate c = Inr ()" "cu_admission_digest c = xr_admission_digest r"
    "observe (xr_execution_id r) = Inr b" "trusted_observation trust b" "valid_utc now"
  shows "\<exists>x. reconcile trust observe now r c = Inr x \<and> reconciliation_receipt_validate x = Inr ()
    \<and> rx_runtime_execution_receipt_digest x = xr_receipt_digest r \<and> rx_effect_observation_digest x = ob_observation_digest b
    \<and> rx_currentness_evidence_digest x = cu_evidence_digest c
    \<and> (rx_disposition x = ''MATCHED'' \<longleftrightarrow> xr_outcome r = ''SUCCEEDED'' \<and> xr_effect_state r = ''OBSERVED''
         \<and> ob_effect_state b = ''OBSERVED'' \<and> agrees r b)"
proof -
  obtain x where "reconcile trust observe now r c = Inr x" "reconciliation_receipt_validate x = Inr ()"
      "rx_runtime_execution_receipt_digest x = xr_receipt_digest r" "rx_effect_observation_digest x = ob_observation_digest b"
      "rx_currentness_evidence_digest x = cu_evidence_digest c" "rx_disposition x = fst (disposition_of r b)"
    using reconcile_answers [of r c observe b trust now, OF assms] by blast
  then show ?thesis using disposition_cases(1) by (intro exI [of _ x]) simp
qed

section \<open>An example\<close>

text \<open>
  A write of any payload to one file, in a sandbox whose world is the list of payloads it wrote. It is used to show
  that the hypotheses of the properties can hold.
\<close>

definition runtime_hex :: string where
  "runtime_hex = sha256 ''evidence''"

definition example_identity :: runtime_identity where
  "example_identity = \<lparr>ib_workload_identity = ''drone'', ib_execution_subject = ''executor'', ib_runtime_instance_id = ''runtime'',
     ib_sandbox_id = ''sandbox'', ib_workspace_id = ''workspace'', ib_runtime_attestation_digest = runtime_hex,
     ib_provisioned_executor_digest = runtime_hex, ib_schema_version = ''1.1.0''\<rparr>"

definition example_effect :: "string \<Rightarrow> requested_effect" where
  "example_effect payload = \<lparr>qe_effect_id = ''effect'', qe_proposal_id = ''proposal'', qe_mission_id = ''mission:m'', qe_policy_binding = ''policy'',
     qe_authority_lineage_digest = runtime_hex, qe_requested_authority = ''local_write'', qe_action_class = ''WRITE_FILE'', qe_resource = ''docs'',
     qe_payload_digest = sha256 payload, qe_observability_state = ''HEALTHY'',
     qe_runtime_identity_digest = runtime_identity_digest example_identity, qe_schema_version = ''1.1.0''\<rparr>"

definition admission_draft :: "string \<Rightarrow> string \<Rightarrow> runtime_admission" where
  "admission_draft payload evidence = \<lparr>rn_admission_id = ''admission'', rn_request_id = ''request'', rn_gate_event_id = ''gate'', rn_proposal_id = ''proposal'',
     rn_gate_decision_digest = runtime_hex, rn_pdp_receipt_digest = runtime_hex, rn_pdp_evidence_digest = evidence,
     rn_live_authority_digest = runtime_hex, rn_authority_lineage_digest = runtime_hex, rn_policy_binding = ''policy'',
     rn_effective_authority = ''local_write'', rn_requested_effect_digest = requested_effect_digest (example_effect payload),
     rn_runtime_identity_digest = runtime_identity_digest example_identity, rn_provisioned_executor_digest = runtime_hex,
     rn_observability_state = ''HEALTHY'', rn_replay_key = runtime_hex, rn_admission_digest = [], rn_schema_version = ''1.1.0''\<rparr>"

definition admission_for :: "string \<Rightarrow> string \<Rightarrow> runtime_admission" where
  "admission_for payload evidence = (admission_draft payload evidence)\<lparr>rn_admission_digest := runtime_admission_digest (admission_draft payload evidence)\<rparr>"

definition request_for :: "string \<Rightarrow> string \<Rightarrow> execution_request" where
  "request_for payload evidence = \<lparr>xq_execution_id = ''execution'', xq_admission_digest = rn_admission_digest (admission_for payload evidence),
     xq_requested_effect_digest = requested_effect_digest (example_effect payload),
     xq_runtime_identity_digest = runtime_identity_digest example_identity, xq_provisioned_executor_digest = runtime_hex,
     xq_mission_id = ''mission:m'', xq_executor_id = ''executor'', xq_runtime_instance_id = ''runtime'', xq_sandbox_id = ''sandbox'',
     xq_workspace_id = ''workspace'', xq_dispatch_id = runtime_hex, xq_fencing_token = runtime_hex, xq_generation = 1,
     xq_action = ''WRITE_FILE'', xq_resource = ''docs'', xq_payload_digest = sha256 payload, xq_payload_size = int (length payload),
     xq_command = [], xq_schema_version = ''1.0.0''\<rparr>"

definition sandbox_writes :: "sandbox_operation \<Rightarrow> string \<Rightarrow> (string list, sandbox_receipt) op" where
  "sandbox_writes p payload w = (Inr \<lparr>sr_receipt_id = ''receipt'', sr_operation_id = sb_operation_id p,
     sr_operation_digest = sandbox_operation_digest p, sr_policy_digest = sb_policy_digest p, sr_authority_binding_digest = runtime_hex,
     sr_runtime_binding_digest = runtime_hex, sr_fleet_dispatch_binding_digest = runtime_hex, sr_provisioning_binding_digest = runtime_hex,
     sr_mission_id = sb_mission_id p, sr_drone_id = sb_drone_id p, sr_executor_id = sb_executor_id p, sr_sandbox_id = sb_sandbox_id p,
     sr_workspace_id = sb_workspace_id p, sr_dispatch_id = sb_dispatch_id p, sr_fencing_token = sb_fencing_token p,
     sr_generation = sb_generation p, sr_runtime_instance_id = ''runtime'', sr_runtime_attestation_digest = runtime_hex,
     sr_action = sb_action p, sr_outcome = ''SUCCEEDED'', sr_effect_digest = sha256 payload, sr_output_digest = runtime_hex,
     sr_bytes_read = 0, sr_bytes_written = int (length payload), sr_exit_code = None, sr_observed_events = [''written''],
     sr_side_effect_refs = [''file''], sr_schema_version = ''2.0.0''\<rparr>, w @ [payload])"

definition example_instant :: utc_time where
  "example_instant = \<lparr>year = 2026, month = 1, day = 5, hour = 6, minute = 0, second = 0, microsecond = 0\<rparr>"

definition example_table :: "string \<Rightarrow> string \<Rightarrow> admission_table" where
  "example_table payload evidence = snd (publish_admission (admission_for payload evidence) runtime_hex example_instant (\<lambda>_. None))"

definition engine_call_example :: "string \<Rightarrow> string \<Rightarrow> string list engine_call" where
  "engine_call_example payload evidence = \<lparr>ek_resolve = resolve_admission (example_table payload evidence),
     ek_is_current = is_current_admission (example_table payload evidence), ek_now = example_instant, ek_policy_digest = runtime_hex,
     ek_sandbox = sandbox_writes, ek_admission = admission_for payload evidence, ek_request = request_for payload evidence,
     ek_effect = example_effect payload, ek_identity = example_identity, ek_payload = payload\<rparr>"

lemma runtime_texts: "list_all (\<lambda>t. \<not> text_invalid 2048 t) [''drone'', ''executor'', ''runtime'', ''sandbox'', ''workspace'', ''effect'', ''proposal'',
    ''mission:m'', ''policy'', ''local_write'', ''WRITE_FILE'', ''docs'', ''admission'', ''request'', ''gate'', ''execution'', ''receipt'',
    ''observation'', ''source'', ''instance'', ''anchor'', ''currentness'']"
  by code_simp

lemma example_hexes: "is_hex 64 runtime_hex" "is_hex 64 (runtime_identity_digest i)" "is_hex 64 (requested_effect_digest e)"
  "is_hex 64 (runtime_admission_digest a)" "is_hex 64 (sandbox_operation_digest p)" "is_hex 64 (execution_request_digest q)"
  "is_hex 64 (sandbox_receipt_digest r)"
  by (simp_all add: runtime_hex_def runtime_identity_digest_def requested_effect_digest_def runtime_admission_digest_def
      sandbox_operation_digest_def execution_request_digest_def sandbox_receipt_digest_def)

lemma runtime_admission_update [simp]: "runtime_admission_digest (a\<lparr>rn_admission_digest := d\<rparr>) = runtime_admission_digest a"
  "runtime_admission_check (a\<lparr>rn_admission_digest := d\<rparr>) = runtime_admission_check a"
  by (simp_all add: runtime_admission_digest_def runtime_admission_json_def runtime_admission_check_def)

lemma admission_for_valid: "is_hex 64 evidence \<Longrightarrow> runtime_admission_validate (admission_for payload evidence) = Inr ()"
  using runtime_texts
  by (simp add: runtime_admission_validate_def admission_for_def example_hexes)
     (simp add: runtime_admission_check_def admission_draft_def example_hexes observability_states_def)

lemma example_instant_valid: "valid_utc example_instant"
  by code_simp

lemma example_published: "is_hex 64 evidence \<Longrightarrow> publish_admission (admission_for payload evidence) runtime_hex example_instant (\<lambda>_. None)
    = (Inr (rn_admission_digest (admission_for payload evidence)), example_table payload evidence)"
  by (simp add: example_table_def publish_admission_def admission_for_valid example_hexes split: sum.split)

lemma request_for_valid: "payload \<noteq> [] \<Longrightarrow> execution_request_validate (request_for payload evidence) = Inr ()"
  using runtime_texts
  by (simp add: execution_request_validate_def request_for_def admission_for_def example_hexes runtime_actions_def Suc_le_eq)

lemma example_inputs_valid: "requested_effect_validate (example_effect payload) = Inr ()" "runtime_identity_validate example_identity = Inr ()"
  using runtime_texts
  by (simp_all add: requested_effect_validate_def runtime_identity_validate_def example_effect_def example_identity_def example_hexes
      observability_states_def)

lemma example_path: "sandbox_path ''docs'' = Inr ()"
  by code_simp

lemma engine_call_example_sel [simp]: "ek_admission (engine_call_example payload evidence) = admission_for payload evidence"
  "ek_request (engine_call_example payload evidence) = request_for payload evidence" "ek_effect (engine_call_example payload evidence) = example_effect payload"
  "ek_identity (engine_call_example payload evidence) = example_identity" "ek_payload (engine_call_example payload evidence) = payload"
  "ek_policy_digest (engine_call_example payload evidence) = runtime_hex" "ek_now (engine_call_example payload evidence) = example_instant"
  "ek_sandbox (engine_call_example payload evidence) = sandbox_writes"
  "ek_resolve (engine_call_example payload evidence) = resolve_admission (example_table payload evidence)"
  "ek_is_current (engine_call_example payload evidence) = is_current_admission (example_table payload evidence)"
  by (simp_all add: engine_call_example_def)

lemma example_resolves:
  assumes "is_hex 64 evidence"
  shows "resolve_admission (example_table payload evidence) (rn_admission_digest (admission_for payload evidence)) = Inr (admission_for payload evidence)"
    "is_current_admission (example_table payload evidence) (rn_admission_digest (admission_for payload evidence)) = Inr True"
proof -
  let ?a = "admission_for payload evidence"
  have row: "example_table payload evidence (rn_admission_digest ?a) = Some (admission_row_of ?a runtime_hex example_instant)"
    using admissions.registered_present [of "(?a, runtime_hex, example_instant)" "\<lambda>_. None"] example_published [OF assms] by simp
  have "is_hex 64 (rn_admission_digest ?a)" using admission_for_valid [OF assms] by (rule runtime_admission_hex)
  moreover have "utc_text example_instant \<noteq> []" by (simp add: utc_text_def)
  ultimately show "resolve_admission (example_table payload evidence) (rn_admission_digest ?a) = Inr ?a"
    using row admission_for_valid [OF assms] example_instant_valid
    by (simp add: resolve_admission_def admission_row_of_def example_hexes zoned_text_def strict_runtime_admission_def)
  then show "is_current_admission (example_table payload evidence) (rn_admission_digest ?a) = Inr True"
    by (simp add: is_current_admission_def)
qed

lemma example_bindings: "payload \<noteq> [] \<Longrightarrow>
    validate_bindings (admission_for payload evidence) (request_for payload evidence) (example_effect payload) example_identity payload = Inr ()"
  using request_for_valid [of payload evidence] example_inputs_valid
  by (simp add: validate_bindings_def)
     (simp add: request_for_def admission_for_def admission_draft_def example_effect_def example_identity_def)

lemma example_operation: "sandbox_operation_validate (operation_of runtime_hex (request_for payload evidence) example_identity) = Inr ()"
  using runtime_texts example_path
  by (simp add: sandbox_operation_validate_def operation_of_def checks_map_ok)
     (simp add: request_for_def example_identity_def example_hexes runtime_actions_def)

lemma example_prepared:
  assumes "is_hex 64 evidence" "payload \<noteq> []"
  shows "prepare (engine_call_example payload evidence) = Inr ()"
  using example_bindings [OF assms(2)] example_operation example_resolves [OF assms(1)] admission_for_valid [OF assms(1)]
  by (simp add: prepare_def and_then_ok canonical_admission_ok call_operation_def)

definition example_answer :: "string \<Rightarrow> string \<Rightarrow> sandbox_receipt" where
  "example_answer payload evidence = projr (fst (sandbox_writes (call_operation (engine_call_example payload evidence)) payload []))"

lemma example_sandbox: "sandbox_writes (call_operation (engine_call_example payload evidence)) payload w = (Inr (example_answer payload evidence), w @ [payload])"
  by (simp add: example_answer_def sandbox_writes_def)

lemma example_trustworthy: "trustworthy runtime_hex (request_for payload evidence) (call_operation (engine_call_example payload evidence)) (example_answer payload evidence)"
proof -
  have "sandbox_receipt_validate (example_answer payload evidence) = Inr ()"
    using runtime_texts
    by (simp add: sandbox_receipt_validate_def checks_map_ok example_answer_def sandbox_writes_def call_operation_def operation_of_def)
       (simp add: request_for_def example_identity_def example_hexes runtime_actions_def runtime_outcomes_def)
  then show ?thesis
    by (simp add: trustworthy_def receipt_bound_def example_answer_def sandbox_writes_def call_operation_def operation_of_def)
       (simp add: request_for_def)
qed

lemma example_consumed:
  assumes "is_hex 64 evidence"
  shows "\<exists>row. sqlite_consume example_instant (rn_admission_digest (admission_for payload evidence)) ''execution'' [] = (Inr True, [row])
    \<and> cw_admission_digest row = rn_admission_digest (admission_for payload evidence)"
proof -
  have "\<not> blank x \<Longrightarrow> nul \<notin> set x \<Longrightarrow> is_hex 64 d \<Longrightarrow> sqlite_consume now d x [] = (Inr True, [\<lparr>cw_admission_digest = d,
      cw_execution_id = x, cw_consumed_at = utc_text now, cw_schema_id = RUNTIME_STATE_SCHEMA\<rparr>])" for now d x
    by (simp add: sqlite_consume_def)
  moreover have "\<not> blank ''execution''" "nul \<notin> set ''execution''" by code_simp+
  moreover have "is_hex 64 (rn_admission_digest (admission_for payload evidence))" using admission_for_valid [OF assms] by (rule runtime_admission_hex)
  ultimately show ?thesis by (metis consumption_row.select_convs(1))
qed

text \<open>The receipt of the example.\<close>

definition example_receipt :: "string \<Rightarrow> string \<Rightarrow> runtime_receipt" where
  "example_receipt payload evidence = (let u = unsealed_receipt (admission_for payload evidence) (request_for payload evidence)
       (call_operation (engine_call_example payload evidence)) (example_answer payload evidence)
     in u\<lparr>xr_receipt_digest := runtime_receipt_digest u\<rparr>)"

lemma example_executes:
  assumes "is_hex 64 evidence" "payload \<noteq> []"
  obtains row where "engine_execute sqlite_consume (engine_call_example payload evidence) ([], w) = (Inr (example_receipt payload evidence), [row], w @ [payload])"
    "cw_admission_digest row = rn_admission_digest (admission_for payload evidence)"
proof -
  obtain row where row: "sqlite_consume example_instant (rn_admission_digest (admission_for payload evidence)) ''execution'' [] = (Inr True, [row])"
      "cw_admission_digest row = rn_admission_digest (admission_for payload evidence)"
    using example_consumed [OF assms(1)] by blast
  have "xq_execution_id (request_for payload evidence) = ''execution''" by (simp add: request_for_def)
  then have "engine_execute sqlite_consume (engine_call_example payload evidence) ([], w)
      = (sandbox_answer runtime_hex (admission_for payload evidence) (request_for payload evidence)
          (call_operation (engine_call_example payload evidence)) (example_answer payload evidence), [row], w @ [payload])"
    using example_prepared [OF assms] row(1) by (simp add: engine_execute_def example_sandbox)
  moreover have "is_hex 64 (rn_admission_digest (admission_for payload evidence))" using admission_for_valid [OF assms(1)] by (rule runtime_admission_hex)
  ultimately show thesis using that row(2) sandbox_answer_trustworthy [OF request_for_valid [OF assms(2)] _ example_trustworthy]
    by (simp add: example_receipt_def Let_def)
qed

text \<open>The second call with the same admission.\<close>
theorem admission_acts_once_witness:
  "\<exists>s1 r' s2. engine_execute sqlite_consume (engine_call_example ''data'' runtime_hex) ([], []) = (Inr (example_receipt ''data'' runtime_hex), s1)
    \<and> snd s1 = [''data''] \<and> engine_execute sqlite_consume (engine_call_example ''data'' runtime_hex) s1 = (r', s2)
    \<and> snd s2 = [''data''] \<and> (\<exists>x. r' = Inl x)"
proof -
  obtain row where e: "engine_execute sqlite_consume (engine_call_example ''data'' runtime_hex) ([], []) = (Inr (example_receipt ''data'' runtime_hex), [row], [''data''])"
    using example_executes [OF example_hexes(1), of "''data''" "[]"] by auto
  obtain r' s2 where e2: "engine_execute sqlite_consume (engine_call_example ''data'' runtime_hex) ([row], [''data'']) = (r', s2)" by (metis surj_pair)
  have "(\<exists>x. r' = Inl x) \<and> snd s2 = [''data'']"
    using admission_acts_once [of "engine_call_example ''data'' runtime_hex" "([], [])" "Inr (example_receipt ''data'' runtime_hex)" "([row], [''data''])"
        "engine_call_example ''data'' runtime_hex" "[]" r' s2] e e2 by simp
  then show ?thesis using e e2 by (intro exI [of _ "([row], [''data''])"] exI [of _ r'] exI [of _ s2]) simp
qed


text \<open>The answer of the example sandbox becomes a receipt.\<close>
theorem receipt_exact_witness: "prepare (engine_call_example ''data'' runtime_hex) = Inr ()
  \<and> (\<exists>x s1. engine_execute sqlite_consume (engine_call_example ''data'' runtime_hex) ([], []) = (Inr x, s1) \<and> xr_outcome x = ''SUCCEEDED'')"
proof -
  let ?k = "engine_call_example ''data'' runtime_hex"
  have p: "prepare ?k = Inr ()" using example_prepared [OF example_hexes(1)] by simp
  obtain row where c: "sqlite_consume (ek_now ?k) (rn_admission_digest (ek_admission ?k)) (xq_execution_id (ek_request ?k)) [] = (Inr True, [row])"
    using example_consumed [OF example_hexes(1)] by (auto simp: request_for_def)
  have sb: "ek_sandbox ?k (call_operation ?k) (ek_payload ?k) [] = (Inr (example_answer ''data'' runtime_hex), [''data''])" by (simp add: example_sandbox)
  obtain x where "engine_execute sqlite_consume ?k ([], []) = (Inr x, [row], [''data''])" "xr_outcome x = sr_outcome (example_answer ''data'' runtime_hex)"
    using receipt_exact [where consume = sqlite_consume and g = "[]", OF p sb c] example_trustworthy [of "''data''" runtime_hex] by auto
  moreover have "sr_outcome (example_answer ''data'' runtime_hex) = ''SUCCEEDED''" by (simp add: example_answer_def sandbox_writes_def)
  ultimately show ?thesis using p by auto
qed

text \<open>The published admission of the example.\<close>
theorem published_admission_resolves_witness:
  "publish_admission (admission_for ''data'' runtime_hex) runtime_hex example_instant (\<lambda>_. None)
     = (Inr (rn_admission_digest (admission_for ''data'' runtime_hex)), example_table ''data'' runtime_hex)
   \<and> resolve_admission (example_table ''data'' runtime_hex) (rn_admission_digest (admission_for ''data'' runtime_hex)) = Inr (admission_for ''data'' runtime_hex)"
  using published_admission_resolves [OF example_published [OF example_hexes(1)] example_instant_valid, of "''data''" "[]"]
    example_published [OF example_hexes(1), of "''data''"] by (simp add: Let_def)

text \<open>The evidence around the execution of the example.\<close>

definition currentness_draft :: "string \<Rightarrow> string \<Rightarrow> effect_currentness" where
  "currentness_draft payload evidence = (let a = admission_for payload evidence in \<lparr>cu_evidence_id = ''currentness'',
     cu_admission_digest = rn_admission_digest a, cu_requested_effect_digest = rn_requested_effect_digest a,
     cu_runtime_identity_digest = rn_runtime_identity_digest a, cu_live_authority_digest = rn_live_authority_digest a,
     cu_authority_lineage_digest = rn_authority_lineage_digest a, cu_policy_binding = rn_policy_binding a,
     cu_observability_state = rn_observability_state a, cu_source_id = ''source'', cu_source_instance_id = ''instance'',
     cu_source_implementation_digest = runtime_hex, cu_trust_anchor_id = ''anchor'', cu_trust_anchor_digest = runtime_hex,
     cu_observed_at = utc_text example_instant, cu_evidence_digest = [], cu_schema_version = ''1.0.0''\<rparr>)"

definition currentness_for :: "string \<Rightarrow> string \<Rightarrow> effect_currentness" where
  "currentness_for payload evidence = (currentness_draft payload evidence)\<lparr>cu_evidence_digest := effect_currentness_digest (currentness_draft payload evidence)\<rparr>"

definition observation_draft :: "string \<Rightarrow> string \<Rightarrow> effect_observation" where
  "observation_draft payload evidence = (let r = example_receipt payload evidence in \<lparr>ob_observation_id = ''observation'',
     ob_execution_id = xr_execution_id r, ob_admission_digest = xr_admission_digest r, ob_request_digest = xr_request_digest r,
     ob_operation_digest = xr_operation_digest r, ob_action = xr_action r, ob_resource = xr_resource r, ob_effect_state = ''OBSERVED'',
     ob_effect_digest = xr_effect_digest r, ob_observed_events = xr_observed_events r, ob_side_effect_refs = xr_side_effect_refs r,
     ob_source_id = ''source'', ob_source_instance_id = ''instance'', ob_source_implementation_digest = runtime_hex,
     ob_trust_anchor_id = ''anchor'', ob_trust_anchor_digest = runtime_hex, ob_observed_at = utc_text example_instant,
     ob_observation_digest = [], ob_schema_version = ''1.0.0''\<rparr>)"

definition observation_for :: "string \<Rightarrow> string \<Rightarrow> effect_observation" where
  "observation_for payload evidence = (observation_draft payload evidence)\<lparr>ob_observation_digest := effect_observation_digest (observation_draft payload evidence)\<rparr>"

definition example_trust :: trust_binding where
  "example_trust = \<lparr>tb_source_id = ''source'', tb_source_instance_id = ''instance'', tb_source_implementation_digest = runtime_hex,
     tb_trust_anchor_id = ''anchor'', tb_trust_anchor_digest = runtime_hex, tb_schema_version = ''1.0.0''\<rparr>"

lemma effect_currentness_update [simp]: "effect_currentness_digest (c\<lparr>cu_evidence_digest := d\<rparr>) = effect_currentness_digest c"
  "effect_currentness_check (c\<lparr>cu_evidence_digest := d\<rparr>) = effect_currentness_check c"
  by (simp_all add: effect_currentness_digest_def effect_currentness_json_def effect_currentness_check_def)

lemma effect_observation_update [simp]: "effect_observation_digest (b\<lparr>ob_observation_digest := d\<rparr>) = effect_observation_digest b"
  "effect_observation_check (b\<lparr>ob_observation_digest := d\<rparr>) = effect_observation_check b"
  by (simp_all add: effect_observation_digest_def effect_observation_json_def effect_observation_check_def)

lemma example_receipt_facts:
  assumes "is_hex 64 evidence" "payload \<noteq> []"
  shows "runtime_receipt_validate (example_receipt payload evidence) = Inr ()"
    "xr_execution_id (example_receipt payload evidence) = ''execution''" "xr_action (example_receipt payload evidence) = ''WRITE_FILE''"
    "xr_resource (example_receipt payload evidence) = ''docs''" "xr_outcome (example_receipt payload evidence) = ''SUCCEEDED''"
    "xr_effect_state (example_receipt payload evidence) = ''OBSERVED''" "xr_observed_events (example_receipt payload evidence) = [''written'']"
    "xr_side_effect_refs (example_receipt payload evidence) = [''file'']" "xr_effect_digest (example_receipt payload evidence) = sha256 payload"
    "xr_admission_digest (example_receipt payload evidence) = rn_admission_digest (admission_for payload evidence)"
proof -
  let ?u = "unsealed_receipt (admission_for payload evidence) (request_for payload evidence) (call_operation (engine_call_example payload evidence))
    (example_answer payload evidence)"
  have "is_hex 64 (rn_admission_digest (admission_for payload evidence))" using admission_for_valid [OF assms(1)] by (rule runtime_admission_hex)
  then have "runtime_receipt_check ?u = Inr ()" by (rule unsealed_receipt_ok [OF request_for_valid [OF assms(2)] _ example_trustworthy])
  then show "runtime_receipt_validate (example_receipt payload evidence) = Inr ()"
    by (simp add: example_receipt_def Let_def runtime_receipt_validate_def) (simp add: runtime_receipt_digest_def)
qed (simp_all add: example_receipt_def unsealed_receipt_def Let_def example_answer_def sandbox_writes_def effect_state_of_def,
     simp_all add: request_for_def)

lemma currentness_for_valid:
  assumes "is_hex 64 evidence"
  shows "effect_currentness_validate (currentness_for payload evidence) = Inr ()"
proof -
  have "is_hex 64 (rn_admission_digest (admission_for payload evidence))" using admission_for_valid [OF assms] by (rule runtime_admission_hex)
  then have "effect_currentness_check (currentness_draft payload evidence) = Inr ()"
    using runtime_texts valid_time_utc [OF example_instant_valid]
    by (simp add: effect_currentness_check_def currentness_draft_def Let_def example_hexes)
       (simp add: admission_for_def admission_draft_def observability_states_def example_hexes)
  then show ?thesis by (simp add: currentness_for_def effect_currentness_validate_def) (simp add: effect_currentness_digest_def)
qed

lemma observation_for_valid:
  assumes "is_hex 64 evidence" "payload \<noteq> []"
  shows "trusted_observation example_trust (observation_for payload evidence)"
proof -
  note r = example_receipt_facts [OF assms]
  have d: "is_hex 64 (xr_request_digest (example_receipt payload evidence))" "is_hex 64 (xr_operation_digest (example_receipt payload evidence))"
    by (simp_all add: example_receipt_def Let_def unsealed_receipt_def example_hexes)
  have "is_hex 64 (rn_admission_digest (admission_for payload evidence))" using admission_for_valid [OF assms(1)] by (rule runtime_admission_hex)
  then have "effect_observation_check (observation_draft payload evidence) = Inr ()"
    using runtime_texts valid_time_utc [OF example_instant_valid] r(2-10) d
    by (simp add: effect_observation_check_def observation_draft_def Let_def example_hexes effect_states_def)
  then have "effect_observation_validate (observation_for payload evidence) = Inr ()"
    by (simp add: observation_for_def effect_observation_validate_def) (simp add: effect_observation_digest_def)
  then show ?thesis
    by (simp add: trusted_observation_def) (simp add: observation_for_def observation_draft_def example_trust_def trust_of_def Let_def)
qed

text \<open>The reconciliation of the example.\<close>
theorem reconcile_exact_witness: "\<exists>x. reconcile example_trust (\<lambda>_. Inr (observation_for ''data'' runtime_hex)) example_instant
    (example_receipt ''data'' runtime_hex) (currentness_for ''data'' runtime_hex) = Inr x \<and> rx_disposition x = ''MATCHED''"
proof -
  have ne: "''data'' \<noteq> []" by simp
  note r = example_receipt_facts [OF example_hexes(1) ne]
  have "cu_admission_digest (currentness_for ''data'' runtime_hex) = xr_admission_digest (example_receipt ''data'' runtime_hex)"
    using r(10) by (simp add: currentness_for_def currentness_draft_def Let_def)
  moreover have "agrees (example_receipt ''data'' runtime_hex) (observation_for ''data'' runtime_hex)"
    "ob_effect_state (observation_for ''data'' runtime_hex) = ''OBSERVED''"
    by (simp_all add: agrees_def same_operation_def observation_for_def observation_draft_def Let_def)
  ultimately show ?thesis
    using reconcile_exact [OF r(1) currentness_for_valid [OF example_hexes(1)] _ _ observation_for_valid [OF example_hexes(1) ne] example_instant_valid]
      r(5,6) by metis
qed

text \<open>
  An aborted execution whose receipt admits a partly unknown effect is reported as reconciled whatever the observation
  says, unless the observation is unknown: also when it describes another operation or another effect.
\<close>

lemma partial_effect_reconciled:
  assumes "xr_outcome r = ''ABORTED''" "xr_effect_state r = ''PARTIAL_UNKNOWN''" "ob_effect_state b \<noteq> ''UNKNOWN''"
  shows "disposition_of r b = (''NON_SUCCESS_RECONCILED'', evidence_anomalies r b)"
  using assms by (simp add: disposition_of_def Let_def)

end
