(* ===== verification/Process_Evidence.thy ===== *)
theory Process_Evidence
  imports Process_Props Runtime_Props Action_IR
begin

text \<open>
  enterprise/process_outcome_evidence.py: the chain of evidence that a passed action needs, from the intent of the process
  over the action, its proposal, the policy decision, the runtime admission, the currentness, the execution and its independent
  observation to the reconciliation. The check of the chain is the argument of the process semantics; here the two are put
  together.
\<close>

abbreviation evidence_when :: "bool \<Rightarrow> string \<Rightarrow> unit res" where
  "evidence_when b m \<equiv> raise_when b ProcessOutcomeEvidenceError m"

record downstream_evidence =
  de_action_intent :: action_intent
  de_action_ir :: canonical_action
  de_proposal_context :: proposal_context
  de_proposal :: action_proposal
  de_pdp_evidence :: pdp_evidence
  de_runtime_identity :: runtime_identity
  de_requested_effect :: requested_effect
  de_admission :: runtime_admission
  de_effect_currentness :: effect_currentness
  de_execution_receipt :: runtime_receipt
  de_effect_observation :: effect_observation
  de_reconciliation :: reconciliation_receipt

definition contracts_valid :: "downstream_evidence \<Rightarrow> transition_outcome \<Rightarrow> unit res" where
  "contracts_valid e x = wrap_errors (\<lambda>_. True) (Exn ProcessOutcomeEvidenceError ''canonical downstream contract validation failed'') (checks [
     outcome_validate x, action_intent_validate (de_action_intent e), canonical_action_validate (de_action_ir e),
     proposal_context_validate (de_proposal_context e), proposal_validate (de_proposal e), pdp_evidence_validate (de_pdp_evidence e),
     runtime_identity_validate (de_runtime_identity e), requested_effect_validate (de_requested_effect e),
     runtime_admission_validate (de_admission e), effect_currentness_validate (de_effect_currentness e),
     runtime_receipt_validate (de_execution_receipt e), effect_observation_validate (de_effect_observation e),
     reconciliation_receipt_validate (de_reconciliation e)])"

definition intent_link :: "downstream_evidence \<Rightarrow> string \<times> string \<times> string \<times> string \<Rightarrow> unit res" where
  "intent_link e ids = (let i = de_action_intent e; m = ca_model (de_action_ir e); mission_ref = snd (snd (snd ids)) in checks [
     evidence_when (in_action_intent_digest i = []) ''unsealed ActionIntentCandidate denied'',
     evidence_when (in_action_intent_digest i \<noteq> intent_digest i) ''ActionIntentCandidate digest mismatch'',
     evidence_when ((in_process_id i, in_process_ir_digest i, in_transition_id i, in_mission_ref i) \<noteq> ids)
       ''process-to-ActionIntent binding mismatch'',
     evidence_when (ac_intent_ref m \<noteq> in_action_intent_digest i) ''Action IR does not bind selected ActionIntentCandidate'',
     evidence_when (ac_mission_ref m \<noteq> mission_ref) ''Action IR mission binding mismatch'',
     evidence_when (aq_capability (ac_authority_request m) \<noteq> in_required_capability i) ''Action IR capability binding mismatch''])"

definition proposal_link :: "downstream_evidence \<Rightarrow> transition_outcome \<Rightarrow> string \<Rightarrow> unit res" where
  "proposal_link e x mission_ref = and_then (wrap_errors (\<lambda>_. True) (Exn ProcessOutcomeEvidenceError ''canonical ActionProposal binding failed'')
       (bind_lair_to_action_proposal (de_action_ir e) (de_proposal_context e))) (\<lambda>expected. checks [
     evidence_when (expected \<noteq> de_proposal e) ''ActionProposal substitution denied'',
     evidence_when (px_mission_id (de_proposal_context e) \<noteq> mission_ref \<or> ap_mission_id (de_proposal e) \<noteq> mission_ref)
       ''ActionProposal mission binding mismatch'',
     evidence_when (ap_payload_digest (de_proposal e) \<noteq> Some (ca_payload_digest (de_action_ir e)))
       ''ActionProposal payload is not bound to canonical Action IR'',
     evidence_when (oc_action_ref x \<noteq> ca_payload_digest (de_action_ir e)) ''outcome action_ref does not bind canonical Action IR'',
     evidence_when (oc_proposal_digest x \<noteq> proposal_context_digest (de_proposal_context e))
       ''outcome proposal_digest does not bind canonical proposal context''])"

definition admission_link :: "downstream_evidence \<Rightarrow> transition_outcome \<Rightarrow> unit res" where
  "admission_link e x = (let p = de_pdp_evidence e; a = de_admission e; q = de_requested_effect e; i = de_runtime_identity e;
       prop = de_proposal e in checks [
     evidence_when ((pv_request_id p, pv_gate_event_id p, pv_proposal_id p, pv_gate_decision_digest p, pv_pdp_receipt_digest p,
         pv_policy_binding p, pv_authority_lineage_digest p, pv_replay_key p)
       \<noteq> (rn_request_id a, rn_gate_event_id a, rn_proposal_id a, rn_gate_decision_digest a, rn_pdp_receipt_digest a,
         rn_policy_binding a, rn_authority_lineage_digest a, rn_replay_key a)) ''PDP evidence/admission binding mismatch'',
     evidence_when (rn_pdp_evidence_digest a \<noteq> pv_evidence_digest p) ''RuntimeAdmission does not bind canonical PDP evidence'',
     evidence_when (pv_proposal_id p \<noteq> ap_proposal_id prop) ''PDP evidence proposal substitution denied'',
     evidence_when ((qe_proposal_id q, qe_mission_id q, qe_requested_authority q, qe_action_class q, qe_resource q, Some (qe_payload_digest q),
         qe_policy_binding q, qe_authority_lineage_digest q)
       \<noteq> (ap_proposal_id prop, ap_mission_id prop, ap_requested_authority prop, ap_action_class prop, ap_target prop, ap_payload_digest prop,
         rn_policy_binding a, rn_authority_lineage_digest a)) ''ActionProposal/requested-effect binding mismatch'',
     evidence_when (qe_runtime_identity_digest q \<noteq> runtime_identity_digest i) ''RequestedRuntimeEffect runtime identity mismatch'',
     evidence_when (rn_requested_effect_digest a \<noteq> requested_effect_digest q) ''RuntimeAdmission requested-effect binding mismatch'',
     evidence_when (rn_runtime_identity_digest a \<noteq> runtime_identity_digest i) ''RuntimeAdmission runtime identity mismatch'',
     evidence_when (rn_provisioned_executor_digest a \<noteq> ib_provisioned_executor_digest i) ''RuntimeAdmission executor binding mismatch'',
     evidence_when (oc_admission_ref x \<noteq> rn_admission_digest a) ''outcome admission_ref does not bind RuntimeAdmission''])"

definition currentness_link :: "downstream_evidence \<Rightarrow> unit res" where
  "currentness_link e = (let c = de_effect_currentness e; a = de_admission e in evidence_when
     ((cu_admission_digest c, cu_requested_effect_digest c, cu_runtime_identity_digest c, cu_live_authority_digest c,
         cu_authority_lineage_digest c, cu_policy_binding c, cu_observability_state c)
       \<noteq> (rn_admission_digest a, rn_requested_effect_digest a, rn_runtime_identity_digest a, rn_live_authority_digest a,
         rn_authority_lineage_digest a, rn_policy_binding a, rn_observability_state a)) ''effect-time currentness/admission binding mismatch'')"

definition execution_link :: "downstream_evidence \<Rightarrow> transition_outcome \<Rightarrow> unit res" where
  "execution_link e x = (let r = de_execution_receipt e; a = de_admission e; q = de_requested_effect e; i = de_runtime_identity e in checks [
     evidence_when (xr_outcome r \<noteq> ''SUCCEEDED'' \<or> xr_effect_state r \<noteq> ''OBSERVED'')
       ''ACTION_REQUIRED PASS requires successful observed runtime execution'',
     evidence_when ((xr_admission_digest r, xr_mission_id r, xr_runtime_instance_id r, xr_sandbox_id r, xr_workspace_id r, xr_action r,
         xr_resource r, xr_payload_digest r)
       \<noteq> (rn_admission_digest a, ap_mission_id (de_proposal e), ib_runtime_instance_id i, ib_sandbox_id i, ib_workspace_id i,
         qe_action_class q, qe_resource q, qe_payload_digest q)) ''runtime execution binding mismatch'',
     evidence_when (oc_effect_ref x \<noteq> xr_effect_digest r) ''outcome effect_ref does not bind observed runtime effect''])"

definition observation_link :: "downstream_evidence \<Rightarrow> transition_outcome \<Rightarrow> unit res" where
  "observation_link e x = (let b = de_effect_observation e; r = de_execution_receipt e in checks [
     evidence_when (ob_effect_state b \<noteq> ''OBSERVED'') ''ACTION_REQUIRED PASS requires independent observed effect'',
     evidence_when ((ob_execution_id b, ob_admission_digest b, ob_request_digest b, ob_operation_digest b, ob_action b, ob_resource b,
         ob_effect_digest b, ob_observed_events b, set (ob_side_effect_refs b))
       \<noteq> (xr_execution_id r, xr_admission_digest r, xr_request_digest r, xr_operation_digest r, xr_action r, xr_resource r,
         xr_effect_digest r, xr_observed_events r, set (xr_side_effect_refs r))) ''independent observation/runtime receipt binding mismatch'',
     evidence_when (oc_observation_ref x \<noteq> ob_observation_digest b) ''outcome observation_ref does not bind independent observation''])"

definition reconciliation_link :: "downstream_evidence \<Rightarrow> transition_outcome \<Rightarrow> unit res" where
  "reconciliation_link e x = (let y = de_reconciliation e; r = de_execution_receipt e in checks [
     evidence_when (rx_disposition y \<noteq> ''MATCHED'' \<or> rx_anomaly_codes y \<noteq> [])
       ''ACTION_REQUIRED PASS requires MATCHED anomaly-free reconciliation'',
     evidence_when ((rx_runtime_execution_receipt_digest y, rx_effect_observation_digest y, rx_currentness_evidence_digest y,
         rx_execution_id y, rx_admission_digest y, rx_reconciled_effect_digest y)
       \<noteq> (xr_receipt_digest r, ob_observation_digest (de_effect_observation e), cu_evidence_digest (de_effect_currentness e),
         xr_execution_id r, rn_admission_digest (de_admission e), xr_effect_digest r)) ''runtime reconciliation chain mismatch'',
     evidence_when (oc_reconciliation_ref x \<noteq> rx_reconciliation_digest y) ''outcome reconciliation_ref does not bind canonical reconciliation''])"

definition downstream_validate_for :: "downstream_evidence \<Rightarrow> transition_outcome \<Rightarrow> string \<times> string \<times> string \<times> string \<Rightarrow> unit res" where
  "downstream_validate_for e x ids = checks [contracts_valid e x, intent_link e ids, proposal_link e x (snd (snd (snd ids))),
     admission_link e x, currentness_link e, execution_link e x, observation_link e x, reconciliation_link e x]"

section \<open>What an accepted chain says\<close>

lemma downstream_links:
  assumes "downstream_validate_for e x ids = Inr ()"
  shows "contracts_valid e x = Inr ()" "intent_link e ids = Inr ()" "proposal_link e x (snd (snd (snd ids))) = Inr ()"
    "admission_link e x = Inr ()" "currentness_link e = Inr ()" "execution_link e x = Inr ()" "observation_link e x = Inr ()"
    "reconciliation_link e x = Inr ()"
  using assms by (simp_all add: downstream_validate_for_def)

lemma contracts_valid_parts:
  assumes "contracts_valid e x = Inr ()"
  shows "canonical_action_validate (de_action_ir e) = Inr ()" "runtime_admission_validate (de_admission e) = Inr ()"
    "runtime_receipt_validate (de_execution_receipt e) = Inr ()" "effect_observation_validate (de_effect_observation e) = Inr ()"
    "reconciliation_receipt_validate (de_reconciliation e) = Inr ()" "effect_currentness_validate (de_effect_currentness e) = Inr ()"
    "pdp_evidence_validate (de_pdp_evidence e) = Inr ()"
  using assms by (simp_all add: contracts_valid_def)

lemma bound_proposal: "bind_lair_to_action_proposal ir c = Inr p \<Longrightarrow> p = proposal_of ir c"
  by (auto simp: bind_lair_to_action_proposal_def and_then_ok)

lemma canonical_action_digest: "canonical_action_validate c = Inr () \<Longrightarrow> ca_payload_digest c = sha256 (canonical_action_ir_bytes (ca_model c))"
  by (simp add: canonical_action_validate_def action_ir_payload_digest_def)

text \<open>
  The effect an accepted chain stands for, from its end to its beginning: a reconciliation that reports a match without anomalies of
  exactly this execution, observation and currentness; ...
\<close>

definition effect_reconciled :: "downstream_evidence \<Rightarrow> bool" where
  "effect_reconciled e \<longleftrightarrow> (let y = de_reconciliation e; r = de_execution_receipt e in
     reconciliation_receipt_validate y = Inr () \<and> rx_disposition y = ''MATCHED'' \<and> rx_anomaly_codes y = []
     \<and> rx_runtime_execution_receipt_digest y = xr_receipt_digest r \<and> rx_effect_observation_digest y = ob_observation_digest (de_effect_observation e)
     \<and> rx_currentness_evidence_digest y = cu_evidence_digest (de_effect_currentness e)
     \<and> rx_execution_id y = xr_execution_id r \<and> rx_admission_digest y = xr_admission_digest r \<and> rx_reconciled_effect_digest y = xr_effect_digest r)"

text \<open>... an execution that succeeded with an effect which an independent observation of the same operation confirms; ...\<close>

definition effect_observed :: "downstream_evidence \<Rightarrow> bool" where
  "effect_observed e \<longleftrightarrow> (let r = de_execution_receipt e; b = de_effect_observation e in
     runtime_receipt_validate r = Inr () \<and> effect_observation_validate b = Inr ()
     \<and> xr_outcome r = ''SUCCEEDED'' \<and> xr_effect_state r = ''OBSERVED'' \<and> ob_effect_state b = ''OBSERVED''
     \<and> (ob_execution_id b, ob_admission_digest b, ob_request_digest b, ob_operation_digest b, ob_action b, ob_resource b)
         = (xr_execution_id r, xr_admission_digest r, xr_request_digest r, xr_operation_digest r, xr_action r, xr_resource r)
     \<and> ob_effect_digest b = xr_effect_digest r \<and> ob_observed_events b = xr_observed_events r
     \<and> set (ob_side_effect_refs b) = set (xr_side_effect_refs r))"

text \<open>... under a valid admission that names the effect and the runtime that acted, was current at the time and rests on the evidence of
  the policy decision for the proposal; ...\<close>

definition effect_admitted :: "downstream_evidence \<Rightarrow> bool" where
  "effect_admitted e \<longleftrightarrow> (let r = de_execution_receipt e; a = de_admission e; q = de_requested_effect e; i = de_runtime_identity e;
       c = de_effect_currentness e; p = de_pdp_evidence e in
     runtime_admission_validate a = Inr () \<and> xr_admission_digest r = rn_admission_digest a
     \<and> rn_requested_effect_digest a = requested_effect_digest q \<and> rn_runtime_identity_digest a = runtime_identity_digest i
     \<and> rn_provisioned_executor_digest a = ib_provisioned_executor_digest i
     \<and> (xr_runtime_instance_id r, xr_sandbox_id r, xr_workspace_id r) = (ib_runtime_instance_id i, ib_sandbox_id i, ib_workspace_id i)
     \<and> effect_currentness_validate c = Inr () \<and> cu_admission_digest c = rn_admission_digest a
     \<and> cu_live_authority_digest c = rn_live_authority_digest a \<and> cu_policy_binding c = rn_policy_binding a
     \<and> cu_authority_lineage_digest c = rn_authority_lineage_digest a \<and> cu_observability_state c = rn_observability_state a
     \<and> (cu_requested_effect_digest c, cu_runtime_identity_digest c) = (rn_requested_effect_digest a, rn_runtime_identity_digest a)
     \<and> pdp_evidence_validate p = Inr () \<and> rn_pdp_evidence_digest a = pv_evidence_digest p
     \<and> (pv_request_id p, pv_gate_event_id p, pv_gate_decision_digest p, pv_policy_binding p, pv_authority_lineage_digest p)
         = (rn_request_id a, rn_gate_event_id a, rn_gate_decision_digest a, rn_policy_binding a, rn_authority_lineage_digest a)
     \<and> pv_proposal_id p = px_proposal_id (de_proposal_context e) \<and> qe_requested_authority q = px_requested_authority (de_proposal_context e))"

text \<open>... of an action whose canonical bytes are the payload and whose intent is the transition of the process.\<close>

definition effect_of_action :: "downstream_evidence \<Rightarrow> string \<times> string \<times> string \<times> string \<Rightarrow> bool" where
  "effect_of_action e ids \<longleftrightarrow> (let r = de_execution_receipt e; m = ca_model (de_action_ir e); i = de_action_intent e in
     effect_reconciled e \<and> effect_observed e \<and> effect_admitted e
     \<and> xr_mission_id r = snd (snd (snd ids)) \<and> xr_action r = px_action_class (de_proposal_context e)
     \<and> xr_resource r = px_target (de_proposal_context e) \<and> xr_payload_digest r = sha256 (canonical_action_ir_bytes m)
     \<and> validate_action_ir m = Inr () \<and> ac_intent_ref m = intent_digest i \<and> ac_mission_ref m = snd (snd (snd ids))
     \<and> aq_capability (ac_authority_request m) = in_required_capability i
     \<and> (in_process_id i, in_process_ir_digest i, in_transition_id i, in_mission_ref i) = ids)"

lemma execution_link_ok:
  assumes "execution_link e x = Inr ()"
  shows "xr_admission_digest (de_execution_receipt e) = rn_admission_digest (de_admission e)"
    "xr_mission_id (de_execution_receipt e) = ap_mission_id (de_proposal e)" "xr_action (de_execution_receipt e) = qe_action_class (de_requested_effect e)"
    "xr_resource (de_execution_receipt e) = qe_resource (de_requested_effect e)"
    "xr_payload_digest (de_execution_receipt e) = qe_payload_digest (de_requested_effect e)"
    "xr_outcome (de_execution_receipt e) = ''SUCCEEDED''" "xr_effect_state (de_execution_receipt e) = ''OBSERVED''"
    "xr_runtime_instance_id (de_execution_receipt e) = ib_runtime_instance_id (de_runtime_identity e)"
    "xr_sandbox_id (de_execution_receipt e) = ib_sandbox_id (de_runtime_identity e)"
    "xr_workspace_id (de_execution_receipt e) = ib_workspace_id (de_runtime_identity e)"
  using assms by (simp_all add: execution_link_def Let_def)

lemma accepted_parts:
  assumes "downstream_validate_for e x ids = Inr ()"
  shows "effect_reconciled e" "effect_observed e" "effect_admitted e"
proof -
  note l = downstream_links [OF assms]
  note v = contracts_valid_parts [OF l(1)] and r = execution_link_ok [OF l(6)]
  show "effect_reconciled e" using l(8) v(5) r(1) by (simp add: effect_reconciled_def reconciliation_link_def Let_def)
  show "effect_observed e" using l(7) v(3,4) r(6,7) by (simp add: effect_observed_def observation_link_def Let_def)
  have "de_proposal e = proposal_of (de_action_ir e) (de_proposal_context e)"
    using l(3) bound_proposal by (auto simp: proposal_link_def and_then_ok)
  then have "ap_proposal_id (de_proposal e) = px_proposal_id (de_proposal_context e)"
      "ap_requested_authority (de_proposal e) = px_requested_authority (de_proposal_context e)" by (simp_all add: proposal_of_def)
  moreover from this have "rn_proposal_id (de_admission e) = px_proposal_id (de_proposal_context e)"
    using l(4) by (auto simp: admission_link_def Let_def)
  ultimately show "effect_admitted e" using l(4,5) v(2,6,7) r(1,8-10)
    by (simp add: effect_admitted_def admission_link_def currentness_link_def Let_def)
qed

lemma accepted_effect:
  assumes "downstream_validate_for e x ids = Inr ()"
  shows "effect_of_action e ids"
proof -
  note l = downstream_links [OF assms]
  note v = contracts_valid_parts [OF l(1)] and r = execution_link_ok [OF l(6)]
  have p: "de_proposal e = proposal_of (de_action_ir e) (de_proposal_context e)" "ap_mission_id (de_proposal e) = snd (snd (snd ids))"
    using l(3) bound_proposal by (auto simp: proposal_link_def and_then_ok)
  have q: "qe_action_class (de_requested_effect e) = ap_action_class (de_proposal e)" "qe_resource (de_requested_effect e) = ap_target (de_proposal e)"
      "Some (qe_payload_digest (de_requested_effect e)) = ap_payload_digest (de_proposal e)"
    using l(4) by (simp_all add: admission_link_def Let_def)
  have i: "ac_intent_ref (ca_model (de_action_ir e)) = intent_digest (de_action_intent e)" "ac_mission_ref (ca_model (de_action_ir e)) = snd (snd (snd ids))"
      "(in_process_id (de_action_intent e), in_process_ir_digest (de_action_intent e), in_transition_id (de_action_intent e),
        in_mission_ref (de_action_intent e)) = ids"
      "aq_capability (ac_authority_request (ca_model (de_action_ir e))) = in_required_capability (de_action_intent e)"
    using l(2) by (simp_all add: intent_link_def Let_def)
  have "validate_action_ir (ca_model (de_action_ir e)) = Inr ()" using v(1) by (simp add: canonical_action_validate_def)
  then show ?thesis unfolding effect_of_action_def Let_def
    using accepted_parts [OF assms] r q i p canonical_action_digest [OF v(1)] by (simp add: proposal_of_def)
qed

lemma accepted_refs:
  assumes "downstream_validate_for e x ids = Inr ()"
  shows "oc_effect_ref x = xr_effect_digest (de_execution_receipt e)" "oc_observation_ref x = ob_observation_digest (de_effect_observation e)"
    "oc_reconciliation_ref x = rx_reconciliation_digest (de_reconciliation e)"
  using downstream_links(6-8) [OF assms] by (simp_all add: execution_link_def observation_link_def reconciliation_link_def Let_def)

text \<open>C37. No action completes without a matched effect. In every run of a process in which outcomes are checked against their
  chain of evidence, a completed \<open>ACTION_REQUIRED\<close> transition has a recorded \<open>PASS\<close> whose references are the digests of an
  execution receipt, an observation and a reconciliation in one chain: the reconciliation is valid, reports \<open>MATCHED\<close> without
  anomalies and binds exactly this receipt, observation and currentness; the execution succeeded with an observed effect and the
  independent observation agrees with it; the admission is valid, names the effect and the runtime that acted, was current at the
  effect and rests on the policy decision for the proposal; the
  executed action, resource and mission are those proposed, the payload is the canonical action, and that action was
  made for the intent of exactly this transition of exactly this process.\<close>
theorem completed_action_has_effect:
  assumes "process_run downstream_validate_for m c n c'" "fresh c" "validate_process_ir m = Inr ()" "t \<in> set (pm_transitions m)"
    "tr_transition_class t = ''ACTION_REQUIRED''" "tr_transition_id t \<in> set (pc_completed_transitions c')"
  shows "\<exists>a e. a \<in> set (attempts_at c' (tr_transition_id t)) \<and> at_outcome a = ''PASS''
    \<and> at_effect_ref a = xr_effect_digest (de_execution_receipt e) \<and> at_observation_ref a = ob_observation_digest (de_effect_observation e)
    \<and> at_reconciliation_ref a = rx_reconciliation_digest (de_reconciliation e)
    \<and> effect_of_action e (pm_process_id m, process_digest m, tr_transition_id t, pm_mission_ref m)"
proof -
  have "backed downstream_validate_for m c'"
    using process_run_keeps [OF assms(1) run_ok_fresh [OF assms(2,3)]] by (simp add: run_ok_def)
  then obtain a x e where a: "a \<in> set (attempts_at c' (tr_transition_id t))" "at_outcome a = ''PASS''" "at_effect_ref a = oc_effect_ref x"
      "at_observation_ref a = oc_observation_ref x" "at_reconciliation_ref a = oc_reconciliation_ref x"
      "downstream_validate_for e x (pm_process_id m, process_digest m, tr_transition_id t, pm_mission_ref m) = Inr ()"
    using assms(4-6) unfolding backed_def by blast
  show ?thesis using a(1-5) accepted_refs [OF a(6)] accepted_effect [OF a(6)]
    by (intro exI [of _ a] exI [of _ e]) simp
qed

section \<open>An example chain\<close>

text \<open>The evidence of a write for the action of the example process: every link is built from the one before.\<close>

definition intent_draft :: action_intent where
  "intent_draft = \<lparr>in_process_id = ''p'', in_process_ir_digest = process_digest example_model, in_transition_id = ''act'',
     in_mission_ref = ''mission:m'', in_intent = ''write'', in_target_class = ''file'', in_required_capability = ''write'',
     in_authority_requirement = ''auth'', in_process_scope_digest = runtime_hex, in_expected_process_outcome = ''PASS'',
     in_evidence_context_refs = [], in_currentness_context_refs = [], in_action_intent_digest = [], in_authority_effect = ''NONE'',
     in_execution_effect = ''NONE''\<rparr>"

definition example_action_intent :: action_intent where
  "example_action_intent = intent_draft\<lparr>in_action_intent_digest := intent_digest intent_draft\<rparr>"

definition action_for :: "string \<Rightarrow> action_model" where
  "action_for intent = \<lparr>ac_schema_version = ''1.0.0'', ac_action_id = ''a1'', ac_kind = ''filesystem.write'', ac_intent_ref = intent,
     ac_mission_ref = ''mission:m'', ac_autonomy_ref = ''autonomy'', ac_bean_ref = ''bean'',
     ac_target = \<lparr>tg_host = ''host'', tg_environment = ''test'', tg_runtime = ''runtime''\<rparr>,
     ac_authority_request = \<lparr>aq_domain = ''files'', aq_capability = ''write'', aq_grant_ref = None\<rparr>,
     ac_boundary = \<lparr>by_shell = False, by_network = ''DENY'', by_filesystem_read = [], by_filesystem_write = [''docs''], by_process_children = [],
       by_timeout_ms = 1000, by_max_processes = 1, by_memory_limit_bytes = 1048576\<rparr>,
     ac_preconditions = [], ac_expected_effects = [''written''], ac_forbidden_effects = [], ac_observer_class = ''independent'',
     ac_required_events = [''written''], ac_reconciliation_mode = ''EXACT'', ac_reconciliation_receipt = ''REQUIRED'',
     ac_executable = None, ac_arguments = None, ac_workspace = None, ac_environment = None, ac_io = None\<rparr>"

definition example_action :: action_model where
  "example_action = action_for (intent_digest intent_draft)"

definition example_canonical :: canonical_action where
  "example_canonical = \<lparr>ca_model = example_action, ca_payload_digest = action_ir_payload_digest example_action\<rparr>"

definition context_for :: "string \<Rightarrow> proposal_context" where
  "context_for payload_digest = \<lparr>px_proposal_id = ''proposal'', px_mission_id = ''mission:m'', px_swarm_id = ''swarm'', px_proposer_agent_id = ''agent'',
     px_capability = ''write'', px_requested_authority = ''local_write'', px_action_class = ''WRITE_FILE'', px_target = ''docs'',
     px_consequential = False, px_evidence_refs = [], px_required_observability = [],
     px_expected_lair_payload_digest = payload_digest,
     px_field_provenance = map (\<lambda>n. (n, ''operator'')) (sort REQUIRED_CONTEXT_FIELDS),
     px_verifier_agent_id = None, px_schema_version = ''1.0.0''\<rparr>"

definition example_proposal_context :: proposal_context where
  "example_proposal_context = context_for (action_ir_payload_digest example_action)"

definition pdp_draft :: pdp_evidence where
  "pdp_draft = \<lparr>pv_request_id = ''request'', pv_gate_event_id = ''gate'', pv_proposal_id = ''proposal'', pv_gate_decision_digest = runtime_hex,
     pv_pdp_receipt_digest = runtime_hex, pv_request_digest = runtime_hex, pv_replay_key = runtime_hex, pv_policy_binding = ''policy'',
     pv_authority_lineage_digest = runtime_hex, pv_observability_state = ''HEALTHY'', pv_source_id = ''source'', pv_source_instance_id = ''instance'',
     pv_source_implementation_digest = runtime_hex, pv_trust_anchor_id = ''anchor'', pv_trust_anchor_digest = runtime_hex,
     pv_issued_at = ''2026-01-05T06:00:00+00:00'', pv_expires_at = ''2026-01-05T07:00:00+00:00'', pv_evidence_digest = [],
     pv_schema_version = ''1.1.0''\<rparr>"

definition example_pdp :: pdp_evidence where
  "example_pdp = pdp_draft\<lparr>pv_evidence_digest := pdp_evidence_digest pdp_draft\<rparr>"

definition chain_payload :: string where
  "chain_payload = canonical_action_ir_bytes example_action"

definition example_pdp_digest :: string where
  "example_pdp_digest = pdp_evidence_digest pdp_draft"

definition example_reconciliation :: reconciliation_receipt where
  "example_reconciliation = projr (reconcile example_trust (\<lambda>_. Inr (observation_for chain_payload example_pdp_digest)) example_instant
     (example_receipt chain_payload example_pdp_digest) (currentness_for chain_payload example_pdp_digest))"

definition example_chain :: downstream_evidence where
  "example_chain = \<lparr>de_action_intent = example_action_intent, de_action_ir = example_canonical, de_proposal_context = example_proposal_context,
     de_proposal = proposal_of example_canonical example_proposal_context, de_pdp_evidence = example_pdp,
     de_runtime_identity = example_identity, de_requested_effect = example_effect chain_payload,
     de_admission = admission_for chain_payload example_pdp_digest, de_effect_currentness = currentness_for chain_payload example_pdp_digest,
     de_execution_receipt = example_receipt chain_payload example_pdp_digest, de_effect_observation = observation_for chain_payload example_pdp_digest,
     de_reconciliation = example_reconciliation\<rparr>"

lemma chain_hexes: "is_hex 64 (intent_digest i)" "is_hex 64 (action_ir_payload_digest m)" "is_hex 64 (pdp_evidence_digest p)" "is_hex 64 example_pdp_digest"
  "is_hex 64 (proposal_context_digest c)"
  by (simp_all add: intent_digest_def action_ir_payload_digest_def pdp_evidence_digest_def example_pdp_digest_def proposal_context_digest_def)

lemma example_payload_nonempty: "chain_payload \<noteq> []"
  by (simp add: chain_payload_def canonical_action_ir_bytes_def canon_def action_json_def utf8_def)

lemma hex_nonempty: "is_hex 64 s \<Longrightarrow> s \<noteq> []"
  by (auto simp: is_hex_def)

lemma intent_digest_update [simp]: "intent_digest (i\<lparr>in_action_intent_digest := d\<rparr>) = intent_digest i"
  by (simp add: intent_digest_def)

lemma chain_intent_valid: "action_intent_validate example_action_intent = Inr ()"
proof -
  have t: "list_all (\<lambda>v. action_text False v n = Inr ()) [''mission:m'', ''write'', ''file'', ''auth'', ''PASS'']" for n by (simp add: action_text_def nul_def)
  have i: "id_syntax ''p''" "id_syntax ''act''" by code_simp+
  show ?thesis unfolding action_intent_validate_def
    using t i chain_hexes(1) process_digest_hex example_hexes(1)
    by (simp add: example_action_intent_def) (simp add: intent_draft_def action_id_def action_digest_def action_unique_def)
qed

lemma example_action_valid: "canonical_action_validate example_canonical = Inr ()"
proof -
  have "validate_action_ir (action_for ''x'') = Inr ()" by code_simp
  moreover have "intent_digest intent_draft \<noteq> []" using chain_hexes(1) by (rule hex_nonempty)
  ultimately have "validate_action_ir example_action = Inr ()"
    by (simp add: validate_action_ir_def observation_spec_check_def reconciliation_spec_check_def air_string_def any_text_def)
       (simp add: example_action_def action_for_def Suc_le_eq)
  then show ?thesis by (simp add: canonical_action_validate_def example_canonical_def chain_hexes)
qed

lemma chain_context_valid: "proposal_context_validate example_proposal_context = Inr ()"
proof -
  have "proposal_context_validate (context_for (replicate 64 CHR ''0'')) = Inr ()" by code_simp
  then show ?thesis
    by (simp add: proposal_context_validate_def provenance_check_def example_proposal_context_def context_for_def chain_hexes)
qed

lemma pdp_evidence_update [simp]: "pdp_evidence_digest (p\<lparr>pv_evidence_digest := d\<rparr>) = pdp_evidence_digest p"
  "pdp_evidence_check (p\<lparr>pv_evidence_digest := d\<rparr>) = pdp_evidence_check p"
  by (simp_all add: pdp_evidence_digest_def pdp_evidence_json_def pdp_evidence_check_def pdp_window_def)

lemma example_pdp_valid: "pdp_evidence_validate example_pdp = Inr ()"
proof -
  have "and_then (contract_utc RuntimeEnforcementContractError ''2026-01-05T06:00:00+00:00'' ''issued_at'') (\<lambda>issued.
      and_then (contract_utc RuntimeEnforcementContractError ''2026-01-05T07:00:00+00:00'' ''expires_at'') (\<lambda>expires.
      raise_when (expires \<le> issued) RuntimeEnforcementContractError ''PDP evidence expiry must follow issue time'')) = Inr ()"
    by code_simp
  then have "pdp_window pdp_draft = Inr ()" by (simp only: pdp_window_def) (simp add: pdp_draft_def)
  then have "pdp_evidence_check pdp_draft = Inr ()"
    using runtime_texts by (simp add: pdp_evidence_check_def) (simp add: pdp_draft_def example_hexes observability_states_def)
  then show ?thesis by (simp add: pdp_evidence_validate_def example_pdp_def chain_hexes)
qed

lemma chain_bound: "bind_lair_to_action_proposal example_canonical example_proposal_context = Inr (proposal_of example_canonical example_proposal_context)"
proof -
  have "projection_validate (projection_of \<lparr>ca_model = action_for ''x'', ca_payload_digest = replicate 64 CHR ''0''\<rparr>) = Inr ()" by code_simp
  then have p: "projection_validate (projection_of example_canonical) = Inr ()"
    using chain_hexes(2) by (simp add: projection_validate_def projection_of_def Let_def example_canonical_def example_action_def)
      (simp add: action_for_def)
  have "proposal_validate (proposal_of \<lparr>ca_model = action_for ''x'', ca_payload_digest = []\<rparr> (context_for [])) = Inr ()" by code_simp
  then have q: "proposal_validate (proposal_of example_canonical example_proposal_context) = Inr ()"
    by (simp add: proposal_validate_def proposal_of_def example_proposal_context_def context_for_def)
  have "px_expected_lair_payload_digest example_proposal_context = ca_payload_digest example_canonical"
    by (simp add: example_proposal_context_def context_for_def example_canonical_def)
  then show ?thesis
    using example_action_valid chain_context_valid p q
    by (simp add: bind_lair_to_action_proposal_def project_lair_to_action_proposal_static_def) (simp add: projection_of_def Let_def)
qed

lemma example_proposal_valid: "proposal_validate (proposal_of example_canonical example_proposal_context) = Inr ()"
  using chain_bound by (auto simp: bind_lair_to_action_proposal_def and_then_ok)

lemma example_reconciled:
  shows "reconciliation_receipt_validate example_reconciliation = Inr ()" "rx_disposition example_reconciliation = ''MATCHED''"
    "rx_anomaly_codes example_reconciliation = []"
    "rx_runtime_execution_receipt_digest example_reconciliation = xr_receipt_digest (example_receipt chain_payload example_pdp_digest)"
    "rx_effect_observation_digest example_reconciliation = ob_observation_digest (observation_for chain_payload example_pdp_digest)"
    "rx_currentness_evidence_digest example_reconciliation = cu_evidence_digest (currentness_for chain_payload example_pdp_digest)"
    "rx_execution_id example_reconciliation = xr_execution_id (example_receipt chain_payload example_pdp_digest)"
    "rx_admission_digest example_reconciliation = rn_admission_digest (admission_for chain_payload example_pdp_digest)"
    "rx_reconciled_effect_digest example_reconciliation = xr_effect_digest (example_receipt chain_payload example_pdp_digest)"
proof -
  let ?r = "example_receipt chain_payload example_pdp_digest" and ?b = "observation_for chain_payload example_pdp_digest"
    and ?c = "currentness_for chain_payload example_pdp_digest"
  note r = example_receipt_facts [OF chain_hexes(4) example_payload_nonempty]
  have c: "cu_admission_digest ?c = xr_admission_digest ?r" using r(10) by (simp add: currentness_for_def currentness_draft_def Let_def)
  have b: "agrees ?r ?b" "ob_effect_state ?b = ''OBSERVED''" "ob_effect_digest ?b = xr_effect_digest ?r"
    by (simp_all add: agrees_def same_operation_def observation_for_def observation_draft_def Let_def)
  have d: "fst (disposition_of ?r ?b) = ''MATCHED''" using disposition_cases(1) r(5,6) b by blast
  obtain x where x: "reconcile example_trust (\<lambda>_. Inr ?b) example_instant ?r ?c = Inr x" "reconciliation_receipt_validate x = Inr ()"
      "rx_runtime_execution_receipt_digest x = xr_receipt_digest ?r" "rx_effect_observation_digest x = ob_observation_digest ?b"
      "rx_currentness_evidence_digest x = cu_evidence_digest ?c" "rx_execution_id x = xr_execution_id ?r"
      "rx_admission_digest x = xr_admission_digest ?r" "rx_reconciled_effect_digest x = ob_effect_digest ?b"
      "rx_disposition x = fst (disposition_of ?r ?b)" "rx_anomaly_codes x = sort (remdups (snd (disposition_of ?r ?b)))"
    by (rule reconcile_answers [of ?r ?c "\<lambda>_. Inr ?b" ?b example_trust example_instant, OF r(1) currentness_for_valid [OF chain_hexes(4)] c refl
        observation_for_valid [OF chain_hexes(4) example_payload_nonempty] example_instant_valid])
  then have e: "example_reconciliation = x" by (simp add: example_reconciliation_def)
  show "reconciliation_receipt_validate example_reconciliation = Inr ()" "rx_disposition example_reconciliation = ''MATCHED''"
    "rx_anomaly_codes example_reconciliation = []"
    "rx_runtime_execution_receipt_digest example_reconciliation = xr_receipt_digest ?r"
    "rx_effect_observation_digest example_reconciliation = ob_observation_digest ?b"
    "rx_currentness_evidence_digest example_reconciliation = cu_evidence_digest ?c"
    "rx_execution_id example_reconciliation = xr_execution_id ?r"
    "rx_admission_digest example_reconciliation = rn_admission_digest (admission_for chain_payload example_pdp_digest)"
    "rx_reconciled_effect_digest example_reconciliation = xr_effect_digest ?r"
    using x d b(3) r(10) disposition_cases(2) [OF d] by (simp_all add: e)
qed

text \<open>An outcome that names the digests of the chain.\<close>

definition chain_outcome :: transition_outcome where
  "chain_outcome = (example_outcome (example_at []) 1 ''PASS'' ''DONE'')\<lparr>oc_action_ref := ca_payload_digest example_canonical,
     oc_proposal_digest := proposal_context_digest example_proposal_context,
     oc_admission_ref := rn_admission_digest (admission_for chain_payload example_pdp_digest),
     oc_effect_ref := xr_effect_digest (example_receipt chain_payload example_pdp_digest),
     oc_observation_ref := ob_observation_digest (observation_for chain_payload example_pdp_digest),
     oc_reconciliation_ref := rx_reconciliation_digest example_reconciliation\<rparr>"

definition chain_ids :: "string \<times> string \<times> string \<times> string" where
  "chain_ids = (''p'', process_digest example_model, ''act'', ''mission:m'')"

lemma chain_refs_hex: "is_hex 64 (ca_payload_digest example_canonical)" "is_hex 64 (proposal_context_digest example_proposal_context)"
  "is_hex 64 (rn_admission_digest (admission_for chain_payload example_pdp_digest))"
  "is_hex 64 (xr_effect_digest (example_receipt chain_payload example_pdp_digest))"
  "is_hex 64 (ob_observation_digest (observation_for chain_payload example_pdp_digest))" "is_hex 64 (rx_reconciliation_digest example_reconciliation)"
proof -
  show "is_hex 64 (ca_payload_digest example_canonical)" by (simp add: example_canonical_def chain_hexes)
  show "is_hex 64 (proposal_context_digest example_proposal_context)" by (rule chain_hexes(5))
  show "is_hex 64 (rn_admission_digest (admission_for chain_payload example_pdp_digest))"
    using admission_for_valid [OF chain_hexes(4)] by (rule runtime_admission_hex)
  show "is_hex 64 (xr_effect_digest (example_receipt chain_payload example_pdp_digest))"
    using example_receipt_facts(9) [OF chain_hexes(4) example_payload_nonempty] by simp
  show "is_hex 64 (ob_observation_digest (observation_for chain_payload example_pdp_digest))"
    using observation_for_valid [OF chain_hexes(4) example_payload_nonempty] validated_parts(4) by (auto simp: trusted_observation_def)
  show "is_hex 64 (rx_reconciliation_digest example_reconciliation)"
    using example_reconciled(1) by (auto simp: reconciliation_receipt_validate_def)
qed

lemma hex_action_text: "is_hex 64 v \<Longrightarrow> action_text b v n = Inr ()"
  by (auto simp: action_text_def is_hex_def list_all_iff dest: hex_char_not_nul)

lemma chain_outcome_valid: "outcome_validate chain_outcome = Inr ()"
proof -
  have v: "outcome_validate (example_outcome (example_at []) 1 ''PASS'' ''DONE'') = Inr ()"
    by (rule example_outcome_valid) (simp_all add: OUTCOME_LABELS_def)
  have d: "oc_transition_outcome_digest (example_outcome (example_at []) 1 ''PASS'' ''DONE'') = []" by (simp add: example_outcome_def)
  show ?thesis using v chain_refs_hex
    by (simp add: outcome_validate_def chain_outcome_def d hex_action_text action_digest_def split: if_splits)
qed

lemma chain_outcome_refs: "oc_action_ref chain_outcome = ca_payload_digest example_canonical"
  "oc_proposal_digest chain_outcome = proposal_context_digest example_proposal_context"
  "oc_admission_ref chain_outcome = rn_admission_digest (admission_for chain_payload example_pdp_digest)"
  "oc_effect_ref chain_outcome = xr_effect_digest (example_receipt chain_payload example_pdp_digest)"
  "oc_observation_ref chain_outcome = ob_observation_digest (observation_for chain_payload example_pdp_digest)"
  "oc_reconciliation_ref chain_outcome = rx_reconciliation_digest example_reconciliation"
  "oc_outcome chain_outcome = ''PASS''" "oc_next_state chain_outcome = ''DONE''" "oc_transition_id chain_outcome = ''act''"
  "oc_attempt_number chain_outcome = 1" "oc_process_id chain_outcome = ''p''" "oc_process_ir_digest chain_outcome = process_digest example_model"
  "oc_currentness_basis_ref chain_outcome = cb_basis_digest example_basis"
  "oc_transition_decision_digest chain_outcome = decision_digest (selected_record example_model (example_at []) example_act)"
  by (simp_all add: chain_outcome_def example_outcome_def)

lemma example_chain_sel [simp]: "de_action_intent example_chain = example_action_intent" "de_action_ir example_chain = example_canonical"
  "de_proposal_context example_chain = example_proposal_context" "de_proposal example_chain = proposal_of example_canonical example_proposal_context"
  "de_pdp_evidence example_chain = example_pdp" "de_runtime_identity example_chain = example_identity"
  "de_requested_effect example_chain = example_effect chain_payload" "de_admission example_chain = admission_for chain_payload example_pdp_digest"
  "de_effect_currentness example_chain = currentness_for chain_payload example_pdp_digest"
  "de_execution_receipt example_chain = example_receipt chain_payload example_pdp_digest"
  "de_effect_observation example_chain = observation_for chain_payload example_pdp_digest" "de_reconciliation example_chain = example_reconciliation"
  by (simp_all add: example_chain_def)

lemma chain_contracts: "contracts_valid example_chain chain_outcome = Inr ()"
  using chain_outcome_valid chain_intent_valid example_action_valid chain_context_valid example_proposal_valid example_pdp_valid
    example_inputs_valid(1) [of chain_payload] example_inputs_valid(2) admission_for_valid [OF chain_hexes(4), of chain_payload]
    currentness_for_valid [OF chain_hexes(4), of chain_payload] example_receipt_facts(1) [OF chain_hexes(4) example_payload_nonempty]
    observation_for_valid [OF chain_hexes(4) example_payload_nonempty] example_reconciled(1)
  by (simp add: contracts_valid_def trusted_observation_def)

lemma chain_intent: "intent_link example_chain chain_ids = Inr ()"
proof -
  have "in_action_intent_digest example_action_intent = intent_digest example_action_intent"
    "ac_intent_ref example_action = in_action_intent_digest example_action_intent"
    by (simp_all add: example_action_intent_def example_action_def action_for_def)
  moreover have "in_action_intent_digest example_action_intent \<noteq> []"
    using hex_nonempty [OF chain_hexes(1)] by (simp add: example_action_intent_def)
  moreover have "(in_process_id example_action_intent, in_process_ir_digest example_action_intent, in_transition_id example_action_intent,
      in_mission_ref example_action_intent) = chain_ids" "in_required_capability example_action_intent = ''write''"
    by (simp_all add: example_action_intent_def intent_draft_def chain_ids_def)
  moreover have "ac_mission_ref example_action = ''mission:m''" "aq_capability (ac_authority_request example_action) = ''write''"
    by (simp_all add: example_action_def action_for_def)
  moreover have "ca_model example_canonical = example_action" "snd (snd (snd chain_ids)) = ''mission:m''"
    by (simp_all add: example_canonical_def chain_ids_def)
  ultimately show ?thesis by (simp add: intent_link_def Let_def)
qed

lemma chain_proposal: "proposal_link example_chain chain_outcome (snd (snd (snd chain_ids))) = Inr ()"
  using chain_bound by (simp add: proposal_link_def chain_outcome_refs)
    (simp add: proposal_of_def example_proposal_context_def context_for_def chain_ids_def)

lemma example_payload_digest: "sha256 chain_payload = ca_payload_digest example_canonical"
  by (simp add: chain_payload_def example_canonical_def action_ir_payload_digest_def)

lemma chain_admission: "admission_link example_chain chain_outcome = Inr ()" "currentness_link example_chain = Inr ()"
proof -
  have "pv_evidence_digest example_pdp = example_pdp_digest" by (simp add: example_pdp_def example_pdp_digest_def)
  then show "admission_link example_chain chain_outcome = Inr ()"
    by (simp add: admission_link_def Let_def chain_outcome_refs)
       (simp add: admission_for_def admission_draft_def example_pdp_def pdp_draft_def example_effect_def example_payload_digest
         proposal_of_def example_proposal_context_def context_for_def example_identity_def)
  show "currentness_link example_chain = Inr ()"
    by (simp add: currentness_link_def Let_def currentness_for_def currentness_draft_def)
qed

lemma example_receipt_binds: "xr_mission_id (example_receipt payload evidence) = ''mission:m''"
  "xr_runtime_instance_id (example_receipt payload evidence) = ''runtime''" "xr_sandbox_id (example_receipt payload evidence) = ''sandbox''"
  "xr_workspace_id (example_receipt payload evidence) = ''workspace''" "xr_payload_digest (example_receipt payload evidence) = sha256 payload"
  by (simp_all add: example_receipt_def unsealed_receipt_def Let_def) (simp_all add: request_for_def)

lemma chain_execution: "execution_link example_chain chain_outcome = Inr ()" "observation_link example_chain chain_outcome = Inr ()"
  "reconciliation_link example_chain chain_outcome = Inr ()"
proof -
  note r = example_receipt_facts [OF chain_hexes(4) example_payload_nonempty]
  show "execution_link example_chain chain_outcome = Inr ()"
    by (simp add: execution_link_def Let_def chain_outcome_refs r example_receipt_binds)
       (simp add: proposal_of_def example_proposal_context_def context_for_def example_identity_def example_effect_def)
  show "observation_link example_chain chain_outcome = Inr ()"
    by (simp add: observation_link_def Let_def chain_outcome_refs) (simp add: observation_for_def observation_draft_def Let_def)
  show "reconciliation_link example_chain chain_outcome = Inr ()"
    by (simp add: reconciliation_link_def Let_def chain_outcome_refs example_reconciled)
qed

lemma chain_accepted: "downstream_validate_for example_chain chain_outcome chain_ids = Inr ()"
  using chain_contracts chain_intent chain_proposal chain_admission chain_execution by (simp add: downstream_validate_for_def)

text \<open>The run that completes the action with this evidence.\<close>

definition chain_attempt :: attempt_record where
  "chain_attempt = attempt_of example_act (example_at []) chain_outcome"

definition chain_done :: process_context where
  "chain_done = moved_context (example_at []) chain_outcome ''ACTIVE'' chain_attempt"

lemma hex_ir_text: "is_hex 64 v \<Longrightarrow> ir_text 4096 b v n = Inr ()"
  by (auto simp: ir_text_def is_hex_def list_all_iff dest: hex_char_not_nul)

lemma chain_attempt_facts: "attempt_validate chain_attempt = Inr ()" "at_transition_id chain_attempt = ''act''" "at_attempt_number chain_attempt = 1"
proof -
  have n: "count_of (pc_attempt_counts (example_at [])) ''act'' = 0" "tr_transition_id example_act = ''act''"
    by (simp_all add: example_at_def count_of_def) (simp add: example_act_def)
  have d: "attempt_digest (a\<lparr>at_attempt_digest := v\<rparr>) = attempt_digest a" "is_hex 64 (attempt_digest a)" for a v
    by (simp_all add: attempt_digest_def attempt_json_def)
  have i: "ir_id ''act'' name = Inr ()" for name by (simp add: ir_id_def ir_text_def id_syntax_def id_first_def id_char_def nul_def)
  show "attempt_validate chain_attempt = Inr ()"
    using chain_refs_hex(4-6)
    by (simp add: chain_attempt_def attempt_of_def Let_def attempt_validate_def d)
       (simp add: new_attempt_def n i chain_outcome_refs hex_ir_text OUTCOME_LABELS_def)
  show "at_transition_id chain_attempt = ''act''" "at_attempt_number chain_attempt = 1" using n by (simp_all add: chain_attempt_def)
qed

lemma chain_done_sel: "pc_completed_transitions chain_done = [''act'']" "pc_process_state chain_done = ''DONE''"
  "pc_attempt_counts chain_done = [(''act'', 1)]" "pc_process_control chain_done = ''ACTIVE''" "pc_attempt_records chain_done = [chain_attempt]"
  using chain_attempt_facts(3)
  by (simp_all add: chain_done_def moved_context_def chain_outcome_refs bump_count_def) (simp_all add: example_at_def example_snapshot_def)

lemma chain_done_valid: "context_validate_for example_model chain_done = Inr ()"
proof -
  have v: "context_validate_for example_model (example_at []) = Inr ()" by (rule example_at_valid) simp_all
  have ids: "transition_ids example_model = [''act'', ''n1'', ''n2'']"
    by (simp add: transition_ids_def example_model_def example_act_def example_note_def)
  have same: "pc_process_ir_digest chain_done = pc_process_ir_digest (example_at [])" "pc_satisfied_dependencies chain_done = pc_satisfied_dependencies (example_at [])"
    "pc_currentness_bases chain_done = pc_currentness_bases (example_at [])"
    "pc_satisfied_currentness_requirements chain_done = pc_satisfied_currentness_requirements (example_at [])"
    "pc_observed_at chain_done = pc_observed_at (example_at [])" by (simp_all add: chain_done_def moved_context_def)
  have "records_check [''act'', ''n1'', ''n2''] [] (pc_attempt_records chain_done) = Inr ()"
    using chain_attempt_facts by (simp add: chain_done_sel)
  moreover have "attempts_match (pc_attempt_counts chain_done) (pc_attempt_records chain_done)"
    using chain_attempt_facts by (simp add: attempts_match_def chain_done_sel record_max_def count_of_def)
  moreover have "''DONE'' \<in> set (pm_states example_model)" by (simp add: example_model_def)
  ultimately show ?thesis using v
    by (simp add: context_validate_for_def same chain_done_sel ids PROCESS_CONTROL_STATES_def)
qed

lemma chain_step: "apply_transition_outcome downstream_validate_for example_model (example_at [])
    (selected_record example_model (example_at []) example_act) chain_outcome (Some example_chain) = Inr chain_done"
proof -
  have c: "moved_context (example_at []) chain_outcome (control_after ''DONE'') (attempt_of example_act (example_at []) chain_outcome) = chain_done"
    by (simp add: chain_done_def chain_attempt_def example_control)
  have ids: "(pm_process_id example_model, process_digest example_model, tr_transition_id example_act, pm_mission_ref example_model) = chain_ids"
    by (simp add: chain_ids_def example_model_def process_digest_def) (simp add: example_act_def)
  have basis: "cb_basis_digest example_basis \<in> set (required_bases example_act (example_at []))"
    using example_basis_sel by (simp add: required_bases_def map_filter_simps current_basis_def example_act_def example_at_def example_snapshot_def)
  have cl: "tr_transition_class example_act = ''ACTION_REQUIRED''" by (simp add: example_act_def)
  show ?thesis unfolding c [symmetric]
  proof (rule apply_selectable [OF example_mid_selectable(1) chain_outcome_valid])
    show "action_evidence downstream_validate_for example_model (example_at []) example_act chain_outcome (Some example_chain) = Inr ()"
      using chain_accepted basis chain_refs_hex [THEN hex_nonempty] example_basis_sel(7)
      by (simp add: action_evidence_def semantic_when_def ids cl chain_outcome_refs)
    show "attempt_validate (attempt_of example_act (example_at []) chain_outcome) = Inr ()"
      using chain_attempt_facts(1) by (simp add: chain_attempt_def)
    show "context_validate_for example_model (moved_context (example_at []) chain_outcome (control_after ''DONE'')
        (attempt_of example_act (example_at []) chain_outcome)) = Inr ()" unfolding c by (rule chain_done_valid)
  qed (simp_all add: chain_outcome_refs NEXT_DIRECTIVES_def, simp_all add: example_model_def example_act_def example_at_def count_of_def)
qed

text \<open>The completed action of the example.\<close>
theorem completed_action_has_effect_witness:
  "process_run downstream_validate_for example_model (example_at []) 1 chain_done
   \<and> (\<exists>e. effect_of_action e (''p'', process_digest example_model, ''act'', ''mission:m''))"
proof -
  have run: "process_run downstream_validate_for example_model (example_at []) 1 chain_done"
    using run_outcome [OF run_start chain_step] by simp
  have act: "example_act \<in> set (pm_transitions example_model)" "tr_transition_class example_act = ''ACTION_REQUIRED''"
    "tr_transition_id example_act = ''act''" "pm_process_id example_model = ''p''" "pm_mission_ref example_model = ''mission:m''"
    by (simp_all add: example_model_def) (simp_all add: example_act_def)
  have "tr_transition_id example_act \<in> set (pc_completed_transitions chain_done)" by (simp add: act(3) chain_done_sel)
  from completed_action_has_effect [OF run example_fresh example_model_valid act(1,2) this] show ?thesis
    using run act(3-5) by auto
qed

end
