(* ===== verification/Runtime_Chain.thy ===== *)
theory Runtime_Chain
  imports Runtime_Admission Policy_Props Process_Evidence
begin

text \<open>
  From authority to effect: what an issued runtime admission rests on, that it is issued once, and that no effect happens
  after the authority behind an admission was revoked.
\<close>

section \<open>Issued admissions\<close>

lemma canonical_pdp_ok:
  assumes "canonical_pdp n g d now = Inr e"
  shows "an_resolve n (gz_request_id g) (gz_gate_event_id g) = Inr e" "pdp_evidence_validate e = Inr ()" "evidence_matches e g d"
    "an_current_policy_binding n (gz_policy_binding g) = Inr (gz_policy_binding g)"
    "(pv_source_id e, pv_source_instance_id e, pv_source_implementation_digest e, pv_trust_anchor_id e, pv_trust_anchor_digest e)
       = trust_of (an_source_trust n)"
    "\<exists>issued expires. evidence_utc (pv_issued_at e) = Inr issued \<and> evidence_utc (pv_expires_at e) = Inr expires
       \<and> issued \<le> instant now \<and> instant now < expires"
  using assms by (auto simp: canonical_pdp_def and_then_ok)

lemma revalidate_same: "revalidate f a now r1 r2 = Inr x \<Longrightarrow> x = a"
  by (erule revalidate_ok)

lemma admission_checks_ok:
  assumes "admission_checks n k = Inr (e, live)"
  shows "canonical_pdp n (aj_gate k) (aj_pdp_receipt k) (aj_trusted_now k) = Inr e" "gz_decision (aj_gate k) = ''ALLOW''"
    "gz_effective_authority (aj_gate k) \<noteq> ''none''"
    "runtime_identity_check (aj_runtime_identity k) (aj_provisioned_executor k) (aj_provisioning_request k) (aj_provider_trust k) = Inr ()"
    "admission_links k = Inr ()" "live_digest (aj_admitted_authority k) = Inr live"
    "revalidate (an_live n) (aj_admitted_authority k) (aj_trusted_now k) (fst (an_reads n)) (snd (an_reads n)) = Inr (aj_admitted_authority k)"
  using assms by (auto simp: admission_checks_def Let_def and_then_ok dest: revalidate_same)

lemma admit_runtime_ok:
  assumes "admit_runtime consume n k g = (Inr x, g')"
  obtains e live where "admission_checks n k = Inr (e, live)" "consume (admission_replay_key k e live) g = (Inr True, g')"
    "runtime_admission_sealed (admission_of k e live) = Inr x"
  using assms by (auto simp: admit_runtime_def split: sum.splits prod.splits if_splits)

lemma admission_sealed_sel:
  assumes "runtime_admission_sealed x = Inr y"
  shows "runtime_admission_validate y = Inr ()" "rn_replay_key y = rn_replay_key x" "rn_live_authority_digest y = rn_live_authority_digest x"
    "rn_requested_effect_digest y = rn_requested_effect_digest x" "rn_runtime_identity_digest y = rn_runtime_identity_digest x"
    "rn_effective_authority y = rn_effective_authority x" "rn_pdp_evidence_digest y = rn_pdp_evidence_digest x"
    "rn_observability_state y = rn_observability_state x" "rn_provisioned_executor_digest y = rn_provisioned_executor_digest x"
    "rn_policy_binding y = rn_policy_binding x" "rn_authority_lineage_digest y = rn_authority_lineage_digest x"
    "rn_request_id y = rn_request_id x" "rn_gate_event_id y = rn_gate_event_id x" "rn_proposal_id y = rn_proposal_id x"
    "rn_gate_decision_digest y = rn_gate_decision_digest x" "rn_pdp_receipt_digest y = rn_pdp_receipt_digest x"
  using assms by (auto simp: runtime_admission_sealed_def Let_def)

text \<open>What stands behind an admission: the effect it names is the proposed one, ...\<close>

definition names_effect :: "admission_call \<Rightarrow> runtime_admission \<Rightarrow> bool" where
  "names_effect k x \<longleftrightarrow> (let p = aj_proposal k; e = aj_effect k in
     rn_requested_effect_digest x = requested_effect_digest e \<and> rn_proposal_id x = ap_proposal_id p
     \<and> (qe_proposal_id e, qe_mission_id e, qe_requested_authority e, qe_action_class e, qe_resource e, Some (qe_payload_digest e))
         = (ap_proposal_id p, ap_mission_id p, ap_requested_authority p, ap_action_class p, ap_target p, ap_payload_digest p)
     \<and> (qe_policy_binding e, qe_authority_lineage_digest e, qe_observability_state e)
         = (rn_policy_binding x, rn_authority_lineage_digest x, rn_observability_state x)
     \<and> qe_runtime_identity_digest e = rn_runtime_identity_digest x)"

text \<open>... the identity that is to act is that of an executor provisioned for the mission, ...\<close>

definition names_executor :: "admission_call \<Rightarrow> runtime_admission \<Rightarrow> bool" where
  "names_executor k x \<longleftrightarrow> (let i = aj_runtime_identity k; v = aj_provisioned_executor k in
     rn_runtime_identity_digest x = runtime_identity_digest i \<and> rn_provisioned_executor_digest x = provisioned_digest v
     \<and> ib_workload_identity i = vx_drone_id v \<and> ib_execution_subject i = vx_executor_id v \<and> ib_runtime_instance_id i = vx_runtime_instance_id v
     \<and> ib_sandbox_id i = vx_sandbox_id v \<and> ib_workspace_id i = vx_workspace_id v
     \<and> ib_runtime_attestation_digest i = vx_runtime_attestation_digest v \<and> ib_provisioned_executor_digest i = provisioned_digest v
     \<and> provisioned_validate_for v (aj_provisioning_request k) (aj_provider_trust k) = Inr () \<and> vx_mission_id v = ap_mission_id (aj_proposal k))"

text \<open>... and the trusted source confirms the decision, at this time and under a policy that is still in force.\<close>

definition decision_confirmed :: "admission_engine \<Rightarrow> admission_call \<Rightarrow> runtime_admission \<Rightarrow> bool" where
  "decision_confirmed n k x \<longleftrightarrow> (\<exists>e issued expires. an_resolve n (rn_request_id x) (rn_gate_event_id x) = Inr e \<and> pdp_evidence_validate e = Inr ()
     \<and> (pv_source_id e, pv_source_instance_id e, pv_source_implementation_digest e, pv_trust_anchor_id e, pv_trust_anchor_digest e)
         = trust_of (an_source_trust n)
     \<and> evidence_utc (pv_issued_at e) = Inr issued \<and> evidence_utc (pv_expires_at e) = Inr expires
     \<and> issued \<le> instant (aj_trusted_now k) \<and> instant (aj_trusted_now k) < expires
     \<and> (pv_proposal_id e, pv_gate_decision_digest e, pv_pdp_receipt_digest e, pv_policy_binding e, pv_authority_lineage_digest e, pv_observability_state e)
         = (rn_proposal_id x, rn_gate_decision_digest x, rn_pdp_receipt_digest x, rn_policy_binding x, rn_authority_lineage_digest x, rn_observability_state x)
     \<and> rn_pdp_evidence_digest x = pv_evidence_digest e
     \<and> an_current_policy_binding n (rn_policy_binding x) = Inr (rn_policy_binding x))"

text \<open>All of it, with the authority at a state of the database between the readings of the revalidation.\<close>

definition admission_grounded :: "admission_engine \<Rightarrow> admission_call \<Rightarrow> runtime_admission \<Rightarrow> durable_store \<Rightarrow> bool" where
  "admission_grounded n k x m \<longleftrightarrow> (let g = aj_gate k; p = aj_proposal k; a = aj_admitted_authority k in
     gz_decision g = ''ALLOW'' \<and> (gz_request_id g, gz_gate_event_id g, gz_decision_digest g) = (rn_request_id x, rn_gate_event_id x, rn_gate_decision_digest x)
     \<and> names_effect k x \<and> names_executor k x \<and> decision_confirmed n k x
     \<and> live_digest a = Inr (rn_live_authority_digest x) \<and> (\<exists>gs. receipt_backed (an_live n) a gs (instant (aj_trusted_now k)) m)
     \<and> lv_mission_id a = ap_mission_id p \<and> lv_lineage_digest a = rn_authority_lineage_digest x
     \<and> rn_effective_authority x = ap_requested_authority p
     \<and> authority_contains (lv_authority_ceiling a) (rn_effective_authority x) = Inr True
     \<and> rn_observability_state x \<noteq> ''LOST''
     \<and> authority_contains (the (map_of OBS_CEILING (rn_observability_state x))) (rn_effective_authority x) = Inr True)"

lemma admission_of_sel:
  assumes "runtime_admission_sealed (admission_of k e live) = Inr x"
  shows "rn_live_authority_digest x = live" "rn_requested_effect_digest x = requested_effect_digest (aj_effect k)"
    "rn_runtime_identity_digest x = runtime_identity_digest (aj_runtime_identity k)"
    "rn_effective_authority x = gz_effective_authority (aj_gate k)" "rn_pdp_evidence_digest x = pv_evidence_digest e"
    "rn_observability_state x = gz_observability_state (aj_gate k)"
    "rn_provisioned_executor_digest x = provisioned_digest (aj_provisioned_executor k)" "rn_policy_binding x = gz_policy_binding (aj_gate k)"
    "rn_authority_lineage_digest x = gz_authority_lineage_digest (aj_gate k)" "rn_request_id x = gz_request_id (aj_gate k)"
    "rn_gate_event_id x = gz_gate_event_id (aj_gate k)" "rn_proposal_id x = gz_proposal_id (aj_gate k)"
    "rn_gate_decision_digest x = gz_decision_digest (aj_gate k)" "rn_pdp_receipt_digest x = pdp_receipt_digest (aj_pdp_receipt k)"
  using admission_sealed_sel [OF assms] by (simp_all add: admission_of_def Let_def)

lemma admission_parts:
  assumes "admission_checks n k = Inr (e, live)" "runtime_admission_sealed (admission_of k e live) = Inr x"
  shows "names_effect k x" "names_executor k x" "decision_confirmed n k x"
proof -
  note c = admission_checks_ok [OF assms(1)] and x = admission_of_sel [OF assms(2)]
  show "names_effect k x"
    using c(5) by (simp add: names_effect_def x admission_links_def Let_def)
  have "vx_mission_id (aj_provisioned_executor k) = ap_mission_id (aj_proposal k)" using c(5) by (simp add: admission_links_def Let_def)
  then show "names_executor k x" using c(4) by (simp add: names_executor_def x runtime_identity_check_def Let_def)
  note r = canonical_pdp_ok [OF c(1)]
  obtain issued expires where w: "evidence_utc (pv_issued_at e) = Inr issued" "evidence_utc (pv_expires_at e) = Inr expires"
    "issued \<le> instant (aj_trusted_now k)" "instant (aj_trusted_now k) < expires" using r(6) by blast
  show "decision_confirmed n k x" unfolding decision_confirmed_def
    by (intro exI [of _ e] exI [of _ issued] exI [of _ expires]) (use r w in \<open>simp add: x evidence_matches_def\<close>)
qed

text \<open>C6. A runtime admission is grounded. When the engine issues an admission, the admission is valid and names exactly the effect of
  the proposal (mission, authority, action, resource and payload) and an executor that was provisioned for the
  mission under the trusted provider: drone, executor, runtime instance, sandbox, workspace and attestation of the runtime identity are those of
  the executor. The decision is an \<open>ALLOW\<close> that the trusted source confirms as current, with the policy still in force; the live authority
  was revalidated, so that its lineage is signed, unrevoked and current at every state of the database between the readings; and the
  authority granted is the one requested, within the ceiling of the lineage and of the observability.\<close>
theorem runtime_admission_grounded:
  assumes "admit_runtime consume n k g = (Inr x, g')"
    "durable_step\<^sup>*\<^sup>* (rd_epoch_store (fst (an_reads n))) m" "durable_step\<^sup>*\<^sup>* m (rd_epoch_store (snd (an_reads n)))"
  shows "runtime_admission_validate x = Inr () \<and> admission_grounded n k x m"
  using assms(1)
proof (rule admit_runtime_ok)
  fix e live
  assume C: "admission_checks n k = Inr (e, live)" and S: "runtime_admission_sealed (admission_of k e live) = Inr x"
  note c = admission_checks_ok [OF C] and x = admission_of_sel [OF S]
  obtain gs where gs: "receipt_backed (an_live n) (aj_admitted_authority k) gs (instant (aj_trusted_now k)) m"
    using pr_backed [OF c(7) assms(2,3)] by blast
  have links: "gz_effective_authority (aj_gate k) = ap_requested_authority (aj_proposal k)"
    "lv_mission_id (aj_admitted_authority k) = ap_mission_id (aj_proposal k)"
    "lv_lineage_digest (aj_admitted_authority k) = gz_authority_lineage_digest (aj_gate k)"
    "authority_contains (lv_authority_ceiling (aj_admitted_authority k)) (gz_effective_authority (aj_gate k)) = Inr True"
    "gz_observability_state (aj_gate k) \<noteq> ''LOST''"
    "authority_contains (the (map_of OBS_CEILING (gz_observability_state (aj_gate k)))) (gz_effective_authority (aj_gate k)) = Inr True"
    using c(5) by (auto simp: admission_links_def Let_def ceiling_check_def and_then_ok split: if_splits)
  have "admission_grounded n k x m"
    unfolding admission_grounded_def Let_def x links(1) [symmetric]
    by (intro conjI exI [of _ gs]) (use c gs links admission_parts [OF C S] in simp_all)
  with admission_sealed_sel(1) [OF S] show ?thesis by simp
qed

interpretation admission_replay: consumption_guard "\<lambda>t d x. replay_consume d" "\<lambda>seen d. d \<in> seen"
  by unfold_locales (auto simp: replay_consume_def split: if_splits)

lemma admit_runtime_fresh:
  assumes "admit_runtime replay_consume n k g = (Inr x, g')"
  shows "rn_replay_key x \<notin> g" "rn_replay_key x \<in> g'"
proof -
  from assms obtain e live where r: "replay_consume (admission_replay_key k e live) g = (Inr True, g')"
    and S: "runtime_admission_sealed (admission_of k e live) = Inr x" by (rule admit_runtime_ok)
  have "rn_replay_key x = admission_replay_key k e live"
    using admission_sealed_sel(2) [OF S] by (simp add: admission_of_def Let_def)
  with admission_replay.grants_fresh [OF r] show "rn_replay_key x \<notin> g" "rn_replay_key x \<in> g'" by simp_all
qed

lemma admit_runtime_keeps: "d \<in> g \<Longrightarrow> d \<in> snd (admit_runtime replay_consume n k g)"
  by (auto simp: admit_runtime_def replay_consume_def split: sum.splits prod.splits if_splits)

lemma admit_run_keeps: "d \<in> g \<Longrightarrow> d \<in> snd (run_ops (map (\<lambda>(n, k). admit_runtime replay_consume n k) qs) g)"
proof (induction qs arbitrary: g)
  case (Cons q qs)
  from Cons.IH [OF admit_runtime_keeps [OF Cons.prems]] show ?case by (simp add: case_prod_beta Let_def)
qed simp

text \<open>An admission is issued once: whatever is asked of the engine in between, no later call returns an admission with the same
  replay key, that is for the same evidence, decision, effect, identity, live authority and executor.\<close>
theorem runtime_admission_once:
  assumes "admit_runtime replay_consume n k g = (Inr x, g1)"
  shows "\<nexists>x' g3. admit_runtime replay_consume n' k' (snd (run_ops (map (\<lambda>(n, k). admit_runtime replay_consume n k) qs) g1)) = (Inr x', g3)
    \<and> rn_replay_key x' = rn_replay_key x"
  using admit_run_keeps [OF admit_runtime_fresh(2) [OF assms]] by (auto dest: admit_runtime_fresh(1))

section \<open>No effect after revocation\<close>

lemma live_json_inject:
  assumes "json_norm (live_json a) = json_norm (live_json b)"
  shows "a = b"
proof -
  have "map (\<lambda>(k, v). json_norm v) (receipt_fields a @ [(''base_sha'', JStr (la_base_sha a)), (''head_sha'', JStr (la_head_sha a)), (''pr_number'', JInt (la_pr_number a))])
      = map (\<lambda>(k, v). json_norm v) (receipt_fields b @ [(''base_sha'', JStr (la_base_sha b)), (''head_sha'', JStr (la_head_sha b)), (''pr_number'', JInt (la_pr_number b))])"
    by (rule json_norm_fields) (use assms in \<open>simp_all add: live_json_def receipt_fields_def\<close>)
  then show ?thesis by (cases a; cases b) (simp add: receipt_fields_def)
qed

lemma live_digest_inject:
  assumes "live_digest a = Inr d" "live_digest b = Inr d"
  shows "a = b \<or> collides (canon_ascii (live_json a)) (canon_ascii (live_json b))"
  using assms canon_inject(2) [of "live_json a" "live_json b"] live_json_inject [of a b]
  by (auto simp: live_digest_def collides_def)

lemma guard_check_ok:
  assumes "guard_check u rd p = Inr ev"
  obtains b where "gr_resolve_authority rd (rn_admission_digest (gu_admission u)) = Inr b" "live_digest b = Inr (rn_live_authority_digest (gu_admission u))"
    "revalidate (gu_live u) b (gr_revalidated_at rd) (fst (gr_reads rd)) (snd (gr_reads rd)) = Inr b"
  using assms revalidate_same by (fastforce simp: guard_check_def Let_def and_then_ok)

lemma guarded_acts:
  assumes "guarded_execute u rd inner p payload (ev, w) = (ans, ev', w')" "(\<exists>sr. ans = Inr sr) \<or> w' \<noteq> w"
  shows "\<exists>c. guard_check u rd p = Inr c"
  using assms by (auto simp: guarded_execute_def split: sum.splits)

text \<open>C1. Revocation stops effects. Let an admission rest on a live authority and let the context of that authority be
  advanced afterwards (a new epoch or a further revocation). Then every call of the runtime engine whose sandbox is guarded for
  that admission and reads the database after the change raises and leaves the world inside the sandbox as it was; the only way
  out is a currentness source that returns another authority with the same SHA-256 digest.\<close>
theorem revoked_authority_no_effect:
  assumes "ek_sandbox k = guarded_execute u rd inner" "engine_execute consume k (g, ev, w) = (r, g', ev', w')"
    "live_digest a = Inr (rn_live_authority_digest (gu_admission u))"
    "current_epoch (context_key (gu_live u)) s = Inr p" "lv_epoch_state_version a \<le> pe_version p"
    "advance_epoch (context_key (gu_live u)) epoch ids s = (Inr p', s')" "durable_step\<^sup>*\<^sup>* s' (rd_epoch_store (fst (gr_reads rd)))"
  shows "(\<exists>x. r = Inl x) \<and> w' = w
    \<or> (\<exists>b. gr_resolve_authority rd (rn_admission_digest (gu_admission u)) = Inr b \<and> collides (canon_ascii (live_json a)) (canon_ascii (live_json b)))"
proof (rule disjCI)
  assume no: "\<not> (\<exists>b. gr_resolve_authority rd (rn_admission_digest (gu_admission u)) = Inr b
      \<and> collides (canon_ascii (live_json a)) (canon_ascii (live_json b)))"
  show "(\<exists>x. r = Inl x) \<and> w' = w"
  proof (rule ccontr)
    assume acts: "\<not> ((\<exists>x. r = Inl x) \<and> w' = w)"
    then have "(\<exists>x. r = Inr x) \<or> (ev', w') \<noteq> (ev, w)" by (cases r) auto
    from assms(2) this obtain ans where G: "guarded_execute u rd inner (call_operation k) (ek_payload k) (ev, w) = (ans, ev', w')"
      and R: "\<And>x. r = Inr x \<Longrightarrow> \<exists>sr. ans = Inr sr"
      unfolding assms(1) [symmetric] by (rule execute_acts) blast
    from acts R have "(\<exists>sr. ans = Inr sr) \<or> w' \<noteq> w" by (cases r) auto
    from guarded_acts [OF G this] obtain c where "guard_check u rd (call_operation k) = Inr c" by blast
    then obtain b where b: "gr_resolve_authority rd (rn_admission_digest (gu_admission u)) = Inr b"
      "live_digest b = Inr (rn_live_authority_digest (gu_admission u))"
      "revalidate (gu_live u) b (gr_revalidated_at rd) (fst (gr_reads rd)) (snd (gr_reads rd)) = Inr b" by (rule guard_check_ok)
    have "b = a" using live_digest_inject [OF assms(3) b(2)] no b(1) by blast
    with b(3) pr_receipt.stale_refused [OF assms(4-7), of "gr_revalidated_at rd" "snd (gr_reads rd)"] show False by blast
  qed
qed

section \<open>Issued admissions and process evidence\<close>

text \<open>
  The chain of evidence of a process demands that the replay key of the policy decision and of the admission are equal. The
  engine computes the second from the digest of the evidence that contains the first, so an issued admission is accepted
  only when the key of the evidence is a hash of its own digest.
\<close>

lemma issued_admission_in_chain:
  assumes "admit_runtime consume n k g = (Inr x, g')" "de_admission d = x" "downstream_validate_for d outcome ids = Inr ()"
  obtains rest where "pv_replay_key (de_pdp_evidence d) = sha256 (pdp_evidence_digest (de_pdp_evidence d) @ nul # rest)"
proof -
  from assms(1) obtain e live where S: "runtime_admission_sealed (admission_of k e live) = Inr x" by (rule admit_runtime_ok)
  have key: "rn_replay_key x = admission_replay_key k e live" "rn_pdp_evidence_digest x = pv_evidence_digest e"
    using admission_sealed_sel [OF S] by (simp_all add: admission_of_def Let_def)
  have "pv_replay_key (de_pdp_evidence d) = rn_replay_key x" "rn_pdp_evidence_digest x = pv_evidence_digest (de_pdp_evidence d)"
    using downstream_links(4) [OF assms(3)] assms(2) by (simp_all add: admission_link_def Let_def)
  moreover have "pv_evidence_digest (de_pdp_evidence d) = pdp_evidence_digest (de_pdp_evidence d)"
    using downstream_links(1) [OF assms(3)] by (simp add: contracts_valid_def pdp_evidence_validate_def)
  ultimately show thesis using key that by (simp add: admission_replay_key_def join_Cons)
qed

section \<open>An example\<close>

definition runtime_proposal :: action_proposal where
  "runtime_proposal = merge_proposal\<lparr>ap_payload_digest := Some hex64\<rparr>"

definition gate_draft :: gate_applied where
  "gate_draft = \<lparr>gz_gate_event_id = ''gate'', gz_request_id = ''req'', gz_proposal_id = ''p'', gz_decision = ''ALLOW'',
     gz_effective_authority = ''external_write'', gz_policy_binding = ''policy'', gz_authority_lineage_digest = lr_lineage_digest example_record,
     gz_enterprise_graph_digest = hex64, gz_status_digest = hex64, gz_observability_state = ''HEALTHY'', gz_lane = ''GREEN'',
     gz_rationale = ''allowed'', gz_decision_digest = [], gz_schema_version = ''1.0.0''\<rparr>"

definition allowed_gate :: gate_applied where
  "allowed_gate = gate_draft\<lparr>gz_decision_digest := applied_digest gate_draft\<rparr>"

definition allowed_receipt :: pdp_receipt where
  "allowed_receipt = \<lparr>dr_receipt_id = ''receipt'', dr_request_id = ''req'', dr_gate_event_id = ''gate'', dr_request_digest = hex64,
     dr_decision_digest = applied_digest gate_draft, dr_replay_key = hex64, dr_schema_version = ''1.0.0''\<rparr>"

definition allowed_draft :: pdp_evidence where
  "allowed_draft = \<lparr>pv_request_id = ''req'', pv_gate_event_id = ''gate'', pv_proposal_id = ''p'',
     pv_gate_decision_digest = applied_digest gate_draft, pv_pdp_receipt_digest = pdp_receipt_digest allowed_receipt,
     pv_request_digest = hex64, pv_replay_key = hex64, pv_policy_binding = ''policy'',
     pv_authority_lineage_digest = lr_lineage_digest example_record, pv_observability_state = ''HEALTHY'', pv_source_id = ''source'',
     pv_source_instance_id = ''instance'', pv_source_implementation_digest = runtime_hex, pv_trust_anchor_id = ''anchor'',
     pv_trust_anchor_digest = runtime_hex, pv_issued_at = ''2026-01-05T12:00:00Z'', pv_expires_at = ''2026-01-05T13:00:00Z'',
     pv_evidence_digest = [], pv_schema_version = ''1.1.0''\<rparr>"

definition allowed_evidence :: pdp_evidence where
  "allowed_evidence = allowed_draft\<lparr>pv_evidence_digest := pdp_evidence_digest allowed_draft\<rparr>"

definition executor_request :: provisioning_request where
  "executor_request = \<lparr>vq_schema_version = ''1.0.0'', vq_request_id = ''req'', vq_idempotency_key = ''key'', vq_drone_id = ''drone'',
     vq_executor_id = ''executor'', vq_mission_id = ''m1'', vq_parent_mission_id = ''m0'', vq_repository = ''o/r'',
     vq_baseline_sha = replicate 40 CHR ''b'', vq_baseline_tree_sha = replicate 40 CHR ''c'', vq_branch = ''work'', vq_read_scope = [''docs''],
     vq_write_scope = [''docs''], vq_runtime_class = ''class'', vq_image_digest = hex64, vq_sandbox_profile_digest = hex64,
     vq_resource_profile_digest = hex64, vq_credential_handles = [], vq_requested_at = ''2026-01-05T12:00:00Z''\<rparr>"

definition executor_provider :: provider_trust where
  "executor_provider = \<lparr>vt_provider_id = ''provider'', vt_provider_instance_id = ''instance'', vt_implementation_digest = hex64,
     vt_trust_anchor_id = ''anchor'', vt_trust_anchor_digest = hex64\<rparr>"

definition executor_example :: provisioned_executor where
  "executor_example = \<lparr>vx_schema_version = ''1.0.0'', vx_receipt_id = ''receipt'', vx_request_id = ''req'',
     vx_request_digest = provisioning_request_digest executor_request, vx_idempotency_key = ''key'', vx_drone_id = ''drone'',
     vx_executor_id = ''executor'', vx_runtime_instance_id = ''runtime'', vx_sandbox_id = ''sandbox'', vx_workspace_id = ''workspace'',
     vx_mission_id = ''m1'', vx_parent_mission_id = ''m0'', vx_repository = ''o/r'', vx_baseline_sha = replicate 40 CHR ''b'',
     vx_baseline_tree_sha = replicate 40 CHR ''c'', vx_branch = ''work'', vx_read_scope = [''docs''], vx_write_scope = [''docs''],
     vx_runtime_class = ''class'', vx_image_digest = hex64, vx_sandbox_profile_digest = hex64, vx_resource_profile_digest = hex64,
     vx_credential_handle_ids = [], vx_provider_id = ''provider'', vx_provider_instance_id = ''instance'',
     vx_provider_implementation_digest = hex64, vx_provider_trust_anchor_id = ''anchor'', vx_provider_trust_anchor_digest = hex64,
     vx_runtime_attestation_digest = hex64, vx_provider_evidence_ref = ''evidence'', vx_provisioned_at = ''2026-01-05T12:00:00Z''\<rparr>"

definition admission_example :: admission_engine where
  "admission_example = \<lparr>an_live = live_example, an_source_trust = example_trust, an_resolve = (\<lambda>_ _. Inr allowed_evidence),
     an_current_policy_binding = Inr, an_reads = (live_read live_store, live_read live_store)\<rparr>"

definition admission_call_example :: admission_call where
  "admission_call_example = \<lparr>aj_gate = allowed_gate, aj_pdp_receipt = allowed_receipt, aj_admitted_authority = live_example_receipt ''n'',
     aj_proposal = runtime_proposal, aj_effect = effect_of runtime_proposal allowed_gate (identity_of executor_example),
     aj_runtime_identity = identity_of executor_example, aj_provisioned_executor = executor_example,
     aj_provisioning_request = executor_request, aj_provider_trust = executor_provider, aj_trusted_now = live_moment\<rparr>"

lemma grounded_texts: "list_all (\<lambda>t. \<not> text_invalid 2048 t) [''req'', ''gate'', ''p'', ''policy'', ''allowed'', ''receipt'', ''source'', ''instance'', ''anchor'',
    ''key'', ''drone'', ''executor'', ''runtime'', ''sandbox'', ''workspace'', ''m1'', ''m0'', ''class'', ''provider'', ''evidence'', ''external_write'', ''c'', ''t'']"
  by code_simp

lemma chain_lineage [simp]: "is_hex 64 (lr_lineage_digest example_record)"
  using live_receipt_lineage [of "[]"] by (simp add: live_example_sel)

lemma grounded_hexes [simp]: "is_hex 64 (applied_digest z)" "is_hex 64 (pdp_receipt_digest d)" "is_hex 64 (provisioning_request_digest q)"
  "is_hex 64 (provisioned_digest v)" "is_hex 64 (pdp_evidence_digest e)"
  by (simp_all add: applied_digest_def pdp_receipt_digest_def provisioning_request_digest_def provisioned_digest_def pdp_evidence_digest_def)

lemma text_prefix: "\<not> blank p \<Longrightarrow> nul \<notin> set p \<Longrightarrow> length p \<le> 1024 \<Longrightarrow> is_hex 64 h \<Longrightarrow> \<not> text_invalid 2048 (p @ h)"
  using is_hex_text [of 64 h 64] by (auto simp: text_invalid_def blank_def is_hex_def)

lemma not_blank: "\<not> text_invalid l t \<Longrightarrow> \<not> blank t"
  by (simp add: text_invalid_def)

lemma longer_text: "\<not> text_invalid l t \<Longrightarrow> l \<le> l' \<Longrightarrow> \<not> text_invalid l' t"
  by (auto simp: text_invalid_def)

lemma allowed_gate_valid: "applied_validate allowed_gate = Inr ()" "pdp_receipt_validate allowed_receipt = Inr ()"
proof -
  have "applied_digest allowed_gate = applied_digest gate_draft" by (simp add: applied_digest_def allowed_gate_def)
  moreover have "list_all (\<lambda>t. \<not> blank t) [''req'', ''gate'', ''p'', ''policy'', ''allowed'', ''receipt'']" by code_simp
  ultimately show "applied_validate allowed_gate = Inr ()" "pdp_receipt_validate allowed_receipt = Inr ()"
    by (simp_all add: applied_validate_def pdp_receipt_validate_def gate_text_def gate_hex_def)
       (simp_all add: allowed_gate_def gate_draft_def allowed_receipt_def DECISIONS_def OBSERVABILITY_STATES_def LANES_def)
qed

lemma allowed_evidence_valid: "canonical_pdp admission_example allowed_gate allowed_receipt live_moment = Inr allowed_evidence"
proof -
  have d: "pdp_evidence_digest allowed_evidence = pdp_evidence_digest allowed_draft"
    by (simp add: pdp_evidence_digest_def pdp_evidence_json_def allowed_evidence_def)
  have t: "contract_utc RuntimeEnforcementContractError ''2026-01-05T12:00:00Z'' ''issued_at'' = Inr 63903297600000000"
    "contract_utc RuntimeEnforcementContractError ''2026-01-05T13:00:00Z'' ''expires_at'' = Inr 63903301200000000"
    "evidence_utc ''2026-01-05T12:00:00Z'' = Inr 63903297600000000" "evidence_utc ''2026-01-05T13:00:00Z'' = Inr 63903301200000000"
    "instant live_moment = 63903297600000000" by code_simp+
  have e: "pdp_evidence_validate allowed_evidence = Inr ()"
    using grounded_texts by (simp add: pdp_evidence_validate_def d pdp_evidence_check_def pdp_window_def)
      (simp add: allowed_evidence_def allowed_draft_def t example_hexes observability_states_def)
  have "evidence_matches allowed_evidence allowed_gate allowed_receipt"
    by (simp add: evidence_matches_def allowed_evidence_def allowed_draft_def allowed_gate_def gate_draft_def) (simp add: allowed_receipt_def)
  then show ?thesis using e allowed_gate_valid(2)
    by (simp add: canonical_pdp_def admission_example_def) (simp add: allowed_evidence_def allowed_draft_def example_trust_def trust_of_def t)
qed

lemma executor_checks: "repository_checks ''o/r'' (replicate 40 CHR ''b'') (replicate 40 CHR ''c'') ''work'' [''docs''] [''docs'']
    = [Inr (), Inr (), Inr (), Inr (), Inr (), Inr ()]" "provisioning_utc (n, ''2026-01-05T12:00:00Z'') = Inr ()"
proof -
  show "repository_checks ''o/r'' (replicate 40 CHR ''b'') (replicate 40 CHR ''c'') ''work'' [''docs''] [''docs''] = [Inr (), Inr (), Inr (), Inr (), Inr (), Inr ()]" by code_simp
  have "fromisoformat (replace_z ''2026-01-05T12:00:00Z'') = Some (63903297600000000, Some 0)" "\<not> text_invalid 4096 ''2026-01-05T12:00:00Z''" by code_simp+
  then show "provisioning_utc (n, ''2026-01-05T12:00:00Z'') = Inr ()" by (simp add: provisioning_utc_def provisioning_text_def)
qed

lemma provisioning_sha256_ok: "is_hex 64 h \<Longrightarrow> provisioning_sha256 (n, h) = Inr ()"
  using is_hex_text [of 64 h 64] by (simp add: provisioning_sha256_def provisioning_text_def)

lemma executor_valid: "provisioned_validate_for executor_example executor_request executor_provider = Inr ()"
proof -
  have t: "list_all (\<lambda>t. \<not> text_invalid 4096 t) [''req'', ''receipt'', ''instance'', ''anchor'', ''key'', ''drone'', ''executor'', ''runtime'',
    ''sandbox'', ''workspace'', ''m1'', ''m0'', ''class'', ''provider'', ''evidence'']" by code_simp
  have "provisioned_validate executor_example = Inr ()"
    using t by (simp add: provisioned_validate_def executor_example_def executor_checks provisioning_sha256_ok provisioning_text_def
        provisioning_ids_def)
  moreover have "provisioning_request_validate executor_request = Inr ()"
    using t by (simp add: provisioning_request_validate_def executor_request_def executor_checks provisioning_sha256_ok provisioning_text_def)
  moreover have "provider_trust_validate executor_provider = Inr ()"
    using t by (simp add: provider_trust_validate_def executor_provider_def provisioning_sha256_ok provisioning_text_def)
  moreover have "vx_request_digest executor_example = provisioning_request_digest executor_request" by (simp add: executor_example_def)
  moreover have "binds_request executor_example executor_request" by (simp add: binds_request_def executor_example_def executor_request_def)
  ultimately show ?thesis by (simp add: provisioned_validate_for_def) (simp add: executor_example_def executor_provider_def)
qed

lemma example_identity_checked: "runtime_identity_check (identity_of executor_example) executor_example executor_request executor_provider = Inr ()"
  "runtime_identity_validate (identity_of executor_example) = Inr ()"
proof -
  show "runtime_identity_validate (identity_of executor_example) = Inr ()"
    using grounded_texts by (simp add: runtime_identity_validate_def identity_of_def) (simp add: executor_example_def)
  then show "runtime_identity_check (identity_of executor_example) executor_example executor_request executor_provider = Inr ()"
    by (simp add: runtime_identity_check_def executor_valid) (simp add: identity_of_def)
qed

lemma runtime_proposal_sel: "ap_proposal_id runtime_proposal = ''p''" "ap_mission_id runtime_proposal = ''m1''"
  "ap_requested_authority runtime_proposal = ''external_write''" "ap_action_class runtime_proposal = ''c''" "ap_target runtime_proposal = ''t''"
  "ap_payload_digest runtime_proposal = Some hex64" "proposal_validate runtime_proposal = Inr ()"
  using merge_org_valid(4) by (simp_all add: runtime_proposal_def merge_proposal_def example_proposal_def proposal_validate_def)

lemma allowed_gate_sel: "gz_gate_event_id allowed_gate = ''gate''" "gz_request_id allowed_gate = ''req''" "gz_proposal_id allowed_gate = ''p''"
  "gz_decision allowed_gate = ''ALLOW''" "gz_effective_authority allowed_gate = ''external_write''" "gz_policy_binding allowed_gate = ''policy''"
  "gz_authority_lineage_digest allowed_gate = lr_lineage_digest example_record" "gz_observability_state allowed_gate = ''HEALTHY''"
  "gz_decision_digest allowed_gate = applied_digest gate_draft"
  by (simp_all add: allowed_gate_def gate_draft_def)

lemma example_effect_valid: "requested_effect_validate (effect_of runtime_proposal allowed_gate i) = Inr ()"
proof -
  have "\<not> text_invalid 2048 (''runtime-effect:'' @ h)" if "is_hex 64 h" for h
    by (rule text_prefix [OF _ _ _ that]) (code_simp, simp_all add: nul_def)
  with grounded_texts show ?thesis
    by (simp add: requested_effect_validate_def effect_of_def runtime_proposal_sel allowed_gate_sel example_hexes observability_states_def)
qed

lemma example_admission_links: "admission_links admission_call_example = Inr ()"
proof -
  have "authority_contains ''external_write'' ''external_write'' = Inr True" "authority_contains ''privileged'' ''external_write'' = Inr True" by code_simp+
  then show ?thesis
    by (simp add: admission_links_def admission_call_example_def ceiling_check_def runtime_proposal_sel allowed_gate_sel live_example_sel effect_of_def
        OBS_CEILING_def) (simp add: executor_example_def)
qed

lemma example_admission_checks: "\<exists>live. admission_checks admission_example admission_call_example = Inr (allowed_evidence, live) \<and> is_hex 64 live"
proof -
  obtain live where "live_digest (live_example_receipt ''n'') = Inr live" "is_hex 64 live"
    by (simp add: live_digest_def live_example_valid)
  moreover note example_admission_links
  moreover have "dr_request_id allowed_receipt = ''req''" "dr_gate_event_id allowed_receipt = ''gate''"
    "dr_decision_digest allowed_receipt = applied_digest gate_draft" by (simp_all add: allowed_receipt_def)
  ultimately show ?thesis
    using allowed_gate_valid allowed_evidence_valid example_identity_checked live_example_valid example_effect_valid live_example_revalidates
    by (simp add: admission_checks_def admission_call_example_def Let_def runtime_proposal_sel allowed_gate_sel)
      (simp add: admission_example_def)
qed

lemma runtime_example_admitted:
  obtains x g where "admit_runtime replay_consume admission_example admission_call_example {} = (Inr x, g)" "rn_effective_authority x = ''external_write''"
proof -
  obtain live where c: "admission_checks admission_example admission_call_example = Inr (allowed_evidence, live)" "is_hex 64 live"
    using example_admission_checks by blast
  let ?a = "admission_of admission_call_example allowed_evidence live"
  have id: "\<not> text_invalid 2048 (''runtime-admission:'' @ h)" if "is_hex 64 h" for h
    by (rule text_prefix [OF _ _ _ that]) (code_simp, simp_all add: nul_def)
  have e: "is_hex 64 (pv_evidence_digest allowed_evidence)" by (simp add: allowed_evidence_def)
  have k: "aj_gate admission_call_example = allowed_gate" by (simp add: admission_call_example_def)
  have "is_hex 64 (admission_replay_key admission_call_example allowed_evidence live)" by (simp add: admission_replay_key_def)
  then have "runtime_admission_check ?a = Inr ()"
    using grounded_texts id c(2) e by (simp add: runtime_admission_check_def admission_of_def Let_def k allowed_gate_sel example_hexes observability_states_def)
  then have "runtime_admission_sealed ?a = Inr (?a\<lparr>rn_admission_digest := runtime_admission_digest ?a\<rparr>)"
    by (simp add: runtime_admission_sealed_def Let_def runtime_admission_validate_def example_hexes)
  with that c show thesis
    by (simp add: admit_runtime_def replay_consume_def admission_of_def Let_def k allowed_gate_sel)
qed

text \<open>The admission of the example rests on a lineage that is live in the example store.\<close>
theorem runtime_admission_grounded_witness:
  "\<exists>x g. admit_runtime replay_consume admission_example admission_call_example {} = (Inr x, g) \<and> rn_effective_authority x = ''external_write''
    \<and> runtime_admission_validate x = Inr () \<and> admission_grounded admission_example admission_call_example x live_store"
proof -
  obtain x g where x: "admit_runtime replay_consume admission_example admission_call_example {} = (Inr x, g)" "rn_effective_authority x = ''external_write''"
    by (rule runtime_example_admitted)
  from runtime_admission_grounded [OF x(1), of live_store] x show ?thesis by (auto simp: admission_example_def live_read_def)
qed

text \<open>The same call a second time.\<close>
theorem runtime_admission_once_witness:
  "\<exists>x g. admit_runtime replay_consume admission_example admission_call_example {} = (Inr x, g)
    \<and> (\<nexists>x' g3. admit_runtime replay_consume admission_example admission_call_example g = (Inr x', g3) \<and> rn_replay_key x' = rn_replay_key x)"
proof -
  obtain x g where x: "admit_runtime replay_consume admission_example admission_call_example {} = (Inr x, g)" by (rule runtime_example_admitted)
  from runtime_admission_once [OF x, of admission_example admission_call_example "[]"] x show ?thesis by auto
qed

text \<open>The engine of the runtime example behind a guard for the live authority, with the database at one state.\<close>

definition guard_example :: currentness_guard where
  "guard_example = \<lparr>gu_admission = (admission_for ''data'' runtime_hex)\<lparr>
       rn_live_authority_digest := sha256 (canon_ascii (live_json (live_example_receipt ''n''))),
       rn_authority_lineage_digest := lr_lineage_digest example_record\<rparr>,
     gu_effect = example_effect ''data'', gu_runtime_identity = example_identity, gu_live = live_example, gu_trust = example_trust\<rparr>"

definition guard_reading :: "durable_store \<Rightarrow> guard_reads" where
  "guard_reading s = \<lparr>gr_resolve_authority = (\<lambda>_. Inr (live_example_receipt ''n'')), gr_current_policy_binding = Inr,
     gr_current_observability_state = (\<lambda>_ _. Inr ''HEALTHY''), gr_reads = (live_read s, live_read s), gr_revalidated_at = live_moment,
     gr_observed_at = live_moment\<rparr>"

definition guarded_call :: "durable_store \<Rightarrow> (effect_currentness option \<times> string list) engine_call" where
  "guarded_call s = \<lparr>ek_resolve = resolve_admission (example_table ''data'' runtime_hex),
     ek_is_current = is_current_admission (example_table ''data'' runtime_hex), ek_now = example_instant, ek_policy_digest = runtime_hex,
     ek_sandbox = guarded_execute guard_example (guard_reading s) sandbox_writes, ek_admission = admission_for ''data'' runtime_hex,
     ek_request = request_for ''data'' runtime_hex, ek_effect = example_effect ''data'', ek_identity = example_identity, ek_payload = ''data''\<rparr>"

lemma example_live_digest: "live_digest (live_example_receipt n) = Inr (sha256 (canon_ascii (live_json (live_example_receipt n))))"
  by (simp add: live_digest_def live_example_valid)

lemma guard_example_passes: "\<exists>e. guard_check guard_example (guard_reading live_store) (call_operation (guarded_call s)) = Inr e"
proof -
  let ?c = "guard_evidence guard_example (call_operation (guarded_call s)) ''HEALTHY'' live_moment"
  have m: "valid_time RuntimeCurrentnessContractError (utc_text live_moment) n = Inr ()" for n using live_moment_valid by (rule valid_time_utc)
  have "\<not> text_invalid 2048 (sha256 x)" for x by (rule is_hex_text [of 64]) simp_all
  then have "effect_currentness_check ?c = Inr ()"
    using runtime_texts m
    by (simp add: effect_currentness_check_def guard_evidence_def Let_def)
       (simp add: guard_example_def admission_for_def admission_draft_def example_trust_def observability_states_def example_hexes)
  then have s: "effect_currentness_sealed ?c = Inr (?c\<lparr>cu_evidence_digest := effect_currentness_digest ?c\<rparr>)"
    by (simp add: effect_currentness_sealed_def Let_def effect_currentness_validate_def) (simp add: effect_currentness_digest_def)
  have "authority_contains ''privileged'' ''local_write'' = Inr True" by code_simp
  with s live_example_revalidates example_live_digest show ?thesis
    by (simp add: guard_check_def guard_reading_def Let_def)
       (simp add: guard_example_def guarded_call_def call_operation_def operation_of_def request_for_def example_effect_def example_identity_def
        admission_for_def admission_draft_def live_example_sel OBS_CEILING_def)
qed

text \<open>Before the change the guard passes; after a grant was revoked the guarded engine raises and writes nothing.\<close>
theorem revoked_authority_no_effect_witness:
  "(\<exists>e. guard_check guard_example (guard_reading live_store) (call_operation (guarded_call live_store)) = Inr e)
   \<and> (\<exists>x g ev. engine_execute sqlite_consume (guarded_call (example_advanced live_store)) ([], None, []) = (Inl x, g, ev, []))"
proof -
  let ?s = "example_advanced live_store"
  obtain r g ev w where e: "engine_execute sqlite_consume (guarded_call ?s) ([], None, []) = (r, g, ev, w)" by (metis surj_pair)
  have u: "gu_live guard_example = live_example" by (simp add: guard_example_def)
  note c = live_store_current [folded u]
  have a: "advance_epoch (context_key live_example) 3 [''new'', ''old''] live_store = (Inr \<lparr>pe_context = state_context example_state, pe_epoch = 3,
      pe_revoked_grant_ids = [''new'', ''old''], pe_version = 2\<rparr>, ?s)"
    using example_advance [OF live_store_row] by (simp add: live_example_key example_advanced_def)
  note a' = a [folded u]
  have k: "ek_sandbox (guarded_call ?s) = guarded_execute guard_example (guard_reading ?s) sandbox_writes" by (simp add: guarded_call_def)
  have "(\<exists>x. r = Inl x) \<and> w = [] \<or> (\<exists>b. gr_resolve_authority (guard_reading ?s) (rn_admission_digest (gu_admission guard_example)) = Inr b
      \<and> collides (canon_ascii (live_json (live_example_receipt ''n''))) (canon_ascii (live_json b)))"
    by (rule revoked_authority_no_effect [OF k e _ c _ a']) (simp_all add: guard_example_def guard_reading_def live_example_sel live_read_def example_live_digest)
  with e guard_example_passes show ?thesis by (auto simp: guard_reading_def collides_def)
qed

end
