(* ===== verification/Executor_Sandbox.thy ===== *)
theory Executor_Sandbox
  imports Runtime_Execution Executor_Provisioning
begin

text \<open>
  contracts/executor_sandbox.py (limits, bindings and the policy; operations and receipts are in \<open>Runtime_Contracts\<close>) and
  enterprise/executor_sandbox.py: the replay guards, the budget ledgers and the sandbox that lets a backend act.

  The backend and the source of the current dispatch are arguments. Digests are taken of validated records only, so their own
  validation has no branch. The identity checks of the state files are not modelled.
\<close>

section \<open>Contract\<close>

abbreviation sandbox_contract_when :: "bool \<Rightarrow> string \<Rightarrow> unit res" where
  "sandbox_contract_when b m \<equiv> raise_when b ExecutionSandboxContractError m"

definition sandbox_sha :: "string \<Rightarrow> string \<Rightarrow> unit res" where
  "sandbox_sha v n = checks [contract_text ExecutionSandboxContractError 40 v n, sandbox_contract_when (\<not> is_hex 40 v) (n @ '' must be git sha'')]"

definition sandbox_branch :: "string \<Rightarrow> unit res" where
  "sandbox_branch v = checks [contract_text ExecutionSandboxContractError 255 v ''branch'',
     sandbox_contract_when (starts_with ''refs/'' v \<or> starts_with ''/'' v \<or> ends_with ''/'' v \<or> ends_with ''.'' v \<or> ends_with ''.lock'' v
       \<or> contains ''..'' v \<or> contains ''//'' v \<or> contains [CHR 0x40, CHR 0x7B] v \<or> list_ex (\<lambda>c. c \<in> set '' ~^:?*['' \<or> c = CHR 0x5C) v) ''branch invalid'']"

definition scope_path :: "string \<Rightarrow> string \<Rightarrow> unit res" where
  "scope_path n v = checks [
     contract_text ExecutionSandboxContractError 2048 v n,
     sandbox_contract_when (CHR 0x5C \<in> set v \<or> list_ex (\<lambda>c. c \<in> set ''*?[]'') v) (n @ '' not concrete POSIX''),
     sandbox_contract_when (starts_with ''/'' v \<or> ''..'' \<in> set (path_parts v) \<or> path_parts v = [] \<or> join ''/'' (path_parts v) \<noteq> v) (n @ '' unsafe'')]"

definition sandbox_scope :: "string \<Rightarrow> string list \<Rightarrow> unit res" where
  "sandbox_scope n v = checks (sandbox_contract_when (v = []) (n @ '' must be tuple'') # map (scope_path n) v
     @ [sandbox_contract_when (\<not> no_dup v) (n @ '' duplicate'')])"

definition path_within_scope :: "string \<Rightarrow> string list \<Rightarrow> bool res" where
  "path_within_scope p s = and_then (sandbox_path p) (\<lambda>_. and_then (sandbox_scope ''scope'' s) (\<lambda>_.
     Inr (list_ex (\<lambda>x. take (length (path_parts x)) (path_parts p) = path_parts x) s)))"

definition sandbox_repo :: "string \<Rightarrow> unit res" where
  "sandbox_repo v = checks [contract_text ExecutionSandboxContractError 2048 v ''repository'',
     sandbox_contract_when (\<not> provisioning_repo_pattern v) ''repository invalid'']"

text \<open>Repository, baseline and branch, as three of the records check them.\<close>

definition baseline_checks :: "string \<Rightarrow> string \<Rightarrow> string \<Rightarrow> string \<Rightarrow> unit res list" where
  "baseline_checks repository sha tree branch = [sandbox_repo repository, sandbox_sha sha ''baseline_sha'', sandbox_sha tree ''baseline_tree_sha'',
     sandbox_branch branch]"

record sandbox_limits =
  sl_max_operations :: int
  sl_max_write_bytes :: int
  sl_max_output_bytes :: int
  sl_max_test_runs :: int

definition sandbox_limits_validate :: "sandbox_limits \<Rightarrow> unit res" where
  "sandbox_limits_validate l = checks (map (\<lambda>(n, v). sandbox_contract_when (v < 1) (n @ '' invalid'')) [
     (''max_operations'', sl_max_operations l), (''max_write_bytes'', sl_max_write_bytes l), (''max_output_bytes'', sl_max_output_bytes l),
     (''max_test_runs'', sl_max_test_runs l)])"

record sandbox_runtime =
  sm_backend_id :: string
  sm_backend_identity_digest :: string
  sm_backend_implementation_digest :: string
  sm_isolation_evidence_digest :: string
  sm_sandbox_id :: string
  sm_workspace_id :: string
  sm_filesystem_mode :: string
  sm_network_mode :: string
  sm_process_mode :: string
  sm_ephemeral :: bool
  sm_schema_version :: string

definition sandbox_runtime_validate :: "sandbox_runtime \<Rightarrow> unit res" where
  "sandbox_runtime_validate m = checks [
     sandbox_contract_when (sm_schema_version m \<noteq> ''2.0.0'') ''runtime schema'',
     texts ExecutionSandboxContractError [(''backend_id'', sm_backend_id m), (''sandbox_id'', sm_sandbox_id m), (''workspace_id'', sm_workspace_id m)],
     checks (map (\<lambda>(n, v). sandbox_digest v n) [(''backend_identity_digest'', sm_backend_identity_digest m),
       (''backend_implementation_digest'', sm_backend_implementation_digest m), (''isolation_evidence_digest'', sm_isolation_evidence_digest m)]),
     sandbox_contract_when ((sm_filesystem_mode m, sm_network_mode m, sm_process_mode m, sm_ephemeral m)
       \<noteq> (''WORKSPACE_ONLY'', ''DENY_ALL'', ''ALLOWLIST_ONLY'', True)) ''runtime isolation'']"

definition sandbox_runtime_digest :: "sandbox_runtime \<Rightarrow> string" where
  "sandbox_runtime_digest m = sha256 (''LION/SANDBOX-RUNTIME/2'' @ nul # canon (JObj [
     (''backend_id'', JStr (sm_backend_id m)), (''backend_identity_digest'', JStr (sm_backend_identity_digest m)),
     (''backend_implementation_digest'', JStr (sm_backend_implementation_digest m)),
     (''isolation_evidence_digest'', JStr (sm_isolation_evidence_digest m)), (''sandbox_id'', JStr (sm_sandbox_id m)),
     (''workspace_id'', JStr (sm_workspace_id m)), (''filesystem_mode'', JStr (sm_filesystem_mode m)),
     (''network_mode'', JStr (sm_network_mode m)), (''process_mode'', JStr (sm_process_mode m)), (''ephemeral'', JBool (sm_ephemeral m)),
     (''schema_version'', JStr (sm_schema_version m))]))"

record dispatch_binding =
  db_mission_id :: string
  db_drone_id :: string
  db_dispatch_id :: string
  db_fencing_token :: string
  db_generation :: int
  db_repository :: string
  db_baseline_sha :: string
  db_baseline_tree_sha :: string
  db_branch :: string
  db_write_scope :: "string list"

definition dispatch_binding_validate :: "dispatch_binding \<Rightarrow> unit res" where
  "dispatch_binding_validate d = checks ([
     texts ExecutionSandboxContractError [(''mission_id'', db_mission_id d), (''drone_id'', db_drone_id d)],
     sandbox_digest (db_dispatch_id d) ''dispatch_id'', sandbox_digest (db_fencing_token d) ''fencing_token'']
     @ baseline_checks (db_repository d) (db_baseline_sha d) (db_baseline_tree_sha d) (db_branch d)
     @ [sandbox_scope ''write_scope'' (db_write_scope d), sandbox_contract_when (db_generation d < 1) ''generation invalid''])"

definition dispatch_binding_digest :: "dispatch_binding \<Rightarrow> string" where
  "dispatch_binding_digest d = sha256 (''LION/FLEET-DISPATCH/1'' @ nul # canon (JObj [
     (''mission_id'', JStr (db_mission_id d)), (''drone_id'', JStr (db_drone_id d)), (''dispatch_id'', JStr (db_dispatch_id d)),
     (''fencing_token'', JStr (db_fencing_token d)), (''generation'', JInt (db_generation d)), (''repository'', JStr (db_repository d)),
     (''baseline_sha'', JStr (db_baseline_sha d)), (''baseline_tree_sha'', JStr (db_baseline_tree_sha d)), (''branch'', JStr (db_branch d)),
     (''write_scope'', strs (db_write_scope d))]))"

record provisioning_binding =
  pb_provisioning_request_digest :: string
  pb_provisioning_materialization_digest :: string
  pb_provisioned_executor_digest :: string
  pb_mission_id :: string
  pb_drone_id :: string
  pb_executor_id :: string
  pb_repository :: string
  pb_baseline_sha :: string
  pb_baseline_tree_sha :: string
  pb_branch :: string
  pb_read_scope :: "string list"
  pb_write_scope :: "string list"
  pb_runtime_instance_id :: string
  pb_sandbox_id :: string
  pb_workspace_id :: string
  pb_runtime_attestation_digest :: string

definition provisioning_binding_validate :: "provisioning_binding \<Rightarrow> unit res" where
  "provisioning_binding_validate b = checks ([
     checks (map (\<lambda>(n, v). sandbox_digest v n) [(''provisioning_request_digest'', pb_provisioning_request_digest b),
       (''provisioning_materialization_digest'', pb_provisioning_materialization_digest b),
       (''provisioned_executor_digest'', pb_provisioned_executor_digest b), (''runtime_attestation_digest'', pb_runtime_attestation_digest b)]),
     texts ExecutionSandboxContractError [(''mission_id'', pb_mission_id b), (''drone_id'', pb_drone_id b), (''executor_id'', pb_executor_id b),
       (''runtime_instance_id'', pb_runtime_instance_id b), (''sandbox_id'', pb_sandbox_id b), (''workspace_id'', pb_workspace_id b)]]
     @ baseline_checks (pb_repository b) (pb_baseline_sha b) (pb_baseline_tree_sha b) (pb_branch b)
     @ [sandbox_scope ''read_scope'' (pb_read_scope b), sandbox_scope ''write_scope'' (pb_write_scope b)])"

definition provisioning_binding_digest :: "provisioning_binding \<Rightarrow> string" where
  "provisioning_binding_digest b = sha256 (''LION/PROVISIONING-BINDING/1'' @ nul # canon (JObj [
     (''provisioning_request_digest'', JStr (pb_provisioning_request_digest b)),
     (''provisioning_materialization_digest'', JStr (pb_provisioning_materialization_digest b)),
     (''provisioned_executor_digest'', JStr (pb_provisioned_executor_digest b)), (''mission_id'', JStr (pb_mission_id b)),
     (''drone_id'', JStr (pb_drone_id b)), (''executor_id'', JStr (pb_executor_id b)), (''repository'', JStr (pb_repository b)),
     (''baseline_sha'', JStr (pb_baseline_sha b)), (''baseline_tree_sha'', JStr (pb_baseline_tree_sha b)), (''branch'', JStr (pb_branch b)),
     (''read_scope'', strs (pb_read_scope b)), (''write_scope'', strs (pb_write_scope b)),
     (''runtime_instance_id'', JStr (pb_runtime_instance_id b)), (''sandbox_id'', JStr (pb_sandbox_id b)),
     (''workspace_id'', JStr (pb_workspace_id b)), (''runtime_attestation_digest'', JStr (pb_runtime_attestation_digest b))]))"

section \<open>The policy\<close>

record sandbox_policy =
  sp_repository :: string
  sp_baseline_sha :: string
  sp_baseline_tree_sha :: string
  sp_branch :: string
  sp_mission_id :: string
  sp_drone_id :: string
  sp_executor_id :: string
  sp_sandbox_id :: string
  sp_workspace_id :: string
  sp_runtime_instance_id :: string
  sp_authority_binding_digest :: string
  sp_runtime_binding_digest :: string
  sp_fleet_dispatch_binding_digest :: string
  sp_provisioning_binding_digest :: string
  sp_dispatch_id :: string
  sp_fencing_token :: string
  sp_generation :: int
  sp_runtime_attestation_digest :: string
  sp_read_scope :: "string list"
  sp_write_scope :: "string list"
  sp_test_scope :: "string list"
  sp_allowed_test_commands :: "string list list"
  sp_resource_limits :: sandbox_limits
  sp_schema_version :: string

definition sandbox_policy_validate :: "sandbox_policy \<Rightarrow> unit res" where
  "sandbox_policy_validate x = checks (sandbox_contract_when (sp_schema_version x \<noteq> ''2.0.0'') ''policy schema''
     # baseline_checks (sp_repository x) (sp_baseline_sha x) (sp_baseline_tree_sha x) (sp_branch x)
     @ [texts ExecutionSandboxContractError [(''mission_id'', sp_mission_id x), (''drone_id'', sp_drone_id x), (''executor_id'', sp_executor_id x),
         (''sandbox_id'', sp_sandbox_id x), (''workspace_id'', sp_workspace_id x), (''runtime_instance_id'', sp_runtime_instance_id x)],
       checks (map (\<lambda>(n, v). sandbox_digest v n) [(''authority_binding_digest'', sp_authority_binding_digest x),
         (''runtime_binding_digest'', sp_runtime_binding_digest x), (''fleet_dispatch_binding_digest'', sp_fleet_dispatch_binding_digest x),
         (''provisioning_binding_digest'', sp_provisioning_binding_digest x), (''dispatch_id'', sp_dispatch_id x),
         (''fencing_token'', sp_fencing_token x), (''runtime_attestation_digest'', sp_runtime_attestation_digest x)]),
       sandbox_contract_when (sp_generation x < 1) ''generation invalid'',
       sandbox_scope ''read_scope'' (sp_read_scope x), sandbox_scope ''write_scope'' (sp_write_scope x), sandbox_scope ''test_scope'' (sp_test_scope x),
       sandbox_contract_when (sp_allowed_test_commands x = []) ''test commands invalid'',
       checks (map (command_check ExecutionSandboxContractError) (sp_allowed_test_commands x)),
       sandbox_contract_when (\<not> no_dup (sp_allowed_test_commands x)) ''duplicate command'', sandbox_limits_validate (sp_resource_limits x)])"

definition sandbox_policy_digest :: "sandbox_policy \<Rightarrow> string" where
  "sandbox_policy_digest x = sha256 (''LION/SANDBOX-POLICY/2'' @ nul # canon (JObj [
     (''repository'', JStr (sp_repository x)), (''baseline_sha'', JStr (sp_baseline_sha x)),
     (''baseline_tree_sha'', JStr (sp_baseline_tree_sha x)), (''branch'', JStr (sp_branch x)), (''mission_id'', JStr (sp_mission_id x)),
     (''drone_id'', JStr (sp_drone_id x)), (''executor_id'', JStr (sp_executor_id x)), (''sandbox_id'', JStr (sp_sandbox_id x)),
     (''workspace_id'', JStr (sp_workspace_id x)), (''runtime_instance_id'', JStr (sp_runtime_instance_id x)),
     (''authority_binding_digest'', JStr (sp_authority_binding_digest x)), (''runtime_binding_digest'', JStr (sp_runtime_binding_digest x)),
     (''fleet_dispatch_binding_digest'', JStr (sp_fleet_dispatch_binding_digest x)),
     (''provisioning_binding_digest'', JStr (sp_provisioning_binding_digest x)), (''dispatch_id'', JStr (sp_dispatch_id x)),
     (''fencing_token'', JStr (sp_fencing_token x)), (''generation'', JInt (sp_generation x)),
     (''runtime_attestation_digest'', JStr (sp_runtime_attestation_digest x)), (''read_scope'', strs (sp_read_scope x)),
     (''write_scope'', strs (sp_write_scope x)), (''test_scope'', strs (sp_test_scope x)),
     (''allowed_test_commands'', JList (map strs (sp_allowed_test_commands x))),
     (''resource_limits'', JObj [(''max_operations'', JInt (sl_max_operations (sp_resource_limits x))),
        (''max_write_bytes'', JInt (sl_max_write_bytes (sp_resource_limits x))),
        (''max_output_bytes'', JInt (sl_max_output_bytes (sp_resource_limits x))),
        (''max_test_runs'', JInt (sl_max_test_runs (sp_resource_limits x)))]),
     (''schema_version'', JStr (sp_schema_version x))]))"

definition binds_dispatch :: "sandbox_policy \<Rightarrow> dispatch_binding \<Rightarrow> bool" where
  "binds_dispatch x d \<longleftrightarrow> (db_mission_id d, db_drone_id d, db_dispatch_id d, db_fencing_token d, db_generation d)
       = (sp_mission_id x, sp_drone_id x, sp_dispatch_id x, sp_fencing_token x, sp_generation x)
     \<and> (db_repository d, db_baseline_sha d, db_baseline_tree_sha d, db_branch d, db_write_scope d)
       = (sp_repository x, sp_baseline_sha x, sp_baseline_tree_sha x, sp_branch x, sp_write_scope x)"

definition policy_bindings :: "sandbox_policy \<Rightarrow> dispatch_binding \<Rightarrow> provisioning_binding \<Rightarrow> unit res" where
  "policy_bindings x d b = checks [sandbox_policy_validate x, dispatch_binding_validate d, provisioning_binding_validate b,
     sandbox_contract_when (dispatch_binding_digest d \<noteq> sp_fleet_dispatch_binding_digest x
       \<or> provisioning_binding_digest b \<noteq> sp_provisioning_binding_digest x) ''binding digest mismatch'',
     sandbox_contract_when (\<not> binds_dispatch x d) ''dispatch binding mismatch'',
     sandbox_contract_when (\<not> ((pb_mission_id b, pb_drone_id b, pb_executor_id b, pb_repository b, pb_baseline_sha b, pb_baseline_tree_sha b, pb_branch b)
         = (sp_mission_id x, sp_drone_id x, sp_executor_id x, sp_repository x, sp_baseline_sha x, sp_baseline_tree_sha x, sp_branch x)
       \<and> (pb_read_scope b, pb_write_scope b, pb_runtime_instance_id b, pb_sandbox_id b, pb_workspace_id b, pb_runtime_attestation_digest b)
         = (sp_read_scope x, sp_write_scope x, sp_runtime_instance_id x, sp_sandbox_id x, sp_workspace_id x, sp_runtime_attestation_digest x)))
       ''provisioning binding mismatch'']"

section \<open>Replay guards\<close>

abbreviation sandbox_error :: "string \<Rightarrow> exn" where
  "sandbox_error m \<equiv> Exn SandboxEnforcementError m"

abbreviation sandbox_when :: "bool \<Rightarrow> string \<Rightarrow> unit res" where
  "sandbox_when b m \<equiv> raise_when b SandboxEnforcementError m"

definition sandbox_memory_consume :: "utc_time \<Rightarrow> string \<Rightarrow> string \<Rightarrow> ((string \<times> string) set, bool) op" where
  "sandbox_memory_consume now m x seen = (if (m, x) \<in> seen then (Inr False, seen) else (Inr True, insert (m, x) seen))"

definition SANDBOX_STATE_SCHEMA :: string where
  "SANDBOX_STATE_SCHEMA = ''lion.executor-sandbox-state/v1''"

type_synonym sandbox_replay_table = "string \<times> string \<rightharpoonup> string \<times> string"

definition sandbox_sqlite_consume :: "utc_time \<Rightarrow> string \<Rightarrow> string \<Rightarrow> (sandbox_replay_table, bool) op" where
  "sandbox_sqlite_consume now m x t = (case checks [
       sandbox_when (blank m \<or> nul \<in> set m) ''sandbox replay mission invalid'',
       sandbox_when (blank x \<or> nul \<in> set x) ''sandbox replay operation invalid''] of
     Inl e \<Rightarrow> (Inl e, t)
   | Inr _ \<Rightarrow> (case t (m, x) of Some _ \<Rightarrow> (Inr False, t) | None \<Rightarrow> (Inr True, t((m, x) \<mapsto> (utc_text now, SANDBOX_STATE_SCHEMA)))))"

section \<open>Budget ledgers\<close>

record sandbox_budget =
  sg_operations :: int
  sg_write_bytes :: int
  sg_test_runs :: int

definition budget_zero :: sandbox_budget where
  "budget_zero = \<lparr>sg_operations = 0, sg_write_bytes = 0, sg_test_runs = 0\<rparr>"

definition budget_next :: "sandbox_operation \<Rightarrow> sandbox_budget \<Rightarrow> sandbox_budget" where
  "budget_next p b = \<lparr>sg_operations = sg_operations b + 1,
     sg_write_bytes = sg_write_bytes b + (if sb_action p = ''WRITE_FILE'' then sb_payload_size p else 0),
     sg_test_runs = sg_test_runs b + (if sb_action p = ''RUN_TEST'' then 1 else 0)\<rparr>"

definition over_budget :: "sandbox_limits \<Rightarrow> sandbox_budget \<Rightarrow> bool" where
  "over_budget l b \<longleftrightarrow> sl_max_operations l < sg_operations b \<or> sl_max_write_bytes l < sg_write_bytes b \<or> sl_max_test_runs l < sg_test_runs b"

definition ledger_reserve :: "sandbox_limits \<Rightarrow> sandbox_operation \<Rightarrow> (sandbox_budget, unit) op" where
  "ledger_reserve l p b = (let n = budget_next p b in
     if over_budget l n then (Inl (sandbox_error ''sandbox budget exhausted''), b) else (Inr (), n))"

type_synonym sandbox_budget_table = "string \<rightharpoonup> sandbox_budget \<times> string"

definition sqlite_ledger_init :: "sandbox_policy \<Rightarrow> (sandbox_budget_table, unit) op" where
  "sqlite_ledger_init x t = (case sandbox_policy_validate x of Inl e \<Rightarrow> (Inl e, t)
     | Inr _ \<Rightarrow> (Inr (), if t (sandbox_policy_digest x) = None then t(sandbox_policy_digest x \<mapsto> (budget_zero, SANDBOX_STATE_SCHEMA)) else t))"

definition ledger_row :: "string \<Rightarrow> sandbox_budget_table \<Rightarrow> sandbox_budget res" where
  "ledger_row d t = (case t d of None \<Rightarrow> Inl (sandbox_error ''sandbox budget state unavailable'')
     | Some (b, schema) \<Rightarrow> if schema \<noteq> SANDBOX_STATE_SCHEMA then Inl (sandbox_error ''sandbox budget state unavailable'') else Inr b)"

definition sqlite_reserve :: "sandbox_policy \<Rightarrow> sandbox_operation \<Rightarrow> (sandbox_budget_table, unit) op" where
  "sqlite_reserve x p t = (let d = sandbox_policy_digest x in case
     and_then (checks [sandbox_operation_validate p, sandbox_when (sb_policy_digest p \<noteq> d) ''sandbox budget policy substitution'']) (\<lambda>_.
     and_then (ledger_row d t) (\<lambda>b. let n = budget_next p b in
     and_then (sandbox_when (over_budget (sp_resource_limits x) n) ''sandbox budget exhausted'') (\<lambda>_.
     if \<not> sqlite_int (sg_operations n) \<or> \<not> sqlite_int (sg_write_bytes n) \<or> \<not> sqlite_int (sg_test_runs n) then Inl sqlite_overflow else Inr n))) of
     Inl e \<Rightarrow> (Inl e, t) | Inr n \<Rightarrow> (Inr (), t(d \<mapsto> (n, SANDBOX_STATE_SCHEMA))))"

definition sqlite_snapshot :: "sandbox_policy \<Rightarrow> sandbox_budget_table \<Rightarrow> sandbox_budget res" where
  "sqlite_snapshot x t = ledger_row (sandbox_policy_digest x) t"

section \<open>The sandbox\<close>

record backend_read =
  br_data :: string
  br_observed_event_ref :: string

record backend_write =
  bw_observed_content_digest :: string
  bw_observed_event_ref :: string
  bw_side_effect_ref :: string

record backend_test =
  bt_exit_code :: int
  bt_stdout :: string
  bt_stderr :: string
  bt_observed_event_ref :: string
  bt_side_effect_refs :: "string list"

record 'w sandbox_backend =
  bk_identity :: "string \<times> string \<times> string \<times> string \<times> string"
  bk_read_file :: "string \<Rightarrow> ('w, backend_read) op"
  bk_write_file :: "string \<Rightarrow> string \<Rightarrow> ('w, backend_write) op"
  bk_run_test :: "string \<Rightarrow> string list \<Rightarrow> ('w, backend_test) op"

record 'w sandbox_config =
  sc_policy :: sandbox_policy
  sc_runtime :: sandbox_runtime
  sc_backend :: "'w sandbox_backend"

definition sandbox_init :: "'w sandbox_config \<Rightarrow> dispatch_binding \<Rightarrow> provisioning_binding \<Rightarrow> unit res" where
  "sandbox_init c d b = (let x = sc_policy c; m = sc_runtime c in checks [
     wrap_errors (\<lambda>e. e = ExecutionSandboxContractError) (sandbox_error ''sandbox configuration invalid'')
       (checks [policy_bindings x d b, sandbox_runtime_validate m]),
     sandbox_when (sandbox_runtime_digest m \<noteq> sp_runtime_binding_digest x
       \<or> (sm_sandbox_id m, sm_workspace_id m) \<noteq> (sp_sandbox_id x, sp_workspace_id x)) ''runtime binding mismatch'',
     sandbox_when (bk_identity (sc_backend c) \<noteq> (sm_backend_id m, sm_backend_identity_digest m, sm_backend_implementation_digest m,
       sm_sandbox_id m, sm_workspace_id m)) ''sandbox composition mismatch''])"

text \<open>One call of \<open>execute\<close>: the clock of the replay guard, what the dispatch source answers, and the arguments.\<close>

record sandbox_call =
  sx_now :: utc_time
  sx_current_dispatch :: "string \<Rightarrow> dispatch_binding res"
  sx_operation :: sandbox_operation
  sx_payload :: string

record ('g, 'b, 'w) sandbox_state =
  ss_closed :: bool
  ss_replay :: 'g
  ss_budget :: 'b
  ss_world :: 'w

definition sandbox_current :: "sandbox_policy \<Rightarrow> sandbox_call \<Rightarrow> unit res" where
  "sandbox_current x c = and_then (wrap_errors (\<lambda>_. True) (sandbox_error ''current dispatch unavailable'')
       (and_then (sx_current_dispatch c (sp_mission_id x)) (\<lambda>d. and_then (dispatch_binding_validate d) (\<lambda>_. Inr d)))) (\<lambda>d.
     sandbox_when (dispatch_binding_digest d \<noteq> sp_fleet_dispatch_binding_digest x \<or> \<not> binds_dispatch x d)
       ''stale or substituted fleet dispatch denied'')"

definition sandbox_validate_op :: "sandbox_policy \<Rightarrow> sandbox_call \<Rightarrow> unit res" where
  "sandbox_validate_op x c = (let p = sx_operation c; payload = sx_payload c in checks [
     wrap_errors (\<lambda>e. e = ExecutionSandboxContractError) (sandbox_error ''operation contract'') (sandbox_operation_validate p),
     sandbox_when ((sb_mission_id p, sb_drone_id p, sb_executor_id p, sb_sandbox_id p, sb_workspace_id p, sb_dispatch_id p, sb_fencing_token p,
         sb_generation p, sb_policy_digest p)
       \<noteq> (sp_mission_id x, sp_drone_id x, sp_executor_id x, sp_sandbox_id x, sp_workspace_id x, sp_dispatch_id x, sp_fencing_token x,
         sp_generation x, sandbox_policy_digest x)) ''operation binding mismatch'',
     sandbox_when (sb_action p = ''WRITE_FILE'' \<and> (int (length payload) \<noteq> sb_payload_size p \<or> Some (sha256 payload) \<noteq> sb_payload_digest p))
       ''payload binding mismatch'',
     sandbox_when (sb_action p \<noteq> ''WRITE_FILE'' \<and> payload \<noteq> []) ''unexpected payload''])"

definition action_scope :: "sandbox_policy \<Rightarrow> sandbox_operation \<Rightarrow> string list" where
  "action_scope x p = (if sb_action p = ''READ_FILE'' then sp_read_scope x else if sb_action p = ''WRITE_FILE'' then sp_write_scope x else sp_test_scope x)"

definition sandbox_check_scope :: "sandbox_policy \<Rightarrow> sandbox_operation \<Rightarrow> unit res" where
  "sandbox_check_scope x p = and_then
     (sandbox_when (sb_action p = ''RUN_TEST'' \<and> sb_command p \<notin> set (sp_allowed_test_commands x)) ''test command not allowlisted'') (\<lambda>_.
     and_then (path_within_scope (sb_path p) (action_scope x p)) (\<lambda>inside. sandbox_when (\<not> inside) ''path outside scope''))"

text \<open>Everything before the replay guard.\<close>

definition sandbox_admits :: "sandbox_policy \<Rightarrow> sandbox_call \<Rightarrow> bool \<Rightarrow> unit res" where
  "sandbox_admits x c shut = checks [sandbox_when shut ''sandbox closed'', sandbox_current x c, sandbox_validate_op x c,
     sandbox_check_scope x (sx_operation c)]"

definition sandbox_report ::
  "'w sandbox_config \<Rightarrow> sandbox_operation \<Rightarrow> string \<Rightarrow> string \<Rightarrow> string \<Rightarrow> int \<Rightarrow> int \<Rightarrow> int option \<Rightarrow> string list \<Rightarrow> string list \<Rightarrow> sandbox_receipt" where
  "sandbox_report c p outcome effect output br bw code events refs = (let x = sc_policy c in \<lparr>
     sr_receipt_id = sp_sandbox_id x @ '':'' @ sb_operation_id p, sr_operation_id = sb_operation_id p,
     sr_operation_digest = sandbox_operation_digest p, sr_policy_digest = sandbox_policy_digest x,
     sr_authority_binding_digest = sp_authority_binding_digest x, sr_runtime_binding_digest = sandbox_runtime_digest (sc_runtime c),
     sr_fleet_dispatch_binding_digest = sp_fleet_dispatch_binding_digest x, sr_provisioning_binding_digest = sp_provisioning_binding_digest x,
     sr_mission_id = sp_mission_id x, sr_drone_id = sp_drone_id x, sr_executor_id = sp_executor_id x, sr_sandbox_id = sp_sandbox_id x,
     sr_workspace_id = sp_workspace_id x, sr_dispatch_id = sp_dispatch_id x, sr_fencing_token = sp_fencing_token x,
     sr_generation = sp_generation x, sr_runtime_instance_id = sp_runtime_instance_id x,
     sr_runtime_attestation_digest = sp_runtime_attestation_digest x, sr_action = sb_action p, sr_outcome = outcome,
     sr_effect_digest = effect, sr_output_digest = output, sr_bytes_read = br, sr_bytes_written = bw, sr_exit_code = code,
     sr_observed_events = events, sr_side_effect_refs = refs, sr_schema_version = ''2.0.0''\<rparr>)"

definition sandbox_issued :: "sandbox_receipt \<Rightarrow> string \<Rightarrow> (sandbox_receipt \<times> string) res" where
  "sandbox_issued r output = and_then (sandbox_receipt_validate r) (\<lambda>_. Inr (r, output))"

definition read_result :: "'w sandbox_config \<Rightarrow> sandbox_operation \<Rightarrow> backend_read \<Rightarrow> (sandbox_receipt \<times> string) res" where
  "read_result c p y = (let h = sha256 (br_data y) in and_then (sandbox_when (br_observed_event_ref y = []
       \<or> sl_max_output_bytes (sp_resource_limits (sc_policy c)) < int (length (br_data y))) ''read observation invalid'') (\<lambda>_.
     sandbox_issued (sandbox_report c p ''SUCCEEDED'' h h (int (length (br_data y))) 0 None [br_observed_event_ref y] []) (br_data y)))"

definition write_result :: "'w sandbox_config \<Rightarrow> sandbox_operation \<Rightarrow> string \<Rightarrow> backend_write \<Rightarrow> (sandbox_receipt \<times> string) res" where
  "write_result c p payload y = and_then (sandbox_when (Some (bw_observed_content_digest y) \<noteq> sb_payload_digest p \<or> bw_observed_event_ref y = []
       \<or> bw_side_effect_ref y = []) ''write observation invalid'') (\<lambda>_.
     sandbox_issued (sandbox_report c p ''SUCCEEDED'' (bw_observed_content_digest y) (sha256 []) 0 (int (length payload)) None [bw_observed_event_ref y]
       [bw_side_effect_ref y]) [])"

definition test_result :: "'w sandbox_config \<Rightarrow> sandbox_operation \<Rightarrow> backend_test \<Rightarrow> (sandbox_receipt \<times> string) res" where
  "test_result c p y = (let out = bt_stdout y @ bt_stderr y; oh = sha256 out;
       eh = sha256 (''LION/SANDBOX-TEST/2'' @ nul # int_text (bt_exit_code y) @ nul # oh) in
     and_then (checks [sandbox_when (bt_observed_event_ref y = []) ''test observation invalid'',
       sandbox_when (sl_max_output_bytes (sp_resource_limits (sc_policy c)) < int (length out)) ''test output budget'']) (\<lambda>_.
     sandbox_issued (sandbox_report c p (if bt_exit_code y = 0 then ''SUCCEEDED'' else ''FAILED'') eh oh 0 0 (Some (bt_exit_code y))
       [bt_observed_event_ref y] (bt_side_effect_refs y)) out))"

definition aborted_result :: "'w sandbox_config \<Rightarrow> sandbox_operation \<Rightarrow> (sandbox_receipt \<times> string) res" where
  "aborted_result c p = sandbox_issued (sandbox_report c p ''ABORTED'' (sha256 (''LION/SANDBOX-UNKNOWN/2'' @ nul # sandbox_operation_digest p)) (sha256 []) 0 0
     (if sb_action p = ''RUN_TEST'' then Some (- 1) else None)
     [''sandbox:'' @ sp_sandbox_id (sc_policy c) @ '':operation:'' @ sb_operation_id p @ '':aborted''] []) []"

text \<open>The call of the backend, with what the sandbox makes of its answer.\<close>

definition backend_act :: "'w sandbox_config \<Rightarrow> sandbox_operation \<Rightarrow> string \<Rightarrow> ('w, sandbox_receipt \<times> string) op" where
  "backend_act c p payload w = (let k = sc_backend c in
     if sb_action p = ''READ_FILE'' then (case bk_read_file k (sb_path p) w of (r, w') \<Rightarrow> (and_then r (read_result c p), w'))
     else if sb_action p = ''WRITE_FILE'' then (case bk_write_file k (sb_path p) payload w of (r, w') \<Rightarrow> (and_then r (write_result c p payload), w'))
     else (case bk_run_test k (sb_path p) (sb_command p) w of (r, w') \<Rightarrow> (and_then r (test_result c p), w')))"

definition sandbox_execute ::
  "(utc_time \<Rightarrow> string \<Rightarrow> string \<Rightarrow> ('g, bool) op) \<Rightarrow> (sandbox_operation \<Rightarrow> ('b, unit) op) \<Rightarrow> 'w sandbox_config \<Rightarrow> sandbox_call
    \<Rightarrow> (('g, 'b, 'w) sandbox_state, sandbox_receipt \<times> string) op" where
  "sandbox_execute consume reserve c k s = (let p = sx_operation k in case sandbox_admits (sc_policy c) k (ss_closed s) of
     Inl e \<Rightarrow> (Inl e, s)
   | Inr _ \<Rightarrow> (case consume (sx_now k) (sb_mission_id p) (sb_operation_id p) (ss_replay s) of
       (Inl _, g) \<Rightarrow> (Inl (sandbox_error ''replay guard failed closed''), s\<lparr>ss_replay := g\<rparr>)
     | (Inr False, g) \<Rightarrow> (Inl (sandbox_error ''operation replay denied''), s\<lparr>ss_replay := g\<rparr>)
     | (Inr True, g) \<Rightarrow> (case reserve p (ss_budget s) of
         (Inl e, b) \<Rightarrow> (Inl e, s\<lparr>ss_replay := g, ss_budget := b\<rparr>)
       | (Inr _, b) \<Rightarrow> (case backend_act c p (sx_payload k) (ss_world s) of (r, w) \<Rightarrow>
           (case r of Inl _ \<Rightarrow> aborted_result c p | Inr y \<Rightarrow> Inr y, s\<lparr>ss_replay := g, ss_budget := b, ss_world := w\<rparr>)))))"

definition sandbox_close :: "('g, 'b, 'w) sandbox_state \<Rightarrow> ('g, 'b, 'w) sandbox_state" where
  "sandbox_close s = s\<lparr>ss_closed := True\<rparr>"

text \<open>
  A new sandbox over the state that is there: the constructor of its ledger (\<open>start\<close>), then its own. The constructor of the replay guard only
  creates a missing table. When one of them raises there is no sandbox to call.
\<close>

definition sandbox_restart ::
  "('b, unit) op \<Rightarrow> 'w sandbox_config \<Rightarrow> dispatch_binding \<Rightarrow> provisioning_binding \<Rightarrow> (('g, 'b, 'w) sandbox_state, unit) op" where
  "sandbox_restart start c d b s = (case start (ss_budget s) of
     (Inl e, t) \<Rightarrow> (Inl e, s\<lparr>ss_closed := True, ss_budget := t\<rparr>)
   | (Inr _, t) \<Rightarrow> (case sandbox_init c d b of
       Inl e \<Rightarrow> (Inl e, s\<lparr>ss_closed := True, ss_budget := t\<rparr>)
     | Inr _ \<Rightarrow> (Inr (), s\<lparr>ss_closed := False, ss_budget := t\<rparr>)))"

end
