(* ===== verification/Sandbox_Props.thy ===== *)
theory Sandbox_Props
  imports Executor_Sandbox Runtime_Props
begin

text \<open>
  The properties of the sandbox: it acts only inside its policy and once per operation, its backend is never called beyond
  the budget, and together with the engine every effect is reported.
\<close>

section \<open>What the sandbox admits\<close>

definition confined :: "sandbox_policy \<Rightarrow> sandbox_call \<Rightarrow> bool" where
  "confined x k \<longleftrightarrow> (let p = sx_operation k in
     (\<exists>d. sx_current_dispatch k (sp_mission_id x) = Inr d \<and> binds_dispatch x d)
     \<and> (sb_mission_id p, sb_drone_id p, sb_executor_id p, sb_sandbox_id p, sb_workspace_id p)
         = (sp_mission_id x, sp_drone_id x, sp_executor_id x, sp_sandbox_id x, sp_workspace_id x)
     \<and> (sb_dispatch_id p, sb_fencing_token p, sb_generation p) = (sp_dispatch_id x, sp_fencing_token x, sp_generation x)
     \<and> (\<exists>base rest. (sb_action p = ''READ_FILE'' \<and> base \<in> set (sp_read_scope x) \<or> sb_action p = ''WRITE_FILE'' \<and> base \<in> set (sp_write_scope x)
           \<or> sb_action p = ''RUN_TEST'' \<and> base \<in> set (sp_test_scope x)) \<and> path_parts (sb_path p) = path_parts base @ rest)
     \<and> ''..'' \<notin> set (path_parts (sb_path p))
     \<and> (sb_action p = ''RUN_TEST'' \<longrightarrow> sb_command p \<in> set (sp_allowed_test_commands x))
     \<and> (sb_action p = ''WRITE_FILE'' \<longrightarrow> sb_payload_digest p = Some (sha256 (sx_payload k))))"

lemma take_prefix: "take (length xs) ys = xs \<longleftrightarrow> (\<exists>rest. ys = xs @ rest)"
  by (metis append_eq_conv_conj append_take_drop_id)

lemma valid_action: "sandbox_operation_validate p = Inr () \<Longrightarrow> sb_action p \<in> {''READ_FILE'', ''WRITE_FILE'', ''RUN_TEST''}"
  by (auto simp: sandbox_operation_validate_def runtime_actions_def)

lemma admits_ok:
  assumes "sandbox_admits x k shut = Inr ()"
  shows "\<not> shut" "confined x k" "sandbox_operation_validate (sx_operation k) = Inr ()" "sb_policy_digest (sx_operation k) = sandbox_policy_digest x"
    "sb_action (sx_operation k) = ''WRITE_FILE'' \<Longrightarrow> int (length (sx_payload k)) = sb_payload_size (sx_operation k)"
proof -
  let ?p = "sx_operation k"
  have a: "\<not> shut" "sandbox_current x k = Inr ()" "sandbox_validate_op x k = Inr ()" "sandbox_check_scope x ?p = Inr ()"
    using assms by (auto simp: sandbox_admits_def)
  then show "\<not> shut" by simp
  obtain d where d: "sx_current_dispatch k (sp_mission_id x) = Inr d" "binds_dispatch x d"
    using a(2) by (auto simp: sandbox_current_def and_then_ok)
  show v: "sandbox_operation_validate ?p = Inr ()" and "sb_policy_digest ?p = sandbox_policy_digest x"
    and "sb_action ?p = ''WRITE_FILE'' \<Longrightarrow> int (length (sx_payload k)) = sb_payload_size ?p"
    using a(3) by (auto simp: sandbox_validate_op_def Let_def)
  have inside: "path_within_scope (sb_path ?p) (action_scope x ?p) = Inr True"
    and listed: "sb_action ?p = ''RUN_TEST'' \<longrightarrow> sb_command ?p \<in> set (sp_allowed_test_commands x)"
    using a(4) by (auto simp: sandbox_check_scope_def and_then_ok)
  obtain base rest where base: "base \<in> set (action_scope x ?p)" "path_parts (sb_path ?p) = path_parts base @ rest" "''..'' \<notin> set (path_parts (sb_path ?p))"
    using inside by (auto simp: path_within_scope_def and_then_ok list_ex_iff take_prefix sandbox_path_def)
  from base(1) valid_action [OF v] have "sb_action ?p = ''READ_FILE'' \<and> base \<in> set (sp_read_scope x) \<or> sb_action ?p = ''WRITE_FILE'' \<and> base \<in> set (sp_write_scope x)
      \<or> sb_action ?p = ''RUN_TEST'' \<and> base \<in> set (sp_test_scope x)"
    by (auto simp: action_scope_def split: if_splits)
  with base(2) have "\<exists>base rest. (sb_action ?p = ''READ_FILE'' \<and> base \<in> set (sp_read_scope x) \<or> sb_action ?p = ''WRITE_FILE'' \<and> base \<in> set (sp_write_scope x)
      \<or> sb_action ?p = ''RUN_TEST'' \<and> base \<in> set (sp_test_scope x)) \<and> path_parts (sb_path ?p) = path_parts base @ rest" by blast
  with listed base(3) a(3) d show "confined x k" by (simp add: confined_def sandbox_validate_op_def Let_def)
qed

section \<open>Guard and ledger\<close>

text \<open>The events over one guard and one ledger: calls, the end of a sandbox and the construction of a new one, with its bindings.\<close>

datatype sandbox_event = Execute sandbox_call | Shut | Restart dispatch_binding provisioning_binding

fun sandbox_run ::
  "('b, unit) op \<Rightarrow> (utc_time \<Rightarrow> string \<Rightarrow> string \<Rightarrow> ('g, bool) op) \<Rightarrow> (sandbox_operation \<Rightarrow> ('b, unit) op) \<Rightarrow> 'w sandbox_config
    \<Rightarrow> sandbox_event list \<Rightarrow> ('g, 'b, 'w) sandbox_state \<Rightarrow> ('g, 'b, 'w) sandbox_state" where
  "sandbox_run start consume reserve c [] s = s"
| "sandbox_run start consume reserve c (Execute k # es) s = sandbox_run start consume reserve c es (snd (sandbox_execute consume reserve c k s))"
| "sandbox_run start consume reserve c (Shut # es) s = sandbox_run start consume reserve c es (sandbox_close s)"
| "sandbox_run start consume reserve c (Restart d b # es) s = sandbox_run start consume reserve c es (snd (sandbox_restart start c d b s))"

text \<open>A backend that records how it is called.\<close>

datatype backend_call = ReadCall string | WriteCall string string | TestCall string "string list"

definition logging_backend :: "'w sandbox_backend \<Rightarrow> (backend_call list \<times> 'w) sandbox_backend" where
  "logging_backend k = \<lparr>bk_identity = bk_identity k,
     bk_read_file = (\<lambda>p (calls, w). case bk_read_file k p w of (r, w') \<Rightarrow> (r, calls @ [ReadCall p], w')),
     bk_write_file = (\<lambda>p d (calls, w). case bk_write_file k p d w of (r, w') \<Rightarrow> (r, calls @ [WriteCall p d], w')),
     bk_run_test = (\<lambda>p a (calls, w). case bk_run_test k p a w of (r, w') \<Rightarrow> (r, calls @ [TestCall p a], w'))\<rparr>"

fun written :: "backend_call \<Rightarrow> int" where
  "written (WriteCall p d) = int (length d)"
| "written _ = 0"

fun is_test :: "backend_call \<Rightarrow> bool" where
  "is_test (TestCall p a) = True"
| "is_test _ = False"

definition usage :: "backend_call list \<Rightarrow> sandbox_budget" where
  "usage calls = \<lparr>sg_operations = int (length calls), sg_write_bytes = sum_list (map written calls), sg_test_runs = int (count_if is_test calls)\<rparr>"

lemma backend_act_logged:
  assumes "sc_backend c = logging_backend k" "sb_action p \<in> {''READ_FILE'', ''WRITE_FILE'', ''RUN_TEST''}"
    "sb_action p = ''WRITE_FILE'' \<Longrightarrow> int (length payload) = sb_payload_size p"
  shows "usage (fst (snd (backend_act c p payload w))) = budget_next p (usage (fst w))"
proof -
  obtain calls v where w: "w = (calls, v)" by (cases w)
  show ?thesis using assms(2,3)
    by (auto simp: backend_act_def Let_def assms(1) logging_backend_def w usage_def budget_next_def split: prod.splits)
qed

locale sandbox_ledger =
  fixes start :: "('b, unit) op"
    and consume :: "utc_time \<Rightarrow> string \<Rightarrow> string \<Rightarrow> ('g, bool) op"
    and spent :: "'g \<Rightarrow> string \<Rightarrow> string \<Rightarrow> bool"
    and reserve :: "sandbox_operation \<Rightarrow> ('b, unit) op"
    and used :: "'b \<Rightarrow> sandbox_budget"
    and limits :: sandbox_limits
  assumes consume_fresh: "consume t m x g = (Inr True, g') \<Longrightarrow> \<not> spent g m x \<and> spent g' m x"
    and consume_keeps: "consume t m x g = (r, g') \<Longrightarrow> spent g m' x' \<Longrightarrow> spent g' m' x'"
    and reserve_counts: "reserve p b = (Inr u, b') \<Longrightarrow> used b' = budget_next p (used b) \<and> \<not> over_budget limits (used b')"
    and reserve_refuses: "reserve p b = (Inl e, b') \<Longrightarrow> used b' = used b"
    and start_keeps: "start b = (opened, b') \<Longrightarrow> used b' = used b"
begin

lemma restart_keeps:
  "ss_replay (snd (sandbox_restart start c d b s)) = ss_replay s" "ss_world (snd (sandbox_restart start c d b s)) = ss_world s"
  "used (ss_budget (snd (sandbox_restart start c d b s))) = used (ss_budget s)"
  using start_keeps [of "ss_budget s"] by (auto simp: sandbox_restart_def split: sum.splits prod.splits)

lemma sandbox_acts:
  assumes "sandbox_execute consume reserve c k s = (r, s')" "(\<exists>y. r = Inr y) \<or> ss_world s' \<noteq> ss_world s"
  shows "sandbox_admits (sc_policy c) k (ss_closed s) = Inr ()"
    "\<not> spent (ss_replay s) (sb_mission_id (sx_operation k)) (sb_operation_id (sx_operation k))"
    "spent (ss_replay s') (sb_mission_id (sx_operation k)) (sb_operation_id (sx_operation k))"
    "ss_world s' = snd (backend_act c (sx_operation k) (sx_payload k) (ss_world s))"
  using assms consume_fresh
  by (auto simp: sandbox_execute_def Let_def split: sum.splits prod.splits bool.splits)

lemma sandbox_keeps: "spent (ss_replay s) a b \<Longrightarrow> spent (ss_replay (snd (sandbox_execute consume reserve c k s))) a b"
  using consume_keeps by (auto simp: sandbox_execute_def Let_def split: sum.splits prod.splits bool.splits)

lemma run_keeps: "spent (ss_replay s) a b \<Longrightarrow> spent (ss_replay (sandbox_run start consume reserve c es s)) a b"
proof (induction es arbitrary: s)
  case (Cons e es)
  then show ?case by (cases e) (auto simp: sandbox_keeps sandbox_close_def restart_keeps)
qed simp

lemma sandbox_once:
  assumes "sandbox_execute consume reserve c k s = (r, s1)" "(\<exists>y. r = Inr y) \<or> ss_world s1 \<noteq> ss_world s"
    "sb_mission_id (sx_operation k') = sb_mission_id (sx_operation k)" "sb_operation_id (sx_operation k') = sb_operation_id (sx_operation k)"
    "sandbox_execute consume reserve c k' (sandbox_run start consume reserve c es s1) = (r', s2)"
  shows "(\<exists>e. r' = Inl e) \<and> ss_world s2 = ss_world (sandbox_run start consume reserve c es s1)"
  using run_keeps [OF sandbox_acts(3) [OF assms(1,2)], of c es] sandbox_acts(2) [OF assms(5)] assms(3,4) by (cases r') auto

lemma execute_counts:
  assumes "sc_backend c = logging_backend bk" "usage (fst (ss_world s)) = used (ss_budget s)" "\<not> over_budget limits (used (ss_budget s))"
    "sandbox_execute consume reserve c k s = (r, s')"
  shows "usage (fst (ss_world s')) = used (ss_budget s') \<and> \<not> over_budget limits (used (ss_budget s'))"
proof (cases "sandbox_admits (sc_policy c) k (ss_closed s)")
  case (Inr u)
  then have "sandbox_admits (sc_policy c) k (ss_closed s) = Inr ()" by simp
  note a = admits_ok [OF this]
  have "usage (fst (snd (backend_act c (sx_operation k) (sx_payload k) (ss_world s)))) = budget_next (sx_operation k) (usage (fst (ss_world s)))"
    using a(5) valid_action [OF a(3)] by (rule_tac backend_act_logged [OF assms(1)]) auto
  with assms(2-4) show ?thesis
    by (auto simp: sandbox_execute_def Let_def dest!: reserve_counts reserve_refuses split: sum.splits prod.splits bool.splits)
qed (use assms in \<open>simp add: sandbox_execute_def Let_def\<close>)

lemma run_counts:
  assumes "sc_backend c = logging_backend bk" "usage (fst (ss_world s)) = used (ss_budget s)" "\<not> over_budget limits (used (ss_budget s))"
  shows "\<not> over_budget limits (usage (fst (ss_world (sandbox_run start consume reserve c es s))))"
  using assms(2,3)
proof (induction es arbitrary: s)
  case (Cons e es)
  show ?case
  proof (cases e)
    case (Execute k)
    obtain r s' where "sandbox_execute consume reserve c k s = (r, s')" by fastforce
    with execute_counts [OF assms(1) Cons.prems this] Cons.IH [of s'] show ?thesis by (simp add: Execute)
  qed (use Cons in \<open>auto simp: sandbox_close_def restart_keeps\<close>)
qed simp

end

text \<open>Both pairs of guard and ledger: in memory, where the objects are handed to the new sandbox, and in SQLite.\<close>

interpretation memory_sandbox: sandbox_ledger "\<lambda>b. (Inr (), b)" sandbox_memory_consume "\<lambda>g m x. (m, x) \<in> g" "ledger_reserve l" "\<lambda>b. b" l
  by unfold_locales (auto simp: sandbox_memory_consume_def ledger_reserve_def Let_def split: if_splits)

definition ledger_used :: "sandbox_policy \<Rightarrow> sandbox_budget_table \<Rightarrow> sandbox_budget" where
  "ledger_used x t = (case t (sandbox_policy_digest x) of None \<Rightarrow> budget_zero | Some (b, _) \<Rightarrow> b)"

lemma ledger_row_used: "ledger_row (sandbox_policy_digest x) t = Inr b \<Longrightarrow> ledger_used x t = b"
  by (auto simp: ledger_row_def ledger_used_def split: option.splits prod.splits if_splits)

interpretation durable_sandbox: sandbox_ledger "sqlite_ledger_init x" sandbox_sqlite_consume "\<lambda>g m x. g (m, x) \<noteq> None" "sqlite_reserve x" "ledger_used x"
  "sp_resource_limits x"
proof
  fix p u and b b' :: sandbox_budget_table assume "sqlite_reserve x p b = (Inr u, b')"
  then obtain n where n: "ledger_row (sandbox_policy_digest x) b = Inr n" "\<not> over_budget (sp_resource_limits x) (budget_next p n)"
    "b' = b(sandbox_policy_digest x \<mapsto> (budget_next p n, SANDBOX_STATE_SCHEMA))"
    by (auto simp: sqlite_reserve_def Let_def and_then_ok split: sum.splits if_splits)
  then show "ledger_used x b' = budget_next p (ledger_used x b) \<and> \<not> over_budget (sp_resource_limits x) (ledger_used x b')"
    using ledger_row_used [OF n(1)] by (simp add: ledger_used_def)
qed (auto simp: sandbox_sqlite_consume_def sqlite_reserve_def sqlite_ledger_init_def ledger_used_def Let_def split: sum.splits option.splits if_splits)

section \<open>Properties\<close>

text \<open>C8. The sandbox is confined. Whenever a call of the durable sandbox returns a receipt or changes the world of the backend, it was
  open, the dispatch source confirmed the dispatch of the policy, the operation carries the identities, the fencing token
  and the generation of the policy, its path lies below an entry of the scope for its action, a test command is on the
  list, a written payload has the digest announced, and the operation was not seen before; the world changed by that one call of the backend.
  Whatever happens afterwards, restarts included, no later call for the same operation acts.\<close>
theorem sandbox_confined:
  assumes "sandbox_execute sandbox_sqlite_consume (sqlite_reserve x) c k s = (r, s1)" "(\<exists>y. r = Inr y) \<or> ss_world s1 \<noteq> ss_world s"
  shows "\<not> ss_closed s \<and> confined (sc_policy c) k \<and> ss_replay s (sb_mission_id (sx_operation k), sb_operation_id (sx_operation k)) = None
    \<and> ss_world s1 = snd (backend_act c (sx_operation k) (sx_payload k) (ss_world s))
    \<and> (\<nexists>es k' r' s2. (sb_mission_id (sx_operation k'), sb_operation_id (sx_operation k')) = (sb_mission_id (sx_operation k), sb_operation_id (sx_operation k))
        \<and> sandbox_execute sandbox_sqlite_consume (sqlite_reserve x) c k' (sandbox_run (sqlite_ledger_init x) sandbox_sqlite_consume (sqlite_reserve x) c es s1) = (r', s2)
        \<and> ((\<exists>y. r' = Inr y) \<or> ss_world s2 \<noteq> ss_world (sandbox_run (sqlite_ledger_init x) sandbox_sqlite_consume (sqlite_reserve x) c es s1)))"
proof (intro conjI)
  note a = durable_sandbox.sandbox_acts [OF assms]
  show "\<not> ss_closed s" "confined (sc_policy c) k" using admits_ok [OF a(1)] by simp_all
  show "ss_replay s (sb_mission_id (sx_operation k), sb_operation_id (sx_operation k)) = None" using a(2) by blast
  show "ss_world s1 = snd (backend_act c (sx_operation k) (sx_payload k) (ss_world s))" by (rule a(4))
qed (use durable_sandbox.sandbox_once [OF assms] in fastforce)

text \<open>C9. The backend is never used beyond the budget. From an empty ledger, after any sequence of calls, closings and restarts, each of which
  runs the constructors of ledger and sandbox over the same SQLite state, the backend was called at most \<open>max_operations\<close> times, was asked to write at most
  \<open>max_write_bytes\<close> bytes and to run at most \<open>max_test_runs\<close> tests.\<close>
theorem sandbox_within_budget:
  assumes "sandbox_policy_validate x = Inr ()" "sc_backend c = logging_backend bk" "ss_world s = ([], w)"
    "sqlite_ledger_init x Map.empty = (Inr (), ss_budget s)"
  shows "let calls = fst (ss_world (sandbox_run (sqlite_ledger_init x) sandbox_sqlite_consume (sqlite_reserve x) c es s)); l = sp_resource_limits x in
    int (length calls) \<le> sl_max_operations l \<and> sum_list (map written calls) \<le> sl_max_write_bytes l
    \<and> int (count_if is_test calls) \<le> sl_max_test_runs l"
proof -
  have "ss_budget s = [sandbox_policy_digest x \<mapsto> (budget_zero, SANDBOX_STATE_SCHEMA)]"
    using assms(1,4) by (simp add: sqlite_ledger_init_def)
  then have "ledger_used x (ss_budget s) = budget_zero" by (simp add: ledger_used_def)
  moreover have "\<not> over_budget (sp_resource_limits x) budget_zero"
    using assms(1) by (simp add: sandbox_policy_validate_def sandbox_limits_validate_def over_budget_def budget_zero_def)
  ultimately have "\<not> over_budget (sp_resource_limits x) (usage (fst (ss_world (sandbox_run (sqlite_ledger_init x) sandbox_sqlite_consume (sqlite_reserve x) c es s))))"
    using assms(2,3) by (intro durable_sandbox.run_counts) (auto simp: usage_def budget_zero_def)
  then show ?thesis by (simp add: over_budget_def usage_def Let_def)
qed

section \<open>No effect without a receipt\<close>

lemma issued_ok [simp]: "sandbox_issued r out = Inr y \<longleftrightarrow> sandbox_receipt_validate r = Inr () \<and> y = (r, out)"
  by (auto simp: sandbox_issued_def)

text \<open>What every receipt of the sandbox says.\<close>

definition reports :: "'w sandbox_config \<Rightarrow> sandbox_operation \<Rightarrow> sandbox_receipt \<Rightarrow> bool" where
  "reports c p r \<longleftrightarrow> sandbox_receipt_validate r = Inr ()
     \<and> (\<exists>outcome effect output br bw code events refs. r = sandbox_report c p outcome effect output br bw code events refs
         \<and> (sb_action p = ''WRITE_FILE'' \<and> outcome = ''SUCCEEDED'' \<longrightarrow> sb_payload_digest p = Some effect \<and> refs \<noteq> []))"

lemma report_reports:
  assumes "sandbox_receipt_validate (sandbox_report c p outcome effect out br bw code events refs) = Inr ()"
    "sb_action p = ''WRITE_FILE'' \<and> outcome = ''SUCCEEDED'' \<longrightarrow> sb_payload_digest p = Some effect \<and> refs \<noteq> []"
  shows "reports c p (sandbox_report c p outcome effect out br bw code events refs)"
  using assms unfolding reports_def by blast

lemma result_reports:
  "read_result c p y = Inr z \<Longrightarrow> sb_action p \<noteq> ''WRITE_FILE'' \<Longrightarrow> reports c p (fst z)"
  "write_result c p payload v = Inr z \<Longrightarrow> reports c p (fst z)"
  "test_result c p t = Inr z \<Longrightarrow> sb_action p \<noteq> ''WRITE_FILE'' \<Longrightarrow> reports c p (fst z)"
  "aborted_result c p = Inr z \<Longrightarrow> reports c p (fst z)"
  by (auto simp: read_result_def write_result_def test_result_def aborted_result_def Let_def intro!: report_reports)

lemma backend_reports: "fst (backend_act c p payload w) = Inr y \<Longrightarrow> reports c p (fst y)"
  using result_reports(1) [of c p _ y] result_reports(2) [of c p payload _ y] result_reports(3) [of c p _ y]
  by (simp add: backend_act_def Let_def and_then_ok split: prod.splits if_splits) blast+

lemma execute_reports:
  assumes "sandbox_execute consume reserve c k s = (Inr y, s')"
  shows "reports c (sx_operation k) (fst y)"
proof -
  have "aborted_result c (sx_operation k) = Inr y \<or> fst (backend_act c (sx_operation k) (sx_payload k) (ss_world s)) = Inr y"
    using assms by (auto simp: sandbox_execute_def Let_def split: sum.splits prod.splits bool.splits)
  then show ?thesis by (elim disjE) (erule result_reports(4), erule backend_reports)
qed

lemma reports_trustworthy:
  assumes "reports c (operation_of policy q i) r" "sandbox_admits (sc_policy c) k shut = Inr ()" "sx_operation k = operation_of policy q i"
    "sp_runtime_instance_id (sc_policy c) = xq_runtime_instance_id q"
  shows "trustworthy policy q (operation_of policy q i) r"
proof -
  note a = admits_ok [OF assms(2)]
  obtain outcome effect result br bw code events refs where r: "sandbox_receipt_validate r = Inr ()"
    "r = sandbox_report c (operation_of policy q i) outcome effect result br bw code events refs"
    and "sb_action (operation_of policy q i) = ''WRITE_FILE'' \<and> outcome = ''SUCCEEDED''
      \<longrightarrow> sb_payload_digest (operation_of policy q i) = Some effect \<and> refs \<noteq> []"
    using assms(1) unfolding reports_def by blast
  then have w: "xq_action q = ''WRITE_FILE'' \<and> outcome = ''SUCCEEDED'' \<longrightarrow> effect = xq_payload_digest q \<and> refs \<noteq> []"
    by (simp add: operation_of_def)
  have i: "xq_mission_id q = sp_mission_id (sc_policy c)" "xq_executor_id q = sp_executor_id (sc_policy c)" "xq_sandbox_id q = sp_sandbox_id (sc_policy c)"
    "xq_workspace_id q = sp_workspace_id (sc_policy c)" "xq_dispatch_id q = sp_dispatch_id (sc_policy c)"
    "xq_fencing_token q = sp_fencing_token (sc_policy c)" "xq_generation q = sp_generation (sc_policy c)" "policy = sandbox_policy_digest (sc_policy c)"
    using a(2,4) assms(3) by (simp_all add: confined_def Let_def operation_of_def)
  have f: "sr_operation_id r = xq_execution_id q" "sr_operation_digest r = sandbox_operation_digest (operation_of policy q i)" "sr_policy_digest r = policy"
    "sr_mission_id r = xq_mission_id q" "sr_executor_id r = xq_executor_id q" "sr_sandbox_id r = xq_sandbox_id q" "sr_workspace_id r = xq_workspace_id q"
    "sr_dispatch_id r = xq_dispatch_id q" "sr_fencing_token r = xq_fencing_token q" "sr_generation r = xq_generation q"
    "sr_runtime_instance_id r = xq_runtime_instance_id q" "sr_action r = xq_action q" "sr_outcome r = outcome" "sr_effect_digest r = effect"
    "sr_side_effect_refs r = refs"
    unfolding r(2) by (simp_all add: sandbox_report_def Let_def i assms(4)) (simp_all add: operation_of_def)
  have "sb_operation_id (operation_of policy q i) = xq_execution_id q" by (simp add: operation_of_def)
  with r(1) w f show ?thesis by (simp add: trustworthy_def receipt_bound_def)
qed

lemma aborted_ok:
  assumes "sandbox_policy_validate (sc_policy c) = Inr ()" "sandbox_operation_validate p = Inr ()"
    "length (sp_sandbox_id (sc_policy c)) + length (sb_operation_id p) < 2048"
  obtains y where "aborted_result c p = Inr y"
proof -
  let ?x = "sc_policy c"
  have x: "\<forall>t\<in>{sp_mission_id ?x, sp_drone_id ?x, sp_executor_id ?x, sp_sandbox_id ?x, sp_workspace_id ?x, sp_runtime_instance_id ?x}. \<not> text_invalid 2048 t"
    "\<forall>d\<in>{sp_authority_binding_digest ?x, sp_fleet_dispatch_binding_digest ?x, sp_provisioning_binding_digest ?x, sp_dispatch_id ?x, sp_fencing_token ?x,
       sp_runtime_attestation_digest ?x}. is_hex 64 d" "\<not> sp_generation ?x < 1"
    using assms(1) by (simp_all add: sandbox_policy_validate_def)
  have p: "\<not> text_invalid 2048 (sb_operation_id p)" "sb_action p \<in> set runtime_actions"
    using assms(2) by (simp_all add: sandbox_operation_validate_def)
  have id: "\<not> text_invalid 2048 (sp_sandbox_id ?x @ '':'' @ sb_operation_id p)"
    using x(1) p(1) assms(3) by (auto simp: text_invalid_def nul_def)
  have "sandbox_receipt_validate (sandbox_report c p ''ABORTED'' e z 0 0 (if sb_action p = ''RUN_TEST'' then Some n else None) [t] []) = Inr ()"
    if "is_hex 64 e" "is_hex 64 z" for e z n t
    using x p id that
    by (simp add: sandbox_receipt_validate_def sandbox_report_def Let_def sandbox_operation_digest_def sandbox_policy_digest_def sandbox_runtime_digest_def
        runtime_outcomes_def)
  then show thesis using that by (simp add: aborted_result_def)
qed

text \<open>The sandbox as the engine calls it.\<close>

definition sandbox_port ::
  "(utc_time \<Rightarrow> string \<Rightarrow> string \<Rightarrow> ('g, bool) op) \<Rightarrow> (sandbox_operation \<Rightarrow> ('b, unit) op) \<Rightarrow> 'w sandbox_config \<Rightarrow> utc_time
    \<Rightarrow> (string \<Rightarrow> dispatch_binding res) \<Rightarrow> sandbox_operation \<Rightarrow> string \<Rightarrow> (('g, 'b, 'w) sandbox_state, sandbox_receipt) op" where
  "sandbox_port consume reserve c now current p payload s = (case sandbox_execute consume reserve c
     \<lparr>sx_now = now, sx_current_dispatch = current, sx_operation = p, sx_payload = payload\<rparr> s of (r, s') \<Rightarrow> (and_then r (\<lambda>y. Inr (fst y)), s'))"

text \<open>What the backend did is what the receipt says; an answer that the sandbox could not use is an abort.\<close>

definition tells :: "'w sandbox_config \<Rightarrow> sandbox_operation \<Rightarrow> string \<Rightarrow> 'w \<Rightarrow> sandbox_receipt \<Rightarrow> bool" where
  "tells c p payload w r \<longleftrightarrow> (case fst (backend_act c p payload w) of
     Inl _ \<Rightarrow> sr_outcome r = ''ABORTED'' \<and> sr_side_effect_refs r = [] | Inr (y, _) \<Rightarrow> r = y)"

lemma execute_tells:
  assumes "sandbox_execute consume reserve c k s = (Inr y, s')"
  shows "tells c (sx_operation k) (sx_payload k) (ss_world s) (fst y)"
  using assms by (auto simp: tells_def sandbox_execute_def Let_def aborted_result_def sandbox_report_def split: sum.splits prod.splits bool.splits)

lemma port_answers:
  assumes "sandbox_port consume reserve c now current p payload s = (ans, s')" "ss_world s' \<noteq> ss_world s"
    "sandbox_policy_validate (sc_policy c) = Inr ()" "length (sp_sandbox_id (sc_policy c)) + length (sb_operation_id p) < 2048"
  obtains r where "ans = Inr r" "reports c p r" "tells c p payload (ss_world s) r"
    "sandbox_admits (sc_policy c) \<lparr>sx_now = now, sx_current_dispatch = current, sx_operation = p, sx_payload = payload\<rparr> (ss_closed s) = Inr ()"
proof -
  let ?k = "\<lparr>sx_now = now, sx_current_dispatch = current, sx_operation = p, sx_payload = payload\<rparr>"
  obtain t where e: "sandbox_execute consume reserve c ?k s = (t, s')" "ans = and_then t (\<lambda>y. Inr (fst y))"
    using assms(1) by (auto simp: sandbox_port_def split: prod.splits)
  have a: "sandbox_admits (sc_policy c) ?k (ss_closed s) = Inr ()"
    using e(1) assms(2) by (auto simp: sandbox_execute_def Let_def split: sum.splits)
  obtain y0 where "aborted_result c p = Inr y0" using aborted_ok [OF assms(3) _ assms(4)] admits_ok(3) [OF a] by auto
  then have "\<not> isl (aborted_result c p)" by simp
  with e(1) assms(2) have "\<not> isl t"
    by (auto simp: sandbox_execute_def Let_def split: sum.splits prod.splits bool.splits)
  then obtain y where "t = Inr y" by (cases t) auto
  with e execute_reports [OF e(1) [unfolded this]] execute_tells [OF e(1) [unfolded this]] a that show thesis by simp
qed

text \<open>C10. Every effect is reported. Let the engine run on a durable sandbox with a valid policy for the runtime instance that the request
  names, and let the identifiers of sandbox and execution fit into a receipt together. Then a call either
  leaves the world of the backend as it was or returns a valid receipt for its request, whatever the backend answers
  or raises: an effect the sandbox observed is reported with its outcome, digest and events, any other as
  \<open>ABORTED\<close> with an \<open>UNKNOWN\<close> effect.\<close>
theorem effect_reported:
  assumes "engine_execute consume k (g, s) = (r, g', s')" "ek_sandbox k = sandbox_port sandbox_sqlite_consume (sqlite_reserve x) c now current"
    "sandbox_policy_validate (sc_policy c) = Inr ()" "sp_runtime_instance_id (sc_policy c) = xq_runtime_instance_id (ek_request k)"
    "length (sp_sandbox_id (sc_policy c)) + length (xq_execution_id (ek_request k)) < 2048"
  shows "ss_world s' = ss_world s
    \<or> (\<exists>y. r = Inr y \<and> runtime_receipt_validate y = Inr () \<and> xr_request_digest y = execution_request_digest (ek_request k)
        \<and> (case fst (backend_act c (call_operation k) (ek_payload k) (ss_world s)) of
             Inl _ \<Rightarrow> xr_outcome y = ''ABORTED'' \<and> xr_effect_state y = ''UNKNOWN''
           | Inr (z, _) \<Rightarrow> xr_outcome y = sr_outcome z \<and> xr_effect_digest y = sr_effect_digest z \<and> xr_observed_events y = sr_observed_events z))"
proof (rule disj_imp [THEN iffD2, rule_format])
  assume changed: "ss_world s' \<noteq> ss_world s"
  let ?p = "call_operation k" and ?q = "ek_request k" and ?a = "ek_admission k" and ?d = "ek_policy_digest k"
  from changed have "(\<exists>y. r = Inr y) \<or> s' \<noteq> s" by auto
  with assms(1) obtain ans where pre: "prepare k = Inr ()" and ans: "ek_sandbox k ?p (ek_payload k) s = (ans, s')"
    and con: "consume (ek_now k) (rn_admission_digest ?a) (xq_execution_id ?q) g = (Inr True, g')" by (rule execute_acts)
  have p: "?p = operation_of ?d ?q (ek_identity k)" by (simp add: call_operation_def)
  obtain sr where sr: "ans = Inr sr" "reports c ?p sr" "tells c ?p (ek_payload k) (ss_world s) sr"
    "sandbox_admits (sc_policy c) \<lparr>sx_now = now, sx_current_dispatch = current, sx_operation = ?p, sx_payload = ek_payload k\<rparr> (ss_closed s) = Inr ()"
    by (rule port_answers [OF ans [unfolded assms(2)] changed assms(3)]) (use assms(5) in \<open>simp_all add: p operation_of_def\<close>)
  have t: "trustworthy ?d ?q ?p sr"
    unfolding p by (rule reports_trustworthy [OF sr(2) [unfolded p] sr(4) _ assms(4)]) (simp add: p)
  have q: "execution_request_validate ?q = Inr ()" and h: "is_hex 64 (rn_admission_digest ?a)"
    using prepare_ok(1,4) [OF pre] runtime_admission_hex by auto
  have "r = sandbox_answer ?d ?a ?q ?p sr" using assms(1) pre con ans sr(1) by (simp add: engine_execute_def)
  then have r: "r = Inr ((unsealed_receipt ?a ?q ?p sr)\<lparr>xr_receipt_digest := runtime_receipt_digest (unsealed_receipt ?a ?q ?p sr)\<rparr>)"
    using sandbox_answer_trustworthy [OF q h t] by simp
  have v: "runtime_receipt_validate ((unsealed_receipt ?a ?q ?p sr)\<lparr>xr_receipt_digest := runtime_receipt_digest (unsealed_receipt ?a ?q ?p sr)\<rparr>) = Inr ()"
    using unsealed_receipt_ok [OF q h t] by (simp add: runtime_receipt_validate_def) (simp add: runtime_receipt_digest_def unsealed_receipt_def Let_def)
  have f: "case fst (backend_act c ?p (ek_payload k) (ss_world s)) of
      Inl _ \<Rightarrow> sr_outcome sr = ''ABORTED'' \<and> effect_state_of sr = ''UNKNOWN''
    | Inr (z, _) \<Rightarrow> sr_outcome sr = sr_outcome z \<and> sr_effect_digest sr = sr_effect_digest z \<and> sr_observed_events sr = sr_observed_events z"
    using sr(3) by (auto simp: tells_def effect_state_of_def split: sum.splits prod.splits)
  have u: "xr_request_digest (unsealed_receipt ?a ?q ?p sr) = execution_request_digest ?q" "xr_outcome (unsealed_receipt ?a ?q ?p sr) = sr_outcome sr"
    "xr_effect_state (unsealed_receipt ?a ?q ?p sr) = effect_state_of sr" "xr_effect_digest (unsealed_receipt ?a ?q ?p sr) = sr_effect_digest sr"
    "xr_observed_events (unsealed_receipt ?a ?q ?p sr) = sr_observed_events sr" by (simp_all add: unsealed_receipt_def Let_def)
  show "\<exists>y. r = Inr y \<and> runtime_receipt_validate y = Inr () \<and> xr_request_digest y = execution_request_digest ?q
      \<and> (case fst (backend_act c ?p (ek_payload k) (ss_world s)) of
           Inl _ \<Rightarrow> xr_outcome y = ''ABORTED'' \<and> xr_effect_state y = ''UNKNOWN''
         | Inr (z, _) \<Rightarrow> xr_outcome y = sr_outcome z \<and> xr_effect_digest y = sr_effect_digest z \<and> xr_observed_events y = sr_observed_events z)"
    using r v f by (simp add: u cong: sum.case_cong)
qed

text \<open>The engine compares the runtime instance only after the sandbox has acted: for another instance it always raises.\<close>

lemma other_instance_loses_receipt:
  assumes "engine_execute consume k (g, s) = (r, g', s')" "ek_sandbox k = sandbox_port sandbox_sqlite_consume (sqlite_reserve x) c now current"
    "sp_runtime_instance_id (sc_policy c) \<noteq> xq_runtime_instance_id (ek_request k)"
  shows "\<exists>e. r = Inl e"
proof (rule ccontr)
  assume "\<nexists>e. r = Inl e"
  then obtain y where y: "r = Inr y" by (cases r) auto
  with assms(1) obtain sr where sr: "ek_sandbox k (call_operation k) (ek_payload k) s = (Inr sr, s')"
    "sandbox_answer (ek_policy_digest k) (ek_admission k) (ek_request k) (call_operation k) sr = Inr y"
    by (rule_tac execute_acts [of consume k g s r g' s']) auto
  obtain out where "sandbox_execute sandbox_sqlite_consume (sqlite_reserve x) c
      \<lparr>sx_now = now, sx_current_dispatch = current, sx_operation = call_operation k, sx_payload = ek_payload k\<rparr> s = (Inr (sr, out), s')"
    using sr(1) by (auto simp: assms(2) sandbox_port_def and_then_ok split: prod.splits)
  from execute_reports [OF this] have "sr_runtime_instance_id sr = sp_runtime_instance_id (sc_policy c)"
    by (auto simp: reports_def sandbox_report_def Let_def)
  moreover have "sr_runtime_instance_id sr = xq_runtime_instance_id (ek_request k)"
    using sandbox_answer_ok [OF sr(2)] by (simp add: trustworthy_def receipt_bound_def)
  ultimately show False using assms(3) by simp
qed

text \<open>When the identifiers do not fit, the sandbox lets the backend act and then raises: neither the receipt nor the report of an abort is valid.\<close>

lemma reports_fits:
  assumes "reports c p r"
  shows "length (sp_sandbox_id (sc_policy c)) + length (sb_operation_id p) < 2048"
proof -
  from assms have "sr_receipt_id r = sp_sandbox_id (sc_policy c) @ '':'' @ sb_operation_id p" "sandbox_receipt_validate r = Inr ()"
    unfolding reports_def by (auto simp: sandbox_report_def Let_def)
  moreover from this(2) have "\<not> text_invalid 2048 (sr_receipt_id r)" by (simp add: sandbox_receipt_validate_def)
  ultimately show ?thesis by (simp add: text_invalid_def)
qed

lemma long_identifiers_lose_receipt:
  assumes "2048 \<le> length (sp_sandbox_id (sc_policy c)) + length (sb_operation_id (sx_operation k))" "sandbox_admits (sc_policy c) k False = Inr ()"
    "consume (sx_now k) (sb_mission_id (sx_operation k)) (sb_operation_id (sx_operation k)) g = (Inr True, g')" "reserve (sx_operation k) b = (Inr (), b')"
  shows "\<exists>e. sandbox_execute consume reserve c k \<lparr>ss_closed = False, ss_replay = g, ss_budget = b, ss_world = w\<rparr>
    = (Inl e, \<lparr>ss_closed = False, ss_replay = g', ss_budget = b', ss_world = snd (backend_act c (sx_operation k) (sx_payload k) w)\<rparr>)"
proof -
  let ?p = "sx_operation k"
  have "\<not> reports c ?p r" for r using assms(1) reports_fits [of c ?p r] by auto
  then have no: "aborted_result c ?p \<noteq> Inr y" "fst (backend_act c ?p (sx_payload k) w) \<noteq> Inr y" for y
    using result_reports(4) [of c ?p y] backend_reports [of c ?p "sx_payload k" w y] by auto
  obtain t w' where t: "backend_act c ?p (sx_payload k) w = (t, w')" by fastforce
  obtain e1 e2 where "aborted_result c ?p = Inl e1" "t = Inl e2"
    using no t by (cases "aborted_result c ?p"; cases t) auto
  with t have "aborted_result c ?p = Inl e1" "backend_act c ?p (sx_payload k) w = (Inl e2, w')" by simp_all
  with assms(2-4) show ?thesis by (simp add: sandbox_execute_def Let_def)
qed

section \<open>An example\<close>

definition sandbox_dispatch :: dispatch_binding where
  "sandbox_dispatch = \<lparr>db_mission_id = ''mission:m'', db_drone_id = ''drone'', db_dispatch_id = runtime_hex, db_fencing_token = runtime_hex,
     db_generation = 1, db_repository = ''o/r'', db_baseline_sha = replicate 40 CHR ''b'', db_baseline_tree_sha = replicate 40 CHR ''c'',
     db_branch = ''work'', db_write_scope = [''docs'']\<rparr>"

definition sandbox_machine :: sandbox_runtime where
  "sandbox_machine = \<lparr>sm_backend_id = ''backend'', sm_backend_identity_digest = runtime_hex, sm_backend_implementation_digest = runtime_hex,
     sm_isolation_evidence_digest = runtime_hex, sm_sandbox_id = ''sandbox'', sm_workspace_id = ''workspace'', sm_filesystem_mode = ''WORKSPACE_ONLY'',
     sm_network_mode = ''DENY_ALL'', sm_process_mode = ''ALLOWLIST_ONLY'', sm_ephemeral = True, sm_schema_version = ''2.0.0''\<rparr>"

definition sandbox_provisioning :: provisioning_binding where
  "sandbox_provisioning = \<lparr>pb_provisioning_request_digest = runtime_hex, pb_provisioning_materialization_digest = runtime_hex,
     pb_provisioned_executor_digest = runtime_hex, pb_mission_id = ''mission:m'', pb_drone_id = ''drone'', pb_executor_id = ''executor'',
     pb_repository = ''o/r'', pb_baseline_sha = replicate 40 CHR ''b'', pb_baseline_tree_sha = replicate 40 CHR ''c'', pb_branch = ''work'',
     pb_read_scope = [''docs''], pb_write_scope = [''docs''], pb_runtime_instance_id = ''runtime'', pb_sandbox_id = ''sandbox'',
     pb_workspace_id = ''workspace'', pb_runtime_attestation_digest = runtime_hex\<rparr>"

definition sandbox_rules :: sandbox_policy where
  "sandbox_rules = \<lparr>sp_repository = ''o/r'', sp_baseline_sha = replicate 40 CHR ''b'', sp_baseline_tree_sha = replicate 40 CHR ''c'',
     sp_branch = ''work'', sp_mission_id = ''mission:m'', sp_drone_id = ''drone'', sp_executor_id = ''executor'', sp_sandbox_id = ''sandbox'',
     sp_workspace_id = ''workspace'', sp_runtime_instance_id = ''runtime'', sp_authority_binding_digest = runtime_hex,
     sp_runtime_binding_digest = sandbox_runtime_digest sandbox_machine, sp_fleet_dispatch_binding_digest = dispatch_binding_digest sandbox_dispatch,
     sp_provisioning_binding_digest = provisioning_binding_digest sandbox_provisioning, sp_dispatch_id = runtime_hex, sp_fencing_token = runtime_hex, sp_generation = 1,
     sp_runtime_attestation_digest = runtime_hex, sp_read_scope = [''docs''], sp_write_scope = [''docs''], sp_test_scope = [''docs''],
     sp_allowed_test_commands = [[''pytest'']],
     sp_resource_limits = \<lparr>sl_max_operations = 2, sl_max_write_bytes = 8, sl_max_output_bytes = 8, sl_max_test_runs = 1\<rparr>,
     sp_schema_version = ''2.0.0''\<rparr>"

definition file_backend :: "string list sandbox_backend" where
  "file_backend = \<lparr>bk_identity = (''backend'', runtime_hex, runtime_hex, ''sandbox'', ''workspace''),
     bk_read_file = (\<lambda>p w. (Inr \<lparr>br_data = [], br_observed_event_ref = ''seen''\<rparr>, w)),
     bk_write_file = (\<lambda>p d w. (Inr \<lparr>bw_observed_content_digest = sha256 d, bw_observed_event_ref = ''seen'', bw_side_effect_ref = ''file''\<rparr>, w @ [d])),
     bk_run_test = (\<lambda>p a w. (Inr \<lparr>bt_exit_code = 0, bt_stdout = [], bt_stderr = [], bt_observed_event_ref = ''seen'', bt_side_effect_refs = []\<rparr>, w))\<rparr>"

definition sandbox_example :: "string list sandbox_config" where
  "sandbox_example = \<lparr>sc_policy = sandbox_rules, sc_runtime = sandbox_machine, sc_backend = file_backend\<rparr>"

definition sandbox_logged :: "(backend_call list \<times> string list) sandbox_config" where
  "sandbox_logged = \<lparr>sc_policy = sandbox_rules, sc_runtime = sandbox_machine, sc_backend = logging_backend file_backend\<rparr>"

definition sandbox_write :: sandbox_operation where
  "sandbox_write = operation_of (sandbox_policy_digest sandbox_rules) (request_for ''data'' runtime_hex) example_identity"

definition write_call :: sandbox_call where
  "write_call = \<lparr>sx_now = example_instant, sx_current_dispatch = (\<lambda>_. Inr sandbox_dispatch), sx_operation = sandbox_write, sx_payload = ''data''\<rparr>"

definition fresh_ledger :: sandbox_budget_table where
  "fresh_ledger = snd (sqlite_ledger_init sandbox_rules Map.empty)"

definition sandbox_start :: "'w \<Rightarrow> (sandbox_replay_table, sandbox_budget_table, 'w) sandbox_state" where
  "sandbox_start w = \<lparr>ss_closed = False, ss_replay = Map.empty, ss_budget = fresh_ledger, ss_world = w\<rparr>"

lemma sandbox_example_parts:
  "baseline_checks ''o/r'' (replicate 40 CHR ''b'') (replicate 40 CHR ''c'') ''work'' = [Inr (), Inr (), Inr (), Inr ()]"
  "sandbox_scope ''read_scope'' [''docs''] = Inr ()" "sandbox_scope ''write_scope'' [''docs''] = Inr ()" "sandbox_scope ''test_scope'' [''docs''] = Inr ()"
  "path_within_scope ''docs'' [''docs''] = Inr True" "command_check ExecutionSandboxContractError [''pytest''] = Inr ()"
  by code_simp+

lemma sandbox_rules_valid: "sandbox_policy_validate sandbox_rules = Inr ()" "dispatch_binding_validate sandbox_dispatch = Inr ()"
  "binds_dispatch sandbox_rules sandbox_dispatch"
proof -
  have "is_hex 64 (dispatch_binding_digest sandbox_dispatch)" "is_hex 64 (sandbox_runtime_digest sandbox_machine)"
    "is_hex 64 (provisioning_binding_digest sandbox_provisioning)"
    by (simp_all add: dispatch_binding_digest_def sandbox_runtime_digest_def provisioning_binding_digest_def)
  then show "sandbox_policy_validate sandbox_rules = Inr ()"
    using runtime_texts by (simp add: sandbox_policy_validate_def sandbox_rules_def sandbox_example_parts example_hexes sandbox_limits_validate_def)
  show "dispatch_binding_validate sandbox_dispatch = Inr ()"
    using runtime_texts by (simp add: dispatch_binding_validate_def sandbox_dispatch_def sandbox_example_parts example_hexes)
  show "binds_dispatch sandbox_rules sandbox_dispatch" by (simp add: binds_dispatch_def sandbox_rules_def sandbox_dispatch_def)
qed

lemma sandbox_example_opens: "sandbox_init sandbox_logged sandbox_dispatch sandbox_provisioning = Inr ()"
proof -
  have "\<not> text_invalid 2048 ''backend''" by code_simp
  then have m: "sandbox_runtime_validate sandbox_machine = Inr ()"
    using runtime_texts by (simp add: sandbox_runtime_validate_def sandbox_machine_def example_hexes)
  have "provisioning_binding_validate sandbox_provisioning = Inr ()"
    using runtime_texts by (simp add: provisioning_binding_validate_def sandbox_provisioning_def sandbox_example_parts example_hexes)
  then have "policy_bindings sandbox_rules sandbox_dispatch sandbox_provisioning = Inr ()"
    using sandbox_rules_valid by (simp add: policy_bindings_def) (simp add: sandbox_rules_def sandbox_provisioning_def)
  with m show ?thesis
    by (simp add: sandbox_init_def sandbox_logged_def Let_def)
       (simp add: sandbox_rules_def, simp add: sandbox_machine_def logging_backend_def file_backend_def)
qed

lemma fresh_ledger_row: "fresh_ledger = [sandbox_policy_digest sandbox_rules \<mapsto> (budget_zero, SANDBOX_STATE_SCHEMA)]"
  by (simp add: fresh_ledger_def sqlite_ledger_init_def sandbox_rules_valid)

lemma sandbox_write_valid: "sandbox_operation_validate sandbox_write = Inr ()"
proof -
  have "is_hex 64 (sandbox_policy_digest sandbox_rules)" by (simp add: sandbox_policy_digest_def)
  then show ?thesis using runtime_texts example_path
    by (simp add: sandbox_write_def sandbox_operation_validate_def operation_of_def checks_map_ok)
       (simp add: request_for_def example_identity_def example_hexes runtime_actions_def)
qed

lemma sandbox_write_sel: "sb_mission_id sandbox_write = ''mission:m''" "sb_drone_id sandbox_write = ''drone''" "sb_executor_id sandbox_write = ''executor''"
  "sb_sandbox_id sandbox_write = ''sandbox''" "sb_workspace_id sandbox_write = ''workspace''" "sb_dispatch_id sandbox_write = runtime_hex"
  "sb_fencing_token sandbox_write = runtime_hex" "sb_generation sandbox_write = 1" "sb_policy_digest sandbox_write = sandbox_policy_digest sandbox_rules"
  "sb_action sandbox_write = ''WRITE_FILE''" "sb_path sandbox_write = ''docs''" "sb_payload_digest sandbox_write = Some (sha256 ''data'')"
  "sb_payload_size sandbox_write = 4" "sb_operation_id sandbox_write = ''execution''"
  by (simp_all add: sandbox_write_def operation_of_def request_for_def example_identity_def)

lemma sandbox_write_admitted: "sandbox_admits sandbox_rules write_call False = Inr ()"
proof -
  have "sandbox_current sandbox_rules write_call = Inr ()"
    using sandbox_rules_valid(2,3) by (simp add: sandbox_current_def write_call_def) (simp add: sandbox_rules_def)
  moreover have "sandbox_validate_op sandbox_rules write_call = Inr ()"
    by (simp add: sandbox_validate_op_def write_call_def sandbox_write_valid sandbox_write_sel) (simp add: sandbox_rules_def)
  moreover have "sandbox_check_scope sandbox_rules sandbox_write = Inr ()"
    by (simp add: sandbox_check_scope_def action_scope_def sandbox_write_sel) (simp add: sandbox_rules_def sandbox_example_parts)
  ultimately show ?thesis by (simp add: sandbox_admits_def write_call_def)
qed

lemma sandbox_example_writes:
  "\<exists>r s'. sandbox_execute sandbox_sqlite_consume (sqlite_reserve sandbox_rules) sandbox_example write_call (sandbox_start w) = (r, s') \<and> ss_world s' = w @ [''data'']"
proof -
  have "\<not> blank ''mission:m''" "\<not> blank ''execution''" "nul \<notin> set ''mission:m''" "nul \<notin> set ''execution''" by code_simp+
  moreover have "\<not> blank m \<Longrightarrow> \<not> blank x \<Longrightarrow> nul \<notin> set m \<Longrightarrow> nul \<notin> set x \<Longrightarrow> \<exists>g. sandbox_sqlite_consume now m x Map.empty = (Inr True, g)" for now m x
    by (simp add: sandbox_sqlite_consume_def)
  ultimately obtain g where g: "sandbox_sqlite_consume example_instant ''mission:m'' ''execution'' Map.empty = (Inr True, g)" by blast
  have "\<not> over_budget (sp_resource_limits sandbox_rules) (budget_next sandbox_write budget_zero)"
    by (simp add: over_budget_def budget_next_def budget_zero_def sandbox_write_sel) (simp add: sandbox_rules_def)
  then obtain b where b: "sqlite_reserve sandbox_rules sandbox_write fresh_ledger = (Inr (), b)"
    by (simp add: sqlite_reserve_def Let_def sandbox_write_valid sandbox_write_sel fresh_ledger_row ledger_row_def)
       (simp add: budget_next_def budget_zero_def sqlite_int_def sandbox_write_sel)
  obtain t where "backend_act sandbox_example sandbox_write ''data'' w = (t, w @ [''data''])"
    by (simp add: backend_act_def Let_def sandbox_write_sel sandbox_example_def file_backend_def)
  moreover have k: "sx_operation write_call = sandbox_write" "sx_now write_call = example_instant" "sx_payload write_call = ''data''" "sc_policy sandbox_example = sandbox_rules"
    by (simp_all add: write_call_def sandbox_example_def)
  ultimately show ?thesis using sandbox_write_admitted g b
    by (simp add: sandbox_execute_def Let_def sandbox_start_def sandbox_write_sel)
qed

text \<open>The write of the example lies in the policy.\<close>
theorem sandbox_confined_witness:
  "confined sandbox_rules write_call \<and> (\<exists>r s1. sandbox_execute sandbox_sqlite_consume (sqlite_reserve sandbox_rules) sandbox_example write_call (sandbox_start []) = (r, s1)
     \<and> ss_world s1 = [''data''])"
proof -
  obtain r s1 where e: "sandbox_execute sandbox_sqlite_consume (sqlite_reserve sandbox_rules) sandbox_example write_call (sandbox_start []) = (r, s1)"
    "ss_world s1 = [''data'']" using sandbox_example_writes [of "[]"] by auto
  then have "ss_world s1 \<noteq> ss_world (sandbox_start [])" by (simp add: sandbox_start_def)
  then have "confined (sc_policy sandbox_example) write_call" using sandbox_confined [OF e(1) disjI2] by blast
  with e show ?thesis by (auto simp: sandbox_example_def)
qed

text \<open>Three calls over two restarts that succeed, where two operations are allowed.\<close>
theorem sandbox_within_budget_witness:
  "sandbox_init sandbox_logged sandbox_dispatch sandbox_provisioning = Inr ()
   \<and> length (fst (ss_world (sandbox_run (sqlite_ledger_init sandbox_rules) sandbox_sqlite_consume (sqlite_reserve sandbox_rules) sandbox_logged
     [Execute write_call, Shut, Restart sandbox_dispatch sandbox_provisioning, Execute write_call, Restart sandbox_dispatch sandbox_provisioning,
      Execute write_call] (sandbox_start ([], []))))) \<le> 2"
proof
  let ?s = "sandbox_start ([] :: backend_call list, [] :: string list)" and ?r = "Restart sandbox_dispatch sandbox_provisioning"
  have i: "sqlite_ledger_init sandbox_rules Map.empty = (Inr (), ss_budget ?s)"
    by (simp add: sandbox_start_def fresh_ledger_def sqlite_ledger_init_def sandbox_rules_valid)
  have b: "sc_backend sandbox_logged = logging_backend file_backend" by (simp add: sandbox_logged_def)
  have w: "ss_world ?s = ([], [])" by (simp add: sandbox_start_def)
  have "sl_max_operations (sp_resource_limits sandbox_rules) = 2" by (simp add: sandbox_rules_def)
  with sandbox_within_budget [OF sandbox_rules_valid(1) b w i, of "[Execute write_call, Shut, ?r, Execute write_call, ?r, Execute write_call]"]
  show "length (fst (ss_world (sandbox_run (sqlite_ledger_init sandbox_rules) sandbox_sqlite_consume (sqlite_reserve sandbox_rules) sandbox_logged
     [Execute write_call, Shut, ?r, Execute write_call, ?r, Execute write_call] ?s))) \<le> 2" by (simp only: Let_def) linarith
qed (rule sandbox_example_opens)

definition port_call :: "(sandbox_replay_table, sandbox_budget_table, string list) sandbox_state engine_call" where
  "port_call = \<lparr>ek_resolve = resolve_admission (example_table ''data'' runtime_hex),
     ek_is_current = is_current_admission (example_table ''data'' runtime_hex), ek_now = example_instant,
     ek_policy_digest = sandbox_policy_digest sandbox_rules,
     ek_sandbox = sandbox_port sandbox_sqlite_consume (sqlite_reserve sandbox_rules) sandbox_example example_instant (\<lambda>_. Inr sandbox_dispatch),
     ek_admission = admission_for ''data'' runtime_hex, ek_request = request_for ''data'' runtime_hex, ek_effect = example_effect ''data'',
     ek_identity = example_identity, ek_payload = ''data''\<rparr>"

lemma port_call_prepared: "prepare port_call = Inr ()" "call_operation port_call = sandbox_write"
proof -
  show o: "call_operation port_call = sandbox_write" by (simp add: call_operation_def port_call_def sandbox_write_def)
  show "prepare port_call = Inr ()"
    using example_bindings [of "''data''" runtime_hex] example_resolves [OF example_hexes(1), of "''data''"] admission_for_valid [OF example_hexes(1), of "''data''"]
      sandbox_write_valid
    by (simp add: prepare_def o) (simp add: port_call_def canonical_admission_def)
qed

text \<open>The engine on the example sandbox writes and returns a receipt.\<close>
theorem effect_reported_witness:
  "\<exists>y g' s'. engine_execute sqlite_consume port_call ([], sandbox_start []) = (Inr y, g', s') \<and> ss_world s' = [''data'']
     \<and> runtime_receipt_validate y = Inr ()"
proof -
  obtain t s' where t: "sandbox_execute sandbox_sqlite_consume (sqlite_reserve sandbox_rules) sandbox_example write_call (sandbox_start []) = (t, s')"
    "ss_world s' = [''data'']" using sandbox_example_writes [of "[]"] by auto
  obtain row where "sqlite_consume example_instant (rn_admission_digest (admission_for ''data'' runtime_hex)) ''execution'' [] = (Inr True, [row])"
    using example_consumed [OF example_hexes(1)] by auto
  moreover have k: "ek_payload port_call = ''data''" "ek_now port_call = example_instant" "ek_admission port_call = admission_for ''data'' runtime_hex"
    "xq_execution_id (ek_request port_call) = ''execution''" "xq_runtime_instance_id (ek_request port_call) = ''runtime''"
    by (simp_all add: port_call_def request_for_def)
  moreover have s: "ek_sandbox port_call = sandbox_port sandbox_sqlite_consume (sqlite_reserve sandbox_rules) sandbox_example example_instant (\<lambda>_. Inr sandbox_dispatch)"
    by (simp add: port_call_def)
  ultimately obtain r g' where e: "engine_execute sqlite_consume port_call ([], sandbox_start []) = (r, g', s')"
    using port_call_prepared t by (cases t) (simp_all add: engine_execute_def sandbox_port_def write_call_def [symmetric])
  have "sandbox_policy_validate (sc_policy sandbox_example) = Inr ()" by (simp add: sandbox_example_def sandbox_rules_valid)
  from effect_reported [OF e s this] t(2) e show ?thesis
    by (simp add: k) (auto simp: sandbox_example_def sandbox_rules_def sandbox_start_def)
qed

end
