(* ===== verification/Provisioning_Service.thy ===== *)
theory Provisioning_Service
  imports Executor_Provisioning
begin

text \<open>
  enterprise/executor_provisioning.py: the ledger of provisioning requests and the provisioner that asks an external
  provider for an executor and binds its evidence to the request.

  The provider is an argument that changes a world of its own. Each method of the ledger runs under the lock, so it is one
  step; the provisioner calls the provider between two such steps. A digest is taken of a validated request only.
\<close>

section \<open>The ledger\<close>

abbreviation provisioner_error :: "string \<Rightarrow> exn" where
  "provisioner_error m \<equiv> Exn ExecutorProvisioningError m"

abbreviation provisioner_when :: "bool \<Rightarrow> string \<Rightarrow> unit res" where
  "provisioner_when b m \<equiv> raise_when b ExecutorProvisioningError m"

type_synonym claims = "string \<rightharpoonup> string"

record provisioning_ledger =
  vl_receipts :: "string \<rightharpoonup> provisioned_executor"
  vl_pending :: "string set"
  vl_request_ids :: claims
  vl_idempotency_keys :: claims
  vl_drone_ids :: claims
  vl_executor_ids :: claims
  vl_runtime_ids :: claims
  vl_sandbox_ids :: claims
  vl_workspace_ids :: claims

definition ledger_empty :: provisioning_ledger where
  "ledger_empty = \<lparr>vl_receipts = Map.empty, vl_pending = {}, vl_request_ids = Map.empty, vl_idempotency_keys = Map.empty,
     vl_drone_ids = Map.empty, vl_executor_ids = Map.empty, vl_runtime_ids = Map.empty, vl_sandbox_ids = Map.empty,
     vl_workspace_ids = Map.empty\<rparr>"

definition check_claim :: "claims \<Rightarrow> string \<Rightarrow> string \<Rightarrow> string \<Rightarrow> unit res" where
  "check_claim m key digest label = provisioner_when (m key \<noteq> None \<and> m key \<noteq> Some digest) (label @ '' is already bound to another provisioning request'')"

text \<open>The four claims of \<open>begin\<close>, one after the other; the ones made stay when a later one fails.\<close>

definition begin_claims :: "provisioning_request \<Rightarrow> string \<Rightarrow> (provisioning_ledger, unit) op" where
  "begin_claims q d l = (case check_claim (vl_request_ids l) (vq_request_id q) d ''request_id'' of Inl e \<Rightarrow> (Inl e, l)
   | Inr _ \<Rightarrow> let l = l\<lparr>vl_request_ids := (vl_request_ids l)(vq_request_id q \<mapsto> d)\<rparr> in
     (case check_claim (vl_idempotency_keys l) (vq_idempotency_key q) d ''idempotency_key'' of Inl e \<Rightarrow> (Inl e, l)
   | Inr _ \<Rightarrow> let l = l\<lparr>vl_idempotency_keys := (vl_idempotency_keys l)(vq_idempotency_key q \<mapsto> d)\<rparr> in
     (case check_claim (vl_drone_ids l) (vq_drone_id q) d ''drone_id'' of Inl e \<Rightarrow> (Inl e, l)
   | Inr _ \<Rightarrow> let l = l\<lparr>vl_drone_ids := (vl_drone_ids l)(vq_drone_id q \<mapsto> d)\<rparr> in
     (case check_claim (vl_executor_ids l) (vq_executor_id q) d ''executor_id'' of Inl e \<Rightarrow> (Inl e, l)
   | Inr _ \<Rightarrow> (Inr (), l\<lparr>vl_executor_ids := (vl_executor_ids l)(vq_executor_id q \<mapsto> d)\<rparr>)))))"

definition ledger_begin :: "provisioning_request \<Rightarrow> (provisioning_ledger, provisioned_executor option) op" where
  "ledger_begin q l = (case provisioning_request_validate q of Inl e \<Rightarrow> (Inl e, l)
   | Inr _ \<Rightarrow> (let d = provisioning_request_digest q in case vl_receipts l d of Some r \<Rightarrow> (Inr (Some r), l)
   | None \<Rightarrow> if d \<in> vl_pending l then (Inl (provisioner_error ''provisioning request is already in progress''), l)
     else (case begin_claims q d l of (Inl e, l') \<Rightarrow> (Inl e, l')
       | (Inr _, l') \<Rightarrow> (Inr None, l'\<lparr>vl_pending := insert d (vl_pending l')\<rparr>))))"

definition ledger_commit :: "provisioning_request \<Rightarrow> provisioned_executor \<Rightarrow> provider_trust \<Rightarrow> (provisioning_ledger, provisioned_executor) op" where
  "ledger_commit q r t l = (case provisioned_validate_for r q t of Inl e \<Rightarrow> (Inl e, l)
   | Inr _ \<Rightarrow> (let d = provisioning_request_digest q in case vl_receipts l d of
       Some old \<Rightarrow> if provisioned_digest old \<noteq> provisioned_digest r
         then (Inl (provisioner_error ''idempotent provisioning receipt changed''), l) else (Inr old, l)
     | None \<Rightarrow> if d \<notin> vl_pending l then (Inl (provisioner_error ''provisioning request was not reserved''), l)
       else (case checks [check_claim (vl_runtime_ids l) (vx_runtime_instance_id r) d ''runtime_instance_id'',
           check_claim (vl_sandbox_ids l) (vx_sandbox_id r) d ''sandbox_id'', check_claim (vl_workspace_ids l) (vx_workspace_id r) d ''workspace_id''] of
         Inl e \<Rightarrow> (Inl e, l)
       | Inr _ \<Rightarrow> (Inr r, l\<lparr>vl_runtime_ids := (vl_runtime_ids l)(vx_runtime_instance_id r \<mapsto> d),
           vl_sandbox_ids := (vl_sandbox_ids l)(vx_sandbox_id r \<mapsto> d), vl_workspace_ids := (vl_workspace_ids l)(vx_workspace_id r \<mapsto> d),
           vl_receipts := (vl_receipts l)(d \<mapsto> r), vl_pending := vl_pending l - {d}\<rparr>))))"

definition release_claim :: "claims \<Rightarrow> string \<Rightarrow> string \<Rightarrow> claims" where
  "release_claim m key d = (if m key = Some d then m(key := None) else m)"

definition ledger_abort :: "provisioning_request \<Rightarrow> provisioning_ledger \<Rightarrow> provisioning_ledger" where
  "ledger_abort q l = (let d = provisioning_request_digest q in
     if provisioning_request_validate q \<noteq> Inr () \<or> vl_receipts l d \<noteq> None then l
     else l\<lparr>vl_pending := vl_pending l - {d}, vl_request_ids := release_claim (vl_request_ids l) (vq_request_id q) d,
       vl_idempotency_keys := release_claim (vl_idempotency_keys l) (vq_idempotency_key q) d,
       vl_drone_ids := release_claim (vl_drone_ids l) (vq_drone_id q) d, vl_executor_ids := release_claim (vl_executor_ids l) (vq_executor_id q) d\<rparr>)"

definition ledger_lookup :: "provisioning_request \<Rightarrow> provisioning_ledger \<Rightarrow> provisioned_executor option res" where
  "ledger_lookup q l = and_then (provisioning_request_validate q) (\<lambda>_. Inr (vl_receipts l (provisioning_request_digest q)))"

section \<open>The provisioner\<close>

definition provisioner_init :: "string \<times> string \<times> string \<Rightarrow> provider_trust \<Rightarrow> unit res" where
  "provisioner_init provider t = (case provider of (ident, inst, implementation) \<Rightarrow> checks [provider_trust_validate t,
     provisioner_when (ident \<noteq> vt_provider_id t) ''provisioning provider provider_id does not match trust binding'',
     provisioner_when (inst \<noteq> vt_provider_instance_id t) ''provisioning provider provider_instance_id does not match trust binding'',
     provisioner_when (implementation \<noteq> vt_implementation_digest t) ''provisioning provider implementation_digest does not match trust binding''])"

definition provisioner_utc :: "string \<Rightarrow> int res" where
  "provisioner_utc = parse_utc (provisioner_error ''provisioning timestamp is invalid'') (provisioner_error ''provisioning timestamp must be timezone-aware'')"

definition keeps_context :: "provisioning_request \<Rightarrow> provisioning_materialization \<Rightarrow> bool" where
  "keeps_context q m \<longleftrightarrow>
     (vm_runtime_class m, vm_image_digest m, vm_sandbox_profile_digest m, vm_resource_profile_digest m)
       = (vq_runtime_class q, vq_image_digest q, vq_sandbox_profile_digest q, vq_resource_profile_digest q)
     \<and> (vm_repository m, vm_baseline_sha m, vm_baseline_tree_sha m, vm_branch m, vm_read_scope m, vm_write_scope m, vm_credential_handle_ids m)
       = (vq_repository q, vq_baseline_sha q, vq_baseline_tree_sha q, vq_branch q, vq_read_scope q, vq_write_scope q,
          map hc_handle_id (vq_credential_handles q))"

definition validate_materialization :: "provider_trust \<Rightarrow> provisioning_request \<Rightarrow> provisioning_materialization \<Rightarrow> unit res" where
  "validate_materialization t q m = and_then (checks [materialization_validate m,
       provisioner_when (vm_state m \<noteq> ''READY'') ''provider did not produce a READY executor'',
       provisioner_when (vm_request_digest m \<noteq> provisioning_request_digest q) ''provider materialization request digest mismatch'',
       provisioner_when (vm_provider_id m \<noteq> vt_provider_id t \<or> vm_provider_instance_id m \<noteq> vt_provider_instance_id t)
         ''provider materialization identity mismatch'',
       provisioner_when (\<not> keeps_context q m) ''provider widened or changed requested executor context'']) (\<lambda>_.
     and_then (provisioner_utc (vm_observed_at m)) (\<lambda>observed. and_then (provisioner_utc (vq_requested_at q)) (\<lambda>requested.
     provisioner_when (observed < requested) ''provider evidence predates provisioning request'')))"

definition receipt_basis :: "provider_trust \<Rightarrow> provisioning_request \<Rightarrow> provisioning_materialization \<Rightarrow> json" where
  "receipt_basis t q m = JObj [(''request_digest'', JStr (provisioning_request_digest q)),
     (''provider_binding'', strs [vt_provider_id t, vt_provider_instance_id t, vt_implementation_digest t, vt_trust_anchor_id t, vt_trust_anchor_digest t]),
     (''runtime_instance_id'', JStr (vm_runtime_instance_id m)), (''sandbox_id'', JStr (vm_sandbox_id m)), (''workspace_id'', JStr (vm_workspace_id m)),
     (''runtime_attestation_digest'', opt_str (vm_runtime_attestation_digest m)), (''provider_evidence_ref'', JStr (vm_evidence_ref m)),
     (''provisioned_at'', JStr (vm_observed_at m))]"

definition executor_of :: "provider_trust \<Rightarrow> provisioning_request \<Rightarrow> provisioning_materialization \<Rightarrow> provisioned_executor" where
  "executor_of t q m = \<lparr>vx_schema_version = ''1.0.0'', vx_receipt_id = ''executor-provisioning:'' @ sha256 (canon (receipt_basis t q m)),
     vx_request_id = vq_request_id q, vx_request_digest = provisioning_request_digest q, vx_idempotency_key = vq_idempotency_key q,
     vx_drone_id = vq_drone_id q, vx_executor_id = vq_executor_id q, vx_runtime_instance_id = vm_runtime_instance_id m,
     vx_sandbox_id = vm_sandbox_id m, vx_workspace_id = vm_workspace_id m, vx_mission_id = vq_mission_id q,
     vx_parent_mission_id = vq_parent_mission_id q, vx_repository = vq_repository q, vx_baseline_sha = vq_baseline_sha q,
     vx_baseline_tree_sha = vq_baseline_tree_sha q, vx_branch = vq_branch q, vx_read_scope = vq_read_scope q,
     vx_write_scope = vq_write_scope q, vx_runtime_class = vq_runtime_class q, vx_image_digest = vq_image_digest q,
     vx_sandbox_profile_digest = vq_sandbox_profile_digest q, vx_resource_profile_digest = vq_resource_profile_digest q,
     vx_credential_handle_ids = map hc_handle_id (vq_credential_handles q), vx_provider_id = vt_provider_id t,
     vx_provider_instance_id = vt_provider_instance_id t, vx_provider_implementation_digest = vt_implementation_digest t,
     vx_provider_trust_anchor_id = vt_trust_anchor_id t, vx_provider_trust_anchor_digest = vt_trust_anchor_digest t,
     vx_runtime_attestation_digest = (case vm_runtime_attestation_digest m of None \<Rightarrow> [] | Some d \<Rightarrow> d),
     vx_provider_evidence_ref = vm_evidence_ref m, vx_provisioned_at = vm_observed_at m\<rparr>"

definition issue_receipt_for :: "provider_trust \<Rightarrow> provisioning_request \<Rightarrow> provisioning_materialization \<Rightarrow> provisioned_executor res" where
  "issue_receipt_for t q m = (let r = executor_of t q m in and_then (provisioned_validate_for r q t) (\<lambda>_. Inr r))"

definition provisioning_classes :: "exn_class \<Rightarrow> bool" where
  "provisioning_classes c \<longleftrightarrow> c = ExecutorProvisioningContractError \<or> c = ExecutorProvisioningError"

text \<open>The exception that leaves \<open>provision\<close>.\<close>

definition provision_failure :: "exn \<Rightarrow> exn" where
  "provision_failure e = (if exn_class e = ExecutorProvisioningError then e
     else if exn_class e = ExecutorProvisioningContractError then provisioner_error ''provider evidence failed contract validation''
     else provisioner_error ''executor provider failed closed'')"

definition provision ::
  "provider_trust \<Rightarrow> (provisioning_request \<Rightarrow> ('w, provisioning_materialization) op) \<Rightarrow> provisioning_request
    \<Rightarrow> (provisioning_ledger \<times> 'w, provisioned_executor) op" where
  "provision t provider q s = (case s of (l, w) \<Rightarrow> (case provisioning_request_validate q of Inl e \<Rightarrow> (Inl e, l, w)
   | Inr _ \<Rightarrow> (case ledger_begin q l of (Inl e, l1) \<Rightarrow> (Inl e, l1, w)
   | (Inr (Some r), l1) \<Rightarrow> (and_then (wrap_errors provisioning_classes (provisioner_error ''stored provisioning receipt is invalid'')
       (provisioned_validate_for r q t)) (\<lambda>_. Inr r), l1, w)
   | (Inr None, l1) \<Rightarrow> (case provider q w of (a, w1) \<Rightarrow>
       (case and_then a (\<lambda>m. and_then (validate_materialization t q m) (\<lambda>_. issue_receipt_for t q m)) of
         Inl e \<Rightarrow> (Inl (provision_failure e), ledger_abort q l1, w1)
       | Inr r \<Rightarrow> (case ledger_commit q r t l1 of (Inl e, l2) \<Rightarrow> (Inl (provision_failure e), ledger_abort q l2, w1)
           | (Inr y, l2) \<Rightarrow> (Inr y, l2, w1)))))))"

definition provisioner_lookup :: "provider_trust \<Rightarrow> provisioning_request \<Rightarrow> provisioning_ledger \<Rightarrow> provisioned_executor option res" where
  "provisioner_lookup t q l = and_then (ledger_lookup q l) (\<lambda>found. case found of None \<Rightarrow> Inr None
     | Some r \<Rightarrow> and_then (wrap_errors provisioning_classes (provisioner_error ''stored provisioning receipt is invalid'') (provisioned_validate_for r q t))
         (\<lambda>_. Inr (Some r)))"

end
