(* ===== verification/Provisioning_Props.thy ===== *)
theory Provisioning_Props
  imports Provisioning_Service Runtime_Chain
begin

text \<open>
  The properties of the provisioning service: under every interleaving of its requests two provisioned executors share no
  identity, and a request is materialised once.
\<close>

section \<open>Steps of the ledger\<close>

text \<open>\<open>Q\<close> is the set of requests that are made at all.\<close>

inductive ledger_step :: "provider_trust \<Rightarrow> provisioning_request set \<Rightarrow> provisioning_ledger \<Rightarrow> provisioning_ledger \<Rightarrow> bool" for t Q where
  begin_step: "q \<in> Q \<Longrightarrow> ledger_begin q l = (x, l') \<Longrightarrow> ledger_step t Q l l'"
| commit_step: "q \<in> Q \<Longrightarrow> ledger_commit q r t l = (x, l') \<Longrightarrow> ledger_step t Q l l'"
| abort_step: "q \<in> Q \<Longrightarrow> ledger_step t Q l (ledger_abort q l)"

text \<open>A request holds its four names under its digest.\<close>

definition holds :: "provisioning_ledger \<Rightarrow> provisioning_request \<Rightarrow> bool" where
  "holds l q \<longleftrightarrow> (let d = Some (provisioning_request_digest q) in vl_request_ids l (vq_request_id q) = d
     \<and> vl_idempotency_keys l (vq_idempotency_key q) = d \<and> vl_drone_ids l (vq_drone_id q) = d \<and> vl_executor_ids l (vq_executor_id q) = d)"

definition ledger_inv :: "provider_trust \<Rightarrow> provisioning_request set \<Rightarrow> provisioning_ledger \<Rightarrow> bool" where
  "ledger_inv t Q l \<longleftrightarrow> vl_pending l \<inter> dom (vl_receipts l) = {}
     \<and> (\<forall>d\<in>vl_pending l \<union> dom (vl_receipts l). \<exists>q\<in>Q. provisioning_request_digest q = d \<and> holds l q)
     \<and> (\<forall>d r. vl_receipts l d = Some r \<longrightarrow> (\<exists>q\<in>Q. provisioning_request_digest q = d \<and> provisioned_validate_for r q t = Inr ())
         \<and> vl_runtime_ids l (vx_runtime_instance_id r) = Some d \<and> vl_sandbox_ids l (vx_sandbox_id r) = Some d
         \<and> vl_workspace_ids l (vx_workspace_id r) = Some d)"

lemma inv_receipt:
  assumes "ledger_inv t Q l" "vl_receipts l d = Some r"
  shows "\<exists>q\<in>Q. provisioning_request_digest q = d \<and> provisioned_validate_for r q t = Inr ()" "\<exists>q\<in>Q. provisioning_request_digest q = d \<and> holds l q"
    "vl_runtime_ids l (vx_runtime_instance_id r) = Some d" "vl_sandbox_ids l (vx_sandbox_id r) = Some d" "vl_workspace_ids l (vx_workspace_id r) = Some d"
  using assms unfolding ledger_inv_def by blast+

lemma check_claim_ok [simp]: "check_claim m k d label = Inr u \<longleftrightarrow> m k = None \<or> m k = Some d"
  by (auto simp: check_claim_def)

text \<open>What \<open>begin\<close> does to the ledger: it only adds claims of its own digest, and reserves only with all of them.\<close>

definition claims_added :: "string \<Rightarrow> claims \<Rightarrow> claims \<Rightarrow> bool" where
  "claims_added d m m' \<longleftrightarrow> (\<forall>k. m' k = m k \<or> m k = None \<and> m' k = Some d)"

lemma claims_added_upd: "m k = None \<or> m k = Some d \<Longrightarrow> claims_added d m (m(k \<mapsto> d))"
  by (auto simp: claims_added_def)

lemma claims_added_refl [simp]: "claims_added d m m"
  by (simp add: claims_added_def)

lemma begin_claims_frame:
  assumes "begin_claims q d l = (x, l')"
  shows "vl_receipts l' = vl_receipts l" "vl_pending l' = vl_pending l" "vl_runtime_ids l' = vl_runtime_ids l" "vl_sandbox_ids l' = vl_sandbox_ids l"
    "vl_workspace_ids l' = vl_workspace_ids l" "claims_added d (vl_request_ids l) (vl_request_ids l')"
    "claims_added d (vl_idempotency_keys l) (vl_idempotency_keys l')" "claims_added d (vl_drone_ids l) (vl_drone_ids l')"
    "claims_added d (vl_executor_ids l) (vl_executor_ids l')" "x = Inr () \<Longrightarrow> d = provisioning_request_digest q \<Longrightarrow> holds l' q"
  using assms by (auto simp: begin_claims_def Let_def holds_def claims_added_upd split: sum.splits)

lemma claims_added_Some: "claims_added d m m' \<Longrightarrow> m k = Some e \<Longrightarrow> m' k = Some e"
  by (auto simp: claims_added_def) (metis option.distinct(1))

lemma holds_added:
  assumes "holds l q" "begin_claims q' d l = (x, l')"
  shows "holds l' q"
  using assms(1) begin_claims_frame(6-9) [OF assms(2)] by (auto simp: holds_def Let_def dest: claims_added_Some)

lemma begin_inv:
  assumes "ledger_inv t Q l" "ledger_begin q l = (x, l')" "q \<in> Q"
  shows "ledger_inv t Q l'"
proof (cases "l' = l")
  case False
  let ?d = "provisioning_request_digest q"
  obtain y l1 where c: "begin_claims q ?d l = (y, l1)" by fastforce
  note f = begin_claims_frame [OF c]
  have none: "vl_receipts l ?d = None" and l': "l' = l1 \<or> y = Inr () \<and> l' = l1\<lparr>vl_pending := insert ?d (vl_pending l1)\<rparr>"
    using assms(2) False c by (auto simp: ledger_begin_def Let_def split: sum.splits option.splits if_splits)
  have h: "\<forall>d\<in>vl_pending l \<union> dom (vl_receipts l). \<exists>q\<in>Q. provisioning_request_digest q = d \<and> holds l1 q"
    using assms(1) holds_added [OF _ c] unfolding ledger_inv_def by blast
  from l' show ?thesis
  proof
    assume "l' = l1"
    with assms(1) h f(1-5) show ?thesis by (simp add: ledger_inv_def)
  next
    assume l: "y = Inr () \<and> l' = l1\<lparr>vl_pending := insert ?d (vl_pending l1)\<rparr>"
    then have "holds l1 q" using f(10) by simp
    then have "holds l' q" using l by (simp add: holds_def)
    moreover have "holds l' p \<longleftrightarrow> holds l1 p" for p using l by (simp add: holds_def)
    ultimately show ?thesis using assms(1,3) h f(1-5) l none by (auto simp: ledger_inv_def dom_def)
  qed
qed (use assms in simp)

lemma commit_inv:
  assumes "ledger_inv t Q l" "ledger_commit q r t l = (x, l')" "q \<in> Q"
  shows "ledger_inv t Q l'"
proof (cases "l' = l")
  case False
  let ?d = "provisioning_request_digest q"
  have v: "provisioned_validate_for r q t = Inr ()" and p: "?d \<in> vl_pending l" "vl_receipts l ?d = None"
    and c: "vl_runtime_ids l (vx_runtime_instance_id r) \<in> {None, Some ?d}" "vl_sandbox_ids l (vx_sandbox_id r) \<in> {None, Some ?d}"
      "vl_workspace_ids l (vx_workspace_id r) \<in> {None, Some ?d}"
    and l': "l' = l\<lparr>vl_runtime_ids := (vl_runtime_ids l)(vx_runtime_instance_id r \<mapsto> ?d), vl_sandbox_ids := (vl_sandbox_ids l)(vx_sandbox_id r \<mapsto> ?d),
      vl_workspace_ids := (vl_workspace_ids l)(vx_workspace_id r \<mapsto> ?d), vl_receipts := (vl_receipts l)(?d \<mapsto> r), vl_pending := vl_pending l - {?d}\<rparr>"
    using assms(2) False by (auto simp: ledger_commit_def Let_def split: sum.splits option.splits if_splits)
  have h: "holds l' y \<longleftrightarrow> holds l y" for y by (simp add: l' holds_def)
  have "\<forall>d\<in>vl_pending l' \<union> dom (vl_receipts l'). \<exists>q\<in>Q. provisioning_request_digest q = d \<and> holds l' q"
    using assms(1) p unfolding h by (auto simp: ledger_inv_def l')
  moreover have "(\<exists>q\<in>Q. provisioning_request_digest q = e \<and> provisioned_validate_for y q t = Inr ()) \<and> vl_runtime_ids l' (vx_runtime_instance_id y) = Some e
      \<and> vl_sandbox_ids l' (vx_sandbox_id y) = Some e \<and> vl_workspace_ids l' (vx_workspace_id y) = Some e" if e: "vl_receipts l' e = Some y" for e y
  proof (cases "e = ?d")
    case True
    then show ?thesis using e v assms(3) by (auto simp: l')
  next
    case False
    then have "vl_receipts l e = Some y" using e by (simp add: l')
    from inv_receipt [OF assms(1) this] c False show ?thesis by (auto simp: l')
  qed
  moreover have "vl_pending l' \<inter> dom (vl_receipts l') = {}" using assms(1) by (auto simp: ledger_inv_def l')
  ultimately show ?thesis unfolding ledger_inv_def by blast
qed (use assms in simp)

lemma abort_inv:
  assumes "ledger_inv t Q l"
  shows "ledger_inv t Q (ledger_abort q l)"
proof (cases "provisioning_request_validate q = Inr () \<and> vl_receipts l (provisioning_request_digest q) = None")
  case True
  then have None: "vl_receipts l (provisioning_request_digest q) = None" and valid: "provisioning_request_validate q = Inr ()" by simp_all
  let ?d = "provisioning_request_digest q" and ?l = "ledger_abort q l"
  have f: "vl_receipts ?l = vl_receipts l" "vl_runtime_ids ?l = vl_runtime_ids l" "vl_sandbox_ids ?l = vl_sandbox_ids l" "vl_workspace_ids ?l = vl_workspace_ids l"
    "vl_pending ?l = vl_pending l - {?d}" using None valid by (simp_all add: ledger_abort_def Let_def)
  have h: "holds ?l y" if "holds l y" "provisioning_request_digest y \<noteq> ?d" for y
    using that by (auto simp: holds_def ledger_abort_def release_claim_def Let_def)
  have "\<exists>y\<in>Q. provisioning_request_digest y = d \<and> holds ?l y" if "d \<in> vl_pending ?l \<union> dom (vl_receipts ?l)" for d
  proof -
    from that None have d: "d \<in> vl_pending l \<union> dom (vl_receipts l)" "d \<noteq> ?d" by (auto simp: f)
    from assms d(1) obtain y where "y \<in> Q" "provisioning_request_digest y = d" "holds l y" unfolding ledger_inv_def by blast
    with h d(2) show ?thesis by blast
  qed
  moreover have "vl_pending ?l \<inter> dom (vl_receipts ?l) = {}" using assms by (auto simp: ledger_inv_def f)
  ultimately show ?thesis using assms unfolding ledger_inv_def by (simp only: f) blast
qed (use assms in \<open>auto simp: ledger_abort_def Let_def\<close>)

lemma reachable_inv: "(ledger_step t Q)\<^sup>*\<^sup>* ledger_empty l \<Longrightarrow> ledger_inv t Q l"
proof (induction rule: rtranclp_induct)
  case base
  show ?case by (simp add: ledger_inv_def ledger_empty_def)
next
  case (step l l')
  from step(2,3) show ?case by (cases rule: ledger_step.cases) (auto intro: begin_inv commit_inv abort_inv)
qed

section \<open>Isolation\<close>

definition provisioning_fields :: "provisioning_request \<Rightarrow> (string \<times> json) list" where
  "provisioning_fields q = (case provisioning_request_json q of JObj kvs \<Rightarrow> kvs | _ \<Rightarrow> [])"

lemma request_fields_sel: "provisioning_request_json q = JObj (provisioning_fields q)" "distinct (map fst (provisioning_fields q))"
  "map_of (provisioning_fields q) ''request_id'' = Some (JStr (vq_request_id q))"
  "map_of (provisioning_fields q) ''idempotency_key'' = Some (JStr (vq_idempotency_key q))"
  "map_of (provisioning_fields q) ''drone_id'' = Some (JStr (vq_drone_id q))" "map_of (provisioning_fields q) ''executor_id'' = Some (JStr (vq_executor_id q))"
  by (simp_all add: provisioning_fields_def provisioning_request_json_def)

lemma request_names:
  assumes "provisioning_request_digest p = provisioning_request_digest q" "\<not> collides (canon (provisioning_request_json p)) (canon (provisioning_request_json q))"
  shows "vq_request_id p = vq_request_id q" "vq_idempotency_key p = vq_idempotency_key q" "vq_drone_id p = vq_drone_id q" "vq_executor_id p = vq_executor_id q"
proof -
  have "json_norm (JObj (provisioning_fields p)) = json_norm (JObj (provisioning_fields q))"
    using assms canon_inject(1) [of "provisioning_request_json p" "provisioning_request_json q"]
    by (simp only: provisioning_request_digest_def collides_def request_fields_sel(1)) blast
  note same = json_norm_lookup [OF this request_fields_sel(2) request_fields_sel(2)]
  show "vq_request_id p = vq_request_id q" "vq_idempotency_key p = vq_idempotency_key q" "vq_drone_id p = vq_drone_id q" "vq_executor_id p = vq_executor_id q"
    using same [of "''request_id''"] same [of "''idempotency_key''"] same [of "''drone_id''"] same [of "''executor_id''"]
    by (simp_all add: request_fields_sel(3-6))
qed

definition names :: "provisioned_executor \<Rightarrow> string list" where
  "names r = [vx_request_id r, vx_idempotency_key r, vx_drone_id r, vx_executor_id r]"

definition places :: "provisioned_executor \<Rightarrow> string list" where
  "places r = [vx_runtime_instance_id r, vx_sandbox_id r, vx_workspace_id r]"

definition collision_in :: "provisioning_request set \<Rightarrow> bool" where
  "collision_in Q \<longleftrightarrow> (\<exists>p\<in>Q. \<exists>q\<in>Q. collides (canon (provisioning_request_json p)) (canon (provisioning_request_json q)))"

lemma receipt_names:
  assumes "ledger_inv t Q l" "vl_receipts l d = Some r" "\<not> collision_in Q"
  shows "vl_request_ids l (vx_request_id r) = Some d" "vl_idempotency_keys l (vx_idempotency_key r) = Some d" "vl_drone_ids l (vx_drone_id r) = Some d"
    "vl_executor_ids l (vx_executor_id r) = Some d"
proof -
  obtain p where p: "p \<in> Q" "provisioning_request_digest p = d" "provisioned_validate_for r p t = Inr ()" using inv_receipt(1) [OF assms(1,2)] by blast
  obtain q where q: "q \<in> Q" "provisioning_request_digest q = d" "holds l q" using inv_receipt(2) [OF assms(1,2)] by blast
  have "binds_request r p" using p(3) by (simp add: provisioned_validate_for_def)
  moreover have "vq_request_id p = vq_request_id q" "vq_idempotency_key p = vq_idempotency_key q" "vq_drone_id p = vq_drone_id q" "vq_executor_id p = vq_executor_id q"
    using request_names [of p q] p(1,2) q(1,2) assms(3) by (auto simp: collision_in_def)
  ultimately show "vl_request_ids l (vx_request_id r) = Some d" "vl_idempotency_keys l (vx_idempotency_key r) = Some d" "vl_drone_ids l (vx_drone_id r) = Some d"
    "vl_executor_ids l (vx_executor_id r) = Some d"
    using q by (simp_all add: holds_def Let_def binds_request_def)
qed

text \<open>C11. Provisioned executors are isolated. Under every interleaving of requests, commits and aborts, two executors that were
  committed for different requests share no runtime instance, no sandbox and no workspace, and neither request id, nor
  idempotency key, drone or executor, unless SHA-256 collides on two of the requests that were made.\<close>
theorem executors_isolated:
  assumes "(ledger_step t Q)\<^sup>*\<^sup>* ledger_empty l" "vl_receipts l d = Some r" "vl_receipts l e = Some s" "d \<noteq> e"
  shows "list_all2 (\<noteq>) (places r) (places s) \<and> (list_all2 (\<noteq>) (names r) (names s) \<or> collision_in Q)"
proof (intro conjI disjCI)
  note i = reachable_inv [OF assms(1)]
  from inv_receipt(3-5) [OF i assms(2)] inv_receipt(3-5) [OF i assms(3)] assms(4) show "list_all2 (\<noteq>) (places r) (places s)"
    by (auto simp: places_def)
  assume no: "\<not> collision_in Q"
  from receipt_names [OF i assms(2) no] receipt_names [OF i assms(3) no] assms(4) show "list_all2 (\<noteq>) (names r) (names s)"
    by (auto simp: names_def)
qed

section \<open>Provisioning once\<close>

lemma step_keeps_receipt: "ledger_step t Q l l' \<Longrightarrow> vl_receipts l d = Some r \<Longrightarrow> vl_receipts l' d = Some r"
proof (induction rule: ledger_step.induct)
  case (begin_step q l x l')
  obtain y l1 where c: "begin_claims q (provisioning_request_digest q) l = (y, l1)" by fastforce
  then show ?case using begin_step begin_claims_frame(1) [OF c] by (auto simp: ledger_begin_def Let_def split: sum.splits option.splits if_splits)
qed (auto simp: ledger_commit_def ledger_abort_def Let_def split: sum.splits option.splits if_splits)

lemma provision_recorded:
  assumes "provision t provider q (l, w) = (Inr r, l1, w1)"
  shows "provisioning_request_validate q = Inr ()" "provisioned_validate_for r q t = Inr ()" "vl_receipts l1 (provisioning_request_digest q) = Some r"
proof -
  let ?d = "provisioning_request_digest q"
  show v: "provisioning_request_validate q = Inr ()" using assms by (auto simp: provision_def split: sum.splits)
  obtain x l0 where b: "ledger_begin q l = (x, l0)" by fastforce
  have "provisioned_validate_for r q t = Inr () \<and> vl_receipts l1 ?d = Some r"
  proof (cases "x = Inr None")
    case True
    obtain y l2 where c: "begin_claims q ?d l = (y, l2)" by fastforce
    have "vl_receipts l0 ?d = None"
      using b True v c begin_claims_frame(1) [OF c] by (auto simp: ledger_begin_def Let_def split: sum.splits option.splits if_splits)
    then show ?thesis using assms b True v
      by (auto simp: provision_def ledger_commit_def Let_def split: sum.splits prod.splits option.splits if_splits)
  next
    case False
    then show ?thesis using assms b v
      by (auto simp: provision_def ledger_begin_def Let_def split: sum.splits prod.splits option.splits if_splits)
  qed
  then show "provisioned_validate_for r q t = Inr ()" "vl_receipts l1 ?d = Some r" by simp_all
qed

text \<open>C40. A request is materialised once. When a request was answered with an executor, the answer is valid for the request under the
  trusted provider, and at every later time, whatever was provisioned or failed in between, the same request gets the same answer
  without a call of the provider.\<close>
theorem provision_once:
  assumes "provision t provider q (l, w) = (Inr r, l1, w1)" "(ledger_step t Q)\<^sup>*\<^sup>* l1 l2"
  shows "provisioned_validate_for r q t = Inr () \<and> provision t provider' q (l2, w2) = (Inr r, l2, w2)"
proof -
  note p = provision_recorded [OF assms(1)]
  from assms(2) p(3) have "vl_receipts l2 (provisioning_request_digest q) = Some r"
    by (induction rule: rtranclp_induct) (auto dest: step_keeps_receipt)
  with p show ?thesis by (simp add: provision_def ledger_begin_def Let_def)
qed

section \<open>Failure\<close>

text \<open>A provisioning that fails after it was reserved gives its names back.\<close>

lemma failed_provision_restores:
  assumes "provision t provider q (l, w) = (Inl e, l1, w1)" "ledger_begin q l = (Inr None, l0)"
    "vl_request_ids l (vq_request_id q) = None" "vl_idempotency_keys l (vq_idempotency_key q) = None" "vl_drone_ids l (vq_drone_id q) = None"
    "vl_executor_ids l (vq_executor_id q) = None"
  shows "l1 = l"
proof -
  let ?d = "provisioning_request_digest q"
  have v: "provisioning_request_validate q = Inr ()" "vl_receipts l ?d = None" "?d \<notin> vl_pending l"
    using assms(2) by (auto simp: ledger_begin_def Let_def split: sum.splits option.splits if_splits)
  have l0: "l0 = l\<lparr>vl_request_ids := (vl_request_ids l)(vq_request_id q \<mapsto> ?d), vl_idempotency_keys := (vl_idempotency_keys l)(vq_idempotency_key q \<mapsto> ?d),
      vl_drone_ids := (vl_drone_ids l)(vq_drone_id q \<mapsto> ?d), vl_executor_ids := (vl_executor_ids l)(vq_executor_id q \<mapsto> ?d), vl_pending := insert ?d (vl_pending l)\<rparr>"
    using assms(2-6) v by (auto simp: ledger_begin_def begin_claims_def check_claim_def Let_def)
  have "ledger_abort q l0 = l" using assms(3-6) v by (simp add: l0 ledger_abort_def Let_def release_claim_def fun_upd_idem)
  moreover have "l2 = l0" if "ledger_commit q r t l0 = (Inl x, l2)" for r x l2
    using that by (auto simp: ledger_commit_def Let_def split: sum.splits option.splits if_splits)
  ultimately show ?thesis using assms(1,2) v
    by (auto simp: provision_def split: sum.splits prod.splits)
qed

text \<open>One that is refused while it claims keeps the names claimed so far, although it was never reserved.\<close>

lemma refused_request_keeps_names:
  assumes "provisioning_request_validate q = Inr ()" "vl_receipts l (provisioning_request_digest q) = None" "provisioning_request_digest q \<notin> vl_pending l"
    "vl_request_ids l (vq_request_id q) = None" "vl_idempotency_keys l (vq_idempotency_key q) = Some other" "other \<noteq> provisioning_request_digest q"
  shows "\<exists>e. provision t provider q (l, w)
    = (Inl e, l\<lparr>vl_request_ids := (vl_request_ids l)(vq_request_id q \<mapsto> provisioning_request_digest q)\<rparr>, w)"
  using assms by (simp add: provision_def ledger_begin_def begin_claims_def check_claim_def Let_def)

section \<open>An example\<close>

definition named_request :: "string \<Rightarrow> provisioning_request" where
  "named_request n = executor_request\<lparr>vq_request_id := n, vq_idempotency_key := n, vq_drone_id := n, vq_executor_id := n\<rparr>"

definition materialized :: "string \<Rightarrow> provisioning_materialization" where
  "materialized n = \<lparr>vm_request_digest = provisioning_request_digest (named_request n), vm_provider_id = ''provider'', vm_provider_instance_id = ''instance'',
     vm_runtime_instance_id = n, vm_sandbox_id = n, vm_workspace_id = n, vm_runtime_class = ''class'', vm_image_digest = hex64,
     vm_sandbox_profile_digest = hex64, vm_resource_profile_digest = hex64, vm_repository = ''o/r'', vm_baseline_sha = replicate 40 CHR ''b'',
     vm_baseline_tree_sha = replicate 40 CHR ''c'', vm_branch = ''work'', vm_read_scope = [''docs''], vm_write_scope = [''docs''],
     vm_credential_handle_ids = [], vm_state = ''READY'', vm_runtime_attestation_digest = Some hex64, vm_evidence_ref = ''evidence'',
     vm_failure_code = None, vm_observed_at = ''2026-01-05T12:00:00Z''\<rparr>"

definition named_executor :: "string \<Rightarrow> provisioned_executor" where
  "named_executor n = executor_of executor_provider (named_request n) (materialized n)"

definition named_ledger :: "string \<Rightarrow> provisioning_ledger \<Rightarrow> provisioning_ledger" where
  "named_ledger n l = (let d = provisioning_request_digest (named_request n) in l\<lparr>vl_receipts := (vl_receipts l)(d \<mapsto> named_executor n),
     vl_request_ids := (vl_request_ids l)(n \<mapsto> d), vl_idempotency_keys := (vl_idempotency_keys l)(n \<mapsto> d), vl_drone_ids := (vl_drone_ids l)(n \<mapsto> d),
     vl_executor_ids := (vl_executor_ids l)(n \<mapsto> d), vl_runtime_ids := (vl_runtime_ids l)(n \<mapsto> d), vl_sandbox_ids := (vl_sandbox_ids l)(n \<mapsto> d),
     vl_workspace_ids := (vl_workspace_ids l)(n \<mapsto> d)\<rparr>)"

text \<open>None of the names is taken and the request is new.\<close>

definition vacant :: "string \<Rightarrow> provisioning_ledger \<Rightarrow> bool" where
  "vacant n l \<longleftrightarrow> vl_receipts l (provisioning_request_digest (named_request n)) = None \<and> vl_pending l = {} \<and> vl_request_ids l n = None \<and> vl_idempotency_keys l n = None
     \<and> vl_drone_ids l n = None \<and> vl_executor_ids l n = None \<and> vl_runtime_ids l n = None \<and> vl_sandbox_ids l n = None \<and> vl_workspace_ids l n = None"

lemma provisioning_example_texts: "list_all (\<lambda>t. \<not> text_invalid 4096 t) [''req'', ''receipt'', ''instance'', ''anchor'', ''m1'', ''m0'', ''class'', ''provider'',
    ''evidence'', ''1'', ''2'']"
  by code_simp

lemma named_request_valid:
  assumes "\<not> text_invalid 4096 n"
  shows "provisioning_request_validate (named_request n) = Inr ()"
  using assms provisioning_example_texts
  by (simp add: provisioning_request_validate_def named_request_def executor_request_def executor_checks provisioning_sha256_ok provisioning_text_def)

lemma materialized_valid:
  assumes "\<not> text_invalid 4096 n"
  shows "validate_materialization executor_provider (named_request n) (materialized n) = Inr ()"
proof -
  have "materialization_validate (materialized n) = Inr ()"
    using assms provisioning_example_texts
    by (simp add: materialization_validate_def materialized_def executor_checks provisioning_sha256_ok provisioning_text_def provisioning_ids_def PROVISIONING_STATES_def)
  moreover have "keeps_context (named_request n) (materialized n)"
    by (simp add: keeps_context_def named_request_def materialized_def executor_request_def)
  moreover have "provisioner_utc ''2026-01-05T12:00:00Z'' = Inr 63903297600000000" by code_simp
  ultimately show ?thesis
    by (simp add: validate_materialization_def) (simp add: materialized_def executor_provider_def named_request_def executor_request_def)
qed

lemma executor_receipt_id_text: "\<not> text_invalid 4096 (vx_receipt_id (executor_of t q m))"
proof -
  have "\<not> text_invalid 2048 (''executor-provisioning:'' @ h)" if "is_hex 64 h" for h
    by (rule text_prefix [OF _ _ _ that]) (code_simp, simp_all add: nul_def)
  from longer_text [OF this [OF is_hex_sha256], of 4096] show ?thesis
    by (simp add: executor_of_def del: append.simps)
qed

lemma named_executor_fields:
  "vx_schema_version (named_executor n) = ''1.0.0''" "vx_request_id (named_executor n) = n" "vx_request_digest (named_executor n) = provisioning_request_digest (named_request n)"
  "vx_idempotency_key (named_executor n) = n" "vx_drone_id (named_executor n) = n" "vx_executor_id (named_executor n) = n" "vx_runtime_instance_id (named_executor n) = n"
  "vx_sandbox_id (named_executor n) = n" "vx_workspace_id (named_executor n) = n" "vx_mission_id (named_executor n) = vq_mission_id executor_request"
  "vx_parent_mission_id (named_executor n) = vq_parent_mission_id executor_request" "vx_repository (named_executor n) = vq_repository executor_request"
  "vx_baseline_sha (named_executor n) = vq_baseline_sha executor_request" "vx_baseline_tree_sha (named_executor n) = vq_baseline_tree_sha executor_request"
  "vx_branch (named_executor n) = vq_branch executor_request" "vx_read_scope (named_executor n) = vq_read_scope executor_request"
  "vx_write_scope (named_executor n) = vq_write_scope executor_request" "vx_runtime_class (named_executor n) = vq_runtime_class executor_request"
  "vx_image_digest (named_executor n) = vq_image_digest executor_request" "vx_sandbox_profile_digest (named_executor n) = vq_sandbox_profile_digest executor_request"
  "vx_resource_profile_digest (named_executor n) = vq_resource_profile_digest executor_request" "vx_credential_handle_ids (named_executor n) = map hc_handle_id (vq_credential_handles executor_request)"
  "vx_provider_id (named_executor n) = vt_provider_id executor_provider" "vx_provider_instance_id (named_executor n) = vt_provider_instance_id executor_provider"
  "vx_provider_implementation_digest (named_executor n) = vt_implementation_digest executor_provider" "vx_provider_trust_anchor_id (named_executor n) = vt_trust_anchor_id executor_provider"
  "vx_provider_trust_anchor_digest (named_executor n) = vt_trust_anchor_digest executor_provider" "vx_runtime_attestation_digest (named_executor n) = hex64"
  "vx_provider_evidence_ref (named_executor n) = ''evidence''" "vx_provisioned_at (named_executor n) = ''2026-01-05T12:00:00Z''"
  by (simp_all add: named_executor_def executor_of_def named_request_def materialized_def)

lemma named_executor_valid:
  assumes "\<not> text_invalid 4096 n"
  shows "provisioned_validate_for (named_executor n) (named_request n) executor_provider = Inr ()"
proof -
  have id: "\<not> text_invalid 4096 (vx_receipt_id (named_executor n))" by (simp only: named_executor_def executor_receipt_id_text not_False_eq_True)
  have "is_hex 64 (provisioning_request_digest q)" for q by (simp add: provisioning_request_digest_def is_hex_sha256)
  then have "provisioned_validate (named_executor n) = Inr ()"
    using assms provisioning_example_texts id
    by (simp add: provisioned_validate_def named_executor_fields executor_request_def executor_provider_def
        executor_checks provisioning_sha256_ok provisioning_text_def provisioning_ids_def)
  moreover have "provider_trust_validate executor_provider = Inr ()"
    using provisioning_example_texts by (simp add: provider_trust_validate_def executor_provider_def provisioning_sha256_ok provisioning_text_def)
  moreover have "binds_request (named_executor n) (named_request n)" by (simp add: binds_request_def named_executor_def executor_of_def del: append.simps)
  ultimately show ?thesis using named_request_valid [OF assms]
    by (simp add: provisioned_validate_for_def) (simp add: named_executor_def executor_of_def)
qed

lemma named_provisioned:
  assumes "\<not> text_invalid 4096 n" "vacant n l"
  shows "\<exists>l0. ledger_begin (named_request n) l = (Inr None, l0) \<and> ledger_commit (named_request n) (named_executor n) executor_provider l0
    = (Inr (named_executor n), named_ledger n l)"
proof -
  have q: "vq_request_id (named_request n) = n" "vq_idempotency_key (named_request n) = n" "vq_drone_id (named_request n) = n" "vq_executor_id (named_request n) = n"
    by (simp_all add: named_request_def)
  have r: "vx_runtime_instance_id (named_executor n) = n" "vx_sandbox_id (named_executor n) = n" "vx_workspace_id (named_executor n) = n"
    by (simp_all add: named_executor_def executor_of_def materialized_def)
  show ?thesis using assms(2)
    by (simp add: ledger_begin_def named_request_valid [OF assms(1)] begin_claims_def check_claim_def ledger_commit_def named_executor_valid [OF assms(1)]
        vacant_def Let_def q r named_ledger_def)
qed

lemma named_step:
  assumes "\<not> text_invalid 4096 n" "vacant n l" "named_request n \<in> Q"
  shows "(ledger_step executor_provider Q)\<^sup>*\<^sup>* l (named_ledger n l)"
proof -
  obtain l0 where l0: "ledger_begin (named_request n) l = (Inr None, l0)"
    "ledger_commit (named_request n) (named_executor n) executor_provider l0 = (Inr (named_executor n), named_ledger n l)"
    using named_provisioned [OF assms(1,2)] by blast
  from begin_step [OF assms(3) l0(1)] commit_step [OF assms(3) l0(2)] show ?thesis by (rule converse_rtranclp_into_rtranclp [OF _ r_into_rtranclp])
qed

text \<open>Two requests with different names, one after the other.\<close>
theorem executors_isolated_witness:
  "provisioning_request_digest (named_request ''1'') = provisioning_request_digest (named_request ''2'')
   \<or> list_all2 (\<noteq>) (places (named_executor ''1'')) (places (named_executor ''2''))
     \<and> (\<exists>l. (ledger_step executor_provider UNIV)\<^sup>*\<^sup>* ledger_empty l \<and> vl_receipts l (provisioning_request_digest (named_request ''1'')) = Some (named_executor ''1'')
       \<and> vl_receipts l (provisioning_request_digest (named_request ''2'')) = Some (named_executor ''2''))"
proof (rule disjCI)
  let ?d = "\<lambda>n. provisioning_request_digest (named_request n)" and ?l = "named_ledger ''2'' (named_ledger ''1'' ledger_empty)"
  assume "\<not> (list_all2 (\<noteq>) (places (named_executor ''1'')) (places (named_executor ''2'')) \<and> (\<exists>l. (ledger_step executor_provider UNIV)\<^sup>*\<^sup>* ledger_empty l
    \<and> vl_receipts l (?d ''1'') = Some (named_executor ''1'') \<and> vl_receipts l (?d ''2'') = Some (named_executor ''2'')))"
  moreover have "list_all2 (\<noteq>) (places (named_executor ''1'')) (places (named_executor ''2'')) \<and> (\<exists>l. (ledger_step executor_provider UNIV)\<^sup>*\<^sup>* ledger_empty l
    \<and> vl_receipts l (?d ''1'') = Some (named_executor ''1'') \<and> vl_receipts l (?d ''2'') = Some (named_executor ''2''))" if ne: "?d ''1'' \<noteq> ?d ''2''"
  proof -
    have n: "\<not> text_invalid 4096 ''1''" "\<not> text_invalid 4096 ''2''" using provisioning_example_texts by simp_all
    have "vacant ''1'' ledger_empty" by (simp add: vacant_def ledger_empty_def)
    moreover have "vacant ''2'' (named_ledger ''1'' ledger_empty)" using ne by (simp add: vacant_def named_ledger_def ledger_empty_def Let_def)
    ultimately have s: "(ledger_step executor_provider UNIV)\<^sup>*\<^sup>* ledger_empty ?l"
      using named_step [OF n(1), of ledger_empty UNIV] named_step [OF n(2), of "named_ledger ''1'' ledger_empty" UNIV] by (simp add: rtranclp_trans)
    have r: "vl_receipts ?l (?d ''1'') = Some (named_executor ''1'')" "vl_receipts ?l (?d ''2'') = Some (named_executor ''2'')"
      using ne by (simp_all add: named_ledger_def Let_def)
    from executors_isolated [OF s r ne] s r show ?thesis by blast
  qed
  ultimately show "?d ''1'' = ?d ''2''" by blast
qed

text \<open>The second time the provider is not called.\<close>
theorem provision_once_witness:
  "\<exists>l1. provision executor_provider (\<lambda>q w. (Inr (materialized ''1''), Suc w)) (named_request ''1'') (ledger_empty, 0) = (Inr (named_executor ''1''), l1, 1)
    \<and> provision executor_provider (\<lambda>q w. (Inr (materialized ''1''), Suc w)) (named_request ''1'') (l1, 1) = (Inr (named_executor ''1''), l1, 1)"
proof -
  let ?p = "\<lambda>q w. (Inr (materialized ''1''), Suc w)"
  have n: "\<not> text_invalid 4096 ''1''" using provisioning_example_texts by simp
  have "vacant ''1'' ledger_empty" by (simp add: vacant_def ledger_empty_def)
  from named_provisioned [OF n this] obtain l0 where l0: "ledger_begin (named_request ''1'') ledger_empty = (Inr None, l0)"
    "ledger_commit (named_request ''1'') (named_executor ''1'') executor_provider l0 = (Inr (named_executor ''1''), named_ledger ''1'' ledger_empty)" by blast
  have "issue_receipt_for executor_provider (named_request ''1'') (materialized ''1'') = Inr (named_executor ''1'')"
    using named_executor_valid [OF n] by (simp add: issue_receipt_for_def named_executor_def)
  with l0 named_request_valid [OF n] materialized_valid [OF n]
  have e: "provision executor_provider ?p (named_request ''1'') (ledger_empty, 0) = (Inr (named_executor ''1''), named_ledger ''1'' ledger_empty, 1)"
    by (simp add: provision_def)
  from provision_once [OF e rtranclp.rtrancl_refl, of ?p 1] e show ?thesis by blast
qed

end
