(* ===== verification/Spec2Isabelle.thy ===== *)
theory Spec2Isabelle
  imports Merge_Admission Fleet_Effect_Budget Fleet_Coordination_Props Federation Builder_Issuance
    Runtime_Chain Sandbox_Props Provisioning_Props
begin

text \<open>
  \<^bold>\<open>LION: authority, policy decisions, merge admission, fleet coordination, governed processes and their runtime\<close>

  LION governs what a fleet of software agents may do to a set of repositories. Its core, under src/cyber_lion, decides
  who may act, once and within which limits, and keeps a durable record of it. This library models that core
  function by function and proves what the rest of the system relies on. Every definition of the model is an executable
  HOL function; each is translated from the source lines the manifest names.

  \<^bold>\<open>The parts and how they meet\<close>

  An authority grant (enterprise/authority_grant.py) is a signed statement that a subject may use a capability on some
  resources up to an authority ceiling; a lineage of grants delegates it with ever less authority. A grant is
  authenticated against the one key bound to its issuer (enterprise/authority_verification.py) and admitted only at the
  epoch its mission is in and while it is not revoked (enterprise/authority_revocation.py). The lineage of a pull
  request or a ref is looked up in an external store and checked against the requested key
  (enterprise/authority_source.py). Merge admission (enterprise/merge_admission.py) puts these together: it admits the
  lineage, binds its leaf to the state of the pull request and spends the leaf, once. A SQLite store
  (enterprise/persistent_authority_state.py) keeps epochs, revocations, root anchors and consumed keys across restarts and
  finalises the binding of an admission to the evidence of a runtime. Live admission (enterprise/live_authority_admission.py)
  joins source and store: it reads both twice, authenticates the lineage and returns a receipt that names the version of the
  state; a receipt is revalidated wherever it is used.

  The fleet side has two SQLite stores. The effect budget (contracts/fleet_effect_budget.py,
  enterprise/fleet_effect_budget.py) reserves effects within limits per fleet, repository, branch and path. The
  coordinator (contracts/fleet_coordination.py, enterprise/fleet_coordination_state.py) registers missions with
  dependencies and write scopes, dispatches them under exclusive leases with fencing tokens, and keeps a hash-chained
  event log from which the mission table can be rebuilt.

  The organisation side has the contracts of agents, missions and swarms (enterprise/models.py), the gate that admits
  or denies the action a swarm member proposes (enterprise/control_plane.py) and the registry of repositories with
  their capabilities (enterprise/federation.py). It shares the authority classes with the grants.

  A governed process (contracts/process_ir.py) declares states, transitions with guards, evidence and authority
  requirements, retry and scheduling policies. Given a snapshot of what is known, the selector
  (enterprise/process_semantics.py) picks the next legal transition; the outcome of an action
  (contracts/process_action.py) moves the process only with evidence of the effect.

  The policy decision point (contracts/policy_gate.py, enterprise/policy_gate.py) decides an action proposal: it admits live
  authority for it, compares leaf grant, policy, observability and verifier, asks the gate and revalidates before it answers.
  An allowed action, bound to a provisioned executor (contracts/executor_provisioning.py, action_runtime_binding.py), is
  turned into a runtime admission (enterprise/runtime_enforcement.py); the sandbox that finally acts is wrapped by a guard
  that revalidates the authority right before the effect (enterprise/runtime_currentness.py). Executors come from the
  provisioning service (enterprise/executor_provisioning.py), which lets a provider materialise a request and records
  the names and places the executor takes. The sandbox (contracts/executor_sandbox.py, enterprise/executor_sandbox.py)
  checks the current dispatch, the operation and its scope, consumes the operation, reserves its budget, calls a backend and
  reports what it observed.

  An action is a canonical document (contracts/action_ir.py) that is projected (contracts/action_proposal_projection.py) and
  bound with an explicit context (contracts/action_proposal_context.py) to a proposal. The runtime (contracts/runtime_enforcement.py,
  runtime_currentness.py, runtime_execution.py, runtime_reconciliation.py, executor_sandbox.py) runs what was admitted:
  the engine (enterprise/runtime_execution.py) takes a published admission, consumes it and lets a sandbox act; the
  reconciler (enterprise/runtime_reconciliation.py) compares the receipt with an independent observation. The chain from the
  intent of a transition to the reconciliation of its effect (enterprise/process_outcome_evidence.py) is the evidence on which
  the process moves.

  \<^bold>\<open>Theories\<close>

  \<^item> \<open>Prelude\<close>: exceptions as values (\<open>exn\<close>, \<open>'a res = exn + 'a\<close>), validators as lists of checks run in source order,
    Python text predicates, list and lookup lemmas, and the locale \<open>one_shot_registry\<close>: what a registry promises whose
    entries are written once.
  \<^item> \<open>Py_Hash\<close>, \<open>Py_Json\<close>, \<open>Py_Json_Inject\<close>, \<open>Py_Time\<close>: the parts of the Python library the sources use: SHA-256 on 32-bit
    words, \<open>json.dumps\<close> with sorted keys and its injectivity, ISO 8601 instants, their text and its order.
  \<^item> \<open>Authority_Grant\<close>: authority_rank of models.py and authority_grant.py: the grant record, its validator, signed
    bytes, digest and the one-hop attenuation check.
  \<^item> \<open>Authority_Verification\<close>: trust context, key bindings, signature payload and authentication. The signature verifier
    and the key directory are parameters.
  \<^item> \<open>Authority_Revocation\<close>: the epoch owner, the two process-wide registries (interpretations of
    \<open>one_shot_registry\<close>), observation, admission of a grant and of a lineage. The process is an \<open>inductive\<close> step relation,
    so that states may change between the resolution of an owner and the admission under its lock.
  \<^item> \<open>Persistent_Authority\<close>: the durable twin of the epoch registry with root anchors, replay keys, origin and the
    finalisation of bindings; a table is a map from its primary key and a method is one transaction.
  \<^item> \<open>Builder_Issuance\<close>: the seven tables of builder issuance records in the same store, all interpretations of the locale
    \<open>issuance_table\<close>.
  \<^item> \<open>Authority_Source\<close>: lookup keys, resource tokens, lineage records and exact resolution; the backend is a parameter.
  \<^item> \<open>Merge_Admission\<close>: intent, GitHub state, decisions, evidence, receipts, the consumption owner and both admission
    paths; the consuming one is an interpretation of \<open>one_shot_registry\<close>.
  \<^item> \<open>Fleet_Effect_Budget\<close>: the contracts and the store; a database is its meta row and its reservation rows, an
    operation is one transaction with the clock reading as an argument, and 64-bit SQLite integers overflow as they do.
  \<^item> \<open>Fleet_Coordination_Contract\<close>, \<open>Dependency_Graph\<close>, \<open>Fleet_Coordination\<close>: the contracts, the recursive cycle check with
    Python's recursion limit as fuel, and the store with every public method as one transaction.
    \<open>Fleet_Coordination_Log\<close>, \<open>Fleet_Coordination_Inv\<close>, \<open>Fleet_Coordination_Steps\<close>, \<open>Fleet_Coordination_Facts\<close>,
    \<open>Fleet_Coordination_Run\<close> and \<open>Fleet_Coordination_Props\<close> hold its proofs: the event chain and its replay, the
    invariant, its preservation by the step relation, derived facts, runs that make progress, and the properties.
  \<^item> \<open>Enterprise_Models\<close>: the contracts of models.py and the gate of control_plane.py.
  \<^item> \<open>Federation\<close>: manifests, their strict reading from a decoded document, and the registry, an interpretation of the
    locale \<open>owned_registry\<close>.
  \<^item> \<open>Process_IR\<close>, \<open>Process_Semantics\<close>: the process contract and context, decisions, outcomes, selection and the
    application of outcomes. \<open>Process_Runs\<close> has the relation of runs and its invariants, \<open>Process_Props\<close> the properties and an
    example process.
  \<^item> \<open>Runtime_Contracts\<close>, \<open>Runtime_Execution\<close>, \<open>Runtime_Props\<close>: the records of the runtime with validators, digests and
    seals; the durable source of admissions, the two consumption guards, the engine and the reconciler; their properties.
    The guards are interpretations of the locale \<open>consumption_guard\<close>, the table of admissions of \<open>one_shot_registry\<close>.
  \<^item> \<open>Action_IR\<close>: the action, its canonical bytes, projection and binding to a proposal.
  \<^item> \<open>Process_Evidence\<close>: the chain of evidence, put together with the process semantics, and an example process that
    completes an action with the receipt of the engine and the reconciliation of the reconciler.
  \<^item> \<open>Live_Authority\<close>, \<open>Live_Props\<close>: receipts, admission, revalidation and finalisation for pull requests and refs. What source
    and database show at each reading is an argument, so that anything may happen in between. Revalidation of both kinds is
    an interpretation of the locale \<open>version_fence\<close>.
  \<^item> \<open>Policy_Gate\<close>, \<open>Policy_Props\<close>: the policy contracts and the decision point with its memory of answered requests.
  \<^item> \<open>Executor_Provisioning\<close>, \<open>Runtime_Admission\<close>, \<open>Runtime_Chain\<close>: the provisioning contract; the binder of runtime
    inputs, the admission engine and the guarded sandbox; what an admission rests on, and the path from a revocation to the
    engine that no longer acts. The replay guard of the engine is an interpretation of \<open>consumption_guard\<close>.
  \<^item> \<open>Executor_Sandbox\<close>, \<open>Sandbox_Props\<close>: policy, limits and bindings, replay guards and budget ledgers in memory and in
    SQLite, and \<open>execute\<close>. Both pairs of guard and ledger are interpretations of the locale \<open>sandbox_ledger\<close>. The backend is
    an argument over a world of its own; \<open>logging_backend\<close> wraps it to count what it is asked to do.
  \<^item> \<open>Provisioning_Service\<close>, \<open>Provisioning_Props\<close>: the ledger of provisioned executors with its nine tables and the provisioner.
    The threads that share a ledger are the step relation \<open>ledger_step\<close> over begin, commit and abort.

  \<^bold>\<open>How code becomes definitions\<close>

  A frozen data class is a \<open>record\<close> whose fields carry a prefix (\<open>ag_\<close> for AuthorityGrant, \<open>fs_\<close> for FleetMissionSpec and
  so on); its \<open>validate\<close> is a list of checks in source order. A raise is a value \<open>Inl (Exn class message)\<close>; a handler looks
  at the class as the source does. A method that changes a store returns the result and the store afterwards, and a
  transaction that raises returns the store it was given. Dictionaries are maps, or association lists where their order
  shows. Integers are unbounded, as in Python, except where SQLite stores them. Numbers that are only compared are
  exact rationals, infinities or NaN. Text is modelled over the code points below U+0100, one \<open>char\<close> each.
  Type tests that only reject values of another Python type have no branch, because the model is typed; where a document
  of unknown shape is read (\<open>Federation\<close>, stored JSON of the coordinator), the document is a datatype and every test is
  a branch.

  \<^bold>\<open>What is proved\<close>

  \<^item> Authority only shrinks along a lineage, the depth budget bounds its length, digests and signed bytes determine the
    grant; epochs never regress, revocation is final, an admitted lineage is anchored and attenuated.
  \<^item> The durable store answers like the registry in memory on every common sequence of calls; its history only grows; a binding is finalised once, against the
    live state, and a finalisation prepared against an older state is fenced off (\<open>stale_finalization_refused\<close>); an issuance is recorded once and resolves to
    what was recorded.
  \<^item> Resolution returns the one record for exactly the requested key or fails; a merge is allowed exactly once
    and only when authorised, refusals spend nothing, receipts determine what they attest.
  \<^item> Effect budgets are never exceeded under any interleaving of stores and clocks, reservations are durable and not
    replayed, snapshots are exact.
  \<^item> Running missions exclude each other, stale workers are fenced off, the log refines the mission table, missions follow
    their life cycle, restarts recover, plans are replayed, dependencies stay acyclic, the cycle check returns, snapshots
    are well typed.
  \<^item> The gate allows exactly the admissible proposals and answers; the federation registry keeps one
    immutable owner per tile, discovery is exact, a document reads as a manifest exactly when it says it, key by key.
  \<^item> The selector picks exactly the first legal transition; every run of a process ends within the bound its retry
    policies state; what is not idempotent is retried only after reconciliation; what is selected in parallel does not
    interfere.
  \<^item> An admission is acted on at most once and only for the admitted effect; a trustworthy answer of the sandbox is returned as a
    receipt that reports it; reconciliation reports a match exactly when receipt and observation agree on an observed
    success; an action of a process completes only with a reconciliation of such a match, bound to its receipt and observation, for the action of exactly that transition.
  \<^item> A live receipt rests on a lineage that is signed, unrevoked and current at every state of the database between the
    readings, and expires with the next change of its context. The decision point allows only on such a lineage, within
    every ceiling, and decides a request once. An issued admission names exactly the proposed effect and a provisioned
    executor, and is issued once. After a revocation the engine behind the guard raises and leaves the world as it was.
  \<^item> The sandbox acts only within its policy and once per operation, never asks the backend for more than its budget, across
    restarts with their constructors included, and behind the engine every effect has a receipt when sandbox and request name the same runtime instance and the
    identifiers fit. Provisioned executors are isolated from each other and a
    request is materialised once; a provisioning that fails gives its names back.

  \<^bold>\<open>Bounds\<close>

  The recursive cycle check takes the number of free Python frames; with one frame more than there are missions it
  returns and is right (\<open>cycle_check_returns\<close>), with fewer it raises RecursionError. No other definition has fuel. No theorem
  assumes SHA-256 injective: where a property depends on it, the conclusion names the two recorded texts that would
  collide (\<open>collides\<close>), or the hypothesis excludes collisions among the finitely many texts the database holds.

  \<^bold>\<open>Not modelled\<close>

  Signature algorithms, the key directory, the lineage backend, the GitHub reader, the provider of executors, the backend of the sandbox and the observer of effects are
  parameters, as are the sources of policy decisions and of currentness and the digests of the enterprise graph and of the
  status that the decision point takes from other modules. Of the runtime the identity checks of the state files and the JSON
  readers are left out; \<open>published_at\<close> and the trusted times are in UTC. Not modelled are the agent registry and the swarm planner (they
  need IEEE arithmetic for costs), fleet status and reconciliation, the builder pipeline, repository maintenance, the HTTP
  services of mission control, the tools and the parser of the process language (process_language/); the manifest lists
  them with the reason. Concurrency between processes is modelled at the granularity of database transactions and of
  the lock of the epoch owner, which is what the sources serialise by; crashes inside a transaction are left to SQLite.

  \<^bold>\<open>Next\<close>

  The agent registry, whose log has the shape of the coordinator's; the planner's greedy cover with a
  model of IEEE addition; the parser of the process language.
\<close>

end
